(* ===== verification/Prelude.thy ===== *)
theory Prelude
  imports Complex_Main
begin

text \<open>
  Shared vocabulary of the development: the error-and-state computations that every service
  operation is written in, their weakest-precondition calculus, the look-up and update
  functions on tables kept as lists of rows, and small string functions.
  Nothing here is specific to the program; the component theories import it.
\<close>

named_theorems wp_simps \<open>weakest preconditions of the service combinators and operations\<close>
named_theorems svc_defs \<open>definitions of the service combinators\<close>

section \<open>Results\<close>

text \<open>A Python function that may raise: \<open>Inl\<close> the exception, \<open>Inr\<close> the value.\<close>

type_synonym ('e, 'a) res = "'e + 'a"

definition rbind :: "('e, 'a) res \<Rightarrow> ('a \<Rightarrow> ('e, 'b) res) \<Rightarrow> ('e, 'b) res" where
  "rbind r f = (case r of Inl e \<Rightarrow> Inl e | Inr a \<Rightarrow> f a)"

lemma rbind_simps [simp]:
  "rbind (Inl e) f = Inl e"
  "rbind (Inr a) f = f a"
  by (simp_all add: rbind_def)

lemma rbind_Inr_iff: "rbind r f = Inr b \<longleftrightarrow> (\<exists>a. r = Inr a \<and> f a = Inr b)"
  by (cases r) auto

lemma rbind_Inl_iff: "rbind r f = Inl e \<longleftrightarrow> r = Inl e \<or> (\<exists>a. r = Inr a \<and> f a = Inl e)"
  by (cases r) auto

text \<open>The exception of a check, if it has one, before the rest.\<close>

definition rcheck :: "'e option \<Rightarrow> ('e, 'a) res \<Rightarrow> ('e, 'a) res" where
  "rcheck c r = (case c of Some e \<Rightarrow> Inl e | None \<Rightarrow> r)"

lemma rcheck_simps [simp]: "rcheck None r = r" "rcheck (Some e) r = Inl e"
  by (simp_all add: rcheck_def)

lemma rcheck_Inr_iff: "rcheck c r = Inr b \<longleftrightarrow> c = None \<and> r = Inr b"
  by (cases c) auto

section \<open>Service computations\<close>

text \<open>
  An operation on a session: it maps the state before to the raised exception or the returned
  value, and to the state it leaves behind (also when it raises).
\<close>

type_synonym ('s, 'e, 'a) svc = "'s \<Rightarrow> ('e + 'a) \<times> 's"

definition sret :: "'a \<Rightarrow> ('s, 'e, 'a) svc" where
  "sret a s = (Inr a, s)"

definition sraise :: "'e \<Rightarrow> ('s, 'e, 'a) svc" where
  "sraise e s = (Inl e, s)"

definition sbind :: "('s, 'e, 'a) svc \<Rightarrow> ('a \<Rightarrow> ('s, 'e, 'b) svc) \<Rightarrow> ('s, 'e, 'b) svc" where
  "sbind m f s = (case m s of (Inl e, s') \<Rightarrow> (Inl e, s') | (Inr a, s') \<Rightarrow> f a s')"

definition sthen :: "('s, 'e, 'a) svc \<Rightarrow> ('s, 'e, 'b) svc \<Rightarrow> ('s, 'e, 'b) svc" where
  "sthen m k = sbind m (\<lambda>_. k)"

definition sget :: "('s \<Rightarrow> 'a) \<Rightarrow> ('s, 'e, 'a) svc" where
  "sget f s = (Inr (f s), s)"

definition smodify :: "('s \<Rightarrow> 's) \<Rightarrow> ('s, 'e, unit) svc" where
  "smodify f s = (Inr (), f s)"

text \<open>A pure computation that may raise, inside a service.\<close>

definition slift :: "('e, 'a) res \<Rightarrow> ('s, 'e, 'a) svc" where
  "slift r s = (r, s)"

text \<open>\<open>if cond: raise e\<close>.\<close>

definition sraise_if :: "bool \<Rightarrow> 'e \<Rightarrow> ('s, 'e, unit) svc" where
  "sraise_if b e = (if b then sraise e else sret ())"

fun sfor :: "'a list \<Rightarrow> ('a \<Rightarrow> ('s, 'e, unit) svc) \<Rightarrow> ('s, 'e, unit) svc" where
  "sfor [] f = sret ()"
| "sfor (x # xs) f = sthen (f x) (sfor xs f)"

lemmas [svc_defs] = sret_def sraise_def sbind_def sthen_def sget_def smodify_def slift_def
  sraise_if_def

lemma sbind_assoc: "sbind (sbind m f) g = sbind m (\<lambda>a. sbind (f a) g)"
  by (rule ext) (simp add: sbind_def split: prod.split sum.split)

lemma sret_bind [simp]: "sbind (sret a) f = f a"
  by (rule ext) (simp add: svc_defs)

lemma sbind_sret [simp]: "sbind m sret = m"
  by (rule ext) (simp add: svc_defs split: prod.split sum.split)

lemma sbind_sget: "sbind (sget f) g s = g (f s) s"
  by (simp add: svc_defs)

lemma sthen_smodify: "sthen (smodify f) m s = m (f s)"
  by (simp add: svc_defs)

lemma sbind_slift: "sbind (slift (Inr a)) g s = g a s"
  by (simp add: svc_defs)

lemma sbind_Inr_iff:
  "sbind m f s = (Inr b, s') \<longleftrightarrow> (\<exists>a s1. m s = (Inr a, s1) \<and> f a s1 = (Inr b, s'))"
  by (auto simp: sbind_def split: prod.splits sum.splits)

lemma sthen_Inr_iff:
  "sthen m k s = (Inr b, s') \<longleftrightarrow> (\<exists>a s1. m s = (Inr a, s1) \<and> k s1 = (Inr b, s'))"
  by (simp add: sthen_def sbind_Inr_iff)

lemma sraise_if_Inr_iff [simp]: "sraise_if b e s = (Inr u, s') \<longleftrightarrow> \<not> b \<and> s' = s"
  by (auto simp: svc_defs)

lemma slift_Inr_iff [simp]: "slift r s = (Inr a, s') \<longleftrightarrow> r = Inr a \<and> s' = s"
  by (auto simp: slift_def)

lemma sret_Inr_iff [simp]: "sret a s = (Inr b, s') \<longleftrightarrow> b = a \<and> s' = s"
  by (auto simp: sret_def)

lemma sraise_Inr_iff [simp]: "sraise e s = (Inr b, s') \<longleftrightarrow> False"
  by (simp add: sraise_def)

lemma sget_Inr_iff [simp]: "sget f s = (Inr b, s') \<longleftrightarrow> b = f s \<and> s' = s"
  by (auto simp: sget_def)

lemma smodify_Inr_iff [simp]: "smodify f s = (Inr u, s') \<longleftrightarrow> s' = f s"
  by (auto simp: smodify_def)

subsection \<open>Weakest preconditions\<close>

text \<open>
  \<open>wp m Q E s\<close>: run from \<open>s\<close>, the computation ends in a state that satisfies \<open>Q\<close> with its
  value, or raises and satisfies \<open>E\<close> with its exception. Computations always end, so this is
  total correctness.
\<close>

definition wp :: "('s, 'e, 'a) svc \<Rightarrow> ('a \<Rightarrow> 's \<Rightarrow> bool) \<Rightarrow> ('e \<Rightarrow> 's \<Rightarrow> bool) \<Rightarrow> 's \<Rightarrow> bool" where
  "wp m Q E s = (case m s of (Inl e, s') \<Rightarrow> E e s' | (Inr a, s') \<Rightarrow> Q a s')"

lemma wp_sret [wp_simps]: "wp (sret a) Q E s = Q a s"
  by (simp add: wp_def sret_def)

lemma wp_sraise [wp_simps]: "wp (sraise e) Q E s = E e s"
  by (simp add: wp_def sraise_def)

lemma wp_sbind [wp_simps]: "wp (sbind m f) Q E s = wp m (\<lambda>a. wp (f a) Q E) E s"
  by (simp add: wp_def sbind_def split: prod.split sum.split)

lemma wp_sthen [wp_simps]: "wp (sthen m k) Q E s = wp m (\<lambda>_. wp k Q E) E s"
  by (simp add: sthen_def wp_sbind)

lemma wp_sget [wp_simps]: "wp (sget f) Q E s = Q (f s) s"
  by (simp add: wp_def sget_def)

lemma wp_smodify [wp_simps]: "wp (smodify f) Q E s = Q () (f s)"
  by (simp add: wp_def smodify_def)

lemma wp_slift [wp_simps]:
  "wp (slift r) Q E s = ((\<forall>a. r = Inr a \<longrightarrow> Q a s) \<and> (\<forall>e. r = Inl e \<longrightarrow> E e s))"
  by (cases r) (simp_all add: wp_def slift_def)

lemma wp_sraise_if [wp_simps]:
  "wp (sraise_if b e) Q E s = ((b \<longrightarrow> E e s) \<and> (\<not> b \<longrightarrow> Q () s))"
  by (simp add: sraise_if_def wp_sret wp_sraise)

lemma wp_mono:
  "wp m Q E s \<Longrightarrow> (\<And>a t. Q a t \<Longrightarrow> Q' a t) \<Longrightarrow> (\<And>e t. E e t \<Longrightarrow> E' e t) \<Longrightarrow> wp m Q' E' s"
  by (auto simp: wp_def split: prod.splits sum.splits)

lemma wpI: "(\<And>a t. m s = (Inr a, t) \<Longrightarrow> Q a t) \<Longrightarrow> (\<And>e t. m s = (Inl e, t) \<Longrightarrow> E e t) \<Longrightarrow> wp m Q E s"
  by (auto simp: wp_def split: prod.splits sum.splits)

lemma wp_InrD: "wp m Q E s \<Longrightarrow> m s = (Inr a, t) \<Longrightarrow> Q a t"
  by (simp add: wp_def)

lemma wp_InlD: "wp m Q E s \<Longrightarrow> m s = (Inl e, t) \<Longrightarrow> E e t"
  by (simp add: wp_def)

section \<open>Tables as lists of rows\<close>

text \<open>\<open>scalar_one_or_none\<close> of a query by a unique key: the first matching row.\<close>

definition find_row :: "('r \<Rightarrow> bool) \<Rightarrow> 'r list \<Rightarrow> 'r option" where
  "find_row p rows = List.find p rows"

definition update_rows :: "('r \<Rightarrow> bool) \<Rightarrow> ('r \<Rightarrow> 'r) \<Rightarrow> 'r list \<Rightarrow> 'r list" where
  "update_rows p f rows = map (\<lambda>r. if p r then f r else r) rows"

lemma find_row_simps [simp]:
  "find_row p [] = None"
  "find_row p (r # rs) = (if p r then Some r else find_row p rs)"
  by (simp_all add: find_row_def)

lemma find_row_append:
  "find_row p (rs @ qs) = (case find_row p rs of None \<Rightarrow> find_row p qs | Some r \<Rightarrow> Some r)"
  by (induction rs) auto

lemma find_row_SomeD: "find_row p rows = Some r \<Longrightarrow> p r \<and> r \<in> set rows"
  by (induction rows) (auto split: if_splits)

lemma find_row_None_iff: "find_row p rows = None \<longleftrightarrow> (\<forall>r \<in> set rows. \<not> p r)"
  by (induction rows) auto

lemma update_rows_simps [simp]:
  "update_rows p f [] = []"
  "update_rows p f (r # rs) = (if p r then f r else r) # update_rows p f rs"
  by (simp_all add: update_rows_def)

lemma length_update_rows [simp]: "length (update_rows p f rows) = length rows"
  by (simp add: update_rows_def)

lemma set_update_rows: "r \<in> set (update_rows p f rows) \<Longrightarrow> r \<in> set rows \<or> (\<exists>q \<in> set rows. p q \<and> r = f q)"
  by (auto simp: update_rows_def split: if_splits)

lemma map_update_rows:
  "(\<And>r. p r \<Longrightarrow> g (f r) = g r) \<Longrightarrow> map g (update_rows p f rows) = map g rows"
  by (induction rows) auto

lemma find_row_update_same:
  "(\<And>r. p r \<Longrightarrow> p (f r)) \<Longrightarrow> find_row p (update_rows p f rows) = map_option f (find_row p rows)"
  by (induction rows) auto

lemma find_row_update_other:
  "(\<And>r. q r \<Longrightarrow> \<not> p r) \<Longrightarrow> (\<And>r. p r \<Longrightarrow> \<not> q (f r)) \<Longrightarrow> find_row q (update_rows p f rows) = find_row q rows"
  by (induction rows) auto

lemma update_rows_id: "(\<And>r. r \<in> set rows \<Longrightarrow> p r \<Longrightarrow> f r = r) \<Longrightarrow> update_rows p f rows = rows"
  by (induction rows) auto

section \<open>Association lists standing for Python dictionaries\<close>

text \<open>
  A dictionary in insertion order. \<open>dict_set\<close> keeps the position of a key it overwrites, as
  Python does.
\<close>

type_synonym ('k, 'v) dict = "('k \<times> 'v) list"

fun dict_set :: "'k \<Rightarrow> 'v \<Rightarrow> ('k, 'v) dict \<Rightarrow> ('k, 'v) dict" where
  "dict_set k v [] = [(k, v)]"
| "dict_set k v ((k', v') # d) = (if k' = k then (k, v) # d else (k', v') # dict_set k v d)"

lemma map_of_dict_set [simp]: "map_of (dict_set k v d) = (map_of d)(k \<mapsto> v)"
  by (induction d) auto

section \<open>Text\<close>

definition digit_char :: "int \<Rightarrow> char" where
  "digit_char n = char_of (48 + n)"

text \<open>The decimal digits of a natural number, given as an \<open>int\<close>.\<close>

function show_digits :: "int \<Rightarrow> string" where
  "show_digits n = (if n < 10 then [digit_char n] else show_digits (n div 10) @ [digit_char (n mod 10)])"
  by pat_completeness auto
termination
  by (relation "measure nat") auto

declare show_digits.simps [simp del]

definition show_int :: "int \<Rightarrow> string" where
  "show_int i = (if i < 0 then ''-'' @ show_digits (- i) else show_digits i)"

fun join_with :: "string \<Rightarrow> string list \<Rightarrow> string" where
  "join_with sep [] = ''''"
| "join_with sep [x] = x"
| "join_with sep (x # y # xs) = x @ sep @ join_with sep (y # xs)"

definition is_digit :: "char \<Rightarrow> bool" where
  "is_digit c \<longleftrightarrow> 48 \<le> (of_char c :: int) \<and> (of_char c :: int) \<le> 57"

definition digit_val :: "char \<Rightarrow> int" where
  "digit_val c = of_char c - 48"

fun digits_val :: "int \<Rightarrow> string \<Rightarrow> int" where
  "digits_val acc [] = acc"
| "digits_val acc (c # cs) = digits_val (10 * acc + digit_val c) cs"

lemma of_char_char_of_int: "0 \<le> n \<Longrightarrow> n < 256 \<Longrightarrow> of_char (char_of (n :: int)) = (n :: int)"
  by (simp add: of_char_of)

lemma digit_char_props [simp]:
  "0 \<le> d \<Longrightarrow> d < 10 \<Longrightarrow> is_digit (digit_char d)"
  "0 \<le> d \<Longrightarrow> d < 10 \<Longrightarrow> digit_val (digit_char d) = d"
  by (simp_all add: is_digit_def digit_val_def digit_char_def of_char_char_of_int)

lemma show_digits_digits: "0 \<le> n \<Longrightarrow> list_all is_digit (show_digits n)"
proof (induction n rule: show_digits.induct)
  case (1 n)
  then show ?case by (subst show_digits.simps) simp
qed

lemma show_digits_nonempty [simp]: "show_digits n \<noteq> []"
  by (subst show_digits.simps) simp

lemma digits_val_append: "digits_val acc (xs @ ys) = digits_val (digits_val acc xs) ys"
  by (induction xs arbitrary: acc) auto

lemma digits_val_show_digits: "0 \<le> n \<Longrightarrow> digits_val 0 (show_digits n) = n"
proof (induction n rule: show_digits.induct)
  case (1 n)
  show ?case
  proof (cases "n < 10")
    case True
    with 1 show ?thesis by (subst show_digits.simps) simp
  next
    case False
    with 1 show ?thesis by (subst show_digits.simps) (simp add: digits_val_append)
  qed
qed

end
