(* ===== verification/Decimal.thy ===== *)
theory Decimal
  imports Prelude
begin

text \<open>
  Python's \<open>decimal.Decimal\<close>, as far as the fund-transfer service uses it: finite numbers as a
  coefficient and a power of ten, the default context (28 significant digits, round half even),
  \<open>quantize\<close> with its overflow signal, exact comparison, division, the \<open>str\<close> and
  \<open>Decimal(str)\<close> conversions and the fixed-point format \<open>f"{x:.4f}"\<close>.
  The sign of a zero, infinities and NaNs are not represented: \<open>Decimal(text)\<close> of a non-finite
  literal is \<open>None\<close> here, where Python goes on to raise at the first \<open>quantize\<close> or ordering.
  Context exponent limits (beyond 10 to the 999999) are out of scope.
\<close>

datatype decimal = Dec (coeff: int) (dexp: int)

datatype rounding = ROUND_HALF_EVEN | ROUND_HALF_UP

section \<open>Digits and rounding\<close>

text \<open>The length of \<open>str(n)\<close> for a natural number \<open>n\<close>, given as an \<open>int\<close>.\<close>

function ndigits :: "int \<Rightarrow> nat" where
  "ndigits n = (if n < 10 then 1 else Suc (ndigits (n div 10)))"
  by pat_completeness auto
termination
  by (relation "measure nat") auto

declare ndigits.simps [simp del]

definition idigits :: "int \<Rightarrow> nat" where
  "idigits c = ndigits \<bar>c\<bar>"

text \<open>Divide by \<open>m\<close> and round to the nearest integer; ties as the mode says.\<close>

definition round_div :: "rounding \<Rightarrow> int \<Rightarrow> int \<Rightarrow> int" where
  "round_div r c m =
     (let q = \<bar>c\<bar> div m; t = 2 * (\<bar>c\<bar> mod m);
          up = (case r of ROUND_HALF_UP \<Rightarrow> m \<le> t
                        | ROUND_HALF_EVEN \<Rightarrow> m < t \<or> (t = m \<and> odd q))
      in sgn c * (if up then q + 1 else q))"

definition prec :: nat where
  "prec = 28"

text \<open>Rounding to the context precision (\<open>Decimal._fix\<close>).\<close>

fun dfix :: "decimal \<Rightarrow> decimal" where
  "dfix (Dec c e) =
     (let n = idigits c in
      if n \<le> prec then Dec c e
      else let k = n - prec; c' = round_div ROUND_HALF_EVEN c (10 ^ k)
           in if prec < idigits c' then Dec (c' div 10) (e + int k + 1) else Dec c' (e + int k))"

text \<open>The coefficient of a number written with the exponent \<open>e\<close>, which is not above its own.\<close>

fun scaled :: "int \<Rightarrow> decimal \<Rightarrow> int" where
  "scaled e (Dec c x) = c * 10 ^ nat (x - e)"

section \<open>Arithmetic\<close>

fun dmul :: "decimal \<Rightarrow> decimal \<Rightarrow> decimal" where
  "dmul (Dec a x) (Dec b y) = dfix (Dec (a * b) (x + y))"

definition dadd :: "decimal \<Rightarrow> decimal \<Rightarrow> decimal" where
  "dadd a b = (let e = min (dexp a) (dexp b) in dfix (Dec (scaled e a + scaled e b) e))"

definition dsub :: "decimal \<Rightarrow> decimal \<Rightarrow> decimal" where
  "dsub a b = (let e = min (dexp a) (dexp b) in dfix (Dec (scaled e a - scaled e b) e))"

fun dabs :: "decimal \<Rightarrow> decimal" where
  "dabs (Dec c e) = dfix (Dec \<bar>c\<bar> e)"

text \<open>Trailing zeros are dropped as long as the exponent stays below the ideal one.\<close>

fun strip_zeros :: "nat \<Rightarrow> int \<Rightarrow> int \<Rightarrow> int \<Rightarrow> decimal" where
  "strip_zeros 0 ideal c e = Dec c e"
| "strip_zeros (Suc k) ideal c e =
     (if e < ideal \<and> c mod 10 = 0 then strip_zeros k ideal (c div 10) (e + 1) else Dec c e)"

text \<open>Division (\<open>Decimal.__truediv__\<close>); \<open>None\<close> is the \<open>DivisionByZero\<close> signal.\<close>

fun ddiv :: "decimal \<Rightarrow> decimal \<Rightarrow> decimal option" where
  "ddiv (Dec a x) (Dec b y) =
     (if b = 0 then None
      else if a = 0 then Some (dfix (Dec 0 (x - y)))
      else let shift = int (idigits b) - int (idigits a) + int prec + 1;
               e = x - y - shift;
               n = (if 0 \<le> shift then \<bar>a\<bar> * 10 ^ nat shift else \<bar>a\<bar>);
               d = (if 0 \<le> shift then \<bar>b\<bar> else \<bar>b\<bar> * 10 ^ nat (- shift));
               q = n div d; s = sgn a * sgn b
           in Some (dfix (if n mod d \<noteq> 0
                          then Dec (s * (if q mod 5 = 0 then q + 1 else q)) e
                          else (case strip_zeros (nat (x - y - e)) (x - y) q e of
                                  Dec q' e' \<Rightarrow> Dec (s * q') e'))))"

text \<open>\<open>quantize(Decimal((0, (1,), e)), rounding)\<close>; \<open>None\<close> is the \<open>InvalidOperation\<close> signal.\<close>

fun rescale :: "rounding \<Rightarrow> int \<Rightarrow> decimal \<Rightarrow> decimal" where
  "rescale r e (Dec c x) =
     (if e \<le> x then Dec (c * 10 ^ nat (x - e)) e else Dec (round_div r c (10 ^ nat (e - x))) e)"

definition quantize :: "rounding \<Rightarrow> int \<Rightarrow> decimal \<Rightarrow> decimal option" where
  "quantize r e d = (let q = rescale r e d in if idigits (coeff q) \<le> prec then Some q else None)"

section \<open>Comparison\<close>

definition dle :: "decimal \<Rightarrow> decimal \<Rightarrow> bool" where
  "dle a b = (let e = min (dexp a) (dexp b) in scaled e a \<le> scaled e b)"

definition dlt :: "decimal \<Rightarrow> decimal \<Rightarrow> bool" where
  "dlt a b = (let e = min (dexp a) (dexp b) in scaled e a < scaled e b)"

definition deq :: "decimal \<Rightarrow> decimal \<Rightarrow> bool" where
  "deq a b = (let e = min (dexp a) (dexp b) in scaled e a = scaled e b)"

definition dzero :: decimal where
  "dzero = Dec 0 0"

section \<open>Text\<close>

definition zeros :: "nat \<Rightarrow> string" where
  "zeros n = replicate n (CHR ''0'')"

text \<open>\<open>str(d)\<close>: plain notation unless the exponent is positive or the number is tiny.\<close>

fun str_decimal :: "decimal \<Rightarrow> string" where
  "str_decimal (Dec c e) =
     (let ds = show_digits \<bar>c\<bar>; n = int (length ds); left = e + n;
          dot = (if e \<le> 0 \<and> - 6 < left then left else 1);
          body = (if dot \<le> 0 then ''0.'' @ zeros (nat (- dot)) @ ds
                  else if n \<le> dot then ds @ zeros (nat (dot - n))
                  else take (nat dot) ds @ ''.'' @ drop (nat dot) ds);
          ex = (if left = dot then ''''
                else ''E'' @ (if left - dot < 0 then ''-'' else ''+'') @ show_digits \<bar>left - dot\<bar>)
      in (if c < 0 then ''-'' else '''') @ body @ ex)"

text \<open>\<open>f"{d:.nf}"\<close>: rounded half even to \<open>n\<close> places, never in exponent notation.\<close>

definition format_fixed :: "nat \<Rightarrow> decimal \<Rightarrow> string" where
  "format_fixed n d =
     (let c = coeff (rescale ROUND_HALF_EVEN (- int n) d);
          ds = show_digits \<bar>c\<bar>; ds' = zeros (Suc n - length ds) @ ds; k = length ds' - n
      in (if coeff d < 0 then ''-'' else '''') @ take k ds' @ (if n = 0 then '''' else ''.'' @ drop k ds'))"

fun is_space :: "char \<Rightarrow> bool" where
  "is_space c = (let n = (of_char c :: int) in n = 32 \<or> (9 \<le> n \<and> n \<le> 13) \<or> (28 \<le> n \<and> n \<le> 31))"

definition strip :: "string \<Rightarrow> string" where
  "strip s = rev (dropWhile is_space (rev (dropWhile is_space s)))"

text \<open>The sign in front of a literal: whether it is negative, and the rest.\<close>

fun take_sign :: "string \<Rightarrow> bool \<times> string" where
  "take_sign [] = (False, [])"
| "take_sign (c # cs) =
     (if c = CHR ''-'' then (True, cs) else if c = CHR ''+'' then (False, cs) else (False, c # cs))"

text \<open>The exponent part of a literal: nothing, or \<open>E\<close> with an optionally signed integer.\<close>

definition parse_exp :: "string \<Rightarrow> int option" where
  "parse_exp s =
     (case s of [] \<Rightarrow> Some 0
      | c # cs \<Rightarrow>
          if c = CHR ''E'' \<or> c = CHR ''e''
          then (case take_sign cs of (neg, ds) \<Rightarrow>
                  if ds \<noteq> [] \<and> list_all is_digit ds
                  then Some ((if neg then -1 else 1) * digits_val 0 ds) else None)
          else None)"

text \<open>\<open>Decimal(text)\<close> for a finite literal; \<open>None\<close> is \<open>InvalidOperation\<close> (a conversion syntax error).\<close>

definition parse_decimal :: "string \<Rightarrow> decimal option" where
  "parse_decimal s =
     (case take_sign (List.filter (\<lambda>c. c \<noteq> CHR ''_'') (strip s)) of (neg, r) \<Rightarrow>
      let ip = takeWhile is_digit r; r1 = dropWhile is_digit r;
          dot = (case r1 of c # _ \<Rightarrow> c = CHR ''.'' | [] \<Rightarrow> False);
          r2 = (if dot then tl r1 else r1);
          fp = (if dot then takeWhile is_digit r2 else []);
          r3 = (if dot then dropWhile is_digit r2 else r2)
      in if ip = [] \<and> fp = [] then None
         else (case parse_exp r3 of None \<Rightarrow> None
               | Some e \<Rightarrow> Some (Dec ((if neg then -1 else 1) * digits_val 0 (ip @ fp))
                                    (e - int (length fp)))))"

section \<open>Values and exactness\<close>

text \<open>The rational number a decimal denotes; comparison is comparison of values.\<close>


definition dval :: "decimal \<Rightarrow> rat" where
  "dval d = of_int (coeff d) * 10 powi (dexp d)"

lemma ndigits_le_iff: "0 \<le> n \<Longrightarrow> ndigits n \<le> Suc k \<longleftrightarrow> n < 10 ^ Suc k"
proof (induction k arbitrary: n)
  case 0
  have "0 < ndigits (n div 10)" by (subst ndigits.simps) simp
  then show ?case by (subst ndigits.simps) auto
next
  case (Suc k)
  then have "ndigits (n div 10) \<le> Suc k \<longleftrightarrow> n div 10 < 10 ^ Suc k"
    by (intro Suc.IH) simp
  moreover have "n div 10 < 10 ^ Suc k \<longleftrightarrow> n < 10 ^ Suc (Suc k)"
  proof -
    have "n div 10 < M \<longleftrightarrow> n < 10 * M" for M :: int by presburger
    from this[of "10 ^ Suc k"] show ?thesis by simp
  qed
  moreover have "n < 10 \<Longrightarrow> n < 10 ^ Suc (Suc k)"
    by (rule less_le_trans[of _ "10 ^ 1"]) (simp, rule power_increasing, simp_all)
  ultimately show ?case by (subst ndigits.simps) auto
qed

lemma idigits_prec_iff: "idigits c \<le> prec \<longleftrightarrow> \<bar>c\<bar> < 10 ^ 28"
  using ndigits_le_iff[of "\<bar>c\<bar>" 27] by (simp add: idigits_def prec_def)

lemma dfix_exact: "\<bar>c\<bar> < 10 ^ 28 \<Longrightarrow> dfix (Dec c e) = Dec c e"
  using idigits_prec_iff[of c] by (simp add: Let_def)

declare dfix.simps [simp del]

lemma dval_scaled: "e \<le> dexp d \<Longrightarrow> dval d = of_int (scaled e d) * 10 powi e"
proof (cases d)
  case (Dec c x)
  assume "e \<le> dexp d"
  then have "(10::rat) powi x = 10 ^ nat (x - e) * 10 powi e"
    using power_int_add[of "10::rat" "x - e" e] Dec by (simp add: power_int_def)
  with Dec show ?thesis by (simp add: dval_def)
qed

lemma dle_iff: "dle a b \<longleftrightarrow> dval a \<le> dval b"
  and dlt_iff: "dlt a b \<longleftrightarrow> dval a < dval b"
  and deq_iff: "deq a b \<longleftrightarrow> dval a = dval b"
proof -
  let ?e = "min (dexp a) (dexp b)"
  have a: "dval a = of_int (scaled ?e a) * 10 powi ?e" and b: "dval b = of_int (scaled ?e b) * 10 powi ?e"
    by (rule dval_scaled, simp)+
  have p: "(0::rat) < 10 powi ?e" by (simp add: power_int_def)
  show "dle a b \<longleftrightarrow> dval a \<le> dval b" "dlt a b \<longleftrightarrow> dval a < dval b" "deq a b \<longleftrightarrow> dval a = dval b"
    using p unfolding a b dle_def dlt_def deq_def Let_def by simp_all
qed

lemma round_div_mult: "0 < m \<Longrightarrow> round_div r (q * m) m = q"
  by (cases r) (auto simp: round_div_def Let_def abs_mult sgn_mult mult_sgn_abs)

lemma abs_sgn_mult: "\<bar>sgn c * (q::int) - c\<bar> = (if c = 0 then 0 else \<bar>q - \<bar>c\<bar>\<bar>)"
  by (cases "c < 0") (auto simp: sgn_if)

lemma round_div_error: 
  assumes "0 < m" shows "2 * \<bar>round_div r c m * m - c\<bar> \<le> m"
proof -
  define q where "q = \<bar>c\<bar> div m"
  define t where "t = \<bar>c\<bar> mod m"
  have c: "\<bar>c\<bar> = q * m + t" and t: "0 \<le> t" "t < m"
    using assms by (simp_all add: q_def t_def)
  have up: "\<exists>u. round_div r c m = sgn c * (if u then q + 1 else q) \<and> (u \<longrightarrow> m \<le> 2 * t) \<and> (\<not> u \<longrightarrow> 2 * t \<le> m)"
    by (cases r) (auto simp: round_div_def Let_def q_def t_def)
  then obtain u where u: "round_div r c m = sgn c * (if u then q + 1 else q)"
    and b: "u \<Longrightarrow> m \<le> 2 * t" "\<not> u \<Longrightarrow> 2 * t \<le> m" by blast
  have "\<bar>round_div r c m * m - c\<bar> = (if c = 0 then 0 else \<bar>(if u then q + 1 else q) * m - \<bar>c\<bar>\<bar>)"
    unfolding u by (metis abs_sgn_mult mult.assoc)
  also have "2 * \<dots> \<le> m"
    using b t assms unfolding c by (cases u) (auto simp: algebra_simps)
  finally show ?thesis .
qed

lemma round_div_nonneg: "0 \<le> c \<Longrightarrow> 0 < m \<Longrightarrow> 0 \<le> round_div r c m"
  by (cases r) (auto simp: round_div_def Let_def sgn_if pos_imp_zdiv_nonneg_iff)

lemma quantizeD:
  assumes "quantize r e d = Some q"
  shows "dexp q = e" and "\<bar>coeff q\<bar> < 10 ^ 28" and "q = rescale r e d"
  using assms by (cases d; auto simp: quantize_def Let_def idigits_prec_iff split: if_splits)+

lemma rescale_dexp [simp]: "dexp (rescale r e d) = e"
  by (cases d) simp

lemma powi_diff_nat: "e \<le> x \<Longrightarrow> (10::rat) powi x = 10 ^ nat (x - e) * 10 powi e"
  using power_int_add[of "10::rat" "x - e" e] by (simp add: power_int_def)

lemma rescale_exact: "e \<le> dexp d \<Longrightarrow> dval (rescale r e d) = dval d"
  using powi_diff_nat[of e "dexp d"] by (cases d) (simp add: dval_def)

lemma rescale_error: "2 * \<bar>dval (rescale r e d) - dval d\<bar> \<le> 10 powi e"
proof (cases d)
  case (Dec c x)
  show ?thesis
  proof (cases "e \<le> x")
    case True
    then show ?thesis using rescale_exact[of e d r] Dec by (simp add: power_int_def)
  next
    case False
    let ?m = "10 ^ nat (e - x) :: int"
    have pos: "(0::rat) < 10 powi x" by (simp add: power_int_def)
    have pe: "(10::rat) powi e = of_int ?m * 10 powi x"
      using powi_diff_nat[of x e] False by simp
    have "2 * \<bar>round_div r c ?m * ?m - c\<bar> \<le> ?m" by (rule round_div_error) simp
    then have "2 * \<bar>(of_int (round_div r c ?m) * of_int ?m - of_int c :: rat)\<bar> \<le> of_int ?m"
      by (metis (mono_tags, lifting) of_int_abs of_int_diff of_int_le_iff of_int_mult of_int_numeral)
    then have "2 * \<bar>(of_int (round_div r c ?m) * of_int ?m - of_int c :: rat)\<bar> * 10 powi x \<le> of_int ?m * 10 powi x"
      using pos by simp
    then have "2 * \<bar>((of_int (round_div r c ?m) * of_int ?m - of_int c) * 10 powi x :: rat)\<bar> \<le> 10 powi e"
      using pos unfolding pe abs_mult by simp
    then show ?thesis using False unfolding Dec dval_def
      by (simp add: pe algebra_simps)
  qed
qed

lemma quantize_error: "quantize r e d = Some q \<Longrightarrow> 2 * \<bar>dval q - dval d\<bar> \<le> 10 powi e"
  using quantizeD(3) rescale_error by metis

lemma quantize_same:
  assumes "dexp d = e" "\<bar>coeff d\<bar> < 10 ^ 28" shows "quantize r e d = Some d"
  using assms by (cases d) (simp add: quantize_def Let_def idigits_prec_iff)

lemma rescale_nonneg: "0 \<le> coeff d \<Longrightarrow> 0 \<le> coeff (rescale r e d)"
  by (cases d) (simp add: round_div_nonneg)

lemma dval_nonneg_iff: "0 \<le> dval d \<longleftrightarrow> 0 \<le> coeff d"
proof -
  have "(0::rat) < 10 powi (dexp d)" by (simp add: power_int_def)
  then show ?thesis
    using mult_le_cancel_right_pos[of "10 powi (dexp d)" 0 "of_int (coeff d) :: rat"] by (simp add: dval_def)
qed

lemma dval_dadd:
  assumes "dexp a = dexp b" "\<bar>coeff a + coeff b\<bar> < 10 ^ 28"
  shows "dadd a b = Dec (coeff a + coeff b) (dexp a)"
  using assms by (cases a; cases b) (simp add: dadd_def dfix_exact)

lemma dval_dsub:
  assumes "dexp a = dexp b" "\<bar>coeff a - coeff b\<bar> < 10 ^ 28"
  shows "dsub a b = Dec (coeff a - coeff b) (dexp a)"
  using assms by (cases a; cases b) (simp add: dsub_def dfix_exact)

section \<open>\<open>Decimal(str(d))\<close> reads \<open>d\<close> back\<close>


definition plain :: "string \<Rightarrow> bool" where
  "plain s \<longleftrightarrow> list_all (\<lambda>c. \<not> is_space c \<and> c \<noteq> CHR ''_'') s"

lemma plain_strip:
  assumes "plain s" shows "List.filter (\<lambda>c. c \<noteq> CHR ''_'') (strip s) = s"
proof -
  have d: "dropWhile is_space xs = xs" if "\<forall>c \<in> set xs. \<not> is_space c" for xs
    using that by (cases xs) auto
  from assms have "\<forall>c \<in> set s. \<not> is_space c" "\<forall>c \<in> set s. c \<noteq> CHR ''_''"
    by (auto simp: plain_def list_all_iff)
  then show ?thesis by (simp add: strip_def d del: is_space.simps)
qed

lemma plain_simps [simp]:
  "plain []"
  "plain (c # cs) \<longleftrightarrow> \<not> is_space c \<and> c \<noteq> CHR ''_'' \<and> plain cs"
  "plain (xs @ ys) \<longleftrightarrow> plain xs \<and> plain ys"
  by (simp_all add: plain_def)

lemma digit_plain: "is_digit c \<Longrightarrow> \<not> is_space c \<and> c \<noteq> CHR ''_'' \<and> c \<noteq> CHR ''-'' \<and> c \<noteq> CHR ''+'' \<and> c \<noteq> CHR ''.''"
  by (auto simp: is_digit_def Let_def)

lemma not_digit [simp]:
  "\<not> is_digit (CHR ''.'')" "\<not> is_digit (CHR ''E'')" "\<not> is_digit (CHR ''-'')" "\<not> is_digit (CHR ''+'')"
  "is_digit (CHR ''0'')" "digit_val (CHR ''0'') = 0"
  by (simp_all add: is_digit_def digit_val_def)

lemma digits_plain: "list_all is_digit ds \<Longrightarrow> plain ds"
  using digit_plain by (induction ds) auto

lemma take_sign_digits: "list_all is_digit ds \<Longrightarrow> ds \<noteq> [] \<Longrightarrow> take_sign (ds @ r) = (False, ds @ r)"
  using digit_plain by (cases ds) auto

lemma while_digits:
  "list_all is_digit ds \<Longrightarrow> takeWhile is_digit (ds @ r) = ds @ takeWhile is_digit r"
  "list_all is_digit ds \<Longrightarrow> dropWhile is_digit (ds @ r) = dropWhile is_digit r"
  by (induction ds) auto

lemma zeros_digits [simp]: "list_all is_digit (zeros n)" "length (zeros n) = n" "digits_val 0 (zeros n) = 0"
proof -
  show "list_all is_digit (zeros n)" "length (zeros n) = n" by (simp_all add: zeros_def list_all_iff)
  show "digits_val 0 (zeros n) = 0" by (induction n) (simp_all add: zeros_def)
qed

text \<open>The shape both notations of \<open>str\<close> have: digits, a fraction, an exponent.\<close>

definition literal :: "string \<Rightarrow> string \<Rightarrow> int option \<Rightarrow> string" where
  "literal ip fp ex = ip @ (if fp = [] then '''' else ''.'' @ fp) @
     (case ex of None \<Rightarrow> '''' | Some x \<Rightarrow> ''E'' @ (if x < 0 then ''-'' else ''+'') @ show_digits \<bar>x\<bar>)"

lemma parse_exp_shown: "parse_exp (''E'' @ (if x < 0 then ''-'' else ''+'') @ show_digits \<bar>x\<bar>) = Some x"
  by (simp add: parse_exp_def show_digits_digits digits_val_show_digits)

lemma parse_exp_Nil [simp]: "parse_exp [] = Some 0"
  by (simp add: parse_exp_def)

lemma parse_literal:
  assumes ip: "list_all is_digit ip" "ip \<noteq> []" and fp: "list_all is_digit fp"
  shows "parse_decimal ((if neg then ''-'' else '''') @ literal ip fp ex) =
    Some (Dec ((if neg then -1 else 1) * digits_val 0 (ip @ fp))
              ((case ex of None \<Rightarrow> 0 | Some x \<Rightarrow> x) - int (length fp)))"
proof -
  define tl' where "tl' = (case ex of None \<Rightarrow> '''' | Some x \<Rightarrow> ''E'' @ (if x < 0 then ''-'' else ''+'') @ show_digits \<bar>x\<bar>)"
  have t: "plain tl'" "takeWhile is_digit tl' = []" "dropWhile is_digit tl' = tl'"
      "(case tl' of [] \<Rightarrow> False | c # _ \<Rightarrow> c = CHR ''.'') = False"
      "parse_exp tl' = Some (case ex of None \<Rightarrow> 0 | Some x \<Rightarrow> x)"
    using parse_exp_shown digits_plain[OF show_digits_digits]
    by (auto simp: tl'_def split: option.splits)
  have "plain ((if neg then ''-'' else '''') @ literal ip fp ex)"
    using t(1) digits_plain[OF ip(1)] digits_plain[OF fp]
    by (auto simp: literal_def tl'_def[symmetric])
  moreover have "take_sign ((if neg then ''-'' else '''') @ literal ip fp ex) = (neg, literal ip fp ex)"
    using take_sign_digits[OF ip] by (simp add: literal_def)
  ultimately show ?thesis
    using ip fp t
    by (simp add: parse_decimal_def plain_strip literal_def tl'_def[symmetric] while_digits Let_def)
qed

lemma str_decimal_literal:
  "\<exists>ip fp ex. str_decimal (Dec c e) = (if c < 0 then ''-'' else '''') @ literal ip fp ex \<and>
     list_all is_digit ip \<and> ip \<noteq> [] \<and> list_all is_digit fp \<and>
     digits_val 0 (ip @ fp) = \<bar>c\<bar> \<and> (case ex of None \<Rightarrow> 0 | Some x \<Rightarrow> x) - int (length fp) = e"
proof -
  define ds where "ds = show_digits \<bar>c\<bar>"
  define n where "n = length ds"
  define left where "left = e + int n"
  have ds: "list_all is_digit ds" "ds \<noteq> []" "digits_val 0 ds = \<bar>c\<bar>" "0 < n"
    by (simp_all add: ds_def n_def show_digits_digits digits_val_show_digits)
  have str: "str_decimal (Dec c e) =
     (let dot = (if e \<le> 0 \<and> - 6 < left then left else 1);
          body = (if dot \<le> 0 then ''0.'' @ zeros (nat (- dot)) @ ds
                  else if int n \<le> dot then ds @ zeros (nat (dot - int n))
                  else take (nat dot) ds @ ''.'' @ drop (nat dot) ds);
          ex = (if left = dot then ''''
                else ''E'' @ (if left - dot < 0 then ''-'' else ''+'') @ show_digits \<bar>left - dot\<bar>)
      in (if c < 0 then ''-'' else '''') @ body @ ex)"
    by (simp add: ds_def n_def left_def Let_def)
  consider (frac) "e \<le> 0" "- 6 < left" "left \<le> 0" | (whole) "e = 0" | (split) "e < 0" "0 < left"
    | (sci1) "\<not> (e \<le> 0 \<and> - 6 < left)" "n = 1" | (sci) "\<not> (e \<le> 0 \<and> - 6 < left)" "1 < n"
    using ds(4) by linarith
  then show ?thesis
  proof cases
    case frac
    then show ?thesis using ds unfolding str
      by (intro exI[of _ "''0''"] exI[of _ "zeros (nat (- left)) @ ds"] exI[of _ None])
         (simp add: Let_def literal_def digits_val_append left_def n_def)
  next
    case whole
    then show ?thesis using ds unfolding str
      by (intro exI[of _ ds] exI[of _ "[]"] exI[of _ None])
         (simp add: Let_def literal_def left_def zeros_def)
  next
    case split
    then have "nat left < n" "int n - left = - e" by (auto simp: left_def)
    with split ds show ?thesis unfolding str
      by (intro exI[of _ "take (nat left) ds"] exI[of _ "drop (nat left) ds"] exI[of _ None])
         (auto simp: Let_def literal_def n_def list_all_iff dest: in_set_takeD in_set_dropD)
  next
    case sci1
    then have "left \<noteq> 1" by (auto simp: left_def)
    with sci1 ds show ?thesis unfolding str
      by (intro exI[of _ ds] exI[of _ "[]"] exI[of _ "Some (left - 1)"])
         (auto simp: Let_def literal_def left_def zeros_def)
  next
    case sci
    then have "left \<noteq> 1" by (auto simp: left_def)
    with sci ds show ?thesis unfolding str
      by (intro exI[of _ "take 1 ds"] exI[of _ "drop 1 ds"] exI[of _ "Some (left - 1)"])
         (auto simp: Let_def literal_def n_def list_all_iff left_def dest: in_set_takeD in_set_dropD)
  qed
qed

lemma parse_str_decimal: "parse_decimal (str_decimal d) = Some d"
proof (cases d)
  case (Dec c e)
  obtain ip fp ex where *: "str_decimal (Dec c e) = (if c < 0 then ''-'' else '''') @ literal ip fp ex"
     "list_all is_digit ip" "ip \<noteq> []" "list_all is_digit fp"
     "digits_val 0 (ip @ fp) = \<bar>c\<bar>" "(case ex of None \<Rightarrow> 0 | Some x \<Rightarrow> x) - int (length fp) = e"
    using str_decimal_literal by blast
  then show ?thesis using parse_literal[OF *(2,3,4), of "c < 0" ex] by (simp add: Dec)
qed

section \<open>Exact sums and differences\<close>

lemma dval_Dec: "dval (Dec c e) = of_int c * 10 powi e"
  by (simp add: dval_def)

lemma dsub_exact:
  assumes "\<bar>scaled (min (dexp a) (dexp b)) a - scaled (min (dexp a) (dexp b)) b\<bar> < 10 ^ 28"
  shows "dval (dsub a b) = dval a - dval b" "dexp (dsub a b) = min (dexp a) (dexp b)"
  using assms dval_scaled[of "min (dexp a) (dexp b)" a] dval_scaled[of "min (dexp a) (dexp b)" b]
  by (simp_all add: dsub_def Let_def dfix_exact dval_Dec left_diff_distrib)

lemma dadd_exact:
  assumes "\<bar>scaled (min (dexp a) (dexp b)) a + scaled (min (dexp a) (dexp b)) b\<bar> < 10 ^ 28"
  shows "dval (dadd a b) = dval a + dval b" "dexp (dadd a b) = min (dexp a) (dexp b)"
  using assms dval_scaled[of "min (dexp a) (dexp b)" a] dval_scaled[of "min (dexp a) (dexp b)" b]
  by (simp_all add: dadd_def Let_def dfix_exact dval_Dec distrib_right)

lemma dval_zero [simp]: "dval dzero = 0"
  by (simp add: dzero_def dval_def)

lemma round_div_ge: "0 < m \<Longrightarrow> \<bar>c\<bar> div m \<le> \<bar>round_div r c m\<bar>"
  by (cases "c = 0") (auto simp: round_div_def Let_def abs_mult pos_imp_zdiv_nonneg_iff)

lemma abs_div10:
  fixes c N :: int
  assumes "N \<le> \<bar>c\<bar>" shows "N div 10 \<le> \<bar>c div 10\<bar>"
proof (cases "0 \<le> c")
  case True
  then show ?thesis using assms zdiv_mono1[of N c 10] by simp
next
  case False
  then have "N div 10 \<le> (- c) div 10" using assms zdiv_mono1[of N "- c" 10] by simp
  moreover have "(- c) div 10 \<le> - (c div 10)" by linarith
  moreover have "- (c div 10) \<le> \<bar>c div 10\<bar>" by simp
  ultimately show ?thesis by linarith
qed

text \<open>A sum that needs the context's rounding stays out of reach of a quantization to its exponent.\<close>

lemma dfix_large:
  assumes "10 ^ 28 \<le> \<bar>c\<bar>" "\<bar>c\<bar> < 10 ^ 29" "dfix (Dec c e) = Dec c' e'"
  shows "10 ^ 28 \<le> \<bar>c' * 10 ^ nat (e' - e)\<bar> \<and> e \<le> e'"
proof -
  have "ndigits \<bar>c\<bar> \<le> Suc 28" "\<not> ndigits \<bar>c\<bar> \<le> Suc 27"
    unfolding ndigits_le_iff[OF abs_ge_zero] using assms(1,2) by simp_all
  then have n: "idigits c = 29" unfolding idigits_def by linarith
  define d where "d = round_div ROUND_HALF_EVEN c 10"
  have "(10 ^ 28 :: int) div 10 \<le> \<bar>c\<bar> div 10" by (rule zdiv_mono1[OF assms(1)]) simp
  then have d: "10 ^ 27 \<le> \<bar>d\<bar>"
    using round_div_ge[of 10 c ROUND_HALF_EVEN] unfolding d_def by simp
  have f: "dfix (Dec c e) = (if prec < idigits d then Dec (d div 10) (e + 2) else Dec d (e + 1))"
    unfolding dfix.simps n d_def by (simp add: prec_def Let_def)
  show ?thesis
  proof (cases "prec < idigits d")
    case True
    with f assms(3) have c: "c' = d div 10" "e' = e + 2" by simp_all
    have "(10 ^ 27 :: int) div 10 \<le> \<bar>d div 10\<bar>" by (rule abs_div10[OF d])
    then have "(10 ^ 26 :: int) * 10 ^ 2 \<le> \<bar>d div 10\<bar> * 10 ^ 2" by (intro mult_right_mono) simp_all
    then show ?thesis unfolding c by (simp add: abs_mult del: zdiv_zmult2_eq)
  next
    case False
    with f assms(3) have c: "c' = d" "e' = e + 1" by simp_all
    have "(10 ^ 27 :: int) * 10 ^ 1 \<le> \<bar>d\<bar> * 10 ^ 1" using d by (intro mult_right_mono) simp_all
    then show ?thesis unfolding c by (simp add: abs_mult)
  qed
qed

end
