(* ===== verification/Errors.thy ===== *)
theory Errors
  imports Decimal
begin

text \<open>
  \<open>core/exceptions.py\<close>: the domain errors with their HTTP status and error code, and
  \<open>api/middleware/error_handler.py\<close>: the response each exception becomes.
  Exceptions that are not domain errors are constructors of their own: an exhausted decimal
  context, a missing key, a bad value, a failure reported by the database driver.
\<close>

section \<open>Domain errors\<close>

datatype err_class =
    FundTransferError | ValidationError | UnsupportedCurrencyError | NotFoundError
  | ForbiddenError | InsufficientFundsError | LimitExceededError | IdempotencyConflictError
  | AccountHasBalanceError | DatabaseError | StaleRateError | RateDeviationError
  | UnsupportedCurrencyPairError | TransferLimitExceededError | CapacityExceededError

fun status_code :: "err_class \<Rightarrow> nat" where
  "status_code FundTransferError = 500"
| "status_code ValidationError = 400"
| "status_code UnsupportedCurrencyError = 400"
| "status_code NotFoundError = 404"
| "status_code ForbiddenError = 403"
| "status_code InsufficientFundsError = 422"
| "status_code LimitExceededError = 422"
| "status_code IdempotencyConflictError = 409"
| "status_code AccountHasBalanceError = 400"
| "status_code DatabaseError = 500"
| "status_code StaleRateError = 503"
| "status_code RateDeviationError = 409"
| "status_code UnsupportedCurrencyPairError = 422"
| "status_code TransferLimitExceededError = 422"
| "status_code CapacityExceededError = 503"

fun class_error_code :: "err_class \<Rightarrow> string" where
  "class_error_code FundTransferError = ''INTERNAL_ERROR''"
| "class_error_code ValidationError = ''VALIDATION_ERROR''"
| "class_error_code UnsupportedCurrencyError = ''UNSUPPORTED_CURRENCY''"
| "class_error_code NotFoundError = ''ACCOUNT_NOT_FOUND''"
| "class_error_code ForbiddenError = ''FORBIDDEN''"
| "class_error_code InsufficientFundsError = ''INSUFFICIENT_FUNDS''"
| "class_error_code LimitExceededError = ''TRANSFER_LIMIT_EXCEEDED''"
| "class_error_code IdempotencyConflictError = ''IDEMPOTENCY_CONFLICT''"
| "class_error_code AccountHasBalanceError = ''ACCOUNT_HAS_BALANCE''"
| "class_error_code DatabaseError = ''DATABASE_ERROR''"
| "class_error_code StaleRateError = ''STALE_EXCHANGE_RATE''"
| "class_error_code RateDeviationError = ''RATE_DEVIATION''"
| "class_error_code UnsupportedCurrencyPairError = ''UNSUPPORTED_CURRENCY_PAIR''"
| "class_error_code TransferLimitExceededError = ''TRANSFER_LIMIT_EXCEEDED''"
| "class_error_code CapacityExceededError = ''CAPACITY_EXCEEDED''"

text \<open>The attributes two of the classes add: the deviating rates, the limit that was hit.\<close>

datatype err_info =
    NoInfo
  | DeviationInfo (preview_rate: decimal) (current_rate: decimal) (deviation_pct: decimal)
      (new_snapshot_id: string)
  | LimitInfo (limit_type: string) (limit_usd: decimal) (attempted_usd: decimal)

record app_error =
  err_class :: err_class
  message :: string
  error_code :: string
  err_info :: err_info

datatype exn =
    AppError app_error
  | HTTPException nat string string
  | InvalidOperation
  | KeyError string
  | ValueError string
  | DbError string string
  | OtherError string string

text \<open>\<open>FundTransferError.__init__\<close>: the class's error code unless one is given.\<close>

definition init_error :: "err_class \<Rightarrow> string \<Rightarrow> string option \<Rightarrow> app_error" where
  "init_error c msg code =
     \<lparr>err_class = c, message = msg,
      error_code = (case code of None \<Rightarrow> class_error_code c | Some k \<Rightarrow> k), err_info = NoInfo\<rparr>"

definition fail :: "err_class \<Rightarrow> string \<Rightarrow> exn" where
  "fail c msg = AppError (init_error c msg None)"

definition fail_code :: "err_class \<Rightarrow> string \<Rightarrow> string \<Rightarrow> exn" where
  "fail_code c msg code = AppError (init_error c msg (Some code))"

definition rate_deviation_error :: "string \<Rightarrow> decimal \<Rightarrow> decimal \<Rightarrow> decimal \<Rightarrow> string \<Rightarrow> exn" where
  "rate_deviation_error msg prev cur dev sid =
     AppError ((init_error RateDeviationError msg None)\<lparr>err_info := DeviationInfo prev cur dev sid\<rparr>)"

definition transfer_limit_error :: "string \<Rightarrow> string \<Rightarrow> decimal \<Rightarrow> decimal \<Rightarrow> exn" where
  "transfer_limit_error msg ty limit att =
     AppError ((init_error TransferLimitExceededError msg None)\<lparr>err_info := LimitInfo ty limit att\<rparr>)"

definition is_app_error :: "err_class \<Rightarrow> exn \<Rightarrow> bool" where
  "is_app_error c e = (case e of AppError a \<Rightarrow> err_class a = c | _ \<Rightarrow> False)"

lemma is_app_error_simps [simp]:
  "is_app_error c (fail c' m) \<longleftrightarrow> c = c'"
  "is_app_error c (fail_code c' m k) \<longleftrightarrow> c = c'"
  "is_app_error c (rate_deviation_error m a b d i) \<longleftrightarrow> c = RateDeviationError"
  "is_app_error c (transfer_limit_error m ty a b) \<longleftrightarrow> c = TransferLimitExceededError"
  by (auto simp: is_app_error_def fail_def fail_code_def rate_deviation_error_def
      transfer_limit_error_def init_error_def)

text \<open>\<open>quantize\<close> inside a service: overflow of the context raises \<open>InvalidOperation\<close>.\<close>

definition quantize_or_raise :: "rounding \<Rightarrow> decimal \<Rightarrow> (exn, decimal) res" where
  "quantize_or_raise r d = (case quantize r (- 4) d of None \<Rightarrow> Inl InvalidOperation | Some q \<Rightarrow> Inr q)"

lemma quantize_or_raise_Inr:
  "quantize_or_raise r d = Inr q \<longleftrightarrow> quantize r (- 4) d = Some q"
  by (simp add: quantize_or_raise_def split: option.splits)

section \<open>The exception handlers\<close>

record error_response =
  http_status :: nat
  body_error_code :: string
  body_message :: string
  body_request_id :: string

definition get_request_id_or_unknown :: "string option \<Rightarrow> string" where
  "get_request_id_or_unknown hdr = (case hdr of None \<Rightarrow> ''unknown'' | Some i \<Rightarrow> i)"

text \<open>
  \<open>register_exception_handlers\<close>: domain errors keep their code and message, an
  \<open>HTTPException\<close> (answered by the framework's own handler) keeps its status and detail,
  everything else becomes the generic 500 answer.
\<close>

definition fund_transfer_error_handler :: "string option \<Rightarrow> app_error \<Rightarrow> error_response" where
  "fund_transfer_error_handler hdr e =
     \<lparr>http_status = status_code (err_class e), body_error_code = error_code e,
      body_message = message e, body_request_id = get_request_id_or_unknown hdr\<rparr>"

definition generic_error_handler :: "string option \<Rightarrow> exn \<Rightarrow> error_response" where
  "generic_error_handler hdr e =
     \<lparr>http_status = 500, body_error_code = ''INTERNAL_ERROR'',
      body_message = ''An unexpected error occurred. Please retry or contact support.'',
      body_request_id = get_request_id_or_unknown hdr\<rparr>"

definition error_to_response :: "string option \<Rightarrow> exn \<Rightarrow> error_response" where
  "error_to_response hdr e =
     (case e of
        AppError a \<Rightarrow> fund_transfer_error_handler hdr a
      | HTTPException st code msg \<Rightarrow>
          \<lparr>http_status = st, body_error_code = code, body_message = msg,
           body_request_id = get_request_id_or_unknown hdr\<rparr>
      | _ \<Rightarrow> generic_error_handler hdr e)"

end
