(* ===== verification/Store.thy ===== *)
theory Store
  imports Errors
begin

text \<open>
  The tables of \<open>models/*.py\<close>, the environment the service runs in, and the session: what
  \<open>execute\<close>, \<open>flush\<close>, \<open>begin\<close> and the exit of a transaction block do to the tables a request sees.
  The database driver, the clock and the random sources are code outside the repository: they
  are the fields of the record \<open>ext\<close>, an argument of every operation that uses them.
  A request's session holds one object per row, so the session's view of a row and the row are
  one thing in the model; writes reach the tables at the flush the code calls, or at the
  assignment where the next flush follows without a read in between.
\<close>

section \<open>Rows\<close>

type_synonym uuid = string
type_synonym time = int

datatype account_status = active | closed

fun account_status_value :: "account_status \<Rightarrow> string" where
  "account_status_value active = ''active''"
| "account_status_value closed = ''closed''"

record account =
  acc_id :: uuid
  account_number :: string
  owner_id :: string
  currency :: string
  balance :: decimal
  acc_status :: account_status
  owner_pii_hash :: "string option"
  acc_created_at :: time
  acc_updated_at :: "time option"

datatype transfer_status = pending | processing | completed | failed | rejected

fun transfer_status_value :: "transfer_status \<Rightarrow> string" where
  "transfer_status_value pending = ''pending''"
| "transfer_status_value processing = ''processing''"
| "transfer_status_value completed = ''completed''"
| "transfer_status_value failed = ''failed''"
| "transfer_status_value rejected = ''rejected''"

record transfer =
  transfer_id :: uuid
  idempotency_key :: string
  source_account_number :: string
  destination_account_number :: string
  source_amount :: decimal
  source_currency :: string
  destination_amount :: decimal
  destination_currency :: string
  exchange_rate :: decimal
  tr_status :: transfer_status
  failure_reason :: "string option"
  transfer_type :: "string option"
  sending_fee :: "decimal option"
  sending_fee_currency :: "string option"
  receiving_fee :: "decimal option"
  receiving_fee_currency :: "string option"
  fx_snapshot_id :: "uuid option"
  rate_confirmed_at :: "time option"
  source_amount_usd :: "decimal option"
  caller_id :: string
  tr_created_at :: time

datatype operation_type =
    account_created | account_deleted | transfer_completed | transfer_rejected
  | fx_rate_refreshed | cross_currency_transfer_initiated | cross_currency_transfer_completed
  | cross_currency_transfer_failed | notification_delivered | aml_kyc_screening_triggered

fun operation_type_value :: "operation_type \<Rightarrow> string" where
  "operation_type_value account_created = ''account_created''"
| "operation_type_value account_deleted = ''account_deleted''"
| "operation_type_value transfer_completed = ''transfer_completed''"
| "operation_type_value transfer_rejected = ''transfer_rejected''"
| "operation_type_value fx_rate_refreshed = ''fx_rate_refreshed''"
| "operation_type_value cross_currency_transfer_initiated = ''cross_currency_transfer_initiated''"
| "operation_type_value cross_currency_transfer_completed = ''cross_currency_transfer_completed''"
| "operation_type_value cross_currency_transfer_failed = ''cross_currency_transfer_failed''"
| "operation_type_value notification_delivered = ''notification_delivered''"
| "operation_type_value aml_kyc_screening_triggered = ''aml_kyc_screening_triggered''"

text \<open>The \<open>detail\<close> column: a JSON object whose values are strings or null.\<close>

type_synonym detail = "(string, string option) dict"

record audit_entry =
  al_id :: uuid
  operation_type :: operation_type
  actor_identity :: string
  affected_account_numbers :: "string list"
  al_amount :: "decimal option"
  al_currency :: "string option"
  outcome :: string
  detail :: detail
  al_timestamp :: time
  request_id :: "string option"

record notification =
  nt_id :: uuid
  recipient_account_number :: string
  nt_transfer_id :: uuid
  direction :: string
  nt_source_amount :: decimal
  nt_source_currency :: string
  net_credited_amount :: decimal
  net_credited_currency :: string
  read_at :: "time option"
  nt_created_at :: time

text \<open>The \<open>rates\<close> column: currency to currency to the rate's text.\<close>

type_synonym rate_table = "(string, (string, string) dict) dict"

record fx_rate_snapshot =
  fx_id :: uuid
  effective_at :: time
  fetched_at :: time
  is_stale :: bool
  provider_source :: string
  fx_rates :: rate_table

record currency_pair =
  cp_id :: uuid
  from_currency :: string
  to_currency :: string
  is_active :: bool
  cp_created_at :: time

record tables =
  accounts :: "account list"
  transfers :: "transfer list"
  audit_log :: "audit_entry list"
  notifications :: "notification list"
  fx_rate_snapshots :: "fx_rate_snapshot list"
  currency_pairs :: "currency_pair list"

section \<open>The environment\<close>

text \<open>
  \<open>uuid4\<close>, \<open>utcnow\<close>, \<open>random_suffix\<close>: what the n-th draw returns; \<open>db_now\<close>: the server's
  \<open>now()\<close>; \<open>db_fails\<close>: the exception the n-th round trip to the database raises, if it does;
  \<open>begin_exn\<close>: what \<open>session.begin()\<close> raises, given whether an earlier \<open>execute\<close> has already
  opened a transaction on the session; \<open>put_numeric p s d\<close>: the value a \<open>Numeric(p, s)\<close> column
  holds after \<open>d\<close> is stored; \<open>string_exn n v\<close>: what storing \<open>v\<close> in a \<open>String(n)\<close> column raises;
  \<open>sha256\<close>: the hexadecimal digest; \<open>isoformat\<close>: a time as text.
\<close>

record ext =
  uuid4 :: "nat \<Rightarrow> uuid"
  utcnow :: "nat \<Rightarrow> time"
  db_now :: "nat \<Rightarrow> time"
  random_suffix :: "nat \<Rightarrow> string"
  db_fails :: "nat \<Rightarrow> exn option"
  begin_exn :: "bool \<Rightarrow> exn option"
  put_numeric :: "nat \<Rightarrow> nat \<Rightarrow> decimal \<Rightarrow> exn + decimal"
  string_exn :: "nat \<Rightarrow> string \<Rightarrow> exn option"
  sha256 :: "string \<Rightarrow> string"
  isoformat :: "time \<Rightarrow> string"

text \<open>
  What PostgreSQL documents of \<open>numeric(p, s)\<close>: a stored value has exactly \<open>s\<close> fractional digits and
  at most \<open>p - s\<close> integral ones, and a value that needs no rounding is stored unchanged.
\<close>

definition places :: "nat \<Rightarrow> decimal \<Rightarrow> bool" where
  "places s d \<longleftrightarrow> (\<exists>c. dval d = of_int c * 10 powi (- int s))"

definition numeric_law :: "ext \<Rightarrow> bool" where
  "numeric_law x \<longleftrightarrow>
     (\<forall>p s d d'. put_numeric x p s d = Inr d' \<longrightarrow>
        dexp d' = - int s \<and> \<bar>coeff d'\<bar> < 10 ^ p \<and> (places s d \<longrightarrow> dval d' = dval d))"

section \<open>The session\<close>

record session =
  db :: tables
  in_tx :: bool
  tick :: nat
  status_metric :: "transfer_status list"

type_synonym 'a op = "session \<Rightarrow> (exn + 'a) \<times> session"

definition draw :: "(nat \<Rightarrow> 'a) \<Rightarrow> 'a op" where
  "draw f s = (Inr (f (tick s)), s\<lparr>tick := Suc (tick s)\<rparr>)"

text \<open>One round trip to the database; it opens the session's transaction if none is open.\<close>

definition db_call :: "ext \<Rightarrow> unit op" where
  "db_call x s =
     (case db_fails x (tick s) of
        None \<Rightarrow> (Inr (), s\<lparr>tick := Suc (tick s), in_tx := True\<rparr>)
      | Some e \<Rightarrow> (Inl e, s\<lparr>tick := Suc (tick s), in_tx := True\<rparr>))"

definition db_query :: "ext \<Rightarrow> (tables \<Rightarrow> 'a) \<Rightarrow> 'a op" where
  "db_query x q = sthen (db_call x) (sget (\<lambda>s. q (db s)))"

text \<open>Send pending writes; \<open>w\<close> gets the server's time and the tables.\<close>

definition db_flush :: "ext \<Rightarrow> (time \<Rightarrow> tables \<Rightarrow> (exn, tables) res) \<Rightarrow> unit op" where
  "db_flush x w =
     sthen (db_call x)
     (sbind (sget (\<lambda>s. w (db_now x (tick s)) (db s)))
     (\<lambda>r. sbind (slift r) (\<lambda>t. smodify (\<lambda>s. s\<lparr>db := t\<rparr>))))"

text \<open>
  \<open>async with await _begin_transaction(session)\<close>: run the block; on an exception, also one of the
  commit itself, the tables are as they were when the block began.
\<close>

definition transaction :: "ext \<Rightarrow> 'a op \<Rightarrow> 'a op" where
  "transaction x body s =
     (case begin_exn x (in_tx s) of
        Some e \<Rightarrow> (Inl e, s)
      | None \<Rightarrow>
          (case body (s\<lparr>in_tx := True\<rparr>) of
             (Inl e, s') \<Rightarrow> (Inl e, s'\<lparr>db := db s, in_tx := False\<rparr>)
           | (Inr a, s') \<Rightarrow>
               (case db_fails x (tick s') of
                  None \<Rightarrow> (Inr a, s'\<lparr>tick := Suc (tick s'), in_tx := False\<rparr>)
                | Some e \<Rightarrow> (Inl e, s'\<lparr>db := db s, tick := Suc (tick s'), in_tx := False\<rparr>))))"

subsection \<open>Their weakest preconditions\<close>

lemma wp_draw [wp_simps]: "wp (draw f) Q E s = Q (f (tick s)) (s\<lparr>tick := Suc (tick s)\<rparr>)"
  by (simp add: wp_def draw_def)

lemma wp_db_call [wp_simps]:
  "wp (db_call x) Q E s =
     ((db_fails x (tick s) = None \<longrightarrow> Q () (s\<lparr>tick := Suc (tick s), in_tx := True\<rparr>)) \<and>
      (\<forall>e. db_fails x (tick s) = Some e \<longrightarrow> E e (s\<lparr>tick := Suc (tick s), in_tx := True\<rparr>)))"
  by (simp add: wp_def db_call_def split: option.split)

lemma wp_db_query [wp_simps]:
  "wp (db_query x q) Q E s = wp (db_call x) (\<lambda>_ s. Q (q (db s)) s) E s"
  by (simp add: db_query_def wp_simps)

lemma wp_db_flush [wp_simps]:
  "wp (db_flush x w) Q E s =
     wp (db_call x)
       (\<lambda>_ s. (\<forall>t. w (db_now x (tick s)) (db s) = Inr t \<longrightarrow> Q () (s\<lparr>db := t\<rparr>)) \<and>
              (\<forall>e. w (db_now x (tick s)) (db s) = Inl e \<longrightarrow> E e s)) E s"
  by (simp add: db_flush_def wp_simps)

lemma db_call_Inr_iff:
  "db_call x s = (Inr u, s') \<longleftrightarrow>
     db_fails x (tick s) = None \<and> s' = s\<lparr>tick := Suc (tick s), in_tx := True\<rparr>"
  by (auto simp: db_call_def split: option.splits)

lemma db_query_Inr_iff:
  "db_query x q s = (Inr a, s') \<longleftrightarrow>
     db_fails x (tick s) = None \<and> s' = s\<lparr>tick := Suc (tick s), in_tx := True\<rparr> \<and> a = q (db s)"
  by (auto simp: db_query_def sthen_Inr_iff db_call_Inr_iff)

lemma db_flush_Inr_iff:
  "db_flush x w s = (Inr u, s') \<longleftrightarrow>
     db_fails x (tick s) = None \<and>
     (\<exists>t. w (db_now x (Suc (tick s))) (db s) = Inr t \<and>
          s' = s\<lparr>db := t, tick := Suc (tick s), in_tx := True\<rparr>)"
  by (auto simp: db_flush_def sthen_Inr_iff sbind_Inr_iff db_call_Inr_iff)

lemma draw_Inr_iff: "draw f s = (Inr a, s') \<longleftrightarrow> a = f (tick s) \<and> s' = s\<lparr>tick := Suc (tick s)\<rparr>"
  by (auto simp: draw_def)

lemmas op_Inr_iff = sbind_Inr_iff sthen_Inr_iff db_query_Inr_iff db_flush_Inr_iff draw_Inr_iff
  db_call_Inr_iff

lemma draw_InrD: "draw f s = (r, s') \<Longrightarrow> db s' = db s \<and> status_metric s' = status_metric s"
  by (auto simp: draw_def)

lemma db_flush_InrD:
  "db_flush x w s = (Inr u, s') \<Longrightarrow> (\<exists>now. w now (db s) = Inr (db s')) \<and> status_metric s' = status_metric s"
  by (auto simp: db_flush_Inr_iff)

text \<open>A committed transaction is a completed block; a failed one leaves the tables alone.\<close>

lemma transaction_InrD:
  "transaction x body s = (Inr a, s') \<Longrightarrow>
     \<exists>s1. begin_exn x (in_tx s) = None \<and> body (s\<lparr>in_tx := True\<rparr>) = (Inr a, s1) \<and>
          db_fails x (tick s1) = None \<and> s' = s1\<lparr>tick := Suc (tick s1), in_tx := False\<rparr>"
  by (auto simp: transaction_def split: option.splits prod.splits sum.splits)

lemma transaction_Inl_db: "transaction x body s = (Inl e, s') \<Longrightarrow> db s' = db s"
  by (auto simp: transaction_def split: option.splits prod.splits sum.splits)

lemma transaction_InrI:
  "begin_exn x (in_tx s) = None \<Longrightarrow> body (s\<lparr>in_tx := True\<rparr>) = (Inr a, s1) \<Longrightarrow>
   db_fails x (tick s1) = None \<Longrightarrow>
   transaction x body s = (Inr a, s1\<lparr>tick := Suc (tick s1), in_tx := False\<rparr>)"
  by (simp add: transaction_def)

section \<open>Writing rows\<close>

text \<open>
  The checks and roundings of the columns, in the models' types, and the unique constraints.
\<close>

definition integrity_error :: "string \<Rightarrow> exn" where
  "integrity_error constraint_name = DbError ''IntegrityError'' constraint_name"

text \<open>A primary key or unique constraint: the new row's key must not be in the table.\<close>

definition unique_exn :: "string \<Rightarrow> ('r \<Rightarrow> 'k) \<Rightarrow> 'r \<Rightarrow> 'r list \<Rightarrow> exn option" where
  "unique_exn constraint_name key r rows =
     (if key r \<in> key ` set rows then Some (integrity_error constraint_name) else None)"

lemma unique_exn_None [simp]: "unique_exn c key r rows = None \<longleftrightarrow> key r \<notin> key ` set rows"
  by (simp add: unique_exn_def)

definition put_opt :: "ext \<Rightarrow> decimal option \<Rightarrow> (exn, decimal option) res" where
  "put_opt x v = (case v of None \<Rightarrow> Inr None | Some d \<Rightarrow> rbind (put_numeric x 19 4 d) (\<lambda>d'. Inr (Some d')))"

definition string_opt_exn :: "ext \<Rightarrow> nat \<Rightarrow> string option \<Rightarrow> exn option" where
  "string_opt_exn x n v = (case v of None \<Rightarrow> None | Some t \<Rightarrow> string_exn x n t)"

definition insert_account :: "ext \<Rightarrow> account \<Rightarrow> tables \<Rightarrow> (exn, tables) res" where
  "insert_account x a t =
     rcheck (string_exn x 34 (account_number a))
    (rcheck (string_exn x 255 (owner_id a))
    (rcheck (string_exn x 3 (currency a))
    (rbind (put_numeric x 19 4 (balance a)) (\<lambda>b.
     rcheck (unique_exn ''accounts_pkey'' acc_id a (accounts t))
    (rcheck (unique_exn ''uq_accounts_account_number'' account_number a (accounts t))
    (Inr (t\<lparr>accounts := accounts t @ [a\<lparr>balance := b\<rparr>]\<rparr>)))))))"

definition insert_audit :: "ext \<Rightarrow> audit_entry \<Rightarrow> tables \<Rightarrow> (exn, tables) res" where
  "insert_audit x a t =
     rcheck (string_exn x 30 (operation_type_value (operation_type a)))
    (rcheck (string_exn x 20 (outcome a))
    (rcheck (string_opt_exn x 3 (al_currency a))
    (rbind (put_opt x (al_amount a)) (\<lambda>m.
     rcheck (unique_exn ''audit_log_pkey'' al_id a (audit_log t))
    (Inr (t\<lparr>audit_log := audit_log t @ [a\<lparr>al_amount := m\<rparr>]\<rparr>))))))"

definition insert_transfer :: "ext \<Rightarrow> transfer \<Rightarrow> tables \<Rightarrow> (exn, tables) res" where
  "insert_transfer x r t =
     rcheck (string_exn x 255 (idempotency_key r))
    (rcheck (string_exn x 34 (source_account_number r))
    (rcheck (string_exn x 34 (destination_account_number r))
    (rcheck (string_exn x 3 (source_currency r))
    (rcheck (string_exn x 3 (destination_currency r))
    (rcheck (string_opt_exn x 30 (transfer_type r))
    (rcheck (string_opt_exn x 3 (sending_fee_currency r))
    (rcheck (string_opt_exn x 3 (receiving_fee_currency r))
    (rbind (put_numeric x 19 4 (source_amount r)) (\<lambda>sa.
     rbind (put_numeric x 19 4 (destination_amount r)) (\<lambda>da.
     rbind (put_numeric x 20 8 (exchange_rate r)) (\<lambda>er.
     rbind (put_opt x (sending_fee r)) (\<lambda>sf.
     rbind (put_opt x (receiving_fee r)) (\<lambda>rf.
     rbind (put_opt x (source_amount_usd r)) (\<lambda>su.
     rcheck (unique_exn ''transfers_pkey'' transfer_id r (transfers t))
    (rcheck (unique_exn ''uq_transfers_idempotency_key'' idempotency_key r (transfers t))
    (Inr (t\<lparr>transfers := transfers t @
       [r\<lparr>source_amount := sa, destination_amount := da, exchange_rate := er, sending_fee := sf,
          receiving_fee := rf, source_amount_usd := su\<rparr>]\<rparr>)))))))))))))))))"

definition insert_notification :: "ext \<Rightarrow> notification \<Rightarrow> tables \<Rightarrow> (exn, tables) res" where
  "insert_notification x n t =
     rcheck (string_exn x 34 (recipient_account_number n))
    (rcheck (string_exn x 10 (direction n))
    (rcheck (string_exn x 3 (nt_source_currency n))
    (rcheck (string_exn x 3 (net_credited_currency n))
    (rbind (put_numeric x 19 4 (nt_source_amount n)) (\<lambda>sa.
     rbind (put_numeric x 19 4 (net_credited_amount n)) (\<lambda>na.
     rcheck (unique_exn ''notifications_pkey'' nt_id n (notifications t))
    (if nt_transfer_id n \<in> transfer_id ` set (transfers t)
     then Inr (t\<lparr>notifications := notifications t @
            [n\<lparr>nt_source_amount := sa, net_credited_amount := na\<rparr>]\<rparr>)
     else Inl (integrity_error ''notifications_transfer_id_fkey''))))))))"

definition insert_fx_rate_snapshot :: "ext \<Rightarrow> fx_rate_snapshot \<Rightarrow> tables \<Rightarrow> (exn, tables) res" where
  "insert_fx_rate_snapshot x r t =
     rcheck (string_exn x 100 (provider_source r))
    (rcheck (unique_exn ''fx_rate_snapshot_pkey'' fx_id r (fx_rate_snapshots t))
    (Inr (t\<lparr>fx_rate_snapshots := fx_rate_snapshots t @ [r]\<rparr>)))"

definition insert_currency_pair :: "ext \<Rightarrow> currency_pair \<Rightarrow> tables \<Rightarrow> (exn, tables) res" where
  "insert_currency_pair x r t =
     rcheck (string_exn x 3 (from_currency r))
    (rcheck (string_exn x 3 (to_currency r))
    (rcheck (unique_exn ''currency_pairs_pkey'' cp_id r (currency_pairs t))
    (rcheck (unique_exn ''uq_currency_pairs_direction'' (\<lambda>q. (from_currency q, to_currency q)) r (currency_pairs t))
    (Inr (t\<lparr>currency_pairs := currency_pairs t @ [r]\<rparr>)))))"

text \<open>\<open>account.balance = v\<close>, written at the next flush; \<open>updated_at\<close> follows.\<close>

definition set_balance :: "ext \<Rightarrow> string \<Rightarrow> decimal \<Rightarrow> time \<Rightarrow> tables \<Rightarrow> (exn, tables) res" where
  "set_balance x n v now t =
     rbind (put_numeric x 19 4 v) (\<lambda>b.
     Inr (t\<lparr>accounts := update_rows (\<lambda>r. account_number r = n)
            (\<lambda>r. r\<lparr>balance := b, acc_updated_at := Some now\<rparr>) (accounts t)\<rparr>))"

definition find_account :: "string \<Rightarrow> tables \<Rightarrow> account option" where
  "find_account n t = find_row (\<lambda>a. account_number a = n) (accounts t)"

definition find_transfer :: "uuid \<Rightarrow> tables \<Rightarrow> transfer option" where
  "find_transfer i t = find_row (\<lambda>r. transfer_id r = i) (transfers t)"

definition find_by_key :: "string \<Rightarrow> tables \<Rightarrow> transfer option" where
  "find_by_key k t = find_row (\<lambda>r. idempotency_key r = k) (transfers t)"

section \<open>Operations that leave the tables alone, and all-or-nothing operations\<close>

definition readonly :: "'a op \<Rightarrow> bool" where
  "readonly m \<longleftrightarrow> (\<forall>s r s'. m s = (r, s') \<longrightarrow> db s' = db s)"

definition atomic :: "'a op \<Rightarrow> bool" where
  "atomic m \<longleftrightarrow> (\<forall>s e s'. m s = (Inl e, s') \<longrightarrow> db s' = db s)"

definition never_raises :: "'a op \<Rightarrow> bool" where
  "never_raises m \<longleftrightarrow> (\<forall>s e s'. m s \<noteq> (Inl e, s'))"

named_theorems op_intros \<open>operations that are read-only, all-or-nothing or never raise\<close>

lemma readonlyD: "readonly m \<Longrightarrow> m s = (r, s') \<Longrightarrow> db s' = db s"
  by (auto simp: readonly_def)

lemma atomicD: "atomic m \<Longrightarrow> m s = (Inl e, s') \<Longrightarrow> db s' = db s"
  by (auto simp: atomic_def)

lemma readonly_basic [op_intros]:
  "readonly (sret a)" "readonly (sraise e)" "readonly (slift r)" "readonly (sraise_if b e)"
  "readonly (sget f)" "readonly (draw g)" "readonly (db_call x)" "readonly (db_query x q)"
  by (auto simp: readonly_def svc_defs draw_def db_call_def db_query_def split: option.splits)

lemma readonly_sbind [op_intros]: "readonly m \<Longrightarrow> (\<And>a. readonly (f a)) \<Longrightarrow> readonly (sbind m f)"
  unfolding readonly_def sbind_def by (auto split: prod.splits sum.splits)

lemma readonly_sthen [op_intros]: "readonly m \<Longrightarrow> readonly k \<Longrightarrow> readonly (sthen m k)"
  unfolding sthen_def by (intro op_intros)

lemma readonly_if [op_intros]: "readonly m \<Longrightarrow> readonly k \<Longrightarrow> readonly (if b then m else k)"
  by simp

lemma readonly_option [op_intros]:
  "readonly m \<Longrightarrow> (\<And>a. readonly (f a)) \<Longrightarrow> readonly (case v of None \<Rightarrow> m | Some a \<Rightarrow> f a)"
  by (cases v) auto

lemma readonly_prod [op_intros]: "(\<And>a b. readonly (f a b)) \<Longrightarrow> readonly (case v of (a, b) \<Rightarrow> f a b)"
  by (cases v) auto

lemma never_raises_sret [op_intros]: "never_raises (sret a)"
  by (auto simp: never_raises_def sret_def)

lemma atomic_readonly [op_intros]: "readonly m \<Longrightarrow> atomic m"
  by (auto simp: atomic_def readonly_def)

lemma atomic_transaction [op_intros]: "atomic (transaction x m)"
  by (auto simp: atomic_def dest: transaction_Inl_db)

lemma atomic_sbind_readonly:
  "readonly m \<Longrightarrow> (\<And>a. atomic (f a)) \<Longrightarrow> atomic (sbind m f)"
  unfolding readonly_def atomic_def sbind_def by (auto split: prod.splits sum.splits)

lemma atomic_sthen_readonly: "readonly m \<Longrightarrow> atomic k \<Longrightarrow> atomic (sthen m k)"
  unfolding sthen_def by (rule atomic_sbind_readonly)

lemma atomic_sbind_total: "atomic m \<Longrightarrow> (\<And>a. never_raises (f a)) \<Longrightarrow> atomic (sbind m f)"
  unfolding never_raises_def atomic_def sbind_def by (auto split: prod.splits sum.splits)

lemma never_raises_prod [op_intros]:
  "(\<And>a b. never_raises (f a b)) \<Longrightarrow> never_raises (case v of (a, b) \<Rightarrow> f a b)"
  by (cases v) auto

lemma atomic_option [op_intros]:
  "atomic m \<Longrightarrow> (\<And>a. atomic (f a)) \<Longrightarrow> atomic (case v of None \<Rightarrow> m | Some a \<Rightarrow> f a)"
  by (cases v) auto

lemma atomic_if [op_intros]: "atomic m \<Longrightarrow> atomic k \<Longrightarrow> atomic (if b then m else k)"
  by simp

section \<open>What a successful write has done\<close>

lemma find_row_new:
  "key r' \<notin> key ` set rows \<Longrightarrow> find_row (\<lambda>q. key q = key r') (rows @ [r']) = Some r'"
  by (induction rows) auto

lemma put_opt_InrD:
  "put_opt x v = Inr w \<Longrightarrow>
     (v = None \<and> w = None) \<or> (\<exists>d d'. v = Some d \<and> w = Some d' \<and> put_numeric x 19 4 d = Inr d')"
  by (auto simp: put_opt_def rbind_Inr_iff split: option.splits)

lemma insert_audit_InrD:
  assumes "insert_audit x a t = Inr t'"
  obtains m where "put_opt x (al_amount a) = Inr m" "al_id a \<notin> al_id ` set (audit_log t)"
    "t' = t\<lparr>audit_log := audit_log t @ [a\<lparr>al_amount := m\<rparr>]\<rparr>"
  using assms by (auto simp: insert_audit_def rcheck_Inr_iff rbind_Inr_iff)

lemma insert_transfer_InrD:
  assumes "insert_transfer x r t = Inr t'"
  obtains sa da er sf rf su where
    "put_numeric x 19 4 (source_amount r) = Inr sa"
    "put_numeric x 19 4 (destination_amount r) = Inr da"
    "put_numeric x 20 8 (exchange_rate r) = Inr er"
    "put_opt x (sending_fee r) = Inr sf" "put_opt x (receiving_fee r) = Inr rf"
    "put_opt x (source_amount_usd r) = Inr su"
    "transfer_id r \<notin> transfer_id ` set (transfers t)"
    "idempotency_key r \<notin> idempotency_key ` set (transfers t)"
    "t' = t\<lparr>transfers := transfers t @ [r\<lparr>source_amount := sa, destination_amount := da,
        exchange_rate := er, sending_fee := sf, receiving_fee := rf, source_amount_usd := su\<rparr>]\<rparr>"
  using assms by (auto simp: insert_transfer_def rcheck_Inr_iff rbind_Inr_iff)

lemma insert_account_InrD:
  assumes "insert_account x a t = Inr t'"
  obtains b where "put_numeric x 19 4 (balance a) = Inr b" "acc_id a \<notin> acc_id ` set (accounts t)"
    "account_number a \<notin> account_number ` set (accounts t)"
    "t' = t\<lparr>accounts := accounts t @ [a\<lparr>balance := b\<rparr>]\<rparr>"
  using assms by (auto simp: insert_account_def rcheck_Inr_iff rbind_Inr_iff)

lemma insert_notification_InrD:
  assumes "insert_notification x n t = Inr t'"
  obtains sa na where "put_numeric x 19 4 (nt_source_amount n) = Inr sa"
    "put_numeric x 19 4 (net_credited_amount n) = Inr na" "nt_id n \<notin> nt_id ` set (notifications t)"
    "nt_transfer_id n \<in> transfer_id ` set (transfers t)"
    "t' = t\<lparr>notifications := notifications t @ [n\<lparr>nt_source_amount := sa, net_credited_amount := na\<rparr>]\<rparr>"
  using assms by (auto simp: insert_notification_def rcheck_Inr_iff rbind_Inr_iff split: if_splits)

lemma places_dexp: "- int s \<le> dexp d \<Longrightarrow> places s d"
  using dval_scaled[of "- int s" d] by (auto simp: places_def)

lemma places_rescale:
  assumes "places s d" shows "dval (rescale r (- int s) d) = dval d"
proof -
  obtain c where c: "dval d = of_int c * 10 powi (- int s)" using assms by (auto simp: places_def)
  let ?q = "coeff (rescale r (- int s) d)"
  have p: "(0::rat) < 10 powi (- int s)" by (simp add: power_int_def)
  have q: "dval (rescale r (- int s) d) = of_int ?q * 10 powi (- int s)" by (simp add: dval_def)
  have "dval (rescale r (- int s) d) - dval d = of_int (?q - c) * 10 powi (- int s)"
    by (simp add: q c left_diff_distrib)
  with rescale_error[of r "- int s" d] p have "2 * \<bar>of_int (?q - c) :: rat\<bar> \<le> 1"
    by (simp add: abs_mult)
  then have "\<bar>?q - c\<bar> * 2 \<le> 1" by linarith
  then have "?q = c" by presburger
  then show ?thesis by (simp add: q c)
qed

lemma numeric_lawD:
  "numeric_law x \<Longrightarrow> put_numeric x p s d = Inr d' \<Longrightarrow> dexp d' = - int s"
  "numeric_law x \<Longrightarrow> put_numeric x p s d = Inr d' \<Longrightarrow> \<bar>coeff d'\<bar> < 10 ^ p"
  "numeric_law x \<Longrightarrow> put_numeric x p s d = Inr d' \<Longrightarrow> - int s \<le> dexp d \<Longrightarrow> dval d' = dval d"
  "numeric_law x \<Longrightarrow> put_numeric x p s d = Inr d' \<Longrightarrow> places s d \<Longrightarrow> dval d' = dval d"
  unfolding numeric_law_def using places_dexp by blast+

text \<open>\<open>q\<close> is what the table holds of the row \<open>r\<close> once it is written: \<open>r\<close> with its amounts as stored.\<close>


definition transfer_stored :: "ext \<Rightarrow> transfer \<Rightarrow> transfer \<Rightarrow> bool" where
  "transfer_stored x r q \<longleftrightarrow>
     put_numeric x 19 4 (source_amount r) = Inr (source_amount q) \<and>
     put_numeric x 19 4 (destination_amount r) = Inr (destination_amount q) \<and>
     put_numeric x 20 8 (exchange_rate r) = Inr (exchange_rate q) \<and>
     put_opt x (sending_fee r) = Inr (sending_fee q) \<and>
     put_opt x (receiving_fee r) = Inr (receiving_fee q) \<and>
     put_opt x (source_amount_usd r) = Inr (source_amount_usd q) \<and>
     q = r\<lparr>source_amount := source_amount q, destination_amount := destination_amount q,
           exchange_rate := exchange_rate q, sending_fee := sending_fee q,
           receiving_fee := receiving_fee q, source_amount_usd := source_amount_usd q\<rparr>"

lemma insert_transfer_stored:
  assumes "insert_transfer x r t = Inr t'"
  obtains q where "transfer_stored x r q" "transfer_id r \<notin> transfer_id ` set (transfers t)"
    "idempotency_key r \<notin> idempotency_key ` set (transfers t)"
    "t' = t\<lparr>transfers := transfers t @ [q]\<rparr>"
proof -
  from assms obtain sa da er sf rf su where w: 
    "put_numeric x 19 4 (source_amount r) = Inr sa"
    "put_numeric x 19 4 (destination_amount r) = Inr da"
    "put_numeric x 20 8 (exchange_rate r) = Inr er"
    "put_opt x (sending_fee r) = Inr sf" "put_opt x (receiving_fee r) = Inr rf"
    "put_opt x (source_amount_usd r) = Inr su"
    "transfer_id r \<notin> transfer_id ` set (transfers t)"
    "idempotency_key r \<notin> idempotency_key ` set (transfers t)"
    "t' = t\<lparr>transfers := transfers t @ [r\<lparr>source_amount := sa, destination_amount := da,
        exchange_rate := er, sending_fee := sf, receiving_fee := rf, source_amount_usd := su\<rparr>]\<rparr>"
    by (rule insert_transfer_InrD)
  show thesis by (rule that[OF _ w(7,8,9)]) (simp add: transfer_stored_def w(1-6))
qed

lemma transfer_stored_fields:
  assumes "transfer_stored x r q"
  shows "transfer_id q = transfer_id r" "idempotency_key q = idempotency_key r" "source_account_number q = source_account_number r"
   "destination_account_number q = destination_account_number r" "source_currency q = source_currency r"
   "destination_currency q = destination_currency r" "tr_status q = tr_status r" "failure_reason q = failure_reason r"
   "transfer_type q = transfer_type r" "caller_id q = caller_id r" "tr_created_at q = tr_created_at r"
   "fx_snapshot_id q = fx_snapshot_id r"
proof -
  obtain a b c d e f where "q = r\<lparr>source_amount := a, destination_amount := b,
           exchange_rate := c, sending_fee := d,
           receiving_fee := e, source_amount_usd := f\<rparr>" using assms unfolding transfer_stored_def by blast
  then show "transfer_id q = transfer_id r" "idempotency_key q = idempotency_key r" "source_account_number q = source_account_number r"
   "destination_account_number q = destination_account_number r" "source_currency q = source_currency r"
   "destination_currency q = destination_currency r" "tr_status q = tr_status r" "failure_reason q = failure_reason r"
   "transfer_type q = transfer_type r" "caller_id q = caller_id r" "tr_created_at q = tr_created_at r"
   "fx_snapshot_id q = fx_snapshot_id r" by simp_all
qed

lemma flush_transfer_InrD:
  assumes "db_flush x (\<lambda>now. insert_transfer x (R now)) s = (Inr u, s')"
  obtains q now where "transfer_stored x (R now) q" "transfer_id (R now) \<notin> transfer_id ` set (transfers (db s))"
    "idempotency_key (R now) \<notin> idempotency_key ` set (transfers (db s))"
    "db s' = (db s)\<lparr>transfers := transfers (db s) @ [q]\<rparr>" "status_metric s' = status_metric s" 
proof -
  from assms obtain t where t: "insert_transfer x (R (db_now x (Suc (tick s)))) (db s) = Inr t"
     "s' = s\<lparr>db := t, tick := Suc (tick s), in_tx := True\<rparr>"
    unfolding db_flush_Inr_iff by blast
  from t(1) obtain q where "transfer_stored x (R (db_now x (Suc (tick s)))) q" "transfer_id (R (db_now x (Suc (tick s)))) \<notin> transfer_id ` set (transfers (db s))"
    "idempotency_key (R (db_now x (Suc (tick s)))) \<notin> idempotency_key ` set (transfers (db s))" "t = (db s)\<lparr>transfers := transfers (db s) @ [q]\<rparr>"
    by (rule insert_transfer_stored)
  then show thesis using t(2) by (intro that[of "db_now x (Suc (tick s))" q]) simp_all
qed

lemma find_transfer_new:
  "transfer_id q \<notin> transfer_id ` set (transfers t) \<Longrightarrow> find_transfer (transfer_id q) (t\<lparr>transfers := transfers t @ [q]\<rparr>) = Some q"
  unfolding find_transfer_def by (simp add: find_row_new)

section \<open>The invariant of the tables\<close>

text \<open>
  What the schema and the operations keep: keys are unique, money columns hold values of their
  scale and range, a closed account is empty, a notification belongs to a transfer.
\<close>

definition fits :: "nat \<Rightarrow> nat \<Rightarrow> decimal \<Rightarrow> bool" where
  "fits p s d \<longleftrightarrow> dexp d = - int s \<and> \<bar>coeff d\<bar> < 10 ^ p"

definition good_account :: "account \<Rightarrow> bool" where
  "good_account a \<longleftrightarrow> fits 19 4 (balance a) \<and> (acc_status a = closed \<longrightarrow> coeff (balance a) = 0)"

definition good_transfer :: "transfer \<Rightarrow> bool" where
  "good_transfer r \<longleftrightarrow>
     fits 19 4 (source_amount r) \<and> fits 19 4 (destination_amount r) \<and> fits 20 8 (exchange_rate r)"

definition ledger_inv :: "tables \<Rightarrow> bool" where
  "ledger_inv t \<longleftrightarrow>
     distinct (map account_number (accounts t)) \<and> distinct (map acc_id (accounts t)) \<and>
     list_all good_account (accounts t) \<and>
     distinct (map transfer_id (transfers t)) \<and> distinct (map idempotency_key (transfers t)) \<and>
     list_all good_transfer (transfers t) \<and>
     list_all (\<lambda>n. nt_transfer_id n \<in> transfer_id ` set (transfers t)) (notifications t)"

lemma put_numeric_fits: "numeric_law x \<Longrightarrow> put_numeric x p s d = Inr d' \<Longrightarrow> fits p s d'"
  by (simp add: fits_def numeric_lawD)

lemma distinct_map_unique:
  "distinct (map f rows) \<Longrightarrow> r \<in> set rows \<Longrightarrow> q \<in> set rows \<Longrightarrow> f r = f q \<Longrightarrow> r = q"
  by (auto simp: distinct_map inj_on_def)

lemma find_row_iff:
  "distinct (map key rows) \<Longrightarrow> find_row (\<lambda>q. key q = k) rows = Some r \<longleftrightarrow> r \<in> set rows \<and> key r = k"
  by (auto dest: find_row_SomeD distinct_map_unique simp: find_row_None_iff
      intro: distinct_map_unique split: option.splits)
    (metis (mono_tags, lifting) distinct_map_unique find_row_None_iff find_row_SomeD not_None_eq)

lemma list_all_update_rows:
  "list_all P rows \<Longrightarrow> (\<And>r. r \<in> set rows \<Longrightarrow> p r \<Longrightarrow> P r \<Longrightarrow> P (f r)) \<Longrightarrow> list_all P (update_rows p f rows)"
  by (induction rows) auto

lemma ledger_inv_other [simp]:
  "ledger_inv (t\<lparr>audit_log := l\<rparr>) = ledger_inv t"
  "ledger_inv (t\<lparr>fx_rate_snapshots := fs\<rparr>) = ledger_inv t"
  "ledger_inv (t\<lparr>currency_pairs := ps\<rparr>) = ledger_inv t"
  by (simp_all add: ledger_inv_def)

lemma ledger_inv_new_account:
  assumes "ledger_inv t" "fits 19 4 (balance a)" "acc_status a = active"
    "acc_id a \<notin> acc_id ` set (accounts t)" "account_number a \<notin> account_number ` set (accounts t)"
  shows "ledger_inv (t\<lparr>accounts := accounts t @ [a]\<rparr>)"
  using assms by (auto simp: ledger_inv_def good_account_def)

lemma ledger_inv_update_accounts:
  assumes "ledger_inv t" "find_account n t = Some a"
    "\<And>r. account_number (f r) = account_number r \<and> acc_id (f r) = acc_id r" "good_account (f a)"
  shows "ledger_inv (t\<lparr>accounts := update_rows (\<lambda>r. account_number r = n) f (accounts t)\<rparr>)"
proof -
  have "list_all good_account (update_rows (\<lambda>r. account_number r = n) f (accounts t))"
  proof (rule list_all_update_rows)
    fix r assume "r \<in> set (accounts t)" "account_number r = n"
    moreover have "a \<in> set (accounts t)" "account_number a = n"
      using find_row_SomeD assms(2) unfolding find_account_def by fast+
    moreover have "distinct (map account_number (accounts t))" using assms(1) by (simp add: ledger_inv_def)
    ultimately have "r = a" using distinct_map_unique by metis
    with assms(4) show "good_account (f r)" by simp
  qed (use assms(1) in \<open>simp add: ledger_inv_def\<close>)
  with assms(1,3) show ?thesis by (simp add: ledger_inv_def map_update_rows)
qed

lemma ledger_inv_append_transfer:
  assumes "ledger_inv t" "good_transfer q" "transfer_id q \<notin> transfer_id ` set (transfers t)"
    "idempotency_key q \<notin> idempotency_key ` set (transfers t)"
  shows "ledger_inv (t\<lparr>transfers := transfers t @ [q]\<rparr>)"
  using assms by (auto simp: ledger_inv_def list_all_iff)

lemma ledger_inv_update_transfers:
  assumes "ledger_inv t"
    "\<And>r. transfer_id (f r) = transfer_id r \<and> idempotency_key (f r) = idempotency_key r"
    "\<And>r. p r \<Longrightarrow> good_transfer r \<Longrightarrow> good_transfer (f r)"
  shows "ledger_inv (t\<lparr>transfers := update_rows p f (transfers t)\<rparr>)"
proof -
  have "transfer_id ` set (update_rows p f (transfers t)) = transfer_id ` set (transfers t)"
    using arg_cong[OF map_update_rows[of p transfer_id f "transfers t"], of set] assms(2) by simp
  moreover have "list_all good_transfer (update_rows p f (transfers t))"
    using assms(1,3) by (intro list_all_update_rows) (simp_all add: ledger_inv_def)
  ultimately show ?thesis using assms(1,2) by (simp add: ledger_inv_def map_update_rows)
qed

lemma ledger_inv_notifications:
  "ledger_inv t \<Longrightarrow> list_all (\<lambda>n. nt_transfer_id n \<in> transfer_id ` set (transfers t)) ns \<Longrightarrow>
     ledger_inv (t\<lparr>notifications := ns\<rparr>)"
  by (simp add: ledger_inv_def)

section \<open>Balances\<close>

definition balance_of :: "string \<Rightarrow> tables \<Rightarrow> rat" where
  "balance_of n t = (case find_account n t of None \<Rightarrow> 0 | Some a \<Rightarrow> dval (balance a))"

definition holdings :: "string \<Rightarrow> tables \<Rightarrow> rat" where
  "holdings cur t = sum_list (map (\<lambda>a. dval (balance a)) (List.filter (\<lambda>a. currency a = cur) (accounts t)))"

lemma sum_list_update_row:
  fixes g :: "'r \<Rightarrow> rat"
  assumes "distinct (map key rows)" "find_row (\<lambda>q. key q = k) rows = Some r"
  shows "sum_list (map g (update_rows (\<lambda>q. key q = k) f rows)) = sum_list (map g rows) - g r + g (f r)"
  using assms
proof (induction rows)
  case (Cons q rows)
  show ?case
  proof (cases "key q = k")
    case True
    have "update_rows (\<lambda>q. key q = k) f rows = rows"
    proof (rule update_rows_id)
      fix p assume "p \<in> set rows" "key p = k"
      then have "k \<in> key ` set rows" by blast
      with True Cons.prems(1) show "f p = p" by simp
    qed
    with True Cons.prems show ?thesis by simp
  next
    case False
    with Cons show ?thesis by simp
  qed
qed simp

lemma holdings_sum: "holdings cur t = sum_list (map (\<lambda>a. if currency a = cur then dval (balance a) else 0) (accounts t))"
proof -
  have "sum_list (map (\<lambda>a. dval (balance a)) (List.filter (\<lambda>a. currency a = cur) as)) =
     sum_list (map (\<lambda>a. if currency a = cur then dval (balance a) else 0) as)" for as :: "account list"
    by (induction as) simp_all
  then show ?thesis by (simp add: holdings_def)
qed

lemma scaled_same: "scaled (dexp d) d = coeff d"
  by (cases d) simp

text \<open>Taking from a stored balance no more than it holds, adding to it a stored amount: exact.\<close>

lemma debit_exact:
  assumes "fits 19 4 b" "- 4 \<le> dexp a" "0 \<le> dval a" "dval a \<le> dval b"
  shows "dval (dsub b a) = dval b - dval a" "dexp (dsub b a) = - 4"
proof -
  have e: "dexp b = - 4" "min (dexp b) (dexp a) = - 4" "\<bar>coeff b\<bar> < 10 ^ 19"
    using assms(1,2) by (simp_all add: fits_def)
  have p: "(0::rat) < 10 powi (- 4)" by (simp add: power_int_def)
  have sb: "scaled (- 4) b = coeff b" using scaled_same[of b] e by simp
  have "dval b = of_int (coeff b) * 10 powi (- 4)" "dval a = of_int (scaled (- 4) a) * 10 powi (- 4)"
    using dval_scaled[of "- 4" a] assms(2) e(1) by (simp_all add: dval_def)
  then have "0 \<le> scaled (- 4) a" "scaled (- 4) a \<le> coeff b"
    using assms(3,4) p by (simp_all add: zero_le_mult_iff)
  with e sb have "\<bar>scaled (min (dexp b) (dexp a)) b - scaled (min (dexp b) (dexp a)) a\<bar> < 10 ^ 28" by simp
  from dsub_exact[OF this] e show "dval (dsub b a) = dval b - dval a" "dexp (dsub b a) = - 4" by simp_all
qed

lemma credit_exact:
  assumes "fits 19 4 b" "fits 19 4 a"
  shows "dval (dadd b a) = dval b + dval a" "dexp (dadd b a) = - 4"
proof -
  have e: "dexp b = - 4" "dexp a = - 4" "min (dexp b) (dexp a) = - 4" "\<bar>coeff b\<bar> < 10 ^ 19" "\<bar>coeff a\<bar> < 10 ^ 19"
    using assms by (simp_all add: fits_def)
  have "\<bar>scaled (min (dexp b) (dexp a)) b + scaled (min (dexp b) (dexp a)) a\<bar> < 10 ^ 28"
    using e scaled_same[of b] scaled_same[of a] by simp
  from dadd_exact[OF this] e show "dval (dadd b a) = dval b + dval a" "dexp (dadd b a) = - 4" by simp_all
qed

lemma fits_unique: "fits p s d \<Longrightarrow> fits q s d' \<Longrightarrow> dval d = dval d' \<Longrightarrow> d = d'"
  by (cases d; cases d') (simp add: fits_def dval_def)

section \<open>Sample environments\<close>

text \<open>
  Concrete environments the witnesses run in: numeric columns round half up to their scale and refuse
  what does not fit; \<open>strict_env\<close> enforces the length of string columns as PostgreSQL does,
  \<open>lenient_env\<close> does not, as SQLite. Nothing fails by itself.
\<close>

definition round_numeric :: "nat \<Rightarrow> nat \<Rightarrow> decimal \<Rightarrow> exn + decimal" where
  "round_numeric p s d =
     (let q = rescale ROUND_HALF_UP (- int s) d in
      if \<bar>coeff q\<bar> < 10 ^ p then Inr q else Inl (DbError ''DataError'' ''numeric field overflow''))"

definition lenient_env :: ext where
  "lenient_env =
     \<lparr>uuid4 = (\<lambda>n. ''id-'' @ show_int (int n)), utcnow = (\<lambda>n. int n), db_now = (\<lambda>n. int n),
      random_suffix = (\<lambda>n. show_int (int n)), db_fails = (\<lambda>_. None), begin_exn = (\<lambda>_. None),
      put_numeric = round_numeric, string_exn = (\<lambda>_ _. None), sha256 = (\<lambda>t. t),
      isoformat = show_int\<rparr>"

definition strict_env :: ext where
  "strict_env = lenient_env\<lparr>string_exn :=
     (\<lambda>n t. if length t \<le> n then None else Some (DbError ''DataError'' ''value too long''))\<rparr>"

lemma numeric_law_round: "put_numeric x = round_numeric \<Longrightarrow> numeric_law x"
  by (auto simp: numeric_law_def round_numeric_def Let_def places_rescale split: if_splits)

lemma sample_numeric_law [simp]: "numeric_law lenient_env" "numeric_law strict_env"
  by (rule numeric_law_round, simp add: lenient_env_def strict_env_def)+

text \<open>In the sample environments no round trip and no \<open>begin\<close> fails.\<close>

lemma sample_env [simp]:
  "db_fails lenient_env n = None" "begin_exn lenient_env b = None"
  "db_fails strict_env n = None" "begin_exn strict_env b = None"
  by (simp_all add: lenient_env_def strict_env_def)

definition open_session :: "tables \<Rightarrow> session" where
  "open_session t = \<lparr>db = t, in_tx = False, tick = 0, status_metric = []\<rparr>"

definition empty_tables :: tables where
  "empty_tables = \<lparr>accounts = [], transfers = [], audit_log = [], notifications = [],
     fx_rate_snapshots = [], currency_pairs = []\<rparr>"

definition sample_account :: "string \<Rightarrow> string \<Rightarrow> string \<Rightarrow> decimal \<Rightarrow> account" where
  "sample_account n owner cur b =
     \<lparr>acc_id = n, account_number = n, owner_id = owner, currency = cur, balance = b, acc_status = active,
      owner_pii_hash = None, acc_created_at = 0, acc_updated_at = None\<rparr>"

lemma debit_coeff:
  assumes "fits 19 4 b" "- 4 \<le> dexp a" "0 \<le> dval a" "dval a \<le> dval b"
  shows "\<bar>scaled (- 4) a\<bar> < 10 ^ 19"
proof -
  have p: "(0::rat) < 10 powi (- 4)" by (simp add: power_int_def)
  have "dval b = of_int (coeff b) * 10 powi (- 4)" "dval a = of_int (scaled (- 4) a) * 10 powi (- 4)"
    using dval_scaled[of "- 4" a] assms(1,2) by (simp_all add: dval_def fits_def)
  then have "0 \<le> scaled (- 4) a" "scaled (- 4) a \<le> coeff b"
    using assms(3,4) p by (simp_all add: zero_le_mult_iff)
  with assms(1) show ?thesis by (simp add: fits_def)
qed

lemma coeff_le_scaled: "e \<le> dexp a \<Longrightarrow> \<bar>coeff a\<bar> \<le> \<bar>scaled e a\<bar>"
  by (cases a) (simp add: abs_mult mult_le_cancel_left1)

end
