(* ===== verification/Accounts.thy ===== *)
theory Accounts
  imports FxProviders
begin

text \<open>
  Who may do what (\<open>core/security.py\<close>, \<open>api/middleware/auth.py\<close>) and the account component:
  \<open>schemas/account.py\<close>, \<open>repositories/account_repository.py\<close>, \<open>services/account_service.py\<close>.
\<close>

section \<open>Principals\<close>

text \<open>The verified claims of a token; \<open>validate\<close> stands for the JWT library's check.\<close>

type_synonym claims = "(string, string) dict"

definition is_operator :: "claims \<Rightarrow> bool" where
  "is_operator c \<longleftrightarrow> map_of c ''role'' = Some ''operator''"

definition get_current_user ::
  "(string \<Rightarrow> (exn, claims) res) \<Rightarrow> string option \<Rightarrow> (exn, claims) res" where
  "get_current_user validate credentials =
     (case credentials of
        None \<Rightarrow> Inl (HTTPException 401 ''UNAUTHORIZED'' ''Authentication required.'')
      | Some tok \<Rightarrow>
          (case validate tok of
             Inr c \<Rightarrow> Inr c
           | Inl _ \<Rightarrow> Inl (HTTPException 401 ''UNAUTHORIZED'' ''Invalid or expired token.'')))"

definition require_owner_or_operator :: "string \<Rightarrow> claims \<Rightarrow> exn option" where
  "require_owner_or_operator owner c =
     (if map_of c ''sub'' \<noteq> Some owner \<and> \<not> is_operator c
      then Some (fail ForbiddenError ''You are not authorized to access this account.'') else None)"

text \<open>\<open>auth_principal.get("sub", "unknown")\<close>.\<close>

definition actor_of :: "claims \<Rightarrow> string" where
  "actor_of c = (case map_of c ''sub'' of Some s \<Rightarrow> s | None \<Rightarrow> ''unknown'')"

section \<open>Requests and responses\<close>

record create_account_request =
  req_owner_id :: string
  req_currency :: string
  req_opening_balance :: decimal

definition upper_char :: "char \<Rightarrow> char" where
  "upper_char c =
     (let n = (of_char c :: int) in if 97 \<le> n \<and> n \<le> 122 then char_of (n - 32) else c)"

definition upper :: "string \<Rightarrow> string" where
  "upper s = map upper_char s"

text \<open>
  The request model: the balance validator, the two length constraints. All fields are
  validated; a \<open>ValueError\<close> rejects the request, an \<open>InvalidOperation\<close> of the validator's
  \<open>quantize\<close> is not one and propagates.
\<close>

definition validate_opening_balance :: "decimal \<Rightarrow> (exn, decimal) res" where
  "validate_opening_balance v =
     (if dlt v dzero
      then Inl (ValueError ''Opening balance must be greater than or equal to zero.'')
      else rbind (quantize_or_raise ROUND_HALF_EVEN v) (\<lambda>q.
        if \<not> deq v q
        then Inl (ValueError ''Opening balance must have at most 4 decimal places.'')
        else Inr v))"

definition validate_create_account ::
  "string \<Rightarrow> string \<Rightarrow> decimal \<Rightarrow> (exn, create_account_request) res" where
  "validate_create_account owner cur bal =
     (let b = validate_opening_balance bal in
      if b = Inl InvalidOperation then Inl InvalidOperation
      else if length owner < 1 \<or> 255 < length owner then Inl (ValueError ''owner_id'')
      else if length cur \<noteq> 3 then Inl (ValueError ''currency'')
      else rbind b (\<lambda>v.
        Inr \<lparr>req_owner_id = owner, req_currency = upper cur, req_opening_balance = v\<rparr>))"

record account_response =
  resp_account_number :: string
  resp_owner_id :: string
  resp_currency :: string
  resp_balance :: string
  resp_status :: string
  resp_created_at :: string
  resp_updated_at :: "string option"

definition from_orm_account :: "ext \<Rightarrow> account \<Rightarrow> account_response" where
  "from_orm_account x a =
     \<lparr>resp_account_number = account_number a, resp_owner_id = owner_id a, resp_currency = currency a,
      resp_balance = format_fixed 4 (balance a), resp_status = account_status_value (acc_status a),
      resp_created_at = isoformat x (acc_created_at a),
      resp_updated_at = map_option (isoformat x) (acc_updated_at a)\<rparr>"

section \<open>The repository\<close>

definition generate_account_number :: "ext \<Rightarrow> string op" where
  "generate_account_number x = sbind (draw (random_suffix x)) (\<lambda>suffix. sret (''ACCT-'' @ suffix))"

text \<open>
  \<open>for _ in range(n)\<close>: stop at the first free number; after the last round its number is used,
  free or not.
\<close>

fun pick_account_number :: "ext \<Rightarrow> nat \<Rightarrow> string \<Rightarrow> string op" where
  "pick_account_number x 0 number = sret number"
| "pick_account_number x (Suc n) number =
     sbind (generate_account_number x) (\<lambda>num.
     sbind (db_query x (find_account num)) (\<lambda>existing.
     if existing = None then sret num else pick_account_number x n num))"

text \<open>\<open>session.refresh(row)\<close>: read the row again by its primary key.\<close>

definition refresh_account :: "ext \<Rightarrow> uuid \<Rightarrow> account op" where
  "refresh_account x i =
     sbind (db_query x (\<lambda>t. find_row (\<lambda>a. acc_id a = i) (accounts t))) (\<lambda>r.
     case r of None \<Rightarrow> sraise (OtherError ''InvalidRequestError'' i) | Some a \<Rightarrow> sret a)"

text \<open>The two rows of a creation.\<close>

definition new_account :: "uuid \<Rightarrow> string \<Rightarrow> string \<Rightarrow> string \<Rightarrow> decimal \<Rightarrow> time \<Rightarrow> account" where
  "new_account aid num owner cur bal now =
     \<lparr>acc_id = aid, account_number = num, owner_id = owner, currency = cur, balance = bal,
      acc_status = active, owner_pii_hash = None, acc_created_at = now, acc_updated_at = None\<rparr>"

definition created_audit ::
  "uuid \<Rightarrow> string \<Rightarrow> string \<Rightarrow> string \<Rightarrow> decimal \<Rightarrow> string \<Rightarrow> string option \<Rightarrow> time \<Rightarrow> audit_entry" where
  "created_audit lid num owner cur bal actor rid now =
     \<lparr>al_id = lid, operation_type = account_created, actor_identity = actor,
      affected_account_numbers = [num], al_amount = Some bal, al_currency = Some cur,
      outcome = ''success'', detail = [(''owner_id'', Some owner)], al_timestamp = now,
      request_id = rid\<rparr>"

definition repo_create_account ::
  "ext \<Rightarrow> string \<Rightarrow> string \<Rightarrow> decimal \<Rightarrow> string \<Rightarrow> string option \<Rightarrow> account op" where
  "repo_create_account x owner cur bal actor rid =
     sbind (pick_account_number x 10 '''') (\<lambda>num.
     sbind (draw (uuid4 x)) (\<lambda>aid.
     sbind (draw (uuid4 x)) (\<lambda>lid.
     sthen (db_flush x (\<lambda>now t.
       rbind (insert_account x (new_account aid num owner cur bal now) t)
       (insert_audit x (created_audit lid num owner cur bal actor rid now))))
     (refresh_account x aid))))"

definition get_by_account_number :: "ext \<Rightarrow> string \<Rightarrow> account option op" where
  "get_by_account_number x n = db_query x (find_account n)"

definition get_active_by_account_number :: "ext \<Rightarrow> string \<Rightarrow> account op" where
  "get_active_by_account_number x n =
     sbind (db_query x (\<lambda>t. find_row (\<lambda>a. account_number a = n \<and> acc_status a = active) (accounts t)))
     (\<lambda>r. case r of
        None \<Rightarrow> sraise (fail_code NotFoundError
                  (''Account '' @ n @ '' does not exist or is closed.'') ''ACCOUNT_NOT_FOUND'')
      | Some a \<Rightarrow> sret a)"

text \<open>Close the row and overwrite the owner; the checks of the two columns written.\<close>

definition close_account :: "ext \<Rightarrow> string \<Rightarrow> string \<Rightarrow> time \<Rightarrow> tables \<Rightarrow> (exn, tables) res" where
  "close_account x n owner_hash now t =
     rcheck (string_exn x 64 owner_hash)
    (rcheck (string_exn x 255 (''ANONYMIZED-'' @ take 16 owner_hash))
    (Inr (t\<lparr>accounts := update_rows (\<lambda>r. account_number r = n)
       (\<lambda>r. r\<lparr>acc_status := closed, owner_pii_hash := Some owner_hash,
              owner_id := ''ANONYMIZED-'' @ take 16 owner_hash, acc_updated_at := Some now\<rparr>)
       (accounts t)\<rparr>)))"

definition deleted_audit ::
  "uuid \<Rightarrow> string \<Rightarrow> account \<Rightarrow> string \<Rightarrow> string \<Rightarrow> string option \<Rightarrow> time \<Rightarrow> audit_entry" where
  "deleted_audit lid n a owner_hash actor rid now =
     \<lparr>al_id = lid, operation_type = account_deleted, actor_identity = actor,
      affected_account_numbers = [n], al_amount = None, al_currency = Some (currency a),
      outcome = ''success'', detail = [(''owner_pii_hash'', Some owner_hash)],
      al_timestamp = now, request_id = rid\<rparr>"

definition repo_delete_account :: "ext \<Rightarrow> string \<Rightarrow> string \<Rightarrow> string option \<Rightarrow> unit op" where
  "repo_delete_account x n actor rid =
     sbind (db_query x (find_account n)) (\<lambda>r.
     case r of
       None \<Rightarrow> sraise (fail_code NotFoundError (''Account '' @ n @ '' does not exist.'') ''ACCOUNT_NOT_FOUND'')
     | Some a \<Rightarrow>
         sthen (sraise_if (acc_status a = closed)
           (fail_code NotFoundError (''Account '' @ n @ '' does not exist.'') ''ACCOUNT_NOT_FOUND''))
        (sthen (sraise_if (\<not> deq (balance a) dzero)
           (fail_code AccountHasBalanceError
             (''Account cannot be closed while it has a non-zero balance (current: '' @
              format_fixed 4 (balance a) @ '' '' @ currency a @ '').'') ''ACCOUNT_HAS_BALANCE''))
        (let owner_hash = sha256 x (owner_id a) in
         sbind (draw (uuid4 x)) (\<lambda>lid.
         db_flush x (\<lambda>now t.
           rbind (close_account x n owner_hash now t)
           (insert_audit x (deleted_audit lid n a owner_hash actor rid now)))))))"

section \<open>The service\<close>

definition create_account ::
  "ext \<Rightarrow> exchange_rate_config \<Rightarrow> create_account_request \<Rightarrow> string \<Rightarrow> string option \<Rightarrow> account_response op" where
  "create_account x cfg req actor rid =
     sthen (slift (rcheck (validate_currency cfg (req_currency req)) (Inr ())))
    (sthen (sraise_if (dlt (req_opening_balance req) dzero)
       (fail ValidationError ''Opening balance must be greater than or equal to zero.''))
    (sbind (transaction x
       (repo_create_account x (req_owner_id req) (req_currency req) (req_opening_balance req) actor rid))
    (\<lambda>a. sret (from_orm_account x a))))"

definition get_account :: "ext \<Rightarrow> string \<Rightarrow> string \<Rightarrow> claims \<Rightarrow> account_response op" where
  "get_account x n actor c =
     sbind (get_active_by_account_number x n) (\<lambda>a.
     sthen (slift (rcheck (require_owner_or_operator (owner_id a) c) (Inr ())))
    (sret (from_orm_account x a)))"

definition delete_account :: "ext \<Rightarrow> string \<Rightarrow> string \<Rightarrow> claims \<Rightarrow> string option \<Rightarrow> unit op" where
  "delete_account x n actor c rid =
     sbind (get_active_by_account_number x n) (\<lambda>a.
     sthen (slift (rcheck (require_owner_or_operator (owner_id a) c) (Inr ())))
    (transaction x (repo_delete_account x n actor rid)))"

section \<open>Failures leave the tables alone\<close>

lemma readonly_get_active [op_intros]: "readonly (get_active_by_account_number x n)"
  by (simp add: get_active_by_account_number_def op_intros)

lemma atomic_accounts [op_intros]:
  "atomic (create_account x cfg req actor rid)" "atomic (get_account x n actor c)"
  "atomic (delete_account x n actor c rid)"
  unfolding create_account_def get_account_def delete_account_def
  by (intro atomic_sthen_readonly atomic_sbind_readonly op_intros atomic_sbind_total)+

section \<open>What a completed account operation has done\<close>

lemma readonly_pick [op_intros]: "readonly (pick_account_number x n num)"
  by (induction n arbitrary: num)
    (simp_all add: generate_account_number_def op_intros readonly_sbind readonly_if)

lemma insert_audit_tables:
  assumes "insert_audit x a t = Inr t'"
  obtains a' where "t' = t\<lparr>audit_log := audit_log t @ [a']\<rparr>" "operation_type a' = operation_type a"
    "affected_account_numbers a' = affected_account_numbers a" "actor_identity a' = actor_identity a"
    "detail a' = detail a" "outcome a' = outcome a"
proof -
  from assms obtain m where "t' = t\<lparr>audit_log := audit_log t @ [a\<lparr>al_amount := m\<rparr>]\<rparr>"
    by (rule insert_audit_InrD)
  then show thesis by (intro that[of "a\<lparr>al_amount := m\<rparr>"]) simp_all
qed

lemma refresh_account_InrD:
  "refresh_account x i s = (Inr a, s') \<Longrightarrow>
     find_row (\<lambda>r. acc_id r = i) (accounts (db s)) = Some a \<and> db s' = db s"
  unfolding refresh_account_def op_Inr_iff
  by (cases "find_row (\<lambda>r. acc_id r = i) (accounts (db s))") auto

lemma repo_create_account_InrD:
  assumes "repo_create_account x owner cur bal actor rid s = (Inr a, s')"
  obtains e s0 where "fst (pick_account_number x 10 '''' s) = Inr (account_number a)"
    "db s' = (db s)\<lparr>accounts := accounts (db s) @ [a], audit_log := audit_log (db s) @ [e]\<rparr>"
    "owner_id a = owner" "currency a = cur" "put_numeric x 19 4 bal = Inr (balance a)"
    "acc_status a = active" "owner_pii_hash a = None"
    "acc_id a \<notin> acc_id ` set (accounts (db s))"
    "account_number a \<notin> account_number ` set (accounts (db s))"
    "operation_type e = account_created" "affected_account_numbers e = [account_number a]"
    "actor_identity e = actor"
proof -
  from assms[unfolded repo_create_account_def sbind_Inr_iff sthen_Inr_iff] obtain num s1 aid s2 lid s3 u s4 where
    c: "pick_account_number x 10 '''' s = (Inr num, s1)" "draw (uuid4 x) s1 = (Inr aid, s2)"
    "draw (uuid4 x) s2 = (Inr lid, s3)"
    "db_flush x (\<lambda>now t.
       rbind (insert_account x (new_account aid num owner cur bal now) t)
       (insert_audit x (created_audit lid num owner cur bal actor rid now))) s3 = (Inr u, s4)"
    "refresh_account x aid s4 = (Inr a, s')" by blast
  from db_flush_InrD[OF c(4)] draw_InrD[OF c(2)] draw_InrD[OF c(3)] obtain now t where
    ins: "insert_account x (new_account aid num owner cur bal now) (db s1) = Inr t"
      "insert_audit x (created_audit lid num owner cur bal actor rid now) t = Inr (db s4)"
    by (auto simp: rbind_Inr_iff)
  have d1: "db s1 = db s" using readonlyD[OF readonly_pick c(1)] .
  from ins(1) obtain b where b: "put_numeric x 19 4 (balance (new_account aid num owner cur bal now)) = Inr b"
    "acc_id (new_account aid num owner cur bal now) \<notin> acc_id ` set (accounts (db s1))"
    "account_number (new_account aid num owner cur bal now) \<notin> account_number ` set (accounts (db s1))"
    "t = (db s1)\<lparr>accounts := accounts (db s1) @ [(new_account aid num owner cur bal now)\<lparr>balance := b\<rparr>]\<rparr>"
    by (rule insert_account_InrD)
  from ins(2) obtain e where e: "db s4 = t\<lparr>audit_log := audit_log t @ [e]\<rparr>"
    "operation_type e = operation_type (created_audit lid num owner cur bal actor rid now)"
    "affected_account_numbers e = affected_account_numbers (created_audit lid num owner cur bal actor rid now)"
    "actor_identity e = actor_identity (created_audit lid num owner cur bal actor rid now)"
    by (rule insert_audit_tables)
  let ?a = "(new_account aid num owner cur bal now)\<lparr>balance := b\<rparr>"
  have "find_row (\<lambda>r. acc_id r = acc_id ?a) (accounts (db s1) @ [?a]) = Some ?a"
    using b(2) by (intro find_row_new) simp
  with refresh_account_InrD[OF c(5)] have a: "a = ?a" "db s' = db s4"
    by (simp_all add: e b(4) new_account_def)
  show thesis
    by (rule that[of e]) (use a b e c(1) d1 in \<open>simp_all add: new_account_def created_audit_def\<close>)
qed

lemma repo_delete_account_InrD:
  assumes "repo_delete_account x n actor rid s = (Inr u, s')"
  obtains a now e where "find_account n (db s) = Some a" "acc_status a = active" "dval (balance a) = 0"
    "db s' = (db s)\<lparr>accounts := update_rows (\<lambda>r. account_number r = n)
       (\<lambda>r. r\<lparr>acc_status := closed, owner_pii_hash := Some (sha256 x (owner_id a)),
              owner_id := ''ANONYMIZED-'' @ take 16 (sha256 x (owner_id a)), acc_updated_at := Some now\<rparr>)
       (accounts (db s)), audit_log := audit_log (db s) @ [e]\<rparr>"
    "operation_type e = account_deleted" "actor_identity e = actor" "affected_account_numbers e = [n]"
proof -
  from assms obtain a where a: "find_account n (db s) = Some a"
    unfolding repo_delete_account_def sbind_Inr_iff db_query_Inr_iff by (cases "find_account n (db s)") auto
  from assms obtain lid now t t' where c: "acc_status a \<noteq> closed" "deq (balance a) dzero"
    "close_account x n (sha256 x (owner_id a)) now (db s) = Inr t"
    "insert_audit x (deleted_audit lid n a (sha256 x (owner_id a)) actor rid now) t = Inr t'" "db s' = t'"
    unfolding repo_delete_account_def sbind_Inr_iff db_query_Inr_iff
    by (auto simp: a op_Inr_iff rbind_Inr_iff Let_def)
  from c(4) obtain e where e: "t' = t\<lparr>audit_log := audit_log t @ [e]\<rparr>"
    "operation_type e = operation_type (deleted_audit lid n a (sha256 x (owner_id a)) actor rid now)"
    "affected_account_numbers e = affected_account_numbers (deleted_audit lid n a (sha256 x (owner_id a)) actor rid now)"
    "actor_identity e = actor_identity (deleted_audit lid n a (sha256 x (owner_id a)) actor rid now)"
    by (rule insert_audit_tables)
  have "acc_status a = active" using c(1) by (cases "acc_status a") simp_all
  moreover from c(3) have "t = (db s)\<lparr>accounts := update_rows (\<lambda>r. account_number r = n)
       (\<lambda>r. r\<lparr>acc_status := closed, owner_pii_hash := Some (sha256 x (owner_id a)),
              owner_id := ''ANONYMIZED-'' @ take 16 (sha256 x (owner_id a)), acc_updated_at := Some now\<rparr>)
       (accounts (db s))\<rparr>" by (simp add: close_account_def rcheck_Inr_iff)
  ultimately show thesis using c(2) e
    by (intro that[OF a, where now = now and e = e]) (simp_all add: deq_iff deleted_audit_def c(5))
qed

lemma create_account_InrD:
  assumes "create_account x cfg req actor rid s = (Inr r, s')"
  obtains a e s0 where "db s0 = db s" "fst (pick_account_number x 10 '''' s0) = Inr (account_number a)"
    "db s' = (db s)\<lparr>accounts := accounts (db s) @ [a], audit_log := audit_log (db s) @ [e]\<rparr>"
    "r = from_orm_account x a" "req_currency req \<in> set (supported_currencies cfg)"
    "0 \<le> dval (req_opening_balance req)"
    "owner_id a = req_owner_id req" "currency a = req_currency req"
    "put_numeric x 19 4 (req_opening_balance req) = Inr (balance a)"
    "acc_status a = active" "acc_id a \<notin> acc_id ` set (accounts (db s))"
    "account_number a \<notin> account_number ` set (accounts (db s))"
    "operation_type e = account_created" "affected_account_numbers e = [account_number a]"
    "actor_identity e = actor"
proof -
  from assms obtain a s1 where c: "validate_currency cfg (req_currency req) = None"
    "\<not> dlt (req_opening_balance req) dzero"
    "transaction x (repo_create_account x (req_owner_id req) (req_currency req) (req_opening_balance req) actor rid) s = (Inr a, s1)"
    "r = from_orm_account x a" "s' = s1"
    by (auto simp: create_account_def op_Inr_iff rcheck_Inr_iff)
  from transaction_InrD[OF c(3)] obtain s2 where
    b: "repo_create_account x (req_owner_id req) (req_currency req) (req_opening_balance req) actor rid (s\<lparr>in_tx := True\<rparr>) = (Inr a, s2)"
    and d: "db s' = db s2" using c(5) by auto
  have v: "req_currency req \<in> set (supported_currencies cfg)" "0 \<le> dval (req_opening_balance req)"
    using c(1,2) by (simp_all add: validate_currency_def dlt_iff split: if_splits)
  from b show thesis
    by (rule repo_create_account_InrD) (use that[of "s\<lparr>in_tx := True\<rparr>" a] c(4) d v in simp)
qed

lemma delete_account_InrD:
  assumes "delete_account x n actor c rid s = (Inr u, s')"
  obtains a b now e where "find_account n (db s) = Some a" "acc_status a = active" "dval (balance a) = 0"
    "require_owner_or_operator (owner_id b) c = None"
    "account_number b = n" "acc_status b = active" "b \<in> set (accounts (db s))"
    "db s' = (db s)\<lparr>accounts := update_rows (\<lambda>r. account_number r = n)
       (\<lambda>r. r\<lparr>acc_status := closed, owner_pii_hash := Some (sha256 x (owner_id a)),
              owner_id := ''ANONYMIZED-'' @ take 16 (sha256 x (owner_id a)), acc_updated_at := Some now\<rparr>)
       (accounts (db s)), audit_log := audit_log (db s) @ [e]\<rparr>"
    "operation_type e = account_deleted" "actor_identity e = actor" "affected_account_numbers e = [n]"
proof -
  let ?q = "find_row (\<lambda>a. account_number a = n \<and> acc_status a = active) (accounts (db s))"
  from assms obtain b where q: "?q = Some b"
    unfolding delete_account_def get_active_by_account_number_def sbind_Inr_iff db_query_Inr_iff by (cases ?q) auto
  then have b: "account_number b = n" "acc_status b = active" "b \<in> set (accounts (db s))"
    by (auto dest: find_row_SomeD)
  let ?s1 = "s\<lparr>tick := Suc (tick s), in_tx := True\<rparr>"
  from assms have c: "require_owner_or_operator (owner_id b) c = None"
      "transaction x (repo_delete_account x n actor rid) ?s1 = (Inr u, s')"
    unfolding delete_account_def get_active_by_account_number_def sbind_Inr_iff db_query_Inr_iff
    by (auto simp: q op_Inr_iff rcheck_Inr_iff)
  from transaction_InrD[OF c(2)] obtain s2 where
    "repo_delete_account x n actor rid (?s1\<lparr>in_tx := True\<rparr>) = (Inr u, s2)" "db s' = db s2" by auto
  with c(1) b that show thesis by (auto elim!: repo_delete_account_InrD)
qed

section \<open>Correctness of the account operations\<close>

lemma validated_opening_balance:
  assumes "validate_opening_balance v = Inr w" shows "w = v" "0 \<le> dval v" "places 4 v"
proof -
  have n: "\<not> dlt v dzero" using assms by (cases "dlt v dzero") (simp_all add: validate_opening_balance_def)
  with assms have "rbind (quantize_or_raise ROUND_HALF_EVEN v) (\<lambda>q. if \<not> deq v q
     then Inl (ValueError ''Opening balance must have at most 4 decimal places.'') else Inr v) = Inr w"
    unfolding validate_opening_balance_def by simp
  then obtain q where q: "quantize ROUND_HALF_EVEN (- 4) v = Some q"
    and e: "(if \<not> deq v q then Inl (ValueError ''Opening balance must have at most 4 decimal places.'') else Inr v) = Inr w"
    unfolding rbind_Inr_iff quantize_or_raise_Inr by blast
  from e have "deq v q" by (cases "deq v q") simp_all
  with e show "w = v" by simp
  show "0 \<le> dval v" using n by (simp add: dlt_iff)
  have "places 4 q" using quantizeD(1)[OF q] by (intro places_dexp) simp
  with \<open>deq v q\<close> show "places 4 v" unfolding deq_iff places_def by metis
qed

lemma validated_account:
  assumes "validate_create_account owner cur bal = Inr req"
  shows "req = \<lparr>req_owner_id = owner, req_currency = upper cur, req_opening_balance = bal\<rparr>"
    "0 \<le> dval bal" "places 4 bal"
proof -
  from assms obtain v where v: "validate_opening_balance bal = Inr v"
    "req = \<lparr>req_owner_id = owner, req_currency = upper cur, req_opening_balance = v\<rparr>"
    unfolding validate_create_account_def Let_def by (auto simp: rbind_Inr_iff split: if_splits)
  with validated_opening_balance[OF v(1)]
  show "req = \<lparr>req_owner_id = owner, req_currency = upper cur, req_opening_balance = bal\<rparr>"
    "0 \<le> dval bal" "places 4 bal" by simp_all
qed

text \<open>A validated creation adds exactly one account, active, with a number no account had, in the
  requested currency in upper case, holding exactly the opening balance, and one audit entry by the
  actor; it changes no other table, and the answer describes the new row.\<close>

theorem account_created_row:
  assumes "create_account x cfg req actor rid s = (Inr r, s')" "numeric_law x"
    "validate_create_account owner cur bal = Inr req"
  shows "\<exists>a e. db s' = (db s)\<lparr>accounts := accounts (db s) @ [a], audit_log := audit_log (db s) @ [e]\<rparr> \<and>
    find_account (account_number a) (db s) = None \<and> owner_id a = owner \<and> currency a = upper cur \<and>
    upper cur \<in> set (supported_currencies cfg) \<and> acc_status a = active \<and>
    fits 19 4 (balance a) \<and> dval (balance a) = dval bal \<and> 0 \<le> dval bal \<and>
    operation_type e = account_created \<and> actor_identity e = actor \<and> r = from_orm_account x a"
proof -
  note v = validated_account[OF assms(3)]
  from assms(1) obtain a e where f: "db s' = (db s)\<lparr>accounts := accounts (db s) @ [a], audit_log := audit_log (db s) @ [e]\<rparr>"
    "r = from_orm_account x a" "req_currency req \<in> set (supported_currencies cfg)"
    "owner_id a = req_owner_id req" "currency a = req_currency req"
    "put_numeric x 19 4 (req_opening_balance req) = Inr (balance a)" "acc_status a = active"
    "account_number a \<notin> account_number ` set (accounts (db s))"
    "operation_type e = account_created" "actor_identity e = actor" by (rule create_account_InrD)
  have "fits 19 4 (balance a)" "dval (balance a) = dval bal"
    using put_numeric_fits[OF assms(2) f(6)] numeric_lawD(4)[OF assms(2) f(6)] v by simp_all
  moreover have "find_account (account_number a) (db s) = None"
    using f(8) unfolding find_account_def find_row_None_iff by (metis imageI)
  ultimately show ?thesis using f v by (intro exI[of _ a] exI[of _ e]) simp
qed

definition sample_config :: exchange_rate_config where
  "sample_config =
     \<lparr>supported_currencies = [''EUR'', ''USD''], max_transfer_amounts = [], rates = []\<rparr>"

definition sample_creation :: "(exn + account_response) \<times> session" where
  "sample_creation = create_account strict_env sample_config
     \<lparr>req_owner_id = ''dave'', req_currency = ''EUR'', req_opening_balance = Dec 1250 (-2)\<rparr> ''dave'' None
     (open_session empty_tables)"

definition succeeds :: "(exn + 'a) \<times> session \<Rightarrow> bool" where
  "succeeds r = (case fst r of Inr _ \<Rightarrow> True | Inl _ \<Rightarrow> False)"

lemma succeedsD: "succeeds r \<Longrightarrow> \<exists>a s'. r = (Inr a, s')"
  by (cases r) (auto simp: succeeds_def split: sum.splits)

theorem account_created_row_witness:
  "\<exists>r s' a. sample_creation = (Inr r, s') \<and> accounts (db s') = [a] \<and> owner_id a = ''dave'' \<and>
     currency a = ''EUR'' \<and> dval (balance a) = 125 / 10"
proof -
  have "succeeds sample_creation" by code_simp
  then obtain r s' where run: "sample_creation = (Inr r, s')" using succeedsD by blast
  have v: "validate_create_account ''dave'' ''eur'' (Dec 1250 (-2)) =
    Inr \<lparr>req_owner_id = ''dave'', req_currency = ''EUR'', req_opening_balance = Dec 1250 (-2)\<rparr>" by code_simp
  have "upper ''eur'' = ''EUR''" by code_simp
  with account_created_row[OF run[unfolded sample_creation_def] sample_numeric_law(2) v]
  show ?thesis by (auto simp: run open_session_def empty_tables_def dval_Dec power_int_def power_divide)
qed

text \<open>The number of a new account is free unless all the numbers drawn were taken; \<open>k\<close>-th of them is
  \<open>ACCT-\<close> and the suffix of its draw, and at most ten are drawn.\<close>

theorem picked_number:
  "pick_account_number x n num s = (Inr m, s') \<Longrightarrow>
     (\<exists>k < n. m = ''ACCT-'' @ random_suffix x (tick s + 2 * k) \<and> find_account m (db s) = None) \<or>
     (\<forall>k < n. find_account (''ACCT-'' @ random_suffix x (tick s + 2 * k)) (db s) \<noteq> None)"
proof (induction n arbitrary: num s)
  case (Suc n)
  let ?c = "''ACCT-'' @ random_suffix x (tick s)"
  let ?s = "s\<lparr>tick := Suc (Suc (tick s)), in_tx := True\<rparr>"
  show ?case
  proof (cases "find_account ?c (db s) = None")
    case True
    with Suc.prems have "m = ?c" by (auto simp: generate_account_number_def op_Inr_iff split: if_splits)
    with True show ?thesis by (intro disjI1 exI[of _ 0]) simp
  next
    case False
    with Suc.prems have "pick_account_number x n ?c ?s = (Inr m, s')"
      by (auto simp: generate_account_number_def op_Inr_iff split: if_splits)
    from Suc.IH[OF this] show ?thesis
    proof
      assume "\<exists>k < n. m = ''ACCT-'' @ random_suffix x (tick ?s + 2 * k) \<and> find_account m (db ?s) = None"
      then obtain k where "k < n" "m = ''ACCT-'' @ random_suffix x (tick s + 2 * Suc k)" "find_account m (db s) = None"
        by auto
      then show ?thesis by (intro disjI1 exI[of _ "Suc k"]) simp
    next
      assume a: "\<forall>k < n. find_account (''ACCT-'' @ random_suffix x (tick ?s + 2 * k)) (db ?s) \<noteq> None"
      have "find_account (''ACCT-'' @ random_suffix x (tick s + 2 * k)) (db s) \<noteq> None" if "k < Suc n" for k
      proof (cases k)
        case 0
        with False show ?thesis by simp
      next
        case (Suc j)
        with a that show ?thesis by simp
      qed
      then show ?thesis by blast
    qed
  qed
qed simp

theorem picked_number_witness:
  "\<exists>m s'. pick_account_number lenient_env 10 '''' (open_session empty_tables) = (Inr m, s') \<and>
     find_account m empty_tables = None"
proof -
  have "succeeds (pick_account_number lenient_env 10 '''' (open_session empty_tables))" by code_simp
  then obtain m s' where run: "pick_account_number lenient_env 10 '''' (open_session empty_tables) = (Inr m, s')"
    using succeedsD by blast
  from picked_number[OF run] have "find_account m empty_tables = None"
    by (auto simp: open_session_def find_account_def empty_tables_def)
  with run show ?thesis by blast
qed

text \<open>An account is shown only while it is open and only to its owner or an operator, as it is stored;
  looking changes nothing.\<close>

theorem account_access:
  assumes "get_account x n actor c s = (Inr r, s')"
  shows "\<exists>a \<in> set (accounts (db s)). account_number a = n \<and> acc_status a = active \<and>
    r = from_orm_account x a \<and> (map_of c ''sub'' = Some (owner_id a) \<or> is_operator c) \<and> db s' = db s"
proof -
  let ?q = "find_row (\<lambda>a. account_number a = n \<and> acc_status a = active) (accounts (db s))"
  from assms obtain a where q: "?q = Some a"
    unfolding get_account_def get_active_by_account_number_def sbind_Inr_iff db_query_Inr_iff by (cases ?q) auto
  from assms have "require_owner_or_operator (owner_id a) c = None" "r = from_orm_account x a" "db s' = db s"
    unfolding get_account_def get_active_by_account_number_def sbind_Inr_iff db_query_Inr_iff
    by (auto simp: q op_Inr_iff rcheck_Inr_iff)
  moreover have "a \<in> set (accounts (db s))" "account_number a = n" "acc_status a = active"
    using find_row_SomeD[OF q] by simp_all
  ultimately show ?thesis by (auto simp: require_owner_or_operator_def split: if_splits)
qed

definition zero_account_tables :: tables where
  "zero_account_tables = empty_tables\<lparr>accounts :=
     [sample_account ''Z'' ''zoe'' ''EUR'' (Dec 0 (-4)), sample_account ''Y'' ''yan'' ''EUR'' (Dec 10 (-4))]\<rparr>"

theorem account_access_witness:
  "\<exists>r s'. get_account strict_env ''Z'' ''zoe'' [(''sub'', ''zoe'')] (open_session zero_account_tables) = (Inr r, s')
     \<and> resp_owner_id r = ''zoe'' \<and> db s' = zero_account_tables"
proof -
  have "succeeds (get_account strict_env ''Z'' ''zoe'' [(''sub'', ''zoe'')] (open_session zero_account_tables))"
    by code_simp
  then obtain r s' where run: "get_account strict_env ''Z'' ''zoe'' [(''sub'', ''zoe'')] (open_session zero_account_tables) = (Inr r, s')"
    using succeedsD by blast
  from account_access[OF run] have "resp_owner_id r = ''zoe''" "db s' = zero_account_tables"
    by (auto simp: open_session_def zero_account_tables_def empty_tables_def sample_account_def from_orm_account_def)
  with run show ?thesis by blast
qed

lemma update_rows_all:
  "(\<And>r. p r \<Longrightarrow> P (f r)) \<Longrightarrow> (\<And>r. \<not> p r \<Longrightarrow> P r) \<Longrightarrow> \<forall>r \<in> set (update_rows p f rows). P r"
  by (induction rows) auto

lemma find_updated_account:
  assumes "\<And>r. account_number (f r) = account_number r"
  shows "find_row (\<lambda>r. account_number r = m) (update_rows (\<lambda>r. account_number r = n) f rows) =
    (if m = n then map_option f (find_row (\<lambda>r. account_number r = n) rows)
     else find_row (\<lambda>r. account_number r = m) rows)"
  using assms by (auto simp: find_row_update_same intro!: find_row_update_other)

text \<open>Closing an account needs its owner or an operator and an empty balance; it closes this account
  only, replaces the owner's name by a prefix of its hash and keeps the hash, leaves every other account
  alone, and the account can then not be seen by anyone.\<close>

theorem account_closed_row:
  assumes "delete_account x n actor c rid s = (Inr u, s')" "ledger_inv (db s)" "db_fails y (tick s2) = None" "db s2 = db s'"
  shows "\<exists>a a'. find_account n (db s) = Some a \<and> acc_status a = active \<and> dval (balance a) = 0 \<and>
    (map_of c ''sub'' = Some (owner_id a) \<or> is_operator c) \<and>
    find_account n (db s') = Some a' \<and> acc_status a' = closed \<and> balance a' = balance a \<and>
    owner_pii_hash a' = Some (sha256 x (owner_id a)) \<and>
    owner_id a' = ''ANONYMIZED-'' @ take 16 (sha256 x (owner_id a)) \<and>
    (\<forall>m. m \<noteq> n \<longrightarrow> find_account m (db s') = find_account m (db s)) \<and>
    (\<exists>e s3. get_account y n actor' c' s2 = (Inl e, s3) \<and> is_app_error NotFoundError e)"
proof -
  from assms(1) obtain a b now e where f: "find_account n (db s) = Some a" "acc_status a = active" "dval (balance a) = 0"
    "require_owner_or_operator (owner_id b) c = None" "account_number b = n" "b \<in> set (accounts (db s))"
    "db s' = (db s)\<lparr>accounts := update_rows (\<lambda>r. account_number r = n)
       (\<lambda>r. r\<lparr>acc_status := closed, owner_pii_hash := Some (sha256 x (owner_id a)),
              owner_id := ''ANONYMIZED-'' @ take 16 (sha256 x (owner_id a)), acc_updated_at := Some now\<rparr>)
       (accounts (db s)), audit_log := audit_log (db s) @ [e]\<rparr>"
    by (rule delete_account_InrD)
  have d: "distinct (map account_number (accounts (db s)))" using assms(2) by (simp add: ledger_inv_def)
  have "a = b" using f(1,5,6) find_row_iff[OF d, of n b] by (simp add: find_account_def)
  then have own: "map_of c ''sub'' = Some (owner_id a) \<or> is_operator c"
    using f(4) by (auto simp: require_owner_or_operator_def split: if_splits)
  define anon where "anon = ''ANONYMIZED-'' @ take 16 (sha256 x (owner_id a))"
  let ?f = "\<lambda>r. r\<lparr>acc_status := closed, owner_pii_hash := Some (sha256 x (owner_id a)),
              owner_id := anon, acc_updated_at := Some now\<rparr>"
  have acc: "accounts (db s') = update_rows (\<lambda>r. account_number r = n) ?f (accounts (db s))"
    by (simp add: f(7) anon_def)
  have find: "find_account m (db s') = (if m = n then Some (?f a) else find_account m (db s))" for m
    using f(1) unfolding acc find_account_def by (simp add: find_updated_account)
  have "find_row (\<lambda>r. account_number r = n \<and> acc_status r = active) (accounts (db s')) = None"
    unfolding find_row_None_iff acc by (rule update_rows_all) simp_all
  then have "\<exists>e s3. get_account y n actor' c' s2 = (Inl e, s3) \<and> is_app_error NotFoundError e"
    using assms(3,4) by (simp add: get_account_def get_active_by_account_number_def db_query_def db_call_def
        svc_defs)
  moreover have "find_account n (db s') = Some (?f a)" "\<forall>m. m \<noteq> n \<longrightarrow> find_account m (db s') = find_account m (db s)"
    by (simp_all add: find)
  ultimately show ?thesis using f(1,2,3) own
    by (intro exI[of _ a] exI[of _ "?f a"] conjI) (simp_all add: anon_def)
qed

theorem account_closed_row_witness:
  "\<exists>s' a'. delete_account strict_env ''Z'' ''zoe'' [(''sub'', ''zoe'')] None (open_session zero_account_tables) = (Inr (), s') \<and>
     find_account ''Z'' (db s') = Some a' \<and> acc_status a' = closed \<and> owner_id a' = ''ANONYMIZED-zoe''"
proof -
  have "succeeds (delete_account strict_env ''Z'' ''zoe'' [(''sub'', ''zoe'')] None (open_session zero_account_tables))"
    by code_simp
  then obtain s' where run: "delete_account strict_env ''Z'' ''zoe'' [(''sub'', ''zoe'')] None (open_session zero_account_tables) = (Inr (), s')"
    using succeedsD by fastforce
  have inv: "ledger_inv (db (open_session zero_account_tables))"
    by (simp add: ledger_inv_def zero_account_tables_def empty_tables_def sample_account_def good_account_def fits_def
        open_session_def)
  have a: "find_account ''Z'' (db (open_session zero_account_tables)) = Some (sample_account ''Z'' ''zoe'' ''EUR'' (Dec 0 (-4)))"
    by (simp add: find_account_def open_session_def zero_account_tables_def sample_account_def)
  from account_closed_row[OF run inv sample_env(3) refl, of "''''" "[]"]
  obtain a' where "find_account ''Z'' (db s') = Some a'" "acc_status a' = closed"
    "owner_id a' = ''ANONYMIZED-'' @ take 16 (sha256 strict_env ''zoe'')"
    by (auto simp: a sample_account_def)
  moreover have "take 16 (sha256 strict_env ''zoe'') = ''zoe''" by (simp add: strict_env_def lenient_env_def)
  ultimately show ?thesis using run by simp
qed

section \<open>Account operations keep the invariant\<close>

lemma create_account_inv:
  "create_account x cfg req actor rid s = (Inr r, s') \<Longrightarrow> numeric_law x \<Longrightarrow> ledger_inv (db s) \<Longrightarrow> ledger_inv (db s')"
  by (erule create_account_InrD) (simp add: ledger_inv_new_account put_numeric_fits)

lemma delete_account_inv:
  assumes "delete_account x n actor c rid s = (Inr u, s')" "ledger_inv (db s)"
  shows "ledger_inv (db s')"
  using assms(1)
proof (rule delete_account_InrD)
  fix a b now e
  assume a: "find_account n (db s) = Some a" "dval (balance a) = 0"
    and d: "db s' = (db s)\<lparr>accounts := update_rows (\<lambda>r. account_number r = n)
       (\<lambda>r. r\<lparr>acc_status := closed, owner_pii_hash := Some (sha256 x (owner_id a)),
              owner_id := ''ANONYMIZED-'' @ take 16 (sha256 x (owner_id a)), acc_updated_at := Some now\<rparr>)
       (accounts (db s)), audit_log := audit_log (db s) @ [e]\<rparr>"
  have "good_account a" using a(1) assms(2)
    by (auto simp: ledger_inv_def find_account_def list_all_iff dest!: find_row_SomeD)
  moreover have "coeff (balance a) = 0" using a(2) by (simp add: dval_def)
  ultimately show ?thesis unfolding d ledger_inv_other
    by (intro ledger_inv_update_accounts[OF assms(2) a(1)]) (simp_all add: good_account_def)
qed

end
