(* ===== verification/TransferRepo.thy ===== *)
theory TransferRepo
  imports Accounts
begin

text \<open>
  \<open>repositories/transfer_repository.py\<close>: the idempotency look-up, the two ways a transfer row is
  created, the status machine with its audit entries, the rolling volume, the audit log.
\<close>

section \<open>Queries\<close>

text \<open>The record is the transfer itself; its status is the field \<open>tr_status\<close>.\<close>

definition get_idempotency_record :: "ext \<Rightarrow> string \<Rightarrow> transfer option op" where
  "get_idempotency_record x key = db_query x (find_by_key key)"

definition get_transfer_by_id :: "ext \<Rightarrow> uuid \<Rightarrow> transfer option op" where
  "get_transfer_by_id x i = db_query x (find_transfer i)"

definition refresh_transfer :: "ext \<Rightarrow> uuid \<Rightarrow> transfer op" where
  "refresh_transfer x i =
     sbind (db_query x (find_transfer i)) (\<lambda>r.
     case r of None \<Rightarrow> sraise (OtherError ''InvalidRequestError'' i) | Some t \<Rightarrow> sret t)"

section \<open>The audit log\<close>

definition write_audit_log ::
  "ext \<Rightarrow> operation_type \<Rightarrow> string \<Rightarrow> string list \<Rightarrow> decimal option \<Rightarrow> string option \<Rightarrow> string \<Rightarrow>
   detail \<Rightarrow> string option \<Rightarrow> unit op" where
  "write_audit_log x ty actor accts amt cur out det rid =
     sbind (draw (uuid4 x)) (\<lambda>i.
     db_flush x (\<lambda>now. insert_audit x
       \<lparr>al_id = i, operation_type = ty, actor_identity = actor, affected_account_numbers = accts,
        al_amount = amt, al_currency = cur, outcome = out, detail = det, al_timestamp = now,
        request_id = rid\<rparr>))"

section \<open>Creating transfers\<close>

definition create_transfer ::
  "ext \<Rightarrow> string \<Rightarrow> string \<Rightarrow> string \<Rightarrow> decimal \<Rightarrow> string \<Rightarrow> decimal \<Rightarrow> string \<Rightarrow> decimal \<Rightarrow>
   transfer_status \<Rightarrow> string \<Rightarrow> string option \<Rightarrow> string option \<Rightarrow> transfer op" where
  "create_transfer x key src dst samt scur damt dcur rate st caller rejection_reason reason =
     sbind (draw (uuid4 x)) (\<lambda>i.
     sthen (db_flush x (\<lambda>now. insert_transfer x
       \<lparr>transfer_id = i, idempotency_key = key, source_account_number = src,
        destination_account_number = dst, source_amount = samt, source_currency = scur,
        destination_amount = damt, destination_currency = dcur, exchange_rate = rate,
        tr_status = st,
        failure_reason = (if reason \<noteq> None then reason else rejection_reason),
        transfer_type = None, sending_fee = None, sending_fee_currency = None,
        receiving_fee = None, receiving_fee_currency = None, fx_snapshot_id = None,
        rate_confirmed_at = None, source_amount_usd = None, caller_id = caller,
        tr_created_at = now\<rparr>))
     (refresh_transfer x i))"

record cross_currency_terms =
  ct_sending_fee :: decimal
  ct_receiving_fee :: decimal
  ct_fx_snapshot_id :: uuid
  ct_rate_confirmed_at :: time
  ct_source_amount_usd :: decimal

definition create_cross_currency_transfer ::
  "ext \<Rightarrow> string \<Rightarrow> string \<Rightarrow> string \<Rightarrow> decimal \<Rightarrow> string \<Rightarrow> decimal \<Rightarrow> string \<Rightarrow> decimal \<Rightarrow>
   transfer_status \<Rightarrow> string \<Rightarrow> string option \<Rightarrow> cross_currency_terms \<Rightarrow> string option \<Rightarrow> transfer op" where
  "create_cross_currency_transfer x key src dst samt scur damt dcur rate st caller rid ct reason =
     sbind (draw (uuid4 x)) (\<lambda>i.
     sthen (db_flush x (\<lambda>now. insert_transfer x
       \<lparr>transfer_id = i, idempotency_key = key, source_account_number = src,
        destination_account_number = dst, source_amount = samt, source_currency = scur,
        destination_amount = damt, destination_currency = dcur, exchange_rate = rate,
        tr_status = st, failure_reason = reason, transfer_type = Some ''cross_currency'',
        sending_fee = Some (ct_sending_fee ct), sending_fee_currency = Some scur,
        receiving_fee = Some (ct_receiving_fee ct), receiving_fee_currency = Some dcur,
        fx_snapshot_id = Some (ct_fx_snapshot_id ct),
        rate_confirmed_at = Some (ct_rate_confirmed_at ct),
        source_amount_usd = Some (ct_source_amount_usd ct), caller_id = caller,
        tr_created_at = now\<rparr>))
    (sthen (write_audit_log x cross_currency_transfer_initiated caller [src, dst] (Some samt) (Some scur)
       ''success''
       [(''transfer_id'', Some i), (''fx_snapshot_id'', Some (ct_fx_snapshot_id ct)),
        (''status'', Some (transfer_status_value st)),
        (''sending_fee'', Some (str_decimal (ct_sending_fee ct))),
        (''receiving_fee'', Some (str_decimal (ct_receiving_fee ct)))] rid)
     (refresh_transfer x i)))"

section \<open>The status machine\<close>

fun allowed_transitions :: "transfer_status \<Rightarrow> transfer_status set" where
  "allowed_transitions pending = {processing, failed}"
| "allowed_transitions processing = {completed, failed}"
| "allowed_transitions completed = {}"
| "allowed_transitions failed = {}"
| "allowed_transitions rejected = {}"

definition set_status :: "uuid \<Rightarrow> transfer_status \<Rightarrow> string option \<Rightarrow> tables \<Rightarrow> tables" where
  "set_status i st reason t =
     t\<lparr>transfers := update_rows (\<lambda>r. transfer_id r = i)
         (\<lambda>r. r\<lparr>tr_status := st,
                failure_reason := (if reason \<noteq> None then reason else failure_reason r)\<rparr>)
         (transfers t)\<rparr>"

definition status_operation :: "transfer_status \<Rightarrow> operation_type option" where
  "status_operation st =
     (if st = completed then Some cross_currency_transfer_completed
      else if st = failed then Some cross_currency_transfer_failed else None)"

definition write_status_audit ::
  "ext \<Rightarrow> transfer \<Rightarrow> transfer_status \<Rightarrow> string option \<Rightarrow> string option \<Rightarrow> unit op" where
  "write_status_audit x tr new_status reason rid =
     (case status_operation new_status of
        None \<Rightarrow> sret ()
      | Some ty \<Rightarrow>
          write_audit_log x ty (caller_id tr)
            [source_account_number tr, destination_account_number tr]
            (Some (source_amount tr)) (Some (source_currency tr))
            (if new_status = completed then ''success'' else ''failure'')
            [(''transfer_id'', Some (transfer_id tr)), (''status'', Some (transfer_status_value new_status)),
             (''failure_reason'', if reason \<noteq> None then reason else failure_reason tr)] rid)"

definition update_transfer_status ::
  "ext \<Rightarrow> uuid \<Rightarrow> transfer_status \<Rightarrow> string option \<Rightarrow> string option \<Rightarrow> transfer op" where
  "update_transfer_status x i new_status reason rid =
     sbind (get_transfer_by_id x i) (\<lambda>r.
     case r of
       None \<Rightarrow> sraise (ValueError (''Transfer '' @ i @ '' not found''))
     | Some tr \<Rightarrow>
         sthen (sraise_if
             (new_status \<noteq> tr_status tr \<and> new_status \<notin> allowed_transitions (tr_status tr))
             (ValueError (''Invalid status transition '' @ transfer_status_value (tr_status tr) @
                '' -> '' @ transfer_status_value new_status)))
        (sthen (db_flush x (\<lambda>now t. Inr (set_status i new_status reason t)))
        (sthen
          (write_status_audit x tr new_status reason rid)
          (refresh_transfer x i))))"

section \<open>The rolling volume\<close>

text \<open>SQL's \<open>sum\<close> is exact and skips nulls; \<open>coalesce\<close> turns the empty sum into zero.\<close>

definition exact_add :: "decimal \<Rightarrow> decimal \<Rightarrow> decimal" where
  "exact_add a b = (let e = min (dexp a) (dexp b) in Dec (scaled e a + scaled e b) e)"

fun sum_usd :: "transfer list \<Rightarrow> decimal" where
  "sum_usd [] = dzero"
| "sum_usd (r # rs) =
     (case source_amount_usd r of None \<Rightarrow> sum_usd rs | Some a \<Rightarrow> exact_add a (sum_usd rs))"

definition in_volume :: "string \<Rightarrow> time \<Rightarrow> transfer \<Rightarrow> bool" where
  "in_volume n since r \<longleftrightarrow>
     source_account_number r = n \<and> tr_status r \<in> {completed, processing} \<and> since \<le> tr_created_at r"

definition day :: time where
  "day = 24 * 60 * 60 * 1000000"

text \<open>Without \<open>since\<close> the window is the last 24 hours; times count microseconds.\<close>

definition get_daily_transfer_volume_usd :: "ext \<Rightarrow> string \<Rightarrow> time option \<Rightarrow> decimal op" where
  "get_daily_transfer_volume_usd x n since =
     sbind (case since of Some t \<Rightarrow> sret t | None \<Rightarrow> sbind (draw (utcnow x)) (\<lambda>t. sret (t - day)))
     (\<lambda>t0. sbind (db_query x (\<lambda>t. sum_usd (List.filter (in_volume n t0) (transfers t))))
     (\<lambda>total. slift
        (case parse_decimal (str_decimal (if deq total dzero then dzero else total)) of
           None \<Rightarrow> Inl InvalidOperation
         | Some v \<Rightarrow> quantize_or_raise ROUND_HALF_EVEN v)))"

section \<open>What a successful call has done\<close>

lemma readonly_lookup [op_intros]:
  "readonly (get_idempotency_record x key)" "readonly (get_transfer_by_id x i)"
  by (simp_all add: get_idempotency_record_def get_transfer_by_id_def op_intros)

lemma write_audit_log_InrD:
  assumes "write_audit_log x ty actor accts amt cur out det rid s = (Inr u, s')"
  obtains a where "db s' = (db s)\<lparr>audit_log := audit_log (db s) @ [a]\<rparr>"
    "operation_type a = ty" "actor_identity a = actor" "affected_account_numbers a = accts"
    "outcome a = out" "al_currency a = cur" "put_opt x amt = Inr (al_amount a)" "detail a = det"
    "request_id a = rid" "status_metric s' = status_metric s"
    "string_exn x 30 (operation_type_value ty) = None"
proof -
  let ?a = "\<lparr>al_id = uuid4 x (tick s), operation_type = ty, actor_identity = actor,
    affected_account_numbers = accts, al_amount = amt, al_currency = cur, outcome = out, detail = det,
    al_timestamp = db_now x (Suc (Suc (tick s))), request_id = rid\<rparr>"
  from assms obtain t where t: "insert_audit x ?a (db s) = Inr t" and s': "db s' = t" "status_metric s' = status_metric s"
    unfolding write_audit_log_def op_Inr_iff by auto
  from t obtain m where m: "put_opt x amt = Inr m" "t = (db s)\<lparr>audit_log := audit_log (db s) @ [?a\<lparr>al_amount := m\<rparr>]\<rparr>"
    by (auto elim!: insert_audit_InrD)
  have "string_exn x 30 (operation_type_value ty) = None" using t by (simp add: insert_audit_def rcheck_Inr_iff)
  then show thesis by (intro that[of "?a\<lparr>al_amount := m\<rparr>"]) (simp_all add: m s')
qed

lemma refresh_transfer_InrD:
  "refresh_transfer x i s = (Inr tr, s') \<Longrightarrow>
     find_transfer i (db s) = Some tr \<and> db s' = db s \<and> status_metric s' = status_metric s"
  unfolding refresh_transfer_def op_Inr_iff by (auto split: option.splits)

lemma create_row_InrD:
  assumes "sthen (db_flush x (\<lambda>now. insert_transfer x (R now))) (refresh_transfer x i) s = (Inr tr, s')"
    and "\<And>now. transfer_id (R now) = i"
  obtains now where "transfer_stored x (R now) tr" "i \<notin> transfer_id ` set (transfers (db s))"
    "idempotency_key (R now) \<notin> idempotency_key ` set (transfers (db s))"
    "db s' = (db s)\<lparr>transfers := transfers (db s) @ [tr]\<rparr>" "status_metric s' = status_metric s"
proof -
  from assms(1) obtain u s1 where 1: "db_flush x (\<lambda>now. insert_transfer x (R now)) s = (Inr u, s1)"
      and 2: "refresh_transfer x i s1 = (Inr tr, s')"
    unfolding sthen_Inr_iff by blast
  from 1 obtain q now where q: "transfer_stored x (R now) q" "transfer_id (R now) \<notin> transfer_id ` set (transfers (db s))"
    "idempotency_key (R now) \<notin> idempotency_key ` set (transfers (db s))"
    "db s1 = (db s)\<lparr>transfers := transfers (db s) @ [q]\<rparr>" "status_metric s1 = status_metric s" 
    by (rule flush_transfer_InrD)
  from q(1) have "transfer_id q = i" using transfer_stored_fields(1) assms(2) by metis
  with q(2,4) assms(2) find_transfer_new[of q "db s"] have "find_transfer i (db s1) = Some q" by simp
  with refresh_transfer_InrD[OF 2] have "tr = q" "db s' = db s1" "status_metric s' = status_metric s1" by simp_all
  with q assms(2) show thesis by (intro that[of now]) simp_all
qed


lemma create_transfer_InrD:
  assumes "create_transfer x key src dst samt scur damt dcur rate st caller rj reason s = (Inr tr, s')"
  shows "db s' = (db s)\<lparr>transfers := transfers (db s) @ [tr]\<rparr>"
    "idempotency_key tr = key" "source_account_number tr = src" "destination_account_number tr = dst"
    "put_numeric x 19 4 samt = Inr (source_amount tr)"
    "put_numeric x 19 4 damt = Inr (destination_amount tr)"
    "put_numeric x 20 8 rate = Inr (exchange_rate tr)" "source_currency tr = scur"
    "destination_currency tr = dcur" "tr_status tr = st" "caller_id tr = caller"
    "source_amount_usd tr = None" "sending_fee tr = None" "receiving_fee tr = None"
    "key \<notin> idempotency_key ` set (transfers (db s))"
    "transfer_id tr \<notin> transfer_id ` set (transfers (db s))" "status_metric s' = status_metric s"
proof -
  obtain R i s1 where e: "sthen (db_flush x (\<lambda>now. insert_transfer x (R now))) (refresh_transfer x i) s1 = (Inr tr, s')"
    and R: "R = (\<lambda>now. \<lparr>transfer_id = i, idempotency_key = key, source_account_number = src,
        destination_account_number = dst, source_amount = samt, source_currency = scur,
        destination_amount = damt, destination_currency = dcur, exchange_rate = rate,
        tr_status = st, failure_reason = (if reason \<noteq> None then reason else rj),
        transfer_type = None, sending_fee = None, sending_fee_currency = None,
        receiving_fee = None, receiving_fee_currency = None, fx_snapshot_id = None,
        rate_confirmed_at = None, source_amount_usd = None, caller_id = caller,
        tr_created_at = now\<rparr>)" and s1: "db s1 = db s" "status_metric s1 = status_metric s"
    using assms unfolding create_transfer_def sbind_Inr_iff draw_Inr_iff by fastforce
  have "transfer_id (R now) = i" for now by (simp add: R)
  from e this obtain now where n: "transfer_stored x (R now) tr" "i \<notin> transfer_id ` set (transfers (db s1))"
    "idempotency_key (R now) \<notin> idempotency_key ` set (transfers (db s1))"
    "db s' = (db s1)\<lparr>transfers := transfers (db s1) @ [tr]\<rparr>" "status_metric s' = status_metric s1"
    by (rule create_row_InrD)
  note f = transfer_stored_fields[OF n(1)]
  note g = n(1)[unfolded transfer_stored_def]
  show "db s' = (db s)\<lparr>transfers := transfers (db s) @ [tr]\<rparr>" "status_metric s' = status_metric s"
    using n(4,5) s1 by simp_all
  show "key \<notin> idempotency_key ` set (transfers (db s))" "transfer_id tr \<notin> transfer_id ` set (transfers (db s))"
    using n(2,3) f(1) s1 by (simp_all add: R)
  show "idempotency_key tr = key" "source_account_number tr = src" "destination_account_number tr = dst"
     "source_currency tr = scur" "destination_currency tr = dcur" "tr_status tr = st" "caller_id tr = caller"
    by (simp_all add: f R)
  show "put_numeric x 19 4 samt = Inr (source_amount tr)"
    "put_numeric x 19 4 damt = Inr (destination_amount tr)"
    "put_numeric x 20 8 rate = Inr (exchange_rate tr)" 
    using g by (simp_all add: R)
  show "source_amount_usd tr = None" "sending_fee tr = None" "receiving_fee tr = None"
    using g by (simp_all add: R put_opt_def)
qed

lemma create_cross_currency_transfer_InrD:
  assumes "create_cross_currency_transfer x key src dst samt scur damt dcur rate st caller rid ct reason s = (Inr tr, s')"
  obtains a where
    "db s' = (db s)\<lparr>transfers := transfers (db s) @ [tr], audit_log := audit_log (db s) @ [a]\<rparr>"
    "operation_type a = cross_currency_transfer_initiated"
    "idempotency_key tr = key" "source_account_number tr = src" "destination_account_number tr = dst"
    "put_numeric x 19 4 samt = Inr (source_amount tr)"
    "put_numeric x 19 4 damt = Inr (destination_amount tr)"
    "put_numeric x 20 8 rate = Inr (exchange_rate tr)" "source_currency tr = scur"
    "destination_currency tr = dcur" "tr_status tr = st" "caller_id tr = caller"
    "put_opt x (Some (ct_source_amount_usd ct)) = Inr (source_amount_usd tr)"
    "key \<notin> idempotency_key ` set (transfers (db s))"
    "transfer_id tr \<notin> transfer_id ` set (transfers (db s))" "status_metric s' = status_metric s"
    "string_exn x 30 (operation_type_value cross_currency_transfer_initiated) = None"
proof -
  obtain R i s1 s2 det where fl: "db_flush x (\<lambda>now. insert_transfer x (R now)) s1 = (Inr (), s2)"
    and al: "sthen (write_audit_log x cross_currency_transfer_initiated caller [src, dst] (Some samt) (Some scur)
       ''success'' det rid) (refresh_transfer x i) s2 = (Inr tr, s')"
    and R: "R = (\<lambda>now. \<lparr>transfer_id = i, idempotency_key = key, source_account_number = src,
        destination_account_number = dst, source_amount = samt, source_currency = scur,
        destination_amount = damt, destination_currency = dcur, exchange_rate = rate,
        tr_status = st, failure_reason = reason, transfer_type = Some ''cross_currency'',
        sending_fee = Some (ct_sending_fee ct), sending_fee_currency = Some scur,
        receiving_fee = Some (ct_receiving_fee ct), receiving_fee_currency = Some dcur,
        fx_snapshot_id = Some (ct_fx_snapshot_id ct),
        rate_confirmed_at = Some (ct_rate_confirmed_at ct),
        source_amount_usd = Some (ct_source_amount_usd ct), caller_id = caller,
        tr_created_at = now\<rparr>)" and s1: "db s1 = db s" "status_metric s1 = status_metric s"
    using assms unfolding create_cross_currency_transfer_def sbind_Inr_iff sthen_Inr_iff[of "db_flush x w" for w] draw_Inr_iff by fastforce
  from fl obtain q now where q: "transfer_stored x (R now) q" "transfer_id (R now) \<notin> transfer_id ` set (transfers (db s1))"
    "idempotency_key (R now) \<notin> idempotency_key ` set (transfers (db s1))"
    "db s2 = (db s1)\<lparr>transfers := transfers (db s1) @ [q]\<rparr>" "status_metric s2 = status_metric s1"
    by (rule flush_transfer_InrD)
  from al obtain s3 where w: "write_audit_log x cross_currency_transfer_initiated caller [src, dst] (Some samt) (Some scur)
       ''success'' det rid s2 = (Inr (), s3)" and r: "refresh_transfer x i s3 = (Inr tr, s')"
    unfolding sthen_Inr_iff by auto
  from w obtain a where a: "db s3 = (db s2)\<lparr>audit_log := audit_log (db s2) @ [a]\<rparr>"
    "operation_type a = cross_currency_transfer_initiated" "status_metric s3 = status_metric s2"
    "string_exn x 30 (operation_type_value cross_currency_transfer_initiated) = None" by (rule write_audit_log_InrD)
  note f = transfer_stored_fields[OF q(1)]
  note g = q(1)[unfolded transfer_stored_def]
  have qi: "transfer_id q = i" using f(1) by (simp add: R)
  with q(2) f(1) have "find_transfer i (db s2) = Some q"
    unfolding q(4) using find_transfer_new[of q "db s1"] by (simp add: R)
  then have "find_transfer i (db s3) = Some q" unfolding a(1) by (simp add: find_transfer_def)
  with refresh_transfer_InrD[OF r] have tr: "tr = q" "db s' = db s3" "status_metric s' = status_metric s3" by simp_all
  show thesis
  proof (rule that[of a])
    show "db s' = (db s)\<lparr>transfers := transfers (db s) @ [tr], audit_log := audit_log (db s) @ [a]\<rparr>"
      using tr a q(4) s1 by simp
    show "operation_type a = cross_currency_transfer_initiated"
      "string_exn x 30 (operation_type_value cross_currency_transfer_initiated) = None" by (rule a)+
    show "key \<notin> idempotency_key ` set (transfers (db s))" "transfer_id tr \<notin> transfer_id ` set (transfers (db s))"
      using q(2,3) f(1) s1 tr by (simp_all add: R)
    show "idempotency_key tr = key" "source_account_number tr = src" "destination_account_number tr = dst"
       "source_currency tr = scur" "destination_currency tr = dcur" "tr_status tr = st" "caller_id tr = caller"
      by (simp_all add: f R tr)
    show "put_numeric x 19 4 samt = Inr (source_amount tr)"
      "put_numeric x 19 4 damt = Inr (destination_amount tr)"
      "put_numeric x 20 8 rate = Inr (exchange_rate tr)"
      "put_opt x (Some (ct_source_amount_usd ct)) = Inr (source_amount_usd tr)"
      using g by (simp_all add: R tr)
    show "status_metric s' = status_metric s" using tr a q(5) s1 by simp
  qed
qed

lemma find_set_status:
  "find_transfer i (set_status j st reason t) =
     (if i = j then map_option (\<lambda>r. r\<lparr>tr_status := st, failure_reason := (if reason \<noteq> None then reason else failure_reason r)\<rparr>)
        (find_transfer i t) else find_transfer i t)"
  unfolding find_transfer_def set_status_def
  by (auto simp: find_row_update_same intro!: find_row_update_other)

lemma write_status_audit_InrD:
  assumes "write_status_audit x tr st reason rid s = (Inr u, s')"
  obtains na where "db s' = (db s)\<lparr>audit_log := audit_log (db s) @ na\<rparr>"
    "map operation_type na = (case status_operation st of None \<Rightarrow> [] | Some ty \<Rightarrow> [ty])"
    "status_metric s' = status_metric s"
proof (cases "status_operation st")
  case None
  then have "db s' = (db s)\<lparr>audit_log := audit_log (db s) @ []\<rparr>" "status_metric s' = status_metric s"
    using assms by (simp_all add: write_status_audit_def)
  with None that show thesis by (metis list.simps(8) option.simps(4))
next
  case (Some ty)
  with assms show thesis
    by (auto simp: write_status_audit_def elim!: write_audit_log_InrD intro: that[of "[a]" for a])
qed

lemma update_transfer_status_InrD:
  assumes "update_transfer_status x i st reason rid s = (Inr tr, s')"
  obtains old new_audit where "find_transfer i (db s) = Some old"
    "st = tr_status old \<or> st \<in> allowed_transitions (tr_status old)"
    "tr = old\<lparr>tr_status := st, failure_reason := (if reason \<noteq> None then reason else failure_reason old)\<rparr>"
    "db s' = (set_status i st reason (db s))\<lparr>audit_log := audit_log (db s) @ new_audit\<rparr>"
    "map operation_type new_audit = (case status_operation st of None \<Rightarrow> [] | Some ty \<Rightarrow> [ty])"
    "status_metric s' = status_metric s"
proof -
  from assms obtain old where old: "find_transfer i (db s) = Some old"
    unfolding update_transfer_status_def get_transfer_by_id_def sbind_Inr_iff db_query_Inr_iff
    by (cases "find_transfer i (db s)") auto
  let ?s2 = "s\<lparr>db := set_status i st reason (db s), tick := Suc (Suc (tick s)), in_tx := True\<rparr>"
  from assms have st: "st = tr_status old \<or> st \<in> allowed_transitions (tr_status old)"
    and "\<exists>s3. write_status_audit x old st reason rid ?s2 = (Inr (), s3) \<and> refresh_transfer x i s3 = (Inr tr, s')"
    unfolding update_transfer_status_def get_transfer_by_id_def sbind_Inr_iff db_query_Inr_iff
    by (auto simp: old sthen_Inr_iff db_flush_Inr_iff)
  then obtain s3 where e: "write_status_audit x old st reason rid ?s2 = (Inr (), s3)"
    and r: "refresh_transfer x i s3 = (Inr tr, s')" by blast
  define s2 where "s2 = ?s2"
  have s2: "db s2 = set_status i st reason (db s)" "status_metric s2 = status_metric s"
    and w: "write_status_audit x old st reason rid s2 = (Inr (), s3)" using e by (simp_all add: s2_def)
  from w obtain na where na: "db s3 = (db s2)\<lparr>audit_log := audit_log (db s2) @ na\<rparr>"
    "map operation_type na = (case status_operation st of None \<Rightarrow> [] | Some ty \<Rightarrow> [ty])"
    "status_metric s3 = status_metric s2" by (rule write_status_audit_InrD)
  from refresh_transfer_InrD[OF r] have tr: "find_transfer i (db s3) = Some tr" "db s' = db s3"
    "status_metric s' = status_metric s3" by simp_all
  have "find_transfer i (db s3) = find_transfer i (db s2)" by (simp add: na(1) find_transfer_def)
  with tr(1) old have "tr = old\<lparr>tr_status := st, failure_reason := (if reason \<noteq> None then reason else failure_reason old)\<rparr>"
    by (simp add: s2(1) find_set_status)
  from that[OF old(1) st this _ na(2)] show thesis using tr na s2 old by (simp add: set_status_def)
qed

section \<open>A transfer's status only moves forward\<close>

text \<open>How many changes a status has left.\<close>

fun steps_left :: "transfer_status \<Rightarrow> nat" where
  "steps_left pending = 2"
| "steps_left processing = 1"
| "steps_left completed = 0"
| "steps_left failed = 0"
| "steps_left rejected = 0"

inductive moves :: "transfer_status \<Rightarrow> transfer_status \<Rightarrow> bool" where
  start: "moves pending processing"
| finish: "moves processing completed"
| abandon: "st \<in> {pending, processing} \<Longrightarrow> moves st failed"

inductive_simps moves_from: "moves a b"

lemma moves_allowed: "moves a b \<longleftrightarrow> b \<in> allowed_transitions a"
  by (cases a; cases b) (simp_all add: moves_from)

lemma moves_decrease: "moves a b \<Longrightarrow> steps_left b < steps_left a"
  by (induction rule: moves.induct) auto

text \<open>A status update that succeeds either leaves the status or moves it one step forward, from pending to
  processing or failed, from processing to completed or failed, so a transfer changes status at most
  twice and a finished one never again; only the status and the reason change, only of this transfer, the
  money columns stay, and a finishing update writes exactly one audit entry.\<close>

theorem status_moves_forward:
  assumes "update_transfer_status x i st reason rid s = (Inr tr, s')"
  shows "\<exists>old. find_transfer i (db s) = Some old \<and>
    (st = tr_status old \<or> moves (tr_status old) st \<and> steps_left st < steps_left (tr_status old)) \<and>
    tr_status tr = st \<and> source_amount tr = source_amount old \<and> destination_amount tr = destination_amount old \<and>
    (\<forall>j. j \<noteq> i \<longrightarrow> find_transfer j (db s') = find_transfer j (db s)) \<and>
    find_transfer i (db s') = Some tr \<and> accounts (db s') = accounts (db s) \<and>
    length (audit_log (db s')) = length (audit_log (db s)) + (if st \<in> {completed, failed} then 1 else 0)"
  using assms
proof (rule update_transfer_status_InrD)
  fix old new
  assume o: "find_transfer i (db s) = Some old" "st = tr_status old \<or> st \<in> allowed_transitions (tr_status old)"
    and tr: "tr = old\<lparr>tr_status := st, failure_reason := (if reason \<noteq> None then reason else failure_reason old)\<rparr>"
    and d: "db s' = (set_status i st reason (db s))\<lparr>audit_log := audit_log (db s) @ new\<rparr>"
    and a: "map operation_type new = (case status_operation st of None \<Rightarrow> [] | Some ty \<Rightarrow> [ty])"
  have f: "find_transfer j (db s') = find_transfer j (set_status i st reason (db s))" for j
    by (simp add: d find_transfer_def)
  have "find_transfer i (db s') = Some tr"
    using o(1) tr by (simp add: f find_set_status)
  moreover have "j \<noteq> i \<Longrightarrow> find_transfer j (db s') = find_transfer j (db s)" for j
    by (simp add: f find_set_status)
  moreover have "length new = (if st \<in> {completed, failed} then 1 else 0)"
    using arg_cong[OF a, of length] by (auto simp: status_operation_def split: if_splits)
  ultimately show ?thesis using o tr d moves_decrease
    by (auto simp: moves_allowed set_status_def)
qed

definition sample_transfer :: "transfer_status \<Rightarrow> transfer" where
  "sample_transfer st =
     \<lparr>transfer_id = ''T1'', idempotency_key = ''key-1'', source_account_number = ''A'',
      destination_account_number = ''B'', source_amount = Dec 10000 (-4), source_currency = ''EUR'',
      destination_amount = Dec 10000 (-4), destination_currency = ''EUR'', exchange_rate = Dec 100000000 (-8),
      tr_status = st, failure_reason = None, transfer_type = None, sending_fee = None, sending_fee_currency = None,
      receiving_fee = None, receiving_fee_currency = None, fx_snapshot_id = None, rate_confirmed_at = None,
      source_amount_usd = None, caller_id = ''alice'', tr_created_at = 0\<rparr>"

definition sample_update :: "transfer_status \<Rightarrow> transfer_status \<Rightarrow> (exn + transfer) \<times> session" where
  "sample_update old st = update_transfer_status lenient_env ''T1'' st None None
     (open_session (empty_tables\<lparr>transfers := [sample_transfer old]\<rparr>))"

theorem status_moves_forward_witness:
  "\<exists>tr s'. sample_update processing completed = (Inr tr, s') \<and> tr_status tr = completed \<and> length (audit_log (db s')) = 1"
proof -
  have "succeeds (sample_update processing completed)" by code_simp
  then obtain tr s' where run: "sample_update processing completed = (Inr tr, s')" by (meson succeedsD)
  from status_moves_forward[OF run[unfolded sample_update_def]]
  have "tr_status tr = completed \<and> length (audit_log (db s')) = 1"
    by (auto simp: open_session_def empty_tables_def)
  with run show ?thesis by blast
qed

end
