(* ===== verification/TransferService.thy ===== *)
theory TransferService
  imports TransferRepo
begin

text \<open>
  \<open>schemas/transfer.py\<close> and \<open>services/transfer_service.py\<close>: the plain transfer with its idempotency
  look-up, its transaction, and the retry on deadlocks.
\<close>

section \<open>Requests and responses\<close>

record create_transfer_request =
  rq_source :: string
  rq_destination :: string
  rq_amount :: decimal

definition validate_create_transfer ::
  "string \<Rightarrow> string \<Rightarrow> decimal \<Rightarrow> (exn, create_transfer_request) res" where
  "validate_create_transfer src dst amt =
     (if length src < 1 then Inl (ValueError ''source_account_number'')
      else if length dst < 1 then Inl (ValueError ''destination_account_number'')
      else if src = dst then Inl (ValueError ''Source and destination accounts must be different.'')
      else if dle amt dzero then Inl (ValueError ''Transfer amount must be greater than zero.'')
      else Inr \<lparr>rq_source = src, rq_destination = dst, rq_amount = amt\<rparr>)"

record transfer_response =
  tp_transfer_id :: string
  tp_source_account_number :: string
  tp_destination_account_number :: string
  tp_source_amount :: string
  tp_source_currency :: string
  tp_destination_amount :: string
  tp_destination_currency :: string
  tp_exchange_rate :: string
  tp_status :: string
  tp_failure_reason :: "string option"
  tp_created_at :: string

definition from_orm_transfer :: "ext \<Rightarrow> transfer \<Rightarrow> transfer_response" where
  "from_orm_transfer x r =
     \<lparr>tp_transfer_id = transfer_id r, tp_source_account_number = source_account_number r,
      tp_destination_account_number = destination_account_number r,
      tp_source_amount = format_fixed 4 (source_amount r), tp_source_currency = source_currency r,
      tp_destination_amount = format_fixed 4 (destination_amount r),
      tp_destination_currency = destination_currency r,
      tp_exchange_rate = format_fixed 8 (exchange_rate r),
      tp_status = transfer_status_value (tr_status r), tp_failure_reason = failure_reason r,
      tp_created_at = isoformat x (tr_created_at r)\<rparr>"

section \<open>Shared steps\<close>

text \<open>\<open>select(Account)...with_for_update()\<close> and the check that follows it.\<close>

definition lock_active_account :: "ext \<Rightarrow> string \<Rightarrow> string \<Rightarrow> account op" where
  "lock_active_account x what n =
     sbind (db_query x (find_account n)) (\<lambda>r.
     let missing = fail_code NotFoundError (what @ '' account '' @ n @ '' does not exist.'') ''ACCOUNT_NOT_FOUND''
     in case r of
          None \<Rightarrow> sraise missing
        | Some a \<Rightarrow> if acc_status a \<noteq> active then sraise missing else sret a)"

text \<open>\<open>account.balance = v\<close>; the tables see it at the flush that follows.\<close>

definition assign_balance :: "ext \<Rightarrow> string \<Rightarrow> decimal \<Rightarrow> unit op" where
  "assign_balance x n v =
     sbind (sget (\<lambda>s. set_balance x n v (db_now x (tick s)) (db s))) (\<lambda>r.
     sbind (slift r) (\<lambda>t. smodify (\<lambda>s. s\<lparr>db := t\<rparr>)))"

section \<open>The transfer\<close>

definition insufficient_funds :: "account \<Rightarrow> string \<Rightarrow> decimal \<Rightarrow> exn" where
  "insufficient_funds a what needed =
     fail InsufficientFundsError
       (''Source account has insufficient funds: balance '' @ format_fixed 4 (balance a) @ '' '' @ currency a @
        '', '' @ what @ '' '' @ format_fixed 4 needed @ '' '' @ currency a @ ''.'')"

text \<open>
  The balance of the destination once the source is debited: one row is one object, so when both numbers
  agree it is the debited balance.
\<close>

definition held_by :: "create_transfer_request \<Rightarrow> account \<Rightarrow> account \<Rightarrow> decimal" where
  "held_by req src dst =
     (if rq_source req = rq_destination req then dsub (balance src) (rq_amount req) else balance dst)"

text \<open>The block under \<open>async with\<close>.\<close>

definition transfer_block ::
  "ext \<Rightarrow> exchange_rate_config \<Rightarrow> create_transfer_request \<Rightarrow> string \<Rightarrow> string \<Rightarrow> string option \<Rightarrow> transfer op" where
  "transfer_block x cfg req caller key rid =
     sbind (lock_active_account x ''Source'' (rq_source req)) (\<lambda>src.
     sbind (lock_active_account x ''Destination'' (rq_destination req)) (\<lambda>dst.
     sbind (slift (get_max_transfer_amount cfg (currency src))) (\<lambda>max_amount.
     sthen (sraise_if (dlt max_amount (rq_amount req))
       (fail LimitExceededError
         (''Transfer amount '' @ format_fixed 4 (rq_amount req) @ '' '' @ currency src @
          '' exceeds the maximum allowed per-transfer limit of '' @ format_fixed 4 max_amount @ '' '' @
          currency src @ ''.'')))
    (sthen (sraise_if (dlt (balance src) (rq_amount req)) (insufficient_funds src ''requested'' (rq_amount req)))
    (sbind (slift (get_rate cfg (currency src) (currency dst))) (\<lambda>rate.
     sbind (slift (quantize_or_raise ROUND_HALF_EVEN (dmul (rq_amount req) rate))) (\<lambda>damt.
     sthen (assign_balance x (rq_source req) (dsub (balance src) (rq_amount req)))
    (sthen (assign_balance x (rq_destination req) (dadd (held_by req src dst) damt))
    (sbind (create_transfer x key (rq_source req) (rq_destination req) (rq_amount req) (currency src)
       damt (currency dst) rate completed caller None None) (\<lambda>tr.
     sthen (write_audit_log x transfer_completed caller [rq_source req, rq_destination req]
       (Some (rq_amount req)) (Some (currency src)) ''success''
       [(''exchange_rate'', Some (str_decimal rate)), (''destination_amount'', Some (str_decimal damt)),
        (''destination_currency'', Some (currency dst))] rid)
     (sret tr)))))))))))"

definition idempotency_conflict :: exn where
  "idempotency_conflict =
     fail IdempotencyConflictError ''Idempotency-Key was previously used by a different caller.''"

definition execute_transfer_once ::
  "ext \<Rightarrow> exchange_rate_config \<Rightarrow> create_transfer_request \<Rightarrow> string \<Rightarrow> string \<Rightarrow> string option \<Rightarrow>
   (transfer_response \<times> bool) op" where
  "execute_transfer_once x cfg req caller key rid =
     sthen (sraise_if (dle (rq_amount req) dzero)
       (fail ValidationError ''Transfer amount must be greater than zero.''))
    (sbind (get_idempotency_record x key) (\<lambda>existing.
     case existing of
       Some tr \<Rightarrow>
         sthen (sraise_if (caller_id tr \<noteq> caller) idempotency_conflict)
        (sret (from_orm_transfer x tr, True))
     | None \<Rightarrow>
         sbind (transaction x (transfer_block x cfg req caller key rid)) (\<lambda>tr.
         sret (from_orm_transfer x tr, False))))"

section \<open>Retry on deadlock\<close>

fun contains :: "string \<Rightarrow> string \<Rightarrow> bool" where
  "contains sub [] = (sub = [])"
| "contains sub (c # cs) = (take (length sub) (c # cs) = sub \<or> contains sub cs)"

definition lower_char :: "char \<Rightarrow> char" where
  "lower_char c =
     (let n = (of_char c :: int) in if 65 \<le> n \<and> n \<le> 90 then char_of (n + 32) else c)"

definition lower :: "string \<Rightarrow> string" where
  "lower s = map lower_char s"

fun err_class_name :: "err_class \<Rightarrow> string" where
  "err_class_name FundTransferError = ''FundTransferError''"
| "err_class_name ValidationError = ''ValidationError''"
| "err_class_name UnsupportedCurrencyError = ''UnsupportedCurrencyError''"
| "err_class_name NotFoundError = ''NotFoundError''"
| "err_class_name ForbiddenError = ''ForbiddenError''"
| "err_class_name InsufficientFundsError = ''InsufficientFundsError''"
| "err_class_name LimitExceededError = ''LimitExceededError''"
| "err_class_name IdempotencyConflictError = ''IdempotencyConflictError''"
| "err_class_name AccountHasBalanceError = ''AccountHasBalanceError''"
| "err_class_name DatabaseError = ''DatabaseError''"
| "err_class_name StaleRateError = ''StaleRateError''"
| "err_class_name RateDeviationError = ''RateDeviationError''"
| "err_class_name UnsupportedCurrencyPairError = ''UnsupportedCurrencyPairError''"
| "err_class_name TransferLimitExceededError = ''TransferLimitExceededError''"
| "err_class_name CapacityExceededError = ''CapacityExceededError''"

text \<open>\<open>type(exc).__name__\<close> and \<open>str(exc)\<close>.\<close>

fun exn_name :: "exn \<Rightarrow> string" where
  "exn_name (AppError a) = err_class_name (err_class a)"
| "exn_name (HTTPException st c m) = ''HTTPException''"
| "exn_name InvalidOperation = ''InvalidOperation''"
| "exn_name (KeyError k) = ''KeyError''"
| "exn_name (ValueError m) = ''ValueError''"
| "exn_name (DbError n m) = n"
| "exn_name (OtherError n m) = n"

fun exn_text :: "exn \<Rightarrow> string" where
  "exn_text (AppError a) = message a"
| "exn_text (HTTPException st c m) = m"
| "exn_text InvalidOperation = ''''"
| "exn_text (KeyError k) = k"
| "exn_text (ValueError m) = m"
| "exn_text (DbError n m) = m"
| "exn_text (OtherError n m) = m"

definition is_deadlock :: "exn \<Rightarrow> bool" where
  "is_deadlock e \<longleftrightarrow>
     contains ''DeadlockDetected'' (exn_name e) \<or> contains ''deadlock'' (lower (exn_text e))"

text \<open>\<open>retry_on_deadlock(max_retries = n)\<close>: at most \<open>n + 1\<close> calls; the waits between them are left out.\<close>

fun retry_on_deadlock :: "nat \<Rightarrow> 'a op \<Rightarrow> 'a op" where
  "retry_on_deadlock 0 f s = f s"
| "retry_on_deadlock (Suc n) f s =
     (case f s of
        (Inr a, s') \<Rightarrow> (Inr a, s')
      | (Inl e, s') \<Rightarrow> if is_deadlock e then retry_on_deadlock n f s' else (Inl e, s'))"

definition execute_transfer ::
  "ext \<Rightarrow> exchange_rate_config \<Rightarrow> create_transfer_request \<Rightarrow> string \<Rightarrow> string \<Rightarrow> string option \<Rightarrow>
   (transfer_response \<times> bool) op" where
  "execute_transfer x cfg req caller key rid =
     retry_on_deadlock 3 (execute_transfer_once x cfg req caller key rid)"

section \<open>Failures leave the tables alone\<close>

lemma atomic_retry [op_intros]: "atomic f \<Longrightarrow> atomic (retry_on_deadlock n f)"
  unfolding atomic_def
proof (intro allI impI)
  fix s e s'
  assume f: "\<forall>s e s'. f s = (Inl e, s') \<longrightarrow> db s' = db s" and "retry_on_deadlock n f s = (Inl e, s')"
  then show "db s' = db s"
  proof (induction n f s rule: retry_on_deadlock.induct)
    case (2 n f s)
    obtain r s1 where fs: "f s = (r, s1)" by (cases "f s")
    show ?case
    proof (cases r)
      case (Inl e1)
      with fs "2.prems" have "db s1 = db s" by blast
      with "2.IH"[OF fs[symmetric] Inl _ "2.prems"(1)] "2.prems" fs Inl show ?thesis
        by (auto split: if_splits)
    next
      case (Inr a)
      with fs "2.prems" show ?thesis by simp
    qed
  qed auto
qed

lemma atomic_execute_transfer_once [op_intros]: "atomic (execute_transfer_once x cfg req caller key rid)"
  unfolding execute_transfer_once_def
  by (intro atomic_sthen_readonly atomic_sbind_readonly op_intros atomic_sbind_total)

lemma atomic_execute_transfer [op_intros]: "atomic (execute_transfer x cfg req caller key rid)"
  unfolding execute_transfer_def by (intro op_intros)

section \<open>What a completed transfer has done\<close>

definition with_balance :: "string \<Rightarrow> decimal \<Rightarrow> time \<Rightarrow> tables \<Rightarrow> tables" where
  "with_balance n b now t =
     t\<lparr>accounts := update_rows (\<lambda>r. account_number r = n) (\<lambda>r. r\<lparr>balance := b, acc_updated_at := Some now\<rparr>) (accounts t)\<rparr>"

lemma with_balance_tables [simp]:
  "transfers (with_balance n b now t) = transfers t" "audit_log (with_balance n b now t) = audit_log t"
  "notifications (with_balance n b now t) = notifications t"
  "fx_rate_snapshots (with_balance n b now t) = fx_rate_snapshots t"
  "currency_pairs (with_balance n b now t) = currency_pairs t"
  by (simp_all add: with_balance_def)

lemma find_with_balance:
  "find_account m (with_balance n b now t) =
     (if m = n then map_option (\<lambda>r. r\<lparr>balance := b, acc_updated_at := Some now\<rparr>) (find_account m t)
      else find_account m t)"
  unfolding find_account_def with_balance_def
  by (auto simp: find_row_update_same intro!: find_row_update_other)

lemma lock_active_account_InrD:
  "lock_active_account x what n s = (Inr a, s') \<Longrightarrow>
     find_account n (db s) = Some a \<and> acc_status a = active \<and> db s' = db s \<and> status_metric s' = status_metric s"
  unfolding lock_active_account_def sbind_Inr_iff db_query_Inr_iff Let_def
  by (cases "find_account n (db s)") (auto split: if_splits)

lemma assign_balance_InrD:
  assumes "assign_balance x n v s = (Inr u, s')"
  obtains b now where "put_numeric x 19 4 v = Inr b" "db s' = with_balance n b now (db s)"
    "status_metric s' = status_metric s"
  using assms unfolding assign_balance_def sbind_Inr_iff set_balance_def
  by (fastforce simp: rbind_Inr_iff with_balance_def)

lemma transfer_block_InrD:
  assumes "transfer_block x cfg req caller key rid s = (Inr tr, s')"
  obtains src dst limit rate damt b1 b2 n1 n2 a where
    "find_account (rq_source req) (db s) = Some src" "acc_status src = active"
    "find_account (rq_destination req) (db s) = Some dst" "acc_status dst = active"
    "get_max_transfer_amount cfg (currency src) = Inr limit" "\<not> dlt limit (rq_amount req)"
    "\<not> dlt (balance src) (rq_amount req)"
    "get_rate cfg (currency src) (currency dst) = Inr rate"
    "quantize ROUND_HALF_EVEN (- 4) (dmul (rq_amount req) rate) = Some damt"
    "put_numeric x 19 4 (dsub (balance src) (rq_amount req)) = Inr b1"
    "put_numeric x 19 4 (dadd (held_by req src dst) damt) = Inr b2"
    "db s' = (with_balance (rq_destination req) b2 n2 (with_balance (rq_source req) b1 n1 (db s)))
       \<lparr>transfers := transfers (db s) @ [tr], audit_log := audit_log (db s) @ [a]\<rparr>"
    "operation_type a = transfer_completed" "actor_identity a = caller"
    "affected_account_numbers a = [rq_source req, rq_destination req]"
    "idempotency_key tr = key" "source_account_number tr = rq_source req"
    "destination_account_number tr = rq_destination req"
    "put_numeric x 19 4 (rq_amount req) = Inr (source_amount tr)"
    "put_numeric x 19 4 damt = Inr (destination_amount tr)"
    "put_numeric x 20 8 rate = Inr (exchange_rate tr)" "source_currency tr = currency src"
    "destination_currency tr = currency dst" "tr_status tr = completed" "caller_id tr = caller"
    "source_amount_usd tr = None" "key \<notin> idempotency_key ` set (transfers (db s))"
    "transfer_id tr \<notin> transfer_id ` set (transfers (db s))" "status_metric s' = status_metric s"
proof -
  from assms[unfolded transfer_block_def sbind_Inr_iff sthen_Inr_iff slift_Inr_iff sraise_if_Inr_iff
      sret_Inr_iff quantize_or_raise_Inr]
  obtain src s1 dst s2 limit rate damt u3 s3 u4 s4 s5 u6 s6 where
    c: "lock_active_account x ''Source'' (rq_source req) s = (Inr src, s1)"
      "lock_active_account x ''Destination'' (rq_destination req) s1 = (Inr dst, s2)"
      "get_max_transfer_amount cfg (currency src) = Inr limit" "\<not> dlt limit (rq_amount req)"
      "\<not> dlt (balance src) (rq_amount req)" "get_rate cfg (currency src) (currency dst) = Inr rate"
      "quantize ROUND_HALF_EVEN (- 4) (dmul (rq_amount req) rate) = Some damt"
      "assign_balance x (rq_source req) (dsub (balance src) (rq_amount req)) s2 = (Inr u3, s3)"
      "assign_balance x (rq_destination req) (dadd (held_by req src dst) damt) s3 = (Inr u4, s4)"
      "create_transfer x key (rq_source req) (rq_destination req) (rq_amount req) (currency src)
         damt (currency dst) rate completed caller None None s4 = (Inr tr, s5)"
      "write_audit_log x transfer_completed caller [rq_source req, rq_destination req]
         (Some (rq_amount req)) (Some (currency src)) ''success''
         [(''exchange_rate'', Some (str_decimal rate)), (''destination_amount'', Some (str_decimal damt)),
          (''destination_currency'', Some (currency dst))] rid s5 = (Inr u6, s6)" "s' = s6"
    by blast
  from lock_active_account_InrD[OF c(1)] lock_active_account_InrD[OF c(2)]
  have l: "find_account (rq_source req) (db s) = Some src" "acc_status src = active"
    "find_account (rq_destination req) (db s) = Some dst" "acc_status dst = active"
    "db s2 = db s" "status_metric s2 = status_metric s" by simp_all
  from c(8) obtain b1 n1 where b1: "put_numeric x 19 4 (dsub (balance src) (rq_amount req)) = Inr b1"
    "db s3 = with_balance (rq_source req) b1 n1 (db s2)" "status_metric s3 = status_metric s2"
    by (rule assign_balance_InrD)
  from c(9) obtain b2 n2 where b2: "put_numeric x 19 4 (dadd (held_by req src dst) damt) = Inr b2"
    "db s4 = with_balance (rq_destination req) b2 n2 (db s3)" "status_metric s4 = status_metric s3"
    by (rule assign_balance_InrD)
  note t = create_transfer_InrD[OF c(10)]
  from c(11) obtain a where a: "db s6 = (db s5)\<lparr>audit_log := audit_log (db s5) @ [a]\<rparr>"
    "operation_type a = transfer_completed" "actor_identity a = caller"
    "affected_account_numbers a = [rq_source req, rq_destination req]" "status_metric s6 = status_metric s5"
    by (rule write_audit_log_InrD)
  have d: "db s' = (with_balance (rq_destination req) b2 n2 (with_balance (rq_source req) b1 n1 (db s)))
       \<lparr>transfers := transfers (db s) @ [tr], audit_log := audit_log (db s) @ [a]\<rparr>"
    by (simp add: c(12) a(1) t(1) b2 b1 l(5))
  have k: "key \<notin> idempotency_key ` set (transfers (db s))" "transfer_id tr \<notin> transfer_id ` set (transfers (db s))"
    "status_metric s' = status_metric s"
    using t(15,16,17) a(5) by (simp_all add: b2 b1 l c(12))
  show thesis
    by (rule that[OF l(1-4) c(3-7) b1(1) b2(1) d a(2-4) t(2-12) k])
qed

lemma retry_InrD:
  assumes "atomic f" "retry_on_deadlock n f s = (Inr a, s')"
  shows "\<exists>s0. db s0 = db s \<and> f s0 = (Inr a, s')"
  using assms(2)
proof (induction n arbitrary: s)
  case (Suc n)
  obtain r s1 where fs: "f s = (r, s1)" by (cases "f s")
  show ?case
  proof (cases r)
    case (Inl e)
    with fs Suc.prems have "retry_on_deadlock n f s1 = (Inr a, s')" by (auto split: if_splits)
    with Suc.IH obtain s0 where "db s0 = db s1" "f s0 = (Inr a, s')" by blast
    moreover have "db s1 = db s" using fs Inl atomicD[OF assms(1)] by blast
    ultimately show ?thesis by auto
  next
    case (Inr b)
    with fs Suc.prems show ?thesis by auto
  qed
qed auto

lemma retry_InlD:
  assumes "atomic f" "retry_on_deadlock n f s = (Inl e, s')"
  shows "\<exists>s0 s1. db s0 = db s \<and> f s0 = (Inl e, s1)"
  using assms(2)
proof (induction n arbitrary: s)
  case (Suc n)
  obtain r s1 where fs: "f s = (r, s1)" by (cases "f s")
  show ?case
  proof (cases "\<exists>e1. r = Inl e1 \<and> is_deadlock e1")
    case True
    with fs Suc.prems have "retry_on_deadlock n f s1 = (Inl e, s')" by auto
    with Suc.IH obtain s0 s2 where "db s0 = db s1" "f s0 = (Inl e, s2)" by blast
    moreover have "db s1 = db s" using fs True atomicD[OF assms(1)] by blast
    ultimately show ?thesis by auto
  next
    case False
    with fs Suc.prems show ?thesis by (cases r) auto
  qed
qed auto

lemma execute_transfer_once_InrD:
  assumes "execute_transfer_once x cfg req caller key rid s = (Inr (r, replay), s')"
  obtains (replayed) tr where "replay" "find_by_key key (db s) = Some tr" "caller_id tr = caller"
    "r = from_orm_transfer x tr" "db s' = db s" "\<not> dle (rq_amount req) dzero"
  | (fresh) tr s0 s1 where "\<not> replay" "find_by_key key (db s) = None" "db s0 = db s"
    "transfer_block x cfg req caller key rid s0 = (Inr tr, s1)" "r = from_orm_transfer x tr"
    "db s' = db s1" "\<not> dle (rq_amount req) dzero"
proof -
  let ?s1 = "s\<lparr>tick := Suc (tick s), in_tx := True\<rparr>"
  have amt: "\<not> dle (rq_amount req) dzero"
    and q: "(case find_by_key key (db s) of
       Some tr \<Rightarrow>
         sthen (sraise_if (caller_id tr \<noteq> caller) idempotency_conflict)
        (sret (from_orm_transfer x tr, True))
     | None \<Rightarrow>
         sbind (transaction x (transfer_block x cfg req caller key rid)) (\<lambda>tr.
         sret (from_orm_transfer x tr, False))) ?s1 = (Inr (r, replay), s')"
    using assms unfolding execute_transfer_once_def get_idempotency_record_def sthen_Inr_iff[of "sraise_if b e" for b e] sbind_Inr_iff[of "db_query x w" for w] db_query_Inr_iff
    by auto
  show thesis
  proof (cases "find_by_key key (db s)")
    case None
    with q obtain tr where tr: "transaction x (transfer_block x cfg req caller key rid) ?s1 = (Inr tr, s')"
       "r = from_orm_transfer x tr" "\<not> replay" by (auto simp: sbind_Inr_iff)
    from transaction_InrD[OF tr(1)] obtain s1 where
      "transfer_block x cfg req caller key rid (?s1\<lparr>in_tx := True\<rparr>) = (Inr tr, s1)" "db s' = db s1" by auto
    with None tr amt fresh[of "?s1\<lparr>in_tx := True\<rparr>" tr s1] show thesis by simp
  next
    case (Some tr)
    with q amt replayed show thesis by (auto simp: sthen_Inr_iff)
  qed
qed

lemma execute_transfer_InrD:
  assumes "execute_transfer x cfg req caller key rid s = (Inr (r, replay), s')"
  obtains (replayed) tr where "replay" "find_by_key key (db s) = Some tr" "caller_id tr = caller"
    "r = from_orm_transfer x tr" "db s' = db s" "\<not> dle (rq_amount req) dzero"
  | (fresh) tr s0 s1 where "\<not> replay" "find_by_key key (db s) = None" "db s0 = db s"
    "transfer_block x cfg req caller key rid s0 = (Inr tr, s1)" "r = from_orm_transfer x tr"
    "db s' = db s1" "\<not> dle (rq_amount req) dzero"
proof -
  from retry_InrD[OF atomic_execute_transfer_once assms[unfolded execute_transfer_def]]
  obtain s0 where "db s0 = db s" "execute_transfer_once x cfg req caller key rid s0 = (Inr (r, replay), s')"
    by blast
  from this(2) show thesis
  proof (cases rule: execute_transfer_once_InrD)
    case (replayed tr)
    with that(1) \<open>db s0 = db s\<close> show thesis by simp
  next
    case (fresh tr s1 s2)
    show thesis by (rule that(2)[OF fresh(1) _ _ fresh(4,5,6,7)]) (use fresh \<open>db s0 = db s\<close> in simp_all)
  qed
qed

lemma with_balance_inv:
  assumes "ledger_inv t" "find_account n t = Some a" "acc_status a = active" "fits 19 4 b"
  shows "ledger_inv (with_balance n b now t)"
  unfolding with_balance_def using assms
  by (intro ledger_inv_update_accounts) (auto simp: good_account_def)

lemma balance_of_with_balance:
  "find_account n t = Some a \<Longrightarrow>
     balance_of m (with_balance n b now t) = (if m = n then dval b else balance_of m t)"
  by (simp add: balance_of_def find_with_balance)

lemma holdings_with_balance:
  assumes "ledger_inv t" "find_account n t = Some a"
  shows "holdings cur (with_balance n b now t) =
     holdings cur t + (if currency a = cur then dval b - dval (balance a) else 0)"
  unfolding holdings_sum with_balance_def
  using sum_list_update_row[of account_number "accounts t" n a "\<lambda>a. if currency a = cur then dval (balance a) else 0"] assms
  by (simp add: ledger_inv_def find_account_def)

lemma find_account_good:
  "ledger_inv t \<Longrightarrow> find_account n t = Some a \<Longrightarrow> good_account a \<and> account_number a = n"
  by (auto simp: ledger_inv_def find_account_def list_all_iff dest!: find_row_SomeD)

lemma ledger_inv_congs [simp]:
  "balance_of n (t\<lparr>transfers := r, audit_log := l\<rparr>) = balance_of n t"
  "find_account n (t\<lparr>transfers := r, audit_log := l\<rparr>) = find_account n t"
  "holdings c (t\<lparr>transfers := r, audit_log := l\<rparr>) = holdings c t"
  by (simp_all add: balance_of_def find_account_def holdings_def)

lemma transfer_block_moves:
  assumes "transfer_block x cfg req caller key rid s = (Inr tr, s')" "numeric_law x" "ledger_inv (db s)"
    "rq_source req \<noteq> rq_destination req" "\<not> dle (rq_amount req) dzero"
  obtains src dst rate credit debit b1 where "find_account (rq_source req) (db s) = Some src"
    "find_account (rq_destination req) (db s) = Some dst"
    "get_rate cfg (currency src) (currency dst) = Inr rate"
    "2 * \<bar>credit - dval (dmul (rq_amount req) rate)\<bar> \<le> 10 powi (- 4)"
    "- 4 \<le> dexp (dmul (rq_amount req) rate) \<Longrightarrow> credit = dval (dmul (rq_amount req) rate)"
    "dval (rq_amount req) \<le> dval (balance src)"
    "\<And>n. balance_of n (db s') = balance_of n (db s)
       + (if n = rq_destination req then credit else 0) - (if n = rq_source req then debit else 0)"
    "\<And>c. holdings c (db s') = holdings c (db s)
       + (if c = currency dst then credit else 0) - (if c = currency src then debit else 0)"
    "\<And>n. n \<noteq> rq_source req \<Longrightarrow> n \<noteq> rq_destination req \<Longrightarrow> find_account n (db s') = find_account n (db s)"
    "fits 19 4 (destination_amount tr)" "dval (destination_amount tr) = credit"
    "put_numeric x 19 4 (dsub (balance src) (rq_amount req)) = Inr b1" "debit = dval (balance src) - dval b1"
    "- 4 \<le> dexp (rq_amount req) \<Longrightarrow> debit = dval (rq_amount req)"
proof -
  from assms(1) obtain src dst limit rate damt b1 b2 n1 n2 a where f:
    "find_account (rq_source req) (db s) = Some src" "acc_status src = active"
    "find_account (rq_destination req) (db s) = Some dst" "acc_status dst = active"
    "get_max_transfer_amount cfg (currency src) = Inr limit" "\<not> dlt limit (rq_amount req)"
    "\<not> dlt (balance src) (rq_amount req)"
    "get_rate cfg (currency src) (currency dst) = Inr rate"
    "quantize ROUND_HALF_EVEN (- 4) (dmul (rq_amount req) rate) = Some damt"
    "put_numeric x 19 4 (dsub (balance src) (rq_amount req)) = Inr b1"
    "put_numeric x 19 4 (dadd (held_by req src dst) damt) = Inr b2"
    "db s' = (with_balance (rq_destination req) b2 n2 (with_balance (rq_source req) b1 n1 (db s)))
       \<lparr>transfers := transfers (db s) @ [tr], audit_log := audit_log (db s) @ [a]\<rparr>"
    "put_numeric x 19 4 damt = Inr (destination_amount tr)"
    by (rule transfer_block_InrD)
  let ?t1 = "with_balance (rq_source req) b1 n1 (db s)"
  have g: "fits 19 4 (balance src)" "fits 19 4 (balance dst)"
    using find_account_good[OF assms(3)] f(1,3) by (simp_all add: good_account_def)
  have amt: "0 \<le> dval (rq_amount req)" "dval (rq_amount req) \<le> dval (balance src)"
    using assms(5) f(7) by (simp_all add: dle_iff dlt_iff)
  have da: "fits 19 4 (destination_amount tr)" "dval (destination_amount tr) = dval damt"
    using f(13) assms(2) quantizeD(1)[OF f(9)] by (auto intro: put_numeric_fits dest: numeric_lawD)
  moreover have "fits 28 4 damt" using quantizeD[OF f(9)] by (simp add: fits_def)
  ultimately have "damt = destination_amount tr" using fits_unique by metis
  with da have d: "fits 19 4 damt" by simp
  have b1: "dval b1 = dval (balance src) - dval (rq_amount req)" if "- 4 \<le> dexp (rq_amount req)"
    using numeric_lawD(3)[OF assms(2) f(10)] debit_exact[OF g(1) that amt] by simp
  have b2: "dval b2 = dval (balance dst) + dval damt"
    using numeric_lawD(3)[OF assms(2) f(11)] credit_exact[OF g(2) d] assms(4) by (simp add: held_by_def)
  have inv1: "ledger_inv ?t1"
    using with_balance_inv[OF assms(3) f(1,2) put_numeric_fits[OF assms(2) f(10)]] .
  have dst1: "find_account (rq_destination req) ?t1 = Some dst" using f(3) assms(4) by (simp add: find_with_balance)
  show thesis
  proof (rule that[OF f(1,3,8), where debit = "dval (balance src) - dval b1", OF _ _ _ _ _ _ _ _ f(10) refl])
    show "2 * \<bar>dval damt - dval (dmul (rq_amount req) rate)\<bar> \<le> 10 powi (- 4)" by (rule quantize_error[OF f(9)])
    show "- 4 \<le> dexp (dmul (rq_amount req) rate) \<Longrightarrow> dval damt = dval (dmul (rq_amount req) rate)"
      using quantizeD(3)[OF f(9)] rescale_exact by simp
    show "balance_of n (db s') = balance_of n (db s)
       + (if n = rq_destination req then dval damt else 0) - (if n = rq_source req then dval (balance src) - dval b1 else 0)" for n
      unfolding f(12) using assms(4)
      by (simp add: balance_of_with_balance[OF dst1] balance_of_with_balance[OF f(1)] b2)
        (simp add: balance_of_def f(1,3))
    show "holdings c (db s') = holdings c (db s)
       + (if c = currency dst then dval damt else 0) - (if c = currency src then dval (balance src) - dval b1 else 0)" for c
      unfolding f(12)
      by (simp add: holdings_with_balance[OF inv1 dst1] holdings_with_balance[OF assms(3) f(1)] b2)
    show "find_account n (db s') = find_account n (db s)" if "n \<noteq> rq_source req" "n \<noteq> rq_destination req" for n
      unfolding f(12) using that by (simp add: find_with_balance)
  qed (use amt da b1 in simp_all)
qed

section \<open>Correctness of the plain transfer\<close>

definition sample_rates :: exchange_rate_config where
  "sample_rates =
     \<lparr>supported_currencies = [''EUR'', ''USD''],
      max_transfer_amounts = [(''EUR'', Dec 10000 0), (''USD'', Dec 10000 0)],
      rates = [(''EUR'', [(''USD'', Dec 1085 (-3))]), (''USD'', [(''EUR'', Dec 9217 (-4))])]\<rparr>"

text \<open>Alice has 100.0000 EUR, Bob 5.0000 USD, Carol 7.0000 EUR.\<close>

definition sample_tables :: tables where
  "sample_tables = empty_tables\<lparr>accounts :=
     [sample_account ''A'' ''alice'' ''EUR'' (Dec 1000000 (-4)),
      sample_account ''B'' ''bob'' ''USD'' (Dec 50000 (-4)),
      sample_account ''C'' ''carol'' ''EUR'' (Dec 70000 (-4))]\<rparr>"

lemma sample_inv: "ledger_inv sample_tables"
  by (simp add: ledger_inv_def sample_tables_def empty_tables_def sample_account_def good_account_def fits_def)

definition is_new :: "(exn + 'a \<times> bool) \<times> session \<Rightarrow> bool" where
  "is_new r = (case r of (Inr (_, replay), _) \<Rightarrow> \<not> replay | _ \<Rightarrow> False)"

lemma is_newD: "is_new r \<Longrightarrow> \<exists>a s'. r = (Inr (a, False), s')"
  by (auto simp: is_new_def split: prod.splits sum.splits)

definition sample_run :: "string \<Rightarrow> (exn + transfer_response \<times> bool) \<times> session" where
  "sample_run dst = execute_transfer strict_env sample_rates
     \<lparr>rq_source = ''A'', rq_destination = dst, rq_amount = Dec 125 (-1)\<rparr> ''alice'' ''key-1'' None
     (open_session sample_tables)"

lemma sample_run_new: "is_new (sample_run ''B'')" "is_new (sample_run ''C'')"
  by code_simp+

text \<open>C1. A new plain transfer credits the destination with amount times rate to within half a
  ten-thousandth, leaves the source with what its column holds of balance minus amount, which is exactly
  that difference when the amount has at most four decimals, takes no more than the source holds, and
  leaves every other account as it was. The database's numeric columns are taken to follow
  \<open>numeric_law\<close> and the tables to be well formed; the two accounts are different, as the request schema
  demands.\<close>

theorem transfer_moves_money:
  assumes "execute_transfer x cfg req caller key rid s = (Inr (r, False), s')"
    "numeric_law x" "ledger_inv (db s)" "rq_source req \<noteq> rq_destination req"
  shows "\<exists>src dst rate credit b.
    find_account (rq_source req) (db s) = Some src \<and> find_account (rq_destination req) (db s) = Some dst \<and>
    get_rate cfg (currency src) (currency dst) = Inr rate \<and>
    2 * \<bar>credit - dval (dmul (rq_amount req) rate)\<bar> \<le> 10 powi (- 4) \<and>
    0 < dval (rq_amount req) \<and> dval (rq_amount req) \<le> dval (balance src) \<and>
    put_numeric x 19 4 (dsub (balance src) (rq_amount req)) = Inr b \<and>
    balance_of (rq_source req) (db s') = dval b \<and>
    (- 4 \<le> dexp (rq_amount req) \<longrightarrow>
       balance_of (rq_source req) (db s') = dval (balance src) - dval (rq_amount req)) \<and>
    balance_of (rq_destination req) (db s') = dval (balance dst) + credit \<and>
    (\<forall>n. n \<noteq> rq_source req \<longrightarrow> n \<noteq> rq_destination req \<longrightarrow> find_account n (db s') = find_account n (db s))"
  using assms(1)
proof (cases rule: execute_transfer_InrD)
  case (fresh tr s0 s1)
  have "ledger_inv (db s0)" using assms(3) fresh(3) by simp
  from transfer_block_moves[OF fresh(4) assms(2) this assms(4) fresh(7)] obtain src dst rate credit debit b where
    m: "find_account (rq_source req) (db s0) = Some src" "find_account (rq_destination req) (db s0) = Some dst"
    "get_rate cfg (currency src) (currency dst) = Inr rate"
    "2 * \<bar>credit - dval (dmul (rq_amount req) rate)\<bar> \<le> 10 powi (- 4)" "dval (rq_amount req) \<le> dval (balance src)"
    "\<And>n. balance_of n (db s1) = balance_of n (db s0)
       + (if n = rq_destination req then credit else 0) - (if n = rq_source req then debit else 0)"
    "\<And>n. n \<noteq> rq_source req \<Longrightarrow> n \<noteq> rq_destination req \<Longrightarrow> find_account n (db s1) = find_account n (db s0)"
    "put_numeric x 19 4 (dsub (balance src) (rq_amount req)) = Inr b" "debit = dval (balance src) - dval b"
    "- 4 \<le> dexp (rq_amount req) \<Longrightarrow> debit = dval (rq_amount req)"
    by metis
  have "balance_of (rq_source req) (db s0) = dval (balance src)" "balance_of (rq_destination req) (db s0) = dval (balance dst)"
    using m(1,2) by (simp_all add: balance_of_def)
  with m fresh assms(4) show ?thesis
    by (intro exI[of _ src] exI[of _ dst] exI[of _ rate] exI[of _ credit] exI[of _ b]) (simp add: dle_iff)
qed simp

lemma sample_facts:
  "ledger_inv (db (open_session sample_tables))"
  "find_account ''A'' (db (open_session sample_tables)) = Some (sample_account ''A'' ''alice'' ''EUR'' (Dec 1000000 (-4)))"
  "find_account ''B'' (db (open_session sample_tables)) = Some (sample_account ''B'' ''bob'' ''USD'' (Dec 50000 (-4)))"
  "find_account ''C'' (db (open_session sample_tables)) = Some (sample_account ''C'' ''carol'' ''EUR'' (Dec 70000 (-4)))"
  "get_rate sample_rates ''EUR'' ''USD'' = Inr (Dec 1085 (-3))"
  "currency (sample_account n own cur b) = cur" "balance (sample_account n own cur b) = b"
  using sample_inv by (simp_all add: open_session_def sample_tables_def empty_tables_def sample_account_def
      find_account_def get_rate_def sample_rates_def validate_currency_def lookup2_def)

theorem transfer_moves_money_witness:
  "\<exists>r s'. sample_run ''B'' = (Inr (r, False), s') \<and> balance_of ''A'' (db s') = 875 / 10 \<and>
     2 * \<bar>balance_of ''B'' (db s') - (5 + 135625 / 10000)\<bar> \<le> 1 / 10 ^ 4"
proof -
  obtain r s' where run: "sample_run ''B'' = (Inr (r, False), s')"
    using is_newD[OF sample_run_new(1)] by blast
  from transfer_moves_money[OF run[unfolded sample_run_def], simplified sample_facts, simplified]
  obtain credit where "2 * \<bar>credit - dval (dmul (Dec 125 (-1)) (Dec 1085 (-3)))\<bar> \<le> 10 powi (- 4)"
     "balance_of ''A'' (db s') = dval (Dec 1000000 (-4)) - dval (Dec 125 (-1))"
     "balance_of ''B'' (db s') = dval (Dec 50000 (-4)) + credit"
    by (auto simp: sample_facts)
  then show ?thesis
    by (simp add: run dval_Dec dfix_exact power_int_def field_simps)
qed

text \<open>The request schema takes amounts with any number of decimals. Of 0.00005 EUR, whose debit is lost in
  the column's rounding, Bob gets 0.0001 USD: Alice keeps 100.0000 EUR.\<close>

lemma tiny_amount_is_credited_not_debited:
  "map (\<lambda>a. (account_number a, balance a)) (accounts (db (snd (execute_transfer strict_env sample_rates
     \<lparr>rq_source = ''A'', rq_destination = ''B'', rq_amount = Dec 5 (-5)\<rparr> ''alice'' ''key-1'' None
     (open_session sample_tables))))) =
   [(''A'', Dec 1000000 (-4)), (''B'', Dec 50001 (-4)), (''C'', Dec 70000 (-4))]"
  "validate_create_transfer ''A'' ''B'' (Dec 5 (-5)) =
     Inr \<lparr>rq_source = ''A'', rq_destination = ''B'', rq_amount = Dec 5 (-5)\<rparr>"
  by code_simp+

text \<open>When the product of amount and rate needs no rounding, no money is created or lost: the
  destination's currency gains exactly amount times rate and the source's loses the amount; between two
  accounts of one currency the total held in every currency is unchanged.\<close>

theorem transfer_conserves:
  assumes "execute_transfer x cfg req caller key rid s = (Inr (r, False), s')"
    "numeric_law x" "ledger_inv (db s)" "rq_source req \<noteq> rq_destination req" "- 4 \<le> dexp (rq_amount req)"
    "find_account (rq_source req) (db s) = Some src" "find_account (rq_destination req) (db s) = Some dst"
    "currency src = currency dst"
  shows "holdings c (db s') = holdings c (db s)"
  using assms(1)
proof (cases rule: execute_transfer_InrD)
  case (fresh tr s0 s1)
  have "ledger_inv (db s0)" using assms(3) fresh(3) by simp
  from transfer_block_moves[OF fresh(4) assms(2) this assms(4) fresh(7)] obtain src' dst' rate credit debit where
    m: "find_account (rq_source req) (db s0) = Some src'" "find_account (rq_destination req) (db s0) = Some dst'"
    "get_rate cfg (currency src') (currency dst') = Inr rate"
    "- 4 \<le> dexp (dmul (rq_amount req) rate) \<Longrightarrow> credit = dval (dmul (rq_amount req) rate)"
    "dval (rq_amount req) \<le> dval (balance src')"
    "\<And>c. holdings c (db s1) = holdings c (db s0)
       + (if c = currency dst' then credit else 0) - (if c = currency src' then debit else 0)"
    "- 4 \<le> dexp (rq_amount req) \<Longrightarrow> debit = dval (rq_amount req)"
    by metis
  have same: "src' = src" "dst' = dst" using m(1,2) fresh(3) assms(6,7) by simp_all
  then have rate: "rate = Dec 1 0" using m(3) assms(8) by (simp add: get_rate_def)
  have "fits 19 4 (balance src)"
    using find_account_good[OF assms(3,6)] by (simp add: good_account_def)
  have "\<bar>scaled (- 4) (rq_amount req)\<bar> < 10 ^ 19"
    using debit_coeff[OF \<open>fits 19 4 (balance src)\<close> assms(5)] m(5) fresh(7) same by (simp add: dle_iff)
  then have "\<bar>coeff (rq_amount req)\<bar> < 10 ^ 28"
    using coeff_le_scaled[OF assms(5)] by simp
  then have "dmul (rq_amount req) rate = rq_amount req"
    by (cases "rq_amount req") (simp add: rate dfix_exact)
  with m(4) assms(5) have "credit = dval (rq_amount req)" by simp
  with m(6) m(7)[OF assms(5)] same assms(8) fresh(3,6) show ?thesis by simp
qed simp

theorem transfer_conserves_witness:
  "\<exists>r s'. sample_run ''C'' = (Inr (r, False), s') \<and> holdings ''EUR'' (db s') = 107"
proof -
  obtain r s' where run: "sample_run ''C'' = (Inr (r, False), s')"
    using is_newD[OF sample_run_new(2)] by blast
  from transfer_conserves[OF run[unfolded sample_run_def], of _ _ "''EUR''"]
  have "holdings ''EUR'' (db s') = holdings ''EUR'' (db (open_session sample_tables))" by (simp add: sample_facts)
  then show ?thesis
    by (simp add: run holdings_def open_session_def sample_tables_def empty_tables_def sample_account_def dval_Dec power_int_def power_divide)
qed

text \<open>A key is good for one transfer: once it has produced a transfer, a later request with that key from
  the same caller is answered with the stored response marked as a replay and leaves the tables alone,
  and one from another caller is refused as a conflict. The look-up of the key must not fail, and the
  texts of times must not depend on the process. The body of the later request is not compared.\<close>

lemma transfer_block_key:
  assumes "transfer_block x cfg req caller key rid s = (Inr tr, s')"
  shows "find_by_key key (db s') = Some tr" "caller_id tr = caller"
proof -
  from assms have "idempotency_key tr = key" "transfers (db s') = transfers (db s) @ [tr]"
    "key \<notin> idempotency_key ` set (transfers (db s))" "caller_id tr = caller" by (auto elim!: transfer_block_InrD)
  then show "find_by_key key (db s') = Some tr" "caller_id tr = caller"
    using find_row_new[of idempotency_key tr "transfers (db s)"] by (simp_all add: find_by_key_def)
qed

lemma used_key:
  assumes "execute_transfer x cfg req caller key rid s = (Inr (r, False), s')"
    "db_fails y (tick s2) = None" "isoformat y = isoformat x" "db s2 = db s'" "0 < dval (rq_amount req')"
  shows "if caller' = caller
     then \<exists>s3. execute_transfer y cfg' req' caller' key rid' s2 = (Inr (r, True), s3) \<and> db s3 = db s'
     else \<exists>s3. execute_transfer y cfg' req' caller' key rid' s2 = (Inl idempotency_conflict, s3) \<and> db s3 = db s'"
  using assms(1)
proof (cases rule: execute_transfer_InrD)
  case (fresh tr s0 s1)
  have key: "find_by_key key (db s2) = Some tr" "caller_id tr = caller"
    using transfer_block_key[OF fresh(4)] fresh(6) assms(4) by simp_all
  have resp: "from_orm_transfer y tr = r" using fresh(5) assms(3) by (simp add: from_orm_transfer_def)
  have nd: "\<not> is_deadlock idempotency_conflict" by code_simp
  let ?s3 = "s2\<lparr>tick := Suc (tick s2), in_tx := True\<rparr>"
  have "execute_transfer_once y cfg' req' caller' key rid' s2 =
      (if caller' = caller then (Inr (r, True), ?s3) else (Inl idempotency_conflict, ?s3))"
    using assms(2,5) key resp
    by (auto simp: execute_transfer_once_def get_idempotency_record_def db_query_def db_call_def svc_defs dle_iff)
  then show ?thesis using nd assms(4)
    by (cases "caller' = caller") (simp_all add: execute_transfer_def eval_nat_numeral)
qed simp



text \<open>The API's contract wants 409 for a key that comes back with another body; the service answers it with
  the first transfer's response.\<close>

lemma other_body_is_replayed:
  "\<exists>r s' s3. sample_run ''B'' = (Inr (r, False), s') \<and> db s3 = db s' \<and>
     execute_transfer strict_env sample_rates \<lparr>rq_source = ''C'', rq_destination = ''A'', rq_amount = Dec 1 0\<rparr>
       ''alice'' ''key-1'' None s' = (Inr (r, True), s3)"
proof -
  obtain r s' where run: "sample_run ''B'' = (Inr (r, False), s')"
    using is_newD[OF sample_run_new(1)] by blast
  from used_key[OF run[unfolded sample_run_def] sample_env(3) refl refl,
      of "\<lparr>rq_source = ''C'', rq_destination = ''A'', rq_amount = Dec 1 0\<rparr>" "''alice''" sample_rates None]
  show ?thesis by (auto simp: run dval_Dec)
qed

text \<open>A failing operation is called again exactly as long as it fails with a deadlock and retries are
  left: the outcome is that of call number \<open>k\<close>, at most \<open>n\<close>, every call before it failed with a deadlock,
  and call \<open>k\<close> did not, unless it was the last one allowed.\<close>

theorem retry_outcome:
  "\<exists>k \<le> n. retry_on_deadlock n f s = f (((\<lambda>s. snd (f s)) ^^ k) s) \<and>
     (\<forall>j < k. \<exists>e. fst (f (((\<lambda>s. snd (f s)) ^^ j) s)) = Inl e \<and> is_deadlock e) \<and>
     (k < n \<longrightarrow> \<not> (\<exists>e. fst (f (((\<lambda>s. snd (f s)) ^^ k) s)) = Inl e \<and> is_deadlock e))"
proof (induction n arbitrary: s)
  case 0
  then show ?case by simp
next
  case (Suc n)
  obtain r s1 where fs: "f s = (r, s1)" by (cases "f s")
  show ?case
  proof (cases "\<exists>e. r = Inl e \<and> is_deadlock e")
    case True
    from Suc.IH[of s1] obtain k where k: "k \<le> n" "retry_on_deadlock n f s1 = f (((\<lambda>s. snd (f s)) ^^ k) s1)"
      "\<forall>j < k. \<exists>e. fst (f (((\<lambda>s. snd (f s)) ^^ j) s1)) = Inl e \<and> is_deadlock e"
      "k < n \<longrightarrow> \<not> (\<exists>e. fst (f (((\<lambda>s. snd (f s)) ^^ k) s1)) = Inl e \<and> is_deadlock e)" by blast
    have shift: "((\<lambda>s. snd (f s)) ^^ j) s1 = ((\<lambda>s. snd (f s)) ^^ Suc j) s" for j
      using fs funpow_swap1[of "\<lambda>s. snd (f s)" j s] by simp
    have "\<exists>e. fst (f (((\<lambda>s. snd (f s)) ^^ j) s)) = Inl e \<and> is_deadlock e" if "j < Suc k" for j
      using that True fs k(3) by (cases j) (auto simp: shift[symmetric] simp del: funpow.simps)
    with k True fs show ?thesis
      by (intro exI[of _ "Suc k"]) (auto simp: shift simp del: funpow.simps)
  next
    case False
    with fs show ?thesis by (intro exI[of _ 0]) (auto split: sum.splits)
  qed
qed

text \<open>Two deadlocks, then success.\<close>

definition deadlock_twice :: "nat op" where
  "deadlock_twice s =
     (if tick s < 2 then (Inl (DbError ''DeadlockDetectedError'' ''''), s\<lparr>tick := Suc (tick s)\<rparr>)
      else (Inr (tick s), s))"

theorem retry_outcome_witness:
  "fst (retry_on_deadlock 3 deadlock_twice (open_session empty_tables)) = Inr 2 \<and>
   (\<exists>k \<le> 3. retry_on_deadlock 3 deadlock_twice (open_session empty_tables) =
      deadlock_twice (((\<lambda>s. snd (deadlock_twice s)) ^^ k) (open_session empty_tables)))"
proof
  show "fst (retry_on_deadlock 3 deadlock_twice (open_session empty_tables)) = Inr 2" by code_simp
  show "\<exists>k \<le> 3. retry_on_deadlock 3 deadlock_twice (open_session empty_tables) =
      deadlock_twice (((\<lambda>s. snd (deadlock_twice s)) ^^ k) (open_session empty_tables))"
    using retry_outcome[of 3 deadlock_twice "open_session empty_tables"] by blast
qed

text \<open>The account a request names, if it can take part in a transfer.\<close>

definition open_account :: "string \<Rightarrow> tables \<Rightarrow> account option" where
  "open_account n t = (case find_account n t of Some a \<Rightarrow> if acc_status a = active then Some a else None | None \<Rightarrow> None)"

lemma wp_lock:
  "wp (lock_active_account x what n) Q E s =
     wp (db_call x) (\<lambda>_ s. case open_account n (db s) of
       None \<Rightarrow> E (fail_code NotFoundError (what @ '' account '' @ n @ '' does not exist.'') ''ACCOUNT_NOT_FOUND'') s
     | Some a \<Rightarrow> Q a s) E s"
  by (simp add: lock_active_account_def wp_simps open_account_def Let_def split: option.split)

definition transfer_refusal :: "exchange_rate_config \<Rightarrow> create_transfer_request \<Rightarrow> tables \<Rightarrow> err_class option" where
  "transfer_refusal cfg req t =
     (case (open_account (rq_source req) t, open_account (rq_destination req) t) of
        (Some src, Some dst) \<Rightarrow>
          if currency src \<notin> set (supported_currencies cfg) then Some UnsupportedCurrencyError
          else (case map_of (max_transfer_amounts cfg) (currency src) of
            None \<Rightarrow> None
          | Some limit \<Rightarrow>
              if dval limit < dval (rq_amount req) then Some LimitExceededError
              else if dval (balance src) < dval (rq_amount req) then Some InsufficientFundsError
              else if currency src = currency dst then None
              else if currency dst \<notin> set (supported_currencies cfg) then Some UnsupportedCurrencyError
              else if lookup2 (rates cfg) (currency src) (currency dst) = None then Some ValidationError
              else None)
      | _ \<Rightarrow> Some NotFoundError)"

text \<open>What the database or the session raises by itself.\<close>

definition raised_by :: "ext \<Rightarrow> exn \<Rightarrow> bool" where
  "raised_by x e \<longleftrightarrow> (\<exists>n. db_fails x n = Some e) \<or> (\<exists>b. begin_exn x b = Some e)"

lemma raised_byI [intro]: "db_fails x n = Some e \<Longrightarrow> raised_by x e" "begin_exn x b = Some e \<Longrightarrow> raised_by x e"
  by (auto simp: raised_by_def)

text \<open>What an exception of \<open>execute_transfer\<close> can be, given what its block does.\<close>

lemma raised_transfer:
  assumes new: "find_by_key key (db s) = None" "0 < dval (rq_amount req)"
    and block: "\<And>s1. db s1 = db s \<Longrightarrow>
      wp (transfer_block x cfg req caller key rid) (\<lambda>tr s2. Q tr (db s2)) (\<lambda>e _. P e \<or> raised_by x e) s1"
  shows "wp (execute_transfer x cfg req caller key rid)
    (\<lambda>a s'. \<exists>tr. Q tr (db s') \<and> a = (from_orm_transfer x tr, False))
    (\<lambda>e s'. (P e \<or> raised_by x e) \<and> db s' = db s) s"
proof (rule wpI)
  fix a s' assume run: "execute_transfer x cfg req caller key rid s = (Inr a, s')"
  obtain r b where a: "a = (r, b)" by (cases a)
  from run[unfolded a] show "\<exists>tr. Q tr (db s') \<and> a = (from_orm_transfer x tr, False)"
  proof (cases rule: execute_transfer_InrD)
    case (fresh tr s0 s1)
    from wp_InrD[OF block[OF fresh(3)] fresh(4)] fresh show ?thesis by (auto simp: a)
  qed (use new(1) in simp)
next
  fix e s' assume run: "execute_transfer x cfg req caller key rid s = (Inl e, s')"
  have once: "P e \<or> raised_by x e"
    if "execute_transfer_once x cfg req caller key rid s0 = (Inl e, s1)" "db s0 = db s" for s0 s1 e
  proof -
    let ?s1 = "s0\<lparr>tick := Suc (tick s0), in_tx := True\<rparr>"
    have w: "wp (transfer_block x cfg req caller key rid) (\<lambda>tr s2. Q tr (db s2)) (\<lambda>e _. P e \<or> raised_by x e) ?s1"
      by (rule block) (simp add: that(2))
    from that new w show ?thesis
      by (fastforce simp: execute_transfer_once_def get_idempotency_record_def db_query_def db_call_def svc_defs
          transaction_def dle_iff wp_def split: option.splits prod.splits sum.splits)
  qed
  have "\<exists>s0 s1. db s0 = db s \<and> execute_transfer_once x cfg req caller key rid s0 = (Inl e, s1)"
    using retry_InlD[OF atomic_execute_transfer_once run[unfolded execute_transfer_def]] .
  with once show "(P e \<or> raised_by x e) \<and> db s' = db s"
    using atomicD[OF atomic_execute_transfer run] by blast
qed

lemma transfer_block_refused:
  assumes "transfer_refusal cfg req (db s) = Some c"
  shows "wp (transfer_block x cfg req caller key rid) (\<lambda>_ _. False) (\<lambda>e _. is_app_error c e \<or> raised_by x e) s"
  using assms
  by (auto simp: transfer_block_def wp_simps wp_lock transfer_refusal_def dlt_iff get_rate_def
      get_max_transfer_amount_def validate_currency_def insufficient_funds_def rcheck_def
      split: option.splits if_splits)



text \<open>The look-up of the key has already opened a transaction when \<open>session.begin()\<close> is called. Where that
  call raises then, as the documentation of SQLAlchemy 2 says it does, no new transfer is ever made.\<close>

lemma begun_session_makes_no_transfer:
  assumes "begin_exn x True = Some e" "\<not> is_deadlock e" "db_fails x (tick s) = None"
    "find_by_key key (db s) = None" "0 < dval (rq_amount req)"
  shows "\<exists>s'. execute_transfer x cfg req caller key rid s = (Inl e, s') \<and> db s' = db s"
  using assms
  by (simp add: execute_transfer_def eval_nat_numeral execute_transfer_once_def get_idempotency_record_def
      db_query_def db_call_def svc_defs transaction_def dle_iff)

section \<open>Transfers keep the invariant\<close>

lemma ledger_inv_two [simp]:
  "ledger_inv (t\<lparr>transfers := r, audit_log := l\<rparr>) = ledger_inv (t\<lparr>transfers := r\<rparr>)"
  by (simp add: ledger_inv_def)

lemma transfer_block_inv:
  assumes "transfer_block x cfg req caller key rid s = (Inr tr, s')" "numeric_law x" "ledger_inv (db s)"
  shows "ledger_inv (db s')"
proof -
  from assms(1) obtain src dst b1 b2 n1 n2 a damt rate where f:
    "find_account (rq_source req) (db s) = Some src" "acc_status src = active"
    "find_account (rq_destination req) (db s) = Some dst" "acc_status dst = active"
    "put_numeric x 19 4 (dsub (balance src) (rq_amount req)) = Inr b1"
    "put_numeric x 19 4 (dadd (held_by req src dst) damt) = Inr b2"
    "db s' = (with_balance (rq_destination req) b2 n2 (with_balance (rq_source req) b1 n1 (db s)))
       \<lparr>transfers := transfers (db s) @ [tr], audit_log := audit_log (db s) @ [a]\<rparr>"
    "idempotency_key tr = key" "put_numeric x 19 4 (rq_amount req) = Inr (source_amount tr)"
    "put_numeric x 19 4 damt = Inr (destination_amount tr)"
    "put_numeric x 20 8 rate = Inr (exchange_rate tr)"
    "key \<notin> idempotency_key ` set (transfers (db s))"
    "transfer_id tr \<notin> transfer_id ` set (transfers (db s))" by (rule transfer_block_InrD)
  note fits = f(5,6,9,10,11)[THEN put_numeric_fits[OF assms(2)]]
  let ?t1 = "with_balance (rq_source req) b1 n1 (db s)"
  have i1: "ledger_inv ?t1" by (rule with_balance_inv[OF assms(3) f(1,2) fits(1)])
  have "\<exists>d'. find_account (rq_destination req) ?t1 = Some d' \<and> acc_status d' = active"
    using f(1-4) by (auto simp: find_with_balance)
  then obtain d' where "find_account (rq_destination req) ?t1 = Some d'" "acc_status d' = active" by blast
  then have "ledger_inv (with_balance (rq_destination req) b2 n2 ?t1)"
    by (rule with_balance_inv[OF i1 _ _ fits(2)])
  from ledger_inv_append_transfer[OF this, of tr] f(8,12,13) fits show ?thesis
    unfolding f(7) by (simp add: good_transfer_def)
qed

lemma execute_transfer_inv:
  assumes "execute_transfer x cfg req caller key rid s = (Inr (r, b), s')" "numeric_law x" "ledger_inv (db s)"
  shows "ledger_inv (db s')"
  using assms(1)
proof (cases rule: execute_transfer_InrD)
  case (fresh tr s0 s1)
  with transfer_block_inv[OF fresh(4) assms(2)] assms(3) show ?thesis by simp
qed (use assms(3) in simp)

end
