(* ===== verification/FxRates.thy ===== *)
theory FxRates
  imports TransferRepo
begin

text \<open>
  Stored exchange rates: \<open>repositories/fx_rate_repository.py\<close> and the conversion preview and rate
  table of \<open>services/fx_rate_service.py\<close>.
\<close>

section \<open>The repository\<close>

text \<open>\<open>order_by(effective_at.desc()).limit(1)\<close>; among equal times the database picks, here the first.\<close>

fun latest :: "fx_rate_snapshot list \<Rightarrow> fx_rate_snapshot option" where
  "latest [] = None"
| "latest (r # rs) =
     (case latest rs of
        None \<Rightarrow> Some r
      | Some q \<Rightarrow> Some (if effective_at r < effective_at q then q else r))"

definition get_latest_snapshot :: "ext \<Rightarrow> fx_rate_snapshot option op" where
  "get_latest_snapshot x =
     db_query x (\<lambda>t. latest (List.filter (\<lambda>s. \<not> is_stale s) (fx_rate_snapshots t)))"

definition get_snapshot_by_id :: "ext \<Rightarrow> uuid \<Rightarrow> fx_rate_snapshot option op" where
  "get_snapshot_by_id x i = db_query x (\<lambda>t. find_row (\<lambda>s. fx_id s = i) (fx_rate_snapshots t))"

text \<open>\<open>{f: {t: str(r) for t, r in row.items()} for f, row in rates.items()}\<close>.\<close>

definition str_rates :: "(string, (string, decimal) dict) dict \<Rightarrow> rate_table" where
  "str_rates d = map (\<lambda>(c, row). (c, map (\<lambda>(k, r). (k, str_decimal r)) row)) d"

definition insert_snapshot ::
  "ext \<Rightarrow> (string, (string, decimal) dict) dict \<Rightarrow> string \<Rightarrow> fx_rate_snapshot op" where
  "insert_snapshot x rates_dict source =
     sbind (draw (uuid4 x)) (\<lambda>i.
     sthen (db_flush x (\<lambda>now. insert_fx_rate_snapshot x
       \<lparr>fx_id = i, effective_at = now, fetched_at = now, is_stale = False,
        provider_source = source, fx_rates = str_rates rates_dict\<rparr>))
    (sbind (get_snapshot_by_id x i) (\<lambda>r.
     case r of None \<Rightarrow> sraise (OtherError ''InvalidRequestError'' i) | Some s \<Rightarrow> sret s)))"

definition mark_stale :: "ext \<Rightarrow> uuid \<Rightarrow> unit op" where
  "mark_stale x i =
     sthen (db_flush x (\<lambda>now t.
       Inr (t\<lparr>fx_rate_snapshots :=
              update_rows (\<lambda>s. fx_id s = i) (\<lambda>s. s\<lparr>is_stale := True\<rparr>) (fx_rate_snapshots t)\<rparr>)))
     (db_call x)"

definition get_active_currency_pairs :: "ext \<Rightarrow> currency_pair list op" where
  "get_active_currency_pairs x = db_query x (\<lambda>t. List.filter is_active (currency_pairs t))"

section \<open>The service\<close>

record exchange_rate_row =
  er_from :: string
  er_to :: string
  er_rate :: decimal

record rate_table_response =
  rt_snapshot_id :: uuid
  rt_effective_at :: time
  rt_is_stale :: bool
  rt_rates :: "exchange_rate_row list"

text \<open>\<open>Decimal(str(text))\<close>; a bad literal raises \<open>InvalidOperation\<close>.\<close>

definition decimal_or_raise :: "string \<Rightarrow> (exn, decimal) res" where
  "decimal_or_raise t = (case parse_decimal t of None \<Rightarrow> Inl InvalidOperation | Some d \<Rightarrow> Inr d)"

text \<open>Pairs without a rate, or with an empty text, are left out of the table.\<close>

fun collect_rates :: "rate_table \<Rightarrow> currency_pair list \<Rightarrow> (exn, exchange_rate_row list) res" where
  "collect_rates tab [] = Inr []"
| "collect_rates tab (p # ps) =
     (case lookup2 tab (from_currency p) (to_currency p) of
        None \<Rightarrow> collect_rates tab ps
      | Some txt \<Rightarrow>
          if txt = '''' then collect_rates tab ps
          else rbind (decimal_or_raise txt) (\<lambda>r.
               rbind (collect_rates tab ps) (\<lambda>rs.
               Inr (\<lparr>er_from = from_currency p, er_to = to_currency p, er_rate = r\<rparr> # rs))))"

definition get_rate_table :: "ext \<Rightarrow> rate_table_response op" where
  "get_rate_table x =
     sbind (get_latest_snapshot x) (\<lambda>s.
     case s of
       None \<Rightarrow> sraise (fail StaleRateError ''No exchange rate snapshot available.'')
     | Some sn \<Rightarrow>
         sbind (get_active_currency_pairs x) (\<lambda>ps.
         sbind (slift (collect_rates (fx_rates sn) ps)) (\<lambda>rs.
         sret \<lparr>rt_snapshot_id = fx_id sn, rt_effective_at = effective_at sn,
               rt_is_stale = is_stale sn, rt_rates = rs\<rparr>)))"

record conversion_preview =
  cv_input_amount :: decimal
  cv_from_currency :: string
  cv_exchange_rate :: decimal
  cv_gross_converted_amount :: decimal
  cv_estimated_sending_fee :: decimal
  cv_estimated_receiving_fee :: decimal
  cv_estimated_net_amount :: decimal
  cv_total_sender_cost :: decimal
  cv_snapshot_id :: uuid
  cv_effective_at :: time
  cv_is_stale :: bool

definition preview_conversion ::
  "ext \<Rightarrow> settings \<Rightarrow> string \<Rightarrow> string \<Rightarrow> decimal \<Rightarrow> conversion_preview op" where
  "preview_conversion x st from_cur to_cur amount =
     sbind (get_latest_snapshot x) (\<lambda>s.
     case s of
       None \<Rightarrow> sraise (fail StaleRateError ''Exchange rates are stale. Please retry shortly.'')
     | Some sn \<Rightarrow>
         sthen (sraise_if (is_stale sn)
           (fail StaleRateError ''Exchange rates are stale. Please retry shortly.''))
        (sbind (get_active_currency_pairs x) (\<lambda>ps.
         sthen (sraise_if (\<not> list_ex (\<lambda>p. from_currency p = from_cur \<and> to_currency p = to_cur) ps)
           (fail UnsupportedCurrencyPairError
             (''Currency pair '' @ from_cur @ ''/'' @ to_cur @ '' is not supported.'')))
        (case lookup2 (fx_rates sn) from_cur to_cur of
           None \<Rightarrow> sraise (fail UnsupportedCurrencyPairError
                     (''No rate for '' @ from_cur @ ''/'' @ to_cur @ '' in snapshot.''))
         | Some txt \<Rightarrow>
             sbind (slift (decimal_or_raise txt)) (\<lambda>rate.
             sbind (slift (quantize_or_raise ROUND_HALF_UP (dmul amount (SENDING_FEE_PCT st)))) (\<lambda>sfee.
             sbind (slift (quantize_or_raise ROUND_HALF_UP (dmul amount rate))) (\<lambda>gross.
             sbind (slift (quantize_or_raise ROUND_HALF_UP (dmul gross (RECEIVING_FEE_PCT st)))) (\<lambda>rfee.
             sbind (slift (quantize_or_raise ROUND_HALF_UP (dsub gross rfee))) (\<lambda>net.
             sbind (slift (quantize_or_raise ROUND_HALF_UP (dadd amount sfee))) (\<lambda>total.
             sret \<lparr>cv_input_amount = amount, cv_from_currency = from_cur, cv_exchange_rate = rate,
                   cv_gross_converted_amount = gross, cv_estimated_sending_fee = sfee,
                   cv_estimated_receiving_fee = rfee, cv_estimated_net_amount = net,
                   cv_total_sender_cost = total, cv_snapshot_id = fx_id sn,
                   cv_effective_at = effective_at sn, cv_is_stale = is_stale sn\<rparr>)))))))))) "

lemma readonly_fx [op_intros]: "readonly (get_rate_table x)" "readonly (preview_conversion x st a b amt)"
  unfolding get_rate_table_def preview_conversion_def get_latest_snapshot_def get_active_currency_pairs_def
  by (intro op_intros)+

section \<open>Stored rates are the rates that were stored\<close>

lemma map_of_map_snd: "map_of (map (\<lambda>(k, v). (k, g v)) d) k = map_option g (map_of d k)"
  by (induction d) auto

lemma lookup2_str_rates: "lookup2 (str_rates d) a b = map_option str_decimal (lookup2 d a b)"
  by (simp add: lookup2_def str_rates_def map_of_map_snd split: option.split)

lemma parse_amounts_str: "parse_amounts (map (\<lambda>(k, r). (k, str_decimal r)) row) = Inr row"
  by (induction row) (auto simp: parse_str_decimal)

lemma parse_str_rates: "parse_rates (str_rates d) = Inr d"
  by (induction d) (auto simp: str_rates_def parse_amounts_str)

lemma latest_None: "latest rows = None \<longleftrightarrow> rows = []"
  by (cases rows) (auto split: option.splits)

lemma latest_SomeD: "latest rows = Some r \<Longrightarrow> r \<in> set rows \<and> (\<forall>q \<in> set rows. effective_at q \<le> effective_at r)"
proof (induction rows arbitrary: r)
  case (Cons a rows)
  then show ?case by (cases "latest rows") (auto simp: latest_None split: if_splits)
qed simp

lemma str_decimal_nonempty: "str_decimal d \<noteq> ''''"
proof
  assume e: "str_decimal d = ''''"
  have "parse_decimal '''' = None" by code_simp
  with parse_str_decimal[of d] e show False by simp
qed

lemma insert_snapshot_InrD:
  assumes "insert_snapshot x d src s = (Inr sn, s')"
  shows "fx_rates sn = str_rates d \<and> \<not> is_stale sn \<and> provider_source sn = src \<and>
    fx_rate_snapshots (db s') = fx_rate_snapshots (db s) @ [sn] \<and> currency_pairs (db s') = currency_pairs (db s)"
proof -
  from assms obtain i now r where r: "r = \<lparr>fx_id = i, effective_at = now, fetched_at = now, is_stale = False,
        provider_source = src, fx_rates = str_rates d\<rparr>"
    and ins: "insert_fx_rate_snapshot x r (db s) = Inr (db s')"
    and q: "find_row (\<lambda>q. fx_id q = i) (fx_rate_snapshots (db s')) = Some sn"
    unfolding insert_snapshot_def get_snapshot_by_id_def
    by (auto simp: op_Inr_iff split: option.splits)
  from ins have "fx_rate_snapshots (db s') = fx_rate_snapshots (db s) @ [r]" "currency_pairs (db s') = currency_pairs (db s)"
    "fx_id r \<notin> fx_id ` set (fx_rate_snapshots (db s))"
    by (auto simp: insert_fx_rate_snapshot_def rcheck_Inr_iff dest!: sym[of _ "db s'"])
  with q find_row_new[of fx_id r "fx_rate_snapshots (db s)"] r show ?thesis by simp
qed

lemma collect_rates_str:
  "collect_rates (str_rates d) ps =
     Inr (List.map_filter (\<lambda>p. map_option (\<lambda>r. \<lparr>er_from = from_currency p, er_to = to_currency p, er_rate = r\<rparr>)
       (lookup2 d (from_currency p) (to_currency p))) ps)"
  by (induction ps) (auto simp: lookup2_str_rates map_filter_simps decimal_or_raise_def parse_str_decimal
      str_decimal_nonempty split: option.splits)

text \<open>What is stored as a snapshot is what is published: if rates are stored as the newest snapshot, the rate
  table then shows, for every active currency pair in order, exactly the decimal that was stored (and
  nothing for a pair without a rate); no digit is lost through the text the column holds.\<close>

theorem stored_rates_are_published:
  assumes "insert_snapshot x d src s = (Inr sn, s1)"
    and "list_all (\<lambda>q. effective_at q < effective_at sn) (fx_rate_snapshots (db s))"
    and "get_rate_table x s1 = (Inr r, s2)"
  shows "rt_snapshot_id r = fx_id sn \<and> \<not> rt_is_stale r \<and>
    rt_rates r = List.map_filter (\<lambda>p. map_option (\<lambda>v. \<lparr>er_from = from_currency p, er_to = to_currency p, er_rate = v\<rparr>)
      (lookup2 d (from_currency p) (to_currency p))) (List.filter is_active (currency_pairs (db s)))"
proof -
  note i = insert_snapshot_InrD[OF assms(1)]
  let ?l = "List.filter (\<lambda>q. \<not> is_stale q) (fx_rate_snapshots (db s1))"
  from assms(3) obtain cur rs where cur: "latest ?l = Some cur"
    and rs: "collect_rates (fx_rates cur) (List.filter is_active (currency_pairs (db s1))) = Inr rs"
    and r: "r = \<lparr>rt_snapshot_id = fx_id cur, rt_effective_at = effective_at cur, rt_is_stale = is_stale cur, rt_rates = rs\<rparr>"
    unfolding get_rate_table_def get_latest_snapshot_def get_active_currency_pairs_def
    by (auto simp: op_Inr_iff split: option.splits)
  have "sn \<in> set ?l" using i by simp
  with latest_SomeD[OF cur] have "effective_at sn \<le> effective_at cur" "cur \<in> set (fx_rate_snapshots (db s1))" by auto
  with assms(2) i have "cur = sn" by (auto simp: list_all_iff)
  with rs r i show ?thesis by (simp add: collect_rates_str)
qed

definition sample_rate_dict :: "(string, (string, decimal) dict) dict" where
  "sample_rate_dict = [(''EUR'', [(''USD'', Dec 10850 (-4))])]"

definition sample_pairs :: tables where
  "sample_pairs = empty_tables\<lparr>currency_pairs :=
     [\<lparr>cp_id = ''P1'', from_currency = ''EUR'', to_currency = ''USD'', is_active = True, cp_created_at = 0\<rparr>]\<rparr>"

definition sample_insert :: "(exn + fx_rate_snapshot) \<times> session" where
  "sample_insert = insert_snapshot lenient_env sample_rate_dict ''feed'' (open_session sample_pairs)"

definition sample_publish :: "(exn + rate_table_response) \<times> session" where
  "sample_publish = get_rate_table lenient_env (snd sample_insert)"

theorem stored_rates_are_published_witness:
  "\<exists>r s2. sample_publish = (Inr r, s2) \<and> rt_rates r = [\<lparr>er_from = ''EUR'', er_to = ''USD'', er_rate = Dec 10850 (-4)\<rparr>]"
proof -
  have "succeeds sample_insert" "succeeds sample_publish" by code_simp+
  then obtain sn s1 r s2 where run: "sample_insert = (Inr sn, s1)" "sample_publish = (Inr r, s2)"
    by (meson succeedsD)
  have get: "get_rate_table lenient_env s1 = (Inr r, s2)"
    using run(2) unfolding sample_publish_def run(1) snd_conv .
  from stored_rates_are_published[OF run(1)[unfolded sample_insert_def] _ get]
  have "rt_rates r = [\<lparr>er_from = ''EUR'', er_to = ''USD'', er_rate = Dec 10850 (-4)\<rparr>]"
    by (simp add: open_session_def sample_pairs_def empty_tables_def sample_rate_dict_def lookup2_def map_filter_simps)
  with run(2) show ?thesis by blast
qed

end
