(* ===== verification/Notifications.thy ===== *)
theory Notifications
  imports TransferRepo
begin

text \<open>
  In-app notifications: \<open>repositories/notification_repository.py\<close> and
  \<open>services/notification_service.py\<close>. The response model has the fields of the row, so a row stands
  for its response.
\<close>

section \<open>The repository\<close>

definition create_notification :: "ext \<Rightarrow> (time \<Rightarrow> notification) \<Rightarrow> unit op" where
  "create_notification x n = db_flush x (\<lambda>now. insert_notification x (n now))"

text \<open>Newest first; rows of one time keep the table's order.\<close>

definition list_for_account :: "ext \<Rightarrow> string \<Rightarrow> bool \<Rightarrow> notification list op" where
  "list_for_account x n unread_only =
     db_query x (\<lambda>t. sort_key (\<lambda>r. - nt_created_at r)
       (List.filter (\<lambda>r. recipient_account_number r = n \<and> (unread_only \<longrightarrow> read_at r = None))
         (notifications t)))"

definition count_unread :: "ext \<Rightarrow> string \<Rightarrow> nat op" where
  "count_unread x n =
     db_query x (\<lambda>t. length (List.filter (\<lambda>r. recipient_account_number r = n \<and> read_at r = None)
       (notifications t)))"

definition find_notification :: "uuid \<Rightarrow> tables \<Rightarrow> notification option" where
  "find_notification i t = find_row (\<lambda>r. nt_id r = i) (notifications t)"

definition repo_mark_read :: "ext \<Rightarrow> uuid \<Rightarrow> string \<Rightarrow> notification op" where
  "repo_mark_read x i n =
     sbind (db_query x (find_notification i)) (\<lambda>r.
     case r of
       None \<Rightarrow> sraise (fail_code NotFoundError ''Notification not found.'' ''NOTIFICATION_NOT_FOUND'')
     | Some nt \<Rightarrow>
         sthen (sraise_if (recipient_account_number nt \<noteq> n)
           (fail_code ForbiddenError ''You do not own this notification.'' ''FORBIDDEN''))
        (sbind (draw (utcnow x)) (\<lambda>now.
         sthen (db_flush x (\<lambda>_ t. Inr (t\<lparr>notifications :=
           update_rows (\<lambda>r. nt_id r = i) (\<lambda>r. r\<lparr>read_at := Some now\<rparr>) (notifications t)\<rparr>)))
        (sbind (db_query x (find_notification i)) (\<lambda>r'.
         case r' of None \<Rightarrow> sraise (OtherError ''InvalidRequestError'' i) | Some q \<Rightarrow> sret q)))))"

section \<open>The service\<close>

text \<open>One notification of a completed transfer, with the times the server gives it.\<close>

definition transfer_notification :: "uuid \<Rightarrow> transfer \<Rightarrow> string \<Rightarrow> string \<Rightarrow> time \<Rightarrow> notification" where
  "transfer_notification i tr recipient dir now =
     \<lparr>nt_id = i, recipient_account_number = recipient, nt_transfer_id = transfer_id tr,
      direction = dir, nt_source_amount = source_amount tr, nt_source_currency = source_currency tr,
      net_credited_amount = destination_amount tr, net_credited_currency = destination_currency tr,
      read_at = None, nt_created_at = now\<rparr>"

text \<open>\<open>actor_identity or transfer.caller_id\<close>.\<close>

definition actor_or_caller :: "string option \<Rightarrow> transfer \<Rightarrow> string" where
  "actor_or_caller actor tr =
     (case actor of Some a \<Rightarrow> if a = '''' then caller_id tr else a | None \<Rightarrow> caller_id tr)"

definition delivered_audit ::
  "uuid \<Rightarrow> transfer \<Rightarrow> string \<Rightarrow> string \<Rightarrow> string option \<Rightarrow> string option \<Rightarrow> time \<Rightarrow> audit_entry" where
  "delivered_audit lid tr recipient dir actor rid now =
     \<lparr>al_id = lid, operation_type = notification_delivered, actor_identity = actor_or_caller actor tr,
      affected_account_numbers = [recipient], al_amount = Some (destination_amount tr),
      al_currency = Some (destination_currency tr), outcome = ''success'',
      detail = [(''transfer_id'', Some (transfer_id tr)), (''direction'', Some dir)],
      al_timestamp = now, request_id = rid\<rparr>"

definition deliver_notification ::
  "ext \<Rightarrow> transfer \<Rightarrow> string option \<Rightarrow> string option \<Rightarrow> uuid \<times> string \<times> string \<Rightarrow> unit op" where
  "deliver_notification x tr actor rid = (\<lambda>(i, recipient, dir).
     sthen (create_notification x (transfer_notification i tr recipient dir))
    (sbind (draw (uuid4 x)) (\<lambda>lid.
     db_flush x (\<lambda>now. insert_audit x (delivered_audit lid tr recipient dir actor rid now)))))"

definition create_transfer_notifications ::
  "ext \<Rightarrow> transfer \<Rightarrow> account \<Rightarrow> account \<Rightarrow> string option \<Rightarrow> string option \<Rightarrow> unit op" where
  "create_transfer_notifications x tr sender recipient actor rid =
     sbind (draw (uuid4 x)) (\<lambda>i1.
     sbind (draw (uuid4 x)) (\<lambda>i2.
     sfor [(i1, account_number sender, ''sent''), (i2, account_number recipient, ''received'')]
       (deliver_notification x tr actor rid)))"

definition service_list_for_account :: "ext \<Rightarrow> string \<Rightarrow> bool \<Rightarrow> notification list op" where
  "service_list_for_account x n unread_only = list_for_account x n unread_only"

definition service_mark_read :: "ext \<Rightarrow> uuid \<Rightarrow> string \<Rightarrow> notification op" where
  "service_mark_read x i n = repo_mark_read x i n"

section \<open>What a delivery has done\<close>

lemma deliver_notification_InrD:
  assumes "deliver_notification x tr actor rid (i, recipient, dir) s = (Inr u, s')"
  obtains n e where
    "db s' = (db s)\<lparr>notifications := notifications (db s) @ [n], audit_log := audit_log (db s) @ [e]\<rparr>"
    "recipient_account_number n = recipient" "direction n = dir" "nt_transfer_id n = transfer_id tr"
    "read_at n = None" "nt_id n = i" "transfer_id tr \<in> transfer_id ` set (transfers (db s))"
    "put_numeric x 19 4 (destination_amount tr) = Inr (net_credited_amount n)"
    "operation_type e = notification_delivered" "status_metric s' = status_metric s"
proof -
  from assms obtain s1 lid s2 u1 where
    c: "db_flush x (\<lambda>now. insert_notification x (transfer_notification i tr recipient dir now)) s = (Inr u1, s1)"
    "draw (uuid4 x) s1 = (Inr lid, s2)"
    "db_flush x (\<lambda>now. insert_audit x (delivered_audit lid tr recipient dir actor rid now)) s2 = (Inr u, s')"
    unfolding deliver_notification_def create_notification_def prod.case sthen_Inr_iff sbind_Inr_iff by blast
  from db_flush_InrD[OF c(1)] obtain now where
    n: "insert_notification x (transfer_notification i tr recipient dir now) (db s) = Inr (db s1)"
    and m1: "status_metric s1 = status_metric s" by blast
  from draw_InrD[OF c(2)] have d: "db s2 = db s1" "status_metric s2 = status_metric s1" by simp_all
  from n obtain sa na where n': "put_numeric x 19 4 (nt_source_amount (transfer_notification i tr recipient dir now)) = Inr sa"
    "put_numeric x 19 4 (net_credited_amount (transfer_notification i tr recipient dir now)) = Inr na"
    "nt_transfer_id (transfer_notification i tr recipient dir now) \<in> transfer_id ` set (transfers (db s))"
    "db s1 = (db s)\<lparr>notifications := notifications (db s) @ [(transfer_notification i tr recipient dir now)
       \<lparr>nt_source_amount := sa, net_credited_amount := na\<rparr>]\<rparr>"
    by (rule insert_notification_InrD)
  from db_flush_InrD[OF c(3)] obtain now' where
    L: "insert_audit x (delivered_audit lid tr recipient dir actor rid now') (db s2) = Inr (db s')"
    and m2: "status_metric s' = status_metric s2" by blast
  from L obtain e where "db s' = (db s2)\<lparr>audit_log := audit_log (db s2) @ [e]\<rparr>"
    "operation_type e = operation_type (delivered_audit lid tr recipient dir actor rid now')"
    by (rule insert_audit_tables)
  with n' d m1 m2 show thesis
    by (intro that[where n = "(transfer_notification i tr recipient dir now)\<lparr>nt_source_amount := sa, net_credited_amount := na\<rparr>" and e = e])
      (simp_all add: transfer_notification_def delivered_audit_def)
qed

lemma create_transfer_notifications_InrD:
  assumes "create_transfer_notifications x tr sender recipient actor rid s = (Inr u, s')"
  obtains n1 n2 es where
    "db s' = (db s)\<lparr>notifications := notifications (db s) @ [n1, n2], audit_log := audit_log (db s) @ es\<rparr>"
    "recipient_account_number n1 = account_number sender" "direction n1 = ''sent''"
    "recipient_account_number n2 = account_number recipient" "direction n2 = ''received''"
    "nt_transfer_id n1 = transfer_id tr" "nt_transfer_id n2 = transfer_id tr" "read_at n1 = None" "read_at n2 = None"
    "transfer_id tr \<in> transfer_id ` set (transfers (db s))" "status_metric s' = status_metric s"
    "map operation_type es = [notification_delivered, notification_delivered]"
proof -
  from assms obtain i1 s1 i2 s2 s3 u1 s4 u2 where c: "draw (uuid4 x) s = (Inr i1, s1)" "draw (uuid4 x) s1 = (Inr i2, s2)"
    "deliver_notification x tr actor rid (i1, account_number sender, ''sent'') s2 = (Inr u1, s3)"
    "deliver_notification x tr actor rid (i2, account_number recipient, ''received'') s3 = (Inr u2, s4)" "s' = s4"
    unfolding create_transfer_notifications_def sfor.simps sbind_Inr_iff sthen_Inr_iff sret_Inr_iff by blast
  note d = draw_InrD[OF c(1)] draw_InrD[OF c(2)]
  from c(3) obtain n1 e1 where 1: "db s3 = (db s2)\<lparr>notifications := notifications (db s2) @ [n1], audit_log := audit_log (db s2) @ [e1]\<rparr>"
    "recipient_account_number n1 = account_number sender" "direction n1 = ''sent''" "nt_transfer_id n1 = transfer_id tr"
    "read_at n1 = None" "transfer_id tr \<in> transfer_id ` set (transfers (db s2))" "operation_type e1 = notification_delivered"
    "status_metric s3 = status_metric s2" by (rule deliver_notification_InrD)
  from c(4) obtain n2 e2 where 2: "db s4 = (db s3)\<lparr>notifications := notifications (db s3) @ [n2], audit_log := audit_log (db s3) @ [e2]\<rparr>"
    "recipient_account_number n2 = account_number recipient" "direction n2 = ''received''" "nt_transfer_id n2 = transfer_id tr"
    "read_at n2 = None" "operation_type e2 = notification_delivered" "status_metric s4 = status_metric s3"
    by (rule deliver_notification_InrD)
  show thesis
    by (rule that[where ?n1.0 = n1 and ?n2.0 = n2 and es = "[e1, e2]"]) (use 1 2 d c(5) in simp_all)
qed

lemma mark_read_db:
  assumes "repo_mark_read x i n s = (Inr r, s')"
  obtains nt now where "find_notification i (db s) = Some nt" "recipient_account_number nt = n"
    "db s' = (db s)\<lparr>notifications := update_rows (\<lambda>r. nt_id r = i) (\<lambda>r. r\<lparr>read_at := Some now\<rparr>) (notifications (db s))\<rparr>"
    "r = nt\<lparr>read_at := Some now\<rparr>"
proof -
  from assms obtain nt where nt: "find_notification i (db s) = Some nt"
    unfolding repo_mark_read_def sbind_Inr_iff db_query_Inr_iff by (cases "find_notification i (db s)") auto
  let ?now = "utcnow x (Suc (tick s))"
  let ?t = "(db s)\<lparr>notifications := update_rows (\<lambda>r. nt_id r = i) (\<lambda>r. r\<lparr>read_at := Some ?now\<rparr>) (notifications (db s))\<rparr>"
  have f: "find_notification i ?t = Some (nt\<lparr>read_at := Some ?now\<rparr>)"
    using nt by (simp add: find_notification_def find_row_update_same)
  from assms have "recipient_account_number nt = n" "db s' = ?t" "r = nt\<lparr>read_at := Some ?now\<rparr>"
    unfolding repo_mark_read_def sbind_Inr_iff db_query_Inr_iff
    by (auto simp: nt op_Inr_iff f)
  with nt show thesis by (intro that)
qed

section \<open>Marking as read\<close>

text \<open>Marking a notification as read succeeds only for the account it was sent to (as named in the request;
  the caller's identity is not looked at), sets nothing but its \<open>read_at\<close>, and touches no other
  notification, no account and no transfer.\<close>

theorem mark_read_only_recipient:
  assumes "service_mark_read x i n s = (Inr r, s')"
  shows "\<exists>nt now. find_notification i (db s) = Some nt \<and> recipient_account_number nt = n \<and>
    r = nt\<lparr>read_at := Some now\<rparr> \<and> find_notification i (db s') = Some r \<and>
    (\<forall>j. j \<noteq> i \<longrightarrow> find_notification j (db s') = find_notification j (db s)) \<and>
    accounts (db s') = accounts (db s) \<and> transfers (db s') = transfers (db s)"
  using assms[unfolded service_mark_read_def]
proof (rule mark_read_db)
  fix nt now
  assume f: "find_notification i (db s) = Some nt" "recipient_account_number nt = n" "r = nt\<lparr>read_at := Some now\<rparr>"
    and d: "db s' = (db s)\<lparr>notifications := update_rows (\<lambda>r. nt_id r = i) (\<lambda>r. r\<lparr>read_at := Some now\<rparr>) (notifications (db s))\<rparr>"
  have "find_notification i (db s') = Some r"
    using f by (simp add: d find_notification_def find_row_update_same)
  moreover have "j \<noteq> i \<Longrightarrow> find_notification j (db s') = find_notification j (db s)" for j
    by (auto simp: d find_notification_def intro!: find_row_update_other)
  ultimately show ?thesis using f d by auto
qed

definition sample_mark :: "(exn + notification) \<times> session" where
  "sample_mark = service_mark_read lenient_env ''N1'' ''B'' (open_session (empty_tables\<lparr>notifications :=
     [\<lparr>nt_id = ''N1'', recipient_account_number = ''B'', nt_transfer_id = ''T1'', direction = ''received'',
       nt_source_amount = Dec 10000 (-4), nt_source_currency = ''EUR'', net_credited_amount = Dec 10000 (-4),
       net_credited_currency = ''EUR'', read_at = None, nt_created_at = 0\<rparr>]\<rparr>))"

theorem mark_read_only_recipient_witness:
  "\<exists>r s'. sample_mark = (Inr r, s') \<and> recipient_account_number r = ''B'' \<and> read_at r \<noteq> None"
proof -
  have "succeeds sample_mark" by code_simp
  then obtain r s' where run: "sample_mark = (Inr r, s')" by (meson succeedsD)
  from mark_read_only_recipient[OF run[unfolded sample_mark_def]]
  have "recipient_account_number r = ''B'' \<and> read_at r \<noteq> None" by auto
  with run show ?thesis by blast
qed

end
