(* ===== verification/CrossCurrency.thy ===== *)
theory CrossCurrency
  imports TransferService FxRates Notifications
begin

text \<open>
  \<open>services/cross_currency_transfer_service.py\<close>: the transfer between currencies at a stored rate,
  with its fees, its limits, its status transitions, notifications and AML screening.
  Spans and log lines are left out; the status counter is the session's \<open>status_metric\<close>.
\<close>

section \<open>Requests and responses\<close>

record cross_currency_request =
  cr_source_account_number :: string
  cr_destination_account_number :: string
  cr_source_amount :: decimal
  cr_source_currency :: string
  cr_destination_currency :: string
  cr_fx_snapshot_id :: uuid

record cross_currency_response =
  cc_id :: uuid
  cc_status :: string
  cc_source_amount :: decimal
  cc_source_currency :: string
  cc_sending_fee :: decimal
  cc_gross_converted_amount :: decimal
  cc_receiving_fee :: decimal
  cc_net_credited_amount :: decimal
  cc_destination_currency :: string
  cc_exchange_rate :: decimal
  cc_failure_reason :: "string option"
  cc_fx_snapshot_id :: "uuid option"
  cc_created_at :: time

text \<open>\<open>Decimal(str(d or Decimal("0")))\<close>.\<close>

definition fee_or_zero :: "decimal option \<Rightarrow> decimal" where
  "fee_or_zero f = (case f of None \<Rightarrow> dzero | Some d \<Rightarrow> if deq d dzero then dzero else d)"

text \<open>Reading back the text of a decimal cannot fail and gives the decimal.\<close>

definition reread :: "decimal \<Rightarrow> (exn, decimal) res" where
  "reread d = decimal_or_raise (str_decimal d)"

lemma reread_eq [simp]: "reread d = Inr d"
  by (simp add: reread_def decimal_or_raise_def parse_str_decimal)

definition to_response :: "transfer \<Rightarrow> decimal option \<Rightarrow> (exn, cross_currency_response) res" where
  "to_response r gross_amount =
     rbind (case gross_amount of
              Some g \<Rightarrow> Inr g
            | None \<Rightarrow> rbind (reread (source_amount r)) (\<lambda>a. rbind (reread (exchange_rate r)) (\<lambda>e.
                        quantize_or_raise ROUND_HALF_UP (dmul a e)))) (\<lambda>gross.
     rbind (reread (source_amount r)) (\<lambda>sa.
     rbind (reread (fee_or_zero (sending_fee r))) (\<lambda>sf.
     rbind (reread (fee_or_zero (receiving_fee r))) (\<lambda>rf.
     rbind (reread (destination_amount r)) (\<lambda>da.
     rbind (reread (exchange_rate r)) (\<lambda>er.
     Inr \<lparr>cc_id = transfer_id r, cc_status = transfer_status_value (tr_status r),
          cc_source_amount = sa, cc_source_currency = source_currency r, cc_sending_fee = sf,
          cc_gross_converted_amount = gross, cc_receiving_fee = rf, cc_net_credited_amount = da,
          cc_destination_currency = destination_currency r, cc_exchange_rate = er,
          cc_failure_reason = failure_reason r, cc_fx_snapshot_id = fx_snapshot_id r,
          cc_created_at = tr_created_at r\<rparr>))))))"

section \<open>Checks and amounts\<close>

definition load_accounts :: "ext \<Rightarrow> string \<Rightarrow> string \<Rightarrow> (account \<times> account) op" where
  "load_accounts x src dst =
     sbind (lock_active_account x ''Source'' src) (\<lambda>a.
     sbind (lock_active_account x ''Destination'' dst) (\<lambda>b. sret (a, b)))"

definition ensure_active_pair :: "ext \<Rightarrow> string \<Rightarrow> string \<Rightarrow> unit op" where
  "ensure_active_pair x from_cur to_cur =
     sbind (get_active_currency_pairs x) (\<lambda>ps.
     sraise_if (\<not> list_ex (\<lambda>p. from_currency p = from_cur \<and> to_currency p = to_cur) ps)
       (fail UnsupportedCurrencyPairError
         (''Currency pair '' @ from_cur @ ''/'' @ to_cur @ '' is not supported.'')))"

definition snapshot_rate :: "rate_table \<Rightarrow> string \<Rightarrow> string \<Rightarrow> (exn, decimal) res" where
  "snapshot_rate tab from_cur to_cur =
     (case lookup2 tab from_cur to_cur of
        None \<Rightarrow> Inl (fail UnsupportedCurrencyPairError (''No rate for '' @ from_cur @ ''/'' @ to_cur @ ''.''))
      | Some txt \<Rightarrow> decimal_or_raise txt)"

record amounts =
  am_sending_fee :: decimal
  am_gross :: decimal
  am_receiving_fee :: decimal
  am_net :: decimal
  am_total_cost :: decimal

definition calculate_amounts :: "settings \<Rightarrow> decimal \<Rightarrow> decimal \<Rightarrow> (exn, amounts) res" where
  "calculate_amounts st amount rate =
     rbind (quantize_or_raise ROUND_HALF_UP (dmul amount (SENDING_FEE_PCT st))) (\<lambda>sfee.
     rbind (quantize_or_raise ROUND_HALF_UP (dmul amount rate)) (\<lambda>gross.
     rbind (quantize_or_raise ROUND_HALF_UP (dmul gross (RECEIVING_FEE_PCT st))) (\<lambda>rfee.
     rbind (quantize_or_raise ROUND_HALF_UP (dsub gross rfee)) (\<lambda>net.
     rbind (quantize_or_raise ROUND_HALF_UP (dadd amount sfee)) (\<lambda>total.
     Inr \<lparr>am_sending_fee = sfee, am_gross = gross, am_receiving_fee = rfee, am_net = net,
          am_total_cost = total\<rparr>)))))"

definition amount_in_usd :: "decimal \<Rightarrow> string \<Rightarrow> rate_table \<Rightarrow> (exn, decimal) res" where
  "amount_in_usd amount cur tab =
     (if cur = ''USD'' then quantize_or_raise ROUND_HALF_UP amount
      else rbind (snapshot_rate tab cur ''USD'') (\<lambda>r. quantize_or_raise ROUND_HALF_UP (dmul amount r)))"

definition check_rate_deviation :: "settings \<Rightarrow> decimal \<Rightarrow> decimal \<Rightarrow> uuid \<Rightarrow> (exn, unit) res" where
  "check_rate_deviation st prev cur sid =
     (if deq prev dzero then Inr ()
      else case ddiv (dabs (dsub cur prev)) prev of
             None \<Rightarrow> Inl (OtherError ''DivisionByZero'' '''')
           | Some q \<Rightarrow>
               rbind (quantize_or_raise ROUND_HALF_UP (dmul q (Dec 100 0))) (\<lambda>deviation_pct.
               if dlt (FX_RATE_DEVIATION_THRESHOLD_PCT st) deviation_pct
               then Inl (rate_deviation_error ''Exchange rate moved beyond the confirmation threshold.''
                      prev cur deviation_pct sid)
               else Inr ()))"

definition check_transfer_limits :: "ext \<Rightarrow> settings \<Rightarrow> string \<Rightarrow> decimal \<Rightarrow> unit op" where
  "check_transfer_limits x st n usd =
     sthen (sraise_if (dlt (TRANSFER_LIMIT_PER_TX_USD st) usd)
       (transfer_limit_error ''Transfer exceeds the per-transaction USD limit.'' ''per_transaction''
          (TRANSFER_LIMIT_PER_TX_USD st) usd))
    (sbind (draw (utcnow x)) (\<lambda>now.
     sbind (get_daily_transfer_volume_usd x n (Some (now - day))) (\<lambda>daily.
     sbind (slift (quantize_or_raise ROUND_HALF_UP (dadd daily usd))) (\<lambda>total.
     sraise_if (dlt (TRANSFER_LIMIT_PER_DAY_USD st) total)
       (transfer_limit_error ''Transfer exceeds the rolling 24h USD limit.'' ''per_day''
          (TRANSFER_LIMIT_PER_DAY_USD st) total)))))"

definition aml_kyc_check ::
  "ext \<Rightarrow> settings \<Rightarrow> transfer \<Rightarrow> account \<Rightarrow> account \<Rightarrow> decimal \<Rightarrow> string option \<Rightarrow> unit op" where
  "aml_kyc_check x st tr sender recipient usd rid =
     (if dlt usd (AML_SCREENING_THRESHOLD_USD st) then sret ()
      else write_audit_log x aml_kyc_screening_triggered (caller_id tr)
             [account_number sender, account_number recipient] (Some usd) (Some ''USD'') ''success''
             [(''transfer_id'', Some (transfer_id tr)), (''source_amount_usd'', Some (str_decimal usd))] rid)"

definition record_status_metric :: "transfer_status \<Rightarrow> unit op" where
  "record_status_metric st = smodify (\<lambda>s. s\<lparr>status_metric := status_metric s @ [st]\<rparr>)"

text \<open>\<open>transfer.destination_amount = v\<close>, written by the next flush.\<close>

definition assign_destination_amount :: "ext \<Rightarrow> uuid \<Rightarrow> decimal \<Rightarrow> unit op" where
  "assign_destination_amount x i v =
     sbind (slift (put_numeric x 19 4 v)) (\<lambda>d.
     smodify (\<lambda>s. s\<lparr>db := (db s)\<lparr>transfers :=
       update_rows (\<lambda>r. transfer_id r = i) (\<lambda>r. r\<lparr>destination_amount := d\<rparr>) (transfers (db s))\<rparr>\<rparr>))"

text \<open>The balance an account object holds now; both objects are one when the numbers agree.\<close>

definition current_balance :: "string \<Rightarrow> decimal \<Rightarrow> decimal op" where
  "current_balance n b = sget (\<lambda>s. case find_account n (db s) of None \<Rightarrow> b | Some a \<Rightarrow> balance a)"

section \<open>The transfer\<close>

text \<open>The checks of the block, up to the decision to transfer.\<close>

record approved =
  ap_source :: account
  ap_destination :: account
  ap_rate :: decimal
  ap_amounts :: amounts
  ap_usd :: decimal
  ap_snapshot_id :: uuid

definition approve ::
  "ext \<Rightarrow> settings \<Rightarrow> cross_currency_request \<Rightarrow> string \<Rightarrow> approved op" where
  "approve x st req caller =
     sbind (get_latest_snapshot x) (\<lambda>cs.
     case cs of
       None \<Rightarrow> sraise (fail StaleRateError ''Exchange rates are stale. Please retry shortly.'')
     | Some cur \<Rightarrow>
     sthen (sraise_if (is_stale cur) (fail StaleRateError ''Exchange rates are stale. Please retry shortly.''))
    (sbind (get_snapshot_by_id x (cr_fx_snapshot_id req)) (\<lambda>ps.
     case ps of
       None \<Rightarrow> sraise (fail StaleRateError ''Selected FX snapshot is no longer available.'')
     | Some prev \<Rightarrow>
     sthen (sraise_if (is_stale prev) (fail StaleRateError ''Selected FX snapshot is no longer available.''))
    (sthen (ensure_active_pair x (cr_source_currency req) (cr_destination_currency req))
    (sbind (load_accounts x (cr_source_account_number req) (cr_destination_account_number req)) (\<lambda>(src, dst).
     sthen (sraise_if (owner_id src \<noteq> caller)
       (fail ForbiddenError ''You are not authorized to transfer from this account.''))
    (sthen (sraise_if (currency src \<noteq> cr_source_currency req)
       (fail UnsupportedCurrencyPairError
         (''Source account currency '' @ currency src @ '' does not match request currency '' @
          cr_source_currency req @ ''.'')))
    (sbind (slift (snapshot_rate (fx_rates prev) (cr_source_currency req) (cr_destination_currency req))) (\<lambda>prate.
     sbind (slift (snapshot_rate (fx_rates cur) (cr_source_currency req) (cr_destination_currency req))) (\<lambda>rate.
     sthen (slift (check_rate_deviation st prate rate (fx_id cur)))
    (sbind (slift (calculate_amounts st (cr_source_amount req) rate)) (\<lambda>am.
     sbind (slift (amount_in_usd (cr_source_amount req) (cr_source_currency req) (fx_rates cur))) (\<lambda>usd.
     sthen (check_transfer_limits x st (account_number src) usd)
    (sthen (sraise_if (dlt (balance src) (am_total_cost am))
       (insufficient_funds src ''required'' (am_total_cost am)))
    (sret \<lparr>ap_source = src, ap_destination = dst, ap_rate = rate, ap_amounts = am, ap_usd = usd,
           ap_snapshot_id = fx_id cur\<rparr>)))))))))))))))"

text \<open>The writes of the block: the row, the transitions, the two balances, what follows them.\<close>

definition settle ::
  "ext \<Rightarrow> settings \<Rightarrow> cross_currency_request \<Rightarrow> string \<Rightarrow> string \<Rightarrow> string option \<Rightarrow> approved \<Rightarrow>
   cross_currency_response op" where
  "settle x st req caller key rid ap =
     (let src = account_number (ap_source ap); dst = account_number (ap_destination ap);
          am = ap_amounts ap in
     sbind (draw (utcnow x)) (\<lambda>now.
     sbind (create_cross_currency_transfer x key src dst (cr_source_amount req) (cr_source_currency req)
       (am_net am) (cr_destination_currency req) (ap_rate ap) pending caller rid
       \<lparr>ct_sending_fee = am_sending_fee am, ct_receiving_fee = am_receiving_fee am,
        ct_fx_snapshot_id = ap_snapshot_id ap, ct_rate_confirmed_at = now,
        ct_source_amount_usd = ap_usd ap\<rparr> None) (\<lambda>tr.
     sthen (record_status_metric pending)
    (sthen (update_transfer_status x (transfer_id tr) processing None rid)
    (sthen (record_status_metric processing)
    (sbind (slift (quantize_or_raise ROUND_HALF_UP (dsub (balance (ap_source ap)) (am_total_cost am)))) (\<lambda>sbal.
     sthen (assign_balance x src sbal)
    (sbind (current_balance dst (balance (ap_destination ap))) (\<lambda>dnow.
     sbind (slift (quantize_or_raise ROUND_HALF_UP (dadd dnow (am_net am)))) (\<lambda>dbal.
     sthen (assign_balance x dst dbal)
    (sthen (assign_destination_amount x (transfer_id tr) (am_net am))
    (sbind (update_transfer_status x (transfer_id tr) completed None rid) (\<lambda>done_tr.
     sthen (record_status_metric completed)
    (sthen (if src \<noteq> dst
            then create_transfer_notifications x done_tr (ap_source ap) (ap_destination ap) (Some caller) rid
            else sret ())
    (sthen (aml_kyc_check x st done_tr (ap_source ap) (ap_destination ap) (ap_usd ap) rid)
    (slift (to_response done_tr (Some (am_gross am)))))))))))))))))))"

definition initiate ::
  "ext \<Rightarrow> settings \<Rightarrow> cross_currency_request \<Rightarrow> string \<Rightarrow> string \<Rightarrow> string option \<Rightarrow>
   (cross_currency_response \<times> bool) op" where
  "initiate x st req caller key rid =
     sbind (get_idempotency_record x key) (\<lambda>existing.
     case existing of
       Some tr \<Rightarrow>
         sthen (sraise_if (caller_id tr \<noteq> caller) idempotency_conflict)
        (sbind (slift (to_response tr None)) (\<lambda>r. sret (r, True)))
     | None \<Rightarrow>
         sbind (transaction x (sbind (approve x st req caller) (settle x st req caller key rid)))
        (\<lambda>r. sret (r, False)))"

definition get_status :: "ext \<Rightarrow> uuid \<Rightarrow> string \<Rightarrow> cross_currency_response op" where
  "get_status x i caller =
     sbind (get_transfer_by_id x i) (\<lambda>r.
     case r of
       None \<Rightarrow> sraise (fail_code NotFoundError ''Transfer not found.'' ''TRANSFER_NOT_FOUND'')
     | Some tr \<Rightarrow>
         sthen (sraise_if (caller_id tr \<noteq> caller)
           (fail_code ForbiddenError ''You are not authorized to access this transfer.'' ''FORBIDDEN''))
        (slift (to_response tr None)))"

lemma readonly_get_status [op_intros]: "readonly (get_status x i caller)"
  unfolding get_status_def by (intro op_intros)

lemma atomic_initiate [op_intros]: "atomic (initiate x st req caller key rid)"
  unfolding initiate_def
  by (intro atomic_sthen_readonly atomic_sbind_readonly op_intros atomic_sbind_total)

end
