(* ===== verification/Settlement.thy ===== *)
theory Settlement
  imports CrossCurrency
begin

text \<open>
  What an approval and a settlement of a cross-currency transfer do, as facts about the tables before and
  after, and the properties of the service that rest on them. The operations are those of
  \<open>CrossCurrency\<close>.
\<close>

section \<open>What an approval has checked\<close>

text \<open>The volume the daily limit sees, at a time \<open>t0\<close> a day before now.\<close>

definition day_volume :: "string \<Rightarrow> time \<Rightarrow> tables \<Rightarrow> decimal" where
  "day_volume n t0 t = sum_usd (List.filter (in_volume n t0) (transfers t))"

lemma volume_InrD:
  assumes "get_daily_transfer_volume_usd x n (Some t0) s = (Inr v, s')"
  shows "db s' = db s" "status_metric s' = status_metric s"
    "2 * \<bar>dval v - dval (day_volume n t0 (db s))\<bar> \<le> 10 powi (- 4)" "fits 28 4 v"
proof -
  define V where "V = day_volume n t0 (db s)"
  have "db s' = db s \<and> status_metric s' = status_metric s \<and>
     quantize ROUND_HALF_EVEN (- 4) (if deq V dzero then dzero else V) = Some v"
    using assms by (auto simp: get_daily_transfer_volume_usd_def op_Inr_iff parse_str_decimal quantize_or_raise_Inr
        V_def day_volume_def split del: if_split cong del: if_weak_cong)
  then have *: "db s' = db s" "status_metric s' = status_metric s"
    "quantize ROUND_HALF_EVEN (- 4) (if deq V dzero then dzero else V) = Some v" by simp_all
  from * show "db s' = db s" "status_metric s' = status_metric s" by simp_all
  show "fits 28 4 v" using quantizeD[OF *(3)] by (simp add: fits_def)
  have "dval (if deq V dzero then dzero else V) = dval V" by (simp add: deq_iff)
  with quantize_error[OF *(3)] show "2 * \<bar>dval v - dval (day_volume n t0 (db s))\<bar> \<le> 10 powi (- 4)"
    by (simp add: V_def)
qed

definition within_limits :: "settings \<Rightarrow> string \<Rightarrow> time \<Rightarrow> decimal \<Rightarrow> tables \<Rightarrow> bool" where
  "within_limits st n t0 usd t \<longleftrightarrow>
     dval usd \<le> dval (TRANSFER_LIMIT_PER_TX_USD st) \<and>
     (\<exists>v total. fits 28 4 v \<and> 2 * \<bar>dval v - dval (day_volume n t0 t)\<bar> \<le> 10 powi (- 4) \<and>
        quantize ROUND_HALF_UP (- 4) (dadd v usd) = Some total \<and>
        dval total \<le> dval (TRANSFER_LIMIT_PER_DAY_USD st))"

lemma check_transfer_limits_InrD:
  assumes "check_transfer_limits x st n usd s = (Inr u, s')"
  shows "db s' = db s \<and> status_metric s' = status_metric s \<and>
    within_limits st n (utcnow x (tick s) - day) usd (db s)"
proof -
  from assms obtain s1 v total where
    c: "\<not> dlt (TRANSFER_LIMIT_PER_TX_USD st) usd"
    "get_daily_transfer_volume_usd x n (Some (utcnow x (tick s) - day)) (s\<lparr>tick := Suc (tick s)\<rparr>) = (Inr v, s1)"
    "quantize ROUND_HALF_UP (- 4) (dadd v usd) = Some total"
    "\<not> dlt (TRANSFER_LIMIT_PER_DAY_USD st) total" "s' = s1"
    unfolding check_transfer_limits_def
    by (auto simp: sthen_Inr_iff sbind_Inr_iff draw_Inr_iff quantize_or_raise_Inr)
  show ?thesis using volume_InrD[OF c(2)] c(1,3,4,5) by (auto simp: within_limits_def dlt_iff)
qed

definition approval :: "settings \<Rightarrow> cross_currency_request \<Rightarrow> string \<Rightarrow> tables \<Rightarrow> approved \<Rightarrow> bool" where
  "approval st req caller t ap \<longleftrightarrow>
     find_account (cr_source_account_number req) t = Some (ap_source ap) \<and>
     find_account (cr_destination_account_number req) t = Some (ap_destination ap) \<and>
     acc_status (ap_source ap) = active \<and> acc_status (ap_destination ap) = active \<and>
     owner_id (ap_source ap) = caller \<and> currency (ap_source ap) = cr_source_currency req \<and>
     dval (am_total_cost (ap_amounts ap)) \<le> dval (balance (ap_source ap)) \<and>
     calculate_amounts st (cr_source_amount req) (ap_rate ap) = Inr (ap_amounts ap) \<and>
     (\<exists>cur prev prate.
        latest (List.filter (\<lambda>s. \<not> is_stale s) (fx_rate_snapshots t)) = Some cur \<and>
        snapshot_rate (fx_rates cur) (cr_source_currency req) (cr_destination_currency req) = Inr (ap_rate ap) \<and>
        ap_snapshot_id ap = fx_id cur \<and>
        amount_in_usd (cr_source_amount req) (cr_source_currency req) (fx_rates cur) = Inr (ap_usd ap) \<and>
        find_row (\<lambda>s. fx_id s = cr_fx_snapshot_id req) (fx_rate_snapshots t) = Some prev \<and> \<not> is_stale prev \<and>
        snapshot_rate (fx_rates prev) (cr_source_currency req) (cr_destination_currency req) = Inr prate \<and>
        check_rate_deviation st prate (ap_rate ap) (fx_id cur) = Inr ()) \<and>
     list_ex (\<lambda>p. from_currency p = cr_source_currency req \<and> to_currency p = cr_destination_currency req)
       (List.filter is_active (currency_pairs t))"

lemma approve_InrD:
  assumes "approve x st req caller s = (Inr ap, s')"
  shows "approval st req caller (db s) ap \<and> db s' = db s \<and> status_metric s' = status_metric s \<and>
    (\<exists>k. within_limits st (account_number (ap_source ap)) (utcnow x k - day) (ap_usd ap) (db s))"
proof -
  have "wp (approve x st req caller) (\<lambda>ap s'. approval st req caller (db s) ap \<and> db s' = db s \<and>
      status_metric s' = status_metric s \<and>
      (\<exists>k. within_limits st (account_number (ap_source ap)) (utcnow x k - day) (ap_usd ap) (db s))) (\<lambda>_ _. True) s"
  proof -
    have limits: "wp (check_transfer_limits x st n usd) Q (\<lambda>_ _. True) s1"
      if "\<And>k s2. db s2 = db s1 \<Longrightarrow> status_metric s2 = status_metric s1 \<Longrightarrow>
          within_limits st n (utcnow x k - day) usd (db s1) \<Longrightarrow> Q () s2"
      for n usd Q s1
      by (rule wpI) (use that check_transfer_limits_InrD in \<open>(fastforce)+\<close>)
    show ?thesis
      unfolding approve_def get_latest_snapshot_def get_snapshot_by_id_def ensure_active_pair_def
        get_active_currency_pairs_def load_accounts_def
      apply (simp add: wp_simps wp_lock open_account_def split: option.split prod.split cong: conj_cong)
      apply (intro conjI allI impI limits)
      apply (auto simp: approval_def dlt_iff wp_simps)
      done
  qed
  from wp_InrD[OF this assms] show ?thesis .
qed

section \<open>What a settlement has done\<close>

lemma update_rows_last:
  "transfer_id r \<notin> transfer_id ` set rows \<Longrightarrow> transfer_id r = i \<Longrightarrow>
     update_rows (\<lambda>q. transfer_id q = i) f (rows @ [r]) = rows @ [f r]"
proof -
  assume a: "transfer_id r \<notin> transfer_id ` set rows" "transfer_id r = i"
  have "update_rows (\<lambda>q. transfer_id q = i) f rows = rows" using a by (intro update_rows_id) (metis imageI)
  with a(2) show ?thesis by (simp add: update_rows_def)
qed

lemma find_transfer_last:
  "transfer_id r \<notin> transfer_id ` set rows \<Longrightarrow> transfers t = rows @ [r] \<Longrightarrow> find_transfer (transfer_id r) t = Some r"
  unfolding find_transfer_def by (simp add: find_row_new)

text \<open>A status step on the newest row.\<close>

lemma status_step_InrD:
  assumes "update_transfer_status x (transfer_id r) st None rid s = (Inr tr, s')"
    "transfers (db s) = rows @ [r]" "transfer_id r \<notin> transfer_id ` set rows"
  obtains na where "st = tr_status r \<or> st \<in> allowed_transitions (tr_status r)" "tr = r\<lparr>tr_status := st\<rparr>"
    "db s' = (db s)\<lparr>transfers := rows @ [r\<lparr>tr_status := st\<rparr>], audit_log := audit_log (db s) @ na\<rparr>"
    "map operation_type na = (case status_operation st of None \<Rightarrow> [] | Some ty \<Rightarrow> [ty])"
    "status_metric s' = status_metric s"
  using assms(1)
proof (rule update_transfer_status_InrD)
  fix old na
  assume u: "find_transfer (transfer_id r) (db s) = Some old"
    "st = tr_status old \<or> st \<in> allowed_transitions (tr_status old)"
    "tr = old\<lparr>tr_status := st, failure_reason := (if None \<noteq> None then None else failure_reason old)\<rparr>"
    "db s' = (set_status (transfer_id r) st None (db s))\<lparr>audit_log := audit_log (db s) @ na\<rparr>"
    "map operation_type na = (case status_operation st of None \<Rightarrow> [] | Some ty \<Rightarrow> [ty])"
    "status_metric s' = status_metric s"
  have "old = r" using u(1) find_transfer_last[OF assms(3,2)] by simp
  moreover have "set_status (transfer_id r) st None (db s) = (db s)\<lparr>transfers := rows @ [r\<lparr>tr_status := st\<rparr>]\<rparr>"
    using update_rows_last[OF assms(3) refl] by (simp add: set_status_def assms(2))
  ultimately show thesis using u by (intro that[where na = na]) simp_all
qed

lemma record_status_metric_InrD:
  "record_status_metric st s = (Inr u, s') \<Longrightarrow> db s' = db s \<and> status_metric s' = status_metric s @ [st]"
  by (auto simp: record_status_metric_def)

lemma assign_destination_amount_InrD:
  assumes "assign_destination_amount x (transfer_id r) v s = (Inr u, s')"
    "transfers (db s) = rows @ [r]" "transfer_id r \<notin> transfer_id ` set rows"
  obtains d where "put_numeric x 19 4 v = Inr d" "db s' = (db s)\<lparr>transfers := rows @ [r\<lparr>destination_amount := d\<rparr>]\<rparr>"
    "status_metric s' = status_metric s"
  using assms update_rows_last[OF assms(3) refl]
  by (auto simp: assign_destination_amount_def sbind_Inr_iff)

lemma aml_InrD:
  assumes "aml_kyc_check x st tr a b usd rid s = (Inr u, s')"
  obtains na where "db s' = (db s)\<lparr>audit_log := audit_log (db s) @ na\<rparr>" "status_metric s' = status_metric s"
    "map operation_type na = (if dlt usd (AML_SCREENING_THRESHOLD_USD st) then [] else [aml_kyc_screening_triggered])"
proof (cases "dlt usd (AML_SCREENING_THRESHOLD_USD st)")
  case True
  with assms that[of "[]"] show thesis by (simp add: aml_kyc_check_def)
next
  case False
  with assms obtain e where "db s' = (db s)\<lparr>audit_log := audit_log (db s) @ [e]\<rparr>"
    "operation_type e = aml_kyc_screening_triggered" "status_metric s' = status_metric s"
    by (auto simp: aml_kyc_check_def elim!: write_audit_log_InrD)
  with False that[of "[e]"] show thesis by simp
qed

text \<open>The tables after a settlement.\<close>

definition settled ::
  "ext \<Rightarrow> settings \<Rightarrow> cross_currency_request \<Rightarrow> string \<Rightarrow> string \<Rightarrow> approved \<Rightarrow> tables \<Rightarrow> transfer \<Rightarrow> tables \<Rightarrow> bool" where
  "settled x st req caller key ap t tr t' \<longleftrightarrow>
     (\<exists>sbal b1 n1 dnow dbal b2 n2 al ns.
        quantize ROUND_HALF_UP (- 4) (dsub (balance (ap_source ap)) (am_total_cost (ap_amounts ap))) = Some sbal \<and>
        put_numeric x 19 4 sbal = Inr b1 \<and>
        dnow = (case find_account (account_number (ap_destination ap))
                  (with_balance (account_number (ap_source ap)) b1 n1 t) of
                None \<Rightarrow> balance (ap_destination ap) | Some a \<Rightarrow> balance a) \<and>
        quantize ROUND_HALF_UP (- 4) (dadd dnow (am_net (ap_amounts ap))) = Some dbal \<and>
        put_numeric x 19 4 dbal = Inr b2 \<and>
        t' = (with_balance (account_number (ap_destination ap)) b2 n2
               (with_balance (account_number (ap_source ap)) b1 n1 t))
             \<lparr>transfers := transfers t @ [tr], audit_log := audit_log t @ al,
              notifications := notifications t @ ns\<rparr> \<and>
        map operation_type al =
          [cross_currency_transfer_initiated, cross_currency_transfer_completed] @
          (if account_number (ap_source ap) \<noteq> account_number (ap_destination ap)
           then [notification_delivered, notification_delivered] else []) @
          (if dlt (ap_usd ap) (AML_SCREENING_THRESHOLD_USD st) then [] else [aml_kyc_screening_triggered]) \<and>
        map recipient_account_number ns =
          (if account_number (ap_source ap) \<noteq> account_number (ap_destination ap)
           then [account_number (ap_source ap), account_number (ap_destination ap)] else []) \<and>
        list_all (\<lambda>n. nt_transfer_id n = transfer_id tr \<and> read_at n = None) ns) \<and>
     idempotency_key tr = key \<and> caller_id tr = caller \<and> tr_status tr = completed \<and>
     source_account_number tr = account_number (ap_source ap) \<and>
     destination_account_number tr = account_number (ap_destination ap) \<and>
     source_currency tr = cr_source_currency req \<and> destination_currency tr = cr_destination_currency req \<and>
     put_numeric x 19 4 (cr_source_amount req) = Inr (source_amount tr) \<and>
     put_numeric x 19 4 (am_net (ap_amounts ap)) = Inr (destination_amount tr) \<and>
     put_numeric x 20 8 (ap_rate ap) = Inr (exchange_rate tr) \<and>
     put_opt x (Some (ap_usd ap)) = Inr (source_amount_usd tr) \<and>
     key \<notin> idempotency_key ` set (transfers t) \<and> transfer_id tr \<notin> transfer_id ` set (transfers t)"

lemma settle_InrD:
  assumes "settle x st req caller key rid ap s = (Inr r, s')"
  obtains tr where "settled x st req caller key ap (db s) tr (db s')"
    "to_response tr (Some (am_gross (ap_amounts ap))) = Inr r"
    "status_metric s' = status_metric s @ [pending, processing, completed]"
    "string_exn x 30 (operation_type_value cross_currency_transfer_initiated) = None"
proof -
  let ?S = "account_number (ap_source ap)" and ?D = "account_number (ap_destination ap)" and ?am = "ap_amounts ap"
  from assms[unfolded settle_def Let_def sbind_Inr_iff sthen_Inr_iff slift_Inr_iff quantize_or_raise_Inr]
  obtain now s1 tr0 s2 u2 s3 tr1 s4 u4 s5 sbal u5 s6 dnow s7 dbal u7 s8 u8 s9 tr2 s10 u10 s11 u11 s12 u12 s13 where
    c1: "draw (utcnow x) s = (Inr now, s1)" and
    c2: "create_cross_currency_transfer x key ?S ?D (cr_source_amount req) (cr_source_currency req)
       (am_net ?am) (cr_destination_currency req) (ap_rate ap) pending caller rid
       \<lparr>ct_sending_fee = am_sending_fee ?am, ct_receiving_fee = am_receiving_fee ?am,
        ct_fx_snapshot_id = ap_snapshot_id ap, ct_rate_confirmed_at = now,
        ct_source_amount_usd = ap_usd ap\<rparr> None s1 = (Inr tr0, s2)" and
    c3: "record_status_metric pending s2 = (Inr u2, s3)" and
    c4: "update_transfer_status x (transfer_id tr0) processing None rid s3 = (Inr tr1, s4)" and
    c5: "record_status_metric processing s4 = (Inr u4, s5)" and
    c6: "quantize ROUND_HALF_UP (- 4) (dsub (balance (ap_source ap)) (am_total_cost ?am)) = Some sbal" and
    c7: "assign_balance x ?S sbal s5 = (Inr u5, s6)" and
    c8: "current_balance ?D (balance (ap_destination ap)) s6 = (Inr dnow, s7)" and
    c9: "quantize ROUND_HALF_UP (- 4) (dadd dnow (am_net ?am)) = Some dbal" and
    c10: "assign_balance x ?D dbal s7 = (Inr u7, s8)" and
    c11: "assign_destination_amount x (transfer_id tr0) (am_net ?am) s8 = (Inr u8, s9)" and
    c12: "update_transfer_status x (transfer_id tr0) completed None rid s9 = (Inr tr2, s10)" and
    c13: "record_status_metric completed s10 = (Inr u10, s11)" and
    c14: "(if ?S \<noteq> ?D then create_transfer_notifications x tr2 (ap_source ap) (ap_destination ap) (Some caller) rid
            else sret ()) s11 = (Inr u11, s12)" and
    c15: "aml_kyc_check x st tr2 (ap_source ap) (ap_destination ap) (ap_usd ap) rid s12 = (Inr u12, s13)" and
    c16: "to_response tr2 (Some (am_gross ?am)) = Inr r" "s' = s13"
    by clarify (rule that, (assumption | rule refl)+)
  note d1 = draw_InrD[OF c1]
  from c2 obtain a where t0: "db s2 = (db s1)\<lparr>transfers := transfers (db s1) @ [tr0], audit_log := audit_log (db s1) @ [a]\<rparr>"
    "operation_type a = cross_currency_transfer_initiated"
    "idempotency_key tr0 = key" "source_account_number tr0 = ?S" "destination_account_number tr0 = ?D"
    "put_numeric x 19 4 (cr_source_amount req) = Inr (source_amount tr0)"
    "put_numeric x 20 8 (ap_rate ap) = Inr (exchange_rate tr0)" "source_currency tr0 = cr_source_currency req"
    "destination_currency tr0 = cr_destination_currency req" "tr_status tr0 = pending" "caller_id tr0 = caller"
    "put_opt x (Some (ap_usd ap)) = Inr (source_amount_usd tr0)"
    "key \<notin> idempotency_key ` set (transfers (db s1))" "transfer_id tr0 \<notin> transfer_id ` set (transfers (db s1))"
    "status_metric s2 = status_metric s1"
    "string_exn x 30 (operation_type_value cross_currency_transfer_initiated) = None"
    by (rule create_cross_currency_transfer_InrD) simp
  note m3 = record_status_metric_InrD[OF c3] and m5 = record_status_metric_InrD[OF c5] and m13 = record_status_metric_InrD[OF c13]
  let ?rows = "transfers (db s)"
  have f0: "transfer_id tr0 \<notin> transfer_id ` set ?rows" using t0(14) d1 by simp
  have "transfers (db s3) = ?rows @ [tr0]" using m3 t0(1) d1 by simp
  from c4 this f0 obtain na4 where t4: "db s4 = (db s3)\<lparr>transfers := ?rows @ [tr0\<lparr>tr_status := processing\<rparr>], audit_log := audit_log (db s3) @ na4\<rparr>"
    "map operation_type na4 = []" "status_metric s4 = status_metric s3"
    by (rule status_step_InrD) (simp add: status_operation_def)
  let ?tr1 = "tr0\<lparr>tr_status := processing\<rparr>"
  from c7 obtain b1 n1 where t6: "put_numeric x 19 4 sbal = Inr b1" "db s6 = with_balance ?S b1 n1 (db s5)"
    "status_metric s6 = status_metric s5" by (rule assign_balance_InrD)
  have t7: "db s7 = db s6" "status_metric s7 = status_metric s6"
    "dnow = (case find_account ?D (db s6) of None \<Rightarrow> balance (ap_destination ap) | Some a \<Rightarrow> balance a)"
    using c8 by (auto simp: current_balance_def)
  from c10 obtain b2 n2 where t8: "put_numeric x 19 4 dbal = Inr b2" "db s8 = with_balance ?D b2 n2 (db s7)"
    "status_metric s8 = status_metric s7" by (rule assign_balance_InrD)
  have r8: "transfers (db s8) = ?rows @ [?tr1]" by (simp add: t8 t7 t6 m5 t4)
  have f1: "transfer_id ?tr1 \<notin> transfer_id ` set ?rows" using f0 by simp
  from c11 have "assign_destination_amount x (transfer_id ?tr1) (am_net ?am) s8 = (Inr u8, s9)" by simp
  from this r8 f1 obtain d where t9: "put_numeric x 19 4 (am_net ?am) = Inr d"
    "db s9 = (db s8)\<lparr>transfers := ?rows @ [?tr1\<lparr>destination_amount := d\<rparr>]\<rparr>" "status_metric s9 = status_metric s8"
    by (rule assign_destination_amount_InrD)
  let ?tr9 = "?tr1\<lparr>destination_amount := d\<rparr>"
  have r9: "transfers (db s9) = ?rows @ [?tr9]" and f9: "transfer_id ?tr9 \<notin> transfer_id ` set ?rows"
    using t9 f0 by simp_all
  from c12 have "update_transfer_status x (transfer_id ?tr9) completed None rid s9 = (Inr tr2, s10)" by simp
  from this r9 f9 obtain na10 where t10: "tr2 = ?tr9\<lparr>tr_status := completed\<rparr>"
    "db s10 = (db s9)\<lparr>transfers := ?rows @ [?tr9\<lparr>tr_status := completed\<rparr>], audit_log := audit_log (db s9) @ na10\<rparr>"
    "map operation_type na10 = [cross_currency_transfer_completed]" "status_metric s10 = status_metric s9"
    by (rule status_step_InrD) (simp add: status_operation_def)
  obtain ns es where t12: "db s12 = (db s11)\<lparr>notifications := notifications (db s11) @ ns, audit_log := audit_log (db s11) @ es\<rparr>"
    "status_metric s12 = status_metric s11"
    "map operation_type es = (if ?S \<noteq> ?D then [notification_delivered, notification_delivered] else [])"
    "map recipient_account_number ns = (if ?S \<noteq> ?D then [?S, ?D] else [])"
    "list_all (\<lambda>n. nt_transfer_id n = transfer_id tr2 \<and> read_at n = None) ns"
  proof (cases "?S = ?D")
    case True
    with c14 that[where ns = "[]" and es = "[]"] show thesis by simp
  next
    case False
    with c14 have "create_transfer_notifications x tr2 (ap_source ap) (ap_destination ap) (Some caller) rid s11 = (Inr u11, s12)"
      by simp
    then show thesis
      by (rule create_transfer_notifications_InrD) (use False that[where ns = "[n1, n2]" for n1 n2] in simp)
  qed
  from c15 obtain na13 where t13: "db s13 = (db s12)\<lparr>audit_log := audit_log (db s12) @ na13\<rparr>" "status_metric s13 = status_metric s12"
    "map operation_type na13 = (if dlt (ap_usd ap) (AML_SCREENING_THRESHOLD_USD st) then [] else [aml_kyc_screening_triggered])"
    by (rule aml_InrD)
  have fa: "find_account ?D (db s6) = find_account ?D (with_balance ?S b1 n1 (db s))"
    by (simp add: t6 m5 t4 m3 t0(1) d1 find_account_def with_balance_def)
  have na4: "na4 = []" using t4(2) by simp
  have dbs: "db s' = (with_balance ?D b2 n2 (with_balance ?S b1 n1 (db s)))
     \<lparr>transfers := ?rows @ [tr2], audit_log := audit_log (db s) @ ([a] @ na10 @ es @ na13), notifications := notifications (db s) @ ns\<rparr>"
    by (simp add: c16 t13 t12 m13 t10 t9(2) t8 t7 t6 m5 t4 m3 t0(1) d1 na4 with_balance_def)
  have row: "idempotency_key tr2 = key" "caller_id tr2 = caller" "tr_status tr2 = completed"
     "source_account_number tr2 = ?S" "destination_account_number tr2 = ?D"
     "source_currency tr2 = cr_source_currency req" "destination_currency tr2 = cr_destination_currency req"
     "put_numeric x 19 4 (cr_source_amount req) = Inr (source_amount tr2)"
     "put_numeric x 19 4 (am_net ?am) = Inr (destination_amount tr2)"
     "put_numeric x 20 8 (ap_rate ap) = Inr (exchange_rate tr2)"
     "put_opt x (Some (ap_usd ap)) = Inr (source_amount_usd tr2)"
     "key \<notin> idempotency_key ` set ?rows" "transfer_id tr2 \<notin> transfer_id ` set ?rows"
    using t0(3-14) t9(1) d1 by (simp_all add: t10(1))
  have al: "map operation_type ([a] @ na10 @ es @ na13) =
          [cross_currency_transfer_initiated, cross_currency_transfer_completed] @
          (if ?S \<noteq> ?D then [notification_delivered, notification_delivered] else []) @
          (if dlt (ap_usd ap) (AML_SCREENING_THRESHOLD_USD st) then [] else [aml_kyc_screening_triggered])"
    by (simp add: t0(2) t10(3) t12(3) t13(3))
  have dn: "dnow = (case find_account ?D (with_balance ?S b1 n1 (db s)) of
                None \<Rightarrow> balance (ap_destination ap) | Some a \<Rightarrow> balance a)" by (simp add: t7(3) fa)
  show thesis
  proof (rule that)
    show "settled x st req caller key ap (db s) tr2 (db s')"
      unfolding settled_def
      by (intro conjI exI, rule c6, rule t6(1), rule dn, rule c9, rule t8(1), rule dbs, rule al, rule t12(4), rule t12(5))
        (rule row)+
    show "to_response tr2 (Some (am_gross ?am)) = Inr r" by (rule c16)
    show "string_exn x 30 (operation_type_value cross_currency_transfer_initiated) = None" by (rule t0)
    show "status_metric s' = status_metric s @ [pending, processing, completed]"
      by (simp add: c16 t13 t12 m13 t10 t9 t8 t7 t6 m5 t4 m3 t0(15) d1)
  qed
qed

lemma initiate_InrD:
  assumes "initiate x st req caller key rid s = (Inr (r, replay), s')"
  obtains (replayed) tr where "replay" "find_by_key key (db s) = Some tr" "caller_id tr = caller"
    "to_response tr None = Inr r" "db s' = db s" "status_metric s' = status_metric s"
  | (fresh) ap tr where "\<not> replay" "find_by_key key (db s) = None" "approval st req caller (db s) ap"
    "\<exists>k. within_limits st (account_number (ap_source ap)) (utcnow x k - day) (ap_usd ap) (db s)"
    "settled x st req caller key ap (db s) tr (db s')" "to_response tr (Some (am_gross (ap_amounts ap))) = Inr r"
    "status_metric s' = status_metric s @ [pending, processing, completed]"
    "string_exn x 30 (operation_type_value cross_currency_transfer_initiated) = None"
proof -
  let ?s1 = "s\<lparr>tick := Suc (tick s), in_tx := True\<rparr>"
  show thesis
  proof (cases "find_by_key key (db s)")
    case (Some tr)
    with assms have "replay \<and> caller_id tr = caller \<and> to_response tr None = Inr r \<and> db s' = db s \<and>
        status_metric s' = status_metric s"
      unfolding initiate_def get_idempotency_record_def sbind_Inr_iff[of "db_query x w" for w] db_query_Inr_iff
      by (auto simp: op_Inr_iff)
    with Some replayed show thesis by blast
  next
    case None
    with assms have t: "transaction x (sbind (approve x st req caller) (settle x st req caller key rid)) ?s1 = (Inr r, s')"
      and nr: "\<not> replay"
      unfolding initiate_def get_idempotency_record_def sbind_Inr_iff[of "db_query x w" for w] db_query_Inr_iff
      by (auto simp: op_Inr_iff)
    from transaction_InrD[OF t] obtain s2 where
      b: "sbind (approve x st req caller) (settle x st req caller key rid) (?s1\<lparr>in_tx := True\<rparr>) = (Inr r, s2)"
      and s2: "db s' = db s2" "status_metric s' = status_metric s2" by auto
    from b obtain ap s3 where ap: "approve x st req caller (?s1\<lparr>in_tx := True\<rparr>) = (Inr ap, s3)"
      and st: "settle x st req caller key rid ap s3 = (Inr r, s2)" unfolding sbind_Inr_iff by blast
    note a = approve_InrD[OF ap]
    from st obtain tr where "settled x st req caller key ap (db s3) tr (db s2)"
      "to_response tr (Some (am_gross (ap_amounts ap))) = Inr r"
      "status_metric s2 = status_metric s3 @ [pending, processing, completed]"
      "string_exn x 30 (operation_type_value cross_currency_transfer_initiated) = None" by (rule settle_InrD)
    with a s2 None nr fresh[of ap tr] show thesis by simp
  qed
qed

lemma ledger_inv_three [simp]:
  "ledger_inv (t\<lparr>transfers := r, audit_log := l, notifications := n\<rparr>) =
     ledger_inv (t\<lparr>transfers := r, notifications := n\<rparr>)"
  by (simp add: ledger_inv_def)

lemma settled_inv:
  assumes "settled x st req caller key ap t tr t'" "approval st req caller t ap" "numeric_law x" "ledger_inv t"
  shows "ledger_inv t'"
proof -
  let ?S = "account_number (ap_source ap)" and ?D = "account_number (ap_destination ap)"
  from assms(1) obtain sbal b1 n1 dbal b2 n2 al ns where p: "put_numeric x 19 4 sbal = Inr b1" "put_numeric x 19 4 dbal = Inr b2"
    and t': "t' = (with_balance ?D b2 n2 (with_balance ?S b1 n1 t))
             \<lparr>transfers := transfers t @ [tr], audit_log := audit_log t @ al, notifications := notifications t @ ns\<rparr>"
    and ns: "list_all (\<lambda>n. nt_transfer_id n = transfer_id tr \<and> read_at n = None) ns"
    and k: "idempotency_key tr = key" "key \<notin> idempotency_key ` set (transfers t)" "transfer_id tr \<notin> transfer_id ` set (transfers t)"
    and am: "put_numeric x 19 4 (cr_source_amount req) = Inr (source_amount tr)"
      "put_numeric x 19 4 (am_net (ap_amounts ap)) = Inr (destination_amount tr)"
      "put_numeric x 20 8 (ap_rate ap) = Inr (exchange_rate tr)"
    unfolding settled_def by blast
  from assms(2) have acc: "find_account (cr_source_account_number req) t = Some (ap_source ap)"
    "find_account (cr_destination_account_number req) t = Some (ap_destination ap)"
    "acc_status (ap_source ap) = active" "acc_status (ap_destination ap) = active"
    by (simp_all add: approval_def)
  then have S: "find_account ?S t = Some (ap_source ap)" "find_account ?D t = Some (ap_destination ap)"
    using find_account_good[OF assms(4)] by metis+
  note fits = p[THEN put_numeric_fits[OF assms(3)]] am[THEN put_numeric_fits[OF assms(3)]]
  let ?t1 = "with_balance ?S b1 n1 t"
  have i1: "ledger_inv ?t1" by (rule with_balance_inv[OF assms(4) S(1) acc(3) fits(1)])
  have "\<exists>d'. find_account ?D ?t1 = Some d' \<and> acc_status d' = active"
    using S acc by (auto simp: find_with_balance)
  then obtain d' where "find_account ?D ?t1 = Some d'" "acc_status d' = active" by blast
  then have "ledger_inv (with_balance ?D b2 n2 ?t1)" by (rule with_balance_inv[OF i1 _ _ fits(2)])
  from ledger_inv_append_transfer[OF this, of tr]
  have "ledger_inv ((with_balance ?D b2 n2 ?t1)\<lparr>transfers := transfers t @ [tr]\<rparr>)"
    using k fits by (simp add: good_transfer_def)
  moreover have "list_all (\<lambda>n. nt_transfer_id n \<in> transfer_id ` set (transfers t @ [tr])) (notifications t @ ns)"
    using ns assms(4) by (auto simp: list_all_iff ledger_inv_def)
  ultimately show ?thesis unfolding t' by (simp add: ledger_inv_notifications)
qed

lemma initiate_inv:
  assumes "initiate x st req caller key rid s = (Inr (r, b), s')" "numeric_law x" "ledger_inv (db s)"
  shows "ledger_inv (db s')"
  using assms(1)
proof (cases rule: initiate_InrD)
  case (fresh ap tr)
  then show ?thesis using settled_inv[OF fresh(5,3) assms(2,3)] by simp
qed (use assms(3) in simp)

section \<open>Correctness of the cross-currency transfer\<close>

lemma calculate_amounts_InrD:
  assumes "calculate_amounts st amount rate = Inr am"
  shows "quantize ROUND_HALF_UP (- 4) (dmul amount (SENDING_FEE_PCT st)) = Some (am_sending_fee am)"
    "quantize ROUND_HALF_UP (- 4) (dmul amount rate) = Some (am_gross am)"
    "quantize ROUND_HALF_UP (- 4) (dmul (am_gross am) (RECEIVING_FEE_PCT st)) = Some (am_receiving_fee am)"
    "quantize ROUND_HALF_UP (- 4) (dsub (am_gross am) (am_receiving_fee am)) = Some (am_net am)"
    "quantize ROUND_HALF_UP (- 4) (dadd amount (am_sending_fee am)) = Some (am_total_cost am)"
  using assms by (auto simp: calculate_amounts_def rbind_Inr_iff quantize_or_raise_Inr)

lemma quantized_diff:
  assumes "fits 19 4 b" "quantize r (- 4) c = Some t" "0 \<le> dval t" "dval t \<le> dval b"
    "quantize r' (- 4) (dsub b t) = Some q"
  shows "dval q = dval b - dval t"
proof -
  have e: "- 4 \<le> dexp t" using quantizeD(1)[OF assms(2)] by simp
  from debit_exact[OF assms(1) e assms(3,4)] have d: "dval (dsub b t) = dval b - dval t" "dexp (dsub b t) = - 4" by simp_all
  have "dval q = dval (dsub b t)" using quantizeD(3)[OF assms(5)] rescale_exact[of "- 4" "dsub b t"] d(2) by simp
  with d show ?thesis by simp
qed

lemma quantized_sum:
  assumes "fits 19 4 b" "fits 19 4 t" "quantize r' (- 4) (dadd b t) = Some q"
  shows "dval q = dval b + dval t"
proof -
  from credit_exact[OF assms(1,2)] have d: "dval (dadd b t) = dval b + dval t" "dexp (dadd b t) = - 4" by simp_all
  have "dval q = dval (dadd b t)" using quantizeD(3)[OF assms(3)] rescale_exact[of "- 4" "dadd b t"] d(2) by simp
  with d show ?thesis by simp
qed

lemma stored_quantized:
  assumes "numeric_law x" "quantize r (- 4) c = Some q" "put_numeric x 19 4 q = Inr v"
  shows "v = q" "fits 19 4 q"
proof -
  have "fits 28 4 q" using quantizeD[OF assms(2)] by (simp add: fits_def)
  moreover have "fits 19 4 v" "dval v = dval q"
    using put_numeric_fits[OF assms(1,3)] numeric_lawD(3)[OF assms(1,3)] quantizeD(1)[OF assms(2)] by simp_all
  ultimately show "v = q" using fits_unique by metis
  with \<open>fits 19 4 v\<close> show "fits 19 4 q" by simp
qed

lemma balance_of_four [simp]:
  "balance_of n (t\<lparr>transfers := r, audit_log := l, notifications := ns\<rparr>) = balance_of n t"
  "find_account n (t\<lparr>transfers := r, audit_log := l, notifications := ns\<rparr>) = find_account n t"
  by (simp_all add: balance_of_def find_account_def)

lemma settled_balances:
  assumes "settled x st req caller key ap t tr t'" "approval st req caller t ap" "numeric_law x" "ledger_inv t"
    "0 \<le> dval (am_total_cost (ap_amounts ap))"
    "cr_source_account_number req \<noteq> cr_destination_account_number req"
  shows "balance_of n t' = balance_of n t
      - (if n = cr_source_account_number req then dval (am_total_cost (ap_amounts ap)) else 0)
      + (if n = cr_destination_account_number req then dval (am_net (ap_amounts ap)) else 0)"
    "n \<noteq> cr_source_account_number req \<Longrightarrow> n \<noteq> cr_destination_account_number req \<Longrightarrow>
       find_account n t' = find_account n t"
    "destination_amount tr = am_net (ap_amounts ap)"
proof -
  let ?S = "account_number (ap_source ap)" and ?D = "account_number (ap_destination ap)"
  have acc: "find_account (cr_source_account_number req) t = Some (ap_source ap)"
    "find_account (cr_destination_account_number req) t = Some (ap_destination ap)"
    "dval (am_total_cost (ap_amounts ap)) \<le> dval (balance (ap_source ap))"
    "calculate_amounts st (cr_source_amount req) (ap_rate ap) = Inr (ap_amounts ap)"
    using assms(2) by (simp_all add: approval_def)
  have S: "?S = cr_source_account_number req" "?D = cr_destination_account_number req"
    and g: "fits 19 4 (balance (ap_source ap))" "fits 19 4 (balance (ap_destination ap))"
    using find_account_good[OF assms(4)] acc by (auto simp: good_account_def)
  from assms(1)[unfolded settled_def S] obtain sbal b1 n1 dnow dbal b2 n2 al ns where
    p: "quantize ROUND_HALF_UP (- 4) (dsub (balance (ap_source ap)) (am_total_cost (ap_amounts ap))) = Some sbal"
      "put_numeric x 19 4 sbal = Inr b1"
      "dnow = (case find_account (cr_destination_account_number req) (with_balance (cr_source_account_number req) b1 n1 t) of
                None \<Rightarrow> balance (ap_destination ap) | Some a \<Rightarrow> balance a)"
      "quantize ROUND_HALF_UP (- 4) (dadd dnow (am_net (ap_amounts ap))) = Some dbal"
      "put_numeric x 19 4 dbal = Inr b2"
    and t': "t' = (with_balance (cr_destination_account_number req) b2 n2 (with_balance (cr_source_account_number req) b1 n1 t))
             \<lparr>transfers := transfers t @ [tr], audit_log := audit_log t @ al, notifications := notifications t @ ns\<rparr>"
    and net: "put_numeric x 19 4 (am_net (ap_amounts ap)) = Inr (destination_amount tr)"
    by blast
  note am = calculate_amounts_InrD[OF acc(4)]
  have dn: "dnow = balance (ap_destination ap)" using p(3) acc(2) assms(6) by (simp add: find_with_balance)
  have sb: "dval b1 = dval (balance (ap_source ap)) - dval (am_total_cost (ap_amounts ap))"
    using stored_quantized(1)[OF assms(3) p(1,2)] quantized_diff[OF g(1) am(5) assms(5) acc(3) p(1)] by simp
  have db: "dval b2 = dval (balance (ap_destination ap)) + dval (am_net (ap_amounts ap))"
    using stored_quantized(1)[OF assms(3) p(4,5)] stored_quantized(2)[OF assms(3) am(4) net] quantized_sum[OF g(2)] p(4) dn
    by simp
  have d1: "find_account (cr_destination_account_number req) (with_balance (cr_source_account_number req) b1 n1 t) = Some (ap_destination ap)"
    using acc(2) assms(6) by (simp add: find_with_balance)
  show "balance_of n t' = balance_of n t
      - (if n = cr_source_account_number req then dval (am_total_cost (ap_amounts ap)) else 0)
      + (if n = cr_destination_account_number req then dval (am_net (ap_amounts ap)) else 0)"
    unfolding t' using assms(6)
    by (simp add: balance_of_with_balance[OF d1] balance_of_with_balance[OF acc(1)] sb db)
      (simp add: balance_of_def acc(1,2))
  show "n \<noteq> cr_source_account_number req \<Longrightarrow> n \<noteq> cr_destination_account_number req \<Longrightarrow>
       find_account n t' = find_account n t"
    unfolding t' by (simp add: find_with_balance)
  show "destination_amount tr = am_net (ap_amounts ap)" by (rule stored_quantized(1)[OF assms(3) am(4) net])
qed

text \<open>On a database that stores the audit entries, a new cross-currency transfer is made at the rate of the newest usable snapshot by the owner of the
  source account, whose balance covers amount and sending fee; it debits the source by exactly that total,
  credits the destination with exactly the net amount, touches no other account, and the response
  reports the amounts that were charged.\<close>

theorem cross_transfer_effect:
  assumes "initiate x st req caller key rid s = (Inr (r, False), s')" "numeric_law x" "ledger_inv (db s)"
    "cr_source_account_number req \<noteq> cr_destination_account_number req"
  shows "\<exists>src dst cur rate am.
    find_account (cr_source_account_number req) (db s) = Some src \<and> owner_id src = caller \<and>
    find_account (cr_destination_account_number req) (db s) = Some dst \<and>
    latest (List.filter (\<lambda>s. \<not> is_stale s) (fx_rate_snapshots (db s))) = Some cur \<and>
    snapshot_rate (fx_rates cur) (cr_source_currency req) (cr_destination_currency req) = Inr rate \<and>
    calculate_amounts st (cr_source_amount req) rate = Inr am \<and>
    dval (am_total_cost am) \<le> dval (balance src) \<and>
    (0 \<le> dval (am_total_cost am) \<longrightarrow>
      balance_of (cr_source_account_number req) (db s') = dval (balance src) - dval (am_total_cost am) \<and>
      balance_of (cr_destination_account_number req) (db s') = dval (balance dst) + dval (am_net am) \<and>
      (\<forall>n. n \<noteq> cr_source_account_number req \<longrightarrow> n \<noteq> cr_destination_account_number req \<longrightarrow>
         find_account n (db s') = find_account n (db s)) \<and>
      cc_net_credited_amount r = am_net am) \<and>
    cc_gross_converted_amount r = am_gross am \<and> cc_status r = ''completed''"
  using assms(1)
proof (cases rule: initiate_InrD)
  case (fresh ap tr)
  have r: "cc_gross_converted_amount r = am_gross (ap_amounts ap)" "cc_status r = ''completed''"
    "cc_net_credited_amount r = destination_amount tr"
    using fresh(5,6) by (auto simp: to_response_def rbind_Inr_iff settled_def)
  from fresh(3) obtain cur where a: "find_account (cr_source_account_number req) (db s) = Some (ap_source ap)"
    "find_account (cr_destination_account_number req) (db s) = Some (ap_destination ap)"
    "owner_id (ap_source ap) = caller" "dval (am_total_cost (ap_amounts ap)) \<le> dval (balance (ap_source ap))"
    "calculate_amounts st (cr_source_amount req) (ap_rate ap) = Inr (ap_amounts ap)"
    "latest (List.filter (\<lambda>s. \<not> is_stale s) (fx_rate_snapshots (db s))) = Some cur"
    "snapshot_rate (fx_rates cur) (cr_source_currency req) (cr_destination_currency req) = Inr (ap_rate ap)"
    by (auto simp: approval_def)
  have b: "balance_of (cr_source_account_number req) (db s) = dval (balance (ap_source ap))"
    "balance_of (cr_destination_account_number req) (db s) = dval (balance (ap_destination ap))"
    using a(1,2) by (simp_all add: balance_of_def)
  have "balance_of (cr_source_account_number req) (db s') = dval (balance (ap_source ap)) - dval (am_total_cost (ap_amounts ap)) \<and>
      balance_of (cr_destination_account_number req) (db s') = dval (balance (ap_destination ap)) + dval (am_net (ap_amounts ap)) \<and>
      (\<forall>n. n \<noteq> cr_source_account_number req \<longrightarrow> n \<noteq> cr_destination_account_number req \<longrightarrow>
         find_account n (db s') = find_account n (db s)) \<and>
      cc_net_credited_amount r = am_net (ap_amounts ap)" if nn: "0 \<le> dval (am_total_cost (ap_amounts ap))"
    using settled_balances[OF fresh(5,3) assms(2,3) nn assms(4)] assms(4) b r(3) by simp
  with a r(1,2) show ?thesis by blast
qed simp

definition cross_tables :: "string \<Rightarrow> tables" where
  "cross_tables dst_cur = empty_tables\<lparr>accounts :=
     [sample_account ''A'' ''alice'' ''EUR'' (Dec 10000000 (-4)),
      sample_account ''B'' ''bob'' dst_cur (Dec 50000 (-4))],
     fx_rate_snapshots := [\<lparr>fx_id = ''S1'', effective_at = 0, fetched_at = 0, is_stale = False,
       provider_source = ''feed'', fx_rates = [(''EUR'', [(''USD'', ''1.085'')])]\<rparr>],
     currency_pairs := [\<lparr>cp_id = ''P1'', from_currency = ''EUR'', to_currency = ''USD'', is_active = True,
       cp_created_at = 0\<rparr>]\<rparr>"

definition cross_request :: "decimal \<Rightarrow> cross_currency_request" where
  "cross_request amount =
     \<lparr>cr_source_account_number = ''A'', cr_destination_account_number = ''B'', cr_source_amount = amount,
      cr_source_currency = ''EUR'', cr_destination_currency = ''USD'', cr_fx_snapshot_id = ''S1''\<rparr>"

definition cross_run :: "string \<Rightarrow> decimal \<Rightarrow> (exn + cross_currency_response \<times> bool) \<times> session" where
  "cross_run dst_cur amount = initiate lenient_env default_settings (cross_request amount) ''alice'' ''key-1'' None
     (open_session (cross_tables dst_cur))"

lemma cross_run_new: "is_new (cross_run ''USD'' (Dec 100 0))"
  by code_simp

lemma cross_facts:
  "ledger_inv (db (open_session (cross_tables c)))"
  "find_account ''A'' (db (open_session (cross_tables c))) = Some (sample_account ''A'' ''alice'' ''EUR'' (Dec 10000000 (-4)))"
  "find_account ''B'' (db (open_session (cross_tables c))) = Some (sample_account ''B'' ''bob'' c (Dec 50000 (-4)))"
  "cr_source_account_number (cross_request a) = ''A''" "cr_destination_account_number (cross_request a) = ''B''"
  "cr_source_currency (cross_request a) = ''EUR''" "cr_destination_currency (cross_request a) = ''USD''"
  "cr_source_amount (cross_request a) = a"
  by (simp_all add: open_session_def cross_tables_def empty_tables_def sample_account_def find_account_def
      cross_request_def ledger_inv_def good_account_def fits_def)

lemma cross_rate:
  "latest (List.filter (\<lambda>s. \<not> is_stale s) (fx_rate_snapshots (db (open_session (cross_tables c))))) = Some cur \<Longrightarrow>
     snapshot_rate (fx_rates cur) ''EUR'' ''USD'' = Inr (Dec 1085 (-3))"
proof -
  have "parse_decimal ''1.085'' = Some (Dec 1085 (-3))" by code_simp
  then show "latest (List.filter (\<lambda>s. \<not> is_stale s) (fx_rate_snapshots (db (open_session (cross_tables c))))) = Some cur \<Longrightarrow>
     snapshot_rate (fx_rates cur) ''EUR'' ''USD'' = Inr (Dec 1085 (-3))"
    by (auto simp: open_session_def cross_tables_def empty_tables_def snapshot_rate_def lookup2_def decimal_or_raise_def)
qed

lemma cross_amounts:
  "calculate_amounts default_settings (Dec 100 0) (Dec 1085 (-3)) =
     Inr \<lparr>am_sending_fee = Dec 5000 (-4), am_gross = Dec 1085000 (-4), am_receiving_fee = Dec 3255 (-4),
          am_net = Dec 1081745 (-4), am_total_cost = Dec 1005000 (-4)\<rparr>"
  by code_simp

theorem cross_transfer_effect_witness:
  "\<exists>r s'. cross_run ''USD'' (Dec 100 0) = (Inr (r, False), s') \<and>
     balance_of ''A'' (db s') = 8995 / 10 \<and> balance_of ''B'' (db s') = 1131745 / 10000"
proof -
  obtain r s' where run: "cross_run ''USD'' (Dec 100 0) = (Inr (r, False), s')"
    using is_newD[OF cross_run_new] by blast
  from cross_transfer_effect[OF run[unfolded cross_run_def], unfolded cross_facts]
  obtain cur rate am where "latest (List.filter (\<lambda>s. \<not> is_stale s) (fx_rate_snapshots (db (open_session (cross_tables ''USD''))))) = Some cur"
    "snapshot_rate (fx_rates cur) ''EUR'' ''USD'' = Inr rate" "calculate_amounts default_settings (Dec 100 0) rate = Inr am"
    and b: "0 \<le> dval (am_total_cost am) \<Longrightarrow> balance_of ''A'' (db s') = dval (Dec 10000000 (-4)) - dval (am_total_cost am) \<and>
      balance_of ''B'' (db s') = dval (Dec 50000 (-4)) + dval (am_net am)"
    by (auto simp: cross_facts sample_facts)
  then have "am_total_cost am = Dec 1005000 (-4)" "am_net am = Dec 1081745 (-4)"
    using cross_rate cross_amounts by auto
  with b run show ?thesis by (simp add: dval_Dec power_int_def power_divide)
qed

text \<open>A new cross-currency transfer leaves exactly one transfer row behind, completed, under its key, with
  the caller, both accounts and the USD value that was checked; the audit log gains the start, the
  completion, the two deliveries and the AML screening exactly when it is due; both parties get an unread
  notification of it; and the counter has seen pending, processing, completed in this order.\<close>

theorem cross_transfer_records:
  assumes "initiate x st req caller key rid s = (Inr (r, False), s')" "ledger_inv (db s)"
    "cr_source_account_number req \<noteq> cr_destination_account_number req"
  shows "\<exists>tr usd al ns. transfers (db s') = transfers (db s) @ [tr] \<and> tr_status tr = completed \<and>
    idempotency_key tr = key \<and> key \<notin> idempotency_key ` set (transfers (db s)) \<and> caller_id tr = caller \<and>
    source_account_number tr = cr_source_account_number req \<and>
    destination_account_number tr = cr_destination_account_number req \<and>
    put_opt x (Some usd) = Inr (source_amount_usd tr) \<and>
    audit_log (db s') = audit_log (db s) @ al \<and>
    map operation_type al =
      [cross_currency_transfer_initiated, cross_currency_transfer_completed, notification_delivered, notification_delivered]
      @ (if dval usd < dval (AML_SCREENING_THRESHOLD_USD st) then [] else [aml_kyc_screening_triggered]) \<and>
    notifications (db s') = notifications (db s) @ ns \<and>
    map recipient_account_number ns = [cr_source_account_number req, cr_destination_account_number req] \<and>
    list_all (\<lambda>n. nt_transfer_id n = transfer_id tr \<and> read_at n = None) ns \<and>
    status_metric s' = status_metric s @ [pending, processing, completed]"
  using assms(1)
proof (cases rule: initiate_InrD)
  case (fresh ap tr)
  have S: "account_number (ap_source ap) = cr_source_account_number req"
    "account_number (ap_destination ap) = cr_destination_account_number req"
    using find_account_good[OF assms(2)] fresh(3) by (auto simp: approval_def)
  from fresh(5)[unfolded settled_def S] obtain b1 n1 b2 n2 al ns where
    d: "db s' = (with_balance (cr_destination_account_number req) b2 n2 (with_balance (cr_source_account_number req) b1 n1 (db s)))
       \<lparr>transfers := transfers (db s) @ [tr], audit_log := audit_log (db s) @ al, notifications := notifications (db s) @ ns\<rparr>"
    and al: "map operation_type al = [cross_currency_transfer_initiated, cross_currency_transfer_completed] @
          (if cr_source_account_number req \<noteq> cr_destination_account_number req
           then [notification_delivered, notification_delivered] else []) @
          (if dlt (ap_usd ap) (AML_SCREENING_THRESHOLD_USD st) then [] else [aml_kyc_screening_triggered])"
    and ns: "map recipient_account_number ns = (if cr_source_account_number req \<noteq> cr_destination_account_number req
           then [cr_source_account_number req, cr_destination_account_number req] else [])"
      "list_all (\<lambda>n. nt_transfer_id n = transfer_id tr \<and> read_at n = None) ns"
    and tr: "tr_status tr = completed" "idempotency_key tr = key" "key \<notin> idempotency_key ` set (transfers (db s))"
      "caller_id tr = caller" "source_account_number tr = cr_source_account_number req"
      "destination_account_number tr = cr_destination_account_number req"
      "put_opt x (Some (ap_usd ap)) = Inr (source_amount_usd tr)"
    by blast
  show ?thesis
    by (rule exI[of _ tr], rule exI[of _ "ap_usd ap"], rule exI[of _ al], rule exI[of _ ns])
      (use d al ns tr fresh(7) assms(3) in \<open>simp add: dlt_iff\<close>)
qed simp

theorem cross_transfer_records_witness:
  "\<exists>r s' tr. cross_run ''USD'' (Dec 100 0) = (Inr (r, False), s') \<and> transfers (db s') = [tr] \<and>
     tr_status tr = completed \<and> map recipient_account_number (notifications (db s')) = [''A'', ''B'']"
proof -
  obtain r s' where run: "cross_run ''USD'' (Dec 100 0) = (Inr (r, False), s')"
    using is_newD[OF cross_run_new] by blast
  have "transfers (db (open_session (cross_tables c))) = []" "notifications (db (open_session (cross_tables c))) = []" for c
    by (simp_all add: open_session_def cross_tables_def empty_tables_def)
  with cross_transfer_records[OF run[unfolded cross_run_def] cross_facts(1), unfolded cross_facts] run
  show ?thesis by auto
qed

lemma sum_quantize_exact:
  assumes "fits 28 4 a" "fits 28 4 b" "quantize r (- 4) (dadd a b) = Some q"
  shows "dval q = dval a + dval b"
proof -
  let ?c = "coeff a + coeff b"
  have e: "dexp a = - 4" "dexp b = - 4" "\<bar>coeff a\<bar> < 10 ^ 28" "\<bar>coeff b\<bar> < 10 ^ 28"
    using assms(1,2) by (simp_all add: fits_def)
  have d: "dadd a b = dfix (Dec ?c (- 4))"
    using e scaled_same[of a] scaled_same[of b] by (simp add: dadd_def Let_def)
  show ?thesis
  proof (cases "\<bar>?c\<bar> < 10 ^ 28")
    case True
    then have "dadd a b = Dec ?c (- 4)" by (simp add: d dfix_exact)
    then have "dval q = dval (Dec ?c (- 4))" using quantizeD(3)[OF assms(3)] rescale_exact[of "- 4"] by simp
    with e show ?thesis by (simp add: dval_def distrib_right)
  next
    case False
    obtain c' e' where f: "dadd a b = Dec c' e'" by (cases "dadd a b")
    have "\<bar>?c\<bar> < 10 ^ 29" using e by simp
    then have "10 ^ 28 \<le> \<bar>c' * 10 ^ nat (e' + 4)\<bar> \<and> - 4 \<le> e'"
      using False f dfix_large[of ?c "- 4"] d by simp
    then have "10 ^ 28 \<le> \<bar>coeff (rescale r (- 4) (dadd a b))\<bar>" by (simp add: f)
    with quantizeD(2,3)[OF assms(3)] have False by simp
    then show ?thesis ..
  qed
qed

text \<open>What the preview shows, in terms of the newest usable snapshot.\<close>

lemma previewed:
  assumes "preview_conversion x st c d amount s = (Inr p, s1)"
    "latest (List.filter (\<lambda>s. \<not> is_stale s) (fx_rate_snapshots (db s))) = Some cur"
    "snapshot_rate (fx_rates cur) c d = Inr rate" "calculate_amounts st amount rate = Inr am"
  shows "cv_exchange_rate p = rate \<and> cv_estimated_sending_fee p = am_sending_fee am \<and>
    cv_gross_converted_amount p = am_gross am \<and> cv_estimated_receiving_fee p = am_receiving_fee am \<and>
    cv_estimated_net_amount p = am_net am \<and> cv_total_sender_cost p = am_total_cost am"
proof -
  from assms(3) obtain tx where tx: "lookup2 (fx_rates cur) c d = Some tx" "decimal_or_raise tx = Inr rate"
    by (auto simp: snapshot_rate_def split: option.splits)
  show ?thesis
    using assms(1) calculate_amounts_InrD[OF assms(4)]
    by (auto simp: preview_conversion_def get_latest_snapshot_def get_active_currency_pairs_def op_Inr_iff assms(2) tx
        quantize_or_raise_Inr)
qed

text \<open>C6. A cross-currency transfer is approved only for the owner of the source account, between two active
  accounts, in the source account's currency and an active pair of currencies, at the rate of the newest
  usable snapshot; fees, gross and net amount and total cost are the products and sums they should be to
  within half a ten-thousandth, the source's balance covers the total, approving changes no table, and
  the amounts are those a preview shows while the stored snapshots are the same. A transfer is settled
  only with the amounts of its approval.\<close>

theorem approved_transfer_is_covered:
  assumes "approve x st req caller s = (Inr ap, s')"
  shows "db s' = db s \<and>
    find_account (cr_source_account_number req) (db s) = Some (ap_source ap) \<and>
    find_account (cr_destination_account_number req) (db s) = Some (ap_destination ap) \<and>
    acc_status (ap_source ap) = active \<and> acc_status (ap_destination ap) = active \<and>
    owner_id (ap_source ap) = caller \<and> currency (ap_source ap) = cr_source_currency req \<and>
    (\<exists>pair \<in> set (currency_pairs (db s)). is_active pair \<and> from_currency pair = cr_source_currency req \<and>
       to_currency pair = cr_destination_currency req) \<and>
    (\<exists>cur. latest (List.filter (\<lambda>s. \<not> is_stale s) (fx_rate_snapshots (db s))) = Some cur \<and>
       snapshot_rate (fx_rates cur) (cr_source_currency req) (cr_destination_currency req) = Inr (ap_rate ap) \<and>
       ap_snapshot_id ap = fx_id cur) \<and>
    (let am = ap_amounts ap; amount = cr_source_amount req; near = (\<lambda>v d. 2 * \<bar>dval v - dval d\<bar> \<le> 10 powi (- 4))
     in near (am_sending_fee am) (dmul amount (SENDING_FEE_PCT st)) \<and> near (am_gross am) (dmul amount (ap_rate ap)) \<and>
        near (am_receiving_fee am) (dmul (am_gross am) (RECEIVING_FEE_PCT st)) \<and>
        near (am_net am) (dsub (am_gross am) (am_receiving_fee am)) \<and>
        near (am_total_cost am) (dadd amount (am_sending_fee am)) \<and>
        dval (am_total_cost am) \<le> dval (balance (ap_source ap)) \<and>
        (\<forall>y s2 p s3. fx_rate_snapshots (db s2) = fx_rate_snapshots (db s) \<longrightarrow>
           preview_conversion y st (cr_source_currency req) (cr_destination_currency req) amount s2 = (Inr p, s3) \<longrightarrow>
           cv_exchange_rate p = ap_rate ap \<and> cv_estimated_sending_fee p = am_sending_fee am \<and>
           cv_gross_converted_amount p = am_gross am \<and> cv_estimated_receiving_fee p = am_receiving_fee am \<and>
           cv_estimated_net_amount p = am_net am \<and> cv_total_sender_cost p = am_total_cost am))"
proof -
  note a = approve_InrD[OF assms]
  then have c: "calculate_amounts st (cr_source_amount req) (ap_rate ap) = Inr (ap_amounts ap)" by (simp add: approval_def)
  note am = calculate_amounts_InrD[OF c, THEN quantize_error]
  from a obtain cur where cur: "latest (List.filter (\<lambda>s. \<not> is_stale s) (fx_rate_snapshots (db s))) = Some cur"
    "snapshot_rate (fx_rates cur) (cr_source_currency req) (cr_destination_currency req) = Inr (ap_rate ap)"
    "ap_snapshot_id ap = fx_id cur" by (auto simp: approval_def)
  have pair: "\<exists>pair \<in> set (currency_pairs (db s)). is_active pair \<and> from_currency pair = cr_source_currency req \<and>
       to_currency pair = cr_destination_currency req" using a by (auto simp: approval_def list_ex_iff)
  have "cv_exchange_rate p = ap_rate ap \<and> cv_estimated_sending_fee p = am_sending_fee (ap_amounts ap) \<and>
           cv_gross_converted_amount p = am_gross (ap_amounts ap) \<and> cv_estimated_receiving_fee p = am_receiving_fee (ap_amounts ap) \<and>
           cv_estimated_net_amount p = am_net (ap_amounts ap) \<and> cv_total_sender_cost p = am_total_cost (ap_amounts ap)"
    if "fx_rate_snapshots (db s2) = fx_rate_snapshots (db s)"
      "preview_conversion y st (cr_source_currency req) (cr_destination_currency req) (cr_source_amount req) s2 = (Inr p, s3)"
    for y s2 p s3
    by (rule previewed[OF that(2) _ cur(2) c]) (simp add: that(1) cur(1))
  with a am cur pair show ?thesis unfolding approval_def Let_def by (intro conjI) blast+
qed

text \<open>On the sample database that enforces the columns' widths.\<close>

definition sample_approval :: "(exn + approved) \<times> session" where
  "sample_approval = approve strict_env default_settings (cross_request (Dec 100 0)) ''alice''
     (open_session (cross_tables ''USD''))"

lemma sample_approval_succeeds: "succeeds sample_approval"
  by code_simp

theorem approved_transfer_is_covered_witness:
  "\<exists>ap s'. sample_approval = (Inr ap, s') \<and> owner_id (ap_source ap) = ''alice'' \<and>
     dval (am_total_cost (ap_amounts ap)) \<le> 1000"
proof -
  obtain ap s' where run: "sample_approval = (Inr ap, s')" using sample_approval_succeeds succeedsD by blast
  from approved_transfer_is_covered[OF run[unfolded sample_approval_def], unfolded cross_facts]
  have "owner_id (ap_source ap) = ''alice''" "ap_source ap = sample_account ''A'' ''alice'' ''EUR'' (Dec 10000000 (-4))"
    "dval (am_total_cost (ap_amounts ap)) \<le> dval (balance (ap_source ap))" by (simp_all add: Let_def)
  then have "owner_id (ap_source ap) = ''alice'' \<and> dval (am_total_cost (ap_amounts ap)) \<le> 1000"
    by (simp add: sample_account_def dval_Dec power_int_def power_divide)
  with run show ?thesis by blast
qed



text \<open>What the preview shows is what is charged: a transfer of the previewed amount and currencies that
  is approved while the stored rates are the previewed ones is made at the previewed rate with the
  previewed fees, gross and net amounts and total cost.\<close>

theorem preview_is_charged:
  assumes "preview_conversion x st (cr_source_currency req) (cr_destination_currency req) (cr_source_amount req) s = (Inr p, s1)"
    "initiate y st req caller key rid s2 = (Inr (r, False), s3)" "numeric_law y"
    "fx_rate_snapshots (db s2) = fx_rate_snapshots (db s)"
  shows "\<exists>am. calculate_amounts st (cr_source_amount req) (cv_exchange_rate p) = Inr am \<and>
    cv_estimated_sending_fee p = am_sending_fee am \<and> cv_gross_converted_amount p = am_gross am \<and>
    cv_estimated_receiving_fee p = am_receiving_fee am \<and> cv_estimated_net_amount p = am_net am \<and>
    cv_total_sender_cost p = am_total_cost am \<and>
    cc_gross_converted_amount r = cv_gross_converted_amount p \<and>
    cc_net_credited_amount r = cv_estimated_net_amount p"
  using assms(2)
proof (cases rule: initiate_InrD)
  case (fresh ap tr)
  from fresh(3) obtain cur where c: "latest (List.filter (\<lambda>s. \<not> is_stale s) (fx_rate_snapshots (db s))) = Some cur"
    "snapshot_rate (fx_rates cur) (cr_source_currency req) (cr_destination_currency req) = Inr (ap_rate ap)"
    "calculate_amounts st (cr_source_amount req) (ap_rate ap) = Inr (ap_amounts ap)"
    by (auto simp: approval_def assms(4))
  note am = calculate_amounts_InrD[OF c(3)]
  have p: "cv_exchange_rate p = ap_rate ap" "cv_estimated_sending_fee p = am_sending_fee (ap_amounts ap)"
    "cv_gross_converted_amount p = am_gross (ap_amounts ap)" "cv_estimated_receiving_fee p = am_receiving_fee (ap_amounts ap)"
    "cv_estimated_net_amount p = am_net (ap_amounts ap)" "cv_total_sender_cost p = am_total_cost (ap_amounts ap)"
    using previewed[OF assms(1) c] by simp_all
  have "put_numeric y 19 4 (am_net (ap_amounts ap)) = Inr (destination_amount tr)"
    using fresh(5) unfolding settled_def by blast
  from stored_quantized(1)[OF assms(3) am(4) this] have "destination_amount tr = am_net (ap_amounts ap)" .
  moreover have "cc_gross_converted_amount r = am_gross (ap_amounts ap)" "cc_net_credited_amount r = destination_amount tr"
    using fresh(6) by (auto simp: to_response_def rbind_Inr_iff)
  ultimately show ?thesis using c(3) p by (intro exI[of _ "ap_amounts ap"]) simp
qed simp

theorem preview_is_charged_witness:
  "\<exists>p s1 r s3. preview_conversion lenient_env default_settings ''EUR'' ''USD'' (Dec 100 0)
       (open_session (cross_tables ''USD'')) = (Inr p, s1) \<and>
     cross_run ''USD'' (Dec 100 0) = (Inr (r, False), s3) \<and>
     cc_net_credited_amount r = cv_estimated_net_amount p"
proof -
  obtain r s3 where run: "cross_run ''USD'' (Dec 100 0) = (Inr (r, False), s3)"
    using is_newD[OF cross_run_new] by blast
  have "succeeds (preview_conversion lenient_env default_settings ''EUR'' ''USD'' (Dec 100 0) (open_session (cross_tables ''USD'')))"
    by code_simp
  then obtain p s1 where p: "preview_conversion lenient_env default_settings ''EUR'' ''USD'' (Dec 100 0)
       (open_session (cross_tables ''USD'')) = (Inr p, s1)" using succeedsD by blast
  from preview_is_charged[where req = "cross_request (Dec 100 0)", unfolded cross_facts,
      OF p run[unfolded cross_run_def] sample_numeric_law(1) refl] p run
  show ?thesis by blast
qed

text \<open>On a database that enforces the declared length of \<open>audit_log.operation_type\<close>, 30 characters, no
  cross-currency transfer can be made: the only successful answers are replays.\<close>

theorem strict_database_refuses:
  assumes "\<And>t. 30 < length t \<Longrightarrow> string_exn x 30 t \<noteq> None"
    "initiate x st req caller key rid s = (Inr (r, replay), s')"
  shows "replay \<and> db s' = db s"
  using assms(2)
proof (cases rule: initiate_InrD)
  case (fresh ap tr)
  with assms(1)[of "operation_type_value cross_currency_transfer_initiated"] show ?thesis by simp
qed simp

theorem strict_database_refuses_witness:
  "\<exists>e s'. initiate strict_env default_settings (cross_request (Dec 100 0)) ''alice'' ''key-1'' None
     (open_session (cross_tables ''USD'')) = (Inl e, s') \<and> db s' = cross_tables ''USD''"
proof (cases "initiate strict_env default_settings (cross_request (Dec 100 0)) ''alice'' ''key-1'' None
     (open_session (cross_tables ''USD''))")
  case (Pair v s')
  show ?thesis
  proof (cases v)
    case (Inl e)
    then have "db s' = db (open_session (cross_tables ''USD''))" using Pair atomicD[OF atomic_initiate] by blast
    with Inl Pair show ?thesis by (simp add: open_session_def)
  next
    case (Inr a)
    obtain r replay where a: "a = (r, replay)" by (cases a)
    have "string_exn strict_env 30 t \<noteq> None" if "30 < length t" for t using that by (simp add: strict_env_def)
    from strict_database_refuses[OF this Pair[unfolded Inr a]] have "replay" by simp
    have nk: "find_by_key ''key-1'' (db (open_session (cross_tables ''USD''))) = None"
      by (simp add: open_session_def cross_tables_def empty_tables_def find_by_key_def)
    from Pair[unfolded Inr a] have False
      by (cases rule: initiate_InrD) (use nk \<open>replay\<close> in simp_all)
    then show ?thesis ..
  qed
qed

text \<open>What a run leaves in the accounts.\<close>

definition balances_after :: "(exn + 'a \<times> bool) \<times> session \<Rightarrow> bool \<times> (string \<times> string \<times> decimal) list" where
  "balances_after r = (is_new r, map (\<lambda>a. (account_number a, currency a, balance a)) (accounts (db (snd r))))"

text \<open>The request model accepts an amount that is not positive, and then the transfer runs backwards: a
  transfer of minus 10 EUR from Alice to Bob succeeds, leaves Alice with 10.05 EUR more than the 1000 EUR
  she had, and Bob with -5.8174 USD instead of the 5 USD he had.\<close>

theorem negative_amount_takes_from_destination:
  "\<exists>r s'. cross_run ''USD'' (Dec (- 10) 0) = (Inr (r, False), s') \<and>
     balance_of ''A'' (db s') = 101005 / 100 \<and> balance_of ''B'' (db s') = - 58174 / 10000"
proof -
  have b: "balances_after (cross_run ''USD'' (Dec (- 10) 0)) =
    (True, [(''A'', ''EUR'', Dec 10100500 (-4)), (''B'', ''USD'', Dec (-58174) (-4))])" by code_simp
  then have "is_new (cross_run ''USD'' (Dec (- 10) 0))" by (simp add: balances_after_def)
  then obtain r s' where run: "cross_run ''USD'' (Dec (- 10) 0) = (Inr (r, False), s')" using is_newD by blast
  from b show ?thesis
    by (auto simp: run balances_after_def balance_of_def find_account_def dval_Dec power_int_def power_divide
        split: option.splits)
qed

text \<open>The destination account's currency is not compared with the request's: a transfer of 100 EUR asked
  for in USD to an account held in CHF adds the USD amount, 108.1745, to the CHF balance.\<close>

theorem destination_currency_unchecked:
  "\<exists>r s'. cross_run ''CHF'' (Dec 100 0) = (Inr (r, False), s') \<and>
     holdings ''CHF'' (db s') = holdings ''CHF'' (cross_tables ''CHF'') + 1081745 / 10000 \<and> holdings ''USD'' (db s') = 0"
proof -
  have b: "balances_after (cross_run ''CHF'' (Dec 100 0)) =
    (True, [(''A'', ''EUR'', Dec 8995000 (-4)), (''B'', ''CHF'', Dec 1131745 (-4))])" by code_simp
  then have "is_new (cross_run ''CHF'' (Dec 100 0))" by (simp add: balances_after_def)
  then obtain r s' where run: "cross_run ''CHF'' (Dec 100 0) = (Inr (r, False), s')" using is_newD by blast
  from b obtain a c where "accounts (db s') = [a, c]" "currency a = ''EUR''" "currency c = ''CHF''"
    "balance c = Dec 1131745 (-4)" by (auto simp: run balances_after_def)
  then show ?thesis
    by (simp add: run holdings_def cross_tables_def empty_tables_def sample_account_def dval_Dec power_int_def power_divide)
qed

end
