(* ===== verification/Api.thy ===== *)
theory Api
  imports Settlement
begin

text \<open>
  The HTTP layer: \<open>api/v1/*.py\<close>, the start-up of \<open>main.py\<close>, and the answer each request gets.
  Routing, header parsing and JSON rendering belong to the framework; a request is a value of
  \<open>api_request\<close> with the caller's credentials and the optional request id.
\<close>

section \<open>Handlers\<close>

text \<open>The two status codes and headers of the transfer endpoints.\<close>

record http_meta =
  hm_status :: nat
  hm_replay :: string
  hm_request_id :: "string option"

definition transfer_meta :: "bool \<Rightarrow> string option \<Rightarrow> http_meta" where
  "transfer_meta is_replay rid =
     \<lparr>hm_status = (if is_replay then 200 else 201),
      hm_replay = (if is_replay then ''true'' else ''false''),
      hm_request_id = (case rid of Some i \<Rightarrow> if i = '''' then None else Some i | None \<Rightarrow> None)\<rparr>"

definition check_transfer_capacity :: "ext \<Rightarrow> unit op" where
  "check_transfer_capacity x =
     sbind (db_query x (\<lambda>t. length (List.filter (\<lambda>r. tr_status r \<in> {pending, processing}) (transfers t))))
     (\<lambda>count. sraise_if (500 \<le> count)
        (fail CapacityExceededError ''System at maximum transfer capacity; retry shortly.''))"

definition api_create_account ::
  "ext \<Rightarrow> exchange_rate_config \<Rightarrow> claims \<Rightarrow> string option \<Rightarrow> create_account_request \<Rightarrow> account_response op" where
  "api_create_account x cfg c rid req = create_account x cfg req (actor_of c) rid"

definition api_get_account :: "ext \<Rightarrow> claims \<Rightarrow> string \<Rightarrow> account_response op" where
  "api_get_account x c n = get_account x n (actor_of c) c"

definition api_delete_account :: "ext \<Rightarrow> claims \<Rightarrow> string option \<Rightarrow> string \<Rightarrow> unit op" where
  "api_delete_account x c rid n = delete_account x n (actor_of c) c rid"

definition api_create_transfer ::
  "ext \<Rightarrow> exchange_rate_config \<Rightarrow> claims \<Rightarrow> string option \<Rightarrow> string \<Rightarrow> create_transfer_request \<Rightarrow>
   (transfer_response \<times> http_meta) op" where
  "api_create_transfer x cfg c rid key req =
     sbind (execute_transfer x cfg req (actor_of c) key rid) (\<lambda>(r, is_replay).
     sret (r, transfer_meta is_replay rid))"

definition api_create_cross_currency_transfer ::
  "ext \<Rightarrow> settings \<Rightarrow> claims \<Rightarrow> string option \<Rightarrow> string \<Rightarrow> cross_currency_request \<Rightarrow>
   (cross_currency_response \<times> http_meta) op" where
  "api_create_cross_currency_transfer x st c rid key req =
     sthen (check_transfer_capacity x)
    (sbind (initiate x st req (actor_of c) key rid) (\<lambda>(r, is_replay).
     sret (r, transfer_meta is_replay rid)))"

definition api_get_transfer_status :: "ext \<Rightarrow> claims \<Rightarrow> uuid \<Rightarrow> cross_currency_response op" where
  "api_get_transfer_status x c i = get_status x i (actor_of c)"

text \<open>The age the gauge is set to after a rate answer, in microseconds.\<close>

definition snapshot_age :: "time \<Rightarrow> time \<Rightarrow> time" where
  "snapshot_age now eff = max (now - eff) 0"

definition api_get_rate_table :: "ext \<Rightarrow> (rate_table_response \<times> time) op" where
  "api_get_rate_table x =
     sbind (get_rate_table x) (\<lambda>r. sbind (draw (utcnow x)) (\<lambda>now.
     sret (r, snapshot_age now (rt_effective_at r))))"

definition api_preview_conversion ::
  "ext \<Rightarrow> settings \<Rightarrow> string \<Rightarrow> string \<Rightarrow> decimal \<Rightarrow> (conversion_preview \<times> time) op" where
  "api_preview_conversion x st a b amount =
     sbind (preview_conversion x st a b amount) (\<lambda>r. sbind (draw (utcnow x)) (\<lambda>now.
     sret (r, snapshot_age now (cv_effective_at r))))"

definition api_list_notifications :: "ext \<Rightarrow> claims \<Rightarrow> string \<Rightarrow> bool \<Rightarrow> notification list op" where
  "api_list_notifications x c n unread_only = service_list_for_account x n unread_only"

definition api_mark_notification_read :: "ext \<Rightarrow> claims \<Rightarrow> uuid \<Rightarrow> string \<Rightarrow> notification op" where
  "api_mark_notification_read x c i n = transaction x (service_mark_read x i n)"

section \<open>Requests\<close>

datatype api_request =
    CreateAccount string string decimal
  | GetAccount string
  | DeleteAccount string
  | CreateTransfer string string string decimal
  | CreateCrossCurrencyTransfer string cross_currency_request
  | GetTransferStatus uuid
  | GetRateTable
  | PreviewConversion string string decimal
  | ListNotifications string bool
  | MarkNotificationRead uuid string

datatype api_response =
    AccountBody nat account_response
  | NoContent
  | TransferBody transfer_response http_meta
  | CrossCurrencyBody cross_currency_response http_meta
  | StatusBody cross_currency_response
  | RateTableBody rate_table_response
  | PreviewBody conversion_preview
  | NotificationsBody "notification list"
  | NotificationBody notification

definition valid_key :: "string \<Rightarrow> (exn, unit) res" where
  "valid_key k = (if 1 \<le> length k \<and> length k \<le> 255 then Inr () else Inl (ValueError ''X-Idempotency-Key''))"

text \<open>
  One request: authenticate, validate the body, run the handler.
\<close>

definition dispatch ::
  "ext \<Rightarrow> settings \<Rightarrow> exchange_rate_config \<Rightarrow> (string \<Rightarrow> (exn, claims) res) \<Rightarrow>
   string option \<Rightarrow> string option \<Rightarrow> api_request \<Rightarrow> api_response op" where
  "dispatch x st cfg validate credentials rid req =
     sbind (slift (get_current_user validate credentials)) (\<lambda>c.
     case req of
       CreateAccount owner cur bal \<Rightarrow>
         sbind (slift (validate_create_account owner cur bal)) (\<lambda>r.
         sbind (api_create_account x cfg c rid r) (\<lambda>a. sret (AccountBody 201 a)))
     | GetAccount n \<Rightarrow> sbind (api_get_account x c n) (\<lambda>a. sret (AccountBody 200 a))
     | DeleteAccount n \<Rightarrow> sthen (api_delete_account x c rid n) (sret NoContent)
     | CreateTransfer key src dst amt \<Rightarrow>
         sthen (slift (valid_key key))
        (sbind (slift (validate_create_transfer src dst amt)) (\<lambda>r.
         sbind (api_create_transfer x cfg c rid key r) (\<lambda>(b, m). sret (TransferBody b m))))
     | CreateCrossCurrencyTransfer key r \<Rightarrow>
         sthen (slift (valid_key key))
        (sbind (api_create_cross_currency_transfer x st c rid key r) (\<lambda>(b, m). sret (CrossCurrencyBody b m)))
     | GetTransferStatus i \<Rightarrow> sbind (api_get_transfer_status x c i) (\<lambda>r. sret (StatusBody r))
     | GetRateTable \<Rightarrow> sbind (api_get_rate_table x) (\<lambda>(r, _). sret (RateTableBody r))
     | PreviewConversion a b amt \<Rightarrow> sbind (api_preview_conversion x st a b amt) (\<lambda>(r, _). sret (PreviewBody r))
     | ListNotifications n u \<Rightarrow> sbind (api_list_notifications x c n u) (\<lambda>ns. sret (NotificationsBody ns))
     | MarkNotificationRead i n \<Rightarrow> sbind (api_mark_notification_read x c i n) (\<lambda>r. sret (NotificationBody r)))"

section \<open>Start-up\<close>

definition seed_pairs :: "(string \<times> string) list" where
  "seed_pairs =
     [(''EUR'', ''USD''), (''USD'', ''EUR''), (''EUR'', ''GBP''), (''GBP'', ''EUR''),
      (''USD'', ''GBP''), (''GBP'', ''USD''), (''EUR'', ''CHF''), (''CHF'', ''EUR'')]"

fun draw_pairs :: "ext \<Rightarrow> (string \<times> string) list \<Rightarrow> (time \<Rightarrow> currency_pair) list op" where
  "draw_pairs x [] = sret []"
| "draw_pairs x ((a, b) # ps) =
     sbind (draw (uuid4 x)) (\<lambda>i. sbind (draw_pairs x ps) (\<lambda>rows.
     sret ((\<lambda>now. \<lparr>cp_id = i, from_currency = a, to_currency = b, is_active = True, cp_created_at = now\<rparr>) # rows)))"

fun insert_pairs :: "ext \<Rightarrow> time \<Rightarrow> (time \<Rightarrow> currency_pair) list \<Rightarrow> tables \<Rightarrow> (exn, tables) res" where
  "insert_pairs x now [] t = Inr t"
| "insert_pairs x now (r # rs) t = rbind (insert_currency_pair x (r now) t) (insert_pairs x now rs)"

text \<open>The rows added in the block are flushed when it commits.\<close>

definition seed_currency_pairs :: "ext \<Rightarrow> unit op" where
  "seed_currency_pairs x =
     sbind (db_query x (\<lambda>t. currency_pairs t \<noteq> [])) (\<lambda>seeded.
     if seeded then sret ()
     else transaction x
       (sbind (draw_pairs x seed_pairs) (\<lambda>rows. db_flush x (\<lambda>now. insert_pairs x now rows))))"

text \<open>
  \<open>lifespan\<close>: the treasury feed is refreshed once (a failure is swallowed), the pairs are seeded
  (a failure is swallowed too); the static provider needs neither.
\<close>

definition startup_provider :: "settings \<Rightarrow> feed \<Rightarrow> (nat \<Rightarrow> time) \<Rightarrow> treasury_feed option" where
  "startup_provider st f clock =
     (if USE_STATIC_RATES st then None else Some (do_refresh f clock init_treasury_feed))"

definition startup :: "ext \<Rightarrow> session \<Rightarrow> session" where
  "startup x s = snd (seed_currency_pairs x s)"

section \<open>Failures leave the tables alone\<close>

lemmas atomic_heads = atomic_sbind_readonly[OF readonly_basic(3)] atomic_sthen_readonly[OF readonly_basic(3)]
  atomic_sbind_readonly[OF readonly_basic(8)]

lemma readonly_capacity [op_intros]: "readonly (check_transfer_capacity x)"
  unfolding check_transfer_capacity_def by (intro op_intros)

lemma atomic_api [op_intros]:
  "atomic (api_create_account x cfg c rid r)" "atomic (api_get_account x c n)"
  "atomic (api_delete_account x c rid n)" "atomic (api_create_transfer x cfg c rid key q)"
  "atomic (api_create_cross_currency_transfer x st c rid key q')"
  "atomic (api_get_transfer_status x c i)" "atomic (api_get_rate_table x)"
  "atomic (api_preview_conversion x st a b amt)" "atomic (api_list_notifications x c n u)"
  "atomic (api_mark_notification_read x c i n)"
  unfolding api_create_account_def api_get_account_def api_delete_account_def api_create_transfer_def
    api_create_cross_currency_transfer_def api_get_transfer_status_def api_get_rate_table_def
    api_preview_conversion_def api_list_notifications_def api_mark_notification_read_def
    service_list_for_account_def list_for_account_def
  by (intro atomic_sthen_readonly[OF readonly_capacity] op_intros atomic_sbind_total)+

lemma atomic_dispatch: "atomic (dispatch x st cfg validate cred rid req)"
  unfolding dispatch_def sthen_def
  by (cases req; simp) (intro atomic_heads op_intros atomic_sbind_total)+

section \<open>A service as a ledger\<close>

text \<open>
  What the users of a stateful service rely on when requests follow one another: a served request keeps
  the invariant of the data, a refused one leaves the data alone. \<open>serve_all\<close> runs a list of requests,
  whatever their answers.
\<close>

fun serve_all :: "('r \<Rightarrow> 's \<Rightarrow> 'x \<times> 's) \<Rightarrow> 'r list \<Rightarrow> 's \<Rightarrow> 's" where
  "serve_all step [] s = s"
| "serve_all step (r # rs) s = serve_all step rs (snd (step r s))"

locale ledger =
  fixes step :: "'r \<Rightarrow> 's \<Rightarrow> ('e + 'a) \<times> 's"
    and data :: "'s \<Rightarrow> 'd"
    and I :: "'d \<Rightarrow> bool"
  assumes served: "step r s = (Inr a, s') \<Longrightarrow> I (data s) \<Longrightarrow> I (data s')"
    and refused: "step r s = (Inl e, s') \<Longrightarrow> data s' = data s"
begin

lemma step_keeps: "I (data s) \<Longrightarrow> I (data (snd (step r s)))"
proof (cases "step r s")
  case (Pair v s')
  assume "I (data s)"
  with Pair served refused show ?thesis by (cases v) auto
qed

lemma serve_keeps: "I (data s) \<Longrightarrow> I (data (serve_all step rs s))"
  by (induction rs arbitrary: s) (simp_all add: step_keeps)

text \<open>A run in which every request is refused changes nothing.\<close>

lemma refused_run:
  "(\<And>r t. r \<in> set rs \<Longrightarrow> \<exists>e t'. step r t = (Inl e, t')) \<Longrightarrow> data (serve_all step rs s) = data s"
proof (induction rs arbitrary: s)
  case (Cons r rs)
  from Cons.prems[of r s] obtain e t where "step r s = (Inl e, t)" by auto
  moreover from this have "data t = data s" by (rule refused)
  ultimately show ?case using Cons.IH[of t] Cons.prems by simp
qed simp

end

section \<open>Every request keeps the invariant of the tables\<close>

lemma mark_read_inv:
  assumes "repo_mark_read x i n s = (Inr r, s')" "ledger_inv (db s)"
  shows "ledger_inv (db s')"
  using assms(1)
proof (rule mark_read_db)
  fix nt now
  assume d: "db s' = (db s)\<lparr>notifications := update_rows (\<lambda>r. nt_id r = i) (\<lambda>r. r\<lparr>read_at := Some now\<rparr>) (notifications (db s))\<rparr>"
  show ?thesis unfolding d using assms(2)
    by (intro ledger_inv_notifications list_all_update_rows) (simp_all add: ledger_inv_def)
qed

text \<open>The kept invariant of the tables, under what the environment promises of numeric columns.\<close>

lemma readonly_requests:
  "readonly (api_get_account x c n)" "readonly (api_get_transfer_status x c i)"
  "readonly (api_get_rate_table x)" "readonly (api_preview_conversion x st a b amt)"
  "readonly (api_list_notifications x c n u)"
  unfolding api_get_account_def api_get_transfer_status_def api_get_rate_table_def api_preview_conversion_def
    api_list_notifications_def service_list_for_account_def list_for_account_def get_account_def
  by (intro op_intros)+

lemma api_create_account_inv:
  "api_create_account x cfg c rid r s = (Inr a, s') \<Longrightarrow> numeric_law x \<Longrightarrow> ledger_inv (db s) \<Longrightarrow> ledger_inv (db s')"
  unfolding api_create_account_def by (rule create_account_inv)

lemma api_delete_account_inv:
  "api_delete_account x c rid n s = (Inr a, s') \<Longrightarrow> ledger_inv (db s) \<Longrightarrow> ledger_inv (db s')"
  unfolding api_delete_account_def by (rule delete_account_inv)

lemma api_create_transfer_inv:
  "api_create_transfer x cfg c rid key r s = (Inr a, s') \<Longrightarrow> numeric_law x \<Longrightarrow> ledger_inv (db s) \<Longrightarrow> ledger_inv (db s')"
  unfolding api_create_transfer_def sbind_Inr_iff by (auto dest: execute_transfer_inv)

lemma api_create_cross_currency_transfer_inv:
  assumes "api_create_cross_currency_transfer x st c rid key r s = (Inr a, s')" "numeric_law x" "ledger_inv (db s)"
  shows "ledger_inv (db s')"
proof -
  from assms(1) obtain u s1 p b where "check_transfer_capacity x s = (Inr u, s1)"
    "initiate x st r (actor_of c) key rid s1 = (Inr (p, b), s')"
    unfolding api_create_cross_currency_transfer_def sbind_Inr_iff sthen_Inr_iff by auto
  then show ?thesis using initiate_inv[of x st r "actor_of c" key rid s1 p b s'] assms(2,3)
    readonlyD[OF readonly_capacity, of x s "Inr u" s1] by simp
qed

lemma api_mark_inv:
  assumes "api_mark_notification_read x c i n s = (Inr a, s')" "ledger_inv (db s)"
  shows "ledger_inv (db s')"
proof -
  from transaction_InrD[OF assms(1)[unfolded api_mark_notification_read_def]] obtain s1
    where "service_mark_read x i n (s\<lparr>in_tx := True\<rparr>) = (Inr a, s1)" "db s' = db s1" by auto
  then show ?thesis using mark_read_inv[of x i n "s\<lparr>in_tx := True\<rparr>" a s1] assms(2)
    by (simp add: service_mark_read_def)
qed

text \<open>A condition on the tables that the five changing handlers keep is kept by every request.\<close>

lemma dispatch_keeps:
  assumes run: "dispatch x st cfg validate cred rid req s = (Inr a, s')" and inv: "P (db s)"
    and create: "\<And>c r b t t'. api_create_account x cfg c rid r t = (Inr b, t') \<Longrightarrow> P (db t) \<Longrightarrow> P (db t')"
    and delete: "\<And>c n b t t'. api_delete_account x c rid n t = (Inr b, t') \<Longrightarrow> P (db t) \<Longrightarrow> P (db t')"
    and plain: "\<And>c key r b t t'. api_create_transfer x cfg c rid key r t = (Inr b, t') \<Longrightarrow> P (db t) \<Longrightarrow> P (db t')"
    and cross: "\<And>c key r b t t'. api_create_cross_currency_transfer x st c rid key r t = (Inr b, t') \<Longrightarrow> P (db t) \<Longrightarrow> P (db t')"
    and mark: "\<And>c i n b t t'. api_mark_notification_read x c i n t = (Inr b, t') \<Longrightarrow> P (db t) \<Longrightarrow> P (db t')"
  shows "P (db s')"
proof -
  from run obtain c where *: "(case req of
       CreateAccount owner cur bal \<Rightarrow>
         sbind (slift (validate_create_account owner cur bal)) (\<lambda>r.
         sbind (api_create_account x cfg c rid r) (\<lambda>a. sret (AccountBody 201 a)))
     | GetAccount n \<Rightarrow> sbind (api_get_account x c n) (\<lambda>a. sret (AccountBody 200 a))
     | DeleteAccount n \<Rightarrow> sthen (api_delete_account x c rid n) (sret NoContent)
     | CreateTransfer key src dst amt \<Rightarrow>
         sthen (slift (valid_key key))
        (sbind (slift (validate_create_transfer src dst amt)) (\<lambda>r.
         sbind (api_create_transfer x cfg c rid key r) (\<lambda>(b, m). sret (TransferBody b m))))
     | CreateCrossCurrencyTransfer key r \<Rightarrow>
         sthen (slift (valid_key key))
        (sbind (api_create_cross_currency_transfer x st c rid key r) (\<lambda>(b, m). sret (CrossCurrencyBody b m)))
     | GetTransferStatus i \<Rightarrow> sbind (api_get_transfer_status x c i) (\<lambda>r. sret (StatusBody r))
     | GetRateTable \<Rightarrow> sbind (api_get_rate_table x) (\<lambda>(r, _). sret (RateTableBody r))
     | PreviewConversion a b amt \<Rightarrow> sbind (api_preview_conversion x st a b amt) (\<lambda>(r, _). sret (PreviewBody r))
     | ListNotifications n u \<Rightarrow> sbind (api_list_notifications x c n u) (\<lambda>ns. sret (NotificationsBody ns))
     | MarkNotificationRead i n \<Rightarrow> sbind (api_mark_notification_read x c i n) (\<lambda>r. sret (NotificationBody r))) s = (Inr a, s')"
    unfolding dispatch_def sbind_Inr_iff[of "slift _"] by auto
  show ?thesis
    using * inv
    by (cases req)
      (auto simp: sbind_Inr_iff sthen_Inr_iff split_def
        dest: readonlyD[OF readonly_requests(1)] readonlyD[OF readonly_requests(2)]
          readonlyD[OF readonly_requests(3)] readonlyD[OF readonly_requests(4)]
          readonlyD[OF readonly_requests(5)] create delete plain cross mark)
qed

lemma dispatch_inv:
  assumes "dispatch x st cfg validate cred rid req s = (Inr a, s')" "numeric_law x" "ledger_inv (db s)"
  shows "ledger_inv (db s')"
  by (rule dispatch_keeps[where P = ledger_inv, OF assms(1,3)])
    (use assms(2) in \<open>blast intro: api_create_account_inv api_delete_account_inv api_create_transfer_inv
      api_create_cross_currency_transfer_inv api_mark_inv\<close>)+

text \<open>
  A request to the running service: its credentials, its request id and its content, served on a session
  of its own, which has no transaction yet.
\<close>

definition serve ::
  "ext \<Rightarrow> settings \<Rightarrow> exchange_rate_config \<Rightarrow> (string \<Rightarrow> (exn, claims) res) \<Rightarrow>
   string option \<times> string option \<times> api_request \<Rightarrow> api_response op" where
  "serve x st cfg validate r s =
     (case r of (cred, rid, req) \<Rightarrow> dispatch x st cfg validate cred rid req (s\<lparr>in_tx := False\<rparr>))"

interpretation api: ledger "serve x st cfg validate" db "\<lambda>t. numeric_law x \<longrightarrow> ledger_inv t"
  for x st cfg validate
proof unfold_locales
  fix r s a s'
  assume "serve x st cfg validate r s = (Inr a, s')" "numeric_law x \<longrightarrow> ledger_inv (db s)"
  then show "numeric_law x \<longrightarrow> ledger_inv (db s')"
    by (auto simp: serve_def split_def dest: dispatch_inv)
next
  fix r s e s'
  assume "serve x st cfg validate r s = (Inl e, s')"
  then show "db s' = db s" by (auto simp: serve_def split_def dest: atomicD[OF atomic_dispatch])
qed

section \<open>What a run of requests guarantees\<close>


definition sample_token :: "string \<Rightarrow> (exn, claims) res" where
  "sample_token t = Inr [(''sub'', t)]"

definition sample_request :: "string \<Rightarrow> string option \<times> string option \<times> api_request" where
  "sample_request amount =
     (Some ''alice'', None, CreateTransfer ''key-1'' ''A'' ''C'' (if amount = ''small'' then Dec 125 (-1) else Dec 1000000 0))"

definition sample_serve :: "string \<Rightarrow> (exn + api_response) \<times> session" where
  "sample_serve amount =
     serve strict_env default_settings sample_rates sample_token (sample_request amount) (open_session sample_tables)"

definition refused_run :: "(exn + 'a) \<times> session \<Rightarrow> bool" where
  "refused_run r = (case r of (Inl _, _) \<Rightarrow> True | _ \<Rightarrow> False)"


text \<open>C2. Whatever requests the service is sent, in whatever order and however they end, the tables stay
  well formed: account numbers and ids are unique, every balance fits its column, a closed account is
  empty, transfer ids and idempotency keys are unique, and every notification belongs to a stored
  transfer.\<close>

theorem ledger_always_well_formed:
  assumes "numeric_law x" "ledger_inv (db s)"
  shows "ledger_inv (db (serve_all (serve x st cfg validate) rs s))"
  using api.serve_keeps[of x s st cfg validate rs] assms by blast

theorem ledger_always_well_formed_witness:
  "ledger_inv (db (serve_all (serve strict_env default_settings sample_rates sample_token)
     [sample_request ''small'', sample_request ''large''] (open_session sample_tables)))"
  by (rule ledger_always_well_formed) (simp_all add: open_session_def sample_inv)

text \<open>No committed transfer is open: both services finish a transfer in the transaction that writes it.\<close>

definition no_open_transfer :: "tables \<Rightarrow> bool" where
  "no_open_transfer t \<longleftrightarrow> list_all (\<lambda>r. tr_status r = completed) (transfers t)"

lemma api_create_account_open:
  "api_create_account x cfg c rid r s = (Inr a, s') \<Longrightarrow> no_open_transfer (db s) \<Longrightarrow> no_open_transfer (db s')"
  unfolding api_create_account_def by (erule create_account_InrD) (simp add: no_open_transfer_def)

lemma api_delete_account_open:
  "api_delete_account x c rid n s = (Inr a, s') \<Longrightarrow> no_open_transfer (db s) \<Longrightarrow> no_open_transfer (db s')"
  unfolding api_delete_account_def by (erule delete_account_InrD) (simp add: no_open_transfer_def)

lemma api_create_transfer_open:
  assumes "api_create_transfer x cfg c rid key r s = (Inr a, s')" "no_open_transfer (db s)"
  shows "no_open_transfer (db s')"
proof -
  from assms(1) obtain p b where "execute_transfer x cfg r (actor_of c) key rid s = (Inr (p, b), s')"
    unfolding api_create_transfer_def sbind_Inr_iff by auto
  then show ?thesis
  proof (cases rule: execute_transfer_InrD)
    case (fresh tr s0 s1)
    from fresh(4) have "transfers (db s1) = transfers (db s0) @ [tr]" "tr_status tr = completed"
      by (auto elim!: transfer_block_InrD)
    with assms(2) fresh show ?thesis by (simp add: no_open_transfer_def)
  qed (use assms(2) in simp)
qed

lemma api_create_cross_currency_transfer_open:
  assumes "api_create_cross_currency_transfer x st c rid key r s = (Inr a, s')" "no_open_transfer (db s)"
  shows "no_open_transfer (db s')"
proof -
  from assms(1) obtain u s1 p b where c: "check_transfer_capacity x s = (Inr u, s1)"
    and i: "initiate x st r (actor_of c) key rid s1 = (Inr (p, b), s')"
    unfolding api_create_cross_currency_transfer_def sbind_Inr_iff sthen_Inr_iff by auto
  have "no_open_transfer (db s1)" using assms(2) readonlyD[OF readonly_capacity c] by simp
  from i show ?thesis
  proof (cases rule: initiate_InrD)
    case (fresh ap tr)
    then show ?thesis using \<open>no_open_transfer (db s1)\<close> by (auto simp: settled_def no_open_transfer_def)
  qed (use \<open>no_open_transfer (db s1)\<close> in simp)
qed

lemma api_mark_open:
  assumes "api_mark_notification_read x c i n s = (Inr a, s')" "no_open_transfer (db s)"
  shows "no_open_transfer (db s')"
proof -
  from transaction_InrD[OF assms(1)[unfolded api_mark_notification_read_def]] obtain s1
    where "repo_mark_read x i n (s\<lparr>in_tx := True\<rparr>) = (Inr a, s1)" "db s' = db s1"
    by (auto simp: service_mark_read_def)
  then show ?thesis using assms(2) by (auto simp: no_open_transfer_def elim!: mark_read_db)
qed

interpretation settled: ledger "serve x st cfg validate" db no_open_transfer for x st cfg validate
proof unfold_locales
  fix r s a s'
  assume run: "serve x st cfg validate r s = (Inr a, s')" and inv: "no_open_transfer (db s)"
  obtain cred rid req where r: "r = (cred, rid, req)" by (cases r) auto
  show "no_open_transfer (db s')"
    by (rule dispatch_keeps[where P = no_open_transfer and s = "s\<lparr>in_tx := False\<rparr>"])
      (use run inv r in \<open>auto simp: serve_def intro: api_create_account_open api_delete_account_open
        api_create_transfer_open api_create_cross_currency_transfer_open api_mark_open\<close>)
qed (rule api.refused)

text \<open>The capacity guard never refuses: since no transfer is ever stored as pending or processing, the count it
  compares with 500 is 0 after any run of requests, and the only error it can raise is a database failure.\<close>

theorem capacity_guard_never_refuses:
  assumes "no_open_transfer (db s)"
    and "check_transfer_capacity x (serve_all (serve x st cfg validate) rs s) = (Inl e, s')"
  shows "db_fails x (tick (serve_all (serve x st cfg validate) rs s)) = Some e"
proof -
  let ?t = "serve_all (serve x st cfg validate) rs s"
  have "no_open_transfer (db ?t)" by (rule settled.serve_keeps[OF assms(1)])
  then have "List.filter (\<lambda>r. tr_status r \<in> {pending, processing}) (transfers (db ?t)) = []"
    by (auto simp: no_open_transfer_def list_all_iff filter_empty_conv)
  with assms(2) show ?thesis
    by (auto simp: check_transfer_capacity_def db_query_def db_call_def svc_defs split: option.splits)
qed

definition failing_env :: ext where
  "failing_env = strict_env\<lparr>db_fails := (\<lambda>n. Some (DbError ''OperationalError'' ''connection lost''))\<rparr>"

theorem capacity_guard_never_refuses_witness:
  "db_fails failing_env (tick (serve_all (serve failing_env default_settings sample_rates sample_token)
     [sample_request ''small''] (open_session sample_tables))) = Some (DbError ''OperationalError'' ''connection lost'')"
  by (rule capacity_guard_never_refuses[of _ _ _ _ _ _ _
        "(serve_all (serve failing_env default_settings sample_rates sample_token) [sample_request ''small'']
           (open_session sample_tables))\<lparr>tick := Suc (tick (serve_all (serve failing_env default_settings sample_rates
              sample_token) [sample_request ''small''] (open_session sample_tables))), in_tx := True\<rparr>"])
    (simp_all add: open_session_def sample_tables_def empty_tables_def no_open_transfer_def check_transfer_capacity_def
      db_query_def db_call_def failing_env_def svc_defs)

end
