(* ===== verification/LedgerSpec.thy ===== *)
theory LedgerSpec
  imports Api
begin

text \<open>
  What the service promises its users, without sessions, locks, audit entries, notifications, stored
  transfers or retries: a ledger maps account numbers to an owner, a currency, whether the account
  is open, and a balance, and changes in three ways, of which a payment has to be at a price. The last
  sections show that the tables move only as this ledger can while regular requests are served, and that
  a closed account's row is final whatever is asked for.
\<close>

section \<open>The ledger\<close>

record ledger_account =
  la_owner :: string
  la_currency :: string
  la_open :: bool
  la_balance :: rat

type_synonym accounts_ledger = "string \<Rightarrow> ledger_account option"

text \<open>
  An account is opened once under its number, with no negative balance; it is closed only when empty,
  for good, and keeps its currency; a payment moves money between two different open accounts, never takes more
  than there is, and what leaves and what arrives are a \<open>deal\<close> between the two currencies.
\<close>

inductive ledger_step :: "(string \<Rightarrow> string \<Rightarrow> rat \<Rightarrow> rat \<Rightarrow> bool) \<Rightarrow> accounts_ledger \<Rightarrow> accounts_ledger \<Rightarrow> bool"
  for deal where
  opens: "l n = None \<Longrightarrow> la_open a \<Longrightarrow> 0 \<le> la_balance a \<Longrightarrow> ledger_step deal l (l(n \<mapsto> a))"
| closes: "l n = Some a \<Longrightarrow> la_open a \<Longrightarrow> la_balance a = 0 \<Longrightarrow>
    ledger_step deal l (l(n \<mapsto> a\<lparr>la_owner := o', la_open := False\<rparr>))"
| pays: "l n = Some a \<Longrightarrow> l m = Some b \<Longrightarrow> n \<noteq> m \<Longrightarrow> la_open a \<Longrightarrow> la_open b \<Longrightarrow>
    0 \<le> p \<Longrightarrow> p \<le> la_balance a \<Longrightarrow> deal (la_currency a) (la_currency b) p q \<Longrightarrow>
    ledger_step deal l (l(n \<mapsto> a\<lparr>la_balance := la_balance a - p\<rparr>, m \<mapsto> b\<lparr>la_balance := la_balance b + q\<rparr>))"

inductive_cases ledger_stepE [elim]: "ledger_step deal l l'"

text \<open>
  The deals of the service: a plain transfer pays the amount times the configured rate of the two
  currencies, to within half a ten-thousandth; a cross-currency transfer costs amount and sending fee and
  pays the net amount, at the rate of the newest usable snapshot from the source's currency to the
  currency the request names, which the code does not compare with the destination's.
\<close>

definition service_deal ::
  "exchange_rate_config \<Rightarrow> settings \<Rightarrow> fx_rate_snapshot list \<Rightarrow> string \<Rightarrow> string \<Rightarrow> rat \<Rightarrow> rat \<Rightarrow> bool" where
  "service_deal cfg st snaps c d p q \<longleftrightarrow>
     (\<exists>amount rate. get_rate cfg c d = Inr rate \<and> p = dval amount \<and>
        2 * \<bar>q - dval (dmul amount rate)\<bar> \<le> 10 powi (- 4)) \<or>
     (\<exists>amount d' rate am cur. latest (List.filter (\<lambda>s. \<not> is_stale s) snaps) = Some cur \<and>
        snapshot_rate (fx_rates cur) c d' = Inr rate \<and> calculate_amounts st amount rate = Inr am \<and>
        p = dval (am_total_cost am) \<and> q = dval (am_net am))"

text \<open>Closing is for good, a number stands for one currency, and no account disappears.\<close>

lemma ledger_step_mono:
  "ledger_step deal l l' \<Longrightarrow> l n = Some a \<Longrightarrow>
     \<exists>b. l' n = Some b \<and> la_currency b = la_currency a \<and> (la_open b \<longrightarrow> la_open a) \<and> (\<not> la_open a \<longrightarrow> b = a)"
  by (erule ledger_stepE) (auto split: if_splits)

lemma ledger_steps_mono:
  "(ledger_step deal)\<^sup>*\<^sup>* l l' \<Longrightarrow> l n = Some a \<Longrightarrow>
     \<exists>b. l' n = Some b \<and> la_currency b = la_currency a \<and> (la_open b \<longrightarrow> la_open a) \<and> (\<not> la_open a \<longrightarrow> b = a)"
proof (induction rule: rtranclp_induct)
  case (step y z)
  then obtain b where b: "y n = Some b" "la_currency b = la_currency a" "la_open b \<longrightarrow> la_open a" "\<not> la_open a \<longrightarrow> b = a"
    by blast
  from ledger_step_mono[OF step(2) b(1)] obtain c where
    "z n = Some c" "la_currency c = la_currency b" "la_open c \<longrightarrow> la_open b" "\<not> la_open b \<longrightarrow> c = b" by blast
  with b show ?case by (cases "la_open a") auto
qed simp

section \<open>The ledger the tables stand for\<close>

definition ledger_entry :: "account \<Rightarrow> ledger_account" where
  "ledger_entry a = \<lparr>la_owner = owner_id a, la_currency = currency a, la_open = (acc_status a = active),
     la_balance = dval (balance a)\<rparr>"

definition ledger_view :: "tables \<Rightarrow> accounts_ledger" where
  "ledger_view t n = map_option ledger_entry (find_account n t)"

lemma ledger_entry_simps [simp]:
  "la_currency (ledger_entry a) = currency a" "la_open (ledger_entry a) = (acc_status a = active)"
  "la_owner (ledger_entry a) = owner_id a" "la_balance (ledger_entry a) = dval (balance a)"
  by (simp_all add: ledger_entry_def)

lemma ledger_view_with_balance:
  "ledger_view (with_balance n b now t) =
     (ledger_view t)(n := map_option (\<lambda>e. e\<lparr>la_balance := dval b\<rparr>) (ledger_view t n))"
  by (rule ext) (simp add: ledger_view_def find_with_balance option.map_comp comp_def ledger_entry_def)

lemma ledger_view_cong [simp]:
  "ledger_view (t\<lparr>transfers := r, audit_log := l\<rparr>) = ledger_view t"
  "ledger_view (t\<lparr>transfers := r, audit_log := l, notifications := ns\<rparr>) = ledger_view t"
  "ledger_view (t\<lparr>notifications := ns\<rparr>) = ledger_view t"
  by (rule ext, simp add: ledger_view_def find_account_def)+

text \<open>Two stored balances that differ as a payment does are one step of the ledger.\<close>

lemma payment_step:
  assumes "find_account n t = Some a" "find_account m t = Some b" "n \<noteq> m" "acc_status a = active" "acc_status b = active"
    "0 \<le> p" "p \<le> dval (balance a)" "dval v = dval (balance a) - p" "dval w = dval (balance b) + q"
    "deal (currency a) (currency b) p q"
  shows "ledger_step deal (ledger_view t) (ledger_view (with_balance m w n2 (with_balance n v n1 t)))"
proof -
  have v: "ledger_view t n = Some (ledger_entry a)" "ledger_view t m = Some (ledger_entry b)"
    using assms(1,2) by (simp_all add: ledger_view_def)
  have "ledger_view (with_balance m w n2 (with_balance n v n1 t)) =
      (ledger_view t)(n \<mapsto> (ledger_entry a)\<lparr>la_balance := la_balance (ledger_entry a) - p\<rparr>,
                      m \<mapsto> (ledger_entry b)\<lparr>la_balance := la_balance (ledger_entry b) + q\<rparr>)"
    using assms(3,8,9) v by (simp add: ledger_view_with_balance)
  then show ?thesis using pays[OF v assms(3), of p deal q] assms(4-7,10) by simp
qed

section \<open>The handlers are steps of the ledger\<close>

lemma create_account_step:
  assumes "create_account x cfg req actor rid s = (Inr r, s')" "numeric_law x" "places 4 (req_opening_balance req)"
  shows "ledger_step deal (ledger_view (db s)) (ledger_view (db s'))"
  using assms(1)
proof (rule create_account_InrD)
  fix a e s0
  assume d: "db s' = (db s)\<lparr>accounts := accounts (db s) @ [a], audit_log := audit_log (db s) @ [e]\<rparr>"
    and b: "0 \<le> dval (req_opening_balance req)" "put_numeric x 19 4 (req_opening_balance req) = Inr (balance a)"
    and st: "acc_status a = active" and n: "account_number a \<notin> account_number ` set (accounts (db s))"
  have none: "find_account (account_number a) (db s) = None"
    using n unfolding find_account_def find_row_None_iff by (metis imageI)
  have f: "find_account m (db s') = (if m = account_number a then Some a else find_account m (db s))" for m
    using none unfolding d find_account_def by (cases "m = account_number a") (auto simp: find_row_append split: option.splits)
  have "ledger_view (db s') = (ledger_view (db s))(account_number a \<mapsto> ledger_entry a)"
    by (rule ext) (simp add: ledger_view_def f)
  moreover have "ledger_view (db s) (account_number a) = None"
    using none by (simp add: ledger_view_def)
  moreover have "0 \<le> dval (balance a)"
    using b numeric_lawD(4)[OF assms(2) b(2) assms(3)] by simp
  ultimately show ?thesis using st by (simp add: opens)
qed

lemma delete_account_step:
  assumes "delete_account x n actor c rid s = (Inr u, s')"
  shows "ledger_step deal (ledger_view (db s)) (ledger_view (db s'))"
  using assms
proof (rule delete_account_InrD)
  fix a b now e
  assume a: "find_account n (db s) = Some a" "acc_status a = active" "dval (balance a) = 0"
    and d: "db s' = (db s)\<lparr>accounts := update_rows (\<lambda>r. account_number r = n)
       (\<lambda>r. r\<lparr>acc_status := closed, owner_pii_hash := Some (sha256 x (owner_id a)),
              owner_id := ''ANONYMIZED-'' @ take 16 (sha256 x (owner_id a)), acc_updated_at := Some now\<rparr>)
       (accounts (db s)), audit_log := audit_log (db s) @ [e]\<rparr>"
  let ?o = "''ANONYMIZED-'' @ take 16 (sha256 x (owner_id a))"
  have "find_account n (db s') = Some (a\<lparr>acc_status := closed, owner_pii_hash := Some (sha256 x (owner_id a)),
              owner_id := ?o, acc_updated_at := Some now\<rparr>)"
    using a(1) unfolding d find_account_def by (simp add: find_row_update_same)
  moreover have "find_account m (db s') = find_account m (db s)" if "m \<noteq> n" for m
    unfolding d find_account_def using that by (auto intro!: find_row_update_other)
  ultimately have "ledger_view (db s') = (ledger_view (db s))(n \<mapsto> (ledger_entry a)\<lparr>la_owner := ?o, la_open := False\<rparr>)"
    by (intro ext) (simp add: ledger_view_def ledger_entry_def)
  moreover have "ledger_view (db s) n = Some (ledger_entry a)" using a(1) by (simp add: ledger_view_def)
  ultimately show ?thesis using a(2,3) closes[of "ledger_view (db s)" n "ledger_entry a" deal ?o] by simp
qed

lemma execute_transfer_step:
  assumes "execute_transfer x cfg req caller key rid s = (Inr (r, replay), s')" "numeric_law x" "ledger_inv (db s)"
    "rq_source req \<noteq> rq_destination req" "- 4 \<le> dexp (rq_amount req)"
  shows "(ledger_step (service_deal cfg st snaps))\<^sup>=\<^sup>= (ledger_view (db s)) (ledger_view (db s'))"
  using assms(1)
proof (cases rule: execute_transfer_InrD)
  case (fresh tr s0 s1)
  have inv: "ledger_inv (db s0)" using assms(3) fresh(3) by simp
  from transfer_block_moves[OF fresh(4) assms(2) inv assms(4) fresh(7)] obtain src dst rate credit debit where
    m: "find_account (rq_source req) (db s0) = Some src" "find_account (rq_destination req) (db s0) = Some dst"
    "get_rate cfg (currency src) (currency dst) = Inr rate"
    "2 * \<bar>credit - dval (dmul (rq_amount req) rate)\<bar> \<le> 10 powi (- 4)" "dval (rq_amount req) \<le> dval (balance src)"
    "\<And>n. balance_of n (db s1) = balance_of n (db s0)
       + (if n = rq_destination req then credit else 0) - (if n = rq_source req then debit else 0)"
    "- 4 \<le> dexp (rq_amount req) \<Longrightarrow> debit = dval (rq_amount req)"
    by metis
  from fresh(4) show ?thesis
  proof (rule transfer_block_InrD)
    fix src' dst' limit rate' damt b1 b2 n1 n2 a
    assume f: "find_account (rq_source req) (db s0) = Some src'" "acc_status src' = active"
      "find_account (rq_destination req) (db s0) = Some dst'" "acc_status dst' = active"
      and d: "db s1 = (with_balance (rq_destination req) b2 n2 (with_balance (rq_source req) b1 n1 (db s0)))
         \<lparr>transfers := transfers (db s0) @ [tr], audit_log := audit_log (db s0) @ [a]\<rparr>"
    have same: "src' = src" "dst' = dst" using f(1,3) m(1,2) by simp_all
    have "balance_of (rq_source req) (db s1) = dval b1" "balance_of (rq_destination req) (db s1) = dval b2"
      using m(1,2) assms(4) unfolding d by (simp_all add: balance_of_def find_with_balance)
    then have v: "dval b1 = dval (balance src) - dval (rq_amount req)" "dval b2 = dval (balance dst) + credit"
      using m(6)[of "rq_source req"] m(6)[of "rq_destination req"] m(7)[OF assms(5)] m(1,2) assms(4)
      by (simp_all add: balance_of_def)
    have deal: "service_deal cfg st snaps (currency src) (currency dst) (dval (rq_amount req)) credit"
      using m(3,4) unfolding service_deal_def by blast
    have "0 \<le> dval (rq_amount req)" using fresh(7) by (simp add: dle_iff)
    from payment_step[where deal = "service_deal cfg st snaps", OF f(1,3) assms(4) f(2,4) this, unfolded same, OF m(5) v deal]
    show ?thesis using fresh(3,6) unfolding d by simp
  qed
qed simp

text \<open>Amounts and fees that are not negative add up to a cost that is not negative.\<close>

lemma dfix_nonneg: "0 \<le> coeff d \<Longrightarrow> 0 \<le> coeff (dfix d)"
  by (cases d) (auto simp: Let_def round_div_nonneg pos_imp_zdiv_nonneg_iff dfix.simps)

lemma dmul_nonneg: "0 \<le> dval a \<Longrightarrow> 0 \<le> dval b \<Longrightarrow> 0 \<le> dval (dmul a b)"
  by (cases a; cases b) (simp add: dval_nonneg_iff dfix_nonneg del: dfix.simps)

lemma dadd_nonneg: "0 \<le> dval a \<Longrightarrow> 0 \<le> dval b \<Longrightarrow> 0 \<le> dval (dadd a b)"
  by (cases a; cases b) (simp add: dval_nonneg_iff dadd_def Let_def dfix_nonneg del: dfix.simps)

lemma quantize_nonneg: "quantize r e d = Some q \<Longrightarrow> 0 \<le> dval d \<Longrightarrow> 0 \<le> dval q"
  using quantizeD(3)[of r e d q] by (simp add: dval_nonneg_iff rescale_nonneg)

lemma total_cost_nonneg:
  assumes "calculate_amounts st amount rate = Inr am" "0 \<le> dval amount" "0 \<le> dval (SENDING_FEE_PCT st)"
  shows "0 \<le> dval (am_total_cost am)"
  using calculate_amounts_InrD(1,5)[OF assms(1)] assms(2,3) by (blast intro: quantize_nonneg dadd_nonneg dmul_nonneg)

lemma settled_step:
  assumes "settled x st req caller key ap t tr t'" "approval st req caller t ap" "numeric_law x" "ledger_inv t"
    "0 \<le> dval (cr_source_amount req)" "0 \<le> dval (SENDING_FEE_PCT st)"
    "cr_source_account_number req \<noteq> cr_destination_account_number req"
  shows "ledger_step (service_deal cfg st (fx_rate_snapshots t)) (ledger_view t) (ledger_view t')"
proof -
  from assms(2) have acc: "find_account (cr_source_account_number req) t = Some (ap_source ap)"
    "find_account (cr_destination_account_number req) t = Some (ap_destination ap)"
    "acc_status (ap_source ap) = active" "acc_status (ap_destination ap) = active"
    "dval (am_total_cost (ap_amounts ap)) \<le> dval (balance (ap_source ap))"
    "calculate_amounts st (cr_source_amount req) (ap_rate ap) = Inr (ap_amounts ap)"
    by (simp_all add: approval_def)
  note am = calculate_amounts_InrD[OF acc(6)] and nn = total_cost_nonneg[OF acc(6) assms(5,6)]
  have S: "account_number (ap_source ap) = cr_source_account_number req"
    "account_number (ap_destination ap) = cr_destination_account_number req"
    and g: "fits 19 4 (balance (ap_source ap))"
    using find_account_good[OF assms(4)] acc by (auto simp: good_account_def)
  from assms(1)[unfolded settled_def S] obtain sbal b1 n1 dbal b2 n2 al ns where
    p: "quantize ROUND_HALF_UP (- 4) (dsub (balance (ap_source ap)) (am_total_cost (ap_amounts ap))) = Some sbal"
      "put_numeric x 19 4 sbal = Inr b1"
    and t': "t' = (with_balance (cr_destination_account_number req) b2 n2 (with_balance (cr_source_account_number req) b1 n1 t))
             \<lparr>transfers := transfers t @ [tr], audit_log := audit_log t @ al, notifications := notifications t @ ns\<rparr>"
    by blast
  have sb: "dval b1 = dval (balance (ap_source ap)) - dval (am_total_cost (ap_amounts ap))"
    using stored_quantized(1)[OF assms(3) p(1,2)] quantized_diff[OF g am(5) nn acc(5) p(1)] by simp
  have "balance_of (cr_destination_account_number req) t' = dval b2"
    using acc(2) assms(7) unfolding t' by (simp add: balance_of_def find_with_balance)
  then have sd: "dval b2 = dval (balance (ap_destination ap)) + dval (am_net (ap_amounts ap))"
    using settled_balances(1)[OF assms(1-4) nn assms(7), of "cr_destination_account_number req"] acc(2) assms(7)
    by (simp add: balance_of_def)
  from assms(2) obtain cur where "latest (List.filter (\<lambda>s. \<not> is_stale s) (fx_rate_snapshots t)) = Some cur"
    "snapshot_rate (fx_rates cur) (currency (ap_source ap)) (cr_destination_currency req) = Inr (ap_rate ap)"
    by (auto simp: approval_def)
  then have deal: "service_deal cfg st (fx_rate_snapshots t) (currency (ap_source ap)) (currency (ap_destination ap))
      (dval (am_total_cost (ap_amounts ap))) (dval (am_net (ap_amounts ap)))"
    using acc(6) unfolding service_deal_def by blast
  show ?thesis
    unfolding t' using payment_step[where deal = "service_deal cfg st (fx_rate_snapshots t)", OF acc(1,2) assms(7) acc(3,4) nn acc(5) sb sd deal] by simp
qed

lemma initiate_step:
  assumes "initiate x st req caller key rid s = (Inr (r, replay), s')" "numeric_law x" "ledger_inv (db s)"
    "0 \<le> dval (cr_source_amount req)" "0 \<le> dval (SENDING_FEE_PCT st)"
    "cr_source_account_number req \<noteq> cr_destination_account_number req"
  shows "(ledger_step (service_deal cfg st (fx_rate_snapshots (db s))))\<^sup>=\<^sup>= (ledger_view (db s)) (ledger_view (db s'))"
  using assms(1)
proof (cases rule: initiate_InrD)
  case (fresh ap tr)
  from settled_step[OF fresh(5,3) assms(2-6)] show ?thesis by blast
qed simp

section \<open>What no request changes\<close>

text \<open>No request changes the stored snapshots of rates or the row of an account that is not active.\<close>

definition keeps_final :: "tables \<Rightarrow> tables \<Rightarrow> bool" where
  "keeps_final t t' \<longleftrightarrow> fx_rate_snapshots t' = fx_rate_snapshots t \<and>
     (\<forall>n a. find_account n t = Some a \<longrightarrow> acc_status a \<noteq> active \<longrightarrow> find_account n t' = Some a)"

lemma keeps_final_refl [simp]: "keeps_final t t"
  by (simp add: keeps_final_def)

lemma keeps_final_trans: "keeps_final t0 t \<Longrightarrow> keeps_final t t' \<Longrightarrow> keeps_final t0 t'"
  by (auto simp: keeps_final_def)

lemma keeps_final_with_balance:
  assumes "find_account n t = Some a" "acc_status a = active"
  shows "keeps_final t (with_balance n b now t)"
  using assms by (auto simp: keeps_final_def find_with_balance)

lemma keeps_final_cong [simp]:
  "keeps_final t (t'\<lparr>transfers := r, audit_log := l\<rparr>) = keeps_final t t'"
  "keeps_final t (t'\<lparr>transfers := r, audit_log := l, notifications := ns\<rparr>) = keeps_final t t'"
  "keeps_final t (t'\<lparr>notifications := ns\<rparr>) = keeps_final t t'"
  by (simp_all add: keeps_final_def find_account_def)

lemma keeps_final_payment:
  assumes "find_account n t = Some a" "acc_status a = active" "find_account m t = Some c" "acc_status c = active"
  shows "keeps_final t (with_balance m b2 n2 (with_balance n b1 n1 t))"
proof -
  obtain c' where "find_account m (with_balance n b1 n1 t) = Some c'" "acc_status c' = active"
    using assms by (cases "m = n") (auto simp: find_with_balance)
  with assms keeps_final_with_balance keeps_final_trans show ?thesis by blast
qed

lemma api_create_account_final:
  "api_create_account x cfg c rid r s = (Inr a, s') \<Longrightarrow> keeps_final (db s) (db s')"
  unfolding api_create_account_def
  by (erule create_account_InrD) (simp add: keeps_final_def find_account_def find_row_append)

lemma api_delete_account_final:
  "api_delete_account x c rid n s = (Inr a, s') \<Longrightarrow> keeps_final (db s) (db s')"
  unfolding api_delete_account_def
  by (erule delete_account_InrD) (auto simp: keeps_final_def find_account_def find_updated_account)

lemma api_create_transfer_final:
  assumes "api_create_transfer x cfg c rid key r s = (Inr a, s')"
  shows "keeps_final (db s) (db s')"
proof -
  from assms obtain p b where "execute_transfer x cfg r (actor_of c) key rid s = (Inr (p, b), s')"
    unfolding api_create_transfer_def sbind_Inr_iff by auto
  then show ?thesis
  proof (cases rule: execute_transfer_InrD)
    case (fresh tr s0 s1)
    from fresh(4) have "keeps_final (db s0) (db s1)"
      by (rule transfer_block_InrD) (simp add: keeps_final_payment)
    with fresh show ?thesis by simp
  qed simp
qed

lemma find_account_number: "find_account n t = Some a \<Longrightarrow> account_number a = n"
  unfolding find_account_def by (auto dest: find_row_SomeD)

lemma settled_final:
  assumes "settled x st req caller key ap t tr t'" "approval st req caller t ap"
  shows "keeps_final t t'"
proof -
  have acc: "find_account (account_number (ap_source ap)) t = Some (ap_source ap)"
    "find_account (account_number (ap_destination ap)) t = Some (ap_destination ap)"
    using find_account_number assms(2) unfolding approval_def by metis+
  with assms(2) show ?thesis
    using assms(1) keeps_final_payment[OF acc(1) _ acc(2)] by (auto simp: settled_def approval_def)
qed

lemma api_create_cross_currency_transfer_final:
  assumes "api_create_cross_currency_transfer x st c rid key r s = (Inr a, s')"
  shows "keeps_final (db s) (db s')"
proof -
  from assms obtain u s1 p b where c: "check_transfer_capacity x s = (Inr u, s1)"
    and i: "initiate x st r (actor_of c) key rid s1 = (Inr (p, b), s')"
    unfolding api_create_cross_currency_transfer_def sbind_Inr_iff sthen_Inr_iff by auto
  have "db s1 = db s" using readonlyD[OF readonly_capacity c] by simp
  with i show ?thesis
    by (cases rule: initiate_InrD) (auto dest: settled_final)
qed

lemma api_mark_final:
  assumes "api_mark_notification_read x c i n s = (Inr a, s')"
  shows "keeps_final (db s) (db s')"
proof -
  from transaction_InrD[OF assms[unfolded api_mark_notification_read_def]] obtain s1
    where m: "repo_mark_read x i n (s\<lparr>in_tx := True\<rparr>) = (Inr a, s1)" "db s' = db s1"
    by (auto simp: service_mark_read_def)
  from m(1) show ?thesis by (rule mark_read_db) (simp add: m(2))
qed

interpretation final: ledger "serve x st cfg validate" db "keeps_final t0" for x st cfg validate t0
proof unfold_locales
  fix r s a s'
  assume run: "serve x st cfg validate r s = (Inr a, s')" and inv: "keeps_final t0 (db s)"
  obtain cred rid req where r: "r = (cred, rid, req)" by (cases r) auto
  show "keeps_final t0 (db s')"
    by (rule dispatch_keeps[where P = "keeps_final t0" and s = "s\<lparr>in_tx := False\<rparr>"])
      (use run inv r in \<open>auto simp: serve_def intro: keeps_final_trans api_create_account_final api_delete_account_final
        api_create_transfer_final api_create_cross_currency_transfer_final api_mark_final\<close>)
qed (rule api.refused)

lemma serve_all_snapshots:
  "fx_rate_snapshots (db (serve_all (serve x st cfg validate) rs s)) = fx_rate_snapshots (db s)"
  using final.serve_keeps[of "db s" s] by (simp add: keeps_final_def)

section \<open>Requests refine the ledger\<close>

text \<open>
  The requests the refinement speaks of: the amount of a plain transfer has no more digits than the
  columns; a cross-currency transfer names two accounts and an amount that is not negative.
\<close>

definition regular_request :: "api_request \<Rightarrow> bool" where
  "regular_request req = (case req of
     CreateTransfer key src dst amt \<Rightarrow> - 4 \<le> dexp amt
   | CreateCrossCurrencyTransfer key r \<Rightarrow>
       cr_source_account_number r \<noteq> cr_destination_account_number r \<and> 0 \<le> dval (cr_source_amount r)
   | _ \<Rightarrow> True)"

lemma dispatch_step:
  assumes "dispatch x st cfg validate cred rid req s = (Inr a, s')" "numeric_law x" "ledger_inv (db s)"
    "regular_request req" "0 \<le> dval (SENDING_FEE_PCT st)"
  shows "(ledger_step (service_deal cfg st (fx_rate_snapshots (db s))))\<^sup>=\<^sup>= (ledger_view (db s)) (ledger_view (db s'))"
proof (cases req)
  case (CreateAccount owner cur bal)
  with assms(1) obtain c r b where "validate_create_account owner cur bal = Inr r"
    "create_account x cfg r (actor_of c) rid s = (Inr b, s')"
    by (auto simp: dispatch_def sbind_Inr_iff api_create_account_def)
  with create_account_step[OF this(2) assms(2)] validated_account[OF this(1)] show ?thesis by simp
next
  case (DeleteAccount n)
  with assms(1) obtain c u where "delete_account x n (actor_of c) c rid s = (Inr u, s')"
    by (auto simp: dispatch_def sbind_Inr_iff sthen_Inr_iff api_delete_account_def)
  with delete_account_step show ?thesis by blast
next
  case (CreateTransfer key src dst amt)
  with assms(1) obtain c r b rep where r: "validate_create_transfer src dst amt = Inr r"
    "execute_transfer x cfg r (actor_of c) key rid s = (Inr (b, rep), s')"
    by (auto simp: dispatch_def sbind_Inr_iff sthen_Inr_iff api_create_transfer_def)
  from r(1) CreateTransfer assms(4) have "rq_source r \<noteq> rq_destination r" "- 4 \<le> dexp (rq_amount r)"
    by (auto simp: validate_create_transfer_def regular_request_def split: if_splits)
  with execute_transfer_step[OF r(2) assms(2,3)] show ?thesis by blast
next
  case (CreateCrossCurrencyTransfer key r)
  with assms(1) obtain c u s1 b rep where "check_transfer_capacity x s = (Inr u, s1)"
    "initiate x st r (actor_of c) key rid s1 = (Inr (b, rep), s')"
    by (auto simp: dispatch_def sbind_Inr_iff sthen_Inr_iff api_create_cross_currency_transfer_def)
  then show ?thesis
    using initiate_step[of x st r "actor_of c" key rid s1 b rep s'] readonlyD[OF readonly_capacity, of x s "Inr u" s1]
      CreateCrossCurrencyTransfer assms(2-5) by (simp add: regular_request_def)
next
  case (MarkNotificationRead i n)
  with assms(1) obtain c b where "api_mark_notification_read x c i n s = (Inr b, s')"
    by (auto simp: dispatch_def sbind_Inr_iff)
  from transaction_InrD[OF this[unfolded api_mark_notification_read_def service_mark_read_def]] obtain s1
    where m: "repo_mark_read x i n (s\<lparr>in_tx := True\<rparr>) = (Inr b, s1)" "db s' = db s1" by auto
  from m(1) have "ledger_view (db s1) = ledger_view (db s)" by (rule mark_read_db) simp
  with m(2) show ?thesis by simp
qed (use assms(1) in \<open>auto simp: dispatch_def sbind_Inr_iff
      dest: readonlyD[OF readonly_requests(1)] readonlyD[OF readonly_requests(2)]
        readonlyD[OF readonly_requests(3)] readonlyD[OF readonly_requests(4)] readonlyD[OF readonly_requests(5)]\<close>)

lemma serve_step:
  assumes "numeric_law x" "ledger_inv (db s)" "regular_request (snd (snd r))" "0 \<le> dval (SENDING_FEE_PCT st)"
  shows "(ledger_step (service_deal cfg st (fx_rate_snapshots (db s))))\<^sup>=\<^sup>= (ledger_view (db s)) (ledger_view (db (snd (serve x st cfg validate r s))))"
proof (cases "serve x st cfg validate r s")
  case (Pair v s')
  show ?thesis
  proof (cases v)
    case (Inl e)
    with Pair api.refused show ?thesis by fastforce
  next
    case (Inr a)
    with Pair have "dispatch x st cfg validate (fst r) (fst (snd r)) (snd (snd r)) (s\<lparr>in_tx := False\<rparr>) = (Inr a, s')"
      by (simp add: serve_def split_def)
    from dispatch_step[OF this assms(1) _ assms(3,4)] assms(2) Pair show ?thesis by simp
  qed
qed

lemma serve_all_steps:
  assumes "numeric_law x" "ledger_inv (db s)" "list_all (\<lambda>r. regular_request (snd (snd r))) rs" "0 \<le> dval (SENDING_FEE_PCT st)"
  shows "(ledger_step (service_deal cfg st (fx_rate_snapshots (db s))))\<^sup>*\<^sup>*
    (ledger_view (db s)) (ledger_view (db (serve_all (serve x st cfg validate) rs s)))"
  using assms(2,3)
proof (induction rs arbitrary: s)
  case (Cons r rs)
  let ?s = "snd (serve x st cfg validate r s)"
  have "ledger_inv (db ?s)" using api.step_keeps[of x s st cfg validate r] Cons.prems(1) assms(1) by blast
  moreover have "fx_rate_snapshots (db ?s) = fx_rate_snapshots (db s)"
    using serve_all_snapshots[of x st cfg validate "[r]" s] by simp
  ultimately show ?case
    using Cons.IH[of ?s] serve_step[OF assms(1) Cons.prems(1) _ assms(4), of r cfg validate] Cons.prems(2)
    by (simp del: ledger_view_cong) (metis converse_rtranclp_into_rtranclp)
qed simp

text \<open>C3. Refinement: while regular requests are served, and however each of them ends, the accounts in the
  tables change only as the abstract ledger allows: accounts are opened under fresh numbers, closed only
  when empty, and otherwise paid between, never more than there is, and every payment is a deal of the
  service: amount against amount times the configured rate, or amount and sending fee against the net
  amount at the newest usable snapshot. Regular are all requests but plain transfers of an amount with
  more than four decimals and cross-currency transfers of a negative amount or from an account to itself;
  the sending fee is not negative and the numeric columns follow \<open>numeric_law\<close>.\<close>

theorem service_refines_ledger:
  assumes "numeric_law x" "ledger_inv (db s)" "list_all (\<lambda>r. regular_request (snd (snd r))) rs"
    "0 \<le> dval (SENDING_FEE_PCT st)"
  shows "(ledger_step (service_deal cfg st (fx_rate_snapshots (db s))))\<^sup>*\<^sup>*
    (ledger_view (db s)) (ledger_view (db (serve_all (serve x st cfg validate) rs s)))"
  using assms by (rule serve_all_steps)

theorem service_refines_ledger_witness:
  "(ledger_step (service_deal sample_rates default_settings []))\<^sup>*\<^sup>* (ledger_view sample_tables)
     (ledger_view (db (serve_all (serve strict_env default_settings sample_rates sample_token)
       [sample_request ''small'', sample_request ''large''] (open_session sample_tables))))"
proof -
  have "list_all (\<lambda>r. regular_request (snd (snd r))) [sample_request ''small'', sample_request ''large'']"
    "0 \<le> dval (SENDING_FEE_PCT default_settings)" "fx_rate_snapshots (db (open_session sample_tables)) = []"
    "db (open_session sample_tables) = sample_tables"
    by (simp_all add: sample_request_def regular_request_def dval_nonneg_iff default_settings_def open_session_def
        sample_tables_def empty_tables_def)
  with service_refines_ledger[OF sample_numeric_law(2) sample_facts(1)] show ?thesis by metis
qed

text \<open>C32. A closed account is final: once an account is closed, no sequence of requests of whatever kind
  changes anything of its row, its owner, its currency, its balance or its status, and its number never
  finds another account.\<close>

theorem closed_account_is_final:
  assumes "find_account n (db s) = Some a" "acc_status a \<noteq> active"
  shows "find_account n (db (serve_all (serve x st cfg validate) rs s)) = Some a"
  using final.serve_keeps[of "db s" s] assms by (simp add: keeps_final_def)

definition closed_tables :: tables where
  "closed_tables = sample_tables\<lparr>accounts := accounts sample_tables @
     [(sample_account ''Z'' ''ANONYMIZED-0'' ''EUR'' (Dec 0 (-4)))\<lparr>acc_status := closed\<rparr>]\<rparr>"

lemma closed_tables_facts:
  "find_account ''Z'' closed_tables = Some ((sample_account ''Z'' ''ANONYMIZED-0'' ''EUR'' (Dec 0 (-4)))\<lparr>acc_status := closed\<rparr>)"
  by (simp add: closed_tables_def sample_tables_def sample_account_def find_account_def)

theorem closed_account_is_final_witness:
  "map_option balance (find_account ''Z'' (db (serve_all (serve strict_env default_settings sample_rates sample_token)
       [sample_request ''small''] (open_session closed_tables)))) = Some (Dec 0 (-4))"
  using closed_account_is_final[of "''Z''" "open_session closed_tables" _ strict_env default_settings sample_rates
      sample_token "[sample_request ''small'']"]
  by (simp add: closed_tables_facts open_session_def sample_account_def)

end
