(* ===== verification/Liveness.thy ===== *)
theory Liveness
  imports TransferService
begin

text \<open>
  Liveness of the plain transfer: a new request that breaks none of the rules goes through unless the
  database or the session raises an exception of its own.
\<close>

section \<open>What the columns accept\<close>

text \<open>
  PostgreSQL stores a text no longer than its column and a number that, rounded to the column's scale,
  stays below the column's limit.
\<close>

definition in_range :: "nat \<Rightarrow> nat \<Rightarrow> rat \<Rightarrow> bool" where
  "in_range p s v \<longleftrightarrow> \<bar>v\<bar> + 10 powi (- int s) \<le> 10 powi (int p - int s)"

definition column_law :: "ext \<Rightarrow> bool" where
  "column_law x \<longleftrightarrow>
     (\<forall>n t. length t \<le> n \<longrightarrow> string_exn x n t = None) \<and>
     (\<forall>p s d. in_range p s (dval d) \<longrightarrow> (\<exists>d'. put_numeric x p s d = Inr d'))"

lemma column_lawD:
  "column_law x \<Longrightarrow> length t \<le> n \<Longrightarrow> string_exn x n t = None"
  "column_law x \<Longrightarrow> in_range p s (dval d) \<Longrightarrow> \<exists>d'. put_numeric x p s d = Inr d'"
  by (simp_all add: column_law_def)

lemma in_range_coeff: "dexp d = - 4 \<Longrightarrow> in_range 19 4 (dval d) \<longleftrightarrow> \<bar>coeff d\<bar> < 10 ^ 19"
proof -
  assume e: "dexp d = - 4"
  have "in_range 19 4 (dval d) \<longleftrightarrow> (of_int \<bar>coeff d\<bar> + 1) / 10 ^ 4 \<le> (10 ^ 15 :: rat)"
    by (simp add: in_range_def dval_def e abs_mult power_int_def field_simps)
  also have "\<dots> \<longleftrightarrow> of_int (\<bar>coeff d\<bar> + 1) \<le> (of_int (10 ^ 19) :: rat)" by (simp add: field_simps)
  also have "\<dots> \<longleftrightarrow> \<bar>coeff d\<bar> + 1 \<le> 10 ^ 19" by (rule of_int_le_iff)
  finally show ?thesis by linarith
qed

lemma fits_in_range: "fits 19 4 d \<longleftrightarrow> dexp d = - 4 \<and> in_range 19 4 (dval d)"
  using in_range_coeff[of d] by (auto simp: fits_def)

lemma in_range_le: "in_range p s v \<Longrightarrow> 0 \<le> w \<Longrightarrow> w \<le> v \<Longrightarrow> in_range p s w"
  by (auto simp: in_range_def)

text \<open>The ids the environment is about to draw are not in use.\<close>

definition fresh_ids :: "ext \<Rightarrow> tables \<Rightarrow> bool" where
  "fresh_ids x t \<longleftrightarrow> (\<forall>k. uuid4 x k \<notin> transfer_id ` set (transfers t) \<and> uuid4 x k \<notin> al_id ` set (audit_log t))"

lemma wp_assign_balance:
  "put_numeric x 19 4 v = Inr b \<Longrightarrow> Q () (s\<lparr>db := with_balance n b (db_now x (tick s)) (db s)\<rparr>) \<Longrightarrow>
     wp (assign_balance x n v) Q E s"
  by (simp add: assign_balance_def wp_simps set_balance_def with_balance_def)

definition string_columns :: "ext \<Rightarrow> string \<Rightarrow> create_transfer_request \<Rightarrow> string \<Rightarrow> string \<Rightarrow> bool" where
  "string_columns x key req c d \<longleftrightarrow> string_exn x 255 key = None \<and>
    string_exn x 34 (rq_source req) = None \<and> string_exn x 34 (rq_destination req) = None \<and>
    string_exn x 3 c = None \<and> string_exn x 3 d = None \<and> string_exn x 20 ''success'' = None \<and>
    string_exn x 30 (operation_type_value transfer_completed) = None"

lemma wp_create_transfer:
  assumes "string_columns x key req c d" "fresh_ids x (db s)" "find_by_key key (db s) = None"
    "put_numeric x 19 4 amt = Inr v1" "put_numeric x 19 4 damt = Inr v2" "put_numeric x 20 8 rate = Inr v3"
    "\<And>tr s'. audit_log (db s') = audit_log (db s) \<Longrightarrow> Q tr s'" "\<And>e s'. raised_by x e \<Longrightarrow> E e s'"
  shows "wp (create_transfer x key (rq_source req) (rq_destination req) amt c damt d rate completed caller None None) Q E s"
proof -
  have key: "key \<notin> idempotency_key ` set (transfers (db s))"
    using assms(3) by (auto simp: find_by_key_def find_row_None_iff)
  have ids: "\<And>k. uuid4 x k \<notin> transfer_id ` set (transfers (db s))"
    using assms(2) by (simp add: fresh_ids_def)
  have none: "find_row (\<lambda>r. transfer_id r = uuid4 x k) (transfers (db s)) = None" for k
    using ids[of k] by (force simp: find_row_None_iff)
  show ?thesis
    using assms(1) key ids
    by (simp add: create_transfer_def wp_simps insert_transfer_def refresh_transfer_def string_columns_def
        put_opt_def string_opt_exn_def unique_exn_def find_transfer_def find_row_append none assms(4-7))
      (blast intro: assms(8))
qed

lemma wp_success_entry:
  assumes "string_columns x key req c d" "fresh_ids x t" "audit_log (db s) = audit_log t"
    "put_numeric x 19 4 amt = Inr v1" "\<And>s'. Q () s'" "\<And>e s'. raised_by x e \<Longrightarrow> E e s'"
  shows "wp (write_audit_log x transfer_completed caller accts (Some amt) (Some c) ''success'' det rid) Q E s"
  using assms(1-5)
  by (simp add: write_audit_log_def wp_simps insert_audit_def string_columns_def put_opt_def
      string_opt_exn_def unique_exn_def fresh_ids_def) (blast intro: assms(6))

lemma transfer_block_succeeds:
  assumes "string_columns x key req (currency src) (currency dst)"
    "fresh_ids x (db s)" "find_by_key key (db s) = None"
    "find_account (rq_source req) (db s) = Some src" "acc_status src = active"
    "find_account (rq_destination req) (db s) = Some dst" "acc_status dst = active"
    "get_max_transfer_amount cfg (currency src) = Inr limit" "\<not> dlt limit (rq_amount req)"
    "\<not> dlt (balance src) (rq_amount req)"
    "get_rate cfg (currency src) (currency dst) = Inr rate"
    "quantize ROUND_HALF_EVEN (- 4) (dmul (rq_amount req) rate) = Some damt"
    "put_numeric x 19 4 (dsub (balance src) (rq_amount req)) = Inr b1"
    "put_numeric x 19 4 (dadd (held_by req src dst) damt) = Inr b2"
    "put_numeric x 19 4 (rq_amount req) = Inr v1" "put_numeric x 19 4 damt = Inr v2"
    "put_numeric x 20 8 rate = Inr v3"
  shows "wp (transfer_block x cfg req caller key rid) (\<lambda>_ _. True) (\<lambda>e _. raised_by x e) s"
proof -
  let ?wb = "\<lambda>n1 n2. with_balance (rq_destination req) b2 n2 (with_balance (rq_source req) b1 n1 (db s))"
  have last: "wp (sbind (create_transfer x key (rq_source req) (rq_destination req) (rq_amount req) (currency src)
         damt (currency dst) rate completed caller None None)
       (\<lambda>tr. sthen (write_audit_log x transfer_completed caller [rq_source req, rq_destination req]
          (Some (rq_amount req)) (Some (currency src)) ''success'' det rid) (sret tr))) (\<lambda>_ _. True) (\<lambda>e _. raised_by x e) s1"
    if "db s1 = ?wb n1 n2" for s1 n1 n2 det
  proof -
    have f: "fresh_ids x (db s1)" "find_by_key key (db s1) = None"
      using assms(2,3) that by (simp_all add: fresh_ids_def find_by_key_def)
    show ?thesis
      unfolding wp_sbind wp_sthen wp_sret
      by (rule wp_create_transfer[OF assms(1) f assms(15-17)], rule wp_success_entry[OF assms(1) f(1) _ assms(15)]) simp_all
  qed
  have "wp (sthen (assign_balance x (rq_source req) (dsub (balance src) (rq_amount req)))
    (sthen (assign_balance x (rq_destination req) (dadd (held_by req src dst) damt))
    (sbind (create_transfer x key (rq_source req) (rq_destination req) (rq_amount req) (currency src)
         damt (currency dst) rate completed caller None None)
       (\<lambda>tr. sthen (write_audit_log x transfer_completed caller [rq_source req, rq_destination req]
          (Some (rq_amount req)) (Some (currency src)) ''success'' det rid) (sret tr))))) (\<lambda>_ _. True) (\<lambda>e _. raised_by x e) s1"
    if "db s1 = db s" for s1 det
    unfolding wp_sthen[of "assign_balance _ _ _"]
    by (rule wp_assign_balance[OF assms(13)], rule wp_assign_balance[OF assms(14)], rule last) (simp add: that)
  then show ?thesis
    unfolding transfer_block_def using assms(4-12)
    by (simp add: wp_simps(1-8,10-) wp_lock open_account_def quantize_or_raise_def) blast
qed

text \<open>
  A request whose texts and amounts the columns can hold: the rate, the credited amount and the balance
  that results.
\<close>

definition transfer_fits ::
  "string \<Rightarrow> create_transfer_request \<Rightarrow> account \<Rightarrow> account \<Rightarrow> decimal \<Rightarrow> decimal \<Rightarrow> bool" where
  "transfer_fits key req src dst rate damt \<longleftrightarrow>
     length key \<le> 255 \<and> length (rq_source req) \<le> 34 \<and> length (rq_destination req) \<le> 34 \<and>
     length (currency src) \<le> 3 \<and> length (currency dst) \<le> 3 \<and> - 4 \<le> dexp (rq_amount req) \<and>
     in_range 20 8 (dval rate) \<and> in_range 19 4 (dval damt) \<and> in_range 19 4 (dval (balance dst) + dval damt)"

lemma fits_string_columns:
  "column_law x \<Longrightarrow> transfer_fits key req src dst rate damt \<Longrightarrow> string_columns x key req (currency src) (currency dst)"
  by (simp add: string_columns_def transfer_fits_def column_lawD)

lemma accepted_facts:
  assumes "transfer_refusal cfg req t = None" "find_account (rq_source req) t = Some src"
    "find_account (rq_destination req) t = Some dst" "get_rate cfg (currency src) (currency dst) = Inr rate"
    "map_of (max_transfer_amounts cfg) (currency src) = Some limit"
  shows "acc_status src = active" "acc_status dst = active" "get_max_transfer_amount cfg (currency src) = Inr limit"
    "\<not> dlt limit (rq_amount req)" "\<not> dlt (balance src) (rq_amount req)"
  using assms
  by (auto simp: transfer_refusal_def open_account_def get_max_transfer_amount_def validate_currency_def dlt_iff
      split: if_splits)


lemma abs_close: "2 * \<bar>a - b\<bar> \<le> u \<Longrightarrow> 0 < u \<Longrightarrow> \<bar>a\<bar> < \<bar>b\<bar> + (u::rat)"
  by (cases "a \<le> b"; cases "0 \<le> a"; cases "0 \<le> b") auto

lemma round_numeric_accepts:
  assumes "in_range p s (dval d)" shows "\<exists>d'. round_numeric p s d = Inr d'"
proof -
  let ?q = "rescale ROUND_HALF_UP (- int s) d" and ?u = "10 powi (- int s) :: rat"
  have u: "0 < ?u" by (simp add: power_int_def)
  have "\<bar>dval ?q\<bar> < \<bar>dval d\<bar> + ?u" by (rule abs_close[OF rescale_error u])
  also have "\<dots> \<le> 10 powi (int p - int s)" using assms by (simp add: in_range_def)
  also have "\<dots> = of_int (10 ^ p) * ?u" using power_int_add[of "10::rat" "int p" "- int s"] by simp
  finally have "of_int \<bar>coeff ?q\<bar> * ?u < of_int (10 ^ p) * ?u" using u by (simp add: dval_def abs_mult)
  then have "of_int \<bar>coeff ?q\<bar> < (of_int (10 ^ p) :: rat)" using u mult_less_cancel_right_pos by blast
  then have "\<bar>coeff ?q\<bar> < 10 ^ p" by (simp only: of_int_less_iff)
  then show ?thesis by (simp add: round_numeric_def Let_def)
qed

lemma strict_column_law: "column_law strict_env"
  using round_numeric_accepts by (simp add: column_law_def strict_env_def lenient_env_def)

lemma sample_quantized: "quantize ROUND_HALF_EVEN (- 4) (dmul (Dec 125 (-1)) (Dec 1085 (-3))) = Some (Dec 135625 (-4))"
  by code_simp


end
