(* ===== verification/PyText.thy ===== *)
theory PyText
  imports Decimal
begin

text \<open>
  Python's \<open>str\<close> operations and \<open>float\<close>s as the workflow engine uses them. A string is a list of code
  points below 256, so the character classes are those of Latin-1. A float is a finite double
  (an odd mantissa and a power of two, or zero), the negative zero, or an infinity; a NaN, which
  only YAML's \<open>.nan\<close> could put into a workflow, is not represented. The limit of 4300 digits on
  conversions between \<open>int\<close> and \<open>str\<close> is left out.
\<close>

section \<open>Character classes\<close>

definition code_of :: "char \<Rightarrow> int" where
  "code_of c = of_char c"

text \<open>\<open>str.isspace\<close> of one character, the set \<open>strip\<close> removes.\<close>

definition py_space :: "char \<Rightarrow> bool" where
  "py_space c = (let n = code_of c in n = 32 \<or> (9 \<le> n \<and> n \<le> 13) \<or> (28 \<le> n \<and> n \<le> 31) \<or> n = 133 \<or> n = 160)"

definition ascii_alnum :: "char \<Rightarrow> bool" where
  "ascii_alnum c = (let n = code_of c in (48 \<le> n \<and> n \<le> 57) \<or> (65 \<le> n \<and> n \<le> 90) \<or> (97 \<le> n \<and> n \<le> 122))"

text \<open>The regular-expression class \<open>\w\<close>: letters, digits, fractions and superscripts of Latin-1, underscore.\<close>

definition word_char :: "char \<Rightarrow> bool" where
  "word_char c = (let n = code_of c in ascii_alnum c \<or> n = 95 \<or>
     n \<in> {170, 178, 179, 181, 185, 186, 188, 189, 190} \<or> (192 \<le> n \<and> n \<noteq> 215 \<and> n \<noteq> 247))"

text \<open>\<open>str.isdigit\<close> of one character also holds for the superscripts one, two and three.\<close>

definition isdigit_char :: "char \<Rightarrow> bool" where
  "isdigit_char c \<longleftrightarrow> is_digit c \<or> code_of c \<in> {178, 179, 185}"

definition lower_char :: "char \<Rightarrow> char" where
  "lower_char c = (let n = code_of c in
     if (65 \<le> n \<and> n \<le> 90) \<or> (192 \<le> n \<and> n \<le> 222 \<and> n \<noteq> 215) then char_of (n + 32) else c)"

text \<open>Characters \<open>repr\<close> prints as they are.\<close>

definition printable :: "char \<Rightarrow> bool" where
  "printable c = (let n = code_of c in (32 \<le> n \<and> n < 127) \<or> (160 < n \<and> n \<noteq> 173))"

section \<open>Strings\<close>

definition py_strip :: "string \<Rightarrow> string" where
  "py_strip s = rev (dropWhile py_space (rev (dropWhile py_space s)))"

definition py_lower :: "string \<Rightarrow> string" where
  "py_lower s = map lower_char s"

definition starts_with :: "string \<Rightarrow> string \<Rightarrow> bool" where
  "starts_with p s \<longleftrightarrow> take (length p) s = p"

definition ends_with :: "string \<Rightarrow> string \<Rightarrow> bool" where
  "ends_with p s \<longleftrightarrow> starts_with (rev p) (rev s)"

text \<open>\<open>s.split(sep, 1)\<close>: what is before and after the first occurrence, if there is one.\<close>

fun split1 :: "string \<Rightarrow> string \<Rightarrow> (string \<times> string) option" where
  "split1 sep [] = (if sep = [] then Some ([], []) else None)"
| "split1 sep (c # cs) =
     (if starts_with sep (c # cs) then Some ([], drop (length sep) (c # cs))
      else map_option (\<lambda>(a, b). (c # a, b)) (split1 sep cs))"

definition has_sub :: "string \<Rightarrow> string \<Rightarrow> bool" where
  "has_sub p s \<longleftrightarrow> split1 p s \<noteq> None"

text \<open>\<open>s.split(c)\<close> for a one-character separator.\<close>

fun split_on :: "char \<Rightarrow> string \<Rightarrow> string list" where
  "split_on sep [] = [[]]"
| "split_on sep (c # cs) =
     (if c = sep then [] # split_on sep cs
      else (case split_on sep cs of [] \<Rightarrow> [[c]] | p # ps \<Rightarrow> (c # p) # ps))"

lemma split1_Some: "split1 sep s = Some (a, b) \<Longrightarrow> s = a @ sep @ b"
proof (induction s arbitrary: a)
  case (Cons c cs)
  show ?case
  proof (cases "starts_with sep (c # cs)")
    case True
    with Cons.prems have "a = []" "b = drop (length sep) (c # cs)" by simp_all
    moreover have "take (length sep) (c # cs) = sep" using True by (simp add: starts_with_def)
    ultimately show ?thesis using append_take_drop_id[of "length sep" "c # cs"] by simp
  qed (use Cons in auto)
qed (simp split: if_splits)

lemma split1_shorter:
  assumes "split1 sep s = Some (a, b)" "sep \<noteq> []"
  shows "length a < length s" "length b < length s"
  using split1_Some[OF assms(1)] assms(2) by (cases sep; simp)+

lemma length_strip: "length (py_strip s) \<le> length s"
  unfolding py_strip_def by (metis length_rev length_dropWhile_le le_trans)

lemma split_on_shorter: "p \<in> set (split_on sep s) \<Longrightarrow> length p \<le> length s"
proof (induction s arbitrary: p)
  case (Cons c cs)
  then show ?case by (cases "split_on sep cs") (fastforce split: if_splits)+
qed simp

section \<open>Numbers as text\<close>

text \<open>An underscore is allowed between two digits.\<close>

fun underscores_ok :: "bool \<Rightarrow> string \<Rightarrow> bool" where
  "underscores_ok p [] = True"
| "underscores_ok p (c # cs) =
     (if c = CHR ''_'' then p \<and> (case cs of [] \<Rightarrow> False | d # _ \<Rightarrow> is_digit d) \<and> underscores_ok False cs
      else underscores_ok (is_digit c) cs)"

definition no_underscores :: "string \<Rightarrow> string" where
  "no_underscores s = List.filter (\<lambda>c. c \<noteq> CHR ''_'') s"

text \<open>\<open>int(text)\<close>; \<open>None\<close> is the \<open>ValueError\<close>.\<close>

definition parse_int :: "string \<Rightarrow> int option" where
  "parse_int s =
     (case take_sign (py_strip s) of (neg, r) \<Rightarrow>
        let ds = no_underscores r in
        if underscores_ok False r \<and> ds \<noteq> [] \<and> list_all is_digit ds
        then Some ((if neg then -1 else 1) * digits_val 0 ds) else None)"

section \<open>Doubles\<close>

text \<open>\<open>Fin m e\<close> is \<open>m * 2 ^ e\<close> with \<open>m\<close> odd, or \<open>Fin 0 0\<close>; \<open>Inf True\<close> is minus infinity.\<close>

datatype pyfloat = Fin int int | NegZero | Inf bool

function nbits :: "int \<Rightarrow> int" where
  "nbits n = (if n < 1 then 0 else 1 + nbits (n div 2))"
  by pat_completeness auto
termination by (relation "measure nat") auto

declare nbits.simps [simp del]

function odd_part :: "int \<Rightarrow> int \<Rightarrow> int \<times> int" where
  "odd_part m e = (if m = 0 then (0, 0) else if even m then odd_part (m div 2) (e + 1) else (m, e))"
  by pat_completeness auto
termination by (relation "measure (\<lambda>(m, e). nat \<bar>m\<bar>)") auto

declare odd_part.simps [simp del]

text \<open>The double nearest to \<open>n / d\<close> (\<open>0 < d\<close>), ties to even, with the sign of \<open>neg\<close> for zeros.\<close>

definition nearest_double :: "bool \<Rightarrow> int \<Rightarrow> int \<Rightarrow> pyfloat" where
  "nearest_double neg a d =
     (if a = 0 then (if neg then NegZero else Fin 0 0)
      else let e0 = nbits a - nbits d - 53;
               big = (if 0 \<le> e0 then a div (d * 2 ^ nat e0) else (a * 2 ^ nat (- e0)) div d);
               e = max (if 2 ^ 53 \<le> big then e0 + 1 else e0) (- 1074);
               q = (if 0 \<le> e then round_div ROUND_HALF_EVEN a (d * 2 ^ nat e)
                    else round_div ROUND_HALF_EVEN (a * 2 ^ nat (- e)) d)
           in case odd_part q e of (m, x) \<Rightarrow>
              if m = 0 then (if neg then NegZero else Fin 0 0)
              else if 1024 < nbits m + x then Inf neg
              else Fin (if neg then - m else m) x)"

text \<open>\<open>float(n)\<close> of an \<open>int\<close>: \<open>None\<close> is the \<open>OverflowError\<close>.\<close>

definition float_of_int :: "int \<Rightarrow> pyfloat option" where
  "float_of_int n = (case nearest_double (n < 0) \<bar>n\<bar> 1 of Inf _ \<Rightarrow> None | f \<Rightarrow> Some f)"

definition double_of_decimal :: "bool \<Rightarrow> decimal \<Rightarrow> pyfloat" where
  "double_of_decimal neg d =
     (if 0 \<le> dexp d then nearest_double neg (\<bar>coeff d\<bar> * 10 ^ nat (dexp d)) 1
      else nearest_double neg \<bar>coeff d\<bar> (10 ^ nat (- dexp d)))"

text \<open>\<open>float(text)\<close>: a number, not-a-number, or the \<open>ValueError\<close>.\<close>

datatype float_text = IsFloat pyfloat | IsNan | NotFloat

definition parse_float :: "string \<Rightarrow> float_text" where
  "parse_float s =
     (case take_sign (py_strip s) of (neg, r) \<Rightarrow>
        if py_lower r \<in> {''inf'', ''infinity''} then IsFloat (Inf neg)
        else if py_lower r = ''nan'' then IsNan
        else if \<not> underscores_ok False r \<or> (case r of [] \<Rightarrow> True | c # _ \<Rightarrow> c = CHR ''-'' \<or> c = CHR ''+'') then NotFloat
        else (case parse_decimal r of None \<Rightarrow> NotFloat | Some d \<Rightarrow> IsFloat (double_of_decimal neg d)))"

text \<open>Order: the sign of the difference, infinities included.\<close>

fun float_cmp :: "pyfloat \<Rightarrow> pyfloat \<Rightarrow> int" where
  "float_cmp (Inf a) (Inf b) = (if a = b then 0 else if a then -1 else 1)"
| "float_cmp (Inf a) f = (if a then -1 else 1)"
| "float_cmp f (Inf b) = (if b then 1 else -1)"
| "float_cmp NegZero NegZero = 0"
| "float_cmp NegZero (Fin n y) = - sgn n"
| "float_cmp (Fin m x) NegZero = sgn m"
| "float_cmp (Fin m x) (Fin n y) = (let e = min x y in sgn (m * 2 ^ nat (x - e) - n * 2 ^ nat (y - e)))"

text \<open>An \<open>int\<close> next to a float is compared exactly, not converted.\<close>

definition exact_num :: "int \<Rightarrow> pyfloat" where
  "exact_num n = Fin n 0"

text \<open>\<open>int(f)\<close> truncates; \<open>None\<close> is the \<open>OverflowError\<close> of an infinity.\<close>

fun trunc_float :: "pyfloat \<Rightarrow> int option" where
  "trunc_float (Inf _) = None"
| "trunc_float NegZero = Some 0"
| "trunc_float (Fin m e) =
     Some (if 0 \<le> e then m * 2 ^ nat e else sgn m * (\<bar>m\<bar> div 2 ^ nat (- e)))"

subsection \<open>\<open>repr\<close> of a float\<close>

text \<open>The decimal with \<open>n\<close> digits next to the exact value \<open>c * 10 ^ x\<close> that reads back as \<open>f\<close>, if there is one.\<close>

definition digits_at :: "pyfloat \<Rightarrow> int \<Rightarrow> int \<Rightarrow> nat \<Rightarrow> decimal option" where
  "digits_at f c x n =
     (let k = idigits c; s = k - n; lo = c div 10 ^ s; near = round_div ROUND_HALF_EVEN c (10 ^ s);
          other = (if near = lo then lo + 1 else lo); y = x + int s
      in if double_of_decimal False (Dec near y) = f then Some (Dec near y)
         else if double_of_decimal False (Dec other y) = f then Some (Dec other y) else None)"

fun first_some :: "('a \<Rightarrow> 'b option) \<Rightarrow> 'a list \<Rightarrow> 'b option" where
  "first_some f [] = None"
| "first_some f (x # xs) = (case f x of Some y \<Rightarrow> Some y | None \<Rightarrow> first_some f xs)"

definition exact_decimal :: "int \<Rightarrow> int \<Rightarrow> decimal" where
  "exact_decimal m e = (if 0 \<le> e then Dec (m * 2 ^ nat e) 0 else Dec (m * 5 ^ nat (- e)) e)"

definition strip_trailing_zeros :: "string \<Rightarrow> string" where
  "strip_trailing_zeros s = rev (dropWhile (\<lambda>c. c = CHR ''0'') (rev s))"

text \<open>The shortest digits that read back as the float, in fixed notation from \<open>1e-4\<close> up to \<open>1e16\<close>.\<close>

definition show_positive :: "int \<Rightarrow> int \<Rightarrow> string" where
  "show_positive m e =
     (let v = exact_decimal m e;
          d = (case first_some (digits_at (Fin m e) (coeff v) (dexp v)) [1..<18] of Some d \<Rightarrow> d | None \<Rightarrow> v);
          all_ds = show_digits (coeff d); point = int (length all_ds) + dexp d;
          ds = strip_trailing_zeros all_ds; k = int (length ds); ex = point - 1
      in if - 4 < point \<and> point \<le> 16
         then (if point \<le> 0 then ''0.'' @ zeros (nat (- point)) @ ds
               else if k \<le> point then ds @ zeros (nat (point - k)) @ ''.0''
               else take (nat point) ds @ ''.'' @ drop (nat point) ds)
         else take 1 ds @ (if 1 < k then ''.'' @ drop 1 ds else '''') @ ''e'' @ (if ex < 0 then ''-'' else ''+'') @
              (if \<bar>ex\<bar> < 10 then ''0'' else '''') @ show_digits \<bar>ex\<bar>)"

fun show_float :: "pyfloat \<Rightarrow> string" where
  "show_float (Inf neg) = (if neg then ''-inf'' else ''inf'')"
| "show_float NegZero = ''-0.0''"
| "show_float (Fin m e) =
     (if m = 0 then ''0.0'' else if m < 0 then ''-'' @ show_positive (- m) e else show_positive m e)"

end
