(* ===== verification/PyVal.thy ===== *)
theory PyVal
  imports PyText
begin

text \<open>
  Python values as the workflow engine handles them: what YAML and JSON documents and the expression
  language produce. \<open>PDict\<close> is a dictionary in insertion order; its keys are whatever the document
  has. Operations that raise return \<open>Inl\<close>; the text of an exception the interpreter itself raises
  (\<open>TypeError\<close>, \<open>AttributeError\<close>) is left empty, the text of one the program raises is not.
\<close>

datatype pyexn = PyExc string string | KeyboardInterrupt

abbreviation type_error :: pyexn where
  "type_error \<equiv> PyExc ''TypeError'' ''''"

abbreviation attribute_error :: pyexn where
  "attribute_error \<equiv> PyExc ''AttributeError'' ''''"

abbreviation value_error :: "string \<Rightarrow> pyexn" where
  "value_error msg \<equiv> PyExc ''ValueError'' msg"

datatype pyval =
    PNone
  | PBool bool
  | PInt int
  | PFloat pyfloat
  | PStr string
  | PList "pyval list"
  | PDict "(pyval \<times> pyval) list"

type_synonym 'a py = "(pyexn, 'a) res"

lemma size_pair [termination_simp]:
  "(k, v) \<in> set d \<Longrightarrow> size k < Suc (size_list (size_prod size size) d)"
  "(k, v) \<in> set d \<Longrightarrow> size v < Suc (size_list (size_prod size size) d)"
  by (induction d) auto

lemma size_zip [termination_simp]:
  "(x, y) \<in> set (zip xs ys) \<Longrightarrow> size x < Suc (size_list size xs)"
  "(x, y) \<in> set (zip xs ys) \<Longrightarrow> size y < Suc (size_list size ys)"
proof -
  have le: "z \<in> set zs \<Longrightarrow> size z < Suc (size_list size zs)" for z :: 'a and zs
    using size_list_estimation'[of z zs "size z" size] by simp
  show "(x, y) \<in> set (zip xs ys) \<Longrightarrow> size x < Suc (size_list size xs)"
    by (rule le) (rule set_zip_leftD)
qed (use size_list_estimation'[of y ys "size y" size] set_zip_rightD in \<open>fastforce simp: less_Suc_eq_le\<close>)

section \<open>Types and truth\<close>

fun type_name :: "pyval \<Rightarrow> string" where
  "type_name PNone = ''NoneType''"
| "type_name (PBool _) = ''bool''"
| "type_name (PInt _) = ''int''"
| "type_name (PFloat _) = ''float''"
| "type_name (PStr _) = ''str''"
| "type_name (PList _) = ''list''"
| "type_name (PDict _) = ''dict''"

fun truthy :: "pyval \<Rightarrow> bool" where
  "truthy PNone = False"
| "truthy (PBool b) = b"
| "truthy (PInt n) = (n \<noteq> 0)"
| "truthy (PFloat f) = (f \<noteq> Fin 0 0 \<and> f \<noteq> NegZero)"
| "truthy (PStr s) = (s \<noteq> [])"
| "truthy (PList xs) = (xs \<noteq> [])"
| "truthy (PDict d) = (d \<noteq> [])"

text \<open>\<open>a or b\<close>.\<close>

definition py_or :: "pyval \<Rightarrow> pyval \<Rightarrow> pyval" where
  "py_or a b = (if truthy a then a else b)"

fun is_str :: "pyval \<Rightarrow> bool" where "is_str (PStr _) = True" | "is_str _ = False"
fun is_bool :: "pyval \<Rightarrow> bool" where "is_bool (PBool _) = True" | "is_bool _ = False"
fun is_list :: "pyval \<Rightarrow> bool" where "is_list (PList _) = True" | "is_list _ = False"
fun is_dict :: "pyval \<Rightarrow> bool" where "is_dict (PDict _) = True" | "is_dict _ = False"

text \<open>\<open>isinstance(v, int)\<close>: a \<open>bool\<close> is an \<open>int\<close>.\<close>

fun as_int :: "pyval \<Rightarrow> int option" where
  "as_int (PInt n) = Some n"
| "as_int (PBool b) = Some (if b then 1 else 0)"
| "as_int _ = None"

fun as_num :: "pyval \<Rightarrow> pyfloat option" where
  "as_num (PFloat f) = Some f"
| "as_num v = map_option exact_num (as_int v)"

section \<open>Equality and order\<close>

text \<open>\<open>==\<close>: numbers by value, whatever their type; dictionaries whatever their order.\<close>

fun py_eq :: "pyval \<Rightarrow> pyval \<Rightarrow> bool" where
  "py_eq (PList xs) (PList ys) = (length xs = length ys \<and> list_all (\<lambda>(x, y). py_eq x y) (zip xs ys))"
| "py_eq (PDict d) (PDict e) =
     (length d = length e \<and> list_all (\<lambda>(k, v). list_ex (\<lambda>(k', v'). py_eq k k' \<and> py_eq v v') e) d)"
| "py_eq (PStr s) (PStr t) = (s = t)"
| "py_eq PNone PNone = True"
| "py_eq v w = (case (as_num v, as_num w) of (Some f, Some g) \<Rightarrow> float_cmp f g = 0 | _ \<Rightarrow> False)"

datatype cmp_op = Gt | Lt | Ge | Le

fun cmp_holds :: "cmp_op \<Rightarrow> int \<Rightarrow> bool" where
  "cmp_holds Gt c = (0 < c)"
| "cmp_holds Lt c = (c < 0)"
| "cmp_holds Ge c = (0 \<le> c)"
| "cmp_holds Le c = (c \<le> 0)"

fun str_cmp :: "string \<Rightarrow> string \<Rightarrow> int" where
  "str_cmp [] [] = 0"
| "str_cmp [] (_ # _) = -1"
| "str_cmp (_ # _) [] = 1"
| "str_cmp (c # cs) (d # ds) = (if c = d then str_cmp cs ds else sgn (code_of c - code_of d))"

text \<open>The ordering operators; \<open>None\<close> is the \<open>TypeError\<close>. Lists compare at their first difference.\<close>

fun py_compare :: "cmp_op \<Rightarrow> pyval \<Rightarrow> pyval \<Rightarrow> bool option" and
  list_compare :: "cmp_op \<Rightarrow> pyval list \<Rightarrow> pyval list \<Rightarrow> bool option" where
  "py_compare p (PStr s) (PStr t) = Some (cmp_holds p (str_cmp s t))"
| "py_compare p (PList xs) (PList ys) = list_compare p xs ys"
| "py_compare p v w =
     (case (as_num v, as_num w) of (Some f, Some g) \<Rightarrow> Some (cmp_holds p (float_cmp f g)) | _ \<Rightarrow> None)"
| "list_compare p [] [] = Some (cmp_holds p 0)"
| "list_compare p [] (_ # _) = Some (cmp_holds p (-1))"
| "list_compare p (_ # _) [] = Some (cmp_holds p 1)"
| "list_compare p (x # xs) (y # ys) = (if py_eq x y then list_compare p xs ys else py_compare p x y)"

section \<open>Text of a value\<close>

definition hex_digit :: "int \<Rightarrow> char" where
  "hex_digit n = (if n < 10 then char_of (48 + n) else char_of (87 + n))"

definition repr_char :: "char \<Rightarrow> char \<Rightarrow> string" where
  "repr_char q c =
     (if c = q \<or> c = CHR 0x5C then [CHR 0x5C, c]
      else if code_of c = 9 then [CHR 0x5C, CHR ''t'']
      else if code_of c = 10 then [CHR 0x5C, CHR ''n'']
      else if code_of c = 13 then [CHR 0x5C, CHR ''r'']
      else if printable c then [c]
      else [CHR 0x5C, CHR ''x'', hex_digit (code_of c div 16), hex_digit (code_of c mod 16)])"

definition quote_char :: char where "quote_char = CHR 0x27"
definition dquote_char :: char where "dquote_char = CHR 0x22"

definition repr_str :: "string \<Rightarrow> string" where
  "repr_str s =
     (let q = (if quote_char \<in> set s \<and> dquote_char \<notin> set s then dquote_char else quote_char)
      in [q] @ concat (map (repr_char q) s) @ [q])"

fun py_repr :: "pyval \<Rightarrow> string" where
  "py_repr PNone = ''None''"
| "py_repr (PBool b) = (if b then ''True'' else ''False'')"
| "py_repr (PInt n) = show_int n"
| "py_repr (PFloat f) = show_float f"
| "py_repr (PStr s) = repr_str s"
| "py_repr (PList xs) = ''['' @ join_with '', '' (map py_repr xs) @ '']''"
| "py_repr (PDict d) = ''{'' @ join_with '', '' (map (\<lambda>(k, v). py_repr k @ '': '' @ py_repr v) d) @ ''}''"

text \<open>\<open>str(v)\<close>.\<close>

definition py_str :: "pyval \<Rightarrow> string" where
  "py_str v = (case v of PStr s \<Rightarrow> s | _ \<Rightarrow> py_repr v)"

section \<open>Containers\<close>

definition list_mem :: "pyval \<Rightarrow> pyval list \<Rightarrow> bool" where
  "list_mem v xs = list_ex (py_eq v) xs"

fun hashable :: "pyval \<Rightarrow> bool" where
  "hashable (PList _) = False"
| "hashable (PDict _) = False"
| "hashable _ = True"

fun assoc_get :: "(pyval \<times> 'a) list \<Rightarrow> pyval \<Rightarrow> 'a option" where
  "assoc_get [] k = None"
| "assoc_get ((k', v) # d) k = (if py_eq k' k then Some v else assoc_get d k)"

text \<open>\<open>d[k] = v\<close> keeps the place and the key object of an equal key.\<close>

fun assoc_set :: "pyval \<Rightarrow> 'a \<Rightarrow> (pyval \<times> 'a) list \<Rightarrow> (pyval \<times> 'a) list" where
  "assoc_set k v [] = [(k, v)]"
| "assoc_set k v ((k', v') # d) = (if py_eq k' k then (k', v) # d else (k', v') # assoc_set k v d)"

text \<open>\<open>a.update(b)\<close>, \<open>{**a, **b}\<close>.\<close>

definition assoc_update :: "(pyval \<times> 'a) list \<Rightarrow> (pyval \<times> 'a) list \<Rightarrow> (pyval \<times> 'a) list" where
  "assoc_update d e = fold (\<lambda>(k, v). assoc_set k v) e d"

text \<open>\<open>config.get(name, default)\<close> and \<open>name in config\<close> of a mapping, with a string for the key.\<close>

definition field :: "(pyval \<times> pyval) list \<Rightarrow> string \<Rightarrow> pyval option" where
  "field d name = assoc_get d (PStr name)"

definition get_or :: "(pyval \<times> pyval) list \<Rightarrow> string \<Rightarrow> pyval \<Rightarrow> pyval" where
  "get_or d name dflt = (case field d name of Some v \<Rightarrow> v | None \<Rightarrow> dflt)"

abbreviation get_none :: "(pyval \<times> pyval) list \<Rightarrow> string \<Rightarrow> pyval" where
  "get_none d name \<equiv> get_or d name PNone"

definition has_field :: "(pyval \<times> pyval) list \<Rightarrow> string \<Rightarrow> bool" where
  "has_field d name \<longleftrightarrow> field d name \<noteq> None"

text \<open>A dictionary with string keys, written down.\<close>

definition obj :: "(string \<times> pyval) list \<Rightarrow> (pyval \<times> pyval) list" where
  "obj d = map (\<lambda>(k, v). (PStr k, v)) d"

text \<open>An attribute only mappings have (\<open>v.get\<close>, \<open>v.items\<close>): \<open>AttributeError\<close> on anything else.\<close>

fun as_dict :: "pyval \<Rightarrow> (pyval \<times> pyval) list py" where
  "as_dict (PDict d) = Inr d"
| "as_dict _ = Inl attribute_error"

text \<open>\<open>for x in v\<close>.\<close>

fun py_iter :: "pyval \<Rightarrow> pyval list py" where
  "py_iter (PList xs) = Inr xs"
| "py_iter (PStr s) = Inr (map (\<lambda>c. PStr [c]) s)"
| "py_iter (PDict d) = Inr (map fst d)"
| "py_iter _ = Inl type_error"

text \<open>\<open>v in container\<close>.\<close>

fun py_in :: "pyval \<Rightarrow> pyval \<Rightarrow> bool py" where
  "py_in v (PList xs) = Inr (list_mem v xs)"
| "py_in v (PStr t) = (case v of PStr s \<Rightarrow> Inr (has_sub s t) | _ \<Rightarrow> Inl type_error)"
| "py_in v (PDict d) = (if hashable v then Inr (assoc_get d v \<noteq> None) else Inl type_error)"
| "py_in v _ = Inl type_error"

text \<open>\<open>len(v)\<close> and \<open>v[i]\<close>; a negative index counts from the end.\<close>

fun py_len :: "pyval \<Rightarrow> int py" where
  "py_len (PList xs) = Inr (int (length xs))"
| "py_len (PStr s) = Inr (int (length s))"
| "py_len (PDict d) = Inr (int (length d))"
| "py_len _ = Inl type_error"

definition seq_index :: "'a list \<Rightarrow> int \<Rightarrow> 'a py" where
  "seq_index xs i =
     (let j = (if i < 0 then i + int (length xs) else i)
      in if 0 \<le> j \<and> nat j < length xs then Inr (xs ! nat j) else Inl (PyExc ''IndexError'' ''''))"

fun py_index :: "pyval \<Rightarrow> int \<Rightarrow> pyval py" where
  "py_index (PList xs) i = seq_index xs i"
| "py_index (PStr s) i = rbind (seq_index s i) (\<lambda>c. Inr (PStr [c]))"
| "py_index (PDict d) i =
     (case assoc_get d (PInt i) of Some v \<Rightarrow> Inr v | None \<Rightarrow> Inl (PyExc ''KeyError'' (show_int i)))"
| "py_index _ i = Inl type_error"

section \<open>JSON\<close>

text \<open>
  The value \<open>json.load\<close> reads back from what \<open>json.dump\<close> wrote: keys become strings, and of several
  keys with one text the last value wins at the place of the first.
\<close>

definition json_key :: "pyval \<Rightarrow> string" where
  "json_key k =
     (case k of PStr s \<Rightarrow> s | PBool b \<Rightarrow> if b then ''true'' else ''false'' | PNone \<Rightarrow> ''null'' | _ \<Rightarrow> py_repr k)"

fun to_json :: "pyval \<Rightarrow> pyval" where
  "to_json (PList xs) = PList (map to_json xs)"
| "to_json (PDict d) = PDict (assoc_update [] (map (\<lambda>(k, v). (PStr (json_key k), to_json v)) d))"
| "to_json v = v"

text \<open>Values that are JSON already: string keys, each once.\<close>

fun is_json :: "pyval \<Rightarrow> bool" where
  "is_json (PList xs) = list_all is_json xs"
| "is_json (PDict d) = (list_all is_str (map fst d) \<and> distinct (map fst d) \<and> list_all (\<lambda>(k, v). is_json v) d)"
| "is_json v = True"

lemma py_eq_str [simp]: "py_eq v (PStr t) \<longleftrightarrow> v = PStr t"
  by (cases v) auto

lemma is_str_iff: "is_str v \<longleftrightarrow> (\<exists>t. v = PStr t)"
  by (cases v) auto

lemma py_eq_str': "py_eq (PStr t) v \<longleftrightarrow> v = PStr t"
  by (cases v) auto

lemma assoc_get_set_str: "assoc_get (assoc_set k v d) (PStr i) = (if k = PStr i then Some v else assoc_get d (PStr i))"
  by (induction d) (auto simp: py_eq_str')

lemma assoc_get_append: "assoc_get (d @ e) k = (case assoc_get d k of Some v \<Rightarrow> Some v | None \<Rightarrow> assoc_get e k)"
  by (induction d) auto

lemma assoc_get_update:
  "assoc_get (assoc_update m ws) (PStr i) = (case assoc_get (rev ws) (PStr i) of Some v \<Rightarrow> Some v | None \<Rightarrow> assoc_get m (PStr i))"
proof (induction ws arbitrary: m)
  case (Cons w ws)
  obtain k v where w: "w = (k, v)" by (cases w)
  have "assoc_get (assoc_update m (w # ws)) (PStr i) = assoc_get (assoc_update (assoc_set k v m) ws) (PStr i)"
    by (simp add: assoc_update_def w)
  then show ?case by (simp add: Cons.IH assoc_get_append w assoc_get_set_str py_eq_str' split: option.split)
qed (simp add: assoc_update_def)

lemma assoc_set_fresh:
  "list_all is_str (map fst d) \<Longrightarrow> PStr k \<notin> fst ` set d \<Longrightarrow> assoc_set (PStr k) v d = d @ [(PStr k, v)]"
  by (induction d) (auto simp: is_str_iff)

lemma assoc_update_fresh:
  "list_all is_str (map fst d) \<Longrightarrow> list_all is_str (map fst e) \<Longrightarrow> distinct (map fst d @ map fst e) \<Longrightarrow>
     assoc_update d e = d @ e"
proof (induction e arbitrary: d)
  case (Cons x e)
  obtain k v where x: "x = (PStr k, v)" using Cons.prems(2) by (cases x) (auto simp: is_str_iff)
  have "assoc_set (PStr k) v d = d @ [x]"
    using Cons.prems(1,3) by (subst assoc_set_fresh) (auto simp: x)
  then have "assoc_update d (x # e) = assoc_update (d @ [x]) e"
    by (simp add: assoc_update_def x)
  also have "\<dots> = (d @ [x]) @ e"
    using Cons.prems by (intro Cons.IH) (auto simp: x)
  finally show ?case by simp
qed (simp add: assoc_update_def)

lemma is_json_item: "is_json (PList xs) \<Longrightarrow> x \<in> set xs \<Longrightarrow> is_json x"
  by (simp add: list_all_iff)

lemma is_json_entry: "is_json (PDict d) \<Longrightarrow> (k, v) \<in> set d \<Longrightarrow> is_str k \<and> is_json v"
  by (auto simp: list_all_iff)

lemma to_json_id: "is_json v \<Longrightarrow> to_json v = v"
proof (induction v)
  case (PList xs)
  have "to_json x = x" if "x \<in> set xs" for x
    using PList.IH[OF that] is_json_item[OF PList.prems that] .
  then show ?case by (simp cong: map_cong)
next
  case (PDict d)
  have "(case x of (k, v) \<Rightarrow> (PStr (json_key k), to_json v)) = x" if x: "x \<in> set d" for x
  proof -
    obtain k v where kv: "x = (k, v)" by (cases x)
    have j: "is_str k" "is_json v" using is_json_entry[OF PDict.prems] x kv by auto
    have "to_json v = v" by (rule PDict.IH[OF x _ j(2)]) (simp add: kv)
    with kv j(1) show ?thesis by (auto simp: json_key_def is_str_iff)
  qed
  then have "map (\<lambda>(k, v). (PStr (json_key k), to_json v)) d = d" by (intro map_idI) auto
  moreover have "assoc_update [] d = [] @ d"
    using PDict.prems by (intro assoc_update_fresh) simp_all
  ultimately show ?case by simp
qed simp_all

lemma distinct_obj: "distinct (map fst (obj d)) \<longleftrightarrow> distinct (map fst d)"
  by (induction d) (auto simp: obj_def image_iff)

lemma to_json_obj:
  assumes "distinct (map fst d)"
  shows "to_json (PDict (obj d)) = PDict (obj (map (\<lambda>(k, v). (k, to_json v)) d))"
proof -
  have "map (\<lambda>(k, v). (PStr (json_key k), to_json v)) (obj d) = obj (map (\<lambda>(k, v). (k, to_json v)) d)"
    by (simp add: obj_def json_key_def split_def)
  moreover have "distinct (map fst (obj (map (\<lambda>(k, v). (k, to_json v)) d)))"
    using assms by (simp add: distinct_obj split_def comp_def)
  then have "assoc_update [] (obj (map (\<lambda>(k, v). (k, to_json v)) d)) = [] @ obj (map (\<lambda>(k, v). (k, to_json v)) d)"
    by (intro assoc_update_fresh) (auto simp: obj_def list_all_iff)
  ultimately show ?thesis by simp
qed

section \<open>Nesting\<close>

text \<open>How deep lists and mappings are nested: what bounds the recursion of the engine.\<close>

fun depth :: "pyval \<Rightarrow> nat" where
  "depth (PList xs) = Suc (foldr max (map depth xs) 0)"
| "depth (PDict d) = Suc (foldr max (map (\<lambda>(k, v). max (depth k) (depth v)) d) 0)"
| "depth _ = 0"

lemma le_foldr_max: "n \<in> set ns \<Longrightarrow> n \<le> foldr max ns (0::nat)"
  by (induction ns) auto

lemma foldr_max_le: "(\<And>n. n \<in> set ns \<Longrightarrow> n \<le> b) \<Longrightarrow> foldr max ns (0::nat) \<le> b"
  by (induction ns) auto

lemma depth_item: "x \<in> set xs \<Longrightarrow> depth x < depth (PList xs)"
  using le_foldr_max[of "depth x" "map depth xs"] by auto

lemma depth_entry:
  assumes "(k, v) \<in> set d"
  shows "depth k < depth (PDict d)" "depth v < depth (PDict d)"
  using le_foldr_max[of "max (depth k) (depth v)" "map (\<lambda>(k, v). max (depth k) (depth v)) d"] assms by force+

lemma depth_dict_le:
  assumes "\<And>k v. (k, v) \<in> set d \<Longrightarrow> depth k < n \<and> depth v < n" "0 < n"
  shows "depth (PDict d) \<le> n"
  using assms foldr_max_le[of "map (\<lambda>(k, v). max (depth k) (depth v)) d" "n - 1"] by (fastforce simp: Suc_le_eq)

lemma assoc_set_mem: "(a, b) \<in> set (assoc_set k v d) \<Longrightarrow> (a, b) \<in> set d \<or> (a = k \<or> (\<exists>c. (a, c) \<in> set d)) \<and> b = v"
  by (induction d) (auto split: if_splits)

lemma depth_assoc_set: "depth (PDict (assoc_set (PStr k) (PStr v) d)) \<le> depth (PDict d)"
proof (rule depth_dict_le)
  fix a b assume "(a, b) \<in> set (assoc_set (PStr k) (PStr v) d)"
  then show "depth a < depth (PDict d) \<and> depth b < depth (PDict d)"
    by (auto dest!: assoc_set_mem simp del: depth.simps(2) dest: depth_entry) simp_all
qed simp

lemma depth_iter: "py_iter v = Inr xs \<Longrightarrow> x \<in> set xs \<Longrightarrow> depth x \<le> depth v"
proof (cases v)
  case (PDict d)
  assume "py_iter v = Inr xs" "x \<in> set xs"
  with PDict obtain w where "(x, w) \<in> set d" by auto
  with PDict show ?thesis using depth_entry(1)[of x w d] by simp
qed (auto simp del: depth.simps(1) dest: depth_item intro: less_imp_le)

lemma assoc_get_mem: "assoc_get d k = Some v \<Longrightarrow> \<exists>k'. (k', v) \<in> set d"
  by (induction d) (auto split: if_splits)

lemma depth_field: "field d name = Some v \<Longrightarrow> depth v < depth (PDict d)"
  unfolding field_def by (blast dest: assoc_get_mem intro: depth_entry)

declare depth.simps(1,2) [simp del]

end
