(* ===== verification/WfBase.thy ===== *)
theory WfBase
  imports PyVal
begin

text \<open>
  \<open>workflows/base.py\<close>: the statuses, the context a step runs in and the result it returns; and running
  a fallible function over a list.
\<close>

datatype step_status = SPending | SRunning | SCompleted | SFailed | SSkipped | SPaused

fun step_status_value :: "step_status \<Rightarrow> string" where
  "step_status_value SPending = ''pending''"
| "step_status_value SRunning = ''running''"
| "step_status_value SCompleted = ''completed''"
| "step_status_value SFailed = ''failed''"
| "step_status_value SSkipped = ''skipped''"
| "step_status_value SPaused = ''paused''"

datatype run_status = RCreated | RRunning | RPaused | RCompleted | RFailed | RAborted

fun run_status_value :: "run_status \<Rightarrow> string" where
  "run_status_value RCreated = ''created''"
| "run_status_value RRunning = ''running''"
| "run_status_value RPaused = ''paused''"
| "run_status_value RCompleted = ''completed''"
| "run_status_value RFailed = ''failed''"
| "run_status_value RAborted = ''aborted''"

text \<open>\<open>RunStatus(text)\<close>; \<open>None\<close> is the \<open>ValueError\<close>.\<close>

definition parse_run_status :: "string \<Rightarrow> run_status option" where
  "parse_run_status t =
     List.find (\<lambda>st. run_status_value st = t) [RCreated, RRunning, RPaused, RCompleted, RFailed, RAborted]"

lemma parse_run_status_value [simp]: "parse_run_status (run_status_value st) = Some st"
  by (cases st) (simp_all add: parse_run_status_def)

text \<open>
  The recorded steps, by step id. An entry is a dictionary object; the number says which object it is,
  so that two ids that share one (the loop's aliases) see the same later change.
\<close>

type_synonym results = "(pyval \<times> nat \<times> pyval) list"

definition results_dict :: "results \<Rightarrow> pyval" where
  "results_dict r = PDict (map (\<lambda>(k, _, v). (k, v)) r)"

record step_context =
  ctx_inputs :: pyval
  ctx_steps :: results
  ctx_item :: pyval
  ctx_fan_in :: pyval
  ctx_default_integration :: pyval
  ctx_default_model :: pyval
  ctx_default_options :: "(pyval \<times> pyval) list"
  ctx_project_root :: string
  ctx_run_id :: string

record step_result =
  sr_status :: step_status
  sr_output :: "(pyval \<times> pyval) list"
  sr_next_steps :: pyval
  sr_error :: pyval

definition completed_with :: "(string \<times> pyval) list \<Rightarrow> pyval \<Rightarrow> step_result" where
  "completed_with out nxt =
     \<lparr>sr_status = SCompleted, sr_output = obj out, sr_next_steps = nxt, sr_error = PNone\<rparr>"

definition failed_with :: "(pyval \<times> pyval) list \<Rightarrow> string \<Rightarrow> step_result" where
  "failed_with out msg =
     \<lparr>sr_status = SFailed, sr_output = out, sr_next_steps = PList [], sr_error = PStr msg\<rparr>"

text \<open>A fallible function along a list, in order, stopping at the first exception.\<close>

fun rmap :: "('a \<Rightarrow> 'b py) \<Rightarrow> 'a list \<Rightarrow> 'b list py" where
  "rmap f [] = Inr []"
| "rmap f (x # xs) = rbind (f x) (\<lambda>y. rbind (rmap f xs) (\<lambda>ys. Inr (y # ys)))"

lemma rmap_cong [fundef_cong]: "xs = ys \<Longrightarrow> (\<And>x. x \<in> set ys \<Longrightarrow> f x = g x) \<Longrightarrow> rmap f xs = rmap g ys"
  by (induction xs arbitrary: ys) auto

section \<open>The world outside the engine\<close>

text \<open>What comes from a terminal: a line, or an interrupt; after the last one the input is at its end.\<close>

datatype answer = Line string | Break

text \<open>
  The files of one run directory: \<open>workflow.yml\<close> as text, \<open>state.json\<close> and \<open>inputs.json\<close> as the values
  they hold, \<open>log.jsonl\<close> as its entries. Writing in the project directory is taken to succeed.
  The world has a counter for the uses of the outside, the operator's answers to come, the texts a gate
  has shown (without the box around them), and the run directories by name.
\<close>

record run_files =
  rf_workflow :: "string option"
  rf_state :: "pyval option"
  rf_inputs :: "pyval option"
  rf_log :: "pyval list"

record world =
  w_tick :: nat
  w_answers :: "answer list"
  w_screen :: "string list"
  w_runs :: "(string \<times> run_files) list"

text \<open>
  \<open>subprocess.run\<close> of a shell command and of an argument vector, and an integration: its key, the argument
  vector it would run (for a prompt, a model and whether JSON output is asked for) and its
  \<open>dispatch_command\<close>. What they do is theirs: they are parameters, and the n-th use may answer differently.
\<close>

datatype shell_outcome = ShellDone int string string | ShellTimeout | ShellOSError string | ShellRaises pyexn

datatype run_outcome = RunDone int | RunInterrupted | RunOSError | RunRaises pyexn

datatype dispatch_outcome = DispatchDone int string string | DispatchUnavailable | DispatchRaises pyexn

record integration =
  ig_key :: string
  ig_exec_args :: "string \<Rightarrow> pyval \<Rightarrow> bool \<Rightarrow> string list option"
  ig_dispatch :: "nat \<Rightarrow> pyval \<Rightarrow> string \<Rightarrow> string option \<Rightarrow> pyval \<Rightarrow> dispatch_outcome"

text \<open>Reading a JSON file: what \<open>read_text\<close> and \<open>json.loads\<close> make of it.\<close>

datatype json_file = JsonAbsent | JsonOsError string | JsonDecodeError string | JsonValue pyval

text \<open>
  The environment: the project's directory, the clock's text, fresh run ids, the \<open>SPECKIT_WORKFLOW_RUN_ID\<close> variable, whether stdin
  is a terminal, executables on the path, installed integrations, processes, a text file's lines with
  the error that ends reading if one does, PyYAML's two directions,
  the installed workflow files, and the project's \<open>integration.json\<close>.
\<close>

record wenv =
  w_project_root :: string
  w_now :: "nat \<Rightarrow> string"
  w_uuid8 :: "nat \<Rightarrow> string"
  w_env_run_id :: string
  w_isatty :: bool
  w_which :: "string \<Rightarrow> bool"
  w_integrations :: "(string \<times> integration) list"
  w_shell :: "nat \<Rightarrow> string \<Rightarrow> string \<Rightarrow> shell_outcome"
  w_run :: "nat \<Rightarrow> string list \<Rightarrow> string option \<Rightarrow> run_outcome"
  w_file :: "string \<Rightarrow> string list \<times> string option"
  w_yaml_load :: "string \<Rightarrow> pyval py"
  w_yaml_dump :: "pyval \<Rightarrow> string"
  w_workflow_file :: "string \<Rightarrow> string option"
  w_integration_json :: json_file

type_synonym 'a step_op = "world \<Rightarrow> (pyexn + 'a) \<times> world"

text \<open>Use the outside once: the counter tells this use from the others.\<close>

definition tick_world :: "nat step_op" where
  "tick_world w = (Inr (w_tick w), w\<lparr>w_tick := Suc (w_tick w)\<rparr>)"

section \<open>A sample world\<close>

text \<open>A project without integrations, whose shell fails on \<open>false\<close>, and a document read back as it was dumped.\<close>

definition sample_wenv :: "bool \<Rightarrow> pyval \<Rightarrow> wenv" where
  "sample_wenv tty doc =
     \<lparr>w_project_root = ''.'', w_now = (\<lambda>n. ''t''), w_uuid8 = (\<lambda>_. ''abcd1234''), w_env_run_id = '''',
      w_isatty = tty, w_which = (\<lambda>_. False), w_integrations = [],
      w_shell = (\<lambda>n cmd cwd. if cmd = ''false'' then ShellDone 1 '''' ''failed'' else ShellDone 0 cmd ''''),
      w_run = (\<lambda>_ _ _. RunOSError), w_file = (\<lambda>_. ([], None)), w_yaml_load = (\<lambda>_. Inr doc), w_yaml_dump = (\<lambda>_. ''doc''),
      w_workflow_file = (\<lambda>_. None), w_integration_json = JsonAbsent\<rparr>"

definition sample_world :: "answer list \<Rightarrow> world" where
  "sample_world as = \<lparr>w_tick = 0, w_answers = as, w_screen = [], w_runs = []\<rparr>"

end
