(* ===== verification/Expressions.thy ===== *)
theory Expressions
  imports WfBase
begin

text \<open>
  \<open>workflows/expressions.py\<close>: the template language. \<open>eval_simple\<close> is \<open>_evaluate_simple_expression\<close>, in
  the order of its tests; its recursion is on shorter and shorter text, so it is total.
\<close>

section \<open>Filters\<close>

definition filter_default :: "pyval \<Rightarrow> pyval \<Rightarrow> pyval" where
  "filter_default v d = (if v = PNone \<or> v = PStr '''' then d else v)"

definition filter_join :: "pyval \<Rightarrow> pyval \<Rightarrow> pyval py" where
  "filter_join v sep =
     (case v of
        PList xs \<Rightarrow> (case sep of PStr t \<Rightarrow> Inr (PStr (join_with t (map py_str xs))) | _ \<Rightarrow> Inl attribute_error)
      | _ \<Rightarrow> Inr (PStr (py_str v)))"

fun map_attr :: "string list \<Rightarrow> pyval \<Rightarrow> pyval" where
  "map_attr [] v = v"
| "map_attr (p # ps) v = (case v of PDict d \<Rightarrow> map_attr ps (get_none d p) | _ \<Rightarrow> PNone)"

definition filter_map :: "pyval \<Rightarrow> pyval \<Rightarrow> pyval py" where
  "filter_map v attr =
     (case v of
        PList xs \<Rightarrow>
          rbind (rmap (\<lambda>item. case item of
                   PDict d \<Rightarrow> (case attr of PStr a \<Rightarrow> Inr (map_attr (split_on (CHR ''.'') a) item) | _ \<Rightarrow> Inl attribute_error)
                 | _ \<Rightarrow> Inr item) xs) (\<lambda>ys. Inr (PList ys))
      | _ \<Rightarrow> Inr (PList []))"

definition filter_contains :: "pyval \<Rightarrow> pyval \<Rightarrow> pyval py" where
  "filter_contains v sub =
     (case v of
        PStr _ \<Rightarrow> rbind (py_in sub v) (\<lambda>b. Inr (PBool b))
      | PList _ \<Rightarrow> rbind (py_in sub v) (\<lambda>b. Inr (PBool b))
      | _ \<Rightarrow> Inr (PBool False))"

section \<open>Paths\<close>

definition newline :: char where "newline = CHR 0x0A"

definition word_dash :: "char \<Rightarrow> bool" where
  "word_dash c \<longleftrightarrow> word_char c \<or> c = CHR ''-''"

text \<open>\<open>^([\w-]+)\[(\d+)\]$\<close>; the dollar also matches before a final newline.\<close>

definition index_part :: "string \<Rightarrow> (string \<times> nat) option" where
  "index_part p =
     (let key = takeWhile word_dash p; r = dropWhile word_dash p;
          ds = takeWhile is_digit (drop 1 r); rest = dropWhile is_digit (drop 1 r)
      in if key \<noteq> [] \<and> take 1 r = ''['' \<and> ds \<noteq> [] \<and> (rest = '']'' \<or> rest = '']'' @ [newline])
         then Some (key, nat (digits_val 0 ds)) else None)"

text \<open>One step of the path; \<open>None\<close> is the early \<open>return None\<close>.\<close>

definition path_step :: "pyval \<Rightarrow> string \<Rightarrow> pyval option" where
  "path_step cur p =
     (case cur of
        PDict d \<Rightarrow>
          (case index_part p of
             Some (key, i) \<Rightarrow>
               (case get_none d key of
                  PList xs \<Rightarrow> if i < length xs \<and> xs ! i \<noteq> PNone then Some (xs ! i) else None
                | _ \<Rightarrow> None)
           | None \<Rightarrow> (case get_none d p of PNone \<Rightarrow> None | v \<Rightarrow> Some v))
      | _ \<Rightarrow> None)"

fun resolve_parts :: "pyval \<Rightarrow> string list \<Rightarrow> pyval" where
  "resolve_parts cur [] = cur"
| "resolve_parts cur (p # ps) = (case path_step cur p of None \<Rightarrow> PNone | Some v \<Rightarrow> resolve_parts v ps)"

definition resolve_dot_path :: "pyval \<Rightarrow> string \<Rightarrow> pyval" where
  "resolve_dot_path v path = resolve_parts v (split_on (CHR ''.'') path)"

definition build_namespace :: "step_context \<Rightarrow> pyval" where
  "build_namespace c = PDict (obj
     [(''inputs'', py_or (ctx_inputs c) (PDict [])), (''steps'', results_dict (ctx_steps c)),
      (''item'', ctx_item c), (''fan_in'', py_or (ctx_fan_in c) (PDict [])),
      (''context'', PDict (obj [(''run_id'', PStr (ctx_run_id c))]))])"

section \<open>Comparison\<close>

text \<open>A string operand is read as a number first; \<open>None\<close> is the \<open>ValueError\<close>.\<close>

definition coerce_operand :: "pyval \<Rightarrow> pyval option" where
  "coerce_operand v =
     (case v of
        PStr s \<Rightarrow>
          if CHR ''.'' \<in> set s then (case parse_float s of IsFloat f \<Rightarrow> Some (PFloat f) | _ \<Rightarrow> None)
          else map_option PInt (parse_int s)
      | _ \<Rightarrow> Some v)"

definition safe_compare :: "cmp_op \<Rightarrow> pyval \<Rightarrow> pyval \<Rightarrow> bool" where
  "safe_compare p l r =
     (case (coerce_operand l, coerce_operand r) of
        (Some a, Some b) \<Rightarrow> (case py_compare p a b of Some t \<Rightarrow> t | None \<Rightarrow> False)
      | _ \<Rightarrow> False)"

text \<open>The operators in the order they are looked for.\<close>

datatype bin_op = OpNe | OpEq | OpCmp cmp_op | OpNotIn | OpIn

definition bin_ops :: "(string \<times> bin_op) list" where
  "bin_ops = [(''!='', OpNe), (''=='', OpEq), (''>='', OpCmp Ge), (''<='', OpCmp Le), (''>'', OpCmp Gt),
     (''<'', OpCmp Lt), ('' not in '', OpNotIn), ('' in '', OpIn)]"

fun find_op :: "(string \<times> bin_op) list \<Rightarrow> string \<Rightarrow> (bin_op \<times> string \<times> string) option" where
  "find_op [] e = None"
| "find_op ((t, p) # ops) e = (case split1 t e of Some (a, b) \<Rightarrow> Some (p, a, b) | None \<Rightarrow> find_op ops e)"

definition apply_op :: "bin_op \<Rightarrow> pyval \<Rightarrow> pyval \<Rightarrow> pyval py" where
  "apply_op p l r =
     (case p of
        OpEq \<Rightarrow> Inr (PBool (py_eq l r))
      | OpNe \<Rightarrow> Inr (PBool (\<not> py_eq l r))
      | OpCmp c \<Rightarrow> Inr (PBool (safe_compare c l r))
      | OpIn \<Rightarrow> if r = PNone then Inr (PBool False) else rbind (py_in l r) (\<lambda>b. Inr (PBool b))
      | OpNotIn \<Rightarrow> if r = PNone then Inr (PBool True) else rbind (py_in l r) (\<lambda>b. Inr (PBool (\<not> b))))"

section \<open>Simple expressions\<close>

text \<open>\<open>s[1:-1]\<close>.\<close>

definition inner :: "string \<Rightarrow> string" where
  "inner s = butlast (drop 1 s)"

definition quoted :: "string \<Rightarrow> bool" where
  "quoted e \<longleftrightarrow> (starts_with [quote_char] e \<and> ends_with [quote_char] e) \<or>
     (starts_with [dquote_char] e \<and> ends_with [dquote_char] e)"

text \<open>\<open>(\w+)\((.+)\)\<close> at the start of the text: the argument runs to the last parenthesis of its line.\<close>

definition filter_call :: "string \<Rightarrow> (string \<times> string) option" where
  "filter_call f =
     (let name = takeWhile word_char f; r = dropWhile word_char f;
          line = takeWhile (\<lambda>c. c \<noteq> newline) (drop 1 r);
          arg = rev (drop 1 (dropWhile (\<lambda>c. c \<noteq> CHR '')'') (rev line)))
      in if name \<noteq> [] \<and> take 1 r = ''('' \<and> arg \<noteq> [] then Some (name, arg) else None)"

definition apply_filter :: "string \<Rightarrow> pyval \<Rightarrow> pyval \<Rightarrow> pyval py" where
  "apply_filter name v arg =
     (if name = ''default'' then Inr (filter_default v arg)
      else if name = ''join'' then filter_join v arg
      else if name = ''map'' then filter_map v arg
      else if name = ''contains'' then filter_contains v arg
      else Inr v)"

text \<open>What is left when no operator is found: a number, a constant, or \<open>None\<close>.\<close>

definition literal_value :: "string \<Rightarrow> pyval option" where
  "literal_value e =
     (let num = (if CHR ''.'' \<in> set e then (case parse_float e of IsFloat f \<Rightarrow> Some (PFloat f) | _ \<Rightarrow> None)
                 else map_option PInt (parse_int e))
      in case num of
           Some v \<Rightarrow> Some v
         | None \<Rightarrow>
             if py_lower e = ''true'' then Some (PBool True)
             else if py_lower e = ''false'' then Some (PBool False)
             else if py_lower e = ''none'' \<or> py_lower e = ''null'' then Some PNone
             else None)"

lemma find_op_shorter:
  assumes "find_op ops e = Some (p, a, b)" "\<forall>t \<in> fst ` set ops. t \<noteq> []"
  shows "length a < length e \<and> length b < length e"
  using assms by (induction ops) (auto split: option.splits dest: split1_shorter)

lemma bin_ops_nonempty: "\<forall>t \<in> fst ` set bin_ops. t \<noteq> []"
  by (simp add: bin_ops_def)

lemma filter_call_shorter: "filter_call f = Some (name, arg) \<Longrightarrow> length arg < length f"
proof -
  assume a: "filter_call f = Some (name, arg)"
  let ?r = "dropWhile word_char f"
  have "length arg \<le> length (drop 1 ?r) - 0"
    using a length_dropWhile_le[of "\<lambda>c. c \<noteq> CHR '')''" "rev (takeWhile (\<lambda>c. c \<noteq> newline) (drop 1 ?r))"]
      length_takeWhile_le[of "\<lambda>c. c \<noteq> newline" "drop 1 ?r"]
    by (auto simp: filter_call_def Let_def split: if_splits)
  moreover have "take 1 ?r = ''(''" using a by (auto simp: filter_call_def Let_def split: if_splits)
  then have "?r \<noteq> []" by (cases ?r) simp_all
  moreover have "length ?r \<le> length f" by (rule length_dropWhile_le)
  ultimately show ?thesis by (cases ?r) auto
qed

lemma length_inner: "length (inner s) = length s - 2"
  by (simp add: inner_def)

text \<open>Each recursive call is on shorter text.\<close>

lemma strip_shorter: "length a < length (py_strip s) \<Longrightarrow> length (py_strip a) < length s"
  using length_strip[of a] length_strip[of s] by simp

lemma split1_strip:
  assumes "split1 sep (py_strip s) = Some (a, b)" "sep \<noteq> []"
  shows "length (py_strip a) < length s" "length (py_strip b) < length s"
  using split1_shorter[OF assms] by (simp_all add: strip_shorter)

lemma find_op_strip:
  assumes "find_op bin_ops (py_strip s) = Some (p, a, b)"
  shows "length (py_strip a) < length s" "length (py_strip b) < length s"
  using find_op_shorter[OF assms bin_ops_nonempty] by (simp_all add: strip_shorter)

lemma filter_call_strip:
  assumes "split1 sep (py_strip s) = Some (a, b)" "sep \<noteq> []" "filter_call (py_strip b) = Some (n, arg)"
  shows "length (py_strip arg) < length s"
  using split1_strip(2)[OF assms(1,2)] filter_call_shorter[OF assms(3)] length_strip[of arg] by simp

lemma starts_with_length: "starts_with p e \<Longrightarrow> length p \<le> length e"
  unfolding starts_with_def by (metis length_take min.cobounded1)

lemma not_strip: "starts_with ''not '' (py_strip s) \<Longrightarrow> length (py_strip (drop 4 (py_strip s))) < length s"
  by (intro strip_shorter) (auto dest: starts_with_length)

lemma item_strip:
  assumes "starts_with ''['' (py_strip s)" "i \<in> set (split_on (CHR '','') (py_strip (inner (py_strip s))))"
  shows "length (py_strip i) < length s"
proof (rule strip_shorter)
  have "length i \<le> length (inner (py_strip s))"
    using split_on_shorter[OF assms(2)] length_strip[of "inner (py_strip s)"] by simp
  moreover have "0 < length (py_strip s)" using starts_with_length[OF assms(1)] by (cases "py_strip s") simp_all
  ultimately show "length i < length (py_strip s)" unfolding length_inner by linarith
qed

function eval_simple :: "pyval \<Rightarrow> string \<Rightarrow> pyval py" where
  "eval_simple ns expr =
     (let e = py_strip expr in
      if quoted e then Inr (PStr (inner e))
      else case split1 ''|'' e of
        Some (a, b) \<Rightarrow>
          rbind (eval_simple ns (py_strip a)) (\<lambda>v.
          case filter_call (py_strip b) of
            Some (name, arg) \<Rightarrow> rbind (eval_simple ns (py_strip arg)) (\<lambda>g. apply_filter name v g)
          | None \<Rightarrow> Inr (if py_strip b = ''default'' then filter_default v (PStr '''') else v))
      | None \<Rightarrow>
      (case split1 '' or '' e of
        Some (a, b) \<Rightarrow>
          rbind (eval_simple ns (py_strip a)) (\<lambda>l. rbind (eval_simple ns (py_strip b)) (\<lambda>r.
          Inr (PBool (truthy l \<or> truthy r))))
      | None \<Rightarrow>
      (case split1 '' and '' e of
        Some (a, b) \<Rightarrow>
          rbind (eval_simple ns (py_strip a)) (\<lambda>l. rbind (eval_simple ns (py_strip b)) (\<lambda>r.
          Inr (PBool (truthy l \<and> truthy r))))
      | None \<Rightarrow>
      if starts_with ''not '' e then rbind (eval_simple ns (py_strip (drop 4 e))) (\<lambda>v. Inr (PBool (\<not> truthy v)))
      else
      (case find_op bin_ops e of
        Some (p, a, b) \<Rightarrow>
          rbind (eval_simple ns (py_strip a)) (\<lambda>l. rbind (eval_simple ns (py_strip b)) (\<lambda>r. apply_op p l r))
      | None \<Rightarrow>
      (case literal_value e of
        Some v \<Rightarrow> Inr v
      | None \<Rightarrow>
      if starts_with ''['' e \<and> ends_with '']'' e
      then (let items = py_strip (inner e) in
            if items = [] then Inr (PList [])
            else rbind (rmap (\<lambda>i. eval_simple ns (py_strip i)) (split_on (CHR '','') items)) (\<lambda>vs. Inr (PList vs)))
      else Inr (resolve_dot_path ns e))))))"
  by pat_completeness auto
termination
  by (relation "measure (\<lambda>(ns, e). length e)")
    (auto simp: split1_strip find_op_strip filter_call_strip not_strip item_strip)

declare eval_simple.simps [simp del]

section \<open>Templates\<close>

text \<open>\<open>(.+?)\}\}\<close> after the opening braces: the shortest text of one line before closing braces, and the rest.\<close>

fun close_at :: "string \<Rightarrow> (string \<times> string) option" where
  "close_at [] = None"
| "close_at (c # cs) =
     (if c = newline then None
      else if starts_with ''}}'' cs then Some ([c], drop 2 cs)
      else map_option (\<lambda>(a, b). (c # a, b)) (close_at cs))"

lemma close_at_shorter: "close_at s = Some (a, b) \<Longrightarrow> length b < length s"
  by (induction s arbitrary: a b) (auto split: if_splits)

text \<open>\<open>_EXPR_PATTERN.sub(f, text)\<close>.\<close>

function subst_exprs :: "(string \<Rightarrow> string py) \<Rightarrow> string \<Rightarrow> string py" where
  "subst_exprs f [] = Inr []"
| "subst_exprs f (c # cs) =
     (case (if starts_with ''{{'' (c # cs) then close_at (drop 1 cs) else None) of
        Some (a, b) \<Rightarrow> rbind (f a) (\<lambda>t. rbind (subst_exprs f b) (\<lambda>u. Inr (t @ u)))
      | None \<Rightarrow> rbind (subst_exprs f cs) (\<lambda>u. Inr (c # u)))"
  by pat_completeness auto
termination
  by (relation "measure (\<lambda>(f, s). length s)")
    (auto split: if_splits dest!: close_at_shorter)

text \<open>
  \<open>_EXPR_PATTERN.fullmatch(text)\<close>: the whole text must match, so the lazy group takes everything between
  the first opening and the last closing braces.
\<close>

definition whole_expr :: "string \<Rightarrow> string option" where
  "whole_expr t =
     (let body = take (length t - 4) (drop 2 t) in
      if starts_with ''{{'' t \<and> ends_with ''}}'' t \<and> 4 < length t \<and> newline \<notin> set body then Some body else None)"

definition show_value :: "pyval \<Rightarrow> string" where
  "show_value v = (if v = PNone then '''' else py_str v)"

definition evaluate_expression :: "pyval \<Rightarrow> step_context \<Rightarrow> pyval py" where
  "evaluate_expression template c =
     (case template of
        PStr t \<Rightarrow>
          (let ns = build_namespace c in
           case whole_expr (py_strip t) of
             Some e \<Rightarrow> eval_simple ns (py_strip e)
           | None \<Rightarrow>
               rbind (subst_exprs (\<lambda>e. rbind (eval_simple ns (py_strip e)) (\<lambda>v. Inr (show_value v))) t)
                 (\<lambda>s. Inr (PStr s)))
      | _ \<Rightarrow> Inr template)"

definition evaluate_condition :: "pyval \<Rightarrow> step_context \<Rightarrow> bool py" where
  "evaluate_condition cond c =
     rbind (evaluate_expression cond c) (\<lambda>r.
     Inr (case r of
            PStr s \<Rightarrow> if py_lower s = ''false'' then False else if py_lower s = ''true'' then True else s \<noteq> []
          | _ \<Rightarrow> truthy r))"

text \<open>\<open>isinstance(v, str) and "{{" in v\<close>, the test before a field is evaluated.\<close>

definition is_template :: "pyval \<Rightarrow> bool" where
  "is_template v = (case v of PStr s \<Rightarrow> has_sub ''{{'' s | _ \<Rightarrow> False)"

definition eval_if_template :: "pyval \<Rightarrow> step_context \<Rightarrow> pyval py" where
  "eval_if_template v c = (if is_template v then evaluate_expression v c else Inr v)"

end
