(* ===== verification/StepTypes.thy ===== *)
theory StepTypes
  imports Expressions
begin

text \<open>
  The step types of \<open>workflows/steps\<close>: for each its \<open>execute\<close> and \<open>validate\<close>, in the order of the code. A
  configuration is the mapping of the step in the YAML document.
\<close>

type_synonym config = "(pyval \<times> pyval) list"

section \<open>Validation shared by all steps\<close>

definition base_validate :: "config \<Rightarrow> string list" where
  "base_validate cfg = (if has_field cfg ''id'' then [] else [''Step is missing required '' @ repr_str ''id'' @ '' field.''])"

text \<open>\<open>f"{label} step {config.get('id', '?')!r}"\<close>.\<close>

definition step_label :: "string \<Rightarrow> config \<Rightarrow> string" where
  "step_label what cfg = what @ '' step '' @ py_repr (get_or cfg ''id'' (PStr ''?''))"

definition missing :: "string \<Rightarrow> config \<Rightarrow> string \<Rightarrow> string list" where
  "missing what cfg name =
     (if has_field cfg name then [] else [step_label what cfg @ '' is missing '' @ repr_str name @ '' field.''])"

text \<open>A loop's cap must be an integer of at least one, if it is given.\<close>

definition bad_cap :: "string \<Rightarrow> config \<Rightarrow> string list" where
  "bad_cap what cfg =
     (let m = get_none cfg ''max_iterations'' in
      if m \<noteq> PNone \<and> (case as_int m of None \<Rightarrow> True | Some n \<Rightarrow> n < 1)
      then [step_label what cfg @ '': '' @ repr_str ''max_iterations'' @ '' must be an integer >= 1.''] else [])"

definition bad_steps :: "string \<Rightarrow> config \<Rightarrow> string list" where
  "bad_steps what cfg =
     (if is_list (get_or cfg ''steps'' (PList [])) then []
      else [step_label what cfg @ '': '' @ repr_str ''steps'' @ '' must be a list.''])"

section \<open>if\<close>

definition if_execute :: "config \<Rightarrow> step_context \<Rightarrow> step_result py" where
  "if_execute cfg c =
     rbind (evaluate_condition (get_or cfg ''condition'' (PBool False)) c) (\<lambda>b.
     Inr (completed_with [(''condition_result'', PBool b)]
            (get_or cfg (if b then ''then'' else ''else'') (PList []))))"

definition if_validate :: "config \<Rightarrow> string list py" where
  "if_validate cfg =
     Inr (base_validate cfg @ missing ''If'' cfg ''condition'' @ missing ''If'' cfg ''then'' @
       (if is_list (get_or cfg ''then'' (PList [])) then []
        else [step_label ''If'' cfg @ '': '' @ repr_str ''then'' @ '' must be a list of steps.'']) @
       (let e = get_or cfg ''else'' (PList []) in
        if truthy e \<and> \<not> is_list e
        then [step_label ''If'' cfg @ '': '' @ repr_str ''else'' @ '' must be a list of steps.''] else []))"

section \<open>switch\<close>

text \<open>The first case whose key has the value's text.\<close>

fun find_case :: "string \<Rightarrow> config \<Rightarrow> (string \<times> pyval) option" where
  "find_case t [] = None"
| "find_case t ((k, v) # cs) = (if py_str k = t then Some (py_str k, v) else find_case t cs)"

definition switch_execute :: "config \<Rightarrow> step_context \<Rightarrow> step_result py" where
  "switch_execute cfg c =
     rbind (evaluate_expression (get_or cfg ''expression'' (PStr '''')) c) (\<lambda>v.
     rbind (as_dict (get_or cfg ''cases'' (PDict []))) (\<lambda>cases.
     Inr (case find_case (show_value v) cases of
            Some (k, steps) \<Rightarrow> completed_with [(''matched_case'', PStr k), (''expression_value'', v)] steps
          | None \<Rightarrow> completed_with [(''matched_case'', PStr ''__default__''), (''expression_value'', v)]
                     (get_or cfg ''default'' (PList [])))))"

definition switch_validate :: "config \<Rightarrow> string list py" where
  "switch_validate cfg =
     Inr (base_validate cfg @ missing ''Switch'' cfg ''expression'' @
       (case get_or cfg ''cases'' (PDict []) of
          PDict cs \<Rightarrow> concat (map (\<lambda>(k, v). if is_list v then []
              else [step_label ''Switch'' cfg @ '': case '' @ py_repr k @ '' must be a list of steps.'']) cs)
        | _ \<Rightarrow> [step_label ''Switch'' cfg @ '': '' @ repr_str ''cases'' @ '' must be a mapping.'']) @
       (let d = get_none cfg ''default'' in
        if d \<noteq> PNone \<and> \<not> is_list d
        then [step_label ''Switch'' cfg @ '': '' @ repr_str ''default'' @ '' must be a list of steps.''] else []))"

section \<open>while and do-while\<close>

definition cap_or_ten :: "config \<Rightarrow> pyval" where
  "cap_or_ten cfg = (case get_none cfg ''max_iterations'' of PNone \<Rightarrow> PInt 10 | m \<Rightarrow> m)"

definition while_execute :: "config \<Rightarrow> step_context \<Rightarrow> step_result py" where
  "while_execute cfg c =
     rbind (evaluate_condition (get_or cfg ''condition'' (PBool False)) c) (\<lambda>b.
     Inr (completed_with [(''condition_result'', PBool b), (''max_iterations'', cap_or_ten cfg),
              (''loop_type'', PStr ''while'')]
            (if b then get_or cfg ''steps'' (PList []) else PList [])))"

definition while_validate :: "config \<Rightarrow> string list py" where
  "while_validate cfg =
     Inr (base_validate cfg @ missing ''While'' cfg ''condition'' @ bad_cap ''While'' cfg @ bad_steps ''While'' cfg)"

definition do_while_execute :: "config \<Rightarrow> step_context \<Rightarrow> step_result py" where
  "do_while_execute cfg c =
     Inr (completed_with [(''condition'', get_or cfg ''condition'' (PStr ''false'')),
              (''max_iterations'', cap_or_ten cfg), (''loop_type'', PStr ''do-while'')]
            (get_or cfg ''steps'' (PList [])))"

definition do_while_validate :: "config \<Rightarrow> string list py" where
  "do_while_validate cfg =
     Inr (base_validate cfg @ missing ''Do-while'' cfg ''condition'' @ bad_cap ''Do-while'' cfg @
       bad_steps ''Do-while'' cfg)"

section \<open>fan-out and fan-in\<close>

definition fan_out_execute :: "config \<Rightarrow> step_context \<Rightarrow> step_result py" where
  "fan_out_execute cfg c =
     rbind (evaluate_expression (get_or cfg ''items'' (PStr ''[]'')) c) (\<lambda>v.
     let items = (case v of PList xs \<Rightarrow> xs | _ \<Rightarrow> []) in
     Inr (completed_with [(''items'', PList items), (''max_concurrency'', get_or cfg ''max_concurrency'' (PInt 1)),
              (''step_template'', get_or cfg ''step'' (PDict [])), (''item_count'', PInt (int (length items)))]
            (PList [])))"

definition fan_out_validate :: "config \<Rightarrow> string list py" where
  "fan_out_validate cfg =
     Inr (base_validate cfg @ missing ''Fan-out'' cfg ''items'' @
       (if has_field cfg ''step'' then []
        else [step_label ''Fan-out'' cfg @ '' is missing '' @ repr_str ''step'' @ '' field (nested step template).'']) @
       (let st = get_none cfg ''step'' in
        if st \<noteq> PNone \<and> \<not> is_dict st
        then [step_label ''Fan-out'' cfg @ '': '' @ repr_str ''step'' @ '' must be a mapping.''] else []))"

text \<open>\<open>context.steps.get(step_id, {}).get("output", {})\<close>.\<close>

definition joined_output :: "results \<Rightarrow> pyval \<Rightarrow> pyval py" where
  "joined_output r i =
     (if \<not> hashable i then Inl type_error
      else rbind (as_dict (case assoc_get r i of Some (_, v) \<Rightarrow> v | None \<Rightarrow> PDict [])) (\<lambda>d.
           Inr (get_or d ''output'' (PDict []))))"

definition fan_in_execute :: "config \<Rightarrow> step_context \<Rightarrow> step_result py" where
  "fan_in_execute cfg c =
     rbind (py_iter (get_or cfg ''wait_for'' (PList []))) (\<lambda>ids.
     let out = (case py_or (get_none cfg ''output'') (PDict []) of PDict d \<Rightarrow> d | _ \<Rightarrow> []) in
     rbind (rmap (joined_output (ctx_steps c)) ids) (\<lambda>rs.
     let c' = c\<lparr>ctx_fan_in := PDict (obj [(''results'', PList rs)])\<rparr> in
     rbind (rmap (\<lambda>(k, e). rbind (eval_if_template e c') (\<lambda>v. Inr (k, v))) out) (\<lambda>kvs.
     Inr \<lparr>sr_status = SCompleted, sr_output = assoc_update (obj [(''results'', PList rs)]) kvs,
          sr_next_steps = PList [], sr_error = PNone\<rparr>)))"

definition fan_in_validate :: "config \<Rightarrow> string list py" where
  "fan_in_validate cfg =
     Inr (base_validate cfg @
       (case get_or cfg ''wait_for'' (PList []) of
          PList (_ # _) \<Rightarrow> []
        | _ \<Rightarrow> [step_label ''Fan-in'' cfg @ '': '' @ repr_str ''wait_for'' @ '' must be a non-empty list of step IDs.'']))"

section \<open>shell\<close>

text \<open>
  What the command prints and returns comes from the environment. What it does to the disk is left out: the files of the
  model's world are those the engine reads and writes, and no command changes them.
\<close>

definition shell_output :: "int \<Rightarrow> string \<Rightarrow> string \<Rightarrow> (pyval \<times> pyval) list" where
  "shell_output code out err = obj [(''exit_code'', PInt code), (''stdout'', PStr out), (''stderr'', PStr err)]"

definition shell_execute :: "wenv \<Rightarrow> config \<Rightarrow> step_context \<Rightarrow> step_result step_op" where
  "shell_execute x cfg c =
     sbind (slift (eval_if_template (get_or cfg ''run'' (PStr '''')) c)) (\<lambda>v.
     sbind tick_world (\<lambda>n.
     case w_shell x n (py_str v) (if ctx_project_root c = '''' then ''.'' else ctx_project_root c) of
       ShellDone code out err \<Rightarrow>
         sret (if code \<noteq> 0
               then failed_with (shell_output code out err) (''Shell command exited with code '' @ show_int code @ ''.'')
               else \<lparr>sr_status = SCompleted, sr_output = shell_output code out err,
                     sr_next_steps = PList [], sr_error = PNone\<rparr>)
     | ShellTimeout \<Rightarrow> sret (failed_with (shell_output (-1) '''' ''timeout'') ''Shell command timed out after 300 seconds.'')
     | ShellOSError m \<Rightarrow> sret (failed_with (shell_output (-1) '''' m) (''Shell command failed: '' @ m))
     | ShellRaises e \<Rightarrow> sraise e))"

definition shell_validate :: "config \<Rightarrow> string list py" where
  "shell_validate cfg = Inr (base_validate cfg @ missing ''Shell'' cfg ''run'')"

section \<open>gate\<close>

definition MAX_SHOW_FILE_LINES :: nat where
  "MAX_SHOW_FILE_LINES = 200"

text \<open>\<open>_CONTROL_CHARS\<close>: the control characters other than the tab.\<close>

definition control_char :: "char \<Rightarrow> bool" where
  "control_char c = (let n = code_of c in (n < 32 \<and> n \<noteq> 9) \<or> (127 \<le> n \<and> n < 160))"

definition strip_control :: "string \<Rightarrow> string" where
  "strip_control s = List.filter (\<lambda>c. \<not> control_char c) s"

text \<open>
  The lines shown of a file. The ellipsis of the last line, which is outside the characters of the model,
  is written as three dots.
\<close>

definition read_show_file :: "wenv \<Rightarrow> string \<Rightarrow> string list" where
  "read_show_file x path =
     (case w_file x path of (ls, err) \<Rightarrow>
        let shown = map strip_control (take MAX_SHOW_FILE_LINES ls) in
        if MAX_SHOW_FILE_LINES < length ls
        then shown @ [''... (output truncated at '' @ show_int (int MAX_SHOW_FILE_LINES) @ '' lines)'']
        else (case err of
                Some e \<Rightarrow> [strip_control (''(could not read file: '' @ e @ '')'')]
              | None \<Rightarrow> if shown = [] then [''(file is empty)''] else shown))"

definition compose_prompt :: "wenv \<Rightarrow> pyval \<Rightarrow> string option \<Rightarrow> string" where
  "compose_prompt x message show_file =
     (case show_file of
        None \<Rightarrow> py_str message
      | Some path \<Rightarrow>
          if path = '''' then py_str message
          else py_str message @ [newline, newline] @
            join_with [newline] ((strip_control path @ '':'') # map (\<lambda>l. ''  '' @ l) (read_show_file x path)))"

text \<open>\<open>[o.lower() for o in options]\<close>: an option that is not a string has no \<open>lower\<close>.\<close>

definition lower_options :: "pyval \<Rightarrow> (string \<times> pyval) list py" where
  "lower_options opts =
     rbind (py_iter opts) (rmap (\<lambda>v. case v of PStr s \<Rightarrow> Inr (py_lower s, v) | _ \<Rightarrow> Inl attribute_error))"

text \<open>\<open>raw.isdigit() and 1 <= int(raw) <= len(options)\<close>; \<open>int\<close> refuses what is a digit but not a decimal one.\<close>

definition chosen_number :: "string \<Rightarrow> int \<Rightarrow> int option py" where
  "chosen_number raw n =
     (if raw \<noteq> [] \<and> list_all isdigit_char raw
      then (case parse_int raw of
              None \<Rightarrow> Inl (value_error '''')
            | Some k \<Rightarrow> Inr (if 1 \<le> k \<and> k \<le> n then Some k else None))
      else Inr None)"

text \<open>
  The loop of \<open>_prompt\<close>: an unusable answer asks again, the end of the input or an interrupt takes the last
  option. The pair is the outcome and the answers not used.
\<close>

fun ask :: "pyval \<Rightarrow> int \<Rightarrow> answer list \<Rightarrow> pyval py \<times> answer list" where
  "ask opts n [] = (py_index opts (-1), [])"
| "ask opts n (Break # as) = (py_index opts (-1), as)"
| "ask opts n (Line t # as) =
     (let raw = py_strip t in
      case chosen_number raw n of
        Inl e \<Rightarrow> (Inl e, as)
      | Inr (Some k) \<Rightarrow> (py_index opts (k - 1), as)
      | Inr None \<Rightarrow>
          (case lower_options opts of
             Inl e \<Rightarrow> (Inl e, as)
           | Inr los \<Rightarrow>
               (case map_of los (py_lower raw) of
                  Some v \<Rightarrow> (Inr v, as)
                | None \<Rightarrow> ask opts n as)))"

text \<open>The message and the options are printed first: options that cannot be listed raise there.\<close>

definition gate_prompt :: "string \<Rightarrow> pyval \<Rightarrow> pyval step_op" where
  "gate_prompt text opts w =
     (let w1 = w\<lparr>w_screen := w_screen w @ [text]\<rparr> in
      case rbind (py_iter opts) (\<lambda>_. py_len opts) of
        Inl e \<Rightarrow> (Inl e, w1)
      | Inr n \<Rightarrow> (case ask opts n (w_answers w1) of (r, as) \<Rightarrow> (r, w1\<lparr>w_answers := as\<rparr>)))"

definition gate_default_options :: pyval where
  "gate_default_options = PList [PStr ''approve'', PStr ''reject'']"

definition rejection :: "pyval \<Rightarrow> bool" where
  "rejection choice \<longleftrightarrow> choice = PStr ''reject'' \<or> choice = PStr ''abort''"

text \<open>What the choice means, with the output so far.\<close>

definition gate_outcome :: "config \<Rightarrow> (pyval \<times> pyval) list \<Rightarrow> pyval \<Rightarrow> pyval \<Rightarrow> step_result" where
  "gate_outcome cfg out on_reject choice =
     (let out' = assoc_set (PStr ''choice'') choice out;
          done = \<lparr>sr_status = SCompleted, sr_output = out', sr_next_steps = PList [], sr_error = PNone\<rparr> in
      if rejection choice then
        (if on_reject = PStr ''abort''
         then failed_with (assoc_set (PStr ''aborted'') (PBool True) out')
                (''Gate rejected by user at step '' @ py_repr (get_or cfg ''id'' (PStr ''?'')))
         else if on_reject = PStr ''retry'' then done\<lparr>sr_status := SPaused\<rparr>
         else done)
      else done)"

definition gate_execute :: "wenv \<Rightarrow> config \<Rightarrow> step_context \<Rightarrow> step_result step_op" where
  "gate_execute x cfg c =
     sbind (slift (eval_if_template (get_or cfg ''message'' (PStr ''Review required.'')) c)) (\<lambda>message.
     sbind (slift (eval_if_template (get_none cfg ''show_file'') c)) (\<lambda>sf.
     let options = get_or cfg ''options'' gate_default_options;
         on_reject = get_or cfg ''on_reject'' (PStr ''abort'');
         path = (if sf = PNone then None else Some (py_str sf));
         show_file = (case path of None \<Rightarrow> PNone | Some p \<Rightarrow> PStr p);
         out = obj [(''message'', message), (''options'', options), (''on_reject'', on_reject),
                    (''show_file'', show_file), (''choice'', PNone)]
     in if \<not> w_isatty x
        then sret \<lparr>sr_status = SPaused, sr_output = out, sr_next_steps = PList [], sr_error = PNone\<rparr>
        else sbind (gate_prompt (compose_prompt x message path) options) (\<lambda>choice. sret (gate_outcome cfg out on_reject choice))))"

text \<open>\<open>any(o.lower() in reject_choices for o in options)\<close>, which stops at the first that is.\<close>

fun any_reject :: "pyval list \<Rightarrow> bool py" where
  "any_reject [] = Inr False"
| "any_reject (v # vs) =
     (case v of
        PStr s \<Rightarrow> if py_lower s \<in> {''reject'', ''abort''} then Inr True else any_reject vs
      | _ \<Rightarrow> Inl attribute_error)"

definition gate_validate :: "config \<Rightarrow> string list py" where
  "gate_validate cfg =
     (let options = get_or cfg ''options'' gate_default_options;
          on_reject = get_or cfg ''on_reject'' (PStr ''abort'');
          label = step_label ''Gate'' cfg @ '': '';
          errs = base_validate cfg @ missing ''Gate'' cfg ''message'' @
            (case options of
               PList (v # vs) \<Rightarrow> if list_all is_str (v # vs) then [] else [label @ ''all options must be strings.'']
             | _ \<Rightarrow> [label @ repr_str ''options'' @ '' must be a non-empty list.'']) @
            (if on_reject \<in> {PStr ''abort'', PStr ''skip'', PStr ''retry''} then []
             else [label @ repr_str ''on_reject'' @ '' must be '' @ repr_str ''abort'' @ '', '' @ repr_str ''skip'' @
                   '', or '' @ repr_str ''retry'' @ ''.''])
      in if on_reject \<in> {PStr ''abort'', PStr ''retry''}
         then (case options of
                 PList vs \<Rightarrow>
                   rbind (any_reject vs) (\<lambda>b. Inr (errs @
                     (if b then [] else [label @ ''on_reject='' @ py_repr on_reject @ '' but options has no '' @
                        repr_str ''reject'' @ '' or '' @ repr_str ''abort'' @ '' choice.''])))
               | _ \<Rightarrow> Inr errs)
         else Inr errs)"

section \<open>command and prompt\<close>

text \<open>The key of the integration, its model: the step's, else the workflow's; a template is evaluated.\<close>

definition resolve_choice :: "config \<Rightarrow> string \<Rightarrow> pyval \<Rightarrow> step_context \<Rightarrow> pyval py" where
  "resolve_choice cfg name dflt c = eval_if_template (py_or (get_none cfg name) dflt) c"

definition get_integration :: "wenv \<Rightarrow> pyval \<Rightarrow> integration option py" where
  "get_integration x k =
     (if \<not> hashable k then Inl type_error
      else Inr (case k of PStr s \<Rightarrow> map_of (w_integrations x) s | _ \<Rightarrow> None))"

definition cli_installed :: "wenv \<Rightarrow> integration \<Rightarrow> string list option \<Rightarrow> bool" where
  "cli_installed x ig exec_args \<longleftrightarrow>
     w_which x (ig_key ig) \<or> (case exec_args of Some (a # _) \<Rightarrow> w_which x a | _ \<Rightarrow> False)"

definition project_dir :: "step_context \<Rightarrow> string option" where
  "project_dir c = (if ctx_project_root c = '''' then None else Some (ctx_project_root c))"

definition command_dispatch ::
  "wenv \<Rightarrow> pyval \<Rightarrow> pyval \<Rightarrow> pyval \<Rightarrow> string \<Rightarrow> step_context \<Rightarrow> (int \<times> string \<times> string) option step_op" where
  "command_dispatch x command key model args c =
     (if \<not> truthy key then sret None
      else sbind (slift (get_integration x key)) (\<lambda>r.
      case r of
        None \<Rightarrow> sret None
      | Some ig \<Rightarrow>
          if \<not> cli_installed x ig (ig_exec_args ig ''test'' PNone True) then sret None
          else sbind tick_world (\<lambda>n.
          case ig_dispatch ig n command args (project_dir c) model of
            DispatchDone code out err \<Rightarrow> sret (Some (code, out, err))
          | DispatchUnavailable \<Rightarrow> sret None
          | DispatchRaises e \<Rightarrow> sraise e)))"

text \<open>\<open>subprocess.run\<close> without capturing: the output goes to the terminal.\<close>

definition prompt_dispatch ::
  "wenv \<Rightarrow> string \<Rightarrow> pyval \<Rightarrow> pyval \<Rightarrow> step_context \<Rightarrow> (int \<times> string \<times> string) option step_op" where
  "prompt_dispatch x prompt key model c =
     (if \<not> truthy key \<or> prompt = '''' then sret None
      else sbind (slift (get_integration x key)) (\<lambda>r.
      case r of
        None \<Rightarrow> sret None
      | Some ig \<Rightarrow>
          let args = ig_exec_args ig prompt model False in
          if \<not> cli_installed x ig args then sret None
          else (case args of
            Some (a # as) \<Rightarrow>
              sbind tick_world (\<lambda>n.
              case w_run x n (a # as) (project_dir c) of
                RunDone code \<Rightarrow> sret (Some (code, '''', ''''))
              | RunInterrupted \<Rightarrow> sret (Some (130, '''', ''Interrupted by user''))
              | RunOSError \<Rightarrow> sret None
              | RunRaises e \<Rightarrow> sraise e)
          | _ \<Rightarrow> sret None)))"

text \<open>The result both make of a dispatch; \<open>exited\<close> and \<open>unavailable\<close> are their messages.\<close>

definition dispatched ::
  "(pyval \<times> pyval) list \<Rightarrow> string \<Rightarrow> string \<Rightarrow> (int \<times> string \<times> string) option \<Rightarrow> step_result" where
  "dispatched out exited unavailable r =
     (case r of
        Some (code, so, se) \<Rightarrow>
          let out' = out @ obj [(''exit_code'', PInt code), (''stdout'', PStr so), (''stderr'', PStr se),
                                (''dispatched'', PBool True)] in
          if code \<noteq> 0 then failed_with out' (if se = '''' then exited @ show_int code else se)
          else \<lparr>sr_status = SCompleted, sr_output = out', sr_next_steps = PList [], sr_error = PNone\<rparr>
      | None \<Rightarrow> failed_with (out @ obj [(''exit_code'', PInt 1), (''dispatched'', PBool False)]) unavailable)"

text \<open>The argument of \<open>dict.update\<close>: a mapping, or an iterable of pairs.\<close>

definition update_pairs :: "pyval \<Rightarrow> (pyval \<times> pyval) list py" where
  "update_pairs v =
     (case v of
        PDict d \<Rightarrow> Inr d
      | _ \<Rightarrow> rbind (py_iter v) (rmap (\<lambda>p. rbind (py_iter p) (\<lambda>kv.
               case kv of [k, w] \<Rightarrow> if hashable k then Inr (k, w) else Inl type_error
               | _ \<Rightarrow> Inl (value_error '''')))))"

definition command_execute :: "wenv \<Rightarrow> config \<Rightarrow> step_context \<Rightarrow> step_result step_op" where
  "command_execute x cfg c =
     (let command = get_or cfg ''command'' (PStr '''') in
      sbind (slift (as_dict (get_or cfg ''input'' (PDict [])))) (\<lambda>input.
      sbind (slift (rmap (\<lambda>(k, v). rbind (evaluate_expression v c) (\<lambda>r. Inr (k, r))) input)) (\<lambda>resolved.
      sbind (slift (resolve_choice cfg ''integration'' (ctx_default_integration c) c)) (\<lambda>key.
      sbind (slift (resolve_choice cfg ''model'' (ctx_default_model c) c)) (\<lambda>model.
      sbind (slift (let so = get_or cfg ''options'' (PDict []) in if truthy so then update_pairs so else Inr [])) (\<lambda>so.
      sbind (command_dispatch x command key model (py_str (get_or resolved ''args'' (PStr ''''))) c) (\<lambda>r.
      sret (dispatched
        (obj [(''command'', command), (''integration'', key), (''model'', model),
              (''options'', PDict (assoc_update (ctx_default_options c) so)), (''input'', PDict resolved)])
        ''Command exited with code ''
        (''Cannot dispatch command '' @ py_repr command @ '': integration '' @ py_repr key @
         '' CLI not found or not installed. Install the CLI tool or check '' @
         repr_str ''specify integration list'' @ ''.'')
        r))))))))"

definition command_validate :: "config \<Rightarrow> string list py" where
  "command_validate cfg = Inr (base_validate cfg @ missing ''Command'' cfg ''command'')"

definition prompt_execute :: "wenv \<Rightarrow> config \<Rightarrow> step_context \<Rightarrow> step_result step_op" where
  "prompt_execute x cfg c =
     sbind (slift (evaluate_expression (get_or cfg ''prompt'' (PStr '''')) c)) (\<lambda>v.
     sbind (slift (resolve_choice cfg ''integration'' (ctx_default_integration c) c)) (\<lambda>key.
     sbind (slift (resolve_choice cfg ''model'' (ctx_default_model c) c)) (\<lambda>model.
     sbind (prompt_dispatch x (py_str v) key model c) (\<lambda>r.
     sret (dispatched
       (obj [(''prompt'', PStr (py_str v)), (''integration'', key), (''model'', model)])
       ''Prompt exited with code ''
       (''Cannot dispatch prompt: integration '' @ py_repr key @ '' CLI not found or not installed.'')
       r)))))"

definition prompt_validate :: "config \<Rightarrow> string list py" where
  "prompt_validate cfg = Inr (base_validate cfg @ missing ''Prompt'' cfg ''prompt'')"

section \<open>The registry\<close>

record step_impl =
  si_type_key :: string
  si_execute :: "wenv \<Rightarrow> config \<Rightarrow> step_context \<Rightarrow> step_result step_op"
  si_validate :: "config \<Rightarrow> string list py"

definition pure_step :: "(config \<Rightarrow> step_context \<Rightarrow> step_result py) \<Rightarrow> wenv \<Rightarrow> config \<Rightarrow> step_context \<Rightarrow> step_result step_op" where
  "pure_step f x cfg c = slift (f cfg c)"

definition register_step :: "step_impl \<Rightarrow> step_impl list \<Rightarrow> step_impl list py" where
  "register_step st reg =
     (if si_type_key st = '''' then Inl (value_error ''Cannot register step type with an empty type_key.'')
      else if si_type_key st \<in> si_type_key ` set reg
      then Inl (PyExc ''KeyError'' (''Step type with key '' @ repr_str (si_type_key st) @ '' is already registered.''))
      else Inr (reg @ [st]))"

definition builtin_steps :: "step_impl list" where
  "builtin_steps =
     [\<lparr>si_type_key = ''command'', si_execute = command_execute, si_validate = command_validate\<rparr>,
      \<lparr>si_type_key = ''do-while'', si_execute = pure_step do_while_execute, si_validate = do_while_validate\<rparr>,
      \<lparr>si_type_key = ''fan-in'', si_execute = pure_step fan_in_execute, si_validate = fan_in_validate\<rparr>,
      \<lparr>si_type_key = ''fan-out'', si_execute = pure_step fan_out_execute, si_validate = fan_out_validate\<rparr>,
      \<lparr>si_type_key = ''gate'', si_execute = gate_execute, si_validate = gate_validate\<rparr>,
      \<lparr>si_type_key = ''if'', si_execute = pure_step if_execute, si_validate = if_validate\<rparr>,
      \<lparr>si_type_key = ''prompt'', si_execute = prompt_execute, si_validate = prompt_validate\<rparr>,
      \<lparr>si_type_key = ''shell'', si_execute = shell_execute, si_validate = shell_validate\<rparr>,
      \<lparr>si_type_key = ''switch'', si_execute = pure_step switch_execute, si_validate = switch_validate\<rparr>,
      \<lparr>si_type_key = ''while'', si_execute = pure_step while_execute, si_validate = while_validate\<rparr>]"

fun register_all :: "step_impl list \<Rightarrow> step_impl list \<Rightarrow> step_impl list py" where
  "register_all [] reg = Inr reg"
| "register_all (st # sts) reg = rbind (register_step st reg) (register_all sts)"

text \<open>\<open>STEP_REGISTRY\<close> once the package is imported.\<close>

definition step_registry :: "step_impl list" where
  "step_registry = (case register_all builtin_steps [] of Inr reg \<Rightarrow> reg | Inl _ \<Rightarrow> [])"

definition get_step_type :: "string \<Rightarrow> step_impl option" where
  "get_step_type key = List.find (\<lambda>st. si_type_key st = key) step_registry"

text \<open>\<open>registry.get(step_type)\<close> for whatever the document has as the type.\<close>

definition registry_get :: "pyval \<Rightarrow> step_impl option py" where
  "registry_get ty =
     (if \<not> hashable ty then Inl type_error
      else Inr (case ty of PStr k \<Rightarrow> get_step_type k | _ \<Rightarrow> None))"

lemma step_registry_eq: "step_registry = builtin_steps"
  by (simp add: step_registry_def builtin_steps_def register_step_def)

section \<open>The interface of a step type\<close>

text \<open>
  What the engine relies on of every step type (\<open>StepBase\<close>): it has a key; executing it leaves the run files to the
  engine and only moves the counter and the answers forward; it ends completed, failed or paused, with an error
  text exactly when it failed; only a completed step has nested steps, and they are parts of its
  configuration; its validation reports a missing id.
\<close>

locale step_type =
  fixes type_key :: string
    and execute :: "wenv \<Rightarrow> config \<Rightarrow> step_context \<Rightarrow> step_result step_op"
    and validate :: "config \<Rightarrow> string list py"
  assumes named: "type_key \<noteq> ''''"
    and keeps_files: "execute x cfg c w = (v, w') \<Longrightarrow> w_runs w' = w_runs w"
    and forward: "execute x cfg c w = (v, w') \<Longrightarrow>
      w_tick w \<le> w_tick w' \<and> length (w_answers w') \<le> length (w_answers w)"
    and outcome: "execute x cfg c w = (Inr r, w') \<Longrightarrow>
      sr_status r \<in> {SCompleted, SFailed, SPaused} \<and> (sr_status r = SFailed \<longleftrightarrow> sr_error r \<noteq> PNone)"
    and only_completed: "execute x cfg c w = (Inr r, w') \<Longrightarrow> sr_status r \<noteq> SCompleted \<Longrightarrow> sr_next_steps r = PList []"
    and nested: "execute x cfg c w = (Inr r, w') \<Longrightarrow> py_iter (sr_next_steps r) = Inr xs \<Longrightarrow> y \<in> set xs \<Longrightarrow>
      depth y < depth (PDict cfg)"
    and reports_id: "validate cfg = Inr es \<Longrightarrow> \<not> has_field cfg ''id'' \<Longrightarrow> es \<noteq> []"
begin

text \<open>A configuration without reported errors has an id.\<close>

lemma valid_has_id: "validate cfg = Inr [] \<Longrightarrow> has_field cfg ''id''"
  using reports_id by blast

text \<open>A step that stops the run has nothing left to run.\<close>

lemma stopped_is_leaf:
  "execute x cfg c w = (Inr r, w') \<Longrightarrow> sr_status r \<in> {SFailed, SPaused} \<Longrightarrow> \<not> truthy (sr_next_steps r)"
  using only_completed by fastforce

end

lemma field_item:
  "py_iter (get_or cfg name (PList [])) = Inr xs \<Longrightarrow> y \<in> set xs \<Longrightarrow> depth y < depth (PDict cfg)"
  using depth_iter[of _ xs y] depth_field[of cfg name] by (fastforce simp: get_or_def simp del: depth.simps split: option.splits)

lemma find_case_mem: "find_case t cs = Some (k, v) \<Longrightarrow> \<exists>k'. (k', v) \<in> set cs"
  by (induction cs) (auto split: if_splits)

lemma case_item:
  assumes "as_dict (get_or cfg ''cases'' (PDict [])) = Inr cases" "find_case t cases = Some (k, v)"
    "py_iter v = Inr xs" "y \<in> set xs"
  shows "depth y < depth (PDict cfg)"
proof -
  obtain k' where "(k', v) \<in> set cases" using find_case_mem[OF assms(2)] by blast
  then have v: "depth v < depth (PDict cases)" by (rule depth_entry(2))
  have "cases = [] \<or> field cfg ''cases'' = Some (PDict cases)"
    using assms(1) by (cases "field cfg ''cases''") (auto simp: get_or_def elim!: as_dict.elims)
  then have "field cfg ''cases'' = Some (PDict cases)" using assms(2) by auto
  from depth_field[OF this] v depth_iter[OF assms(3,4)] show ?thesis by simp
qed

lemmas step_shape = sbind_Inr_iff rbind_Inr_iff completed_with_def failed_with_def svc_defs tick_world_def

lemma base_reports: "\<not> has_field cfg ''id'' \<Longrightarrow> base_validate cfg \<noteq> []"
  by (simp add: base_validate_def)

interpretation if_step: step_type "''if''" "pure_step if_execute" if_validate
  by unfold_locales
    (auto simp: pure_step_def if_execute_def if_validate_def slift_def rbind_Inr_iff completed_with_def
      base_reports dest: field_item split: if_splits)

interpretation switch_step: step_type "''switch''" "pure_step switch_execute" switch_validate
  by unfold_locales
    (auto simp: pure_step_def switch_execute_def switch_validate_def slift_def rbind_Inr_iff completed_with_def
      base_reports dest: field_item case_item split: option.splits)

interpretation while_step: step_type "''while''" "pure_step while_execute" while_validate
  by unfold_locales
    (auto simp: pure_step_def while_execute_def while_validate_def slift_def rbind_Inr_iff completed_with_def
      base_reports dest: field_item split: if_splits)

interpretation do_while_step: step_type "''do-while''" "pure_step do_while_execute" do_while_validate
  by unfold_locales
    (auto simp: pure_step_def do_while_execute_def do_while_validate_def slift_def rbind_Inr_iff completed_with_def
      base_reports dest: field_item)

interpretation fan_out_step: step_type "''fan-out''" "pure_step fan_out_execute" fan_out_validate
  by unfold_locales
    (auto simp: pure_step_def fan_out_execute_def fan_out_validate_def slift_def rbind_Inr_iff completed_with_def
      base_reports Let_def)

interpretation fan_in_step: step_type "''fan-in''" "pure_step fan_in_execute" fan_in_validate
  by unfold_locales
    (auto simp: pure_step_def fan_in_execute_def fan_in_validate_def slift_def rbind_Inr_iff
      base_reports Let_def)

interpretation shell_step: step_type "''shell''" shell_execute shell_validate
  by unfold_locales
    (auto simp: shell_execute_def shell_validate_def svc_defs tick_world_def failed_with_def base_reports
      split: sum.splits shell_outcome.splits if_splits)

lemma ask_answers: "length (snd (ask opts n as)) \<le> length as"
proof (induction as)
  case (Cons a as)
  then show ?case by (cases a) (auto simp: Let_def split: sum.splits option.splits)
qed simp

lemma gate_prompt_world:
  "gate_prompt t opts w = (v, w') \<Longrightarrow>
     w_runs w' = w_runs w \<and> w_tick w' = w_tick w \<and> length (w_answers w') \<le> length (w_answers w)"
  using ask_answers[of opts _ "w_answers w"]
  by (auto simp: gate_prompt_def Let_def split: sum.splits prod.splits) (metis snd_conv)

lemma gate_outcome_shape:
  "sr_status (gate_outcome cfg out r ch) \<in> {SCompleted, SFailed, SPaused} \<and>
   (sr_status (gate_outcome cfg out r ch) = SFailed \<longleftrightarrow> sr_error (gate_outcome cfg out r ch) \<noteq> PNone) \<and>
   sr_next_steps (gate_outcome cfg out r ch) = PList []"
  by (simp add: gate_outcome_def Let_def failed_with_def)

lemma gate_execute_cases:
  assumes "gate_execute x cfg c w = (v, w')"
  obtains (raised) e where "v = Inl e" "w_runs w' = w_runs w" "w_tick w' = w_tick w"
      "length (w_answers w') \<le> length (w_answers w)"
  | (paused) r where "v = Inr r" "w' = w" "sr_status r = SPaused" "sr_next_steps r = PList []" "sr_error r = PNone"
      "\<not> w_isatty x"
  | (asked) out choice where "v = Inr (gate_outcome cfg out (get_or cfg ''on_reject'' (PStr ''abort'')) choice)"
      "w_runs w' = w_runs w" "w_tick w' = w_tick w" "length (w_answers w') \<le> length (w_answers w)" "w_isatty x"
  using assms unfolding gate_execute_def Let_def
  by (auto simp: svc_defs split: sum.splits prod.splits if_splits dest: gate_prompt_world)

interpretation gate_step: step_type "''gate''" gate_execute gate_validate
proof unfold_locales
  fix x cfg c w v w' assume e: "gate_execute x cfg c w = (v, w')"
  show "w_runs w' = w_runs w" "w_tick w \<le> w_tick w' \<and> length (w_answers w') \<le> length (w_answers w)"
    by (rule gate_execute_cases[OF e]; simp)+
next
  fix x cfg c w r w' assume e: "gate_execute x cfg c w = (Inr r, w')"
  have n: "sr_next_steps r = PList []" using gate_outcome_shape by (cases rule: gate_execute_cases[OF e]) auto
  then show "sr_status r \<noteq> SCompleted \<Longrightarrow> sr_next_steps r = PList []" .
  show "py_iter (sr_next_steps r) = Inr xs \<Longrightarrow> y \<in> set xs \<Longrightarrow> depth y < depth (PDict cfg)" for xs y
    using n by simp
  show "sr_status r \<in> {SCompleted, SFailed, SPaused} \<and> (sr_status r = SFailed \<longleftrightarrow> sr_error r \<noteq> PNone)"
    using gate_outcome_shape by (cases rule: gate_execute_cases[OF e]) auto
next
  fix cfg es assume "gate_validate cfg = Inr es" "\<not> has_field cfg ''id''"
  then show "es \<noteq> []"
    by (auto simp: gate_validate_def Let_def base_reports rbind_Inr_iff split: pyval.splits if_splits)
qed simp

lemma command_dispatch_world:
  "command_dispatch x cmd key model args c w = (v, w') \<Longrightarrow>
     w_runs w' = w_runs w \<and> w_tick w \<le> w_tick w' \<and> w_answers w' = w_answers w"
  by (auto simp: command_dispatch_def svc_defs tick_world_def
      split: if_splits sum.splits option.splits dispatch_outcome.splits)

lemma prompt_dispatch_world:
  "prompt_dispatch x p key model c w = (v, w') \<Longrightarrow>
     w_runs w' = w_runs w \<and> w_tick w \<le> w_tick w' \<and> w_answers w' = w_answers w"
  by (auto simp: prompt_dispatch_def svc_defs tick_world_def Let_def
      split: if_splits sum.splits option.splits list.splits run_outcome.splits)

lemma dispatched_shape [simp]:
  "sr_status (dispatched out t u r) = SFailed \<longleftrightarrow> sr_status (dispatched out t u r) \<noteq> SCompleted"
  "sr_status (dispatched out t u r) \<noteq> SPaused"
  "sr_error (dispatched out t u r) = PNone \<longleftrightarrow> sr_status (dispatched out t u r) = SCompleted"
  "sr_next_steps (dispatched out t u r) = PList []"
  by (auto simp: dispatched_def failed_with_def Let_def split: option.split)

lemma command_execute_cases:
  assumes "command_execute x cfg c w = (v, w')"
  obtains (raised) e where "v = Inl e" "w_runs w' = w_runs w" "w_tick w \<le> w_tick w'" "w_answers w' = w_answers w"
  | (ran) out t u r where "v = Inr (dispatched out t u r)" "w_runs w' = w_runs w" "w_tick w \<le> w_tick w'"
      "w_answers w' = w_answers w"
  using assms unfolding command_execute_def Let_def
  by (auto simp: svc_defs split: sum.splits prod.splits if_splits dest!: command_dispatch_world)

lemma prompt_execute_cases:
  assumes "prompt_execute x cfg c w = (v, w')"
  obtains (raised) e where "v = Inl e" "w_runs w' = w_runs w" "w_tick w \<le> w_tick w'" "w_answers w' = w_answers w"
  | (ran) out t u r where "v = Inr (dispatched out t u r)" "w_runs w' = w_runs w" "w_tick w \<le> w_tick w'"
      "w_answers w' = w_answers w"
  using assms unfolding prompt_execute_def
  by (auto simp: svc_defs split: sum.splits prod.splits if_splits dest!: prompt_dispatch_world)

interpretation command_step: step_type "''command''" command_execute command_validate
  by unfold_locales (auto simp: command_validate_def base_reports elim!: command_execute_cases)

interpretation prompt_step: step_type "''prompt''" prompt_execute prompt_validate
  by unfold_locales (auto simp: prompt_validate_def base_reports elim!: prompt_execute_cases)

text \<open>Every registered step type keeps the interface.\<close>

lemma registered_step_type:
  "st \<in> set step_registry \<Longrightarrow> step_type (si_type_key st) (si_execute st) (si_validate st)"
  unfolding step_registry_eq builtin_steps_def
  by (auto intro: if_step.step_type_axioms switch_step.step_type_axioms while_step.step_type_axioms
      do_while_step.step_type_axioms fan_out_step.step_type_axioms fan_in_step.step_type_axioms
      shell_step.step_type_axioms gate_step.step_type_axioms command_step.step_type_axioms
      prompt_step.step_type_axioms)

lemma registry_get_registered: "registry_get ty = Inr (Some st) \<Longrightarrow> st \<in> set step_registry \<and> ty = PStr (si_type_key st)"
  by (cases ty) (auto simp: registry_get_def get_step_type_def find_Some_iff)

end
