(* ===== verification/IntegrationState.thy ===== *)
theory IntegrationState
  imports WfBase
begin

text \<open>
  \<open>specify_cli/integration_state.py\<close>: which AI integrations a project has, as \<open>.specify/integration.json\<close>
  records it. The file is the value it holds, or the way reading it fails.
\<close>

section \<open>Keys and settings\<close>

definition INTEGRATION_STATE_SCHEMA :: int where
  "INTEGRATION_STATE_SCHEMA = 1"

definition clean_integration_key :: "pyval \<Rightarrow> string option" where
  "clean_integration_key v =
     (case v of PStr s \<Rightarrow> if py_strip s = '''' then None else Some (py_strip s) | _ \<Rightarrow> None)"

fun dedupe_from :: "string set \<Rightarrow> pyval list \<Rightarrow> string list" where
  "dedupe_from seen [] = []"
| "dedupe_from seen (v # vs) =
     (case clean_integration_key v of
        None \<Rightarrow> dedupe_from seen vs
      | Some k \<Rightarrow> if k \<in> seen then dedupe_from seen vs else k # dedupe_from (insert k seen) vs)"

definition dedupe_integration_keys :: "pyval list \<Rightarrow> string list" where
  "dedupe_integration_keys vs = dedupe_from {} vs"

text \<open>The settings of one integration that are kept, in the order they are written.\<close>

definition clean_setting :: "(pyval \<times> pyval) list \<Rightarrow> (string \<times> pyval) list" where
  "clean_setting v =
     (let stripped = (\<lambda>n. case clean_integration_key (get_none v n) of Some t \<Rightarrow> [(n, PStr t)] | None \<Rightarrow> []);
          kept = (\<lambda>ok n. if ok (get_none v n) then [(n, get_none v n)] else [])
      in stripped ''script'' @ kept is_str ''raw_options'' @ kept is_dict ''parsed_options'' @
         stripped ''invoke_separator'')"

fun settings_from :: "(pyval \<times> pyval) list \<Rightarrow> (pyval \<times> pyval) list \<Rightarrow> (pyval \<times> pyval) list" where
  "settings_from acc [] = acc"
| "settings_from acc ((k, v) # d) =
     (case (clean_integration_key k, v) of
        (Some key, PDict s) \<Rightarrow>
          (if clean_setting s = [] then settings_from acc d
           else settings_from (assoc_set (PStr key) (PDict (obj (clean_setting s))) acc) d)
      | _ \<Rightarrow> settings_from acc d)"

definition normalize_integration_settings :: "pyval \<Rightarrow> (pyval \<times> pyval) list" where
  "normalize_integration_settings v = (case v of PDict d \<Rightarrow> settings_from [] d | _ \<Rightarrow> [])"

section \<open>The normalized state\<close>

text \<open>\<open>isinstance(v, int) and not isinstance(v, bool)\<close> and above the schema.\<close>

definition newer_schema :: "pyval \<Rightarrow> int option" where
  "newer_schema v = (case v of PInt n \<Rightarrow> if INTEGRATION_STATE_SCHEMA < n then Some n else None | _ \<Rightarrow> None)"

definition normalized_integration_state_schema :: "pyval \<Rightarrow> int" where
  "normalized_integration_state_schema v =
     (case newer_schema v of Some n \<Rightarrow> n | None \<Rightarrow> INTEGRATION_STATE_SCHEMA)"

definition assoc_remove :: "pyval \<Rightarrow> (pyval \<times> 'a) list \<Rightarrow> (pyval \<times> 'a) list" where
  "assoc_remove k d = List.filter (\<lambda>(k', v). \<not> py_eq k' k) d"

definition opt_or :: "'a option \<Rightarrow> 'a option \<Rightarrow> 'a option" where
  "opt_or a b = (case a of Some _ \<Rightarrow> a | None \<Rightarrow> b)"

definition as_list :: "pyval \<Rightarrow> pyval list" where
  "as_list v = (case v of PList xs \<Rightarrow> xs | _ \<Rightarrow> [])"

text \<open>The default key and the installed keys a document stands for: the default is installed, and first if added.\<close>

definition default_and_installed :: "(pyval \<times> pyval) list \<Rightarrow> string option \<times> string list" where
  "default_and_installed d =
     (let installed = dedupe_integration_keys (as_list (get_none d ''installed_integrations''));
          key = opt_or (opt_or (clean_integration_key (get_none d ''default_integration''))
                               (clean_integration_key (get_none d ''integration'')))
                       (case installed of [] \<Rightarrow> None | k # _ \<Rightarrow> Some k)
      in (key, case key of Some k \<Rightarrow> if k \<in> set installed then installed else k # installed | None \<Rightarrow> installed))"

text \<open>\<open>{key: settings[key] for key in installed if key in settings}\<close>.\<close>

definition restrict_settings :: "string list \<Rightarrow> (pyval \<times> pyval) list \<Rightarrow> (pyval \<times> pyval) list" where
  "restrict_settings installed s =
     concat (map (\<lambda>k. case field s k of Some v \<Rightarrow> [(PStr k, v)] | None \<Rightarrow> []) installed)"

definition normalize_integration_state :: "(pyval \<times> pyval) list \<Rightarrow> (pyval \<times> pyval) list" where
  "normalize_integration_state d =
     (case default_and_installed d of (key, installed) \<Rightarrow>
        let n1 = assoc_set (PStr ''integration_state_schema'')
              (PInt (normalized_integration_state_schema (get_none d ''integration_state_schema''))) d;
            n2 = (case key of
                    Some k \<Rightarrow> assoc_set (PStr ''default_integration'') (PStr k) (assoc_set (PStr ''integration'') (PStr k) n1)
                  | None \<Rightarrow> assoc_remove (PStr ''default_integration'') (assoc_remove (PStr ''integration'') n1));
            n3 = assoc_set (PStr ''installed_integrations'') (PList (map PStr installed)) n2
        in assoc_set (PStr ''integration_settings'')
             (PDict (restrict_settings installed (normalize_integration_settings (get_none d ''integration_settings'')))) n3)"

definition default_integration_key :: "(pyval \<times> pyval) list \<Rightarrow> string option" where
  "default_integration_key d =
     clean_integration_key (py_or (get_none d ''default_integration'') (get_none d ''integration''))"

definition installed_integration_keys :: "(pyval \<times> pyval) list \<Rightarrow> string list py" where
  "installed_integration_keys d =
     rbind (py_iter (get_or d ''installed_integrations'' (PList []))) (\<lambda>vs. Inr (dedupe_integration_keys vs))"

definition integration_settings :: "(pyval \<times> pyval) list \<Rightarrow> (pyval \<times> pyval) list" where
  "integration_settings d = normalize_integration_settings (get_none d ''integration_settings'')"

definition integration_setting :: "(pyval \<times> pyval) list \<Rightarrow> string \<Rightarrow> pyval" where
  "integration_setting d key = get_or (integration_settings d) key (PDict [])"

section \<open>The file\<close>

record integration_read_error =
  ire_kind :: string
  ire_detail :: string
  ire_schema :: "int option"

definition read_integration_json_data ::
  "json_file \<Rightarrow> (pyval \<times> pyval) list option \<times> integration_read_error option" where
  "read_integration_json_data f =
     (case f of
        JsonAbsent \<Rightarrow> (None, None)
      | JsonOsError m \<Rightarrow> (None, Some \<lparr>ire_kind = ''os'', ire_detail = m, ire_schema = None\<rparr>)
      | JsonDecodeError m \<Rightarrow> (None, Some \<lparr>ire_kind = ''decode'', ire_detail = m, ire_schema = None\<rparr>)
      | JsonValue v \<Rightarrow>
          (case v of
             PDict d \<Rightarrow>
               (case newer_schema (get_none d ''integration_state_schema'') of
                  Some n \<Rightarrow> (None, Some \<lparr>ire_kind = ''schema_too_new'', ire_detail = '''', ire_schema = Some n\<rparr>)
                | None \<Rightarrow> (Some d, None))
           | _ \<Rightarrow> (None, Some \<lparr>ire_kind = ''not_object'', ire_detail = type_name v, ire_schema = None\<rparr>)))"

definition try_read_integration_json ::
  "json_file \<Rightarrow> (pyval \<times> pyval) list option \<times> integration_read_error option" where
  "try_read_integration_json f =
     (case read_integration_json_data f of
        (Some d, _) \<Rightarrow> (Some (normalize_integration_state d), None) | (None, e) \<Rightarrow> (None, e))"

definition try_read_integration_json_with_raw ::
  "json_file \<Rightarrow> (pyval \<times> pyval) list option \<times> (pyval \<times> pyval) list option \<times> integration_read_error option" where
  "try_read_integration_json_with_raw f =
     (case read_integration_json_data f of
        (Some d, _) \<Rightarrow> (Some (normalize_integration_state d), Some d, None) | (None, e) \<Rightarrow> (None, None, e))"

text \<open>The document \<open>write_integration_json\<close> dumps, and what the file then holds.\<close>

definition integration_document ::
  "string \<Rightarrow> string option \<Rightarrow> string list \<Rightarrow> pyval \<Rightarrow> (string \<times> pyval) list" where
  "integration_document version key installed settings =
     (let k0 = (case key of None \<Rightarrow> None | Some t \<Rightarrow> clean_integration_key (PStr t));
          l0 = dedupe_integration_keys (map PStr installed);
          l1 = (case k0 of Some k \<Rightarrow> if k \<in> set l0 then l0 else k # l0 | None \<Rightarrow> l0);
          k1 = (case k0 of Some k \<Rightarrow> Some k | None \<Rightarrow> (case l1 of [] \<Rightarrow> None | k # _ \<Rightarrow> Some k))
      in [(''version'', PStr version), (''integration_state_schema'', PInt INTEGRATION_STATE_SCHEMA),
          (''installed_integrations'', PList (map PStr l1)),
          (''integration_settings'', PDict (restrict_settings l1 (normalize_integration_settings settings)))] @
         (case k1 of Some k \<Rightarrow> [(''integration'', PStr k), (''default_integration'', PStr k)] | None \<Rightarrow> []))"

definition write_integration_json :: "string \<Rightarrow> string option \<Rightarrow> string list \<Rightarrow> pyval \<Rightarrow> json_file" where
  "write_integration_json version key installed settings =
     JsonValue (to_json (PDict (obj (integration_document version key installed settings))))"

section \<open>What normalization promises\<close>

lemma strip_ends:
  assumes "py_strip s \<noteq> []"
  shows "\<not> py_space (hd (py_strip s)) \<and> \<not> py_space (last (py_strip s))"
proof -
  let ?t = "dropWhile py_space s"
  let ?r = "dropWhile py_space (rev ?t)"
  have r: "?r \<noteq> []" using assms unfolding py_strip_def by simp
  have t: "?t = rev ?r @ rev (takeWhile py_space (rev ?t))"
    by (metis rev_append rev_rev_ident takeWhile_dropWhile_id)
  have "?t \<noteq> []" using r by (metis dropWhile.simps(1) rev.simps(1))
  then have "\<not> py_space (hd ?t)" by (rule hd_dropWhile)
  moreover have "hd ?t = hd (rev ?r)" using t r by (metis hd_append2 rev_is_Nil_conv)
  ultimately show ?thesis using hd_dropWhile[OF r] r
    by (simp add: py_strip_def last_rev del: dropWhile_eq_Nil_conv)
qed

lemma dropWhile_hd: "s = [] \<or> \<not> P (hd s) \<Longrightarrow> dropWhile P s = s"
  by (cases s) auto

lemma strip_idem [simp]: "py_strip (py_strip s) = py_strip s"
proof -
  have "py_strip t = t" if "t = [] \<or> \<not> py_space (hd t) \<and> \<not> py_space (last t)" for t
  proof -
    have "dropWhile py_space t = t" using that by (intro dropWhile_hd) auto
    moreover have "dropWhile py_space (rev t) = rev t" using that by (intro dropWhile_hd) (auto simp: hd_rev)
    ultimately show ?thesis by (simp add: py_strip_def)
  qed
  then show ?thesis using strip_ends[of s] by blast
qed

lemma clean_key_idem: "clean_integration_key v = Some k \<Longrightarrow> clean_integration_key (PStr k) = Some k"
  by (auto simp: clean_integration_key_def split: pyval.splits if_splits)

lemma dedupe_clean:
  "k \<in> set (dedupe_from seen vs) \<Longrightarrow> clean_integration_key (PStr k) = Some k \<and> k \<notin> seen"
proof (induction vs arbitrary: seen)
  case (Cons v vs)
  show ?case
  proof (cases "clean_integration_key v")
    case (Some j)
    with Cons.prems Cons.IH[of seen] Cons.IH[of "insert j seen"] clean_key_idem[OF Some]
    show ?thesis by (auto split: if_splits)
  qed (use Cons in simp)
qed simp

lemma dedupe_distinct: "distinct (dedupe_from seen vs)"
proof (induction vs arbitrary: seen)
  case (Cons v vs)
  show ?case using Cons.IH dedupe_clean[of _ "insert _ seen" vs]
    by (auto split: option.split)
qed simp

lemma dedupe_id:
  "distinct ks \<Longrightarrow> (\<And>k. k \<in> set ks \<Longrightarrow> clean_integration_key (PStr k) = Some k \<and> k \<notin> seen) \<Longrightarrow>
     dedupe_from seen (map PStr ks) = ks"
proof (induction ks arbitrary: seen)
  case (Cons k ks)
  have "dedupe_from (insert k seen) (map PStr ks) = ks"
    using Cons.prems by (intro Cons.IH) auto
  with Cons.prems(2)[of k] show ?case by simp
qed simp

text \<open>What the reader of a normalized document finds.\<close>

lemma field_assoc_set [simp]:
  "field (assoc_set (PStr k) v d) n = (if k = n then Some v else field d n)"
  unfolding field_def by (induction d) (auto simp: is_str_iff)

lemma field_assoc_remove [simp]: "field (assoc_remove (PStr k) d) n = (if k = n then None else field d n)"
  unfolding field_def assoc_remove_def by (induction d) auto

definition clean_keys :: "string option \<Rightarrow> string list \<Rightarrow> bool" where
  "clean_keys key installed \<longleftrightarrow> distinct installed \<and> (\<forall>k \<in> set installed. clean_integration_key (PStr k) = Some k) \<and>
     (case key of None \<Rightarrow> installed = [] | Some k \<Rightarrow> k \<in> set installed)"

lemma opt_or_Some: "opt_or a b = Some k \<longleftrightarrow> a = Some k \<or> (a = None \<and> b = Some k)"
  by (cases a) (auto simp: opt_or_def)

lemma opt_or_None: "opt_or a b = None \<longleftrightarrow> a = None \<and> b = None"
  by (cases a) (auto simp: opt_or_def)

lemma default_and_installed_clean: "clean_keys (fst (default_and_installed d)) (snd (default_and_installed d))"
proof -
  let ?l = "dedupe_integration_keys (as_list (get_none d ''installed_integrations''))"
  have l: "distinct ?l" "k \<in> set ?l \<Longrightarrow> clean_integration_key (PStr k) = Some k" for k
    using dedupe_distinct dedupe_clean[of k] by (auto simp: dedupe_integration_keys_def)
  define key where "key = opt_or (opt_or (clean_integration_key (get_none d ''default_integration''))
      (clean_integration_key (get_none d ''integration''))) (case ?l of [] \<Rightarrow> None | k # _ \<Rightarrow> Some k)"
  have di: "default_and_installed d =
      (key, case key of Some k \<Rightarrow> if k \<in> set ?l then ?l else k # ?l | None \<Rightarrow> ?l)"
    by (simp add: default_and_installed_def Let_def key_def)
  show ?thesis
  proof (cases key)
    case None
    then have "?l = []" by (auto simp: key_def opt_or_None split: list.splits)
    with None di show ?thesis by (simp add: clean_keys_def)
  next
    case (Some k)
    then have "clean_integration_key (PStr k) = Some k"
      unfolding key_def opt_or_Some using l(2) clean_key_idem by (auto split: list.splits)
    with Some di l show ?thesis by (simp add: clean_keys_def)
  qed
qed

section \<open>Normalizing twice is normalizing once\<close>

lemma assoc_set_same: "field d n = Some v \<Longrightarrow> assoc_set (PStr n) v d = d"
  unfolding field_def by (induction d) (auto split: if_splits)

lemma assoc_remove_absent: "field d n = None \<Longrightarrow> assoc_remove (PStr n) d = d"
  unfolding field_def assoc_remove_def by (induction d) (auto split: if_splits)

lemma field_Cons [simp]: "field ((PStr k, v) # d) n = (if k = n then Some v else field d n)"
  by (simp add: field_def)

lemma field_Nil [simp]: "field [] n = None"
  by (simp add: field_def)

lemma field_obj: "field (obj d) n = map_of d n"
  by (induction d) (auto simp: obj_def)

definition clean_entry :: "pyval \<times> pyval \<Rightarrow> bool" where
  "clean_entry e \<longleftrightarrow> (\<exists>k cs. e = (PStr k, PDict (obj cs)) \<and> clean_integration_key (PStr k) = Some k \<and> cs \<noteq> [] \<and>
     clean_setting (obj cs) = cs)"

lemma clean_setting_idem: "clean_setting (obj (clean_setting v)) = clean_setting v"
proof -
  have str: "clean_integration_key PNone = None" by (simp add: clean_integration_key_def)
  show ?thesis
    by (cases "clean_integration_key (get_none v ''script'')"; cases "clean_integration_key (get_none v ''invoke_separator'')";
        cases "is_str (get_none v ''raw_options'')"; cases "is_dict (get_none v ''parsed_options'')")
      (simp_all add: clean_setting_def Let_def field_obj get_or_def[of "obj _"] str clean_key_idem)
qed

lemma clean_entry_str: "clean_entry e \<Longrightarrow> is_str (fst e)"
  by (auto simp: clean_entry_def)

lemma keys_assoc_set:
  "map fst (assoc_set (PStr k) v d) = (if PStr k \<in> fst ` set d then map fst d else map fst d @ [PStr k])"
  by (induction d) (force split: if_splits)+

lemma assoc_set_clean:
  "list_all clean_entry d \<Longrightarrow> clean_entry (PStr k, v) \<Longrightarrow> list_all clean_entry (assoc_set (PStr k) v d)"
  by (induction d) auto

lemma settings_from_clean:
  "list_all clean_entry acc \<Longrightarrow> distinct (map fst acc) \<Longrightarrow>
     list_all clean_entry (settings_from acc d) \<and> distinct (map fst (settings_from acc d))"
proof (induction d arbitrary: acc)
  case (Cons e d)
  obtain k v where e: "e = (k, v)" by (cases e)
  show ?case
  proof (cases "\<exists>key s. clean_integration_key k = Some key \<and> v = PDict s \<and> clean_setting s \<noteq> []")
    case True
    then obtain key s where ks: "clean_integration_key k = Some key" "v = PDict s" "clean_setting s \<noteq> []" by blast
    have "clean_entry (PStr key, PDict (obj (clean_setting s)))"
      using ks(3) clean_key_idem[OF ks(1)] clean_setting_idem[of s] unfolding clean_entry_def by blast
    from assoc_set_clean[OF Cons.prems(1) this] Cons.prems(2) Cons.IH ks e show ?thesis
      by (simp add: keys_assoc_set)
  next
    case False
    then have "settings_from acc (e # d) = settings_from acc d"
      unfolding e by (cases "clean_integration_key k"; cases v) auto
    with Cons show ?thesis by simp
  qed
qed simp

lemma settings_from_fix:
  "list_all clean_entry acc \<Longrightarrow> list_all clean_entry d \<Longrightarrow> distinct (map fst acc @ map fst d) \<Longrightarrow>
     settings_from acc d = acc @ d"
proof (induction d arbitrary: acc)
  case (Cons e d)
  then obtain k cs where e: "e = (PStr k, PDict (obj cs))" "clean_integration_key (PStr k) = Some k" "cs \<noteq> []"
    "clean_setting (obj cs) = cs" by (auto simp: clean_entry_def)
  have "list_all is_str (map fst acc)" using Cons.prems(1) clean_entry_str by (auto simp: list_all_iff)
  then have "assoc_set (PStr k) (PDict (obj cs)) acc = acc @ [e]"
    using Cons.prems(3) e(1) by (subst assoc_set_fresh) auto
  with e Cons.IH[of "acc @ [e]"] Cons.prems show ?case by simp
qed simp

lemma restrict_keys: "map fst (restrict_settings ks s) = map PStr (List.filter (\<lambda>k. field s k \<noteq> None) ks)"
  by (induction ks) (auto simp: restrict_settings_def)

lemma restrict_field:
  "distinct ks \<Longrightarrow> field (restrict_settings ks s) k = (if k \<in> set ks then field s k else None)"
proof (induction ks)
  case (Cons j ks)
  then show ?case by (cases "field s j") (auto simp: restrict_settings_def)
qed (simp add: restrict_settings_def)

lemma restrict_idem: "distinct ks \<Longrightarrow> restrict_settings ks (restrict_settings ks s) = restrict_settings ks s"
  unfolding restrict_settings_def[of ks "restrict_settings ks s"]
  by (simp add: restrict_field cong: map_cong) (simp add: restrict_settings_def)

lemma restrict_clean:
  assumes "list_all clean_entry s" "distinct ks"
  shows "normalize_integration_settings (PDict (restrict_settings ks s)) = restrict_settings ks s"
proof -
  have "clean_entry (PStr k, v)" if "field s k = Some v" for k v
    using that assms(1) unfolding field_def by (induction s) (auto split: if_splits)
  then have "list_all clean_entry (restrict_settings ks s)"
    by (auto simp: restrict_settings_def list_all_iff split: option.splits)
  moreover have "distinct (map fst (restrict_settings ks s))"
    using assms(2) by (auto simp: restrict_keys distinct_map inj_on_def)
  ultimately show ?thesis by (simp add: normalize_integration_settings_def settings_from_fix)
qed

lemma normalized_fields:
  assumes "default_and_installed d = (key, installed)"
  shows "field (normalize_integration_state d) ''integration_state_schema'' =
      Some (PInt (normalized_integration_state_schema (get_none d ''integration_state_schema'')))"
    "field (normalize_integration_state d) ''integration'' = map_option PStr key"
    "field (normalize_integration_state d) ''default_integration'' = map_option PStr key"
    "field (normalize_integration_state d) ''installed_integrations'' = Some (PList (map PStr installed))"
    "field (normalize_integration_state d) ''integration_settings'' =
      Some (PDict (restrict_settings installed (normalize_integration_settings (get_none d ''integration_settings''))))"
  using assms by (simp_all add: normalize_integration_state_def Let_def split: option.split)

lemma normalized_keys:
  assumes "clean_keys key installed" "field n ''integration'' = map_option PStr key"
    "field n ''default_integration'' = map_option PStr key"
    "field n ''installed_integrations'' = Some (PList (map PStr installed))"
  shows "default_and_installed n = (key, installed)"
proof -
  have l: "dedupe_integration_keys (map PStr installed) = installed"
    using assms(1) by (auto simp: dedupe_integration_keys_def clean_keys_def intro!: dedupe_id)
  show ?thesis using assms
    by (cases key) (auto simp: default_and_installed_def Let_def get_or_def as_list_def l clean_keys_def opt_or_def
        dedupe_integration_keys_def[of "[]"] clean_integration_key_def[of PNone])
qed

lemma schema_idem:
  "normalized_integration_state_schema (PInt (normalized_integration_state_schema v)) =
     normalized_integration_state_schema v"
  by (cases v) (simp_all add: normalized_integration_state_schema_def newer_schema_def INTEGRATION_STATE_SCHEMA_def)

text \<open>Normalizing a project's integration document is idempotent: whatever legacy or damaged mapping the file
  holds, the normalized one is a fixed point, so reading it again and again changes nothing.\<close>

theorem normalize_idempotent:
  "normalize_integration_state (normalize_integration_state d) = normalize_integration_state d"
proof -
  obtain key installed where di: "default_and_installed d = (key, installed)" by (cases "default_and_installed d")
  have ck: "clean_keys key installed" using default_and_installed_clean[of d] di by simp
  let ?n = "normalize_integration_state d"
  note f = normalized_fields[OF di]
  have di': "default_and_installed ?n = (key, installed)" by (rule normalized_keys[OF ck f(2,3,4)])
  let ?s = "normalize_integration_settings (get_none d ''integration_settings'')"
  have "list_all clean_entry ?s"
    using settings_from_clean[of "[]"] by (auto simp: normalize_integration_settings_def split: pyval.split)
  then have s: "restrict_settings installed (normalize_integration_settings (PDict (restrict_settings installed ?s))) =
      restrict_settings installed ?s"
    using ck by (simp add: restrict_clean restrict_idem clean_keys_def)
  have 1: "assoc_set (PStr ''integration_state_schema'') (PInt (normalized_integration_state_schema
        (get_none ?n ''integration_state_schema''))) ?n = ?n"
    using f(1) by (intro assoc_set_same) (simp add: get_or_def schema_idem)
  have 2: "(case key of Some k \<Rightarrow> assoc_set (PStr ''default_integration'') (PStr k) (assoc_set (PStr ''integration'') (PStr k) ?n)
      | None \<Rightarrow> assoc_remove (PStr ''default_integration'') (assoc_remove (PStr ''integration'') ?n)) = ?n"
    using f(2,3) by (cases key) (simp_all add: assoc_set_same assoc_remove_absent)
  have 3: "assoc_set (PStr ''installed_integrations'') (PList (map PStr installed)) ?n = ?n"
    using f(4) by (rule assoc_set_same)
  have 4: "assoc_set (PStr ''integration_settings'') (PDict (restrict_settings installed
      (normalize_integration_settings (get_none ?n ''integration_settings'')))) ?n = ?n"
    using f(5) s by (intro assoc_set_same) (simp add: get_or_def)
  show ?thesis
    unfolding normalize_integration_state_def[of ?n] di' Let_def prod.case 1 2 3 4 by simp
qed

lemma distinct_document: "distinct (map fst (integration_document version key installed settings))"
proof -
  have "map fst (integration_document version key installed settings) \<in>
      {[''version'', ''integration_state_schema'', ''installed_integrations'', ''integration_settings''],
       [''version'', ''integration_state_schema'', ''installed_integrations'', ''integration_settings'',
        ''integration'', ''default_integration'']}"
    by (simp add: integration_document_def Let_def split: option.split)
  then show ?thesis by auto
qed

text \<open>What is written is what is read: a document written for a key and a list of installed integrations reads
  back, through JSON and normalization, with the cleaned key (or, without one, the first installed) as the
  default and with the same installed integrations, the default among them.\<close>

theorem written_integrations_read_back:
  "\<exists>st. try_read_integration_json (write_integration_json version key installed settings) = (Some st, None) \<and>
     (let k0 = (case key of None \<Rightarrow> None | Some t \<Rightarrow> clean_integration_key (PStr t));
          l0 = dedupe_integration_keys (map PStr installed);
          l1 = (case k0 of Some k \<Rightarrow> if k \<in> set l0 then l0 else k # l0 | None \<Rightarrow> l0)
      in default_integration_key st = opt_or k0 (case l1 of [] \<Rightarrow> None | k # _ \<Rightarrow> Some k) \<and>
         installed_integration_keys st = Inr l1)"
proof -
  let ?k0 = "case key of None \<Rightarrow> None | Some t \<Rightarrow> clean_integration_key (PStr t)"
  let ?l0 = "dedupe_integration_keys (map PStr installed)"
  let ?l1 = "case ?k0 of Some k \<Rightarrow> if k \<in> set ?l0 then ?l0 else k # ?l0 | None \<Rightarrow> ?l0"
  let ?k1 = "case ?k0 of Some k \<Rightarrow> Some k | None \<Rightarrow> (case ?l1 of [] \<Rightarrow> None | k # _ \<Rightarrow> Some k)"
  let ?doc = "integration_document version key installed settings"
  have l0: "distinct ?l0" "\<And>k. k \<in> set ?l0 \<Longrightarrow> clean_integration_key (PStr k) = Some k"
    using dedupe_distinct dedupe_clean by (auto simp: dedupe_integration_keys_def)
  have k0: "clean_integration_key (PStr k) = Some k" if "?k0 = Some k" for k
    using that by (auto split: option.splits dest: clean_key_idem)
  have ck: "clean_keys ?k1 ?l1"
  proof (cases ?k0)
    case None
    then show ?thesis using l0 by (cases ?l0) (auto simp: clean_keys_def)
  next
    case (Some k)
    then show ?thesis using l0 k0[OF Some] by (auto simp: clean_keys_def)
  qed
  note doc = to_json_obj[OF distinct_document[of version key installed settings]]
  let ?d = "obj (map (\<lambda>(k, v). (k, to_json v)) ?doc)"
  have di: "default_and_installed ?d = (?k1, ?l1)"
    by (rule normalized_keys[OF ck])
      (auto simp: field_obj integration_document_def Let_def comp_def split: option.split)
  have sch: "newer_schema (get_none ?d ''integration_state_schema'') = None"
    by (simp add: get_or_def field_obj integration_document_def Let_def newer_schema_def INTEGRATION_STATE_SCHEMA_def)
  note f = normalized_fields[OF di]
  have "default_integration_key (normalize_integration_state ?d) = ?k1"
    using ck f(2,3) by (cases ?k1) (auto simp: default_integration_key_def get_or_def py_or_def clean_keys_def
        clean_integration_key_def[of PNone] clean_integration_key_def[of "PStr []"])
  moreover have "installed_integration_keys (normalize_integration_state ?d) = Inr ?l1"
    using ck f(4) by (auto simp: installed_integration_keys_def get_or_def dedupe_integration_keys_def clean_keys_def
        intro!: dedupe_id)
  moreover have "?k1 = opt_or ?k0 (case ?l1 of [] \<Rightarrow> None | k # _ \<Rightarrow> Some k)"
    by (cases ?k0) (simp_all add: opt_or_def)
  moreover have "read_integration_json_data (write_integration_json version key installed settings) = (Some ?d, None)"
    unfolding write_integration_json_def doc by (simp add: read_integration_json_data_def sch)
  then have "try_read_integration_json (write_integration_json version key installed settings) =
      (Some (normalize_integration_state ?d), None)"
    by (simp add: try_read_integration_json_def)
  ultimately show ?thesis unfolding Let_def by metis
qed

end
