(* ===== verification/WfDefinition.thy ===== *)
theory WfDefinition
  imports StepTypes IntegrationState
begin

text \<open>
  The static side of \<open>workflows/engine.py\<close>: the parsed definition, its validation, the typing of inputs, and
  how a run's inputs are resolved.
\<close>

section \<open>Definitions\<close>

record workflow_definition =
  wd_data :: "(pyval \<times> pyval) list"
  wd_id :: pyval
  wd_name :: pyval
  wd_version :: pyval
  wd_author :: pyval
  wd_description :: pyval
  wd_schema_version :: pyval
  wd_default_integration :: pyval
  wd_default_model :: pyval
  wd_default_options :: "(pyval \<times> pyval) list"
  wd_requires :: pyval
  wd_inputs :: pyval
  wd_steps :: pyval

definition init_definition :: "(pyval \<times> pyval) list \<Rightarrow> workflow_definition py" where
  "init_definition data =
     rbind (as_dict (get_or data ''workflow'' (PDict []))) (\<lambda>w.
     Inr \<lparr>wd_data = data, wd_id = get_or w ''id'' (PStr ''''), wd_name = get_or w ''name'' (PStr ''''),
          wd_version = get_or w ''version'' (PStr ''0.0.0''), wd_author = get_or w ''author'' (PStr ''''),
          wd_description = get_or w ''description'' (PStr ''''),
          wd_schema_version = get_or data ''schema_version'' (PStr ''1.0''),
          wd_default_integration = get_none w ''integration'', wd_default_model = get_none w ''model'',
          wd_default_options = (case py_or (get_none w ''options'') (PDict []) of PDict d \<Rightarrow> d | _ \<Rightarrow> []),
          wd_requires = get_or data ''requires'' (PDict []), wd_inputs = get_or data ''inputs'' (PDict []),
          wd_steps = get_or data ''steps'' (PList [])\<rparr>)"

text \<open>\<open>from_yaml\<close> and \<open>from_string\<close>, on the text.\<close>

definition definition_of_text :: "wenv \<Rightarrow> string \<Rightarrow> workflow_definition py" where
  "definition_of_text x text =
     rbind (w_yaml_load x text) (\<lambda>v.
     case v of
       PDict d \<Rightarrow> init_definition d
     | _ \<Rightarrow> Inl (value_error (''Workflow YAML must be a mapping, got '' @ type_name v @ ''.'')))"

section \<open>Patterns\<close>

text \<open>A pattern that ends in a dollar also matches before a final newline.\<close>

definition dollar :: "(string \<Rightarrow> bool) \<Rightarrow> string \<Rightarrow> bool" where
  "dollar p t \<longleftrightarrow> p t \<or> (t \<noteq> [] \<and> last t = newline \<and> p (butlast t))"

definition lower_alnum :: "char \<Rightarrow> bool" where
  "lower_alnum c = (let n = code_of c in (48 \<le> n \<and> n \<le> 57) \<or> (97 \<le> n \<and> n \<le> 122))"

definition id_text :: "string \<Rightarrow> bool" where
  "id_text t \<longleftrightarrow> t \<noteq> [] \<and> lower_alnum (hd t) \<and> lower_alnum (last t) \<and>
     list_all (\<lambda>c. lower_alnum c \<or> c = CHR ''-'') t"

definition id_pattern :: "string \<Rightarrow> bool" where
  "id_pattern = dollar id_text"

definition version_pattern :: "string \<Rightarrow> bool" where
  "version_pattern = dollar (\<lambda>t. case split_on (CHR ''.'') t of
     [a, b, c] \<Rightarrow> list_all (\<lambda>p. p \<noteq> [] \<and> list_all is_digit p) [a, b, c] | _ \<Rightarrow> False)"

section \<open>Typing an input\<close>

definition expected :: "pyval \<Rightarrow> string \<Rightarrow> string \<Rightarrow> pyexn" where
  "expected name what got = value_error (''Input '' @ py_repr name @ '' expected a '' @ what @ '', got '' @ got @ ''.'')"

text \<open>\<open>if value == int(value): value = int(value)\<close>; an infinity raises here, uncaught.\<close>

definition narrow :: "pyfloat \<Rightarrow> pyval py" where
  "narrow f =
     (case trunc_float f of
        None \<Rightarrow> Inl (PyExc ''OverflowError'' '''')
      | Some n \<Rightarrow> Inr (if float_cmp f (exact_num n) = 0 then PInt n else PFloat f))"

definition coerce_number :: "pyval \<Rightarrow> pyval \<Rightarrow> pyval py" where
  "coerce_number name v =
     (case v of
        PInt n \<Rightarrow> (case float_of_int n of None \<Rightarrow> Inl (PyExc ''OverflowError'' '''') | Some f \<Rightarrow> narrow f)
      | PFloat f \<Rightarrow> narrow f
      | PStr s \<Rightarrow>
          (case parse_float s of
             IsFloat f \<Rightarrow> narrow f
           | IsNan \<Rightarrow> Inl (expected name ''number'' ''nan'')
           | NotFloat \<Rightarrow> Inl (expected name ''number'' (py_repr v)))
      | _ \<Rightarrow> Inl (expected name ''number'' (py_repr v)))"

definition coerce_boolean :: "pyval \<Rightarrow> pyval \<Rightarrow> pyval py" where
  "coerce_boolean name v =
     (case v of
        PStr s \<Rightarrow>
          if py_lower s \<in> {''true'', ''1'', ''yes''} then Inr (PBool True)
          else if py_lower s \<in> {''false'', ''0'', ''no''} then Inr (PBool False)
          else Inl (expected name ''boolean'' (py_repr v))
      | PBool b \<Rightarrow> Inr v
      | _ \<Rightarrow> Inl (expected name ''boolean'' (py_repr v)))"

definition coerce_string :: "pyval \<Rightarrow> pyval \<Rightarrow> pyval py" where
  "coerce_string name v = (case v of PStr s \<Rightarrow> Inr v | _ \<Rightarrow> Inl (expected name ''string'' (py_repr v)))"

definition coerce_type :: "pyval \<Rightarrow> pyval \<Rightarrow> (pyval \<times> pyval) list \<Rightarrow> pyval py" where
  "coerce_type name v idef =
     (let ty = get_or idef ''type'' (PStr ''string'') in
      if ty = PStr ''number'' then coerce_number name v
      else if ty = PStr ''boolean'' then coerce_boolean name v
      else if ty = PStr ''string'' then coerce_string name v
      else Inr v)"

definition check_enum :: "pyval \<Rightarrow> pyval \<Rightarrow> pyval \<Rightarrow> pyval py" where
  "check_enum name enum v =
     (if enum = PNone then Inr v
      else rbind (py_in v enum) (\<lambda>b.
        if b then Inr v
        else Inl (value_error (''Input '' @ py_repr name @ '' value '' @ py_repr v @ '' not in allowed values: '' @
               py_str enum @ ''.''))))"

definition coerce_input :: "pyval \<Rightarrow> pyval \<Rightarrow> (pyval \<times> pyval) list \<Rightarrow> pyval py" where
  "coerce_input name v idef = rbind (coerce_type name v idef) (check_enum name (get_none idef ''enum''))"

text \<open>The \<open>integration\<close> input may hold the sentinel \<open>auto\<close>, which no enumeration needs to list.\<close>

definition is_auto :: "pyval \<Rightarrow> pyval \<Rightarrow> bool" where
  "is_auto name v \<longleftrightarrow> name = PStr ''integration'' \<and> v = PStr ''auto''"

definition without_enum :: "(pyval \<times> pyval) list \<Rightarrow> (pyval \<times> pyval) list" where
  "without_enum idef = List.filter (\<lambda>(k, v). k \<noteq> PStr ''enum'') idef"

section \<open>Resolving a run's inputs\<close>

definition load_project_integration :: "wenv \<Rightarrow> string option" where
  "load_project_integration x =
     (case try_read_integration_json (w_integration_json x) of
        (Some st, None) \<Rightarrow> default_integration_key st | _ \<Rightarrow> None)"

definition resolve_default :: "wenv \<Rightarrow> pyval \<Rightarrow> pyval \<Rightarrow> pyval" where
  "resolve_default x name v =
     (if is_auto name v then (case load_project_integration x of Some k \<Rightarrow> PStr k | None \<Rightarrow> v) else v)"

text \<open>One input: its value, none, or an exception.\<close>

definition resolve_input ::
  "wenv \<Rightarrow> (pyval \<times> pyval) list \<Rightarrow> pyval \<Rightarrow> (pyval \<times> pyval) list \<Rightarrow> pyval option py" where
  "resolve_input x provided name idef =
     rbind (case assoc_get provided name of
              Some v \<Rightarrow> Inr (Some (resolve_default x name v))
            | None \<Rightarrow>
                (case field idef ''default'' of
                   Some v \<Rightarrow> Inr (Some (resolve_default x name v))
                 | None \<Rightarrow>
                     if truthy (get_or idef ''required'' (PBool False))
                     then Inl (value_error (''Required input '' @ py_repr name @ '' not provided.''))
                     else Inr None)) (\<lambda>r.
     case r of
       None \<Rightarrow> Inr None
     | Some v \<Rightarrow>
         rbind (coerce_input name v (if is_auto name v then without_enum idef else idef)) (\<lambda>u. Inr (Some u)))"

fun resolve_each ::
  "wenv \<Rightarrow> (pyval \<times> pyval) list \<Rightarrow> (pyval \<times> pyval) list \<Rightarrow> (pyval \<times> pyval) list py" where
  "resolve_each x provided [] = Inr []"
| "resolve_each x provided ((name, def) # ds) =
     (case def of
        PDict idef \<Rightarrow>
          rbind (resolve_input x provided name idef) (\<lambda>r.
          rbind (resolve_each x provided ds) (\<lambda>rest.
          Inr (case r of Some v \<Rightarrow> (name, v) # rest | None \<Rightarrow> rest)))
      | _ \<Rightarrow> resolve_each x provided ds)"

definition resolve_inputs ::
  "wenv \<Rightarrow> workflow_definition \<Rightarrow> (pyval \<times> pyval) list \<Rightarrow> (pyval \<times> pyval) list py" where
  "resolve_inputs x d provided = rbind (as_dict (wd_inputs d)) (resolve_each x provided)"

section \<open>Validating steps\<close>

text \<open>The ids seen so far and the messages so far, both threaded through the recursion.\<close>

type_synonym vstate = "pyval list \<times> string list"

definition vmsg :: "string \<Rightarrow> vstate \<Rightarrow> vstate" where
  "vmsg m s = (fst s, snd s @ [m])"

definition vmsgs :: "string list \<Rightarrow> vstate \<Rightarrow> vstate" where
  "vmsgs ms s = (fst s, snd s @ ms)"

fun vfold :: "('a \<Rightarrow> vstate \<Rightarrow> vstate py) \<Rightarrow> 'a list \<Rightarrow> vstate \<Rightarrow> vstate py" where
  "vfold f [] s = Inr s"
| "vfold f (x # xs) s = rbind (f x s) (vfold f xs)"

lemma vfold_cong [fundef_cong]:
  "xs = ys \<Longrightarrow> s = t \<Longrightarrow> (\<And>x u. x \<in> set ys \<Longrightarrow> f x u = g x u) \<Longrightarrow> vfold f xs s = vfold g ys t"
proof (induction xs arbitrary: ys s t)
  case (Cons x xs)
  have "f x t = g x t" by (rule Cons.prems(3)) (use Cons.prems(1) in auto)
  moreover have "vfold f xs u = vfold g xs u" for u
    by (rule Cons.IH[OF refl refl Cons.prems(3)]) (use Cons.prems(1) in auto)
  ultimately show ?case using Cons.prems(1,2) by (cases "g x t") auto
qed simp

definition valid_step_types :: "string list" where
  "valid_step_types = map si_type_key step_registry"

text \<open>The id's own checks; \<open>":" in step_id\<close> raises on an id that is not a text.\<close>

definition check_id :: "pyval \<Rightarrow> vstate \<Rightarrow> vstate py" where
  "check_id i s =
     rbind (py_in (PStr '':'') i) (\<lambda>colon.
     let s1 = (if colon then vmsg (''Step ID '' @ py_repr i @ '' contains '' @ repr_str '':'' @
                  '' which is reserved for engine-generated nested IDs (parentId:childId).'') s else s) in
     if \<not> hashable i then Inl type_error
     else Inr (fst s1 @ [i],
       snd s1 @ (if list_mem i (fst s1) then [''Duplicate step ID '' @ py_repr i @ ''.''] else [])))"

definition bad_continue :: "config \<Rightarrow> string list" where
  "bad_continue cfg =
     (case field cfg ''continue_on_error'' of
        Some v \<Rightarrow> if is_bool v then []
          else [''Step '' @ py_repr (get_none cfg ''id'') @ '': '' @ repr_str ''continue_on_error'' @
                '' must be a boolean, got '' @ type_name v @ ''.'']
      | None \<Rightarrow> [])"

text \<open>The lists of steps below a step, in the order they are visited.\<close>

definition nested_lists :: "config \<Rightarrow> pyval list list" where
  "nested_lists cfg =
     (let sub = (\<lambda>v. case v of PList xs \<Rightarrow> [xs] | _ \<Rightarrow> []) in
      concat (map (\<lambda>n. sub (get_none cfg n)) [''then'', ''else'', ''steps'']) @
      (case get_none cfg ''cases'' of PDict cs \<Rightarrow> concat (map (\<lambda>(k, v). sub v) cs) | _ \<Rightarrow> []) @
      sub (get_none cfg ''default''))"

text \<open>The checks of one step before its nested steps; \<open>False\<close> is the early \<open>continue\<close>.\<close>

definition check_step :: "config \<Rightarrow> vstate \<Rightarrow> (bool \<times> vstate) py" where
  "check_step cfg s =
     (let i = get_none cfg ''id'' in
      if \<not> truthy i then Inr (False, vmsg (''Step is missing '' @ repr_str ''id'' @ '' field.'') s)
      else rbind (check_id i s) (\<lambda>s1.
        let ty = get_or cfg ''type'' (PStr ''command'') in
        rbind (registry_get ty) (\<lambda>r.
        case r of
          None \<Rightarrow> Inr (False, vmsg (''Step '' @ py_repr i @ '' has invalid type '' @ py_repr ty @ ''.'') s1)
        | Some impl \<Rightarrow>
            rbind (si_validate impl cfg) (\<lambda>es. Inr (True, vmsgs (es @ bad_continue cfg) s1)))))"

lemma field_size: "field d n = Some v \<Longrightarrow> size v < size_list (size_prod size size) d"
  unfolding field_def by (induction d) (auto split: if_splits)

lemma nested_size: "xs \<in> set (nested_lists cfg) \<Longrightarrow> size_list size xs < size_list (size_prod size size) cfg"
proof -
  have sub: "size_list size ys < size_list (size_prod size size) cfg" if "get_none cfg n = PList ys" for n ys
    using that field_size[of cfg n] by (fastforce simp: get_or_def split: option.splits)
  have cases: "size_list size ys < size_list (size_prod size size) cfg"
    if "get_none cfg n = PDict cs" "(k, PList ys) \<in> set cs" for n cs k ys
    using that(1) field_size[of cfg n] size_pair(2)[OF that(2)] by (fastforce simp: get_or_def split: option.splits)
  assume "xs \<in> set (nested_lists cfg)"
  then show ?thesis
    by (cases "get_none cfg ''cases''")
      (auto simp: nested_lists_def Let_def split: pyval.splits intro: sub cases)
qed

function validate_steps :: "pyval list \<Rightarrow> vstate \<Rightarrow> vstate py" and
  validate_step :: "pyval \<Rightarrow> vstate \<Rightarrow> vstate py" where
  "validate_steps [] s = Inr s"
| "validate_steps (st # sts) s = rbind (validate_step st s) (validate_steps sts)"
| "validate_step st s =
     (case st of
        PDict cfg \<Rightarrow>
          rbind (check_step cfg s) (\<lambda>(go, s1).
          if \<not> go then Inr s1
          else rbind (vfold (\<lambda>xs. validate_steps xs) (nested_lists cfg) s1) (\<lambda>s2.
            case get_none cfg ''step'' of
              PDict t \<Rightarrow> rbind (validate_step (PDict t) ([], [])) (\<lambda>f. Inr (vmsgs (snd f) s2))
            | _ \<Rightarrow> Inr s2))
      | _ \<Rightarrow> Inr (vmsg (''Step must be a mapping, got '' @ type_name st @ ''.'') s))"
  by pat_completeness auto
termination
proof (relation "measure (case_sum (\<lambda>(xs, s). size_list size xs) (\<lambda>(v, s). size v))", goal_cases)
  case (4 st s cfg)
  then show ?case using nested_size by fastforce
next
  case (5 st s cfg)
  then show ?case using field_size[of cfg "''step''"] by (fastforce simp: get_or_def split: option.splits)
qed auto

declare validate_step.simps [simp del]

section \<open>Validating a workflow\<close>

definition check_texts :: "workflow_definition \<Rightarrow> string list py" where
  "check_texts d =
     (let schema = (if wd_schema_version d \<in> {PStr ''1.0'', PStr ''1''} then []
            else [''Unsupported schema_version '' @ py_repr (wd_schema_version d) @ ''. Expected '' @ repr_str ''1.0'' @ ''.'']);
          name = (if truthy (wd_name d) then [] else [''Workflow is missing '' @ repr_str ''workflow.name'' @ ''.'']) in
      rbind (if \<not> truthy (wd_id d) then Inr [''Workflow is missing '' @ repr_str ''workflow.id'' @ ''.'']
             else (case wd_id d of
                PStr t \<Rightarrow> Inr (if id_pattern t then []
                  else [''Workflow ID '' @ repr_str t @ '' must be lowercase alphanumeric with hyphens.''])
              | _ \<Rightarrow> Inl type_error)) (\<lambda>ids.
      rbind (if \<not> truthy (wd_version d) then Inr [''Workflow is missing '' @ repr_str ''workflow.version'' @ ''.'']
             else (case wd_version d of
                PStr t \<Rightarrow> Inr (if version_pattern t then []
                  else [''Workflow version '' @ repr_str t @ '' is not valid semantic versioning (expected X.Y.Z).''])
              | _ \<Rightarrow> Inl type_error)) (\<lambda>vs.
      Inr (schema @ ids @ name @ vs))))"

text \<open>A default is typed when the workflow is validated; only a \<open>ValueError\<close> becomes a message.\<close>

definition check_input_default :: "pyval \<Rightarrow> (pyval \<times> pyval) list \<Rightarrow> string list py" where
  "check_input_default name idef =
     (case field idef ''default'' of
        None \<Rightarrow> Inr []
      | Some v \<Rightarrow>
          (case coerce_input name v (if is_auto name v then without_enum idef else idef) of
             Inr _ \<Rightarrow> Inr []
           | Inl (PyExc k m) \<Rightarrow>
               if k = ''ValueError'' then Inr [''Input '' @ py_repr name @ '' has invalid default: '' @ m]
               else Inl (PyExc k m)
           | Inl e \<Rightarrow> Inl e))"

definition check_input :: "pyval \<Rightarrow> pyval \<Rightarrow> string list py" where
  "check_input name def =
     (case def of
        PDict idef \<Rightarrow>
          (let ty = get_none idef ''type'';
               bad = (if truthy ty \<and> ty \<notin> {PStr ''string'', PStr ''number'', PStr ''boolean''}
                      then [''Input '' @ py_repr name @ '' has invalid type '' @ py_repr ty @ ''. Must be '' @
                        repr_str ''string'' @ '', '' @ repr_str ''number'' @ '', or '' @ repr_str ''boolean'' @ ''.'']
                      else [])
           in rbind (check_input_default name idef) (\<lambda>es. Inr (bad @ es)))
      | _ \<Rightarrow> Inr [''Input '' @ py_repr name @ '' must be a mapping.''])"

definition check_inputs :: "pyval \<Rightarrow> string list py" where
  "check_inputs v =
     (case v of
        PDict d \<Rightarrow> rbind (rmap (\<lambda>(n, def). check_input n def) d) (\<lambda>ess. Inr (concat ess))
      | _ \<Rightarrow> Inr [repr_str ''inputs'' @ '' must be a mapping (or omitted).''])"

definition validate_workflow :: "workflow_definition \<Rightarrow> string list py" where
  "validate_workflow d =
     rbind (check_texts d) (\<lambda>e1.
     rbind (check_inputs (wd_inputs d)) (\<lambda>e2.
     case wd_steps d of
       PList steps \<Rightarrow>
         rbind (validate_steps steps ([], e1 @ e2 @ (if steps = [] then [''Workflow has no steps defined.''] else [])))
           (\<lambda>s. Inr (snd s))
     | _ \<Rightarrow> Inr (e1 @ e2 @ [repr_str ''steps'' @ '' must be a list.''])))"

end
