(* ===== verification/RunState.thy ===== *)
theory RunState
  imports WfDefinition
begin

text \<open>
  A run and its files (\<open>RunState\<close> of \<open>workflows/engine.py\<close>): the safe run id, saving, loading and logging.
  The run directory is named by the run id; \<open>state.json\<close> and \<open>inputs.json\<close> hold what JSON makes of the
  values written.
\<close>

section \<open>The run id\<close>

text \<open>\<open>_RUN_ID_PATTERN\<close>.\<close>

definition run_id_text :: "string \<Rightarrow> bool" where
  "run_id_text t \<longleftrightarrow> t \<noteq> [] \<and> ascii_alnum (hd t) \<and>
     list_all (\<lambda>c. ascii_alnum c \<or> c = CHR ''_'' \<or> c = CHR ''-'') t"

definition run_id_pattern :: "string \<Rightarrow> bool" where
  "run_id_pattern = dollar run_id_text"

definition validate_run_id :: "pyval \<Rightarrow> string py" where
  "validate_run_id v =
     (case v of
        PStr t \<Rightarrow> if run_id_pattern t then Inr t
          else Inl (value_error (''Invalid run_id '' @ py_repr v @ '': must be alphanumeric with hyphens/underscores only (and must start with an alphanumeric character).''))
      | _ \<Rightarrow> Inl (value_error (''Invalid run_id '' @ py_repr v @ '': must be alphanumeric with hyphens/underscores only (and must start with an alphanumeric character).'')))"

section \<open>The state of a run\<close>

record run_state =
  rs_run_id :: string
  rs_workflow_id :: pyval
  rs_status :: run_status
  rs_step_index :: int
  rs_step_id :: pyval
  rs_results :: results
  rs_inputs :: pyval
  rs_created_at :: string
  rs_updated_at :: string
  rs_log :: "pyval list"

text \<open>\<open>RunState(run_id, workflow_id, project_root)\<close> at a moment of the clock.\<close>

definition init_run_state :: "string \<Rightarrow> pyval \<Rightarrow> string \<Rightarrow> run_state" where
  "init_run_state rid wid now =
     \<lparr>rs_run_id = rid, rs_workflow_id = wid, rs_status = RCreated, rs_step_index = 0, rs_step_id = PNone,
      rs_results = [], rs_inputs = PDict [], rs_created_at = now, rs_updated_at = now, rs_log = []\<rparr>"

section \<open>Files\<close>

definition no_files :: run_files where
  "no_files = \<lparr>rf_workflow = None, rf_state = None, rf_inputs = None, rf_log = []\<rparr>"

definition files_of :: "world \<Rightarrow> string \<Rightarrow> run_files" where
  "files_of w rid = (case map_of (w_runs w) rid of Some f \<Rightarrow> f | None \<Rightarrow> no_files)"

definition put_files :: "string \<Rightarrow> run_files \<Rightarrow> world \<Rightarrow> world" where
  "put_files rid f w = w\<lparr>w_runs := dict_set rid f (w_runs w)\<rparr>"

text \<open>What \<open>save\<close> dumps.\<close>

definition state_data :: "run_state \<Rightarrow> (string \<times> pyval) list" where
  "state_data r =
     [(''run_id'', PStr (rs_run_id r)), (''workflow_id'', rs_workflow_id r),
      (''status'', PStr (run_status_value (rs_status r))), (''current_step_index'', PInt (rs_step_index r)),
      (''current_step_id'', rs_step_id r), (''step_results'', results_dict (rs_results r)),
      (''created_at'', PStr (rs_created_at r)), (''updated_at'', PStr (rs_updated_at r))]"

definition save_run :: "wenv \<Rightarrow> run_state \<Rightarrow> world \<Rightarrow> run_state \<times> world" where
  "save_run x r w =
     (let r' = r\<lparr>rs_updated_at := w_now x (w_tick w)\<rparr>;
          f = (files_of w (rs_run_id r))
            \<lparr>rf_state := Some (to_json (PDict (obj (state_data r')))),
             rf_inputs := Some (to_json (PDict (obj [(''inputs'', rs_inputs r')])))\<rparr>
      in (r', put_files (rs_run_id r) f (w\<lparr>w_tick := Suc (w_tick w)\<rparr>)))"

definition log_run :: "wenv \<Rightarrow> (string \<times> pyval) list \<Rightarrow> run_state \<Rightarrow> world \<Rightarrow> run_state \<times> world" where
  "log_run x entry r w =
     (let e = PDict (obj (entry @ [(''timestamp'', PStr (w_now x (w_tick w)))]));
          f = (files_of w (rs_run_id r))\<lparr>rf_log := rf_log (files_of w (rs_run_id r)) @ [to_json e]\<rparr>
      in (r\<lparr>rs_log := rs_log r @ [e]\<rparr>, put_files (rs_run_id r) f (w\<lparr>w_tick := Suc (w_tick w)\<rparr>)))"

text \<open>Loaded entries are objects of their own.\<close>

definition number_results :: "(pyval \<times> pyval) list \<Rightarrow> results" where
  "number_results d = map (\<lambda>(i, k, v). (k, i, v)) (zip [0..<length d] d)"

text \<open>
  \<open>RunState.load\<close>. The id is checked before it becomes part of a path. The step results, the index and the
  times of a file that \<open>save\<close> did not write are refused at once when they have another type, where the
  code would fail at their first use.
\<close>

definition loaded_state :: "(pyval \<times> pyval) list \<Rightarrow> string \<Rightarrow> run_status \<Rightarrow> pyval \<Rightarrow> run_state py" where
  "loaded_state d rid st wid =
     (case (get_or d ''current_step_index'' (PInt 0), get_or d ''step_results'' (PDict []),
            get_or d ''created_at'' (PStr ''''), get_or d ''updated_at'' (PStr '''')) of
        (PInt i, PDict res, PStr created, PStr updated) \<Rightarrow>
          Inr \<lparr>rs_run_id = rid, rs_workflow_id = wid, rs_status = st, rs_step_index = i,
               rs_step_id = get_none d ''current_step_id'', rs_results = number_results res,
               rs_inputs = PDict [], rs_created_at = created, rs_updated_at = updated, rs_log = []\<rparr>
      | _ \<Rightarrow> Inl type_error)"

definition key_error :: "string \<Rightarrow> pyexn" where
  "key_error k = PyExc ''KeyError'' (repr_str k)"

definition runs_path :: "wenv \<Rightarrow> string \<Rightarrow> string" where
  "runs_path x rid =
     (if w_project_root x = ''.'' then '''' else w_project_root x @ ''/'') @ ''.specify/workflows/runs/'' @ rid"

definition load_run :: "wenv \<Rightarrow> string \<Rightarrow> world \<Rightarrow> run_state py" where
  "load_run x run_id w =
     rbind (validate_run_id (PStr run_id)) (\<lambda>_.
     case rf_state (files_of w run_id) of
       None \<Rightarrow> Inl (PyExc ''FileNotFoundError'' (''Run state not found: '' @ runs_path x run_id @ ''/state.json''))
     | Some v \<Rightarrow>
         rbind (case v of PDict d \<Rightarrow> Inr d | _ \<Rightarrow> Inl type_error) (\<lambda>d.
         case (field d ''run_id'', field d ''workflow_id'') of
           (Some rv, Some wid) \<Rightarrow>
             rbind (validate_run_id rv) (\<lambda>rid.
             (case field d ''status'' of
               None \<Rightarrow> Inl (key_error ''status'')
             | Some sv \<Rightarrow>
                 (case (case sv of PStr t \<Rightarrow> parse_run_status t | _ \<Rightarrow> None) of
                    None \<Rightarrow> Inl (value_error (py_repr sv @ '' is not a valid RunStatus''))
                  | Some st \<Rightarrow>
                      rbind (loaded_state d rid st wid) (\<lambda>r.
                      (case rf_inputs (files_of w run_id) of
                         None \<Rightarrow> Inr r
                       | Some iv \<Rightarrow> rbind (as_dict iv) (\<lambda>i. Inr (r\<lparr>rs_inputs := get_or i ''inputs'' (PDict [])\<rparr>)))))))
         | (None, _) \<Rightarrow> Inl (key_error ''run_id'')
         | _ \<Rightarrow> Inl (key_error ''workflow_id'')))"

fun insert_named :: "string \<times> 'a \<Rightarrow> (string \<times> 'a) list \<Rightarrow> (string \<times> 'a) list" where
  "insert_named e [] = [e]"
| "insert_named e (f # fs) = (if str_cmp (fst e) (fst f) \<le> 0 then e # f # fs else f # insert_named e fs)"

text \<open>\<open>list_runs\<close>: the saved states, in the order of the directory names.\<close>

definition list_runs :: "world \<Rightarrow> pyval list" where
  "list_runs w = List.map_filter (\<lambda>(n, f). rf_state f) (foldr insert_named (w_runs w) [])"

end
