(* ===== verification/Engine.thy ===== *)
theory Engine
  imports RunState
begin

text \<open>
  \<open>WorkflowEngine\<close>: executing steps one after the other, the control flow around them, starting and
  resuming a run. The progress callback, which only prints, is left out. \<open>_execute_steps\<close> calls itself on
  the steps nested in a step's configuration; the recursion is bounded by the depth of the document, which
  \<open>exec_steps\<close> has as its first argument and \<open>execute_steps\<close> supplies.
\<close>

section \<open>The engine at work\<close>

text \<open>The context and the run being executed, the world, and the number of the next dictionary object.\<close>

record engine_state =
  es_ctx :: step_context
  es_run :: run_state
  es_world :: world
  es_next :: nat

type_synonym 'a eng = "engine_state \<Rightarrow> (pyexn + 'a) \<times> engine_state"

definition save :: "wenv \<Rightarrow> unit eng" where
  "save x s = (case save_run x (es_run s) (es_world s) of (r, w) \<Rightarrow> (Inr (), s\<lparr>es_run := r, es_world := w\<rparr>))"

definition append_log :: "wenv \<Rightarrow> (string \<times> pyval) list \<Rightarrow> unit eng" where
  "append_log x e s =
     (case log_run x e (es_run s) (es_world s) of (r, w) \<Rightarrow> (Inr (), s\<lparr>es_run := r, es_world := w\<rparr>))"

definition set_run_status :: "run_status \<Rightarrow> unit eng" where
  "set_run_status st = smodify (\<lambda>s. s\<lparr>es_run := (es_run s)\<lparr>rs_status := st\<rparr>\<rparr>)"

text \<open>Run a step's code on the world.\<close>

definition in_world :: "(step_context \<Rightarrow> 'a step_op) \<Rightarrow> 'a eng" where
  "in_world f s = (case f (es_ctx s) (es_world s) of (v, w) \<Rightarrow> (v, s\<lparr>es_world := w\<rparr>))"

definition halted :: "engine_state \<Rightarrow> bool" where
  "halted s \<longleftrightarrow> rs_status (es_run s) \<in> {RPaused, RFailed, RAborted}"

section \<open>Recording a step\<close>

definition set_result :: "pyval \<Rightarrow> nat \<times> pyval \<Rightarrow> engine_state \<Rightarrow> engine_state" where
  "set_result i e s =
     s\<lparr>es_ctx := (es_ctx s)\<lparr>ctx_steps := assoc_set i e (ctx_steps (es_ctx s))\<rparr>,
       es_run := (es_run s)\<lparr>rs_results := assoc_set i e (rs_results (es_run s))\<rparr>\<rparr>"

definition step_data :: "config \<Rightarrow> step_context \<Rightarrow> step_result \<Rightarrow> (string \<times> pyval) list" where
  "step_data cfg c r =
     (let out = sr_output r in
      [(''integration'', py_or (py_or (get_none out ''integration'') (get_none cfg ''integration'')) (ctx_default_integration c)),
       (''model'', py_or (py_or (get_none out ''model'') (get_none cfg ''model'')) (ctx_default_model c)),
       (''options'', py_or (get_none out ''options'') (get_or cfg ''options'' (PDict []))),
       (''input'', py_or (get_none out ''input'') (get_or cfg ''input'' (PDict []))),
       (''output'', PDict out),
       (''status'', PStr (step_status_value (sr_status r)))])"

definition record_step :: "config \<Rightarrow> pyval \<Rightarrow> step_result \<Rightarrow> unit eng" where
  "record_step cfg i r =
     sthen (sraise_if (\<not> hashable i) type_error)
       (smodify (\<lambda>s. (set_result i (es_next s, PDict (obj (step_data cfg (es_ctx s) r))) s)\<lparr>es_next := Suc (es_next s)\<rparr>))"

text \<open>\<open>steps[step_id]["output"] = out\<close> on the object, under whatever ids it is known.\<close>

definition set_entry_output :: "pyval \<Rightarrow> pyval \<Rightarrow> pyval" where
  "set_entry_output out v = (case v of PDict d \<Rightarrow> PDict (assoc_set (PStr ''output'') out d) | _ \<Rightarrow> v)"

definition set_object_output :: "nat \<Rightarrow> pyval \<Rightarrow> results \<Rightarrow> results" where
  "set_object_output n out r = map (\<lambda>(k, m, v). (k, m, if m = n then set_entry_output out v else v)) r"

definition set_step_output :: "pyval \<Rightarrow> pyval \<Rightarrow> unit eng" where
  "set_step_output i out =
     smodify (\<lambda>s. case assoc_get (ctx_steps (es_ctx s)) i of
        None \<Rightarrow> s
      | Some (n, _) \<Rightarrow>
          s\<lparr>es_ctx := (es_ctx s)\<lparr>ctx_steps := set_object_output n out (ctx_steps (es_ctx s))\<rparr>,
            es_run := (es_run s)\<lparr>rs_results := set_object_output n out (rs_results (es_run s))\<rparr>\<rparr>)"

section \<open>Control flow\<close>

text \<open>\<open>for i, step in enumerate(steps)\<close>, where a step says whether to go on.\<close>

fun each_step :: "(nat \<Rightarrow> pyval \<Rightarrow> bool eng) \<Rightarrow> nat \<Rightarrow> pyval list \<Rightarrow> bool eng" where
  "each_step f i [] = sret True"
| "each_step f i (st # sts) = sbind (f i st) (\<lambda>go. if go then each_step f (Suc i) sts else sret False)"

text \<open>
  One nested step of a later loop iteration, under the id \<open>loop:step:iteration\<close>, its result then known
  under the step's own id too. The first iteration has run it already, so it is a mapping.
\<close>

definition loop_step :: "(pyval list \<Rightarrow> unit eng) \<Rightarrow> pyval \<Rightarrow> nat \<Rightarrow> nat \<Rightarrow> pyval \<Rightarrow> bool eng" where
  "loop_step run i iter idx ns =
     sbind (slift (as_dict ns)) (\<lambda>copy.
     let orig = get_none copy ''id'';
         base = py_str (py_or orig (PStr (''step-'' @ show_int (int idx))));
         nid = PStr (py_str i @ '':'' @ base @ '':'' @ show_int (int (Suc iter)))
     in sthen (run [PDict (assoc_set (PStr ''id'') nid copy)])
       (sbind (sget halted) (\<lambda>h. if h then sret False else
        (if \<not> truthy orig then sret True
         else sbind (sget (\<lambda>s. assoc_get (ctx_steps (es_ctx s)) nid)) (\<lambda>e.
           case e of
             None \<Rightarrow> sret True
           | Some entry \<Rightarrow>
               sthen (sraise_if (\<not> hashable orig) type_error)
                 (sthen (smodify (set_result orig entry)) (sret True)))))))"

text \<open>The iterations after the first: \<open>n\<close> are left, the condition is tested before each.\<close>

fun loop_iterations ::
  "(pyval list \<Rightarrow> unit eng) \<Rightarrow> pyval \<Rightarrow> pyval \<Rightarrow> pyval list \<Rightarrow> nat \<Rightarrow> nat \<Rightarrow> bool eng" where
  "loop_iterations run i condition body iter 0 = sret True"
| "loop_iterations run i condition body iter (Suc n) =
     sbind (sget es_ctx) (\<lambda>c.
     sbind (slift (evaluate_condition condition c)) (\<lambda>b.
     if \<not> b then sret True
     else sbind (each_step (loop_step run i iter) 0 body) (\<lambda>go.
          if go then loop_iterations run i condition body (Suc iter) n else sret False)))"

text \<open>The cap a step states, or ten.\<close>

definition max_iterations :: "config \<Rightarrow> nat" where
  "max_iterations cfg =
     (case as_int (get_none cfg ''max_iterations'') of Some n \<Rightarrow> if n < 1 then 10 else nat n | None \<Rightarrow> 10)"

text \<open>The nested steps of a completed step; \<open>False\<close> when the run halts in them.\<close>

definition run_nested :: "(pyval list \<Rightarrow> unit eng) \<Rightarrow> config \<Rightarrow> pyval \<Rightarrow> pyval \<Rightarrow> step_result \<Rightarrow> bool eng" where
  "run_nested run cfg i ty r =
     (if \<not> truthy (sr_next_steps r) then sret True
      else sbind (slift (py_iter (sr_next_steps r))) (\<lambda>body.
        sthen (run body)
       (sbind (sget halted) (\<lambda>h. if h then sret False
        else if ty \<in> {PStr ''while'', PStr ''do-while''}
        then loop_iterations run i (get_or cfg ''condition'' (PBool False)) body 0 (max_iterations cfg - 1)
        else sret True))))"

text \<open>The template once per item; the outputs are collected, also that of the item the run halts in.\<close>

fun fan_items ::
  "(pyval list \<Rightarrow> unit eng) \<Rightarrow> pyval \<Rightarrow> pyval \<Rightarrow> nat \<Rightarrow> pyval list \<Rightarrow> pyval list eng" where
  "fan_items run i template idx [] = sret []"
| "fan_items run i template idx (item # items) =
     sthen (smodify (\<lambda>s. s\<lparr>es_ctx := (es_ctx s)\<lparr>ctx_item := item\<rparr>\<rparr>))
    (sbind (slift (update_pairs template)) (\<lambda>copy.
     let nid = PStr (py_str i @ '':'' @ py_str (get_or copy ''id'' (PStr ''item'')) @ '':'' @ show_int (int idx))
     in sthen (run [PDict (assoc_set (PStr ''id'') nid copy)])
       (sbind (sget (\<lambda>s. case assoc_get (ctx_steps (es_ctx s)) nid of Some (_, v) \<Rightarrow> v | None \<Rightarrow> PDict [])) (\<lambda>v.
        sbind (slift (as_dict v)) (\<lambda>d.
        sbind (sget halted) (\<lambda>h.
        if h then sret [get_or d ''output'' (PDict [])]
        else sbind (fan_items run i template (Suc idx) items) (\<lambda>rest.
             sret (get_or d ''output'' (PDict []) # rest))))))))"

definition run_fan_out :: "(pyval list \<Rightarrow> unit eng) \<Rightarrow> pyval \<Rightarrow> step_result \<Rightarrow> bool eng" where
  "run_fan_out run i r =
     (let out = sr_output r; items = as_list (get_or out ''items'' (PList []));
          template = get_or out ''step_template'' (PDict []);
          with_results = (\<lambda>rs. PDict (assoc_set (PStr ''results'') (PList rs) out)) in
      if truthy template \<and> items \<noteq> []
      then sbind (fan_items run i template 0 items) (\<lambda>rs.
           sthen (smodify (\<lambda>s. s\<lparr>es_ctx := (es_ctx s)\<lparr>ctx_item := PNone\<rparr>\<rparr>))
          (sthen (set_step_output i (with_results rs)) (sget (\<lambda>s. \<not> halted s))))
      else sthen (set_step_output i (with_results [])) (sret True))"

section \<open>One step\<close>

text \<open>What a failed step does to the run: an operator's abort, a failure routed around, or the end.\<close>

definition handle_failure :: "wenv \<Rightarrow> config \<Rightarrow> pyval \<Rightarrow> step_result \<Rightarrow> bool eng" where
  "handle_failure x cfg i r =
     (if truthy (get_none (sr_output r) ''aborted'')
      then sthen (set_run_status RAborted)
          (sthen (append_log x [(''event'', PStr ''workflow_aborted''), (''step_id'', i)])
          (sthen (save x) (sret False)))
      else if get_none cfg ''continue_on_error'' = PBool True
      then sthen (append_log x [(''event'', PStr ''step_continue_on_error''), (''step_id'', i), (''error'', sr_error r)])
          (sthen (save x) (sret True))
      else sthen (set_run_status RFailed)
          (sthen (append_log x [(''event'', PStr ''step_failed''), (''step_id'', i), (''error'', sr_error r)])
          (sthen (save x) (sret False))))"

definition handle_result ::
  "wenv \<Rightarrow> (pyval list \<Rightarrow> unit eng) \<Rightarrow> config \<Rightarrow> pyval \<Rightarrow> pyval \<Rightarrow> step_result \<Rightarrow> bool eng" where
  "handle_result x run cfg i ty r =
     (if sr_status r = SPaused then sthen (set_run_status RPaused) (sthen (save x) (sret False))
      else if sr_status r = SFailed then handle_failure x cfg i r
      else sbind (run_nested run cfg i ty r) (\<lambda>go.
           if \<not> go then sret False
           else if ty = PStr ''fan-out'' then run_fan_out run i r else sret True))"

text \<open>The bookkeeping before the step: where the run is, on disk and in the log.\<close>

definition begin_step :: "wenv \<Rightarrow> int \<Rightarrow> nat \<Rightarrow> pyval \<Rightarrow> pyval \<Rightarrow> unit eng" where
  "begin_step x off n i ty =
     sthen (smodify (\<lambda>s. s\<lparr>es_run := (es_run s)\<lparr>rs_step_id := i,
              rs_step_index := (if 0 \<le> off then off + int n else rs_step_index (es_run s))\<rparr>\<rparr>))
    (sthen (save x)
     (append_log x [(''event'', PStr ''step_started''), (''step_id'', i), (''type'', ty)]))"

text \<open>The step itself: its code, its record, and what its result means for the run.\<close>

definition perform_step ::
  "wenv \<Rightarrow> (pyval list \<Rightarrow> unit eng) \<Rightarrow> config \<Rightarrow> pyval \<Rightarrow> pyval \<Rightarrow> bool eng" where
  "perform_step x run cfg i ty =
     sbind (slift (registry_get ty)) (\<lambda>impl.
     case impl of
       None \<Rightarrow>
         sthen (set_run_status RFailed)
        (sthen (append_log x [(''event'', PStr ''step_failed''), (''step_id'', i),
                  (''error'', PStr (''Unknown step type: '' @ py_repr ty))])
        (sthen (save x) (sret False)))
     | Some im \<Rightarrow>
         sbind (in_world (si_execute im x cfg)) (\<lambda>r.
         sthen (record_step cfg i r)
        (sthen (append_log x [(''event'', PStr ''step_completed''), (''step_id'', i),
                  (''status'', PStr (step_status_value (sr_status r)))])
         (handle_result x run cfg i ty r))))"

definition step_id :: "nat \<Rightarrow> config \<Rightarrow> pyval" where
  "step_id n cfg = get_or cfg ''id'' (PStr (''step-'' @ show_int (int n)))"

definition execute_one :: "wenv \<Rightarrow> (pyval list \<Rightarrow> unit eng) \<Rightarrow> int \<Rightarrow> nat \<Rightarrow> pyval \<Rightarrow> bool eng" where
  "execute_one x run off n st =
     sbind (slift (as_dict st)) (\<lambda>cfg.
     let i = step_id n cfg; ty = get_or cfg ''type'' (PStr ''command'') in
     sthen (begin_step x off n i ty) (perform_step x run cfg i ty))"

text \<open>
  \<open>_execute_steps\<close>, with the number of nested calls still allowed. Without any left a non-empty list is
  the interpreter's \<open>RecursionError\<close>.
\<close>

primrec exec_steps :: "nat \<Rightarrow> wenv \<Rightarrow> int \<Rightarrow> pyval list \<Rightarrow> unit eng" where
  "exec_steps 0 x off sts = (if sts = [] then sret () else sraise (PyExc ''RecursionError'' ''''))"
| "exec_steps (Suc n) x off sts = sthen (each_step (execute_one x (exec_steps n x (-1)) off) 0 sts) (sret ())"

definition execute_steps :: "wenv \<Rightarrow> int \<Rightarrow> pyval \<Rightarrow> unit eng" where
  "execute_steps x off steps = sbind (slift (py_iter steps)) (exec_steps (Suc (depth steps)) x off)"

section \<open>Runs\<close>

definition workflow_context :: "wenv \<Rightarrow> workflow_definition \<Rightarrow> run_state \<Rightarrow> step_context" where
  "workflow_context x d r =
     \<lparr>ctx_inputs = rs_inputs r, ctx_steps = rs_results r, ctx_item = PNone, ctx_fan_in = PDict [],
      ctx_default_integration = wd_default_integration d, ctx_default_model = wd_default_model d,
      ctx_default_options = wd_default_options d, ctx_project_root = w_project_root x, ctx_run_id = rs_run_id r\<rparr>"

text \<open>\<open>str(exc)\<close>.\<close>

fun exception_text :: "pyexn \<Rightarrow> string" where
  "exception_text (PyExc _ m) = m"
| "exception_text KeyboardInterrupt = ''''"

text \<open>
  The part \<open>execute\<close> and \<open>resume\<close> share: run the steps; an interrupt pauses the run, another exception fails
  it and is raised again; a run that was not halted is complete.
\<close>

definition run_to_end :: "wenv \<Rightarrow> string \<Rightarrow> unit eng \<Rightarrow> run_state eng" where
  "run_to_end x failure body s =
     (case body s of
        (Inl KeyboardInterrupt, s1) \<Rightarrow>
          sthen (set_run_status RPaused)
         (sthen (append_log x [(''event'', PStr ''workflow_interrupted'')])
         (sthen (save x) (sget es_run))) s1
      | (Inl e, s1) \<Rightarrow>
          sthen (set_run_status RFailed)
         (sthen (append_log x [(''event'', PStr failure), (''error'', PStr (exception_text e))])
         (sthen (save x) (sraise e))) s1
      | (Inr _, s1) \<Rightarrow>
          sthen (smodify (\<lambda>s. if rs_status (es_run s) = RRunning
                    then s\<lparr>es_run := (es_run s)\<lparr>rs_status := RCompleted\<rparr>\<rparr> else s))
         (sbind (sget (\<lambda>s. run_status_value (rs_status (es_run s)))) (\<lambda>st.
          sthen (append_log x [(''event'', PStr ''workflow_finished''), (''status'', PStr st)])
         (sthen (save x) (sget es_run)))) s1)"

text \<open>Mark the run as running, then the shared part, in the world; the slice of the steps is taken before it.\<close>

definition run_workflow ::
  "wenv \<Rightarrow> workflow_definition \<Rightarrow> string \<Rightarrow> int \<Rightarrow> pyval py \<Rightarrow> run_state \<Rightarrow> run_state step_op" where
  "run_workflow x d failure off steps r w =
     (case save_run x (r\<lparr>rs_status := RRunning\<rparr>) w of
        (r1, w1) \<Rightarrow>
          (case steps of
             Inl e \<Rightarrow> (Inl e, w1)
           | Inr sts \<Rightarrow>
               (case run_to_end x failure (execute_steps x off sts)
                       \<lparr>es_ctx = workflow_context x d r1, es_run = r1, es_world = w1, es_next = length (rs_results r1)\<rparr> of
                  (v, s) \<Rightarrow> (v, es_world s))))"

text \<open>The id of a new run: given, from the environment, or drawn.\<close>

definition effective_run_id :: "wenv \<Rightarrow> string option \<Rightarrow> string step_op" where
  "effective_run_id x rid =
     (case rid of
        Some t \<Rightarrow> sret t
      | None \<Rightarrow>
          if py_strip (w_env_run_id x) \<noteq> '''' then sret (py_strip (w_env_run_id x))
          else sbind tick_world (\<lambda>n. sret (w_uuid8 x n)))"

definition execute_workflow ::
  "wenv \<Rightarrow> workflow_definition \<Rightarrow> (pyval \<times> pyval) list \<Rightarrow> string option \<Rightarrow> run_state step_op" where
  "execute_workflow x d inputs rid =
     sbind (effective_run_id x rid) (\<lambda>t.
     sbind (slift (validate_run_id (PStr t))) (\<lambda>_.
     sbind tick_world (\<lambda>n.
     sthen (smodify (\<lambda>w. put_files t ((files_of w t)\<lparr>rf_workflow := Some (w_yaml_dump x (PDict (wd_data d)))\<rparr>) w))
    (sbind (slift (resolve_inputs x d inputs)) (\<lambda>resolved.
     run_workflow x d ''workflow_failed'' 0 (Inr (wd_steps d))
       ((init_run_state t (wd_id d) (w_now x n))\<lparr>rs_inputs := PDict resolved\<rparr>))))))"

text \<open>A workflow by its path or its installed id.\<close>

definition yaml_name :: "string \<Rightarrow> bool" where
  "yaml_name source \<longleftrightarrow>
     (let name = py_lower (last ([] # List.filter (\<lambda>p. p \<noteq> []) (split_on (CHR ''/'') source))) in
      (ends_with ''.yml'' name \<and> 4 < length name) \<or> (ends_with ''.yaml'' name \<and> 5 < length name))"

definition installed_path :: "wenv \<Rightarrow> string \<Rightarrow> string" where
  "installed_path x source =
     (if w_project_root x = ''.'' then '''' else w_project_root x @ ''/'') @ ''.specify/workflows/'' @ source @ ''/workflow.yml''"

definition load_workflow :: "wenv \<Rightarrow> string \<Rightarrow> workflow_definition py" where
  "load_workflow x source =
     (case (if yaml_name source then w_workflow_file x source else None) of
        Some text \<Rightarrow> definition_of_text x text
      | None \<Rightarrow>
          (case w_workflow_file x (installed_path x source) of
             Some text \<Rightarrow> definition_of_text x text
           | None \<Rightarrow> Inl (PyExc ''FileNotFoundError'' (''Workflow not found: '' @ source))))"

text \<open>\<open>steps[i:]\<close> of a list; a negative index counts from the end.\<close>

definition py_drop :: "int \<Rightarrow> 'a list \<Rightarrow> 'a list" where
  "py_drop i xs = drop (nat (if i < 0 then i + int (length xs) else i)) xs"

definition remaining_steps :: "int \<Rightarrow> pyval \<Rightarrow> pyval py" where
  "remaining_steps i v =
     (case v of PList xs \<Rightarrow> Inr (PList (py_drop i xs)) | PStr s \<Rightarrow> Inr (PStr (py_drop i s)) | _ \<Rightarrow> Inl type_error)"

definition run_definition :: "wenv \<Rightarrow> string \<Rightarrow> run_state \<Rightarrow> world \<Rightarrow> workflow_definition py" where
  "run_definition x run_id r w =
     (case rf_workflow (files_of w run_id) of
        Some text \<Rightarrow> definition_of_text x text
      | None \<Rightarrow> (case rs_workflow_id r of PStr t \<Rightarrow> load_workflow x t | _ \<Rightarrow> Inl type_error))"

definition resume_workflow :: "wenv \<Rightarrow> string \<Rightarrow> (pyval \<times> pyval) list \<Rightarrow> run_state step_op" where
  "resume_workflow x run_id inputs =
     sbind (sget (load_run x run_id)) (\<lambda>l. sbind (slift l) (\<lambda>r.
     sthen (sraise_if (rs_status r \<notin> {RPaused, RFailed})
       (value_error (''Cannot resume run '' @ repr_str run_id @ '' with status '' @
          repr_str (run_status_value (rs_status r)) @ ''.'')))
    (sbind (sget (run_definition x run_id r)) (\<lambda>dd. sbind (slift dd) (\<lambda>d.
     sbind (slift (if inputs = [] then Inr (rs_inputs r)
       else rbind (case rs_inputs r of PDict old \<Rightarrow> Inr old | _ \<Rightarrow> Inl type_error) (\<lambda>old.
            rbind (resolve_inputs x d (assoc_update old inputs)) (\<lambda>res. Inr (PDict res))))) (\<lambda>ins.
     run_workflow x d ''resume_failed'' (rs_step_index r) (remaining_steps (rs_step_index r) (wd_steps d))
       (r\<lparr>rs_inputs := ins\<rparr>)))))))"

end
