(* ===== verification/EngineProps.thy ===== *)
theory EngineProps
  imports Engine
begin

text \<open>
  What the engine guarantees. Two arguments carry it: a relation between the states before and after that
  every elementary operation respects is respected by any execution (the locale \<open>engine_relation\<close>), and
  the recursion is on parts of the document, so its depth is enough fuel.
\<close>

section \<open>Relations every execution respects\<close>

definition keeps :: "(engine_state \<Rightarrow> engine_state \<Rightarrow> bool) \<Rightarrow> 'a eng \<Rightarrow> bool" where
  "keeps R m \<longleftrightarrow> (\<forall>s v s'. m s = (v, s') \<longrightarrow> R s s')"

lemma keepsD: "keeps R m \<Longrightarrow> m s = (v, s') \<Longrightarrow> R s s'"
  by (auto simp: keeps_def)

locale engine_relation =
  fixes R :: "engine_state \<Rightarrow> engine_state \<Rightarrow> bool"
    and placed :: "int \<Rightarrow> bool"
  assumes refl: "R s s"
    and trans: "R s t \<Longrightarrow> R t u \<Longrightarrow> R s u"
    and saving: "keeps R (save x)"
    and logging: "keeps R (append_log x e)"
    and halting: "st \<in> {RPaused, RFailed, RAborted} \<Longrightarrow> keeps R (set_run_status st)"
    and nested: "placed (-1)"
    and placing: "placed off \<Longrightarrow> R s (s\<lparr>es_run := (es_run s)\<lparr>rs_step_id := i,
      rs_step_index := (if 0 \<le> off then off + int n else rs_step_index (es_run s))\<rparr>\<rparr>)"
    and recording: "R s (set_result i d s)"
    and numbering: "R s (s\<lparr>es_next := n\<rparr>)"
    and itemizing: "R s (s\<lparr>es_ctx := (es_ctx s)\<lparr>ctx_item := v\<rparr>\<rparr>)"
    and outputting: "keeps R (set_step_output i out)"
    and stepping: "w_runs w = w_runs (es_world s) \<Longrightarrow> w_tick (es_world s) \<le> w_tick w \<Longrightarrow> R s (s\<lparr>es_world := w\<rparr>)"
begin

lemma keeps_sret: "keeps R (sret a)" and keeps_sraise: "keeps R (sraise e)" and keeps_slift: "keeps R (slift r)"
  and keeps_sget: "keeps R (sget f)" and keeps_raise_if: "keeps R (sraise_if b e)"
  by (auto simp: keeps_def svc_defs refl)

lemma keeps_sbind: "keeps R m \<Longrightarrow> (\<And>a. keeps R (f a)) \<Longrightarrow> keeps R (sbind m f)"
  unfolding keeps_def
proof (intro allI impI)
  fix s v s'
  assume m: "\<forall>s v s'. m s = (v, s') \<longrightarrow> R s s'" and f: "\<And>a. \<forall>s v s'. f a s = (v, s') \<longrightarrow> R s s'"
    and e: "sbind m f s = (v, s')"
  obtain u s1 where u: "m s = (u, s1)" by (cases "m s")
  then have "R s s1" using m by blast
  moreover have "R s1 s'" using e u f refl by (cases u) (auto simp: sbind_def)
  ultimately show "R s s'" by (rule trans)
qed

lemma keeps_lifted: "(\<And>a. r = Inr a \<Longrightarrow> keeps R (f a)) \<Longrightarrow> keeps R (sbind (slift r) f)"
  using refl by (cases r) (auto simp: keeps_def svc_defs)

lemma keeps_sthen: "keeps R m \<Longrightarrow> keeps R k \<Longrightarrow> keeps R (sthen m k)"
  unfolding sthen_def by (rule keeps_sbind)

lemma keeps_smodify: "(\<And>s. R s (f s)) \<Longrightarrow> keeps R (smodify f)"
  by (auto simp: keeps_def svc_defs)

lemma keeps_if: "keeps R m \<Longrightarrow> keeps R k \<Longrightarrow> keeps R (if b then m else k)"
  by simp

lemma keeps_option: "keeps R m \<Longrightarrow> (\<And>a. keeps R (f a)) \<Longrightarrow> keeps R (case v of None \<Rightarrow> m | Some a \<Rightarrow> f a)"
  by (cases v) auto

lemmas keeps_intros = keeps_sret keeps_sraise keeps_slift keeps_sget keeps_raise_if keeps_sbind keeps_sthen
  keeps_if keeps_option saving logging outputting

lemma keeps_record_step: "keeps R (record_step cfg i r)"
  unfolding record_step_def
  by (intro keeps_intros keeps_smodify) (rule trans[OF recording numbering])

lemma keeps_in_world:
  assumes "step_type k (\<lambda>x. f x) val"
  shows "keeps R (in_world (f x cfg))"
  unfolding keeps_def in_world_def
proof (clarsimp split: prod.splits)
  fix s :: engine_state and v w
  assume e: "f x cfg (es_ctx s) (es_world s) = (v, w)"
  show "R s (s\<lparr>es_world := w\<rparr>)"
    using step_type.keeps_files[OF assms e] step_type.forward[OF assms e] by (intro stepping) auto
qed

lemma keeps_each_step: "(\<And>i st. keeps R (f i st)) \<Longrightarrow> keeps R (each_step f i sts)"
  by (induction sts arbitrary: i) (auto intro!: keeps_intros)

lemma keeps_loop_step:
  assumes "\<And>sts. keeps R (run sts)"
  shows "keeps R (loop_step run i iter idx ns)"
  unfolding loop_step_def Let_def
  by (intro keeps_intros assms keeps_smodify recording)

lemma keeps_loop:
  assumes "\<And>sts. keeps R (run sts)"
  shows "keeps R (loop_iterations run i c body iter n)"
  by (induction n arbitrary: iter)
    (auto intro!: keeps_intros keeps_each_step keeps_loop_step[OF assms])

lemma keeps_run_nested:
  assumes "\<And>sts. keeps R (run sts)"
  shows "keeps R (run_nested run cfg i ty r)"
  unfolding run_nested_def by (intro keeps_intros assms keeps_loop)

lemma keeps_fan_items:
  assumes "\<And>sts. keeps R (run sts)"
  shows "keeps R (fan_items run i t idx items)"
  by (induction items arbitrary: idx)
    (auto simp: Let_def intro!: keeps_intros assms keeps_smodify itemizing)

lemma keeps_run_fan_out:
  assumes "\<And>sts. keeps R (run sts)"
  shows "keeps R (run_fan_out run i r)"
  unfolding run_fan_out_def Let_def
  by (intro keeps_intros keeps_fan_items assms keeps_smodify itemizing)

lemma keeps_handle_result:
  assumes "\<And>sts. keeps R (run sts)"
  shows "keeps R (handle_result x run cfg i ty r)"
  unfolding handle_result_def handle_failure_def
  by (intro keeps_intros keeps_run_nested keeps_run_fan_out assms halting) simp_all

lemma keeps_perform_step:
  assumes "\<And>sts. keeps R (run sts)"
  shows "keeps R (perform_step x run cfg i ty)"
proof -
  have im: "keeps R (in_world (si_execute im x cfg))" if "registry_get ty = Inr (Some im)" for im
    using registered_step_type[OF conjunct1[OF registry_get_registered[OF that]]] by (rule keeps_in_world)
  have go: "keeps R (case v of None \<Rightarrow> m | Some im \<Rightarrow> sbind (in_world (si_execute im x cfg)) f)"
    if "keeps R m" "\<And>r. keeps R (f r)" "registry_get ty = Inr v" for m v f
    using that im by (cases v) (auto intro!: keeps_intros)
  show ?thesis
    unfolding perform_step_def
    by (intro keeps_lifted go) (auto intro!: keeps_intros halting keeps_record_step keeps_handle_result assms)
qed

lemma keeps_begin_step: "placed off \<Longrightarrow> keeps R (begin_step x off n i ty)"
  unfolding begin_step_def by (intro keeps_sthen saving logging keeps_smodify placing)

lemma keeps_execute_one:
  assumes "\<And>sts. keeps R (run sts)" "placed off"
  shows "keeps R (execute_one x run off n st)"
  unfolding execute_one_def Let_def
  by (intro keeps_intros keeps_begin_step keeps_perform_step assms)

lemma keeps_exec_steps: "placed off \<Longrightarrow> keeps R (exec_steps n x off sts)"
  by (induction n arbitrary: off sts) (auto intro!: keeps_intros keeps_each_step keeps_execute_one nested)

lemma keeps_execute_steps: "placed off \<Longrightarrow> keeps R (execute_steps x off sts)"
  unfolding execute_steps_def by (intro keeps_intros keeps_exec_steps)

end

section \<open>What every execution respects\<close>

lemma files_of_put [simp]: "files_of (put_files n f w) m = (if n = m then f else files_of w m)"
  by (simp add: files_of_def put_files_def)

lemma files_of_tick [simp]: "files_of (w\<lparr>w_tick := n\<rparr>) m = files_of w m"
  by (simp add: files_of_def)

lemma files_of_runs: "w_runs w = w_runs w' \<Longrightarrow> files_of w m = files_of w' m"
  by (simp add: files_of_def)

lemma put_files_other [simp]:
  "w_tick (put_files n f w) = w_tick w" "w_answers (put_files n f w) = w_answers w"
  by (simp_all add: put_files_def)

text \<open>A run keeps its id, leaves the files of other runs and its own copy of the workflow alone, and only adds to its log.\<close>

definition own_files :: "engine_state \<Rightarrow> engine_state \<Rightarrow> bool" where
  "own_files s s' \<longleftrightarrow>
     (let n = rs_run_id (es_run s) in
      rs_run_id (es_run s') = n \<and>
      (\<forall>m. m \<noteq> n \<longrightarrow> files_of (es_world s') m = files_of (es_world s) m) \<and>
      rf_workflow (files_of (es_world s') n) = rf_workflow (files_of (es_world s) n) \<and>
      (\<exists>l. rf_log (files_of (es_world s') n) = rf_log (files_of (es_world s) n) @ l) \<and>
      w_tick (es_world s) \<le> w_tick (es_world s'))"

interpretation own: engine_relation own_files "\<lambda>_. True"
proof unfold_locales
  fix s t u assume "own_files s t" "own_files t u"
  then show "own_files s u" by (auto simp: own_files_def Let_def)
next
  fix x show "keeps own_files (save x)"
    by (auto simp: keeps_def own_files_def save_def save_run_def Let_def)
next
  fix x e show "keeps own_files (append_log x e)"
    by (auto simp: keeps_def own_files_def append_log_def log_run_def Let_def)
next
  fix w :: world and s :: engine_state assume "w_runs w = w_runs (es_world s)" "w_tick (es_world s) \<le> w_tick w"
  then show "own_files s (s\<lparr>es_world := w\<rparr>)"
    using files_of_runs[of w "es_world s"] by (simp add: own_files_def Let_def)
qed (auto simp: keeps_def own_files_def Let_def set_run_status_def set_result_def set_step_output_def svc_defs
      split: option.splits)

text \<open>The steps a template sees are the steps that are saved, the run's settings stay, and no recorded id is lost.\<close>

definition agrees :: "engine_state \<Rightarrow> bool" where
  "agrees s \<longleftrightarrow> ctx_steps (es_ctx s) = rs_results (es_run s) \<and> ctx_inputs (es_ctx s) = rs_inputs (es_run s) \<and>
     ctx_run_id (es_ctx s) = rs_run_id (es_run s)"

definition recorded :: "results \<Rightarrow> pyval \<Rightarrow> bool" where
  "recorded d i \<longleftrightarrow> assoc_get d i \<noteq> None"

lemma recorded_set: "recorded d i \<Longrightarrow> recorded (assoc_set k e d) i"
  unfolding recorded_def by (induction d) auto

lemma recorded_output: "recorded d i \<Longrightarrow> recorded (set_object_output n out d) i"
  unfolding recorded_def set_object_output_def by (induction d) (auto split: if_splits)

definition in_step :: "engine_state \<Rightarrow> engine_state \<Rightarrow> bool" where
  "in_step s s' \<longleftrightarrow>
     (agrees s \<longrightarrow> agrees s') \<and> rs_inputs (es_run s') = rs_inputs (es_run s) \<and>
     rs_workflow_id (es_run s') = rs_workflow_id (es_run s) \<and> rs_created_at (es_run s') = rs_created_at (es_run s) \<and>
     (\<forall>i. recorded (rs_results (es_run s)) i \<longrightarrow> recorded (rs_results (es_run s')) i)"

interpretation step: engine_relation in_step "\<lambda>_. True"
  by unfold_locales
    (auto simp: keeps_def in_step_def agrees_def save_def save_run_def append_log_def log_run_def Let_def set_run_status_def
      set_result_def set_step_output_def svc_defs recorded_set recorded_output split: option.splits)

text \<open>A run that is under way is running or halted: it is not new and not complete.\<close>

definition live :: "run_status \<Rightarrow> bool" where
  "live st \<longleftrightarrow> st \<noteq> RCreated \<and> st \<noteq> RCompleted"

lemma live_halted: "st \<in> {RPaused, RFailed, RAborted} \<Longrightarrow> live st"
  by (auto simp: live_def)

definition under_way :: "engine_state \<Rightarrow> engine_state \<Rightarrow> bool" where
  "under_way s s' \<longleftrightarrow> (live (rs_status (es_run s)) \<longrightarrow> live (rs_status (es_run s')))"

interpretation way: engine_relation under_way "\<lambda>_. True"
proof unfold_locales
  fix st assume "st \<in> {RPaused, RFailed, RAborted}"
  then show "keeps under_way (set_run_status st)"
    using live_halted by (simp add: keeps_def under_way_def set_run_status_def svc_defs)
qed (auto simp: keeps_def under_way_def save_def save_run_def append_log_def log_run_def Let_def
      set_result_def set_step_output_def svc_defs split: option.splits)

section \<open>To the end of a run\<close>

locale run_relation = engine_relation +
  assumes finishing: "R s (s\<lparr>es_run := (es_run s)\<lparr>rs_status := RCompleted\<rparr>\<rparr>)"
begin

lemma keeps_run_to_end:
  assumes "keeps R body"
  shows "keeps R (run_to_end x failure body)"
proof -
  have tail: "keeps R (sthen (set_run_status st) (sthen (append_log x e) (sthen (save x) m)))"
    if "keeps R m" "st \<in> {RPaused, RFailed, RAborted}" for st e and m :: "run_state eng"
    using that by (intro keeps_intros halting)
  have last: "keeps R (sthen (smodify (\<lambda>s. if rs_status (es_run s) = RRunning
                    then s\<lparr>es_run := (es_run s)\<lparr>rs_status := RCompleted\<rparr>\<rparr> else s))
         (sbind (sget (\<lambda>s. run_status_value (rs_status (es_run s)))) (\<lambda>st.
          sthen (append_log x [(''event'', PStr ''workflow_finished''), (''status'', PStr st)])
         (sthen (save x) (sget es_run)))))"
    by (intro keeps_intros keeps_smodify) (simp add: refl finishing)
  show ?thesis
    unfolding keeps_def
  proof (intro allI impI)
    fix s v s'
    assume r: "run_to_end x failure body s = (v, s')"
    obtain u s1 where b: "body s = (u, s1)" by (cases "body s")
    have "R s s1" by (rule keepsD[OF assms b])
    moreover have "R s1 s'"
    proof (cases u)
      case (Inr a)
      then show ?thesis using r b keepsD[OF last, of s1 v s'] by (simp add: run_to_end_def)
    next
      case (Inl e)
      show ?thesis
      proof (cases e)
        case (PyExc k m)
        show ?thesis using r b keepsD[OF tail[where m = "sraise e" and st = RFailed], of _ s1 v s']
          by (simp add: run_to_end_def Inl PyExc keeps_sraise)
      next
        case KeyboardInterrupt
        show ?thesis using r b keepsD[OF tail[where m = "sget es_run" and st = RPaused], of _ s1 v s']
          by (simp add: run_to_end_def Inl KeyboardInterrupt keeps_sget)
      qed
    qed
    ultimately show "R s s'" by (rule trans)
  qed
qed

lemma keeps_whole_run: "placed off \<Longrightarrow> keeps R (run_to_end x failure (execute_steps x off steps))"
  by (rule keeps_run_to_end[OF keeps_execute_steps])

end

interpretation own_run: run_relation own_files "\<lambda>_. True"
  by unfold_locales (simp add: own_files_def Let_def)

interpretation step_run: run_relation in_step "\<lambda>_. True"
  by unfold_locales (simp add: in_step_def agrees_def)

text \<open>What is on disk is the state of the run.\<close>

definition saved :: "run_state \<Rightarrow> world \<Rightarrow> bool" where
  "saved r w \<longleftrightarrow> rf_state (files_of w (rs_run_id r)) = Some (to_json (PDict (obj (state_data r)))) \<and>
     rf_inputs (files_of w (rs_run_id r)) = Some (to_json (PDict (obj [(''inputs'', rs_inputs r)])))"

lemma save_saved: "save x s = (v, s') \<Longrightarrow>
    v = Inr () \<and> saved (es_run s') (es_world s') \<and> rs_status (es_run s') = rs_status (es_run s) \<and>
    rs_run_id (es_run s') = rs_run_id (es_run s)"
  by (auto simp: save_def save_run_def saved_def Let_def)

lemma log_status: "append_log x e s = (v, s') \<Longrightarrow> v = Inr () \<and> rs_status (es_run s') = rs_status (es_run s)"
  by (auto simp: append_log_def log_run_def Let_def)

lemma ending:
  assumes "sthen (append_log x e) (sthen (save x) m) s = (v, s')"
  obtains s1 where "m s1 = (v, s')" "saved (es_run s1) (es_world s1)" "rs_status (es_run s1) = rs_status (es_run s)"
proof -
  obtain a s0 where a: "append_log x e s = (a, s0)" by (cases "append_log x e s")
  obtain b s1 where b: "save x s0 = (b, s1)" by (cases "save x s0")
  from log_status[OF a] save_saved[OF b] assms show thesis
    by (intro that[of s1]) (auto simp: sthen_def sbind_def a b)
qed

lemma run_to_end_cases:
  assumes "run_to_end x failure body s = (v, s')"
  obtains (interrupted) s1 where "body s = (Inl KeyboardInterrupt, s1)" "v = Inr (es_run s')"
      "rs_status (es_run s') = RPaused" "saved (es_run s') (es_world s')"
  | (raised) k m s1 where "body s = (Inl (PyExc k m), s1)" "v = Inl (PyExc k m)"
      "rs_status (es_run s') = RFailed" "saved (es_run s') (es_world s')"
  | (ended) u s1 where "body s = (Inr u, s1)" "v = Inr (es_run s')" "saved (es_run s') (es_world s')"
      "rs_status (es_run s') = (if rs_status (es_run s1) = RRunning then RCompleted else rs_status (es_run s1))"
proof -
  obtain u s1 where b: "body s = (u, s1)" by (cases "body s")
  have st: "sthen (set_run_status st) m = (\<lambda>s. m (s\<lparr>es_run := (es_run s)\<lparr>rs_status := st\<rparr>\<rparr>))" for st and m :: "run_state eng"
    by (rule ext) (simp add: set_run_status_def svc_defs)
  show thesis
  proof (cases u)
    case (Inr a)
    let ?s2 = "if rs_status (es_run s1) = RRunning then s1\<lparr>es_run := (es_run s1)\<lparr>rs_status := RCompleted\<rparr>\<rparr> else s1"
    from assms b Inr obtain st where "sthen (append_log x [(''event'', PStr ''workflow_finished''), (''status'', PStr st)])
         (sthen (save x) (sget es_run)) ?s2 = (v, s')"
      by (auto simp: run_to_end_def sthen_smodify sbind_sget split: if_splits)
    then obtain s3 where "sget es_run s3 = (v, s')" "saved (es_run s3) (es_world s3)"
      "rs_status (es_run s3) = rs_status (es_run ?s2)" by (rule ending)
    then show thesis using that(3)[of a s1] b Inr by (simp add: sget_def split: if_splits)
  next
    case (Inl e)
    show thesis
    proof (cases e)
      case (PyExc k m)
      from assms b have "sthen (append_log x [(''event'', PStr failure), (''error'', PStr (exception_text e))])
          (sthen (save x) (sraise e)) (s1\<lparr>es_run := (es_run s1)\<lparr>rs_status := RFailed\<rparr>\<rparr>) = (v, s')"
        by (simp add: run_to_end_def Inl PyExc st)
      then obtain s3 where "sraise e s3 = (v, s')" "saved (es_run s3) (es_world s3)" "rs_status (es_run s3) = RFailed"
        by (rule ending) simp
      then show thesis using that(2)[of k m s1] b Inl PyExc by (simp add: sraise_def)
    next
      case KeyboardInterrupt
      from assms b have "sthen (append_log x [(''event'', PStr ''workflow_interrupted'')])
          (sthen (save x) (sget es_run)) (s1\<lparr>es_run := (es_run s1)\<lparr>rs_status := RPaused\<rparr>\<rparr>) = (v, s')"
        by (simp add: run_to_end_def Inl KeyboardInterrupt st)
      then obtain s3 where "sget es_run s3 = (v, s')" "saved (es_run s3) (es_world s3)" "rs_status (es_run s3) = RPaused"
        by (rule ending) simp
      then show thesis using that(1)[of s1] b Inl KeyboardInterrupt by (auto simp: sget_def)
    qed
  qed
qed

section \<open>Running the engine symbolically\<close>

text \<open>Running the bookkeeping symbolically: it always succeeds, and the fields it touches are known.\<close>

lemma sthen_save: "sthen (save x) m s = m (snd (save x s))"
  by (simp add: sthen_def sbind_def save_def split: prod.split)

lemma sthen_log: "sthen (append_log x e) m s = m (snd (append_log x e s))"
  by (simp add: sthen_def sbind_def append_log_def split: prod.split)

lemma sthen_status: "sthen (set_run_status st) m s = m (s\<lparr>es_run := (es_run s)\<lparr>rs_status := st\<rparr>\<rparr>)"
  by (simp add: set_run_status_def sthen_smodify)

lemma after_save [simp]:
  "rs_status (es_run (snd (save x s))) = rs_status (es_run s)" "es_ctx (snd (save x s)) = es_ctx s"
  "rs_step_index (es_run (snd (save x s))) = rs_step_index (es_run s)"
  "rs_step_id (es_run (snd (save x s))) = rs_step_id (es_run s)"
  "rs_results (es_run (snd (save x s))) = rs_results (es_run s)"
  "es_next (snd (save x s)) = es_next s" "saved (es_run (snd (save x s))) (es_world (snd (save x s)))"
  by (simp_all add: save_def save_run_def saved_def Let_def)

lemma after_log [simp]:
  "rs_status (es_run (snd (append_log x e s))) = rs_status (es_run s)" "es_ctx (snd (append_log x e s)) = es_ctx s"
  "rs_step_index (es_run (snd (append_log x e s))) = rs_step_index (es_run s)"
  "rs_step_id (es_run (snd (append_log x e s))) = rs_step_id (es_run s)"
  "rs_results (es_run (snd (append_log x e s))) = rs_results (es_run s)"
  "es_next (snd (append_log x e s)) = es_next s"
  by (simp_all add: append_log_def log_run_def Let_def)

lemma save_eq: "save x s = (Inr (), snd (save x s))"
  by (simp add: save_def split: prod.split)

lemma log_eq: "append_log x e s = (Inr (), snd (append_log x e s))"
  by (simp add: append_log_def split: prod.split)

lemmas engine_run = sthen_save sthen_log sthen_status sthen_smodify sbind_sget

text \<open>The state a step's code runs in.\<close>

definition begun :: "wenv \<Rightarrow> int \<Rightarrow> nat \<Rightarrow> pyval \<Rightarrow> pyval \<Rightarrow> engine_state \<Rightarrow> engine_state" where
  "begun x off n i ty s = snd (begin_step x off n i ty s)"

lemma sthen_begin: "sthen (begin_step x off n i ty) m s = m (begun x off n i ty s)"
proof -
  have "begin_step x off n i ty s = (Inr (), begun x off n i ty s)"
    unfolding begun_def begin_step_def engine_run by (rule log_eq)
  then show ?thesis by (simp add: sthen_def sbind_def)
qed

lemma begun_state [simp]:
  "rs_status (es_run (begun x off n i ty s)) = rs_status (es_run s)" "es_ctx (begun x off n i ty s) = es_ctx s"
  "rs_step_index (es_run (begun x off n i ty s)) = (if 0 \<le> off then off + int n else rs_step_index (es_run s))"
  "rs_results (es_run (begun x off n i ty s)) = rs_results (es_run s)"
  by (simp_all add: begun_def begin_step_def engine_run)

definition recording :: "config \<Rightarrow> pyval \<Rightarrow> step_result \<Rightarrow> engine_state \<Rightarrow> engine_state" where
  "recording cfg i r s =
     (set_result i (es_next s, PDict (obj (step_data cfg (es_ctx s) r))) s)\<lparr>es_next := Suc (es_next s)\<rparr>"

lemma sthen_record: "hashable i \<Longrightarrow> sthen (record_step cfg i r) m s = m (recording cfg i r s)"
  by (simp add: record_step_def recording_def svc_defs sraise_if_def)

lemma recording_state [simp]:
  "rs_status (es_run (recording cfg i r s)) = rs_status (es_run s)"
  "rs_step_index (es_run (recording cfg i r s)) = rs_step_index (es_run s)"
  by (simp_all add: recording_def set_result_def)

text \<open>A step whose code completes without nested steps is recorded and passed.\<close>

lemma leaf_step:
  assumes "registry_get (get_or cfg ''type'' (PStr ''command'')) = Inr (Some im)"
    "get_or cfg ''type'' (PStr ''command'') \<noteq> PStr ''fan-out''"
    "hashable (step_id n cfg)"
    "\<And>c w. \<exists>r w'. si_execute im x cfg c w = (Inr r, w') \<and> sr_status r = SCompleted \<and> sr_next_steps r = PList []"
  shows "\<exists>s'. execute_one x run off n (PDict cfg) s = (Inr True, s') \<and>
    rs_status (es_run s') = rs_status (es_run s)"
proof -
  let ?ty = "get_or cfg ''type'' (PStr ''command'')"
  let ?s = "begun x off n (step_id n cfg) ?ty s"
  obtain r w' where r: "si_execute im x cfg (es_ctx ?s) (es_world ?s) = (Inr r, w')" "sr_status r = SCompleted"
    "sr_next_steps r = PList []" using assms(4) by blast
  have e: "sbind (in_world (si_execute im x cfg)) f ?s = f r (?s\<lparr>es_world := w'\<rparr>)" for f :: "step_result \<Rightarrow> bool eng"
    using r(1) by (simp add: sbind_def in_world_def)
  have lift: "sbind (slift (Inr a)) f t = f a t" for a and f :: "'a \<Rightarrow> bool eng" and t
    by (simp add: svc_defs)
  have "execute_one x run off n (PDict cfg) s = perform_step x run cfg (step_id n cfg) ?ty ?s"
    by (simp only: execute_one_def Let_def lift as_dict.simps sthen_begin)
  also have "\<dots> = handle_result x run cfg (step_id n cfg) ?ty r (snd (append_log x [(''event'', PStr ''step_completed''),
      (''step_id'', step_id n cfg), (''status'', PStr (step_status_value (sr_status r)))]
      (recording cfg (step_id n cfg) r (?s\<lparr>es_world := w'\<rparr>))))"
    by (simp only: perform_step_def assms(1) lift option.case e sthen_record[OF assms(3)] sthen_log)
  finally show ?thesis
    using assms(2) r(2,3) by (simp add: handle_result_def run_nested_def svc_defs)
qed

end
