(* ===== verification/Runs.thy ===== *)
theory Runs
  imports EngineProps
begin

text \<open>
  What starting, saving, loading and resuming a run guarantee together: the properties of \<open>execute\<close>, \<open>resume\<close>,
  \<open>save\<close> and \<open>load\<close> of \<open>workflows/engine.py\<close>.
\<close>

section \<open>A sample world\<close>

text \<open>A workflow of given steps.\<close>

definition sample_workflow :: "pyval list \<Rightarrow> workflow_definition" where
  "sample_workflow sts =
     \<lparr>wd_data = obj [(''steps'', PList sts)], wd_id = PStr ''w'', wd_name = PStr ''w'', wd_version = PStr ''1.0.0'',
      wd_author = PStr '''', wd_description = PStr '''', wd_schema_version = PStr ''1.0'', wd_default_integration = PNone,
      wd_default_model = PNone, wd_default_options = [], wd_requires = PDict [], wd_inputs = PDict [], wd_steps = PList sts\<rparr>"

definition shell_config :: "string \<Rightarrow> string \<Rightarrow> config" where
  "shell_config i c = obj [(''id'', PStr i), (''type'', PStr ''shell''), (''run'', PStr c)]"

section \<open>The run id is a safe path component\<close>

lemma run_id_chars:
  assumes "run_id_pattern t"
  shows "t \<noteq> [] \<and> ascii_alnum (hd t) \<and> (\<forall>c \<in> set t. ascii_alnum c \<or> c = CHR ''_'' \<or> c = CHR ''-'' \<or> c = newline)"
proof -
  have *: "run_id_text u \<Longrightarrow> u \<noteq> [] \<and> ascii_alnum (hd u) \<and> (\<forall>c \<in> set u. ascii_alnum c \<or> c = CHR ''_'' \<or> c = CHR ''-'')" for u
    by (auto simp: run_id_text_def list_all_iff)
  from assms consider "run_id_text t" | "t \<noteq> []" "last t = newline" "run_id_text (butlast t)"
    by (auto simp: run_id_pattern_def dollar_def)
  then show ?thesis
  proof cases
    case 2
    obtain u where t: "t = u @ [newline]" using 2(1,2) by (metis append_butlast_last_id)
    with 2(3) *[of u] show ?thesis by (auto simp: hd_append)
  qed (use * in blast)
qed

text \<open>An accepted run id is a safe path component: it is not empty, starts with a letter or a digit, and contains
  no slash, no backslash, no dot (so no parent directory) and no NUL, so it names a directory directly below
  the project's runs.\<close>

theorem accepted_run_id_is_safe:
  assumes "validate_run_id v = Inr t"
  shows "v = PStr t \<and> t \<noteq> [] \<and> ascii_alnum (hd t) \<and>
    set t \<inter> {CHR ''/'', CHR 0x5C, CHR ''.'', CHR 0x00} = {}"
proof -
  from assms have v: "v = PStr t" "run_id_pattern t"
    by (auto simp: validate_run_id_def split: pyval.splits if_splits)
  have "\<not> ascii_alnum (CHR ''/'')" "\<not> ascii_alnum (CHR 0x5C)" "\<not> ascii_alnum (CHR ''.'')" "\<not> ascii_alnum (CHR 0x00)"
    by code_simp+
  then show ?thesis using v(1) run_id_chars[OF v(2)] by (auto simp: newline_def)
qed

theorem accepted_run_id_is_safe_witness:
  "validate_run_id (PStr ''run-1'') = Inr ''run-1'' \<and> CHR ''/'' \<notin> set ''run-1''"
proof -
  have v: "validate_run_id (PStr ''run-1'') = Inr ''run-1''" by code_simp
  with accepted_run_id_is_safe[OF v] show ?thesis by blast
qed

text \<open>The pattern's final dollar also matches before a newline, so an id that ends in one is accepted, although the
  message promises letters, digits, hyphens and underscores only.\<close>

theorem run_id_may_end_in_newline: "validate_run_id (PStr (''run'' @ [newline])) = Inr (''run'' @ [newline])"
  by code_simp

section \<open>Starting a run\<close>

lemma run_workflow_own:
  assumes "run_workflow x d failure off steps r w = (v, w')"
  shows "(\<forall>m. m \<noteq> rs_run_id r \<longrightarrow> files_of w' m = files_of w m) \<and>
    rf_workflow (files_of w' (rs_run_id r)) = rf_workflow (files_of w (rs_run_id r)) \<and>
    (\<exists>l. rf_log (files_of w' (rs_run_id r)) = rf_log (files_of w (rs_run_id r)) @ l)"
proof -
  obtain r1 w1 where s: "save_run x (r\<lparr>rs_status := RRunning\<rparr>) w = (r1, w1)"
    by (cases "save_run x (r\<lparr>rs_status := RRunning\<rparr>) w")
  have f: "rs_run_id r1 = rs_run_id r" "m \<noteq> rs_run_id r \<Longrightarrow> files_of w1 m = files_of w m"
    "rf_workflow (files_of w1 (rs_run_id r)) = rf_workflow (files_of w (rs_run_id r))"
    "rf_log (files_of w1 (rs_run_id r)) = rf_log (files_of w (rs_run_id r))" for m
    using s by (auto simp: save_run_def Let_def)
  show ?thesis
  proof (cases steps)
    case (Inl e)
    with assms s f show ?thesis by (auto simp: run_workflow_def)
  next
    case (Inr sts)
    let ?s = "\<lparr>es_ctx = workflow_context x d r1, es_run = r1, es_world = w1, es_next = length (rs_results r1)\<rparr>"
    obtain u s' where e: "run_to_end x failure (execute_steps x off sts) ?s = (u, s')"
      by (cases "run_to_end x failure (execute_steps x off sts) ?s")
    from keepsD[OF own_run.keeps_whole_run[OF TrueI] e] have "own_files ?s s'" .
    moreover have "w' = es_world s'" using assms s Inr e by (simp add: run_workflow_def)
    ultimately show ?thesis using f by (auto simp: own_files_def Let_def)
  qed
qed

lemma run_workflow_InrD:
  assumes "run_workflow x d failure off steps r w = (Inr r', w')"
  shows "saved r' w' \<and> rs_run_id r' = rs_run_id r \<and> rs_inputs r' = rs_inputs r \<and> rs_workflow_id r' = rs_workflow_id r \<and>
    rs_status r' \<in> {RCompleted, RPaused, RFailed, RAborted}"
proof -
  obtain r1 w1 where s: "save_run x (r\<lparr>rs_status := RRunning\<rparr>) w = (r1, w1)"
    by (cases "save_run x (r\<lparr>rs_status := RRunning\<rparr>) w")
  have f: "rs_run_id r1 = rs_run_id r" "rs_inputs r1 = rs_inputs r" "rs_workflow_id r1 = rs_workflow_id r"
    "rs_status r1 = RRunning"
    using s by (auto simp: save_run_def Let_def)
  obtain sts where st: "steps = Inr sts" using assms s by (cases steps) (auto simp: run_workflow_def)
  let ?s = "\<lparr>es_ctx = workflow_context x d r1, es_run = r1, es_world = w1, es_next = length (rs_results r1)\<rparr>"
  obtain u s' where e: "run_to_end x failure (execute_steps x off sts) ?s = (u, s')"
    by (cases "run_to_end x failure (execute_steps x off sts) ?s")
  have w: "u = Inr r'" "w' = es_world s'" using assms s st e by (simp_all add: run_workflow_def)
  have "own_files ?s s'" "in_step ?s s'"
    using keepsD[OF own_run.keeps_whole_run[OF TrueI] e] keepsD[OF step_run.keeps_whole_run[OF TrueI] e] .
  then have k: "rs_run_id (es_run s') = rs_run_id r" "rs_inputs (es_run s') = rs_inputs r"
    "rs_workflow_id (es_run s') = rs_workflow_id r"
    using f by (auto simp: own_files_def in_step_def Let_def)
  from e show ?thesis
  proof (cases rule: run_to_end_cases)
    case (interrupted s1)
    with w k show ?thesis by simp
  next
    case (raised e m s1)
    with w show ?thesis by simp
  next
    case (ended a s1)
    from keepsD[OF way.keeps_execute_steps[OF TrueI] ended(1)] f(4) have "live (rs_status (es_run s1))"
      by (simp add: under_way_def live_def)
    then have "rs_status (es_run s1) \<in> {RRunning, RPaused, RFailed, RAborted}"
      by (cases "rs_status (es_run s1)") (simp_all add: live_def)
    with ended w k show ?thesis by auto
  qed
qed

lemma execute_workflow_cases:
  assumes "execute_workflow x d inputs (Some t) w = (v, w')"
  obtains (bad_id) e where "validate_run_id (PStr t) = Inl e" "v = Inl e" "w' = w"
  | (bad_input) e where "validate_run_id (PStr t) = Inr t" "resolve_inputs x d inputs = Inl e" "v = Inl e"
      "w' = put_files t ((files_of w t)\<lparr>rf_workflow := Some (w_yaml_dump x (PDict (wd_data d)))\<rparr>) (w\<lparr>w_tick := Suc (w_tick w)\<rparr>)"
  | (started) ins where "validate_run_id (PStr t) = Inr t" "resolve_inputs x d inputs = Inr ins"
      "run_workflow x d ''workflow_failed'' 0 (Inr (wd_steps d))
         ((init_run_state t (wd_id d) (w_now x (w_tick w)))\<lparr>rs_inputs := PDict ins\<rparr>)
         (put_files t ((files_of w t)\<lparr>rf_workflow := Some (w_yaml_dump x (PDict (wd_data d)))\<rparr>) (w\<lparr>w_tick := Suc (w_tick w)\<rparr>))
       = (v, w')"
proof (cases "validate_run_id (PStr t)")
  case (Inl e)
  with assms that(1) show thesis
    by (auto simp: execute_workflow_def effective_run_id_def svc_defs)
next
  case (Inr u)
  then have u: "validate_run_id (PStr t) = Inr t" by (auto simp: validate_run_id_def split: if_splits)
  show thesis
  proof (cases "resolve_inputs x d inputs")
    case (Inl e)
    with assms u that(2) show thesis
      by (auto simp: execute_workflow_def effective_run_id_def svc_defs tick_world_def)
  next
    case (Inr ins)
    with assms u that(3) show thesis
      by (auto simp: execute_workflow_def effective_run_id_def svc_defs tick_world_def)
  qed
qed

text \<open>C30. The engine stays in the directory of the run: what it writes while it executes a workflow under an id leaves the
  files of every other run as they were, only appends to its own log, and, once the id is accepted, leaves its copy of
  the workflow behind, however the run ends. What the programs that shell, command and prompt steps start do to
  the disk is outside the model, so this is about the engine's own writes only.\<close>

theorem run_stays_in_its_directory:
  assumes "execute_workflow x d inputs (Some t) w = (v, w')"
  shows "(\<forall>m. m \<noteq> t \<longrightarrow> files_of w' m = files_of w m) \<and>
    (\<exists>l. rf_log (files_of w' t) = rf_log (files_of w t) @ l) \<and>
    (run_id_pattern t \<longrightarrow> rf_workflow (files_of w' t) = Some (w_yaml_dump x (PDict (wd_data d))))"
  using assms
proof (cases rule: execute_workflow_cases)
  case (bad_id e)
  then show ?thesis by (auto simp: validate_run_id_def split: if_splits)
next
  case (bad_input e)
  then show ?thesis by simp
next
  case (started ins)
  from run_workflow_own[OF started(3)] show ?thesis by (auto simp: init_run_state_def)
qed

theorem run_stays_in_its_directory_witness:
  "files_of (snd (execute_workflow (sample_wenv False PNone) (sample_workflow [PDict (shell_config ''a'' ''ls'')]) []
     (Some ''run-1'') (sample_world []))) ''other'' = no_files"
proof -
  let ?r = "execute_workflow (sample_wenv False PNone) (sample_workflow [PDict (shell_config ''a'' ''ls'')]) []
     (Some ''run-1'') (sample_world [])"
  have r: "?r = (fst ?r, snd ?r)" by simp
  have "files_of (snd ?r) ''other'' = files_of (sample_world []) ''other''"
    using run_stays_in_its_directory[OF r] by simp
  then show ?thesis by (simp add: files_of_def sample_world_def)
qed

section \<open>What a saved run is read back as\<close>

lemma results_numbered [simp]: "results_dict (number_results d) = PDict d"
proof -
  have "map (\<lambda>(k, n, v). (k, v)) (map (\<lambda>(i, k, v). (k, i, v)) (zip is d)) = d" if "length is = length d" for "is" :: "nat list"
    using that by (induction "is" d rule: list_induct2) auto
  from this[of "[0..<length d]"] show ?thesis by (simp add: results_dict_def number_results_def)
qed

text \<open>The state \<open>r'\<close> is \<open>r\<close> after a trip through JSON, without its log.\<close>

definition reads_back :: "run_state \<Rightarrow> run_state \<Rightarrow> bool" where
  "reads_back r r' \<longleftrightarrow>
     rs_run_id r' = rs_run_id r \<and> rs_status r' = rs_status r \<and> rs_step_index r' = rs_step_index r \<and>
     rs_step_id r' = to_json (rs_step_id r) \<and> rs_workflow_id r' = to_json (rs_workflow_id r) \<and>
     results_dict (rs_results r') = to_json (results_dict (rs_results r)) \<and> rs_inputs r' = to_json (rs_inputs r) \<and>
     rs_created_at r' = rs_created_at r \<and> rs_updated_at r' = rs_updated_at r \<and> rs_log r' = []"

lemma load_saved:
  assumes "saved r w" "run_id_pattern (rs_run_id r)"
  shows "\<exists>r'. load_run x (rs_run_id r) w = Inr r' \<and> reads_back r r'"
proof -
  let ?d = "map (\<lambda>(k, v). (k, to_json v)) (state_data r)"
  have s: "to_json (PDict (obj (state_data r))) = PDict (obj ?d)"
    by (rule to_json_obj) (simp add: state_data_def)
  have i: "to_json (PDict (obj [(''inputs'', rs_inputs r)])) = PDict (obj [(''inputs'', to_json (rs_inputs r))])"
    by (subst to_json_obj) simp_all
  have f: "field (obj ?d) ''run_id'' = Some (PStr (rs_run_id r))"
    "field (obj ?d) ''workflow_id'' = Some (to_json (rs_workflow_id r))"
    "field (obj ?d) ''status'' = Some (PStr (run_status_value (rs_status r)))"
    "get_or (obj ?d) ''current_step_index'' v = PInt (rs_step_index r)"
    "get_or (obj ?d) ''current_step_id'' v = to_json (rs_step_id r)"
    "get_or (obj ?d) ''step_results'' v = to_json (results_dict (rs_results r))"
    "get_or (obj ?d) ''created_at'' v = PStr (rs_created_at r)"
    "get_or (obj ?d) ''updated_at'' v = PStr (rs_updated_at r)" for v
    by (simp_all add: field_def get_or_def obj_def state_data_def)
  obtain res where res: "to_json (results_dict (rs_results r)) = PDict res"
    by (simp add: results_dict_def)
  have v: "validate_run_id (PStr (rs_run_id r)) = Inr (rs_run_id r)"
    using assms(2) by (simp add: validate_run_id_def)
  have l: "loaded_state (obj ?d) (rs_run_id r) (rs_status r) (to_json (rs_workflow_id r)) =
      Inr \<lparr>rs_run_id = rs_run_id r, rs_workflow_id = to_json (rs_workflow_id r), rs_status = rs_status r,
        rs_step_index = rs_step_index r, rs_step_id = to_json (rs_step_id r), rs_results = number_results res,
        rs_inputs = PDict [], rs_created_at = rs_created_at r, rs_updated_at = rs_updated_at r, rs_log = []\<rparr>"
    by (simp add: loaded_state_def f res)
  have g: "get_or (obj [(''inputs'', to_json (rs_inputs r))]) ''inputs'' u = to_json (rs_inputs r)" for u
    by (simp add: field_def get_or_def obj_def)
  show ?thesis
    using assms(1) res unfolding saved_def s i
    by (simp add: load_run_def v f l g reads_back_def)
qed

lemma execute_any_id:
  assumes "execute_workflow x d inputs rid w = (Inr r, w')"
  shows "\<exists>t w1. execute_workflow x d inputs (Some t) w1 = (Inr r, w')"
proof -
  obtain v w1 where e: "effective_run_id x rid w = (v, w1)" by (cases "effective_run_id x rid w")
  from assms e obtain t where "v = Inr t" by (cases v) (auto simp: execute_workflow_def sbind_def)
  with assms e have "execute_workflow x d inputs (Some t) w1 = (Inr r, w')"
    by (simp add: execute_workflow_def effective_run_id_def sbind_def sret_def)
  then show ?thesis by blast
qed

lemma execute_workflow_InrD:
  assumes "execute_workflow x d inputs rid w = (Inr r, w')"
  shows "saved r w' \<and> run_id_pattern (rs_run_id r) \<and> rs_workflow_id r = wd_id d \<and>
    rs_status r \<in> {RCompleted, RPaused, RFailed, RAborted} \<and>
    (\<exists>ins. resolve_inputs x d inputs = Inr ins \<and> rs_inputs r = PDict ins)"
proof -
  from execute_any_id[OF assms] obtain t w1 where "execute_workflow x d inputs (Some t) w1 = (Inr r, w')" by blast
  then show ?thesis
  proof (cases rule: execute_workflow_cases)
    case (started ins)
    from run_workflow_InrD[OF started(3)] started(1,2) show ?thesis
      by (auto simp: init_run_state_def validate_run_id_def split: if_splits)
  qed simp_all
qed


text \<open>A run of one shell step, in the sample world.\<close>

lemma sample_shell: "\<exists>r w'. shell_execute (sample_wenv tty doc) (shell_config ''a'' ''ls'') c w = (Inr r, w') \<and>
    sr_status r = SCompleted \<and> sr_next_steps r = PList []"
proof -
  have "eval_if_template (PStr ''ls'') c = Inr (PStr ''ls'')"
    by (simp add: eval_if_template_def is_template_def has_sub_def starts_with_def)
  moreover have "get_or (shell_config ''a'' ''ls'') ''run'' v = PStr ''ls''" for v
    by (simp add: shell_config_def obj_def get_or_def field_def)
  ultimately show ?thesis
    by (simp add: shell_execute_def svc_defs tick_world_def sample_wenv_def completed_with_def py_str_def)
qed

lemma sample_shell_type:
  "registry_get (get_or (shell_config i c) ''type'' v) = Inr (Some \<lparr>si_type_key = ''shell'', si_execute = shell_execute, si_validate = shell_validate\<rparr>)"
  by (simp add: registry_get_def get_step_type_def step_registry_eq builtin_steps_def shell_config_def obj_def get_or_def field_def)

lemma sample_step:
  "\<exists>s'. execute_one (sample_wenv tty doc) run off n (PDict (shell_config ''a'' ''ls'')) s = (Inr True, s') \<and>
    rs_status (es_run s') = rs_status (es_run s)"
proof (rule leaf_step[OF sample_shell_type])
  show "\<exists>r w'. si_execute \<lparr>si_type_key = ''shell'', si_execute = shell_execute, si_validate = shell_validate\<rparr>
      (sample_wenv tty doc) (shell_config ''a'' ''ls'') c w = (Inr r, w') \<and>
    sr_status r = SCompleted \<and> sr_next_steps r = PList []" for c w
    unfolding step_impl.select_convs by (rule sample_shell)
qed (simp_all add: step_id_def shell_config_def obj_def get_or_def field_def)

lemma sample_run_returns:
  "\<exists>r w'. execute_workflow (sample_wenv tty doc) (sample_workflow [PDict (shell_config ''a'' ''ls'')]) []
      (Some ''run-1'') w = (Inr r, w')"
proof -
  let ?x = "sample_wenv tty doc" and ?d = "sample_workflow [PDict (shell_config ''a'' ''ls'')]"
  obtain v w' where e: "execute_workflow ?x ?d [] (Some ''run-1'') w = (v, w')"
    by (cases "execute_workflow ?x ?d [] (Some ''run-1'') w")
  have id: "validate_run_id (PStr ''run-1'') = Inr ''run-1''" by code_simp
  have ins: "resolve_inputs ?x ?d [] = Inr []" by (simp add: resolve_inputs_def sample_workflow_def)
  have fin: "\<exists>s'. execute_steps ?x 0 (PList [PDict (shell_config ''a'' ''ls'')]) s = (Inr (), s')" for s
    using sample_step[of tty doc "exec_steps (depth (PList [PDict (shell_config ''a'' ''ls'')])) ?x (-1)" 0 0 s]
    by (auto simp: execute_steps_def svc_defs)
  from e have "\<exists>r. v = Inr r"
  proof (cases rule: execute_workflow_cases)
    case (started i)
    from started(3) show ?thesis
      using fin by (auto simp: run_workflow_def sample_workflow_def split: prod.splits elim!: run_to_end_cases)
        (metis Pair_inject sum.distinct(1))
  qed (use id ins in simp_all)
  with e show ?thesis by auto
qed

text \<open>C4. A run that returns is on disk: whatever the steps did, it is completed, paused, failed or aborted, and loading its id
  gives back its status, its position, its inputs and its step results as JSON keeps them.\<close>

theorem returned_run_is_on_disk:
  assumes "execute_workflow x d inputs rid w = (Inr r, w')"
  shows "rs_status r \<in> {RCompleted, RPaused, RFailed, RAborted} \<and> rs_workflow_id r = wd_id d \<and>
    (\<exists>r'. load_run x (rs_run_id r) w' = Inr r' \<and> reads_back r r')"
  using execute_workflow_InrD[OF assms] load_saved[of r w' x] by blast

theorem returned_run_is_on_disk_witness:
  "\<exists>r w' r'. execute_workflow (sample_wenv False PNone) (sample_workflow [PDict (shell_config ''a'' ''ls'')]) []
      (Some ''run-1'') (sample_world []) = (Inr r, w') \<and> load_run (sample_wenv False PNone) (rs_run_id r) w' = Inr r'"
proof -
  obtain r w' where e: "execute_workflow (sample_wenv False PNone) (sample_workflow [PDict (shell_config ''a'' ''ls'')]) []
      (Some ''run-1'') (sample_world []) = (Inr r, w')" using sample_run_returns by blast
  with returned_run_is_on_disk[OF e] show ?thesis by blast
qed

section \<open>Resuming\<close>

text \<open>Only a paused or failed run is resumed: for any other status, and for a run that cannot be loaded, resuming raises
  and touches nothing.\<close>

theorem resume_needs_paused_or_failed:
  assumes "load_run x t w = Inl e \<or> (\<exists>r. load_run x t w = Inr r \<and> rs_status r \<in> {RCreated, RRunning, RCompleted, RAborted})"
  shows "(\<exists>e. fst (resume_workflow x t inputs w) = Inl e) \<and> snd (resume_workflow x t inputs w) = w"
  using assms by (auto simp: resume_workflow_def svc_defs)

text \<open>A completed run on disk.\<close>

definition sample_finished :: "wenv \<Rightarrow> run_state \<times> world" where
  "sample_finished x = save_run x ((init_run_state ''run-1'' (PStr ''w'') ''t'')\<lparr>rs_status := RCompleted\<rparr>) (sample_world [])"

theorem resume_needs_paused_or_failed_witness:
  "snd (resume_workflow (sample_wenv False PNone) ''run-1'' [] (snd (sample_finished (sample_wenv False PNone)))) =
     snd (sample_finished (sample_wenv False PNone))"
proof -
  let ?x = "sample_wenv False PNone"
  have s: "saved (fst (sample_finished ?x)) (snd (sample_finished ?x))" "rs_run_id (fst (sample_finished ?x)) = ''run-1''"
    "rs_status (fst (sample_finished ?x)) = RCompleted"
    by (simp_all add: sample_finished_def save_run_def saved_def init_run_state_def Let_def)
  have "run_id_pattern ''run-1''" by code_simp
  with load_saved[OF s(1), of ?x] s(2,3) obtain r where
    "load_run ?x ''run-1'' (snd (sample_finished ?x)) = Inr r" "rs_status r = RCompleted"
    by (auto simp: reads_back_def)
  with resume_needs_paused_or_failed[of ?x "''run-1''" "snd (sample_finished ?x)"] show ?thesis by blast
qed

end
