(* ===== verification/Position.thy ===== *)
theory Position
  imports Runs
begin

text \<open>
  Where a run is: the saved index moves with the top-level steps only, and everything before it is done. Also, a step
  that does not let the run go on has halted it.
\<close>

section \<open>The position of a run\<close>

text \<open>Nested steps leave the position alone.\<close>

definition at_index :: "engine_state \<Rightarrow> engine_state \<Rightarrow> bool" where
  "at_index s s' \<longleftrightarrow> rs_step_index (es_run s') = rs_step_index (es_run s)"

interpretation position: engine_relation at_index "\<lambda>off. off < 0"
  by unfold_locales
    (auto simp: keeps_def at_index_def save_def save_run_def append_log_def log_run_def Let_def set_run_status_def
      set_result_def set_step_output_def svc_defs split: option.splits)

lemma float_cmp_refl: "float_cmp f f = 0"
  by (cases f) simp_all

lemma py_eq_hashable: "hashable v \<Longrightarrow> py_eq v v"
  by (cases v) (simp_all add: float_cmp_refl)

lemma assoc_get_set: "py_eq k k \<Longrightarrow> assoc_get (assoc_set k v d) k = Some v"
  by (induction d) auto

lemma perform_step_recorded:
  assumes "perform_step x run cfg i ty s = (Inr True, s')" "\<And>sts. keeps in_step (run sts)"
  shows "recorded (rs_results (es_run s')) i"
proof -
  from assms(1) obtain im r s1 where im: "registry_get ty = Inr (Some im)"
    and e: "sthen (record_step cfg i r) (sthen (append_log x [(''event'', PStr ''step_completed''), (''step_id'', i),
        (''status'', PStr (step_status_value (sr_status r)))]) (handle_result x run cfg i ty r)) s1 = (Inr True, s')"
    by (auto simp: perform_step_def svc_defs engine_run split: sum.splits option.splits prod.splits)
  have h: "hashable i" using e by (auto simp: record_step_def svc_defs sraise_if_def split: if_splits)
  let ?s = "snd (append_log x [(''event'', PStr ''step_completed''), (''step_id'', i),
        (''status'', PStr (step_status_value (sr_status r)))] (recording cfg i r s1))"
  have "handle_result x run cfg i ty r ?s = (Inr True, s')"
    using e by (simp add: sthen_record[OF h] sthen_log)
  from keepsD[OF step.keeps_handle_result[OF assms(2)] this] have "in_step ?s s'" .
  moreover have "recorded (rs_results (es_run ?s)) i"
    using py_eq_hashable[OF h] by (simp add: recorded_def recording_def set_result_def assoc_get_set)
  ultimately show ?thesis by (simp add: in_step_def)
qed

lemma execute_one_position:
  assumes "execute_one x run off n st s = (v, s')" "0 \<le> off"
    and "\<And>sts. keeps in_step (run sts)" "\<And>sts. keeps at_index (run sts)"
  shows "(\<exists>e. v = Inl e \<and> s' = s) \<or>
    (\<exists>cfg. st = PDict cfg \<and> rs_step_index (es_run s') = off + int n \<and> in_step s s' \<and>
       (v = Inr True \<longrightarrow> recorded (rs_results (es_run s')) (step_id n cfg)))"
proof (cases "as_dict st")
  case (Inl e)
  with assms(1) show ?thesis by (auto simp: execute_one_def svc_defs)
next
  case (Inr cfg)
  then have st: "st = PDict cfg" by (cases st) auto
  let ?ty = "get_or cfg ''type'' (PStr ''command'')"
  have p: "perform_step x run cfg (step_id n cfg) ?ty (begun x off n (step_id n cfg) ?ty s) = (v, s')"
    using assms(1) Inr by (simp add: execute_one_def slift_def sbind_def[of "slift _"] Let_def sthen_begin)
  from keepsD[OF position.keeps_perform_step[OF assms(4)] p] assms(2)
  have "rs_step_index (es_run s') = off + int n" by (simp add: at_index_def)
  moreover have "in_step s s'" using keepsD[OF step.keeps_execute_one[OF assms(3) TrueI] assms(1)] .
  moreover have "v = Inr True \<longrightarrow> recorded (rs_results (es_run s')) (step_id n cfg)"
    using perform_step_recorded[of x run, OF _ assms(3)] p by blast
  ultimately show ?thesis using st by blast
qed

text \<open>Every step before position \<open>n\<close> is recorded.\<close>

definition passed :: "pyval list \<Rightarrow> nat \<Rightarrow> run_state \<Rightarrow> bool" where
  "passed sts n r \<longleftrightarrow> (\<forall>k < n. \<exists>cfg. sts ! k = PDict cfg \<and> recorded (rs_results r) (step_id k cfg))"

lemma passed_in_step: "in_step s s' \<Longrightarrow> passed sts n (es_run s) \<Longrightarrow> passed sts n (es_run s')"
  unfolding passed_def in_step_def by blast

lemma each_step_position:
  assumes "each_step (execute_one x run 0) n (drop n sts) s = (v, s')" "n \<le> length sts"
    and "passed sts n (es_run s)" "rs_step_index (es_run s) = int (n - 1)"
    and "\<And>sts. keeps in_step (run sts)" "\<And>sts. keeps at_index (run sts)"
  shows "\<exists>i. rs_step_index (es_run s') = int i \<and> (i < length sts \<or> i = 0) \<and> passed sts i (es_run s') \<and>
    (v = Inr True \<longrightarrow> passed sts (length sts) (es_run s'))"
  using assms(1-4)
proof (induction "length sts - n" arbitrary: n s)
  case 0
  then show ?case by (auto simp: sret_def passed_def)
next
  case (Suc m)
  then have n: "n < length sts" by simp
  then have d: "drop n sts = sts ! n # drop (Suc n) sts" by (simp add: Cons_nth_drop_Suc)
  obtain u s1 where u: "execute_one x run 0 n (sts ! n) s = (u, s1)" by (cases "execute_one x run 0 n (sts ! n) s")
  from execute_one_position[OF u _ assms(5,6)] consider (raised) e where "u = Inl e" "s1 = s"
    | (ran) cfg where "sts ! n = PDict cfg" "rs_step_index (es_run s1) = int n" "in_step s s1"
      "u = Inr True \<longrightarrow> recorded (rs_results (es_run s1)) (step_id n cfg)" by auto
  then show ?case
  proof cases
    case raised
    with Suc.prems u d n show ?thesis by (intro exI[of _ "n - 1"]) (auto simp: sbind_def passed_def)
  next
    case ran
    have p: "passed sts n (es_run s1)" using passed_in_step[OF ran(3) Suc.prems(3)] .
    show ?thesis
    proof (cases "u = Inr True")
      case True
      with ran p have "passed sts (Suc n) (es_run s1)" by (auto simp: passed_def less_Suc_eq)
      with Suc.hyps(1)[of "Suc n" s1] Suc.hyps(2) Suc.prems(1) u d n True ran(2) show ?thesis by (simp add: sbind_def)
    next
      case False
      with Suc.prems(1) u d have "s' = s1" "v \<noteq> Inr True" by (auto simp: sbind_def sret_def split: sum.splits if_splits)
      with p n ran(2) show ?thesis by auto
    qed
  qed
qed

text \<open>A step that says stop leaves the run halted.\<close>

definition stops_halted :: "bool eng \<Rightarrow> bool" where
  "stops_halted m \<longleftrightarrow> (\<forall>s s'. m s = (Inr False, s') \<longrightarrow> halted s')"

lemma stops_bind: "(\<And>a. stops_halted (f a)) \<Longrightarrow> stops_halted (sbind m f)"
  by (auto simp: stops_halted_def sbind_def split: prod.splits sum.splits)

lemma stops_then: "stops_halted k \<Longrightarrow> stops_halted (sthen m k)"
  unfolding sthen_def by (rule stops_bind)

lemma stops_True: "stops_halted (sret True)"
  by (simp add: stops_halted_def sret_def)

lemma stops_if: "(b \<Longrightarrow> stops_halted m) \<Longrightarrow> (\<not> b \<Longrightarrow> stops_halted k) \<Longrightarrow> stops_halted (if b then m else k)"
  by simp

lemma stops_option: "stops_halted m \<Longrightarrow> (\<And>a. stops_halted (f a)) \<Longrightarrow> stops_halted (case v of None \<Rightarrow> m | Some a \<Rightarrow> f a)"
  by (cases v) auto

lemma stops_asked: "stops_halted m \<Longrightarrow> stops_halted (sbind (sget halted) (\<lambda>h. if h then sret False else m))"
  by (auto simp: stops_halted_def sbind_sget sret_def)

lemma stops_passed: "(\<And>s s'. m s = (Inr False, s') \<Longrightarrow> halted s') \<Longrightarrow> stops_halted k \<Longrightarrow>
    stops_halted (sbind m (\<lambda>go. if go then k else sret False))"
  by (fastforce simp: stops_halted_def sbind_def sret_def split: prod.splits sum.splits if_splits)

lemma stops_not_passed: "(\<And>s s'. m s = (Inr False, s') \<Longrightarrow> halted s') \<Longrightarrow> stops_halted k \<Longrightarrow>
    stops_halted (sbind m (\<lambda>go. if \<not> go then sret False else k))"
  by (fastforce simp: stops_halted_def sbind_def sret_def split: prod.splits sum.splits if_splits)

lemma stops_ending: "st \<in> {RPaused, RFailed, RAborted} \<Longrightarrow>
    stops_halted (sthen (set_run_status st) (sthen (save x) (sret False)))"
  "st \<in> {RPaused, RFailed, RAborted} \<Longrightarrow>
    stops_halted (sthen (set_run_status st) (sthen (append_log x e) (sthen (save x) (sret False))))"
  by (auto simp: stops_halted_def engine_run sret_def halted_def)

lemmas stops_intros = stops_True stops_if stops_option stops_asked stops_passed stops_not_passed stops_ending stops_bind stops_then

lemma stops_each: "(\<And>i st. stops_halted (f i st)) \<Longrightarrow> stops_halted (each_step f i sts)"
proof (induction sts arbitrary: i)
  case (Cons st sts)
  have "f i st s = (Inr False, s') \<Longrightarrow> halted s'" for s s'
    using Cons.prems unfolding stops_halted_def by blast
  then show ?case using Cons by (simp add: stops_passed)
qed (simp add: stops_True)

lemma stops_loop_step: "stops_halted (loop_step run i iter idx ns)"
  unfolding loop_step_def Let_def by (intro stops_bind stops_then stops_asked stops_if stops_option stops_True)

lemma stops_loop: "stops_halted (loop_iterations run i c body iter n)"
proof (induction n arbitrary: iter)
  case (Suc n)
  have "each_step (loop_step run i iter) 0 body s = (Inr False, s') \<Longrightarrow> halted s'" for s s'
    using stops_each[of "loop_step run i iter", OF stops_loop_step] unfolding stops_halted_def by blast
  then have "stops_halted (sbind (each_step (loop_step run i iter) 0 body) (\<lambda>go.
      if go then loop_iterations run i c body (Suc iter) n else sret False))"
    using Suc.IH by (rule stops_passed)
  then show ?case by (simp add: stops_bind stops_True)
qed (simp add: stops_True)

lemma stops_run_nested: "stops_halted (run_nested run cfg i ty r)"
  unfolding run_nested_def
  by (intro stops_if stops_True stops_bind stops_then stops_asked stops_loop)

lemma stops_run_fan_out: "stops_halted (run_fan_out run i r)"
  unfolding run_fan_out_def Let_def
  by (intro stops_if stops_bind stops_then stops_True) (auto simp: stops_halted_def sget_def)

lemma stops_handle_result: "stops_halted (handle_result x run cfg i ty r)"
proof -
  have n: "run_nested run cfg i ty r s = (Inr False, s') \<Longrightarrow> halted s'" for s s'
    using stops_run_nested unfolding stops_halted_def by blast
  show ?thesis
    unfolding handle_result_def handle_failure_def
    by (intro stops_if stops_ending stops_not_passed n stops_run_fan_out stops_True) (auto intro!: stops_then stops_True)
qed

lemma stops_execute_one: "stops_halted (execute_one x run off n st)"
  unfolding execute_one_def perform_step_def Let_def
  by (intro stops_bind stops_then stops_option stops_handle_result stops_ending) simp

lemma run_to_end_from: "body s = (u, s1) \<Longrightarrow> run_to_end x failure body s = run_to_end x failure (\<lambda>t. (u, t)) s1"
  by (simp add: run_to_end_def)

interpretation position_run: run_relation at_index "\<lambda>off. off < 0"
  by unfold_locales (simp add: at_index_def)

text \<open>C7. The saved position of a fresh run means what resuming takes it to mean: when \<open>execute_workflow\<close> returns the run of a
  workflow whose steps are a list, its index is that of a step, every step before that one is recorded, and of a completed
  run every step is. Nothing is said of runs that are resumed.\<close>

theorem steps_before_position_are_recorded:
  assumes "execute_workflow x d inputs rid w = (Inr r, w')" "wd_steps d = PList sts"
  shows "\<exists>i. rs_step_index r = int i \<and> (i < length sts \<or> i = 0) \<and> passed sts i r \<and>
    (rs_status r = RCompleted \<longrightarrow> passed sts (length sts) r)"
proof -
  from execute_any_id[OF assms(1)] obtain t w1 where "execute_workflow x d inputs (Some t) w1 = (Inr r, w')" by blast
  then obtain ins w2 where "run_workflow x d ''workflow_failed'' 0 (Inr (PList sts))
      ((init_run_state t (wd_id d) (w_now x (w_tick w1)))\<lparr>rs_inputs := PDict ins\<rparr>) w2 = (Inr r, w')"
    using assms(2) by (cases rule: execute_workflow_cases) auto
  then obtain s s' where e: "run_to_end x ''workflow_failed'' (execute_steps x 0 (PList sts)) s = (Inr r, s')"
    and s: "rs_step_index (es_run s) = 0" and r: "rs_status (es_run s) = RRunning"
    by (auto simp: run_workflow_def save_run_def Let_def init_run_state_def split: prod.splits)
  let ?f = "execute_one x (exec_steps (depth (PList sts)) x (-1)) 0"
  obtain u s1 where u: "each_step ?f 0 sts s = (u, s1)" by (cases "each_step ?f 0 sts s")
  then have b: "execute_steps x 0 (PList sts) s = (map_sum id (\<lambda>_. ()) u, s1)"
    by (auto simp: execute_steps_def svc_defs split: sum.split)
  have "\<exists>i. rs_step_index (es_run s1) = int i \<and> (i < length sts \<or> i = 0) \<and> passed sts i (es_run s1) \<and>
    (u = Inr True \<longrightarrow> passed sts (length sts) (es_run s1))"
    using u s step.keeps_exec_steps[OF TrueI] position.keeps_exec_steps
    by (intro each_step_position[of x "exec_steps (depth (PList sts)) x (-1)" 0 sts s u s1]) (auto simp: passed_def)
  moreover have "at_index s1 s'" "in_step s1 s'"
  proof -
    have f: "run_to_end x ''workflow_failed'' (Pair (map_sum id (\<lambda>_. ()) u)) s1 = (Inr r, s')"
      using e by (simp add: run_to_end_from[of "execute_steps x 0 (PList sts)", OF b])
    have "keeps at_index (Pair (map_sum id (\<lambda>_. ()) u))" "keeps in_step (Pair (map_sum id (\<lambda>_. ()) u))"
      by (auto simp: keeps_def position.refl step.refl)
    from keepsD[OF position_run.keeps_run_to_end[OF this(1)] f] keepsD[OF step_run.keeps_run_to_end[OF this(2)] f]
    show "at_index s1 s'" "in_step s1 s'" .
  qed
  moreover have "r = es_run s' \<and> (rs_status r = RCompleted \<longrightarrow> u = Inr True)"
    using e
  proof (cases rule: run_to_end_cases)
    case (ended a s2)
    have "u = Inr False \<Longrightarrow> halted s1" using stops_each[of ?f, OF stops_execute_one] u by (auto simp: stops_halted_def)
    moreover have "rs_status (es_run s1) \<noteq> RCompleted"
      using keepsD[OF way.keeps_execute_steps[OF TrueI] b] r by (auto simp: under_way_def live_def)
    ultimately show ?thesis using ended b u by (cases u) (auto simp: halted_def split: if_splits)
  qed auto
  ultimately show ?thesis using passed_in_step[of s1 s' sts] by (fastforce simp: at_index_def)
qed

theorem steps_before_position_are_recorded_witness:
  "\<exists>r w'. execute_workflow (sample_wenv False PNone) (sample_workflow [PDict (shell_config ''a'' ''ls'')]) []
      (Some ''run-1'') (sample_world []) = (Inr r, w') \<and> rs_step_index r = 0"
proof -
  obtain r w' where e: "execute_workflow (sample_wenv False PNone) (sample_workflow [PDict (shell_config ''a'' ''ls'')]) []
      (Some ''run-1'') (sample_world []) = (Inr r, w')" using sample_run_returns by blast
  with steps_before_position_are_recorded[OF e, of "[PDict (shell_config ''a'' ''ls'')]"] show ?thesis
    by (auto simp: sample_workflow_def)
qed

end
