(* ===== verification/Recursion.thy ===== *)
theory Recursion
  imports EngineProps
begin

text \<open>
  The recursion of \<open>_execute_steps\<close>. The steps a step runs are parts of its configuration, up to their ids, so the
  depth of the document is enough fuel, and \<open>execute_steps\<close> satisfies the equation the code is written as, in which no
  fuel occurs.
\<close>

section \<open>A step runs only what is nested in it\<close>

text \<open>Two ways to run nested steps that agree on lists of small steps.\<close>

definition agree :: "nat \<Rightarrow> (pyval list \<Rightarrow> unit eng) \<Rightarrow> (pyval list \<Rightarrow> unit eng) \<Rightarrow> bool" where
  "agree k f g \<longleftrightarrow> (\<forall>sts. (\<forall>y \<in> set sts. depth y < k) \<longrightarrow> f sts = g sts)"

lemma agreeD: "agree k f g \<Longrightarrow> (\<And>y. y \<in> set sts \<Longrightarrow> depth y < k) \<Longrightarrow> f sts = g sts"
  by (simp add: agree_def)

lemma sbind_cong: "m = m' \<Longrightarrow> (\<And>s a s'. m' s = (Inr a, s') \<Longrightarrow> f a = g a) \<Longrightarrow> sbind m f = sbind m' g"
  by (rule ext) (auto simp: sbind_def split: prod.split sum.split)

lemma slift_cong: "(\<And>a. r = Inr a \<Longrightarrow> f a = g a) \<Longrightarrow> sbind (slift r) f = sbind (slift r) g"
  by (rule sbind_cong) (auto simp: slift_def)

lemma each_step_cong: "(\<And>i st. st \<in> set sts \<Longrightarrow> f i st = g i st) \<Longrightarrow> each_step f i sts = each_step g i sts"
  by (induction sts arbitrary: i) (simp_all cong: if_cong)

lemma named_depth: "as_dict v = Inr d \<Longrightarrow> depth (PDict (assoc_set (PStr k) (PStr t) d)) \<le> depth v"
  using depth_assoc_set by (cases v) auto

lemma loop_step_cong:
  assumes "agree k f g" "depth ns < k"
  shows "loop_step f i iter idx ns = loop_step g i iter idx ns"
  unfolding loop_step_def Let_def
proof (rule slift_cong)
  fix copy assume c: "as_dict ns = Inr copy"
  have "f [PDict (assoc_set (PStr ''id'') (PStr t) copy)] = g [PDict (assoc_set (PStr ''id'') (PStr t) copy)]" for t
    using named_depth[OF c, of "''id''" t] assms(2) by (intro agreeD[OF assms(1)]) simp
  then show "sthen (f [PDict (assoc_set (PStr ''id'') (PStr (py_str i @ '':'' @ py_str (py_or (get_none copy ''id'')
        (PStr (''step-'' @ show_int (int idx)))) @ '':'' @ show_int (int (Suc iter)))) copy)]) m =
      sthen (g [PDict (assoc_set (PStr ''id'') (PStr (py_str i @ '':'' @ py_str (py_or (get_none copy ''id'')
        (PStr (''step-'' @ show_int (int idx)))) @ '':'' @ show_int (int (Suc iter)))) copy)]) m"
    for m :: "bool eng" by (simp only:)
qed

lemma loop_iterations_cong:
  assumes "agree k f g" "\<And>y. y \<in> set body \<Longrightarrow> depth y < k"
  shows "loop_iterations f i c body iter n = loop_iterations g i c body iter n"
proof (induction n arbitrary: iter)
  case (Suc n)
  have "each_step (loop_step f i iter) 0 body = each_step (loop_step g i iter) 0 body"
    using assms by (intro each_step_cong loop_step_cong) auto
  with Suc show ?case by (simp cong: if_cong)
qed simp

lemma run_nested_cong:
  assumes "agree k f g" "\<And>xs y. py_iter (sr_next_steps r) = Inr xs \<Longrightarrow> y \<in> set xs \<Longrightarrow> depth y < k"
  shows "run_nested f cfg i ty r = run_nested g cfg i ty r"
proof -
  have "f xs = g xs" "loop_iterations f i c xs 0 n = loop_iterations g i c xs 0 n"
    if "py_iter (sr_next_steps r) = Inr xs" for xs c n
    using assms(2)[OF that] agreeD[OF assms(1)] loop_iterations_cong[OF assms(1)] by auto
  then show ?thesis unfolding run_nested_def by (auto intro!: slift_cong cong: if_cong)
qed

lemma rmap_mem: "rmap f xs = Inr ys \<Longrightarrow> y \<in> set ys \<Longrightarrow> \<exists>x \<in> set xs. f x = Inr y"
  by (induction xs arbitrary: ys) (auto simp: rbind_Inr_iff)

lemma pair_of: "(case kv of [k, w] \<Rightarrow> if hashable k then Inr (k, w) else Inl e | _ \<Rightarrow> Inl e') = Inr (a, b) \<Longrightarrow> kv = [a, b]"
  by (auto split: list.splits if_splits)

lemma update_pairs_depth:
  assumes "update_pairs v = Inr d" "truthy v"
  shows "depth (PDict d) \<le> depth v"
proof -
  have items: "py_iter v = Inr xs \<Longrightarrow> rmap (\<lambda>p. rbind (py_iter p) (\<lambda>kv. case kv of [k, w] \<Rightarrow>
      if hashable k then Inr (k, w) else Inl type_error | _ \<Rightarrow> Inl (value_error ''''))) xs = Inr d" if "\<not> is_dict v" for xs
    using assms(1) that by (cases v) (auto simp: update_pairs_def)
  show ?thesis
  proof (cases v)
    case (PDict e)
    with assms(1) show ?thesis by (simp add: update_pairs_def)
  next
    case (PStr t)
    with assms items[of "map (\<lambda>c. PStr [c]) t"] show ?thesis by (cases t) auto
  next
    case (PList xs)
    show ?thesis
    proof (rule depth_dict_le)
      fix k w assume "(k, w) \<in> set d"
      with items[of xs] PList obtain p where p: "p \<in> set xs" "py_iter p = Inr [k, w]"
        by (auto dest!: rmap_mem pair_of simp: rbind_Inr_iff)
      then show "depth k < depth v \<and> depth w < depth v"
        using depth_item[OF p(1)] depth_iter[OF p(2)] PList by fastforce
    qed (simp add: PList depth.simps)
  qed (use assms in \<open>simp_all add: update_pairs_def\<close>)
qed

lemma fan_items_cong:
  assumes "agree k f g" "depth template < k" "truthy template"
  shows "fan_items f i template idx items = fan_items g i template idx items"
proof (induction items arbitrary: idx)
  case (Cons item items)
  have "f [PDict (assoc_set (PStr ''id'') (PStr t) copy)] = g [PDict (assoc_set (PStr ''id'') (PStr t) copy)]"
    if "update_pairs template = Inr copy" for t copy
    using depth_assoc_set[of "''id''" t copy] update_pairs_depth[OF that assms(3)] assms(2)
    by (intro agreeD[OF assms(1)]) simp
  with Cons show ?case by (auto simp: Let_def intro!: arg_cong2[where f = sthen] slift_cong cong: if_cong)
qed simp

lemma get_or_Cons: "get_or ((PStr k, v) # d) n u = (if k = n then v else get_or d n u)"
  by (simp add: get_or_def field_def)

lemma fan_out_template:
  assumes "registry_get (PStr ''fan-out'') = Inr (Some im)" "si_execute im x cfg c w = (Inr r, w')"
  shows "get_or (sr_output r) ''step_template'' (PDict []) = get_or cfg ''step'' (PDict [])"
  using assms
  by (auto simp: registry_get_def get_step_type_def step_registry_eq builtin_steps_def pure_step_def fan_out_execute_def
      svc_defs rbind_Inr_iff completed_with_def Let_def obj_def get_or_Cons)

lemma perform_step_cong:
  assumes "agree (depth (PDict cfg)) f g"
  shows "perform_step x f cfg i ty = perform_step x g cfg i ty"
proof -
  have h: "handle_result x f cfg i ty r = handle_result x g cfg i ty r"
    if im: "registry_get ty = Inr (Some im)" and e: "si_execute im x cfg c w = (Inr r, w')" for im c w r w'
  proof -
    have st: "step_type (si_type_key im) (si_execute im) (si_validate im)"
      using registered_step_type registry_get_registered[OF im] by blast
    have n: "run_nested f cfg i ty r = run_nested g cfg i ty r"
      using step_type.nested[OF st e] by (intro run_nested_cong[OF assms])
    have "run_fan_out f i r = run_fan_out g i r" if ty: "ty = PStr ''fan-out''"
    proof (cases "truthy (get_or cfg ''step'' (PDict []))")
      case True
      then have "depth (get_or cfg ''step'' (PDict [])) < depth (PDict cfg)"
        using depth_field[of cfg "''step''"] by (auto simp: get_or_def split: option.splits)
      then show ?thesis
        unfolding run_fan_out_def fan_out_template[OF im[unfolded ty] e] Let_def
        using fan_items_cong[OF assms _ True] by simp
    qed (simp add: run_fan_out_def fan_out_template[OF im[unfolded ty] e] Let_def)
    with n show ?thesis by (simp add: handle_result_def cong: if_cong)
  qed
  have lift: "sbind (slift (Inr a)) k = k a" for a and k :: "'a \<Rightarrow> bool eng"
    by (simp add: svc_defs fun_eq_iff)
  show ?thesis
  proof (cases "registry_get ty")
    case (Inl e)
    then show ?thesis by (simp add: perform_step_def svc_defs fun_eq_iff)
  next
    case (Inr v)
    show ?thesis
    proof (cases v)
      case (Some im)
      show ?thesis
        unfolding perform_step_def Inr Some lift option.case
      proof (rule sbind_cong[OF refl])
        fix s r s' assume "in_world (si_execute im x cfg) s = (Inr r, s')"
        then have "handle_result x f cfg i ty r = handle_result x g cfg i ty r"
          using h[OF Inr[unfolded Some]] by (fastforce simp: in_world_def split: prod.splits)
        then show "sthen (record_step cfg i r) (sthen m (handle_result x f cfg i ty r)) =
            sthen (record_step cfg i r) (sthen m (handle_result x g cfg i ty r))" for m :: "unit eng"
          by simp
      qed
    qed (simp add: perform_step_def Inr lift)
  qed
qed

lemma execute_one_cong: "agree (depth st) f g \<Longrightarrow> execute_one x f off n st = execute_one x g off n st"
  unfolding execute_one_def Let_def
  by (rule slift_cong) (cases st; simp add: perform_step_cong)

section \<open>Enough fuel\<close>

lemma exec_steps_Nil [simp]: "exec_steps n x off [] = sret ()"
  by (cases n) (simp_all add: svc_defs fun_eq_iff)

lemma exec_steps_cong:
  "(\<And>y. y \<in> set sts \<Longrightarrow> agree (depth y) (exec_steps n x (-1)) (exec_steps m x (-1))) \<Longrightarrow>
     exec_steps (Suc n) x off sts = exec_steps (Suc m) x off sts"
  using each_step_cong[of sts "execute_one x (exec_steps n x (-1)) off" "execute_one x (exec_steps m x (-1)) off" 0]
  by (simp add: execute_one_cong)

lemma exec_steps_fuel:
  "(\<And>y. y \<in> set sts \<Longrightarrow> depth y \<le> n) \<Longrightarrow> exec_steps (Suc (n + k)) x off sts = exec_steps (Suc n) x off sts"
proof (induction n arbitrary: sts off)
  case 0
  show ?case
  proof (rule exec_steps_cong)
    fix y assume "y \<in> set sts"
    with 0 have "depth y = 0" by simp
    then show "agree (depth y) (exec_steps (0 + k) x (-1)) (exec_steps 0 x (-1))"
      by (auto simp: agree_def neq_Nil_conv)
  qed
next
  case (Suc n)
  show ?case
  proof (rule exec_steps_cong)
    fix y assume "y \<in> set sts"
    with Suc.prems have "depth y \<le> Suc n" .
    then have "exec_steps (Suc (n + k)) x (-1) zs = exec_steps (Suc n) x (-1) zs" if "\<forall>z \<in> set zs. depth z < depth y" for zs
      using that by (intro Suc.IH) fastforce
    then show "agree (depth y) (exec_steps (Suc n + k) x (-1)) (exec_steps (Suc n) x (-1))"
      unfolding agree_def add_Suc by blast
  qed
qed

lemma exec_steps_more:
  assumes "\<And>y. y \<in> set sts \<Longrightarrow> depth y < n" "n \<le> m"
  shows "exec_steps m x off sts = exec_steps n x off sts"
proof (cases n)
  case 0
  with assms(1) have "sts = []" by (cases sts) auto
  then show ?thesis by simp
next
  case (Suc n')
  have "exec_steps (Suc (n' + (m - n))) x off sts = exec_steps (Suc n') x off sts"
    using assms(1) Suc by (intro exec_steps_fuel) fastforce
  moreover have "Suc (n' + (m - n)) = m" using assms(2) Suc by simp
  ultimately show ?thesis by (simp only: Suc)
qed

lemma exec_steps_enough:
  assumes "\<And>y. y \<in> set sts \<Longrightarrow> depth y < n" "\<And>y. y \<in> set sts \<Longrightarrow> depth y < m"
  shows "exec_steps n x off sts = exec_steps m x off sts"
  using exec_steps_more[of sts n m x off, OF assms(1)] exec_steps_more[of sts m n x off, OF assms(2)]
  by (metis nat_le_linear)

text \<open>C5. The engine's recursion ends, and the fuel is not felt: \<open>execute_steps\<close> satisfies the recursive equation
  \<open>_execute_steps\<close> is written as, each nested list executed in full, whatever the document.\<close>

theorem execute_steps_equation:
  "execute_steps x off (PList sts) =
     sthen (each_step (execute_one x (\<lambda>body. execute_steps x (-1) (PList body)) off) 0 sts) (sret ())"
proof -
  have "execute_one x (exec_steps (depth (PList sts)) x (-1)) off n st =
      execute_one x (\<lambda>body. execute_steps x (-1) (PList body)) off n st" if st: "st \<in> set sts" for n st
  proof (rule execute_one_cong)
    have "exec_steps (depth (PList sts)) x (-1) body = execute_steps x (-1) (PList body)"
      if b: "\<forall>y \<in> set body. depth y < depth st" for body
    proof -
      have "execute_steps x (-1) (PList body) = exec_steps (Suc (depth (PList body))) x (-1) body"
        by (rule ext) (simp add: execute_steps_def svc_defs del: exec_steps.simps)
      moreover have "exec_steps (depth (PList sts)) x (-1) body = exec_steps (Suc (depth (PList body))) x (-1) body"
        using b depth_item[OF st] depth_item[of _ body] by (intro exec_steps_enough) (auto intro: less_trans less_SucI)
      ultimately show ?thesis by simp
    qed
    then show "agree (depth st) (exec_steps (depth (PList sts)) x (-1)) (\<lambda>body. execute_steps x (-1) (PList body))"
      unfolding agree_def by blast
  qed
  then have "each_step (execute_one x (exec_steps (depth (PList sts)) x (-1)) off) 0 sts =
      each_step (execute_one x (\<lambda>body. execute_steps x (-1) (PList body)) off) 0 sts"
    by (intro each_step_cong)
  then show ?thesis by (intro ext) (simp add: execute_steps_def svc_defs)
qed

end
