(* ===== verification/Validation.thy ===== *)
theory Validation
  imports WfDefinition
begin

text \<open>
  What an accepted workflow is: validation without messages means that every step of the document, however deep, and every
  step of a fan-out template has an id of its own and a registered type whose own checks it passes; and resolved inputs have
  the declared types.
\<close>

section \<open>The steps of a document\<close>

text \<open>All steps of one scope, in the order validation visits them; the mapping under \<open>step\<close> opens a scope of its own.\<close>

function all_steps :: "pyval list \<Rightarrow> config list" where
  "all_steps [] = []"
| "all_steps (st # sts) =
     (case st of PDict cfg \<Rightarrow> cfg # concat (map all_steps (nested_lists cfg)) | _ \<Rightarrow> []) @ all_steps sts"
  by pat_completeness auto
termination
  by (relation "measure (size_list size)") (auto dest!: nested_size)

text \<open>A step that passes every check that concerns it alone.\<close>

definition sound_step :: "config \<Rightarrow> bool" where
  "sound_step cfg \<longleftrightarrow>
     (\<exists>t. get_none cfg ''id'' = PStr t \<and> t \<noteq> '''' \<and> CHR '':'' \<notin> set t) \<and>
     (\<exists>im. registry_get (get_or cfg ''type'' (PStr ''command'')) = Inr (Some im) \<and> si_validate im cfg = Inr []) \<and>
     bad_continue cfg = []"

text \<open>
  A template, the mapping under \<open>step\<close>, is a scope of its own: the steps of a scope have different ids and are sound, and so
  are the scopes of their templates.
\<close>

inductive sound_scope :: "pyval list \<Rightarrow> bool" where
  "distinct (map (\<lambda>c. get_none c ''id'') (all_steps sts)) \<Longrightarrow> (\<And>c. c \<in> set (all_steps sts) \<Longrightarrow> sound_step c) \<Longrightarrow>
   (\<And>c t. c \<in> set (all_steps sts) \<Longrightarrow> get_none c ''step'' = PDict t \<Longrightarrow> sound_scope [PDict t]) \<Longrightarrow> sound_scope sts"

definition sound_below :: "config \<Rightarrow> bool" where
  "sound_below c \<longleftrightarrow> sound_step c \<and> (\<forall>t. get_none c ''step'' = PDict t \<longrightarrow> sound_scope [PDict t])"

lemma sound_scopeI:
  "distinct (map (\<lambda>c. get_none c ''id'') (all_steps sts)) \<Longrightarrow> \<forall>c \<in> set (all_steps sts). sound_below c \<Longrightarrow> sound_scope sts"
  by (rule sound_scope.intros) (simp_all add: sound_below_def)

text \<open>What one part of the validation adds to the ids and to the messages.\<close>

definition adds :: "(config \<Rightarrow> bool) \<Rightarrow> vstate \<Rightarrow> config list \<Rightarrow> vstate \<Rightarrow> bool" where
  "adds P s cfgs s' \<longleftrightarrow>
     (\<exists>es. snd s' = snd s @ es \<and>
       (es = [] \<longrightarrow> fst s' = fst s @ map (\<lambda>c. get_none c ''id'') cfgs \<and> (\<forall>c \<in> set cfgs. P c) \<and>
         (distinct (fst s) \<and> list_all is_str (fst s) \<longrightarrow> distinct (fst s') \<and> list_all is_str (fst s'))))"

lemma adds_Nil: "adds P s [] s"
  by (simp add: adds_def)

lemma adds_trans: "adds P s cs t \<Longrightarrow> adds P t ds u \<Longrightarrow> adds P s (cs @ ds) u"
  unfolding adds_def by (elim exE) (rule exI[of _ "_ @ _"], auto)

lemma adds_messages: "adds P s cs t \<Longrightarrow> adds P s cs (vmsgs es t)"
  unfolding adds_def vmsgs_def by (elim exE) (rule exI[of _ "_ @ es"], auto)

lemma adds_message: "es \<noteq> [] \<Longrightarrow> snd s' = snd s @ es \<Longrightarrow> adds P s cs s'"
  by (auto simp: adds_def)

lemma list_mem_str: "list_all is_str xs \<Longrightarrow> list_mem (PStr t) xs \<longleftrightarrow> PStr t \<in> set xs"
  by (induction xs) (auto simp: list_mem_def is_str_iff)

lemma has_sub_char: "has_sub [c] t \<longleftrightarrow> c \<in> set t"
  by (induction t) (auto simp: has_sub_def starts_with_def)

lemma check_id_adds:
  assumes "check_id i s = Inr s'"
  shows "\<exists>es. snd s' = snd s @ es \<and> (es = [] \<longrightarrow> fst s' = fst s @ [i] \<and> (\<exists>t. i = PStr t \<and> CHR '':'' \<notin> set t) \<and>
      (distinct (fst s) \<and> list_all is_str (fst s) \<longrightarrow> distinct (fst s') \<and> list_all is_str (fst s')))"
  using assms list_mem_str has_sub_char[of "CHR '':''"]
  by (cases i) (auto simp: check_id_def rbind_Inr_iff vmsg_def split: if_splits)

lemma check_step_adds:
  assumes "check_step cfg s = Inr (go, s')"
  shows "adds sound_step s [cfg] s' \<and> (\<not> go \<longrightarrow> snd s' \<noteq> snd s)"
proof (cases "truthy (get_none cfg ''id'')")
  case False
  with assms have "go = False" "snd s' = snd s @ [''Step is missing '' @ repr_str ''id'' @ '' field.'']"
    by (auto simp: check_step_def vmsg_def)
  then show ?thesis using adds_message by (metis append_self_conv list.discI)
next
  case True
  obtain s1 v where s1: "check_id (get_none cfg ''id'') s = Inr s1"
    and v: "registry_get (get_or cfg ''type'' (PStr ''command'')) = Inr v"
    and c: "(case v of None \<Rightarrow> Inr (False, vmsg (''Step '' @ py_repr (get_none cfg ''id'') @ '' has invalid type '' @
          py_repr (get_or cfg ''type'' (PStr ''command'')) @ ''.'') s1)
        | Some impl \<Rightarrow> rbind (si_validate impl cfg) (\<lambda>es. Inr (True, vmsgs (es @ bad_continue cfg) s1))) = Inr (go, s')"
    using assms unfolding check_step_def Let_def by (simp only: True not_True_eq_False if_False rbind_Inr_iff) blast
  from check_id_adds[OF s1] obtain es where es: "snd s1 = snd s @ es" and ok: "es = [] \<Longrightarrow>
      fst s1 = fst s @ [get_none cfg ''id''] \<and> (\<exists>t. get_none cfg ''id'' = PStr t \<and> CHR '':'' \<notin> set t) \<and>
      (distinct (fst s) \<and> list_all is_str (fst s) \<longrightarrow> distinct (fst s1) \<and> list_all is_str (fst s1))" by blast
  show ?thesis
  proof (cases v)
    case None
    with c have "go = False" "\<exists>m. snd s' = snd s @ es @ [m]" by (auto simp: vmsg_def es)
    then show ?thesis by (auto intro: adds_message)
  next
    case (Some im)
    with c obtain fs where fs: "si_validate im cfg = Inr fs" "go = True" "s' = vmsgs (fs @ bad_continue cfg) s1"
      by (auto simp: rbind_Inr_iff)
    have "es @ fs @ bad_continue cfg = [] \<Longrightarrow> sound_step cfg"
      using ok True v Some fs(1) unfolding sound_step_def by fastforce
    then have "adds sound_step s [cfg] s'"
      unfolding adds_def using es ok fs(3) by (intro exI[of _ "es @ fs @ bad_continue cfg"]) (auto simp: vmsgs_def)
    with fs(2) show ?thesis by simp
  qed
qed

lemma vfold_adds:
  assumes "vfold f xss s = Inr s'" "\<And>xs t t'. xs \<in> set xss \<Longrightarrow> f xs t = Inr t' \<Longrightarrow> adds P t (g xs) t'"
  shows "adds P s (concat (map g xss)) s'"
  using assms
proof (induction xss arbitrary: s)
  case (Cons xs xss)
  then obtain t where t: "f xs s = Inr t" "vfold f xss t = Inr s'" by (auto simp: rbind_Inr_iff)
  have "adds P s (g xs) t" by (rule Cons.prems(2)) (use t in simp_all)
  moreover have "adds P t (concat (map g xss)) s'" by (rule Cons.IH) (use t Cons.prems(2) in auto)
  ultimately show ?case by (simp add: adds_trans)
qed (simp add: adds_Nil)

lemma adds_template:
  assumes "adds sound_step s [cfg] t" "adds sound_below t cs u"
    "ms = [] \<Longrightarrow> \<forall>p. get_none cfg ''step'' = PDict p \<longrightarrow> sound_scope [PDict p]"
  shows "adds sound_below s (cfg # cs) (vmsgs ms u)"
proof -
  from assms(1) obtain es where es: "snd t = snd s @ es" "es = [] \<Longrightarrow> fst t = fst s @ [get_none cfg ''id'']"
      "es = [] \<Longrightarrow> sound_step cfg"
      "es = [] \<Longrightarrow> distinct (fst s) \<and> list_all is_str (fst s) \<Longrightarrow> distinct (fst t) \<and> list_all is_str (fst t)"
    unfolding adds_def by force
  from assms(2) obtain fs where fs: "snd u = snd t @ fs" "fs = [] \<Longrightarrow> fst u = fst t @ map (\<lambda>c. get_none c ''id'') cs"
      "fs = [] \<Longrightarrow> \<forall>c \<in> set cs. sound_below c"
      "fs = [] \<Longrightarrow> distinct (fst t) \<and> list_all is_str (fst t) \<Longrightarrow> distinct (fst u) \<and> list_all is_str (fst u)"
    unfolding adds_def by force
  have snd: "snd (vmsgs ms u) = snd s @ es @ fs @ ms" "fst (vmsgs ms u) = fst u" by (simp_all add: vmsgs_def es fs)
  show ?thesis
    unfolding adds_def snd
  proof (intro exI[of _ "es @ fs @ ms"] conjI impI refl)
    assume n: "es @ fs @ ms = []"
    show "fst u = fst s @ map (\<lambda>c. get_none c ''id'') (cfg # cs)" using n es(2) fs(2) by simp
    show "\<forall>c \<in> set (cfg # cs). sound_below c" using n es(3) fs(3) assms(3) by (simp add: sound_below_def)
    assume "distinct (fst s) \<and> list_all is_str (fst s)"
    with n es(4) fs(4) show "distinct (fst u)" "list_all is_str (fst u)" by blast+
  qed
qed

lemma adds_scope: "adds sound_below ([], []) (all_steps sts) s' \<Longrightarrow> snd s' = [] \<Longrightarrow> sound_scope sts"
  by (rule sound_scopeI) (auto simp: adds_def)

lemma validate_steps_adds:
  "validate_steps sts s = Inr s' \<Longrightarrow> adds sound_below s (all_steps sts) s'"
  "validate_step st s = Inr s' \<Longrightarrow> adds sound_below s (all_steps [st]) s'"
proof (induction sts s and st s arbitrary: s' and s' rule: validate_steps_validate_step.induct)
  case (1 s)
  then show ?case by (simp add: adds_Nil)
next
  case (2 st sts s)
  then obtain t where "validate_step st s = Inr t" "validate_steps sts t = Inr s'" by (auto simp: rbind_Inr_iff)
  from adds_trans[OF 2(1)[OF this(1)] 2(2)[OF this(2)]] show ?case by simp
next
  case (3 st s)
  show ?case
  proof (cases "is_dict st")
    case False
    with 3(3) have "\<exists>m. snd s' = snd s @ [m]" by (cases st) (auto simp: validate_step.simps vmsg_def)
    then show ?thesis by (auto intro: adds_message)
  next
    case True
    then obtain cfg where st: "st = PDict cfg" by (cases st) auto
    from 3(3) obtain go s1 where c: "check_step cfg s = Inr (go, s1)"
      and r: "(if \<not> go then Inr s1 else rbind (vfold (\<lambda>xs. validate_steps xs) (nested_lists cfg) s1) (\<lambda>s2.
            case get_none cfg ''step'' of
              PDict t \<Rightarrow> rbind (validate_step (PDict t) ([], [])) (\<lambda>f. Inr (vmsgs (snd f) s2)) | _ \<Rightarrow> Inr s2)) = Inr s'"
      by (auto simp: validate_step.simps st rbind_Inr_iff)
    show ?thesis
    proof (cases go)
      case False
      with r check_step_adds[OF c] show ?thesis by (auto simp: adds_def)
    next
      case go: True
      with r obtain s2 where s2: "vfold (\<lambda>xs. validate_steps xs) (nested_lists cfg) s1 = Inr s2"
        and t: "\<exists>ms. s' = vmsgs ms s2 \<and> (ms = [] \<longrightarrow> (\<forall>p. get_none cfg ''step'' = PDict p \<longrightarrow>
          (\<exists>f. validate_step (PDict p) ([], []) = Inr f \<and> snd f = [])))"
        by (cases "get_none cfg ''step''") (auto simp: rbind_Inr_iff vmsgs_def)
      have "adds sound_below s1 (concat (map all_steps (nested_lists cfg))) s2"
        using s2 by (rule vfold_adds) (use 3(1)[OF st, of True] in auto)
      note nested = adds_template[OF conjunct1[OF check_step_adds[OF c]] this]
      have tmpl: "sound_scope [PDict p]" if "get_none cfg ''step'' = PDict p"
        "validate_step (PDict p) ([], []) = Inr f" "snd f = []" for p f
        by (rule adds_scope[OF 3(2)[OF st _ that(1,2), of True] that(3)]) simp
      from t obtain ms where ms: "s' = vmsgs ms s2" "ms = [] \<longrightarrow> (\<forall>p. get_none cfg ''step'' = PDict p \<longrightarrow>
          (\<exists>f. validate_step (PDict p) ([], []) = Inr f \<and> snd f = []))" by blast
      have "adds sound_below s (cfg # concat (map all_steps (nested_lists cfg))) s'"
        unfolding ms(1) by (rule nested) (use ms(2) tmpl in blast)
      then show ?thesis by (simp add: st)
    qed
  qed
qed

text \<open>C9. What validation accepts: the steps of an accepted workflow are a non-empty list, and every step of it, however deep, is
  a mapping with a non-empty id that no other step of its scope has and that contains no colon, of a registered type
  whose own checks it passes. A scope is the document without the templates of its fan-out steps; every template is a
  scope of its own, with the same guarantees for all steps below it and for the templates in it.\<close>

theorem accepted_workflow_is_sound:
  assumes "validate_workflow d = Inr []"
  shows "\<exists>sts. wd_steps d = PList sts \<and> sts \<noteq> [] \<and> sound_scope sts"
proof -
  from assms obtain sts s e where s: "wd_steps d = PList sts"
    "validate_steps sts ([], e @ (if sts = [] then [''Workflow has no steps defined.''] else [])) = Inr (s, [])"
    unfolding validate_workflow_def rbind_Inr_iff by (cases "wd_steps d") (auto simp: rbind_Inr_iff append_assoc[symmetric] simp del: append_assoc)
  from validate_steps_adds(1)[OF s(2)] s(1) show ?thesis
    by (auto simp: adds_def intro: sound_scopeI split: if_splits)
qed

text \<open>A workflow that is accepted.\<close>

definition valid_sample :: workflow_definition where
  "valid_sample =
     (let sts = [PDict (obj [(''id'', PStr ''a''), (''type'', PStr ''if''), (''condition'', PStr ''true''),
            (''then'', PList [PDict (obj [(''id'', PStr ''b''), (''type'', PStr ''shell''), (''run'', PStr ''ls'')])])]),
          PDict (obj [(''id'', PStr ''c''), (''type'', PStr ''fan-out''), (''items'', PStr ''{{ steps.b }}''),
            (''step'', PDict (obj [(''id'', PStr ''d''), (''type'', PStr ''shell''), (''run'', PStr ''ls'')]))])]
      in \<lparr>wd_data = obj [(''steps'', PList sts)], wd_id = PStr ''w'', wd_name = PStr ''w'', wd_version = PStr ''1.0.0'',
           wd_author = PStr '''', wd_description = PStr '''', wd_schema_version = PStr ''1.0'', wd_default_integration = PNone,
           wd_default_model = PNone, wd_default_options = [], wd_requires = PDict [], wd_inputs = PDict [], wd_steps = PList sts\<rparr>)"

lemma valid_sample_accepted: "validate_workflow valid_sample = Inr []"
  by code_simp

inductive_cases sound_scopeE: "sound_scope sts"

theorem accepted_workflow_is_sound_witness:
  "\<exists>sts. wd_steps valid_sample = PList sts \<and> length sts = 2 \<and> sound_scope sts"
  using accepted_workflow_is_sound[OF valid_sample_accepted] by (auto simp: valid_sample_def Let_def)

section \<open>Inputs\<close>

text \<open>A value of the declared type.\<close>

definition input_typed :: "(pyval \<times> pyval) list \<Rightarrow> pyval \<Rightarrow> bool" where
  "input_typed idef v \<longleftrightarrow>
     (let ty = get_or idef ''type'' (PStr ''string'') in
      (ty = PStr ''number'' \<longrightarrow> (\<exists>n. v = PInt n) \<or> (\<exists>f. v = PFloat f)) \<and>
      (ty = PStr ''boolean'' \<longrightarrow> is_bool v) \<and> (ty = PStr ''string'' \<longrightarrow> is_str v))"

lemma narrow_number: "narrow f = Inr v \<Longrightarrow> (\<exists>n. v = PInt n) \<or> (\<exists>f. v = PFloat f)"
  by (auto simp: narrow_def split: option.splits if_splits)

lemma coerced_type: "coerce_type name v idef = Inr u \<Longrightarrow> input_typed idef u"
  by (cases v)
    (auto simp: coerce_type_def input_typed_def Let_def coerce_number_def coerce_boolean_def coerce_string_def
      split: if_splits option.splits float_text.splits dest: narrow_number)

lemma without_enum_fields: "n \<noteq> ''enum'' \<Longrightarrow> get_or (without_enum idef) n u = get_or idef n u"
  unfolding without_enum_def get_or_def field_def by (induction idef) auto

lemma without_enum_typed: "input_typed (without_enum idef) v \<longleftrightarrow> input_typed idef v"
  by (simp add: input_typed_def without_enum_fields)

lemma coerce_input_InrD:
  "coerce_input name v idef = Inr u \<Longrightarrow> input_typed idef u \<and>
     (get_none idef ''enum'' = PNone \<or> py_in u (get_none idef ''enum'') = Inr True)"
  by (auto simp: coerce_input_def rbind_Inr_iff check_enum_def coerced_type split: if_splits)

lemma coerced_auto: "coerce_input name v idef = Inr u \<Longrightarrow> is_auto name v \<Longrightarrow> is_auto name u"
proof -
  assume c: "coerce_input name v idef = Inr u" and a: "is_auto name v"
  have "parse_float ''auto'' = NotFloat" "py_lower ''auto'' = ''auto''" by code_simp+
  then show ?thesis
    using c a by (auto simp: is_auto_def coerce_input_def rbind_Inr_iff check_enum_def coerce_type_def Let_def
        coerce_number_def coerce_boolean_def coerce_string_def split: if_splits)
qed

lemma resolve_input_InrD:
  assumes "resolve_input x provided name idef = Inr r"
  shows "(\<forall>u. r = Some u \<longrightarrow> input_typed idef u \<and>
      (get_none idef ''enum'' = PNone \<or> py_in u (get_none idef ''enum'') = Inr True \<or> is_auto name u)) \<and>
    (r = None \<longrightarrow> assoc_get provided name = None \<and> field idef ''default'' = None \<and>
      \<not> truthy (get_or idef ''required'' (PBool False)))"
proof -
  define def where "def v = (if is_auto name v then without_enum idef else idef)" for v
  have "is_auto name u" if "coerce_input name v (def v) = Inr u" "is_auto name v" for u v
    using that coerced_auto by auto
  moreover have "input_typed idef u \<and>
      (get_none idef ''enum'' = PNone \<or> py_in u (get_none idef ''enum'') = Inr True \<or> is_auto name v)"
    if "coerce_input name v (def v) = Inr u" for u v
    using coerce_input_InrD[OF that] by (auto simp: def_def without_enum_typed split: if_splits)
  ultimately have ok: "input_typed idef u \<and>
      (get_none idef ''enum'' = PNone \<or> py_in u (get_none idef ''enum'') = Inr True \<or> is_auto name u)"
    if "coerce_input name v (def v) = Inr u" for u v
    using that by blast
  from assms[unfolded resolve_input_def, folded def_def] show ?thesis
    by (auto simp: rbind_Inr_iff split: option.splits if_splits dest: ok)
qed

text \<open>C40. Resolved inputs are as declared: each has the type its declaration states, a number never being a boolean, is one of the
  allowed values, but for the value auto of the input integration, which stays when the project names no
  integration, and every input that is required, provided or has a default is there.\<close>

theorem resolved_inputs_are_as_declared:
  assumes "resolve_inputs x d provided = Inr res" "wd_inputs d = PDict defs"
  shows "(\<forall>(name, v) \<in> set res. \<exists>idef. (name, PDict idef) \<in> set defs \<and> input_typed idef v \<and>
      (get_none idef ''enum'' = PNone \<or> py_in v (get_none idef ''enum'') = Inr True \<or>
       name = PStr ''integration'' \<and> v = PStr ''auto'')) \<and>
    (\<forall>(name, def) \<in> set defs. \<forall>idef. def = PDict idef \<longrightarrow>
      truthy (get_or idef ''required'' (PBool False)) \<or> has_field idef ''default'' \<or> assoc_get provided name \<noteq> None \<longrightarrow>
      name \<in> fst ` set res)"
proof -
  have "resolve_each x provided defs = Inr res" using assms by (simp add: resolve_inputs_def)
  then show ?thesis
    unfolding is_auto_def[symmetric]
  proof (induction defs arbitrary: res)
    case (Cons e defs)
    obtain name def where e: "e = (name, def)" by (cases e)
    show ?case
    proof (cases "is_dict def")
      case False
      then have "resolve_each x provided defs = Inr res" using Cons.prems by (cases def) (auto simp: e)
      from Cons.IH[OF this] False show ?thesis by (fastforce simp: e)
    next
      case True
      then obtain idef where def: "def = PDict idef" by (cases def) auto
      with Cons.prems obtain r rest where r: "resolve_input x provided name idef = Inr r"
        "resolve_each x provided defs = Inr rest" "res = (case r of Some v \<Rightarrow> (name, v) # rest | None \<Rightarrow> rest)"
        by (auto simp: e rbind_Inr_iff)
      from Cons.IH[OF r(2)] resolve_input_InrD[OF r(1)] show ?thesis
        by (cases r) (fastforce simp: e def r(3) has_field_def)+
    qed
  qed simp
qed

definition input_sample :: workflow_definition where
  "input_sample = valid_sample\<lparr>wd_inputs := PDict (obj
     [(''count'', PDict (obj [(''type'', PStr ''number''), (''required'', PBool True)]))])\<rparr>"

theorem resolved_inputs_are_as_declared_witness:
  "\<exists>x res. resolve_inputs x input_sample [(PStr ''count'', PStr ''3'')] = Inr res \<and> PStr ''count'' \<in> fst ` set res"
proof -
  have r: "resolve_inputs (sample_wenv False PNone) input_sample [(PStr ''count'', PStr ''3'')]
      = Inr [(PStr ''count'', PInt 3)]" by code_simp
  have "wd_inputs input_sample = PDict (obj [(''count'', PDict (obj [(''type'', PStr ''number''), (''required'', PBool True)]))])"
    by (simp add: input_sample_def)
  from resolved_inputs_are_as_declared[OF r this] have "PStr ''count'' \<in> fst ` set [(PStr ''count'', PInt 3)]"
    by (fastforce simp: obj_def get_or_def field_def)
  with r show ?thesis by blast
qed

end
