(* ===== verification/Gates.thy ===== *)
theory Gates
  imports WfDefinition
begin

text \<open>
  What an operator sees and decides at a gate, and what the template language makes of some inputs.
\<close>

section \<open>The choice\<close>

lemma last_index: "xs \<noteq> [] \<Longrightarrow> seq_index xs (-1) = Inr (last xs)"
  by (cases xs) (auto simp: seq_index_def last_conv_nth nat_diff_distrib)

lemma chosen_index: "1 \<le> k \<Longrightarrow> k \<le> int (length xs) \<Longrightarrow> seq_index xs (k - 1) = Inr (xs ! nat (k - 1))"
  by (simp add: seq_index_def Let_def nat_less_iff)

lemma lower_options_mem: "lower_options (PList xs) = Inr los \<Longrightarrow> (l, v) \<in> set los \<Longrightarrow> v \<in> set xs"
  unfolding lower_options_def
  by (induction xs arbitrary: los) (auto simp: rbind_Inr_iff split: pyval.splits)

lemma ask_chooses: "xs \<noteq> [] \<Longrightarrow> ask (PList xs) (int (length xs)) as = (Inr v, as') \<Longrightarrow> v \<in> set xs"
proof (induction as)
  case Nil
  then show ?case by (auto simp: last_index)
next
  case (Cons a as)
  show ?case
  proof (cases a)
    case Break
    with Cons.prems show ?thesis by (auto simp: last_index)
  next
    case (Line t)
    consider e where "chosen_number (py_strip t) (int (length xs)) = Inl e"
      | k where "chosen_number (py_strip t) (int (length xs)) = Inr (Some k)"
      | "chosen_number (py_strip t) (int (length xs)) = Inr None"
      by (metis option.exhaust sum.exhaust)
    then show ?thesis
    proof cases
      case 2
      then have "1 \<le> k" "k \<le> int (length xs)"
        by (auto simp: chosen_number_def split: if_splits option.splits)
      with 2 Cons.prems Line chosen_index[of k xs] show ?thesis by (auto simp: Let_def intro!: nth_mem)
    next
      case 3
      with Cons Line show ?thesis
        by (auto simp: Let_def split: sum.splits option.splits dest: map_of_SomeD lower_options_mem)
    qed (use Cons.prems Line in \<open>simp add: Let_def\<close>)
  qed
qed

text \<open>A gate decides nothing by itself: without a terminal it pauses and reads nothing; with one, the choice it records is
  one of its options, and it stops the run exactly when that choice is spelled reject or abort: by its policy it aborts
  the run, pauses it to ask again, or goes on.\<close>

theorem gate_records_an_option:
  assumes "gate_execute x cfg c w = (Inr r, w')"
    and "get_or cfg ''options'' gate_default_options = PList opts" "opts \<noteq> []"
  shows "if w_isatty x
    then (\<exists>v \<in> set opts. get_none (sr_output r) ''choice'' = v \<and>
       sr_status r = (if \<not> rejection v then SCompleted
         else if get_or cfg ''on_reject'' (PStr ''abort'') = PStr ''abort'' then SFailed
         else if get_or cfg ''on_reject'' (PStr ''abort'') = PStr ''retry'' then SPaused else SCompleted) \<and>
       (truthy (get_none (sr_output r) ''aborted'') \<longleftrightarrow> sr_status r = SFailed))
    else sr_status r = SPaused \<and> get_none (sr_output r) ''choice'' = PNone \<and> w' = w"
proof (cases "w_isatty x")
  case False
  with assms(1) show ?thesis
    by (auto simp: gate_execute_def svc_defs Let_def obj_def get_or_def field_def split: sum.splits)
next
  case True
  with assms obtain m p sf choice w1 where ch: "gate_prompt (compose_prompt x m p) (PList opts) w1 = (Inr choice, w')"
    and r: "r = gate_outcome cfg (obj [(''message'', m), (''options'', PList opts),
      (''on_reject'', get_or cfg ''on_reject'' (PStr ''abort'')), (''show_file'', sf), (''choice'', PNone)])
      (get_or cfg ''on_reject'' (PStr ''abort'')) choice"
    by (auto simp: gate_execute_def svc_defs Let_def split: sum.splits prod.splits)
  have "choice \<in> set opts"
    using ch assms(3) by (auto simp: gate_prompt_def Let_def rbind_Inr_iff split: sum.splits prod.splits dest: ask_chooses)
  then show ?thesis
    using True by (auto simp: r gate_outcome_def Let_def failed_with_def obj_def get_or_def field_def)
qed

text \<open>A gate at which an operator types an option.\<close>

definition gate_config :: "string list \<Rightarrow> config" where
  "gate_config opts = obj [(''id'', PStr ''g''), (''message'', PStr ''Ship it?''), (''options'', PList (map PStr opts))]"

definition sample_context :: "(pyval \<times> pyval) list \<Rightarrow> step_context" where
  "sample_context ins =
     \<lparr>ctx_inputs = PDict ins, ctx_steps = [], ctx_item = PNone, ctx_fan_in = PDict [], ctx_default_integration = PNone,
      ctx_default_model = PNone, ctx_default_options = [], ctx_project_root = ''.'', ctx_run_id = ''run-1''\<rparr>"

lemma gate_sample:
  "(case gate_execute (sample_wenv True PNone) (gate_config [''approve'', ''reject'']) (sample_context [])
      (sample_world [Line ''9'', Line ''reject'']) of
      (Inr r, w) \<Rightarrow> sr_status r = SFailed \<and> get_none (sr_output r) ''choice'' = PStr ''reject'' | _ \<Rightarrow> False)"
  by code_simp

theorem gate_records_an_option_witness:
  "\<exists>r w'. gate_execute (sample_wenv True PNone) (gate_config [''approve'', ''reject'']) (sample_context [])
      (sample_world [Line ''9'', Line ''reject'']) = (Inr r, w') \<and>
     (\<exists>v \<in> {PStr ''approve'', PStr ''reject''}. get_none (sr_output r) ''choice'' = v)"
proof -
  from gate_sample obtain r w' where e: "gate_execute (sample_wenv True PNone) (gate_config [''approve'', ''reject''])
      (sample_context []) (sample_world [Line ''9'', Line ''reject'']) = (Inr r, w')"
    by (auto split: prod.splits sum.splits)
  have "get_or (gate_config [''approve'', ''reject'']) ''options'' gate_default_options = PList [PStr ''approve'', PStr ''reject'']"
    by (simp add: gate_config_def obj_def get_or_def field_def)
  from gate_records_an_option[OF e this] e show ?thesis by (auto simp: sample_wenv_def)
qed

text \<open>The operator chooses the capitalised rejection, and the step completes.\<close>

definition approves_rejection :: "string \<Rightarrow> bool" where
  "approves_rejection t \<longleftrightarrow>
     (case gate_execute (sample_wenv True PNone) (gate_config [''Approve'', ''Reject'']) (sample_context [])
       (sample_world [Line t]) of
       (Inr r, w) \<Rightarrow> sr_status r = SCompleted \<and> get_none (sr_output r) ''choice'' = PStr ''Reject'' | _ \<Rightarrow> False)"

text \<open>A capitalised rejection is an approval: validation accepts a gate whose options are Approve and Reject, as it compares
  without case, but the gate compares with it, so an operator who types reject, or its number, at such a gate lets
  the run go on.\<close>

theorem capitalised_reject_approves:
  "gate_validate (gate_config [''Approve'', ''Reject'']) = Inr [] \<and>
   approves_rejection ''reject'' \<and> approves_rejection ''Reject'' \<and> approves_rejection ''2''"
  by code_simp

section \<open>The file shown\<close>

lemma strip_control_clean: "ch \<in> set (strip_control s) \<Longrightarrow> \<not> control_char ch"
  by (simp add: strip_control_def)

lemma notice_clean: "list_all (\<lambda>c. \<not> control_char c) ''... (output truncated at 200 lines)''"
  "list_all (\<lambda>c. \<not> control_char c) ''(file is empty)''" "show_int (int MAX_SHOW_FILE_LINES) = ''200''"
  by code_simp+

lemma read_show_file_clean: "l \<in> set (read_show_file x path) \<Longrightarrow> ch \<in> set l \<Longrightarrow> \<not> control_char ch"
  using notice_clean
  by (auto simp: read_show_file_def Let_def list_all_iff strip_control_clean split: prod.splits if_splits option.splits)

lemma join_with_chars: "ch \<in> set (join_with sep ls) \<Longrightarrow> ch \<in> set sep \<or> (\<exists>l \<in> set ls. ch \<in> set l)"
  by (induction sep ls rule: join_with.induct) auto

text \<open>The file a gate shows cannot take over the terminal: whatever the file, its name and the operating system's message
  contain, what the prompt adds to the message has no control characters other than line ends, and the file
  fills at most 201 lines.\<close>

theorem shown_file_cannot_control_terminal:
  "(\<exists>t. compose_prompt x m sf = py_str m @ t \<and> set (List.filter control_char t) \<subseteq> {newline}) \<and>
   length (read_show_file x path) \<le> Suc MAX_SHOW_FILE_LINES"
proof -
  have "\<not> control_char (CHR '' '')" "\<not> control_char (CHR '':'')" by code_simp+
  then have "\<exists>t. compose_prompt x m sf = py_str m @ t \<and> (\<forall>ch \<in> set t. \<not> control_char ch \<or> ch = newline)"
    by (auto simp: compose_prompt_def strip_control_clean read_show_file_clean dest!: join_with_chars split: option.split)
  moreover have "length (read_show_file x path) \<le> Suc MAX_SHOW_FILE_LINES"
    by (auto simp: read_show_file_def Let_def split: prod.split option.split)
  ultimately show ?thesis by fastforce
qed

section \<open>Templates that say something else\<close>

text \<open>Two templates whose value is not what they say: a comparison of two quoted texts is one quoted text, so the condition
  'a' == 'b' holds; and a text made of two expressions is taken for a single one, so that of two known inputs nothing is left.\<close>

theorem templates_misread:
  "evaluate_condition (PStr ''{{ \"a\" == \"b\" }}'') c = Inr True \<and>
   evaluate_expression (PStr ''{{ inputs.a }}-{{ inputs.b }}'') (sample_context (obj [(''a'', PStr ''x''), (''b'', PStr ''y'')])) = Inr PNone"
proof -
  have "evaluate_condition (PStr ''{{ \"a\" == \"b\" }}'') c = Inr True"
    by (simp add: evaluate_condition_def evaluate_expression_def) code_simp
  moreover have "evaluate_expression (PStr ''{{ inputs.a }}-{{ inputs.b }}'') (sample_context (obj [(''a'', PStr ''x''), (''b'', PStr ''y'')])) = Inr PNone"
    by code_simp
  ultimately show ?thesis ..
qed

end
