(* ===== verification/Outcomes.thy ===== *)
theory Outcomes
  imports EngineProps
begin

text \<open>
  What a step that does not complete means for its run.
\<close>

lemma assoc_get_set_hashable: "hashable k \<Longrightarrow> assoc_get (assoc_set k v d) k = Some v"
proof -
  assume "hashable k"
  moreover have "float_cmp f f = 0" for f by (cases f) simp_all
  ultimately have "py_eq k k" by (cases k) simp_all
  then show ?thesis by (induction d) auto
qed

lemma after_log_saved [simp]:
  "rs_results (es_run (snd (append_log x e (recording cfg i r s)))) = assoc_set i (es_next s, PDict (obj (step_data cfg (es_ctx s) r))) (rs_results (es_run s))"
  by (simp add: recording_def set_result_def)

lemma decided:
  assumes "sr_status r \<in> {SPaused, SFailed}"
  shows "\<exists>go s'. handle_result x run cfg i ty r t = (Inr go, s') \<and> saved (es_run s') (es_world s') \<and>
    rs_results (es_run s') = rs_results (es_run t) \<and>
    (go, rs_status (es_run s')) =
      (if sr_status r = SPaused then (False, RPaused)
       else if truthy (get_none (sr_output r) ''aborted'') then (False, RAborted)
       else if get_none cfg ''continue_on_error'' = PBool True then (True, rs_status (es_run t))
       else (False, RFailed))"
  using assms by (auto simp: handle_result_def handle_failure_def engine_run sret_def)

text \<open>C8. A step of a registered type that, executed in the state its start has left, returns that it failed or paused
  decides the run: it is recorded under its id with its status and output, and the state on disk is up to date. A pause pauses the run. A failure that an operator ordered aborts it, whatever the step says.
  Any other failure fails it, unless the step's continue_on_error is the boolean true: only then the run goes on.\<close>

theorem stopped_step_decides_run:
  assumes "registry_get (get_or cfg ''type'' (PStr ''command'')) = Inr (Some im)" "hashable (step_id n cfg)"
    and "begin_step x off n (step_id n cfg) (get_or cfg ''type'' (PStr ''command'')) s = (Inr u, s0)"
    and "si_execute im x cfg (es_ctx s0) (es_world s0) = (Inr r, w0)" "sr_status r \<in> {SPaused, SFailed}"
  shows "\<exists>go s' k d. execute_one x run off n (PDict cfg) s = (Inr go, s') \<and> saved (es_run s') (es_world s') \<and>
    assoc_get (rs_results (es_run s')) (step_id n cfg) = Some (k, PDict d) \<and>
    get_none d ''status'' = PStr (step_status_value (sr_status r)) \<and> get_none d ''output'' = PDict (sr_output r) \<and>
    (go, rs_status (es_run s')) =
      (if sr_status r = SPaused then (False, RPaused)
       else if truthy (get_none (sr_output r) ''aborted'') then (False, RAborted)
       else if get_none cfg ''continue_on_error'' = PBool True then (True, rs_status (es_run s))
       else (False, RFailed))"
proof -
  let ?ty = "get_or cfg ''type'' (PStr ''command'')"
  let ?s = "begun x off n (step_id n cfg) ?ty s"
  have "s0 = ?s" using assms(3) by (simp add: begun_def)
  then have e: "sbind (in_world (si_execute im x cfg)) f ?s = f r (?s\<lparr>es_world := w0\<rparr>)" for f :: "step_result \<Rightarrow> bool eng"
    using assms(4) by (simp add: sbind_def in_world_def)
  have lift: "sbind (slift (Inr a)) f t = f a t" for a and f :: "'a \<Rightarrow> bool eng" and t
    by (simp add: svc_defs)
  let ?t = "snd (append_log x [(''event'', PStr ''step_completed''), (''step_id'', step_id n cfg),
      (''status'', PStr (step_status_value (sr_status r)))] (recording cfg (step_id n cfg) r (?s\<lparr>es_world := w0\<rparr>)))"
  have "execute_one x run off n (PDict cfg) s = perform_step x run cfg (step_id n cfg) ?ty ?s"
    by (simp only: execute_one_def Let_def lift as_dict.simps sthen_begin)
  also have "\<dots> = handle_result x run cfg (step_id n cfg) ?ty r ?t"
    by (simp only: perform_step_def assms(1) lift option.case e sthen_record[OF assms(2)] sthen_log)
  finally have x: "execute_one x run off n (PDict cfg) s = handle_result x run cfg (step_id n cfg) ?ty r ?t" .
  have f: "get_none (obj (step_data cfg c r)) ''status'' = PStr (step_status_value (sr_status r))"
    "get_none (obj (step_data cfg c r)) ''output'' = PDict (sr_output r)" for c
    by (simp_all add: step_data_def Let_def obj_def get_or_def field_def)
  obtain d k where "assoc_get (rs_results (es_run ?t)) (step_id n cfg) = Some (k, PDict d)"
    "get_none d ''status'' = PStr (step_status_value (sr_status r))" "get_none d ''output'' = PDict (sr_output r)"
    using f by (simp only: after_log_saved assoc_get_set_hashable[OF assms(2)])
  moreover have "rs_status (es_run ?t) = rs_status (es_run s)" by simp
  ultimately show ?thesis
    using decided[OF assms(5), of x run cfg "step_id n cfg" ?ty ?t] unfolding x by metis
qed

text \<open>A shell step whose command fails.\<close>

lemma failing_shell:
  "\<exists>w'. shell_execute (sample_wenv tty doc) (obj [(''id'', PStr ''a''), (''type'', PStr ''shell''), (''run'', PStr ''false'')]) c w =
     (Inr (failed_with (shell_output 1 '''' ''failed'') ''Shell command exited with code 1.''), w')"
proof -
  have "eval_if_template (PStr ''false'') c = Inr (PStr ''false'')"
    by (simp add: eval_if_template_def is_template_def has_sub_def starts_with_def)
  moreover have "show_int 1 = ''1''" by code_simp
  ultimately show ?thesis
    by (simp add: shell_execute_def svc_defs tick_world_def sample_wenv_def py_str_def obj_def get_or_def field_def)
qed

text \<open>A gate nobody is there to answer.\<close>

definition lone_gate :: config where
  "lone_gate = obj [(''id'', PStr ''g''), (''type'', PStr ''gate''), (''message'', PStr ''Ship it?'')]"

lemma lone_gate_pauses:
  "\<exists>r. gate_execute (sample_wenv False PNone) lone_gate c w = (Inr r, w) \<and> sr_status r = SPaused"
proof -
  have "eval_if_template (PStr ''Ship it?'') c = Inr (PStr ''Ship it?'')" "eval_if_template PNone c = Inr PNone"
    by (simp_all add: eval_if_template_def is_template_def has_sub_def starts_with_def)
  then show ?thesis
    by (simp add: gate_execute_def svc_defs lone_gate_def sample_wenv_def Let_def obj_def get_or_def field_def py_str_def)
qed

lemma begin_step_returns: "\<exists>s0. begin_step x off n i ty s = (Inr (), s0)"
  unfolding begin_step_def engine_run by (rule exI, rule log_eq)

theorem stopped_step_decides_run_witness:
  "\<forall>run s. (\<exists>s'. execute_one (sample_wenv False PNone) run 0 0
      (PDict (obj [(''id'', PStr ''a''), (''type'', PStr ''shell''), (''run'', PStr ''false'')])) s = (Inr False, s') \<and>
    rs_status (es_run s') = RFailed) \<and>
   (\<exists>s'. execute_one (sample_wenv False PNone) run 0 0 (PDict lone_gate) s = (Inr False, s') \<and>
    rs_status (es_run s') = RPaused)"
proof (intro allI conjI)
  fix run s
  let ?cfg = "obj [(''id'', PStr ''a''), (''type'', PStr ''shell''), (''run'', PStr ''false'')]"
  let ?im = "\<lparr>si_type_key = ''shell'', si_execute = shell_execute, si_validate = shell_validate\<rparr>"
  let ?gt = "\<lparr>si_type_key = ''gate'', si_execute = gate_execute, si_validate = gate_validate\<rparr>"
  have im: "registry_get (get_or ?cfg ''type'' (PStr ''command'')) = Inr (Some ?im)"
    "registry_get (get_or lone_gate ''type'' (PStr ''command'')) = Inr (Some ?gt)"
    by (simp_all add: registry_get_def get_step_type_def step_registry_eq builtin_steps_def obj_def get_or_def field_def lone_gate_def)
  have h: "hashable (step_id 0 ?cfg)" "hashable (step_id 0 lone_gate)"
    by (simp_all add: step_id_def obj_def get_or_def field_def lone_gate_def)
  obtain s1 where s1: "begin_step (sample_wenv False PNone) 0 0 (step_id 0 ?cfg) (get_or ?cfg ''type'' (PStr ''command'')) s = (Inr (), s1)"
    using begin_step_returns by blast
  obtain s2 where s2: "begin_step (sample_wenv False PNone) 0 0 (step_id 0 lone_gate) (get_or lone_gate ''type'' (PStr ''command'')) s = (Inr (), s2)"
    using begin_step_returns by blast
  obtain w1 where e: "si_execute ?im (sample_wenv False PNone) ?cfg (es_ctx s1) (es_world s1) =
      (Inr (failed_with (shell_output 1 '''' ''failed'') ''Shell command exited with code 1.''), w1)"
    unfolding step_impl.select_convs using failing_shell by blast
  obtain r where g: "si_execute ?gt (sample_wenv False PNone) lone_gate (es_ctx s2) (es_world s2) = (Inr r, es_world s2)"
    "sr_status r = SPaused" unfolding step_impl.select_convs using lone_gate_pauses by blast
  show "\<exists>s'. execute_one (sample_wenv False PNone) run 0 0 (PDict ?cfg) s = (Inr False, s') \<and> rs_status (es_run s') = RFailed"
    using stopped_step_decides_run[OF im(1) h(1) s1 e, of run]
    by (fastforce simp: failed_with_def shell_output_def obj_def get_or_def field_def)
  show "\<exists>s'. execute_one (sample_wenv False PNone) run 0 0 (PDict lone_gate) s = (Inr False, s') \<and> rs_status (es_run s') = RPaused"
    using stopped_step_decides_run[OF im(2) h(2) s2 g(1), of run] g(2) by auto
qed

end
