(* ===== verification/FileTree.thy ===== *)
theory FileTree
  imports WfBase
begin

text \<open>
  The file system as \<open>pathlib\<close> and the system calls behind it show it: regular files, directories and
  symbolic links. A location is a list of names from the root of the file system; a path is a list of
  names that may contain \<open>..\<close> and may lead through links. Permissions, hard links, special files and
  input/output errors are left out; so is the limit on the number of links a path may lead through.
\<close>

section \<open>Trees\<close>

type_synonym loc = "string list"

datatype node = FileNode string | DirNode | LinkNode bool "string list"

text \<open>A link has a target: absolute or relative to the directory it is in, and its names.\<close>

type_synonym tree = "(loc, node) dict"

definition node_at :: "tree \<Rightarrow> loc \<Rightarrow> node option" where
  "node_at t p = (if p = [] then Some DirNode else map_of t p)"

lemma node_at_Nil [simp]: "node_at t [] = Some DirNode"
  by (simp add: node_at_def)

section \<open>Paths as text\<close>

text \<open>\<open>Path(text)\<close>: whether it is absolute, and its parts; single dots and empty names disappear.\<close>

datatype pypath = PyPath (is_absolute: bool) (path_parts: "string list")

definition parse_path :: "string \<Rightarrow> pypath" where
  "parse_path s = PyPath (starts_with ''/'' s) (List.filter (\<lambda>n. n \<noteq> '''' \<and> n \<noteq> ''.'') (split_on (CHR ''/'') s))"

text \<open>\<open>base / p\<close> for an absolute \<open>base\<close>, \<open>as_posix\<close> of a relative path, and \<open>str\<close> of both kinds.\<close>

definition path_div :: "loc \<Rightarrow> pypath \<Rightarrow> loc" where
  "path_div base p = (if is_absolute p then path_parts p else base @ path_parts p)"

definition as_posix :: "string list \<Rightarrow> string" where
  "as_posix ps = (if ps = [] then ''.'' else join_with ''/'' ps)"

definition loc_text :: "loc \<Rightarrow> string" where
  "loc_text p = ''/'' @ join_with ''/'' p"

definition path_text :: "pypath \<Rightarrow> string" where
  "path_text p = (if is_absolute p then loc_text (path_parts p) else as_posix (path_parts p))"

text \<open>\<open>p.relative_to(base)\<close>; \<open>None\<close> is the \<open>ValueError\<close>.\<close>

fun relative_to :: "loc \<Rightarrow> loc \<Rightarrow> string list option" where
  "relative_to p [] = Some p"
| "relative_to (x # p) (y # base) = (if x = y then relative_to p base else None)"
| "relative_to [] (y # base) = None"

lemma relative_to_Some: "relative_to p base = Some r \<longleftrightarrow> p = base @ r"
  by (induction p base rule: relative_to.induct) auto

text \<open>\<open>os.path.normpath\<close> of an absolute path.\<close>

fun normpath_from :: "loc \<Rightarrow> string list \<Rightarrow> loc" where
  "normpath_from acc [] = acc"
| "normpath_from acc (n # p) = (if n = ''..'' then normpath_from (butlast acc) p else normpath_from (acc @ [n]) p)"

definition normpath :: "loc \<Rightarrow> loc" where
  "normpath p = normpath_from [] p"

lemma normpath_from_plain: "''..'' \<notin> set p \<Longrightarrow> normpath_from acc p = acc @ p"
  by (induction p arbitrary: acc) auto

section \<open>Walking a path\<close>

lemma card_link:
  assumes "map_of t q = Some n" "q \<notin> set act"
  shows "card {p \<in> fst ` set t. p \<notin> set (q # act)} < card {p \<in> fst ` set t. p \<notin> set act}"
proof (rule psubset_card_mono)
  have "q \<in> fst ` set t" using map_of_SomeD[OF assms(1)] by force
  then show "{p \<in> fst ` set t. p \<notin> set (q # act)} \<subset> {p \<in> fst ` set t. p \<notin> set act}"
    using assms(2) by auto
qed simp

text \<open>
  \<open>os.path.realpath\<close>, which does not mind names that do not exist. \<open>act\<close> are the links being followed: one
  that is met again is a loop, for which \<open>Path.resolve\<close> raises \<open>RuntimeError\<close> (up to Python 3.12).
\<close>

function realpath_from :: "tree \<Rightarrow> loc list \<Rightarrow> loc \<Rightarrow> string list \<Rightarrow> loc option" where
  "realpath_from t act p [] = Some p"
| "realpath_from t act p (n # rest) =
     (if n = ''..'' then realpath_from t act (butlast p) rest
      else (case map_of t (p @ [n]) of
          Some (LinkNode ab target) \<Rightarrow>
            (if p @ [n] \<in> set act then None
             else (case realpath_from t ((p @ [n]) # act) (if ab then [] else p) target of
                 None \<Rightarrow> None
               | Some q \<Rightarrow> realpath_from t act q rest))
        | _ \<Rightarrow> realpath_from t act (p @ [n]) rest))"
  by pat_completeness auto
termination
  by (relation "measures [\<lambda>(t, act, p, rest). card {q \<in> fst ` set t. q \<notin> set act}, \<lambda>(t, act, p, rest). length rest]")
    (auto intro: card_link simp del: set_simps)

definition resolve :: "tree \<Rightarrow> loc \<Rightarrow> loc option" where
  "resolve t p = realpath_from t [] [] p"

text \<open>
  The walk of the operating system: every name must exist, and what a path leads through must be a
  directory.
\<close>

datatype errno = ENOENT | ENOTDIR | ELOOP | EEXIST | EISDIR | ENOTEMPTY | EINVAL

function locate_from :: "tree \<Rightarrow> loc list \<Rightarrow> loc \<Rightarrow> string list \<Rightarrow> errno + loc" where
  "locate_from t act p [] = Inr p"
| "locate_from t act p (n # rest) =
     (if node_at t p \<noteq> Some DirNode then Inl ENOTDIR
      else if n = ''..'' then locate_from t act (butlast p) rest
      else (case map_of t (p @ [n]) of
          None \<Rightarrow> Inl ENOENT
        | Some (LinkNode ab target) \<Rightarrow>
            (if p @ [n] \<in> set act then Inl ELOOP
             else (case locate_from t ((p @ [n]) # act) (if ab then [] else p) target of
                 Inl e \<Rightarrow> Inl e
               | Inr q \<Rightarrow> locate_from t act q rest))
        | Some _ \<Rightarrow> locate_from t act (p @ [n]) rest))"
  by pat_completeness auto
termination
  by (relation "measures [\<lambda>(t, act, p, rest). card {q \<in> fst ` set t. q \<notin> set act}, \<lambda>(t, act, p, rest). length rest]")
    (auto intro: card_link simp del: set_simps)

definition locate :: "tree \<Rightarrow> loc \<Rightarrow> errno + loc" where
  "locate t p = locate_from t [] [] p"

text \<open>Where the entry itself is, the last name not followed (\<open>lstat\<close>, \<open>unlink\<close>).\<close>

definition entry_loc :: "tree \<Rightarrow> loc \<Rightarrow> errno + loc" where
  "entry_loc t p =
     (if p = [] \<or> last p = ''..'' then locate t p
      else rbind (locate t (butlast p)) (\<lambda>d.
        if node_at t d = Some DirNode then Inr (d @ [last p]) else Inl ENOTDIR))"

definition stat :: "tree \<Rightarrow> loc \<Rightarrow> node option" where
  "stat t p = (case locate t p of Inl _ \<Rightarrow> None | Inr l \<Rightarrow> node_at t l)"

definition lstat :: "tree \<Rightarrow> loc \<Rightarrow> node option" where
  "lstat t p = (case entry_loc t p of Inl _ \<Rightarrow> None | Inr l \<Rightarrow> node_at t l)"

definition path_exists :: "tree \<Rightarrow> loc \<Rightarrow> bool" where
  "path_exists t p \<longleftrightarrow> stat t p \<noteq> None"

definition is_file :: "tree \<Rightarrow> loc \<Rightarrow> bool" where
  "is_file t p \<longleftrightarrow> (case stat t p of Some (FileNode _) \<Rightarrow> True | _ \<Rightarrow> False)"

definition is_dir :: "tree \<Rightarrow> loc \<Rightarrow> bool" where
  "is_dir t p \<longleftrightarrow> stat t p = Some DirNode"

definition is_symlink :: "tree \<Rightarrow> loc \<Rightarrow> bool" where
  "is_symlink t p \<longleftrightarrow> (case lstat t p of Some (LinkNode _ _) \<Rightarrow> True | _ \<Rightarrow> False)"

section \<open>Changing the tree\<close>

definition tree_remove :: "loc \<Rightarrow> tree \<Rightarrow> tree" where
  "tree_remove l t = List.filter (\<lambda>(k, _). k \<noteq> l) t"

definition os_error :: "errno \<Rightarrow> pyexn" where
  "os_error e = PyExc (case e of ENOENT \<Rightarrow> ''FileNotFoundError'' | ENOTDIR \<Rightarrow> ''NotADirectoryError''
     | EEXIST \<Rightarrow> ''FileExistsError'' | EISDIR \<Rightarrow> ''IsADirectoryError'' | _ \<Rightarrow> ''OSError'') ''''"

definition fs_unlink :: "loc \<Rightarrow> tree \<Rightarrow> (errno, tree) res" where
  "fs_unlink p t = rbind (entry_loc t p) (\<lambda>l. case node_at t l of
     None \<Rightarrow> Inl ENOENT | Some DirNode \<Rightarrow> Inl EISDIR | Some _ \<Rightarrow> Inr (tree_remove l t))"

definition empty_dir :: "tree \<Rightarrow> loc \<Rightarrow> bool" where
  "empty_dir t l \<longleftrightarrow> list_all (\<lambda>(k, _). k = [] \<or> butlast k \<noteq> l) t"

definition fs_rmdir :: "loc \<Rightarrow> tree \<Rightarrow> (errno, tree) res" where
  "fs_rmdir p t =
     (if p = [] \<or> last p = ''..'' then Inl EINVAL
      else rbind (entry_loc t p) (\<lambda>l. case node_at t l of
        None \<Rightarrow> Inl ENOENT
      | Some DirNode \<Rightarrow> if empty_dir t l then Inr (tree_remove l t) else Inl ENOTEMPTY
      | Some _ \<Rightarrow> Inl ENOTDIR))"

definition fs_mkdir :: "loc \<Rightarrow> tree \<Rightarrow> (errno, tree) res" where
  "fs_mkdir p t = rbind (entry_loc t p) (\<lambda>l. case node_at t l of
     None \<Rightarrow> Inr (t @ [(l, DirNode)]) | Some _ \<Rightarrow> Inl EEXIST)"

text \<open>\<open>mkdir(parents = True, exist_ok = True)\<close>.\<close>

function fs_mkdirs :: "loc \<Rightarrow> tree \<Rightarrow> (errno, tree) res" where
  "fs_mkdirs p t =
     (case fs_mkdir p t of
        Inr t' \<Rightarrow> Inr t'
      | Inl ENOENT \<Rightarrow>
          (if p = [] then Inl ENOENT
           else rbind (fs_mkdirs (butlast p) t) (\<lambda>t1.
             case fs_mkdir p t1 of Inr t' \<Rightarrow> Inr t' | Inl e \<Rightarrow> if is_dir t1 p then Inr t1 else Inl e))
      | Inl e \<Rightarrow> if is_dir t p then Inr t else Inl e)"
  by pat_completeness auto
termination by (relation "measure (\<lambda>(p, t). length p)") (auto simp: length_greater_0_conv[symmetric] simp del: length_greater_0_conv)

declare fs_mkdirs.simps [simp del]

text \<open>
  Opening for writing: an existing file is emptied, a missing one created. (A path whose last name is a
  link to nothing would create the link's target; the code opens no such path.)
\<close>

definition fs_write :: "loc \<Rightarrow> string \<Rightarrow> tree \<Rightarrow> (errno, tree) res" where
  "fs_write p c t =
     (case locate t p of
        Inr l \<Rightarrow> (case node_at t l of
            Some (FileNode _) \<Rightarrow> Inr (dict_set l (FileNode c) t)
          | _ \<Rightarrow> Inl EISDIR)
      | Inl _ \<Rightarrow> rbind (entry_loc t p) (\<lambda>l. if node_at t l = None then Inr (t @ [(l, FileNode c)]) else Inl ENOENT))"

text \<open>Opening with \<open>O_CREAT | O_EXCL\<close>, as \<open>tempfile.mkstemp\<close> does, and writing.\<close>

definition fs_create :: "loc \<Rightarrow> string \<Rightarrow> tree \<Rightarrow> (errno, tree) res" where
  "fs_create p c t = rbind (entry_loc t p) (\<lambda>l. if node_at t l = None then Inr (t @ [(l, FileNode c)]) else Inl EEXIST)"

definition fs_read :: "loc \<Rightarrow> tree \<Rightarrow> (errno, string) res" where
  "fs_read p t = rbind (locate t p) (\<lambda>l. case node_at t l of
     Some (FileNode c) \<Rightarrow> Inr c | Some _ \<Rightarrow> Inl EISDIR | None \<Rightarrow> Inl ENOENT)"

text \<open>\<open>os.replace\<close> of a file over a path that is a file or nothing.\<close>

definition fs_replace :: "loc \<Rightarrow> loc \<Rightarrow> tree \<Rightarrow> (errno, tree) res" where
  "fs_replace src dst t = rbind (entry_loc t src) (\<lambda>a. rbind (entry_loc t dst) (\<lambda>b.
     case (node_at t a, node_at t b) of
       (Some n, other) \<Rightarrow> if other = Some DirNode then Inl EISDIR
          else Inr (dict_set b n (tree_remove a t))
     | (None, _) \<Rightarrow> Inl ENOENT))"

section \<open>Facts about walking\<close>

text \<open>What a smaller tree locates, a larger one locates in the same place.\<close>

definition subtree :: "tree \<Rightarrow> tree \<Rightarrow> bool" where
  "subtree t t' \<longleftrightarrow> (\<forall>l n. map_of t l = Some n \<longrightarrow> map_of t' l = Some n)"

lemma subtree_refl [simp]: "subtree t t" by (simp add: subtree_def)

lemma subtree_trans: "subtree t u \<Longrightarrow> subtree u v \<Longrightarrow> subtree t v" by (auto simp: subtree_def)

lemma subtree_node: "subtree t t' \<Longrightarrow> node_at t l = Some n \<Longrightarrow> node_at t' l = Some n"
  by (auto simp: subtree_def node_at_def split: if_splits)

lemma map_of_remove: "map_of (tree_remove l t) k = (if k = l then None else map_of t k)"
  unfolding tree_remove_def by (induction t) auto

lemma subtree_remove: "subtree (tree_remove l t) t"
  by (simp add: subtree_def map_of_remove)

lemma locate_subtree:
  "locate_from t act p rest = Inr l \<Longrightarrow> subtree t t' \<Longrightarrow> locate_from t' act p rest = Inr l"
proof (induction t act p rest arbitrary: l rule: locate_from.induct)
  case (2 t act p n rest)
  have d: "node_at t p = Some DirNode" "node_at t' p = Some DirNode"
    using "2.prems" subtree_node by (auto split: if_splits)
  show ?case
  proof (cases "n = ''..''")
    case True
    with 2 d show ?thesis by simp
  next
    case False
    with "2.prems"(1) d obtain m where m: "map_of t (p @ [n]) = Some m" by (auto split: option.splits)
    with "2.prems"(2) have m': "map_of t' (p @ [n]) = Some m" by (simp add: subtree_def)
    show ?thesis
    proof (cases m)
      case (LinkNode ab target)
      with "2.prems"(1) d False m obtain q where q: "p @ [n] \<notin> set act"
        "locate_from t ((p @ [n]) # act) (if ab then [] else p) target = Inr q" "locate_from t act q rest = Inr l"
        by (auto split: if_splits sum.splits)
      with "2.IH"(4)[OF _ False m LinkNode q(1)] "2.IH"(5)[OF _ False m LinkNode q(1) q(2)] d "2.prems"(2)
      have "locate_from t' ((p @ [n]) # act) (if ab then [] else p) target = Inr q" "locate_from t' act q rest = Inr l"
        by simp_all
      then show ?thesis using d False m' LinkNode q(1) by simp
    qed (use 2 d False m m' in simp_all)
  qed
qed simp

lemma entry_subtree: "entry_loc t p = Inr l \<Longrightarrow> subtree t t' \<Longrightarrow> entry_loc t' p = Inr l"
  by (auto simp: entry_loc_def locate_def rbind_Inr_iff split: if_splits dest: locate_subtree subtree_node)

text \<open>A path without \<open>..\<close> that meets no link is where it says.\<close>

lemma locate_plain:
  "locate_from t act p rest = Inr l \<Longrightarrow> ''..'' \<notin> set rest \<Longrightarrow>
   (\<And>q r ab tg. rest = q @ r \<Longrightarrow> q \<noteq> [] \<Longrightarrow> map_of t (p @ q) \<noteq> Some (LinkNode ab tg)) \<Longrightarrow> l = p @ rest"
proof (induction rest arbitrary: p)
  case (Cons n rest)
  have "map_of t (p @ [n]) \<noteq> Some (LinkNode ab tg)" for ab tg
    using Cons.prems(3)[of "[n]" rest] by simp
  with Cons.prems(1,2) have "locate_from t act (p @ [n]) rest = Inr l"
    by (auto split: if_splits option.splits node.splits)
  then show ?case
    using Cons.IH[of "p @ [n]"] Cons.prems(2) Cons.prems(3)[of "n # _"] by simp
qed simp

text \<open>A location that is what it says: no name of it is \<open>..\<close> and none is a link.\<close>

definition direct :: "tree \<Rightarrow> loc \<Rightarrow> bool" where
  "direct t p \<longleftrightarrow> ''..'' \<notin> set p \<and> (\<forall>q r ab tg. p = q @ r \<longrightarrow> map_of t q \<noteq> Some (LinkNode ab tg))"

lemma direct_prefix: "direct t (p @ q) \<Longrightarrow> direct t p"
  by (auto simp: direct_def)

lemma direct_snoc:
  "direct t (p @ [n]) \<longleftrightarrow> direct t p \<and> n \<noteq> ''..'' \<and> (\<forall>ab tg. map_of t (p @ [n]) \<noteq> Some (LinkNode ab tg))"
  (is "?L \<longleftrightarrow> ?R")
proof
  assume ?L
  then show ?R using direct_prefix[of t p "[n]"] by (auto simp: direct_def)
next
  assume ?R
  then have "map_of t q \<noteq> Some (LinkNode ab tg)" if "p @ [n] = q @ r" for q r ab tg
    using that by (cases r rule: rev_cases) (auto simp: direct_def)
  with \<open>?R\<close> show ?L by (auto simp: direct_def)
qed

lemma direct_butlast: "direct t p \<Longrightarrow> direct t (butlast p)"
  by (cases p rule: rev_cases) (auto simp: direct_snoc)

lemma locate_direct: "locate t p = Inr l \<Longrightarrow> direct t p \<Longrightarrow> l = p"
  using locate_plain[of t "[]" "[]" p l] by (auto simp: locate_def direct_def)

lemma entry_direct: "entry_loc t p = Inr l \<Longrightarrow> direct t p \<Longrightarrow> l = p"
proof (cases p rule: rev_cases)
  case (snoc q n)
  moreover assume "entry_loc t p = Inr l" "direct t p"
  ultimately show ?thesis
    using locate_direct[of t q] by (auto simp: entry_loc_def rbind_Inr_iff direct_snoc split: if_splits)
qed (simp add: entry_loc_def locate_def)

text \<open>What \<open>realpath\<close> returns is real, when no name of a link's target is odd.\<close>

lemma realpath_direct:
  "realpath_from t act p rest = Some q \<Longrightarrow> direct t p \<Longrightarrow> map_of t [] = None \<Longrightarrow> direct t q"
proof (induction t act p rest arbitrary: q rule: realpath_from.induct)
  case (2 t act p n rest)
  show ?case
  proof (cases "n = ''..''")
    case True
    with 2 show ?thesis by (simp add: direct_butlast)
  next
    case False
    show ?thesis
    proof (cases "map_of t (p @ [n])")
      case None
      with "2.IH"(2)[OF False] "2.prems" False show ?thesis by (simp add: direct_snoc)
    next
      case (Some m)
      show ?thesis
      proof (cases m)
        case (LinkNode ab tg)
        with "2.prems"(1) False Some obtain r where r: "p @ [n] \<notin> set act"
          "realpath_from t ((p @ [n]) # act) (if ab then [] else p) tg = Some r" "realpath_from t act r rest = Some q"
          by (auto split: if_splits option.splits)
        have "direct t (if ab then [] else p)" using "2.prems"(2,3) by (simp add: direct_def)
        with "2.IH"(5)[OF False Some LinkNode r(1,2)] "2.prems"(3)
        have "direct t r" by simp
        with "2.IH"(6)[OF False Some LinkNode r(1,2,3)] "2.prems"(3) show ?thesis by simp
      next
        case (FileNode c)
        with "2.IH"(3)[OF False Some] "2.prems" False Some show ?thesis by (simp add: direct_snoc)
      next
        case DirNode
        with "2.IH"(4)[OF False Some] "2.prems" False Some show ?thesis by (simp add: direct_snoc)
      qed
    qed
  qed
qed simp

text \<open>Files do not matter to a walk that ends in a directory.\<close>

definition same_ways :: "tree \<Rightarrow> tree \<Rightarrow> bool" where
  "same_ways t t' \<longleftrightarrow> (\<forall>l n. map_of t l = Some n \<longrightarrow> (\<forall>c. n \<noteq> FileNode c) \<longrightarrow> map_of t' l = Some n)"

lemma same_ways_dir: "same_ways t t' \<Longrightarrow> node_at t l = Some DirNode \<Longrightarrow> node_at t' l = Some DirNode"
  by (auto simp: same_ways_def node_at_def split: if_splits)

lemma locate_same_ways:
  "locate_from t act p rest = Inr l \<Longrightarrow> node_at t l = Some DirNode \<Longrightarrow> same_ways t t' \<Longrightarrow>
     locate_from t' act p rest = Inr l"
proof (induction t act p rest arbitrary: l rule: locate_from.induct)
  case (2 t act p n rest)
  have d: "node_at t p = Some DirNode" "node_at t' p = Some DirNode"
    using "2.prems" same_ways_dir by (auto split: if_splits)
  show ?case
  proof (cases "n = ''..''")
    case True
    with 2 d show ?thesis by simp
  next
    case False
    with "2.prems"(1) d obtain m where m: "map_of t (p @ [n]) = Some m" by (auto split: option.splits)
    show ?thesis
    proof (cases m)
      case (LinkNode ab target)
      with "2.prems"(3) m have m': "map_of t' (p @ [n]) = Some m" by (simp add: same_ways_def)
      from "2.prems"(1) d False m LinkNode obtain q where q: "p @ [n] \<notin> set act"
        "locate_from t ((p @ [n]) # act) (if ab then [] else p) target = Inr q" "locate_from t act q rest = Inr l"
        by (auto split: if_splits sum.splits)
      have "node_at t q = Some DirNode" using q(3) "2.prems"(2) by (cases rest) (auto split: if_splits)
      with "2.IH"(4)[OF _ False m LinkNode q(1)] "2.IH"(5)[OF _ False m LinkNode q(1) q(2)] d "2.prems"(2,3) q(2,3)
      have "locate_from t' ((p @ [n]) # act) (if ab then [] else p) target = Inr q" "locate_from t' act q rest = Inr l"
        by simp_all
      then show ?thesis using d False m' LinkNode q(1) by simp
    next
      case DirNode
      with "2.prems"(3) m have m': "map_of t' (p @ [n]) = Some m" by (simp add: same_ways_def)
      with 2 d False m DirNode show ?thesis by simp
    next
      case (FileNode c)
      with "2.prems"(1) d False m have r: "locate_from t act (p @ [n]) rest = Inr l" by simp
      have "node_at t (p @ [n]) \<noteq> Some DirNode" using m FileNode by (simp add: node_at_def)
      with r "2.prems"(2) show ?thesis by (cases rest) auto
    qed
  qed
qed simp

end
