(* ===== verification/Manifest.thy ===== *)
theory Manifest
  imports FileTree
begin

text \<open>
  \<open>specify_cli/integrations/manifest.py\<close>: the files an integration installed, with their hashes, so that
  uninstalling removes only what nobody has changed. The hash function, the JSON printer and parser, the
  clock and the names of temporary files are parameters.
\<close>

section \<open>The manifest\<close>

record manifest =
  mf_key :: string
  mf_project_root :: loc
  mf_version :: pyval
  mf_files :: "(string, string) dict"
  mf_recovered :: "string list"
  mf_installed_at :: pyval

text \<open>The manifest object and the disk it works on.\<close>

record mstate =
  ms_fs :: tree
  ms_man :: manifest

type_synonym 'a mop = "(mstate, pyexn, 'a) svc"

definition resolve_or_raise :: "tree \<Rightarrow> loc \<Rightarrow> loc py" where
  "resolve_or_raise t p = (case resolve t p of None \<Rightarrow> Inl (PyExc ''RuntimeError'' '''') | Some q \<Rightarrow> Inr q)"

definition init_manifest :: "string \<Rightarrow> loc \<Rightarrow> pyval \<Rightarrow> bool \<Rightarrow> tree \<Rightarrow> manifest py" where
  "init_manifest key project_root version resolve_project_root t =
     rbind (if resolve_project_root then resolve_or_raise t project_root else Inr project_root) (\<lambda>r.
     Inr \<lparr>mf_key = key, mf_project_root = r, mf_version = version, mf_files = [], mf_recovered = [],
          mf_installed_at = PStr ''''\<rparr>)"

definition manifest_dir :: "loc \<Rightarrow> loc" where
  "manifest_dir base = base @ [''.specify'', ''integrations'']"

definition manifest_path :: "loc \<Rightarrow> string \<Rightarrow> loc" where
  "manifest_path base key = manifest_dir base @ [key @ ''.manifest.json'']"

section \<open>Paths that stay inside\<close>

definition validate_rel_path :: "tree \<Rightarrow> pypath \<Rightarrow> loc \<Rightarrow> loc py" where
  "validate_rel_path t rel base =
     (if is_absolute rel then Inl (value_error (''Absolute paths are not allowed in manifests: '' @ path_text rel))
      else rbind (resolve_or_raise t (path_div base rel)) (\<lambda>resolved.
           rbind (resolve_or_raise t base) (\<lambda>root_resolved.
           if relative_to resolved root_resolved = None
           then Inl (value_error (''Path '' @ path_text rel @ '' resolves to '' @ loc_text resolved @
                  '' which is outside the project root '' @ loc_text root_resolved))
           else Inr resolved)))"

definition manifest_path_label :: "loc \<Rightarrow> loc \<Rightarrow> string" where
  "manifest_path_label base p = (case relative_to p base of Some r \<Rightarrow> as_posix r | None \<Rightarrow> loc_text p)"

definition fs_do :: "(tree \<Rightarrow> (errno, tree) res) \<Rightarrow> unit mop" where
  "fs_do f s = (case f (ms_fs s) of Inl e \<Rightarrow> (Inl (os_error e), s) | Inr t \<Rightarrow> (Inr (), s\<lparr>ms_fs := t\<rparr>))"

definition inside_or_raise :: "tree \<Rightarrow> loc \<Rightarrow> loc \<Rightarrow> string \<Rightarrow> unit py" where
  "inside_or_raise t root_resolved p msg =
     rbind (resolve_or_raise t p) (\<lambda>r. if relative_to r root_resolved = None then Inl (value_error msg) else Inr ())"

fun safe_walk :: "loc \<Rightarrow> loc \<Rightarrow> loc \<Rightarrow> string list \<Rightarrow> unit mop" where
  "safe_walk base root_resolved cur [] = sret ()"
| "safe_walk base root_resolved cur (part # parts) =
     (let c = cur @ [part]; label = manifest_path_label base c;
          escapes = ''Integration manifest directory escapes project root: '' @ label in
      sbind (sget ms_fs) (\<lambda>t.
      if is_symlink t c
      then sraise (value_error (''Refusing to use symlinked integration manifest directory: '' @ label))
      else if path_exists t c
      then (if \<not> is_dir t c
            then sraise (value_error (''Integration manifest directory path is not a directory: '' @ label))
            else sthen (slift (inside_or_raise t root_resolved c escapes)) (safe_walk base root_resolved c parts))
      else sthen (fs_do (fs_mkdir c))
          (sbind (sget ms_fs) (\<lambda>t'.
           sthen (slift (inside_or_raise t' root_resolved c escapes)) (safe_walk base root_resolved c parts)))))"

definition ensure_safe_manifest_directory :: "loc \<Rightarrow> loc \<Rightarrow> unit mop" where
  "ensure_safe_manifest_directory base directory =
     sbind (sget ms_fs) (\<lambda>t.
     sbind (slift (resolve_or_raise t base)) (\<lambda>root_resolved.
     case relative_to directory base of
       None \<Rightarrow> sraise (value_error (''Integration manifest directory escapes project root: '' @ manifest_path_label base directory))
     | Some rel \<Rightarrow> safe_walk base root_resolved base rel))"

definition ensure_safe_manifest_destination :: "loc \<Rightarrow> loc \<Rightarrow> unit mop" where
  "ensure_safe_manifest_destination base p =
     sbind (sget ms_fs) (\<lambda>t0.
     sbind (slift (resolve_or_raise t0 base)) (\<lambda>root_resolved.
     sthen (ensure_safe_manifest_directory base (butlast p))
    (let label = manifest_path_label base p in
     sbind (sget ms_fs) (\<lambda>t.
     if is_symlink t p then sraise (value_error (''Refusing to overwrite symlinked integration manifest path: '' @ label))
     else if path_exists t p
     then (if \<not> is_file t p then sraise (value_error (''Integration manifest path is not a file: '' @ label))
           else slift (inside_or_raise t root_resolved p (''Integration manifest path escapes project root: '' @ label)))
     else sret ()))))"

section \<open>Recording files\<close>

definition relative_or_raise :: "loc \<Rightarrow> loc \<Rightarrow> string list py" where
  "relative_or_raise p base = (case relative_to p base of Some r \<Rightarrow> Inr r | None \<Rightarrow> Inl (value_error ''''))"

definition discard :: "string \<Rightarrow> string list \<Rightarrow> string list" where
  "discard k ks = List.filter (\<lambda>x. x \<noteq> k) ks"

definition track :: "string \<Rightarrow> string \<Rightarrow> bool \<Rightarrow> mstate \<Rightarrow> mstate" where
  "track k h recovered s =
     s\<lparr>ms_man := (ms_man s)\<lparr>mf_files := dict_set k h (mf_files (ms_man s)),
        mf_recovered := (if recovered then List.insert k else discard k) (mf_recovered (ms_man s))\<rparr>\<rparr>"

definition record_file :: "(string \<Rightarrow> string) \<Rightarrow> string \<Rightarrow> string \<Rightarrow> loc mop" where
  "record_file sha rel_path content =
     (let rel = parse_path rel_path in
      sbind (sget (\<lambda>s. mf_project_root (ms_man s))) (\<lambda>base.
      sbind (sget ms_fs) (\<lambda>t.
      sbind (slift (validate_rel_path t rel base)) (\<lambda>abs_path.
      sthen (fs_do (fs_mkdirs (butlast abs_path)))
     (sthen (fs_do (fs_write abs_path content))
     (sbind (slift (relative_or_raise abs_path base)) (\<lambda>r.
      sthen (smodify (track (as_posix r) (sha content) False))
     (sret abs_path))))))))"

fun symlink_on_way :: "tree \<Rightarrow> loc \<Rightarrow> string list \<Rightarrow> loc option" where
  "symlink_on_way t walk [] = None"
| "symlink_on_way t walk (part # parts) =
     (if is_symlink t (walk @ [part]) then Some (walk @ [part]) else symlink_on_way t (walk @ [part]) parts)"

definition record_existing :: "(string \<Rightarrow> string) \<Rightarrow> string \<Rightarrow> bool \<Rightarrow> unit mop" where
  "record_existing sha rel_path recovered =
     (let rel = parse_path rel_path in
      sbind (sget (\<lambda>s. mf_project_root (ms_man s))) (\<lambda>base.
      sbind (sget ms_fs) (\<lambda>t.
      if is_absolute rel \<or> ''..'' \<in> set (path_parts rel)
      then sthen (slift (validate_rel_path t rel base))
        (sraise (value_error (''Manifest paths must be canonical; '' @ [quote_char] @ ''..'' @ [quote_char] @
           '' segments are not allowed (got '' @ path_text rel @ '')'')))
      else (case symlink_on_way t base (path_parts rel) of
          Some w \<Rightarrow> sraise (value_error (''Refusing to record symlinked manifest path: '' @ path_text rel @
             '' (symlinked at '' @ manifest_path_label base w @ '')''))
        | None \<Rightarrow>
            sbind (slift (validate_rel_path t rel base)) (\<lambda>abs_path.
            if \<not> is_file t abs_path
            then sraise (value_error (''Manifest path is not a regular file: '' @ path_text rel))
            else sbind (slift (relative_or_raise abs_path base)) (\<lambda>r.
              case fs_read abs_path t of
                Inl e \<Rightarrow> sraise (os_error e)
              | Inr c \<Rightarrow> smodify (track (as_posix r) (sha c) recovered)))))))"

section \<open>Queries\<close>

text \<open>The outcome \<open>Inl\<close> is the \<open>RuntimeError\<close> of a loop of links, which is not caught.\<close>

definition is_recovered :: "manifest \<Rightarrow> string \<Rightarrow> tree \<Rightarrow> bool py" where
  "is_recovered m rel_path t =
     (let rel = parse_path rel_path in
      if is_absolute rel \<or> ''..'' \<in> set (path_parts rel) then Inr False
      else (case rbind (validate_rel_path t rel (mf_project_root m)) (\<lambda>p. relative_or_raise p (mf_project_root m)) of
          Inr r \<Rightarrow> Inr (as_posix r \<in> set (mf_recovered m))
        | Inl e \<Rightarrow> (case e of PyExc n _ \<Rightarrow> if n = ''ValueError'' then Inr False else Inl e | _ \<Rightarrow> Inl e)))"

text \<open>Whether one tracked file has changed on the disk.\<close>

definition modified :: "(string \<Rightarrow> string) \<Rightarrow> loc \<Rightarrow> tree \<Rightarrow> string \<times> string \<Rightarrow> bool" where
  "modified sha base t = (\<lambda>(rel, expected_hash).
     let rel_path = parse_path rel; abs_path = path_div base rel_path in
     if is_absolute rel_path \<or> ''..'' \<in> set (path_parts rel_path) then False
     else if \<not> path_exists t abs_path \<and> \<not> is_symlink t abs_path then False
     else if is_symlink t abs_path \<or> \<not> is_file t abs_path then True
     else (case fs_read abs_path t of Inr c \<Rightarrow> sha c \<noteq> expected_hash | Inl _ \<Rightarrow> True))"

definition check_modified :: "(string \<Rightarrow> string) \<Rightarrow> manifest \<Rightarrow> tree \<Rightarrow> string list" where
  "check_modified sha m t = map fst (List.filter (modified sha (mf_project_root m) t) (mf_files m))"

section \<open>Uninstalling\<close>

text \<open>Empty directories above a removed file go, up to the project root or the first that stays.\<close>

function remove_empty_parents :: "loc \<Rightarrow> loc \<Rightarrow> tree \<Rightarrow> tree" where
  "remove_empty_parents base parent t =
     (if parent = base \<or> parent = [] then t
      else (case fs_rmdir parent t of Inl _ \<Rightarrow> t | Inr t' \<Rightarrow> remove_empty_parents base (butlast parent) t'))"
  by pat_completeness auto
termination by (relation "measure (\<lambda>(base, parent, t). length parent)") auto

declare remove_empty_parents.simps [simp del]

text \<open>What happens to one tracked file: ignored, skipped, or removed.\<close>

datatype removal = Ignored | Skipped loc | Removed loc

definition uninstall_one :: "(string \<Rightarrow> string) \<Rightarrow> loc \<Rightarrow> bool \<Rightarrow> string \<times> string \<Rightarrow> tree \<Rightarrow> removal \<times> tree" where
  "uninstall_one sha base force = (\<lambda>(rel, expected_hash) t.
     let p = path_div base (parse_path rel) in
     if relative_to (normpath p) base = None then (Ignored, t)
     else if \<not> path_exists t p \<and> \<not> is_symlink t p then (Ignored, t)
     else if \<not> is_file t p \<and> \<not> is_symlink t p then (Skipped p, t)
     else if is_symlink t p \<and> \<not> force then (Skipped p, t)
     else if \<not> is_symlink t p \<and> \<not> force \<and> (case fs_read p t of Inr c \<Rightarrow> sha c \<noteq> expected_hash | Inl _ \<Rightarrow> True)
     then (Skipped p, t)
     else (case fs_unlink p t of
        Inl _ \<Rightarrow> (Skipped p, t)
      | Inr t' \<Rightarrow> (Removed p, remove_empty_parents base (butlast p) t')))"

fun uninstall_files ::
  "(string \<Rightarrow> string) \<Rightarrow> loc \<Rightarrow> bool \<Rightarrow> (string, string) dict \<Rightarrow> tree \<Rightarrow> (loc list \<times> loc list) \<times> tree" where
  "uninstall_files sha base force [] t = (([], []), t)"
| "uninstall_files sha base force (f # fs) t =
     (case uninstall_one sha base force f t of (o1, t1) \<Rightarrow>
      case uninstall_files sha base force fs t1 of ((rem, skip), t2) \<Rightarrow>
        ((case o1 of Removed p \<Rightarrow> p # rem | _ \<Rightarrow> rem, case o1 of Skipped p \<Rightarrow> p # skip | _ \<Rightarrow> skip), t2))"

definition uninstall ::
  "(string \<Rightarrow> string) \<Rightarrow> loc option \<Rightarrow> bool \<Rightarrow> (loc list \<times> loc list) mop" where
  "uninstall sha project_root force =
     sbind (sget ms_man) (\<lambda>m.
     sbind (sget ms_fs) (\<lambda>t.
     sbind (slift (resolve_or_raise t (case project_root of Some p \<Rightarrow> p | None \<Rightarrow> mf_project_root m))) (\<lambda>base.
     case uninstall_files sha base force (mf_files m) t of (r, t1) \<Rightarrow>
       sthen (smodify (\<lambda>s. s\<lparr>ms_fs := t1\<rparr>))
      (if path_exists t1 (manifest_path base (mf_key m))
       then sthen (fs_do (fs_unlink (manifest_path base (mf_key m))))
           (sthen (smodify (\<lambda>s. s\<lparr>ms_fs := remove_empty_parents base (manifest_dir base) (ms_fs s)\<rparr>)) (sret r))
       else sret r))))"

section \<open>On disk\<close>

text \<open>\<open>sorted\<close> of strings.\<close>

fun insert_string :: "string \<Rightarrow> string list \<Rightarrow> string list" where
  "insert_string x [] = [x]"
| "insert_string x (y # ys) = (if str_cmp x y \<le> 0 then x # y # ys else y # insert_string x ys)"

definition sort_strings :: "string list \<Rightarrow> string list" where
  "sort_strings xs = foldr insert_string xs []"

definition manifest_data :: "manifest \<Rightarrow> pyval" where
  "manifest_data m = PDict (obj (
     [(''integration'', PStr (mf_key m)), (''version'', mf_version m), (''installed_at'', mf_installed_at m),
      (''files'', PDict (map (\<lambda>(k, h). (PStr k, PStr h)) (mf_files m)))] @
     (if mf_recovered m = [] then []
      else [(''recovered_files'', PList (map PStr (sort_strings (mf_recovered m))))])))"

text \<open>\<open>try: body finally: cleanup\<close>.\<close>

definition sfinally :: "'a mop \<Rightarrow> unit mop \<Rightarrow> 'a mop" where
  "sfinally body cleanup s =
     (case body s of (r, s1) \<Rightarrow> (case cleanup s1 of (Inl e, s2) \<Rightarrow> (Inl e, s2) | (Inr _, s2) \<Rightarrow> (r, s2)))"

definition save_manifest :: "(pyval \<Rightarrow> string) \<Rightarrow> string \<Rightarrow> string \<Rightarrow> loc mop" where
  "save_manifest dumps now temp_name =
     sthen (smodify (\<lambda>s. s\<lparr>ms_man := (ms_man s)\<lparr>mf_installed_at := py_or (mf_installed_at (ms_man s)) (PStr now)\<rparr>\<rparr>))
    (sbind (sget ms_man) (\<lambda>m.
     let base = mf_project_root m; p = manifest_path base (mf_key m); content = dumps (manifest_data m) @ [CHR 0x0A];
         temp = manifest_dir base @ [temp_name] in
     sthen (ensure_safe_manifest_destination base p)
    (sthen (fs_do (fs_create temp content))
    (sthen (sfinally
       (sthen (ensure_safe_manifest_destination base p) (fs_do (fs_replace temp p)))
       (sbind (sget ms_fs) (\<lambda>t. if path_exists t temp then fs_do (fs_unlink temp) else sret ())))
    (sret p)))))"

definition all_strings :: "pyval list \<Rightarrow> bool" where
  "all_strings vs = list_all is_str vs"

fun the_str :: "pyval \<Rightarrow> string" where
  "the_str (PStr s) = s"
| "the_str _ = ''''"

definition load_files :: "loc \<Rightarrow> (pyval \<times> pyval) list \<Rightarrow> (string, string) dict py" where
  "load_files p d =
     (case get_or d ''files'' (PDict []) of
        PDict fs \<Rightarrow> if all_strings (map fst fs) \<and> all_strings (map snd fs)
                   then Inr (map (\<lambda>(k, v). (the_str k, the_str v)) fs)
                   else Inl (value_error (''Integration manifest '' @ repr_str ''files'' @ '' at '' @ loc_text p @
                     '' must be a mapping of string paths to string hashes''))
      | _ \<Rightarrow> Inl (value_error (''Integration manifest '' @ repr_str ''files'' @ '' at '' @ loc_text p @
                     '' must be a mapping of string paths to string hashes'')))"

definition load_recovered :: "loc \<Rightarrow> (pyval \<times> pyval) list \<Rightarrow> string list py" where
  "load_recovered p d =
     (let bad = Inl (value_error (''Integration manifest '' @ repr_str ''recovered_files'' @ '' at '' @ loc_text p @
            '' must be a list of string paths'')) in
      case get_or d ''recovered_files'' (PList []) of
        PList rs \<Rightarrow> if all_strings rs then Inr (remdups (map the_str rs)) else bad
      | _ \<Rightarrow> bad)"

text \<open>\<open>loads\<close> is \<open>None\<close> where \<open>json.loads\<close> raises \<open>JSONDecodeError\<close>.\<close>

definition load_manifest :: "(string \<Rightarrow> pyval option) \<Rightarrow> string \<Rightarrow> loc \<Rightarrow> bool \<Rightarrow> tree \<Rightarrow> manifest py" where
  "load_manifest loads key project_root resolve_project_root t =
     rbind (init_manifest key project_root (PStr '''') resolve_project_root t) (\<lambda>inst.
     let p = manifest_path (mf_project_root inst) key in
     case fs_read p t of
       Inl e \<Rightarrow> Inl (os_error e)
     | Inr txt \<Rightarrow>
       (case loads txt of
          None \<Rightarrow> Inl (value_error (''Integration manifest at '' @ loc_text p @ '' contains invalid JSON''))
        | Some (PDict d) \<Rightarrow>
            rbind (load_files p d) (\<lambda>files.
            rbind (load_recovered p d) (\<lambda>recovered.
            let stored_key = get_or d ''integration'' (PStr '''') in
            if truthy stored_key \<and> stored_key \<noteq> PStr key
            then Inl (value_error (''Manifest at '' @ loc_text p @ '' belongs to integration '' @ py_repr stored_key @
                   '', not '' @ repr_str key))
            else Inr (inst\<lparr>mf_version := get_or d ''version'' (PStr ''''),
                   mf_installed_at := get_or d ''installed_at'' (PStr ''''), mf_files := files,
                   mf_recovered := List.filter (\<lambda>r. r \<in> fst ` set files) recovered\<rparr>)))
        | Some v \<Rightarrow> Inl (value_error (''Integration manifest at '' @ loc_text p @ '' must be a JSON object, got '' @
                      type_name v))))"

end
