(* ===== verification/ManifestProps.thy ===== *)
theory ManifestProps
  imports Manifest
begin

text \<open>
  What manifests guarantee: recording writes one file inside the project, uninstalling removes only
  unchanged tracked files, and saving and loading agree.
\<close>

section \<open>Recording\<close>

lemma map_of_dirs:
  "map_of (t @ map (\<lambda>l. (l, DirNode)) ps) l =
     (case map_of t l of Some n \<Rightarrow> Some n | None \<Rightarrow> if l \<in> set ps then Some DirNode else None)"
proof -
  have "map_of (map (\<lambda>l. (l, DirNode)) ps) l = (if l \<in> set ps then Some DirNode else None)"
    by (induction ps) auto
  then show ?thesis by (simp add: map_add_def split: option.split)
qed

lemma node_at_dirs:
  "node_at (t @ map (\<lambda>l. (l, DirNode)) ps) l =
     (case node_at t l of Some n \<Rightarrow> Some n | None \<Rightarrow> if l \<in> set ps then Some DirNode else None)"
  unfolding node_at_def map_of_dirs by (simp split: option.split)

lemma direct_dirs: "direct t p \<Longrightarrow> direct (t @ map (\<lambda>l. (l, DirNode)) ps) p"
  unfolding direct_def map_of_dirs by (auto split: option.splits if_splits)

lemma mkdir_direct: "fs_mkdir p t = Inr t' \<Longrightarrow> direct t p \<Longrightarrow> t' = t @ [(p, DirNode)] \<and> node_at t p = None"
  by (auto simp: fs_mkdir_def rbind_Inr_iff split: option.splits dest: entry_direct)

lemma mkdirs_direct:
  "fs_mkdirs p t = Inr t' \<Longrightarrow> direct t p \<Longrightarrow>
     \<exists>ps. t' = t @ map (\<lambda>l. (l, DirNode)) ps \<and> (\<forall>l \<in> set ps. node_at t l = None \<and> (\<exists>r. p = l @ r))"
proof (induction p t arbitrary: t' rule: fs_mkdirs.induct)
  case (1 p t)
  show ?case
  proof (cases "fs_mkdir p t")
    case (Inr t1)
    with 1 mkdir_direct[OF Inr "1.prems"(2)] show ?thesis
      by (intro exI[of _ "[p]"]) (simp add: fs_mkdirs.simps)
  next
    case (Inl e)
    show ?thesis
    proof (cases "e = ENOENT")
      case False
      with Inl "1.prems"(1) have "t' = t" by (cases e) (auto simp: fs_mkdirs.simps split: if_splits)
      then show ?thesis by (intro exI[of _ "[]"]) simp
    next
      case True
      with Inl "1.prems"(1) obtain t1 where p: "p \<noteq> []" "fs_mkdirs (butlast p) t = Inr t1"
        and t': "(case fs_mkdir p t1 of Inr t' \<Rightarrow> Inr t' | Inl e \<Rightarrow> if is_dir t1 p then Inr t1 else Inl e) = Inr t'"
        by (auto simp: fs_mkdirs.simps[of p t] rbind_Inr_iff split: if_splits)
      from "1.IH"[OF Inl True p(1,2)] direct_butlast[OF "1.prems"(2)] obtain ps where
        ps: "t1 = t @ map (\<lambda>l. (l, DirNode)) ps" "\<forall>l \<in> set ps. node_at t l = None \<and> (\<exists>r. butlast p = l @ r)" by blast
      then have pre: "\<forall>l \<in> set ps. node_at t l = None \<and> (\<exists>r. p = l @ r)"
        using p(1) by (metis append.assoc append_butlast_last_id)
      show ?thesis
      proof (cases "fs_mkdir p t1")
        case (Inr t2)
        with t' have "t2 = t'" by simp
        with mkdir_direct[OF Inr] direct_dirs[OF "1.prems"(2), of ps] ps(1) have
          n: "t' = t1 @ [(p, DirNode)]" "node_at t1 p = None" by simp_all
        from n(2) have "node_at t p = None" unfolding ps(1) node_at_dirs by (auto split: option.splits if_splits)
        with n(1) ps(1) pre show ?thesis by (intro exI[of _ "ps @ [p]"]) simp
      qed (use t' ps(1) pre in \<open>auto split: if_splits\<close>)
    qed
  qed
qed

lemma map_of_snoc: "map_of t p = None \<Longrightarrow> map_of (t @ [(p, n)]) = (map_of t)(p \<mapsto> n)"
  by (rule ext) (simp add: map_add_def split: option.split)

lemma write_direct:
  assumes "fs_write p c t = Inr t'" "direct t p"
  shows "map_of t' = (map_of t)(p \<mapsto> FileNode c) \<and> p \<noteq> []"
proof (cases "locate t p")
  case (Inr l)
  then have "l = p" using locate_direct assms(2) by blast
  with assms(1) Inr show ?thesis
    by (auto simp: fs_write_def split: option.splits node.splits)
next
  case (Inl e)
  with assms(1) obtain l where l: "entry_loc t p = Inr l" "node_at t l = None" "t' = t @ [(l, FileNode c)]"
    by (auto simp: fs_write_def rbind_Inr_iff split: if_splits)
  then have "l = p" using entry_direct assms(2) by blast
  with l show ?thesis using map_of_snoc[of t p] by (auto simp: node_at_def split: if_splits)
qed

lemma fs_do_Inr_iff: "fs_do f s = (Inr u, s') \<longleftrightarrow> (\<exists>t. f (ms_fs s) = Inr t \<and> s' = s\<lparr>ms_fs := t\<rparr>)"
  by (auto simp: fs_do_def split: sum.splits)

lemmas mop_Inr_iff = sbind_Inr_iff sthen_Inr_iff fs_do_Inr_iff

lemma validate_InrD:
  assumes "validate_rel_path t rel base = Inr p"
  shows "\<not> is_absolute rel" "resolve t (base @ path_parts rel) = Some p"
    "\<exists>b r. resolve t base = Some b \<and> p = b @ r"
  using assms
  by (auto simp: validate_rel_path_def resolve_or_raise_def rbind_Inr_iff relative_to_Some path_div_def
      split: if_splits option.splits)

text \<open>What recording does, and that it does nothing else.\<close>

lemma record_file_InrD:
  assumes "record_file sha rel_path content s = (Inr p, s')"
  obtains t1 t2 r where "validate_rel_path (ms_fs s) (parse_path rel_path) (mf_project_root (ms_man s)) = Inr p"
    "fs_mkdirs (butlast p) (ms_fs s) = Inr t1" "fs_write p content t1 = Inr t2"
    "p = mf_project_root (ms_man s) @ r" "s' = track (as_posix r) (sha content) False (s\<lparr>ms_fs := t2\<rparr>)"
  using assms that
  by (fastforce simp: record_file_def Let_def mop_Inr_iff relative_or_raise_def relative_to_Some split: option.splits)

text \<open>Recording a file writes exactly that file: the path it returns lies inside the resolved project
  root, whatever links or dots the given path contains; afterwards the file there has the given content,
  every other file, directory and link is as it was, and the only new entries are directories above the
  file. The manifest tracks the file under its path from the root, with the hash of the content, as
  produced and not recovered.\<close>

theorem record_file_writes_one_file:
  assumes "record_file sha rel_path content s = (Inr p, s')" "map_of (ms_fs s) [] = None"
  shows "\<exists>b r. resolve (ms_fs s) (mf_project_root (ms_man s)) = Some b \<and> (\<exists>q. p = b @ q) \<and>
     p = mf_project_root (ms_man s) @ r \<and>
     node_at (ms_fs s') p = Some (FileNode content) \<and>
     (\<forall>l. l = p \<or> node_at (ms_fs s') l = node_at (ms_fs s) l \<or>
        (node_at (ms_fs s) l = None \<and> node_at (ms_fs s') l = Some DirNode \<and> (\<exists>q. p = l @ q))) \<and>
     map_of (mf_files (ms_man s')) = (map_of (mf_files (ms_man s)))(as_posix r \<mapsto> sha content) \<and>
     as_posix r \<notin> set (mf_recovered (ms_man s'))"
  using assms(1)
proof (rule record_file_InrD)
  fix t1 t2 r
  assume v: "validate_rel_path (ms_fs s) (parse_path rel_path) (mf_project_root (ms_man s)) = Inr p"
    and m: "fs_mkdirs (butlast p) (ms_fs s) = Inr t1" and w: "fs_write p content t1 = Inr t2"
    and r: "p = mf_project_root (ms_man s) @ r"
    and s': "s' = track (as_posix r) (sha content) False (s\<lparr>ms_fs := t2\<rparr>)"
  note V = validate_InrD[OF v]
  have d: "direct (ms_fs s) p"
    using realpath_direct[OF V(2)[unfolded resolve_def] _ assms(2)] assms(2) by (simp add: direct_def)
  from mkdirs_direct[OF m direct_butlast[OF d]] obtain ps where
    ps: "t1 = ms_fs s @ map (\<lambda>l. (l, DirNode)) ps" "\<forall>l \<in> set ps. node_at (ms_fs s) l = None \<and> (\<exists>q. butlast p = l @ q)"
    by blast
  from direct_dirs[OF d, of ps] ps(1) have "direct t1 p" by simp
  note W = write_direct[OF w this]
  have pre: "\<exists>q. p = l @ q" if "l \<in> set ps" for l
    using ps(2) that W by (metis append.assoc append_butlast_last_id)
  have n: "node_at t2 l = (if l = p then Some (FileNode content) else node_at t1 l)" for l
    using W by (auto simp: node_at_def)
  have "l = p \<or> node_at t2 l = node_at (ms_fs s) l \<or>
        (node_at (ms_fs s) l = None \<and> node_at t2 l = Some DirNode \<and> (\<exists>q. p = l @ q))" for l
    using pre[of l] by (simp add: n ps(1) node_at_dirs split: option.split)
  with V(3) r n s' show ?thesis by (auto simp: track_def discard_def)
qed

text \<open>A project with a directory, a link to it, and a file outside of it.\<close>

definition sample_tree :: tree where
  "sample_tree =
     [([''p''], DirNode), ([''p'', ''d''], DirNode), ([''p'', ''l''], LinkNode False [''d'']),
      ([''p'', ''out''], LinkNode True [''home'']), ([''home''], DirNode), ([''home'', ''notes''], FileNode ''mine'')]"

definition sample_manifest :: "(string, string) dict \<Rightarrow> manifest" where
  "sample_manifest fs =
     \<lparr>mf_key = ''k'', mf_project_root = [''p''], mf_version = PStr ''1'', mf_files = fs, mf_recovered = [],
      mf_installed_at = PStr ''''\<rparr>"

definition sample_mstate :: "(string, string) dict \<Rightarrow> mstate" where
  "sample_mstate fs = \<lparr>ms_fs = sample_tree, ms_man = sample_manifest fs\<rparr>"

definition sample_record :: "(pyexn + loc) \<times> mstate" where
  "sample_record = record_file rev ''l/new/f'' ''hi'' (sample_mstate [])"

lemma sample_record_runs: "fst sample_record = Inr [''p'', ''d'', ''new'', ''f'']"
  by code_simp

theorem record_file_writes_one_file_witness:
  "node_at (ms_fs (snd sample_record)) [''p'', ''d'', ''new'', ''f''] = Some (FileNode ''hi'') \<and>
   mf_files (ms_man (snd sample_record)) = [(''d/new/f'', ''ih'')]"
proof -
  obtain s' where r: "sample_record = (Inr [''p'', ''d'', ''new'', ''f''], s')"
    using sample_record_runs by (metis prod.collapse)
  have "map_of (ms_fs (sample_mstate [])) [] = None" by (simp add: sample_mstate_def sample_tree_def)
  from record_file_writes_one_file[OF r[unfolded sample_record_def] this]
  have "node_at (ms_fs s') [''p'', ''d'', ''new'', ''f''] = Some (FileNode ''hi'')" by blast
  then have "node_at (ms_fs (snd sample_record)) [''p'', ''d'', ''new'', ''f''] = Some (FileNode ''hi'')"
    using r by (metis snd_conv)
  moreover have "mf_files (ms_man (snd sample_record)) = [(''d/new/f'', ''ih'')]" by code_simp
  ultimately show ?thesis by blast
qed

section \<open>Uninstalling\<close>

lemma rmdir_InrD:
  "fs_rmdir p t = Inr t' \<Longrightarrow> \<exists>l. t' = tree_remove l t \<and> node_at t l = Some DirNode"
  by (auto simp: fs_rmdir_def rbind_Inr_iff split: if_splits option.splits node.splits)

text \<open>A smaller tree: directories may be gone, files and links are not.\<close>

definition loses_dirs :: "tree \<Rightarrow> tree \<Rightarrow> bool" where
  "loses_dirs t t' \<longleftrightarrow> subtree t' t \<and> (\<forall>l n. node_at t l = Some n \<longrightarrow> n \<noteq> DirNode \<longrightarrow> node_at t' l = Some n)"

lemma loses_dirs_refl [simp]: "loses_dirs t t"
  by (simp add: loses_dirs_def)

lemma loses_dirs_trans: "loses_dirs t u \<Longrightarrow> loses_dirs u v \<Longrightarrow> loses_dirs t v"
  by (auto simp: loses_dirs_def intro: subtree_trans)

lemma remove_dir: "node_at t l = Some DirNode \<Longrightarrow> loses_dirs t (tree_remove l t)"
  by (auto simp: loses_dirs_def subtree_remove node_at_def map_of_remove split: if_splits)

lemma remove_empty_parents_loses: "loses_dirs t (remove_empty_parents base p t)"
proof (induction base p t rule: remove_empty_parents.induct)
  case (1 base p t)
  show ?case
  proof (cases "p = base \<or> p = []")
    case False
    show ?thesis
    proof (cases "fs_rmdir p t")
      case (Inr t')
      with 1[OF False Inr] False rmdir_InrD[OF Inr] show ?thesis
        by (subst remove_empty_parents.simps) (auto intro: loses_dirs_trans remove_dir)
    qed (use False in \<open>simp add: remove_empty_parents.simps\<close>)
  qed (simp add: remove_empty_parents.simps)
qed

lemma locate_append:
  "locate_from t act p (xs @ ys) = rbind (locate_from t act p xs) (\<lambda>q. locate_from t act q ys)"
proof (induction t act p xs rule: locate_from.induct)
  case (2 t act p n rest)
  show ?case
    using 2 by (auto split: option.splits node.splits sum.splits)
qed simp

text \<open>Unless the entry is a link, following it or not makes no difference.\<close>

lemma locate_entry:
  assumes "entry_loc t p = Inr l" "node_at t l = Some n" "\<And>ab tg. n \<noteq> LinkNode ab tg"
  shows "locate t p = Inr l"
proof (cases "p = [] \<or> last p = ''..''")
  case False
  then obtain q m where p: "p = q @ [m]" "m \<noteq> ''..''" by (cases p rule: rev_cases) auto
  with assms(1) False obtain d where d: "locate t q = Inr d" "node_at t d = Some DirNode" "l = d @ [m]"
    by (auto simp: entry_loc_def rbind_Inr_iff split: if_splits)
  with assms(2) have "map_of t (d @ [m]) = Some n" by (simp add: node_at_def)
  with d p assms(3) show ?thesis
    by (cases n) (auto simp: locate_def locate_append)
qed (use assms(1) in \<open>auto simp: entry_loc_def\<close>)

text \<open>
  What uninstalling one entry may take besides directories: without force, the file its path leads to,
  when its content still has the recorded hash.
\<close>

definition may_remove :: "(string \<Rightarrow> string) \<Rightarrow> loc \<Rightarrow> tree \<Rightarrow> string \<times> string \<Rightarrow> loc \<Rightarrow> bool" where
  "may_remove sha base t f l \<longleftrightarrow>
     entry_loc t (path_div base (parse_path (fst f))) = Inr l \<and>
     (\<exists>c. node_at t l = Some (FileNode c) \<and> sha c = snd f) \<and>
     relative_to (normpath (path_div base (parse_path (fst f)))) base \<noteq> None"

lemma may_remove_subtree: "may_remove sha base t f l \<Longrightarrow> subtree t t' \<Longrightarrow> may_remove sha base t' f l"
  by (auto simp: may_remove_def dest: entry_subtree subtree_node)

definition keeps_except :: "(loc \<Rightarrow> bool) \<Rightarrow> tree \<Rightarrow> tree \<Rightarrow> bool" where
  "keeps_except P t t' \<longleftrightarrow> subtree t' t \<and> (\<forall>l n. node_at t l = Some n \<longrightarrow> n \<noteq> DirNode \<longrightarrow> node_at t' l = Some n \<or> P l)"

lemma keeps_refl [simp]: "keeps_except P t t"
  by (simp add: keeps_except_def)

lemma keeps_then: "keeps_except P t u \<Longrightarrow> keeps_except Q u v \<Longrightarrow> (\<And>l. P l \<Longrightarrow> R l) \<Longrightarrow> (\<And>l. Q l \<Longrightarrow> R l) \<Longrightarrow> keeps_except R t v"
  unfolding keeps_except_def by (blast intro: subtree_trans)

lemma keeps_loses: "loses_dirs t t' \<Longrightarrow> keeps_except P t t'"
  by (auto simp: loses_dirs_def keeps_except_def)

lemma unlink_InrD:
  assumes "fs_unlink p t = Inr t'"
  obtains l n where "entry_loc t p = Inr l" "node_at t l = Some n" "n \<noteq> DirNode" "t' = tree_remove l t"
proof -
  from assms obtain l where l: "entry_loc t p = Inr l"
    "(case node_at t l of None \<Rightarrow> Inl ENOENT | Some DirNode \<Rightarrow> Inl EISDIR | Some _ \<Rightarrow> Inr (tree_remove l t)) = Inr t'"
    by (auto simp: fs_unlink_def rbind_Inr_iff)
  then obtain n where "node_at t l = Some n" by (cases "node_at t l") auto
  with l that show thesis by (cases n) auto
qed

lemma unlink_keeps:
  assumes "fs_unlink p t = Inr t'" shows "keeps_except (\<lambda>l. entry_loc t p = Inr l) t t'"
  using assms by (rule unlink_InrD) (auto simp: keeps_except_def subtree_remove node_at_def map_of_remove)

lemma uninstall_one_keeps:
  assumes "uninstall_one sha base False f t = (r, t')"
  shows "keeps_except (may_remove sha base t f) t t'"
proof -
  obtain rel h where f: "f = (rel, h)" by (cases f)
  let ?p = "path_div base (parse_path rel)"
  show ?thesis
  proof (cases "t' = t")
    case False
    with assms f obtain t1 c where u: "fs_unlink ?p t = Inr t1" "t' = remove_empty_parents base (butlast ?p) t1"
      "relative_to (normpath ?p) base \<noteq> None" "\<not> is_symlink t ?p" "fs_read ?p t = Inr c" "sha c = h"
      by (auto simp: uninstall_one_def Let_def split: if_splits sum.splits)
    from u(1) obtain l n where l: "entry_loc t ?p = Inr l" "node_at t l = Some n" "n \<noteq> DirNode"
      by (rule unlink_InrD)
    with u(4) have n: "\<And>ab tg. n \<noteq> LinkNode ab tg" by (auto simp: is_symlink_def lstat_def)
    have "n = FileNode c"
      using locate_entry[OF l(1,2) n] l(2,3) u(5) by (auto simp: fs_read_def split: node.splits)
    with l u(3,6) f have m: "entry_loc t ?p = Inr k \<Longrightarrow> may_remove sha base t f k" for k
      by (auto simp: may_remove_def)
    show ?thesis
      unfolding u(2) by (rule keeps_then[OF unlink_keeps[OF u(1)] keeps_loses[OF remove_empty_parents_loses, of "\<lambda>_. False"]])
        (use m in simp_all)
  qed simp
qed

lemma uninstall_files_keeps:
  "uninstall_files sha base False fs t = (r, t') \<Longrightarrow>
     keeps_except (\<lambda>l. \<exists>f \<in> set fs. may_remove sha base t f l) t t'"
proof (induction fs arbitrary: t r t')
  case (Cons f fs)
  obtain o1 t1 where 1: "uninstall_one sha base False f t = (o1, t1)" by (cases "uninstall_one sha base False f t")
  obtain r2 t2 where 2: "uninstall_files sha base False fs t1 = (r2, t2)" by (cases "uninstall_files sha base False fs t1")
  from Cons.prems 1 2 have "t2 = t'" by (simp split: prod.splits)
  note k = uninstall_one_keeps[OF 1] Cons.IH[OF 2]
  have "subtree t1 t" using k(1) by (simp add: keeps_except_def)
  show ?case unfolding \<open>t2 = t'\<close>[symmetric]
    by (rule keeps_then[OF k]) (simp, meson list.set_intros(2) may_remove_subtree \<open>subtree t1 t\<close>)
qed simp

text \<open>What is on the disk at a path, a link that leads nowhere included.\<close>

definition still_there :: "tree \<Rightarrow> loc \<Rightarrow> bool" where
  "still_there t p \<longleftrightarrow> path_exists t p \<or> is_symlink t p"

lemma still_there_iff:
  "still_there t p \<longleftrightarrow> (\<exists>l n. locate t p = Inr l \<and> node_at t l = Some n) \<or>
     (\<exists>l ab tg. entry_loc t p = Inr l \<and> node_at t l = Some (LinkNode ab tg))"
  by (auto simp: still_there_def path_exists_def stat_def is_symlink_def lstat_def split: sum.splits option.splits node.splits)

lemma still_there_subtree: "still_there t' p \<Longrightarrow> subtree t' t \<Longrightarrow> still_there t p"
  unfolding still_there_iff locate_def using locate_subtree entry_subtree subtree_node by blast

lemma unlinked_file_is_gone:
  assumes "fs_unlink p t = Inr t1" "\<not> is_symlink t p" "subtree t' t1"
  shows "\<not> still_there t' p"
proof -
  from assms(1) obtain l n where l: "entry_loc t p = Inr l" "node_at t l = Some n" "t1 = tree_remove l t" "n \<noteq> DirNode"
    by (rule unlink_InrD)
  have n: "\<And>ab tg. n \<noteq> LinkNode ab tg" using l(1,2) assms(2) by (auto simp: is_symlink_def lstat_def)
  have sub: "subtree t1 t" unfolding l(3) by (rule subtree_remove)
  have l': "locate t p = Inr l" by (rule locate_entry[OF l(1,2) n])
  show ?thesis
  proof
    assume t': "still_there t' p"
    have up: "subtree t' t" using assms(3) sub subtree_trans by blast
    have "locate t' p = Inr k \<Longrightarrow> k = l" for k using locate_subtree[OF _ up, of "[]" "[]" p k] l' by (simp add: locate_def)
    moreover have "entry_loc t' p = Inr k \<Longrightarrow> k = l" for k using entry_subtree[OF _ up, of p k] l(1) by simp
    ultimately obtain m where "node_at t' l = Some m" using t' unfolding still_there_iff by blast
    then have "node_at t1 l = Some m" using subtree_node[OF assms(3)] by blast
    then show False using l(2-4) by (simp add: node_at_def map_of_remove split: if_splits)
  qed
qed

lemma uninstall_one_reports:
  assumes "uninstall_one sha base False f t = (r, t1)" "subtree t' t1"
    and "relative_to (normpath (path_div base (parse_path (fst f)))) base \<noteq> None" "still_there t' (path_div base (parse_path (fst f)))"
  shows "r = Skipped (path_div base (parse_path (fst f)))"
proof -
  let ?p = "path_div base (parse_path (fst f))"
  have "subtree t1 t" using uninstall_one_keeps[OF assms(1)] by (simp add: keeps_except_def)
  then have "still_there t ?p" using still_there_subtree[OF assms(4)] assms(2) subtree_trans by blast
  moreover have "\<not> still_there t' ?p" if "fs_unlink ?p t = Inr t2" "\<not> is_symlink t ?p" "t1 = remove_empty_parents base (butlast ?p) t2" for t2
  proof (rule unlinked_file_is_gone[OF that(1,2)])
    show "subtree t' t2" using remove_empty_parents_loses[of t2 base "butlast ?p"] assms(2) subtree_trans
      unfolding that(3) loses_dirs_def by blast
  qed
  ultimately show ?thesis
    using assms(1,3,4) by (cases f) (auto simp: uninstall_one_def Let_def still_there_def split: if_splits sum.splits)
qed

lemma uninstall_files_report:
  "uninstall_files sha base False fs t = ((rem, skip), t1) \<Longrightarrow> subtree t' t1 \<Longrightarrow> f \<in> set fs \<Longrightarrow>
     relative_to (normpath (path_div base (parse_path (fst f)))) base \<noteq> None \<Longrightarrow> still_there t' (path_div base (parse_path (fst f))) \<Longrightarrow>
     path_div base (parse_path (fst f)) \<in> set skip"
proof (induction fs arbitrary: t rem skip)
  case (Cons g fs)
  obtain o1 t2 where 1: "uninstall_one sha base False g t = (o1, t2)" by (cases "uninstall_one sha base False g t")
  obtain rem' skip' t3 where 2: "uninstall_files sha base False fs t2 = ((rem', skip'), t3)" by (metis prod.collapse)
  from Cons.prems(1) 1 2 have r: "t3 = t1" "skip = (case o1 of Skipped p \<Rightarrow> p # skip' | _ \<Rightarrow> skip')" by (auto split: prod.splits)
  show ?case
  proof (cases "f = g")
    case True
    have "subtree t1 t2" using uninstall_files_keeps[OF 2] by (simp add: r keeps_except_def)
    with uninstall_one_reports[OF 1] Cons.prems(2,4,5) subtree_trans True have "o1 = Skipped (path_div base (parse_path (fst f)))" by blast
    then show ?thesis by (simp add: r)
  next
    case False
    with Cons.IH[OF 2[unfolded r(1)]] Cons.prems show ?thesis by (auto simp: r split: removal.split)
  qed
qed simp

text \<open>C29. Uninstalling without force, from the project of the manifest or from a given one, never destroys a user's work:
  afterwards every file and every symbolic link that was on the disk is still there, unchanged, unless it is the manifest
  itself or a tracked file whose content still has the recorded hash; and nothing has been added. When it returns, every
  tracked path inside the project that is still on the disk is in the list of those that were skipped.\<close>

theorem uninstall_keeps_changed_files:
  assumes "uninstall sha given False s = (r, s')"
    "resolve (ms_fs s) (case given of Some p \<Rightarrow> p | None \<Rightarrow> mf_project_root (ms_man s)) = Some base"
    "node_at (ms_fs s) l = Some n" "n \<noteq> DirNode"
  shows "subtree (ms_fs s') (ms_fs s) \<and>
     (node_at (ms_fs s') l = Some n \<or>
      entry_loc (ms_fs s) (manifest_path base (mf_key (ms_man s))) = Inr l \<or>
      (\<exists>rel h c. (rel, h) \<in> set (mf_files (ms_man s)) \<and> n = FileNode c \<and> sha c = h \<and>
         entry_loc (ms_fs s) (path_div base (parse_path rel)) = Inr l)) \<and>
     (\<forall>removed skipped rel h. r = Inr (removed, skipped) \<and> (rel, h) \<in> set (mf_files (ms_man s)) \<and>
        relative_to (normpath (path_div base (parse_path rel))) base \<noteq> None \<and> still_there (ms_fs s') (path_div base (parse_path rel)) \<longrightarrow>
        path_div base (parse_path rel) \<in> set skipped)"
proof -
  let ?t = "ms_fs s" and ?m = "ms_man s" and ?mp = "manifest_path base (mf_key (ms_man s))"
  obtain rem skip t1 where f: "uninstall_files sha base False (mf_files ?m) ?t = ((rem, skip), t1)" by (metis prod.collapse)
  note k = uninstall_files_keeps[OF f]
  have sub: "subtree t1 ?t" using k by (simp add: keeps_except_def)
  have k2: "keeps_except (\<lambda>l. entry_loc t1 ?mp = Inr l) t1 (ms_fs s')"
  proof (cases "fs_unlink ?mp t1")
    case (Inl e)
    with assms(1,2) f have "ms_fs s' = t1"
      by (auto simp: uninstall_def svc_defs resolve_or_raise_def fs_do_def split: if_splits)
    then show ?thesis by simp
  next
    case (Inr t2)
    with assms(1,2) f have "ms_fs s' = t1 \<or> ms_fs s' = remove_empty_parents base (manifest_dir base) t2"
      by (auto simp: uninstall_def svc_defs resolve_or_raise_def fs_do_def split: if_splits)
    with keeps_then[OF unlink_keeps[OF Inr] keeps_loses[OF remove_empty_parents_loses, of "\<lambda>_. False"]]
    show ?thesis by auto
  qed
  from keeps_then[OF k k2, of "\<lambda>l. (\<exists>f \<in> set (mf_files ?m). may_remove sha base ?t f l) \<or> entry_loc ?t ?mp = Inr l"]
    entry_subtree[OF _ sub]
  have "keeps_except (\<lambda>l. (\<exists>f \<in> set (mf_files ?m). may_remove sha base ?t f l) \<or> entry_loc ?t ?mp = Inr l) ?t (ms_fs s')"
    by blast
  moreover have "skipped = skip" if "r = Inr (removed, skipped)" for removed skipped
    using assms(1,2) f that by (auto simp: uninstall_def svc_defs resolve_or_raise_def fs_do_def split: if_splits sum.splits)
  moreover have "subtree (ms_fs s') t1" using k2 by (simp add: keeps_except_def)
  note reported = uninstall_files_report[OF f this]
  ultimately show ?thesis
    using assms(3,4) reported unfolding keeps_except_def by (fastforce simp: may_remove_def)
qed

definition sample_uninstall :: "(pyexn + loc list \<times> loc list) \<times> mstate" where
  "sample_uninstall = uninstall rev None False (sample_mstate [(''out/notes'', ''changed'')])"

lemma sample_uninstall_runs: "\<not> isl (fst sample_uninstall)"
  by code_simp

theorem uninstall_keeps_changed_files_witness:
  "node_at (ms_fs (snd sample_uninstall)) [''home'', ''notes''] = Some (FileNode ''mine'') \<and>
   (\<exists>removed skipped. fst sample_uninstall = Inr (removed, skipped) \<and> [''p'', ''out'', ''notes''] \<in> set skipped)"
proof -
  obtain r s' where r: "sample_uninstall = (r, s')" by (cases sample_uninstall)
  have b: "resolve (ms_fs (sample_mstate [(''out/notes'', ''changed'')]))
      (mf_project_root (ms_man (sample_mstate [(''out/notes'', ''changed'')]))) = Some [''p'']" by code_simp
  have n: "node_at (ms_fs (sample_mstate [(''out/notes'', ''changed'')])) [''home'', ''notes''] = Some (FileNode ''mine'')"
    by code_simp
  have e: "entry_loc (ms_fs (sample_mstate [(''out/notes'', ''changed'')])) (manifest_path [''p''] ''k'') = Inl ENOENT"
    by code_simp
  have m: "mf_project_root (ms_man (sample_mstate fs)) = [''p'']" "mf_key (ms_man (sample_mstate fs)) = ''k''"
    "mf_files (ms_man (sample_mstate fs)) = fs" for fs
    by (simp_all add: sample_mstate_def sample_manifest_def)
  obtain removed skipped where ok: "fst sample_uninstall = Inr (removed, skipped)"
    using sample_uninstall_runs by (cases "fst sample_uninstall") auto
  have x: "relative_to (normpath (path_div [''p''] (parse_path ''out/notes''))) [''p''] \<noteq> None"
    "still_there (ms_fs (snd sample_uninstall)) (path_div [''p''] (parse_path ''out/notes''))"
    "path_div [''p''] (parse_path ''out/notes'') = [''p'', ''out'', ''notes'']" by code_simp+
  from uninstall_keeps_changed_files[OF r[unfolded sample_uninstall_def] _ n, of "[''p'']"] b e m x ok show ?thesis
    unfolding r by (auto simp del: append.simps)
qed

text \<open>The containment check of uninstalling is lexical: when a directory of a tracked path is (or has
  become) a symbolic link, the file it leads to is removed although it lies outside of the project.\<close>

theorem uninstall_follows_directory_links:
  "\<exists>s'. uninstall rev None False (sample_mstate [(''out/notes'', ''enim'')]) =
      (Inr ([[''p'', ''out'', ''notes'']], []), s') \<and>
     node_at (ms_fs (sample_mstate [(''out/notes'', ''enim'')])) [''home'', ''notes''] = Some (FileNode ''mine'') \<and>
     node_at (ms_fs s') [''home'', ''notes''] = None"
proof -
  have "fst (uninstall rev None False (sample_mstate [(''out/notes'', ''enim'')])) = Inr ([[''p'', ''out'', ''notes'']], []) \<and>
     node_at (ms_fs (sample_mstate [(''out/notes'', ''enim'')])) [''home'', ''notes''] = Some (FileNode ''mine'') \<and>
     node_at (ms_fs (snd (uninstall rev None False (sample_mstate [(''out/notes'', ''enim'')])))) [''home'', ''notes''] = None"
    by code_simp
  then show ?thesis by (metis prod.collapse)
qed

section \<open>Saving and loading\<close>

lemma mkdir_subtree: "fs_mkdir p t = Inr t' \<Longrightarrow> subtree t t'"
  by (auto simp: fs_mkdir_def rbind_Inr_iff subtree_def map_add_def split: option.splits)

lemma safe_walk_grows:
  "safe_walk base rr cur parts s = (Inr u, s') \<Longrightarrow> subtree (ms_fs s) (ms_fs s') \<and> ms_man s' = ms_man s"
proof (induction parts arbitrary: cur s)
  case (Cons part parts)
  from Cons.prems obtain s1 where s1: "safe_walk base rr (cur @ [part]) parts s1 = (Inr u, s')"
    "s1 = s \<or> (\<exists>t. fs_mkdir (cur @ [part]) (ms_fs s) = Inr t \<and> s1 = s\<lparr>ms_fs := t\<rparr>)"
    by (auto simp: Let_def mop_Inr_iff split: if_splits)
  then have "subtree (ms_fs s) (ms_fs s1) \<and> ms_man s1 = ms_man s" using mkdir_subtree by auto
  with Cons.IH[OF s1(1)] show ?case by (auto intro: subtree_trans)
qed simp

lemma safe_destination_grows:
  assumes "ensure_safe_manifest_destination base p s = (Inr u, s')"
  shows "subtree (ms_fs s) (ms_fs s')" "ms_man s' = ms_man s" "\<not> is_symlink (ms_fs s') p"
proof -
  from assms obtain rr rel s1 where w: "safe_walk base rr base rel s = (Inr (), s1)" "s' = s1"
    "\<not> is_symlink (ms_fs s1) p"
    by (auto simp: ensure_safe_manifest_destination_def ensure_safe_manifest_directory_def Let_def mop_Inr_iff
        split: if_splits option.splits)
  with safe_walk_grows[OF w(1)] show "subtree (ms_fs s) (ms_fs s')" "ms_man s' = ms_man s" "\<not> is_symlink (ms_fs s') p"
    by auto
qed

text \<open>Replacing puts the new content where the old path is.\<close>

lemma replace_reads:
  assumes "fs_replace src dst t = Inr t'" "src = d @ [a]" "dst = d @ [b]" "a \<noteq> b" "a \<noteq> ''..''" "b \<noteq> ''..''"
    "entry_loc t src = Inr l" "node_at t l = Some (FileNode c)" "\<not> is_symlink t dst"
  shows "fs_read dst t' = Inr c" "\<not> path_exists t' src"
proof -
  from assms(2,3,5-7) obtain e where e: "locate t d = Inr e" "node_at t e = Some DirNode" "l = e @ [a]"
    by (auto simp: entry_loc_def rbind_Inr_iff split: if_splits)
  with assms(3,6) have m: "entry_loc t dst = Inr (e @ [b])" by (simp add: entry_loc_def)
  let ?r = "e @ [b]"
  have t': "t' = dict_set ?r (FileNode c) (tree_remove l t)" "node_at t ?r \<noteq> Some DirNode"
    using assms(1,7,8) m by (auto simp: fs_replace_def split: if_splits)
  have nl: "\<forall>ab tg. node_at t ?r \<noteq> Some (LinkNode ab tg)"
    using assms(9) m by (auto simp: is_symlink_def lstat_def)
  have "same_ways t t'"
    using t'(2) nl assms(8) unfolding t'(1) same_ways_def
    by (auto simp: map_of_remove node_at_def e(3)) (metis node.exhaust)
  with locate_same_ways[of t "[]" "[]" d e t'] e(1,2) have d': "locate t' d = Inr e" "node_at t' e = Some DirNode"
    by (auto simp: locate_def intro: same_ways_dir)
  have n: "node_at t' ?r = Some (FileNode c)" unfolding t'(1) by (simp add: node_at_def)
  have "entry_loc t' dst = Inr ?r" using d' assms(3,6) by (simp add: entry_loc_def)
  from locate_entry[OF this n] n show "fs_read dst t' = Inr c" by (simp add: fs_read_def)
  have "map_of t' (e @ [a]) = None" unfolding t'(1) e(3) using assms(4) by (simp add: map_of_remove)
  with d' assms(2,5) show "\<not> path_exists t' src"
    by (auto simp: path_exists_def stat_def locate_def locate_append split: sum.splits)
qed

lemma save_InrD:
  assumes "save_manifest dumps now temp s = (Inr p, s')" "temp \<noteq> mf_key (ms_man s) @ ''.manifest.json''" "temp \<noteq> ''..''"
    "mf_key (ms_man s) @ ''.manifest.json'' \<noteq> ''..''"
  shows "p = manifest_path (mf_project_root (ms_man s)) (mf_key (ms_man s))"
    "ms_man s' = (ms_man s)\<lparr>mf_installed_at := py_or (mf_installed_at (ms_man s)) (PStr now)\<rparr>"
    "fs_read p (ms_fs s') = Inr (dumps (manifest_data (ms_man s')) @ [CHR 0x0A])"
proof -
  let ?m = "(ms_man s)\<lparr>mf_installed_at := py_or (mf_installed_at (ms_man s)) (PStr now)\<rparr>"
  let ?b = "mf_project_root (ms_man s)" and ?k = "mf_key (ms_man s)"
  let ?c = "dumps (manifest_data ?m) @ [CHR 0x0A]" and ?t = "manifest_dir ?b @ [temp]" and ?p = "manifest_path ?b ?k"
  from assms(1) obtain s1 t2 s4 where
    1: "ensure_safe_manifest_destination ?b ?p (s\<lparr>ms_man := ?m\<rparr>) = (Inr (), s1)"
    and 2: "fs_create ?t ?c (ms_fs s1) = Inr t2"
    and f: "sfinally (sthen (ensure_safe_manifest_destination ?b ?p) (fs_do (fs_replace ?t ?p)))
       (sbind (sget ms_fs) (\<lambda>t. if path_exists t ?t then fs_do (fs_unlink ?t) else sret ())) (s1\<lparr>ms_fs := t2\<rparr>) = (Inr (), s4)"
    and p: "p = ?p" "s' = s4"
    by (auto simp: save_manifest_def Let_def mop_Inr_iff cong: if_cong)
  from f obtain s3 t4 where 3: "ensure_safe_manifest_destination ?b ?p (s1\<lparr>ms_fs := t2\<rparr>) = (Inr (), s3)"
    and 4: "fs_replace ?t ?p (ms_fs s3) = Inr t4"
    and 5: "(sbind (sget ms_fs) (\<lambda>t. if path_exists t ?t then fs_do (fs_unlink ?t) else sret ())) (s3\<lparr>ms_fs := t4\<rparr>) = (Inr (), s4)"
    by (auto simp: sfinally_def mop_Inr_iff split: prod.splits sum.splits)
  note g1 = safe_destination_grows[OF 1] and g3 = safe_destination_grows[OF 3]
  from 2 obtain l where l: "entry_loc (ms_fs s1) ?t = Inr l" "node_at (ms_fs s1) l = None" "t2 = ms_fs s1 @ [(l, FileNode ?c)]"
    by (auto simp: fs_create_def rbind_Inr_iff split: if_splits)
  have sub: "subtree (ms_fs s1) t2" unfolding l(3) by (auto simp: subtree_def map_add_def split: option.splits)
  have "node_at t2 l = Some (FileNode ?c)" using l(2) unfolding l(3)
    by (auto simp: node_at_def map_add_def split: if_splits)
  with g3(1) have n: "node_at (ms_fs s3) l = Some (FileNode ?c)" using subtree_node[of t2 "ms_fs s3"] by simp
  have e: "entry_loc (ms_fs s3) ?t = Inr l"
    using entry_subtree[OF entry_subtree[OF l(1) sub], of "ms_fs s3"] g3(1) by simp
  note r = replace_reads[OF 4 refl _ _ assms(3,4) e n g3(3)]
  have "fs_read ?p t4 = Inr ?c" "\<not> path_exists t4 ?t"
    using r assms(2) by (simp_all add: manifest_path_def)
  with 5 p g1(2) g3(2) show "p = manifest_path ?b ?k" "ms_man s' = ?m"
    "fs_read p (ms_fs s') = Inr (dumps (manifest_data (ms_man s')) @ [CHR 0x0A])"
    by (auto simp: mop_Inr_iff)
qed

text \<open>A manifest whose recovered files are tracked, as recording keeps it.\<close>

definition manifest_ok :: "manifest \<Rightarrow> bool" where
  "manifest_ok m \<longleftrightarrow> set (mf_recovered m) \<subseteq> fst ` set (mf_files m)"

lemma set_insert_string [simp]: "set (insert_string x xs) = insert x (set xs)"
  by (induction xs) auto

lemma set_sort_strings [simp]: "set (sort_strings xs) = set xs"
  unfolding sort_strings_def by (induction xs) simp_all

lemma sort_strings_Nil [simp]: "sort_strings xs = [] \<longleftrightarrow> xs = []"
  by (metis set_sort_strings set_empty)

lemma sort_no_strings [simp]: "sort_strings [] = []" "all_strings []"
  by (simp_all add: sort_strings_def all_strings_def)

lemma all_strings_map [simp]: "all_strings (map PStr xs)"
  by (simp add: all_strings_def list_all_iff)

lemma the_str_PStr [simp]: "map (the_str \<circ> PStr) xs = xs"
  by (induction xs) simp_all

lemma manifest_data_fields:
  "get_or (obj [(''integration'', a), (''version'', b), (''installed_at'', c), (''files'', d)]) ''integration'' z = a"
  "get_or (obj ([(''integration'', a), (''version'', b), (''installed_at'', c), (''files'', d)] @ r)) ''integration'' z = a"
  "get_or (obj ([(''integration'', a), (''version'', b), (''installed_at'', c), (''files'', d)] @ r)) ''version'' z = b"
  "get_or (obj ([(''integration'', a), (''version'', b), (''installed_at'', c), (''files'', d)] @ r)) ''installed_at'' z = c"
  "get_or (obj ([(''integration'', a), (''version'', b), (''installed_at'', c), (''files'', d)] @ r)) ''files'' z = d"
  "get_or (obj ([(''integration'', a), (''version'', b), (''installed_at'', c), (''files'', d)] @ [(''recovered_files'', e)])) ''recovered_files'' z = e"
  "get_or (obj ([(''integration'', a), (''version'', b), (''installed_at'', c), (''files'', d)] @ [])) ''recovered_files'' z = z"
  "get_or (obj [(''integration'', a), (''version'', b), (''installed_at'', c), (''files'', d)]) ''recovered_files'' z = z"
  by (simp_all add: get_or_def field_def obj_def)

text \<open>Saving a manifest and loading it again gives back its key, version, date, tracked files with
  their hashes, in order, and the set of recovered files. What is assumed of the JSON library is that
  it parses what it printed.\<close>

theorem manifest_save_load:
  assumes "save_manifest dumps now temp s = (Inr p, s')"
    "temp \<noteq> mf_key (ms_man s) @ ''.manifest.json''" "temp \<noteq> ''..''" "mf_key (ms_man s) @ ''.manifest.json'' \<noteq> ''..''"
    "loads (dumps (manifest_data (ms_man s')) @ [CHR 0x0A]) = Some (manifest_data (ms_man s'))"
    "manifest_ok (ms_man s)"
  shows "\<exists>m. load_manifest loads (mf_key (ms_man s)) (mf_project_root (ms_man s)) False (ms_fs s') = Inr m \<and>
     m\<lparr>mf_recovered := mf_recovered (ms_man s')\<rparr> = ms_man s' \<and>
     set (mf_recovered m) = set (mf_recovered (ms_man s')) \<and> distinct (mf_recovered m)"
proof -
  let ?m = "ms_man s'" and ?p = "manifest_path (mf_project_root (ms_man s)) (mf_key (ms_man s))"
  note S = save_InrD[OF assms(1-4)]
  have k: "mf_key ?m = mf_key (ms_man s)" "mf_project_root ?m = mf_project_root (ms_man s)"
    "set (mf_recovered ?m) \<subseteq> fst ` set (mf_files ?m)"
    using S(2) assms(6) by (simp_all add: manifest_ok_def)
  let ?d = "[(''integration'', PStr (mf_key ?m)), (''version'', mf_version ?m), (''installed_at'', mf_installed_at ?m),
      (''files'', PDict (map (\<lambda>(k, h). (PStr k, PStr h)) (mf_files ?m)))] @
     (if mf_recovered ?m = [] then [] else [(''recovered_files'', PList (map PStr (sort_strings (mf_recovered ?m))))])"
  have f: "load_files q (obj ?d) = Inr (mf_files ?m)" for q
    unfolding load_files_def manifest_data_fields
    by (simp add: all_strings_def list_all_iff comp_def split_def)
  have r: "load_recovered q (obj ?d) = Inr (remdups (sort_strings (mf_recovered ?m)))" for q
    by (cases "mf_recovered ?m = []")
      (simp_all only: load_recovered_def Let_def if_True if_False manifest_data_fields, simp_all add: manifest_data_fields)
  obtain d where d: "manifest_data ?m = PDict d" "\<And>q. load_files q d = Inr (mf_files ?m)"
    "\<And>q. load_recovered q d = Inr (remdups (sort_strings (mf_recovered ?m)))"
    "get_or d ''integration'' (PStr '''') = PStr (mf_key ?m)" "get_or d ''version'' (PStr '''') = mf_version ?m"
    "get_or d ''installed_at'' (PStr '''') = mf_installed_at ?m"
    using f r manifest_data_fields unfolding manifest_data_def by metis
  have L: "load_manifest loads (mf_key (ms_man s)) (mf_project_root (ms_man s)) False (ms_fs s') =
      Inr (?m\<lparr>mf_recovered := List.filter (\<lambda>x. x \<in> fst ` set (mf_files ?m)) (remdups (sort_strings (mf_recovered ?m)))\<rparr>)"
    unfolding load_manifest_def using S(1,3) assms(5) k(1,2)
    by (simp add: init_manifest_def d Let_def)
  show ?thesis by (intro exI conjI, rule L) (use k(3) in auto)
qed

text \<open>A printer and a parser for one value: what they do on others is not used.\<close>

definition sample_dumps :: "pyval \<Rightarrow> string" where
  "sample_dumps v = ''text''"

definition sample_saved :: "(pyexn + loc) \<times> mstate" where
  "sample_saved = save_manifest sample_dumps ''now'' ''.tmp'' (sample_mstate [(''d/f'', ''h'')])"

lemma sample_saved_runs: "fst sample_saved = Inr [''p'', ''.specify'', ''integrations'', ''k.manifest.json'']"
  by code_simp

theorem manifest_save_load_witness:
  "\<exists>m. load_manifest (\<lambda>_. Some (manifest_data (ms_man (snd sample_saved)))) ''k'' [''p''] False (ms_fs (snd sample_saved)) = Inr m \<and>
     mf_files m = [(''d/f'', ''h'')] \<and> mf_installed_at m = PStr ''now''"
proof -
  obtain p s' where r: "sample_saved = (Inr p, s')"
    using sample_saved_runs by (metis prod.collapse)
  have m: "mf_key (ms_man (sample_mstate fs)) = ''k''" "mf_project_root (ms_man (sample_mstate fs)) = [''p'']"
     "manifest_ok (ms_man (sample_mstate fs))" for fs
    by (simp_all add: sample_mstate_def sample_manifest_def manifest_ok_def)
  from manifest_save_load[OF r[unfolded sample_saved_def], of "\<lambda>_. Some (manifest_data (ms_man s'))"]
  obtain n where n: "load_manifest (\<lambda>_. Some (manifest_data (ms_man s'))) ''k'' [''p''] False (ms_fs s') = Inr n"
    "n\<lparr>mf_recovered := mf_recovered (ms_man s')\<rparr> = ms_man s'"
    by (auto simp: m)
  have "ms_man s' = (sample_manifest [(''d/f'', ''h'')])\<lparr>mf_installed_at := PStr ''now''\<rparr>"
    using save_InrD(2)[OF r[unfolded sample_saved_def]] by (simp add: sample_mstate_def sample_manifest_def py_or_def)
  with n(2) have "mf_files n = [(''d/f'', ''h'')]" "mf_installed_at n = PStr ''now''"
    by (cases n; simp add: sample_manifest_def)+
  with n(1) r show ?thesis by (metis snd_conv)
qed

end
