(* ===== verification/Catalogs.thy ===== *)
theory Catalogs
  imports WfBase
begin

text \<open>
  \<open>specify_cli/catalogs.py\<close>: the stack of catalog sources, which URLs it accepts, and its configuration
  file. A YAML file is the value \<open>yaml.safe_load\<close> reads from it, or the way reading it fails; what
  \<open>yaml.dump\<close> wrote is taken to be read back.
\<close>

section \<open>Python's \<open>urlparse\<close> and \<open>int\<close>\<close>

definition upper_or_lower :: "char \<Rightarrow> bool" where
  "upper_or_lower c = (let n = code_of c in (65 \<le> n \<and> n \<le> 90) \<or> (97 \<le> n \<and> n \<le> 122))"

definition scheme_char :: "char \<Rightarrow> bool" where
  "scheme_char c \<longleftrightarrow> ascii_alnum c \<or> c \<in> {CHR ''+'', CHR ''-'', CHR ''.''}"

definition lower_ascii :: "string \<Rightarrow> string" where
  "lower_ascii s = map (\<lambda>c. let n = code_of c in if 65 \<le> n \<and> n \<le> 90 then char_of (n + 32) else c) s"

text \<open>Blanks and control characters before the URL go, and line ends and tabs wherever they are.\<close>

definition clean_url :: "string \<Rightarrow> string" where
  "clean_url url = List.filter (\<lambda>c. code_of c \<notin> {9, 10, 13}) (dropWhile (\<lambda>c. code_of c \<le> 32) url)"

text \<open>The scheme, in lower case, and what is behind its colon.\<close>

definition split_scheme :: "string \<Rightarrow> string \<times> string" where
  "split_scheme url =
     (case split1 '':'' url of
        Some (s, rest) \<Rightarrow>
          if s \<noteq> '''' \<and> upper_or_lower (hd s) \<and> list_all scheme_char s then (lower_ascii s, rest) else ('''', url)
      | None \<Rightarrow> ('''', url))"

definition netloc_char :: "char \<Rightarrow> bool" where
  "netloc_char c \<longleftrightarrow> c \<notin> {CHR ''/'', CHR ''?'', CHR ''#''}"

fun after_last_at :: "string \<Rightarrow> string" where
  "after_last_at s = (case split1 ''@'' s of Some (_, r) \<Rightarrow> if length r < length s then after_last_at r else r | None \<Rightarrow> s)"

declare after_last_at.simps [simp del]

definition before :: "string \<Rightarrow> string \<Rightarrow> string" where
  "before sep s = (case split1 sep s of Some (a, _) \<Rightarrow> a | None \<Rightarrow> s)"

text \<open>\<open>parsed.hostname\<close>: without user, port and brackets, in lower case but for the zone of an address.\<close>

definition url_hostname :: "string \<Rightarrow> string option" where
  "url_hostname netloc =
     (let info = after_last_at netloc;
          host = (case split1 ''['' info of Some (_, bracketed) \<Rightarrow> before '']'' bracketed | None \<Rightarrow> before '':'' info)
      in if host = '''' then None
         else Some (case split1 ''%'' host of
             Some (h, zone) \<Rightarrow> py_lower h @ ''%'' @ zone
           | None \<Rightarrow> py_lower host))"

record parsed_url =
  pu_scheme :: string
  pu_netloc :: string
  pu_hostname :: "string option"

text \<open>\<open>ip_ok\<close> is the library's check of an address in brackets.\<close>

definition urlparse :: "(string \<Rightarrow> bool) \<Rightarrow> string \<Rightarrow> parsed_url py" where
  "urlparse ip_ok url =
     (case split_scheme (clean_url url) of (scheme, rest) \<Rightarrow>
        let netloc = (if starts_with ''//'' rest then takeWhile netloc_char (drop 2 rest) else '''') in
        if has_sub ''['' netloc \<noteq> has_sub '']'' netloc then Inl (value_error ''Invalid IPv6 URL'')
        else if has_sub ''['' netloc \<and> \<not> ip_ok netloc then Inl (value_error ''Invalid IPv6 URL'')
        else Inr \<lparr>pu_scheme = scheme, pu_netloc = netloc, pu_hostname = url_hostname netloc\<rparr>)"

text \<open>\<open>int(v)\<close>.\<close>

fun py_int :: "pyval \<Rightarrow> int py" where
  "py_int (PInt n) = Inr n"
| "py_int (PBool b) = Inr (if b then 1 else 0)"
| "py_int (PFloat f) = (case trunc_float f of Some n \<Rightarrow> Inr n | None \<Rightarrow> Inl (PyExc ''OverflowError'' ''''))"
| "py_int (PStr s) = (case parse_int s of Some n \<Rightarrow> Inr n | None \<Rightarrow> Inl (value_error ''''))"
| "py_int _ = Inl type_error"

definition in_quotes :: "string \<Rightarrow> string" where
  "in_quotes t = [quote_char] @ t @ [quote_char]"

section \<open>Accepted URLs\<close>

definition localhost_names :: "string list" where
  "localhost_names = [''localhost'', ''127.0.0.1'', ''::1'']"

definition is_localhost :: "parsed_url \<Rightarrow> bool" where
  "is_localhost u \<longleftrightarrow> (case pu_hostname u of Some h \<Rightarrow> h \<in> set localhost_names | None \<Rightarrow> False)"

definition secure :: "parsed_url \<Rightarrow> bool" where
  "secure u \<longleftrightarrow> pu_scheme u = ''https'' \<or> (pu_scheme u = ''http'' \<and> is_localhost u)"

text \<open>The exception classes of a catalog kind: its errors and its validation errors.\<close>

record stack_class =
  error_type :: string
  validation_error_type :: string
  config_filename :: string

definition validate_catalog_url :: "(string \<Rightarrow> bool) \<Rightarrow> string \<Rightarrow> string \<Rightarrow> unit py" where
  "validate_catalog_url ip_ok err url =
     rbind (urlparse ip_ok url) (\<lambda>parsed.
     if \<not> secure parsed
     then Inl (PyExc err (''Catalog URL must use HTTPS (got '' @ pu_scheme parsed @
            ''://). HTTP is only allowed for localhost.''))
     else if pu_netloc parsed = '''' then Inl (PyExc err ''Catalog URL must be a valid URL with a host.'')
     else Inr ())"

section \<open>The configuration file\<close>

record catalog_entry =
  ce_url :: string
  ce_name :: string
  ce_priority :: int
  ce_install_allowed :: bool
  ce_description :: string

datatype yaml_file = YamlAbsent | YamlFails string string | YamlValue pyval

text \<open>
  Opening a URL: a \<open>URLError\<close>, another exception, or a response with its final URL, whose body is JSON,
  is not (\<open>JSONDecodeError\<close>), or cannot be read. A cached file is missing (not in the list), no JSON or
  unreadable, no text, or a value.
\<close>

datatype body = BodyValue pyval | BodyNoJson string | BodyRaises string string

datatype fetched = UrlError string | FetchRaises string string | Response string body

datatype cached = CacheBroken | CacheNoText | CacheValue pyval

text \<open>Spellings of true in an entry; other values by their truth.\<close>

definition install_flag :: "pyval \<Rightarrow> bool" where
  "install_flag v = (case v of PStr s \<Rightarrow> py_lower (py_strip s) \<in> {''true'', ''yes'', ''1''} | _ \<Rightarrow> truthy v)"

text \<open>\<open>int(raw)\<close> whose \<open>TypeError\<close> and \<open>ValueError\<close>, and no other, become the given error.\<close>

definition int_or :: "pyexn \<Rightarrow> pyval \<Rightarrow> int py" where
  "int_or err v = (case py_int v of
     Inr n \<Rightarrow> Inr n
   | Inl e \<Rightarrow> (case e of PyExc n _ \<Rightarrow> if n = ''TypeError'' \<or> n = ''ValueError'' then Inl err else Inl e | _ \<Rightarrow> Inl e))"

definition stack_entry ::
  "(string \<Rightarrow> bool) \<Rightarrow> stack_class \<Rightarrow> string \<Rightarrow> nat \<Rightarrow> nat \<Rightarrow> pyval \<Rightarrow> catalog_entry option py" where
  "stack_entry ip_ok k path idx count item =
     (let bad = (\<lambda>msg. Inl (PyExc (validation_error_type k) msg));
          invalid = ''Invalid catalog config '' @ path @ '': '' in
      case item of
        PDict d \<Rightarrow>
          (let url = py_strip (py_str (get_or d ''url'' (PStr ''''))) in
           if url = '''' then Inr None
           else case validate_catalog_url ip_ok (error_type k) url of
             Inl e \<Rightarrow> (case e of
                 PyExc n msg \<Rightarrow> if n = error_type k
                   then bad (''Invalid catalog URL in '' @ path @ '' at index '' @ show_int (int idx) @ '': '' @ msg)
                   else Inl e
               | _ \<Rightarrow> Inl e)
           | Inr _ \<Rightarrow>
             (let raw_priority = get_or d ''priority'' (PInt (int idx + 1));
                  err = PyExc (validation_error_type k) (invalid @ ''Invalid priority for catalog '' @
                    in_quotes (py_str (get_or d ''name'' (PInt (int idx + 1)))) @ '': expected integer, got '' @ py_repr raw_priority) in
              if is_bool raw_priority then Inl err
              else rbind (int_or err raw_priority) (\<lambda>priority.
                let raw_name = get_none d ''name'';
                    name = (if raw_name \<noteq> PNone then py_strip (py_str raw_name) else '''') in
                Inr (Some \<lparr>ce_url = url,
                  ce_name = (if name = '''' then ''catalog-'' @ show_int (int count + 1) else name),
                  ce_priority = priority, ce_install_allowed = install_flag (get_or d ''install_allowed'' (PBool False)),
                  ce_description = py_str (get_or d ''description'' (PStr ''''))\<rparr>))))
      | _ \<Rightarrow> bad (invalid @ ''catalog entry at index '' @ show_int (int idx) @ '': expected a mapping, got '' @ type_name item))"

text \<open>The entries so far are in reverse.\<close>

fun stack_entries ::
  "(nat \<Rightarrow> nat \<Rightarrow> pyval \<Rightarrow> catalog_entry option py) \<Rightarrow> nat \<Rightarrow> catalog_entry list \<Rightarrow> pyval list \<Rightarrow> catalog_entry list py" where
  "stack_entries f idx acc [] = Inr (rev acc)"
| "stack_entries f idx acc (item # items) =
     rbind (f idx (length acc) item) (\<lambda>e.
     stack_entries f (Suc idx) (case e of Some x \<Rightarrow> x # acc | None \<Rightarrow> acc) items)"

text \<open>\<open>entries.sort(key = priority)\<close>: stable.\<close>

definition sort_entries :: "catalog_entry list \<Rightarrow> catalog_entry list" where
  "sort_entries es = sort_key ce_priority es"

fun empty_urls :: "nat \<Rightarrow> pyval list \<Rightarrow> nat list" where
  "empty_urls idx [] = []"
| "empty_urls idx (item # items) =
     (case item of
        PDict d \<Rightarrow> if py_strip (py_str (get_or d ''url'' (PStr ''''))) = '''' then idx # empty_urls (Suc idx) items
                   else empty_urls (Suc idx) items
      | _ \<Rightarrow> empty_urls (Suc idx) items)"

definition load_catalog_config ::
  "(string \<Rightarrow> bool) \<Rightarrow> stack_class \<Rightarrow> string \<Rightarrow> yaml_file \<Rightarrow> catalog_entry list option py" where
  "load_catalog_config ip_ok k path file =
     (let bad = (\<lambda>msg. Inl (PyExc (validation_error_type k) msg)) in
      case file of
        YamlAbsent \<Rightarrow> Inr None
      | YamlFails _ exc \<Rightarrow> bad (''Failed to read catalog config '' @ path @ '': '' @ exc)
      | YamlValue v \<Rightarrow>
        (case (if v = PNone then PDict [] else v) of
           PDict data \<Rightarrow>
             (case get_or data ''catalogs'' (PList []) of
                PList items \<Rightarrow>
                  if items = []
                  then bad (''Catalog config '' @ path @ '' exists but contains no '' @ in_quotes ''catalogs'' @
                    '' entries. Remove the file to use built-in defaults, or add valid catalog entries.'')
                  else rbind (stack_entries (stack_entry ip_ok k path) 0 [] items) (\<lambda>entries.
                    if entries = []
                    then bad (''Catalog config '' @ path @ '' contains '' @ show_int (int (length items)) @
                      '' entries but none have valid URLs (entries at indices '' @
                      py_repr (PList (map (\<lambda>i. PInt (int i)) (empty_urls 0 items))) @
                      '' were skipped). Each catalog entry must have a '' @ in_quotes ''url'' @ '' field.'')
                    else Inr (Some (sort_entries entries)))
              | c \<Rightarrow> bad (''Invalid catalog config '' @ path @ '': '' @ in_quotes ''catalogs'' @ '' must be a list, got '' @ type_name c))
         | _ \<Rightarrow> bad (''Invalid catalog config '' @ path @ '': expected a YAML mapping at the root'')))"

section \<open>Only secure sources\<close>

text \<open>A source the stack may fetch from: an encrypted connection, or this machine, and a host.\<close>

definition safe_source :: "(string \<Rightarrow> bool) \<Rightarrow> string \<Rightarrow> bool" where
  "safe_source ip_ok url \<longleftrightarrow> (case urlparse ip_ok url of Inr u \<Rightarrow> secure u \<and> pu_netloc u \<noteq> '''' | Inl _ \<Rightarrow> False)"

lemma validate_catalog_url_iff: "validate_catalog_url ip_ok err url = Inr u \<longleftrightarrow> safe_source ip_ok url"
  by (auto simp: validate_catalog_url_def safe_source_def split: sum.splits)

lemma stack_entry_safe:
  "stack_entry ip_ok k path idx count item = Inr (Some e) \<Longrightarrow> safe_source ip_ok (ce_url e)"
  by (auto simp: stack_entry_def Let_def rbind_Inr_iff validate_catalog_url_iff
      split: pyval.splits if_splits sum.splits pyexn.splits)

lemma stack_entries_all:
  assumes "\<And>idx count item e. f idx count item = Inr (Some e) \<Longrightarrow> P e"
  shows "stack_entries f idx acc items = Inr es \<Longrightarrow> list_all P acc \<Longrightarrow> list_all P es"
proof (induction items arbitrary: idx acc)
  case Nil
  then show ?case by (auto simp: list_all_iff)
next
  case (Cons item items)
  from Cons.prems(1) obtain e where e: "f idx (length acc) item = Inr e"
    "stack_entries f (Suc idx) (case e of Some x \<Rightarrow> x # acc | None \<Rightarrow> acc) items = Inr es"
    by (auto simp: rbind_Inr_iff)
  from Cons.IH[OF e(2)] e(1) assms Cons.prems(2) show ?case by (cases e) auto
qed

lemma load_catalog_config_InrD:
  assumes "load_catalog_config ip_ok k path file = Inr (Some es)"
  shows "es \<noteq> []" "list_all (\<lambda>e. safe_source ip_ok (ce_url e)) es" "sorted (map ce_priority es)"
proof -
  from assms obtain items es0 where e: "stack_entries (stack_entry ip_ok k path) 0 [] items = Inr es0" "es0 \<noteq> []"
    "es = sort_entries es0"
    by (auto simp: load_catalog_config_def Let_def rbind_Inr_iff split: yaml_file.splits pyval.splits if_splits)
  have "list_all (\<lambda>e. safe_source ip_ok (ce_url e)) es0"
    using stack_entries_all[OF stack_entry_safe e(1)] by simp
  then show "es \<noteq> []" "list_all (\<lambda>e. safe_source ip_ok (ce_url e)) es" "sorted (map ce_priority es)"
    using e(2,3) by (auto simp: sort_entries_def list_all_iff sort_key_simps) (metis set_sort set_empty)
qed

end
