(* ===== verification/WorkflowCatalog.thy ===== *)
theory WorkflowCatalog
  imports Catalogs
begin

text \<open>
  \<open>specify_cli/workflows/catalog.py\<close>: where workflows are looked for, the cache of what was downloaded,
  the merged view, searching, the project's list of sources, and the registry of installed workflows.
\<close>

section \<open>The outside\<close>

record catalog_env =
  ca_ip_ok :: "string \<Rightarrow> bool"
  ca_env_url :: string
  ca_project_path :: string
  ca_user_path :: string
  ca_user :: yaml_file
  ca_hash :: "string \<Rightarrow> string"
  ca_time :: "nat \<Rightarrow> pyfloat"
  ca_open :: "nat \<Rightarrow> string \<Rightarrow> fetched"

record catalog_state =
  cs_tick :: nat
  cs_project :: yaml_file
  cs_cache :: "(string, cached) dict"

type_synonym 'a cop = "(catalog_state, pyexn, 'a) svc"

definition tick_cat :: "(nat \<Rightarrow> 'a) \<Rightarrow> 'a cop" where
  "tick_cat f s = (Inr (f (cs_tick s)), s\<lparr>cs_tick := Suc (cs_tick s)\<rparr>)"

section \<open>The sources\<close>

abbreviation wf_validation_error :: "string \<Rightarrow> pyexn" where
  "wf_validation_error msg \<equiv> PyExc ''WorkflowValidationError'' msg"

abbreviation wf_catalog_error :: "string \<Rightarrow> pyexn" where
  "wf_catalog_error msg \<equiv> PyExc ''WorkflowCatalogError'' msg"

definition is_catalog_error :: "pyexn \<Rightarrow> bool" where
  "is_catalog_error e = (case e of PyExc n _ \<Rightarrow> n \<in> {''WorkflowCatalogError'', ''WorkflowValidationError''} | _ \<Rightarrow> False)"

definition wf_validate_url :: "catalog_env \<Rightarrow> string \<Rightarrow> unit py" where
  "wf_validate_url env url = validate_catalog_url (ca_ip_ok env) ''WorkflowValidationError'' url"

definition wf_entry :: "catalog_env \<Rightarrow> nat \<Rightarrow> nat \<Rightarrow> pyval \<Rightarrow> catalog_entry option py" where
  "wf_entry env idx count item =
     (case item of
        PDict d \<Rightarrow>
          (let url = py_strip (py_str (get_or d ''url'' (PStr ''''))) in
           if url = '''' then Inr None
           else rbind (wf_validate_url env url) (\<lambda>_.
             rbind (int_or (wf_validation_error (''Invalid priority for catalog '' @
                  in_quotes (py_str (get_or d ''name'' (PInt (int idx + 1)))) @ '': expected integer, got '' @
                  py_repr (get_none d ''priority''))) (get_or d ''priority'' (PInt (int idx + 1)))) (\<lambda>priority.
             Inr (Some \<lparr>ce_url = url, ce_name = py_str (get_or d ''name'' (PStr (''catalog-'' @ show_int (int idx + 1)))),
               ce_priority = priority, ce_install_allowed = install_flag (get_or d ''install_allowed'' (PBool False)),
               ce_description = py_str (get_or d ''description'' (PStr ''''))\<rparr>))))
      | _ \<Rightarrow> Inl (wf_validation_error (''Invalid catalog entry at index '' @ show_int (int idx) @
               '': expected a mapping, got '' @ type_name item)))"

definition wf_load_config :: "catalog_env \<Rightarrow> string \<Rightarrow> yaml_file \<Rightarrow> catalog_entry list option py" where
  "wf_load_config env path file =
     (case file of
        YamlAbsent \<Rightarrow> Inr None
      | YamlFails _ exc \<Rightarrow> Inl (wf_validation_error (''Failed to read catalog config '' @ path @ '': '' @ exc))
      | YamlValue v \<Rightarrow>
        rbind (as_dict (py_or v (PDict []))) (\<lambda>data.
        let c = get_or data ''catalogs'' (PList []) in
        if \<not> truthy c then Inr None
        else (case c of
            PList items \<Rightarrow>
              rbind (stack_entries (wf_entry env) 0 [] items) (\<lambda>entries.
              if entries = []
              then Inl (wf_validation_error (''Catalog config '' @ path @ '' contains '' @ show_int (int (length items)) @
                     '' entries but none have valid URLs.''))
              else Inr (Some (sort_entries entries)))
          | _ \<Rightarrow> Inl (wf_validation_error (''Invalid catalog config: '' @ in_quotes ''catalogs'' @ '' must be a list, got '' @ type_name c)))))"

definition DEFAULT_CATALOG_URL :: string where
  "DEFAULT_CATALOG_URL = ''https://raw.githubusercontent.com/github/spec-kit/main/workflows/catalog.json''"

definition COMMUNITY_CATALOG_URL :: string where
  "COMMUNITY_CATALOG_URL = ''https://raw.githubusercontent.com/github/spec-kit/main/workflows/catalog.community.json''"

definition default_catalogs :: "catalog_entry list" where
  "default_catalogs =
     [\<lparr>ce_url = DEFAULT_CATALOG_URL, ce_name = ''default'', ce_priority = 1, ce_install_allowed = True,
       ce_description = ''Official workflows''\<rparr>,
      \<lparr>ce_url = COMMUNITY_CATALOG_URL, ce_name = ''community'', ce_priority = 2, ce_install_allowed = False,
       ce_description = ''Community-contributed workflows (discovery only)''\<rparr>]"

definition get_active_catalogs :: "catalog_env \<Rightarrow> yaml_file \<Rightarrow> catalog_entry list py" where
  "get_active_catalogs env project =
     (let env_url = py_strip (ca_env_url env) in
      if env_url \<noteq> ''''
      then rbind (wf_validate_url env env_url) (\<lambda>_.
        Inr [\<lparr>ce_url = env_url, ce_name = ''env-override'', ce_priority = 1, ce_install_allowed = True,
              ce_description = ''From SPECKIT_WORKFLOW_CATALOG_URL''\<rparr>])
      else rbind (wf_load_config env (ca_project_path env) project) (\<lambda>p.
        case p of Some es \<Rightarrow> Inr es
        | None \<Rightarrow> rbind (wf_load_config env (ca_user_path env) (ca_user env)) (\<lambda>u.
          case u of Some es \<Rightarrow> Inr es | None \<Rightarrow> Inr default_catalogs)))"

section \<open>Fetching and the cache\<close>

text \<open>\<open>a - b\<close> of finite doubles, rounded; and with an infinity.\<close>

fun float_sub :: "pyfloat \<Rightarrow> pyfloat \<Rightarrow> pyfloat" where
  "float_sub (Inf a) _ = Inf a"
| "float_sub _ (Inf b) = Inf (\<not> b)"
| "float_sub f g =
     (let mx = (case f of Fin m x \<Rightarrow> (m, x) | _ \<Rightarrow> (0, 0)); ny = (case g of Fin n y \<Rightarrow> (n, y) | _ \<Rightarrow> (0, 0));
          e = min (snd mx) (snd ny);
          d = fst mx * 2 ^ nat (snd mx - e) - fst ny * 2 ^ nat (snd ny - e)
      in if 0 \<le> e then nearest_double (d < 0) (\<bar>d\<bar> * 2 ^ nat e) 1 else nearest_double (d < 0) \<bar>d\<bar> (2 ^ nat (- e)))"

text \<open>The other operand of float arithmetic: not a number, or an integer too large, raise.\<close>

definition float_operand :: "pyval \<Rightarrow> pyfloat py" where
  "float_operand v =
     (case v of
        PFloat f \<Rightarrow> Inr f
      | PInt n \<Rightarrow> (case float_of_int n of Some f \<Rightarrow> Inr f | None \<Rightarrow> Inl (PyExc ''OverflowError'' ''''))
      | PBool b \<Rightarrow> Inr (Fin (if b then 1 else 0) 0)
      | _ \<Rightarrow> Inl type_error)"

definition CACHE_DURATION :: int where
  "CACHE_DURATION = 3600"

definition cache_paths :: "catalog_env \<Rightarrow> string \<Rightarrow> string \<times> string" where
  "cache_paths env url =
     (let h = take 16 (ca_hash env url)
      in (''workflow-catalog-'' @ h @ ''.json'', ''workflow-catalog-'' @ h @ ''-meta.json''))"

definition unicode_error :: pyexn where
  "unicode_error = PyExc ''UnicodeDecodeError'' ''''"

definition is_url_cache_valid :: "catalog_env \<Rightarrow> string \<Rightarrow> bool cop" where
  "is_url_cache_valid env url =
     sbind (sget (\<lambda>s. map_of (cs_cache s) (snd (cache_paths env url)))) (\<lambda>f.
     case f of
       None \<Rightarrow> sret False
     | Some CacheBroken \<Rightarrow> sret False
     | Some CacheNoText \<Rightarrow> sraise unicode_error
     | Some (CacheValue v) \<Rightarrow>
         sbind (slift (as_dict v)) (\<lambda>meta.
         sbind (tick_cat (ca_time env)) (\<lambda>now.
         sbind (slift (float_operand (get_or meta ''fetched_at'' (PInt 0)))) (\<lambda>fetched_at.
         sret (float_cmp (float_sub now fetched_at) (exact_num CACHE_DURATION) < 0)))))"

text \<open>The check before opening and after redirects; it does not look at the host.\<close>

definition refuse_insecure :: "catalog_env \<Rightarrow> string \<Rightarrow> unit py" where
  "refuse_insecure env url =
     rbind (urlparse (ca_ip_ok env) url) (\<lambda>parsed.
     if secure parsed then Inr ()
     else Inl (wf_catalog_error (''Refusing to fetch catalog from non-HTTPS URL: '' @ url)))"

definition exc_text :: "pyexn \<Rightarrow> string" where
  "exc_text e = (case e of PyExc _ m \<Rightarrow> m | KeyboardInterrupt \<Rightarrow> '''')"

text \<open>The answer of a source, or why there is none: every exception is caught.\<close>

definition response :: "catalog_env \<Rightarrow> fetched \<Rightarrow> (string, pyval) res" where
  "response env r =
     (case r of
        UrlError m \<Rightarrow> Inl m
      | FetchRaises _ m \<Rightarrow> Inl m
      | Response final body \<Rightarrow>
          (case refuse_insecure env final of
             Inl e \<Rightarrow> Inl (exc_text e)
           | Inr _ \<Rightarrow> (case body of BodyValue v \<Rightarrow> Inr v | BodyNoJson m \<Rightarrow> Inl m | BodyRaises _ m \<Rightarrow> Inl m)))"

definition write_cache :: "catalog_env \<Rightarrow> catalog_entry \<Rightarrow> pyval \<Rightarrow> unit cop" where
  "write_cache env e data =
     sthen (smodify (\<lambda>s. s\<lparr>cs_cache := dict_set (fst (cache_paths env (ce_url e))) (CacheValue data) (cs_cache s)\<rparr>))
    (sbind (tick_cat (ca_time env)) (\<lambda>now.
     smodify (\<lambda>s. s\<lparr>cs_cache := dict_set (snd (cache_paths env (ce_url e)))
       (CacheValue (PDict (obj [(''url'', PStr (ce_url e)), (''fetched_at'', PFloat now)]))) (cs_cache s)\<rparr>)))"

definition fetch_from_source :: "catalog_env \<Rightarrow> catalog_entry \<Rightarrow> pyval cop" where
  "fetch_from_source env e =
     sthen (slift (refuse_insecure env (ce_url e)))
    (sbind (tick_cat (\<lambda>n. response env (ca_open env n (ce_url e)))) (\<lambda>r.
     case r of
       Inl m \<Rightarrow>
         sbind (sget (\<lambda>s. map_of (cs_cache s) (fst (cache_paths env (ce_url e))))) (\<lambda>f.
         case f of Some (CacheValue v) \<Rightarrow> sret v
         | _ \<Rightarrow> sraise (wf_catalog_error (''Failed to fetch catalog from '' @ ce_url e @ '': '' @ m)))
     | Inr data \<Rightarrow>
         if is_dict data then sthen (write_cache env e data) (sret data)
         else sraise (wf_catalog_error (''Catalog from '' @ ce_url e @ '' is not a valid JSON object.''))))"

definition fetch_single_catalog :: "catalog_env \<Rightarrow> catalog_entry \<Rightarrow> bool \<Rightarrow> pyval cop" where
  "fetch_single_catalog env e force_refresh =
     sbind (if force_refresh then sret False else is_url_cache_valid env (ce_url e)) (\<lambda>valid.
     if valid
     then sbind (sget (\<lambda>s. map_of (cs_cache s) (fst (cache_paths env (ce_url e))))) (\<lambda>f.
          case f of
            Some (CacheValue v) \<Rightarrow> sret v
          | Some CacheNoText \<Rightarrow> sraise unicode_error
          | _ \<Rightarrow> fetch_from_source env e)
     else fetch_from_source env e)"

section \<open>The merged view\<close>

definition tagged :: "catalog_entry \<Rightarrow> (pyval \<times> pyval) list \<Rightarrow> pyval" where
  "tagged e d = PDict (assoc_set (PStr ''_install_allowed'') (PBool (ce_install_allowed e))
     (assoc_set (PStr ''_catalog_name'') (PStr (ce_name e)) d))"

text \<open>What one source contributes: ids and tagged workflows, in the mapping or the list format.\<close>

fun listed :: "catalog_entry \<Rightarrow> pyval list \<Rightarrow> (pyval \<times> pyval) list py" where
  "listed e [] = Inr []"
| "listed e (v # vs) =
     (case v of
        PDict d \<Rightarrow>
          (let i = get_or d ''id'' (PStr '''') in
           if truthy i then (if hashable i then rbind (listed e vs) (\<lambda>r. Inr ((i, tagged e d) # r)) else Inl type_error)
           else listed e vs)
      | _ \<Rightarrow> listed e vs)"

fun mapped :: "catalog_entry \<Rightarrow> (pyval \<times> pyval) list \<Rightarrow> (pyval \<times> pyval) list" where
  "mapped e [] = []"
| "mapped e ((i, v) # r) = (case v of PDict d \<Rightarrow> (i, tagged e d) # mapped e r | _ \<Rightarrow> mapped e r)"

definition contributed :: "catalog_entry \<Rightarrow> pyval \<Rightarrow> (pyval \<times> pyval) list py" where
  "contributed e data =
     rbind (as_dict data) (\<lambda>d.
     case get_or d ''workflows'' (PDict []) of
       PDict ws \<Rightarrow> Inr (mapped e ws)
     | PList ws \<Rightarrow> listed e ws
     | _ \<Rightarrow> Inr [])"

text \<open>\<open>entries\<close> are already in the order the loop takes them; the counter is of the failed fetches.\<close>

fun merge_catalogs ::
  "catalog_env \<Rightarrow> bool \<Rightarrow> (pyval \<times> pyval) list \<Rightarrow> nat \<Rightarrow> catalog_entry list \<Rightarrow> ((pyval \<times> pyval) list \<times> nat) cop" where
  "merge_catalogs env force merged errors [] = sret (merged, errors)"
| "merge_catalogs env force merged errors (e # es) = (\<lambda>s.
     case fetch_single_catalog env e force s of
       (Inl x, s') \<Rightarrow>
         if is_catalog_error x then merge_catalogs env force merged (Suc errors) es s' else (Inl x, s')
     | (Inr data, s') \<Rightarrow>
         (case contributed e data of
            Inl x \<Rightarrow> (Inl x, s')
          | Inr ws \<Rightarrow> merge_catalogs env force (assoc_update merged ws) errors es s'))"

definition get_merged_workflows :: "catalog_env \<Rightarrow> bool \<Rightarrow> (pyval \<times> pyval) list cop" where
  "get_merged_workflows env force =
     sbind (sget (\<lambda>s. get_active_catalogs env (cs_project s))) (\<lambda>r.
     sbind (slift r) (\<lambda>catalogs.
     sbind (merge_catalogs env force [] 0 (rev catalogs)) (\<lambda>(merged, errors).
     if errors = length catalogs \<and> catalogs \<noteq> []
     then sraise (wf_catalog_error ''All configured catalogs failed to fetch.'')
     else sret merged)))"

section \<open>Searching\<close>

definition setdefault_id :: "pyval \<Rightarrow> (pyval \<times> pyval) list \<Rightarrow> (pyval \<times> pyval) list" where
  "setdefault_id i d = (if has_field d ''id'' then d else assoc_set (PStr ''id'') i d)"

text \<open>\<open>'' ''.join\<close> of three values, which must be texts.\<close>

definition searchable :: "(pyval \<times> pyval) list \<Rightarrow> string py" where
  "searchable d =
     (let vs = [get_or d ''name'' (PStr ''''), get_or d ''description'' (PStr ''''), get_or d ''id'' (PStr '''')]
      in if list_all is_str vs then Inr (py_lower (join_with '' '' (map (\<lambda>v. case v of PStr t \<Rightarrow> t | _ \<Rightarrow> '''') vs)))
         else Inl type_error)"

definition lower_tags :: "(pyval \<times> pyval) list \<Rightarrow> string list" where
  "lower_tags d =
     (case get_or d ''tags'' (PList []) of
        PList ts \<Rightarrow> concat (map (\<lambda>v. case v of PStr t \<Rightarrow> [py_lower t] | _ \<Rightarrow> []) ts)
      | _ \<Rightarrow> [])"

text \<open>An empty query or tag is no filter.\<close>

definition matches :: "string \<Rightarrow> string \<Rightarrow> (pyval \<times> pyval) list \<Rightarrow> bool py" where
  "matches query tag d =
     rbind (if query = '''' then Inr True else rbind (searchable d) (\<lambda>t. Inr (has_sub (py_lower query) t))) (\<lambda>q.
     Inr (q \<and> (tag = '''' \<or> py_lower tag \<in> set (lower_tags d))))"

fun search_results :: "string \<Rightarrow> string \<Rightarrow> (pyval \<times> pyval) list \<Rightarrow> pyval list py" where
  "search_results query tag [] = Inr []"
| "search_results query tag ((i, v) # r) =
     rbind (as_dict v) (\<lambda>d.
     let d' = setdefault_id i d in
     rbind (matches query tag d') (\<lambda>ok.
     rbind (search_results query tag r) (\<lambda>vs.
     Inr (if ok then PDict d' # vs else vs))))"

definition search_workflows :: "catalog_env \<Rightarrow> string \<Rightarrow> string \<Rightarrow> pyval list cop" where
  "search_workflows env query tag =
     sbind (get_merged_workflows env False) (\<lambda>merged. slift (search_results query tag merged))"

definition get_workflow_info :: "catalog_env \<Rightarrow> string \<Rightarrow> pyval cop" where
  "get_workflow_info env i =
     sbind (get_merged_workflows env False) (\<lambda>merged.
     sret (case assoc_get merged (PStr i) of
         Some (PDict d) \<Rightarrow> if d = [] then PDict [] else PDict (setdefault_id (PStr i) d)
       | Some v \<Rightarrow> v
       | None \<Rightarrow> PNone))"

definition catalog_config :: "catalog_entry \<Rightarrow> pyval" where
  "catalog_config e = PDict (obj
     [(''name'', PStr (ce_name e)), (''url'', PStr (ce_url e)), (''priority'', PInt (ce_priority e)),
      (''install_allowed'', PBool (ce_install_allowed e)), (''description'', PStr (ce_description e))])"

definition get_catalog_configs :: "catalog_env \<Rightarrow> pyval list cop" where
  "get_catalog_configs env =
     sbind (sget (\<lambda>s. get_active_catalogs env (cs_project s))) (\<lambda>r. sbind (slift r) (\<lambda>es. sret (map catalog_config es)))"

section \<open>The project's sources\<close>

text \<open>\<open>max(vs, default = 0)\<close>, and \<open>v + 1\<close>.\<close>

fun py_max :: "pyval \<Rightarrow> pyval list \<Rightarrow> pyval py" where
  "py_max m [] = Inr m"
| "py_max m (v # vs) = (case py_compare Gt v m of None \<Rightarrow> Inl type_error | Some b \<Rightarrow> py_max (if b then v else m) vs)"

definition plus_one :: "pyval \<Rightarrow> pyval py" where
  "plus_one v =
     (case v of
        PInt n \<Rightarrow> Inr (PInt (n + 1))
      | PBool b \<Rightarrow> Inr (PInt (if b then 2 else 1))
      | PFloat f \<Rightarrow> Inr (PFloat (float_sub f (Fin (- 1) 0)))
      | _ \<Rightarrow> Inl type_error)"

definition dict_items :: "pyval list \<Rightarrow> (pyval \<times> pyval) list list" where
  "dict_items vs = concat (map (\<lambda>v. case v of PDict d \<Rightarrow> [d] | _ \<Rightarrow> []) vs)"

definition next_priority :: "pyval list \<Rightarrow> pyval py" where
  "next_priority catalogs =
     rbind (case map (\<lambda>d. get_or d ''priority'' (PInt 0)) (dict_items catalogs) of
        [] \<Rightarrow> Inr (PInt 0) | p # ps \<Rightarrow> py_max p ps) plus_one"

text \<open>The file as the two editing operations read it.\<close>

definition config_file :: "yaml_file \<Rightarrow> pyval py" where
  "config_file f = (case f of YamlAbsent \<Rightarrow> Inr PNone | YamlFails n m \<Rightarrow> Inl (PyExc n m) | YamlValue v \<Rightarrow> Inr v)"

definition catalogs_of :: "(pyval \<times> pyval) list \<Rightarrow> pyval list py" where
  "catalogs_of data =
     (case get_or data ''catalogs'' (PList []) of
        PList cs \<Rightarrow> Inr cs
      | _ \<Rightarrow> Inl (wf_validation_error (''Catalog config '' @ in_quotes ''catalogs'' @ '' must be a list.'')))"

definition corrupted_config :: pyexn where
  "corrupted_config = wf_validation_error ''Catalog config file is corrupted (expected a mapping).''"

definition added_catalogs :: "catalog_env \<Rightarrow> string \<Rightarrow> string \<Rightarrow> yaml_file \<Rightarrow> pyval py" where
  "added_catalogs env url name file =
     rbind (wf_validate_url env url) (\<lambda>_.
     rbind (case file of
          YamlAbsent \<Rightarrow> Inr (obj [(''catalogs'', PList [])])
        | _ \<Rightarrow> rbind (config_file file) (\<lambda>raw. case raw of PDict d \<Rightarrow> Inr d | _ \<Rightarrow> Inl corrupted_config)) (\<lambda>data.
     rbind (catalogs_of data) (\<lambda>catalogs.
     if list_ex (\<lambda>d. field d ''url'' = Some (PStr url)) (dict_items catalogs)
     then Inl (wf_validation_error (''Catalog URL already configured: '' @ url))
     else rbind (next_priority catalogs) (\<lambda>priority.
       let e = PDict (obj [(''name'', PStr (if name = '''' then ''catalog-'' @ show_int (int (length catalogs) + 1) else name)),
            (''url'', PStr url), (''priority'', priority), (''install_allowed'', PBool True), (''description'', PStr '''')])
       in Inr (PDict (assoc_set (PStr ''catalogs'') (PList (catalogs @ [e])) data))))))"

text \<open>A missing name is the empty one.\<close>

definition add_catalog :: "catalog_env \<Rightarrow> string \<Rightarrow> string \<Rightarrow> unit cop" where
  "add_catalog env url name =
     sbind (sget (\<lambda>s. added_catalogs env url name (cs_project s))) (\<lambda>r.
     sbind (slift r) (\<lambda>v. smodify (\<lambda>s. s\<lparr>cs_project := YamlValue v\<rparr>)))"

definition removed_catalog :: "int \<Rightarrow> yaml_file \<Rightarrow> (pyval \<times> pyval) py" where
  "removed_catalog index file =
     (case file of
        YamlAbsent \<Rightarrow> Inl (wf_validation_error ''No catalog config file found.'')
      | _ \<Rightarrow>
        rbind (config_file file) (\<lambda>raw.
        case py_or raw (PDict []) of
          PDict data \<Rightarrow>
            rbind (catalogs_of data) (\<lambda>catalogs.
            if index < 0 \<or> int (length catalogs) \<le> index
            then Inl (wf_validation_error (''Catalog index '' @ show_int index @ '' out of range (0-'' @
                   show_int (int (length catalogs) - 1) @ '').''))
            else let i = nat index; removed = catalogs ! i; rest = take i catalogs @ drop (Suc i) catalogs;
                     fallback = PStr (''catalog-'' @ show_int (index + 1)) in
              Inr (PDict (assoc_set (PStr ''catalogs'') (PList rest) data),
                   case removed of PDict d \<Rightarrow> get_or d ''name'' fallback | _ \<Rightarrow> fallback))
        | _ \<Rightarrow> Inl corrupted_config))"

definition remove_catalog :: "int \<Rightarrow> pyval cop" where
  "remove_catalog index =
     sbind (sget (\<lambda>s. removed_catalog index (cs_project s))) (\<lambda>r.
     sbind (slift r) (\<lambda>(v, name).
     sthen (smodify (\<lambda>s. s\<lparr>cs_project := YamlValue v\<rparr>)) (sret name)))"

section \<open>Installed workflows\<close>

text \<open>The registry object, its file and the clock.\<close>

record registry_state =
  rg_data :: pyval
  rg_file :: json_file
  rg_tick :: nat

type_synonym 'a rop = "(registry_state, pyexn, 'a) svc"

definition default_registry :: pyval where
  "default_registry = PDict (obj [(''schema_version'', PStr ''1.0''), (''workflows'', PDict [])])"

definition load_registry :: "json_file \<Rightarrow> pyval py" where
  "load_registry f =
     (case f of
        JsonAbsent \<Rightarrow> Inr default_registry
      | JsonOsError m \<Rightarrow> Inl (PyExc ''OSError'' m)
      | JsonDecodeError m \<Rightarrow> Inr default_registry
      | JsonValue v \<Rightarrow> Inr v)"

definition init_registry :: "json_file \<Rightarrow> registry_state py" where
  "init_registry f = rbind (load_registry f) (\<lambda>v. Inr \<lparr>rg_data = v, rg_file = f, rg_tick = 0\<rparr>)"

definition save_registry :: "unit rop" where
  "save_registry = smodify (\<lambda>s. s\<lparr>rg_file := JsonValue (to_json (rg_data s))\<rparr>)"

text \<open>\<open>self.data[''workflows'']\<close>.\<close>

definition workflows_value :: "pyval \<Rightarrow> pyval py" where
  "workflows_value v =
     (case v of
        PDict d \<Rightarrow> (case field d ''workflows'' of Some w \<Rightarrow> Inr w | None \<Rightarrow> Inl (PyExc ''KeyError'' ''workflows''))
      | _ \<Rightarrow> Inl type_error)"

definition set_workflows :: "pyval \<Rightarrow> pyval \<Rightarrow> pyval" where
  "set_workflows v ws = (case v of PDict d \<Rightarrow> PDict (assoc_set (PStr ''workflows'') ws d) | _ \<Rightarrow> v)"

definition registry_workflows :: "(pyval \<times> pyval) list rop" where
  "registry_workflows = sbind (sget (\<lambda>s. rbind (workflows_value (rg_data s)) as_dict)) slift"

definition clock_text :: "(nat \<Rightarrow> string) \<Rightarrow> string rop" where
  "clock_text now s = (Inr (now (rg_tick s)), s\<lparr>rg_tick := Suc (rg_tick s)\<rparr>)"

definition wf_registry_add :: "(nat \<Rightarrow> string) \<Rightarrow> string \<Rightarrow> (pyval \<times> pyval) list \<Rightarrow> unit rop" where
  "wf_registry_add now workflow_id metadata =
     sbind registry_workflows (\<lambda>ws.
     sbind (slift (as_dict (get_or ws workflow_id (PDict [])))) (\<lambda>existing.
     sbind (clock_text now) (\<lambda>t1.
     sbind (clock_text now) (\<lambda>t2.
     let m = assoc_set (PStr ''updated_at'') (PStr t2)
              (assoc_set (PStr ''installed_at'') (get_or existing ''installed_at'' (PStr t1)) metadata) in
     sthen (smodify (\<lambda>s. s\<lparr>rg_data := set_workflows (rg_data s) (PDict (assoc_set (PStr workflow_id) (PDict m) ws))\<rparr>))
     save_registry))))"

text \<open>\<open>del ws[key]\<close> of a key that is in \<open>ws\<close>.\<close>

definition del_key :: "pyval \<Rightarrow> string \<Rightarrow> pyval py" where
  "del_key ws key = (case ws of PDict d \<Rightarrow> Inr (PDict (List.filter (\<lambda>(k, _). \<not> py_eq k (PStr key)) d)) | _ \<Rightarrow> Inl type_error)"

definition wf_registry_remove :: "string \<Rightarrow> bool rop" where
  "wf_registry_remove workflow_id =
     sbind (sget (\<lambda>s. workflows_value (rg_data s))) (\<lambda>r.
     sbind (slift r) (\<lambda>ws.
     sbind (slift (py_in (PStr workflow_id) ws)) (\<lambda>found.
     if found
     then sbind (slift (del_key ws workflow_id)) (\<lambda>ws'.
          sthen (smodify (\<lambda>s. s\<lparr>rg_data := set_workflows (rg_data s) ws'\<rparr>))
         (sthen save_registry (sret True)))
     else sret False)))"

definition wf_registry_get :: "string \<Rightarrow> pyval rop" where
  "wf_registry_get workflow_id = sbind registry_workflows (\<lambda>ws. sret (get_none ws workflow_id))"

text \<open>\<open>dict(v)\<close>: a mapping, or an iterable of pairs.\<close>

definition pair_of :: "pyval \<Rightarrow> (pyval \<times> pyval) py" where
  "pair_of v = rbind (py_iter v) (\<lambda>xs. case xs of
     [k, w] \<Rightarrow> if hashable k then Inr (k, w) else Inl type_error
   | _ \<Rightarrow> Inl (value_error ''''))"

definition py_dict :: "pyval \<Rightarrow> (pyval \<times> pyval) list py" where
  "py_dict v = (case v of PDict d \<Rightarrow> Inr d | _ \<Rightarrow>
     rbind (py_iter v) (\<lambda>xs. rbind (rmap pair_of xs) (\<lambda>ps. Inr (assoc_update [] ps))))"

definition wf_registry_list :: "(pyval \<times> pyval) list rop" where
  "wf_registry_list = sbind (sget (\<lambda>s. rbind (workflows_value (rg_data s)) py_dict)) slift"

definition wf_registry_is_installed :: "string \<Rightarrow> bool rop" where
  "wf_registry_is_installed workflow_id =
     sbind (sget (\<lambda>s. rbind (workflows_value (rg_data s)) (py_in (PStr workflow_id)))) slift"

end
