(* ===== verification/IntegrationCatalog.thy ===== *)
theory IntegrationCatalog
  imports WorkflowCatalog FileTree WfDefinition
begin

text \<open>
  \<open>specify_cli/integrations/catalog.py\<close>: the same for integrations, on the shared stack of \<open>Catalogs\<close>,
  and the descriptor \<open>integration.yml\<close>. Warnings on the error stream are left out.
\<close>

section \<open>Sources\<close>

definition integration_stack :: stack_class where
  "integration_stack =
     \<lparr>error_type = ''IntegrationCatalogError'', validation_error_type = ''IntegrationValidationError'',
      config_filename = ''integration-catalogs.yml''\<rparr>"

abbreviation ic_error :: "string \<Rightarrow> pyexn" where
  "ic_error msg \<equiv> PyExc ''IntegrationCatalogError'' msg"

abbreviation ic_validation_error :: "string \<Rightarrow> pyexn" where
  "ic_validation_error msg \<equiv> PyExc ''IntegrationValidationError'' msg"

definition is_ic_error :: "pyexn \<Rightarrow> bool" where
  "is_ic_error e = (case e of PyExc n _ \<Rightarrow> n \<in> {''IntegrationCatalogError'', ''IntegrationValidationError''} | _ \<Rightarrow> False)"

definition ic_validate_url :: "catalog_env \<Rightarrow> string \<Rightarrow> unit py" where
  "ic_validate_url env url = validate_catalog_url (ca_ip_ok env) ''IntegrationCatalogError'' url"

definition ic_load_config :: "catalog_env \<Rightarrow> string \<Rightarrow> yaml_file \<Rightarrow> catalog_entry list option py" where
  "ic_load_config env = load_catalog_config (ca_ip_ok env) integration_stack"

definition ic_default_catalogs :: "catalog_entry list" where
  "ic_default_catalogs =
     [\<lparr>ce_url = ''https://raw.githubusercontent.com/github/spec-kit/main/integrations/catalog.json'',
       ce_name = ''default'', ce_priority = 1, ce_install_allowed = True,
       ce_description = ''Built-in catalog of installable integrations''\<rparr>,
      \<lparr>ce_url = ''https://raw.githubusercontent.com/github/spec-kit/main/integrations/catalog.community.json'',
       ce_name = ''community'', ce_priority = 2, ce_install_allowed = False,
       ce_description = ''Community-contributed integrations (discovery only)''\<rparr>]"

definition ic_active_catalogs :: "catalog_env \<Rightarrow> yaml_file \<Rightarrow> catalog_entry list py" where
  "ic_active_catalogs env project =
     (let env_value = py_strip (ca_env_url env) in
      if env_value \<noteq> ''''
      then rbind (ic_validate_url env env_value) (\<lambda>_.
        Inr [\<lparr>ce_url = env_value, ce_name = ''custom'', ce_priority = 1, ce_install_allowed = True,
              ce_description = ''Custom catalog via SPECKIT_INTEGRATION_CATALOG_URL''\<rparr>])
      else rbind (ic_load_config env (ca_project_path env) project) (\<lambda>p.
        case p of Some es \<Rightarrow> Inr es
        | None \<Rightarrow> rbind (ic_load_config env (ca_user_path env) (ca_user env)) (\<lambda>u.
          case u of Some es \<Rightarrow> Inr es | None \<Rightarrow> Inr ic_default_catalogs)))"

section \<open>Fetching\<close>

text \<open>
  \<open>age n t\<close>: how many seconds ago, at the n-th look at the clock, the instant was that the ISO text names
  (\<open>None\<close>: it names none, and \<open>fromisoformat\<close> raises).
\<close>

definition ic_cache_paths :: "catalog_env \<Rightarrow> string \<Rightarrow> string \<times> string" where
  "ic_cache_paths env url =
     (let h = take 16 (ca_hash env url) in (''catalog-'' @ h @ ''.json'', ''catalog-'' @ h @ ''-metadata.json''))"

text \<open>What the cache says: a value to use, nothing usable but left alone, or damaged.\<close>

datatype cache_answer = UseCached pyval | Outdated | Damaged

definition ic_cached :: "catalog_env \<Rightarrow> (nat \<Rightarrow> string \<Rightarrow> pyfloat option) \<Rightarrow> string \<Rightarrow> cache_answer cop" where
  "ic_cached env age url =
     (let paths = ic_cache_paths env url in
      sbind (sget (\<lambda>s. (map_of (cs_cache s) (fst paths), map_of (cs_cache s) (snd paths)))) (\<lambda>files.
      case files of
        (Some file, Some (CacheValue (PDict meta))) \<Rightarrow>
          (case get_or meta ''cached_at'' (PStr '''') of
             PStr t \<Rightarrow>
               sbind (tick_cat (\<lambda>n. age n t)) (\<lambda>a. sret (case a of
                 None \<Rightarrow> Damaged
               | Some f \<Rightarrow>
                   if float_cmp f (exact_num CACHE_DURATION) < 0
                   then (case file of CacheValue v \<Rightarrow> UseCached v | _ \<Rightarrow> Damaged)
                   else Outdated))
           | _ \<Rightarrow> sret Damaged)
      | (Some _, Some _) \<Rightarrow> sret Damaged
      | _ \<Rightarrow> sret Outdated))"

definition drop_cache :: "catalog_env \<Rightarrow> string \<Rightarrow> unit cop" where
  "drop_cache env url =
     smodify (\<lambda>s. s\<lparr>cs_cache := List.filter (\<lambda>(k, _). k \<noteq> fst (ic_cache_paths env url) \<and>
        k \<noteq> snd (ic_cache_paths env url)) (cs_cache s)\<rparr>)"

definition ic_check_data :: "string \<Rightarrow> pyval \<Rightarrow> unit py" where
  "ic_check_data url data =
     (case data of
        PDict d \<Rightarrow>
          if \<not> has_field d ''schema_version'' \<or> \<not> has_field d ''integrations''
          then Inl (ic_error (''Invalid catalog format from '' @ url))
          else if \<not> is_dict (get_none d ''integrations'')
          then Inl (ic_error (''Invalid catalog format from '' @ url @ '': '' @ in_quotes ''integrations'' @ '' must be a JSON object''))
          else Inr ()
      | _ \<Rightarrow> Inl (ic_error (''Invalid catalog format from '' @ url @ '': expected a JSON object'')))"

definition ic_response :: "catalog_env \<Rightarrow> string \<Rightarrow> fetched \<Rightarrow> pyval py" where
  "ic_response env url r =
     (case r of
        UrlError m \<Rightarrow> Inl (ic_error (''Failed to fetch catalog from '' @ url @ '': '' @ m))
      | FetchRaises n m \<Rightarrow> Inl (PyExc n m)
      | Response final body \<Rightarrow>
          rbind (if final \<noteq> url then ic_validate_url env final else Inr ()) (\<lambda>_.
          case body of
            BodyNoJson m \<Rightarrow> Inl (ic_error (''Invalid JSON in catalog from '' @ url @ '': '' @ m))
          | BodyRaises n m \<Rightarrow> Inl (PyExc n m)
          | BodyValue v \<Rightarrow> rbind (ic_check_data url v) (\<lambda>_. Inr v)))"

definition ic_download :: "catalog_env \<Rightarrow> (nat \<Rightarrow> string) \<Rightarrow> catalog_entry \<Rightarrow> pyval cop" where
  "ic_download env now e =
     sbind (tick_cat (\<lambda>n. ic_response env (ce_url e) (ca_open env n (ce_url e)))) (\<lambda>r.
     sbind (slift r) (\<lambda>data.
     sbind (tick_cat now) (\<lambda>t.
     sthen (smodify (\<lambda>s. s\<lparr>cs_cache :=
          dict_set (snd (ic_cache_paths env (ce_url e)))
            (CacheValue (PDict (obj [(''cached_at'', PStr t), (''catalog_url'', PStr (ce_url e))])))
         (dict_set (fst (ic_cache_paths env (ce_url e))) (CacheValue data) (cs_cache s))\<rparr>))
     (sret data))))"

definition ic_fetch_single ::
  "catalog_env \<Rightarrow> (nat \<Rightarrow> string \<Rightarrow> pyfloat option) \<Rightarrow> (nat \<Rightarrow> string) \<Rightarrow> catalog_entry \<Rightarrow> bool \<Rightarrow> pyval cop" where
  "ic_fetch_single env age now e force_refresh =
     sbind (if force_refresh then sret Outdated else ic_cached env age (ce_url e)) (\<lambda>c.
     case c of
       UseCached v \<Rightarrow> sret v
     | Outdated \<Rightarrow> ic_download env now e
     | Damaged \<Rightarrow> sthen (drop_cache env (ce_url e)) (ic_download env now e))"

section \<open>The merged view\<close>

definition ic_tagged :: "catalog_entry \<Rightarrow> pyval \<Rightarrow> (pyval \<times> pyval) list \<Rightarrow> pyval" where
  "ic_tagged e i d = PDict (assoc_update d [(PStr ''id'', i), (PStr ''_catalog_name'', PStr (ce_name e)),
     (PStr ''_install_allowed'', PBool (ce_install_allowed e))])"

fun ic_mapped :: "catalog_entry \<Rightarrow> (pyval \<times> pyval) list \<Rightarrow> (pyval \<times> pyval) list" where
  "ic_mapped e [] = []"
| "ic_mapped e ((i, v) # r) = (case v of PDict d \<Rightarrow> (i, ic_tagged e i d) # ic_mapped e r | _ \<Rightarrow> ic_mapped e r)"

definition ic_contributed :: "catalog_entry \<Rightarrow> pyval \<Rightarrow> (pyval \<times> pyval) list py" where
  "ic_contributed e data =
     rbind (as_dict data) (\<lambda>d. rbind (as_dict (get_or d ''integrations'' (PDict []))) (\<lambda>is. Inr (ic_mapped e is)))"

text \<open>Only ids that are not there yet.\<close>

definition add_missing :: "(pyval \<times> pyval) list \<Rightarrow> (pyval \<times> pyval) list \<Rightarrow> (pyval \<times> pyval) list" where
  "add_missing merged is = fold (\<lambda>(i, v) m. if assoc_get m i = None then m @ [(i, v)] else m) is merged"

fun ic_merge ::
  "catalog_env \<Rightarrow> (nat \<Rightarrow> string \<Rightarrow> pyfloat option) \<Rightarrow> (nat \<Rightarrow> string) \<Rightarrow> bool \<Rightarrow>
   (pyval \<times> pyval) list \<Rightarrow> bool \<Rightarrow> catalog_entry list \<Rightarrow> ((pyval \<times> pyval) list \<times> bool) cop" where
  "ic_merge env age now force merged any_success [] = sret (merged, any_success)"
| "ic_merge env age now force merged any_success (e # es) = (\<lambda>s.
     case ic_fetch_single env age now e force s of
       (Inl x, s') \<Rightarrow> if is_ic_error x then ic_merge env age now force merged any_success es s' else (Inl x, s')
     | (Inr data, s') \<Rightarrow>
         (case ic_contributed e data of
            Inl x \<Rightarrow> (Inl x, s')
          | Inr is \<Rightarrow> ic_merge env age now force (add_missing merged is) True es s'))"

definition get_merged_integrations ::
  "catalog_env \<Rightarrow> (nat \<Rightarrow> string \<Rightarrow> pyfloat option) \<Rightarrow> (nat \<Rightarrow> string) \<Rightarrow> bool \<Rightarrow> (pyval \<times> pyval) list cop" where
  "get_merged_integrations env age now force =
     sbind (sget (\<lambda>s. ic_active_catalogs env (cs_project s))) (\<lambda>r.
     sbind (slift r) (\<lambda>active.
     sbind (ic_merge env age now force [] False active) (\<lambda>(merged, any_success).
     if \<not> any_success \<and> active \<noteq> [] then sraise (ic_error ''Failed to fetch any integration catalog'')
     else sret merged)))"

section \<open>Searching\<close>

text \<open>A value as text where it is not empty.\<close>

definition text_or_empty :: "pyval \<Rightarrow> string" where
  "text_or_empty v = (if truthy v then py_str v else '''')"

definition str_tags :: "(pyval \<times> pyval) list \<Rightarrow> string list" where
  "str_tags d = (case get_or d ''tags'' (PList []) of
     PList ts \<Rightarrow> concat (map (\<lambda>v. case v of PStr t \<Rightarrow> [t] | _ \<Rightarrow> []) ts) | _ \<Rightarrow> [])"

definition author_text :: "(pyval \<times> pyval) list \<Rightarrow> string" where
  "author_text d = (case get_or d ''author'' (PStr '''') of PStr t \<Rightarrow> t | PNone \<Rightarrow> '''' | v \<Rightarrow> py_str v)"

definition haystack :: "(pyval \<times> pyval) list \<Rightarrow> string" where
  "haystack d = py_lower (join_with '' ''
     ([text_or_empty (get_or d ''name'' (PStr '''')), text_or_empty (get_or d ''description'' (PStr '''')),
       text_or_empty (get_or d ''id'' (PStr ''''))] @ str_tags d))"

definition ic_matches :: "string \<Rightarrow> string \<Rightarrow> string \<Rightarrow> (pyval \<times> pyval) list \<Rightarrow> bool" where
  "ic_matches query tag author d \<longleftrightarrow>
     (author = '''' \<or> py_lower (author_text d) = py_lower author) \<and>
     (tag = '''' \<or> py_lower tag \<in> set (map py_lower (str_tags d))) \<and>
     (query = '''' \<or> has_sub (py_lower query) (haystack d))"

definition search_integrations ::
  "catalog_env \<Rightarrow> (nat \<Rightarrow> string \<Rightarrow> pyfloat option) \<Rightarrow> (nat \<Rightarrow> string) \<Rightarrow> string \<Rightarrow> string \<Rightarrow> string \<Rightarrow> pyval list cop" where
  "search_integrations env age now query tag author =
     sbind (get_merged_integrations env age now False) (\<lambda>merged.
     sret (List.filter (\<lambda>v. case v of PDict d \<Rightarrow> ic_matches query tag author d | _ \<Rightarrow> False) (map snd merged)))"

definition get_integration_info ::
  "catalog_env \<Rightarrow> (nat \<Rightarrow> string \<Rightarrow> pyfloat option) \<Rightarrow> (nat \<Rightarrow> string) \<Rightarrow> string \<Rightarrow> pyval cop" where
  "get_integration_info env age now i =
     sbind (get_merged_integrations env age now False) (\<lambda>merged.
     sret (case List.find (\<lambda>v. case v of PDict d \<Rightarrow> py_eq (get_none d ''id'') (PStr i) | _ \<Rightarrow> False) (map snd merged) of
         Some v \<Rightarrow> v | None \<Rightarrow> PNone))"

text \<open>\<open>clear_cache\<close>: the files \<open>catalog-*.json\<close>, which are all this class writes.\<close>

definition ic_clear_cache :: "unit cop" where
  "ic_clear_cache = smodify (\<lambda>s. s\<lparr>cs_cache :=
     List.filter (\<lambda>(k, _). \<not> (starts_with ''catalog-'' k \<and> ends_with ''.json'' k)) (cs_cache s)\<rparr>)"

definition ic_catalog_configs :: "catalog_env \<Rightarrow> pyval list cop" where
  "ic_catalog_configs env =
     sbind (sget (\<lambda>s. ic_active_catalogs env (cs_project s))) (\<lambda>r. sbind (slift r) (\<lambda>es. sret (map catalog_config es)))"

definition ic_project_configs :: "catalog_env \<Rightarrow> pyval list option cop" where
  "ic_project_configs env =
     sbind (sget (\<lambda>s. ic_load_config env (ca_project_path env) (cs_project s))) (\<lambda>r.
     sbind (slift r) (\<lambda>es. sret (map_option (map catalog_config) es)))"

section \<open>The project's sources\<close>

text \<open>\<open>yaml.safe_load\<close> of the file for the two editing operations; an empty file is an empty mapping.\<close>

definition ic_config_data :: "string \<Rightarrow> yaml_file \<Rightarrow> (pyval \<times> pyval) list py" where
  "ic_config_data path f =
     (case f of
        YamlFails _ exc \<Rightarrow> Inl (ic_validation_error (''Failed to read catalog config '' @ path @ '': '' @ exc))
      | YamlValue (PDict d) \<Rightarrow> Inr d
      | YamlValue PNone \<Rightarrow> Inr []
      | YamlValue _ \<Rightarrow> Inl (ic_validation_error (''Catalog config file '' @ path @ '' is corrupted (expected a mapping).''))
      | YamlAbsent \<Rightarrow> Inr (obj [(''catalogs'', PList [])]))"

definition ic_catalogs_of :: "string \<Rightarrow> (pyval \<times> pyval) list \<Rightarrow> pyval list py" where
  "ic_catalogs_of path data =
     (case get_or data ''catalogs'' (PList []) of
        PList cs \<Rightarrow> Inr cs
      | _ \<Rightarrow> Inl (ic_validation_error (''Catalog config '' @ path @ '' has invalid '' @ in_quotes ''catalogs'' @ '' value: must be a list.'')))"

definition entry_url :: "(pyval \<times> pyval) list \<Rightarrow> string" where
  "entry_url d = py_strip (py_str (get_or d ''url'' (PStr '''')))"

text \<open>
  One existing entry before another is added: nothing to check (no URL), or its priority, given or by its
  place.
\<close>

definition existing_entry :: "catalog_env \<Rightarrow> string \<Rightarrow> string \<Rightarrow> nat \<Rightarrow> pyval \<Rightarrow> int option py" where
  "existing_entry env path url idx cat =
     (let pre = ''Invalid catalog entry at index '' @ show_int (int idx) @ '' in '' @ path @ '': '' in
      case cat of
        PDict d \<Rightarrow>
          if entry_url d = '''' then Inr None
          else (case ic_validate_url env (entry_url d) of
            Inl e \<Rightarrow> (case e of PyExc n m \<Rightarrow> if is_ic_error e then Inl (ic_validation_error (pre @ m)) else Inl e | _ \<Rightarrow> Inl e)
          | Inr _ \<Rightarrow>
             if entry_url d = url then Inl (ic_validation_error (''Catalog URL already configured: '' @ url))
             else (case field d ''priority'' of
                 None \<Rightarrow> Inr (Some (int idx + 1))
               | Some raw \<Rightarrow>
                   if is_bool raw
                   then Inl (ic_validation_error (pre @ in_quotes ''priority'' @ '' must be an integer, got '' @ type_name raw @ ''.''))
                   else rbind (int_or (ic_validation_error (pre @ in_quotes ''priority'' @ '' must be an integer, got '' @
                          py_repr raw @ ''.'')) raw) (\<lambda>n. Inr (Some n))))
      | _ \<Rightarrow> Inl (ic_validation_error (pre @ ''expected a mapping, got '' @ type_name cat @ ''.'')))"

fun existing_priorities :: "(nat \<Rightarrow> pyval \<Rightarrow> int option py) \<Rightarrow> nat \<Rightarrow> pyval list \<Rightarrow> int list py" where
  "existing_priorities f idx [] = Inr []"
| "existing_priorities f idx (c # cs) =
     rbind (f idx c) (\<lambda>p. rbind (existing_priorities f (Suc idx) cs) (\<lambda>ps.
     Inr (case p of Some n \<Rightarrow> n # ps | None \<Rightarrow> ps)))"

definition max_or_zero :: "int list \<Rightarrow> int" where
  "max_or_zero ps = (case ps of [] \<Rightarrow> 0 | p # qs \<Rightarrow> fold max qs p)"

definition ic_added :: "catalog_env \<Rightarrow> string \<Rightarrow> string option \<Rightarrow> yaml_file \<Rightarrow> pyval py" where
  "ic_added env raw_url name file =
     (let url = py_strip raw_url; path = ca_project_path env in
      if url = '''' then Inl (ic_validation_error ''Catalog URL must be non-empty.'')
      else rbind (ic_validate_url env url) (\<lambda>_.
        rbind (ic_config_data path file) (\<lambda>data.
        rbind (ic_catalogs_of path data) (\<lambda>catalogs.
        rbind (existing_priorities (existing_entry env path url) 0 catalogs) (\<lambda>ps.
        let given = (case name of Some n \<Rightarrow> py_strip n | None \<Rightarrow> '''');
            e = PDict (obj [(''name'', PStr (if given = '''' then ''catalog-'' @ show_int (int (length ps) + 1) else given)),
              (''url'', PStr url), (''priority'', PInt (max_or_zero ps + 1)), (''install_allowed'', PBool True),
              (''description'', PStr '''')])
        in Inr (PDict (assoc_set (PStr ''catalogs'') (PList (catalogs @ [e])) data)))))))"

definition ic_add_catalog :: "catalog_env \<Rightarrow> string \<Rightarrow> string option \<Rightarrow> unit cop" where
  "ic_add_catalog env url name =
     sbind (sget (\<lambda>s. ic_added env url name (cs_project s))) (\<lambda>r.
     sbind (slift r) (\<lambda>v. smodify (\<lambda>s. s\<lparr>cs_project := YamlValue v\<rparr>)))"

definition removable :: "pyval \<Rightarrow> bool" where
  "removable item =
     (case item of PDict d \<Rightarrow> (case get_none d ''url'' of PNone \<Rightarrow> False | u \<Rightarrow> py_strip (py_str u) \<noteq> '''') | _ \<Rightarrow> False)"

definition display_priority :: "nat \<Rightarrow> (pyval \<times> pyval) list \<Rightarrow> int py" where
  "display_priority idx d =
     (let raw = get_or d ''priority'' (PInt (int idx + 1)) in
      if is_bool raw then Inr (int idx + 1)
      else (case int_or type_error raw of
          Inr n \<Rightarrow> Inr n
        | Inl e \<Rightarrow> if e = type_error then Inr (int idx + 1) else Inl e))"

text \<open>Priorities and places of the entries that can be removed.\<close>

fun priority_pairs :: "nat \<Rightarrow> pyval list \<Rightarrow> (int \<times> nat) list py" where
  "priority_pairs idx [] = Inr []"
| "priority_pairs idx (item # items) =
     (if removable item
      then (case item of
          PDict d \<Rightarrow> rbind (display_priority idx d) (\<lambda>p. rbind (priority_pairs (Suc idx) items) (\<lambda>ps. Inr ((p, idx) # ps)))
        | _ \<Rightarrow> priority_pairs (Suc idx) items)
      else priority_pairs (Suc idx) items)"

definition removed_name :: "int \<Rightarrow> pyval \<Rightarrow> string" where
  "removed_name index removed =
     (let fallback = ''catalog-'' @ show_int (index + 1) in
      case removed of
        PDict d \<Rightarrow>
          (let txt = (\<lambda>n. case get_none d n of PNone \<Rightarrow> '''' | v \<Rightarrow> py_strip (py_str v)) in
           if txt ''name'' \<noteq> '''' then txt ''name'' else if txt ''url'' \<noteq> '''' then txt ''url'' else fallback)
      | _ \<Rightarrow> fallback)"

text \<open>The new file, which is deleted when no source is left, and the name of the removed source.\<close>

definition ic_removed :: "catalog_env \<Rightarrow> int \<Rightarrow> yaml_file \<Rightarrow> (yaml_file \<times> string) py" where
  "ic_removed env index file =
     (let path = ca_project_path env in
      if file = YamlAbsent then Inl (ic_validation_error ''No catalog config file found.'')
      else rbind (ic_config_data path file) (\<lambda>data.
        rbind (ic_catalogs_of path data) (\<lambda>catalogs.
        if catalogs = [] then Inl (ic_validation_error ''Catalog config contains no catalog entries.'')
        else rbind (priority_pairs 0 catalogs) (\<lambda>pairs.
          if pairs = [] then Inl (ic_validation_error ''Catalog config contains no removable catalog entries.'')
          else let order = map snd (sort_key fst pairs) in
            if index < 0 \<or> int (length order) \<le> index
            then Inl (ic_validation_error (''Catalog index '' @ show_int index @ '' out of range (0-'' @
                   show_int (int (length order) - 1) @ '').''))
            else let i = order ! nat index; rest = take i catalogs @ drop (Suc i) catalogs in
              Inr (if list_ex removable rest then YamlValue (PDict (assoc_set (PStr ''catalogs'') (PList rest) data)) else YamlAbsent,
                   removed_name index (catalogs ! i))))))"

definition ic_remove_catalog :: "catalog_env \<Rightarrow> int \<Rightarrow> string cop" where
  "ic_remove_catalog env index =
     sbind (sget (\<lambda>s. ic_removed env index (cs_project s))) (\<lambda>r.
     sbind (slift r) (\<lambda>(f, name).
     sthen (smodify (\<lambda>s. s\<lparr>cs_project := f\<rparr>)) (sret name)))"

section \<open>Descriptors\<close>

abbreviation ic_descriptor_error :: "string \<Rightarrow> pyexn" where
  "ic_descriptor_error msg \<equiv> PyExc ''IntegrationDescriptorError'' msg"

text \<open>The checks run in order; the first that finds something raises.\<close>

definition demand :: "bool \<Rightarrow> string \<Rightarrow> unit py" where
  "demand ok msg = (if ok then Inr () else Inl (ic_descriptor_error msg))"

fun each :: "('a \<Rightarrow> unit py) \<Rightarrow> 'a list \<Rightarrow> unit py" where
  "each f [] = Inr ()"
| "each f (x # xs) = rbind (f x) (\<lambda>_. each f xs)"

lemma each_Inr: "each f xs = Inr u \<longleftrightarrow> (\<forall>x \<in> set xs. f x = Inr ())"
  by (induction xs) (auto simp: rbind_Inr_iff)

definition descriptor_id :: "string \<Rightarrow> bool" where
  "descriptor_id = dollar (\<lambda>t. t \<noteq> [] \<and> list_all (\<lambda>c. lower_alnum c \<or> c = CHR ''-'') t)"

definition nonblank_str :: "pyval \<Rightarrow> bool" where
  "nonblank_str v = (case v of PStr t \<Rightarrow> py_strip t \<noteq> '''' | _ \<Rightarrow> False)"

definition safe_relative :: "string \<Rightarrow> bool" where
  "safe_relative t \<longleftrightarrow> \<not> is_absolute (parse_path t) \<and> ''..'' \<notin> set (path_parts (parse_path t))"

definition check_command_entry :: "pyval \<Rightarrow> unit py" where
  "check_command_entry cmd =
     (case cmd of
        PDict d \<Rightarrow>
          rbind (demand (has_field d ''name'' \<and> has_field d ''file'')
            (''Command entry missing '' @ in_quotes ''name'' @ '' or '' @ in_quotes ''file'')) (\<lambda>_.
          rbind (demand (nonblank_str (get_none d ''name'')) (''Command entry '' @ in_quotes ''name'' @ '' must be a non-empty string'')) (\<lambda>_.
          rbind (demand (nonblank_str (get_none d ''file'')) (''Command entry '' @ in_quotes ''file'' @ '' must be a non-empty string'')) (\<lambda>_.
          demand (safe_relative (py_str (get_none d ''file'')))
            (''Command entry '' @ in_quotes ''file'' @ '' must be a relative path without '' @ in_quotes ''..'' @ '': '' @ py_str (get_none d ''file'')))))
      | _ \<Rightarrow> Inl (ic_descriptor_error ''Each command entry must be a mapping''))"

definition check_script_entry :: "pyval \<Rightarrow> unit py" where
  "check_script_entry v =
     rbind (demand (nonblank_str v) ''Script entry must be a non-empty string'') (\<lambda>_.
     demand (safe_relative (py_str v)) (''Script entry must be a relative path without '' @ in_quotes ''..'' @ '': '' @ py_str v))"

definition check_tool :: "pyval \<Rightarrow> unit py" where
  "check_tool v =
     (case v of
        PDict d \<Rightarrow> demand (nonblank_str (get_none d ''name'')) (''requires.tools entry '' @ in_quotes ''name'' @ '' must be a non-empty string'')
      | _ \<Rightarrow> Inl (ic_descriptor_error ''Each requires.tools entry must be a mapping''))"

definition check_identity :: "(string \<Rightarrow> bool) \<Rightarrow> pyval \<Rightarrow> unit py" where
  "check_identity version_ok integ =
     (case integ of
        PDict d \<Rightarrow>
          rbind (each (\<lambda>f.
             rbind (demand (has_field d f) (''Missing integration.'' @ f)) (\<lambda>_.
             demand (is_str (get_none d f)) (''integration.'' @ f @ '' must be a string, got '' @ type_name (get_none d f))))
             [''id'', ''name'', ''version'', ''description'']) (\<lambda>_.
          rbind (demand (descriptor_id (py_str (get_none d ''id''))) (''Invalid integration ID '' @ in_quotes (py_str (get_none d ''id'')) @
             '': must be lowercase alphanumeric with hyphens only'')) (\<lambda>_.
          demand (version_ok (py_str (get_none d ''version''))) (''Invalid version '' @ in_quotes (py_str (get_none d ''version'')))))
      | _ \<Rightarrow> Inl (ic_descriptor_error (in_quotes ''integration'' @ '' must be a mapping'')))"

definition check_requires :: "pyval \<Rightarrow> unit py" where
  "check_requires v =
     (case v of
        PDict d \<Rightarrow>
          rbind (demand (has_field d ''speckit_version'') ''Missing requires.speckit_version'') (\<lambda>_.
          rbind (demand (nonblank_str (get_none d ''speckit_version'')) ''requires.speckit_version must be a non-empty string'') (\<lambda>_.
          case get_none d ''tools'' of
            PNone \<Rightarrow> Inr ()
          | PList ts \<Rightarrow> each check_tool ts
          | _ \<Rightarrow> Inl (ic_descriptor_error ''requires.tools must be a list'')))
      | _ \<Rightarrow> Inl (ic_descriptor_error (in_quotes ''requires'' @ '' must be a mapping'')))"

fun list_items :: "pyval \<Rightarrow> pyval list" where
  "list_items (PList xs) = xs"
| "list_items _ = []"

definition check_provides :: "pyval \<Rightarrow> unit py" where
  "check_provides v =
     (case v of
        PDict d \<Rightarrow>
          (let commands = get_or d ''commands'' (PList []); scripts = get_or d ''scripts'' (PList []) in
           rbind (demand (is_list commands) ''Invalid provides.commands: expected a list'') (\<lambda>_.
           rbind (demand (is_list scripts) ''Invalid provides.scripts: expected a list'') (\<lambda>_.
           rbind (demand (truthy commands \<or> truthy scripts) ''Integration must provide at least one command or script'') (\<lambda>_.
           rbind (each check_command_entry (list_items commands)) (\<lambda>_.
           each check_script_entry (list_items scripts))))))
      | _ \<Rightarrow> Inl (ic_descriptor_error (in_quotes ''provides'' @ '' must be a mapping'')))"

definition validate_descriptor :: "(string \<Rightarrow> bool) \<Rightarrow> pyval \<Rightarrow> unit py" where
  "validate_descriptor version_ok data =
     (case data of
        PDict d \<Rightarrow>
          rbind (each (\<lambda>f. demand (has_field d f) (''Missing required field: '' @ f))
             [''schema_version'', ''integration'', ''requires'', ''provides'']) (\<lambda>_.
          rbind (demand (py_eq (get_none d ''schema_version'') (PStr ''1.0''))
             (''Unsupported schema version: '' @ py_str (get_none d ''schema_version'') @ '' (expected 1.0)'')) (\<lambda>_.
          rbind (check_identity version_ok (get_none d ''integration'')) (\<lambda>_.
          rbind (check_requires (get_none d ''requires'')) (\<lambda>_.
          check_provides (get_none d ''provides'')))))
      | _ \<Rightarrow> Inl (ic_descriptor_error (''Descriptor root must be a YAML mapping, got '' @ type_name data)))"

text \<open>The file: absent, unreadable, no YAML, or a value.\<close>

definition load_descriptor :: "(string \<Rightarrow> bool) \<Rightarrow> string \<Rightarrow> yaml_file \<Rightarrow> pyval py" where
  "load_descriptor version_ok path file =
     (case file of
        YamlAbsent \<Rightarrow> Inl (ic_descriptor_error (''Descriptor not found: '' @ path))
      | YamlFails n exc \<Rightarrow>
          Inl (ic_descriptor_error ((if n = ''YAMLError'' then ''Invalid YAML in '' else ''Unable to read descriptor '') @ path @ '': '' @ exc))
      | YamlValue v \<Rightarrow>
          (let data = py_or v (PDict []) in rbind (validate_descriptor version_ok data) (\<lambda>_. Inr data)))"

definition descriptor_commands :: "pyval \<Rightarrow> pyval py" where
  "descriptor_commands data =
     rbind (as_dict data) (\<lambda>d. rbind (as_dict (get_or d ''provides'' (PDict []))) (\<lambda>p. Inr (get_or p ''commands'' (PList []))))"

definition descriptor_scripts :: "pyval \<Rightarrow> pyval py" where
  "descriptor_scripts data =
     rbind (as_dict data) (\<lambda>d. rbind (as_dict (get_or d ''provides'' (PDict []))) (\<lambda>p. Inr (get_or p ''scripts'' (PList []))))"

definition descriptor_tools :: "pyval \<Rightarrow> pyval py" where
  "descriptor_tools data =
     rbind (as_dict data) (\<lambda>d. rbind (as_dict (get_or d ''requires'' (PDict []))) (\<lambda>r.
     Inr (py_or (get_none r ''tools'') (PList []))))"

end
