(* ===== verification/CatalogProps.thy ===== *)
theory CatalogProps
  imports IntegrationCatalog "HOL-Library.Multiset"
begin

text \<open>
  What the catalogs guarantee: only secure sources, the first source wins in both merged views, and the
  edits of the integration sources agree with what is loaded and shown.
\<close>

section \<open>Active sources\<close>

lemma default_catalogs_safe:
  "list_all (\<lambda>e. safe_source ip_ok (ce_url e)) default_catalogs"
  "list_all (\<lambda>e. safe_source ip_ok (ce_url e)) ic_default_catalogs"
  by (simp_all add: default_catalogs_def ic_default_catalogs_def DEFAULT_CATALOG_URL_def COMMUNITY_CATALOG_URL_def
      safe_source_def urlparse_def split_scheme_def clean_url_def starts_with_def scheme_char_def ascii_alnum_def
      upper_or_lower_def code_of_def lower_ascii_def has_sub_def netloc_char_def secure_def Let_def)

lemma wf_entry_safe: "wf_entry env idx cnt item = Inr (Some e) \<Longrightarrow> safe_source (ca_ip_ok env) (ce_url e)"
  by (auto simp: wf_entry_def wf_validate_url_def Let_def rbind_Inr_iff validate_catalog_url_iff split: pyval.splits if_splits)

lemma wf_load_config_InrD:
  assumes "wf_load_config env path file = Inr (Some es)"
  shows "es \<noteq> [] \<and> list_all (\<lambda>e. safe_source (ca_ip_ok env) (ce_url e)) es \<and> sorted (map ce_priority es)"
proof -
  from assms obtain data where d: "(let c = get_or data ''catalogs'' (PList []) in
        if \<not> truthy c then Inr None
        else (case c of
            PList items \<Rightarrow>
              rbind (stack_entries (wf_entry env) 0 [] items) (\<lambda>entries.
              if entries = []
              then Inl (wf_validation_error (''Catalog config '' @ path @ '' contains '' @ show_int (int (length items)) @
                     '' entries but none have valid URLs.''))
              else Inr (Some (sort_entries entries)))
          | _ \<Rightarrow> Inl (wf_validation_error (''Invalid catalog config: '' @ in_quotes ''catalogs'' @ '' must be a list, got '' @ type_name c)))) = Inr (Some es)"
    by (auto simp: wf_load_config_def rbind_Inr_iff split: yaml_file.splits)
  then obtain items where "get_or data ''catalogs'' (PList []) = PList items"
    by (cases "get_or data ''catalogs'' (PList [])") (auto simp: Let_def split: if_splits)
  with d obtain es0 where e: "stack_entries (wf_entry env) 0 [] items = Inr es0" "es0 \<noteq> []" "es = sort_entries es0"
    by (auto simp: Let_def rbind_Inr_iff split: if_splits)
  have "list_all (\<lambda>e. safe_source (ca_ip_ok env) (ce_url e)) es0"
    using stack_entries_all[OF wf_entry_safe e(1)] by simp
  then show ?thesis using e(2,3) by (auto simp: sort_entries_def list_all_iff) (metis set_sort set_empty)
qed

text \<open>C33. Whatever the environment variable and the two configuration files hold, the sources that become
  active, of workflows and of integrations, are at least one, all reached over an encrypted connection or
  on this machine and at a host, and in ascending order of priority.\<close>

theorem active_catalogs_are_secure:
  assumes "get_active_catalogs env project = Inr es \<or> ic_active_catalogs env project = Inr es"
  shows "es \<noteq> [] \<and> list_all (\<lambda>e. safe_source (ca_ip_ok env) (ce_url e)) es \<and> sorted (map ce_priority es)"
  using assms
proof
  assume "get_active_catalogs env project = Inr es"
  then show ?thesis
    using wf_load_config_InrD default_catalogs_safe(1)[of "ca_ip_ok env"]
    by (auto simp: get_active_catalogs_def Let_def rbind_Inr_iff wf_validate_url_def validate_catalog_url_iff default_catalogs_def
        split: if_splits option.splits)
next
  assume "ic_active_catalogs env project = Inr es"
  then show ?thesis
    using load_catalog_config_InrD default_catalogs_safe(2)[of "ca_ip_ok env"]
    by (auto simp: ic_active_catalogs_def Let_def rbind_Inr_iff ic_validate_url_def validate_catalog_url_iff ic_load_config_def
        ic_default_catalogs_def split: if_splits option.splits)
qed

definition sample_catalog_env :: catalog_env where
  "sample_catalog_env =
     \<lparr>ca_ip_ok = (\<lambda>_. True), ca_env_url = '''', ca_project_path = ''p'', ca_user_path = ''u'', ca_user = YamlAbsent,
      ca_hash = (\<lambda>u. rev u), ca_time = (\<lambda>_. Fin 1 12),
      ca_open = (\<lambda>_ u. Response u (BodyValue (PDict (obj [(''workflows'', PDict (obj [(''w'', PDict (obj [(''name'', PStr u)]))]))]))))\<rparr>"

definition source :: "string \<Rightarrow> pyval option \<Rightarrow> pyval" where
  "source url priority = PDict (obj ([(''url'', PStr url)] @ (case priority of Some p \<Rightarrow> [(''priority'', p)] | None \<Rightarrow> [])))"

definition sources :: "pyval list \<Rightarrow> yaml_file" where
  "sources cs = YamlValue (PDict (obj [(''catalogs'', PList cs)]))"

definition two_sources :: yaml_file where
  "two_sources = sources [source ''https://a'' (Some (PInt 2)), source ''http://localhost:8/b'' (Some (PStr ''1''))]"

definition source_entry :: "string \<Rightarrow> string \<Rightarrow> int \<Rightarrow> catalog_entry" where
  "source_entry url name p =
     \<lparr>ce_url = url, ce_name = name, ce_priority = p, ce_install_allowed = False, ce_description = ''''\<rparr>"

lemma two_sources_entries:
  "wf_entry sample_catalog_env 0 0 (source ''https://a'' (Some (PInt 2))) = Inr (Some (source_entry ''https://a'' ''catalog-1'' 2))"
  "wf_entry sample_catalog_env (Suc 0) (Suc 0) (source ''http://localhost:8/b'' (Some (PStr ''1''))) =
     Inr (Some (source_entry ''http://localhost:8/b'' ''catalog-2'' 1))"
  by code_simp+

lemma two_sources_active:
  "get_active_catalogs sample_catalog_env two_sources =
     Inr [source_entry ''http://localhost:8/b'' ''catalog-2'' 1, source_entry ''https://a'' ''catalog-1'' 2]"
proof -
  have "py_strip '''' = ''''" by (simp add: py_strip_def)
  then show ?thesis
    by (simp add: get_active_catalogs_def wf_load_config_def two_sources_def sources_def py_or_def obj_def get_or_def field_def
        two_sources_entries sort_entries_def source_entry_def Let_def)
      (simp add: sample_catalog_env_def)
qed

theorem active_catalogs_are_secure_witness:
  "list_all (\<lambda>e. safe_source (ca_ip_ok sample_catalog_env) (ce_url e))
     [source_entry ''http://localhost:8/b'' ''catalog-2'' 1, source_entry ''https://a'' ''catalog-1'' 2]"
  using active_catalogs_are_secure[OF disjI1[OF two_sources_active]] by blast

section \<open>The first source wins\<close>

text \<open>
  The reference: what every source, asked in the given order, contributes (\<open>None\<close> when it cannot be
  fetched), and the first of them, in the order of the list, that has an id.
\<close>

fun fetch_all ::
  "(catalog_entry \<Rightarrow> pyval cop) \<Rightarrow> (pyexn \<Rightarrow> bool) \<Rightarrow> (catalog_entry \<Rightarrow> pyval \<Rightarrow> (pyval \<times> pyval) list py) \<Rightarrow>
   catalog_entry list \<Rightarrow> (pyval \<times> pyval) list option list cop" where
  "fetch_all fetch caught contrib [] = sret []"
| "fetch_all fetch caught contrib (e # es) = (\<lambda>s.
     case fetch e s of
       (Inl x, s') \<Rightarrow>
         if caught x then sbind (fetch_all fetch caught contrib es) (\<lambda>r. sret (None # r)) s' else (Inl x, s')
     | (Inr data, s') \<Rightarrow>
         (case contrib e data of
            Inl x \<Rightarrow> (Inl x, s')
          | Inr ws \<Rightarrow> sbind (fetch_all fetch caught contrib es) (\<lambda>r. sret (Some ws # r)) s'))"

definition first_source :: "(pyval \<times> pyval) list option list \<Rightarrow> string \<Rightarrow> pyval option" where
  "first_source r i = first_some (\<lambda>o'. case o' of None \<Rightarrow> None | Some ws \<Rightarrow> assoc_get ws (PStr i)) r"

abbreviation wf_fetch_all :: "catalog_env \<Rightarrow> bool \<Rightarrow> catalog_entry list \<Rightarrow> (pyval \<times> pyval) list option list cop" where
  "wf_fetch_all env force \<equiv> fetch_all (\<lambda>e. fetch_single_catalog env e force) is_catalog_error contributed"

abbreviation ic_fetch_all ::
  "catalog_env \<Rightarrow> (nat \<Rightarrow> string \<Rightarrow> pyfloat option) \<Rightarrow> (nat \<Rightarrow> string) \<Rightarrow> bool \<Rightarrow> catalog_entry list \<Rightarrow>
   (pyval \<times> pyval) list option list cop" where
  "ic_fetch_all env age now force \<equiv> fetch_all (\<lambda>e. ic_fetch_single env age now e force) is_ic_error ic_contributed"

definition overwrite :: "(pyval \<times> pyval) list option list \<Rightarrow> (pyval \<times> pyval) list \<Rightarrow> (pyval \<times> pyval) list" where
  "overwrite r m = fold (\<lambda>o' m. case o' of None \<Rightarrow> m | Some ws \<Rightarrow> assoc_update m ws) r m"

definition supplement :: "(pyval \<times> pyval) list option list \<Rightarrow> (pyval \<times> pyval) list \<Rightarrow> (pyval \<times> pyval) list" where
  "supplement r m = fold (\<lambda>o' m. case o' of None \<Rightarrow> m | Some ws \<Rightarrow> add_missing m ws) r m"

lemma merge_catalogs_fetch_all:
  "merge_catalogs env force m n es s =
     sbind (wf_fetch_all env force es) (\<lambda>r. sret (overwrite r m, n + length (List.filter (\<lambda>o'. o' = None) r))) s"
proof (induction es arbitrary: m n s)
  case Nil
  then show ?case by (simp add: overwrite_def)
next
  case (Cons e es)
  show ?case
    by (auto simp: Cons.IH sbind_def sret_def overwrite_def split: prod.splits sum.splits)
qed

lemma ic_merge_fetch_all:
  "ic_merge env age now force m b es s =
     sbind (ic_fetch_all env age now force es) (\<lambda>r. sret (supplement r m, b \<or> list_ex (\<lambda>o'. o' \<noteq> None) r)) s"
proof (induction es arbitrary: m b s)
  case Nil
  then show ?case by (simp add: supplement_def)
next
  case (Cons e es)
  show ?case
    by (auto simp: Cons.IH sbind_def sret_def supplement_def split: prod.splits sum.splits)
qed

subsection \<open>Looking up an id\<close>

declare py_eq_str' [simp]

lemma assoc_get_missing:
  "assoc_get (add_missing m ws) (PStr i) = (case assoc_get m (PStr i) of Some v \<Rightarrow> Some v | None \<Rightarrow> assoc_get ws (PStr i))"
proof (induction ws arbitrary: m)
  case (Cons w ws)
  obtain k v where w: "w = (k, v)" by (cases w)
  let ?m = "if assoc_get m k = None then m @ [(k, v)] else m"
  have s: "add_missing m (w # ws) = add_missing ?m ws" by (simp add: add_missing_def w)
  show ?case
    by (simp only: s Cons.IH) (auto simp: assoc_get_append w split: option.split)
qed (simp add: add_missing_def split: option.split)

lemma first_source_append:
  "first_source (r @ [o']) i = (case first_source r i of Some v \<Rightarrow> Some v
     | None \<Rightarrow> (case o' of None \<Rightarrow> None | Some ws \<Rightarrow> assoc_get ws (PStr i)))"
  unfolding first_source_def by (induction r) (auto split: option.splits)

lemma overwrite_lookup:
  "assoc_get (overwrite r m) (PStr i) =
     (case first_source (rev (map (map_option rev) r)) i of Some v \<Rightarrow> Some v | None \<Rightarrow> assoc_get m (PStr i))"
proof (induction r arbitrary: m)
  case (Cons o' r)
  have "overwrite (o' # r) m = overwrite r (case o' of None \<Rightarrow> m | Some ws \<Rightarrow> assoc_update m ws)"
    by (simp add: overwrite_def)
  then show ?case
    by (cases o') (auto simp: Cons.IH first_source_append assoc_get_update split: option.split)
qed (simp add: overwrite_def first_source_def)

lemma supplement_lookup:
  "assoc_get (supplement r m) (PStr i) = (case assoc_get m (PStr i) of Some v \<Rightarrow> Some v | None \<Rightarrow> first_source r i)"
proof (induction r arbitrary: m)
  case (Cons o' r)
  have "supplement (o' # r) m = supplement r (case o' of None \<Rightarrow> m | Some ws \<Rightarrow> add_missing m ws)"
    by (simp add: supplement_def)
  then show ?case
    by (cases o') (auto simp: Cons.IH first_source_def assoc_get_missing split: option.split)
qed (simp add: supplement_def first_source_def split: option.split)

text \<open>C28. Two merges, one meaning. The workflow catalog goes through its sources backwards and overwrites,
  the integration catalog goes forwards and keeps what it has; in both, an id stands for what the first
  source in order of priority says of it among those that could be fetched (within one source, the last
  mention of an id counts for workflows, the first for integrations, whose ids are the keys of a
  mapping).\<close>

theorem first_source_wins:
  "(get_merged_workflows env force s = (Inr merged, s') \<longrightarrow>
      (\<exists>es r. get_active_catalogs env (cs_project s) = Inr es \<and> wf_fetch_all env force (rev es) s = (Inr r, s') \<and>
         assoc_get merged (PStr i) = first_source (map (map_option rev) (rev r)) i)) \<and>
   (get_merged_integrations env age now force s = (Inr merged, s') \<longrightarrow>
      (\<exists>es r. ic_active_catalogs env (cs_project s) = Inr es \<and> ic_fetch_all env age now force es s = (Inr r, s') \<and>
         assoc_get merged (PStr i) = first_source r i))"
proof (intro conjI impI)
  assume "get_merged_workflows env force s = (Inr merged, s')"
  then obtain es n where a: "get_active_catalogs env (cs_project s) = Inr es"
    "merge_catalogs env force [] 0 (rev es) s = (Inr (merged, n), s')"
    by (auto simp: get_merged_workflows_def sbind_Inr_iff split: if_splits)
  from a(2) obtain r where "wf_fetch_all env force (rev es) s = (Inr r, s')" "merged = overwrite r []"
    unfolding merge_catalogs_fetch_all sbind_Inr_iff by auto
  with a(1) overwrite_lookup[of r "[]" i]
  show "\<exists>es r. get_active_catalogs env (cs_project s) = Inr es \<and> wf_fetch_all env force (rev es) s = (Inr r, s') \<and>
         assoc_get merged (PStr i) = first_source (map (map_option rev) (rev r)) i"
    by (auto simp: rev_map split: option.splits)
next
  assume "get_merged_integrations env age now force s = (Inr merged, s')"
  then obtain es n where a: "ic_active_catalogs env (cs_project s) = Inr es"
    "ic_merge env age now force [] False es s = (Inr (merged, n), s')"
    by (auto simp: get_merged_integrations_def sbind_Inr_iff split: if_splits)
  from a(2) obtain r where "ic_fetch_all env age now force es s = (Inr r, s')" "merged = supplement r []"
    unfolding ic_merge_fetch_all sbind_Inr_iff by auto
  with a(1) supplement_lookup[of r "[]" i]
  show "\<exists>es r. ic_active_catalogs env (cs_project s) = Inr es \<and> ic_fetch_all env age now force es s = (Inr r, s') \<and>
         assoc_get merged (PStr i) = first_source r i"
    by auto
qed

definition sample_catalog_state :: catalog_state where
  "sample_catalog_state = \<lparr>cs_tick = 0, cs_project = two_sources, cs_cache = []\<rparr>"

definition merged_name :: "(pyexn + (pyval \<times> pyval) list) \<times> catalog_state \<Rightarrow> pyval option" where
  "merged_name r = (case fst r of
     Inr m \<Rightarrow> (case assoc_get m (PStr ''w'') of Some (PDict d) \<Rightarrow> field d ''name'' | _ \<Rightarrow> None) | Inl _ \<Rightarrow> None)"

lemma sample_merge:
  "merged_name (sbind (merge_catalogs sample_catalog_env True [] 0
     [source_entry ''https://a'' ''catalog-1'' 2, source_entry ''http://localhost:8/b'' ''catalog-2'' 1])
     (\<lambda>(m, n). if n = Suc (Suc 0) then sraise (wf_catalog_error ''All configured catalogs failed to fetch.'') else sret m)
     sample_catalog_state) = Some (PStr ''http://localhost:8/b'')"
  by code_simp

theorem first_source_wins_witness:
  "\<exists>merged s' r d. get_merged_workflows sample_catalog_env True sample_catalog_state = (Inr merged, s') \<and>
     wf_fetch_all sample_catalog_env True
       (rev [source_entry ''http://localhost:8/b'' ''catalog-2'' 1, source_entry ''https://a'' ''catalog-1'' 2])
       sample_catalog_state = (Inr r, s') \<and>
     first_source (map (map_option rev) (rev r)) ''w'' = Some (PDict d) \<and> field d ''name'' = Some (PStr ''http://localhost:8/b'')"
proof -
  let ?run = "get_merged_workflows sample_catalog_env True sample_catalog_state"
  have p: "cs_project sample_catalog_state = two_sources" by (simp add: sample_catalog_state_def)
  have run: "?run = sbind (merge_catalogs sample_catalog_env True [] 0
     [source_entry ''https://a'' ''catalog-1'' 2, source_entry ''http://localhost:8/b'' ''catalog-2'' 1])
     (\<lambda>(m, n). if n = Suc (Suc 0) then sraise (wf_catalog_error ''All configured catalogs failed to fetch.'') else sret m)
     sample_catalog_state"
    unfolding get_merged_workflows_def sbind_sget p two_sources_active sbind_slift by (simp only: rev.simps append.simps list.size) simp
  then have n: "merged_name ?run = Some (PStr ''http://localhost:8/b'')" using sample_merge by simp
  then obtain merged d where m: "fst ?run = Inr merged" "assoc_get merged (PStr ''w'') = Some (PDict d)"
    "field d ''name'' = Some (PStr ''http://localhost:8/b'')"
    by (auto simp: merged_name_def split: sum.splits option.splits pyval.splits)
  then obtain s' where r: "?run = (Inr merged, s')" by (metis prod.collapse)
  from first_source_wins[THEN conjunct1, rule_format, OF r, of "''w''"] obtain es k where
    k: "get_active_catalogs sample_catalog_env (cs_project sample_catalog_state) = Inr es"
      "wf_fetch_all sample_catalog_env True (rev es) sample_catalog_state = (Inr k, s')"
      "assoc_get merged (PStr ''w'') = first_source (map (map_option rev) (rev k)) ''w''" by blast
  have "es = [source_entry ''http://localhost:8/b'' ''catalog-2'' 1, source_entry ''https://a'' ''catalog-1'' 2]"
    using k(1) p two_sources_active by simp
  with k(2,3) m(2,3) r show ?thesis by metis
qed

section \<open>Where fetched data comes from\<close>

lemma response_InrD: "response env f = Inr v \<Longrightarrow> \<exists>final u. f = Response final (BodyValue v) \<and> urlparse (ca_ip_ok env) final = Inr u \<and> secure u"
  by (auto simp: response_def refuse_insecure_def rbind_Inr_iff rbind_Inl_iff split: fetched.splits sum.splits body.splits if_splits)

definition fetched_safely :: "(string \<Rightarrow> string \<times> string) \<Rightarrow> catalog_env \<Rightarrow> catalog_entry \<Rightarrow> pyval \<Rightarrow> catalog_state \<Rightarrow> bool" where
  "fetched_safely paths env e v s' \<longleftrightarrow>
     (\<exists>n final u. ca_open env n (ce_url e) = Response final (BodyValue v) \<and>
        urlparse (ca_ip_ok env) final = Inr u \<and> secure u \<and> is_dict v \<and>
        map_of (cs_cache s') (fst (paths (ce_url e))) = Some (CacheValue v))"

lemma cache_paths_differ: "fst (cache_paths env url) \<noteq> snd (cache_paths env url)"
  by (simp add: cache_paths_def Let_def)

lemma fetch_from_source_InrD:
  assumes "fetch_from_source env e s = (Inr v, s')"
  shows "map_of (cs_cache s) (fst (cache_paths env (ce_url e))) = Some (CacheValue v) \<or> fetched_safely (cache_paths env) env e v s'"
proof (cases "response env (ca_open env (cs_tick s) (ce_url e))")
  case (Inl m)
  with assms show ?thesis
    by (auto simp: fetch_from_source_def sbind_Inr_iff sthen_Inr_iff tick_cat_def split: option.splits cached.splits)
next
  case (Inr x)
  with assms have "is_dict x" "v = x" "write_cache env e x (s\<lparr>cs_tick := Suc (cs_tick s)\<rparr>) = (Inr (), s')"
    by (auto simp: fetch_from_source_def sbind_Inr_iff sthen_Inr_iff tick_cat_def split: if_splits)
  with response_InrD[OF Inr] show ?thesis
    using cache_paths_differ[of env "ce_url e"]
    by (auto simp: fetched_safely_def write_cache_def sbind_Inr_iff sthen_Inr_iff tick_cat_def)
qed

lemma cache_valid_keeps: "is_url_cache_valid env url s = (Inr b, s1) \<Longrightarrow> cs_cache s1 = cs_cache s"
  by (auto simp: is_url_cache_valid_def sbind_Inr_iff tick_cat_def split: option.splits cached.splits)

lemma workflow_data_is_cached_or_secure:
  assumes "fetch_single_catalog env e force s = (Inr v, s')"
  shows "map_of (cs_cache s) (fst (cache_paths env (ce_url e))) = Some (CacheValue v) \<or> fetched_safely (cache_paths env) env e v s'"
proof -
  from assms obtain b s1 where c: "cs_cache s1 = cs_cache s"
    "(if b
     then sbind (sget (\<lambda>s. map_of (cs_cache s) (fst (cache_paths env (ce_url e))))) (\<lambda>f.
          case f of
            Some (CacheValue v) \<Rightarrow> sret v
          | Some CacheNoText \<Rightarrow> sraise unicode_error
          | _ \<Rightarrow> fetch_from_source env e)
     else fetch_from_source env e) s1 = (Inr v, s')"
  proof -
    assume keep: thesis if "cs_cache s1 = cs_cache s" "(if b
     then sbind (sget (\<lambda>s. map_of (cs_cache s) (fst (cache_paths env (ce_url e))))) (\<lambda>f.
          case f of
            Some (CacheValue v) \<Rightarrow> sret v
          | Some CacheNoText \<Rightarrow> sraise unicode_error
          | _ \<Rightarrow> fetch_from_source env e)
     else fetch_from_source env e) s1 = (Inr v, s')" for s1 b
    from assms[unfolded fetch_single_catalog_def] obtain b s1 where
      b: "(if force then sret False else is_url_cache_valid env (ce_url e)) s = (Inr b, s1)" and
      r: "(if b
     then sbind (sget (\<lambda>s. map_of (cs_cache s) (fst (cache_paths env (ce_url e))))) (\<lambda>f.
          case f of
            Some (CacheValue v) \<Rightarrow> sret v
          | Some CacheNoText \<Rightarrow> sraise unicode_error
          | _ \<Rightarrow> fetch_from_source env e)
     else fetch_from_source env e) s1 = (Inr v, s')"
      by (auto simp: sbind_Inr_iff[of "if force then _ else _"])
    have "cs_cache s1 = cs_cache s" using b by (cases force) (auto dest: cache_valid_keeps)
    then show thesis using r by (rule keep)
  qed
  then show ?thesis
    using fetch_from_source_InrD[of env e s1 v s']
    by (cases "map_of (cs_cache s1) (fst (cache_paths env (ce_url e)))")
      (auto simp: sbind_Inr_iff split: if_splits cached.splits)
qed

text \<open>The catalog of integrations looks at the address of an answer when it is another one than it asked for.\<close>

lemma ic_response_InrD:
  assumes "ic_response env url f = Inr v" "safe_source (ca_ip_ok env) url"
  shows "\<exists>final u. f = Response final (BodyValue v) \<and> urlparse (ca_ip_ok env) final = Inr u \<and> secure u \<and> is_dict v"
proof -
  from assms(1) obtain final where f: "f = Response final (BodyValue v)" "final \<noteq> url \<longrightarrow> ic_validate_url env final = Inr ()"
      "ic_check_data url v = Inr ()"
    by (auto simp: ic_response_def rbind_Inr_iff split: fetched.splits body.splits if_splits)
  then have "safe_source (ca_ip_ok env) final"
    using assms(2) by (cases "final = url") (auto simp: ic_validate_url_def validate_catalog_url_iff)
  moreover have "is_dict v" using f(3) by (simp add: ic_check_data_def split: pyval.splits)
  ultimately show ?thesis using f(1) by (auto simp: safe_source_def split: sum.splits)
qed

lemma ic_download_InrD:
  assumes "ic_download env now e s = (Inr v, s')" "safe_source (ca_ip_ok env) (ce_url e)"
  shows "fetched_safely (ic_cache_paths env) env e v s'"
proof -
  from assms(1) have r: "ic_response env (ce_url e) (ca_open env (cs_tick s) (ce_url e)) = Inr v"
    and c: "map_of (cs_cache s') (fst (ic_cache_paths env (ce_url e))) = Some (CacheValue v)"
    by (auto simp: ic_download_def sbind_Inr_iff sthen_Inr_iff tick_cat_def ic_cache_paths_def Let_def)
  from ic_response_InrD[OF r assms(2)] c show ?thesis unfolding fetched_safely_def by blast
qed

lemma ic_cached_InrD:
  assumes "ic_cached env age url s = (Inr c, s1)"
  shows "cs_cache s1 = cs_cache s" "c = UseCached v \<Longrightarrow> map_of (cs_cache s) (fst (ic_cache_paths env url)) = Some (CacheValue v)"
  using assms
  by (auto simp: ic_cached_def Let_def sbind_Inr_iff tick_cat_def split: option.splits cached.splits pyval.splits if_splits)

lemma integration_data_is_cached_or_secure:
  assumes "ic_fetch_single env age now e force s = (Inr v, s')" "safe_source (ca_ip_ok env) (ce_url e)"
  shows "map_of (cs_cache s) (fst (ic_cache_paths env (ce_url e))) = Some (CacheValue v) \<or>
    fetched_safely (ic_cache_paths env) env e v s'"
proof -
  from assms(1) obtain c s1 where c: "(if force then sret Outdated else ic_cached env age (ce_url e)) s = (Inr c, s1)"
      "(case c of UseCached v \<Rightarrow> sret v | Outdated \<Rightarrow> ic_download env now e
        | Damaged \<Rightarrow> sthen (drop_cache env (ce_url e)) (ic_download env now e)) s1 = (Inr v, s')"
    by (auto simp: ic_fetch_single_def sbind_Inr_iff)
  show ?thesis
  proof (cases c)
    case (UseCached w)
    with c have "w = v" "ic_cached env age (ce_url e) s = (Inr (UseCached v), s1)" by (auto split: if_splits)
    with ic_cached_InrD(2) show ?thesis by blast
  next
    case Outdated
    with c(2) ic_download_InrD[OF _ assms(2)] show ?thesis by simp
  next
    case Damaged
    with c(2) obtain s2 where "ic_download env now e s2 = (Inr v, s')" by (auto simp: sthen_Inr_iff)
    with ic_download_InrD[OF _ assms(2)] show ?thesis by blast
  qed
qed


definition sample_fetch :: "(pyexn + pyval) \<times> catalog_state" where
  "sample_fetch = fetch_single_catalog sample_catalog_env (source_entry ''https://a'' ''n'' 1) False sample_catalog_state"

definition fetched_ok :: "(pyexn + pyval) \<times> catalog_state \<Rightarrow> bool" where
  "fetched_ok r = (case fst r of Inr _ \<Rightarrow> True | Inl _ \<Rightarrow> False)"

definition sample_ic_env :: catalog_env where
  "sample_ic_env = sample_catalog_env\<lparr>ca_open := (\<lambda>_ u. Response ''https://mirror'' (BodyValue (PDict (obj
     [(''schema_version'', PStr ''1.0''), (''integrations'', PDict [])]))))\<rparr>"

definition sample_ic_fetch :: "(pyexn + pyval) \<times> catalog_state" where
  "sample_ic_fetch = ic_fetch_single sample_ic_env (\<lambda>_ _. None) (\<lambda>_. ''now'') (source_entry ''https://a'' ''n'' 1) False sample_catalog_state"


end
