(* ===== verification/CatalogEdits.thy ===== *)
theory CatalogEdits
  imports CatalogProps
begin

text \<open>
  Editing the list of sources: what adding and removing do to what is loaded and shown, where the workflow
  catalog differs from the integration catalog, and what an accepted integration descriptor is.
\<close>

section \<open>Loading a longer list\<close>

lemma stack_entries_append:
  "stack_entries f idx acc (xs @ ys) =
     rbind (stack_entries f idx acc xs) (\<lambda>es. stack_entries f (idx + length xs) (rev es) ys)"
proof (induction xs arbitrary: idx acc)
  case (Cons x xs)
  show ?case by (cases "f idx (length acc) x") (simp_all add: Cons.IH)
qed simp

lemma sort_key_snoc:
  assumes "\<And>y. y \<in> set xs \<Longrightarrow> f y \<le> f x" shows "sort_key f (xs @ [x]) = sort_key f xs @ [x]"
proof (rule properties_for_sort_key)
  show "mset (sort_key f xs @ [x]) = mset (xs @ [x])" by simp
  show "List.filter (\<lambda>y. f k = f y) (sort_key f xs @ [x]) = List.filter (\<lambda>y. f k = f y) (xs @ [x])" for k
    using sort_key_stable[of f "f k" xs] by (simp add: eq_commute[of "f k"])
  show "sorted (map f (sort_key f xs @ [x]))" using assms by (auto simp: sorted_append)
qed

lemma int_or_Inr: "int_or err v = Inr n \<longleftrightarrow> py_int v = Inr n"
  by (auto simp: int_or_def split: sum.splits pyexn.splits)

lemma stack_entry_InrD:
  assumes "stack_entry ip k path idx n (PDict d) = Inr e" "entry_url d \<noteq> ''''"
  shows "\<exists>m. e = Some m \<and> ce_url m = entry_url d \<and> py_int (get_or d ''priority'' (PInt (int idx + 1))) = Inr (ce_priority m)"
  using assms
  by (auto simp: stack_entry_def entry_url_def Let_def rbind_Inr_iff int_or_Inr split: sum.splits pyexn.splits if_splits)

text \<open>The priorities that adding looks at are those that loading gives.\<close>

lemma existing_is_loaded:
  assumes "existing_entry env path url idx c = Inr p" "stack_entry ip integration_stack path' idx n c = Inr e"
  shows "map_option ce_priority e = p"
proof -
  from assms(1) obtain d where c: "c = PDict d" by (cases c) (auto simp: existing_entry_def Let_def)
  show ?thesis
  proof (cases "entry_url d = ''''")
    case True
    with assms c show ?thesis by (simp add: existing_entry_def stack_entry_def entry_url_def Let_def)
  next
    case False
    with assms(2) c obtain m where m: "e = Some m" "py_int (get_or d ''priority'' (PInt (int idx + 1))) = Inr (ce_priority m)"
      using stack_entry_InrD by blast
    from assms(1) c False have "p = Some (ce_priority m)"
      using m(2) by (auto simp: existing_entry_def Let_def get_or_def rbind_Inr_iff int_or_Inr
          split: sum.splits pyexn.splits if_splits option.splits)
    with m(1) show ?thesis by simp
  qed
qed

lemma existing_are_loaded:
  "existing_priorities (existing_entry env path url) idx cs = Inr ps \<Longrightarrow>
   stack_entries (stack_entry ip integration_stack path') idx acc cs = Inr es \<Longrightarrow>
   map ce_priority es = map ce_priority (rev acc) @ ps"
proof (induction cs arbitrary: idx acc ps)
  case (Cons c cs)
  from Cons.prems(1) obtain p qs where p: "existing_entry env path url idx c = Inr p"
    "existing_priorities (existing_entry env path url) (Suc idx) cs = Inr qs" "ps = (case p of Some n \<Rightarrow> n # qs | None \<Rightarrow> qs)"
    by (auto simp: rbind_Inr_iff)
  from Cons.prems(2) obtain e where e: "stack_entry ip integration_stack path' idx (length acc) c = Inr e"
    "stack_entries (stack_entry ip integration_stack path') (Suc idx) (case e of Some x \<Rightarrow> x # acc | None \<Rightarrow> acc) cs = Inr es"
    by (auto simp: rbind_Inr_iff)
  from existing_is_loaded[OF p(1) e(1)] Cons.IH[OF p(2) e(2)] p(3) show ?case by (cases e) auto
qed simp

lemma max_or_zero_le: "n \<in> set ps \<Longrightarrow> n \<le> max_or_zero ps"
proof -
  have "m \<le> fold max qs m \<and> (\<forall>q \<in> set qs. q \<le> fold max qs m)" for qs and m :: int
    by (induction qs arbitrary: m) (auto, (meson max.boundedE)+)
  then show "n \<in> set ps \<Longrightarrow> n \<le> max_or_zero ps" by (cases ps) (auto simp: max_or_zero_def)
qed

section \<open>Adding an integration source\<close>

text \<open>What is loaded from a file; the built-in sources stand in where it gives none.\<close>

definition loaded_sources :: "catalog_env \<Rightarrow> yaml_file \<Rightarrow> catalog_entry list py" where
  "loaded_sources env file =
     rbind (ic_load_config env (ca_project_path env) file) (\<lambda>r. Inr (case r of Some es \<Rightarrow> es | None \<Rightarrow> []))"

lemma load_listed:
  assumes "get_or data ''catalogs'' (PList []) = PList items" "items \<noteq> []"
    "stack_entries (stack_entry (ca_ip_ok env) integration_stack path) 0 [] items = Inr es" "es \<noteq> []"
  shows "ic_load_config env path (YamlValue (PDict data)) = Inr (Some (sort_entries es))"
  using assms by (simp add: ic_load_config_def load_catalog_config_def Let_def)

lemma load_Inr_cases:
  assumes "loaded_sources env f = Inr es"
  obtains (absent) "f = YamlAbsent" "es = []"
  | (listed) data items es0 where "ic_config_data path f = Inr data" "ic_catalogs_of path data = Inr items" "items \<noteq> []"
    "stack_entries (stack_entry (ca_ip_ok env) integration_stack (ca_project_path env)) 0 [] items = Inr es0"
    "es = sort_entries es0" "f \<noteq> YamlAbsent"
proof (cases f)
  case YamlAbsent
  with assms absent show thesis by (simp add: loaded_sources_def ic_load_config_def load_catalog_config_def Let_def)
next
  case (YamlFails n m)
  with assms show thesis by (simp add: loaded_sources_def ic_load_config_def load_catalog_config_def Let_def)
next
  case (YamlValue v)
  with assms obtain data items es0 where
    "(if v = PNone then PDict [] else v) = PDict data" "get_or data ''catalogs'' (PList []) = PList items" "items \<noteq> []"
    "stack_entries (stack_entry (ca_ip_ok env) integration_stack (ca_project_path env)) 0 [] items = Inr es0"
    "es = sort_entries es0"
    by (auto simp: loaded_sources_def ic_load_config_def load_catalog_config_def Let_def rbind_Inr_iff
        split: pyval.splits if_splits)
  then show thesis using listed[of data items es0] YamlValue
    by (cases v) (auto simp: ic_config_data_def ic_catalogs_of_def)
qed

lemma load_added:
  assumes "stack_entries (stack_entry (ca_ip_ok env) integration_stack path) 0 [] items = Inr es0"
    "existing_priorities (existing_entry env path url) 0 items = Inr ps"
    "url = py_strip raw" "url \<noteq> ''''" "safe_source (ca_ip_ok env) url"
    "x = PDict (obj [(''name'', PStr nm), (''url'', PStr url), (''priority'', PInt (max_or_zero ps + 1)),
       (''install_allowed'', PBool True), (''description'', PStr '''')])"
  shows "\<exists>e. ic_load_config env path (YamlValue (PDict (assoc_set (PStr ''catalogs'') (PList (items @ [x])) data))) =
       Inr (Some (sort_entries es0 @ [e])) \<and>
     ce_url e = url \<and> ce_install_allowed e \<and> (\<forall>e' \<in> set es0. ce_priority e' < ce_priority e)"
proof -
  let ?S = "stack_entry (ca_ip_ok env) integration_stack path"
  have flds: "get_or (obj [(''name'', PStr nm), (''url'', PStr url), (''priority'', PInt (max_or_zero ps + 1)),
       (''install_allowed'', PBool True), (''description'', PStr '''')]) k z =
      (if k = ''name'' then PStr nm else if k = ''url'' then PStr url else if k = ''priority'' then PInt (max_or_zero ps + 1)
       else if k = ''install_allowed'' then PBool True else if k = ''description'' then PStr '''' else z)" for k z
    by (simp add: get_or_def field_def obj_def)
  have stripped: "py_strip url = url" by (simp add: assms(3))
  have "\<exists>e. ?S (length items) (length es0) x = Inr (Some e) \<and> ce_url e = url \<and> ce_install_allowed e \<and>
      ce_priority e = max_or_zero ps + 1"
    using assms(4,5) stripped validate_catalog_url_iff[of "ca_ip_ok env" "error_type integration_stack" url "()"]
    unfolding assms(6) by (simp add: stack_entry_def Let_def flds int_or_def install_flag_def py_str_def)
  then obtain e where e: "?S (length items) (length es0) x = Inr (Some e)" "ce_url e = url" "ce_install_allowed e"
    "ce_priority e = max_or_zero ps + 1" by blast
  have all: "stack_entries ?S 0 [] (items @ [x]) = Inr (es0 @ [e])"
    using assms(1) e(1) by (simp add: stack_entries_append)
  have less: "\<forall>e' \<in> set es0. ce_priority e' < ce_priority e"
  proof
    fix e' assume "e' \<in> set es0"
    moreover have "map ce_priority es0 = ps" using existing_are_loaded[OF assms(2,1)] by simp
    ultimately have "ce_priority e' \<in> set ps" by (metis image_eqI set_map)
    then show "ce_priority e' < ce_priority e" using max_or_zero_le e(4) by fastforce
  qed
  have "sort_entries (es0 @ [e]) = sort_entries es0 @ [e]"
    unfolding sort_entries_def using less by (intro sort_key_snoc) auto
  moreover have "get_or (assoc_set (PStr ''catalogs'') (PList (items @ [x])) data) ''catalogs'' (PList []) = PList (items @ [x])"
    by (simp add: get_or_def field_def assoc_get_set_str)
  ultimately show ?thesis
    using load_listed[OF _ _ all] e(2,3) less by (intro exI[of _ e]) simp
qed

text \<open>Adding an integration source to a list that loads: the new list loads too, it is the old one with
  the new source, stripped of blanks, behind all the others, with a priority number above all of theirs,
  and installing from it is allowed.\<close>

theorem added_integration_source_comes_last:
  assumes "loaded_sources env file = Inr es" "ic_added env url name file = Inr v"
  shows "\<exists>e. ic_load_config env (ca_project_path env) (YamlValue v) = Inr (Some (es @ [e])) \<and>
     ce_url e = py_strip url \<and> ce_install_allowed e \<and> (\<forall>e' \<in> set es. ce_priority e' < ce_priority e)"
proof -
  let ?path = "ca_project_path env"
  from assms(2) obtain data items ps x nm where a: "py_strip url \<noteq> ''''" "ic_validate_url env (py_strip url) = Inr ()"
    "ic_config_data ?path file = Inr data" "ic_catalogs_of ?path data = Inr items"
    "existing_priorities (existing_entry env ?path (py_strip url)) 0 items = Inr ps"
    "x = PDict (obj [(''name'', PStr nm), (''url'', PStr (py_strip url)), (''priority'', PInt (max_or_zero ps + 1)),
       (''install_allowed'', PBool True), (''description'', PStr '''')])"
    "v = PDict (assoc_set (PStr ''catalogs'') (PList (items @ [x])) data)"
    by (auto simp: ic_added_def Let_def rbind_Inr_iff split: if_splits)
  have safe: "safe_source (ca_ip_ok env) (py_strip url)"
    using a(2) by (simp add: ic_validate_url_def validate_catalog_url_iff)
  from assms(1) show ?thesis
  proof (cases rule: load_Inr_cases[where path = ?path])
    case absent
    with a(3,4) have "items = []" by (auto simp: ic_config_data_def ic_catalogs_of_def get_or_def field_def obj_def)
    with load_added[of env ?path items "[]" "py_strip url" ps url x nm data] a safe absent show ?thesis
      by (simp add: sort_entries_def)
  next
    case (listed data' items' es0)
    with a(3,4) have "items' = items" by simp
    with load_added[of env ?path items es0 "py_strip url" ps url x nm data] a safe listed show ?thesis
      by (simp add: sort_entries_def)
  qed
qed

definition sample_added :: "pyval" where
  "sample_added = PDict (obj [(''catalogs'', PList [source ''https://a'' (Some (PInt 7)),
     PDict (obj [(''name'', PStr ''catalog-2''), (''url'', PStr ''https://b''), (''priority'', PInt 8),
       (''install_allowed'', PBool True), (''description'', PStr '''')])])])"

lemma sample_added_facts:
  "loaded_sources sample_catalog_env (sources [source ''https://a'' (Some (PInt 7))]) = Inr [source_entry ''https://a'' ''catalog-1'' 7]"
  "ic_added sample_catalog_env '' https://b '' None (sources [source ''https://a'' (Some (PInt 7))]) = Inr sample_added"
  by code_simp+

theorem added_integration_source_comes_last_witness:
  "\<exists>e. ic_load_config sample_catalog_env ''p'' (YamlValue sample_added) = Inr (Some [source_entry ''https://a'' ''catalog-1'' 7, e]) \<and>
     7 < ce_priority e"
proof -
  have "ca_project_path sample_catalog_env = ''p''" by (simp add: sample_catalog_env_def)
  with added_integration_source_comes_last[OF sample_added_facts] show ?thesis by (auto simp: source_entry_def)
qed

section \<open>Removing an integration source\<close>

lemma sort_key_map: "sort_key f (map g xs) = map g (sort_key (\<lambda>x. f (g x)) xs)"
proof (induction xs)
  case (Cons x xs)
  have "insort_key f (g x) (map g ys) = map g (insort_key (\<lambda>x. f (g x)) x ys)" for ys
    by (induction ys) auto
  with Cons show ?case by simp
qed simp

text \<open>The sources that are shown and the places the removal looks at are two sides of one list.\<close>

lemma shown_entry:
  assumes "stack_entry ip integration_stack path idx n c = Inr e"
  shows "(e = None \<longrightarrow> \<not> removable c) \<and>
     (\<forall>m. e = Some m \<longrightarrow> removable c \<and> (\<exists>d. c = PDict d \<and> entry_url d = ce_url m \<and> display_priority idx d = Inr (ce_priority m)))"
proof -
  from assms obtain d where c: "c = PDict d" by (cases c) (auto simp: stack_entry_def Let_def)
  show ?thesis
  proof (cases "entry_url d = ''''")
    case True
    with assms c have "e = None" by (simp add: stack_entry_def entry_url_def Let_def)
    moreover have "\<not> removable c"
      using True c by (auto simp: removable_def entry_url_def get_or_def split: option.splits pyval.splits)
    ultimately show ?thesis by simp
  next
    case False
    from stack_entry_InrD[OF assms[unfolded c] False] obtain m where
      m: "e = Some m" "ce_url m = entry_url d" "py_int (get_or d ''priority'' (PInt (int idx + 1))) = Inr (ce_priority m)" by blast
    from assms c False have nb: "\<not> is_bool (get_or d ''priority'' (PInt (int idx + 1)))"
      and url: "validate_catalog_url ip (error_type integration_stack) (entry_url d) = Inr ()"
      by (auto simp: stack_entry_def entry_url_def Let_def split: sum.splits pyexn.splits if_splits)
    have "field d ''url'' \<noteq> None"
    proof
      assume "field d ''url'' = None"
      then have "entry_url d = ''''" by (simp add: entry_url_def get_or_def py_str_def py_strip_def)
      with False show False ..
    qed
    moreover have "field d ''url'' \<noteq> Some PNone"
    proof
      assume "field d ''url'' = Some PNone"
      then have "entry_url d = ''None''" by (simp add: entry_url_def get_or_def) code_simp
      moreover have "\<not> safe_source ip ''None''"
        by (simp add: safe_source_def urlparse_def split_scheme_def clean_url_def starts_with_def secure_def Let_def
            code_of_def has_sub_def)
      ultimately show False using url by (simp add: validate_catalog_url_iff)
    qed
    ultimately have "removable c"
      using False c by (auto simp: removable_def entry_url_def get_or_def split: option.splits pyval.splits)
    moreover have "display_priority idx d = Inr (ce_priority m)"
      using m(3) nb by (simp add: display_priority_def Let_def int_or_def)
    ultimately show ?thesis using m(1,2) c by simp
  qed
qed

lemma shown_entries:
  "stack_entries (stack_entry ip integration_stack path) idx acc cs = Inr es \<Longrightarrow> priority_pairs idx cs = Inr ps \<Longrightarrow>
   \<exists>Z. es = rev acc @ map fst Z \<and> ps = map (\<lambda>(m, j). (ce_priority m, j)) Z \<and>
     (\<forall>(m, j) \<in> set Z. idx \<le> j \<and> j < idx + length cs \<and> (\<exists>d. cs ! (j - idx) = PDict d \<and> entry_url d = ce_url m))"
proof (induction cs arbitrary: idx acc ps)
  case (Cons c cs)
  from Cons.prems(1) obtain e where e: "stack_entry ip integration_stack path idx (length acc) c = Inr e"
    "stack_entries (stack_entry ip integration_stack path) (Suc idx) (case e of Some x \<Rightarrow> x # acc | None \<Rightarrow> acc) cs = Inr es"
    by (auto simp: rbind_Inr_iff)
  note sh = shown_entry[OF e(1)]
  have later: "idx \<le> j \<and> j < idx + length (c # cs) \<and> (\<exists>d. (c # cs) ! (j - idx) = PDict d \<and> entry_url d = u)"
    if "Suc idx \<le> j \<and> j < Suc idx + length cs \<and> (\<exists>d. cs ! (j - Suc idx) = PDict d \<and> entry_url d = u)" for j u
  proof -
    from that have "Suc idx \<le> j" by simp
    then have "j - idx = Suc (j - Suc idx)" by arith
    with that show ?thesis by auto
  qed
  show ?case
  proof (cases e)
    case None
    with Cons.prems(2) sh have "priority_pairs (Suc idx) cs = Inr ps" by simp
    from Cons.IH[OF e(2) this] None obtain Z where Z: "es = rev acc @ map fst Z" "ps = map (\<lambda>(m, j). (ce_priority m, j)) Z"
     "\<forall>(m, j) \<in> set Z. Suc idx \<le> j \<and> j < Suc idx + length cs \<and> (\<exists>d. cs ! (j - Suc idx) = PDict d \<and> entry_url d = ce_url m)" by auto
    show ?thesis by (rule exI[of _ Z]) (use Z later in fast)
  next
    case (Some m)
    with sh obtain d where d: "removable c" "c = PDict d" "entry_url d = ce_url m" "display_priority idx d = Inr (ce_priority m)" by blast
    with Cons.prems(2) obtain qs where q: "priority_pairs (Suc idx) cs = Inr qs" "ps = (ce_priority m, idx) # qs"
      by (auto simp: rbind_Inr_iff)
    from Cons.IH[OF e(2) q(1)] Some obtain Z where Z: "es = rev (m # acc) @ map fst Z" "qs = map (\<lambda>(m, j). (ce_priority m, j)) Z"
     "\<forall>(m, j) \<in> set Z. Suc idx \<le> j \<and> j < Suc idx + length cs \<and> (\<exists>d. cs ! (j - Suc idx) = PDict d \<and> entry_url d = ce_url m)" by auto
    have "\<forall>(m', j) \<in> set ((m, idx) # Z). idx \<le> j \<and> j < idx + length (c # cs) \<and> (\<exists>d. (c # cs) ! (j - idx) = PDict d \<and> entry_url d = ce_url m')"
      using Z(3) later d(2,3) by (auto simp del: length_Cons)
    with Z(1,2) q(2) show ?thesis by (intro exI[of _ "(m, idx) # Z"]) simp
  qed
qed simp

text \<open>Removing the source shown at an index removes that source: the entry taken out of the file is the
  one whose URL the list, as it is loaded and shown, has at the index, wherever it stands in the file and
  whatever the priorities; the other entries stay as they are, and when none is left that names a source
  the file goes, so that the built-in sources come back.\<close>

theorem removed_source_is_the_shown_one:
  assumes "loaded_sources env file = Inr es" "ic_removed env index file = Inr (f', name)"
  shows "0 \<le> index \<and> nat index < length es \<and>
     (\<exists>data items i d. ic_config_data (ca_project_path env) file = Inr data \<and>
        ic_catalogs_of (ca_project_path env) data = Inr items \<and> i < length items \<and> items ! i = PDict d \<and>
        entry_url d = ce_url (es ! nat index) \<and>
        (let rest = take i items @ drop (Suc i) items in
         f' = (if list_ex removable rest then YamlValue (PDict (assoc_set (PStr ''catalogs'') (PList rest) data)) else YamlAbsent)))"
proof -
  let ?path = "ca_project_path env"
  from assms(2) obtain data items ps where r: "file \<noteq> YamlAbsent" "ic_config_data ?path file = Inr data"
    "ic_catalogs_of ?path data = Inr items" "priority_pairs 0 items = Inr ps" "0 \<le> index"
    "index < int (length (map snd (sort_key fst ps)))"
    and f': "(let i = map snd (sort_key fst ps) ! nat index; rest = take i items @ drop (Suc i) items in
       f' = (if list_ex removable rest then YamlValue (PDict (assoc_set (PStr ''catalogs'') (PList rest) data)) else YamlAbsent))"
    by (auto simp: ic_removed_def Let_def rbind_Inr_iff split: if_splits)
  from assms(1) obtain es0 where es0: "stack_entries (stack_entry (ca_ip_ok env) integration_stack ?path) 0 [] items = Inr es0"
    "es = sort_entries es0"
  proof (cases rule: load_Inr_cases[where path = ?path])
    case (listed data' items' es0)
    with r(2,3) that show thesis by simp
  qed (use r(1) in simp)
  from shown_entries[OF es0(1) r(4)] obtain Z where Z: "es0 = map fst Z" "ps = map (\<lambda>(m, j). (ce_priority m, j)) Z"
    "\<forall>(m, j) \<in> set Z. j < length items \<and> (\<exists>d. items ! j = PDict d \<and> entry_url d = ce_url m)" by auto
  let ?k = "\<lambda>z :: catalog_entry \<times> nat. ce_priority (fst z)" and ?n = "nat index"
  have s: "es = map fst (sort_key ?k Z)" "map snd (sort_key fst ps) = map snd (sort_key ?k Z)"
    unfolding es0(2) sort_entries_def Z(1,2) sort_key_map by (simp_all add: split_def)
  have n: "?n < length Z" using r(5,6) by (simp add: s(2))
  obtain m j where mj: "sort_key ?k Z ! ?n = (m, j)" by (cases "sort_key ?k Z ! ?n")
  have "(m, j) \<in> set Z" using n mj by (metis length_sort nth_mem set_sort)
  with Z(3) obtain d where d: "j < length items" "items ! j = PDict d" "entry_url d = ce_url m" by blast
  have "es ! ?n = m" "map snd (sort_key fst ps) ! ?n = j" using n mj by (simp_all add: s)
  with d f' r(2,3,5) n s(1) show ?thesis
    by (intro conjI exI[of _ data] exI[of _ items] exI[of _ j] exI[of _ d]) (simp_all add: Let_def)
qed

definition sample_three :: yaml_file where
  "sample_three = sources [source ''https://a'' (Some (PInt 9)), source '''' None, source ''https://b'' (Some (PInt 2))]"

lemma sample_three_facts:
  "loaded_sources sample_catalog_env sample_three = Inr [source_entry ''https://b'' ''catalog-2'' 2, source_entry ''https://a'' ''catalog-1'' 9]"
  "ic_removed sample_catalog_env 0 sample_three =
     Inr (sources [source ''https://a'' (Some (PInt 9)), source '''' None], ''https://b'')"
  by code_simp+

theorem removed_source_is_the_shown_one_witness:
  "\<exists>data items i d. ic_config_data ''p'' sample_three = Inr data \<and> ic_catalogs_of ''p'' data = Inr items \<and>
     items ! i = PDict d \<and> entry_url d = ''https://b''"
proof -
  have "ca_project_path sample_catalog_env = ''p''" by (simp add: sample_catalog_env_def)
  with removed_source_is_the_shown_one[OF sample_three_facts] show ?thesis by (auto simp: source_entry_def)
qed

section \<open>The workflow catalog's edits\<close>

text \<open>The workflow catalog's edits do not agree with what it shows: with two sources that leave their
  priority open, an added one is given priority 1 and comes between them although its priority is meant
  to be one above the highest; and removing index 0 removes the first source of the file, not the first
  of the list, which is sorted by priority.\<close>

theorem workflow_edits_disagree_with_list:
  "rbind (added_catalogs sample_catalog_env ''https://new'' ''''
      (sources [source ''https://a'' None, source ''https://b'' None])) (\<lambda>v.
     map_sum id (map_option (map ce_url)) (wf_load_config sample_catalog_env ''p'' (YamlValue v))) =
     Inr (Some [''https://a'', ''https://new'', ''https://b'']) \<and>
   map_sum id (map_option (map ce_url)) (wf_load_config sample_catalog_env ''p''
      (sources [source ''https://a'' (Some (PInt 9)), source ''https://b'' (Some (PInt 2))])) =
     Inr (Some [''https://b'', ''https://a'']) \<and>
   map_sum id fst (removed_catalog 0 (sources [source ''https://a'' (Some (PInt 9)), source ''https://b'' (Some (PInt 2))])) =
     Inr (PDict (obj [(''catalogs'', PList [source ''https://b'' (Some (PInt 2))])]))"
  by (intro conjI) code_simp+

section \<open>Accepted descriptors\<close>

lemma demand_Inr [simp]: "demand ok msg = Inr u \<longleftrightarrow> ok"
  by (simp add: demand_def)

lemma safe_relative_stays:
  assumes "safe_relative t" "''..'' \<notin> set base"
  shows "normpath (path_div base (parse_path t)) = base @ path_parts (parse_path t)"
  using assms normpath_from_plain[of "base @ path_parts (parse_path t)" "[]"]
  by (simp add: safe_relative_def path_div_def normpath_def)

lemma check_provides_InrD:
  assumes "check_provides v = Inr ()"
  obtains d cmds scs where "v = PDict d" "get_or d ''commands'' (PList []) = PList cmds"
    "get_or d ''scripts'' (PList []) = PList scs" "cmds \<noteq> [] \<or> scs \<noteq> []"
    "\<forall>c \<in> set cmds. check_command_entry c = Inr ()" "\<forall>s \<in> set scs. check_script_entry s = Inr ()"
proof -
  from assms obtain d where d: "v = PDict d" by (cases v) (auto simp: check_provides_def)
  from assms d have l: "is_list (get_or d ''commands'' (PList []))" "is_list (get_or d ''scripts'' (PList []))"
    by (auto simp: check_provides_def Let_def rbind_Inr_iff)
  then obtain cmds scs where cs: "get_or d ''commands'' (PList []) = PList cmds" "get_or d ''scripts'' (PList []) = PList scs"
    by (metis is_list.elims(2))
  from assms d cs that show thesis by (auto simp: check_provides_def Let_def rbind_Inr_iff each_Inr)
qed

text \<open>An accepted integration descriptor provides something, and everything it provides is a file
  below the directory it is installed from: joined to any directory, each of its command files and scripts
  has a normalised path inside this directory.\<close>

theorem accepted_descriptor_stays_inside:
  assumes "load_descriptor version_ok path file = Inr data" "''..'' \<notin> set base"
  shows "\<exists>cmds scs. descriptor_commands data = Inr (PList cmds) \<and> descriptor_scripts data = Inr (PList scs) \<and>
     (cmds \<noteq> [] \<or> scs \<noteq> []) \<and>
     (\<forall>v \<in> set cmds. \<exists>d t. v = PDict d \<and> field d ''file'' = Some (PStr t) \<and>
        relative_to (normpath (path_div base (parse_path t))) base \<noteq> None) \<and>
     (\<forall>v \<in> set scs. \<exists>t. v = PStr t \<and> relative_to (normpath (path_div base (parse_path t))) base \<noteq> None)"
proof -
  from assms(1) have v: "validate_descriptor version_ok data = Inr ()"
    by (auto simp: load_descriptor_def Let_def rbind_Inr_iff split: yaml_file.splits)
  then obtain d where d: "data = PDict d" by (cases data) (auto simp: validate_descriptor_def)
  from v d have p: "check_provides (get_none d ''provides'') = Inr ()" and h: "has_field d ''provides''"
    by (auto simp: validate_descriptor_def rbind_Inr_iff each_Inr)
  from p show ?thesis
  proof (rule check_provides_InrD)
    fix e cmds scs
    assume e: "get_none d ''provides'' = PDict e" and cs: "get_or e ''commands'' (PList []) = PList cmds"
      "get_or e ''scripts'' (PList []) = PList scs" "cmds \<noteq> [] \<or> scs \<noteq> []"
      and c: "\<forall>c \<in> set cmds. check_command_entry c = Inr ()" and s: "\<forall>s \<in> set scs. check_script_entry s = Inr ()"
    have "get_or d ''provides'' (PDict []) = PDict e" using e h by (auto simp: get_or_def has_field_def split: option.splits)
    then have out: "descriptor_commands data = Inr (PList cmds)" "descriptor_scripts data = Inr (PList scs)"
      by (simp_all add: descriptor_commands_def descriptor_scripts_def d cs)
    have stay: "relative_to (normpath (path_div base (parse_path t))) base \<noteq> None" if "safe_relative t" for t
      using safe_relative_stays[OF that assms(2)] relative_to_Some by fastforce
    have "\<exists>d t. v = PDict d \<and> field d ''file'' = Some (PStr t) \<and> safe_relative t" if "v \<in> set cmds" for v
    proof -
      from c that have k: "check_command_entry v = Inr ()" by blast
      then obtain d where "v = PDict d" by (cases v) (auto simp: check_command_entry_def)
      with k show ?thesis
        by (auto simp: check_command_entry_def rbind_Inr_iff nonblank_str_def get_or_def has_field_def py_str_def
            split: option.splits pyval.splits)
    qed
    moreover have "\<exists>t. v = PStr t \<and> safe_relative t" if "v \<in> set scs" for v
    proof -
      from s that have k: "check_script_entry v = Inr ()" by blast
      then obtain t where "v = PStr t" by (cases v) (auto simp: check_script_entry_def rbind_Inr_iff nonblank_str_def)
      with k show ?thesis by (auto simp: check_script_entry_def rbind_Inr_iff py_str_def)
    qed
    ultimately show ?thesis using out cs(3) stay by (intro exI[of _ cmds] exI[of _ scs]) blast
  qed
qed

definition sample_descriptor :: pyval where
  "sample_descriptor = PDict (obj
     [(''schema_version'', PStr ''1.0''),
      (''integration'', PDict (obj [(''id'', PStr ''my-agent''), (''name'', PStr ''A''), (''version'', PStr ''1.0.0''), (''description'', PStr ''d'')])),
      (''requires'', PDict (obj [(''speckit_version'', PStr ''>=0.6.0'')])),
      (''provides'', PDict (obj [(''commands'', PList [PDict (obj [(''name'', PStr ''c''), (''file'', PStr ''commands/c.md'')])])]))])"

theorem accepted_descriptor_stays_inside_witness:
  "\<exists>cmds scs. descriptor_commands sample_descriptor = Inr (PList cmds) \<and> descriptor_scripts sample_descriptor = Inr (PList scs) \<and>
     (cmds \<noteq> [] \<or> scs \<noteq> [])"
proof -
  have "load_descriptor (\<lambda>_. True) ''p'' (YamlValue sample_descriptor) = Inr sample_descriptor" by code_simp
  from accepted_descriptor_stays_inside[OF this, of "[''base'']"] show ?thesis by auto
qed

end
