(* ===== verification/Registries.thy ===== *)
theory Registries
  imports WorkflowCatalog IntegrationState
begin

text \<open>
  The registries of what is installed, the \<open>.registry\<close> files of \<open>ExtensionRegistry\<close>
  (\<open>specify_cli/extensions.py\<close>) and \<open>PresetRegistry\<close> (\<open>presets.py\<close>): the same operations on two fields.
  The contract a registry keeps, a map from names to entries that is on disk after every change, is the
  locale \<open>keyed_registry\<close>; the registry of workflows (\<open>WorkflowCatalog\<close>) keeps it too. Copies
  (\<open>deepcopy\<close>) are the values themselves; a registry file that is no text is left out.
\<close>

section \<open>Priorities\<close>

text \<open>\<open>normalize_priority\<close>: booleans, what is no number, and numbers below one count as the default.\<close>

definition normalize_priority :: "int \<Rightarrow> pyval \<Rightarrow> int py" where
  "normalize_priority dflt v =
     (if is_bool v then Inr dflt
      else case py_int v of
        Inr n \<Rightarrow> Inr (if 1 \<le> n then n else dflt)
      | Inl e \<Rightarrow> (case e of
          PyExc n _ \<Rightarrow> if n = ''TypeError'' \<or> n = ''ValueError'' then Inr dflt else Inl e
        | _ \<Rightarrow> Inl e))"

definition DEFAULT_HOOK_PRIORITY :: int where
  "DEFAULT_HOOK_PRIORITY = 10"

text \<open>\<open>sorted\<close> by an order on the items: stable.\<close>

fun insert_by :: "('a \<Rightarrow> 'a \<Rightarrow> bool) \<Rightarrow> 'a \<Rightarrow> 'a list \<Rightarrow> 'a list" where
  "insert_by le x [] = [x]"
| "insert_by le x (y # ys) = (if le x y then x # y # ys else y # insert_by le x ys)"

definition sort_by :: "('a \<Rightarrow> 'a \<Rightarrow> bool) \<Rightarrow> 'a list \<Rightarrow> 'a list" where
  "sort_by le xs = foldr (insert_by le) xs []"

lemma set_insert_by [simp]: "set (insert_by le x ys) = insert x (set ys)"
  by (induction ys) auto

lemma set_sort_by [simp]: "set (sort_by le xs) = set xs"
  unfolding sort_by_def by (induction xs) auto

lemma sorted_insert_by:
  assumes "\<And>x y. le x y \<or> le y x" "transp le"
  shows "sorted_wrt le ys \<Longrightarrow> sorted_wrt le (insert_by le x ys)"
proof (induction ys)
  case (Cons y ys)
  show ?case
  proof (cases "le x y")
    case True
    then have "le x z" if "z \<in> set ys" for z
      using Cons.prems that assms(2) by (auto dest: transpD)
    with True Cons.prems show ?thesis by simp
  next
    case False
    then have "le y x" using assms(1) by blast
    with False Cons show ?thesis by simp
  qed
qed simp

lemma sorted_sort_by:
  assumes "\<And>x y. le x y \<or> le y x" "transp le"
  shows "sorted_wrt le (sort_by le xs)"
  unfolding sort_by_def by (induction xs) (simp_all add: sorted_insert_by[OF assms])

text \<open>Names of JSON objects are strings; pairs of a priority and a name compare as Python's tuples.\<close>

definition key_text :: "pyval \<Rightarrow> string" where
  "key_text k = (case k of PStr t \<Rightarrow> t | _ \<Rightarrow> '''')"

definition before_or_same :: "int \<times> string \<Rightarrow> int \<times> string \<Rightarrow> bool" where
  "before_or_same = (\<lambda>(p, i) (q, j). p < q \<or> (p = q \<and> str_cmp i j \<le> 0))"

lemma code_of_eq [simp]: "code_of c = code_of d \<longleftrightarrow> c = d"
  by (simp add: code_of_def of_char_eq_iff)

lemma str_cmp_swap: "str_cmp t s = - str_cmp s t"
  by (induction s t rule: str_cmp.induct) (auto simp: sgn_if)

lemma str_cmp_eq: "str_cmp s t = 0 \<longleftrightarrow> s = t"
  by (induction s t rule: str_cmp.induct) (auto simp: sgn_if)

lemma str_cmp_trans: "str_cmp a b \<le> 0 \<Longrightarrow> str_cmp b c \<le> 0 \<Longrightarrow> str_cmp a c \<le> 0"
proof (induction a c arbitrary: b rule: str_cmp.induct)
  case (4 x a z c)
  then obtain y b' where b: "b = y # b'" by (cases b) auto
  show ?case using 4 by (auto simp: b sgn_if split: if_splits)
next
  case (3 x a)
  then show ?case by (cases b) auto
qed auto

lemma before_or_same_order:
  "before_or_same x y \<or> before_or_same y x" "transp before_or_same"
  "before_or_same x y \<Longrightarrow> before_or_same y x \<Longrightarrow> x = y"
proof -
  show "before_or_same x y \<or> before_or_same y x"
    using str_cmp_swap[of "snd x" "snd y"] by (auto simp: before_or_same_def split: prod.splits)
  show "transp before_or_same"
    by (auto simp: transp_def before_or_same_def intro: str_cmp_trans)
  show "before_or_same x y \<Longrightarrow> before_or_same y x \<Longrightarrow> x = y"
    using str_cmp_swap[of "snd x" "snd y"] str_cmp_eq[of "snd x" "snd y"]
    by (auto simp: before_or_same_def split: prod.splits)
qed

section \<open>Loading and saving\<close>

text \<open>The field the entries are kept in, and the message of \<open>update\<close> for a name that is not there.\<close>

record registry_class =
  rc_field :: string
  rc_missing :: "string \<Rightarrow> string"

definition extension_registry :: registry_class where
  "extension_registry =
     \<lparr>rc_field = ''extensions'', rc_missing = (\<lambda>i. ''Extension '' @ in_quotes i @ '' is not installed'')\<rparr>"

definition preset_registry :: registry_class where
  "preset_registry =
     \<lparr>rc_field = ''presets'', rc_missing = (\<lambda>i. ''Preset '' @ in_quotes i @ '' not found in registry'')\<rparr>"

record kept_state =
  kr_data :: "(pyval \<times> pyval) list"
  kr_file :: json_file
  kr_tick :: nat

type_synonym 'a kop = "(kept_state, pyexn, 'a) svc"

definition fresh_registry :: "registry_class \<Rightarrow> (pyval \<times> pyval) list" where
  "fresh_registry c = obj [(''schema_version'', PStr ''1.0''), (rc_field c, PDict [])]"

definition kept_load :: "registry_class \<Rightarrow> json_file \<Rightarrow> (pyval \<times> pyval) list py" where
  "kept_load c f =
     (case f of
        JsonAbsent \<Rightarrow> Inr (fresh_registry c)
      | JsonOsError m \<Rightarrow> Inl (PyExc ''OSError'' m)
      | JsonDecodeError m \<Rightarrow> Inr (fresh_registry c)
      | JsonValue v \<Rightarrow>
          (case v of
             PDict d \<Rightarrow> Inr (if is_dict (get_none d (rc_field c)) then d else assoc_set (PStr (rc_field c)) (PDict []) d)
           | _ \<Rightarrow> Inr (fresh_registry c)))"

definition kept_init :: "registry_class \<Rightarrow> json_file \<Rightarrow> kept_state py" where
  "kept_init c f = rbind (kept_load c f) (\<lambda>d. Inr \<lparr>kr_data = d, kr_file = f, kr_tick = 0\<rparr>)"

definition kept_save :: "unit kop" where
  "kept_save = smodify (\<lambda>s. s\<lparr>kr_file := JsonValue (to_json (PDict (kr_data s)))\<rparr>)"

section \<open>Operations\<close>

definition kept_entries :: "registry_class \<Rightarrow> kept_state \<Rightarrow> (pyval \<times> pyval) list option" where
  "kept_entries c s = (case get_none (kr_data s) (rc_field c) of PDict es \<Rightarrow> Some es | _ \<Rightarrow> None)"

definition put_entries :: "registry_class \<Rightarrow> (pyval \<times> pyval) list \<Rightarrow> unit kop" where
  "put_entries c es =
     sthen (smodify (\<lambda>s. s\<lparr>kr_data := assoc_set (PStr (rc_field c)) (PDict es) (kr_data s)\<rparr>)) kept_save"

definition kept_clock :: "(nat \<Rightarrow> string) \<Rightarrow> string kop" where
  "kept_clock now s = (Inr (now (kr_tick s)), s\<lparr>kr_tick := Suc (kr_tick s)\<rparr>)"

definition kept_add :: "registry_class \<Rightarrow> (nat \<Rightarrow> string) \<Rightarrow> string \<Rightarrow> (pyval \<times> pyval) list \<Rightarrow> unit kop" where
  "kept_add c now i metadata =
     sbind (kept_clock now) (\<lambda>t.
     sbind (sget (\<lambda>s. field (kr_data s) (rc_field c))) (\<lambda>f.
     case f of
       None \<Rightarrow> sraise (PyExc ''KeyError'' (rc_field c))
     | Some v \<Rightarrow>
         (case v of
            PDict es \<Rightarrow> put_entries c (assoc_set (PStr i) (PDict (assoc_set (PStr ''installed_at'') (PStr t) metadata)) es)
          | _ \<Rightarrow> sraise type_error)))"

text \<open>The date of installation is the entry's own, or none.\<close>

definition merged_entry :: "pyval \<Rightarrow> (pyval \<times> pyval) list \<Rightarrow> (pyval \<times> pyval) list" where
  "merged_entry old metadata =
     (let existing = (case old of PDict d \<Rightarrow> d | _ \<Rightarrow> []); merged = assoc_update existing metadata
      in case field existing ''installed_at'' of
           Some t \<Rightarrow> assoc_set (PStr ''installed_at'') t merged
         | None \<Rightarrow> assoc_remove (PStr ''installed_at'') merged)"

definition kept_update :: "registry_class \<Rightarrow> string \<Rightarrow> (pyval \<times> pyval) list \<Rightarrow> unit kop" where
  "kept_update c i metadata =
     sbind (sget (kept_entries c)) (\<lambda>es.
     case es of
       None \<Rightarrow> sraise (PyExc ''KeyError'' (rc_missing c i))
     | Some es \<Rightarrow>
         (case field es i of
            None \<Rightarrow> sraise (PyExc ''KeyError'' (rc_missing c i))
          | Some old \<Rightarrow> put_entries c (assoc_set (PStr i) (PDict (merged_entry old metadata)) es)))"

definition kept_restore :: "registry_class \<Rightarrow> string \<Rightarrow> pyval \<Rightarrow> unit kop" where
  "kept_restore c i metadata =
     (case metadata of
        PDict m \<Rightarrow>
          sbind (sget (kept_entries c)) (\<lambda>es.
          put_entries c (assoc_set (PStr i) (PDict m) (case es of Some es \<Rightarrow> es | None \<Rightarrow> [])))
      | _ \<Rightarrow> sraise (value_error (''Cannot restore '' @ in_quotes i @ '': metadata must be a dict'')))"

definition kept_remove :: "registry_class \<Rightarrow> string \<Rightarrow> unit kop" where
  "kept_remove c i =
     sbind (sget (kept_entries c)) (\<lambda>es.
     case es of
       None \<Rightarrow> sret ()
     | Some es \<Rightarrow> if has_field es i then put_entries c (assoc_remove (PStr i) es) else sret ())"

definition kept_get :: "registry_class \<Rightarrow> string \<Rightarrow> kept_state \<Rightarrow> (pyval \<times> pyval) list option" where
  "kept_get c i s =
     (case kept_entries c s of
        None \<Rightarrow> None
      | Some es \<Rightarrow> (case field es i of Some (PDict m) \<Rightarrow> Some m | _ \<Rightarrow> None))"

text \<open>\<open>self.data.get(field, {}) or {}\<close>, where what is no mapping counts as empty.\<close>

definition entries_or_empty :: "registry_class \<Rightarrow> kept_state \<Rightarrow> (pyval \<times> pyval) list" where
  "entries_or_empty c s = (case kept_entries c s of Some es \<Rightarrow> es | None \<Rightarrow> [])"

definition kept_list :: "registry_class \<Rightarrow> kept_state \<Rightarrow> (pyval \<times> pyval) list" where
  "kept_list c s = List.filter (\<lambda>(_, m). is_dict m) (entries_or_empty c s)"

definition kept_keys :: "registry_class \<Rightarrow> kept_state \<Rightarrow> pyval list" where
  "kept_keys c s = map fst (entries_or_empty c s)"

definition kept_is_installed :: "registry_class \<Rightarrow> string \<Rightarrow> kept_state \<Rightarrow> bool" where
  "kept_is_installed c i s = (case kept_entries c s of Some es \<Rightarrow> has_field es i | None \<Rightarrow> False)"

text \<open>An entry to list, with its priority made a number.\<close>

definition ranked :: "pyval \<times> pyval \<Rightarrow> ((int \<times> string) \<times> (pyval \<times> pyval) list) py" where
  "ranked = (\<lambda>(k, v).
     rbind (as_dict v) (\<lambda>m.
     rbind (normalize_priority DEFAULT_HOOK_PRIORITY (get_or m ''priority'' (PInt 10))) (\<lambda>p.
     Inr ((p, key_text k), assoc_set (PStr ''priority'') (PInt p) m))))"

definition wanted :: "bool \<Rightarrow> pyval \<times> pyval \<Rightarrow> bool" where
  "wanted include_disabled = (\<lambda>(_, v).
     case v of PDict m \<Rightarrow> include_disabled \<or> truthy (get_or m ''enabled'' (PBool True)) | _ \<Rightarrow> False)"

definition list_by_priority :: "registry_class \<Rightarrow> bool \<Rightarrow> kept_state \<Rightarrow> (string \<times> (pyval \<times> pyval) list) list py" where
  "list_by_priority c include_disabled s =
     rbind (rmap ranked (List.filter (wanted include_disabled) (entries_or_empty c s))) (\<lambda>items.
     Inr (map (\<lambda>((_, i), m). (i, m)) (sort_by (\<lambda>a b. before_or_same (fst a) (fst b)) items)))"

end
