(* ===== verification/ExtManifest.thy ===== *)
theory ExtManifest
  imports Registries IntegrationCatalog
begin

text \<open>
  \<open>ExtensionManifest\<close> (\<open>specify_cli/extensions.py\<close>): loading and validating \<open>extension.yml\<close>, which also
  corrects old forms of command names and of the references of hooks to them, and the checks of its names
  before an installation. A manifest is a tree of values (no node of it is shared); the check of a version
  is the \<open>packaging\<close> library's and an argument.
\<close>

abbreviation ext_error :: "string \<Rightarrow> pyexn" where
  "ext_error msg \<equiv> PyExc ''ValidationError'' msg"

definition ext_demand :: "bool \<Rightarrow> string \<Rightarrow> unit py" where
  "ext_demand ok msg = (if ok then Inr () else Inl (ext_error msg))"

text \<open>\<open>v[name]\<close>, and a pattern matched against a value.\<close>

definition py_item :: "pyval \<Rightarrow> string \<Rightarrow> pyval py" where
  "py_item v name =
     (case v of
        PDict d \<Rightarrow> (case field d name of Some w \<Rightarrow> Inr w | None \<Rightarrow> Inl (PyExc ''KeyError'' name))
      | _ \<Rightarrow> Inl type_error)"

definition re_on :: "(string \<Rightarrow> bool) \<Rightarrow> pyval \<Rightarrow> bool py" where
  "re_on p v = (case v of PStr t \<Rightarrow> Inr (p t) | _ \<Rightarrow> Inl type_error)"

definition slug_text :: "string \<Rightarrow> bool" where
  "slug_text t \<longleftrightarrow> t \<noteq> [] \<and> list_all (\<lambda>c. lower_alnum c \<or> c = CHR ''-'') t"

definition extension_id_pattern :: "string \<Rightarrow> bool" where
  "extension_id_pattern = dollar slug_text"

text \<open>\<open>speckit.X.Y\<close>, and the \<open>X\<close> of a name that matches.\<close>

definition command_text :: "string \<Rightarrow> bool" where
  "command_text t = (case split_on (CHR ''.'') t of
     [a, b, c] \<Rightarrow> a = ''speckit'' \<and> slug_text b \<and> slug_text c | _ \<Rightarrow> False)"

definition command_pattern :: "string \<Rightarrow> bool" where
  "command_pattern = dollar command_text"

definition command_namespace :: "string \<Rightarrow> string" where
  "command_namespace t = (case split_on (CHR ''.'') t of [a, b, c] \<Rightarrow> b | _ \<Rightarrow> '''')"

definition try_correct_command_name :: "string \<Rightarrow> string \<Rightarrow> string option" where
  "try_correct_command_name name ext_id =
     (case split_on (CHR ''.'') name of
        [a, b] \<Rightarrow>
          if a = ''speckit'' \<or> a = ext_id
          then let candidate = ''speckit.'' @ ext_id @ ''.'' @ b
               in if command_pattern candidate then Some candidate else None
          else None
      | _ \<Rightarrow> None)"

section \<open>Validation\<close>

text \<open>A hook event's configuration as a list of entries.\<close>

definition coerce_hook_entries :: "pyval \<Rightarrow> pyval list" where
  "coerce_hook_entries v = (case v of PList xs \<Rightarrow> xs | _ \<Rightarrow> [v])"

definition check_extension :: "(pyval \<Rightarrow> bool py) \<Rightarrow> pyval \<Rightarrow> string py" where
  "check_extension version_ok ext =
     rbind (each (\<lambda>f. rbind (py_in (PStr f) ext) (\<lambda>b. ext_demand b (''Missing extension.'' @ f)))
        [''id'', ''name'', ''version'', ''description'']) (\<lambda>_.
     case ext of
       PDict e \<Rightarrow>
         (let i = get_none e ''id'' in
          rbind (re_on extension_id_pattern i) (\<lambda>ok.
          rbind (ext_demand ok (''Invalid extension ID '' @ in_quotes (py_str i) @ '': must be lowercase alphanumeric with hyphens only'')) (\<lambda>_.
          rbind (version_ok (get_none e ''version'')) (\<lambda>ok.
          rbind (ext_demand ok (''Invalid version: '' @ py_str (get_none e ''version''))) (\<lambda>_.
          rbind (ext_demand (has_field e ''category'' \<longrightarrow> nonblank_str (get_none e ''category''))
            ''Invalid extension.category: must be a non-empty string'') (\<lambda>_.
          rbind (ext_demand (has_field e ''effect'' \<longrightarrow> get_none e ''effect'' \<in> {PStr ''read-only'', PStr ''read-write''})
            (''Invalid extension.effect '' @ in_quotes (py_str (get_none e ''effect'')) @ '': must be one of '' @
             py_repr (PList [PStr ''read-only'', PStr ''read-write'']))) (\<lambda>_.
          Inr (py_str i))))))))
     | _ \<Rightarrow> Inl type_error)"

definition check_hook_entry :: "string \<Rightarrow> pyval \<Rightarrow> unit py" where
  "check_hook_entry hook entry =
     (case entry of
        PDict d \<Rightarrow>
          rbind (ext_demand (truthy (get_none d ''command''))
            (''Hook '' @ in_quotes hook @ '' missing required '' @ in_quotes ''command'' @ '' field'')) (\<lambda>_.
          if has_field d ''priority''
          then (case get_none d ''priority'' of
              PInt p \<Rightarrow> ext_demand (1 \<le> p) (''Hook '' @ in_quotes hook @ '' has invalid '' @ in_quotes ''priority'' @ '': must be >= 1'')
            | _ \<Rightarrow> Inl (ext_error (''Hook '' @ in_quotes hook @ '' has invalid '' @ in_quotes ''priority'' @ '': must be an integer'')))
          else Inr ())
      | _ \<Rightarrow> Inl (ext_error (''Invalid hook '' @ in_quotes hook @ '': expected a mapping or list of mappings'')))"

definition check_hook :: "pyval \<times> pyval \<Rightarrow> unit py" where
  "check_hook = (\<lambda>(name, config).
     rbind (ext_demand (config \<noteq> PList []) (''Invalid hook '' @ in_quotes (py_str name) @ '': list must contain at least one entry'')) (\<lambda>_.
     each (check_hook_entry (py_str name)) (coerce_hook_entries config)))"

section \<open>Correction\<close>

definition rename_warning :: "string \<Rightarrow> string \<Rightarrow> string" where
  "rename_warning name corrected =
     ''Command name '' @ in_quotes name @ '' does not follow the required pattern '' @
     in_quotes ''speckit.{extension}.{command}'' @ ''. Registering as '' @ in_quotes corrected @
     ''. The extension author should update the manifest to use this name.''"

text \<open>One command: its name corrected if it has to be, and a list of aliases.\<close>

definition fix_name :: "string \<Rightarrow> pyval \<Rightarrow> (string \<times> string) option py" where
  "fix_name ext_id name =
     rbind (re_on command_pattern name) (\<lambda>ok.
     if ok then Inr None
     else case try_correct_command_name (py_str name) ext_id of
         Some corrected \<Rightarrow> Inr (Some (py_str name, corrected))
       | None \<Rightarrow> Inl (ext_error (''Invalid command name '' @ in_quotes (py_str name) @ '': must follow pattern '' @
            in_quotes ''speckit.{extension}.{command}'')))"

definition fix_aliases :: "(pyval \<times> pyval) list \<Rightarrow> (pyval \<times> pyval) list py" where
  "fix_aliases d =
     (let d' = (if get_none d ''aliases'' = PNone then assoc_set (PStr ''aliases'') (PList []) d else d);
          cmd = in_quotes (py_str (get_none d ''name''))
      in case get_none d' ''aliases'' of
           PList as \<Rightarrow> rbind (ext_demand (list_all is_str as) (''Aliases for command '' @ cmd @ '' must be strings'')) (\<lambda>_. Inr d')
         | _ \<Rightarrow> Inl (ext_error (''Aliases for command '' @ cmd @ '' must be a list'')))"

definition fix_command :: "string \<Rightarrow> pyval \<Rightarrow> ((string \<times> string) option \<times> pyval) py" where
  "fix_command ext_id cmd =
     (case cmd of
        PDict d \<Rightarrow>
          rbind (ext_demand (has_field d ''name'' \<and> has_field d ''file'')
             (''Command missing '' @ in_quotes ''name'' @ '' or '' @ in_quotes ''file'')) (\<lambda>_.
          rbind (fix_name ext_id (get_none d ''name'')) (\<lambda>r.
          rbind (fix_aliases (case r of Some (_, new) \<Rightarrow> assoc_set (PStr ''name'') (PStr new) d | None \<Rightarrow> d)) (\<lambda>d'.
          Inr (r, PDict d'))))
      | _ \<Rightarrow> Inl (ext_error (''Each command entry in '' @ in_quotes ''provides.commands'' @ '' must be a mapping'')))"

text \<open>The reference of a hook to a command: renamed as the command was, and an alias form lifted.\<close>

definition canonical_ref :: "string \<Rightarrow> (string \<times> string) list \<Rightarrow> string \<Rightarrow> string" where
  "canonical_ref ext_id renames ref =
     (let r = (case map_of (rev renames) ref of Some new \<Rightarrow> new | None \<Rightarrow> ref)
      in case split_on (CHR ''.'') r of
           [a, b] \<Rightarrow> if a = ext_id then ''speckit.'' @ ext_id @ ''.'' @ b else r
         | _ \<Rightarrow> r)"

definition ref_warning :: "string \<Rightarrow> string \<Rightarrow> string \<Rightarrow> string" where
  "ref_warning hook ref final =
     ''Hook '' @ in_quotes hook @ '' referenced command '' @ in_quotes ref @ ''; updated to canonical form '' @
     in_quotes final @ ''. The extension author should update the manifest.''"

definition fix_entry :: "string \<Rightarrow> (string \<times> string) list \<Rightarrow> string \<Rightarrow> pyval \<Rightarrow> (string list \<times> pyval) py" where
  "fix_entry ext_id renames hook entry =
     (case entry of
        PDict d \<Rightarrow>
          (case get_none d ''command'' of
             PStr ref \<Rightarrow>
               (let final = canonical_ref ext_id renames ref in
                Inr (if final \<noteq> ref
                     then ([ref_warning hook ref final], PDict (assoc_set (PStr ''command'') (PStr final) d))
                     else ([], entry)))
           | _ \<Rightarrow> Inr ([], entry))
      | _ \<Rightarrow> Inl (ext_error (''Hook '' @ in_quotes hook @ '' must be a mapping or list of mappings, got '' @ type_name entry)))"

definition fix_hook :: "string \<Rightarrow> (string \<times> string) list \<Rightarrow> pyval \<times> pyval \<Rightarrow> (string list \<times> (pyval \<times> pyval)) py" where
  "fix_hook ext_id renames = (\<lambda>(name, config).
     rbind (rmap (fix_entry ext_id renames (py_str name)) (coerce_hook_entries config)) (\<lambda>r.
     Inr (concat (map fst r), (name, case config of PList _ \<Rightarrow> PList (map snd r) | _ \<Rightarrow> snd (hd r)))))"

section \<open>The manifest\<close>

record ext_manifest =
  em_data :: "(pyval \<times> pyval) list"
  em_warnings :: "string list"

text \<open>The commands of \<open>provides\<close>, and the hooks, after their checks.\<close>

definition provided_commands :: "(pyval \<times> pyval) list \<Rightarrow> pyval list py" where
  "provided_commands provides =
     (case get_or provides ''commands'' (PList []) of
        PList cmds \<Rightarrow> Inr cmds
      | _ \<Rightarrow> Inl (ext_error ''Invalid provides.commands: expected a list''))"

definition declared_hooks :: "(pyval \<times> pyval) list \<Rightarrow> (pyval \<times> pyval) list py" where
  "declared_hooks data =
     (case get_or data ''hooks'' (PDict []) of
        PDict hooks \<Rightarrow> Inr hooks
      | _ \<Rightarrow> Inl (ext_error ''Invalid hooks: expected a mapping''))"

definition checked_parts ::
  "(pyval \<Rightarrow> bool py) \<Rightarrow> (pyval \<times> pyval) list \<Rightarrow> (string \<times> (pyval \<times> pyval) list \<times> pyval list \<times> (pyval \<times> pyval) list) py" where
  "checked_parts version_ok data =
     rbind (each (\<lambda>f. ext_demand (has_field data f) (''Missing required field: '' @ f))
        [''schema_version'', ''extension'', ''requires'', ''provides'']) (\<lambda>_.
     rbind (ext_demand (py_eq (get_none data ''schema_version'') (PStr ''1.0''))
        (''Unsupported schema version: '' @ py_str (get_none data ''schema_version'') @ '' (expected 1.0)'')) (\<lambda>_.
     rbind (check_extension version_ok (get_none data ''extension'')) (\<lambda>ext_id.
     rbind (py_in (PStr ''speckit_version'') (get_none data ''requires'')) (\<lambda>b.
     rbind (ext_demand b ''Missing requires.speckit_version'') (\<lambda>_.
     rbind (as_dict (get_none data ''provides'')) (\<lambda>provides.
     rbind (provided_commands provides) (\<lambda>commands.
     rbind (declared_hooks data) (\<lambda>hooks.
     rbind (ext_demand (commands \<noteq> [] \<or> hooks \<noteq> []) ''Extension must provide at least one command or hook'') (\<lambda>_.
     rbind (each check_hook hooks) (\<lambda>_.
     Inr (ext_id, provides, commands, hooks)))))))))))"

definition validate_extension :: "(pyval \<Rightarrow> bool py) \<Rightarrow> (pyval \<times> pyval) list \<Rightarrow> ext_manifest py" where
  "validate_extension version_ok data =
     rbind (checked_parts version_ok data) (\<lambda>(ext_id, provides, commands, hooks).
     rbind (rmap (fix_command ext_id) commands) (\<lambda>cs.
     let renames = List.map_filter fst cs in
     rbind (rmap (fix_hook ext_id renames) hooks) (\<lambda>hs.
     let data1 = (if has_field provides ''commands''
           then assoc_set (PStr ''provides'') (PDict (assoc_set (PStr ''commands'') (PList (map snd cs)) provides)) data
           else data);
         data2 = (if has_field data ''hooks'' then assoc_set (PStr ''hooks'') (PDict (map snd hs)) data1 else data1)
     in Inr \<lparr>em_data = data2,
          em_warnings = map (\<lambda>(old, new). rename_warning old new) renames @ concat (map fst hs)\<rparr>)))"

definition load_extension_manifest :: "(pyval \<Rightarrow> bool py) \<Rightarrow> string \<Rightarrow> yaml_file \<Rightarrow> ext_manifest py" where
  "load_extension_manifest version_ok path file =
     (case file of
        YamlAbsent \<Rightarrow> Inl (ext_error (''Manifest not found: '' @ path))
      | YamlFails n exc \<Rightarrow> Inl (ext_error (
          (if n = ''YAMLError'' then ''Invalid YAML in '' @ path @ '': '' @ exc
           else if n = ''UnicodeDecodeError'' then ''Manifest is not valid UTF-8: '' @ path @ '' ('' @ exc @ '')''
           else ''Could not read manifest '' @ path @ '': '' @ exc)))
      | YamlValue v \<Rightarrow>
          (case v of
             PDict data \<Rightarrow> validate_extension version_ok data
           | _ \<Rightarrow> Inl (ext_error (''Manifest must be a YAML mapping, got '' @ type_name v @ '': '' @ path))))"

text \<open>Properties of an accepted manifest.\<close>

definition manifest_id :: "ext_manifest \<Rightarrow> pyval py" where
  "manifest_id m = rbind (py_item (PDict (em_data m)) ''extension'') (\<lambda>e. py_item e ''id'')"

definition manifest_commands :: "ext_manifest \<Rightarrow> pyval py" where
  "manifest_commands m =
     rbind (as_dict (get_or (em_data m) ''provides'' (PDict []))) (\<lambda>p. Inr (get_or p ''commands'' (PList [])))"

definition manifest_hooks :: "ext_manifest \<Rightarrow> pyval" where
  "manifest_hooks m = get_or (em_data m) ''hooks'' (PDict [])"

section \<open>Checks before an installation\<close>

text \<open>
  The names of the core commands: the Markdown files of the first of the directories that is one and has
  any (a directory is its entries with whether they are files), else a fixed list.
\<close>

definition fallback_core_names :: "string list" where
  "fallback_core_names = [''analyze'', ''clarify'', ''constitution'', ''implement'', ''plan'', ''checklist'', ''specify'',
     ''tasks'', ''taskstoissues'']"

definition md_stem :: "string \<Rightarrow> string option" where
  "md_stem name = (if ends_with ''.md'' name \<and> length name > 3 then Some (take (length name - 3) name) else None)"

fun load_core_command_names :: "(string \<times> bool) list option list \<Rightarrow> string list" where
  "load_core_command_names [] = fallback_core_names"
| "load_core_command_names (d # ds) =
     (case d of
        None \<Rightarrow> load_core_command_names ds
      | Some entries \<Rightarrow>
          (case List.map_filter (\<lambda>(name, is_file). if is_file then md_stem name else None) entries of
             [] \<Rightarrow> load_core_command_names ds
           | names \<Rightarrow> names))"

text \<open>One declared name: the kind is \<open>command\<close> or \<open>alias\<close>.\<close>

definition declare_name ::
  "string list \<Rightarrow> string \<Rightarrow> string \<Rightarrow> string \<Rightarrow> pyval \<Rightarrow> (string \<times> string) list \<Rightarrow> (string \<times> string) list py" where
  "declare_name core ext_id primary kind name declared =
     (let Kind = (if kind = ''command'' then ''Command'' else ''Alias'') in
      case name of
        PStr t \<Rightarrow>
          rbind (if kind \<noteq> ''command'' then Inr ()
             else rbind (ext_demand (command_pattern t) (''Invalid '' @ kind @ '' '' @ in_quotes t @ '': must follow pattern '' @
                 in_quotes ''speckit.{extension}.{command}'')) (\<lambda>_.
               let ns = command_namespace t in
               rbind (ext_demand (ns = ext_id) (Kind @ '' '' @ in_quotes t @ '' must use extension namespace '' @ in_quotes ext_id)) (\<lambda>_.
               ext_demand (ns \<notin> set core) (Kind @ '' '' @ in_quotes t @ '' conflicts with core command namespace '' @ in_quotes ns))))
          (\<lambda>_. rbind (ext_demand (t \<notin> fst ` set declared) (''Duplicate command or alias '' @ in_quotes t @ '' in extension manifest''))
          (\<lambda>_. Inr (declared @ [(t, kind)])))
      | _ \<Rightarrow> Inl (ext_error (Kind @ '' for command '' @ in_quotes primary @ '' must be a string'')))"

fun declare_names ::
  "string list \<Rightarrow> string \<Rightarrow> string \<Rightarrow> (string \<times> pyval) list \<Rightarrow> (string \<times> string) list \<Rightarrow> (string \<times> string) list py" where
  "declare_names core ext_id primary [] declared = Inr declared"
| "declare_names core ext_id primary ((kind, name) # ns) declared =
     rbind (declare_name core ext_id primary kind name declared) (declare_names core ext_id primary ns)"

fun collect_from :: "string list \<Rightarrow> string \<Rightarrow> pyval list \<Rightarrow> (string \<times> string) list \<Rightarrow> (string \<times> string) list py" where
  "collect_from core ext_id [] declared = Inr declared"
| "collect_from core ext_id (cmd # cmds) declared =
     rbind (py_item cmd ''name'') (\<lambda>primary.
     rbind (as_dict cmd) (\<lambda>d.
     case get_none d ''aliases'' of
       PNone \<Rightarrow> rbind (declare_names core ext_id (py_str primary) [(''command'', primary)] declared) (collect_from core ext_id cmds)
     | PList as \<Rightarrow> rbind (declare_names core ext_id (py_str primary) ((''command'', primary) # map (Pair ''alias'') as) declared)
         (collect_from core ext_id cmds)
     | _ \<Rightarrow> Inl (ext_error (''Aliases for command '' @ in_quotes (py_str primary) @ '' must be a list''))))"

definition collect_manifest_command_names :: "string list \<Rightarrow> ext_manifest \<Rightarrow> (string \<times> string) list py" where
  "collect_manifest_command_names core m =
     rbind (manifest_id m) (\<lambda>i.
     rbind (ext_demand (py_str i \<notin> set core) (''Extension ID '' @ in_quotes (py_str i) @ '' conflicts with core command namespace '' @
        in_quotes (py_str i))) (\<lambda>_.
     rbind (manifest_commands m) (\<lambda>cs.
     rbind (py_iter cs) (\<lambda>cmds.
     collect_from core (py_str i) cmds []))))"

text \<open>
  The names installed extensions have, with the extension: the first to claim a name has it. The extensions
  come in the order the set of their names is gone through, each with its manifest if that loads.
\<close>

definition claim :: "string \<Rightarrow> pyval \<Rightarrow> (string \<times> string) list \<Rightarrow> (string \<times> string) list" where
  "claim ext_id name names =
     (case name of PStr t \<Rightarrow> if t \<in> fst ` set names then names else names @ [(t, ext_id)] | _ \<Rightarrow> names)"

definition claim_command :: "string \<Rightarrow> (pyval \<times> pyval) list \<Rightarrow> (string \<times> string) list \<Rightarrow> (string \<times> string) list" where
  "claim_command ext_id d names =
     (let names1 = claim ext_id (get_none d ''name'') names
      in case get_or d ''aliases'' (PList []) of PList as \<Rightarrow> fold (claim ext_id) as names1 | _ \<Rightarrow> names1)"

fun installed_command_names ::
  "pyval \<Rightarrow> (string \<times> ext_manifest option) list \<Rightarrow> (string \<times> string) list \<Rightarrow> (string \<times> string) list py" where
  "installed_command_names exclude [] names = Inr names"
| "installed_command_names exclude ((i, m) # rest) names =
     (if PStr i = exclude then installed_command_names exclude rest names
      else case m of
          None \<Rightarrow> installed_command_names exclude rest names
        | Some m \<Rightarrow>
            rbind (manifest_commands m) (\<lambda>cs.
            rbind (py_iter cs) (\<lambda>cmds.
            rbind (rmap as_dict cmds) (\<lambda>ds.
            installed_command_names exclude rest (fold (claim_command i) ds names)))))"

definition validate_install_conflicts ::
  "string list \<Rightarrow> (string \<times> ext_manifest option) list \<Rightarrow> ext_manifest \<Rightarrow> unit py" where
  "validate_install_conflicts core installed m =
     rbind (collect_manifest_command_names core m) (\<lambda>declared.
     rbind (manifest_id m) (\<lambda>i.
     rbind (installed_command_names i installed []) (\<lambda>names.
     let collisions = List.map_filter
           (\<lambda>n. map_option (\<lambda>ext. n @ '' (already provided by extension '' @ in_quotes ext @ '')'') (map_of names n))
           (sort_by (\<lambda>a b. str_cmp a b \<le> 0) (map fst declared))
     in ext_demand (collisions = [])
          (''Extension commands conflict with installed extensions:'' @ newline # ''- '' @
           join_with (newline # ''- '') collisions))))"

end
