(* ===== verification/ExtConfig.thy ===== *)
theory ExtConfig
  imports ExtManifest
begin

text \<open>
  \<open>ConfigManager\<close> (\<open>specify_cli/extensions.py\<close>): the configuration of an extension in four layers, the manifest's
  defaults, the project's file, the local file and the environment; and the conditions of hooks, which ask
  for it. Left out are defaults that are a list. Names of variables and ids are ASCII.
\<close>

section \<open>Layers\<close>

text \<open>The files of an extension, and the environment in its order.\<close>

record config_env =
  cf_manifest :: "string \<Rightarrow> yaml_file"
  cf_project :: "string \<Rightarrow> yaml_file"
  cf_local :: "string \<Rightarrow> yaml_file"
  cf_environ :: "(string \<times> string) list"

definition load_yaml_config :: "yaml_file \<Rightarrow> pyval" where
  "load_yaml_config f =
     (case f of YamlAbsent \<Rightarrow> PDict [] | YamlFails _ _ \<Rightarrow> PDict [] | YamlValue v \<Rightarrow> py_or v (PDict []))"

definition extension_defaults :: "yaml_file \<Rightarrow> pyval py" where
  "extension_defaults f =
     rbind (as_dict (load_yaml_config f)) (\<lambda>m.
     rbind (as_dict (get_or m ''config'' (PDict []))) (\<lambda>c. Inr (get_or c ''defaults'' (PDict []))))"

definition upper_ascii :: "string \<Rightarrow> string" where
  "upper_ascii s = map (\<lambda>c. let n = code_of c in if 97 \<le> n \<and> n \<le> 122 then char_of (n - 32) else c) s"

text \<open>A value put at a path: mappings are made on the way, a text there cannot be entered.\<close>

fun env_put :: "string list \<Rightarrow> pyval \<Rightarrow> pyval \<Rightarrow> pyval py" where
  "env_put [] v d = Inr v"
| "env_put (k # ks) v d =
     (case d of
        PDict d \<Rightarrow> rbind (env_put ks v (get_or d k (PDict []))) (\<lambda>w. Inr (PDict (assoc_set (PStr k) w d)))
      | _ \<Rightarrow> Inl type_error)"

definition env_prefix :: "string \<Rightarrow> string" where
  "env_prefix ext_id = ''SPECKIT_'' @ upper_ascii (map (\<lambda>c. if c = CHR ''-'' then CHR ''_'' else c) ext_id) @ ''_''"

fun env_config_from :: "string \<Rightarrow> (string \<times> string) list \<Rightarrow> pyval \<Rightarrow> pyval py" where
  "env_config_from prefix [] config = Inr config"
| "env_config_from prefix ((key, value) # env) config =
     (if starts_with prefix key
      then rbind (env_put (split_on (CHR ''_'') (py_lower (drop (length prefix) key))) (PStr value) config)
             (env_config_from prefix env)
      else env_config_from prefix env config)"

definition env_config :: "config_env \<Rightarrow> string \<Rightarrow> pyval py" where
  "env_config env ext_id = env_config_from (env_prefix ext_id) (cf_environ env) (PDict [])"

section \<open>Merging\<close>

function merge_configs :: "(pyval \<times> pyval) list \<Rightarrow> (pyval \<times> pyval) list \<Rightarrow> (pyval \<times> pyval) list" where
  "merge_configs base [] = base"
| "merge_configs base ((k, v) # rest) =
     merge_configs (assoc_set k (case (assoc_get base k, v) of
         (Some (PDict b), PDict ov) \<Rightarrow> PDict (merge_configs b ov) | _ \<Rightarrow> v) base) rest"
  by pat_completeness auto
termination
  by (relation "measure (\<lambda>(base, ov). size (PDict ov))") auto

definition merge_layer :: "pyval \<Rightarrow> pyval \<Rightarrow> pyval py" where
  "merge_layer base ov = rbind (as_dict base) (\<lambda>b. rbind (as_dict ov) (\<lambda>r. Inr (PDict (merge_configs b r))))"

definition get_config :: "config_env \<Rightarrow> string \<Rightarrow> pyval py" where
  "get_config env ext_id =
     rbind (extension_defaults (cf_manifest env ext_id)) (\<lambda>c0.
     rbind (merge_layer c0 (load_yaml_config (cf_project env ext_id))) (\<lambda>c1.
     rbind (merge_layer c1 (load_yaml_config (cf_local env ext_id))) (\<lambda>c2.
     rbind (env_config env ext_id) (\<lambda>e.
     merge_layer c2 e))))"

text \<open>Walking down a path of keys; \<open>None\<close>: a key is missing, or is asked of what is no mapping.\<close>

fun walk :: "pyval \<Rightarrow> string list \<Rightarrow> pyval option" where
  "walk v [] = Some v"
| "walk v (k # ks) = (case v of PDict d \<Rightarrow> Option.bind (field d k) (\<lambda>w. walk w ks) | _ \<Rightarrow> None)"

definition get_value :: "config_env \<Rightarrow> string \<Rightarrow> string \<Rightarrow> pyval \<Rightarrow> pyval py" where
  "get_value env ext_id key_path dflt =
     rbind (get_config env ext_id) (\<lambda>c.
     Inr (case walk c (split_on (CHR ''.'') key_path) of Some v \<Rightarrow> v | None \<Rightarrow> dflt))"

definition has_value :: "config_env \<Rightarrow> string \<Rightarrow> string \<Rightarrow> bool py" where
  "has_value env ext_id key_path =
     rbind (get_config env ext_id) (\<lambda>c. Inr (walk c (split_on (CHR ''.'') key_path) \<noteq> None))"

section \<open>Conditions of hooks\<close>

text \<open>A literal in any case, and what is behind it.\<close>

definition after_word :: "string \<Rightarrow> string \<Rightarrow> string option" where
  "after_word w s = (if lower_ascii (take (length w) s) = w then Some (drop (length w) s) else None)"

definition config_key_char :: "char \<Rightarrow> bool" where
  "config_key_char c \<longleftrightarrow> ascii_alnum c \<or> c = CHR ''_'' \<or> c = CHR ''.''"

definition env_key_char :: "char \<Rightarrow> bool" where
  "env_key_char c \<longleftrightarrow> ascii_alnum c \<or> c = CHR ''_''"

definition after_blanks :: "string \<Rightarrow> string option" where
  "after_blanks s = (if s \<noteq> '''' \<and> py_space (hd s) then Some (dropWhile py_space s) else None)"

text \<open>The key of \<open>prefix KEY is set\<close>, whatever follows.\<close>

definition match_is_set :: "string \<Rightarrow> (char \<Rightarrow> bool) \<Rightarrow> string \<Rightarrow> string option" where
  "match_is_set prefix key s =
     Option.bind (after_word prefix s) (\<lambda>r.
     if takeWhile key r = '''' then None
     else Option.bind (after_blanks (dropWhile key r)) (\<lambda>r2.
       Option.bind (after_word ''is'' r2) (\<lambda>r3.
       Option.bind (after_blanks r3) (\<lambda>r4.
       Option.bind (after_word ''set'' r4) (\<lambda>_. Some (takeWhile key r))))))"

definition is_quote :: "char \<Rightarrow> bool" where
  "is_quote c \<longleftrightarrow> c = quote_char \<or> c = dquote_char"

text \<open>The key, whether the operator is \<open>==\<close>, and the text of \<open>prefix KEY == 'text'\<close>.\<close>

definition match_compare :: "string \<Rightarrow> (char \<Rightarrow> bool) \<Rightarrow> string \<Rightarrow> (string \<times> bool \<times> string) option" where
  "match_compare prefix key s =
     Option.bind (after_word prefix s) (\<lambda>r.
     let k = takeWhile key r; r2 = dropWhile py_space (dropWhile key r);
         r3 = dropWhile py_space (drop 2 r2);
         t = takeWhile (\<lambda>c. \<not> is_quote c) (tl r3)
     in if k \<noteq> '''' \<and> (starts_with ''=='' r2 \<or> starts_with ''!='' r2) \<and> r3 \<noteq> '''' \<and> is_quote (hd r3) \<and>
           t \<noteq> '''' \<and> length t < length (tl r3)
        then Some (k, starts_with ''=='' r2, t) else None)"

text \<open>A path below the project made with the id: an id that is no text cannot be part of one.\<close>

definition with_extension :: "pyval \<Rightarrow> (string \<Rightarrow> bool py) \<Rightarrow> bool py" where
  "with_extension ext_id f =
     (if \<not> truthy ext_id then Inr False else case ext_id of PStr i \<Rightarrow> f i | _ \<Rightarrow> Inl type_error)"

definition compared_text :: "pyval \<Rightarrow> string" where
  "compared_text v = (case v of PBool b \<Rightarrow> if b then ''true'' else ''false'' | _ \<Rightarrow> py_str v)"

definition eval_hook_condition :: "config_env \<Rightarrow> pyval \<Rightarrow> pyval \<Rightarrow> bool py" where
  "eval_hook_condition env cond ext_id =
     (case cond of
        PStr c \<Rightarrow>
          (let s = py_strip c in
           case match_is_set ''config.'' config_key_char s of
             Some key \<Rightarrow> with_extension ext_id (\<lambda>i. has_value env i key)
           | None \<Rightarrow>
           case match_compare ''config.'' config_key_char s of
             Some (key, eq, text) \<Rightarrow>
               with_extension ext_id (\<lambda>i.
                 rbind (get_value env i key PNone) (\<lambda>v. Inr ((compared_text v = text) = eq)))
           | None \<Rightarrow>
           case match_is_set ''env.'' env_key_char s of
             Some name \<Rightarrow> Inr (map_of (cf_environ env) (upper_ascii name) \<noteq> None)
           | None \<Rightarrow>
           case match_compare ''env.'' env_key_char s of
             Some (name, eq, text) \<Rightarrow>
               Inr (((case map_of (cf_environ env) (upper_ascii name) of Some v \<Rightarrow> v | None \<Rightarrow> '''') = text) = eq)
           | None \<Rightarrow> Inr False)
      | _ \<Rightarrow> Inl attribute_error)"

text \<open>\<open>should_execute_hook\<close>: a condition that cannot be evaluated does not hold.\<close>

definition should_execute_hook :: "config_env \<Rightarrow> (pyval \<times> pyval) list \<Rightarrow> bool" where
  "should_execute_hook env hook =
     (\<not> truthy (get_none hook ''condition'') \<or>
      eval_hook_condition env (get_none hook ''condition'') (get_none hook ''extension'') = Inr True)"

end
