(* ===== verification/Hooks.thy ===== *)
theory Hooks
  imports ExtConfig
begin

text \<open>
  \<open>HookExecutor\<close> (\<open>specify_cli/extensions.py\<close>): the hooks of all extensions in \<open>.specify/extensions.yml\<close>,
  registering, removing and switching them, and what an event runs. Reading the file never fails; what
  \<open>yaml.dump\<close> wrote is taken to be read back. Checks that the file as it is read cannot fail any more
  are left out.
\<close>

section \<open>The file\<close>

definition fresh_hook_config :: "(pyval \<times> pyval) list" where
  "fresh_hook_config = obj [(''installed'', PList []),
     (''settings'', PDict (obj [(''auto_execute_hooks'', PBool True)])), (''hooks'', PDict [])]"

text \<open>\<open>d[name] = dflt\<close> unless the value there is of the right kind.\<close>

definition ensure :: "(pyval \<Rightarrow> bool) \<Rightarrow> string \<Rightarrow> pyval \<Rightarrow> (pyval \<times> pyval) list \<Rightarrow> (pyval \<times> pyval) list" where
  "ensure ok name dflt d = (if ok (get_none d name) then d else assoc_set (PStr name) dflt d)"

definition clean_event :: "pyval \<Rightarrow> pyval" where
  "clean_event v = (case v of PList hs \<Rightarrow> PList (List.filter is_dict hs) | _ \<Rightarrow> PList [])"

definition dict_of :: "pyval \<Rightarrow> (pyval \<times> pyval) list" where
  "dict_of v = (case v of PDict d \<Rightarrow> d | _ \<Rightarrow> [])"

definition get_project_config :: "yaml_file \<Rightarrow> (pyval \<times> pyval) list" where
  "get_project_config f =
     (case f of
        YamlValue (PDict r) \<Rightarrow>
          (let r = ensure is_dict ''settings'' (PDict (obj [(''auto_execute_hooks'', PBool True)]))
                 (ensure is_list ''installed'' (PList []) (ensure is_dict ''hooks'' (PDict []) r))
           in assoc_set (PStr ''hooks'') (PDict (map (\<lambda>(e, v). (e, clean_event v)) (dict_of (get_none r ''hooks'')))) r)
      | _ \<Rightarrow> fresh_hook_config)"

type_synonym 'a hop = "(yaml_file, pyexn, 'a) svc"

definition save_project_config :: "(pyval \<times> pyval) list \<Rightarrow> unit hop" where
  "save_project_config config = smodify (\<lambda>_. YamlValue (PDict config))"

text \<open>The hooks of a configuration, as events with their lists.\<close>

definition hooks_in :: "(pyval \<times> pyval) list \<Rightarrow> (pyval \<times> pyval) list" where
  "hooks_in config = dict_of (get_none config ''hooks'')"

definition hook_list :: "pyval \<Rightarrow> pyval list" where
  "hook_list v = (case v of PList hs \<Rightarrow> hs | _ \<Rightarrow> [])"

section \<open>The list of installed extensions\<close>

definition entry_id :: "pyval \<Rightarrow> string option" where
  "entry_id v =
     (case v of
        PStr s \<Rightarrow> if extension_id_pattern (py_strip s) then Some (py_strip s) else None
      | PDict d \<Rightarrow> (case get_none d ''id'' of
            PStr s \<Rightarrow> if extension_id_pattern (py_strip s) then Some (py_strip s) else None | _ \<Rightarrow> None)
      | _ \<Rightarrow> None)"

text \<open>One entry for each id: of several, the last mapping, or else the first text.\<close>

fun dedupe_installed :: "pyval list \<Rightarrow> (string \<times> pyval) list \<Rightarrow> (string \<times> pyval) list" where
  "dedupe_installed [] seen = seen"
| "dedupe_installed (x # xs) seen =
     (case entry_id x of
        None \<Rightarrow> dedupe_installed xs seen
      | Some i \<Rightarrow> dedupe_installed xs (if i \<notin> fst ` set seen \<or> is_dict x then dict_set i x seen else seen))"

definition entry_sort_key :: "pyval \<Rightarrow> string" where
  "entry_sort_key v = (case v of PStr s \<Rightarrow> s | PDict d \<Rightarrow> key_text (get_or d ''id'' (PStr '''')) | _ \<Rightarrow> '''')"

definition sanitize_installed_list :: "pyval \<Rightarrow> string \<Rightarrow> string \<Rightarrow> pyval list" where
  "sanitize_installed_list raw add_id remove_id =
     (let seen = dedupe_installed (hook_list raw) [];
          seen1 = (if add_id \<noteq> '''' \<and> extension_id_pattern (py_strip add_id) \<and> add_id \<notin> fst ` set seen
                   then seen @ [(add_id, PStr add_id)] else seen);
          seen2 = (if remove_id \<noteq> '''' then List.filter (\<lambda>(i, _). i \<noteq> remove_id) seen1 else seen1)
      in sort_by (\<lambda>a b. str_cmp (entry_sort_key a) (entry_sort_key b) \<le> 0) (map snd seen2))"

definition update_installed :: "string \<Rightarrow> string \<Rightarrow> unit hop" where
  "update_installed add_id remove_id =
     sbind (sget get_project_config) (\<lambda>config.
     let raw = get_none config ''installed''; sanitized = PList (sanitize_installed_list raw add_id remove_id)
     in if py_eq sanitized raw then sret ()
        else save_project_config (assoc_set (PStr ''installed'') sanitized config))"

definition register_extension :: "string \<Rightarrow> unit hop" where
  "register_extension ext_id = update_installed ext_id ''''"

definition unregister_extension :: "string \<Rightarrow> unit hop" where
  "unregister_extension ext_id = update_installed '''' ext_id"

section \<open>Registering\<close>

definition belongs_to :: "pyval \<Rightarrow> pyval \<Rightarrow> bool" where
  "belongs_to ext_id h = (case h of PDict d \<Rightarrow> py_eq (get_none d ''extension'') ext_id | _ \<Rightarrow> False)"

definition new_hook_entry :: "pyval \<Rightarrow> (pyval \<times> pyval) list \<Rightarrow> pyval py" where
  "new_hook_entry ext_id d =
     (let command = get_none d ''command'' in
      rbind (normalize_priority DEFAULT_HOOK_PRIORITY (get_none d ''priority'')) (\<lambda>p.
      Inr (PDict (obj [(''extension'', ext_id), (''command'', command), (''enabled'', PBool True),
        (''optional'', get_or d ''optional'' (PBool True)), (''priority'', PInt p),
        (''prompt'', get_or d ''prompt'' (PStr (''Execute '' @ py_str command @ ''?''))),
        (''description'', get_or d ''description'' (PStr '''')), (''condition'', get_none d ''condition'')]))))"

text \<open>The entries of an event by command: a command declared again moves to the end.\<close>

fun new_hook_entries :: "pyval \<Rightarrow> pyval list \<Rightarrow> (pyval \<times> pyval) list \<Rightarrow> (pyval \<times> pyval) list py" where
  "new_hook_entries ext_id [] acc = Inr acc"
| "new_hook_entries ext_id (e # es) acc =
     (case e of
        PDict d \<Rightarrow>
          (let command = get_none d ''command'' in
           if \<not> truthy command then new_hook_entries ext_id es acc
           else if \<not> hashable command then Inl type_error
           else rbind (new_hook_entry ext_id d) (\<lambda>h.
             new_hook_entries ext_id es (assoc_remove command acc @ [(command, h)])))
      | _ \<Rightarrow> new_hook_entries ext_id es acc)"

definition keep_if_equal :: "pyval list \<Rightarrow> pyval \<Rightarrow> pyval \<times> bool" where
  "keep_if_equal new old = (if py_eq (PList new) old then (old, False) else (PList new, True))"

text \<open>Entries of this extension go from the events its manifest does not declare any more.\<close>

definition purge_undeclared :: "pyval \<Rightarrow> pyval list \<Rightarrow> (pyval \<times> pyval) list \<Rightarrow> (pyval \<times> pyval) list \<times> bool" where
  "purge_undeclared ext_id declared hooks =
     (let r = map (\<lambda>(e, v). if list_mem e declared then (e, v, False)
                 else case keep_if_equal (List.filter (\<lambda>h. \<not> belongs_to ext_id h) (hook_list v)) v of (v', ch) \<Rightarrow> (e, v', ch)) hooks
      in (map (\<lambda>(e, v, _). (e, v)) r, list_ex (\<lambda>(_, _, ch). ch) r))"

definition register_event :: "pyval \<Rightarrow> pyval \<times> pyval \<Rightarrow> (pyval \<times> pyval) list \<times> bool \<Rightarrow> ((pyval \<times> pyval) list \<times> bool) py" where
  "register_event ext_id = (\<lambda>(event, config) (hooks, changed).
     let fresh = (case assoc_get hooks event of Some v \<Rightarrow> \<not> is_list v | None \<Rightarrow> True);
         hooks1 = (if fresh then assoc_set event (PList []) hooks else hooks);
         original = (case assoc_get hooks1 event of Some v \<Rightarrow> v | None \<Rightarrow> PList [])
     in rbind (new_hook_entries ext_id (coerce_hook_entries config) []) (\<lambda>new.
        case keep_if_equal (List.filter (\<lambda>h. \<not> belongs_to ext_id h) (hook_list original) @ map snd new) original of
          (v, ch) \<Rightarrow> Inr (if ch then assoc_set event v hooks1 else hooks1, changed \<or> fresh \<or> ch)))"

fun register_events :: "pyval \<Rightarrow> (pyval \<times> pyval) list \<Rightarrow> (pyval \<times> pyval) list \<times> bool \<Rightarrow> ((pyval \<times> pyval) list \<times> bool) py" where
  "register_events ext_id [] s = Inr s"
| "register_events ext_id (h # hs) s = rbind (register_event ext_id h s) (register_events ext_id hs)"

definition non_empty_events :: "(pyval \<times> pyval) list \<Rightarrow> (pyval \<times> pyval) list" where
  "non_empty_events hooks = List.filter (\<lambda>(_, v). truthy v) hooks"

text \<open>The hooks after registering, and whether anything changed.\<close>

definition registered_hooks :: "pyval \<Rightarrow> (pyval \<times> pyval) list \<Rightarrow> (pyval \<times> pyval) list \<Rightarrow> ((pyval \<times> pyval) list \<times> bool) py" where
  "registered_hooks ext_id declared hooks =
     rbind (register_events ext_id declared (purge_undeclared ext_id (map fst declared) hooks)) (\<lambda>(hooks2, changed).
     Inr (if py_eq (PDict (non_empty_events hooks2)) (PDict hooks2) then (hooks2, changed) else (non_empty_events hooks2, True)))"

definition register_hooks :: "ext_manifest \<Rightarrow> unit hop" where
  "register_hooks m =
     sbind (slift (manifest_id m)) (\<lambda>ext_id.
     sthen (register_extension (py_str ext_id))
    (sbind (sget get_project_config) (\<lambda>config.
     sbind (slift (as_dict (manifest_hooks m))) (\<lambda>declared.
     sbind (slift (registered_hooks ext_id declared (hooks_in config))) (\<lambda>(hooks, changed).
     if changed then save_project_config (assoc_set (PStr ''hooks'') (PDict hooks) config) else sret ())))))"

definition unregister_hooks :: "string \<Rightarrow> unit hop" where
  "unregister_hooks ext_id =
     sthen (unregister_extension ext_id)
    (sbind (sget get_project_config) (\<lambda>config.
     save_project_config (assoc_set (PStr ''hooks'') (PDict (non_empty_events
       (map (\<lambda>(e, v). (e, PList (List.filter (\<lambda>h. \<not> belongs_to (PStr ext_id) h) (hook_list v)))) (hooks_in config)))) config)))"

text \<open>\<open>enable_hooks\<close> and \<open>disable_hooks\<close>.\<close>

definition switch_hook :: "bool \<Rightarrow> pyval \<Rightarrow> pyval \<Rightarrow> pyval" where
  "switch_hook on ext_id h =
     (case h of PDict d \<Rightarrow> if belongs_to ext_id h then PDict (assoc_set (PStr ''enabled'') (PBool on) d) else h | _ \<Rightarrow> h)"

definition switch_hooks :: "bool \<Rightarrow> string \<Rightarrow> unit hop" where
  "switch_hooks on ext_id =
     sbind (sget get_project_config) (\<lambda>config.
     save_project_config (assoc_set (PStr ''hooks'') (PDict
       (map (\<lambda>(e, v). (e, PList (map (switch_hook on (PStr ext_id)) (hook_list v)))) (hooks_in config))) config))"

definition enable_hooks :: "string \<Rightarrow> unit hop" where
  "enable_hooks = switch_hooks True"

definition disable_hooks :: "string \<Rightarrow> unit hop" where
  "disable_hooks = switch_hooks False"

section \<open>Events\<close>

definition hook_rank :: "pyval \<Rightarrow> (int \<times> (pyval \<times> pyval) list) py" where
  "hook_rank h = rbind (as_dict h) (\<lambda>d.
     rbind (normalize_priority DEFAULT_HOOK_PRIORITY (get_none d ''priority'')) (\<lambda>p. Inr (p, d)))"

definition hook_enabled :: "pyval \<Rightarrow> bool" where
  "hook_enabled h = truthy (get_or (dict_of h) ''enabled'' (PBool True))"

definition get_hooks_for_event :: "yaml_file \<Rightarrow> string \<Rightarrow> (pyval \<times> pyval) list list py" where
  "get_hooks_for_event f event =
     rbind (rmap hook_rank (List.filter hook_enabled
        (hook_list (case field (hooks_in (get_project_config f)) event of Some v \<Rightarrow> v | None \<Rightarrow> PList [])))) (\<lambda>hs.
     Inr (map snd (sort_by (\<lambda>a b. fst a \<le> fst b) hs)))"

text \<open>How an agent calls a command: the options saved by \<open>specify init\<close> decide.\<close>

definition load_init_options :: "json_file \<Rightarrow> (pyval \<times> pyval) list" where
  "load_init_options f = (case f of JsonValue v \<Rightarrow> dict_of v | _ \<Rightarrow> [])"

definition is_ai_skills_enabled :: "(pyval \<times> pyval) list \<Rightarrow> bool" where
  "is_ai_skills_enabled opts \<longleftrightarrow> get_none opts ''ai_skills'' = PBool True"

definition dots_to_hyphens :: "string \<Rightarrow> string" where
  "dots_to_hyphens t = map (\<lambda>c. if c = CHR ''.'' then CHR ''-'' else c) t"

definition format_cline_command_name :: "string \<Rightarrow> string" where
  "format_cline_command_name cmd =
     (let c = dots_to_hyphens cmd in if starts_with ''speckit-'' c then c else ''speckit-'' @ c)"

definition skill_name_from_command :: "string \<Rightarrow> string" where
  "skill_name_from_command command =
     (let c = py_strip command
      in if starts_with ''speckit.'' c then ''speckit-'' @ dots_to_hyphens (drop 8 c) else '''')"

definition render_hook_invocation :: "(pyval \<times> pyval) list \<Rightarrow> pyval \<Rightarrow> string" where
  "render_hook_invocation opts command =
     (case command of
        PStr t \<Rightarrow>
          (let c = py_strip t; ai = get_none opts ''ai''; skills = is_ai_skills_enabled opts;
               skill = skill_name_from_command c in
           if c = '''' then ''''
           else if ai = PStr ''codex'' \<and> skills \<and> skill \<noteq> '''' then ''$'' @ skill
           else if ai = PStr ''claude'' \<and> skills \<and> skill \<noteq> '''' then ''/'' @ skill
           else if ai = PStr ''kimi'' \<and> skill \<noteq> '''' then ''/skill:'' @ skill
           else if ai = PStr ''cursor-agent'' \<and> skills \<and> skill \<noteq> '''' then ''/'' @ skill
           else if ai = PStr ''cline'' then ''/'' @ format_cline_command_name c
           else ''/'' @ c)
      | _ \<Rightarrow> '''')"

definition hook_lines :: "(pyval \<times> pyval) list \<Rightarrow> (pyval \<times> pyval) list \<Rightarrow> string list" where
  "hook_lines opts hook =
     (let extension = py_str (get_none hook ''extension''); command = get_none hook ''command'';
          invocation = render_hook_invocation opts command;
          command_text = (case command of PStr t \<Rightarrow> if py_strip t \<noteq> '''' then t else ''<missing command>'' | _ \<Rightarrow> ''<missing command>'');
          shown = (if invocation \<noteq> '''' then invocation else ''/'' @ command_text);
          description = get_or hook ''description'' (PStr '''')
      in if truthy (get_or hook ''optional'' (PBool True))
         then [newline # ''**Optional Hook**: '' @ extension, ''Command: `'' @ shown @ ''`''] @
              (if truthy description then [''Description: '' @ py_str description] else []) @
              [newline # ''Prompt: '' @ py_str (get_or hook ''prompt'' (PStr '''')), ''To execute: `'' @ shown @ ''`'']
         else [newline # ''**Automatic Hook**: '' @ extension, ''Executing: `'' @ shown @ ''`'',
               ''EXECUTE_COMMAND: '' @ command_text, ''EXECUTE_COMMAND_INVOCATION: '' @ shown])"

definition format_hook_message :: "(pyval \<times> pyval) list \<Rightarrow> string \<Rightarrow> (pyval \<times> pyval) list list \<Rightarrow> string" where
  "format_hook_message opts event hooks =
     (if hooks = [] then ''''
      else join_with [newline] ([newline # ''## Extension Hooks'' @ [newline],
          ''Hooks available for event '' @ in_quotes event @ '':'' @ [newline]] @ concat (map (hook_lines opts) hooks)))"

record hook_check =
  hc_has_hooks :: bool
  hc_hooks :: "(pyval \<times> pyval) list list"
  hc_message :: string

definition check_hooks_for_event ::
  "config_env \<Rightarrow> (pyval \<times> pyval) list \<Rightarrow> yaml_file \<Rightarrow> string \<Rightarrow> hook_check py" where
  "check_hooks_for_event env opts f event =
     rbind (get_hooks_for_event f event) (\<lambda>hooks.
     if hooks = [] then Inr \<lparr>hc_has_hooks = False, hc_hooks = [], hc_message = ''''\<rparr>
     else let ready = List.filter (should_execute_hook env) hooks in
       Inr (if ready = []
            then \<lparr>hc_has_hooks = False, hc_hooks = [],
              hc_message = ''# No executable hooks for event '' @ in_quotes event @ '' (conditions not met)''\<rparr>
            else \<lparr>hc_has_hooks = True, hc_hooks = ready, hc_message = format_hook_message opts event ready\<rparr>))"

definition execute_hook :: "(pyval \<times> pyval) list \<Rightarrow> (pyval \<times> pyval) list \<Rightarrow> (pyval \<times> pyval) list" where
  "execute_hook opts hook =
     obj [(''command'', get_none hook ''command''), (''invocation'', PStr (render_hook_invocation opts (get_none hook ''command''))),
       (''extension'', get_none hook ''extension''), (''optional'', get_or hook ''optional'' (PBool True)),
       (''description'', get_or hook ''description'' (PStr '''')), (''prompt'', get_or hook ''prompt'' (PStr ''''))]"

end
