(* ===== verification/RegistryProps.thy ===== *)
theory RegistryProps
  imports Registries
begin

text \<open>
  What the registries guarantee: the contract \<open>keyed_registry\<close>, kept by the registries of extensions, of presets
  and of workflows, and the order in which extensions and presets are consulted.
\<close>

section \<open>JSON objects under change\<close>

lemma distinct_assoc_set: "distinct (map fst d) \<Longrightarrow> distinct (map fst (assoc_set (PStr k) v d))"
  by (simp add: keys_assoc_set)

lemma assoc_set_cases: "(a, b) \<in> set (assoc_set (PStr k) v d) \<Longrightarrow> (a, b) \<in> set d \<or> (a = PStr k \<and> b = v)"
  by (induction d) (auto split: if_splits)

lemma is_json_set: "is_json (PDict d) \<Longrightarrow> is_json v \<Longrightarrow> is_json (PDict (assoc_set (PStr k) v d))"
  using distinct_assoc_set[of d k v] assoc_set_cases[of _ _ k v d] by (fastforce simp: list_all_iff)

lemma is_json_remove: "is_json (PDict d) \<Longrightarrow> is_json (PDict (assoc_remove (PStr k) d))"
  unfolding assoc_remove_def by (induction d) (auto simp: list_all_iff)

lemma is_json_field: "is_json (PDict d) \<Longrightarrow> field d n = Some v \<Longrightarrow> is_json v"
  unfolding field_def by (induction d) (auto split: if_splits)


definition json_object :: "(pyval \<times> pyval) list \<Rightarrow> bool" where
  "json_object m \<longleftrightarrow> is_json (PDict m)"

section \<open>Merged entries\<close>

lemma assoc_get_key: "assoc_get d (PStr i) = Some v \<Longrightarrow> PStr i \<in> fst ` set d"
  by (induction d) (force split: if_splits)+

lemma assoc_get_rev: "distinct (map fst m) \<Longrightarrow> assoc_get (rev m) (PStr i) = assoc_get m (PStr i)"
proof (induction m)
  case (Cons x m)
  obtain k v where x: "x = (k, v)" by (cases x)
  have "assoc_get m (PStr i) = None" if "k = PStr i"
    using Cons.prems that assoc_get_key[of m i] by (cases "assoc_get m (PStr i)") (auto simp: x)
  with Cons show ?case by (auto simp: x assoc_get_append split: option.split)
qed simp

lemma field_update:
  "distinct (map fst m) \<Longrightarrow> field (assoc_update d m) n = (case field m n of Some v \<Rightarrow> Some v | None \<Rightarrow> field d n)"
  by (simp add: field_def assoc_get_update assoc_get_rev split: option.split)

lemma is_json_update: "is_json (PDict d) \<Longrightarrow> is_json (PDict m) \<Longrightarrow> is_json (PDict (assoc_update d m))"
proof (induction m arbitrary: d)
  case (Cons x m)
  obtain k v where x: "x = (PStr k, v)" using Cons.prems(2) by (cases x) (auto simp: is_str_iff)
  have "is_json (PDict (assoc_set (PStr k) v d))" using Cons.prems by (intro is_json_set) (simp_all add: x)
  with Cons.IH Cons.prems(2) show ?case by (simp add: assoc_update_def x)
qed (simp add: assoc_update_def)

lemma merged_entry_fields:
  assumes "json_object m" "is_json old"
  shows "is_json (PDict (merged_entry old m))"
    "field (merged_entry old m) ''installed_at'' = (case old of PDict d \<Rightarrow> field d ''installed_at'' | _ \<Rightarrow> None)"
    "n \<noteq> ''installed_at'' \<Longrightarrow> field (merged_entry old m) n =
       (case field m n of Some w \<Rightarrow> Some w | None \<Rightarrow> (case old of PDict d \<Rightarrow> field d n | _ \<Rightarrow> None))"
proof -
  define ex where "ex = (case old of PDict d \<Rightarrow> d | _ \<Rightarrow> [])"
  have ex: "is_json (PDict ex)" "(case old of PDict d \<Rightarrow> field d n | _ \<Rightarrow> None) = field ex n" for n
    using assms(2) by (auto simp: ex_def split: pyval.split)
  have j: "is_json (PDict (assoc_update ex m))"
    using is_json_update ex(1) assms(1) by (simp add: json_object_def)
  have u: "field (assoc_update ex m) n = (case field m n of Some v \<Rightarrow> Some v | None \<Rightarrow> field ex n)" for n
    using assms(1) by (intro field_update) (simp add: json_object_def)
  have m: "merged_entry old m = (case field ex ''installed_at'' of
      Some t \<Rightarrow> assoc_set (PStr ''installed_at'') t (assoc_update ex m)
    | None \<Rightarrow> assoc_remove (PStr ''installed_at'') (assoc_update ex m))"
    unfolding merged_entry_def ex_def Let_def by (rule refl)
  show "is_json (PDict (merged_entry old m))"
    unfolding m using is_json_set[OF j] is_json_remove[OF j] is_json_field[OF ex(1)] by (auto split: option.split)
  show "field (merged_entry old m) ''installed_at'' = (case old of PDict d \<Rightarrow> field d ''installed_at'' | _ \<Rightarrow> None)"
    by (simp add: m ex(2) split: option.split)
  show "field (merged_entry old m) n = (case field m n of Some w \<Rightarrow> Some w | None \<Rightarrow> (case old of PDict d \<Rightarrow> field d n | _ \<Rightarrow> None))"
    if "n \<noteq> ''installed_at''"
    using that by (simp add: m ex(2) u split: option.split)
qed

section \<open>The contract of a registry\<close>

text \<open>
  \<open>look\<close> reads an entry, \<open>entry m v\<close> says that \<open>v\<close> is what is stored of the metadata \<open>m\<close>, and
  \<open>reload\<close> makes a new registry from the file. Adding and removing never fail, change this name only,
  and leave a file that a new registry reads the same from.
\<close>

datatype 'm registry_change = Added string 'm | Dropped string

fun changed_name :: "'m registry_change \<Rightarrow> string" where
  "changed_name (Added i m) = i"
| "changed_name (Dropped i) = i"

text \<open>One change, by the two operations; and what a list of changes makes of the entry of one name.\<close>

fun perform_change ::
  "(string \<Rightarrow> 'm \<Rightarrow> ('s, pyexn, unit) svc) \<Rightarrow> (string \<Rightarrow> ('s, pyexn, unit) svc) \<Rightarrow> 'm registry_change \<Rightarrow> ('s, pyexn, unit) svc" where
  "perform_change put del (Added i m) = put i m"
| "perform_change put del (Dropped i) = del i"

fun explains :: "('m \<Rightarrow> 'v \<Rightarrow> bool) \<Rightarrow> 'm registry_change list \<Rightarrow> string \<Rightarrow> 'v option \<Rightarrow> 'v option \<Rightarrow> bool" where
  "explains entry [] i old new \<longleftrightarrow> new = old"
| "explains entry (c # cs) i old new \<longleftrightarrow>
     (if changed_name c \<noteq> i then explains entry cs i old new
      else case c of
          Added _ m \<Rightarrow> (\<exists>v. entry m v \<and> explains entry cs i (Some v) new)
        | Dropped _ \<Rightarrow> explains entry cs i None new)"

locale keyed_registry =
  fixes ok :: "'s \<Rightarrow> bool" and look :: "string \<Rightarrow> 's \<Rightarrow> 'v option"
    and fit :: "'m \<Rightarrow> bool" and entry :: "'m \<Rightarrow> 'v \<Rightarrow> bool"
    and add_key :: "string \<Rightarrow> 'm \<Rightarrow> ('s, pyexn, unit) svc" and drop_key :: "string \<Rightarrow> ('s, pyexn, unit) svc"
    and reload :: "'s \<Rightarrow> 's py"
  assumes add_law: "ok s \<Longrightarrow> fit m \<Longrightarrow>
      \<exists>v s'. add_key i m s = (Inr (), s') \<and> ok s' \<and> entry m v \<and> (\<forall>j. look j s' = (if j = i then Some v else look j s))"
    and drop_law: "ok s \<Longrightarrow>
      \<exists>s'. drop_key i s = (Inr (), s') \<and> ok s' \<and> (\<forall>j. look j s' = (if j = i then None else look j s))"
    and disk_law: "ok s \<Longrightarrow> \<exists>s'. reload s = Inr s' \<and> ok s' \<and> (\<forall>j. look j s' = look j s)"
begin

lemma changes_are_map_updates:
  assumes "ok s" "\<And>i m. Added i m \<in> set cs \<Longrightarrow> fit m"
  shows "\<exists>s' s2. sfor cs (perform_change add_key drop_key) s = (Inr (), s') \<and> ok s' \<and> reload s' = Inr s2 \<and>
     (\<forall>j. explains entry cs j (look j s) (look j s') \<and> look j s2 = look j s')"
  using assms
proof (induction cs arbitrary: s)
  case Nil
  with disk_law[OF Nil(1)] show ?case by (auto simp: sret_def)
next
  case (Cons c cs)
  obtain s1 v where s1: "perform_change add_key drop_key c s = (Inr (), s1)" "ok s1"
      "\<And>j. look j s1 = (if j = changed_name c then v else look j s)"
    and v: "\<And>j new. changed_name c = j \<Longrightarrow> explains entry cs j v new \<Longrightarrow> explains entry (c # cs) j (look j s) new"
  proof (cases c)
    case (Added i m)
    with Cons.prems(2)[of i m] have m: "fit m" by simp
    from add_law[OF Cons.prems(1) m, of i] obtain u s1 where
      "add_key i m s = (Inr (), s1)" "ok s1" "entry m u" "\<forall>j. look j s1 = (if j = i then Some u else look j s)" by blast
    with Added show ?thesis by (intro that[of s1 "Some u"]) auto
  next
    case (Dropped i)
    from drop_law[OF Cons.prems(1), of i] obtain s1 where
      "drop_key i s = (Inr (), s1)" "ok s1" "\<forall>j. look j s1 = (if j = i then None else look j s)" by blast
    with Dropped show ?thesis by (intro that[of s1 None]) auto
  qed
  from Cons.IH[OF s1(2)] Cons.prems(2) obtain s' s2 where
    r: "sfor cs (perform_change add_key drop_key) s1 = (Inr (), s')" "ok s'" "reload s' = Inr s2"
      "\<forall>j. explains entry cs j (look j s1) (look j s') \<and> look j s2 = look j s'"
    by (meson list.set_intros(2))
  have e: "explains entry (c # cs) j (look j s) (look j s')" for j
  proof (cases "changed_name c = j")
    case True
    with r(4) s1(3)[of j] show ?thesis by (intro v) auto
  next
    case False
    then have "look j s1 = look j s" using s1(3)[of j] by simp
    moreover have "explains entry cs j (look j s1) (look j s')" using r(4) by blast
    ultimately show ?thesis using False by simp
  qed
  have "sfor (c # cs) (perform_change add_key drop_key) s = (Inr (), s')"
    using s1(1) r(1) by (simp add: sthen_def sbind_def)
  with r e show ?case by blast
qed

end


text \<open>
  A registry whose entries are also changed and put back: an update needs an entry and merges with it, a value put back
  must be whole, and a call that fails changes nothing.
\<close>

datatype ('m, 'v) revision = Plain "'m registry_change" | Updated string 'm | Restored string 'v

fun revised_name :: "('m, 'v) revision \<Rightarrow> string" where
  "revised_name (Plain c) = changed_name c"
| "revised_name (Updated i m) = i"
| "revised_name (Restored i v) = i"

definition raises :: "string \<Rightarrow> unit py \<Rightarrow> bool" where
  "raises k r \<longleftrightarrow> (\<exists>t. r = Inl (PyExc k t))"

text \<open>What a call does to the entry of its name, \<open>old\<close> before and \<open>new\<close> after it, and how it ends.\<close>

fun outcome ::
  "('m \<Rightarrow> 'v \<Rightarrow> bool) \<Rightarrow> ('m \<Rightarrow> 'v \<Rightarrow> 'v \<Rightarrow> bool) \<Rightarrow> ('v \<Rightarrow> bool) \<Rightarrow> ('m, 'v) revision \<Rightarrow> 'v option \<Rightarrow> unit py \<Rightarrow> 'v option \<Rightarrow> bool"
where
  "outcome entry merge whole (Plain (Added i m)) old r new \<longleftrightarrow> r = Inr () \<and> (\<exists>v. entry m v \<and> new = Some v)"
| "outcome entry merge whole (Plain (Dropped i)) old r new \<longleftrightarrow> r = Inr () \<and> new = None"
| "outcome entry merge whole (Updated i m) old r new \<longleftrightarrow>
     (case old of None \<Rightarrow> raises ''KeyError'' r \<and> new = None
      | Some o' \<Rightarrow> r = Inr () \<and> (\<exists>v. merge m o' v \<and> new = Some v))"
| "outcome entry merge whole (Restored i v) old r new \<longleftrightarrow>
     (if whole v then r = Inr () \<and> new = Some v else raises ''ValueError'' r \<and> new = old)"

fun history ::
  "(('m, 'v) revision \<Rightarrow> 'v option \<Rightarrow> unit py \<Rightarrow> 'v option \<Rightarrow> bool) \<Rightarrow> ('m, 'v) revision list \<Rightarrow> unit py list \<Rightarrow>
    string \<Rightarrow> 'v option \<Rightarrow> 'v option \<Rightarrow> bool"
where
  "history out [] [] i old new \<longleftrightarrow> new = old"
| "history out (c # cs) (r # rs) i old new \<longleftrightarrow>
     (if revised_name c \<noteq> i then history out cs rs i old new else (\<exists>mid. out c old r mid \<and> history out cs rs i mid new))"
| "history out _ _ i old new \<longleftrightarrow> False"

text \<open>A call after another, whether it fails or not.\<close>

fun revise_all :: "('c \<Rightarrow> ('s, pyexn, unit) svc) \<Rightarrow> 'c list \<Rightarrow> 's \<Rightarrow> unit py list \<times> 's" where
  "revise_all f [] s = ([], s)"
| "revise_all f (c # cs) s = (case f c s of (r, s1) \<Rightarrow> case revise_all f cs s1 of (rs, s2) \<Rightarrow> (r # rs, s2))"

locale revised_registry = keyed_registry ok look fit entry add_key drop_key reload
  for ok :: "'s \<Rightarrow> bool" and look :: "string \<Rightarrow> 's \<Rightarrow> 'v option"
    and fit :: "'m \<Rightarrow> bool" and entry :: "'m \<Rightarrow> 'v \<Rightarrow> bool"
    and add_key :: "string \<Rightarrow> 'm \<Rightarrow> ('s, pyexn, unit) svc" and drop_key :: "string \<Rightarrow> ('s, pyexn, unit) svc"
    and reload :: "'s \<Rightarrow> 's py" +
  fixes sound :: "'v \<Rightarrow> bool" and whole :: "'v \<Rightarrow> bool" and merge :: "'m \<Rightarrow> 'v \<Rightarrow> 'v \<Rightarrow> bool"
    and update_key :: "string \<Rightarrow> 'm \<Rightarrow> ('s, pyexn, unit) svc" and restore_key :: "string \<Rightarrow> 'v \<Rightarrow> ('s, pyexn, unit) svc"
  assumes update_law: "ok s \<Longrightarrow> fit m \<Longrightarrow>
      (case look i s of
         None \<Rightarrow> \<exists>t. update_key i m s = (Inl (PyExc ''KeyError'' t), s)
       | Some old \<Rightarrow> \<exists>v s'. update_key i m s = (Inr (), s') \<and> ok s' \<and> merge m old v \<and>
           (\<forall>j. look j s' = (if j = i then Some v else look j s)))"
    and restore_law: "ok s \<Longrightarrow> sound v \<Longrightarrow>
      (if whole v then \<exists>s'. restore_key i v s = (Inr (), s') \<and> ok s' \<and> (\<forall>j. look j s' = (if j = i then Some v else look j s))
       else \<exists>t. restore_key i v s = (Inl (PyExc ''ValueError'' t), s))"
begin

fun revise :: "('m, 'v) revision \<Rightarrow> ('s, pyexn, unit) svc" where
  "revise (Plain c) = perform_change add_key drop_key c"
| "revise (Updated i m) = update_key i m"
| "revise (Restored i v) = restore_key i v"

fun usable :: "('m, 'v) revision \<Rightarrow> bool" where
  "usable (Plain (Added i m)) = fit m"
| "usable (Plain (Dropped i)) = True"
| "usable (Updated i m) = fit m"
| "usable (Restored i v) = sound v"

lemma one_revision:
  assumes "ok s" "usable c"
  shows "\<exists>r s'. revise c s = (r, s') \<and> ok s' \<and> outcome entry merge whole c (look (revised_name c) s) r (look (revised_name c) s') \<and>
    (\<forall>j. j \<noteq> revised_name c \<longrightarrow> look j s' = look j s)"
proof (cases c)
  case (Plain p)
  show ?thesis
  proof (cases p)
    case (Added i m)
    with Plain assms(2) add_law[OF assms(1), of m i] show ?thesis by auto
  next
    case (Dropped i)
    with Plain drop_law[OF assms(1), of i] show ?thesis by auto
  qed
next
  case (Updated i m)
  with assms(2) update_law[OF assms(1), of m i] show ?thesis by (cases "look i s") (auto simp: raises_def assms(1))
next
  case (Restored i v)
  with assms(2) restore_law[OF assms(1), of v i] show ?thesis by (cases "whole v") (auto simp: raises_def assms(1))
qed

lemma revisions_are_map_updates:
  assumes "ok s" "\<And>c. c \<in> set cs \<Longrightarrow> usable c" "revise_all revise cs s = (rs, s')"
  shows "ok s' \<and> (\<forall>i. history (outcome entry merge whole) cs rs i (look i s) (look i s')) \<and>
    (\<exists>s2. reload s' = Inr s2 \<and> (\<forall>i. look i s2 = look i s'))"
  using assms
proof (induction cs arbitrary: s rs)
  case Nil
  with disk_law[OF Nil(1)] show ?case by auto
next
  case (Cons c cs)
  obtain r s1 where s1: "revise c s = (r, s1)" "ok s1"
      "outcome entry merge whole c (look (revised_name c) s) r (look (revised_name c) s1)"
      "\<forall>j. j \<noteq> revised_name c \<longrightarrow> look j s1 = look j s"
    using one_revision[OF Cons.prems(1), of c] Cons.prems(2) by auto
  obtain rs1 where rs: "revise_all revise cs s1 = (rs1, s')" "rs = r # rs1"
    using Cons.prems(3) s1(1) by (auto split: prod.splits)
  note ih = Cons.IH[OF s1(2) _ rs(1)]
  have "history (outcome entry merge whole) (c # cs) rs i (look i s) (look i s')" for i
  proof (cases "revised_name c = i")
    case True
    with ih Cons.prems(2) s1(3) rs(2) show ?thesis by auto
  next
    case False
    with s1(4) have "look i s1 = look i s" by auto
    moreover have "history (outcome entry merge whole) cs rs1 i (look i s1) (look i s')" using ih Cons.prems(2) by auto
    ultimately show ?thesis using False rs(2) by simp
  qed
  with ih Cons.prems(2) show ?case by simp
qed

end

section \<open>The registries of extensions and presets\<close>

definition registry_ok :: "registry_class \<Rightarrow> kept_state \<Rightarrow> bool" where
  "registry_ok c s \<longleftrightarrow> is_json (PDict (kr_data s)) \<and> kept_entries c s \<noteq> None \<and>
     kept_load c (kr_file s) = Inr (kr_data s)"

text \<open>What is stored of some metadata: all of it, with the given dates in the given fields.\<close>

definition stored_with :: "string list \<Rightarrow> (pyval \<times> pyval) list \<Rightarrow> (pyval \<times> pyval) list \<Rightarrow> bool" where
  "stored_with dates m v \<longleftrightarrow> (\<forall>n. n \<notin> set dates \<longrightarrow> field v n = field m n) \<and>
     list_all (\<lambda>n. field v n \<noteq> None) dates"

lemma kept_entries_put:
  "kept_entries c (s\<lparr>kr_data := assoc_set (PStr (rc_field c)) (PDict es) d, kr_file := f\<rparr>) = Some es"
  by (simp add: kept_entries_def get_or_def)

lemma put_entries_law:
  assumes "is_json (PDict (kr_data s))" "is_json (PDict es)"
  shows "\<exists>s'. put_entries c es s = (Inr (), s') \<and> registry_ok c s' \<and> kept_entries c s' = Some es"
proof -
  let ?d = "assoc_set (PStr (rc_field c)) (PDict es) (kr_data s)"
  have j: "is_json (PDict ?d)" by (intro is_json_set assms)
  have "put_entries c es s = (Inr (), s\<lparr>kr_data := ?d, kr_file := JsonValue (PDict ?d)\<rparr>)"
    using to_json_id[OF j] by (simp add: put_entries_def kept_save_def sthen_def sbind_def smodify_def del: to_json.simps)
  moreover have "kept_load c (JsonValue (PDict ?d)) = Inr ?d"
    by (simp add: kept_load_def get_or_def)
  ultimately show ?thesis
    using j by (auto simp: registry_ok_def kept_entries_put)
qed

lemma kept_entries_json: "registry_ok c s \<Longrightarrow> kept_entries c s = Some es \<Longrightarrow> is_json (PDict es)"
  using is_json_field[of "kr_data s" "rc_field c"]
  by (auto simp: registry_ok_def kept_entries_def get_or_def split: option.splits pyval.splits)

text \<open>The entry of a name, whatever it is; and what an entry is after adding it and after merging into it.\<close>

definition kept_value :: "registry_class \<Rightarrow> string \<Rightarrow> kept_state \<Rightarrow> pyval option" where
  "kept_value c i s = (case kept_entries c s of Some es \<Rightarrow> field es i | None \<Rightarrow> None)"

definition dated_entry :: "(pyval \<times> pyval) list \<Rightarrow> pyval \<Rightarrow> bool" where
  "dated_entry m v \<longleftrightarrow> (\<exists>d. v = PDict d \<and> stored_with [''installed_at''] m d)"

definition merged_with :: "(pyval \<times> pyval) list \<Rightarrow> pyval \<Rightarrow> pyval \<Rightarrow> bool" where
  "merged_with m old v \<longleftrightarrow> (\<exists>d. v = PDict d \<and>
     field d ''installed_at'' = (case old of PDict o' \<Rightarrow> field o' ''installed_at'' | _ \<Rightarrow> None) \<and>
     (\<forall>n. n \<noteq> ''installed_at'' \<longrightarrow> field d n =
        (case field m n of Some w \<Rightarrow> Some w | None \<Rightarrow> (case old of PDict o' \<Rightarrow> field o' n | _ \<Rightarrow> None))))"

interpretation kept: revised_registry "registry_ok c" "kept_value c" json_object dated_entry
  "kept_add c now" "kept_remove c" "\<lambda>s. kept_init c (kr_file s)" is_json is_dict merged_with
  "kept_update c" "kept_restore c" for c now
proof
  fix s i and m :: "(pyval \<times> pyval) list"
  assume ok: "registry_ok c s" and m: "json_object m"
  obtain es where es: "kept_entries c s = Some es" using ok by (auto simp: registry_ok_def)
  let ?v = "assoc_set (PStr ''installed_at'') (PStr (now (kr_tick s))) m"
  let ?s = "s\<lparr>kr_tick := Suc (kr_tick s)\<rparr>"
  have "is_json (PDict (assoc_set (PStr i) (PDict ?v) es))"
    using m kept_entries_json[OF ok es] by (intro is_json_set) (simp_all add: json_object_def)
  moreover have "is_json (PDict (kr_data ?s))" using ok by (simp add: registry_ok_def)
  ultimately obtain s' where s': "put_entries c (assoc_set (PStr i) (PDict ?v) es) ?s = (Inr (), s')"
      "registry_ok c s'" "kept_entries c s' = Some (assoc_set (PStr i) (PDict ?v) es)"
    using put_entries_law by blast
  have "field (kr_data s) (rc_field c) = Some (PDict es)"
    using es by (auto simp: kept_entries_def get_or_def split: option.splits pyval.splits)
  then have "kept_add c now i m s = (Inr (), s')"
    using s'(1) by (simp add: kept_add_def kept_clock_def sbind_def sget_def)
  moreover have "kept_value c j s' = (if j = i then Some (PDict ?v) else kept_value c j s)" for j
    by (simp add: kept_value_def s'(3) es)
  moreover have "dated_entry m (PDict ?v)" by (simp add: dated_entry_def stored_with_def)
  ultimately show "\<exists>v s'. kept_add c now i m s = (Inr (), s') \<and> registry_ok c s' \<and>
      dated_entry m v \<and> (\<forall>j. kept_value c j s' = (if j = i then Some v else kept_value c j s))"
    using s'(2) by blast
next
  fix s i
  assume ok: "registry_ok c s"
  obtain es where es: "kept_entries c s = Some es" using ok by (auto simp: registry_ok_def)
  show "\<exists>s'. kept_remove c i s = (Inr (), s') \<and> registry_ok c s' \<and>
      (\<forall>j. kept_value c j s' = (if j = i then None else kept_value c j s))"
  proof (cases "has_field es i")
    case True
    obtain s' where s': "put_entries c (assoc_remove (PStr i) es) s = (Inr (), s')" "registry_ok c s'"
        "kept_entries c s' = Some (assoc_remove (PStr i) es)"
      using put_entries_law[of s "assoc_remove (PStr i) es" c] is_json_remove[OF kept_entries_json[OF ok es]] ok
      unfolding registry_ok_def by blast
    then show ?thesis using True es by (auto simp: kept_remove_def sbind_def sget_def kept_value_def)
  next
    case False
    then show ?thesis using ok es
      by (auto simp: kept_remove_def sbind_def sget_def sret_def kept_value_def has_field_def)
  qed
next
  fix s
  assume "registry_ok c s"
  then show "\<exists>s'. kept_init c (kr_file s) = Inr s' \<and> registry_ok c s' \<and> (\<forall>j. kept_value c j s' = kept_value c j s)"
    by (auto simp: registry_ok_def kept_init_def kept_value_def kept_entries_def)
next
  fix s i and m :: "(pyval \<times> pyval) list"
  assume ok: "registry_ok c s" and m: "json_object m"
  obtain es where es: "kept_entries c s = Some es" using ok by (auto simp: registry_ok_def)
  show "case kept_value c i s of
         None \<Rightarrow> \<exists>t. kept_update c i m s = (Inl (PyExc ''KeyError'' t), s)
       | Some old \<Rightarrow> \<exists>v s'. kept_update c i m s = (Inr (), s') \<and> registry_ok c s' \<and> merged_with m old v \<and>
           (\<forall>j. kept_value c j s' = (if j = i then Some v else kept_value c j s))"
  proof (cases "kept_value c i s")
    case None
    then show ?thesis by (simp add: kept_value_def es kept_update_def sbind_sget sraise_def)
  next
    case (Some old)
    then have f: "field es i = Some old" by (simp add: kept_value_def es)
    have j: "is_json (PDict es)" "is_json old"
      using kept_entries_json[OF ok es] is_json_field[OF _ f] by auto
    obtain s' where s': "put_entries c (assoc_set (PStr i) (PDict (merged_entry old m)) es) s = (Inr (), s')" "registry_ok c s'"
        "kept_entries c s' = Some (assoc_set (PStr i) (PDict (merged_entry old m)) es)"
      using put_entries_law is_json_set[OF j(1) merged_entry_fields(1)[OF m j(2)]] ok unfolding registry_ok_def by blast
    have "merged_with m old (PDict (merged_entry old m))"
      using merged_entry_fields(2,3)[OF m j(2)] by (simp add: merged_with_def)
    moreover have "kept_update c i m s = (Inr (), s')" by (simp add: kept_update_def sbind_sget es f s'(1))
    moreover have "kept_value c j s' = (if j = i then Some (PDict (merged_entry old m)) else kept_value c j s)" for j
      by (simp add: kept_value_def s'(3) es)
    ultimately show ?thesis using Some s'(2) by auto
  qed
next
  fix s i v
  assume ok: "registry_ok c s" and v: "is_json v"
  obtain es where es: "kept_entries c s = Some es" using ok by (auto simp: registry_ok_def)
  show "if is_dict v
     then \<exists>s'. kept_restore c i v s = (Inr (), s') \<and> registry_ok c s' \<and> (\<forall>j. kept_value c j s' = (if j = i then Some v else kept_value c j s))
     else \<exists>t. kept_restore c i v s = (Inl (PyExc ''ValueError'' t), s)"
  proof (cases "is_dict v")
    case True
    then obtain m where m: "v = PDict m" by (auto elim: is_dict.elims)
    obtain s' where s': "put_entries c (assoc_set (PStr i) v es) s = (Inr (), s')" "registry_ok c s'"
        "kept_entries c s' = Some (assoc_set (PStr i) v es)"
      using put_entries_law is_json_set[OF kept_entries_json[OF ok es] v] ok unfolding registry_ok_def by blast
    then show ?thesis using True m es by (auto simp: kept_restore_def sbind_sget kept_value_def)
  next
    case False
    then show ?thesis by (auto simp: kept_restore_def sraise_def split: pyval.split)
  qed
qed

section \<open>The registry of workflows\<close>

lemma py_in_field: "py_in (PStr i) (PDict d) = Inr (field d i \<noteq> None)"
  by (simp add: field_def)

definition wf_registry_ok :: "registry_state \<Rightarrow> bool" where
  "wf_registry_ok s \<longleftrightarrow> (\<exists>d ws. rg_data s = PDict d \<and> field d ''workflows'' = Some (PDict ws) \<and>
     is_json (PDict d) \<and> list_all (\<lambda>(_, v). is_dict v) ws \<and> rg_file s = JsonValue (rg_data s))"

definition wf_registry_look :: "string \<Rightarrow> registry_state \<Rightarrow> (pyval \<times> pyval) list option" where
  "wf_registry_look i s = (case workflows_value (rg_data s) of
     Inr (PDict ws) \<Rightarrow> (case field ws i of Some (PDict m) \<Rightarrow> Some m | _ \<Rightarrow> None) | _ \<Rightarrow> None)"

lemma saved_workflows:
  assumes "rg_data s = PDict d" "is_json (PDict d)" "is_json (PDict ws)" "list_all (\<lambda>(_, v). is_dict v) ws"
  shows "\<exists>s'. sthen (smodify (\<lambda>s. s\<lparr>rg_data := set_workflows (rg_data s) (PDict ws)\<rparr>)) save_registry s = (Inr (), s') \<and>
     wf_registry_ok s' \<and> (\<forall>j. wf_registry_look j s' = (case field ws j of Some (PDict m) \<Rightarrow> Some m | _ \<Rightarrow> None))"
proof -
  let ?d = "assoc_set (PStr ''workflows'') (PDict ws) d"
  have j: "is_json (PDict ?d)" by (intro is_json_set assms)
  have "sthen (smodify (\<lambda>s. s\<lparr>rg_data := set_workflows (rg_data s) (PDict ws)\<rparr>)) save_registry s =
      (Inr (), s\<lparr>rg_data := PDict ?d, rg_file := JsonValue (PDict ?d)\<rparr>)"
    using to_json_id[OF j] by (simp add: sthen_smodify save_registry_def smodify_def set_workflows_def assms(1) del: to_json.simps)
  then show ?thesis
    using j assms(4) by (auto simp: wf_registry_ok_def wf_registry_look_def workflows_value_def)
qed

interpretation wf_registry: keyed_registry wf_registry_ok wf_registry_look json_object
  "stored_with [''installed_at'', ''updated_at'']" "wf_registry_add now" "\<lambda>i. sthen (wf_registry_remove i) (sret ())"
  "\<lambda>s. init_registry (rg_file s)" for now
proof
  fix s i and m :: "(pyval \<times> pyval) list"
  assume ok: "wf_registry_ok s" and m: "json_object m"
  obtain d ws where d: "rg_data s = PDict d" "field d ''workflows'' = Some (PDict ws)" "is_json (PDict d)"
      "list_all (\<lambda>(_, v). is_dict v) ws"
    using ok by (auto simp: wf_registry_ok_def)
  have look: "wf_registry_look j s = (case field ws j of Some (PDict m) \<Rightarrow> Some m | _ \<Rightarrow> None)" for j
    by (simp add: wf_registry_look_def workflows_value_def d)
  have ws: "is_json (PDict ws)" using is_json_field[OF d(3,2)] .
  have dicts: "is_dict v" if "field ws i = Some v" for v
    using that d(4) by (induction ws) (auto simp: field_def split: if_splits)
  obtain ex where ex: "as_dict (get_or ws i (PDict [])) = Inr ex" "is_json (PDict ex)"
  proof (cases "field ws i")
    case None
    then show ?thesis by (intro that[of "[]"]) (simp_all add: get_or_def)
  next
    case (Some v)
    with dicts obtain e where "v = PDict e" by (auto elim: is_dict.elims)
    with Some is_json_field[OF ws Some] show ?thesis by (intro that[of e]) (simp_all add: get_or_def)
  qed
  let ?t = "now (rg_tick s)" and ?t2 = "now (Suc (rg_tick s))"
  let ?v = "assoc_set (PStr ''updated_at'') (PStr ?t2) (assoc_set (PStr ''installed_at'') (get_or ex ''installed_at'' (PStr ?t)) m)"
  let ?s = "s\<lparr>rg_tick := Suc (Suc (rg_tick s))\<rparr>" and ?ws = "assoc_set (PStr i) (PDict ?v) ws"
  have "is_json (get_or ex ''installed_at'' (PStr ?t))"
    using is_json_field[OF ex(2)] by (auto simp: get_or_def split: option.split)
  then have "is_json (PDict ?ws)"
    using m by (intro is_json_set ws) (simp_all add: json_object_def)
  moreover have "list_all (\<lambda>(_, v). is_dict v) ?ws"
    using d(4) assoc_set_cases[of _ _ i "PDict ?v" ws] by (fastforce simp: list_all_iff)
  ultimately obtain s' where s': "sthen (smodify (\<lambda>s. s\<lparr>rg_data := set_workflows (rg_data s) (PDict ?ws)\<rparr>)) save_registry ?s = (Inr (), s')"
      "wf_registry_ok s'" "\<forall>j. wf_registry_look j s' = (case field ?ws j of Some (PDict m) \<Rightarrow> Some m | _ \<Rightarrow> None)"
    using saved_workflows[of ?s d ?ws] d(1,3) by auto
  have upd: "s\<lparr>rg_tick := Suc (rg_tick s), rg_tick := Suc (Suc (rg_tick s))\<rparr> = ?s" by simp
  have "wf_registry_add now i m s = (Inr (), s')"
    using s'(1) ex(1) by (simp add: wf_registry_add_def registry_workflows_def sbind_def sget_def slift_def
        workflows_value_def d(1,2) clock_text_def Let_def)
  moreover have "stored_with [''installed_at'', ''updated_at''] m ?v" by (simp add: stored_with_def)
  moreover have "wf_registry_look j s' = (if j = i then Some ?v else wf_registry_look j s)" for j
    using s'(3) by (simp add: look)
  ultimately show "\<exists>v s'. wf_registry_add now i m s = (Inr (), s') \<and> wf_registry_ok s' \<and>
      stored_with [''installed_at'', ''updated_at''] m v \<and>
      (\<forall>j. wf_registry_look j s' = (if j = i then Some v else wf_registry_look j s))"
    using s'(2) by blast
next
  fix s i
  assume ok: "wf_registry_ok s"
  obtain d ws where d: "rg_data s = PDict d" "field d ''workflows'' = Some (PDict ws)" "is_json (PDict d)"
      "list_all (\<lambda>(_, v). is_dict v) ws"
    using ok by (auto simp: wf_registry_ok_def)
  have look: "wf_registry_look j s = (case field ws j of Some (PDict m) \<Rightarrow> Some m | _ \<Rightarrow> None)" for j
    by (simp add: wf_registry_look_def workflows_value_def d)
  show "\<exists>s'. sthen (wf_registry_remove i) (sret ()) s = (Inr (), s') \<and> wf_registry_ok s' \<and>
      (\<forall>j. wf_registry_look j s' = (if j = i then None else wf_registry_look j s))"
  proof (cases "field ws i")
    case None
    then have "wf_registry_remove i s = (Inr False, s)"
      by (simp add: wf_registry_remove_def sbind_sget workflows_value_def d(1,2) sbind_slift py_in_field sret_def del: py_in.simps)
    with ok None show ?thesis by (auto simp: sthen_def sbind_def sret_def look)
  next
    case (Some v)
    let ?ws = "assoc_remove (PStr i) ws"
    have "list_all (\<lambda>(_, v). is_dict v) ?ws" using d(4) by (auto simp: assoc_remove_def list_all_iff)
    then obtain s' where s': "sthen (smodify (\<lambda>s. s\<lparr>rg_data := set_workflows (rg_data s) (PDict ?ws)\<rparr>)) save_registry s = (Inr (), s')"
        "wf_registry_ok s'" "\<forall>j. wf_registry_look j s' = (case field ?ws j of Some (PDict m) \<Rightarrow> Some m | _ \<Rightarrow> None)"
      using saved_workflows[OF d(1,3) is_json_remove[OF is_json_field[OF d(3,2)]]] by blast
    then have "wf_registry_remove i s = (Inr True, s')"
      using Some by (simp add: wf_registry_remove_def sbind_sget workflows_value_def d(1,2) sbind_slift py_in_field del_key_def
          assoc_remove_def sthen_smodify del: py_in.simps) (simp add: sthen_def sbind_def sret_def smodify_def)
    with s'(2,3) show ?thesis by (auto simp: sthen_def sbind_def sret_def look)
  qed
next
  fix s
  assume "wf_registry_ok s"
  then show "\<exists>s'. init_registry (rg_file s) = Inr s' \<and> wf_registry_ok s' \<and> (\<forall>j. wf_registry_look j s' = wf_registry_look j s)"
    by (auto simp: wf_registry_ok_def init_registry_def load_registry_def wf_registry_look_def)
qed

section \<open>Registries are maps\<close>

definition readable :: "json_file \<Rightarrow> bool" where
  "readable f \<longleftrightarrow> (case f of JsonOsError _ \<Rightarrow> False | JsonValue v \<Rightarrow> is_json v | _ \<Rightarrow> True)"

lemma kept_init_ok:
  assumes "kept_init c f = Inr s" "readable f" "rc_field c \<noteq> ''schema_version''"
  shows "is_json (PDict (kr_data s)) \<and> (\<exists>es. kept_entries c s = Some es)"
proof -
  have fresh: "is_json (PDict (fresh_registry c))" "get_none (fresh_registry c) (rc_field c) = PDict []"
    using assms(3) by (simp_all add: fresh_registry_def obj_def get_or_def field_def)
  have "is_json (PDict (kr_data s)) \<and> is_dict (get_none (kr_data s) (rc_field c))"
    using assms(1,2) fresh
    by (auto simp: kept_init_def kept_load_def readable_def get_or_def is_json_set[simplified] rbind_Inr_iff
        split: json_file.splits pyval.splits option.splits if_splits)
  then show ?thesis by (auto simp: kept_entries_def elim: is_dict.elims)
qed

text \<open>The calls of a registry's client, in order.\<close>

fun kept_change :: "registry_class \<Rightarrow> (nat \<Rightarrow> string) \<Rightarrow> ((pyval \<times> pyval) list, pyval) revision \<Rightarrow> unit kop" where
  "kept_change c now (Plain (Added i m)) = kept_add c now i m"
| "kept_change c now (Plain (Dropped i)) = kept_remove c i"
| "kept_change c now (Updated i m) = kept_update c i m"
| "kept_change c now (Restored i v) = kept_restore c i v"

fun json_change :: "((pyval \<times> pyval) list, pyval) revision \<Rightarrow> bool" where
  "json_change (Plain (Added i m)) = json_object m"
| "json_change (Plain (Dropped i)) = True"
| "json_change (Updated i m) = json_object m"
| "json_change (Restored i v) = is_json v"

lemma kept_change_revise: "kept_change c now = kept.revise c now"
proof
  fix r show "kept_change c now r = kept.revise c now r"
    by (cases "(c, now, r)" rule: kept_change.cases) simp_all
qed

lemma json_change_usable: "json_change r = kept.usable r"
  by (cases r rule: json_change.cases) simp_all

text \<open>C24. The registries of extensions and of presets, opened on a file that is absent, can be read as JSON or is no JSON,
  are maps from names to entries that are on disk after every call. Whatever is added, removed, updated and put back, in
  whatever order: adding stores the metadata with a date of installation; removing leaves no entry; an update of a name
  that has an entry gives its fields to the entry, whose date of installation stays, and one of a name that has none raises
  \<open>KeyError\<close>; putting back stores the value itself if it is a mapping, and else raises \<open>ValueError\<close>; a call that raises
  changes nothing, and none changes the entry of another name. A registry opened anew on the file reads the same.\<close>

theorem registries_are_maps:
  assumes "c \<in> {extension_registry, preset_registry}" "kept_init c f = Inr s" "readable f" "\<forall>r \<in> set cs. json_change r"
    and "revise_all (kept_change c now) cs s = (rs, s')"
  shows "(\<forall>i. history (outcome dated_entry merged_with is_dict) cs rs i (kept_value c i s) (kept_value c i s')) \<and>
     (\<exists>s2. kept_init c (kr_file s') = Inr s2 \<and> (\<forall>i. kept_value c i s2 = kept_value c i s'))"
proof -
  have c: "rc_field c \<noteq> ''schema_version''" using assms(1) by (auto simp: extension_registry_def preset_registry_def)
  have "registry_ok c s"
    using kept_init_ok[OF assms(2,3) c] assms(2) by (auto simp: registry_ok_def kept_init_def rbind_Inr_iff)
  from kept.revisions_are_map_updates[OF this, of cs now rs s'] assms(4,5) show ?thesis
    by (auto simp: kept_change_revise json_change_usable)
qed

definition preset_changes :: "((pyval \<times> pyval) list, pyval) revision list" where
  "preset_changes = [Plain (Added ''lean'' [(PStr ''priority'', PInt 3)]), Plain (Added ''old'' []), Plain (Dropped ''old''),
     Updated ''lean'' [(PStr ''priority'', PInt 5)], Updated ''old'' [], Restored ''back'' (PDict []), Restored ''lean'' PNone]"

definition after_changes :: "unit py list \<times> kept_state" where
  "after_changes = revise_all (kept_change preset_registry (\<lambda>n. show_int (int n))) preset_changes
     \<lparr>kr_data = fresh_registry preset_registry, kr_file = JsonDecodeError ''x'', kr_tick = 0\<rparr>"

theorem registries_are_maps_witness:
  "(\<exists>v t. kept_value preset_registry ''lean'' (snd after_changes) = Some (PDict v) \<and> field v ''priority'' = Some (PInt 5)) \<and>
   kept_value preset_registry ''old'' (snd after_changes) = None \<and>
   kept_value preset_registry ''back'' (snd after_changes) = Some (PDict []) \<and>
   map isl (fst after_changes) = [False, False, False, False, True, False, True]"
proof -
  let ?s = "\<lparr>kr_data = fresh_registry preset_registry, kr_file = JsonDecodeError ''x'', kr_tick = 0\<rparr>"
  have s: "kept_init preset_registry (JsonDecodeError ''x'') = Inr ?s" by (simp add: kept_init_def kept_load_def)
  have run: "revise_all (kept_change preset_registry (\<lambda>n. show_int (int n))) preset_changes ?s =
      (fst after_changes, snd after_changes)" by (simp add: after_changes_def)
  have j: "\<forall>r \<in> set preset_changes. json_change r" by (simp add: preset_changes_def json_object_def)
  have r: "readable (JsonDecodeError ''x'')" by (simp add: readable_def)
  have len: "map isl (fst after_changes) = [False, False, False, False, True, False, True]" by code_simp
  then obtain r1 r2 r3 r4 r5 r6 r7 where rs: "fst after_changes = [r1, r2, r3, r4, r5, r6, r7]"
    by (auto simp: map_eq_Cons_conv)
  note h = registries_are_maps[OF _ s r j run, THEN conjunct1, rule_format, unfolded rs preset_changes_def]
  have "kept_value preset_registry n ?s = None" for n
    by (simp add: kept_value_def kept_entries_def fresh_registry_def preset_registry_def get_or_def field_def obj_def)
  then show ?thesis
    using h[of "''lean''"] h[of "''old''"] h[of "''back''"] len
    by (auto simp: dated_entry_def merged_with_def stored_with_def field_def)
qed

section \<open>Updating\<close>

text \<open>Updating an entry never changes its date of installation: it fails, without effect, for a name
  that is not installed, and otherwise the new entry has the given fields, the old values of the
  others, and the date of installation it had, or none if it had none, whatever the given fields say; no
  other entry changes.\<close>

theorem update_keeps_installation_date:
  assumes "registry_ok c s" "json_object m"
  shows "if kept_is_installed c i s
     then \<exists>s' v. kept_update c i m s = (Inr (), s') \<and> registry_ok c s' \<and> kept_get c i s' = Some v \<and>
       field v ''installed_at'' = Option.bind (kept_get c i s) (\<lambda>d. field d ''installed_at'') \<and>
       (\<forall>n. n \<noteq> ''installed_at'' \<longrightarrow> field v n =
          (case field m n of Some w \<Rightarrow> Some w | None \<Rightarrow> Option.bind (kept_get c i s) (\<lambda>d. field d n))) \<and>
       (\<forall>j. j \<noteq> i \<longrightarrow> kept_get c j s' = kept_get c j s)
     else kept_update c i m s = (Inl (PyExc ''KeyError'' (rc_missing c i)), s)"
proof (cases "kept_is_installed c i s")
  case True
  then obtain es old where es: "kept_entries c s = Some es" "field es i = Some old"
    by (auto simp: kept_is_installed_def has_field_def split: option.splits)
  have j: "is_json (PDict es)" "is_json old"
    using kept_entries_json[OF assms(1) es(1)] is_json_field[OF _ es(2)] by auto
  obtain s' where s': "put_entries c (assoc_set (PStr i) (PDict (merged_entry old m)) es) s = (Inr (), s')" "registry_ok c s'"
      "kept_entries c s' = Some (assoc_set (PStr i) (PDict (merged_entry old m)) es)"
    using put_entries_law is_json_set[OF j(1) merged_entry_fields(1)[OF assms(2) j(2)]] assms(1)
    unfolding registry_ok_def by blast
  have "kept_update c i m s = (Inr (), s')"
    by (simp add: kept_update_def sbind_sget es s'(1))
  moreover have "kept_get c i s' = Some (merged_entry old m)" "\<And>j. j \<noteq> i \<Longrightarrow> kept_get c j s' = kept_get c j s"
    by (simp_all add: kept_get_def s'(3) es)
  moreover have "Option.bind (kept_get c i s) (\<lambda>d. field d n) = (case old of PDict d \<Rightarrow> field d n | _ \<Rightarrow> None)" for n
    by (simp add: kept_get_def es split: pyval.split)
  ultimately show ?thesis
    using True s'(2) merged_entry_fields(2,3)[OF assms(2) j(2)] by (auto split: option.split)
next
  case False
  then show ?thesis
    by (auto simp: kept_update_def sbind_sget sraise_def kept_is_installed_def has_field_def split: option.splits)
qed

theorem update_keeps_installation_date_witness:
  "\<exists>s s' v. kept_update extension_registry ''lint'' [(PStr ''enabled'', PBool False), (PStr ''installed_at'', PStr ''now'')] s = (Inr (), s') \<and>
     kept_get extension_registry ''lint'' s' = Some v \<and>
     field v ''installed_at'' = Some (PStr ''then'') \<and> field v ''enabled'' = Some (PBool False)"
proof -
  let ?d = "obj [(''extensions'', PDict (obj [(''lint'', PDict (obj [(''installed_at'', PStr ''then'')]))]))]"
  let ?s = "\<lparr>kr_data = ?d, kr_file = JsonValue (PDict ?d), kr_tick = 0\<rparr>"
  let ?m = "[(PStr ''enabled'', PBool False), (PStr ''installed_at'', PStr ''now'')]"
  have get: "kept_entries extension_registry ?s = Some (obj [(''lint'', PDict (obj [(''installed_at'', PStr ''then'')]))])"
    by (simp add: kept_entries_def get_or_def field_obj extension_registry_def)
  have ok: "registry_ok extension_registry ?s"
    using get by (auto simp: registry_ok_def kept_load_def get_or_def field_obj extension_registry_def) (simp_all add: obj_def)
  have m: "json_object ?m" by (simp add: json_object_def)
  have inst: "kept_is_installed extension_registry ''lint'' ?s"
    by (simp add: kept_is_installed_def get has_field_def field_obj)
  have old: "kept_get extension_registry ''lint'' ?s = Some (obj [(''installed_at'', PStr ''then'')])"
    by (simp add: kept_get_def get field_obj)
  have e: "field ?m ''enabled'' = Some (PBool False)" by (simp add: field_def)
  note u = update_keeps_installation_date[OF ok m, of "''lint''", unfolded if_P[OF inst] old]
  from u obtain s' v where v: "kept_update extension_registry ''lint'' ?m ?s = (Inr (), s')" "kept_get extension_registry ''lint'' s' = Some v"
      "field v ''installed_at'' = Option.bind (Some (obj [(''installed_at'', PStr ''then'')])) (\<lambda>d. field d ''installed_at'')"
      "\<forall>n. n \<noteq> ''installed_at'' \<longrightarrow> field v n = (case field ?m n of Some w \<Rightarrow> Some w
         | None \<Rightarrow> Option.bind (Some (obj [(''installed_at'', PStr ''then'')])) (\<lambda>d. field d n))"
    by blast
  have "field v ''enabled'' = Some (PBool False)"
    using v(4)[rule_format, of "''enabled''"] e by simp
  moreover have "field v ''installed_at'' = Some (PStr ''then'')" using v(3) by (simp add: field_obj)
  ultimately show ?thesis using v(1,2) by blast
qed

section \<open>The order of consultation\<close>

lemma rmap_list_all2: "rmap f xs = Inr ys \<Longrightarrow> list_all2 (\<lambda>x y. f x = Inr y) xs ys"
  by (induction xs arbitrary: ys) (auto simp: rbind_Inr_iff)

lemma list_all2_set2: "list_all2 P xs ys \<Longrightarrow> y \<in> set ys \<Longrightarrow> \<exists>x \<in> set xs. P x y"
  by (induction rule: list_all2_induct) auto

lemma list_all2_set1: "list_all2 P xs ys \<Longrightarrow> x \<in> set xs \<Longrightarrow> \<exists>y \<in> set ys. P x y"
  by (induction rule: list_all2_induct) auto

lemma distinct_map_insert_by:
  "distinct (map f (insert_by le x ys)) \<longleftrightarrow> f x \<notin> f ` set ys \<and> distinct (map f ys)"
  by (induction ys) auto

lemma distinct_map_sort_by:
  fixes xs :: "'a list"
  shows "distinct (map f (sort_by le xs)) \<longleftrightarrow> distinct (map f xs)"
proof -
  have "set (foldr (insert_by le) xs []) = set xs" for xs :: "'a list"
    using set_sort_by[of le xs] by (simp add: sort_by_def)
  then show ?thesis unfolding sort_by_def by (induction xs) (simp_all add: distinct_map_insert_by)
qed

lemma assoc_get_iff: "distinct (map fst es) \<Longrightarrow> assoc_get es (PStr i) = Some v \<longleftrightarrow> (PStr i, v) \<in> set es"
  by (induction es) (auto simp: rev_image_eqI split: if_splits)

lemma ranked_InrD:
  assumes "ranked (k, v) = Inr y" "is_str k"
  obtains i m p where "k = PStr i" "v = PDict m" "y = ((p, i), assoc_set (PStr ''priority'') (PInt p) m)"
    "normalize_priority DEFAULT_HOOK_PRIORITY (get_or m ''priority'' (PInt 10)) = Inr p"
  using assms by (cases v) (auto simp: ranked_def rbind_Inr_iff is_str_iff key_text_def)

lemma ranked_keys:
  "list_all2 (\<lambda>x y. ranked x = Inr y) es items \<Longrightarrow> (\<And>x. x \<in> set es \<Longrightarrow> is_str (fst x)) \<Longrightarrow>
     map (\<lambda>y. PStr (snd (fst y))) items = map fst es"
proof (induction rule: list_all2_induct)
  case (Cons x xs y ys)
  have s: "is_str (fst x)" using Cons.prems by simp
  have r: "ranked (fst x, snd x) = Inr y" using Cons.hyps(1) by simp
  obtain i m p where "fst x = PStr i" "y = ((p, i), m)" by (rule ranked_InrD[OF r s])
  moreover have "map (\<lambda>y. PStr (snd (fst y))) ys = map fst xs"
    using Cons.prems by (intro Cons.IH) simp
  ultimately show ?case by simp
qed simp

lemma normalize_priority_positive: "normalize_priority d v = Inr p \<Longrightarrow> 1 \<le> d \<Longrightarrow> 1 \<le> p"
  by (auto simp: normalize_priority_def split: if_splits sum.splits pyexn.splits)

lemma listed_items:
  assumes "list_by_priority c disabled s = Inr xs" "is_json (PDict (kr_data s))"
  obtains es items where "entries_or_empty c s = es" "is_json (PDict es)"
    "list_all2 (\<lambda>x y. ranked x = Inr y) (List.filter (wanted disabled) es) items"
    "xs = map (\<lambda>((_, i), m). (i, m)) (sort_by (\<lambda>a b. before_or_same (fst a) (fst b)) items)"
proof -
  have "is_json (PDict (entries_or_empty c s))"
    using is_json_field[OF assms(2), of "rc_field c"]
    by (auto simp: entries_or_empty_def kept_entries_def get_or_def split: option.splits pyval.splits)
  then show ?thesis
    using assms(1) that by (auto simp: list_by_priority_def rbind_Inr_iff dest!: rmap_list_all2)
qed

text \<open>Extensions and presets are consulted in a definite order: the list has every installed entry
  that is a mapping and enabled (or every one, when disabled ones are asked for) exactly once, with its
  priority made a positive number, in ascending order of priority and, for equal priorities, of name.\<close>

theorem consulted_in_order_of_priority:
  assumes "list_by_priority c disabled s = Inr xs" "is_json (PDict (kr_data s))"
  shows "distinct (map fst xs) \<and>
     sorted_wrt (\<lambda>(i, m) (j, n). \<exists>p q. field m ''priority'' = Some (PInt p) \<and> field n ''priority'' = Some (PInt q) \<and>
        1 \<le> p \<and> (p < q \<or> (p = q \<and> str_cmp i j \<le> 0))) xs \<and>
     (\<forall>i m. (i, m) \<in> set xs \<longleftrightarrow> (\<exists>m0 p. kept_get c i s = Some m0 \<and>
        (disabled \<or> truthy (get_or m0 ''enabled'' (PBool True))) \<and>
        normalize_priority 10 (get_or m0 ''priority'' (PInt 10)) = Inr p \<and>
        m = assoc_set (PStr ''priority'') (PInt p) m0))"
proof -
  obtain es items where es: "entries_or_empty c s = es" "is_json (PDict es)"
    and items: "list_all2 (\<lambda>x y. ranked x = Inr y) (List.filter (wanted disabled) es) items"
    and xs: "xs = map (\<lambda>((_, i), m). (i, m)) (sort_by (\<lambda>a b. before_or_same (fst a) (fst b)) items)"
    using listed_items[OF assms] by blast
  have strs: "is_str k" if "(k, v) \<in> set es" for k v using that es(2) is_json_entry by blast
  have "kept_get c i s = Some m \<longleftrightarrow> assoc_get es (PStr i) = Some (PDict m)" for i m
    using es(1) by (auto simp: kept_get_def entries_or_empty_def field_def split: option.splits pyval.splits)
  then have get: "kept_get c i s = Some m \<longleftrightarrow> (PStr i, PDict m) \<in> set es" for i m
    using es(2) by (simp add: assoc_get_iff)
  have mem: "((p, i), m) \<in> set items \<longleftrightarrow> (\<exists>m0. (PStr i, PDict m0) \<in> set es \<and>
      (disabled \<or> truthy (get_or m0 ''enabled'' (PBool True))) \<and>
      normalize_priority 10 (get_or m0 ''priority'' (PInt 10)) = Inr p \<and> m = assoc_set (PStr ''priority'') (PInt p) m0)" for p i m
  proof
    assume "((p, i), m) \<in> set items"
    from list_all2_set2[OF items this] obtain x where "x \<in> set es" "wanted disabled x" "ranked x = Inr ((p, i), m)"
      by auto
    moreover obtain k v where "x = (k, v)" by (cases x)
    ultimately have kv: "(k, v) \<in> set es" "wanted disabled (k, v)" "ranked (k, v) = Inr ((p, i), m)" by simp_all
    obtain m0 where "k = PStr i" "v = PDict m0" "m = assoc_set (PStr ''priority'') (PInt p) m0"
        "normalize_priority 10 (get_or m0 ''priority'' (PInt 10)) = Inr p"
      using ranked_InrD[OF kv(3) strs[OF kv(1)]] by (auto simp: DEFAULT_HOOK_PRIORITY_def)
    with kv(1,2) show "\<exists>m0. (PStr i, PDict m0) \<in> set es \<and> (disabled \<or> truthy (get_or m0 ''enabled'' (PBool True))) \<and>
      normalize_priority 10 (get_or m0 ''priority'' (PInt 10)) = Inr p \<and> m = assoc_set (PStr ''priority'') (PInt p) m0"
      by (auto simp: wanted_def)
  next
    assume "\<exists>m0. (PStr i, PDict m0) \<in> set es \<and> (disabled \<or> truthy (get_or m0 ''enabled'' (PBool True))) \<and>
      normalize_priority 10 (get_or m0 ''priority'' (PInt 10)) = Inr p \<and> m = assoc_set (PStr ''priority'') (PInt p) m0"
    then obtain m0 where m0: "(PStr i, PDict m0) \<in> set es" "disabled \<or> truthy (get_or m0 ''enabled'' (PBool True))"
        "normalize_priority 10 (get_or m0 ''priority'' (PInt 10)) = Inr p" "m = assoc_set (PStr ''priority'') (PInt p) m0"
      by blast
    then have "(PStr i, PDict m0) \<in> set (List.filter (wanted disabled) es)" "ranked (PStr i, PDict m0) = Inr ((p, i), m)"
      by (simp_all add: wanted_def ranked_def key_text_def DEFAULT_HOOK_PRIORITY_def)
    then show "((p, i), m) \<in> set items" using list_all2_set1[OF items] by fastforce
  qed
  have keys: "map (\<lambda>y. PStr (snd (fst y))) items = map fst (List.filter (wanted disabled) es)"
    by (rule ranked_keys[OF items]) (use strs in auto)
  let ?le = "\<lambda>a b. before_or_same (fst a) (fst b)"
  let ?items = "sort_by ?le items"
  have "sorted_wrt ?le ?items"
    using before_or_same_order(1,2) by (intro sorted_sort_by) (auto simp: transp_def)
  then have "sorted_wrt (\<lambda>(i, m) (j, n). \<exists>p q. field m ''priority'' = Some (PInt p) \<and> field n ''priority'' = Some (PInt q) \<and>
        1 \<le> p \<and> (p < q \<or> (p = q \<and> str_cmp i j \<le> 0))) xs"
    unfolding xs sorted_wrt_map
  proof (rule sorted_wrt_mono_rel[rotated], clarify)
    fix p i m q j n
    assume in_items: "((p, i), m) \<in> set ?items" "((q, j), n) \<in> set ?items" and le: "?le ((p, i), m) ((q, j), n)"
    from in_items(1) obtain m0 where "normalize_priority 10 (get_or m0 ''priority'' (PInt 10)) = Inr p"
        "m = assoc_set (PStr ''priority'') (PInt p) m0" by (auto simp: mem)
    moreover from in_items(2) have "field n ''priority'' = Some (PInt q)" by (auto simp: mem)
    ultimately show "\<exists>p' q'. field m ''priority'' = Some (PInt p') \<and> field n ''priority'' = Some (PInt q') \<and>
        1 \<le> p' \<and> (p' < q' \<or> (p' = q' \<and> str_cmp i j \<le> 0))"
      using le normalize_priority_positive[of 10] by (auto simp: before_or_same_def)
  qed
  moreover have "distinct (map fst xs)"
  proof -
    have "distinct (map fst (List.filter (wanted disabled) es))"
      using es(2) by (simp add: distinct_map_filter)
    then have "distinct (map (\<lambda>y. PStr (snd (fst y))) items)" by (simp only: keys)
    then have "distinct (map (\<lambda>y. snd (fst y)) items)" by (auto simp: distinct_map inj_on_def)
    then have "distinct (map (\<lambda>y. snd (fst y)) ?items)" by (simp add: distinct_map_sort_by)
    then show ?thesis by (simp add: xs comp_def split_def)
  qed
  moreover have "(i, m) \<in> set xs \<longleftrightarrow> (\<exists>p. ((p, i), m) \<in> set items)" for i m
    by (force simp: xs)
  ultimately show ?thesis using mem get by auto
qed

theorem consulted_in_order_of_priority_witness:
  "\<exists>s xs. list_by_priority preset_registry False s = Inr xs \<and> map fst xs = [''b'', ''a'', ''c''] \<and> distinct (map fst xs)"
proof -
  let ?e = "\<lambda>n p on. (n, PDict (obj [(''priority'', p), (''enabled'', PBool on)]))"
  let ?d = "obj [(''presets'', PDict (obj [?e ''c'' (PBool True) True, ?e ''a'' (PStr ''x'') True, ?e ''b'' (PInt 2) True,
      ?e ''z'' (PInt 1) False]))]"
  let ?s = "\<lparr>kr_data = ?d, kr_file = JsonAbsent, kr_tick = 0\<rparr>"
  have "map_sum id (map fst) (list_by_priority preset_registry False ?s) = Inr [''b'', ''a'', ''c'']"
    by code_simp
  then obtain xs where xs: "list_by_priority preset_registry False ?s = Inr xs" "map fst xs = [''b'', ''a'', ''c'']"
    by (cases "list_by_priority preset_registry False ?s") auto
  have "is_json (PDict (kr_data ?s))" by (simp add: obj_def)
  note consulted_in_order_of_priority[OF xs(1) this]
  with xs show ?thesis by (intro exI[of _ ?s] exI[of _ xs]) blast
qed

end
