(* ===== verification/ExtManifestProps.thy ===== *)
theory ExtManifestProps
  imports ExtManifest RegistryProps
begin

text \<open>
  What an accepted extension manifest is: corrected once and for all, and, when it also passes the checks
  before an installation, with names no other extension has.
\<close>

section \<open>Splitting names\<close>

lemma split_on_no_sep: "sep \<notin> set a \<Longrightarrow> split_on sep a = [a]"
  by (induction a) auto

lemma split_on_append: "sep \<notin> set a \<Longrightarrow> split_on sep (a @ sep # b) = a # split_on sep b"
  by (induction a) auto

lemma split_on_parts: "p \<in> set (split_on sep s) \<Longrightarrow> sep \<notin> set p"
proof (induction s arbitrary: p)
  case (Cons c s)
  then show ?case by (cases "split_on sep s") (auto split: if_splits)
qed simp

lemma slug_no_dot: "slug_text t \<Longrightarrow> CHR ''.'' \<notin> set t"
  by (auto simp: slug_text_def list_all_iff lower_alnum_def code_of_def)

lemma extension_id_no_dot: "extension_id_pattern t \<Longrightarrow> CHR ''.'' \<notin> set t"
proof -
  assume t: "extension_id_pattern t"
  have "set t \<subseteq> insert newline (set (butlast t))" if "t \<noteq> []" "last t = newline"
    using that by (cases t rule: rev_cases) auto
  with t slug_no_dot[of t] slug_no_dot[of "butlast t"] show ?thesis
    by (auto simp: extension_id_pattern_def dollar_def newline_def)
qed

lemma canonical_ref_idem:
  assumes "CHR ''.'' \<notin> set ext_id"
  shows "canonical_ref ext_id [] (canonical_ref ext_id renames ref) = canonical_ref ext_id renames ref"
proof -
  have nil: "canonical_ref ext_id [] r = (case split_on (CHR ''.'') r of
      [a, b] \<Rightarrow> if a = ext_id then ''speckit.'' @ ext_id @ ''.'' @ b else r | _ \<Rightarrow> r)" for r
    by (simp add: canonical_ref_def)
  define r where "r = (case map_of (rev renames) ref of Some new \<Rightarrow> new | None \<Rightarrow> ref)"
  have c: "canonical_ref ext_id renames ref = canonical_ref ext_id [] r"
    by (simp add: nil r_def canonical_ref_def)
  show ?thesis
  proof (cases "\<exists>b. split_on (CHR ''.'') r = [ext_id, b]")
    case True
    then obtain b where b: "split_on (CHR ''.'') r = [ext_id, b]" by blast
    have "CHR ''.'' \<notin> set b" using split_on_parts[of b "CHR ''.''" r] by (simp add: b)
    then have "split_on (CHR ''.'') (''speckit.'' @ ext_id @ ''.'' @ b) = [''speckit'', ext_id, b]"
      using split_on_append[of "CHR ''.''" "''speckit''" "ext_id @ ''.'' @ b"] split_on_append[OF assms, of b]
        split_on_no_sep[of "CHR ''.''" b] by simp
    then show ?thesis unfolding c using b by (simp add: nil)
  next
    case False
    then have "canonical_ref ext_id [] r = r" by (auto simp: nil split: list.splits)
    then show ?thesis by (simp add: c)
  qed
qed

section \<open>Corrections are final\<close>

lemma ext_demand_Inr [simp]: "ext_demand b msg = Inr u \<longleftrightarrow> b"
  by (simp add: ext_demand_def)

lemma fix_aliases_InrD:
  assumes "fix_aliases d = Inr d'"
  shows "fix_aliases d' = Inr d'" "n \<noteq> ''aliases'' \<Longrightarrow> field d' n = field d n"
proof -
  define e where "e = (if get_none d ''aliases'' = PNone then assoc_set (PStr ''aliases'') (PList []) d else d)"
  have e: "d' = e" "\<exists>as. get_none e ''aliases'' = PList as \<and> list_all is_str as"
    using assms by (auto simp: fix_aliases_def Let_def e_def[symmetric] rbind_Inr_iff split: pyval.splits)
  then show "fix_aliases d' = Inr d'" by (auto simp: fix_aliases_def Let_def ext_demand_def)
  show "n \<noteq> ''aliases'' \<Longrightarrow> field d' n = field d n" by (simp add: e(1) e_def)
qed

lemma fix_name_InrD:
  "fix_name ext_id name = Inr r \<Longrightarrow> (case r of
     None \<Rightarrow> re_on command_pattern name = Inr True
   | Some (old, new) \<Rightarrow> command_pattern new)"
  by (auto simp: fix_name_def rbind_Inr_iff try_correct_command_name_def Let_def re_on_def
      split: if_splits option.splits list.splits pyval.splits)

lemma fix_command_InrD:
  assumes "fix_command ext_id cmd = Inr (r, cmd')"
  obtains d where "cmd' = PDict d" "has_field d ''name''" "has_field d ''file''"
    "re_on command_pattern (get_none d ''name'') = Inr True" "fix_aliases d = Inr d"
proof -
  obtain d d' where d: "cmd = PDict d" "has_field d ''name''" "has_field d ''file''"
      "fix_name ext_id (get_none d ''name'') = Inr r"
      "fix_aliases (case r of Some (_, new) \<Rightarrow> assoc_set (PStr ''name'') (PStr new) d | None \<Rightarrow> d) = Inr d'" "cmd' = PDict d'"
    using assms by (auto simp: fix_command_def rbind_Inr_iff split: pyval.splits)
  note f = fix_aliases_InrD[OF d(5)]
  show ?thesis
    by (rule that[OF d(6)])
      (use f fix_name_InrD[OF d(4)] d(2,3) in \<open>auto simp: has_field_def get_or_def re_on_def split: option.splits\<close>)
qed

lemma fix_command_final: "fix_command ext_id cmd = Inr (r, cmd') \<Longrightarrow> fix_command ext_id cmd' = Inr (None, cmd')"
  by (elim fix_command_InrD) (simp add: fix_command_def fix_name_def ext_demand_def)

lemma fix_entry_final:
  assumes "fix_entry ext_id renames hook e = Inr (ws, e')" "CHR ''.'' \<notin> set ext_id"
  shows "fix_entry ext_id [] hook e' = Inr ([], e')"
proof -
  have "canonical_ref ext_id [] x = x" if "canonical_ref ext_id renames x = x" for x
    using canonical_ref_idem[OF assms(2), of renames x] that by simp
  then show ?thesis
    using assms by (auto simp: fix_entry_def Let_def canonical_ref_idem get_or_def split: pyval.splits if_splits option.splits)
qed

text \<open>A hook entry stays well formed, a reference stays one.\<close>

definition renamed_well :: "(string \<times> string) list \<Rightarrow> bool" where
  "renamed_well renames \<longleftrightarrow> (\<forall>(old, new) \<in> set renames. new \<noteq> '''')"

lemma canonical_ref_nonempty: "renamed_well renames \<Longrightarrow> ref \<noteq> '''' \<Longrightarrow> canonical_ref ext_id renames ref \<noteq> ''''"
  by (auto simp: canonical_ref_def Let_def renamed_well_def split: option.splits list.splits dest!: map_of_SomeD)

lemma check_hook_entry_dict:
  "check_hook_entry hook (PDict d) = Inr () \<longleftrightarrow> truthy (get_none d ''command'') \<and>
     (has_field d ''priority'' \<longrightarrow> (\<exists>p. get_none d ''priority'' = PInt p \<and> 1 \<le> p))"
  by (cases "get_none d ''priority''") (simp_all add: check_hook_entry_def rbind_Inr_iff)

lemma fix_entry_check:
  assumes "fix_entry ext_id renames hook e = Inr (ws, e')" "check_hook_entry hook e = Inr ()" "renamed_well renames"
  shows "check_hook_entry hook e' = Inr ()"
proof -
  obtain d where e: "e = PDict d" using assms(1) by (auto simp: fix_entry_def split: pyval.splits)
  show ?thesis
  proof (cases "e' = e")
    case False
    then obtain ref where ref: "get_none d ''command'' = PStr ref"
        "e' = PDict (assoc_set (PStr ''command'') (PStr (canonical_ref ext_id renames ref)) d)"
      using assms(1) by (auto simp: fix_entry_def e Let_def split: pyval.splits if_splits)
    have "ref \<noteq> []" using assms(2) ref(1) by (simp add: e check_hook_entry_dict)
    then have "canonical_ref ext_id renames ref \<noteq> []" by (rule canonical_ref_nonempty[OF assms(3)])
    with assms(2) ref(2) show ?thesis by (simp add: e check_hook_entry_dict has_field_def get_or_def)
  qed (use assms(2) in simp)
qed

lemma rmap_again:
  assumes "rmap f xs = Inr ys" "\<forall>x \<in> set xs. \<forall>y. f x = Inr y \<longrightarrow> g (h y) = Inr (k y)"
  shows "rmap g (map h ys) = Inr (map k ys)"
  using assms by (induction xs arbitrary: ys) (auto simp: rbind_Inr_iff)

lemma rmap_each:
  assumes "rmap f xs = Inr ys" "\<forall>x \<in> set xs. \<forall>y. f x = Inr y \<longrightarrow> g (h y) = Inr ()"
  shows "each g (map h ys) = Inr ()"
  using assms by (induction xs arbitrary: ys) (auto simp: rbind_Inr_iff)

lemma fix_hook_final:
  assumes "fix_hook ext_id renames x = Inr (ws, y)" "CHR ''.'' \<notin> set ext_id"
  shows "fix_hook ext_id [] y = Inr ([], y)"
proof -
  obtain name config where x: "x = (name, config)" by (cases x)
  obtain r where r: "rmap (fix_entry ext_id renames (py_str name)) (coerce_hook_entries config) = Inr r"
    and y: "y = (name, case config of PList _ \<Rightarrow> PList (map snd r) | _ \<Rightarrow> snd (hd r))"
    using assms(1) by (auto simp: fix_hook_def x rbind_Inr_iff)
  have again: "rmap (fix_entry ext_id [] (py_str name)) (map snd r) = Inr (map (\<lambda>y. ([], snd y)) r)"
    by (rule rmap_again[OF r]) (auto intro: fix_entry_final[OF _ assms(2)])
  show ?thesis
  proof (cases "is_list config")
    case True
    then obtain es where "config = PList es" by (auto elim: is_list.elims)
    then show ?thesis using again by (simp add: fix_hook_def y coerce_hook_entries_def comp_def)
  next
    case False
    then have "coerce_hook_entries config = [config]" by (cases config) (auto simp: coerce_hook_entries_def)
    then obtain w e where e: "r = [(w, e)]" "fix_entry ext_id renames (py_str name) config = Inr (w, e)"
      using r by (auto simp: rbind_Inr_iff)
    have "y = (name, e)" using False by (cases config) (auto simp: y e)
    moreover have "is_dict e" using e(2) by (auto simp: fix_entry_def Let_def split: pyval.splits if_splits)
    ultimately show ?thesis using again by (auto simp: fix_hook_def e coerce_hook_entries_def elim!: is_dict.elims)
  qed
qed

lemma fix_hook_check:
  assumes "fix_hook ext_id renames x = Inr (ws, y)" "check_hook x = Inr ()" "renamed_well renames"
  shows "check_hook y = Inr ()"
proof -
  obtain name config where x: "x = (name, config)" by (cases x)
  obtain r where r: "rmap (fix_entry ext_id renames (py_str name)) (coerce_hook_entries config) = Inr r"
    and y: "y = (name, case config of PList _ \<Rightarrow> PList (map snd r) | _ \<Rightarrow> snd (hd r))"
    using assms(1) by (auto simp: fix_hook_def x rbind_Inr_iff)
  have c: "config \<noteq> PList []" "\<forall>e \<in> set (coerce_hook_entries config). check_hook_entry (py_str name) e = Inr ()"
    using assms(2) by (auto simp: check_hook_def x rbind_Inr_iff each_Inr)
  have checked: "each (check_hook_entry (py_str name)) (map snd r) = Inr ()"
    by (rule rmap_each[OF r]) (use c(2) assms(3) fix_entry_check in \<open>auto 0 3\<close>)
  show ?thesis
  proof (cases "is_list config")
    case True
    then obtain es where es: "config = PList es" by (auto elim: is_list.elims)
    then have "r \<noteq> []" using r c(1) by (cases es) (auto simp: coerce_hook_entries_def rbind_Inr_iff)
    with es checked show ?thesis by (simp add: check_hook_def y coerce_hook_entries_def ext_demand_def)
  next
    case False
    then have "coerce_hook_entries config = [config]" by (cases config) (auto simp: coerce_hook_entries_def)
    then obtain w e where e: "r = [(w, e)]" "fix_entry ext_id renames (py_str name) config = Inr (w, e)"
      using r by (auto simp: rbind_Inr_iff)
    have "y = (name, e)" using False by (cases config) (auto simp: y e)
    moreover have "is_dict e" using e(2) by (auto simp: fix_entry_def Let_def split: pyval.splits if_splits)
    ultimately show ?thesis
      using checked by (auto simp: check_hook_def e coerce_hook_entries_def ext_demand_def elim!: is_dict.elims)
  qed
qed

lemma renames_nonempty:
  assumes "rmap (fix_command ext_id) cmds = Inr cs"
  shows "renamed_well (List.map_filter fst cs)"
proof -
  have "new \<noteq> ''''" if mem: "(Some (old, new), c) \<in> set cs" for old new c
  proof -
    obtain cmd where "fix_command ext_id cmd = Inr (Some (old, new), c)"
      using list_all2_set2[OF rmap_list_all2[OF assms] mem] by blast
    then obtain d where "fix_name ext_id (get_none d ''name'') = Inr (Some (old, new))"
      by (auto simp: fix_command_def rbind_Inr_iff split: pyval.splits)
    from fix_name_InrD[OF this] show ?thesis by (auto simp: command_pattern_def dollar_def command_text_def)
  qed
  then show ?thesis by (fastforce simp: renamed_well_def map_filter_def)
qed

lemma checked_parts_iff:
  "checked_parts version_ok data = Inr (ext_id, provides, commands, hooks) \<longleftrightarrow>
     (\<forall>f \<in> {''schema_version'', ''extension'', ''requires'', ''provides''}. has_field data f) \<and>
     py_eq (get_none data ''schema_version'') (PStr ''1.0'') \<and>
     check_extension version_ok (get_none data ''extension'') = Inr ext_id \<and>
     py_in (PStr ''speckit_version'') (get_none data ''requires'') = Inr True \<and>
     as_dict (get_none data ''provides'') = Inr provides \<and> provided_commands provides = Inr commands \<and>
     declared_hooks data = Inr hooks \<and> (commands \<noteq> [] \<or> hooks \<noteq> []) \<and> each check_hook hooks = Inr ()"
  by (auto simp: checked_parts_def rbind_Inr_iff)

lemma as_dict_Inr: "as_dict v = Inr d \<longleftrightarrow> v = PDict d"
  by (cases v) auto

lemma provided_commands_Inr: "provided_commands p = Inr c \<longleftrightarrow> get_or p ''commands'' (PList []) = PList c"
  by (auto simp: provided_commands_def split: pyval.splits)

lemma declared_hooks_Inr: "declared_hooks d = Inr h \<longleftrightarrow> get_or d ''hooks'' (PDict []) = PDict h"
  by (auto simp: declared_hooks_def split: pyval.splits)

lemma check_extension_id:
  assumes "check_extension version_ok v = Inr ext_id"
  shows "extension_id_pattern ext_id"
proof -
  obtain e where "re_on extension_id_pattern (get_none e ''id'') = Inr True" "py_str (get_none e ''id'') = ext_id"
    using assms by (auto simp: check_extension_def rbind_Inr_iff Let_def split: pyval.splits)
  then show ?thesis by (auto simp: re_on_def py_str_def split: pyval.splits)
qed

text \<open>The checks look at the parts only through these.\<close>

lemma checked_parts_same:
  assumes "checked_parts version_ok data = Inr (ext_id, provides, commands, hooks)"
    "\<And>n. n \<noteq> ''provides'' \<Longrightarrow> n \<noteq> ''hooks'' \<Longrightarrow> field data' n = field data n"
    "field data' ''provides'' = Some (PDict provides')" "get_or provides' ''commands'' (PList []) = PList commands'"
    "get_or data' ''hooks'' (PDict []) = PDict hooks'" "commands' = [] \<longleftrightarrow> commands = []" "hooks' = [] \<longleftrightarrow> hooks = []"
    "each check_hook hooks' = Inr ()"
  shows "checked_parts version_ok data' = Inr (ext_id, provides', commands', hooks')"
proof -
  have "field data' n = field data n" if "n \<in> {''schema_version'', ''extension'', ''requires''}" for n
    using that assms(2)[of n] by auto
  then have f: "has_field data' n = has_field data n" "get_none data' n = get_none data n"
    if "n \<in> {''schema_version'', ''extension'', ''requires''}" for n
    using that by (simp_all add: has_field_def get_or_def)
  have p: "has_field data' ''provides''" "get_none data' ''provides'' = PDict provides'"
    using assms(3) by (simp_all add: has_field_def get_or_def)
  show ?thesis
    using assms(1) unfolding checked_parts_iff provided_commands_Inr declared_hooks_Inr as_dict_Inr
    using f p assms(4-8) by simp
qed

text \<open>Correcting a manifest is done once and for all: the data an accepted manifest holds is accepted
  again, unchanged and without a warning; all command names in it have the required form, and every
  command has a list of aliases.\<close>

theorem accepted_manifest_is_final:
  assumes "validate_extension version_ok data = Inr m"
  shows "validate_extension version_ok (em_data m) = Inr (m\<lparr>em_warnings := []\<rparr>) \<and>
     (\<exists>cmds. manifest_commands m = Inr (PList cmds) \<and>
        (\<forall>c \<in> set cmds. \<exists>d n as. c = PDict d \<and> field d ''name'' = Some (PStr n) \<and> command_pattern n \<and>
           field d ''aliases'' = Some (PList as) \<and> list_all is_str as))"
proof -
  obtain ext_id provides commands hooks cs hs where
    parts: "checked_parts version_ok data = Inr (ext_id, provides, commands, hooks)"
    and cs: "rmap (fix_command ext_id) commands = Inr cs"
    and hs: "rmap (fix_hook ext_id (List.map_filter fst cs)) hooks = Inr hs"
    and m: "em_data m = (let data1 = (if has_field provides ''commands''
           then assoc_set (PStr ''provides'') (PDict (assoc_set (PStr ''commands'') (PList (map snd cs)) provides)) data
           else data)
       in if has_field data ''hooks'' then assoc_set (PStr ''hooks'') (PDict (map snd hs)) data1 else data1)"
    using assms by (auto simp: validate_extension_def rbind_Inr_iff Let_def)
  note p = parts[unfolded checked_parts_iff provided_commands_Inr declared_hooks_Inr as_dict_Inr]
  have dot: "CHR ''.'' \<notin> set ext_id" using p check_extension_id extension_id_no_dot by blast
  define provides' where "provides' =
    (if has_field provides ''commands'' then assoc_set (PStr ''commands'') (PList (map snd cs)) provides else provides)"
  have prov: "field data ''provides'' = Some (PDict provides)"
    using p by (auto simp: has_field_def get_or_def)
  have nc: "\<not> has_field provides ''commands'' \<Longrightarrow> commands = [] \<and> cs = []"
    using p cs by (auto simp: has_field_def get_or_def)
  have nh: "\<not> has_field data ''hooks'' \<Longrightarrow> hooks = [] \<and> hs = []"
    using p hs by (auto simp: has_field_def get_or_def)
  have d: "field (em_data m) n = (if n = ''provides'' then Some (PDict provides')
       else if n = ''hooks'' then (if has_field data ''hooks'' then Some (PDict (map snd hs)) else None) else field data n)" for n
    using prov by (auto simp: m Let_def provides'_def has_field_def)
  have c': "get_or provides' ''commands'' (PList []) = PList (map snd cs)"
    using nc by (auto simp: provides'_def get_or_def has_field_def split: option.splits)
  have h': "get_or (em_data m) ''hooks'' (PDict []) = PDict (map snd hs)"
    using nh by (auto simp: get_or_def d)
  have checked: "each check_hook (map snd hs) = Inr ()"
    using p renames_nonempty[OF cs]
    by (intro rmap_each[OF hs]) (auto simp: each_Inr intro: fix_hook_check)
  have len: "length cs = length commands" "length hs = length hooks"
    using list_all2_lengthD[OF rmap_list_all2[OF cs]] list_all2_lengthD[OF rmap_list_all2[OF hs]] by simp_all
  have parts': "checked_parts version_ok (em_data m) = Inr (ext_id, provides', map snd cs, map snd hs)"
    by (rule checked_parts_same[OF parts]) (use len d c' h' checked in auto)
  have cs': "rmap (fix_command ext_id) (map snd cs) = Inr (map (\<lambda>c. (None, snd c)) cs)"
    by (rule rmap_again[OF cs]) (auto intro: fix_command_final)
  have none: "List.map_filter fst (map (\<lambda>c. (None, snd c)) cs) = []"
    by (simp add: map_filter_def)
  have hs': "rmap (fix_hook ext_id []) (map snd hs) = Inr (map (\<lambda>h. ([], snd h)) hs)"
    by (rule rmap_again[OF hs]) (auto intro: fix_hook_final[OF _ dot])
  have same1: "has_field provides' ''commands'' \<Longrightarrow>
      assoc_set (PStr ''provides'') (PDict (assoc_set (PStr ''commands'') (PList (map snd cs)) provides')) (em_data m) = em_data m"
    using c' d[of "''provides''"] by (auto simp: assoc_set_same get_or_def has_field_def)
  have same2: "has_field (em_data m) ''hooks'' \<Longrightarrow> assoc_set (PStr ''hooks'') (PDict (map snd hs)) (em_data m) = em_data m"
    using h' by (auto simp: assoc_set_same get_or_def has_field_def)
  have "validate_extension version_ok (em_data m) = Inr \<lparr>em_data = em_data m, em_warnings = []\<rparr>"
    unfolding validate_extension_def parts' rbind_simps prod.case cs' none Let_def hs'
    using same1 same2 by (simp add: comp_def)
  moreover have "manifest_commands m = Inr (PList (map snd cs))"
    using c' d[of "''provides''"] by (simp add: manifest_commands_def get_or_def)
  moreover have "\<exists>d n as. c = PDict d \<and> field d ''name'' = Some (PStr n) \<and> command_pattern n \<and>
      field d ''aliases'' = Some (PList as) \<and> list_all is_str as" if c: "c \<in> set (map snd cs)" for c
  proof -
    obtain cmd r where "fix_command ext_id cmd = Inr (r, c)"
      using c list_all2_set2[OF rmap_list_all2[OF cs]] by fastforce
    then obtain d where "c = PDict d" "has_field d ''name''" "re_on command_pattern (get_none d ''name'') = Inr True"
        "fix_aliases d = Inr d" by (rule fix_command_InrD)
    then show ?thesis
      by (auto simp: re_on_def has_field_def get_or_def fix_aliases_def Let_def rbind_Inr_iff split: pyval.splits option.splits if_splits)
  qed
  ultimately show ?thesis by (cases m) auto
qed

theorem accepted_manifest_is_final_witness:
  "\<exists>m. validate_extension (\<lambda>_. Inr True)
       [(PStr ''schema_version'', PStr ''1.0''),
        (PStr ''extension'', PDict (obj [(''id'', PStr ''lint''), (''name'', PStr ''L''), (''version'', PStr ''1''), (''description'', PStr '''')])),
        (PStr ''requires'', PDict (obj [(''speckit_version'', PStr ''1'')])),
        (PStr ''provides'', PDict (obj [(''commands'', PList [PDict (obj [(''name'', PStr ''lint.run''), (''file'', PStr ''r.md'')])])])),
        (PStr ''hooks'', PDict (obj [(''after_tasks'', PDict (obj [(''command'', PStr ''lint.run'')]))]))] = Inr m \<and>
     length (em_warnings m) = 2 \<and> validate_extension (\<lambda>_. Inr True) (em_data m) = Inr (m\<lparr>em_warnings := []\<rparr>)"
  (is "\<exists>m. validate_extension ?v ?d = Inr m \<and> _")
proof -
  have "map_sum id (length \<circ> em_warnings) (validate_extension ?v ?d) = Inr 2" by code_simp
  then obtain m where m: "validate_extension ?v ?d = Inr m" "length (em_warnings m) = 2"
    by (cases "validate_extension ?v ?d") auto
  with accepted_manifest_is_final[OF m(1)] show ?thesis by blast
qed

section \<open>Names are told apart\<close>

text \<open>The names and aliases a manifest declares.\<close>

definition string_list :: "pyval list \<Rightarrow> string list" where
  "string_list vs = List.map_filter (\<lambda>v. case v of PStr t \<Rightarrow> Some t | _ \<Rightarrow> None) vs"

lemma string_list_simps: "string_list [] = []" "string_list (PStr t # vs) = t # string_list vs"
  by (simp_all add: string_list_def map_filter_simps)

definition names_of_command :: "pyval \<Rightarrow> string list" where
  "names_of_command cmd = (case cmd of
     PDict d \<Rightarrow> string_list (get_none d ''name'' # (case get_or d ''aliases'' (PList []) of PList as \<Rightarrow> as | _ \<Rightarrow> []))
   | _ \<Rightarrow> [])"

definition manifest_names :: "ext_manifest \<Rightarrow> string list" where
  "manifest_names m = (case rbind (manifest_commands m) py_iter of Inr cmds \<Rightarrow> concat (map names_of_command cmds) | _ \<Rightarrow> [])"

definition primary_ok :: "string list \<Rightarrow> string \<Rightarrow> pyval \<Rightarrow> bool" where
  "primary_ok core ext_id v \<longleftrightarrow> (\<exists>t. v = PStr t \<and> command_pattern t \<and> command_namespace t = ext_id \<and> ext_id \<notin> set core)"

lemma declare_name_InrD:
  assumes "declare_name core ext_id primary kind name declared = Inr res"
  shows "\<exists>t. name = PStr t \<and> map fst res = map fst declared @ [t] \<and> t \<notin> set (map fst declared) \<and>
     (kind = ''command'' \<longrightarrow> primary_ok core ext_id name)"
  using assms by (auto simp: declare_name_def Let_def rbind_Inr_iff primary_ok_def split: pyval.splits if_splits)

lemma declare_names_InrD:
  "declare_names core ext_id primary ns declared = Inr res \<Longrightarrow> distinct (map fst declared) \<Longrightarrow>
     map fst res = map fst declared @ string_list (map snd ns) \<and> distinct (map fst res) \<and>
     (\<forall>v. (''command'', v) \<in> set ns \<longrightarrow> primary_ok core ext_id v)"
proof (induction ns arbitrary: declared)
  case (Cons n ns)
  obtain kind name where n: "n = (kind, name)" by (cases n)
  from Cons.prems(1) obtain mid where
    mid: "declare_name core ext_id primary kind name declared = Inr mid" "declare_names core ext_id primary ns mid = Inr res"
    by (auto simp: n rbind_Inr_iff)
  from declare_name_InrD[OF mid(1)] obtain t where t: "name = PStr t" "map fst mid = map fst declared @ [t]"
      "t \<notin> set (map fst declared)" "kind = ''command'' \<longrightarrow> primary_ok core ext_id name" by blast
  with Cons.prems(2) have "distinct (map fst mid)" by simp
  note ih = Cons.IH[OF mid(2) this]
  then have "map fst res = map fst declared @ string_list (map snd (n # ns))" by (simp add: t(1,2) n string_list_simps)
  moreover have "\<forall>v. (''command'', v) \<in> set (n # ns) \<longrightarrow> primary_ok core ext_id v" using ih t(4) by (auto simp: n)
  ultimately show ?case using ih by blast
qed (simp add: string_list_simps)

lemma collect_from_InrD:
  "collect_from core ext_id cmds declared = Inr res \<Longrightarrow> distinct (map fst declared) \<Longrightarrow>
     map fst res = map fst declared @ concat (map names_of_command cmds) \<and> distinct (map fst res) \<and>
     (\<forall>c \<in> set cmds. \<exists>d. c = PDict d \<and> primary_ok core ext_id (get_none d ''name''))"
proof (induction cmds arbitrary: declared)
  case (Cons cmd cmds)
  from Cons.prems(1) obtain d primary where "py_item cmd ''name'' = Inr primary" "as_dict cmd = Inr d"
    by (auto simp only: collect_from.simps rbind_Inr_iff)
  then have d: "cmd = PDict d" "field d ''name'' = Some primary"
    by (auto simp: py_item_def as_dict_Inr split: option.splits)
  define as where "as = (case get_or d ''aliases'' (PList []) of PList as \<Rightarrow> as | _ \<Rightarrow> [])"
  obtain mid where mid: "declare_names core ext_id (py_str primary) ((''command'', primary) # map (Pair ''alias'') as) declared = Inr mid"
      "collect_from core ext_id cmds mid = Inr res"
    using Cons.prems(1) by (auto simp: d py_item_def rbind_Inr_iff as_def get_or_def split: pyval.splits option.splits)
  note m = declare_names_InrD[OF mid(1) Cons.prems(2)]
  have "names_of_command cmd = string_list (primary # as)"
    by (simp add: names_of_command_def d as_def get_or_def[of d "''name''"])
  then have "map fst mid = map fst declared @ names_of_command cmd" using m by (simp add: comp_def)
  moreover have ih: "map fst res = map fst mid @ concat (map names_of_command cmds)" "distinct (map fst res)"
      "\<forall>c \<in> set cmds. \<exists>d. c = PDict d \<and> primary_ok core ext_id (get_none d ''name'')"
    using Cons.IH[OF mid(2)] m by blast+
  ultimately have "map fst res = map fst declared @ concat (map names_of_command (cmd # cmds))" by simp
  moreover have "\<exists>d. c = PDict d \<and> primary_ok core ext_id (get_none d ''name'')" if "c \<in> set (cmd # cmds)" for c
    using that ih(3) m d by (auto simp: get_or_def)
  ultimately show ?case using ih(2) by blast
qed simp

lemma claim_names: "fst ` set (claim i v names) = fst ` set names \<union> set (string_list [v])"
  by (cases v) (auto simp: claim_def string_list_def map_filter_simps)

lemma claims_names: "fst ` set (fold (claim i) vs names) = fst ` set names \<union> set (string_list vs)"
proof (induction vs arbitrary: names)
  case (Cons v vs)
  show ?case by (cases v) (simp_all add: Cons.IH claim_names string_list_def map_filter_simps Un_assoc)
qed (simp add: string_list_def map_filter_simps)

lemma claim_command_names: "fst ` set (claim_command i d names) = fst ` set names \<union> set (names_of_command (PDict d))"
proof -
  define as where "as = (case get_or d ''aliases'' (PList []) of PList as \<Rightarrow> as | _ \<Rightarrow> [])"
  have "claim_command i d names = fold (claim i) as (claim i (get_none d ''name'') names)"
    by (simp add: claim_command_def as_def Let_def split: pyval.split)
  then have "fst ` set (claim_command i d names) =
      fst ` set names \<union> set (string_list [get_none d ''name'']) \<union> set (string_list as)"
    by (simp add: claims_names claim_names)
  moreover have "names_of_command (PDict d) = string_list (get_none d ''name'' # as)"
    by (simp add: names_of_command_def as_def)
  moreover have "set (string_list (get_none d ''name'' # as)) = set (string_list [get_none d ''name'']) \<union> set (string_list as)"
    by (cases "get_none d ''name''") (simp_all add: string_list_def map_filter_simps)
  ultimately show ?thesis by (simp add: Un_assoc)
qed

lemma claim_commands_names:
  "fst ` set (fold (claim_command i) ds names) = fst ` set names \<union> (\<Union>d \<in> set ds. set (names_of_command (PDict d)))"
  by (induction ds arbitrary: names) (auto simp: claim_command_names)

lemma rmap_as_dict: "rmap as_dict cmds = Inr ds \<Longrightarrow> cmds = map PDict ds"
  by (induction cmds arbitrary: ds) (auto simp: rbind_Inr_iff as_dict_Inr)

lemma installed_command_names_InrD:
  "installed_command_names excl installed names = Inr res \<Longrightarrow>
     fst ` set names \<subseteq> fst ` set res \<and>
     (\<forall>j m. (j, Some m) \<in> set installed \<longrightarrow> PStr j \<noteq> excl \<longrightarrow> set (manifest_names m) \<subseteq> fst ` set res)"
proof (induction installed arbitrary: names)
  case (Cons x installed)
  obtain j m where x: "x = (j, m)" by (cases x)
  show ?case
  proof (cases "PStr j = excl \<or> m = None")
    case True
    then have "installed_command_names excl installed names = Inr res" using Cons.prems by (auto simp: x split: if_splits)
    from Cons.IH[OF this] True show ?thesis by (simp add: x) blast
  next
    case False
    then obtain m' where m': "m = Some m'" by blast
    with False Cons.prems obtain cs cmds ds where c: "manifest_commands m' = Inr cs" "py_iter cs = Inr cmds" "rmap as_dict cmds = Inr ds"
        "installed_command_names excl installed (fold (claim_command j) ds names) = Inr res"
      by (auto simp: x rbind_Inr_iff)
    have "set (manifest_names m') = (\<Union>d \<in> set ds. set (names_of_command (PDict d)))"
      using rmap_as_dict[OF c(3)] by (auto simp: manifest_names_def c(1,2))
    with Cons.IH[OF c(4)] show ?thesis by (auto simp: x m' claim_commands_names)
  qed
qed simp

text \<open>C27. An extension that passes the checks before an installation declares no name twice, among its commands and their
  aliases; each of its commands is \<open>speckit.\<close>, its own id and a name, and that id is none of the core's; and none
  of its commands and aliases is one of another installed extension whose manifest loads. Its aliases are not
  compared with the commands of the core.\<close>

theorem installed_names_are_told_apart:
  assumes "validate_install_conflicts core installed m = Inr ()" "manifest_id m = Inr (PStr i)"
  shows "distinct (manifest_names m) \<and>
     (\<exists>cmds. rbind (manifest_commands m) py_iter = Inr cmds \<and>
        (\<forall>c \<in> set cmds. \<exists>d. c = PDict d \<and> primary_ok core i (get_none d ''name''))) \<and>
     (\<forall>j other. (j, Some other) \<in> set installed \<and> j \<noteq> i \<longrightarrow> set (manifest_names m) \<inter> set (manifest_names other) = {})"
proof -
  obtain declared names where d: "collect_manifest_command_names core m = Inr declared"
      "installed_command_names (PStr i) installed [] = Inr names"
    and col: "List.map_filter (\<lambda>n. map_option (\<lambda>ext. n @ '' (already provided by extension '' @ in_quotes ext @ '')'') (map_of names n))
        (sort_by (\<lambda>a b. str_cmp a b \<le> 0) (map fst declared)) = []"
    using assms by (auto simp: validate_install_conflicts_def rbind_Inr_iff Let_def)
  obtain cs cmds where c: "manifest_commands m = Inr cs" "py_iter cs = Inr cmds" "collect_from core i cmds [] = Inr declared"
    using d(1) assms(2) by (auto simp: collect_manifest_command_names_def rbind_Inr_iff py_str_def)
  have names: "manifest_names m = concat (map names_of_command cmds)" by (simp add: manifest_names_def c(1,2))
  have cd: "map fst declared = concat (map names_of_command cmds)" "distinct (map fst declared)"
      "\<forall>c \<in> set cmds. \<exists>d. c = PDict d \<and> primary_ok core i (get_none d ''name'')"
    using collect_from_InrD[OF c(3)] by auto
  have "map_of names n = None" if "n \<in> set (manifest_names m)" for n
  proof -
    have "n \<in> set (sort_by (\<lambda>a b. str_cmp a b \<le> 0) (map fst declared))" using that cd by (simp add: names)
    with col show ?thesis by (auto simp: map_filter_def filter_empty_conv)
  qed
  then have apart: "set (manifest_names m) \<inter> fst ` set names = {}" by (auto simp: map_of_eq_None_iff)
  show ?thesis
  proof (intro conjI allI impI)
    show "distinct (manifest_names m)" using cd(2) by (simp only: names cd(1))
    show "\<exists>cmds. rbind (manifest_commands m) py_iter = Inr cmds \<and>
        (\<forall>c \<in> set cmds. \<exists>d. c = PDict d \<and> primary_ok core i (get_none d ''name''))"
      using cd(3) by (simp add: c(1,2))
    show "set (manifest_names m) \<inter> set (manifest_names other) = {}" if "(j, Some other) \<in> set installed \<and> j \<noteq> i" for j other
      using that apart installed_command_names_InrD[OF d(2)] by blast
  qed
qed

theorem installed_names_are_told_apart_witness:
  "\<exists>m other. manifest_names m = [''speckit.lint.run'', ''run''] \<and> manifest_names other = [''speckit.fmt.run''] \<and>
     distinct (manifest_names m) \<and> set (manifest_names m) \<inter> set (manifest_names other) = {}"
proof -
  let ?m = "\<lambda>i c as. \<lparr>em_data = obj [(''extension'', PDict (obj [(''id'', PStr i)])), (''provides'', PDict (obj [(''commands'',
      PList [PDict (obj [(''name'', PStr c), (''aliases'', PList (map PStr as))])])]))], em_warnings = []\<rparr>"
  let ?a = "?m ''lint'' ''speckit.lint.run'' [''run'']" and ?b = "?m ''fmt'' ''speckit.fmt.run'' []"
  have ok: "validate_install_conflicts (load_core_command_names []) [(''fmt'', Some ?b)] ?a = Inr ()" by code_simp
  have i: "manifest_id ?a = Inr (PStr ''lint'')" by code_simp
  have "manifest_names ?a = [''speckit.lint.run'', ''run'']" "manifest_names ?b = [''speckit.fmt.run'']" by code_simp+
  then show ?thesis
    using installed_names_are_told_apart[OF ok i] by (intro exI[of _ ?a] exI[of _ ?b]) auto
qed

end
