(* ===== verification/HookProps.thy ===== *)
theory HookProps
  imports Hooks ExtManifestProps
begin

text \<open>
  What the hooks file and the layered configuration guarantee: no operation on the hooks of one extension
  touches those of another, registering leaves exactly the declared hooks, an event runs the enabled hooks
  whose condition holds in order of priority, and a higher layer of the configuration wins.
\<close>

section \<open>The file is read back\<close>

definition normal_hooks :: "(pyval \<times> pyval) list \<Rightarrow> bool" where
  "normal_hooks hooks \<longleftrightarrow> (\<forall>(e, v) \<in> set hooks. \<exists>hs. v = PList hs \<and> list_all is_dict hs)"

definition normal_config :: "(pyval \<times> pyval) list \<Rightarrow> bool" where
  "normal_config c \<longleftrightarrow> (\<exists>hooks. field c ''hooks'' = Some (PDict hooks) \<and> normal_hooks hooks) \<and>
     is_list (get_none c ''installed'') \<and> is_dict (get_none c ''settings'')"

lemma clean_event_normal: "v = PList hs \<Longrightarrow> list_all is_dict hs \<Longrightarrow> clean_event v = v"
  by (simp add: clean_event_def list_all_iff)

lemma normal_read: "normal_config c \<Longrightarrow> get_project_config (YamlValue (PDict c)) = c"
proof -
  assume c: "normal_config c"
  then obtain hooks where h: "field c ''hooks'' = Some (PDict hooks)" "normal_hooks hooks" by (auto simp: normal_config_def)
  have "map (\<lambda>(e, v). (e, clean_event v)) hooks = hooks"
    using h(2) clean_event_normal by (intro map_idI) (fastforce simp: normal_hooks_def)
  then show ?thesis
    using c h by (simp add: get_project_config_def ensure_def normal_config_def get_or_def dict_of_def assoc_set_same Let_def)
qed

lemma normal_project_config: "normal_config (get_project_config f)"
proof -
  have "normal_config fresh_hook_config"
    by (simp add: normal_config_def fresh_hook_config_def field_obj normal_hooks_def get_or_def)
  moreover have "normal_config (get_project_config (YamlValue (PDict r)))" for r
    by (auto simp: get_project_config_def normal_config_def Let_def ensure_def get_or_def normal_hooks_def clean_event_def
        list_all_iff split: pyval.split)
  ultimately show ?thesis by (auto simp: get_project_config_def split: yaml_file.split pyval.split)
qed

text \<open>The hooks of an event.\<close>

definition event_hooks :: "yaml_file \<Rightarrow> string \<Rightarrow> pyval list" where
  "event_hooks f e = (case field (hooks_in (get_project_config f)) e of Some v \<Rightarrow> hook_list v | None \<Rightarrow> [])"

text \<open>The entries of an event that name another extension, or none.\<close>

definition owned_by :: "string \<Rightarrow> pyval \<Rightarrow> bool" where
  "owned_by i h \<longleftrightarrow> (case h of PDict d \<Rightarrow> field d ''extension'' = Some (PStr i) | _ \<Rightarrow> False)"

definition other_hooks :: "string \<Rightarrow> yaml_file \<Rightarrow> string \<Rightarrow> pyval list" where
  "other_hooks i f e = List.filter (\<lambda>h. \<not> owned_by i h) (event_hooks f e)"

lemma owned_belongs: "owned_by i h \<longleftrightarrow> belongs_to (PStr i) h"
  by (cases h) (auto simp: owned_by_def belongs_to_def get_or_def split: option.split)

lemma other_hooks_belongs: "other_hooks i f e = List.filter (\<lambda>h. \<not> belongs_to (PStr i) h) (event_hooks f e)"
  by (simp add: other_hooks_def owned_belongs)

lemma event_hooks_saved:
  assumes "normal_config c" "normal_hooks hooks"
  shows "event_hooks (YamlValue (PDict (assoc_set (PStr ''hooks'') (PDict hooks) c))) e =
     (case field hooks e of Some v \<Rightarrow> hook_list v | None \<Rightarrow> [])"
proof -
  have "normal_config (assoc_set (PStr ''hooks'') (PDict hooks) c)"
    using assms by (simp add: normal_config_def get_or_def)
  from normal_read[OF this] show ?thesis by (simp add: event_hooks_def hooks_in_def get_or_def dict_of_def)
qed

lemma hooks_in_normal: "normal_hooks (hooks_in (get_project_config f))"
  using normal_project_config[of f] by (auto simp: normal_config_def hooks_in_def get_or_def dict_of_def)

lemma event_hooks_installed:
  assumes "normal_config c" "is_list v"
  shows "event_hooks (YamlValue (PDict (assoc_set (PStr ''installed'') v c))) e =
     (case field (hooks_in c) e of Some v \<Rightarrow> hook_list v | None \<Rightarrow> [])"
proof -
  have "normal_config (assoc_set (PStr ''installed'') v c)"
    using assms by (simp add: normal_config_def get_or_def)
  from normal_read[OF this] show ?thesis by (simp add: event_hooks_def hooks_in_def get_or_def)
qed

lemma update_installed_hooks:
  assumes "update_installed a r f = (x, f')"
  shows "x = Inr () \<and> event_hooks f' e = event_hooks f e"
proof -
  let ?c = "get_project_config f"
  let ?s = "PList (sanitize_installed_list (get_none ?c ''installed'') a r)"
  have "x = Inr () \<and> (f' = f \<or> f' = YamlValue (PDict (assoc_set (PStr ''installed'') ?s ?c)))"
    using assms by (auto simp: update_installed_def sbind_sget Let_def save_project_config_def sret_def smodify_def split: if_splits)
  then show ?thesis
    using event_hooks_installed[OF normal_project_config, of ?s f e] by (auto simp: event_hooks_def[of f])
qed

section \<open>Registering leaves the others alone\<close>

lemma py_eq_refl: "py_eq v v"
proof -
  have f: "float_cmp f f = 0" for f by (cases f) simp_all
  show ?thesis
proof (induction v)
  case (PList xs)
  then have "list_all (\<lambda>(x, y). py_eq x y) (zip xs xs)" by (auto simp: list_all_iff in_set_zip)
  then show ?case by simp
next
  case (PDict d)
  have "list_ex (\<lambda>(k', v'). py_eq k k' \<and> py_eq v v') d" if "(k, v) \<in> set d" for k v
    using PDict[OF that] that by (auto simp: list_ex_iff)
  then show ?case by (auto simp: list_all_iff)
qed (simp_all add: f)
qed

lemma py_eq_filter: "py_eq (PList (List.filter P xs)) (PList xs) \<Longrightarrow> List.filter P xs = xs"
  using length_filter_less[of _ xs P] by (auto simp: filter_id_conv)

abbreviation others :: "string \<Rightarrow> pyval list \<Rightarrow> pyval list" where
  "others i hs \<equiv> List.filter (\<lambda>h. \<not> belongs_to (PStr i) h) hs"

definition entries_of :: "(pyval \<times> pyval) list \<Rightarrow> string \<Rightarrow> pyval list" where
  "entries_of hooks e = (case field hooks e of Some v \<Rightarrow> hook_list v | None \<Rightarrow> [])"

lemma keep_if_equal_list:
  assumes "keep_if_equal new (PList old) = (v, ch)"
  shows "(v = PList old \<and> \<not> ch \<and> py_eq (PList new) (PList old)) \<or> (v = PList new \<and> ch)"
  using assms by (auto simp: keep_if_equal_def split: if_splits)

lemma new_entries_belong:
  "new_hook_entries (PStr i) es acc = Inr new \<Longrightarrow> \<forall>(c, h) \<in> set acc. is_dict h \<and> belongs_to (PStr i) h \<Longrightarrow>
     \<forall>(c, h) \<in> set new. is_dict h \<and> belongs_to (PStr i) h"
proof (induction es arbitrary: acc)
  case (Cons e es)
  show ?case
  proof (cases "new_hook_entries (PStr i) (e # es) acc = new_hook_entries (PStr i) es acc")
    case True
    then show ?thesis using Cons by simp
  next
    case False
    then obtain d h where h: "e = PDict d" "new_hook_entry (PStr i) d = Inr h"
        "new_hook_entries (PStr i) es (assoc_remove (get_none d ''command'') acc @ [(get_none d ''command'', h)]) = Inr new"
      using Cons.prems(1) by (auto simp: rbind_Inr_iff Let_def split: pyval.splits if_splits)
    have "is_dict h \<and> belongs_to (PStr i) h"
      using h(2) by (auto simp: new_hook_entry_def rbind_Inr_iff Let_def belongs_to_def get_or_def field_obj)
    with Cons.prems(2) have "\<forall>(c, h) \<in> set (assoc_remove (get_none d ''command'') acc @ [(get_none d ''command'', h)]).
        is_dict h \<and> belongs_to (PStr i) h"
      by (auto simp: assoc_remove_def)
    from Cons.IH[OF h(3) this] show ?thesis .
  qed
qed simp

lemma purge_undeclared_entries:
  assumes "purge_undeclared (PStr i) declared hooks = (hooks', ch)" "normal_hooks hooks"
  shows "normal_hooks hooks'"
    "entries_of hooks' e = (if list_mem (PStr e) declared then entries_of hooks e else others i (entries_of hooks e))"
proof -
  define g where "g = (\<lambda>(e, v). if list_mem e declared then v else fst (keep_if_equal (others i (hook_list v)) v))"
  have h': "hooks' = map (\<lambda>(e, v). (e, g (e, v))) hooks"
    using assms(1) by (auto simp: purge_undeclared_def Let_def g_def split_def comp_def)
  have g: "g (e, v) = (if list_mem e declared then v else PList (others i hs))" if "v = PList hs" for e v hs
    using that py_eq_filter by (fastforce simp: g_def keep_if_equal_def hook_list_def)
  show "normal_hooks hooks'"
    using assms(2) g by (fastforce simp: h' normal_hooks_def list_all_iff)
  show "entries_of hooks' e = (if list_mem (PStr e) declared then entries_of hooks e else others i (entries_of hooks e))"
    using assms(2) unfolding h'
  proof (induction hooks)
    case (Cons x hooks)
    obtain k v where x: "x = (k, v)" by (cases x)
    obtain hs where v: "v = PList hs" using Cons.prems by (auto simp: normal_hooks_def x)
    have "normal_hooks hooks" using Cons.prems by (simp add: normal_hooks_def)
    with Cons.IH g[OF v, of k] show ?case
      by (auto simp: x v entries_of_def field_def hook_list_def)
  qed (simp add: entries_of_def)
qed

lemma normal_get: "normal_hooks hooks \<Longrightarrow> assoc_get hooks k = Some v \<Longrightarrow> \<exists>hs. v = PList hs \<and> list_all is_dict hs"
  by (auto simp: normal_hooks_def dest!: assoc_get_mem)

lemma normal_set: "normal_hooks hooks \<Longrightarrow> list_all is_dict hs \<Longrightarrow> normal_hooks (assoc_set k (PList hs) hooks)"
  by (induction hooks) (auto simp: normal_hooks_def split: if_splits)

lemma entries_set: "entries_of (assoc_set k (PList hs) hooks) e = (if k = PStr e then hs else entries_of hooks e)"
  by (simp add: entries_of_def field_def assoc_get_set_str hook_list_def)

lemma register_event_entries:
  assumes "register_event (PStr i) (ev, config) (hooks, ch) = Inr (hooks', ch')" "normal_hooks hooks"
  shows "normal_hooks hooks' \<and> (ev \<noteq> PStr e \<longrightarrow> entries_of hooks' e = entries_of hooks e) \<and>
     (ev = PStr e \<longrightarrow> (\<exists>new. new_hook_entries (PStr i) (coerce_hook_entries config) [] = Inr new \<and>
        py_eq (PList (others i (entries_of hooks e) @ map snd new)) (PList (entries_of hooks' e)) \<and>
        others i (entries_of hooks' e) = others i (entries_of hooks e)))"
proof -
  define hooks1 where "hooks1 = (if assoc_get hooks ev = None then assoc_set ev (PList []) hooks else hooks)"
  have fresh: "(case assoc_get hooks ev of Some v \<Rightarrow> \<not> is_list v | None \<Rightarrow> True) \<longleftrightarrow> assoc_get hooks ev = None"
    using normal_get[OF assms(2), of ev] by (auto split: option.splits)
  have n1: "normal_hooks hooks1" using normal_set[OF assms(2), of "[]" ev] assms(2) by (simp add: hooks1_def)
  have e1: "entries_of hooks1 e = entries_of hooks e"
    by (auto simp: hooks1_def entries_set) (simp add: entries_of_def field_def)
  obtain os where os: "(case assoc_get hooks1 ev of Some v \<Rightarrow> v | None \<Rightarrow> PList []) = PList os" "list_all is_dict os"
    using normal_get[OF n1, of ev] by (cases "assoc_get hooks1 ev") auto
  have os_e: "os = entries_of hooks e" if "ev = PStr e"
    using os(1) e1 that by (auto simp: entries_of_def field_def hook_list_def split: option.splits)
  obtain new where new: "new_hook_entries (PStr i) (coerce_hook_entries config) [] = Inr new"
    and h: "(case keep_if_equal (others i os @ map snd new) (PList os) of
        (v, c) \<Rightarrow> Inr (if c then assoc_set ev v hooks1 else hooks1, ch \<or> assoc_get hooks ev = None \<or> c)) = (Inr (hooks', ch') :: _ py)"
    using assms(1) unfolding register_event_def prod.case Let_def fresh hooks1_def[symmetric] os(1)
    by (auto simp: rbind_Inr_iff hook_list_def)
  obtain v c where v: "keep_if_equal (others i os @ map snd new) (PList os) = (v, c)" by (cases "keep_if_equal (others i os @ map snd new) (PList os)")
  with h have v: "keep_if_equal (others i os @ map snd new) (PList os) = (v, c)" "hooks' = (if c then assoc_set ev v hooks1 else hooks1)"
    by auto
  have own: "\<forall>(c, h) \<in> set new. is_dict h \<and> belongs_to (PStr i) h" by (rule new_entries_belong[OF new]) simp
  then have app: "others i (others i os @ map snd new) = others i os" "list_all is_dict (others i os @ map snd new)"
    using os(2) by (fastforce simp: filter_empty_conv list_all_iff)+
  from keep_if_equal_list[OF v(1)] show ?thesis
  proof
    assume k: "v = PList os \<and> \<not> c \<and> py_eq (PList (others i os @ map snd new)) (PList os)"
    then have "hooks' = hooks1" using v(2) by simp
    with n1 e1 k new os_e show ?thesis by auto
  next
    assume k: "v = PList (others i os @ map snd new) \<and> c"
    then have h': "hooks' = assoc_set ev (PList (others i os @ map snd new)) hooks1" using v(2) by simp
    have "py_eq (PList (others i os @ map snd new)) (PList (others i os @ map snd new))" by (rule py_eq_refl)
    with h' normal_set[OF n1 app(2)] e1 new os_e app(1) show ?thesis by (auto simp: entries_set)
  qed
qed

lemma register_events_entries:
  assumes "register_events (PStr i) declared (hooks, ch) = Inr (hooks', ch')" "normal_hooks hooks" "distinct (map fst declared)"
  shows "normal_hooks hooks' \<and> others i (entries_of hooks' e) = others i (entries_of hooks e) \<and>
     (case map_of declared (PStr e) of
        None \<Rightarrow> entries_of hooks' e = entries_of hooks e
      | Some config \<Rightarrow> \<exists>new. new_hook_entries (PStr i) (coerce_hook_entries config) [] = Inr new \<and>
          py_eq (PList (others i (entries_of hooks e) @ map snd new)) (PList (entries_of hooks' e)))"
  using assms
proof (induction declared arbitrary: hooks ch)
  case (Cons x declared)
  obtain ev config where x: "x = (ev, config)" by (cases x)
  obtain h1 c1 where r: "register_event (PStr i) (ev, config) (hooks, ch) = Inr (h1, c1)"
      "register_events (PStr i) declared (h1, c1) = Inr (hooks', ch')"
    using Cons.prems(1) by (auto simp: x rbind_Inr_iff)
  note e1 = register_event_entries[OF r(1) Cons.prems(2), of e]
  have d: "distinct (map fst declared)" using Cons.prems(3) by simp
  note ih = Cons.IH[OF r(2) conjunct1[OF e1] d]
  show ?case
  proof (cases "ev = PStr e")
    case True
    then have "map_of declared (PStr e) = None" using Cons.prems(3) by (auto simp: x map_of_eq_None_iff image_iff)
    with True ih e1 show ?thesis by (auto simp: x)
  next
    case False
    with ih e1 show ?thesis by (auto simp: x split: option.split)
  qed
qed simp

text \<open>The keys of a mapping differ.\<close>

lemma distinct_assoc_set_any: "distinct (map fst d) \<Longrightarrow> distinct (map fst (assoc_set k v d))"
proof (induction d)
  case (Cons x d)
  obtain k' v' where x: "x = (k', v')" by (cases x)
  have "fst ` set (assoc_set k v d) \<subseteq> insert k (fst ` set d)" by (force dest: assoc_set_mem)
  moreover have "k' \<noteq> k" if "\<not> py_eq k' k" using that py_eq_refl by blast
  ultimately show ?case using Cons by (auto simp: x)
qed simp

lemma non_empty_entries:
  assumes "distinct (map fst hooks)" "normal_hooks hooks"
  shows "entries_of (non_empty_events hooks) e = entries_of hooks e"
  using assms
proof (induction hooks)
  case (Cons x hooks)
  obtain k v where x: "x = (k, v)" by (cases x)
  obtain hs where v: "v = PList hs" using Cons.prems(2) by (auto simp: normal_hooks_def x)
  have n: "normal_hooks hooks" using Cons.prems(2) by (simp add: normal_hooks_def)
  have absent: "entries_of (non_empty_events hooks) e = []" if "k = PStr e"
  proof -
    have "PStr e \<notin> fst ` set (non_empty_events hooks)"
      using Cons.prems(1) that by (auto simp: x non_empty_events_def image_iff)
    then show ?thesis
      using assoc_get_key[of "non_empty_events hooks" e] by (auto simp: entries_of_def field_def split: option.split)
  qed
  have "entries_of (non_empty_events (x # hooks)) e =
      (if hs \<noteq> [] \<and> k = PStr e then hs else entries_of (non_empty_events hooks) e)"
    by (simp add: non_empty_events_def x v entries_of_def field_def hook_list_def)
  moreover have "entries_of (x # hooks) e = (if k = PStr e then hs else entries_of hooks e)"
    by (simp add: x v entries_of_def field_def hook_list_def)
  ultimately show ?case using Cons.IH[OF _ n] Cons.prems(1) absent by auto
qed (simp add: non_empty_events_def)

lemma register_event_distinct:
  "register_event i x (hooks, ch) = Inr (hooks', ch') \<Longrightarrow> distinct (map fst hooks) \<Longrightarrow> distinct (map fst hooks')"
  by (cases x) (auto simp: register_event_def Let_def rbind_Inr_iff distinct_assoc_set_any split_def split: if_splits)

lemma register_events_distinct:
  "register_events i declared (hooks, ch) = Inr (hooks', ch') \<Longrightarrow> distinct (map fst hooks) \<Longrightarrow> distinct (map fst hooks')"
proof (induction declared arbitrary: hooks ch)
  case (Cons x declared)
  then obtain h1 c1 where "register_event i x (hooks, ch) = Inr (h1, c1)" "register_events i declared (h1, c1) = Inr (hooks', ch')"
    by (auto simp: rbind_Inr_iff)
  with Cons register_event_distinct show ?case by blast
qed simp

lemma list_mem_keys: "list_mem (PStr e) (map fst declared) \<longleftrightarrow> map_of declared (PStr e) \<noteq> None"
  by (auto simp: list_mem_def list_ex_iff py_eq_str' map_of_eq_None_iff image_iff)

lemma registered_hooks_entries:
  assumes "registered_hooks (PStr i) declared hooks = Inr (hooks', ch)" "normal_hooks hooks" "distinct (map fst hooks)"
    "distinct (map fst declared)"
  shows "normal_hooks hooks' \<and> others i (entries_of hooks' e) = others i (entries_of hooks e) \<and>
     (case map_of declared (PStr e) of
        None \<Rightarrow> entries_of hooks' e = others i (entries_of hooks e)
      | Some config \<Rightarrow> \<exists>new. new_hook_entries (PStr i) (coerce_hook_entries config) [] = Inr new \<and>
          py_eq (PList (others i (entries_of hooks e) @ map snd new)) (PList (entries_of hooks' e)))"
proof -
  obtain h1 c1 where h1: "purge_undeclared (PStr i) (map fst declared) hooks = (h1, c1)"
    by (cases "purge_undeclared (PStr i) (map fst declared) hooks")
  obtain h2 c2 where h2: "register_events (PStr i) declared (h1, c1) = Inr (h2, c2)"
    and h': "hooks' = h2 \<or> hooks' = non_empty_events h2"
    using assms(1) by (auto simp: registered_hooks_def h1 rbind_Inr_iff split: if_splits)
  note p = purge_undeclared_entries[OF h1 assms(2)]
  note r = register_events_entries[OF h2 p(1) assms(4), of e]
  have "map fst h1 = map fst hooks" using h1 by (auto simp: purge_undeclared_def Let_def split_def comp_def)
  then have d: "distinct (map fst h2)" using register_events_distinct[OF h2] assms(3) by simp
  have "normal_hooks (non_empty_events h2)" using r by (auto simp: normal_hooks_def non_empty_events_def)
  then have "normal_hooks hooks' \<and> entries_of hooks' e = entries_of h2 e"
    using h' non_empty_entries[OF d] r by auto
  then show ?thesis using r p(2)[of e] by (auto simp: list_mem_keys split: option.splits if_splits)
qed

lemma register_event_unchanged:
  "register_event i x (hooks, ch) = Inr (hooks', False) \<Longrightarrow> \<not> ch \<and> hooks' = hooks"
  by (cases x) (auto simp: register_event_def Let_def rbind_Inr_iff split_def split: if_splits)

lemma register_events_unchanged:
  "register_events i declared (hooks, ch) = Inr (hooks', False) \<Longrightarrow> \<not> ch \<and> hooks' = hooks"
proof (induction declared arbitrary: hooks ch)
  case (Cons x declared)
  then obtain h1 c1 where h: "register_event i x (hooks, ch) = Inr (h1, c1)" "register_events i declared (h1, c1) = Inr (hooks', False)"
    by (auto simp: rbind_Inr_iff)
  from Cons.IH[OF h(2)] register_event_unchanged[of i x hooks ch h1] h(1) show ?case by auto
qed simp

lemma purge_unchanged:
  assumes "purge_undeclared i declared hooks = (hooks', False)"
  shows "hooks' = hooks"
proof -
  let ?g = "\<lambda>(e, v). if list_mem e declared then (e, v, False)
                 else case keep_if_equal (List.filter (\<lambda>h. \<not> belongs_to i h) (hook_list v)) v of (v', ch) \<Rightarrow> (e, v', ch)"
  have "(\<lambda>(e, v, _). (e, v)) (?g x) = x" if "x \<in> set hooks" for x
  proof -
    have "\<not> (\<lambda>(_, _, ch). ch) (?g x)"
      using assms that by (auto simp: purge_undeclared_def Let_def list_ex_iff)
    then show ?thesis by (cases x) (auto simp: keep_if_equal_def split: if_splits)
  qed
  then have "map ((\<lambda>(e, v, _). (e, v)) \<circ> ?g) hooks = hooks" by (intro map_idI) simp
  with assms show ?thesis by (simp add: purge_undeclared_def Let_def)
qed

lemma registered_unchanged: "registered_hooks i declared hooks = Inr (hooks', False) \<Longrightarrow> hooks' = hooks"
proof -
  assume r: "registered_hooks i declared hooks = Inr (hooks', False)"
  obtain h1 c1 where h1: "purge_undeclared i (map fst declared) hooks = (h1, c1)"
    by (cases "purge_undeclared i (map fst declared) hooks")
  have "register_events i declared (h1, c1) = Inr (hooks', False)"
    using r by (auto simp: registered_hooks_def h1 rbind_Inr_iff split: if_splits)
  from register_events_unchanged[OF this] purge_unchanged h1 show ?thesis by auto
qed

lemma entries_map:
  assumes "g [] = []"
  shows "entries_of (map (\<lambda>(e, v). (e, PList (g (hook_list v)))) hooks) e = g (entries_of hooks e)"
  using assms by (induction hooks) (auto simp: entries_of_def field_def hook_list_def)

lemma event_entries: "event_hooks f e = entries_of (hooks_in (get_project_config f)) e"
  by (simp add: event_hooks_def entries_of_def)

lemma saved_entries:
  assumes "normal_hooks hooks"
  shows "event_hooks (YamlValue (PDict (assoc_set (PStr ''hooks'') (PDict hooks) (get_project_config f)))) e = entries_of hooks e"
  using event_hooks_saved[OF normal_project_config assms] by (simp add: entries_of_def)

lemma normal_map:
  assumes "normal_hooks hooks" "\<And>hs. list_all is_dict hs \<Longrightarrow> list_all is_dict (g hs)"
  shows "normal_hooks (map (\<lambda>(e, v). (e, PList (g (hook_list v)))) hooks)"
  using assms by (fastforce simp: normal_hooks_def hook_list_def)

definition mapping_keys_differ :: "yaml_file \<Rightarrow> bool" where
  "mapping_keys_differ f \<longleftrightarrow> distinct (map fst (hooks_in (get_project_config f)))"

lemma update_installed_keys: "update_installed a r f = (x, f') \<Longrightarrow> hooks_in (get_project_config f') = hooks_in (get_project_config f)"
proof -
  assume u: "update_installed a r f = (x, f')"
  let ?c = "get_project_config f"
  let ?c' = "assoc_set (PStr ''installed'') (PList (sanitize_installed_list (get_none ?c ''installed'') a r)) ?c"
  have "normal_config ?c'" using normal_project_config[of f] by (simp add: normal_config_def get_or_def)
  from normal_read[OF this] u show ?thesis
    by (auto simp: update_installed_def sbind_sget Let_def save_project_config_def sret_def smodify_def hooks_in_def get_or_def split: if_splits)
qed

lemma unregister_entries:
  assumes "unregister_hooks i f = (x, f')" "mapping_keys_differ f"
  shows "x = Inr () \<and> event_hooks f' e = others i (event_hooks f e)"
proof -
  obtain y f1 where f1: "unregister_extension i f = (y, f1)" by (cases "unregister_extension i f")
  note u = f1[unfolded unregister_extension_def]
  let ?hs = "map (\<lambda>(e, v). (e, PList (others i (hook_list v)))) (hooks_in (get_project_config f1))"
  have keys: "hooks_in (get_project_config f1) = hooks_in (get_project_config f)" by (rule update_installed_keys[OF u])
  have n: "normal_hooks ?hs" by (rule normal_map[OF hooks_in_normal]) (auto simp: list_all_iff)
  have nn: "normal_hooks (non_empty_events ?hs)" using n by (auto simp: normal_hooks_def non_empty_events_def)
  have d: "distinct (map fst ?hs)" using assms(2) keys by (simp add: mapping_keys_differ_def comp_def split_def)
  have "x = Inr () \<and> f' = YamlValue (PDict (assoc_set (PStr ''hooks'') (PDict (non_empty_events ?hs)) (get_project_config f1)))"
    using assms(1) f1 update_installed_hooks[OF u] by (auto simp: unregister_hooks_def sthen_def sbind_def sget_def save_project_config_def smodify_def)
  moreover have "entries_of (non_empty_events ?hs) e = others i (entries_of (hooks_in (get_project_config f1)) e)"
    using non_empty_entries[OF d n] entries_map[of "others i"] by simp
  ultimately show ?thesis using saved_entries[OF nn] by (simp add: keys event_entries[of f])
qed

lemma belongs_switch: "belongs_to i (switch_hook on j h) = belongs_to i h"
  by (auto simp: switch_hook_def belongs_to_def get_or_def split: pyval.split)

lemma switch_entries:
  assumes "switch_hooks on i f = (x, f')"
  shows "x = Inr () \<and> event_hooks f' e = map (switch_hook on (PStr i)) (event_hooks f e)"
proof -
  let ?hs = "map (\<lambda>(e, v). (e, PList (map (switch_hook on (PStr i)) (hook_list v)))) (hooks_in (get_project_config f))"
  have n: "normal_hooks ?hs"
    by (rule normal_map[OF hooks_in_normal]) (auto simp: list_all_iff switch_hook_def split: pyval.split)
  have "x = Inr () \<and> f' = YamlValue (PDict (assoc_set (PStr ''hooks'') (PDict ?hs) (get_project_config f)))"
    using assms by (auto simp: switch_hooks_def sbind_sget save_project_config_def smodify_def)
  with saved_entries[OF n] entries_map[of "map (switch_hook on (PStr i))"] show ?thesis by (simp add: event_entries[of f])
qed

lemma others_switched: "others i (map (switch_hook on (PStr i)) hs) = others i hs"
  by (induction hs) (auto simp: belongs_switch, auto simp: switch_hook_def belongs_to_def split: pyval.split)

lemma register_entries:
  assumes "register_hooks m f = (x, f')" "manifest_id m = Inr (PStr i)" "mapping_keys_differ f"
    "\<And>declared. manifest_hooks m = PDict declared \<Longrightarrow> distinct (map fst declared)"
  shows "other_hooks i f' e = other_hooks i f e"
    "x = Inr () \<Longrightarrow> \<exists>declared. manifest_hooks m = PDict declared \<and>
       (case map_of declared (PStr e) of
          None \<Rightarrow> event_hooks f' e = other_hooks i f e
        | Some config \<Rightarrow> \<exists>new. new_hook_entries (PStr i) (coerce_hook_entries config) [] = Inr new \<and>
            py_eq (PList (other_hooks i f e @ map snd new)) (PList (event_hooks f' e)))"
proof -
  obtain y f1 where f1: "register_extension i f = (y, f1)" by (cases "register_extension i f")
  note u = f1[unfolded register_extension_def]
  have keys: "hooks_in (get_project_config f1) = hooks_in (get_project_config f)" by (rule update_installed_keys[OF u])
  have e1: "event_hooks f1 e = event_hooks f e" "y = Inr ()" using update_installed_hooks[OF u] by auto
  have r: "register_hooks m f = sbind (slift (as_dict (manifest_hooks m))) (\<lambda>declared.
      sbind (slift (registered_hooks (PStr i) declared (hooks_in (get_project_config f1)))) (\<lambda>(hooks, changed).
      if changed then save_project_config (assoc_set (PStr ''hooks'') (PDict hooks) (get_project_config f1)) else sret ())) f1"
    by (simp add: register_hooks_def assms(2) sbind_slift sthen_def sbind_def[of "register_extension _"] py_str_def f1 e1(2) sbind_sget)
  consider (fails) e where "x = Inl e" "f' = f1"
    | (ok) declared hooks ch where "manifest_hooks m = PDict declared"
        "registered_hooks (PStr i) declared (hooks_in (get_project_config f1)) = Inr (hooks, ch)" "x = Inr ()"
        "f' = (if ch then YamlValue (PDict (assoc_set (PStr ''hooks'') (PDict hooks) (get_project_config f1))) else f1)"
  proof (cases "manifest_hooks m")
    case (PDict declared)
    then show ?thesis
      using assms(1) that unfolding r
      by (cases "registered_hooks (PStr i) declared (hooks_in (get_project_config f1))")
        (auto simp: sbind_def slift_def save_project_config_def smodify_def sret_def split: prod.splits if_splits)
  qed (use assms(1) that(1) in \<open>auto simp: r sbind_def slift_def\<close>)
  then have "other_hooks i f' e = other_hooks i f e \<and> (x = Inr () \<longrightarrow> (\<exists>declared. manifest_hooks m = PDict declared \<and>
       (case map_of declared (PStr e) of
          None \<Rightarrow> event_hooks f' e = other_hooks i f e
        | Some config \<Rightarrow> \<exists>new. new_hook_entries (PStr i) (coerce_hook_entries config) [] = Inr new \<and>
            py_eq (PList (other_hooks i f e @ map snd new)) (PList (event_hooks f' e)))))"
  proof cases
    case fails
    then show ?thesis by (simp add: other_hooks_belongs e1)
  next
    case ok
    have "distinct (map fst (hooks_in (get_project_config f1)))" using assms(3) keys by (simp add: mapping_keys_differ_def)
    note h = registered_hooks_entries[OF ok(2) hooks_in_normal this assms(4)[OF ok(1)], of e]
    have f': "event_hooks f' e = entries_of hooks e"
    proof (cases ch)
      case True
      with ok(4) saved_entries[OF conjunct1[OF h]] show ?thesis by simp
    next
      case False
      with ok(2) have "hooks = hooks_in (get_project_config f1)" using registered_unchanged by simp
      with False ok(4) show ?thesis by (simp add: event_entries)
    qed
    have "entries_of (hooks_in (get_project_config f1)) e = event_hooks f e" by (simp add: keys event_entries)
    with h show ?thesis by (auto simp: other_hooks_belongs f' ok(1) split: option.split)
  qed
  then show "other_hooks i f' e = other_hooks i f e" and
    "x = Inr () \<Longrightarrow> \<exists>declared. manifest_hooks m = PDict declared \<and>
       (case map_of declared (PStr e) of
          None \<Rightarrow> event_hooks f' e = other_hooks i f e
        | Some config \<Rightarrow> \<exists>new. new_hook_entries (PStr i) (coerce_hook_entries config) [] = Inr new \<and>
            py_eq (PList (other_hooks i f e @ map snd new)) (PList (event_hooks f' e)))"
    by blast+
qed

text \<open>C25. No operation on the hooks of one extension touches those of another: after registering,
  unregistering, enabling or disabling, whether that succeeds or fails, the entries of every event that
  belong to other extensions are the same, in the same order.\<close>

theorem hooks_of_others_are_untouched:
  assumes "manifest_id m = Inr (PStr i)" "mapping_keys_differ f"
    "\<And>declared. manifest_hooks m = PDict declared \<Longrightarrow> distinct (map fst declared)"
    "f' \<in> {snd (register_hooks m f), snd (unregister_hooks i f), snd (enable_hooks i f), snd (disable_hooks i f)}"
  shows "other_hooks i f' e = other_hooks i f e"
proof -
  have "other_hooks i (snd (register_hooks m f)) e = other_hooks i f e"
    by (rule register_entries(1)[OF _ assms(1-3)]) (auto simp: prod_eq_iff)
  moreover have "other_hooks i (snd (unregister_hooks i f)) e = other_hooks i f e"
    using unregister_entries[OF _ assms(2), of i "fst (unregister_hooks i f)" "snd (unregister_hooks i f)" e]
    by (simp add: other_hooks_belongs)
  moreover have "other_hooks i (snd (switch_hooks on i f)) e = other_hooks i f e" for on
    using switch_entries[of on i f "fst (switch_hooks on i f)" "snd (switch_hooks on i f)" e]
    by (simp add: other_hooks_belongs others_switched)
  ultimately show ?thesis using assms(4) by (auto simp: enable_hooks_def disable_hooks_def)
qed

text \<open>
  What a manifest says of the hooks of one event, apart from how the program makes entries of it: the declarations that
  name a command, of those of one command the last, in the order of the manifest; and what entry each stands for.
\<close>

definition command_of :: "(pyval \<times> pyval) list \<Rightarrow> pyval" where
  "command_of d = get_none d ''command''"

fun hook_declarations :: "pyval list \<Rightarrow> (pyval \<times> pyval) list list" where
  "hook_declarations [] = []"
| "hook_declarations (PDict d # es) = (if truthy (command_of d) then d # hook_declarations es else hook_declarations es)"
| "hook_declarations (e # es) = hook_declarations es"

fun last_of_each :: "(pyval \<times> pyval) list list \<Rightarrow> (pyval \<times> pyval) list list" where
  "last_of_each [] = []"
| "last_of_each (d # ds) =
     (if \<exists>d' \<in> set ds. py_eq (command_of d) (command_of d') then last_of_each ds else d # last_of_each ds)"

definition entry_for :: "string \<Rightarrow> (pyval \<times> pyval) list \<Rightarrow> pyval \<Rightarrow> bool" where
  "entry_for i d h \<longleftrightarrow> (\<exists>v p. h = PDict v \<and> field v ''extension'' = Some (PStr i) \<and> field v ''command'' = Some (command_of d) \<and>
     field v ''enabled'' = Some (PBool True) \<and> field v ''optional'' = Some (get_or d ''optional'' (PBool True)) \<and>
     field v ''priority'' = Some (PInt p) \<and> normalize_priority 10 (get_none d ''priority'') = Inr p \<and>
     field v ''prompt'' = Some (get_or d ''prompt'' (PStr (''Execute '' @ py_str (command_of d) @ ''?''))) \<and>
     field v ''description'' = Some (get_or d ''description'' (PStr '''')) \<and>
     field v ''condition'' = Some (get_none d ''condition''))"

lemma new_entry_for: "new_hook_entry (PStr i) d = Inr h \<Longrightarrow> entry_for i d h"
  by (auto simp: new_hook_entry_def entry_for_def command_of_def rbind_Inr_iff Let_def field_obj DEFAULT_HOOK_PRIORITY_def)

lemma new_entries_as_declared:
  "new_hook_entries (PStr i) es acc = Inr new \<Longrightarrow>
     \<exists>hs. list_all2 (entry_for i) (last_of_each (hook_declarations es)) hs \<and>
       map snd new = map snd (List.filter (\<lambda>(c, h). \<forall>d \<in> set (hook_declarations es). \<not> py_eq c (command_of d)) acc) @ hs"
proof (induction es arbitrary: acc rule: hook_declarations.induct)
  case 1
  then show ?case by simp
next
  case (2 d es)
  show ?case
  proof (cases "truthy (command_of d)")
    case False
    with 2 show ?thesis by (simp add: command_of_def)
  next
    case True
    let ?c = "command_of d"
    let ?P = "\<lambda>ds (c, h :: pyval). \<forall>d \<in> set ds. \<not> py_eq c (command_of d)"
    from 2(3) True obtain h where h: "new_hook_entry (PStr i) d = Inr h"
        "new_hook_entries (PStr i) es (assoc_remove ?c acc @ [(?c, h)]) = Inr new"
      by (auto simp: rbind_Inr_iff Let_def command_of_def split: if_splits)
    from 2(1)[OF True h(2)] obtain hs where hs: "list_all2 (entry_for i) (last_of_each (hook_declarations es)) hs"
        "map snd new = map snd (List.filter (?P (hook_declarations es)) (assoc_remove ?c acc @ [(?c, h)])) @ hs" by blast
    have "List.filter (?P (hook_declarations es)) (assoc_remove ?c acc) = List.filter (?P (hook_declarations (PDict d # es))) acc"
      using True by (auto simp: assoc_remove_def intro!: filter_cong)
    with hs new_entry_for[OF h(1)] True show ?thesis
      by (intro exI[of _ "(if ?P (hook_declarations es) (?c, h) then [h] else []) @ hs"]) auto
  qed
qed simp_all

text \<open>C26. Registering makes the hooks file follow the manifest: the entries of an event are those of the
  other extensions, followed by one entry for each command the manifest declares there now, by the last of its
  declarations there, and nothing where it declares none. The entry names the extension and the command, is enabled, and has
  the declaration's values of optional, priority, prompt, description and condition or the default of each. What
  unregistering leaves is exactly the entries of the others. The entries are equal to those as Python compares
  values; the keys of the mappings of the hooks file differ, and registering has succeeded.\<close>

theorem hooks_follow_the_manifest:
  assumes "manifest_id m = Inr (PStr i)" "mapping_keys_differ f" "manifest_hooks m = PDict declared"
    "distinct (map fst declared)" "register_hooks m f = (Inr (), f')"
  shows "(case map_of declared (PStr e) of
       None \<Rightarrow> event_hooks f' e = other_hooks i f e
     | Some config \<Rightarrow> \<exists>new. list_all2 (entry_for i) (last_of_each (hook_declarations (coerce_hook_entries config))) new \<and>
         py_eq (PList (other_hooks i f e @ new)) (PList (event_hooks f' e))) \<and>
     fst (unregister_hooks i f) = Inr () \<and> event_hooks (snd (unregister_hooks i f)) e = other_hooks i f e"
proof -
  have "\<And>d. manifest_hooks m = PDict d \<Longrightarrow> distinct (map fst d)" using assms(3,4) by simp
  from register_entries(2)[OF assms(5,1,2) this refl]
  have "case map_of declared (PStr e) of
       None \<Rightarrow> event_hooks f' e = other_hooks i f e
     | Some config \<Rightarrow> \<exists>new. new_hook_entries (PStr i) (coerce_hook_entries config) [] = Inr new \<and>
         py_eq (PList (other_hooks i f e @ map snd new)) (PList (event_hooks f' e))" by (simp add: assms(3))
  then have "case map_of declared (PStr e) of
       None \<Rightarrow> event_hooks f' e = other_hooks i f e
     | Some config \<Rightarrow> \<exists>new. list_all2 (entry_for i) (last_of_each (hook_declarations (coerce_hook_entries config))) new \<and>
         py_eq (PList (other_hooks i f e @ new)) (PList (event_hooks f' e))"
    using new_entries_as_declared[of i _ "[]"] by (cases "map_of declared (PStr e)") fastforce+
  then show ?thesis
    using unregister_entries[OF _ assms(2), of i "fst (unregister_hooks i f)" "snd (unregister_hooks i f)" e]
    by (simp add: other_hooks_belongs)
qed

section \<open>What an event runs\<close>

text \<open>Insertion is stable: entries of one rank keep their order.\<close>

lemma insert_by_rank:
  "List.filter (\<lambda>y. r y = p) (insert_by (\<lambda>a b. r a \<le> r b) x ys) =
     (if r x = p then x # List.filter (\<lambda>y. r y = p) ys else List.filter (\<lambda>y. r y = p) ys)"
  for r :: "'a \<Rightarrow> int"
  by (induction ys) auto

lemma sort_by_rank:
  "List.filter (\<lambda>y. r y = p) (sort_by (\<lambda>a b. r a \<le> r b) xs) = List.filter (\<lambda>y. r y = p) xs"
  for r :: "'a \<Rightarrow> int"
  unfolding sort_by_def by (induction xs) (simp_all add: insert_by_rank)

definition priority_of :: "(pyval \<times> pyval) list \<Rightarrow> int py" where
  "priority_of h = normalize_priority 10 (get_none h ''priority'')"

lemma hook_ranks:
  "rmap hook_rank hs = Inr rs \<Longrightarrow> list_all is_dict hs \<Longrightarrow>
     map snd rs = map dict_of hs \<and> (\<forall>(p, d) \<in> set rs. priority_of d = Inr p)"
proof (induction hs arbitrary: rs)
  case (Cons h hs)
  obtain d where h: "h = PDict d" using Cons.prems(2) by (cases h) auto
  with Cons show ?case
    by (auto simp: rbind_Inr_iff hook_rank_def dict_of_def priority_of_def DEFAULT_HOOK_PRIORITY_def)
qed simp

lemma filter_of_rank:
  assumes "\<forall>(p, d) \<in> set rs. priority_of d = Inr p"
  shows "List.filter (\<lambda>d. priority_of d = Inr p) (map snd rs) = map snd (List.filter (\<lambda>y. fst y = p) rs)"
  using assms by (induction rs) auto

lemma hooks_for_event:
  assumes "get_hooks_for_event f e = Inr hs"
  shows "sorted_wrt (\<lambda>a b. \<exists>p q. priority_of a = Inr p \<and> priority_of b = Inr q \<and> p \<le> q) hs"
    "List.filter (\<lambda>d. priority_of d = Inr p) hs =
       List.filter (\<lambda>d. priority_of d = Inr p) (map dict_of (List.filter hook_enabled (event_hooks f e)))"
    "set hs = dict_of ` set (List.filter hook_enabled (event_hooks f e))"
    "\<forall>d \<in> set hs. \<exists>p. priority_of d = Inr p"
proof -
  let ?es = "List.filter hook_enabled (event_hooks f e)"
  have es: "?es = List.filter hook_enabled (hook_list (case field (hooks_in (get_project_config f)) e of Some v \<Rightarrow> v | None \<Rightarrow> PList []))"
    by (auto simp: event_hooks_def hook_list_def split: option.split)
  have d: "list_all is_dict ?es"
    using normal_get[OF hooks_in_normal, of f "PStr e"]
    by (cases "assoc_get (hooks_in (get_project_config f)) (PStr e)")
      (auto simp: event_hooks_def field_def hook_list_def list_all_iff)
  obtain rs where rs: "rmap hook_rank ?es = Inr rs" and hs: "hs = map snd (sort_by (\<lambda>a b. fst a \<le> fst b) rs)"
    using assms unfolding get_hooks_for_event_def es by (auto simp: rbind_Inr_iff)
  note r = hook_ranks[OF rs d]
  let ?s = "sort_by (\<lambda>a b. fst a \<le> fst b) rs"
  have ranked: "\<forall>(p, d) \<in> set ?s. priority_of d = Inr p" using r by simp
  have "sorted_wrt (\<lambda>a b. fst a \<le> fst b) ?s" by (rule sorted_sort_by) (auto simp: transp_def)
  then show "sorted_wrt (\<lambda>a b. \<exists>p q. priority_of a = Inr p \<and> priority_of b = Inr q \<and> p \<le> q) hs"
    unfolding hs sorted_wrt_map by (rule sorted_wrt_mono_rel[rotated]) (use ranked in fastforce)
  show "List.filter (\<lambda>d. priority_of d = Inr p) hs = List.filter (\<lambda>d. priority_of d = Inr p) (map dict_of ?es)"
    using r sort_by_rank[of fst p rs] by (simp add: hs filter_of_rank[OF ranked] flip: conjunct1[OF r]) (simp add: filter_of_rank)
  have "set hs = set (map snd rs)" by (simp add: hs)
  also have "\<dots> = dict_of ` set ?es" using r by (metis list.set_map)
  finally show "set hs = dict_of ` set ?es" .
  show "\<forall>d \<in> set hs. \<exists>p. priority_of d = Inr p" using ranked by (auto simp: hs)
qed

text \<open>C35. An event runs exactly the enabled hooks of its entries whose condition holds, by priority: every
  one of them has a priority, a smaller number comes first, and hooks of one priority keep the order of
  the file. There is something to run exactly when the list is not empty.\<close>

theorem event_runs_enabled_hooks_in_order:
  assumes "check_hooks_for_event env opts f e = Inr r"
  shows "(let runs = List.filter (\<lambda>d. should_execute_hook env d) (map dict_of (List.filter hook_enabled (event_hooks f e)))
     in set (hc_hooks r) = set runs \<and>
        sorted_wrt (\<lambda>a b. \<exists>p q. priority_of a = Inr p \<and> priority_of b = Inr q \<and> p \<le> q) (hc_hooks r) \<and>
        (\<forall>d \<in> set runs. \<exists>p. priority_of d = Inr p) \<and>
        (\<forall>p. List.filter (\<lambda>d. priority_of d = Inr p) (hc_hooks r) = List.filter (\<lambda>d. priority_of d = Inr p) runs) \<and>
        (hc_has_hooks r \<longleftrightarrow> runs \<noteq> []))"
proof -
  obtain hs where hs: "get_hooks_for_event f e = Inr hs"
    and r: "hc_hooks r = List.filter (should_execute_hook env) hs" "hc_has_hooks r \<longleftrightarrow> hc_hooks r \<noteq> []"
    using assms by (auto simp: check_hooks_for_event_def rbind_Inr_iff Let_def split: if_splits)
  note h = hooks_for_event[OF hs]
  let ?all = "map dict_of (List.filter hook_enabled (event_hooks f e))"
  have swap: "List.filter (\<lambda>d. priority_of d = Inr p) (List.filter (should_execute_hook env) xs) =
      List.filter (should_execute_hook env) (List.filter (\<lambda>d. priority_of d = Inr p) xs)" for p xs
    by (simp add: conj_commute)
  have ranks: "\<forall>p. List.filter (\<lambda>d. priority_of d = Inr p) (hc_hooks r) =
      List.filter (\<lambda>d. priority_of d = Inr p) (List.filter (should_execute_hook env) ?all)"
    unfolding r swap h(2) by simp
  have all: "set (hc_hooks r) = set (List.filter (should_execute_hook env) ?all)" using h(3) by (auto simp: r)
  moreover have "sorted_wrt (\<lambda>a b. \<exists>p q. priority_of a = Inr p \<and> priority_of b = Inr q \<and> p \<le> q) (hc_hooks r)"
    using h(1) unfolding r by (rule sorted_wrt_filter)
  moreover have "hc_has_hooks r \<longleftrightarrow> List.filter (should_execute_hook env) ?all \<noteq> []"
    using all unfolding r(2) by (metis set_empty2)
  moreover have "\<forall>d \<in> set (List.filter (should_execute_hook env) ?all). \<exists>p. priority_of d = Inr p"
    using h(3,4) by auto
  ultimately show ?thesis using ranks by (simp only: Let_def simp_thms)
qed

section \<open>The layers of the configuration\<close>

text \<open>Parsed mappings: the keys of each differ.\<close>

fun tidy :: "pyval \<Rightarrow> bool" where
  "tidy (PList xs) = list_all tidy xs"
| "tidy (PDict d) = (distinct (map fst d) \<and> list_all (\<lambda>(k, v). tidy v) d)"
| "tidy v = True"

text \<open>A layer is silent on a path when the path leaves it at a missing key.\<close>

fun silent :: "pyval \<Rightarrow> string list \<Rightarrow> bool" where
  "silent v [] = False"
| "silent v (k # ks) = (case v of PDict d \<Rightarrow> (case field d k of None \<Rightarrow> True | Some w \<Rightarrow> silent w ks) | _ \<Rightarrow> False)"

lemma silent_walk: "silent v p \<Longrightarrow> walk v p = None"
  by (induction v p rule: silent.induct) (auto split: pyval.splits option.splits)

lemma field_merge:
  "distinct (map fst ov) \<Longrightarrow> field (merge_configs base ov) k =
     (case field ov k of None \<Rightarrow> field base k
      | Some v \<Rightarrow> Some (case (field base k, v) of (Some (PDict b), PDict o2) \<Rightarrow> PDict (merge_configs b o2) | _ \<Rightarrow> v))"
proof (induction ov arbitrary: base)
  case (Cons x ov)
  obtain k' v where x: "x = (k', v)" by (cases x)
  show ?case
  proof (cases "k' = PStr k")
    case True
    then have "field ov k = None"
      using Cons.prems assoc_get_key[of ov k] by (cases "field ov k") (auto simp: x field_def)
    with True Cons show ?thesis by (simp add: x field_def assoc_get_set_str)
  next
    case False
    have "field (assoc_set k' w base) k = field base k" for w using False by (simp add: field_def assoc_get_set_str)
    moreover have "field (x # ov) k = field ov k" using False by (simp add: x field_def)
    ultimately show ?thesis using Cons by (simp add: x cong: option.case_cong)
  qed
qed (simp add: field_def)

lemma tidy_field: "tidy (PDict d) \<Longrightarrow> field d k = Some v \<Longrightarrow> tidy v"
  by (auto simp: field_def list_all_iff dest!: assoc_get_mem)

lemma walk_merge:
  assumes "tidy (PDict ov)"
  shows "silent (PDict ov) p \<Longrightarrow> walk (PDict (merge_configs base ov)) p = walk (PDict base) p"
    "walk (PDict ov) p = Some v \<Longrightarrow> \<not> is_dict v \<Longrightarrow> walk (PDict (merge_configs base ov)) p = Some v"
  using assms
proof (induction p arbitrary: base ov)
  case (Cons k ks)
  have d: "distinct (map fst ov)" if "tidy (PDict ov)" for ov using that by simp
  { case 1
    show ?case
    proof (cases "field ov k")
      case (Some w)
      with 1 obtain o2 where w: "w = PDict o2" "silent (PDict o2) ks" by (cases ks; cases w) auto
      have ks: "ks \<noteq> []" using w(2) by auto
      note t = tidy_field[OF 1(2) Some]
      show ?thesis
      proof (cases "\<exists>b. field base k = Some (PDict b)")
        case True
        then obtain b where "field base k = Some (PDict b)" by blast
        with Cons.IH(1)[OF w(2), of b] t w Some show ?thesis by (simp add: field_merge[OF d[OF 1(2)]])
      next
        case False
        then have "walk (PDict base) (k # ks) = None" using ks
          by (cases "field base k"; cases ks) (auto split: pyval.splits)
        with False w Some silent_walk[OF w(2)] show ?thesis
          by (auto simp: field_merge[OF d[OF 1(2)]] split: option.splits pyval.splits)
      qed
    qed (simp add: field_merge[OF d[OF 1(2)]])
  next
    case 2
    then obtain w where w: "field ov k = Some w" "walk w ks = Some v" by (auto simp: bind_eq_Some_conv)
    note t = tidy_field[OF 2(3) w(1)]
    show ?case
    proof (cases "\<exists>b o2. field base k = Some (PDict b) \<and> w = PDict o2")
      case True
      then obtain b o2 where "field base k = Some (PDict b)" "w = PDict o2" by blast
      with Cons.IH(2)[of o2 b] w 2(2) t show ?thesis by (simp add: field_merge[OF d[OF 2(3)]])
    next
      case False
      with w show ?thesis by (auto simp: field_merge[OF d[OF 2(3)]] split: option.splits pyval.splits)
    qed }
qed auto

lemma tidy_set: "tidy (PDict d) \<Longrightarrow> tidy v \<Longrightarrow> tidy (PDict (assoc_set k v d))"
  by (auto simp: distinct_assoc_set_any list_all_iff dest!: assoc_set_mem)

lemma tidy_env_put: "env_put ks v d = Inr r \<Longrightarrow> tidy v \<Longrightarrow> tidy d \<Longrightarrow> tidy r"
proof (induction ks v d arbitrary: r rule: env_put.induct)
  case (2 k ks v d)
  then obtain m w where m: "d = PDict m" "env_put ks v (get_or m k (PDict [])) = Inr w" "r = PDict (assoc_set (PStr k) w m)"
    by (auto simp: rbind_Inr_iff split: pyval.splits)
  have "tidy (get_or m k (PDict []))" using 2(4) tidy_field[of m k] by (auto simp: m(1) get_or_def split: option.split)
  with 2 m tidy_set show ?case by blast
qed simp

lemma tidy_env: "env_config_from pre env c = Inr r \<Longrightarrow> tidy c \<Longrightarrow> tidy r"
proof (induction env arbitrary: c)
  case (Cons x env)
  obtain k v where x: "x = (k, v)" by (cases x)
  show ?case
  proof (cases "starts_with pre k")
    case True
    with Cons.prems obtain d where "env_put (split_on (CHR ''_'') (py_lower (drop (length pre) k))) (PStr v) c = Inr d"
        "env_config_from pre env d = Inr r" by (auto simp: x rbind_Inr_iff)
    with Cons.IH[of d] Cons.prems(2) tidy_env_put show ?thesis by simp
  qed (use Cons in \<open>simp add: x\<close>)
qed simp

text \<open>The layers of an extension's configuration, the strongest first.\<close>

definition config_layers :: "config_env \<Rightarrow> string \<Rightarrow> pyval list py" where
  "config_layers env x =
     rbind (extension_defaults (cf_manifest env x)) (\<lambda>c. rbind (env_config env x) (\<lambda>e.
     Inr [e, load_yaml_config (cf_local env x), load_yaml_config (cf_project env x), c]))"

fun decided :: "pyval list \<Rightarrow> string list \<Rightarrow> pyval option" where
  "decided [] p = None"
| "decided (l # ls) p = (if silent l p then decided ls p else walk l p)"

lemma merge_layer_cases:
  "merge_layer b l = Inr r \<Longrightarrow> \<exists>bd ld. b = PDict bd \<and> l = PDict ld \<and> r = PDict (merge_configs bd ld)"
  by (auto simp: merge_layer_def rbind_Inr_iff as_dict_Inr)

lemma merge_layer_walk:
  assumes "merge_layer b l = Inr r" "tidy l"
  shows "silent l p \<Longrightarrow> walk r p = walk b p" "walk l p = Some v \<Longrightarrow> \<not> is_dict v \<Longrightarrow> walk r p = Some v"
  using merge_layer_cases[OF assms(1)] walk_merge assms(2) by auto

text \<open>A higher layer of an extension's configuration wins: the environment over the local file, that
  over the project's file, that over the manifest's defaults. Where the highest layer that is not silent
  on a path holds a plain value there, that is the value; where all are silent, it is the default.\<close>

theorem higher_layer_wins:
  assumes "config_layers env x = Inr layers" "list_all tidy (tl layers)" "get_value env x path dflt = Inr v"
  shows "(\<forall>w. decided layers (split_on (CHR ''.'') path) = Some w \<longrightarrow> \<not> is_dict w \<longrightarrow> v = w) \<and>
     (list_all (\<lambda>l. silent l (split_on (CHR ''.'') path)) layers \<longrightarrow> v = dflt)"
proof -
  let ?p = "split_on (CHR ''.'') path"
  obtain c e where l: "layers = [e, load_yaml_config (cf_local env x), load_yaml_config (cf_project env x), c]"
      and c: "extension_defaults (cf_manifest env x) = Inr c" and e: "env_config env x = Inr e"
    using assms(1) by (auto simp: config_layers_def rbind_Inr_iff)
  obtain c1 c2 r where m: "merge_layer c (load_yaml_config (cf_project env x)) = Inr c1"
      "merge_layer c1 (load_yaml_config (cf_local env x)) = Inr c2" "merge_layer c2 e = Inr r"
      and v: "v = (case walk r ?p of Some v \<Rightarrow> v | None \<Rightarrow> dflt)"
    using assms(3) by (auto simp: get_value_def get_config_def c e rbind_Inr_iff)
  have t: "tidy (load_yaml_config (cf_project env x))" "tidy (load_yaml_config (cf_local env x))" "tidy e"
    using assms(2) tidy_env[of "env_prefix x" "cf_environ env" "PDict []" e] e by (simp_all add: l env_config_def)
  note w = merge_layer_walk[OF m(1) t(1), of ?p] merge_layer_walk[OF m(2) t(2), of ?p] merge_layer_walk[OF m(3) t(3), of ?p]
  have "walk r ?p = Some u" if "decided layers ?p = Some u" "\<not> is_dict u" for u
    using that w by (auto simp: l split: if_splits)
  moreover have "walk r ?p = None" if "list_all (\<lambda>l. silent l ?p) layers"
    using that w silent_walk[of c ?p] by (simp add: l)
  ultimately show ?thesis by (auto simp: v)
qed

theorem higher_layer_wins_witness:
  "\<exists>env. get_value env ''my-ext'' ''db.host'' PNone = Inr (PStr ''x'') \<and> get_value env ''my-ext'' ''db.name'' PNone = Inr (PStr ''a'') \<and>
     get_value env ''my-ext'' ''no.key'' (PInt 1) = Inr (PInt 1)"
proof -
  let ?manifest = "PDict (obj [(''config'', PDict (obj [(''defaults'', PDict (obj [(''db'', PDict (obj [(''name'', PStr ''a''),
      (''host'', PStr ''b'')]))]))]))])"
  let ?env = "\<lparr>cf_manifest = \<lambda>_. YamlValue ?manifest, cf_project = \<lambda>_. YamlValue (PDict (obj [(''db'', PDict (obj [(''host'', PStr ''c'')]))])),
      cf_local = \<lambda>_. YamlAbsent, cf_environ = [(''SPECKIT_MY_EXT_DB_HOST'', ''x''), (''HOME'', ''h'')]\<rparr>"
  define layers where "layers = [PDict (obj [(''db'', PDict (obj [(''host'', PStr ''x'')]))]), PDict [],
      PDict (obj [(''db'', PDict (obj [(''host'', PStr ''c'')]))]), PDict (obj [(''db'', PDict (obj [(''name'', PStr ''a''), (''host'', PStr ''b'')]))])]"
  have l: "config_layers ?env ''my-ext'' = Inr layers" unfolding layers_def by code_simp
  have t: "list_all tidy (tl layers)" by (simp add: layers_def obj_def)
  have paths: "split_on (CHR ''.'') ''db.host'' = [''db'', ''host'']" "split_on (CHR ''.'') ''db.name'' = [''db'', ''name'']"
      "split_on (CHR ''.'') ''no.key'' = [''no'', ''key'']" by code_simp+
  have ok: "\<exists>v. get_value ?env ''my-ext'' p d = Inr v" for p d
  proof -
    have "isl (get_config ?env ''my-ext'') = False" by code_simp
    then obtain c where "get_config ?env ''my-ext'' = Inr c" by (cases "get_config ?env ''my-ext''") auto
    then show ?thesis by (simp add: get_value_def)
  qed
  have "get_value ?env ''my-ext'' ''db.host'' PNone = Inr (PStr ''x'')"
    using ok[of "''db.host''" PNone] higher_layer_wins[OF l t] by (auto simp: paths layers_def field_obj)
  moreover have "get_value ?env ''my-ext'' ''db.name'' PNone = Inr (PStr ''a'')"
    using ok[of "''db.name''" PNone] higher_layer_wins[OF l t] by (auto simp: paths layers_def field_obj)
  moreover have "get_value ?env ''my-ext'' ''no.key'' (PInt 1) = Inr (PInt 1)"
    using ok[of "''no.key''" "PInt 1"] higher_layer_wins[OF l t] by (auto simp: paths layers_def field_obj)
  ultimately show ?thesis by blast
qed

section \<open>Two extensions\<close>

text \<open>A file with entries of two extensions, and a manifest that declares one event.\<close>

definition a_manifest :: ext_manifest where
  "a_manifest = \<lparr>em_data = obj [(''extension'', PDict (obj [(''id'', PStr ''a'')])),
     (''hooks'', PDict (obj [(''done'', PDict (obj [(''command'', PStr ''speckit.a.run'')]))]))], em_warnings = []\<rparr>"

definition a_hook :: "string \<Rightarrow> string \<Rightarrow> int \<Rightarrow> pyval" where
  "a_hook x c p = PDict (obj [(''extension'', PStr x), (''command'', PStr c), (''priority'', PInt p)])"

definition a_file :: yaml_file where
  "a_file = YamlValue (PDict (obj [(''hooks'', PDict (obj [
     (''start'', PList [a_hook ''a'' ''speckit.a.old'' 10, a_hook ''b'' ''speckit.b.go'' 5]),
     (''done'', PList [a_hook ''b'' ''speckit.b.late'' 20, a_hook ''a'' ''speckit.a.first'' 20, a_hook ''b'' ''speckit.b.soon'' 1])]))]))"

lemma two_extensions:
  "manifest_id a_manifest = Inr (PStr ''a'')"
  "manifest_hooks a_manifest = PDict (obj [(''done'', PDict (obj [(''command'', PStr ''speckit.a.run'')]))])"
  "mapping_keys_differ a_file" "fst (register_hooks a_manifest a_file) = Inr ()"
  "other_hooks ''a'' a_file ''start'' = [a_hook ''b'' ''speckit.b.go'' 5]"
  unfolding mapping_keys_differ_def by code_simp+

theorem hooks_of_others_are_untouched_witness:
  "other_hooks ''a'' (snd (unregister_hooks ''a'' a_file)) ''start'' = [a_hook ''b'' ''speckit.b.go'' 5]"
  using hooks_of_others_are_untouched[OF two_extensions(1,3), of "snd (unregister_hooks ''a'' a_file)" "''start''"]
  by (simp add: two_extensions obj_def)

theorem hooks_follow_the_manifest_witness:
  "\<exists>f'. register_hooks a_manifest a_file = (Inr (), f') \<and> event_hooks f' ''start'' = [a_hook ''b'' ''speckit.b.go'' 5] \<and>
     (\<exists>h. entry_for ''a'' (obj [(''command'', PStr ''speckit.a.run'')]) h \<and>
        py_eq (PList (other_hooks ''a'' a_file ''done'' @ [h])) (PList (event_hooks f' ''done'')))"
proof -
  obtain f' where f': "register_hooks a_manifest a_file = (Inr (), f')"
    using two_extensions(4) by (cases "register_hooks a_manifest a_file") auto
  have d: "distinct (map fst (obj [(''done'', PDict (obj [(''command'', PStr ''speckit.a.run'')]))]))" by (simp add: obj_def)
  note follows = hooks_follow_the_manifest[OF two_extensions(1,3,2) d f']
  have one: "last_of_each (hook_declarations (coerce_hook_entries (PDict (obj [(''command'', PStr ''speckit.a.run'')])))) =
      [obj [(''command'', PStr ''speckit.a.run'')]]"
    by (simp add: coerce_hook_entries_def command_of_def field_obj get_or_def)
  have "\<exists>h. entry_for ''a'' (obj [(''command'', PStr ''speckit.a.run'')]) h \<and>
      py_eq (PList (other_hooks ''a'' a_file ''done'' @ [h])) (PList (event_hooks f' ''done''))"
    using follows[of "''done''"] by (auto simp: obj_def[of "[(''done'', _)]"] one list_all2_Cons1)
  with follows[of "''start''"] f' show ?thesis
    by (simp add: obj_def two_extensions(5))
qed

theorem event_runs_enabled_hooks_in_order_witness:
  "\<exists>env r. check_hooks_for_event env [] a_file ''done'' = Inr r \<and>
     map (\<lambda>h. get_none h ''command'') (hc_hooks r) = [PStr ''speckit.b.soon'', PStr ''speckit.b.late'', PStr ''speckit.a.first''] \<and>
     set (hc_hooks r) = set (map dict_of (event_hooks a_file ''done''))"
proof -
  let ?env = "\<lparr>cf_manifest = \<lambda>_. YamlAbsent, cf_project = \<lambda>_. YamlAbsent, cf_local = \<lambda>_. YamlAbsent, cf_environ = []\<rparr>"
  have "map_sum id (\<lambda>r. map (\<lambda>h. get_none h ''command'') (hc_hooks r)) (check_hooks_for_event ?env [] a_file ''done'') =
      Inr [PStr ''speckit.b.soon'', PStr ''speckit.b.late'', PStr ''speckit.a.first'']" by code_simp
  then obtain r where r: "check_hooks_for_event ?env [] a_file ''done'' = Inr r"
      "map (\<lambda>h. get_none h ''command'') (hc_hooks r) = [PStr ''speckit.b.soon'', PStr ''speckit.b.late'', PStr ''speckit.a.first'']"
    by (cases "check_hooks_for_event ?env [] a_file ''done''") auto
  have "List.filter (should_execute_hook ?env) (map dict_of (List.filter hook_enabled (event_hooks a_file ''done''))) =
      map dict_of (event_hooks a_file ''done'')" by code_simp
  with event_runs_enabled_hooks_in_order[OF r(1)]
  have "set (hc_hooks r) = set (map dict_of (event_hooks a_file ''done''))" by (simp only: Let_def)
  with r show ?thesis by (intro exI[of _ ?env] exI[of _ r] conjI)
qed

end
