(* ===== verification/Presets.thy ===== *)
theory Presets
  imports ExtManifest Manifest
begin

text \<open>
  \<open>PresetManifest\<close> (\<open>specify_cli/presets.py\<close>): loading and validating \<open>preset.yml\<close>; the compatibility check
  of a preset; and where the files shipped with the program are (\<open>specify_cli/_assets.py\<close>). The check of a
  version and of a version range are the \<open>packaging\<close> library's and arguments.
\<close>

abbreviation preset_error :: "string \<Rightarrow> pyexn" where
  "preset_error msg \<equiv> PyExc ''PresetValidationError'' msg"

definition preset_demand :: "bool \<Rightarrow> string \<Rightarrow> unit py" where
  "preset_demand ok msg = (if ok then Inr () else Inl (preset_error msg))"

text \<open>\<open>v in s\<close> for a set of texts: \<open>v\<close> must be hashable.\<close>

definition in_names :: "string list \<Rightarrow> pyval \<Rightarrow> bool py" where
  "in_names names v = (if hashable v then Inr (v \<in> PStr ` set names) else Inl type_error)"

definition valid_template_types :: "string list" where
  "valid_template_types = [''command'', ''script'', ''template'']"

definition valid_strategies :: "string list" where
  "valid_strategies = [''append'', ''prepend'', ''replace'', ''wrap'']"

definition valid_script_strategies :: "string list" where
  "valid_script_strategies = [''replace'', ''wrap'']"

text \<open>\<open>os.path.normpath\<close> of a relative path: leading \<open>..\<close> stay.\<close>

fun norm_parts :: "string list \<Rightarrow> string list \<Rightarrow> string list" where
  "norm_parts acc [] = acc"
| "norm_parts acc (n # p) =
     (if n = ''..'' \<and> acc \<noteq> [] \<and> last acc \<noteq> ''..'' then norm_parts (butlast acc) p else norm_parts (acc @ [n]) p)"

definition preset_file_ok :: "string \<Rightarrow> bool" where
  "preset_file_ok file \<longleftrightarrow>
     \<not> is_absolute (parse_path file) \<and> \<not> starts_with ''..'' (as_posix (norm_parts [] (path_parts (parse_path file))))"

definition preset_file :: "pyval \<Rightarrow> unit py" where
  "preset_file file =
     (case file of
        PStr f \<Rightarrow> preset_demand (preset_file_ok f)
          (''Invalid template file path '' @ in_quotes f @ '': must be a relative path within the preset directory'')
      | _ \<Rightarrow> Inl type_error)"

definition named_list :: "string list \<Rightarrow> string" where
  "named_list names = py_repr (PList (map PStr names))"

definition command_file_name :: "string \<Rightarrow> bool" where
  "command_file_name t \<longleftrightarrow> t \<noteq> [] \<and> list_all (\<lambda>c. lower_alnum c \<or> c = CHR ''-'' \<or> c = CHR ''.'') t"

definition check_template_name :: "pyval \<Rightarrow> pyval \<Rightarrow> unit py" where
  "check_template_name kind name =
     (if kind = PStr ''command''
      then rbind (re_on (dollar command_file_name) name) (\<lambda>ok.
        preset_demand ok (''Invalid command name '' @ in_quotes (py_str name) @ '': must be lowercase alphanumeric with hyphens and dots only''))
      else rbind (re_on (dollar slug_text) name) (\<lambda>ok.
        preset_demand ok (''Invalid template name '' @ in_quotes (py_str name) @ '': must be lowercase alphanumeric with hyphens only'')))"

text \<open>One template, with its strategy in lower case.\<close>

definition check_template :: "pyval \<Rightarrow> pyval py" where
  "check_template tmpl =
     rbind (each (\<lambda>f. rbind (py_in (PStr f) tmpl) (\<lambda>b. preset_demand b
         (''Template missing '' @ in_quotes ''type'' @ '', '' @ in_quotes ''name'' @ '', or '' @ in_quotes ''file'')))
       [''type'', ''name'', ''file'']) (\<lambda>_.
     case tmpl of
       PDict d \<Rightarrow>
         (let kind = get_none d ''type''; strategy = get_or d ''strategy'' (PStr ''replace'') in
          rbind (in_names valid_template_types kind) (\<lambda>ok.
          rbind (preset_demand ok (''Invalid template type '' @ in_quotes (py_str kind) @ '': must be one of '' @ named_list valid_template_types)) (\<lambda>_.
          rbind (preset_file (get_none d ''file'')) (\<lambda>_.
          case strategy of
            PStr s \<Rightarrow>
              (let s = py_lower s; d' = (if has_field d ''strategy'' then assoc_set (PStr ''strategy'') (PStr s) d else d) in
               rbind (preset_demand (s \<in> set valid_strategies)
                  (''Invalid strategy '' @ in_quotes s @ '': must be one of '' @ named_list valid_strategies)) (\<lambda>_.
               rbind (preset_demand (kind = PStr ''script'' \<longrightarrow> s \<in> set valid_script_strategies)
                  (''Invalid strategy '' @ in_quotes s @ '' for script: scripts only support '' @ named_list valid_script_strategies)) (\<lambda>_.
               rbind (check_template_name kind (get_none d ''name'')) (\<lambda>_. Inr (PDict d')))))
          | _ \<Rightarrow> Inl (preset_error (''Invalid strategy value: must be a string, got '' @ type_name strategy))))))
     | _ \<Rightarrow> Inl type_error)"

definition check_preset :: "(pyval \<Rightarrow> bool py) \<Rightarrow> pyval \<Rightarrow> unit py" where
  "check_preset version_ok pack =
     rbind (each (\<lambda>f. rbind (py_in (PStr f) pack) (\<lambda>b. preset_demand b (''Missing preset.'' @ f)))
        [''id'', ''name'', ''version'', ''description'']) (\<lambda>_.
     rbind (py_item pack ''id'') (\<lambda>i.
     rbind (re_on (dollar slug_text) i) (\<lambda>ok.
     rbind (preset_demand ok (''Invalid preset ID '' @ in_quotes (py_str i) @ '': must be lowercase alphanumeric with hyphens only'')) (\<lambda>_.
     rbind (py_item pack ''version'') (\<lambda>v.
     rbind (version_ok v) (\<lambda>ok.
     preset_demand ok (''Invalid version: '' @ py_str v)))))))"

record preset_manifest =
  pm_data :: "(pyval \<times> pyval) list"

text \<open>\<open>provides["templates"]\<close>, which must be there and true.\<close>

definition provided_templates :: "pyval \<Rightarrow> pyval list py" where
  "provided_templates provides =
     rbind (py_in (PStr ''templates'') provides) (\<lambda>b.
     rbind (if b then rbind (py_item provides ''templates'') (\<lambda>ts. Inr (if truthy ts then Some ts else None)) else Inr None) (\<lambda>ts.
     case ts of
       None \<Rightarrow> Inl (preset_error ''Preset must provide at least one template'')
     | Some ts \<Rightarrow> py_iter ts))"

definition validate_preset :: "(pyval \<Rightarrow> bool py) \<Rightarrow> (pyval \<times> pyval) list \<Rightarrow> preset_manifest py" where
  "validate_preset version_ok data =
     rbind (each (\<lambda>f. preset_demand (has_field data f) (''Missing required field: '' @ f))
        [''schema_version'', ''preset'', ''requires'', ''provides'']) (\<lambda>_.
     rbind (preset_demand (py_eq (get_none data ''schema_version'') (PStr ''1.0''))
        (''Unsupported schema version: '' @ py_str (get_none data ''schema_version'') @ '' (expected 1.0)'')) (\<lambda>_.
     rbind (check_preset version_ok (get_none data ''preset'')) (\<lambda>_.
     rbind (py_in (PStr ''speckit_version'') (get_none data ''requires'')) (\<lambda>b.
     rbind (preset_demand b ''Missing requires.speckit_version'') (\<lambda>_.
     rbind (provided_templates (get_none data ''provides'')) (\<lambda>templates.
     rbind (rmap check_template templates) (\<lambda>ts.
     rbind (as_dict (get_none data ''provides'')) (\<lambda>provides.
     Inr \<lparr>pm_data = assoc_set (PStr ''provides'') (PDict (assoc_set (PStr ''templates'') (PList ts) provides)) data\<rparr>))))))))"

definition load_preset_manifest :: "(pyval \<Rightarrow> bool py) \<Rightarrow> string \<Rightarrow> yaml_file \<Rightarrow> preset_manifest py" where
  "load_preset_manifest version_ok path file =
     (case file of
        YamlAbsent \<Rightarrow> Inl (preset_error (''Manifest not found: '' @ path))
      | YamlFails n exc \<Rightarrow> Inl (preset_error (
          (if n = ''YAMLError'' then ''Invalid YAML in '' @ path @ '': '' @ exc
           else if n = ''UnicodeDecodeError'' then ''Manifest is not valid UTF-8: '' @ path @ '' ('' @ exc @ '')''
           else ''Could not read manifest '' @ path @ '': '' @ exc)))
      | YamlValue v \<Rightarrow>
          (case v of
             PNone \<Rightarrow> validate_preset version_ok []
           | PDict data \<Rightarrow> validate_preset version_ok data
           | _ \<Rightarrow> Inl (preset_error (''Manifest must be a YAML mapping, got '' @ type_name v @ '': '' @ path))))"

text \<open>\<open>templates\<close> and \<open>requires_speckit_version\<close> of an accepted manifest.\<close>

definition preset_templates :: "preset_manifest \<Rightarrow> pyval list py" where
  "preset_templates m = rbind (py_item (PDict (pm_data m)) ''provides'') (\<lambda>p. rbind (py_item p ''templates'') py_iter)"

definition preset_requires :: "preset_manifest \<Rightarrow> pyval py" where
  "preset_requires m = rbind (py_item (PDict (pm_data m)) ''requires'') (\<lambda>r. py_item r ''speckit_version'')"

text \<open>\<open>check_compatibility\<close>: \<open>in_range\<close> tells whether the version is in a range, \<open>None\<close> for one that is no range.\<close>

definition reinstall_command :: string where
  "reinstall_command = ''uv tool install specify-cli --force --from git+https://github.com/github/spec-kit.git''"

definition check_preset_compatibility :: "(string \<Rightarrow> pyval \<Rightarrow> bool option py) \<Rightarrow> preset_manifest \<Rightarrow> string \<Rightarrow> unit py" where
  "check_preset_compatibility in_range m version =
     rbind (preset_requires m) (\<lambda>required.
     rbind (in_range version required) (\<lambda>r.
     case r of
       None \<Rightarrow> Inl (PyExc ''PresetCompatibilityError'' (''Invalid version specifier: '' @ py_str required))
     | Some ok \<Rightarrow> if ok then Inr () else Inl (PyExc ''PresetCompatibilityError''
          (''Preset requires spec-kit '' @ py_str required @ '', but '' @ version @ '' is installed.'' @ newline #
           ''Upgrade spec-kit with: '' @ reinstall_command))))"

section \<open>Files shipped with the program\<close>

text \<open>\<open>pkg\<close> is the directory of the package.\<close>

definition locate_core_pack :: "tree \<Rightarrow> loc \<Rightarrow> loc option" where
  "locate_core_pack t pkg = (if is_dir t (pkg @ [''core_pack'']) then Some (pkg @ [''core_pack'']) else None)"

definition repo_root :: "loc \<Rightarrow> loc" where
  "repo_root pkg = butlast (butlast pkg)"

definition locate_bundled :: "string \<Rightarrow> string \<Rightarrow> (string \<Rightarrow> bool) \<Rightarrow> tree \<Rightarrow> loc \<Rightarrow> string \<Rightarrow> loc option" where
  "locate_bundled dir file ok t pkg i =
     (if \<not> ok i then None
      else let there = (\<lambda>base. is_file t (path_div (base @ [dir]) (parse_path i) @ [file])) in
        case locate_core_pack t pkg of
          Some core \<Rightarrow> if there core then Some (path_div (core @ [dir]) (parse_path i))
             else if there (repo_root pkg) then Some (path_div (repo_root pkg @ [dir]) (parse_path i)) else None
        | None \<Rightarrow> if there (repo_root pkg) then Some (path_div (repo_root pkg @ [dir]) (parse_path i)) else None)"

definition workflow_id_text :: "string \<Rightarrow> bool" where
  "workflow_id_text t \<longleftrightarrow> slug_text t \<and> lower_alnum (hd t) \<and> lower_alnum (last t)"

definition locate_bundled_extension :: "tree \<Rightarrow> loc \<Rightarrow> string \<Rightarrow> loc option" where
  "locate_bundled_extension = locate_bundled ''extensions'' ''extension.yml'' (dollar slug_text)"

definition locate_bundled_workflow :: "tree \<Rightarrow> loc \<Rightarrow> string \<Rightarrow> loc option" where
  "locate_bundled_workflow = locate_bundled ''workflows'' ''workflow.yml'' (dollar workflow_id_text)"

definition locate_bundled_preset :: "tree \<Rightarrow> loc \<Rightarrow> string \<Rightarrow> loc option" where
  "locate_bundled_preset = locate_bundled ''presets'' ''preset.yml'' (dollar slug_text)"

end
