(* ===== verification/Resolver.thy ===== *)
theory Resolver
  imports Presets
begin

text \<open>
  \<open>PresetResolver\<close> (\<open>specify_cli/presets.py\<close>): which file a template, command or script comes from, the
  stack of its layers and the text composed of them. Nothing is written; the project is a file tree. The
  cache of parsed manifests is left out: within a call it never changes a result, since the files do not
  change. The parsers of JSON and YAML and \<open>yaml.safe_dump\<close> are fields of the record of the resolver.
\<close>

section \<open>Text files\<close>

text \<open>What text mode makes of line ends.\<close>

fun universal_newlines :: "string \<Rightarrow> string" where
  "universal_newlines [] = []"
| "universal_newlines (c # cs) =
     (if c = CHR 0x0D
      then newline # (case cs of [] \<Rightarrow> [] | d # ds \<Rightarrow> if d = newline then universal_newlines ds else universal_newlines cs)
      else c # universal_newlines cs)"

text \<open>\<open>splitlines(keepends=True)\<close>.\<close>

definition line_end :: "char \<Rightarrow> bool" where
  "line_end c \<longleftrightarrow> code_of c \<in> {10, 11, 12, 13, 28, 29, 30, 133}"

fun lines_from :: "string \<Rightarrow> string \<Rightarrow> string list" where
  "lines_from cur [] = (if cur = [] then [] else [cur])"
| "lines_from cur (c # cs) =
     (if c = CHR 0x0D \<and> take 1 cs = [newline] then (cur @ [c, newline]) # lines_from [] (tl cs)
      else if line_end c then (cur @ [c]) # lines_from [] cs
      else lines_from (cur @ [c]) cs)"

definition split_lines :: "string \<Rightarrow> string list" where
  "split_lines t = lines_from [] t"

text \<open>\<open>rstrip\<close> of line ends, and a line without its end.\<close>

definition strip_eol :: "string \<Rightarrow> string" where
  "strip_eol t = rev (dropWhile (\<lambda>c. c = CHR 0x0D \<or> c = newline) (rev t))"

definition chop_eol :: "string \<Rightarrow> string" where
  "chop_eol t = (if ends_with [CHR 0x0D, newline] t then butlast (butlast t)
     else if t \<noteq> [] \<and> line_end (last t) then butlast t else t)"

text \<open>\<open>t.replace(old, new)\<close>.\<close>

function replace_all :: "string \<Rightarrow> string \<Rightarrow> string \<Rightarrow> string" where
  "replace_all old new t =
     (if old = [] then t
      else case split1 old t of None \<Rightarrow> t | Some (a, b) \<Rightarrow> a @ new @ replace_all old new b)"
  by pat_completeness auto
termination
  by (relation "measure (\<lambda>(old, new, t). length t)") (auto dest: split1_shorter)

declare replace_all.simps [simp del]

section \<open>The resolver\<close>

record resolver =
  pr_root :: loc
  pr_pkg :: loc
  pr_tree :: tree
  pr_json :: "string \<Rightarrow> string + pyval"
  pr_yaml :: "string \<Rightarrow> string + pyval"
  pr_dump :: "(pyval \<times> pyval) list \<Rightarrow> string"
  pr_version_ok :: "pyval \<Rightarrow> bool py"

definition templates_dir :: "resolver \<Rightarrow> loc" where
  "templates_dir e = pr_root e @ [''.specify'', ''templates'']"

definition presets_dir :: "resolver \<Rightarrow> loc" where
  "presets_dir e = pr_root e @ [''.specify'', ''presets'']"

definition overrides_dir :: "resolver \<Rightarrow> loc" where
  "overrides_dir e = templates_dir e @ [''overrides'']"

definition extensions_dir :: "resolver \<Rightarrow> loc" where
  "extensions_dir e = pr_root e @ [''.specify'', ''extensions'']"

definition read_text :: "resolver \<Rightarrow> loc \<Rightarrow> string py" where
  "read_text e p = (case fs_read p (pr_tree e) of Inl n \<Rightarrow> Inl (os_error n) | Inr c \<Rightarrow> Inr (universal_newlines c))"

definition there :: "resolver \<Rightarrow> loc \<Rightarrow> bool" where
  "there e p = path_exists (pr_tree e) p"

definition json_at :: "resolver \<Rightarrow> loc \<Rightarrow> json_file" where
  "json_at e p =
     (if \<not> there e p then JsonAbsent
      else case read_text e p of
          Inl _ \<Rightarrow> JsonOsError ''''
        | Inr c \<Rightarrow> (case pr_json e c of Inl m \<Rightarrow> JsonDecodeError m | Inr v \<Rightarrow> JsonValue v))"

definition yaml_at :: "resolver \<Rightarrow> loc \<Rightarrow> yaml_file" where
  "yaml_at e p =
     (case fs_read p (pr_tree e) of
        Inl ENOENT \<Rightarrow> YamlAbsent
      | Inl n \<Rightarrow> YamlFails ''OSError'' ''''
      | Inr c \<Rightarrow> (case pr_yaml e (universal_newlines c) of Inl m \<Rightarrow> YamlFails ''YAMLError'' m | Inr v \<Rightarrow> YamlValue v))"

definition registry_at :: "resolver \<Rightarrow> registry_class \<Rightarrow> loc \<Rightarrow> kept_state py" where
  "registry_at e c dir = kept_init c (json_at e (dir @ [''.registry'']))"

definition get_preset_manifest :: "resolver \<Rightarrow> loc \<Rightarrow> preset_manifest option py" where
  "get_preset_manifest e pack_dir =
     (let p = pack_dir @ [''preset.yml''] in
      if \<not> there e p then Inr None
      else case load_preset_manifest (pr_version_ok e) (loc_text p) (yaml_at e p) of
          Inr m \<Rightarrow> Inr (Some m)
        | Inl (PyExc n msg) \<Rightarrow> if n = ''PresetValidationError'' then Inr None else Inl (PyExc n msg)
        | Inl x \<Rightarrow> Inl x)"

text \<open>The names in a directory.\<close>

definition iterdir :: "tree \<Rightarrow> loc \<Rightarrow> (errno, string list) res" where
  "iterdir t p = rbind (locate t p) (\<lambda>l.
     if node_at t l = Some DirNode then Inr (List.map_filter (\<lambda>(k, _). if k \<noteq> [] \<and> butlast k = l then Some (last k) else None) t)
     else Inl ENOTDIR)"

definition pack_path :: "loc \<Rightarrow> string \<Rightarrow> loc" where
  "pack_path dir i = path_div dir (parse_path i)"

type_synonym ext_rank = "(int \<times> string) \<times> (pyval \<times> pyval) list option"

definition registered_rank :: "string \<times> (pyval \<times> pyval) list \<Rightarrow> ext_rank py" where
  "registered_rank = (\<lambda>(i, m). rbind (normalize_priority DEFAULT_HOOK_PRIORITY (get_none m ''priority'')) (\<lambda>p. Inr ((p, i), Some m)))"

definition unregistered :: "resolver \<Rightarrow> pyval list \<Rightarrow> string list \<Rightarrow> ext_rank list" where
  "unregistered e keys names =
     map (\<lambda>n. ((10, n), None)) (List.filter (\<lambda>n. is_dir (pr_tree e) (extensions_dir e @ [n]) \<and> \<not> starts_with ''.'' n \<and> PStr n \<notin> set keys) names)"

definition all_extensions :: "resolver \<Rightarrow> ext_rank list py" where
  "all_extensions e =
     (if \<not> there e (extensions_dir e) then Inr []
      else rbind (registry_at e extension_registry (extensions_dir e)) (\<lambda>reg.
        rbind (list_by_priority extension_registry True reg) (\<lambda>all.
        rbind (rmap registered_rank (List.filter (\<lambda>(_, m). truthy (get_or m ''enabled'' (PBool True))) all)) (\<lambda>registered.
        case iterdir (pr_tree e) (extensions_dir e) of
          Inl n \<Rightarrow> Inl (os_error n)
        | Inr names \<Rightarrow> Inr (sort_by (\<lambda>a b. before_or_same (fst a) (fst b))
            (registered @ unregistered e (kept_keys extension_registry reg) names))))))"

section \<open>One file\<close>

definition core_stem :: "string \<Rightarrow> string option" where
  "core_stem name = (if starts_with ''speckit.'' name then Some (drop 8 name) else None)"

text \<open>The stem where it is there and not empty.\<close>

definition stem_names :: "string \<Rightarrow> string list" where
  "stem_names name = (case core_stem name of Some s \<Rightarrow> if s \<noteq> '''' then [s] else [] | None \<Rightarrow> [])"

definition subdirs_of :: "string \<Rightarrow> string list" where
  "subdirs_of kind =
     (if kind = ''template'' then [''templates'', ''''] else if kind = ''command'' then [''commands'']
      else if kind = ''script'' then [''scripts''] else [''''])"

definition suffix_of :: "string \<Rightarrow> string" where
  "suffix_of kind = (if kind = ''script'' then ''.sh'' else ''.md'')"

definition in_subdir :: "loc \<Rightarrow> string \<Rightarrow> string \<Rightarrow> loc" where
  "in_subdir base sub file = path_div (if sub = '''' then base else base @ [sub]) (parse_path file)"

definition find_in_subdirs :: "resolver \<Rightarrow> string \<Rightarrow> string \<Rightarrow> loc \<Rightarrow> loc option" where
  "find_in_subdirs e kind name base = List.find (there e) (map (\<lambda>sub. in_subdir base sub (name @ suffix_of kind)) (subdirs_of kind))"

definition override_path :: "resolver \<Rightarrow> string \<Rightarrow> string \<Rightarrow> loc" where
  "override_path e kind name = in_subdir (overrides_dir e) (if kind = ''script'' then ''scripts'' else '''') (name @ suffix_of kind)"

definition core_paths :: "resolver \<Rightarrow> string \<Rightarrow> string \<Rightarrow> loc list" where
  "core_paths e kind name =
     (if kind = ''template'' then [in_subdir (templates_dir e) '''' (name @ ''.md'')]
      else if kind = ''command'' then map (\<lambda>n. in_subdir (templates_dir e) ''commands'' (n @ ''.md'')) (name # stem_names name)
      else if kind = ''script'' then [in_subdir (templates_dir e) ''scripts'' (name @ suffix_of kind)]
      else [])"

text \<open>Where a wheel, or else a checkout, has a file of the core.\<close>

definition bundled_path :: "resolver \<Rightarrow> string \<Rightarrow> string \<Rightarrow> loc" where
  "bundled_path e kind name =
     (case locate_core_pack (pr_tree e) (pr_pkg e) of
        Some core \<Rightarrow>
          (if kind = ''template'' then in_subdir core ''templates'' (name @ ''.md'')
           else if kind = ''command'' then in_subdir core ''commands'' (name @ ''.md'')
           else if kind = ''script'' then in_subdir core ''scripts'' (name @ suffix_of kind)
           else in_subdir core '''' (name @ ''.md''))
      | None \<Rightarrow>
          (let root = repo_root (pr_pkg e) in
           if kind = ''template'' then in_subdir root ''templates'' (name @ ''.md'')
           else if kind = ''command'' then in_subdir (root @ [''templates'']) ''commands'' (name @ ''.md'')
           else if kind = ''script'' then in_subdir root ''scripts'' (name @ suffix_of kind)
           else in_subdir root '''' (name @ ''.md'')))"

definition preset_packs :: "resolver \<Rightarrow> (string \<times> (pyval \<times> pyval) list) list py" where
  "preset_packs e =
     (if \<not> there e (presets_dir e) then Inr []
      else rbind (registry_at e preset_registry (presets_dir e)) (list_by_priority preset_registry False))"

definition extension_file :: "resolver \<Rightarrow> string \<Rightarrow> string \<Rightarrow> ext_rank \<Rightarrow> loc option" where
  "extension_file e kind name x =
     (let dir = pack_path (extensions_dir e) (snd (fst x))
      in if is_dir (pr_tree e) dir then find_in_subdirs e kind name dir else None)"

definition resolve_template :: "resolver \<Rightarrow> bool \<Rightarrow> string \<Rightarrow> string \<Rightarrow> loc option py" where
  "resolve_template e skip_presets kind name =
     (if there e (override_path e kind name) then Inr (Some (override_path e kind name))
      else rbind (if skip_presets then Inr [] else preset_packs e) (\<lambda>packs.
        case first_some (\<lambda>(i, _). find_in_subdirs e kind name (pack_path (presets_dir e) i)) packs of
          Some p \<Rightarrow> Inr (Some p)
        | None \<Rightarrow>
            rbind (all_extensions e) (\<lambda>exts.
            case first_some (extension_file e kind name) exts of
              Some p \<Rightarrow> Inr (Some p)
            | None \<Rightarrow>
                Inr (List.find (there e) (core_paths e kind name @
                  map (bundled_path e kind) (name # (if kind = ''command'' then stem_names name else [])))))))"

definition resolve_core :: "resolver \<Rightarrow> string \<Rightarrow> string \<Rightarrow> loc option py" where
  "resolve_core e = resolve_template e True"

section \<open>A command by the manifests of extensions\<close>

text \<open>
  The file of a command entry, if it is inside the extension's directory. A path that leads through a loop of
  links ends the call (\<open>RuntimeError\<close>).
\<close>

definition contained_file :: "resolver \<Rightarrow> loc \<Rightarrow> pyval \<Rightarrow> loc option py" where
  "contained_file e ext_dir file_rel =
     (case file_rel of
        PStr f \<Rightarrow>
          if is_absolute (parse_path f) then Inr None
          else (case resolve (pr_tree e) ext_dir of
              None \<Rightarrow> Inl (PyExc ''RuntimeError'' '''')
            | Some ext_root \<Rightarrow>
                (case resolve (pr_tree e) (ext_root @ path_parts (parse_path f)) of
                   None \<Rightarrow> Inl (PyExc ''RuntimeError'' '''')
                 | Some candidate \<Rightarrow>
                     Inr (if relative_to candidate ext_root \<noteq> None \<and> is_file (pr_tree e) candidate then Some candidate else None)))
      | _ \<Rightarrow> Inl type_error)"

fun command_file_in :: "resolver \<Rightarrow> string \<Rightarrow> loc \<Rightarrow> pyval list \<Rightarrow> loc option py" where
  "command_file_in e cmd_name ext_dir [] = Inr None"
| "command_file_in e cmd_name ext_dir (c # cs) =
     rbind (as_dict c) (\<lambda>d.
     if \<not> py_eq (get_none d ''name'') (PStr cmd_name) \<or> \<not> truthy (get_none d ''file'') then command_file_in e cmd_name ext_dir cs
     else rbind (contained_file e ext_dir (get_none d ''file'')) (\<lambda>r.
       case r of Some p \<Rightarrow> Inr (Some p) | None \<Rightarrow> command_file_in e cmd_name ext_dir cs))"

text \<open>A manifest that does not load is passed over.\<close>

definition skipped_errors :: "string set" where
  "skipped_errors = {''ValidationError'', ''OSError'', ''TypeError'', ''AttributeError''}"

definition extension_manifest_at :: "resolver \<Rightarrow> string set \<Rightarrow> loc \<Rightarrow> ext_manifest option py" where
  "extension_manifest_at e caught p =
     (case load_extension_manifest (pr_version_ok e) (loc_text p) (yaml_at e p) of
        Inr m \<Rightarrow> Inr (Some m)
      | Inl (PyExc n msg) \<Rightarrow> if n \<in> caught then Inr None else Inl (PyExc n msg)
      | Inl x \<Rightarrow> Inl x)"

fun command_via_manifests :: "resolver \<Rightarrow> string \<Rightarrow> ext_rank list \<Rightarrow> loc option py" where
  "command_via_manifests e cmd_name [] = Inr None"
| "command_via_manifests e cmd_name (x # xs) =
     (let dir = pack_path (extensions_dir e) (snd (fst x)) in
      if \<not> is_file (pr_tree e) (dir @ [''extension.yml'']) then command_via_manifests e cmd_name xs
      else rbind (extension_manifest_at e skipped_errors (dir @ [''extension.yml''])) (\<lambda>m.
        case m of
          None \<Rightarrow> command_via_manifests e cmd_name xs
        | Some m \<Rightarrow>
            rbind (manifest_commands m) (\<lambda>cs. rbind (py_iter cs) (\<lambda>cmds.
            rbind (command_file_in e cmd_name dir cmds) (\<lambda>r.
            case r of Some p \<Rightarrow> Inr (Some p) | None \<Rightarrow> command_via_manifests e cmd_name xs)))))"

definition resolve_extension_command_via_manifest :: "resolver \<Rightarrow> string \<Rightarrow> loc option py" where
  "resolve_extension_command_via_manifest e cmd_name =
     (if \<not> there e (extensions_dir e) then Inr None
      else rbind (all_extensions e) (command_via_manifests e cmd_name))"

section \<open>Where a file comes from\<close>

definition version_text :: "(pyval \<times> pyval) list \<Rightarrow> string" where
  "version_text meta = py_str (get_or meta ''version'' (PStr ''?''))"

definition preset_source :: "string \<Rightarrow> (pyval \<times> pyval) list \<Rightarrow> string" where
  "preset_source i meta = i @ '' v'' @ version_text meta"

definition extension_source :: "string \<Rightarrow> (pyval \<times> pyval) list option \<Rightarrow> string" where
  "extension_source i meta =
     (case meta of
        Some (x # m) \<Rightarrow> ''extension:'' @ i @ '' v'' @ version_text (x # m)
      | _ \<Rightarrow> ''extension:'' @ i @ '' (unregistered)'')"

definition source_in_presets :: "resolver \<Rightarrow> loc \<Rightarrow> string option py" where
  "source_in_presets e p =
     (if has_sub (loc_text (presets_dir e)) (loc_text p) \<and> there e (presets_dir e)
      then rbind (registry_at e preset_registry (presets_dir e)) (\<lambda>reg.
        rbind (list_by_priority preset_registry False reg) (\<lambda>packs.
        Inr (first_some (\<lambda>(i, _). if relative_to p (pack_path (presets_dir e) i) \<noteq> None
           then Some (preset_source i (case kept_get preset_registry i reg of Some m \<Rightarrow> m | None \<Rightarrow> [])) else None) packs)))
      else Inr None)"

definition source_in_extension :: "resolver \<Rightarrow> loc \<Rightarrow> ext_rank \<Rightarrow> string option" where
  "source_in_extension e p x =
     (let dir = pack_path (extensions_dir e) (snd (fst x))
      in if is_dir (pr_tree e) dir \<and> relative_to p dir \<noteq> None then Some (extension_source (snd (fst x)) (snd x)) else None)"

definition resolve_with_source :: "resolver \<Rightarrow> string \<Rightarrow> string \<Rightarrow> (string \<times> string) option py" where
  "resolve_with_source e kind name =
     rbind (resolve_template e False kind name) (\<lambda>r.
     case r of
       None \<Rightarrow> Inr None
     | Some p \<Rightarrow>
         (if has_sub (loc_text (overrides_dir e)) (loc_text p) then Inr (Some (loc_text p, ''project override''))
          else rbind (source_in_presets e p) (\<lambda>s.
            case s of
              Some s \<Rightarrow> Inr (Some (loc_text p, s))
            | None \<Rightarrow>
                rbind (all_extensions e) (\<lambda>exts.
                Inr (Some (loc_text p, case first_some (source_in_extension e p) exts of Some s \<Rightarrow> s | None \<Rightarrow> ''core''))))))"

section \<open>All layers\<close>

record layer =
  ly_path :: loc
  ly_source :: string
  ly_strategy :: string

text \<open>Text that begins with a line of three dashes, up to the next such line: first line, inner lines, last line, rest.\<close>

definition is_fence :: "string \<Rightarrow> bool" where
  "is_fence l \<longleftrightarrow> strip_eol l = ''---''"

definition fenced :: "string \<Rightarrow> (string \<times> string list \<times> string \<times> string list) option" where
  "fenced text =
     (case split_lines text of
        [] \<Rightarrow> None
      | l # ls \<Rightarrow>
          if \<not> is_fence l then None
          else (case dropWhile (\<lambda>x. \<not> is_fence x) ls of
              [] \<Rightarrow> None
            | f # rest \<Rightarrow> Some (l, takeWhile (\<lambda>x. \<not> is_fence x) ls, f, rest)))"

text \<open>The strategy a command's own front matter declares, for manifests that do not.\<close>

definition frontmatter_strategy :: "resolver \<Rightarrow> loc \<Rightarrow> string option" where
  "frontmatter_strategy e p =
     (case read_text e p of
        Inl _ \<Rightarrow> None
      | Inr c \<Rightarrow>
          (case fenced c of
             None \<Rightarrow> None
           | Some (_, middle, _, _) \<Rightarrow>
               (case pr_yaml e (concat middle) of
                  Inr (PDict d) \<Rightarrow>
                    (case get_none d ''strategy'' of
                       PStr s \<Rightarrow> if py_lower s \<in> set valid_strategies then Some (py_lower s) else None
                     | _ \<Rightarrow> None)
                | _ \<Rightarrow> None)))"

fun find_entry :: "string \<Rightarrow> string \<Rightarrow> pyval list \<Rightarrow> (pyval \<times> pyval) list option py" where
  "find_entry kind name [] = Inr None"
| "find_entry kind name (x # xs) =
     rbind (as_dict x) (\<lambda>d.
     if py_eq (get_none d ''name'') (PStr name) \<and> py_eq (get_none d ''type'') (PStr kind) then Inr (Some d)
     else find_entry kind name xs)"

definition declared_strategy :: "(pyval \<times> pyval) list option \<Rightarrow> string" where
  "declared_strategy entry =
     (case entry of
        None \<Rightarrow> ''replace''
      | Some d \<Rightarrow> (case get_or d ''strategy'' (PStr ''replace'') of PStr s \<Rightarrow> s | v \<Rightarrow> py_str v))"

text \<open>The file an entry of the manifest names; without an entry, the file of the usual name.\<close>

definition preset_candidate :: "resolver \<Rightarrow> string \<Rightarrow> string \<Rightarrow> loc \<Rightarrow> (pyval \<times> pyval) list option \<Rightarrow> loc option py" where
  "preset_candidate e kind name pack_dir entry =
     (case entry of
        None \<Rightarrow> Inr (find_in_subdirs e kind name pack_dir)
      | Some d \<Rightarrow>
          (case get_none d ''file'' of
             PStr f \<Rightarrow> Inr (if f \<noteq> '''' \<and> there e (path_div pack_dir (parse_path f)) then Some (path_div pack_dir (parse_path f)) else None)
           | v \<Rightarrow> if truthy v then Inl type_error else Inr None))"

definition preset_layer :: "resolver \<Rightarrow> string \<Rightarrow> string \<Rightarrow> string \<times> (pyval \<times> pyval) list \<Rightarrow> layer option py" where
  "preset_layer e kind name = (\<lambda>(i, meta).
     let pack_dir = pack_path (presets_dir e) i in
     rbind (get_preset_manifest e pack_dir) (\<lambda>m.
     rbind (case m of None \<Rightarrow> Inr None | Some m \<Rightarrow> rbind (preset_templates m) (find_entry kind name)) (\<lambda>entry.
     rbind (preset_candidate e kind name pack_dir entry) (\<lambda>candidate.
     case candidate of
       None \<Rightarrow> Inr None
     | Some p \<Rightarrow>
         (let strategy = declared_strategy entry;
              explicit = (case entry of Some d \<Rightarrow> has_field d ''strategy'' | None \<Rightarrow> False);
              strategy = (if \<not> explicit \<and> strategy = ''replace'' \<and> kind = ''command''
                then (case frontmatter_strategy e p of Some s \<Rightarrow> s | None \<Rightarrow> strategy) else strategy)
          in Inr (Some \<lparr>ly_path = p, ly_source = preset_source i meta, ly_strategy = strategy\<rparr>))))))"

text \<open>The file the first command entry of this name has, whether or not it is inside the directory.\<close>

fun declared_command_file :: "resolver \<Rightarrow> string \<Rightarrow> loc \<Rightarrow> pyval list \<Rightarrow> loc option py" where
  "declared_command_file e name dir [] = Inr None"
| "declared_command_file e name dir (c # cs) =
     rbind (as_dict c) (\<lambda>d.
     if \<not> py_eq (get_none d ''name'') (PStr name) then declared_command_file e name dir cs
     else case get_none d ''file'' of
         PStr f \<Rightarrow> Inr (if f \<noteq> '''' \<and> there e (path_div dir (parse_path f)) then Some (path_div dir (parse_path f)) else None)
       | v \<Rightarrow> if truthy v then Inl type_error else Inr None)"

definition extension_candidate :: "resolver \<Rightarrow> string \<Rightarrow> string \<Rightarrow> loc \<Rightarrow> loc option py" where
  "extension_candidate e kind name dir =
     (case find_in_subdirs e kind name dir of
        Some p \<Rightarrow> Inr (Some p)
      | None \<Rightarrow>
          if kind = ''command'' \<and> there e (dir @ [''extension.yml''])
          then rbind (extension_manifest_at e {''ValidationError''} (dir @ [''extension.yml''])) (\<lambda>m.
            case m of
              None \<Rightarrow> Inr None
            | Some m \<Rightarrow> rbind (manifest_commands m) (\<lambda>cs. rbind (py_iter cs) (declared_command_file e name dir)))
          else Inr None)"

definition extension_layer :: "resolver \<Rightarrow> string \<Rightarrow> string \<Rightarrow> ext_rank \<Rightarrow> layer option py" where
  "extension_layer e kind name x =
     (let dir = pack_path (extensions_dir e) (snd (fst x)) in
      if \<not> is_dir (pr_tree e) dir then Inr None
      else rbind (extension_candidate e kind name dir) (\<lambda>c.
        Inr (map_option (\<lambda>p. \<lparr>ly_path = p, ly_source = extension_source (snd (fst x)) (snd x), ly_strategy = ''replace''\<rparr>) c)))"

definition find_bundled_core :: "resolver \<Rightarrow> string \<Rightarrow> string \<Rightarrow> loc option" where
  "find_bundled_core e kind name = List.find (there e) (map (bundled_path e kind) (name # stem_names name))"

definition core_layer :: "resolver \<Rightarrow> string \<Rightarrow> string \<Rightarrow> layer list" where
  "core_layer e kind name =
     (case List.find (there e) (core_paths e kind name) of
        Some p \<Rightarrow> [\<lparr>ly_path = p, ly_source = ''core'', ly_strategy = ''replace''\<rparr>]
      | None \<Rightarrow> (case find_bundled_core e kind name of
            Some p \<Rightarrow> [\<lparr>ly_path = p, ly_source = ''core (bundled)'', ly_strategy = ''replace''\<rparr>]
          | None \<Rightarrow> []))"

definition collect_all_layers :: "resolver \<Rightarrow> string \<Rightarrow> string \<Rightarrow> layer list py" where
  "collect_all_layers e kind name =
     rbind (preset_packs e) (\<lambda>packs.
     rbind (rmap (preset_layer e kind name) packs) (\<lambda>presets.
     rbind (all_extensions e) (\<lambda>exts.
     rbind (rmap (extension_layer e kind name) exts) (\<lambda>extensions.
     Inr ((if there e (override_path e kind name)
           then [\<lparr>ly_path = override_path e kind name, ly_source = ''project override'', ly_strategy = ''replace''\<rparr>] else []) @
          List.map_filter id presets @ List.map_filter id extensions @ core_layer e kind name)))))"

section \<open>Composition\<close>

definition split_frontmatter :: "string \<Rightarrow> string option \<times> string" where
  "split_frontmatter text =
     (case fenced text of
        None \<Rightarrow> (None, text)
      | Some (l, ls, f, rest) \<Rightarrow> (Some (strip_eol (concat (l # ls @ [f]))), concat rest))"

definition placeholder_of :: "string \<Rightarrow> string" where
  "placeholder_of kind = (if kind = ''script'' then ''$CORE_SCRIPT'' else ''{CORE_TEMPLATE}'')"

definition blank_line :: string where
  "blank_line = [newline, newline]"

definition wrap_error :: "string \<Rightarrow> layer \<Rightarrow> string" where
  "wrap_error kind l =
     ''Wrap strategy in '' @ in_quotes (ly_source l) @ '' is missing the '' @ placeholder_of kind @
     '' placeholder. The wrapper must contain '' @ placeholder_of kind @
     '' to indicate where the lower-priority content should be inserted.''"

text \<open>The text of a layer on top of the text so far.\<close>

definition composed :: "string \<Rightarrow> layer \<Rightarrow> string \<Rightarrow> string \<Rightarrow> string py" where
  "composed kind l own below =
     (if ly_strategy l = ''replace'' then Inr own
      else if ly_strategy l = ''prepend'' then Inr (own @ blank_line @ below)
      else if ly_strategy l = ''append'' then Inr (below @ blank_line @ own)
      else if ly_strategy l = ''wrap'' then
        rbind (preset_demand (has_sub (placeholder_of kind) own) (wrap_error kind l)) (\<lambda>_.
        Inr (replace_all (placeholder_of kind) below own))
      else Inr below)"

text \<open>The text so far, with the front matter of the topmost layer that has one and of the base.\<close>

record composition =
  cm_content :: string
  cm_top :: "string option"
  cm_base :: "string option"

definition split_for :: "string \<Rightarrow> string \<Rightarrow> string option \<times> string" where
  "split_for kind text = (if kind = ''command'' then split_frontmatter text else (None, text))"

definition compose_layer :: "resolver \<Rightarrow> string \<Rightarrow> composition \<Rightarrow> layer \<Rightarrow> composition py" where
  "compose_layer e kind c l =
     rbind (read_text e (ly_path l)) (\<lambda>text.
     case split_for kind text of (fm, own) \<Rightarrow>
       (let c1 = (if kind \<noteq> ''command'' then c
            else if ly_strategy l = ''replace'' then c\<lparr>cm_top := fm, cm_base := fm\<rparr>
            else if fm \<noteq> None then c\<lparr>cm_top := fm\<rparr> else c)
        in rbind (composed kind l own (cm_content c)) (\<lambda>content. Inr (c1\<lparr>cm_content := content\<rparr>))))"

fun compose_up :: "resolver \<Rightarrow> string \<Rightarrow> composition \<Rightarrow> layer list \<Rightarrow> composition py" where
  "compose_up e kind c [] = Inr c"
| "compose_up e kind c (l # ls) = rbind (compose_layer e kind c l) (\<lambda>c. compose_up e kind c ls)"

text \<open>The index of the first layer that replaces.\<close>

definition base_index :: "layer list \<Rightarrow> nat option" where
  "base_index layers =
     (let i = length (takeWhile (\<lambda>l. ly_strategy l \<noteq> ''replace'') layers) in if i < length layers then Some i else None)"

definition parse_fm_yaml :: "resolver \<Rightarrow> string \<Rightarrow> pyval" where
  "parse_fm_yaml e block =
     (let ls = map chop_eol (split_lines block); yaml_lines = (if 2 \<le> length ls then butlast (tl ls) else [])
      in case pr_yaml e (join_with [newline] yaml_lines) of Inl _ \<Rightarrow> PDict [] | Inr v \<Rightarrow> py_or v (PDict []))"

definition inherit_key :: "pyval \<Rightarrow> string \<Rightarrow> pyval \<Rightarrow> pyval py" where
  "inherit_key base key upper =
     rbind (py_in (PStr key) upper) (\<lambda>a.
     if a then Inr upper
     else rbind (py_in (PStr key) base) (\<lambda>b.
       if \<not> b then Inr upper
       else rbind (py_item base key) (\<lambda>v.
         case upper of PDict d \<Rightarrow> Inr (PDict (assoc_set (PStr key) v d)) | _ \<Rightarrow> Inl type_error)))"

definition without_strategy :: "pyval \<Rightarrow> (pyval \<times> pyval) list py" where
  "without_strategy upper =
     (case upper of PDict d \<Rightarrow> Inr (assoc_remove (PStr ''strategy'') d) | PList _ \<Rightarrow> Inl type_error | _ \<Rightarrow> Inl attribute_error)"

text \<open>The front matter put back, with the scripts of the base where it has none of its own.\<close>

definition attach_frontmatter :: "resolver \<Rightarrow> composition \<Rightarrow> string py" where
  "attach_frontmatter e c =
     (case cm_top c of
        None \<Rightarrow> Inr (cm_content c)
      | Some upper \<Rightarrow>
          rbind (case cm_base c of
              None \<Rightarrow> Inr (parse_fm_yaml e upper)
            | Some base \<Rightarrow>
                if base = upper then Inr (parse_fm_yaml e upper)
                else rbind (inherit_key (parse_fm_yaml e base) ''scripts'' (parse_fm_yaml e upper))
                  (inherit_key (parse_fm_yaml e base) ''agent_scripts'')) (\<lambda>fm.
          rbind (without_strategy fm) (\<lambda>d.
          Inr (if d = [] then cm_content c
               else ''---'' @ [newline] @ py_strip (pr_dump e d) @ [newline] @ ''---'' @ blank_line @ cm_content c))))"

definition compose_layers :: "resolver \<Rightarrow> string \<Rightarrow> layer list \<Rightarrow> string option py" where
  "compose_layers e kind layers =
     (case base_index layers of
        None \<Rightarrow> Inr None
      | Some i \<Rightarrow>
          rbind (read_text e (ly_path (layers ! i))) (\<lambda>text.
          case split_for kind text of (fm, own) \<Rightarrow>
            rbind (compose_up e kind \<lparr>cm_content = own, cm_top = fm, cm_base = fm\<rparr> (drop (length layers - i) (rev layers))) (\<lambda>c.
            rbind (if kind = ''command'' then attach_frontmatter e c else Inr (cm_content c)) (\<lambda>r. Inr (Some r)))))"

definition resolve_content :: "resolver \<Rightarrow> string \<Rightarrow> string \<Rightarrow> string option py" where
  "resolve_content e kind name =
     rbind (collect_all_layers e kind name) (\<lambda>layers.
     case layers of
       [] \<Rightarrow> Inr None
     | l # ls \<Rightarrow>
         if ly_strategy l = ''replace'' then rbind (read_text e (ly_path l)) (\<lambda>t. Inr (Some t))
         else compose_layers e kind (l # ls))"

end
