(* ===== verification/ResolverProps.thy ===== *)
theory ResolverProps
  imports Resolver RegistryProps
begin

text \<open>
  What the resolver of templates guarantees: the file found is the first of a definite list of candidates,
  it is the file of the topmost layer where manifests do not say otherwise, the composed text is what the
  layers mean read from the top, and what manifests of extensions and presets name stays inside their
  directories.
\<close>

section \<open>The first candidate\<close>

definition paths_in :: "string \<Rightarrow> string \<Rightarrow> loc \<Rightarrow> loc list" where
  "paths_in kind name base = map (\<lambda>sub. in_subdir base sub (name @ suffix_of kind)) (subdirs_of kind)"

definition extension_dirs :: "resolver \<Rightarrow> ext_rank list \<Rightarrow> loc list" where
  "extension_dirs e exts =
     List.filter (is_dir (pr_tree e)) (map (\<lambda>x. pack_path (extensions_dir e) (snd (fst x))) exts)"

text \<open>Every place a file may be, in the order of the stack.\<close>

definition candidates ::
  "resolver \<Rightarrow> string \<Rightarrow> string \<Rightarrow> (string \<times> (pyval \<times> pyval) list) list \<Rightarrow> ext_rank list \<Rightarrow> loc list" where
  "candidates e kind name packs exts =
     override_path e kind name #
     concat (map (\<lambda>(i, _). paths_in kind name (pack_path (presets_dir e) i)) packs) @
     concat (map (paths_in kind name) (extension_dirs e exts)) @
     core_paths e kind name @
     map (bundled_path e kind) (name # (if kind = ''command'' then stem_names name else []))"

lemma find_append: "List.find P (xs @ ys) = (case List.find P xs of Some x \<Rightarrow> Some x | None \<Rightarrow> List.find P ys)"
  by (induction xs) auto

lemma find_concat: "List.find P (concat (map f xs)) = first_some (\<lambda>x. List.find P (f x)) xs"
  by (induction xs) (auto simp: find_append split: option.split)

lemma find_in_extensions:
  "first_some (extension_file e kind name) exts = List.find (there e) (concat (map (paths_in kind name) (extension_dirs e exts)))"
  by (induction exts) (auto simp: extension_dirs_def extension_file_def find_in_subdirs_def paths_in_def find_append Let_def
      split: option.split)

text \<open>C11. The file a name is resolved to is the first one that exists of the override, the installed presets in
  order of priority, the extensions in order of priority, the core templates of the project and those
  shipped with the program; without presets when they are to be skipped.\<close>

theorem first_candidate_is_found:
  assumes "preset_packs e = Inr packs" "all_extensions e = Inr exts"
  shows "resolve_template e False kind name = Inr (List.find (there e) (candidates e kind name packs exts)) \<and>
     resolve_core e kind name = Inr (List.find (there e) (candidates e kind name [] exts))"
proof -
  have packs: "first_some (\<lambda>(i, _). find_in_subdirs e kind name (pack_path (presets_dir e) i)) ps =
      List.find (there e) (concat (map (\<lambda>(i, _). paths_in kind name (pack_path (presets_dir e) i)) ps))" for ps
    unfolding find_concat by (rule arg_cong[where f = "\<lambda>f. first_some f ps"])
      (auto simp: find_in_subdirs_def paths_in_def fun_eq_iff)
  show ?thesis
    by (simp add: resolve_template_def resolve_core_def candidates_def assms packs find_in_extensions find_append
        split: option.split)
qed

section \<open>Composition read from the top\<close>

text \<open>
  What layers mean: one that replaces is its own text; any other is put on what the layers below it mean,
  before, after or around it.
\<close>

fun meaning :: "resolver \<Rightarrow> string \<Rightarrow> layer list \<Rightarrow> string option py" where
  "meaning e kind [] = Inr None"
| "meaning e kind (l # ls) =
     (if ly_strategy l = ''replace'' then rbind (read_text e (ly_path l)) (\<lambda>t. Inr (Some (snd (split_for kind t))))
      else rbind (meaning e kind ls) (\<lambda>below.
        case below of
          None \<Rightarrow> Inr None
        | Some b \<Rightarrow>
            rbind (read_text e (ly_path l)) (\<lambda>t.
            let own = snd (split_for kind t)
            in if ly_strategy l = ''prepend'' then Inr (Some (own @ blank_line @ b))
               else if ly_strategy l = ''append'' then Inr (Some (b @ blank_line @ own))
               else if ly_strategy l \<noteq> ''wrap'' then Inr (Some b)
               else if has_sub (placeholder_of kind) own then Inr (Some (replace_all (placeholder_of kind) b own))
               else Inl (preset_error (wrap_error kind l)))))"

text \<open>The same with the front matter of commands: the topmost there is, and that of the base.\<close>

fun command_meaning :: "resolver \<Rightarrow> string \<Rightarrow> layer list \<Rightarrow> composition option py" where
  "command_meaning e kind [] = Inr None"
| "command_meaning e kind (l # ls) =
     (if ly_strategy l = ''replace''
      then rbind (read_text e (ly_path l)) (\<lambda>t. case split_for kind t of (fm, own) \<Rightarrow>
        Inr (Some \<lparr>cm_content = own, cm_top = fm, cm_base = fm\<rparr>))
      else rbind (command_meaning e kind ls) (\<lambda>below.
        case below of
          None \<Rightarrow> Inr None
        | Some c \<Rightarrow> rbind (compose_layer e kind c l) (\<lambda>c. Inr (Some c))))"

lemma rbind_assoc: "rbind (rbind x f) g = rbind x (\<lambda>y. rbind (f y) g)"
  by (cases x) simp_all

lemma compose_up_snoc: "compose_up e kind c (ls @ [l]) = rbind (compose_up e kind c ls) (\<lambda>c. compose_layer e kind c l)"
proof (induction ls arbitrary: c)
  case Nil
  show ?case by (cases "compose_layer e kind c l") simp_all
next
  case (Cons x ls)
  then show ?case by (cases "compose_layer e kind c x") simp_all
qed

text \<open>From the first layer that replaces upwards.\<close>

lemma command_meaning_base:
  assumes "\<forall>l \<in> set ls. ly_strategy l \<noteq> ''replace''" "ly_strategy b = ''replace''"
  shows "command_meaning e kind (ls @ b # rest) =
     rbind (read_text e (ly_path b)) (\<lambda>t. case split_for kind t of (fm, own) \<Rightarrow>
       rbind (compose_up e kind \<lparr>cm_content = own, cm_top = fm, cm_base = fm\<rparr> (rev ls)) (\<lambda>c. Inr (Some c)))"
  using assms(1)
proof (induction ls)
  case Nil
  then show ?case using assms(2) by (cases "read_text e (ly_path b)") (simp_all split: prod.split)
next
  case (Cons l ls)
  then have "command_meaning e kind (l # ls @ b # rest) = rbind (command_meaning e kind (ls @ b # rest)) (\<lambda>below.
      case below of None \<Rightarrow> Inr None | Some c \<Rightarrow> rbind (compose_layer e kind c l) (\<lambda>c. Inr (Some c)))" by simp
  with Cons show ?case
    by (cases "read_text e (ly_path b)") (auto simp: compose_up_snoc rbind_assoc split: prod.split)
qed

lemma command_meaning_none: "\<forall>l \<in> set ls. ly_strategy l \<noteq> ''replace'' \<Longrightarrow> command_meaning e kind ls = Inr None"
  by (induction ls) simp_all

lemma compose_layers_meaning:
  "compose_layers e kind layers = rbind (command_meaning e kind layers) (\<lambda>c. case c of
     None \<Rightarrow> Inr None
   | Some c \<Rightarrow> rbind (if kind = ''command'' then attach_frontmatter e c else Inr (cm_content c)) (\<lambda>r. Inr (Some r)))"
proof (cases "\<exists>l \<in> set layers. ly_strategy l = ''replace''")
  case False
  then have all: "takeWhile (\<lambda>l. ly_strategy l \<noteq> ''replace'') layers = layers" by (simp add: takeWhile_eq_all_conv)
  have "base_index layers = None" unfolding base_index_def all by simp
  with False show ?thesis by (simp add: compose_layers_def command_meaning_none)
next
  case True
  then obtain ls b rest where split: "layers = ls @ b # rest" "ly_strategy b = ''replace''" "\<forall>l \<in> set ls. ly_strategy l \<noteq> ''replace''"
    using split_list_first_prop[OF True] by blast
  have "takeWhile (\<lambda>l. ly_strategy l \<noteq> ''replace'') layers = ls" using split by (simp add: takeWhile_append2)
  then have base: "base_index layers = Some (length ls)" by (simp add: base_index_def split(1))
  have at: "layers ! length ls = b" "drop (length layers - length ls) (rev layers) = rev ls" by (simp_all add: split(1))
  show ?thesis
    unfolding compose_layers_def base option.case at unfolding split(1) command_meaning_base[OF split(3,2)]
    by (cases "read_text e (ly_path b)") (simp_all add: rbind_assoc split: prod.split)
qed

lemma meaning_of_text:
  assumes "kind \<noteq> ''command''"
  shows "meaning e kind ls = rbind (command_meaning e kind ls) (\<lambda>c. Inr (map_option cm_content c))"
proof (induction ls)
  case (Cons l ls)
  have s: "split_for kind t = (None, t)" for t using assms by (simp add: split_for_def)
  show ?case
  proof (cases "ly_strategy l = ''replace''")
    case True
    then show ?thesis by (cases "read_text e (ly_path l)") (simp_all add: s)
  next
    case False
    note ih = Cons.IH
    show ?thesis
    proof (cases "command_meaning e kind ls")
      case (Inr c)
      then show ?thesis using False ih assms
        by (cases c; cases "read_text e (ly_path l)") (auto simp: s compose_layer_def composed_def preset_demand_def rbind_assoc)
    qed (use False ih in simp)
  qed
qed simp

text \<open>C10. The text composed of the layers of a template or script is what they mean read from the top, layer by
  layer, errors included; for a command the same holds of the bodies with the front matter kept apart, unless the
  top layer replaces: then its file is taken as it is.\<close>

theorem composition_is_recursive:
  "resolve_content e kind name = rbind (collect_all_layers e kind name) (\<lambda>layers.
     if kind \<noteq> ''command'' then meaning e kind layers
     else case layers of
         [] \<Rightarrow> Inr None
       | l # ls \<Rightarrow>
           if ly_strategy l = ''replace'' then rbind (read_text e (ly_path l)) (\<lambda>t. Inr (Some t))
           else rbind (command_meaning e kind layers) (\<lambda>c. case c of
               None \<Rightarrow> Inr None | Some c \<Rightarrow> rbind (attach_frontmatter e c) (\<lambda>r. Inr (Some r))))"
proof (cases "collect_all_layers e kind name")
  case (Inr layers)
  have s: "kind \<noteq> ''command'' \<Longrightarrow> split_for kind t = (None, t)" for t by (simp add: split_for_def)
  have on_text: "(case l # ls of [] \<Rightarrow> Inr None | l # ls \<Rightarrow>
      if ly_strategy l = ''replace'' then rbind (read_text e (ly_path l)) (\<lambda>t. Inr (Some t)) else compose_layers e kind (l # ls)) =
      meaning e kind (l # ls)" if "kind \<noteq> ''command''" for l ls
  proof (cases "ly_strategy l = ''replace''")
    case False
    with that show ?thesis
      by (cases "command_meaning e kind (l # ls)")
        (auto simp: compose_layers_meaning meaning_of_text simp del: command_meaning.simps meaning.simps split: option.split)
  qed (use that in \<open>simp add: s\<close>)
  show ?thesis
    using on_text compose_layers_meaning[of e kind]
    by (cases layers) (auto simp: resolve_content_def Inr simp del: command_meaning.simps(2) meaning.simps(2) split: if_splits)
qed (simp add: resolve_content_def)

section \<open>What presets and extensions name stays inside\<close>

lemma norm_parts_up: "acc \<noteq> [] \<Longrightarrow> hd acc = ''..'' \<Longrightarrow> norm_parts acc p \<noteq> [] \<and> hd (norm_parts acc p) = ''..''"
proof (induction acc p rule: norm_parts.induct)
  case (2 acc n p)
  show ?case
  proof (cases "n = ''..'' \<and> acc \<noteq> [] \<and> last acc \<noteq> ''..''")
    case True
    with "2.prems" have "butlast acc \<noteq> []" by (cases acc) auto
    moreover from this have "hd (butlast acc) = ''..''" using "2.prems" by (cases acc) auto
    ultimately show ?thesis using 2 True by simp
  qed (use 2 in auto)
qed simp

lemma norm_parts_inside:
  "''..'' \<notin> set acc \<Longrightarrow> norm_parts acc p = [] \<or> hd (norm_parts acc p) \<noteq> ''..'' \<Longrightarrow>
     normpath_from (base @ acc) p = base @ norm_parts acc p"
proof (induction acc p rule: norm_parts.induct)
  case (2 acc n p)
  show ?case
  proof (cases "n = ''..''")
    case True
    show ?thesis
    proof (cases "acc = []")
      case True
      then have "norm_parts acc (n # p) = norm_parts [''..''] p" using \<open>n = ''..''\<close> by simp
      with norm_parts_up[of "[''..'']" p] "2.prems"(2) show ?thesis by simp
    next
      case False
      with "2.prems"(1) have l: "last acc \<noteq> ''..''" by (metis last_in_set)
      with 2 True False show ?thesis by (auto simp: butlast_append dest: in_set_butlastD)
    qed
  qed (use 2 in auto)
qed simp

lemma starts_up: "r \<noteq> [] \<Longrightarrow> hd r = ''..'' \<Longrightarrow> starts_with ''..'' (as_posix r)"
proof -
  assume "r \<noteq> []" "hd r = ''..''"
  then obtain rs where "r = ''..'' # rs" by (cases r) auto
  then show ?thesis by (cases rs) (simp_all add: as_posix_def starts_with_def)
qed

lemma preset_file_inside:
  assumes "preset_file_ok f"
  shows "\<exists>r. normpath (path_div dir (parse_path f)) = normpath dir @ r"
proof -
  let ?p = "path_parts (parse_path f)"
  have split: "normpath_from acc (xs @ ys) = normpath_from (normpath_from acc xs) ys" for acc xs ys
    by (induction xs arbitrary: acc) auto
  have "norm_parts [] ?p = [] \<or> hd (norm_parts [] ?p) \<noteq> ''..''"
    using assms starts_up[of "norm_parts [] ?p"] by (auto simp: preset_file_ok_def)
  from norm_parts_inside[OF _ this, of "normpath dir"] assms show ?thesis
    by (auto simp: path_div_def preset_file_ok_def normpath_def split)
qed

text \<open>What is known of a template of an accepted manifest.\<close>

definition sound_template :: "pyval \<Rightarrow> bool" where
  "sound_template t \<longleftrightarrow> (\<exists>d kind f s. t = PDict d \<and>
     field d ''type'' = Some (PStr kind) \<and> kind \<in> set valid_template_types \<and>
     field d ''file'' = Some (PStr f) \<and> (\<forall>dir. \<exists>r. normpath (path_div dir (parse_path f)) = normpath dir @ r) \<and>
     get_or d ''strategy'' (PStr ''replace'') = PStr s \<and> s \<in> set valid_strategies \<and>
     (kind = ''script'' \<longrightarrow> s \<in> set valid_script_strategies))"

lemma preset_demand_Inr: "preset_demand b m = Inr x \<longleftrightarrow> b"
  by (simp add: preset_demand_def)

lemma re_on_Inr: "re_on p v = Inr b \<longleftrightarrow> (\<exists>t. v = PStr t \<and> b = p t)"
  by (auto simp: re_on_def split: pyval.split)

lemma check_template_sound: "check_template x = Inr t \<Longrightarrow> sound_template t"
proof -
  assume c: "check_template x = Inr t"
  then obtain d where d: "x = PDict d" by (auto simp: check_template_def rbind_Inr_iff split: pyval.splits)
  obtain s kind f where s: "get_or d ''strategy'' (PStr ''replace'') = PStr s"
    and k: "get_none d ''type'' = kind" "in_names valid_template_types kind = Inr True"
    and f: "get_none d ''file'' = PStr f" "preset_file_ok f"
    and ok: "py_lower s \<in> set valid_strategies" "kind = PStr ''script'' \<longrightarrow> py_lower s \<in> set valid_script_strategies"
    and t: "t = PDict (if has_field d ''strategy'' then assoc_set (PStr ''strategy'') (PStr (py_lower s)) d else d)"
    using c unfolding check_template_def d
    by (auto simp: rbind_Inr_iff preset_demand_Inr preset_file_def Let_def split: pyval.splits)
  from k(2) obtain ks where ks: "kind = PStr ks" "ks \<in> set valid_template_types"
    by (auto simp: in_names_def split: if_splits)
  have "field d ''type'' = Some kind" "field d ''file'' = Some (PStr f)"
    using k(1) ks(1) f(1) by (auto simp: get_or_def split: option.splits)
  moreover have "\<exists>s'. get_or d ''strategy'' (PStr ''replace'') = PStr s' \<and> s' = ''replace''" if "\<not> has_field d ''strategy''"
    using that by (auto simp: get_or_def has_field_def split: option.split)
  ultimately show ?thesis
    using preset_file_inside[OF f(2)] ks ok s
    by (cases "has_field d ''strategy''")
      (auto simp: t sound_template_def get_or_def field_def assoc_get_set_str has_field_def valid_strategies_def valid_script_strategies_def)
qed

text \<open>Every template of an accepted preset manifest has a known type and strategy (a script one that scripts
  support), and the file it names lies inside the preset's directory, whatever this directory is.\<close>

theorem accepted_preset_is_sound:
  assumes "load_preset_manifest version_ok path file = Inr m"
  shows "\<exists>ts. preset_templates m = Inr ts \<and> ts \<noteq> [] \<and> list_all sound_template ts"
proof -
  obtain data where "validate_preset version_ok data = Inr m"
    using assms by (auto simp: load_preset_manifest_def split: yaml_file.splits pyval.splits)
  then obtain templates ts provides where t: "provided_templates (get_none data ''provides'') = Inr templates"
      "rmap check_template templates = Inr ts" "get_none data ''provides'' = PDict provides"
      "m = \<lparr>pm_data = assoc_set (PStr ''provides'') (PDict (assoc_set (PStr ''templates'') (PList ts) provides)) data\<rparr>"
    by (auto simp: validate_preset_def rbind_Inr_iff elim: as_dict.elims)
  have "preset_templates m = Inr ts"
    by (simp add: preset_templates_def t(4) py_item_def field_def assoc_get_set_str)
  moreover have "list_all sound_template ts"
    using rmap_list_all2[OF t(2)] check_template_sound by (auto simp: list_all_iff dest: list_all2_set2)
  moreover have "templates \<noteq> []"
    using t(1,3) by (auto simp: provided_templates_def rbind_Inr_iff py_item_def split: option.splits if_splits elim!: py_iter.elims)
  then have "ts \<noteq> []" using rmap_list_all2[OF t(2)] by auto
  ultimately show ?thesis by blast
qed

lemma contained_file_inside:
  "contained_file e dir v = Inr (Some p) \<Longrightarrow>
     \<exists>root r. resolve (pr_tree e) dir = Some root \<and> p = root @ r \<and> is_file (pr_tree e) p"
  by (auto simp: contained_file_def relative_to_Some split: pyval.splits if_splits option.splits)

lemma command_file_in_inside:
  "command_file_in e c dir cs = Inr (Some p) \<Longrightarrow>
     \<exists>root r. resolve (pr_tree e) dir = Some root \<and> p = root @ r \<and> is_file (pr_tree e) p"
proof (induction cs)
  case (Cons x cs)
  then show ?case using contained_file_inside by (fastforce simp: rbind_Inr_iff split: if_splits option.splits)
qed simp

lemma command_via_manifests_inside:
  "command_via_manifests e c xs = Inr (Some p) \<Longrightarrow>
     \<exists>x \<in> set xs. \<exists>root r. resolve (pr_tree e) (pack_path (extensions_dir e) (snd (fst x))) = Some root \<and>
       p = root @ r \<and> is_file (pr_tree e) p"
proof (induction xs)
  case (Cons x xs)
  show ?case
  proof (cases "command_via_manifests e c (x # xs) = command_via_manifests e c xs")
    case True
    with Cons show ?thesis by auto
  next
    case False
    with Cons.prems obtain cmds where
      "command_file_in e c (pack_path (extensions_dir e) (snd (fst x))) cmds = Inr (Some p) \<or> command_via_manifests e c xs = Inr (Some p)"
      by (auto simp: Let_def rbind_Inr_iff split: if_splits option.splits)
    with command_file_in_inside Cons.IH show ?thesis by (metis list.set_intros)
  qed
qed simp

text \<open>The file a command of an extension is resolved to by the manifests is a regular file inside the
  directory of one of the extensions, links followed; no manifest leads out of it.\<close>

theorem manifest_command_stays_inside:
  assumes "resolve_extension_command_via_manifest e c = Inr (Some p)"
  shows "\<exists>exts x root r. all_extensions e = Inr exts \<and> x \<in> set exts \<and>
     resolve (pr_tree e) (pack_path (extensions_dir e) (snd (fst x))) = Some root \<and> p = root @ r \<and> is_file (pr_tree e) p"
  using assms command_via_manifests_inside
  by (fastforce simp: resolve_extension_command_via_manifest_def rbind_Inr_iff split: if_splits)

section \<open>The file resolved and the topmost layer\<close>

text \<open>The manifests have nothing to say about a name: no preset lists it, and no extension declares it for a
  file elsewhere.\<close>

definition unlisted :: "resolver \<Rightarrow> string \<Rightarrow> string \<Rightarrow> bool" where
  "unlisted e kind name \<longleftrightarrow>
     (\<forall>packs \<in> {ps. preset_packs e = Inr ps}. \<forall>(i, meta) \<in> set packs. \<forall>m ts.
        get_preset_manifest e (pack_path (presets_dir e) i) = Inr (Some m) \<longrightarrow> preset_templates m = Inr ts \<longrightarrow>
        find_entry kind name ts = Inr None) \<and>
     (\<forall>exts \<in> {xs. all_extensions e = Inr xs}. \<forall>x \<in> set exts. \<forall>p.
        extension_candidate e kind name (pack_path (extensions_dir e) (snd (fst x))) = Inr (Some p) \<longrightarrow>
        find_in_subdirs e kind name (pack_path (extensions_dir e) (snd (fst x))) = Some p)"

lemma map_filter_hd:
  "list_all2 (\<lambda>x y. f x = Inr y \<and> map_option g y = h x) xs ys \<Longrightarrow>
     first_some h xs = (case List.map_filter id ys of [] \<Rightarrow> None | l # _ \<Rightarrow> Some (g l))"
proof (induction xs ys rule: list_all2_induct)
  case (Cons x xs y ys)
  then show ?case by (cases y) (auto simp: map_filter_simps split: option.splits)
qed (simp add: map_filter_simps)

lemma hd_append: "(case xs @ ys of [] \<Rightarrow> None | l # _ \<Rightarrow> Some (g l)) =
    (case (case xs of [] \<Rightarrow> None | l # _ \<Rightarrow> Some (g l)) of Some y \<Rightarrow> Some y | None \<Rightarrow> (case ys of [] \<Rightarrow> None | l # _ \<Rightarrow> Some (g l)))"
  by (cases xs) simp_all

lemma preset_layer_file:
  assumes "preset_layer e kind name (i, meta) = Inr y"
    "\<forall>m ts. get_preset_manifest e (pack_path (presets_dir e) i) = Inr (Some m) \<longrightarrow> preset_templates m = Inr ts \<longrightarrow> find_entry kind name ts = Inr None"
  shows "map_option ly_path y = find_in_subdirs e kind name (pack_path (presets_dir e) i)"
  using assms by (auto simp: preset_layer_def Let_def rbind_Inr_iff preset_candidate_def split: option.splits)

lemma extension_layer_file:
  assumes "extension_layer e kind name x = Inr y"
    "\<forall>p. extension_candidate e kind name (pack_path (extensions_dir e) (snd (fst x))) = Inr (Some p) \<longrightarrow>
        find_in_subdirs e kind name (pack_path (extensions_dir e) (snd (fst x))) = Some p"
  shows "map_option ly_path y = extension_file e kind name x"
  using assms
  by (cases "find_in_subdirs e kind name (pack_path (extensions_dir e) (snd (fst x)))")
    (auto simp: extension_layer_def extension_file_def Let_def rbind_Inr_iff extension_candidate_def option.map_comp comp_def split: if_splits option.splits)

lemma core_layer_file:
  assumes "kind = ''command'' \<or> stem_names name = []"
  shows "(case core_layer e kind name of [] \<Rightarrow> None | l # _ \<Rightarrow> Some (ly_path l)) =
     List.find (there e) (core_paths e kind name @ map (bundled_path e kind) (name # (if kind = ''command'' then stem_names name else [])))"
  using assms by (auto simp: core_layer_def find_bundled_core_def find_append split: option.split)

text \<open>Where the manifests have nothing to say about a name, the file it is resolved to is the file of the
  topmost of its layers (there is none if there are no layers). For what is no command this also needs that
  the name has no prefix \<open>speckit.\<close>.\<close>

theorem resolved_file_is_the_topmost_layer:
  assumes "collect_all_layers e kind name = Inr layers" "unlisted e kind name" "kind = ''command'' \<or> stem_names name = []"
  shows "resolve_template e False kind name = Inr (case layers of [] \<Rightarrow> None | l # _ \<Rightarrow> Some (ly_path l))"
proof -
  obtain packs presets exts extensions where
    p: "preset_packs e = Inr packs" "rmap (preset_layer e kind name) packs = Inr presets" and
    x: "all_extensions e = Inr exts" "rmap (extension_layer e kind name) exts = Inr extensions" and
    l: "layers = (if there e (override_path e kind name)
           then [\<lparr>ly_path = override_path e kind name, ly_source = ''project override'', ly_strategy = ''replace''\<rparr>] else []) @
          List.map_filter id presets @ List.map_filter id extensions @ core_layer e kind name"
    using assms(1) by (auto simp: collect_all_layers_def rbind_Inr_iff)
  have "list_all2 (\<lambda>z y. preset_layer e kind name z = Inr y \<and>
      map_option ly_path y = (\<lambda>(i, _). find_in_subdirs e kind name (pack_path (presets_dir e) i)) z) packs presets"
    using rmap_list_all2[OF p(2)]
    by (rule list.rel_mono_strong) (use assms(2) p(1) preset_layer_file in \<open>fastforce simp: unlisted_def\<close>)
  note 1 = map_filter_hd[OF this]
  have "list_all2 (\<lambda>z y. extension_layer e kind name z = Inr y \<and> map_option ly_path y = extension_file e kind name z) exts extensions"
    using rmap_list_all2[OF x(2)]
    by (rule list.rel_mono_strong) (use assms(2) x(1) extension_layer_file in \<open>fastforce simp: unlisted_def\<close>)
  note 2 = map_filter_hd[OF this]
  show ?thesis
    unfolding l hd_append core_layer_file[OF assms(3)] 1[symmetric] 2[symmetric]
    by (simp add: resolve_template_def p(1) x(1) split: option.split)
qed

section \<open>A project\<close>

text \<open>
  A project with a preset \<open>a\<close> that wraps a template of the core, an extension \<open>x\<close> whose manifest declares a
  command, and files whose contents stand for what the parsers make of them.
\<close>

definition x_manifest :: pyval where
  "x_manifest = PDict (obj [(''schema_version'', PStr ''1.0''),
     (''extension'', PDict (obj [(''id'', PStr ''x''), (''name'', PStr ''X''), (''version'', PStr ''1''), (''description'', PStr ''d'')])),
     (''requires'', PDict (obj [(''speckit_version'', PStr ''>=0'')])),
     (''provides'', PDict (obj [(''commands'', PList [PDict (obj [(''name'', PStr ''speckit.x.run''), (''file'', PStr ''cmd/go.md'')])])]))])"

definition a_preset :: pyval where
  "a_preset = PDict (obj [(''schema_version'', PStr ''1.0''),
     (''preset'', PDict (obj [(''id'', PStr ''a''), (''name'', PStr ''A''), (''version'', PStr ''1''), (''description'', PStr ''d'')])),
     (''requires'', PDict (obj [(''speckit_version'', PStr ''>=0'')])),
     (''provides'', PDict (obj [(''templates'', PList [PDict (obj [(''type'', PStr ''template''), (''name'', PStr ''spec''),
        (''file'', PStr ''own/spec.md''), (''strategy'', PStr ''Wrap'')])])]))])"

definition a_tree :: tree where
  "a_tree = (let r = [''p'', ''.specify'']; pre = r @ [''presets'']; ext = r @ [''extensions'']; tpl = r @ [''templates''] in
     map (\<lambda>d. (d, DirNode)) [[''p''], r, pre, pre @ [''a''], pre @ [''a'', ''own''], ext, ext @ [''x''], ext @ [''x'', ''cmd''], tpl] @
     map (\<lambda>(f, c). (f, FileNode c)) [(pre @ [''.registry''], ''presets''), (pre @ [''a'', ''preset.yml''], ''preset''),
       (pre @ [''a'', ''own'', ''spec.md''], ''<{CORE_TEMPLATE}>''), (ext @ [''.registry''], ''extensions''),
       (ext @ [''x'', ''extension.yml''], ''manifest''), (ext @ [''x'', ''cmd'', ''go.md''], ''go''),
       (tpl @ [''spec.md''], ''core''), (tpl @ [''plan.md''], ''plan'')])"

definition a_project :: resolver where
  "a_project = \<lparr>pr_root = [''p''], pr_pkg = [''lib'', ''specify_cli''], pr_tree = a_tree,
     pr_json = (\<lambda>t. if t = ''presets'' then Inr (PDict (obj [(''presets'', PDict (obj [(''a'', PDict (obj [(''priority'', PInt 5)]))]))]))
        else if t = ''extensions'' then Inr (PDict (obj [(''extensions'', PDict (obj [(''x'', PDict (obj [(''version'', PStr ''1'')]))]))]))
        else Inl ''no JSON''),
     pr_yaml = (\<lambda>t. if t = ''preset'' then Inr a_preset else if t = ''manifest'' then Inr x_manifest else Inl ''no YAML''),
     pr_dump = (\<lambda>_. ''''), pr_version_ok = (\<lambda>_. Inr True)\<rparr>"

lemma a_project_stack:
  "preset_packs a_project = Inr [(''a'', obj [(''priority'', PInt 5)])]"
  "all_extensions a_project = Inr [((10, ''x''), Some (obj [(''version'', PStr ''1''), (''priority'', PInt 10)]))]"
  by code_simp+

theorem first_candidate_is_found_witness:
  "resolve_template a_project False ''template'' ''plan'' = Inr (Some [''p'', ''.specify'', ''templates'', ''plan.md''])"
proof -
  have "List.find (there a_project) (candidates a_project ''template'' ''plan'' [(''a'', obj [(''priority'', PInt 5)])]
      [((10, ''x''), Some (obj [(''version'', PStr ''1''), (''priority'', PInt 10)]))]) =
      Some [''p'', ''.specify'', ''templates'', ''plan.md'']" by code_simp
  with first_candidate_is_found[OF a_project_stack, of "''template''" "''plan''"] show ?thesis by simp
qed

theorem accepted_preset_is_sound_witness:
  "\<exists>m ts. load_preset_manifest (\<lambda>_. Inr True) ''preset.yml'' (YamlValue a_preset) = Inr m \<and>
     preset_templates m = Inr ts \<and> list_all sound_template ts"
proof -
  have "isl (load_preset_manifest (\<lambda>_. Inr True) ''preset.yml'' (YamlValue a_preset)) = False" by code_simp
  then obtain m where m: "load_preset_manifest (\<lambda>_. Inr True) ''preset.yml'' (YamlValue a_preset) = Inr m"
    by (cases "load_preset_manifest (\<lambda>_. Inr True) ''preset.yml'' (YamlValue a_preset)") auto
  with accepted_preset_is_sound[OF m] show ?thesis by blast
qed

theorem manifest_command_stays_inside_witness:
  "\<exists>p root r. resolve_extension_command_via_manifest a_project ''speckit.x.run'' = Inr (Some p) \<and> p = root @ r \<and>
     resolve a_tree [''p'', ''.specify'', ''extensions'', ''x''] = Some root"
proof -
  let ?p = "[''p'', ''.specify'', ''extensions'', ''x'', ''cmd'', ''go.md'']"
  have p: "resolve_extension_command_via_manifest a_project ''speckit.x.run'' = Inr (Some ?p)" by code_simp
  have "pack_path (extensions_dir a_project) ''x'' = [''p'', ''.specify'', ''extensions'', ''x'']" "pr_tree a_project = a_tree"
    by code_simp (simp add: a_project_def)
  with manifest_command_stays_inside[OF p] p show ?thesis by (fastforce simp: a_project_stack(2))
qed

theorem resolved_file_is_the_topmost_layer_witness:
  "\<exists>layers. collect_all_layers a_project ''template'' ''plan'' = Inr layers \<and> layers \<noteq> [] \<and>
     resolve_template a_project False ''template'' ''plan'' = Inr (Some (ly_path (hd layers)))"
proof -
  let ?l = "[\<lparr>ly_path = [''p'', ''.specify'', ''templates'', ''plan.md''], ly_source = ''core'', ly_strategy = ''replace''\<rparr>]"
  have l: "collect_all_layers a_project ''template'' ''plan'' = Inr ?l" by code_simp
  have "(case get_preset_manifest a_project (pack_path (presets_dir a_project) ''a'') of
      Inr (Some m) \<Rightarrow> (case preset_templates m of Inr ts \<Rightarrow> find_entry ''template'' ''plan'' ts = Inr None | _ \<Rightarrow> True) | _ \<Rightarrow> True)"
    by code_simp
  moreover have "extension_candidate a_project ''template'' ''plan'' (pack_path (extensions_dir a_project) ''x'') = Inr None"
    by code_simp
  ultimately have "unlisted a_project ''template'' ''plan''"
    by (auto simp: unlisted_def a_project_stack)
  moreover have "stem_names ''plan'' = []" by code_simp
  ultimately show ?thesis using resolved_file_is_the_topmost_layer[OF l] l by auto
qed

text \<open>The preset of the project wraps the template of the core, although the file it names is not where a file of
  this name is looked for: the file shown as resolved is the one of the core.\<close>

lemma manifests_disagree:
  "resolve_content a_project ''template'' ''spec'' = Inr (Some ''<core>'')"
  "resolve_template a_project False ''template'' ''spec'' = Inr (Some [''p'', ''.specify'', ''templates'', ''spec.md''])"
  by code_simp+

end
