(* ===== verification/IntegrationStatus.thy ===== *)
theory IntegrationStatus
  imports ExtConfig Manifest IntegrationState
begin

text \<open>
  \<open>specify_cli/integration_status.py\<close>: the report on the integrations of a project: what \<open>integration.json\<close>
  records, and whether the files the manifests track are there and unchanged. Nothing is written. Paths are
  those of POSIX; the hash, the JSON parser and the registry of integrations are fields of \<open>status_env\<close>.
\<close>

section \<open>Findings\<close>

record status_env =
  st_root :: loc
  st_tree :: tree
  st_state :: json_file
  st_loads :: "string \<Rightarrow> pyval option"
  st_sha :: "string \<Rightarrow> string"
  st_known :: "string \<Rightarrow> bool option"

text \<open>\<open>st_known k\<close> is whether the integration \<open>k\<close> of the registry is safe to install beside others.\<close>

record status_finding =
  fd_severity :: string
  fd_code :: string
  fd_message :: string
  fd_integration :: "string option"
  fd_path :: "string option"
  fd_suggestion :: "string option"

definition filled :: "string option \<Rightarrow> string option" where
  "filled t = (if t = Some '''' then None else t)"

definition status_finding_of ::
  "string \<Rightarrow> string \<Rightarrow> string \<Rightarrow> string option \<Rightarrow> string option \<Rightarrow> string option \<Rightarrow> status_finding" where
  "status_finding_of severity code message integration path suggestion =
     \<lparr>fd_severity = severity, fd_code = code, fd_message = message, fd_integration = filled integration,
      fd_path = filled path, fd_suggestion = filled suggestion\<rparr>"

definition report_status :: "status_finding list \<Rightarrow> string" where
  "report_status findings =
     (if \<exists>f \<in> set findings. fd_severity f = ''error'' then ''error'' else if findings \<noteq> [] then ''warning'' else ''ok'')"

definition INTEGRATION_JSON :: string where
  "INTEGRATION_JSON = ''.specify/integration.json''"

definition with_error_detail :: "string \<Rightarrow> integration_read_error \<Rightarrow> string" where
  "with_error_detail message e = (if ire_detail e \<noteq> '''' then message @ '' Detail: '' @ ire_detail e else message)"

definition integration_state_error_message :: "integration_read_error \<Rightarrow> string" where
  "integration_state_error_message e =
     (if ire_kind e = ''decode'' then with_error_detail (INTEGRATION_JSON @ '' contains invalid JSON or is not valid UTF-8.'') e
      else if ire_kind e = ''os'' then with_error_detail (''Could not read '' @ INTEGRATION_JSON @ ''.'') e
      else if ire_kind e = ''not_object'' then INTEGRATION_JSON @ '' must contain a JSON object, got '' @ ire_detail e @ ''.''
      else if ire_kind e = ''schema_too_new''
      then INTEGRATION_JSON @ '' uses integration state schema '' @
        py_str (case ire_schema e of Some n \<Rightarrow> PInt n | None \<Rightarrow> PNone) @
        '', which is newer than this CLI supports; supported schema: '' @ py_str (PInt INTEGRATION_STATE_SCHEMA) @ ''.''
      else ''Could not inspect '' @ INTEGRATION_JSON @ ''.'')"

section \<open>The files of a manifest\<close>

definition is_within_project :: "loc \<Rightarrow> loc \<Rightarrow> bool" where
  "is_within_project root_resolved candidate \<longleftrightarrow> relative_to candidate root_resolved \<noteq> None"

text \<open>The paths a walk from \<open>p\<close> along \<open>parts\<close> meets.\<close>

fun walks :: "loc \<Rightarrow> string list \<Rightarrow> loc list" where
  "walks p [] = []"
| "walks p (n # ns) = (p @ [n]) # walks (p @ [n]) ns"

definition safe_manifest_file :: "tree \<Rightarrow> loc \<Rightarrow> loc \<Rightarrow> bool \<Rightarrow> string \<Rightarrow> loc option" where
  "safe_manifest_file t base root_resolved is_resolved rel =
     (let p = parse_path rel; candidate = path_div base p in
      if is_absolute p \<or> ''..'' \<in> set (path_parts p) then None
      else if \<not> is_resolved \<and> list_ex (is_symlink t) (walks base (butlast (path_parts p))) then None
      else (case (if is_resolved then resolve t (butlast candidate) else Some (butlast candidate)) of
          None \<Rightarrow> None
        | Some parent \<Rightarrow> if is_within_project root_resolved parent then Some candidate else None))"

text \<open>\<open>lstat\<close>: a node, \<open>FileNotFoundError\<close> or another \<open>OSError\<close>.\<close>

datatype lstat_result = LFound node | LMissing | LFails

definition lstat_at :: "tree \<Rightarrow> loc \<Rightarrow> lstat_result" where
  "lstat_at t p =
     (case entry_loc t p of
        Inl ENOENT \<Rightarrow> LMissing
      | Inl _ \<Rightarrow> LFails
      | Inr l \<Rightarrow> (case node_at t l of None \<Rightarrow> LMissing | Some n \<Rightarrow> LFound n))"

datatype file_status = Unchanged | Missing | Modified | Invalid

definition tracked_symlink_status :: "tree \<Rightarrow> loc \<Rightarrow> bool \<Rightarrow> loc \<Rightarrow> bool \<Rightarrow> string list \<Rightarrow> file_status" where
  "tracked_symlink_status t root_resolved is_resolved p ab target =
     (let target_path = (if ab then [] else butlast p) @ target in
      case (if is_resolved then resolve t (butlast target_path) else Some (butlast target_path)) of
        None \<Rightarrow> Invalid
      | Some parent \<Rightarrow>
          if \<not> is_within_project root_resolved parent then Invalid
          else (case lstat_at t target_path of LMissing \<Rightarrow> Missing | _ \<Rightarrow> Modified))"

definition manifest_file_status :: "status_env \<Rightarrow> loc \<Rightarrow> loc \<Rightarrow> bool \<Rightarrow> string \<times> string \<Rightarrow> file_status" where
  "manifest_file_status v base root_resolved is_resolved = (\<lambda>(rel, expected_hash).
     let t = st_tree v in
     case safe_manifest_file t base root_resolved is_resolved rel of
       None \<Rightarrow> Invalid
     | Some p \<Rightarrow>
         (case lstat_at t p of
            LMissing \<Rightarrow> Missing
          | LFails \<Rightarrow> Modified
          | LFound (LinkNode ab target) \<Rightarrow> tracked_symlink_status t root_resolved is_resolved p ab target
          | LFound DirNode \<Rightarrow> Modified
          | LFound (FileNode _) \<Rightarrow>
              (case fs_read p t of Inl _ \<Rightarrow> Modified | Inr c \<Rightarrow> if st_sha v c \<noteq> expected_hash then Modified else Unchanged)))"

text \<open>The files of a manifest with a status; valid are all but the invalid ones.\<close>

definition files_with :: "(string \<times> string \<Rightarrow> file_status) \<Rightarrow> file_status \<Rightarrow> (string, string) dict \<Rightarrow> string list" where
  "files_with f s files = map fst (List.filter (\<lambda>x. f x = s) files)"

definition valid_files :: "(string \<times> string \<Rightarrow> file_status) \<Rightarrow> (string, string) dict \<Rightarrow> string list" where
  "valid_files f files = map fst (List.filter (\<lambda>x. f x \<noteq> Invalid) files)"

section \<open>Keys\<close>

definition reserved_basenames :: "string list" where
  "reserved_basenames = [''CON'', ''PRN'', ''AUX'', ''NUL''] @
     concat (map (\<lambda>n. [''COM'' @ [n], ''LPT'' @ [n]]) ''123456789'')"

definition manifest_key_char :: "char \<Rightarrow> bool" where
  "manifest_key_char c \<longleftrightarrow> (let n = code_of c in (65 \<le> n \<and> n \<le> 90) \<or> (97 \<le> n \<and> n \<le> 122) \<or> (48 \<le> n \<and> n \<le> 57)) \<or>
     c = CHR ''.'' \<or> c = CHR ''_'' \<or> c = CHR ''-''"

definition is_safe_manifest_key :: "string \<Rightarrow> bool" where
  "is_safe_manifest_key key \<longleftrightarrow>
     key \<notin> {'''', ''.'', ''..''} \<and> last key \<noteq> CHR ''.'' \<and> list_all manifest_key_char key \<and>
     upper_ascii (hd (split_on (CHR ''.'') key)) \<notin> set reserved_basenames \<and>
     parse_path key = PyPath False [key]"

definition shared_key :: string where
  "shared_key = ''speckit''"

definition manifest_owner :: "string \<Rightarrow> string" where
  "manifest_owner key = (if key = shared_key then ''shared Spec Kit infrastructure'' else ''integration '' @ in_quotes key)"

definition back_quoted :: "string \<Rightarrow> string" where
  "back_quoted t = ''`'' @ t @ ''`''"

definition upgrade_cli :: string where
  "upgrade_cli = ''Upgrade Spec Kit, reinstall with a supported CLI version, or remove the stale integration entry from '' @
     INTEGRATION_JSON @ ''.''"

definition manifest_suggestion :: "status_env \<Rightarrow> string \<Rightarrow> string option \<Rightarrow> string" where
  "manifest_suggestion v key default_key =
     (if key = shared_key
      then (case default_key of
          Some d \<Rightarrow> if d \<noteq> '''' \<and> st_known v d \<noteq> None
             then ''Run '' @ back_quoted (''specify integration upgrade '' @ d) @ '' to regenerate shared managed files.''
             else ''Run '' @ back_quoted ''specify init --here --force --integration <key>'' @ '' to regenerate shared managed files.''
        | None \<Rightarrow> ''Run '' @ back_quoted ''specify init --here --force --integration <key>'' @ '' to regenerate shared managed files.'')
      else if st_known v key = None then upgrade_cli
      else ''Run '' @ back_quoted (''specify integration upgrade '' @ key) @ '' or reinstall the integration.'')"

section \<open>One manifest\<close>

record manifest_summary =
  sm_manifest :: string
  sm_readable :: bool
  sm_tracked :: nat
  sm_missing :: "string list"
  sm_modified :: "string list"
  sm_invalid :: "string list"

record status_scan =
  sc_findings :: "status_finding list"
  sc_summaries :: "(string \<times> manifest_summary) list"
  sc_by_path :: "(string \<times> string list) list"
  sc_attempted :: "string list"

definition manifest_label :: "string \<Rightarrow> string" where
  "manifest_label key = as_posix [''.specify'', ''integrations'', key @ ''.manifest.json'']"

definition unreadable_summary :: "string \<Rightarrow> manifest_summary" where
  "unreadable_summary key =
     \<lparr>sm_manifest = manifest_label key, sm_readable = False, sm_tracked = 0, sm_missing = [], sm_modified = [], sm_invalid = []\<rparr>"

definition count_text :: "'a list \<Rightarrow> string" where
  "count_text xs = py_str (PInt (int (length xs)))"

text \<open>\<open>d.setdefault(rel, []).append(key)\<close>.\<close>

fun track_key :: "string \<Rightarrow> string \<Rightarrow> (string \<times> string list) list \<Rightarrow> (string \<times> string list) list" where
  "track_key key rel [] = [(rel, [key])]"
| "track_key key rel ((r, ks) # d) = (if r = rel then (r, ks @ [key]) # d else (r, ks) # track_key key rel d)"

definition file_findings :: "status_env \<Rightarrow> string \<Rightarrow> string option \<Rightarrow> string list \<Rightarrow> string list \<Rightarrow> string list \<Rightarrow> status_finding list" where
  "file_findings v key default_key gone changed unsafe =
     (if unsafe \<noteq> [] then [status_finding_of ''error'' ''manifest-paths-invalid''
         (count_text unsafe @ '' unsafe manifest path(s) are recorded for '' @ manifest_owner key @ ''.'')
         (Some key) (Some (manifest_label key)) (Some (manifest_suggestion v key default_key))] else []) @
     (if gone \<noteq> [] then [status_finding_of ''error'' ''managed-files-missing''
         (count_text gone @ '' managed file(s) are missing for '' @ manifest_owner key @ ''.'')
         (Some key) None (Some (manifest_suggestion v key default_key))] else []) @
     (if changed \<noteq> [] then [status_finding_of ''warning'' ''managed-files-modified''
         (count_text changed @ '' managed file(s) were modified for '' @ manifest_owner key @ ''.'')
         (Some key) None (Some (''Review the changes before running '' @ back_quoted ''specify integration upgrade --force'' @ ''.''))] else [])"

definition read_errors :: "string set" where
  "read_errors = {''ValueError'', ''OSError'', ''NotADirectoryError'', ''IsADirectoryError'', ''FileExistsError''}"

definition scan_key :: "status_env \<Rightarrow> loc \<Rightarrow> bool \<Rightarrow> string option \<Rightarrow> string \<Rightarrow> status_scan \<Rightarrow> status_scan py" where
  "scan_key v base is_resolved default_key key s =
     (if \<not> is_safe_manifest_key key
      then Inr (s\<lparr>sc_findings := sc_findings s @ [status_finding_of ''error'' ''integration-key-invalid''
          (''Integration key '' @ repr_str key @ '' cannot be used as a manifest filename.'') (Some key) (Some INTEGRATION_JSON)
          (Some (''Fix '' @ INTEGRATION_JSON @ '', then reinstall the integration.''))]\<rparr>)
      else
        let s1 = s\<lparr>sc_attempted := sc_attempted s @ [key]\<rparr>;
            unreadable = (\<lambda>code msg. s1\<lparr>sc_summaries := sc_summaries s @ [(key, unreadable_summary key)],
              sc_findings := sc_findings s @ [status_finding_of ''error'' code msg (Some key) (Some (manifest_label key))
                (Some (manifest_suggestion v key default_key))]\<rparr>)
        in case load_manifest (st_loads v) key base False (st_tree v) of
            Inl (PyExc n exc) \<Rightarrow>
              if n = ''FileNotFoundError''
              then Inr (unreadable ''manifest-missing'' (''Manifest for '' @ manifest_owner key @ '' is missing.''))
              else if n \<in> read_errors
              then Inr (unreadable ''manifest-unreadable'' (''Manifest for '' @ manifest_owner key @ '' is unreadable: '' @ exc))
              else Inl (PyExc n exc)
          | Inl x \<Rightarrow> Inl x
          | Inr m \<Rightarrow>
              (let f = manifest_file_status v (mf_project_root m) base is_resolved;
                   gone = files_with f Missing (mf_files m); changed = files_with f Modified (mf_files m);
                   unsafe = files_with f Invalid (mf_files m)
               in Inr (s1\<lparr>sc_summaries := sc_summaries s @ [(key, \<lparr>sm_manifest = manifest_label key, sm_readable = True,
                     sm_tracked = length (mf_files m), sm_missing = gone, sm_modified = changed, sm_invalid = unsafe\<rparr>)],
                   sc_by_path := fold (track_key key) (valid_files f (mf_files m)) (sc_by_path s),
                   sc_findings := sc_findings s @ file_findings v key default_key gone changed unsafe\<rparr>)))"

fun scan_keys :: "status_env \<Rightarrow> loc \<Rightarrow> bool \<Rightarrow> string option \<Rightarrow> string list \<Rightarrow> status_scan \<Rightarrow> status_scan py" where
  "scan_keys v base is_resolved default_key [] s = Inr s"
| "scan_keys v base is_resolved default_key (k # ks) s =
     rbind (scan_key v base is_resolved default_key k s) (scan_keys v base is_resolved default_key ks)"

section \<open>The report\<close>

record status_report =
  rp_status :: string
  rp_default :: "string option"
  rp_installed :: "string list"
  rp_recorded :: "string list"
  rp_checked :: "string list"
  rp_multi_safe :: "bool option"
  rp_missing :: nat
  rp_modified :: nat
  rp_invalid :: nat
  rp_unchecked :: nat
  rp_manifests :: "(string \<times> manifest_summary) list"
  rp_findings :: "status_finding list"

definition build_report ::
  "string option \<Rightarrow> string list \<Rightarrow> status_finding list \<Rightarrow> (string \<times> manifest_summary) list \<Rightarrow> bool option \<Rightarrow>
   string list option \<Rightarrow> string list option \<Rightarrow> status_report" where
  "build_report default_key installed findings manifests multi_safe checked recorded =
     \<lparr>rp_status = report_status findings, rp_default = default_key, rp_installed = installed,
      rp_recorded = (case recorded of None \<Rightarrow> installed | Some r \<Rightarrow> r),
      rp_checked = (case checked of None \<Rightarrow> installed | Some c \<Rightarrow> c), rp_multi_safe = multi_safe,
      rp_missing = sum_list (map (\<lambda>(_, m). length (sm_missing m)) manifests),
      rp_modified = sum_list (map (\<lambda>(_, m). length (sm_modified m)) manifests),
      rp_invalid = sum_list (map (\<lambda>(_, m). length (sm_invalid m)) manifests),
      rp_unchecked = length (List.filter (\<lambda>(_, m). \<not> sm_readable m) manifests),
      rp_manifests = manifests, rp_findings = findings\<rparr>"

definition default_not_installed :: "(pyval \<times> pyval) list \<Rightarrow> string option py" where
  "default_not_installed raw =
     (if \<not> is_list (get_none raw ''installed_integrations'') then Inr None
      else rbind (installed_integration_keys raw) (\<lambda>installed.
        Inr (case default_integration_key raw of
          Some d \<Rightarrow> if d \<notin> set installed then Some d else None | None \<Rightarrow> None)))"

text \<open>What the state of the project says: the findings on it, in the order they are made.\<close>

definition state_findings ::
  "(pyval \<times> pyval) list \<Rightarrow> string list \<Rightarrow> string list \<Rightarrow> string option \<Rightarrow> status_finding list" where
  "state_findings raw installed raw_installed not_installed =
     (if has_field raw ''installed_integrations'' \<and> \<not> is_list (get_none raw ''installed_integrations'')
      then [status_finding_of ''warning'' ''installed-integrations-invalid''
         (''installed_integrations must be a list, got '' @ type_name (get_none raw ''installed_integrations'') @ ''.'')
         None (Some INTEGRATION_JSON) (Some (''Fix '' @ INTEGRATION_JSON @ '', then retry.''))] else []) @
     (if installed = []
      then [status_finding_of ''warning'' ''no-installed-integrations'' ''No installed integrations are recorded.'' None None
         (Some (''Run '' @ back_quoted ''specify integration install <key>'' @ '' to install one.''))] else []) @
     (if raw_installed \<noteq> [] \<and> default_integration_key raw = None
      then [status_finding_of ''error'' ''default-integration-missing'' ''No default integration is recorded.'' None None
         (Some (''Run '' @ back_quoted ''specify integration use <key>'' @ '' after choosing an installed integration.''))] else []) @
     (case not_installed of
        None \<Rightarrow> []
      | Some d \<Rightarrow> [status_finding_of ''error'' ''default-integration-not-installed''
         (''Default integration '' @ in_quotes d @ '' is not listed in installed_integrations.'') (Some d) None
         (Some (''Run '' @ back_quoted ''specify integration use <key>'' @
            '' for an installed integration, or reinstall the default integration.''))])"

definition unknown_finding :: "string \<Rightarrow> status_finding" where
  "unknown_finding key =
     status_finding_of ''error'' ''unknown-integration'' (''Integration '' @ in_quotes key @ '' is installed but is not known to this CLI.'')
       (Some key) None (Some upgrade_cli)"

text \<open>The integrations that keep several from being installed together.\<close>

definition unsafe_keys :: "status_env \<Rightarrow> string list \<Rightarrow> string list" where
  "unsafe_keys v keys =
     List.filter (\<lambda>k. st_known v k = Some False) keys @
     (if length keys > 1 then List.filter (\<lambda>k. st_known v k = None) keys else [])"

definition multi_findings :: "status_env \<Rightarrow> string list \<Rightarrow> status_finding list" where
  "multi_findings v keys =
     (if length keys > 1 \<and> unsafe_keys v keys \<noteq> []
      then [status_finding_of ''error'' ''unsafe-multi-install''
         (''Installed integrations are not all declared multi-install safe: '' @
          join_with '', '' (sort_by (\<lambda>a b. str_cmp a b \<le> 0) (unsafe_keys v keys))) None None
         (Some (''Use '' @ back_quoted ''specify integration use <key>'' @ '' to change defaults, or '' @
            back_quoted ''specify integration switch <key>'' @ '' only when replacing integrations.''))] else [])"

definition collision_findings :: "(string \<times> string list) list \<Rightarrow> status_finding list" where
  "collision_findings by_path =
     map (\<lambda>(rel, keys). status_finding_of ''warning'' ''managed-file-collision''
         (''Managed file '' @ in_quotes rel @ '' is tracked by multiple integrations: '' @
          join_with '', '' (sort_by (\<lambda>a b. str_cmp a b \<le> 0) keys) @ ''.'') None (Some rel)
         (Some ''Review the manifests before uninstalling or upgrading these integrations.''))
       (List.filter (\<lambda>(_, keys). length keys > 1) (sort_by (\<lambda>a b. str_cmp (fst a) (fst b) \<le> 0) by_path))"

text \<open>The project's directory, resolved if it can be.\<close>

definition resolved_root :: "status_env \<Rightarrow> loc \<times> bool" where
  "resolved_root v = (case resolve (st_tree v) (st_root v) of Some p \<Rightarrow> (p, True) | None \<Rightarrow> (st_root v, False))"

definition root_findings :: "status_env \<Rightarrow> status_finding list" where
  "root_findings v =
     (if snd (resolved_root v) then []
      else [status_finding_of ''warning'' ''project-root-unresolved'' ''Could not fully resolve project root: '' None None
        (Some ''Check project path permissions and symlinks before relying on manifest path checks.'')])"

text \<open>The default to report, the keys to check and the manifests to read.\<close>

definition report_default :: "(pyval \<times> pyval) list \<Rightarrow> string list \<Rightarrow> (pyval \<times> pyval) list \<Rightarrow> string option" where
  "report_default raw raw_installed state =
     (if raw_installed \<noteq> [] \<and> default_integration_key raw = None then None
      else opt_or (default_integration_key raw) (default_integration_key state))"

definition checked_keys :: "string list \<Rightarrow> string list \<Rightarrow> string option \<Rightarrow> string list" where
  "checked_keys raw_installed installed not_installed =
     (if not_installed \<noteq> None \<and> raw_installed \<noteq> [] then raw_installed else installed)"

definition scanned_keys :: "string list \<Rightarrow> string list" where
  "scanned_keys checked = (if shared_key \<in> set checked then checked else checked @ [shared_key])"

text \<open>The findings before the manifests are read.\<close>

definition first_findings ::
  "status_env \<Rightarrow> (pyval \<times> pyval) list \<Rightarrow> string list \<Rightarrow> string list \<Rightarrow> string option \<Rightarrow> status_finding list" where
  "first_findings v raw installed raw_installed not_installed =
     (let checked = checked_keys raw_installed installed not_installed in
      root_findings v @ state_findings raw installed raw_installed not_installed @
      map unknown_finding (List.filter (\<lambda>k. st_known v k = None) checked) @ multi_findings v checked)"

definition raw_installed_keys :: "(pyval \<times> pyval) list \<Rightarrow> string list py" where
  "raw_installed_keys raw = (if is_list (get_none raw ''installed_integrations'') then installed_integration_keys raw else Inr [])"

text \<open>The report on a state that was read.\<close>

definition report_on_state :: "status_env \<Rightarrow> (pyval \<times> pyval) list \<Rightarrow> (pyval \<times> pyval) list \<Rightarrow> status_report py" where
  "report_on_state v state raw =
     rbind (raw_installed_keys raw) (\<lambda>raw_installed.
     rbind (installed_integration_keys state) (\<lambda>installed.
     rbind (default_not_installed raw) (\<lambda>not_installed.
     rbind (scan_keys v (fst (resolved_root v)) (snd (resolved_root v)) (report_default raw raw_installed state)
          (scanned_keys (checked_keys raw_installed installed not_installed))
          \<lparr>sc_findings = first_findings v raw installed raw_installed not_installed, sc_summaries = [], sc_by_path = [], sc_attempted = []\<rparr>) (\<lambda>s.
     let checked = checked_keys raw_installed installed not_installed in
     Inr (build_report (report_default raw raw_installed state) installed (sc_findings s @ collision_findings (sc_by_path s)) (sc_summaries s)
          (if raw_installed = [] then None else Some (\<not> (length checked > 1 \<and> unsafe_keys v checked \<noteq> [])))
          (Some (sc_attempted s)) (Some raw_installed))))))"

definition build_integration_status_report :: "status_env \<Rightarrow> status_report py" where
  "build_integration_status_report v =
     (case try_read_integration_json_with_raw (st_state v) of
        (_, _, Some e) \<Rightarrow>
          Inr (build_report None [] (root_findings v @ [status_finding_of ''error'' ''integration-state-unreadable''
            (integration_state_error_message e) None (Some INTEGRATION_JSON)
            (Some (''Fix or delete '' @ INTEGRATION_JSON @ '', then retry.''))]) [] None None None)
      | (Some state, Some raw, None) \<Rightarrow> report_on_state v state raw
      | _ \<Rightarrow>
          Inr (build_report None [] (root_findings v @ [status_finding_of ''error'' ''integration-state-missing''
            (INTEGRATION_JSON @ '' is missing.'') None (Some INTEGRATION_JSON)
            (Some (''Run '' @ back_quoted ''specify integration install <key>'' @ '' to install an integration.''))]) [] None None None))"

end
