(* ===== verification/StatusProps.thy ===== *)
theory StatusProps
  imports IntegrationStatus
begin

text \<open>
  What a healthy report promises: a report without findings means that the state of the project is sound and that
  every file a manifest tracks is in place, unchanged, inside the project and tracked only once.
\<close>

section \<open>One file\<close>

text \<open>A tracked file as it was installed: a regular file at its place, no link, in a directory inside the project.\<close>

definition intact :: "status_env \<Rightarrow> loc \<Rightarrow> string \<times> string \<Rightarrow> bool" where
  "intact v base = (\<lambda>(rel, h).
     let p = path_div base (parse_path rel) in
     \<not> is_absolute (parse_path rel) \<and> ''..'' \<notin> set (path_parts (parse_path rel)) \<and>
     (\<exists>q r. resolve (st_tree v) (butlast p) = Some q \<and> q = base @ r) \<and>
     (\<exists>c. fs_read p (st_tree v) = Inr c \<and> st_sha v c = h) \<and> \<not> is_symlink (st_tree v) p)"

lemma lstat_link: "lstat_at t p = LFound (FileNode c) \<Longrightarrow> \<not> is_symlink t p"
  by (auto simp: lstat_at_def is_symlink_def lstat_def split: sum.splits errno.splits option.splits node.splits)

lemma unchanged_intact: "manifest_file_status v base base True x = Unchanged \<Longrightarrow> intact v base x"
proof -
  assume u: "manifest_file_status v base base True x = Unchanged"
  obtain rel h where x: "x = (rel, h)" by (cases x)
  obtain p where p: "safe_manifest_file (st_tree v) base base True rel = Some p"
    using u by (auto simp: x manifest_file_status_def Let_def split: option.splits)
  obtain c where c: "lstat_at (st_tree v) p = LFound (FileNode c)"
    using u by (auto simp: x p manifest_file_status_def tracked_symlink_status_def Let_def split: lstat_result.splits node.splits option.splits if_splits)
  obtain d where d: "fs_read p (st_tree v) = Inr d" "st_sha v d = h"
    using u by (auto simp: x p c manifest_file_status_def Let_def split: sum.splits if_splits)
  show ?thesis
    using p d lstat_link[OF c]
    by (auto simp: x intact_def safe_manifest_file_def Let_def is_within_project_def relative_to_Some split: if_splits option.splits)
qed

section \<open>Who tracks a file\<close>

definition trackers :: "(string \<times> string list) list \<Rightarrow> string \<Rightarrow> string list" where
  "trackers d rel = (case map_of d rel of None \<Rightarrow> [] | Some ks \<Rightarrow> ks)"

lemma trackers_track: "trackers (track_key k r d) rel = (if r = rel then trackers d rel @ [k] else trackers d rel)"
  by (induction k r d rule: track_key.induct) (auto simp: trackers_def)

lemma trackers_fold:
  "trackers (fold (track_key k) rs d) rel = trackers d rel @ replicate (count_list rs rel) k"
  by (induction rs arbitrary: d) (auto simp: trackers_track replicate_app_Cons_same)

lemma no_collision: "collision_findings d = [] \<Longrightarrow> length (trackers d rel) \<le> 1"
  by (auto simp: collision_findings_def filter_empty_conv trackers_def split: option.split dest!: map_of_SomeD)

section \<open>All manifests\<close>

definition sound_manifest :: "status_env \<Rightarrow> loc \<Rightarrow> string \<Rightarrow> manifest \<Rightarrow> bool" where
  "sound_manifest v base k m \<longleftrightarrow>
     load_manifest (st_loads v) k base False (st_tree v) = Inr m \<and> (\<forall>x \<in> set (mf_files m). intact v base x)"

lemma loaded_root: "load_manifest ld k base False t = Inr m \<Longrightarrow> mf_project_root m = base"
  by (auto simp: load_manifest_def init_manifest_def rbind_Inr_iff Let_def split: sum.splits option.splits pyval.splits if_splits)

lemma unchanged_files:
  assumes "files_with f Missing fs = []" "files_with f Modified fs = []" "files_with f Invalid fs = []" "x \<in> set fs"
  shows "f x = Unchanged" and "fst x \<in> set (valid_files f fs)"
proof -
  show u: "f x = Unchanged" using assms by (cases "f x") (auto simp: files_with_def filter_empty_conv)
  show "fst x \<in> set (valid_files f fs)" using u assms(4) by (force simp: valid_files_def)
qed

lemma scan_key_sound:
  assumes "scan_key v base True dk k s = Inr s'"
  shows "\<exists>new. sc_findings s' = sc_findings s @ new \<and> (new = [] \<longrightarrow>
     (\<exists>m rs. sound_manifest v base k m \<and> sc_by_path s' = fold (track_key k) rs (sc_by_path s) \<and> fst ` set (mf_files m) \<subseteq> set rs))"
proof (cases "load_manifest (st_loads v) k base False (st_tree v)")
  case (Inl x)
  then show ?thesis using assms by (cases x) (auto simp: scan_key_def Let_def split: if_splits)
next
  case (Inr m)
  let ?f = "manifest_file_status v base base True"
  have r: "mf_project_root m = base" by (rule loaded_root[OF Inr])
  show ?thesis
  proof (cases "is_safe_manifest_key k")
    case True
    have s': "sc_findings s' = sc_findings s @ file_findings v k dk (files_with ?f Missing (mf_files m))
        (files_with ?f Modified (mf_files m)) (files_with ?f Invalid (mf_files m))"
      "sc_by_path s' = fold (track_key k) (valid_files ?f (mf_files m)) (sc_by_path s)"
      using assms by (auto simp: scan_key_def Let_def True Inr r)
    have "sound_manifest v base k m \<and> fst ` set (mf_files m) \<subseteq> set (valid_files ?f (mf_files m))"
      if "file_findings v k dk (files_with ?f Missing (mf_files m)) (files_with ?f Modified (mf_files m))
        (files_with ?f Invalid (mf_files m)) = []"
    proof -
      have "files_with ?f Missing (mf_files m) = []" "files_with ?f Modified (mf_files m) = []" "files_with ?f Invalid (mf_files m) = []"
        using that by (auto simp: file_findings_def split: if_splits)
      note u = unchanged_files[OF this]
      then show ?thesis using Inr unchanged_intact by (auto simp: sound_manifest_def)
    qed
    with s' show ?thesis by blast
  qed (use assms in \<open>auto simp: scan_key_def\<close>)
qed

text \<open>What a scan without findings means for the keys, and for a file two of them track.\<close>

lemma scan_keys_sound:
  assumes "scan_keys v base True dk ks s = Inr s'"
  shows "\<exists>new. sc_findings s' = sc_findings s @ new \<and> (new = [] \<longrightarrow>
     (\<exists>ms. list_all2 (sound_manifest v base) ks ms \<and>
       (\<forall>rel. length (trackers (sc_by_path s') rel) \<ge>
          length (trackers (sc_by_path s) rel) + length (List.filter (\<lambda>m. rel \<in> fst ` set (mf_files m)) ms))))"
  using assms
proof (induction ks arbitrary: s)
  case (Cons k ks)
  obtain s1 where s1: "scan_key v base True dk k s = Inr s1" "scan_keys v base True dk ks s1 = Inr s'"
    using Cons.prems by (auto simp: rbind_Inr_iff)
  from scan_key_sound[OF s1(1)] obtain n1 where n1: "sc_findings s1 = sc_findings s @ n1"
      "n1 = [] \<longrightarrow> (\<exists>m rs. sound_manifest v base k m \<and> sc_by_path s1 = fold (track_key k) rs (sc_by_path s) \<and> fst ` set (mf_files m) \<subseteq> set rs)"
    by blast
  from Cons.IH[OF s1(2)] obtain n2 where n2: "sc_findings s' = sc_findings s1 @ n2"
      "n2 = [] \<longrightarrow> (\<exists>ms. list_all2 (sound_manifest v base) ks ms \<and> (\<forall>rel. length (trackers (sc_by_path s') rel) \<ge>
          length (trackers (sc_by_path s1) rel) + length (List.filter (\<lambda>m. rel \<in> fst ` set (mf_files m)) ms)))"
    by blast
  have "\<exists>ms. list_all2 (sound_manifest v base) (k # ks) ms \<and> (\<forall>rel. length (trackers (sc_by_path s') rel) \<ge>
          length (trackers (sc_by_path s) rel) + length (List.filter (\<lambda>m. rel \<in> fst ` set (mf_files m)) ms))"
    if "n1 @ n2 = []"
  proof -
    from that n1(2) obtain m rs where m: "sound_manifest v base k m" "sc_by_path s1 = fold (track_key k) rs (sc_by_path s)"
        "fst ` set (mf_files m) \<subseteq> set rs" by auto
    from that n2(2) obtain ms where ms: "list_all2 (sound_manifest v base) ks ms"
        "\<And>rel. length (trackers (sc_by_path s') rel) \<ge>
          length (trackers (sc_by_path s1) rel) + length (List.filter (\<lambda>m. rel \<in> fst ` set (mf_files m)) ms)" by auto
    have "count_list rs rel \<ge> 1" if "rel \<in> fst ` set (mf_files m)" for rel
      using that m(3) by (metis count_list_0_iff less_one not_le subsetD)
    then have "length (trackers (sc_by_path s') rel) \<ge> length (trackers (sc_by_path s) rel) +
        length (List.filter (\<lambda>m. rel \<in> fst ` set (mf_files m)) (m # ms))" for rel
      using ms(2)[of rel] by (fastforce simp: m(2) trackers_fold)
    with m(1) ms(1) show ?thesis by (intro exI[of _ "m # ms"]) simp
  qed
  with n1(1) n2(1) show ?case by auto
qed auto

section \<open>The whole report\<close>

lemma ok_no_findings: "rp_status (build_report d i fs m s c rec) = ''ok'' \<longleftrightarrow> fs = []"
  by (auto simp: build_report_def report_status_def)

lemma raw_default_normalized:
  assumes "default_integration_key raw = Some d"
  shows "fst (default_and_installed raw) = Some d"
proof -
  have none: "clean_integration_key a = None" if "\<not> truthy a" for a
    using that by (cases a) (auto simp: clean_integration_key_def py_strip_def)
  let ?a = "get_none raw ''default_integration''"
  show ?thesis
  proof (cases "truthy ?a")
    case True
    with assms show ?thesis by (simp add: default_integration_key_def py_or_def default_and_installed_def Let_def opt_or_def)
  next
    case False
    with assms none[OF False] show ?thesis
      by (simp add: default_integration_key_def py_or_def default_and_installed_def Let_def opt_or_def)
  qed
qed

lemma normalized_default:
  assumes "default_and_installed raw = (key, installed)"
  shows "default_integration_key (normalize_integration_state raw) = key"
    "installed_integration_keys (normalize_integration_state raw) = Inr installed"
proof -
  have ck: "clean_keys key installed" using default_and_installed_clean[of raw] assms by simp
  note f = normalized_fields[OF assms]
  show "default_integration_key (normalize_integration_state raw) = key"
    using ck f(2,3) by (cases key) (auto simp: default_integration_key_def get_or_def py_or_def clean_keys_def
        clean_integration_key_def[of PNone] clean_integration_key_def[of "PStr []"])
  show "installed_integration_keys (normalize_integration_state raw) = Inr installed"
    using ck f(4) by (auto simp: installed_integration_keys_def get_or_def dedupe_integration_keys_def clean_keys_def
        intro!: dedupe_id)
qed

text \<open>C20. A healthy report can be relied on: the project's directory is resolved, the default integration is one of
  the installed, all installed are known and, if there are several, safe to install together; each of them
  and the shared infrastructure has a manifest, every file of which is a regular file inside the project with
  the recorded hash, and no file is tracked by two manifests.\<close>

theorem healthy_report_is_sound:
  assumes "build_integration_status_report v = Inr r" "rp_status r = ''ok''"
  shows "\<exists>base d ms. resolve (st_tree v) (st_root v) = Some base \<and> rp_default r = Some d \<and> d \<in> set (rp_installed r) \<and>
     (\<forall>k \<in> set (rp_installed r). st_known v k \<noteq> None) \<and>
     (1 < length (rp_installed r) \<longrightarrow> (\<forall>k \<in> set (rp_installed r). st_known v k = Some True)) \<and>
     list_all2 (sound_manifest v base) (rp_installed r @ (if ''speckit'' \<in> set (rp_installed r) then [] else [''speckit''])) ms \<and>
     (\<forall>rel. length (List.filter (\<lambda>m. rel \<in> fst ` set (mf_files m)) ms) \<le> 1)"
proof -
  obtain raw where raw: "try_read_integration_json_with_raw (st_state v) = (Some (normalize_integration_state raw), Some raw, None)"
    using assms by (auto simp: build_integration_status_report_def try_read_integration_json_with_raw_def ok_no_findings
        split: prod.splits option.splits)
  then have rep: "report_on_state v (normalize_integration_state raw) raw = Inr r"
    using assms(1) by (simp add: build_integration_status_report_def)
  obtain key installed where di: "default_and_installed raw = (key, installed)" by (cases "default_and_installed raw")
  note n = normalized_default[OF di]
  obtain raw_installed not_installed s where
    s: "scan_keys v (fst (resolved_root v)) (snd (resolved_root v)) (report_default raw raw_installed (normalize_integration_state raw))
          (scanned_keys (checked_keys raw_installed installed not_installed))
          \<lparr>sc_findings = first_findings v raw installed raw_installed not_installed, sc_summaries = [], sc_by_path = [], sc_attempted = []\<rparr> = Inr s" and
    r: "r = build_report (report_default raw raw_installed (normalize_integration_state raw)) installed
          (sc_findings s @ collision_findings (sc_by_path s)) (sc_summaries s)
          (if raw_installed = [] then None else Some (\<not> (length (checked_keys raw_installed installed not_installed) > 1 \<and>
             unsafe_keys v (checked_keys raw_installed installed not_installed) \<noteq> [])))
          (Some (sc_attempted s)) (Some raw_installed)"
    using rep n(2) unfolding report_on_state_def Let_def rbind_Inr_iff by auto
  have no: "sc_findings s @ collision_findings (sc_by_path s) = []" using assms(2) unfolding r ok_no_findings .
  have rd: "rp_default r = report_default raw raw_installed (normalize_integration_state raw)" "rp_installed r = installed"
    by (simp_all add: r build_report_def)
  obtain base where base: "resolve (st_tree v) (st_root v) = Some base" "resolved_root v = (base, True)"
  proof (cases "resolve (st_tree v) (st_root v)")
    case None
    then have rr: "snd (resolved_root v) = False" "root_findings v \<noteq> []" by (simp_all add: resolved_root_def root_findings_def)
    have "\<exists>new. sc_findings s' = sc_findings s0 @ new" if "scan_keys v b i dk ks s0 = Inr s'" for b i dk ks s0 s'
      using that
    proof (induction ks arbitrary: s0)
      case (Cons k ks)
      then obtain s1 where "scan_key v b i dk k s0 = Inr s1" "scan_keys v b i dk ks s1 = Inr s'" by (auto simp: rbind_Inr_iff)
      moreover from this(1) have "\<exists>new. sc_findings s1 = sc_findings s0 @ new"
        by (auto simp: scan_key_def Let_def split: if_splits sum.splits pyexn.splits)
      ultimately show ?case using Cons.IH by fastforce
    qed simp
    from this[OF s] no rr(2) have False by (auto simp: first_findings_def Let_def)
    then show ?thesis ..
  qed (simp add: that resolved_root_def)
  from scan_keys_sound[OF s[unfolded base(2) fst_conv snd_conv]] no obtain ms where
    f: "first_findings v raw installed raw_installed not_installed = []" and
    ms: "list_all2 (sound_manifest v base) (scanned_keys (checked_keys raw_installed installed not_installed)) ms"
      "\<And>rel. length (List.filter (\<lambda>m. rel \<in> fst ` set (mf_files m)) ms) \<le> length (trackers (sc_by_path s) rel)"
    by (auto simp: trackers_def)
  have sf: "installed \<noteq> []" "raw_installed = [] \<or> default_integration_key raw \<noteq> None" "not_installed = None"
    using f by (auto simp: first_findings_def Let_def state_findings_def split: if_splits option.splits)
  have checked: "checked_keys raw_installed installed not_installed = installed" using sf(3) by (simp add: checked_keys_def)
  have f2: "\<forall>k \<in> set installed. st_known v k \<noteq> None" "multi_findings v installed = []"
    using f by (auto simp: first_findings_def checked filter_empty_conv Let_def)
  have "clean_keys key installed" using default_and_installed_clean[of raw] di by simp
  then obtain d where key: "key = Some d" "d \<in> set installed" using sf(1) by (cases key) (auto simp: clean_keys_def)
  have "rp_default r = Some d"
    using sf(2) raw_default_normalized[of raw] n(1) di key(1) unfolding rd(1)
    by (cases "default_integration_key raw") (auto simp: report_default_def opt_or_def)
  moreover have "st_known v k = Some True" if "1 < length installed" "k \<in> set installed" for k
  proof -
    have "unsafe_keys v installed = []" using f2(2) that(1) by (auto simp: multi_findings_def split: if_splits)
    then have "st_known v k \<noteq> Some False" using that(2) by (auto simp: unsafe_keys_def filter_empty_conv split: if_splits)
    with f2(1) that(2) show ?thesis by auto
  qed
  moreover have "list_all2 (sound_manifest v base) (installed @ (if ''speckit'' \<in> set installed then [] else [''speckit''])) ms"
    using ms(1) by (simp add: checked scanned_keys_def shared_key_def split: if_splits)
  moreover have "length (List.filter (\<lambda>m. rel \<in> fst ` set (mf_files m)) ms) \<le> 1" for rel
    using no_collision[of "sc_by_path s" rel] no ms(2)[of rel] by simp
  ultimately show ?thesis unfolding rd(2) using base(1) key(2) f2(1) by blast
qed

definition healthy_env :: status_env where
  "healthy_env = \<lparr>st_root = [''p''],
     st_tree = [([''p''], DirNode), ([''p'', ''.specify''], DirNode), ([''p'', ''.specify'', ''integrations''], DirNode),
       ([''p'', ''.specify'', ''integrations'', ''claude.manifest.json''], FileNode ''claude''),
       ([''p'', ''.specify'', ''integrations'', ''speckit.manifest.json''], FileNode ''shared''), ([''p'', ''f.md''], FileNode ''x'')],
     st_state = JsonValue (PDict (obj [(''integration'', PStr ''claude''), (''installed_integrations'', PList [PStr ''claude''])])),
     st_loads = (\<lambda>t. if t = ''claude'' then Some (PDict (obj [(''files'', PDict (obj [(''f.md'', PStr ''hx'')]))]))
        else if t = ''shared'' then Some (PDict []) else None),
     st_sha = (\<lambda>c. ''h'' @ c), st_known = (\<lambda>k. if k = ''claude'' then Some True else None)\<rparr>"

theorem healthy_report_is_sound_witness:
  "\<exists>r base m. build_integration_status_report healthy_env = Inr r \<and> rp_installed r = [''claude''] \<and>
     mf_files m = [(''f.md'', ''hx'')] \<and> sound_manifest healthy_env base ''claude'' m"
proof -
  have "map_sum id (\<lambda>r. (rp_status r, rp_installed r)) (build_integration_status_report healthy_env) = Inr (''ok'', [''claude''])"
    by code_simp
  then obtain r where r: "build_integration_status_report healthy_env = Inr r" "rp_status r = ''ok''" "rp_installed r = [''claude'']"
    by (cases "build_integration_status_report healthy_env") auto
  from healthy_report_is_sound[OF r(1,2)] obtain base ms where
    b: "resolve (st_tree healthy_env) (st_root healthy_env) = Some base"
    and ms: "list_all2 (sound_manifest healthy_env base) [''claude'', ''speckit''] ms" unfolding r(3) by auto
  have "resolve (st_tree healthy_env) (st_root healthy_env) = Some [''p'']" by code_simp
  with b have p: "base = [''p'']" by simp
  from ms obtain m where m: "sound_manifest healthy_env base ''claude'' m" by (auto simp: list_all2_Cons1)
  have "map_sum id mf_files (load_manifest (st_loads healthy_env) ''claude'' [''p''] False (st_tree healthy_env)) = Inr [(''f.md'', ''hx'')]"
    by code_simp
  with m p have "mf_files m = [(''f.md'', ''hx'')]" by (auto simp: sound_manifest_def)
  with r m show ?thesis by blast
qed

end
