(* ===== verification/ContextSection.thy ===== *)
theory ContextSection
  imports Resolver
begin

text \<open>
  The section of an agent's context file that Spec Kit manages
  (\<open>specify_cli/integrations/base.py\<close>): the two markers around it, writing or replacing it, removing it, and
  the front matter a rule file of Cursor (\<open>.mdc\<close>) must have. The text functions come first, then the two
  operations on the file tree. The lines printed to the console are left out.
\<close>

section \<open>Text\<close>

text \<open>\<open>text.find(x, k)\<close>.\<close>

definition index_of :: "string \<Rightarrow> nat \<Rightarrow> string \<Rightarrow> nat option" where
  "index_of x k t = map_option (\<lambda>(a, b). k + length a) (split1 x (drop k t))"

definition carriage_return :: char where
  "carriage_return = CHR 0x0D"

text \<open>The text behind one line end, \<open>CR\<close>, \<open>LF\<close> or both, if there is one.\<close>

definition drop_char :: "char \<Rightarrow> string \<Rightarrow> string" where
  "drop_char c t = (case t of [] \<Rightarrow> [] | d # r \<Rightarrow> if d = c then r else t)"

definition drop_eol :: "string \<Rightarrow> string" where
  "drop_eol t = drop_char newline (drop_char carriage_return t)"

definition unix_newlines :: "string \<Rightarrow> string" where
  "unix_newlines t = replace_all [carriage_return] [newline] (replace_all [carriage_return, newline] [newline] t)"

definition build_context_section :: "string \<Rightarrow> string" where
  "build_context_section plan_path =
     join_with [newline]
       ([''For additional context about technologies to be used, project structure,'',
         ''shell commands, and other important information, read the current plan''] @
        (if plan_path = '''' then [] else [''at '' @ plan_path]))"

definition marked :: "string \<Rightarrow> string \<Rightarrow> string \<Rightarrow> string" where
  "marked s e body = s @ [newline] @ body @ [newline] @ e @ [newline]"

text \<open>Where the section begins, and where its end marker is, looked for from there on.\<close>

definition marker_places :: "string \<Rightarrow> string \<Rightarrow> string \<Rightarrow> nat option \<times> nat option" where
  "marker_places s e t = (let i = index_of s 0 t in (i, index_of e (case i of None \<Rightarrow> 0 | Some i \<Rightarrow> i) t))"

text \<open>The new text of an existing file.\<close>

definition upsert_text :: "string \<Rightarrow> string \<Rightarrow> string \<Rightarrow> string \<Rightarrow> string" where
  "upsert_text s e sec t =
     (let behind = (\<lambda>j. drop_eol (drop (j + length e) t)) in
      case marker_places s e t of
        (Some i, Some j) \<Rightarrow> if i < j then take i t @ sec @ behind j else take i t @ sec
      | (Some i, None) \<Rightarrow> take i t @ sec
      | (None, Some j) \<Rightarrow> sec @ behind j
      | (None, None) \<Rightarrow>
          if t = [] then sec else (if ends_with [newline] t then t else t @ [newline]) @ [newline] @ sec)"

text \<open>The text without the section; \<open>None\<close> when there is no complete one.\<close>

definition remove_text :: "string \<Rightarrow> string \<Rightarrow> string \<Rightarrow> string option" where
  "remove_text s e t =
     (case marker_places s e t of
        (Some i, Some j) \<Rightarrow>
          if i < j
          then Some (take (if 1 < i \<and> t ! (i - 1) = newline \<and> t ! (i - 2) = newline then i - 1 else i) t @
                     drop_eol (drop (j + length e) t))
          else None
      | _ \<Rightarrow> None)"

subsection \<open>Front matter of a rule file\<close>

definition blank_char :: "char \<Rightarrow> bool" where
  "blank_char c \<longleftrightarrow> c = CHR '' '' \<or> c = CHR 0x09"

text \<open>A line end \<open>\r?\n\<close> at the front, and the text behind it.\<close>

definition eol_at :: "string \<Rightarrow> (string \<times> string) option" where
  "eol_at t =
     (if take 1 t = [newline] then Some ([newline], drop 1 t)
      else if take 2 t = [carriage_return, newline] then Some ([carriage_return, newline], drop 2 t)
      else None)"

text \<open>\<open>---[ \t]*\r?\n\<close> at the front.\<close>

definition mdc_opening :: "string \<Rightarrow> (string \<times> string) option" where
  "mdc_opening t =
     (if \<not> starts_with ''---'' t then None
      else case eol_at (dropWhile blank_char (drop 3 t)) of
          None \<Rightarrow> None
        | Some (nl, rest) \<Rightarrow> Some (''---'' @ takeWhile blank_char (drop 3 t) @ nl, rest))"

text \<open>\<open>(\r?\n---[ \t]*)(\r?\n|$)\<close> at the front: the closing line, its end, and the rest.\<close>

definition mdc_closing :: "string \<Rightarrow> (string \<times> string \<times> string) option" where
  "mdc_closing t =
     (case eol_at t of
        None \<Rightarrow> None
      | Some (nl, r) \<Rightarrow>
          if \<not> starts_with ''---'' r then None
          else let closing = nl @ ''---'' @ takeWhile blank_char (drop 3 r); r' = dropWhile blank_char (drop 3 r)
            in case eol_at r' of
                Some (sep, rest) \<Rightarrow> Some (closing, sep, rest)
              | None \<Rightarrow> if r' = [] then Some (closing, [], []) else None)"

fun mdc_find_closing :: "string \<Rightarrow> (string \<times> string \<times> string \<times> string) option" where
  "mdc_find_closing t =
     (case mdc_closing t of
        Some (closing, sep, rest) \<Rightarrow> Some ([], closing, sep, rest)
      | None \<Rightarrow> (case t of [] \<Rightarrow> None
          | c # cs \<Rightarrow> map_option (\<lambda>(fm, x). (c # fm, x)) (mdc_find_closing cs)))"

text \<open>A line \<open>[ \t]*alwaysApply[ \t]*:\<close>: its indentation and what is behind the colon.\<close>

definition apply_line :: "string \<Rightarrow> (string \<times> string) option" where
  "apply_line l =
     (let r = dropWhile blank_char l in
      if \<not> starts_with ''alwaysApply'' r then None
      else case dropWhile blank_char (drop 11 r) of
          [] \<Rightarrow> None
        | c # v \<Rightarrow> if c = CHR '':'' then Some (takeWhile blank_char l, v) else None)"

text \<open>\<open>[ \t]*(#.*)?\<close> up to the end of the line.\<close>

definition only_comment :: "string \<Rightarrow> bool" where
  "only_comment t \<longleftrightarrow> (case dropWhile blank_char t of [] \<Rightarrow> True | c # _ \<Rightarrow> c = CHR ''#'')"

definition says_true :: "string \<Rightarrow> bool" where
  "says_true l \<longleftrightarrow> (case apply_line l of
      None \<Rightarrow> False
    | Some (_, v) \<Rightarrow> starts_with ''true'' (dropWhile blank_char v) \<and> only_comment (drop 4 (dropWhile blank_char v)))"

fun comment_part :: "string \<Rightarrow> string" where
  "comment_part [] = []"
| "comment_part (c # cs) = (if only_comment (c # cs) then c # cs else comment_part cs)"

text \<open>The first line that sets the key, set right.\<close>

fun fix_apply_line :: "string list \<Rightarrow> string list" where
  "fix_apply_line [] = []"
| "fix_apply_line (l # ls) =
     (case apply_line l of
        Some (indent, v) \<Rightarrow> (indent @ ''alwaysApply: true'' @ comment_part v) # ls
      | None \<Rightarrow> l # fix_apply_line ls)"

definition mdc_header :: string where
  "mdc_header = ''---'' @ [newline] @ ''alwaysApply: true'' @ [newline] @ ''---'' @ [newline, newline]"

definition fixed_frontmatter :: "string \<Rightarrow> string \<Rightarrow> string" where
  "fixed_frontmatter nl fm =
     (let ls = split_on newline fm in
      if list_ex (\<lambda>l. apply_line l \<noteq> None) ls then join_with [newline] (fix_apply_line ls)
      else if py_strip fm \<noteq> [] then fm @ nl @ ''alwaysApply: true'' else ''alwaysApply: true'')"

definition ensure_mdc_frontmatter :: "string \<Rightarrow> string" where
  "ensure_mdc_frontmatter t =
     (let stripped = dropWhile py_space t in
      if \<not> starts_with ''---'' stripped then mdc_header @ t
      else case mdc_opening stripped of
          None \<Rightarrow> mdc_header @ t
        | Some (opening, r) \<Rightarrow>
            (case mdc_find_closing r of
               None \<Rightarrow> mdc_header @ t
             | Some (fm, closing, sep, rest) \<Rightarrow>
                 if list_ex says_true (split_on newline fm) then t
                 else takeWhile py_space t @ opening @
                   fixed_frontmatter (if ends_with [carriage_return, newline] opening then [carriage_return, newline] else [newline]) fm @
                   closing @ sep @ rest))"

text \<open>\<open>^---\n.*?\n---\s*$\<close>, where the dot may be any character.\<close>

fun closes_blank :: "string \<Rightarrow> bool" where
  "closes_blank [] = False"
| "closes_blank (c # cs) =
     (starts_with (newline # ''---'') (c # cs) \<and> list_all py_space (drop 4 (c # cs)) \<or> closes_blank cs)"

definition frontmatter_only :: "string \<Rightarrow> bool" where
  "frontmatter_only t \<longleftrightarrow> starts_with (''---'' @ [newline]) t \<and> closes_blank (drop 4 t)"

section \<open>The file\<close>

type_synonym 'a fop = "(tree, pyexn, 'a) svc"

definition on_tree :: "(tree \<Rightarrow> (errno, tree) res) \<Rightarrow> unit fop" where
  "on_tree f t = (case f t of Inl n \<Rightarrow> (Inl (os_error n), t) | Inr t' \<Rightarrow> (Inr (), t'))"

text \<open>The extension that manages context files is on unless the registry says that it is off.\<close>

definition agent_context_extension_enabled :: "resolver \<Rightarrow> bool" where
  "agent_context_extension_enabled e =
     (case json_at e (extensions_dir e @ [''.registry'']) of
        JsonValue (PDict d) \<Rightarrow>
          (case get_none d ''extensions'' of
             PDict x \<Rightarrow> (case get_none x ''agent-context'' of
                 PDict entry \<Rightarrow> get_or entry ''enabled'' (PBool True) \<noteq> PBool False
               | _ \<Rightarrow> True)
           | _ \<Rightarrow> True)
      | _ \<Rightarrow> True)"

definition CONTEXT_MARKER_START :: string where
  "CONTEXT_MARKER_START = ''<!-- SPECKIT START -->''"

definition CONTEXT_MARKER_END :: string where
  "CONTEXT_MARKER_END = ''<!-- SPECKIT END -->''"

definition marker_or :: "string \<Rightarrow> pyval \<Rightarrow> string" where
  "marker_or usual v = (case v of PStr s \<Rightarrow> if s = '''' then usual else s | _ \<Rightarrow> usual)"

definition resolve_context_markers :: "resolver \<Rightarrow> string \<times> string" where
  "resolve_context_markers e =
     (case yaml_at e (extensions_dir e @ [''agent-context'', ''agent-context-config.yml'']) of
        YamlValue (PDict cfg) \<Rightarrow>
          (case get_none cfg ''context_markers'' of
             PDict m \<Rightarrow> (marker_or CONTEXT_MARKER_START (get_none m ''start''), marker_or CONTEXT_MARKER_END (get_none m ''end''))
           | _ \<Rightarrow> (CONTEXT_MARKER_START, CONTEXT_MARKER_END))
      | _ \<Rightarrow> (CONTEXT_MARKER_START, CONTEXT_MARKER_END))"

definition is_mdc :: "loc \<Rightarrow> bool" where
  "is_mdc p \<longleftrightarrow> p \<noteq> [] \<and> ends_with ''.mdc'' (last p) \<and> 4 < length (last p)"

definition context_path :: "resolver \<Rightarrow> string \<Rightarrow> loc" where
  "context_path e file = path_div (pr_root e) (parse_path file)"

definition for_mdc :: "loc \<Rightarrow> string \<Rightarrow> string" where
  "for_mdc p t = (if is_mdc p then ensure_mdc_frontmatter t else t)"

text \<open>The environment \<open>e\<close> with the tree of the moment.\<close>

definition at_tree :: "resolver \<Rightarrow> tree \<Rightarrow> resolver" where
  "at_tree e t = e\<lparr>pr_tree := t\<rparr>"

definition upsert_context_section :: "resolver \<Rightarrow> string option \<Rightarrow> string \<Rightarrow> loc option fop" where
  "upsert_context_section e0 context_file plan_path =
     sbind (sget (at_tree e0)) (\<lambda>e.
     case context_file of
       None \<Rightarrow> sret None
     | Some file \<Rightarrow>
         if file = '''' \<or> \<not> agent_context_extension_enabled e then sret None
         else case resolve_context_markers e of (ms, me) \<Rightarrow>
           (let p = context_path e file; sec = marked ms me (build_context_section plan_path) in
            sbind (if there e p
                   then sbind (slift (read_text e p)) (\<lambda>t. sret (upsert_text ms me sec t))
                   else sthen (on_tree (fs_mkdirs (butlast p))) (sret sec)) (\<lambda>new.
            sthen (on_tree (fs_write p (unix_newlines (for_mdc p new))))
            (sret (Some p)))))"

definition remove_context_section :: "resolver \<Rightarrow> string option \<Rightarrow> bool fop" where
  "remove_context_section e0 context_file =
     sbind (sget (at_tree e0)) (\<lambda>e.
     case context_file of
       None \<Rightarrow> sret False
     | Some file \<Rightarrow>
         if file = '''' \<or> \<not> agent_context_extension_enabled e \<or> \<not> there e (context_path e file) then sret False
         else case resolve_context_markers e of (ms, me) \<Rightarrow>
           (let p = context_path e file in
            sbind (slift (read_text e p)) (\<lambda>t.
            case remove_text ms me t of
              None \<Rightarrow> sret False
            | Some r \<Rightarrow>
                (let new = unix_newlines r in
                 sthen (on_tree (if py_strip new = [] \<or> is_mdc p \<and> frontmatter_only new then fs_unlink p else fs_write p new))
                 (sret True)))))"

end
