(* ===== verification/ContextProps.thy ===== *)
theory ContextProps
  imports ContextSection ManifestProps
begin

text \<open>
  What managing a section of a context file guarantees: writing it twice is writing it once, the rest of the
  file stays, and removing it gives the file back. And what it does not: with two equal markers the text
  behind the section is lost, and a rule file whose text ends in a line of dashes is deleted.
\<close>

section \<open>First occurrences\<close>

lemma starts_with_append [simp]: "starts_with p (p @ s)"
  by (simp add: starts_with_def)

lemma split1_here [simp]: "split1 x (x @ b) = Some ([], b)"
proof (cases x)
  case (Cons c cs)
  then have "starts_with x (c # cs @ b)" using starts_with_append[of x b] by simp
  with Cons show ?thesis by simp
qed (cases b; simp add: starts_with_def)

lemma starts_with_cong: "length x \<le> length p \<Longrightarrow> starts_with x (p @ a) \<longleftrightarrow> starts_with x (p @ b)"
  by (simp add: starts_with_def)

lemma split1_first: "split1 x t = Some (a, b) \<Longrightarrow> split1 x (a @ x @ b') = Some (a, b')"
proof (induction t arbitrary: a)
  case (Cons c cs)
  show ?case
  proof (cases "starts_with x (c # cs)")
    case True
    with Cons.prems show ?thesis by simp
  next
    case False
    with Cons.prems obtain a' where a: "a = c # a'" "split1 x cs = Some (a', b)" by auto
    then have "cs = a' @ x @ b" using split1_Some by blast
    with False have "\<not> starts_with x ((c # a' @ x) @ b')"
      using starts_with_cong[of x "c # a' @ x" b b'] by simp
    with a Cons.IH[OF a(2)] show ?thesis by simp
  qed
qed (use split1_here[of "[]" b'] in \<open>auto split: if_splits\<close>)

lemma starts_with_line:
  assumes "newline \<notin> set x" "starts_with x (p @ newline # r)"
  shows "starts_with x p"
proof (cases "length x \<le> length p")
  case False
  then have "newline \<in> set (take (length x) (p @ newline # r))" by (simp add: take_Cons')
  with assms show ?thesis by (simp add: starts_with_def)
qed (use assms in \<open>simp add: starts_with_def\<close>)

text \<open>A text without line ends occurs in a line or behind it.\<close>

lemma split1_line:
  assumes "newline \<notin> set x" "x \<noteq> []" "split1 x t = None"
  shows "split1 x (t @ newline # r) = map_option (\<lambda>(a, b). (t @ newline # a, b)) (split1 x r)"
  using assms
proof (induction t)
  case Nil
  then have "\<not> starts_with x (newline # r)" by (cases x) (auto simp: starts_with_def)
  then show ?case by (simp add: option.map_comp comp_def case_prod_unfold)
next
  case (Cons c cs)
  then have "\<not> starts_with x (c # cs)" by (auto split: if_splits)
  then have "\<not> starts_with x ((c # cs) @ newline # r)" using starts_with_line[OF Cons.prems(1)] by blast
  then show ?case using Cons by (auto simp: option.map_comp comp_def case_prod_unfold split: if_splits)
qed

lemma no_sub: "\<not> has_sub p s \<longleftrightarrow> split1 p s = None"
  by (cases "split1 p s") (simp_all add: has_sub_def)

section \<open>Writing and removing the text\<close>

text \<open>Markers of one line each, the end marker neither in the start marker nor in the section's text.\<close>

definition plain_markers :: "string \<Rightarrow> string \<Rightarrow> string \<Rightarrow> bool" where
  "plain_markers s e body \<longleftrightarrow> s \<noteq> [] \<and> e \<noteq> [] \<and> newline \<notin> set s \<and> newline \<notin> set e \<and>
     carriage_return \<notin> set s \<and> carriage_return \<notin> set e \<and> carriage_return \<notin> set body \<and>
     \<not> has_sub e s \<and> \<not> has_sub e body"

lemma end_of_marked:
  assumes "plain_markers s e body"
  shows "split1 e (marked s e body @ b) = Some (s @ newline # body @ [newline], newline # b)"
proof -
  have "split1 e (body @ newline # e @ newline # b) = Some (body @ [newline], newline # b)"
    using split1_line[of e body "e @ newline # b"] assms by (simp add: plain_markers_def no_sub)
  then show ?thesis
    using split1_line[of e s "body @ newline # e @ newline # b"] assms by (simp add: plain_markers_def no_sub marked_def)
qed

text \<open>Where the section stands, it is found.\<close>

lemma places_of_marked:
  assumes "plain_markers s e body" "split1 s (a @ marked s e body @ b) = Some (a, r)"
  shows "marker_places s e (a @ marked s e body @ b) = (Some (length a), Some (length a + length s + 1 + length body + 1))"
  using assms end_of_marked[OF assms(1), of b] by (simp add: marker_places_def index_of_def Let_def)

lemma drop_newline [simp]: "drop_eol (newline # b) = b"
  by (simp add: drop_eol_def drop_char_def newline_def carriage_return_def)

lemma upsert_marked:
  assumes "plain_markers s e body" "split1 s (a @ marked s e body @ b) = Some (a, r)"
  shows "upsert_text s e (marked s e body) (a @ marked s e body @ b) = a @ marked s e body @ b"
  by (simp add: upsert_text_def places_of_marked[OF assms]) (simp add: marked_def)

text \<open>After writing, the section stands behind a text without a start marker.\<close>

lemma upsert_shape:
  assumes "plain_markers s e body"
  obtains a b r where "upsert_text s e (marked s e body) t = a @ marked s e body @ b"
    "split1 s (a @ marked s e body @ b) = Some (a, r)"
proof (cases "split1 s t")
  case (Some p)
  obtain a c where p: "p = (a, c)" by (cases p)
  have a: "take (length a) t = a" using Some p split1_Some[of s t a c] by simp
  have f: "split1 s (a @ marked s e body @ x) = Some (a, newline # body @ newline # e @ newline # x)" for x
    using split1_first[of s t a c] Some p by (simp add: marked_def)
  show thesis
  proof (cases "index_of e (length a) t")
    case None
    with Some p a f[of "[]"] that[of a "[]"] show thesis
      by (simp add: upsert_text_def marker_places_def index_of_def)
  next
    case e: (Some j)
    have "marker_places s e t = (Some (length a), Some j)"
      using Some p e by (simp add: marker_places_def index_of_def)
    with a f[of "[]"] f that[of a "[]"] that[of a "drop_eol (drop (j + length e) t)"] show thesis
      by (cases "length a < j") (simp_all add: upsert_text_def)
  qed
next
  case None
  show thesis
  proof (cases "split1 e t")
    case (Some p)
    with None show thesis using that[of "[]"]
      by (auto simp: upsert_text_def marker_places_def index_of_def Let_def marked_def split: prod.splits)
  next
    case no_end: None
    show thesis
    proof (cases "t = []")
      case True
      with None no_end show thesis using that[of "[]" "[]"]
        by (simp add: upsert_text_def marker_places_def index_of_def marked_def)
    next
      case False
      define l where "l = (if ends_with [newline] t then t else t @ [newline])"
      have "split1 s l = None"
        using None assms split1_line[of s t "[]"] by (simp add: l_def plain_markers_def)
      then have "split1 s ((l @ [newline]) @ marked s e body) = Some (l @ [newline], newline # body @ newline # e @ [newline])"
        using assms split1_line[of s l "marked s e body"] by (simp add: plain_markers_def marked_def)
      with None no_end False show thesis
        using that[of "l @ [newline]" "[]"] by (simp add: upsert_text_def marker_places_def index_of_def l_def)
    qed
  qed
qed

lemma upsert_text_idempotent:
  "plain_markers s e body \<Longrightarrow>
   upsert_text s e (marked s e body) (upsert_text s e (marked s e body) t) = upsert_text s e (marked s e body) t"
  by (metis upsert_shape upsert_marked)

definition ended :: "string \<Rightarrow> string" where
  "ended t = (if ends_with [newline] t then t else t @ [newline])"

lemma ended_last: "ended t \<noteq> [] \<and> ended t ! (length (ended t) - 1) = newline"
  by (cases t rule: rev_cases) (auto simp: ended_def ends_with_def starts_with_def nth_append)

lemma remove_upserted:
  assumes "plain_markers s e body" "\<not> has_sub s t" "\<not> has_sub e t" "t \<noteq> []"
  shows "remove_text s e (upsert_text s e (marked s e body) t) = Some (ended t)"
proof -
  have none: "split1 s t = None" "split1 e t = None" using assms by (simp_all add: no_sub)
  then have u: "upsert_text s e (marked s e body) t = (ended t @ [newline]) @ marked s e body @ []"
    using assms(4) by (simp add: upsert_text_def marker_places_def index_of_def ended_def)
  have "split1 s (ended t) = None"
    using none assms split1_line[of s t "[]"] by (simp add: ended_def plain_markers_def)
  then have f: "split1 s ((ended t @ [newline]) @ marked s e body @ []) = Some (ended t @ [newline], newline # body @ newline # e @ [newline])"
    using assms split1_line[of s "ended t" "marked s e body"] by (simp add: plain_markers_def marked_def)
  show ?thesis
    using ended_last[of t] unfolding u
    by (simp add: remove_text_def places_of_marked[OF assms(1) f, simplified] nth_append Suc_lessI)
       (simp add: marked_def numeral_3_eq_3)
qed

section \<open>Line ends\<close>

lemma no_cr_split: "carriage_return \<notin> set t \<Longrightarrow> split1 (carriage_return # x) t = None"
  by (induction t) (auto simp: starts_with_def)

lemma unix_newlines_id: "carriage_return \<notin> set t \<Longrightarrow> unix_newlines t = t"
  by (simp add: unix_newlines_def replace_all.simps[of _ _ t] no_cr_split)

lemma universal_no_cr: "carriage_return \<notin> set (universal_newlines t)"
  by (induction t rule: universal_newlines.induct) (auto simp: carriage_return_def newline_def split: list.splits)

lemma universal_id: "carriage_return \<notin> set t \<Longrightarrow> universal_newlines t = t"
  by (induction t rule: universal_newlines.induct) (auto simp: carriage_return_def)

lemma drop_eol_set: "set (drop_eol t) \<subseteq> set t"
  by (cases t) (auto simp: drop_eol_def drop_char_def split: list.splits if_splits)

lemma upsert_text_set: "set (upsert_text s e sec t) \<subseteq> set t \<union> set sec \<union> {newline}"
  using drop_eol_set[of "drop (_ + length e) t"]
  by (auto simp: upsert_text_def Let_def dest!: in_set_takeD dest: in_set_dropD split: option.splits prod.splits if_splits)

lemma marked_no_cr: "plain_markers s e body \<Longrightarrow> carriage_return \<notin> set (marked s e body)"
  by (auto simp: plain_markers_def marked_def newline_def carriage_return_def)

lemma newline_not_cr: "carriage_return \<noteq> newline"
  by (simp add: carriage_return_def newline_def)

section \<open>Writing a file\<close>

text \<open>The walk does not see what is in the files.\<close>

fun kind_of_node :: "node \<Rightarrow> node" where
  "kind_of_node (FileNode _) = FileNode []"
| "kind_of_node n = n"

definition same_kinds :: "tree \<Rightarrow> tree \<Rightarrow> bool" where
  "same_kinds t t' \<longleftrightarrow> (\<forall>l. map_option kind_of_node (map_of t l) = map_option kind_of_node (map_of t' l))"

lemma kind_of_node_simps [simp]:
  "kind_of_node n = LinkNode ab tg \<longleftrightarrow> n = LinkNode ab tg" "kind_of_node n = DirNode \<longleftrightarrow> n = DirNode"
  "kind_of_node n = FileNode c \<longleftrightarrow> c = [] \<and> (\<exists>d. n = FileNode d)"
  by (cases n; auto)+

lemma same_kinds_dir: "same_kinds t t' \<Longrightarrow> node_at t l = Some DirNode \<longleftrightarrow> node_at t' l = Some DirNode"
  unfolding same_kinds_def node_at_def by (cases "map_of t l"; cases "map_of t' l") (auto dest!: spec[of _ l] sym[of DirNode])

lemma locate_same_kinds: "same_kinds t t' \<Longrightarrow> locate_from t act p rest = locate_from t' act p rest"
proof (induction t act p rest rule: locate_from.induct)
  case (2 t act p n rest)
  show ?case
  proof (cases "node_at t p = Some DirNode \<and> n \<noteq> ''..''")
    case True
    then have d: "node_at t p = Some DirNode" "node_at t' p = Some DirNode" "n \<noteq> ''..''"
      using same_kinds_dir[OF "2.prems", of p] by auto
    have k: "map_option kind_of_node (map_of t (p @ [n])) = map_option kind_of_node (map_of t' (p @ [n]))"
      using "2.prems" by (simp add: same_kinds_def)
    show ?thesis
    proof (cases "map_of t (p @ [n])")
      case None
      with k d show ?thesis by simp
    next
      case (Some m)
      with k obtain m' where m': "map_of t' (p @ [n]) = Some m'" "kind_of_node m' = kind_of_node m"
        by (cases "map_of t' (p @ [n])") auto
      show ?thesis
      proof (cases m)
        case (FileNode c)
        with m' have "\<exists>c'. m' = FileNode c'" by simp
        with 2 d Some FileNode m' show ?thesis by auto
      next
        case DirNode
        with 2 d Some m' show ?thesis by simp
      next
        case (LinkNode ab tg)
        with m' have "map_of t' (p @ [n]) = Some (LinkNode ab tg)" by simp
        then show ?thesis
          using 2 d Some LinkNode by (auto split: sum.splits)
      qed
    qed
  qed (use 2 same_kinds_dir[OF "2.prems", of p] in auto)
qed simp

lemma dict_set_same: "map_of d k = Some v \<Longrightarrow> dict_set k v d = d"
  by (induction d) (auto split: if_splits)

lemma dict_set_twice: "dict_set k w (dict_set k v d) = dict_set k w d"
  by (induction d) auto

text \<open>Where a written file is, and that it can be written again.\<close>

lemma write_InrD:
  assumes "fs_write p c t = Inr t1"
  obtains l where "locate t1 p = Inr l" "l \<noteq> []" "map_of t1 l = Some (FileNode c)"
proof (cases "locate t p")
  case (Inr l)
  with assms obtain d where l: "node_at t l = Some (FileNode d)" "t1 = dict_set l (FileNode c) t"
    by (auto simp: fs_write_def split: option.splits node.splits)
  then have "same_kinds t t1" by (auto simp: same_kinds_def node_at_def split: if_splits)
  then have "locate t1 p = Inr l" using Inr locate_same_kinds by (metis locate_def)
  with l that show thesis by (auto simp: node_at_def split: if_splits)
next
  case (Inl n)
  with assms obtain l where l: "entry_loc t p = Inr l" "node_at t l = None" "t1 = t @ [(l, FileNode c)]"
    by (auto simp: fs_write_def rbind_Inr_iff split: if_splits)
  then have m: "map_of t1 = (map_of t)(l \<mapsto> FileNode c)" "l \<noteq> []"
    using map_of_snoc[of t l] by (auto simp: node_at_def split: if_splits)
  then have "subtree t t1" using l(2) by (auto simp: subtree_def node_at_def split: if_splits)
  with l(1) have "entry_loc t1 p = Inr l" by (rule entry_subtree)
  with m have "locate t1 p = Inr l" by (intro locate_entry[where n = "FileNode c"]) (auto simp: node_at_def)
  with m that show thesis by simp
qed

lemma write_located:
  assumes "locate t p = Inr l" "l \<noteq> []" "map_of t l = Some (FileNode c)"
  shows "fs_write p c' t = Inr (dict_set l (FileNode c') t)" "path_exists t p" "fs_read p t = Inr c"
  using assms by (auto simp: fs_write_def path_exists_def stat_def fs_read_def node_at_def)

section \<open>The operations\<close>

lemma strip_empty: "py_strip t = [] \<longleftrightarrow> list_all py_space t"
proof -
  have "list_all py_space (dropWhile py_space t) \<longleftrightarrow> list_all py_space t" by (induction t) auto
  then show ?thesis by (simp add: py_strip_def list_all_iff)
qed

lemma on_tree_Inr_iff: "on_tree f t = (Inr u, t') \<longleftrightarrow> f t = Inr t'"
  by (auto simp: on_tree_def split: sum.splits)

lemma read_no_cr: "read_text e p = Inr c \<Longrightarrow> carriage_return \<notin> set c"
  using universal_no_cr by (auto simp: read_text_def split: sum.splits)

text \<open>What is written when the markers are plain and the file is no rule file.\<close>

lemma upsert_InrD:
  assumes "upsert_context_section e (Some f) plan t = (Inr (Some p), t1)"
    "resolve_context_markers (at_tree e t) = (ms, me)" "plain_markers ms me (build_context_section plan)" "\<not> is_mdc p"
  obtains t0 old where "p = context_path e f" "f \<noteq> ''''" "carriage_return \<notin> set old"
    "there (at_tree e t) p \<Longrightarrow> read_text (at_tree e t) p = Inr old"
    "fs_write p (upsert_text ms me (marked ms me (build_context_section plan)) old) t0 = Inr t1"
proof -
  let ?sec = "marked ms me (build_context_section plan)"
  have sec: "carriage_return \<notin> set ?sec" using assms(3) by (rule marked_no_cr)
  have f: "p = context_path e f" "f \<noteq> ''''"
    using assms(1) by (auto simp: upsert_context_section_def sbind_Inr_iff sthen_Inr_iff Let_def at_tree_def context_path_def
        split: if_splits prod.splits)
  show thesis
  proof (cases "there (at_tree e t) p")
    case True
    with assms f obtain old where o: "read_text (at_tree e t) p = Inr old"
      "fs_write p (unix_newlines (upsert_text ms me ?sec old)) t = Inr t1"
      by (auto simp: upsert_context_section_def sbind_Inr_iff sthen_Inr_iff on_tree_Inr_iff Let_def for_mdc_def
          context_path_def at_tree_def split: if_splits)
    moreover have "carriage_return \<notin> set (upsert_text ms me ?sec old)"
      using upsert_text_set[of ms me ?sec old] sec read_no_cr[OF o(1)] newline_not_cr by auto
    ultimately show thesis using that[of old t] f read_no_cr[OF o(1)] by (simp add: unix_newlines_id)
  next
    case False
    with assms f sec obtain t0 where "fs_write p ?sec t0 = Inr t1"
      by (auto simp: upsert_context_section_def sbind_Inr_iff sthen_Inr_iff on_tree_Inr_iff Let_def for_mdc_def
          unix_newlines_id context_path_def at_tree_def split: if_splits)
    moreover have "upsert_text ms me ?sec [] = ?sec"
      using assms(3) by (cases ms; cases me) (simp_all add: plain_markers_def upsert_text_def marker_places_def index_of_def)
    ultimately show thesis using that[of "[]" t0] False f by simp
  qed
qed

text \<open>C19. Writing the section a second time, with the same settings, returns the same path and changes nothing; and in
  the file the first start marker of all is the one of the section just written. This is for markers that are plain
  (one line each, the end marker not within the start marker or the section's text), for an agent's file that is no
  rule file (\<open>.mdc\<close>), with the extension enabled, and when writing the file changes nothing that the settings files
  say. What follows the section is the user's, and may hold markers of its own.\<close>

theorem section_is_written_once:
  assumes "upsert_context_section e (Some f) plan t = (Inr (Some p), t1)"
    "resolve_context_markers (at_tree e t) = (ms, me)" "resolve_context_markers (at_tree e t1) = (ms, me)"
    "agent_context_extension_enabled (at_tree e t1)"
    "plain_markers ms me (build_context_section plan)" "\<not> is_mdc p"
  shows "upsert_context_section e (Some f) plan t1 = (Inr (Some p), t1) \<and>
     (\<exists>a b r. read_text (at_tree e t1) p = Inr (a @ marked ms me (build_context_section plan) @ b) \<and>
        split1 ms (a @ marked ms me (build_context_section plan) @ b) = Some (a, r))"
proof -
  let ?sec = "marked ms me (build_context_section plan)"
  obtain t0 old where w: "p = context_path e f" "f \<noteq> ''''" "carriage_return \<notin> set old"
    "fs_write p (upsert_text ms me ?sec old) t0 = Inr t1"
    by (rule upsert_InrD[OF assms(1,2,5,6)]) blast
  define new where "new = upsert_text ms me ?sec old"
  have cr: "carriage_return \<notin> set new"
    using upsert_text_set[of ms me ?sec old] marked_no_cr[OF assms(5)] w(3) newline_not_cr by (auto simp: new_def)
  obtain l where l: "locate t1 p = Inr l" "l \<noteq> []" "map_of t1 l = Some (FileNode new)"
    using write_InrD[OF w(4)] by (auto simp: new_def)
  have r: "read_text (at_tree e t1) p = Inr new" "there (at_tree e t1) p"
    using write_located[OF l] universal_id[OF cr] by (simp_all add: read_text_def there_def at_tree_def)
  have "upsert_text ms me ?sec new = new" using upsert_text_idempotent[OF assms(5)] by (simp add: new_def)
  then have "upsert_context_section e (Some f) plan t1 = (Inr (Some p), t1)"
    using w(1,2) r assms(3,4,6) write_located(1)[OF l, of new] dict_set_same[OF l(3)] unix_newlines_id[OF cr]
    by (simp add: upsert_context_section_def sbind_sget Let_def sbind_slift sbind_assoc sthen_def on_tree_def for_mdc_def
        svc_defs context_path_def at_tree_def)
  moreover have "\<exists>a b r. new = a @ ?sec @ b \<and> split1 ms (a @ ?sec @ b) = Some (a, r)"
    using upsert_shape[OF assms(5), of old] unfolding new_def by metis
  ultimately show ?thesis using r(1) by auto
qed

text \<open>C21. Removing the section undoes writing it: of a file that had text and none of the markers before, the text is
  left, with a line end behind its last line. This is for plain markers, for an agent's file that is no rule file
  (\<open>.mdc\<close>), with the extension enabled, and when writing the file changes nothing that the settings files say.\<close>

theorem removing_undoes_writing:
  assumes "upsert_context_section e (Some f) plan t = (Inr (Some p), t1)"
    "resolve_context_markers (at_tree e t) = (ms, me)" "resolve_context_markers (at_tree e t1) = (ms, me)"
    "agent_context_extension_enabled (at_tree e t1)"
    "plain_markers ms me (build_context_section plan)" "\<not> is_mdc p"
    "read_text (at_tree e t) p = Inr old" "py_strip old \<noteq> []" "\<not> has_sub ms old" "\<not> has_sub me old"
  shows "\<exists>t2. remove_context_section e (Some f) t1 = (Inr True, t2) \<and> read_text (at_tree e t2) p = Inr (ended old)"
proof -
  let ?sec = "marked ms me (build_context_section plan)"
  have ex: "there (at_tree e t) p"
    using assms(7) by (auto simp: read_text_def there_def fs_read_def path_exists_def stat_def rbind_Inr_iff
        split: sum.splits option.splits)
  obtain t0 where w: "p = context_path e f" "f \<noteq> ''''" "fs_write p (upsert_text ms me ?sec old) t0 = Inr t1"
    using upsert_InrD[OF assms(1,2,5,6)] ex assms(7) by (metis sum.inject(2))
  define new where "new = upsert_text ms me ?sec old"
  have o: "carriage_return \<notin> set old" "old \<noteq> []" using read_no_cr[OF assms(7)] assms(8) by (auto simp: py_strip_def)
  have cr: "carriage_return \<notin> set new" "carriage_return \<notin> set (ended old)"
    using upsert_text_set[of ms me ?sec old] marked_no_cr[OF assms(5)] o(1) newline_not_cr
    by (auto simp: new_def ended_def)
  obtain l where l: "locate t1 p = Inr l" "l \<noteq> []" "map_of t1 l = Some (FileNode new)"
    using write_InrD[OF w(3)] by (auto simp: new_def)
  have r: "read_text (at_tree e t1) p = Inr new" "there (at_tree e t1) p"
    using write_located[OF l] universal_id[OF cr(1)] by (simp_all add: read_text_def there_def at_tree_def)
  have rm: "remove_text ms me new = Some (ended old)"
    using remove_upserted assms(5,9,10) o(2) by (simp add: new_def)
  have "py_strip (ended old) \<noteq> []" using assms(8) by (auto simp: strip_empty ended_def split: if_splits)
  then have "remove_context_section e (Some f) t1 = (Inr True, dict_set l (FileNode (ended old)) t1)"
    using w(1,2) r rm assms(3,4,6) write_located(1)[OF l, of "ended old"] unix_newlines_id[OF cr(2)]
    by (simp add: remove_context_section_def sbind_sget Let_def sbind_slift on_tree_def svc_defs context_path_def at_tree_def)
  moreover obtain l2 where "locate (dict_set l (FileNode (ended old)) t1) p = Inr l2" "l2 \<noteq> []"
    "map_of (dict_set l (FileNode (ended old)) t1) l2 = Some (FileNode (ended old))"
    using write_InrD[OF write_located(1)[OF l, of "ended old"]] by blast
  from write_located(3)[OF this]
  have "read_text (at_tree e (dict_set l (FileNode (ended old)) t1)) p = Inr (ended old)"
    using universal_id[OF cr(2)] by (simp add: read_text_def at_tree_def)
  ultimately show ?thesis by blast
qed

section \<open>Where text is lost\<close>

text \<open>
  The two markers may be configured to be equal. Then the end marker is found where the start marker is, the
  section counts as unfinished, and writing it cuts off everything behind it.
\<close>

theorem equal_markers_lose_the_rest:
  assumes "split1 m t = Some (a, b)"
  shows "upsert_text m m sec t = a @ sec"
proof -
  have t: "t = a @ m @ b" using split1_Some[OF assms] .
  then have "marker_places m m t = (Some (length a), Some (length a))"
    using assms by (simp add: marker_places_def index_of_def Let_def)
  then show ?thesis by (simp add: upsert_text_def t)
qed

text \<open>
  A rule file counts as empty front matter when it begins with a line of dashes and ends with one, whatever
  is between them: removing the section then deletes the file and the user's text with it.
\<close>

lemma closes_blank_append: "list_all py_space w \<Longrightarrow> closes_blank (u @ newline # ''---'' @ w)"
  by (induction u) (auto simp: starts_with_def)

theorem rule_file_with_text_is_deleted:
  assumes "read_text (at_tree e t) p = Inr old" "p = context_path e f" "f \<noteq> ''''" "is_mdc p"
    "resolve_context_markers (at_tree e t) = (ms, me)" "agent_context_extension_enabled (at_tree e t)"
    "remove_text ms me old = Some (''---'' @ [newline] @ text_of_user @ [newline] @ ''---'' @ [newline])"
    "carriage_return \<notin> set text_of_user"
  shows "remove_context_section e (Some f) t = sthen (on_tree (fs_unlink p)) (sret True) t"
proof -
  let ?r = "''---'' @ [newline] @ text_of_user @ [newline] @ ''---'' @ [newline]"
  have "frontmatter_only ?r"
    using closes_blank_append[of "[newline]" text_of_user]
    by (simp add: frontmatter_only_def starts_with_def py_space_def newline_def code_of_def)
  moreover have "unix_newlines ?r = ?r"
    using assms(8) newline_not_cr by (intro unix_newlines_id) (auto simp: carriage_return_def)
  moreover have "there (at_tree e t) p"
    using assms(1) by (auto simp: read_text_def there_def fs_read_def path_exists_def stat_def rbind_Inr_iff
        split: sum.splits option.splits)
  ultimately show ?thesis
    using assms by (simp add: remove_context_section_def sbind_sget Let_def sbind_slift sthen_def context_path_def at_tree_def)
qed

section \<open>A project\<close>

definition plain_tree :: tree where
  "plain_tree = [([''p''], DirNode), ([''p'', ''AGENTS.md''], FileNode ''Be brief.'')]"

definition plain_project :: resolver where
  "plain_project = \<lparr>pr_root = [''p''], pr_pkg = [''x''], pr_tree = [], pr_json = (\<lambda>_. Inl []), pr_yaml = (\<lambda>_. Inl []),
     pr_dump = (\<lambda>_. []), pr_version_ok = (\<lambda>_. Inr True)\<rparr>"

definition plain_section :: string where
  "plain_section = marked CONTEXT_MARKER_START CONTEXT_MARKER_END (build_context_section '''')"

definition plain_after :: tree where
  "plain_after = [([''p''], DirNode), ([''p'', ''AGENTS.md''], FileNode (''Be brief.'' @ [newline, newline] @ plain_section))]"

lemma plain_run:
  "upsert_context_section plain_project (Some ''AGENTS.md'') '''' plain_tree = (Inr (Some [''p'', ''AGENTS.md'']), plain_after)"
  by code_simp

lemma plain_settings:
  "resolve_context_markers (at_tree plain_project plain_tree) = (CONTEXT_MARKER_START, CONTEXT_MARKER_END)"
  "resolve_context_markers (at_tree plain_project plain_after) = (CONTEXT_MARKER_START, CONTEXT_MARKER_END)"
  "agent_context_extension_enabled (at_tree plain_project plain_after)"
  "plain_markers CONTEXT_MARKER_START CONTEXT_MARKER_END (build_context_section '''')" "\<not> is_mdc [''p'', ''AGENTS.md'']"
  by code_simp+

theorem section_is_written_once_witness:
  "upsert_context_section plain_project (Some ''AGENTS.md'') '''' plain_after = (Inr (Some [''p'', ''AGENTS.md'']), plain_after)"
  using section_is_written_once[OF plain_run plain_settings] by blast

theorem removing_undoes_writing_witness:
  "\<exists>t2. remove_context_section plain_project (Some ''AGENTS.md'') plain_after = (Inr True, t2) \<and>
     read_text (at_tree plain_project t2) [''p'', ''AGENTS.md''] = Inr (''Be brief.'' @ [newline])"
proof -
  have "read_text (at_tree plain_project plain_tree) [''p'', ''AGENTS.md''] = Inr ''Be brief.''"
    "py_strip ''Be brief.'' \<noteq> []" "\<not> has_sub CONTEXT_MARKER_START ''Be brief.''" "\<not> has_sub CONTEXT_MARKER_END ''Be brief.''"
    by code_simp+
  from removing_undoes_writing[OF plain_run plain_settings this]
  show ?thesis by (simp add: ended_def ends_with_def starts_with_def newline_def)
qed

end
