(* ===== verification/CommandText.thy ===== *)
theory CommandText
  imports ContextSection Hooks
begin

text \<open>
  The text of command files: what \<open>CommandRegistrar\<close> (\<open>specify_cli/agents.py\<close>) and the integration classes
  (\<open>specify_cli/integrations/base.py\<close>) make of a template before it is written for an agent. Placeholders,
  references to commands and paths are replaced, the front matter is taken off, and the result is printed as
  Markdown, TOML, YAML or a skill. The YAML printer and parser are those of the resolver's record; the regular
  expressions are written out as scanners.
\<close>

section \<open>References to commands\<close>

definition ref_char :: "char \<Rightarrow> bool" where
  "ref_char c \<longleftrightarrow> ascii_alnum c \<or> c = CHR ''-'' \<or> c = CHR ''_''"

text \<open>The longest text of parts joined by dots at the front; \<open>fresh\<close> at the beginning of a part.\<close>

fun dotted :: "bool \<Rightarrow> string \<Rightarrow> string" where
  "dotted fresh [] = []"
| "dotted fresh (c # cs) =
     (if ref_char c then c # dotted False cs
      else if c = CHR ''.'' \<and> \<not> fresh \<and> (case cs of [] \<Rightarrow> False | d # _ \<Rightarrow> ref_char d) then c # dotted True cs
      else [])"

text \<open>\<open>\b\<close> between two characters.\<close>

definition word_at :: "string \<Rightarrow> bool" where
  "word_at t \<longleftrightarrow> (case t of [] \<Rightarrow> False | c # _ \<Rightarrow> word_char c)"

text \<open>Shortened until it ends at the border of a word: the reversed text and what is behind it.\<close>

fun shorten :: "string \<Rightarrow> string \<Rightarrow> string option" where
  "shorten [] rest = None"
| "shorten (c # cs) rest =
     (if c \<noteq> CHR ''.'' \<and> word_char c \<noteq> word_at rest then Some (rev (c # cs)) else shorten cs (c # rest))"

text \<open>What \<open>speckit\.[A-Za-z0-9-_]+(?:\.[A-Za-z0-9-_]+)*\b\<close> matches at the front.\<close>

definition speckit_ref :: "string \<Rightarrow> string option" where
  "speckit_ref t =
     (if \<not> starts_with ''speckit.'' t then None
      else let r = dotted True (drop 8 t)
        in map_option (\<lambda>m. ''speckit.'' @ m) (shorten (rev r) (drop (8 + length r) t)))"

lemma dotted_prefix: "take (length (dotted fresh t)) t = dotted fresh t"
  by (induction fresh t rule: dotted.induct) auto

lemma speckit_ref_nonempty: "speckit_ref t = Some m \<Longrightarrow> m \<noteq> []"
  by (auto simp: speckit_ref_def Let_def split: if_splits)

function hyphenate_from :: "bool \<Rightarrow> string \<Rightarrow> string" where
  "hyphenate_from joined [] = []"
| "hyphenate_from joined (c # cs) =
     (case if joined then None else speckit_ref (c # cs) of
        Some m \<Rightarrow> dots_to_hyphens m @ hyphenate_from (word_char (last m)) (drop (length m) (c # cs))
      | None \<Rightarrow> c # hyphenate_from (word_char c) cs)"
  by pat_completeness auto
termination
  by (relation "measure (\<lambda>(_, t). length t)") (auto dest: speckit_ref_nonempty split: if_splits)

definition hyphenate_body_refs :: "string \<Rightarrow> string" where
  "hyphenate_body_refs t = hyphenate_from False t"

fun hyphenate_frontmatter_refs :: "pyval \<Rightarrow> pyval" where
  "hyphenate_frontmatter_refs (PStr t) = PStr (hyphenate_body_refs t)"
| "hyphenate_frontmatter_refs (PList vs) = PList (map hyphenate_frontmatter_refs vs)"
| "hyphenate_frontmatter_refs (PDict d) = PDict (map (\<lambda>(k, v). (k, hyphenate_frontmatter_refs v)) d)"
| "hyphenate_frontmatter_refs v = v"

text \<open>\<open>__SPECKIT_COMMAND_([A-Z][A-Z0-9_]*)__\<close> at the front: the name and the text behind.\<close>

definition token_upper :: "char \<Rightarrow> bool" where
  "token_upper c \<longleftrightarrow> (let n = code_of c in 65 \<le> n \<and> n \<le> 90)"

definition token_char :: "char \<Rightarrow> bool" where
  "token_char c \<longleftrightarrow> token_upper c \<or> is_digit c \<or> c = CHR ''_''"

definition token_prefix :: string where
  "token_prefix = ''__SPECKIT_COMMAND_''"

fun longest_token :: "nat \<Rightarrow> string \<Rightarrow> nat option" where
  "longest_token 0 t = None"
| "longest_token (Suc k) t = (if starts_with ''__'' (drop (Suc k) t) then Some (Suc k) else longest_token k t)"

definition command_token :: "string \<Rightarrow> (string \<times> string) option" where
  "command_token t =
     (if \<not> starts_with token_prefix t then None
      else let r = drop (length token_prefix) t
        in if r = [] \<or> \<not> token_upper (hd r) then None
          else map_option (\<lambda>k. (take k r, drop (k + 2) r)) (longest_token (length (takeWhile token_char r)) r))"

lemma command_token_shorter: "command_token t = Some (n, r) \<Longrightarrow> length r < length t"
  by (auto simp: command_token_def Let_def token_prefix_def split: if_splits)

definition invocation_of :: "string \<Rightarrow> string \<Rightarrow> string" where
  "invocation_of sep name = ''/speckit'' @ sep @ replace_all ''_'' sep (py_lower name)"

function resolve_command_refs :: "string \<Rightarrow> string \<Rightarrow> string" where
  "resolve_command_refs sep t =
     (case t of
        [] \<Rightarrow> []
      | c # cs \<Rightarrow>
          (case command_token t of
             Some (name, rest) \<Rightarrow> invocation_of sep name @ resolve_command_refs sep rest
           | None \<Rightarrow> c # resolve_command_refs sep cs))"
  by pat_completeness auto
termination
  by (relation "measure (\<lambda>(_, t). length t)") (auto dest: command_token_shorter)

declare resolve_command_refs.simps [simp del]

section \<open>Front matter\<close>

text \<open>\<open>parse_frontmatter\<close>: the dictionary and the body.\<close>

definition parse_frontmatter :: "resolver \<Rightarrow> string \<Rightarrow> (pyval \<times> pyval) list \<times> string" where
  "parse_frontmatter e content =
     (if \<not> starts_with ''---'' content then ([], content)
      else case split1 ''---'' (drop 3 content) of
          None \<Rightarrow> ([], content)
        | Some (fm, body) \<Rightarrow>
            (case pr_yaml e (py_strip fm) of Inr (PDict d) \<Rightarrow> d | _ \<Rightarrow> [], py_strip body))"

definition render_frontmatter :: "resolver \<Rightarrow> (pyval \<times> pyval) list \<Rightarrow> string" where
  "render_frontmatter e fm =
     (if fm = [] then [] else ''---'' @ [newline] @ pr_dump e fm @ ''---'' @ [newline])"

text \<open>\<open>_split_frontmatter\<close> of the TOML and YAML integrations, and the values read from the front matter.\<close>

definition split_off_frontmatter :: "string \<Rightarrow> string \<times> string" where
  "split_off_frontmatter content =
     (case fenced content of None \<Rightarrow> ([], content) | Some (_, middle, _, rest) \<Rightarrow> (concat middle, concat rest))"

definition extract_frontmatter :: "resolver \<Rightarrow> string \<Rightarrow> (pyval \<times> pyval) list" where
  "extract_frontmatter e content =
     (case fenced content of
        None \<Rightarrow> []
      | Some (_, middle, _, _) \<Rightarrow> (case pr_yaml e (concat middle) of Inr (PDict d) \<Rightarrow> d | _ \<Rightarrow> []))"

definition extract_description :: "resolver \<Rightarrow> string \<Rightarrow> string" where
  "extract_description e content =
     (case fst (split_off_frontmatter content) of
        [] \<Rightarrow> []
      | fm \<Rightarrow> (case pr_yaml e fm of
            Inr (PDict d) \<Rightarrow> (case get_or d ''description'' (PStr []) of PStr s \<Rightarrow> s | _ \<Rightarrow> [])
          | _ \<Rightarrow> []))"

section \<open>Paths\<close>

definition boundary_char :: "char \<Rightarrow> bool" where
  "boundary_char c \<longleftrightarrow> py_space c \<or> c = CHR 0x60 \<or> c = dquote_char \<or> c = quote_char \<or> c = CHR ''(''"

text \<open>\<open>(?:\.?/)?name/\<close> at the front: the text behind.\<close>

definition after_dir :: "string \<Rightarrow> string \<Rightarrow> string option" where
  "after_dir dir t =
     (if starts_with (''./'' @ dir) t then Some (drop (2 + length dir) t)
      else if starts_with (''/'' @ dir) t then Some (drop (1 + length dir) t)
      else if starts_with dir t then Some (drop (length dir) t)
      else None)"

lemma after_dir_shorter: "after_dir dir t = Some r \<Longrightarrow> length r \<le> length t"
  by (auto simp: after_dir_def split: if_splits)

function rewrite_dir_in :: "string \<Rightarrow> string \<Rightarrow> string" where
  "rewrite_dir_in dir t =
     (case t of
        [] \<Rightarrow> []
      | c # cs \<Rightarrow>
          (case if boundary_char c then after_dir dir cs else None of
             Some r \<Rightarrow> c # ''.specify/'' @ dir @ rewrite_dir_in dir r
           | None \<Rightarrow> c # rewrite_dir_in dir cs))"
  by pat_completeness auto
termination
  by (relation "measure (\<lambda>(_, t). length t)") (auto dest!: after_dir_shorter split: if_splits)

declare rewrite_dir_in.simps [simp del]

definition rewrite_dir :: "string \<Rightarrow> string \<Rightarrow> string" where
  "rewrite_dir dir t =
     (case after_dir dir t of Some r \<Rightarrow> ''.specify/'' @ dir @ rewrite_dir_in dir r | None \<Rightarrow> rewrite_dir_in dir t)"

definition rewrite_project_relative_paths :: "string \<Rightarrow> string" where
  "rewrite_project_relative_paths t =
     (let t = replace_all ''../../memory/'' ''.specify/memory/'' t;
          t = replace_all ''../../scripts/'' ''.specify/scripts/'' t;
          t = replace_all ''../../templates/'' ''.specify/templates/'' t;
          t = rewrite_dir ''templates/'' (rewrite_dir ''scripts/'' (rewrite_dir ''memory/'' t))
      in replace_all ''.specify.specify/'' ''.specify/'' (replace_all ''.specify/.specify/'' ''.specify/'' t))"

definition rewrite_script :: "pyval \<times> pyval \<Rightarrow> pyval \<times> pyval" where
  "rewrite_script x = (case x of (k, PStr t) \<Rightarrow> (k, PStr (rewrite_project_relative_paths t)) | (k, v) \<Rightarrow> (k, v))"

definition adjust_script_paths :: "(pyval \<times> pyval) list \<Rightarrow> (pyval \<times> pyval) list" where
  "adjust_script_paths fm =
     (case get_none fm ''scripts'' of
        PDict d \<Rightarrow> assoc_set (PStr ''scripts'') (PDict (map rewrite_script d)) fm
      | _ \<Rightarrow> fm)"

section \<open>Placeholders of a command\<close>

definition init_options_of :: "resolver \<Rightarrow> (pyval \<times> pyval) list" where
  "init_options_of e = load_init_options (json_at e (pr_root e @ [''.specify'', ''init-options.json'']))"

text \<open>\<open>_load_agent_context_config\<close>; of its defaults only the empty \<open>context_file\<close> is read here.\<close>

definition agent_context_config :: "resolver \<Rightarrow> (pyval \<times> pyval) list" where
  "agent_context_config e =
     (case yaml_at e (extensions_dir e @ [''agent-context'', ''agent-context-config.yml'']) of
        YamlValue (PDict d) \<Rightarrow> d
      | _ \<Rightarrow> [(PStr ''context_file'', PStr []),
          (PStr ''context_markers'', PDict (obj [(''start'', PStr CONTEXT_MARKER_START), (''end'', PStr CONTEXT_MARKER_END)]))])"

definition fallback_variant :: "bool \<Rightarrow> (pyval \<times> pyval) list \<Rightarrow> pyval" where
  "fallback_variant windows scripts =
     (let first = (if windows then ''ps'' else ''sh''); second = (if windows then ''sh'' else ''ps'') in
      if has_field scripts first then PStr first
      else if has_field scripts second then PStr second
      else (case scripts of [] \<Rightarrow> PNone | (k, _) # _ \<Rightarrow> k))"

definition script_command_of :: "bool \<Rightarrow> (pyval \<times> pyval) list \<Rightarrow> (pyval \<times> pyval) list \<Rightarrow> pyval py" where
  "script_command_of windows opts scripts =
     rbind (in_names [''sh'', ''ps''] (get_none opts ''script'')) (\<lambda>known.
     let variant = (if known then get_none opts ''script'' else fallback_variant windows scripts)
     in Inr (if truthy variant then (case assoc_get scripts variant of Some v \<Rightarrow> v | None \<Rightarrow> PNone) else PNone))"

definition context_file_of :: "resolver \<Rightarrow> pyval" where
  "context_file_of e =
     (let v = get_none (agent_context_config e) ''context_file'' in
      if truthy v then v else py_or (get_none (init_options_of e) ''context_file'') (PStr []))"

definition resolve_skill_placeholders ::
  "resolver \<Rightarrow> bool \<Rightarrow> string \<Rightarrow> (pyval \<times> pyval) list \<Rightarrow> string \<Rightarrow> string py" where
  "resolve_skill_placeholders e windows agent fm body =
     rbind (script_command_of windows (init_options_of e) (dict_of (get_none fm ''scripts''))) (\<lambda>script.
     rbind (if \<not> truthy script then Inr body
            else case script of
                PStr s \<Rightarrow> Inr (replace_all ''{SCRIPT}'' (replace_all ''{ARGS}'' ''$ARGUMENTS'' s) body)
              | _ \<Rightarrow> Inl attribute_error) (\<lambda>body.
     case context_file_of e of
       PStr file \<Rightarrow> Inr (rewrite_project_relative_paths (replace_all ''__CONTEXT_FILE__'' file
           (replace_all ''__AGENT__'' agent (replace_all ''{ARGS}'' ''$ARGUMENTS'' body))))
     | _ \<Rightarrow> Inl type_error))"

section \<open>Printing a command\<close>

definition line_of :: "string \<Rightarrow> string" where
  "line_of t = t @ [newline]"

definition convert_argument_placeholder :: "string \<Rightarrow> string \<Rightarrow> string \<Rightarrow> string" where
  "convert_argument_placeholder content from_text to_text = replace_all from_text to_text content"

definition render_markdown_command ::
  "resolver \<Rightarrow> (pyval \<times> pyval) list \<Rightarrow> string \<Rightarrow> string \<Rightarrow> string option \<Rightarrow> string" where
  "render_markdown_command e fm body source_id note =
     render_frontmatter e fm @ [newline] @
     (case note of Some t \<Rightarrow> t | None \<Rightarrow> [newline] @ ''<!-- Source: '' @ source_id @ '' -->'' @ [newline]) @ body"

definition backslash :: char where "backslash = CHR 0x5C"
definition tab :: char where "tab = CHR 0x09"

definition three_quotes :: string where "three_quotes = replicate 3 dquote_char"
definition three_apostrophes :: string where "three_apostrophes = replicate 3 quote_char"

definition in_dquotes :: "string \<Rightarrow> string" where
  "in_dquotes t = dquote_char # t @ [dquote_char]"

text \<open>\<open>replace\<close> of a single character, and backslashes and quotes escaped.\<close>

definition replace_char :: "char \<Rightarrow> string \<Rightarrow> string \<Rightarrow> string" where
  "replace_char c new t = replace_all [c] new t"

definition escape_quotes :: "string \<Rightarrow> string" where
  "escape_quotes t = replace_char dquote_char [backslash, dquote_char] (replace_char backslash [backslash, backslash] t)"

definition render_basic_toml_string :: "string \<Rightarrow> string" where
  "render_basic_toml_string t =
     in_dquotes (replace_char tab (backslash # ''t'')
       (replace_char carriage_return (backslash # ''r'')
       (replace_char newline (backslash # ''n'') (escape_quotes t))))"

text \<open>The body of \<open>CommandRegistrar.render_toml_command\<close>, as the value of a key.\<close>

definition registrar_prompt :: "string \<Rightarrow> string" where
  "registrar_prompt body =
     (if \<not> has_sub three_quotes body then three_quotes @ [newline] @ body @ [newline] @ three_quotes
      else if \<not> has_sub three_apostrophes body then three_apostrophes @ [newline] @ body @ [newline] @ three_apostrophes
      else render_basic_toml_string body)"

definition render_toml_command :: "(pyval \<times> pyval) list \<Rightarrow> string \<Rightarrow> string \<Rightarrow> string py" where
  "render_toml_command fm body source_id =
     rbind (case field fm ''description'' of
         None \<Rightarrow> Inr []
       | Some (PStr d) \<Rightarrow> Inr (line_of (''description = '' @ render_basic_toml_string d) @ [newline])
       | Some _ \<Rightarrow> Inl attribute_error) (\<lambda>description.
     Inr (description @ line_of (''# Source: '' @ source_id) @ [newline] @ ''prompt = '' @ registrar_prompt body))"

text \<open>\<open>TomlIntegration._render_toml_string\<close> and \<open>_render_toml\<close>.\<close>

definition render_toml_string :: "string \<Rightarrow> string" where
  "render_toml_string t =
     (let escaped = replace_char backslash [backslash, backslash] t in
      if newline \<notin> set t \<and> carriage_return \<notin> set t then in_dquotes (escape_quotes t)
      else if \<not> has_sub three_quotes escaped then
        (if ends_with [dquote_char] escaped
         then three_quotes @ [newline] @ escaped @ [backslash, newline] @ three_quotes
         else three_quotes @ [newline] @ escaped @ three_quotes)
      else if \<not> has_sub three_apostrophes t \<and> \<not> ends_with [quote_char] t
        then three_apostrophes @ [newline] @ t @ three_apostrophes
      else render_basic_toml_string t)"

definition rstrip_newlines :: "string \<Rightarrow> string" where
  "rstrip_newlines t = rev (dropWhile (\<lambda>c. c = newline) (rev t))"

definition render_toml :: "string \<Rightarrow> string \<Rightarrow> string" where
  "render_toml description body =
     (if description = [] then [] else line_of (''description = '' @ render_toml_string description) @ [newline]) @
     line_of (''prompt = '' @ render_toml_string (rstrip_newlines body))"

text \<open>
  Titles. \<open>str.title\<close> is written out for the letters whose other case is one letter of Latin-1.
\<close>

definition has_case :: "char \<Rightarrow> bool" where
  "has_case c \<longleftrightarrow> (let n = code_of c in (65 \<le> n \<and> n \<le> 90) \<or> (97 \<le> n \<and> n \<le> 122) \<or> (192 \<le> n \<and> n \<noteq> 215 \<and> n \<noteq> 247) \<or> n \<in> {170, 181, 186})"

definition title_char :: "char \<Rightarrow> char" where
  "title_char c = (let n = code_of c in
     if (97 \<le> n \<and> n \<le> 122) \<or> (224 \<le> n \<and> n \<le> 254 \<and> n \<noteq> 247) then char_of (n - 32) else c)"

fun title_from :: "bool \<Rightarrow> string \<Rightarrow> string" where
  "title_from cased [] = []"
| "title_from cased (c # cs) = (if cased then lower_char c else title_char c) # title_from (has_case c) cs"

definition human_title :: "string \<Rightarrow> string" where
  "human_title i =
     title_from False (map (\<lambda>c. if c = CHR ''.'' \<or> c = CHR ''-'' \<or> c = CHR ''_'' then CHR '' '' else c)
       (if starts_with ''speckit.'' i then drop 8 i else i))"

definition value_text :: "pyval \<Rightarrow> string" where
  "value_text v = (case v of PStr t \<Rightarrow> t | PNone \<Rightarrow> [] | _ \<Rightarrow> py_str v)"

text \<open>\<open>Path(text).stem\<close>.\<close>

definition name_stem :: "string \<Rightarrow> string" where
  "name_stem n =
     (case dropWhile (\<lambda>c. c \<noteq> CHR ''.'') (rev n) of
        [] \<Rightarrow> n
      | _ # r \<Rightarrow> if r = [] \<or> last n = CHR ''.'' then n else rev r)"

definition path_stem :: "string \<Rightarrow> string" where
  "path_stem t = (case rev (path_parts (parse_path t)) of [] \<Rightarrow> [] | n # _ \<Rightarrow> name_stem n)"

definition build_yaml_header :: "string \<Rightarrow> string \<Rightarrow> (pyval \<times> pyval) list" where
  "build_yaml_header title description =
     obj [(''version'', PStr ''1.0.0''), (''title'', PStr title), (''description'', PStr description),
       (''author'', PDict (obj [(''contact'', PStr ''spec-kit'')])),
       (''parameters'', PList [PDict (obj [(''key'', PStr ''args''), (''input_type'', PStr ''string''),
          (''requirement'', PStr ''optional''), (''default'', PStr []), (''description'', PStr ''User input passed to the command.'')])]),
       (''extensions'', PList [PDict (obj [(''type'', PStr ''builtin''), (''name'', PStr ''developer'')])]),
       (''activities'', PList [PStr ''Spec-Driven Development''])]"

definition render_yaml :: "resolver \<Rightarrow> string \<Rightarrow> string \<Rightarrow> string \<Rightarrow> string \<Rightarrow> string" where
  "render_yaml e title description body source_id =
     join_with [newline]
       [py_strip (pr_dump e (build_yaml_header title description)), ''prompt: |'',
        join_with [newline] (map (\<lambda>l. ''  '' @ l) (split_on newline body)), [], ''# Source: '' @ source_id] @ [newline]"

definition title_value :: "(pyval \<times> pyval) list \<Rightarrow> string" where
  "title_value fm = value_text (py_or (get_or fm ''title'' (PStr [])) (get_or fm ''name'' (PStr [])))"

definition first_nonempty :: "string list \<Rightarrow> string" where
  "first_nonempty ts = (case List.find (\<lambda>t. t \<noteq> []) ts of Some t \<Rightarrow> t | None \<Rightarrow> [])"

definition render_yaml_command :: "resolver \<Rightarrow> (pyval \<times> pyval) list \<Rightarrow> string \<Rightarrow> string \<Rightarrow> string \<Rightarrow> string" where
  "render_yaml_command e fm body source_id cmd_name =
     render_yaml e
       (first_nonempty [title_value fm, human_title cmd_name, human_title (path_stem source_id), ''Command''])
       (value_text (get_or fm ''description'' (PStr []))) body source_id"

definition skill_compatibility :: string where
  "skill_compatibility = ''Requires spec-kit project structure with .specify/ directory''"

definition build_skill_frontmatter :: "string \<Rightarrow> pyval \<Rightarrow> string \<Rightarrow> (pyval \<times> pyval) list" where
  "build_skill_frontmatter skill_name description source =
     obj [(''name'', PStr skill_name), (''description'', description), (''compatibility'', PStr skill_compatibility),
       (''metadata'', PDict (obj [(''author'', PStr ''github-spec-kit''), (''source'', PStr source)]))]"

text \<open>\<open>is_skills\<close>: whether the agent's files are called \<open>SKILL.md\<close>.\<close>

definition render_skill_command ::
  "resolver \<Rightarrow> bool \<Rightarrow> bool \<Rightarrow> string \<Rightarrow> string \<Rightarrow> (pyval \<times> pyval) list \<Rightarrow> string \<Rightarrow> string \<Rightarrow> string \<Rightarrow> string py" where
  "render_skill_command e windows is_skills agent skill_name fm body source_id source_file =
     rbind (if is_skills then resolve_skill_placeholders e windows agent fm body else Inr body) (\<lambda>body.
     Inr (render_frontmatter e
            (build_skill_frontmatter skill_name (get_or fm ''description'' (PStr (''Spec-kit workflow command: '' @ skill_name)))
              (source_id @ '':'' @ source_file)) @ [newline] @ body))"

section \<open>Templates of the program\<close>

text \<open>The command a template's front matter names for a kind of script.\<close>

definition script_line :: "string \<Rightarrow> string \<Rightarrow> string option" where
  "script_line kind l =
     (let r = dropWhile py_space l in
      if starts_with (kind @ '':'') r \<and> drop (length kind + 1) r \<noteq> [] then Some (py_strip (drop (length kind + 1) r)) else None)"

fun find_script :: "string \<Rightarrow> bool \<Rightarrow> string list \<Rightarrow> string" where
  "find_script kind inside [] = []"
| "find_script kind inside (l # ls) =
     (if py_strip l = ''scripts:'' then find_script kind True ls
      else let still = inside \<and> (l = [] \<or> py_space (hd l)) in
        case (if still then script_line kind l else None) of
          Some s \<Rightarrow> s
        | None \<Rightarrow> find_script kind still ls)"

text \<open>The lines without the \<open>scripts:\<close> block of the front matter; \<open>dashes\<close> counts the lines of dashes so far.\<close>

fun strip_scripts :: "nat \<Rightarrow> bool \<Rightarrow> bool \<Rightarrow> string list \<Rightarrow> string list" where
  "strip_scripts dashes in_fm skip [] = []"
| "strip_scripts dashes in_fm skip (l # ls) =
     (if strip_eol l = ''---'' then l # strip_scripts (Suc dashes) (dashes = 0) False ls
      else if in_fm \<and> strip_eol l = ''scripts:'' then strip_scripts dashes in_fm True ls
      else if in_fm \<and> skip then
        (if l \<noteq> [] \<and> py_space (hd l) then strip_scripts dashes in_fm skip ls
         else l # strip_scripts dashes in_fm False ls)
      else l # strip_scripts dashes in_fm skip ls)"

definition process_template :: "string \<Rightarrow> string \<Rightarrow> string \<Rightarrow> string \<Rightarrow> string \<Rightarrow> string \<Rightarrow> string" where
  "process_template content agent script_type args context_file sep =
     (let script = find_script script_type False (map chop_eol (split_lines content));
          t = (if script = [] then content else replace_all ''{SCRIPT}'' script content);
          t = concat (strip_scripts 0 False False (split_lines t));
          t = replace_all ''$ARGUMENTS'' args (replace_all ''{ARGS}'' args t);
          t = replace_all ''__CONTEXT_FILE__'' context_file (replace_all ''__AGENT__'' agent t)
      in resolve_command_refs sep (rewrite_project_relative_paths t))"

end
