(* ===== verification/CommandProps.thy ===== *)
theory CommandProps
  imports CommandText ContextProps
begin

text \<open>
  What printing a command for an agent guarantees. The reference is how TOML 1.0 reads a string value: a basic
  string, a basic string of several lines and a literal string of several lines. What the TOML integration
  prints is read back as it was; what the registrar of extensions and presets prints is not when the text has
  a backslash.
\<close>

section \<open>Reading TOML strings\<close>

text \<open>The characters a TOML string may contain as they are (a line end only in a string of several lines).\<close>

definition toml_char :: "char \<Rightarrow> bool" where
  "toml_char c \<longleftrightarrow> (let n = code_of c in n = 9 \<or> n = 10 \<or> (32 \<le> n \<and> n \<noteq> 127))"

definition toml_escape :: "char \<Rightarrow> char option" where
  "toml_escape c =
     (if c = CHR ''b'' then Some (CHR 0x08) else if c = CHR ''t'' then Some tab
      else if c = CHR ''n'' then Some newline else if c = CHR ''f'' then Some (CHR 0x0C)
      else if c = CHR ''r'' then Some carriage_return
      else if c = dquote_char then Some dquote_char else if c = backslash then Some backslash else None)"

text \<open>The inside of a string, up to its closing delimiter, and what is behind. Escapes by number are not read.\<close>

fun toml_line :: "string \<Rightarrow> (string \<times> string) option" where
  "toml_line [] = None"
| "toml_line (c # cs) =
     (if c = dquote_char then Some ([], cs)
      else if c = backslash then
        (case cs of
           [] \<Rightarrow> None
         | d # ds \<Rightarrow> (case toml_escape d of None \<Rightarrow> None | Some x \<Rightarrow> map_option (\<lambda>(v, r). (x # v, r)) (toml_line ds)))
      else if toml_char c \<and> c \<noteq> newline then map_option (\<lambda>(v, r). (c # v, r)) (toml_line cs)
      else None)"

definition closes :: "char \<Rightarrow> string \<Rightarrow> bool" where
  "closes q t \<longleftrightarrow> starts_with (replicate 3 q) t \<and> \<not> starts_with (replicate 4 q) t"

text \<open>A backslash at the end of a line also takes away the blanks and line ends that follow.\<close>

definition toml_blank :: "char \<Rightarrow> bool" where
  "toml_blank c \<longleftrightarrow> c = CHR '' '' \<or> c = tab \<or> c = newline"

definition line_break_behind :: "string \<Rightarrow> bool" where
  "line_break_behind t \<longleftrightarrow> take 1 (dropWhile (\<lambda>c. c = CHR '' '' \<or> c = tab) t) = [newline]"

function toml_lines :: "string \<Rightarrow> (string \<times> string) option" where
  "toml_lines [] = None"
| "toml_lines (c # cs) =
     (if closes dquote_char (c # cs) then Some ([], drop 3 (c # cs))
      else if c = backslash then
        (if line_break_behind cs then toml_lines (dropWhile toml_blank cs)
         else case cs of
             [] \<Rightarrow> None
           | d # ds \<Rightarrow> (case toml_escape d of None \<Rightarrow> None | Some x \<Rightarrow> map_option (\<lambda>(v, r). (x # v, r)) (toml_lines ds)))
      else if toml_char c then map_option (\<lambda>(v, r). (c # v, r)) (toml_lines cs)
      else None)"
  by pat_completeness auto
termination
  by (relation "measure length") (auto simp: length_dropWhile_le le_imp_less_Suc)

fun toml_literal :: "string \<Rightarrow> (string \<times> string) option" where
  "toml_literal [] = None"
| "toml_literal (c # cs) =
     (if closes quote_char (c # cs) then Some ([], drop 3 (c # cs))
      else if toml_char c then map_option (\<lambda>(v, r). (c # v, r)) (toml_literal cs)
      else None)"

text \<open>The value; a line end right behind the opening delimiter does not count, and nothing may follow.\<close>

definition whole :: "(string \<times> string) option \<Rightarrow> string option" where
  "whole x = (case x of Some (v, []) \<Rightarrow> Some v | _ \<Rightarrow> None)"

definition toml_string :: "string \<Rightarrow> string option" where
  "toml_string t =
     (if starts_with three_quotes t then whole (toml_lines (drop_char newline (drop 3 t)))
      else if starts_with three_apostrophes t then whole (toml_literal (drop_char newline (drop 3 t)))
      else if starts_with [dquote_char] t then whole (toml_line (drop 1 t))
      else None)"

section \<open>Escaping\<close>

lemma split1_char: "split1 [c] (d # t) = (if d = c then Some ([], t) else map_option (\<lambda>(a, b). (d # a, b)) (split1 [c] t))"
  by (simp add: starts_with_def)

lemma replace_char_Cons:
  "replace_char c new (d # t) = (if d = c then new @ replace_char c new t else d # replace_char c new t)"
proof (cases "d = c")
  case False
  then show ?thesis
    using replace_all.simps[of "[c]" new "d # t"] replace_all.simps[of "[c]" new t]
    by (auto simp: replace_char_def starts_with_def split: option.splits)
qed (simp add: replace_char_def replace_all.simps[of _ _ "_ # _"] starts_with_def)

lemma replace_char_Nil [simp]: "replace_char c new [] = []"
  by (simp add: replace_char_def replace_all.simps)

lemma replace_char_append [simp]: "replace_char c new (a @ b) = replace_char c new a @ replace_char c new b"
  by (induction a) (auto simp: replace_char_Cons)

lemmas escape_chars = backslash_def dquote_char_def quote_char_def newline_def tab_def carriage_return_def

lemma escaped_line:
  assumes "list_all toml_char t" "newline \<notin> set t"
  shows "toml_line (escape_quotes t @ dquote_char # r) = Some (t, r)"
  using assms
proof (induction t)
  case (Cons c t)
  then show ?case
    by (cases "c = backslash"; cases "c = dquote_char")
      (auto simp: escape_quotes_def replace_char_Cons toml_escape_def escape_chars)
qed (simp add: escape_quotes_def)

lemma escaped_basic:
  assumes "list_all toml_char t"
  shows "toml_line (replace_char tab (backslash # ''t'') (replace_char carriage_return (backslash # ''r'')
      (replace_char newline (backslash # ''n'') (escape_quotes t))) @ dquote_char # r) = Some (t, r)"
  using assms
proof (induction t)
  case (Cons c t)
  then have "c \<noteq> carriage_return" by (auto simp: toml_char_def carriage_return_def code_of_def)
  with Cons show ?case
    by (cases "c = backslash"; cases "c = dquote_char"; cases "c = newline"; cases "c = tab")
      (auto simp: escape_quotes_def replace_char_Cons toml_escape_def escape_chars)
qed (simp add: escape_quotes_def)


lemma closes_close [simp]: "closes q (replicate 3 q)"
  by (simp add: closes_def starts_with_def numeral_eq_Suc)

text \<open>Before its end, a text without three quotes in a row does not close the string.\<close>

lemma not_closed:
  assumes "\<not> has_sub (replicate 3 q) (c # t)" "\<not> ends_with [q] (c # t)" "x = replicate 3 q"
  shows "\<not> closes q ((c # t) @ x)"
proof
  assume "closes q ((c # t) @ x)"
  then have s: "take 3 (c # t @ x) = [q, q, q]" by (simp add: closes_def starts_with_def numeral_eq_Suc)
  show False
  proof (cases t)
    case Nil
    with s assms(2) show False by (simp add: ends_with_def starts_with_def)
  next
    case (Cons d u)
    show False
    proof (cases u)
      case Nil
      with s Cons assms(2) show False by (simp add: ends_with_def starts_with_def numeral_3_eq_3)
    next
      case (Cons f w)
      with s \<open>t = d # u\<close> have "starts_with (replicate 3 q) (c # t)"
        by (simp add: starts_with_def numeral_3_eq_3)
      with assms(1) show False by (simp add: has_sub_def)
    qed
  qed
qed

lemma ends_with_behind: "t \<noteq> [] \<Longrightarrow> ends_with [q] (s @ t) \<longleftrightarrow> ends_with [q] t"
  by (cases t rule: rev_cases) (simp_all add: ends_with_def starts_with_def)

lemma no_sub_Cons: "\<not> has_sub p (c # t) \<Longrightarrow> \<not> has_sub p t"
  by (auto simp: has_sub_def split: if_splits)

lemma literal_reads:
  assumes "list_all toml_char t" "\<not> has_sub three_apostrophes t" "\<not> ends_with [quote_char] t"
  shows "toml_literal (t @ three_apostrophes) = Some (t, [])"
  using assms
proof (induction t)
  case Nil
  have "closes quote_char three_apostrophes" by (simp add: three_apostrophes_def)
  then show ?case by (simp add: three_apostrophes_def numeral_3_eq_3)
next
  case (Cons c t)
  have n: "\<not> closes quote_char ((c # t) @ three_apostrophes)"
    using Cons.prems by (intro not_closed) (simp_all add: three_apostrophes_def)
  have "\<not> ends_with [quote_char] t"
    using Cons.prems(3) ends_with_behind[of t quote_char "[c]"] by (cases "t = []") (auto simp: ends_with_def starts_with_def)
  then have "toml_literal (t @ three_apostrophes) = Some (t, [])"
    using Cons.IH Cons.prems no_sub_Cons[of three_apostrophes c t] by simp
  with n Cons.prems(1) show ?case by simp
qed

abbreviation doubled :: "string \<Rightarrow> string" where
  "doubled t \<equiv> replace_char backslash [backslash, backslash] t"

lemma closing_quotes: "toml_lines three_quotes = Some ([], [])"
proof -
  have "closes dquote_char (dquote_char # replicate 2 dquote_char)"
    using closes_close[of dquote_char] by (simp add: numeral_eq_Suc)
  then show ?thesis by (simp add: three_quotes_def numeral_eq_Suc)
qed

lemma lines_step:
  assumes "toml_char c" "c \<noteq> backslash \<Longrightarrow> \<not> closes dquote_char (c # doubled t @ x)"
    "toml_lines (doubled t @ x) = Some (t, r)"
  shows "toml_lines (doubled (c # t) @ x) = Some (c # t, r)"
proof (cases "c = backslash")
  case True
  moreover have "\<not> closes dquote_char (backslash # s)" for s
    by (simp add: closes_def starts_with_def numeral_eq_Suc backslash_def dquote_char_def)
  moreover have "\<not> line_break_behind (backslash # s)" for s
    by (simp add: line_break_behind_def escape_chars)
  moreover have "toml_escape backslash = Some backslash" by (simp add: toml_escape_def escape_chars)
  ultimately show ?thesis using assms by (simp add: replace_char_Cons)
qed (use assms in \<open>simp add: replace_char_Cons\<close>)

lemma doubled_tail: "\<not> has_sub three_quotes (doubled (c # t)) \<Longrightarrow> \<not> has_sub three_quotes (doubled t)"
  using no_sub_Cons[of three_quotes backslash "backslash # doubled t"] no_sub_Cons[of three_quotes _ "doubled t"]
  by (cases "c = backslash") (simp_all add: replace_char_Cons)

lemma doubled_ends:
  assumes "\<not> ends_with [q] (doubled (c # t))"
  shows "\<not> ends_with [q] (doubled t)"
proof (cases "doubled t = []")
  case False
  have "doubled (c # t) = doubled [c] @ doubled t" by (simp add: replace_char_Cons)
  with assms ends_with_behind[OF False, of q "doubled [c]"] show ?thesis by simp
qed (simp add: ends_with_def starts_with_def)

lemma lines_read:
  assumes "list_all toml_char t" "\<not> has_sub three_quotes (doubled t)" "\<not> ends_with [dquote_char] (doubled t)"
  shows "toml_lines (doubled t @ three_quotes) = Some (t, [])"
  using assms
proof (induction t)
  case (Cons c t)
  have tail: "\<not> has_sub three_quotes (doubled t)" "\<not> ends_with [dquote_char] (doubled t)"
    by (fact doubled_tail[OF Cons.prems(2)]) (fact doubled_ends[OF Cons.prems(3)])
  have IH: "toml_lines (doubled t @ three_quotes) = Some (t, [])"
    by (rule Cons.IH[OF _ tail]) (use Cons.prems(1) in simp)
  have "\<not> closes dquote_char ((c # doubled t) @ three_quotes)" if "c \<noteq> backslash"
    using Cons.prems(2,3) that unfolding replace_char_Cons three_quotes_def by (intro not_closed) simp_all
  then show ?case using Cons.prems(1) by (intro lines_step[OF _ _ IH]) simp_all
qed (simp add: closing_quotes)

lemma not_closed_before:
  assumes "\<not> has_sub (replicate 3 q) (c # t)" "d \<noteq> q"
  shows "\<not> closes q (c # t @ d # x)"
proof
  assume "closes q (c # t @ d # x)"
  then have s: "take 3 (c # t @ d # x) = [q, q, q]" by (simp add: closes_def starts_with_def numeral_eq_Suc)
  with assms(2) have "take 3 (c # t) = [q, q, q]"
    by (cases t; cases "tl t") (auto simp: numeral_3_eq_3)
  then have "starts_with (replicate 3 q) (c # t)" by (simp add: starts_with_def numeral_3_eq_3)
  with assms(1) show False by (simp add: has_sub_def)
qed

lemma lines_read_broken:
  assumes "list_all toml_char t" "\<not> has_sub three_quotes (doubled t)"
  shows "toml_lines (doubled t @ backslash # newline # three_quotes) = Some (t, [])"
  using assms
proof (induction t)
  case Nil
  have "\<not> closes dquote_char (backslash # s)" for s
    by (simp add: closes_def starts_with_def numeral_eq_Suc backslash_def dquote_char_def)
  moreover have "line_break_behind (newline # three_quotes)" "dropWhile toml_blank (newline # three_quotes) = three_quotes"
    by (simp_all add: line_break_behind_def toml_blank_def three_quotes_def numeral_eq_Suc escape_chars)
  ultimately show ?case using closing_quotes by simp
next
  case (Cons c t)
  have tail: "\<not> has_sub three_quotes (doubled t)"
    using Cons.prems(2) by (rule doubled_tail)
  have IH: "toml_lines (doubled t @ backslash # newline # three_quotes) = Some (t, [])"
    by (rule Cons.IH[OF _ tail]) (use Cons.prems(1) in simp)
  have "\<not> closes dquote_char (c # doubled t @ backslash # newline # three_quotes)" if "c \<noteq> backslash"
    using Cons.prems(2) that unfolding replace_char_Cons three_quotes_def
    by (intro not_closed_before) (simp_all add: backslash_def dquote_char_def)
  then show ?case using Cons.prems(1) by (intro lines_step[OF _ _ IH]) simp_all
qed

section \<open>What is printed is read back\<close>

lemma drop_first_newline [simp]: "drop_char newline (newline # t) = t"
  by (simp add: drop_char_def)

lemma toml_of_lines: "toml_string (three_quotes @ newline # t) = whole (toml_lines t)"
  by (simp add: toml_string_def) (simp add: three_quotes_def)

lemma toml_of_literal: "toml_string (three_apostrophes @ newline # t) = whole (toml_literal t)"
proof -
  have "\<not> starts_with three_quotes (three_apostrophes @ x)" for x
    by (simp add: three_quotes_def three_apostrophes_def starts_with_def numeral_eq_Suc dquote_char_def quote_char_def)
  then show ?thesis by (simp add: toml_string_def) (simp add: three_apostrophes_def)
qed

lemma toml_of_line:
  assumes "toml_line (t @ [dquote_char]) = Some (v, [])" "t = [] \<or> hd t \<noteq> dquote_char"
  shows "toml_string (in_dquotes t) = Some v"
proof -
  have "\<not> starts_with three_quotes (in_dquotes t)" "\<not> starts_with three_apostrophes (in_dquotes t)"
    using assms(2) by (cases t; auto simp: in_dquotes_def three_quotes_def three_apostrophes_def starts_with_def
        numeral_eq_Suc dquote_char_def quote_char_def)+
  moreover have "starts_with [dquote_char] (in_dquotes t)" by (simp add: in_dquotes_def starts_with_def)
  ultimately show ?thesis using assms(1) by (simp add: toml_string_def whole_def in_dquotes_def)
qed

lemma basic_reads: "list_all toml_char t \<Longrightarrow> toml_string (render_basic_toml_string t) = Some t"
proof -
  assume t: "list_all toml_char t"
  let ?e = "replace_char tab (backslash # ''t'') (replace_char carriage_return (backslash # ''r'')
      (replace_char newline (backslash # ''n'') (escape_quotes t)))"
  have "?e = [] \<or> hd ?e \<noteq> dquote_char"
    by (cases t) (auto simp: escape_quotes_def replace_char_Cons escape_chars)
  with toml_of_line[OF escaped_basic[OF t, of "[]"]] show ?thesis by (simp add: render_basic_toml_string_def)
qed

text \<open>The TOML integration looks for carriage returns, but the form it then chooses keeps them as they are, and a TOML reader
  refuses one that no line feed follows. Texts of files have none: \<open>read_text\<close> turns them into line feeds.\<close>

lemma carriage_return_is_not_read_back:
  "toml_string (render_toml_string (''a'' @ [carriage_return] @ ''b'')) = None"
  by code_simp

text \<open>C13. A text without carriage returns and other control characters than tab and line feed, whatever quotes, apostrophes,
  backslashes and lines it has, is read back from what the TOML integration prints for it: each of the five forms is
  chosen where it is right.\<close>

theorem toml_text_reads_back:
  assumes "list_all toml_char t"
  shows "toml_string (render_toml_string t) = Some t"
proof -
  have cr: "carriage_return \<notin> set t" using assms by (auto simp: list_all_iff toml_char_def carriage_return_def code_of_def)
  have hd: "escape_quotes t = [] \<or> hd (escape_quotes t) \<noteq> dquote_char"
    by (cases t) (auto simp: escape_quotes_def replace_char_Cons escape_chars)
  consider "newline \<notin> set t"
    | "newline \<in> set t" "\<not> has_sub three_quotes (doubled t)"
    | "newline \<in> set t" "has_sub three_quotes (doubled t)" by blast
  then show ?thesis
  proof cases
    case 1
    with cr toml_of_line[OF escaped_line[OF assms 1, of "[]"]] hd show ?thesis by (simp add: render_toml_string_def)
  next
    case 2
    then show ?thesis
      using lines_read[OF assms 2(2)] lines_read_broken[OF assms 2(2)]
      by (simp add: render_toml_string_def toml_of_lines whole_def Let_def)
  next
    case 3
    then show ?thesis
      using literal_reads[OF assms] basic_reads[OF assms]
      by (simp add: render_toml_string_def toml_of_literal whole_def Let_def)
  qed
qed

theorem toml_text_reads_back_witness:
  "toml_string (render_toml_string (''C:'' @ [backslash] @ ''n '' @ three_quotes @ [newline] @ three_apostrophes)) =
     Some (''C:'' @ [backslash] @ ''n '' @ three_quotes @ [newline] @ three_apostrophes)"
  by (rule toml_text_reads_back) code_simp

text \<open>
  The registrar does not escape the backslashes of a body it prints in several lines: of a Windows path another
  text is read, and of a regular expression none at all.
\<close>

lemma registrar_prompt_misreads:
  "toml_string (registrar_prompt (''C:'' @ [backslash] @ ''new'')) = Some (''C:'' @ [newline] @ ''ew'' @ [newline])"
  "toml_string (registrar_prompt ([backslash] @ ''d+'')) = None"
  by code_simp+

end
