(* ===== verification/SharedInfra.thy ===== *)
theory SharedInfra
  imports CommandText
begin

text \<open>
  The files every project gets, whatever its agent (\<open>specify_cli/shared_infra.py\<close>): scripts and templates are
  copied into \<open>.specify\<close>, tracked in a manifest of their own, and refreshed without touching what a user has
  changed or linked elsewhere. What is printed to the console becomes the lists of paths it names. File modes
  are left out. The random part of the name of a temporary file is a parameter; the order in which a directory is read is that of
  the tree.
\<close>

record shared_env =
  se_loads :: "string \<Rightarrow> pyval option"
  se_dumps :: "pyval \<Rightarrow> string"
  se_sha :: "string \<Rightarrow> string"
  se_now :: string
  se_temp :: "string \<Rightarrow> string"
  se_version :: string
  se_core :: "loc option"
  se_repo :: loc
  se_project :: loc

definition text_at :: "tree \<Rightarrow> loc \<Rightarrow> string py" where
  "text_at t p = (case fs_read p t of Inl n \<Rightarrow> Inl (os_error n) | Inr c \<Rightarrow> Inr (universal_newlines c))"

section \<open>The manifest and the sources\<close>

definition manifest_errors :: "string set" where
  "manifest_errors = {''ValueError'', ''FileNotFoundError'', ''NotADirectoryError'', ''FileExistsError'', ''IsADirectoryError'', ''OSError''}"

definition load_speckit_manifest :: "shared_env \<Rightarrow> tree \<Rightarrow> manifest py" where
  "load_speckit_manifest e t =
     (let fresh = init_manifest ''speckit'' (se_project e) (PStr (se_version e)) True t in
      if path_exists t (manifest_path (se_project e) ''speckit'')
      then (case load_manifest (se_loads e) ''speckit'' (se_project e) True t of
          Inr m \<Rightarrow> Inr (m\<lparr>mf_version := PStr (se_version e)\<rparr>)
        | Inl (PyExc n msg) \<Rightarrow> if n \<in> manifest_errors then fresh else Inl (PyExc n msg)
        | Inl x \<Rightarrow> Inl x)
      else fresh)"

definition shared_source :: "string \<Rightarrow> shared_env \<Rightarrow> tree \<Rightarrow> loc" where
  "shared_source name e t =
     (case se_core e of
        Some core \<Rightarrow> if is_dir t (core @ [name]) then core @ [name] else se_repo e @ [name]
      | None \<Rightarrow> se_repo e @ [name])"

definition shared_templates_source :: "shared_env \<Rightarrow> tree \<Rightarrow> loc" where
  "shared_templates_source = shared_source ''templates''"

definition shared_scripts_source :: "shared_env \<Rightarrow> tree \<Rightarrow> loc" where
  "shared_scripts_source = shared_source ''scripts''"

section \<open>Paths that are safe to write\<close>

definition symlinked :: "string \<Rightarrow> pyexn" where
  "symlinked msg = PyExc ''SymlinkedSharedPathError'' msg"

definition shared_relative_path :: "loc \<Rightarrow> loc \<Rightarrow> string list py" where
  "shared_relative_path project dest =
     (let escapes = Inl (value_error (''Shared infrastructure path escapes project root: '' @ manifest_path_label project dest)) in
      case relative_to dest project of
        None \<Rightarrow> escapes
      | Some rel \<Rightarrow> if ''..'' \<in> set rel then escapes else Inr rel)"

text \<open>\<open>context\<close> names the directory in messages; \<open>capitalize\<close> is applied to it at the beginning of some.\<close>

definition capitalized :: "string \<Rightarrow> string" where
  "capitalized t = (case t of [] \<Rightarrow> [] | c # cs \<Rightarrow> title_char c # py_lower cs)"

fun safe_shared_walk :: "bool \<Rightarrow> string \<Rightarrow> loc \<Rightarrow> loc \<Rightarrow> loc \<Rightarrow> string list \<Rightarrow> unit mop" where
  "safe_shared_walk create what project root_resolved cur [] = sret ()"
| "safe_shared_walk create what project root_resolved cur (part # parts) =
     (let c = cur @ [part]; label = manifest_path_label project c;
          is_link = symlinked (''Refusing to use symlinked '' @ what @ '': '' @ label);
          escapes = capitalized what @ '' escapes project root: '' @ label;
          go_on = safe_shared_walk create what project root_resolved c parts in
      sbind (sget ms_fs) (\<lambda>t.
      if is_symlink t c then sraise is_link
      else if path_exists t c
      then (if \<not> is_dir t c then sraise (value_error (capitalized what @ '' path is not a directory: '' @ label))
            else sthen (slift (inside_or_raise t root_resolved c escapes)) go_on)
      else if \<not> create then sraise (value_error (capitalized what @ '' does not exist: '' @ label))
      else sthen (fs_do (fs_mkdir c))
          (sbind (sget ms_fs) (\<lambda>t'.
           if is_symlink t' c then sraise is_link
           else sthen (slift (inside_or_raise t' root_resolved c escapes)) go_on))))"

definition ensure_safe_shared_directory :: "bool \<Rightarrow> string \<Rightarrow> loc \<Rightarrow> loc \<Rightarrow> unit mop" where
  "ensure_safe_shared_directory create what project directory =
     sbind (sget ms_fs) (\<lambda>t.
     sbind (slift (resolve_or_raise t project)) (\<lambda>root_resolved.
     sbind (slift (shared_relative_path project directory)) (\<lambda>rel.
     safe_shared_walk create what project root_resolved project rel)))"

definition shared_directory_text :: string where
  "shared_directory_text = ''shared infrastructure directory''"

fun validate_walk :: "loc \<Rightarrow> loc \<Rightarrow> loc \<Rightarrow> string list \<Rightarrow> tree \<Rightarrow> unit py" where
  "validate_walk project root_resolved cur [] t = Inr ()"
| "validate_walk project root_resolved cur (part # parts) t =
     (let c = cur @ [part]; label = manifest_path_label project c in
      if is_symlink t c then Inl (symlinked (''Refusing to use symlinked shared infrastructure directory: '' @ label))
      else if \<not> path_exists t c then validate_walk project root_resolved c parts t
      else if \<not> is_dir t c then Inl (value_error (''Shared infrastructure directory path is not a directory: '' @ label))
      else rbind (inside_or_raise t root_resolved c (''Shared infrastructure directory escapes project root: '' @ label)) (\<lambda>_.
        validate_walk project root_resolved c parts t))"

definition validate_safe_shared_directory :: "loc \<Rightarrow> loc \<Rightarrow> tree \<Rightarrow> unit py" where
  "validate_safe_shared_directory project directory t =
     rbind (resolve_or_raise t project) (\<lambda>root_resolved.
     rbind (shared_relative_path project directory) (\<lambda>rel.
     validate_walk project root_resolved project rel t))"

definition ensure_safe_shared_destination :: "bool \<Rightarrow> loc \<Rightarrow> loc \<Rightarrow> unit mop" where
  "ensure_safe_shared_destination parent_must_exist project dest =
     sbind (sget ms_fs) (\<lambda>t0.
     sbind (slift (resolve_or_raise t0 project)) (\<lambda>root_resolved.
     sthen (slift (shared_relative_path project dest))
    (sthen (if parent_must_exist then ensure_safe_shared_directory False shared_directory_text project (butlast dest)
            else slift (validate_safe_shared_directory project (butlast dest) t0))
    (sbind (sget ms_fs) (\<lambda>t.
     let label = manifest_path_label project dest in
     if is_symlink t dest then sraise (symlinked (''Refusing to overwrite symlinked shared infrastructure path: '' @ label))
     else if path_exists t dest
     then slift (inside_or_raise t root_resolved dest (''Shared infrastructure destination escapes project root: '' @ label))
     else sret ())))))"

text \<open>The new content goes to a temporary file that replaces the old one. \<open>se_temp\<close> is the random part of its name.\<close>

definition temp_name :: "shared_env \<Rightarrow> string \<Rightarrow> string" where
  "temp_name e n = ''.'' @ n @ ''.'' @ se_temp e n"

definition write_shared_text :: "shared_env \<Rightarrow> loc \<Rightarrow> string \<Rightarrow> unit mop" where
  "write_shared_text e dest content =
     (let temp = butlast dest @ [temp_name e (last dest)] in
      sthen (ensure_safe_shared_destination True (se_project e) dest)
     (sthen (fs_do (fs_create temp content))
     (sfinally
        (sthen (ensure_safe_shared_destination True (se_project e) dest) (fs_do (fs_replace temp dest)))
        (sbind (sget ms_fs) (\<lambda>t. if path_exists t temp then fs_do (fs_unlink temp) else sret ())))))"

section \<open>Commands named in scripts\<close>

definition format_speckit_command :: "string \<Rightarrow> string \<Rightarrow> string" where
  "format_speckit_command command sep =
     (let n = dropWhile (\<lambda>c. c = CHR ''/'') (py_strip command);
          n = (if starts_with ''speckit.'' n then drop 8 n else if starts_with ''speckit-'' n then drop 8 n else n)
      in ''/speckit'' @ sep @ replace_all ''.'' sep n)"

definition name_char :: "char \<Rightarrow> bool" where
  "name_char c \<longleftrightarrow> ascii_alnum c \<or> c = CHR ''_'' \<or> c = CHR ''.'' \<or> c = CHR ''-''"

text \<open>A word that must be there, blanks that must be there, and a name that may be in quotes.\<close>

definition expect :: "string \<Rightarrow> string \<Rightarrow> string option" where
  "expect w t = (if starts_with w t then Some (drop (length w) t) else None)"

definition blanks :: "string \<Rightarrow> string option" where
  "blanks t = (if t \<noteq> [] \<and> py_space (hd t) then Some (dropWhile py_space t) else None)"

definition quoted_name :: "bool \<Rightarrow> string \<Rightarrow> (string \<times> string) option" where
  "quoted_name needed t =
     (let q = (if t \<noteq> [] \<and> (hd t = quote_char \<or> hd t = dquote_char) then [hd t] else []);
          r = drop (length q) t; n = takeWhile name_char r
      in if needed \<and> q = [] \<or> n = [] then None
         else map_option (\<lambda>rest. (n, rest)) (expect q (dropWhile name_char r)))"

text \<open>\<open>$(format_speckit_command NAME ...)\<close> at the front.\<close>

definition bash_call :: "string \<Rightarrow> (string \<times> string) option" where
  "bash_call t =
     Option.bind (expect ''$('' t) (\<lambda>r.
     Option.bind (expect ''format_speckit_command'' (dropWhile py_space r)) (\<lambda>r.
     Option.bind (blanks r) (\<lambda>r.
     Option.bind (quoted_name False r) (\<lambda>(n, r).
     if r = [] then None
     else if hd r = CHR '')'' then Some (n, tl r)
     else if py_space (hd r) then
       (case dropWhile (\<lambda>c. c \<noteq> CHR '')'') r of [] \<Rightarrow> None | _ # rest \<Rightarrow> Some (n, rest))
     else None))))"

text \<open>The optional \<open>-RepoRoot\<close> up to the end of its line.\<close>

definition eol_char :: "char \<Rightarrow> bool" where
  "eol_char c \<longleftrightarrow> c = newline \<or> c = carriage_return"

definition repo_root_part :: "string \<Rightarrow> string option" where
  "repo_root_part t =
     Option.bind (blanks t) (\<lambda>r.
     Option.bind (expect ''-RepoRoot'' r) (\<lambda>r.
     let w = takeWhile py_space r; r' = dropWhile py_space r; ends = length (takeWhile eol_char (rev w)) in
     if w = [] then None
     else if r' \<noteq> [] then Some (dropWhile (\<lambda>c. \<not> eol_char c) r')
     else if ends + 2 \<le> length w then Some (drop (length w - ends) w) else None))"

definition powershell_call :: "string \<Rightarrow> (string \<times> string) option" where
  "powershell_call t =
     Option.bind (expect ''Format-SpecKitCommand'' t) (\<lambda>r.
     Option.bind (blanks r) (\<lambda>r.
     Option.bind (expect ''-CommandName'' r) (\<lambda>r.
     Option.bind (blanks r) (\<lambda>r.
     Option.bind (quoted_name True r) (\<lambda>(n, r).
     Some (n, case repo_root_part r of Some rest \<Rightarrow> rest | None \<Rightarrow> r))))))"

text \<open>Every match replaced; what is behind a match is never longer than the text itself.\<close>

fun replace_calls :: "nat \<Rightarrow> (string \<Rightarrow> (string \<times> string) option) \<Rightarrow> (string \<Rightarrow> string) \<Rightarrow> string \<Rightarrow> string" where
  "replace_calls 0 find_call f t = t"
| "replace_calls (Suc k) find_call f t =
     (case t of
        [] \<Rightarrow> []
      | c # cs \<Rightarrow> (case find_call t of
          Some (n, rest) \<Rightarrow> f n @ replace_calls k find_call f rest
        | None \<Rightarrow> c # replace_calls k find_call f cs))"

definition resolve_dynamic_command_refs :: "string \<Rightarrow> string \<Rightarrow> string" where
  "resolve_dynamic_command_refs sep t =
     (let t = replace_calls (length t) bash_call (\<lambda>n. format_speckit_command n sep) t
      in replace_calls (length t) powershell_call (\<lambda>n. [quote_char] @ format_speckit_command n sep @ [quote_char]) t)"

section \<open>Refreshing the templates\<close>

text \<open>The path of a file below the project, as the manifest names it.\<close>

definition project_rel :: "shared_env \<Rightarrow> loc \<Rightarrow> string" where
  "project_rel e p = (case relative_to p (se_project e) of Some r \<Rightarrow> as_posix r | None \<Rightarrow> loc_text p)"

definition is_template_name :: "string \<Rightarrow> bool" where
  "is_template_name n \<longleftrightarrow> n \<noteq> ''vscode-settings.json'' \<and> \<not> starts_with ''.'' n"

text \<open>\<open>iterdir\<close>, or the error of the operating system.\<close>

definition dir_names :: "loc \<Rightarrow> string list mop" where
  "dir_names p s = (case iterdir (ms_fs s) p of Inl n \<Rightarrow> (Inl (os_error n), s) | Inr ns \<Rightarrow> (Inr ns, s))"

text \<open>An update: where, its name in the manifest, the text.\<close>

type_synonym update = "loc \<times> string \<times> string"

definition write_update :: "shared_env \<Rightarrow> update \<Rightarrow> unit mop" where
  "write_update e = (\<lambda>(dst, rel, content).
     sthen (write_shared_text e dst content) (record_existing (se_sha e) rel False))"

definition specify_dir :: "shared_env \<Rightarrow> string list \<Rightarrow> loc" where
  "specify_dir e names = se_project e @ ''.specify'' # names"

fun plan_refresh ::
  "shared_env \<Rightarrow> bool \<Rightarrow> string \<Rightarrow> string list \<Rightarrow> string list \<Rightarrow> loc \<Rightarrow> string list \<Rightarrow> (string list \<times> update list) mop" where
  "plan_refresh e force sep tracked changed src [] = sret ([], [])"
| "plan_refresh e force sep tracked changed src (n # ns) =
     (let go_on = plan_refresh e force sep tracked changed src ns; dst = specify_dir e [''templates'', n]; rel = project_rel e dst in
      sbind (sget ms_fs) (\<lambda>t.
      if \<not> is_file t (src @ [n]) \<or> \<not> is_template_name n then go_on
      else sthen (ensure_safe_shared_destination True (se_project e) dst)
       (if path_exists t dst \<and> \<not> force \<and> (rel \<notin> set tracked \<or> rel \<in> set changed)
        then sbind go_on (\<lambda>(skipped, updates). sret (rel # skipped, updates))
        else sbind (slift (text_at t (src @ [n]))) (\<lambda>text.
          sbind go_on (\<lambda>(skipped, updates). sret (skipped, (dst, rel, resolve_command_refs sep text) # updates))))))"

text \<open>The manifest in memory is the one just loaded; the result is the list of skipped files.\<close>

definition with_speckit_manifest :: "shared_env \<Rightarrow> unit mop" where
  "with_speckit_manifest e s =
     (case load_speckit_manifest e (ms_fs s) of Inl x \<Rightarrow> (Inl x, s) | Inr m \<Rightarrow> (Inr (), s\<lparr>ms_man := m\<rparr>))"

definition save_shared :: "shared_env \<Rightarrow> unit mop" where
  "save_shared e = sthen (save_manifest (se_dumps e) (se_now e) (temp_name e ''speckit.manifest.json'')) (sret ())"

definition refresh_shared_templates :: "shared_env \<Rightarrow> string \<Rightarrow> bool \<Rightarrow> string list mop" where
  "refresh_shared_templates e sep force =
     sbind (sget ms_fs) (\<lambda>t0.
     let src = shared_templates_source e t0 in
     if \<not> is_dir t0 src then sret []
     else sthen (with_speckit_manifest e)
      (sbind (sget ms_man) (\<lambda>m.
       sbind (sget ms_fs) (\<lambda>t.
       sthen (ensure_safe_shared_directory True shared_directory_text (se_project e) (specify_dir e [''templates'']))
      (sbind (dir_names src) (\<lambda>names.
       sbind (plan_refresh e force sep (map fst (mf_files m)) (check_modified (se_sha e) m t) src names) (\<lambda>(skipped, updates).
       sthen (sfor updates (write_update e))
      (sthen (save_shared e)
      (sret skipped)))))))))"

section \<open>Installing scripts and templates\<close>

text \<open>What an installation plans to write, and the paths it reports.\<close>

record shared_plan =
  pl_skipped :: "string list"
  pl_preserved :: "string list"
  pl_symlinked :: "string list"
  pl_copies :: "update list"
  pl_templates :: "update list"

definition empty_plan :: shared_plan where
  "empty_plan = \<lparr>pl_skipped = [], pl_preserved = [], pl_symlinked = [], pl_copies = [], pl_templates = []\<rparr>"

text \<open>Whether a file on the disk is still what was installed before.\<close>

definition is_managed :: "shared_env \<Rightarrow> (string, string) dict \<Rightarrow> manifest \<Rightarrow> tree \<Rightarrow> string \<Rightarrow> loc \<Rightarrow> bool py" where
  "is_managed e prior m t rel dst =
     (case map_of prior rel of
        None \<Rightarrow> Inr False
      | Some known \<Rightarrow>
          if known = [] \<or> \<not> is_file t dst \<or> is_symlink t dst then Inr False
          else rbind (is_recovered m rel t) (\<lambda>rec.
            Inr (\<not> rec \<and> (case fs_read dst t of Inr c \<Rightarrow> se_sha e c = known | Inl _ \<Rightarrow> False))))"

datatype overwrite_choice = Write | Preserve | Skip

definition decide_overwrite ::
  "shared_env \<Rightarrow> bool \<Rightarrow> bool \<Rightarrow> (string, string) dict \<Rightarrow> manifest \<Rightarrow> tree \<Rightarrow> string \<Rightarrow> loc \<Rightarrow> overwrite_choice py" where
  "decide_overwrite e force refresh_managed prior m t rel dst =
     (if \<not> path_exists t dst \<or> force then Inr Write
      else if refresh_managed then
        rbind (is_managed e prior m t rel dst) (\<lambda>managed.
        Inr (if managed then Write else if map_of prior rel \<noteq> None then Preserve else Skip))
      else Inr Skip)"

text \<open>A check that only turns a symbolic link into \<open>False\<close>, and one that lets nothing but the given errors pass.\<close>

definition unless_symlinked :: "unit mop \<Rightarrow> bool mop" where
  "unless_symlinked m s =
     (case m s of
        (Inr _, s') \<Rightarrow> (Inr True, s')
      | (Inl (PyExc n msg), s') \<Rightarrow> if n = ''SymlinkedSharedPathError'' then (Inr False, s') else (Inl (PyExc n msg), s')
      | (Inl x, s') \<Rightarrow> (Inl x, s'))"

definition tolerant :: "unit mop \<Rightarrow> unit mop" where
  "tolerant m s =
     (case m s of
        (Inl (PyExc n msg), s') \<Rightarrow> if n \<in> manifest_errors then (Inr (), s') else (Inl (PyExc n msg), s')
      | r \<Rightarrow> r)"

definition ensure_or_bucket_dir :: "shared_env \<Rightarrow> loc \<Rightarrow> shared_plan \<Rightarrow> (bool \<times> shared_plan) mop" where
  "ensure_or_bucket_dir e directory plan =
     sbind (unless_symlinked (ensure_safe_shared_directory True shared_directory_text (se_project e) directory)) (\<lambda>ok.
     sret (ok, if ok then plan else plan\<lparr>pl_symlinked := pl_symlinked plan @ [project_rel e directory]\<rparr>))"

definition safe_dest_or_bucket :: "shared_env \<Rightarrow> bool \<Rightarrow> loc \<Rightarrow> string \<Rightarrow> shared_plan \<Rightarrow> (bool \<times> shared_plan) mop" where
  "safe_dest_or_bucket e parent_must_exist dst rel plan =
     sbind (unless_symlinked (ensure_safe_shared_destination parent_must_exist (se_project e) dst)) (\<lambda>ok.
     sret (ok, if ok then plan else plan\<lparr>pl_symlinked := pl_symlinked plan @ [rel]\<rparr>))"

text \<open>A file that is not written: it is reported, and one nobody tracks is recorded as found.\<close>

definition leave_file :: "shared_env \<Rightarrow> (string, string) dict \<Rightarrow> overwrite_choice \<Rightarrow> string \<Rightarrow> loc \<Rightarrow> shared_plan \<Rightarrow> shared_plan mop" where
  "leave_file e prior why rel dst plan =
     (if why = Preserve then sret (plan\<lparr>pl_preserved := pl_preserved plan @ [rel]\<rparr>)
      else sbind (sget ms_fs) (\<lambda>t.
        sthen (if is_file t dst \<and> map_of prior rel = None then tolerant (record_existing (se_sha e) rel True) else sret ())
        (sret (plan\<lparr>pl_skipped := pl_skipped plan @ [rel]\<rparr>))))"

text \<open>A destination: left as it is, or written by \<open>add\<close>, after the checks.\<close>

definition consider_file ::
  "shared_env \<Rightarrow> bool \<Rightarrow> bool \<Rightarrow> (string, string) dict \<Rightarrow> bool \<Rightarrow> loc \<Rightarrow> (shared_plan \<Rightarrow> shared_plan mop) \<Rightarrow> shared_plan \<Rightarrow> shared_plan mop" where
  "consider_file e force refresh_managed prior parent_must_exist dst add plan =
     (let rel = project_rel e dst in
      sbind (safe_dest_or_bucket e parent_must_exist dst rel plan) (\<lambda>(ok, plan).
      if \<not> ok then sret plan
      else sbind (sget ms_fs) (\<lambda>t. sbind (sget ms_man) (\<lambda>m.
        sbind (slift (decide_overwrite e force refresh_managed prior m t rel dst)) (\<lambda>what.
        if what = Write then add plan else leave_file e prior what rel dst plan)))))"

definition plan_script ::
  "shared_env \<Rightarrow> bool \<Rightarrow> bool \<Rightarrow> string \<Rightarrow> (string, string) dict \<Rightarrow> loc \<Rightarrow> loc \<Rightarrow> string list \<Rightarrow> shared_plan \<Rightarrow> shared_plan mop" where
  "plan_script e force refresh_managed sep prior src_dir dest_dir path plan =
     (let src = src_dir @ path; dst = dest_dir @ path in
      sbind (sget ms_fs) (\<lambda>t.
      if \<not> is_file t src then sret plan
      else consider_file e force refresh_managed prior False dst (\<lambda>plan.
        sbind (ensure_or_bucket_dir e (butlast dst) plan) (\<lambda>(ok, plan).
        if \<not> ok then sret plan
        else sbind (sget ms_fs) (\<lambda>t. sbind (slift (text_at t src)) (\<lambda>text.
          sret (plan\<lparr>pl_copies := pl_copies plan @
            [(dst, project_rel e dst, resolve_dynamic_command_refs sep (resolve_command_refs sep text))]\<rparr>))))) plan))"

definition plan_template ::
  "shared_env \<Rightarrow> bool \<Rightarrow> bool \<Rightarrow> string \<Rightarrow> (string, string) dict \<Rightarrow> loc \<Rightarrow> loc \<Rightarrow> string \<Rightarrow> shared_plan \<Rightarrow> shared_plan mop" where
  "plan_template e force refresh_managed sep prior src_dir dest_dir n plan =
     (let src = src_dir @ [n]; dst = dest_dir @ [n] in
      sbind (sget ms_fs) (\<lambda>t.
      if \<not> is_file t src \<or> \<not> is_template_name n then sret plan
      else consider_file e force refresh_managed prior True dst (\<lambda>plan.
        sbind (sget ms_fs) (\<lambda>t. sbind (slift (text_at t src)) (\<lambda>text.
        sret (plan\<lparr>pl_templates := pl_templates plan @ [(dst, project_rel e dst, resolve_command_refs sep text)]\<rparr>)))) plan))"

fun plan_all :: "('a \<Rightarrow> shared_plan \<Rightarrow> shared_plan mop) \<Rightarrow> 'a list \<Rightarrow> shared_plan \<Rightarrow> shared_plan mop" where
  "plan_all f [] plan = sret plan"
| "plan_all f (x # xs) plan = sbind (f x plan) (plan_all f xs)"

text \<open>\<open>rglob("*")\<close>: everything below a directory, by its path from there.\<close>

definition below :: "tree \<Rightarrow> loc \<Rightarrow> string list list" where
  "below t p =
     (case locate t p of
        Inl _ \<Rightarrow> []
      | Inr l \<Rightarrow> List.map_filter (\<lambda>(k, _). case relative_to k l of Some (n # r) \<Rightarrow> Some (n # r) | _ \<Rightarrow> None) t)"

definition plan_scripts ::
  "shared_env \<Rightarrow> string \<Rightarrow> bool \<Rightarrow> bool \<Rightarrow> string \<Rightarrow> (string, string) dict \<Rightarrow> shared_plan \<Rightarrow> shared_plan mop" where
  "plan_scripts e script_type force refresh_managed sep prior plan =
     sbind (sget ms_fs) (\<lambda>t.
     let scripts_src = shared_scripts_source e t; variant = (if script_type = ''sh'' then ''bash'' else ''powershell'') in
     if \<not> is_dir t scripts_src then sret plan
     else sbind (ensure_or_bucket_dir e (specify_dir e [''scripts'']) plan) (\<lambda>(ok, plan).
       if \<not> ok then sret plan
       else sbind (sget ms_fs) (\<lambda>t.
         let variant_src = scripts_src @ [variant]; dest = specify_dir e [''scripts'', variant] in
         if \<not> is_dir t variant_src then sret plan
         else sbind (ensure_or_bucket_dir e dest plan) (\<lambda>(ok, plan).
           if \<not> ok then sret plan
           else sbind (sget ms_fs) (\<lambda>t.
             plan_all (plan_script e force refresh_managed sep prior variant_src dest) (below t variant_src) plan)))))"

definition plan_templates ::
  "shared_env \<Rightarrow> bool \<Rightarrow> bool \<Rightarrow> string \<Rightarrow> (string, string) dict \<Rightarrow> shared_plan \<Rightarrow> shared_plan mop" where
  "plan_templates e force refresh_managed sep prior plan =
     sbind (sget ms_fs) (\<lambda>t.
     let src = shared_templates_source e t; dest = specify_dir e [''templates''] in
     if \<not> is_dir t src then sret plan
     else sbind (ensure_or_bucket_dir e dest plan) (\<lambda>(ok, plan).
       if \<not> ok then sret plan
       else sbind (dir_names src) (\<lambda>names.
         plan_all (plan_template e force refresh_managed sep prior src dest) names plan)))"

definition write_copy :: "shared_env \<Rightarrow> update \<Rightarrow> shared_plan \<Rightarrow> shared_plan mop" where
  "write_copy e u plan =
     sbind (ensure_or_bucket_dir e (butlast (fst u)) plan) (\<lambda>(ok, plan).
     if \<not> ok then sret plan else sthen (write_update e u) (sret plan))"

text \<open>The result is the plan, whose lists of paths are reported.\<close>

definition install_shared_infra :: "shared_env \<Rightarrow> string \<Rightarrow> bool \<Rightarrow> string \<Rightarrow> bool \<Rightarrow> shared_plan mop" where
  "install_shared_infra e script_type force sep refresh_managed =
     sthen (with_speckit_manifest e)
    (sbind (sget (\<lambda>s. mf_files (ms_man s))) (\<lambda>prior.
     sbind (plan_scripts e script_type force refresh_managed sep prior empty_plan) (\<lambda>plan.
     sbind (plan_templates e force refresh_managed sep prior plan) (\<lambda>plan.
     sbind (plan_all (write_copy e) (pl_copies plan) plan) (\<lambda>plan.
     sthen (sfor (pl_templates plan) (write_update e))
    (sthen (save_shared e)
    (sret plan)))))))"

end
