(* ===== verification/Registrar.thy ===== *)
theory Registrar
  imports SharedInfra
begin

text \<open>
  \<open>CommandRegistrar\<close> (\<open>specify_cli/agents.py\<close>): writing the commands of an extension or a preset for one
  agent or for all that a project uses, and removing them. An agent's configuration is a record; commands
  come from manifests that were checked, so they are a name, a file and aliases. Deprecation warnings are left
  out. The state is the file tree.
\<close>

section \<open>Agents\<close>

record agent_config =
  ac_dir :: string
  ac_format :: string
  ac_args :: string
  ac_extension :: string
  ac_strip_keys :: "string list"
  ac_inject_name :: bool
  ac_format_name :: "(string \<Rightarrow> string) option"
  ac_separator :: string
  ac_legacy_dir :: "string option"
  ac_detect_dir :: "string option"

text \<open>An integration of the registry: its configuration for the registrar, whose separator may be missing.\<close>

record registry_integration =
  ri_key :: string
  ri_config :: "(agent_config \<times> bool) option"
  ri_separator :: string

definition build_agent_configs :: "registry_integration list \<Rightarrow> (string \<times> agent_config) list" where
  "build_agent_configs rs =
     List.map_filter (\<lambda>r.
       if ri_key r = ''generic'' then None
       else map_option (\<lambda>(c, declares).
         (ri_key r, if declares then c else c\<lparr>ac_separator := ri_separator r\<rparr>)) (ri_config r)) rs"

record registrar =
  rg_env :: resolver
  rg_windows :: bool
  rg_home :: loc
  rg_configs :: "(string \<times> agent_config) list"
  rg_folders :: "string \<Rightarrow> string"

record command_info =
  ci_name :: string
  ci_file :: string
  ci_aliases :: "string list"

definition skill_file :: string where
  "skill_file = ''/SKILL.md''"

definition compute_output_name :: "string \<Rightarrow> agent_config \<Rightarrow> string" where
  "compute_output_name cmd cfg =
     (if ac_extension cfg \<noteq> skill_file
      then (case ac_format_name cfg of Some f \<Rightarrow> f cmd | None \<Rightarrow> cmd)
      else ''speckit-'' @ dots_to_hyphens (if starts_with ''speckit.'' cmd then drop 8 cmd else cmd))"

text \<open>\<open>_ensure_inside\<close> works on the text of the paths, links are not followed.\<close>

definition lexically_inside :: "loc \<Rightarrow> loc \<Rightarrow> bool" where
  "lexically_inside candidate base \<longleftrightarrow> relative_to (normpath candidate) (normpath base) \<noteq> None"

definition ensure_inside :: "loc \<Rightarrow> loc \<Rightarrow> unit py" where
  "ensure_inside candidate base =
     (if lexically_inside candidate base then Inr ()
      else Inl (value_error (''Output path '' @ loc_text candidate @ '' escapes directory '' @ loc_text base)))"

definition is_safe_command_name :: "string \<Rightarrow> bool" where
  "is_safe_command_name n \<longleftrightarrow>
     CHR ''/'' \<notin> set n \<and> backslash \<notin> set n \<and> as_posix (norm_parts [] (path_parts (parse_path n))) = n"

definition active_skills_agent :: "resolver \<Rightarrow> string option" where
  "active_skills_agent e =
     (let opts = init_options_of e in
      case get_none opts ''ai'' of
        PStr a \<Rightarrow> if a \<noteq> [] \<and> (is_ai_skills_enabled opts \<or> a = ''kimi'') then Some a else None
      | _ \<Rightarrow> None)"

text \<open>\<open>_resolve_agent_dir\<close>: the configured directory, or an old one that is there instead.\<close>

definition lstrip_slashes :: "string \<Rightarrow> string" where
  "lstrip_slashes t = dropWhile (\<lambda>c. c = CHR ''/'') t"

definition configured_dir :: "registrar \<Rightarrow> string \<Rightarrow> loc" where
  "configured_dir g d =
     (if starts_with ''~'' d then path_div (rg_home g) (parse_path (lstrip_slashes (drop 1 d)))
      else path_div (pr_root (rg_env g)) (parse_path d))"

definition legacy_dir :: "registrar \<Rightarrow> agent_config \<Rightarrow> loc option" where
  "legacy_dir g cfg =
     (case ac_legacy_dir cfg of
        None \<Rightarrow> None
      | Some d \<Rightarrow> if d = [] then None else Some (path_div (pr_root (rg_env g)) (parse_path d)))"

definition resolve_agent_dir :: "registrar \<Rightarrow> tree \<Rightarrow> agent_config \<Rightarrow> loc" where
  "resolve_agent_dir g t cfg =
     (let d = configured_dir g (ac_dir cfg) in
      if path_exists t d then d
      else (case legacy_dir g cfg of Some l \<Rightarrow> if path_exists t l then l else d | None \<Rightarrow> d))"

section \<open>Links\<close>

text \<open>\<open>os.path.relpath\<close> of absolute paths, and \<open>os.symlink\<close> with a relative target.\<close>

fun common_prefix :: "loc \<Rightarrow> loc \<Rightarrow> nat" where
  "common_prefix (x # p) (y # q) = (if x = y then Suc (common_prefix p q) else 0)"
| "common_prefix p q = 0"

definition relpath :: "loc \<Rightarrow> loc \<Rightarrow> string list" where
  "relpath p start =
     (let a = normpath p; b = normpath start; k = common_prefix a b
      in replicate (length b - k) ''..'' @ drop k a)"

definition fs_symlink :: "string list \<Rightarrow> loc \<Rightarrow> tree \<Rightarrow> (errno, tree) res" where
  "fs_symlink target p t = rbind (entry_loc t p) (\<lambda>l. case node_at t l of
     None \<Rightarrow> Inr (t @ [(l, LinkNode False target)]) | Some _ \<Rightarrow> Inl EEXIST)"

text \<open>The file is written as it is, or into a cache of the source with a link to it; when that fails, written.\<close>

definition or_else :: "unit fop \<Rightarrow> unit fop \<Rightarrow> unit fop" where
  "or_else m other t = (case m t of (Inr _, t') \<Rightarrow> (Inr (), t') | (Inl _, t') \<Rightarrow> other t')"

definition output_file :: "loc \<Rightarrow> string \<Rightarrow> agent_config \<Rightarrow> loc" where
  "output_file dir n cfg = path_div dir (parse_path (n @ ac_extension cfg))"

definition link_or_write :: "loc \<Rightarrow> loc \<Rightarrow> string \<Rightarrow> unit fop" where
  "link_or_write cache_file dest content =
     or_else
       (sthen (on_tree (fs_mkdirs (butlast cache_file)))
       (sthen (on_tree (fs_write cache_file content))
       (sbind (sget id) (\<lambda>t.
        sthen (if path_exists t dest \<or> is_symlink t dest then on_tree (fs_unlink dest) else sret ())
        (on_tree (fs_symlink (relpath cache_file (butlast dest)) dest))))))
       (sbind (sget id) (\<lambda>t.
        sthen (if is_symlink t dest then on_tree (fs_unlink dest) else sret ())
        (on_tree (fs_write dest content))))"

definition write_registered_output ::
  "loc \<Rightarrow> string \<Rightarrow> loc \<Rightarrow> string \<Rightarrow> string \<Rightarrow> agent_config \<Rightarrow> bool \<Rightarrow> unit fop" where
  "write_registered_output dest content source_dir agent output_name cfg link_outputs =
     (if \<not> link_outputs then on_tree (fs_write dest content)
      else let cache_root = path_div (source_dir @ [''.specify-dev'', ''agent-commands'']) (parse_path agent);
               cache_file = output_file cache_root output_name cfg
        in sthen (slift (ensure_inside cache_file cache_root)) (link_or_write cache_file dest content))"

definition write_copilot_prompt :: "loc \<Rightarrow> string \<Rightarrow> unit fop" where
  "write_copilot_prompt project cmd =
     (let dir = project @ [''.github'', ''prompts'']; file = path_div dir (parse_path (cmd @ ''.prompt.md'')) in
      sthen (on_tree (fs_mkdirs dir))
     (sthen (slift (ensure_inside file dir))
     (on_tree (fs_write file (line_of ''---'' @ line_of (''agent: '' @ cmd) @ line_of ''---'')))))"

section \<open>The text of a command\<close>

definition first_resolved :: "loc option py list \<Rightarrow> loc option py" where
  "first_resolved rs = foldr (\<lambda>r rest. rbind r (\<lambda>x. case x of Some p \<Rightarrow> Inr (Some p) | None \<Rightarrow> rest)) rs (Inr None)"

text \<open>\<open>_substitute_core_template\<close> (\<open>specify_cli/presets.py\<close>).\<close>

definition substitute_core_template :: "resolver \<Rightarrow> string \<Rightarrow> string \<Rightarrow> (string \<times> (pyval \<times> pyval) list) py" where
  "substitute_core_template e body cmd =
     (if \<not> has_sub ''{CORE_TEMPLATE}'' body then Inr (body, [])
      else let short = (if starts_with ''speckit.'' cmd then drop 8 cmd else cmd) in
        rbind (first_resolved [resolve_core e ''command'' cmd, resolve_extension_command_via_manifest e cmd,
            resolve_core e ''command'' short]) (\<lambda>file.
        case file of
          None \<Rightarrow> Inr (body, [])
        | Some p \<Rightarrow> rbind (read_text e p) (\<lambda>text.
            case parse_frontmatter e text of (fm, core) \<Rightarrow> Inr (replace_all ''{CORE_TEMPLATE}'' core body, fm))))"

definition inherit_field :: "(pyval \<times> pyval) list \<Rightarrow> string \<Rightarrow> (pyval \<times> pyval) list \<Rightarrow> (pyval \<times> pyval) list" where
  "inherit_field core key fm =
     (if has_field fm key then fm
      else case field core key of Some v \<Rightarrow> assoc_set (PStr key) v fm | None \<Rightarrow> fm)"

definition injected_name :: "agent_config \<Rightarrow> string \<Rightarrow> pyval" where
  "injected_name cfg cmd = PStr (case ac_format_name cfg of Some f \<Rightarrow> f cmd | None \<Rightarrow> cmd)"

text \<open>The front matter and the body before they are printed.\<close>

definition prepared_command ::
  "resolver \<Rightarrow> string \<Rightarrow> agent_config \<Rightarrow> string \<Rightarrow> string \<Rightarrow> string \<Rightarrow> ((pyval \<times> pyval) list \<times> string) py" where
  "prepared_command e agent cfg source_id cmd content =
     (case parse_frontmatter e content of (fm0, body0) \<Rightarrow>
      rbind (if py_eq (get_none fm0 ''strategy'') (PStr ''wrap'')
             then rbind (substitute_core_template e body0 cmd) (\<lambda>(body, core).
               Inr (assoc_remove (PStr ''strategy'') (inherit_field core ''agent_scripts'' (inherit_field core ''scripts'' fm0)), body))
             else Inr (fm0, body0)) (\<lambda>(fm, body).
      let fm = adjust_script_paths fm;
          fm = fold (\<lambda>k. assoc_remove (PStr k)) (ac_strip_keys cfg) fm;
          fm = (if ac_inject_name cfg \<and> \<not> truthy (get_none fm ''name'')
                then assoc_set (PStr ''name'') (injected_name cfg cmd) fm else fm);
          cline = (agent = ''cline'' \<and> source_id \<noteq> ''core'');
          fm = (if cline then dict_of (hyphenate_frontmatter_refs (PDict fm)) else fm);
          body = (if cline then hyphenate_body_refs body else body);
          body = convert_argument_placeholder body ''$ARGUMENTS'' (ac_args cfg)
      in Inr (fm, resolve_command_refs (ac_separator cfg) body)))"

definition unsupported_format :: "string \<Rightarrow> pyexn" where
  "unsupported_format f = value_error (''Unsupported format: '' @ f)"

text \<open>What \<open>register_commands\<close> is called with, besides the agent and the commands.\<close>

record registration =
  rn_source_id :: string
  rn_source_dir :: loc
  rn_note :: "string option"
  rn_link :: bool

text \<open>The text of the command, and the body as later texts of the same command start from.\<close>

definition command_output ::
  "registrar \<Rightarrow> resolver \<Rightarrow> string \<Rightarrow> agent_config \<Rightarrow> registration \<Rightarrow> command_info \<Rightarrow> string \<Rightarrow>
     (pyval \<times> pyval) list \<Rightarrow> string \<Rightarrow> (string \<times> string) py" where
  "command_output g e agent cfg rn cmd output_name fm body =
     (let placeholders = rbind (resolve_skill_placeholders e (rg_windows g) agent fm body) (\<lambda>b.
            Inr (convert_argument_placeholder b ''$ARGUMENTS'' (ac_args cfg))) in
      if ac_extension cfg = skill_file
      then rbind (render_skill_command e (rg_windows g) True agent output_name fm body (rn_source_id rn) (ci_file cmd)) (\<lambda>t. Inr (t, body))
      else if ac_format cfg = ''markdown''
      then rbind placeholders (\<lambda>b. Inr (render_markdown_command e fm b (rn_source_id rn) (rn_note rn), b))
      else if ac_format cfg = ''toml''
      then rbind placeholders (\<lambda>b. rbind (render_toml_command fm b (rn_source_id rn)) (\<lambda>t. Inr (t, b)))
      else if ac_format cfg = ''yaml''
      then Inr (render_yaml_command e fm body (rn_source_id rn) (ci_name cmd), body)
      else Inl (unsupported_format (ac_format cfg)))"

definition alias_output ::
  "registrar \<Rightarrow> resolver \<Rightarrow> string \<Rightarrow> agent_config \<Rightarrow> registration \<Rightarrow> command_info \<Rightarrow> string \<Rightarrow> string \<Rightarrow>
     (pyval \<times> pyval) list \<Rightarrow> string \<Rightarrow> string \<Rightarrow> string py" where
  "alias_output g e agent cfg rn cmd a alias_name fm body output =
     (let skill = (\<lambda>fm. render_skill_command e (rg_windows g) True agent alias_name fm body (rn_source_id rn) (ci_file cmd)) in
      if ac_inject_name cfg
      then (let fm = assoc_set (PStr ''name'') (injected_name cfg a) fm in
        if ac_extension cfg = skill_file then skill fm
        else if ac_format cfg = ''markdown'' then Inr (render_markdown_command e fm body (rn_source_id rn) (rn_note rn))
        else if ac_format cfg = ''toml'' then render_toml_command fm body (rn_source_id rn)
        else if ac_format cfg = ''yaml'' then Inr (render_yaml_command e fm body (rn_source_id rn) a)
        else Inl (unsupported_format (ac_format cfg)))
      else if ac_extension cfg = skill_file then skill fm
      else Inr output)"

section \<open>Registering\<close>

text \<open>One text written for an agent.\<close>

definition write_output :: "registrar \<Rightarrow> string \<Rightarrow> agent_config \<Rightarrow> registration \<Rightarrow> loc \<Rightarrow> string \<Rightarrow> string \<Rightarrow> string \<Rightarrow> unit fop" where
  "write_output g agent cfg rn dir cmd output_name text =
     (let dest = output_file dir output_name cfg in
      sthen (slift (ensure_inside dest dir))
     (sthen (on_tree (fs_mkdirs (butlast dest)))
     (sthen (write_registered_output dest text (rn_source_dir rn) agent output_name cfg (rn_link rn))
     (if agent = ''copilot'' then write_copilot_prompt (pr_root (rg_env g)) cmd else sret ()))))"

fun register_aliases ::
  "registrar \<Rightarrow> string \<Rightarrow> agent_config \<Rightarrow> registration \<Rightarrow> loc \<Rightarrow> command_info \<Rightarrow> (pyval \<times> pyval) list \<Rightarrow> string \<Rightarrow> string \<Rightarrow> string list \<Rightarrow> unit fop" where
  "register_aliases g agent cfg rn dir cmd fm body output [] = sret ()"
| "register_aliases g agent cfg rn dir cmd fm body output (a # as) =
     sbind (sget (at_tree (rg_env g))) (\<lambda>e.
     let alias_name = compute_output_name a cfg in
     sbind (slift (alias_output g e agent cfg rn cmd a alias_name fm body output)) (\<lambda>text.
     sthen (write_output g agent cfg rn dir a alias_name text)
     (register_aliases g agent cfg rn dir cmd fm body output as)))"

text \<open>The names registered; a command whose file is missing is left out.\<close>

definition register_command :: "registrar \<Rightarrow> string \<Rightarrow> agent_config \<Rightarrow> registration \<Rightarrow> loc \<Rightarrow> command_info \<Rightarrow> string list fop" where
  "register_command g agent cfg rn dir cmd =
     sbind (sget (at_tree (rg_env g))) (\<lambda>e.
     let file = path_div (rn_source_dir rn) (parse_path (ci_file cmd)); output_name = compute_output_name (ci_name cmd) cfg in
     if \<not> there e file then sret []
     else
       sbind (slift (read_text e file)) (\<lambda>content.
       sbind (slift (prepared_command e agent cfg (rn_source_id rn) (ci_name cmd) content)) (\<lambda>(fm, body).
       sbind (slift (command_output g e agent cfg rn cmd output_name fm body)) (\<lambda>(text, body).
       sthen (write_output g agent cfg rn dir (ci_name cmd) output_name text)
      (sthen (register_aliases g agent cfg rn dir cmd fm body text (ci_aliases cmd))
      (sret (ci_name cmd # ci_aliases cmd)))))))"

fun register_each :: "(command_info \<Rightarrow> string list fop) \<Rightarrow> command_info list \<Rightarrow> string list fop" where
  "register_each f [] = sret []"
| "register_each f (c # cs) = sbind (f c) (\<lambda>ns. sbind (register_each f cs) (\<lambda>more. sret (ns @ more)))"

definition register_commands ::
  "registrar \<Rightarrow> string \<Rightarrow> command_info list \<Rightarrow> registration \<Rightarrow> loc option \<Rightarrow> string list fop" where
  "register_commands g agent cmds rn resolved_dir =
     (case map_of (rg_configs g) agent of
        None \<Rightarrow> sraise (value_error (''Unsupported agent: '' @ agent))
      | Some cfg \<Rightarrow>
          sbind (sget id) (\<lambda>t.
          let dir = (case resolved_dir of Some d \<Rightarrow> d | None \<Rightarrow> resolve_agent_dir g t cfg) in
          sthen (on_tree (fs_mkdirs dir))
          (register_each (register_command g agent cfg rn dir) cmds)))"

section \<open>Registering for all agents\<close>

definition get_skills_dir :: "registrar \<Rightarrow> string \<Rightarrow> loc" where
  "get_skills_dir g agent =
     (let folder = rg_folders g agent; root = pr_root (rg_env g) in
      if folder = [] then root @ [''.agents'', ''skills'']
      else path_div root (parse_path (rev (dropWhile (\<lambda>c. c = CHR ''/'') (rev folder)))) @ [''skills''])"

text \<open>A step on the tree alone where a manifest is around as well.\<close>

definition without_manifest :: "unit mop \<Rightarrow> unit fop" where
  "without_manifest m t =
     (case m \<lparr>ms_fs = t, ms_man = \<lparr>mf_key = [], mf_project_root = [], mf_version = PNone, mf_files = [], mf_recovered = [],
        mf_installed_at = PNone\<rparr>\<rparr> of (r, s) \<Rightarrow> (r, ms_fs s))"

definition resolve_active_skills_dir :: "registrar \<Rightarrow> loc option fop" where
  "resolve_active_skills_dir g =
     sbind (sget (at_tree (rg_env g))) (\<lambda>e.
     let opts = init_options_of e in
     case active_skills_agent e of
       None \<Rightarrow> sret None
     | Some agent \<Rightarrow>
         (let dir = get_skills_dir g agent; enabled = is_ai_skills_enabled opts in
          if \<not> enabled \<and> \<not> is_dir (pr_tree e) dir then sret None
          else sthen (without_manifest (ensure_safe_shared_directory enabled ''agent skills directory'' (pr_root e) dir))
            (sret (Some dir))))"

text \<open>
  The exceptions of creating the directory that only skip the agent. A \<open>RuntimeError\<close> is none of them.
\<close>

definition value_or_os_error :: "pyexn \<Rightarrow> bool" where
  "value_or_os_error x \<longleftrightarrow>
     (case x of PyExc n _ \<Rightarrow> n \<in> manifest_errors \<or> n = ''SymlinkedSharedPathError'' | _ \<Rightarrow> False)"

definition is_value_error :: "pyexn \<Rightarrow> bool" where
  "is_value_error x \<longleftrightarrow> (case x of PyExc n _ \<Rightarrow> n = ''ValueError'' \<or> n = ''SymlinkedSharedPathError'' | _ \<Rightarrow> False)"

definition recovered_dir :: "registrar \<Rightarrow> loc option fop" where
  "recovered_dir g t =
     (case resolve_active_skills_dir g t of
        (Inl x, t') \<Rightarrow> if value_or_os_error x then (Inr None, t') else (Inl x, t')
      | r \<Rightarrow> r)"

text \<open>
  \<open>(go on, recovered)\<close>: an agent whose marker directory is missing is used only when it is the active one
  and its directory could be created.
\<close>

definition detected :: "registrar \<Rightarrow> agent_config \<Rightarrow> bool \<Rightarrow> (bool \<times> loc option) fop" where
  "detected g cfg active =
     (case ac_detect_dir cfg of
        None \<Rightarrow> sret (True, None)
      | Some d \<Rightarrow>
          if d = [] then sret (True, None)
          else let p = path_div (pr_root (rg_env g)) (parse_path d) in
            sbind (sget id) (\<lambda>t.
            if is_dir t p then sret (True, None)
            else if \<not> active then sret (False, None)
            else sbind (recovered_dir g) (\<lambda>r. sbind (sget id) (\<lambda>t. sret (r \<noteq> None \<and> is_dir t p, r)))))"

text \<open>\<open>created\<close> is the skills directory this call has made for the active agent.\<close>

type_synonym registered = "(string \<times> string list) list"

definition register_for_agent ::
  "registrar \<Rightarrow> command_info list \<Rightarrow> registration \<Rightarrow> string option \<Rightarrow> string \<times> agent_config \<Rightarrow> loc option \<times> registered \<Rightarrow>
     (loc option \<times> registered) fop" where
  "register_for_agent g cmds rn active_agent = (\<lambda>(agent, cfg) (created, results).
     let active = (active_agent = Some agent \<and> ac_extension cfg = skill_file) in
     sbind (detected g cfg active) (\<lambda>(go_on, recovered).
     if \<not> go_on then sret (created, results)
     else
       let created = (if recovered \<noteq> None then recovered else created) in
       sbind (sget id) (\<lambda>t.
       let dir = resolve_agent_dir g t cfg; existed = is_dir t dir; missing = (\<not> existed \<and> active) in
       sbind (if missing \<and> recovered = None then recovered_dir g else sret recovered) (\<lambda>recovered.
       if missing \<and> recovered = None then sret (created, results)
       else
         let created = (if missing then recovered else created);
             by_active = (case created of Some c \<Rightarrow> normpath dir = normpath c \<and> active_agent \<noteq> Some agent | None \<Rightarrow> False)
         in if (existed \<and> \<not> by_active) \<or> missing
            then (\<lambda>t. case register_commands g agent cmds rn (Some dir) t of
                (Inr ns, t') \<Rightarrow>
                  (Inr (if missing then (case recovered of Some r \<Rightarrow> Some r | None \<Rightarrow> Some dir) else created,
                     if ns = [] then results else results @ [(agent, ns)]), t')
              | (Inl x, t') \<Rightarrow>
                  if is_value_error x \<or> (missing \<and> value_or_os_error x) then (Inr (created, results), t') else (Inl x, t'))
            else sret (created, results)))))"

fun register_in_turn :: "('a \<Rightarrow> 'b \<Rightarrow> 'b fop) \<Rightarrow> 'a list \<Rightarrow> 'b \<Rightarrow> 'b fop" where
  "register_in_turn f [] b = sret b"
| "register_in_turn f (x # xs) b = sbind (f x b) (register_in_turn f xs)"

definition register_commands_for_all_agents ::
  "registrar \<Rightarrow> command_info list \<Rightarrow> registration \<Rightarrow> bool \<Rightarrow> registered fop" where
  "register_commands_for_all_agents g cmds rn create_missing =
     sbind (sget (at_tree (rg_env g))) (\<lambda>e.
     sbind (register_in_turn (register_for_agent g cmds rn (if create_missing then active_skills_agent e else None)) (rg_configs g) (None, []))
       (\<lambda>(_, results). sret results))"

definition register_for_non_skill_agent ::
  "registrar \<Rightarrow> command_info list \<Rightarrow> registration \<Rightarrow> string \<times> agent_config \<Rightarrow> registered \<Rightarrow> registered fop" where
  "register_for_non_skill_agent g cmds rn = (\<lambda>(agent, cfg) results.
     if ac_extension cfg = skill_file then sret results
     else sbind (detected g cfg False) (\<lambda>(go_on, _).
       if \<not> go_on then sret results
       else sbind (sget id) (\<lambda>t.
         let dir = resolve_agent_dir g t cfg in
         if \<not> is_dir t dir then sret results
         else (\<lambda>t. case register_commands g agent cmds rn (Some dir) t of
             (Inr ns, t') \<Rightarrow> (Inr (if ns = [] then results else results @ [(agent, ns)]), t')
           | (Inl x, t') \<Rightarrow> if is_value_error x then (Inr results, t') else (Inl x, t')))))"

definition register_commands_for_non_skill_agents :: "registrar \<Rightarrow> command_info list \<Rightarrow> registration \<Rightarrow> registered fop" where
  "register_commands_for_non_skill_agents g cmds rn =
     register_in_turn (register_for_non_skill_agent g cmds rn) (rg_configs g) []"

section \<open>Removing\<close>

text \<open>One file, with the directory of a skill that is empty afterwards.\<close>

definition drop_empty_parent :: "loc \<Rightarrow> loc \<Rightarrow> unit fop" where
  "drop_empty_parent dir parent t =
     (Inr (), if parent \<noteq> dir \<and> path_exists t parent
        then (case fs_rmdir parent t of Inr t' \<Rightarrow> t' | Inl _ \<Rightarrow> t) else t)"

definition remove_command_file :: "loc \<Rightarrow> agent_config \<Rightarrow> string \<Rightarrow> unit fop" where
  "remove_command_file dir cfg n =
     (let file = output_file dir n cfg in
      if \<not> lexically_inside file dir then sret ()
      else sbind (sget id) (\<lambda>t.
        if \<not> path_exists t file \<and> \<not> is_symlink t file then sret ()
        else sthen (on_tree (fs_unlink file)) (drop_empty_parent dir (butlast file))))"

definition names_to_clean :: "agent_config \<Rightarrow> string \<Rightarrow> string list" where
  "names_to_clean cfg cmd =
     (let n = compute_output_name cmd cfg in if n \<noteq> cmd \<and> is_safe_command_name cmd then [n, cmd] else [n])"

definition remove_copilot_prompt :: "loc \<Rightarrow> string \<Rightarrow> unit fop" where
  "remove_copilot_prompt project cmd =
     (let file = path_div (project @ [''.github'', ''prompts'']) (parse_path (cmd @ ''.prompt.md'')) in
      sbind (sget id) (\<lambda>t. if path_exists t file then on_tree (fs_unlink file) else sret ()))"

definition dirs_to_clean :: "registrar \<Rightarrow> tree \<Rightarrow> agent_config \<Rightarrow> loc list" where
  "dirs_to_clean g t cfg =
     (let d = resolve_agent_dir g t cfg in
      d # (case legacy_dir g cfg of Some l \<Rightarrow> if path_exists t l \<and> l \<noteq> d then [l] else [] | None \<Rightarrow> []))"

definition unregister_command :: "registrar \<Rightarrow> string \<Rightarrow> agent_config \<Rightarrow> loc list \<Rightarrow> string \<Rightarrow> unit fop" where
  "unregister_command g agent cfg dirs cmd =
     sthen (sfor [(d, n). d \<leftarrow> dirs, n \<leftarrow> names_to_clean cfg cmd] (\<lambda>(d, n). remove_command_file d cfg n))
     (if agent = ''copilot'' then remove_copilot_prompt (pr_root (rg_env g)) cmd else sret ())"

definition unregister_commands :: "registrar \<Rightarrow> (string \<times> string list) list \<Rightarrow> unit fop" where
  "unregister_commands g registered =
     sfor registered (\<lambda>(agent, cmds).
       case map_of (rg_configs g) agent of
         None \<Rightarrow> sret ()
       | Some cfg \<Rightarrow> sbind (sget id) (\<lambda>t. sfor cmds (unregister_command g agent cfg (dirs_to_clean g t cfg))))"

end
