(* ===== verification/RegistrarProps.thy ===== *)
theory RegistrarProps
  imports Registrar ContextProps
begin

text \<open>
  Where the registrar of commands writes and what it removes: only files below the directory of the agent (and
  the prompts of Copilot), whatever the names of the commands are, in a project without symbolic links; and what
  removing takes away, links included.
\<close>

section \<open>Without links, a path is where its text says\<close>

definition no_links :: "tree \<Rightarrow> bool" where
  "no_links t \<longleftrightarrow> (\<forall>l ab tg. map_of t l \<noteq> Some (LinkNode ab tg))"

lemma locate_no_links: "locate_from t act p rest = Inr l \<Longrightarrow> no_links t \<Longrightarrow> l = normpath_from p rest"
proof (induction t act p rest arbitrary: l rule: locate_from.induct)
  case (2 t act p n rest)
  show ?case
  proof (cases "n = ''..''")
    case True
    with 2 show ?thesis by (auto split: if_splits)
  next
    case False
    with "2.prems" obtain m where m: "map_of t (p @ [n]) = Some m" "node_at t p = Some DirNode"
      by (auto split: if_splits option.splits)
    with "2.prems"(2) have nl: "\<And>ab tg. m \<noteq> LinkNode ab tg" by (auto simp: no_links_def)
    show ?thesis
    proof (cases m)
      case (LinkNode ab tg)
      with nl show ?thesis by blast
    qed (use False m 2 in simp_all)
  qed
qed simp

lemma normpath_snoc: "normpath (p @ [n]) = (if n = ''..'' then butlast (normpath p) else normpath p @ [n])"
proof -
  have "normpath_from acc (p @ [n]) = (if n = ''..'' then butlast (normpath_from acc p) else normpath_from acc p @ [n])" for acc
    by (induction p arbitrary: acc) auto
  then show ?thesis by (simp add: normpath_def)
qed

lemma entry_no_links:
  assumes "entry_loc t p = Inr l" "no_links t"
  shows "l = normpath p"
proof (cases "p = [] \<or> last p = ''..''")
  case False
  then obtain q n where p: "p = q @ [n]" "n \<noteq> ''..''" by (cases p rule: rev_cases) auto
  with assms(1) False obtain d where "locate t q = Inr d" "l = d @ [n]"
    by (auto simp: entry_loc_def rbind_Inr_iff split: if_splits)
  moreover from this(1) have "d = normpath q" using locate_no_links assms(2) unfolding locate_def normpath_def by blast
  ultimately show ?thesis using p by (simp add: normpath_snoc)
qed (use assms locate_no_links in \<open>auto simp: entry_loc_def locate_def normpath_def\<close>)

section \<open>What a step may change\<close>

definition dir_or_nothing :: "node option \<Rightarrow> bool" where
  "dir_or_nothing x \<longleftrightarrow> x = None \<or> x = Some DirNode"

text \<open>Only locations in \<open>P\<close> change, apart from directories that come or go.\<close>

definition changes_only :: "(loc \<Rightarrow> bool) \<Rightarrow> tree \<Rightarrow> tree \<Rightarrow> bool" where
  "changes_only P t t' \<longleftrightarrow> no_links t' \<and>
     (\<forall>l. node_at t' l = node_at t l \<or> P l \<or> dir_or_nothing (node_at t l) \<and> dir_or_nothing (node_at t' l))"

lemma changes_refl: "no_links t \<Longrightarrow> changes_only P t t"
  by (simp add: changes_only_def)

lemma changes_trans: "changes_only P t u \<Longrightarrow> changes_only P u v \<Longrightarrow> changes_only P t v"
  unfolding changes_only_def by metis

definition stays :: "(loc \<Rightarrow> bool) \<Rightarrow> 'a fop \<Rightarrow> bool" where
  "stays P m \<longleftrightarrow> (\<forall>t r t'. no_links t \<longrightarrow> m t = (r, t') \<longrightarrow> changes_only P t t')"

lemma staysD: "stays P m \<Longrightarrow> no_links t \<Longrightarrow> m t = (r, t') \<Longrightarrow> changes_only P t t'"
  by (simp add: stays_def)

lemma stays_sbind [intro]:
  assumes "stays P m" "\<And>a. stays P (f a)" shows "stays P (sbind m f)"
  unfolding stays_def
proof (intro allI impI)
  fix t r t'
  assume t: "no_links t" "sbind m f t = (r, t')"
  obtain x t1 where m: "m t = (x, t1)" by (cases "m t")
  note c = staysD[OF assms(1) t(1) m]
  show "changes_only P t t'"
  proof (cases x)
    case (Inl e)
    with m t(2) c show ?thesis by (simp add: sbind_def)
  next
    case (Inr a)
    with m t(2) have "f a t1 = (r, t')" by (simp add: sbind_def)
    from changes_trans[OF c staysD[OF assms(2) _ this]] c show ?thesis by (simp add: changes_only_def)
  qed
qed

lemma stays_sthen [intro]: "stays P m \<Longrightarrow> stays P k \<Longrightarrow> stays P (sthen m k)"
  unfolding sthen_def by blast

lemma stays_read [intro, simp]:
  "stays P (sret a)" "stays P (sget f)" "stays P (slift r)" "stays P (sraise x)"
  by (auto simp: stays_def svc_defs changes_refl split: sum.splits)

lemma stays_on_tree: "(\<And>t t'. no_links t \<Longrightarrow> f t = Inr t' \<Longrightarrow> changes_only P t t') \<Longrightarrow> stays P (on_tree f)"
  by (auto simp: stays_def on_tree_def changes_refl split: sum.splits)

lemma mkdir_changes: "no_links t \<Longrightarrow> fs_mkdir p t = Inr t' \<Longrightarrow> changes_only P t t'"
  by (auto simp: fs_mkdir_def rbind_Inr_iff changes_only_def no_links_def node_at_def dir_or_nothing_def map_add_def
      split: option.splits if_splits)

lemma mkdirs_changes: "no_links t \<Longrightarrow> fs_mkdirs p t = Inr t' \<Longrightarrow> changes_only P t t'"
proof (induction p t arbitrary: t' rule: fs_mkdirs.induct)
  case (1 p t)
  show ?case
  proof (cases "fs_mkdir p t")
    case (Inr u)
    with 1 show ?thesis using mkdir_changes[of t p u P] by (simp add: fs_mkdirs.simps[of p t])
  next
    case (Inl n)
    show ?thesis
    proof (cases "n = ENOENT")
      case True
      with Inl "1.prems"(2) obtain t1 where t1: "p \<noteq> []" "fs_mkdirs (butlast p) t = Inr t1"
        "(case fs_mkdir p t1 of Inr t' \<Rightarrow> Inr t' | Inl e \<Rightarrow> if is_dir t1 p then Inr t1 else Inl e) = Inr t'"
        by (auto simp: fs_mkdirs.simps[of p t] rbind_Inr_iff split: if_splits)
      have c: "changes_only P t t1" using "1.IH"[OF _ True t1(1) "1.prems"(1) t1(2)] Inl by simp
      then have "no_links t1" by (simp add: changes_only_def)
      with t1(3) c show ?thesis
        by (cases "fs_mkdir p t1") (auto split: if_splits intro: changes_trans mkdir_changes)
    next
      case False
      with Inl 1 show ?thesis
        by (cases n) (auto simp: fs_mkdirs.simps[of p t] changes_refl split: if_splits)
    qed
  qed
qed

lemma write_changes:
  assumes "no_links t" "fs_write p c t = Inr t'" "P (normpath p)"
  shows "changes_only P t t'"
proof (cases "locate t p")
  case (Inr l)
  with assms(1,2) have "l = normpath p" "t' = dict_set l (FileNode c) t"
    using locate_no_links by (auto simp: fs_write_def locate_def normpath_def split: option.splits node.splits)
  with assms(1,3) show ?thesis by (auto simp: changes_only_def no_links_def node_at_def)
next
  case (Inl n)
  with assms(2) obtain l where l: "entry_loc t p = Inr l" "node_at t l = None" "t' = t @ [(l, FileNode c)]"
    by (auto simp: fs_write_def rbind_Inr_iff split: if_splits)
  then have "l = normpath p" "map_of t' = (map_of t)(l \<mapsto> FileNode c)"
    using entry_no_links[OF l(1) assms(1)] map_of_snoc[of t l] by (auto simp: node_at_def split: if_splits)
  with assms(1,3) show ?thesis by (auto simp: changes_only_def no_links_def node_at_def)
qed

lemma unlink_changes:
  assumes "no_links t" "fs_unlink p t = Inr t'" "P (normpath p)"
  shows "changes_only P t t'"
  using assms(2)
proof (rule unlink_InrD)
  fix l n assume "entry_loc t p = Inr l" "node_at t l = Some n" "n \<noteq> DirNode" "t' = tree_remove l t"
  moreover from this have "l = normpath p" using entry_no_links assms(1) by blast
  ultimately show ?thesis
    using assms(1,3) by (auto simp: changes_only_def no_links_def node_at_def map_of_remove)
qed

lemma rmdir_changes:
  assumes "no_links t" "fs_rmdir p t = Inr t'"
  shows "changes_only P t t'"
  using rmdir_InrD[OF assms(2)] assms(1)
  by (auto simp: changes_only_def no_links_def node_at_def map_of_remove dir_or_nothing_def split: if_splits)

section \<open>Registering and removing\<close>

lemmas tree_steps = mkdirs_changes write_changes unlink_changes

definition inside :: "loc \<Rightarrow> loc \<Rightarrow> bool" where
  "inside d l \<longleftrightarrow> (\<exists>q. l = normpath d @ q)"

lemma lexically_inside_iff: "lexically_inside p d \<longleftrightarrow> inside d (normpath p)"
  by (auto simp: lexically_inside_def inside_def relative_to_Some)

lemma stays_checked:
  assumes "lexically_inside p d \<Longrightarrow> stays P k"
  shows "stays P (sthen (slift (ensure_inside p d)) k)"
proof (cases "lexically_inside p d")
  case True
  then show ?thesis using assms by (simp add: stays_sthen)
next
  case False
  then show ?thesis by (auto simp: ensure_inside_def stays_def svc_defs changes_refl)
qed

text \<open>Where an agent's commands may be written.\<close>

definition prompts_dir :: "registrar \<Rightarrow> loc" where
  "prompts_dir g = pr_root (rg_env g) @ [''.github'', ''prompts'']"

definition command_place :: "registrar \<Rightarrow> string \<Rightarrow> loc \<Rightarrow> loc \<Rightarrow> bool" where
  "command_place g agent d l \<longleftrightarrow> inside d l \<or> agent = ''copilot'' \<and> inside (prompts_dir g) l"

lemma prompt_stays: "stays (command_place g ''copilot'' d) (write_copilot_prompt (pr_root (rg_env g)) cmd)"
  unfolding write_copilot_prompt_def Let_def
  by (intro stays_sthen stays_on_tree stays_checked)
    (auto simp: lexically_inside_iff command_place_def prompts_dir_def intro: tree_steps)

lemma write_output_stays:
  "\<not> rn_link rn \<Longrightarrow> stays (command_place g agent d) (write_output g agent cfg rn d cmd n text)"
  unfolding write_output_def write_registered_output_def Let_def
  by (rule stays_checked, intro stays_sthen)
    (auto simp: lexically_inside_iff output_file_def command_place_def intro!: stays_on_tree prompt_stays intro: tree_steps)

lemma aliases_stay:
  "\<not> rn_link rn \<Longrightarrow> stays (command_place g agent d) (register_aliases g agent cfg rn d cmd fm body out as)"
  by (induction as) (auto simp: Let_def intro!: stays_sbind stays_sthen write_output_stays)

lemma register_command_stays:
  "\<not> rn_link rn \<Longrightarrow> stays (command_place g agent d) (register_command g agent cfg rn d cmd)"
  unfolding register_command_def Let_def
  by (auto intro!: stays_sbind stays_sthen write_output_stays aliases_stay)

lemma register_each_stays: "(\<And>c. stays P (f c)) \<Longrightarrow> stays P (register_each f cs)"
  by (induction cs) auto

lemma register_commands_stays:
  assumes "\<not> rn_link rn" shows "stays (command_place g agent d) (register_commands g agent cmds rn (Some d))"
proof (cases "map_of (rg_configs g) agent")
  case (Some cfg)
  then show ?thesis
    unfolding register_commands_def using assms
    by (auto intro!: stays_sbind stays_sthen stays_on_tree register_each_stays register_command_stays mkdirs_changes)
qed (simp add: register_commands_def)

lemma resolved_commands:
  "map_of (rg_configs g) agent = Some cfg \<Longrightarrow> register_commands g agent cmds rn None t =
     register_commands g agent cmds rn (Some (resolve_agent_dir g t cfg)) t"
  by (simp add: register_commands_def sbind_sget)

text \<open>C14. Registering commands as files, in a tree without symbolic links, changes nothing but files below the
  agent's directory, given or found, and, for Copilot, below the prompts of the project; otherwise only directories
  appear. This holds whatever the names and aliases of the commands are and whether registering succeeds or
  not. Outputs that are linked to a cache, as development mode has them, are not covered.\<close>

theorem registered_files_stay_inside:
  assumes "register_commands g agent cmds rn given t = (r, t')" "no_links t" "\<not> rn_link rn"
    "map_of (rg_configs g) agent = Some cfg"
    "d = (case given of Some d \<Rightarrow> d | None \<Rightarrow> resolve_agent_dir g t cfg)"
  shows "node_at t' l = node_at t l \<or> (\<exists>q. l = normpath d @ q) \<or>
     (agent = ''copilot'' \<and> (\<exists>q. l = normpath (pr_root (rg_env g) @ [''.github'', ''prompts'']) @ q)) \<or>
     (dir_or_nothing (node_at t l) \<and> dir_or_nothing (node_at t' l))"
proof -
  have "register_commands g agent cmds rn (Some d) t = (r, t')"
    using assms(1,5) resolved_commands[OF assms(4)] by (cases given) simp_all
  from staysD[OF register_commands_stays[OF assms(3)] assms(2) this] show ?thesis
    by (auto simp: changes_only_def command_place_def inside_def prompts_dir_def)
qed

section \<open>Removing\<close>

text \<open>A path where there is nothing, not even a link; less of a tree does not change that.\<close>

definition gone :: "tree \<Rightarrow> loc \<Rightarrow> bool" where
  "gone t p \<longleftrightarrow> \<not> path_exists t p \<and> \<not> is_symlink t p"

lemma path_exists_subtree: "path_exists t' p \<Longrightarrow> subtree t' t \<Longrightarrow> path_exists t p"
proof -
  assume "path_exists t' p" and s: "subtree t' t"
  then obtain l n where "locate t' p = Inr l" "node_at t' l = Some n"
    by (auto simp: path_exists_def stat_def split: sum.splits)
  with s have "locate t p = Inr l" "node_at t l = Some n"
    using locate_subtree subtree_node unfolding locate_def by blast+
  then show "path_exists t p" by (simp add: path_exists_def stat_def)
qed

lemma gone_subtree: "gone t p \<Longrightarrow> subtree t' t \<Longrightarrow> gone t' p"
proof -
  assume g: "gone t p" and s: "subtree t' t"
  have "path_exists t' p \<Longrightarrow> path_exists t p"
    using path_exists_subtree[OF _ s] .
  moreover have "is_symlink t p" if "is_symlink t' p"
  proof -
    from that obtain l ab tg where "entry_loc t' p = Inr l" "node_at t' l = Some (LinkNode ab tg)"
      by (auto simp: is_symlink_def lstat_def split: sum.splits option.splits node.splits)
    with entry_subtree[OF _ s] subtree_node[OF s] have "entry_loc t p = Inr l" "node_at t l = Some (LinkNode ab tg)" by blast+
    then show ?thesis by (simp add: is_symlink_def lstat_def)
  qed
  ultimately show "gone t' p" using g by (auto simp: gone_def)
qed

lemma direct_subtree: "direct t p \<Longrightarrow> subtree t' t \<Longrightarrow> direct t' p"
  unfolding direct_def subtree_def by blast

lemma unlinked_is_gone:
  assumes "fs_unlink (q @ [n]) t = Inr t'" "direct t q" "n \<noteq> ''..''"
  shows "gone t' (q @ [n])"
  using assms(1)
proof (rule unlink_InrD)
  fix l m assume l: "entry_loc t (q @ [n]) = Inr l" "t' = tree_remove l t"
  then obtain d where "locate t q = Inr d" "l = d @ [n]" using assms(3)
    by (auto simp: entry_loc_def rbind_Inr_iff split: if_splits)
  with locate_direct[of t q d] assms(2) l(2) have m: "map_of t' (q @ [n]) = None" by (simp add: map_of_remove)
  have "subtree t' t" unfolding l(2) by (rule subtree_remove)
  with m assms(2,3) have d: "direct t' (q @ [n])" using direct_subtree by (simp add: direct_snoc)
  have "\<not> path_exists t' (q @ [n])"
    using locate_direct[OF _ d] m by (auto simp: path_exists_def stat_def node_at_def split: sum.splits)
  moreover have "\<not> is_symlink t' (q @ [n])"
    using entry_direct[OF _ d] m by (auto simp: is_symlink_def lstat_def node_at_def split: sum.splits)
  ultimately show ?thesis by (simp add: gone_def)
qed

text \<open>Removing takes files of the paths \<open>Q\<close> away, and directories, and nothing else.\<close>

definition takes :: "loc set \<Rightarrow> 'a fop \<Rightarrow> bool" where
  "takes Q m \<longleftrightarrow> (\<forall>t r t'. m t = (r, t') \<longrightarrow> subtree t' t \<and>
     (\<forall>l n. node_at t l = Some n \<longrightarrow> node_at t' l = Some n \<or> n = DirNode \<or> (\<exists>p \<in> Q. entry_loc t p = Inr l)))"

lemma takesD: "takes Q m \<Longrightarrow> m t = (r, t') \<Longrightarrow> subtree t' t"
  unfolding takes_def by blast

lemma takes_simps [simp]: "takes Q (sret a)" "takes Q (sget f)"
  by (auto simp: takes_def svc_defs)

lemma takes_sbind:
  assumes "takes Q m" "\<And>a. takes Q (f a)" shows "takes Q (sbind m f)"
  unfolding takes_def
proof (intro allI impI)
  fix t r t'
  assume run: "sbind m f t = (r, t')"
  obtain x t1 where m: "m t = (x, t1)" by (cases "m t")
  have s1: "subtree t1 t" by (rule takesD[OF assms(1) m])
  show "subtree t' t \<and> (\<forall>l n. node_at t l = Some n \<longrightarrow> node_at t' l = Some n \<or> n = DirNode \<or> (\<exists>p \<in> Q. entry_loc t p = Inr l))"
  proof (cases x)
    case (Inl e)
    with run m have "t1 = t'" by (simp add: sbind_def)
    with assms(1) m show ?thesis unfolding takes_def by metis
  next
    case (Inr a)
    with run m have k: "f a t1 = (r, t')" by (simp add: sbind_def)
    have "\<exists>p \<in> Q. entry_loc t p = Inr l" if "node_at t l = Some n" "node_at t' l \<noteq> Some n" "n \<noteq> DirNode" for l n
    proof (cases "node_at t1 l = Some n")
      case True
      then show ?thesis using assms(2)[of a] k that entry_subtree[OF _ s1] unfolding takes_def by metis
    next
      case False
      then show ?thesis using assms(1) m that unfolding takes_def by metis
    qed
    with subtree_trans[OF takesD[OF assms(2) k] s1] show ?thesis by blast
  qed
qed

lemma takes_sthen: "takes Q m \<Longrightarrow> takes Q k \<Longrightarrow> takes Q (sthen m k)"
  unfolding sthen_def by (rule takes_sbind)

lemma takes_sfor: "(\<And>x. x \<in> set xs \<Longrightarrow> takes Q (f x)) \<Longrightarrow> takes Q (sfor xs f)"
  by (induction xs) (auto intro: takes_sthen)

lemma unlink_takes: "p \<in> Q \<Longrightarrow> takes Q (on_tree (fs_unlink p))"
  by (auto simp: takes_def on_tree_def subtree_remove node_at_def map_of_remove split: sum.splits if_splits elim!: unlink_InrD)

lemma rmdir_takes: "takes Q (drop_empty_parent d p)"
proof -
  have "subtree t' t \<and> (\<forall>l n. node_at t l = Some n \<longrightarrow> node_at t' l = Some n \<or> n = DirNode)"
    if "fs_rmdir p t = Inr t'" for t t'
    using rmdir_InrD[OF that] by (auto simp: subtree_remove map_of_remove node_at_def split: if_splits)
  then show ?thesis by (auto simp: takes_def drop_empty_parent_def split: sum.splits)
qed

lemma remove_command_takes: "output_file d n cfg \<in> Q \<Longrightarrow> takes Q (remove_command_file d cfg n)"
  unfolding remove_command_file_def Let_def
  by (auto intro!: takes_sbind takes_sthen unlink_takes rmdir_takes)

definition prompt_file :: "registrar \<Rightarrow> string \<Rightarrow> loc" where
  "prompt_file g cmd = path_div (prompts_dir g) (parse_path (cmd @ ''.prompt.md''))"

lemma remove_prompt_takes: "prompt_file g cmd \<in> Q \<Longrightarrow> takes Q (remove_copilot_prompt (pr_root (rg_env g)) cmd)"
  unfolding remove_copilot_prompt_def Let_def prompt_file_def prompts_dir_def
  by (auto intro!: takes_sbind unlink_takes)

text \<open>The paths a command may have, and the prompt.\<close>

definition command_files :: "registrar \<Rightarrow> string \<Rightarrow> agent_config \<Rightarrow> loc list \<Rightarrow> string \<Rightarrow> loc set" where
  "command_files g agent cfg dirs cmd =
     {output_file d n cfg | d n. d \<in> set dirs \<and> n \<in> set (names_to_clean cfg cmd)} \<union>
     (if agent = ''copilot'' then {prompt_file g cmd} else {})"

lemma unregister_command_takes:
  "command_files g agent cfg dirs cmd \<subseteq> Q \<Longrightarrow> takes Q (unregister_command g agent cfg dirs cmd)"
  unfolding unregister_command_def command_files_def
  by (intro takes_sthen takes_sfor) (auto intro!: remove_command_takes remove_prompt_takes)

lemma remove_command_gone:
  assumes "remove_command_file d cfg n t = (Inr (), t')" "lexically_inside (output_file d n cfg) d"
    "direct t (butlast (output_file d n cfg))" "output_file d n cfg \<noteq> []" "last (output_file d n cfg) \<noteq> ''..''"
  shows "gone t' (output_file d n cfg)"
proof (cases "gone t (output_file d n cfg)")
  case True
  with assms(1,2) show ?thesis by (auto simp: remove_command_file_def Let_def sbind_sget gone_def)
next
  case False
  let ?m = "drop_empty_parent d (butlast (output_file d n cfg))"
  from False assms(1,2) obtain t1 where t1: "fs_unlink (output_file d n cfg) t = Inr t1" "?m t1 = (Inr (), t')"
    by (auto simp: remove_command_file_def Let_def sbind_sget sthen_Inr_iff on_tree_Inr_iff gone_def)
  obtain q m where o: "output_file d n cfg = q @ [m]" using assms(4) by (cases "output_file d n cfg" rule: rev_cases) auto
  have "gone t1 (output_file d n cfg)"
    using t1(1) assms(3,5) unfolding o by (intro unlinked_is_gone) simp_all
  then show ?thesis using takesD[OF rmdir_takes t1(2)] gone_subtree by blast
qed

lemma remove_prompt_gone:
  assumes "remove_copilot_prompt (pr_root (rg_env g)) cmd t = (Inr (), t')"
    "direct t (butlast (prompt_file g cmd))" "prompt_file g cmd \<noteq> []" "last (prompt_file g cmd) \<noteq> ''..''"
  shows "\<not> path_exists t' (prompt_file g cmd)"
proof (cases "path_exists t (prompt_file g cmd)")
  case True
  obtain q m where o: "prompt_file g cmd = q @ [m]" using assms(3) by (cases "prompt_file g cmd" rule: rev_cases) auto
  from True assms(1) have "fs_unlink (prompt_file g cmd) t = Inr t'"
    by (auto simp: remove_copilot_prompt_def Let_def prompt_file_def prompts_dir_def sbind_sget on_tree_Inr_iff)
  then show ?thesis using assms(2,4) unlinked_is_gone[of q m t t'] unfolding o by (simp add: gone_def)
next
  case False
  with assms(1) show ?thesis
    by (auto simp: remove_copilot_prompt_def Let_def prompt_file_def prompts_dir_def sbind_sget)
qed

text \<open>A loop of steps that only take away: what is gone after one step is gone in the end.\<close>

lemma sfor_gone:
  assumes "sfor xs f t = (Inr (), t')" "x \<in> set xs" "\<And>x. takes UNIV (f x)"
    "\<And>u u'. subtree u t \<Longrightarrow> f x u = (Inr (), u') \<Longrightarrow> R u'" "\<And>u u'. R u \<Longrightarrow> subtree u' u \<Longrightarrow> R u'"
  shows "R t'"
  using assms(1,2,4)
proof (induction xs arbitrary: t)
  case (Cons y xs)
  from Cons.prems(1) obtain t1 where t1: "f y t = (Inr (), t1)" "sfor xs f t1 = (Inr (), t')"
    by (auto simp: sthen_Inr_iff)
  have s1: "subtree t1 t" by (rule takesD[OF assms(3) t1(1)])
  show ?case
  proof (cases "x = y")
    case True
    with t1(1) Cons.prems(3)[OF subtree_refl] have "R t1" by blast
    moreover have "subtree t' t1" using takesD[OF takes_sfor t1(2)] assms(3) by blast
    ultimately show ?thesis by (rule assms(5))
  next
    case False
    with Cons.prems(2) have "x \<in> set xs" by simp
    from Cons.IH[OF t1(2) this] Cons.prems(3) s1 subtree_trans show ?thesis by blast
  qed
qed simp

lemma unregister_command_gone:
  assumes "unregister_command g agent cfg dirs cmd t = (Inr (), t')" "d \<in> set dirs" "n \<in> set (names_to_clean cfg cmd)"
    "lexically_inside (output_file d n cfg) d" "direct t (butlast (output_file d n cfg))"
    "output_file d n cfg \<noteq> []" "last (output_file d n cfg) \<noteq> ''..''"
  shows "gone t' (output_file d n cfg)"
proof -
  let ?xs = "[(d, n). d \<leftarrow> dirs, n \<leftarrow> names_to_clean cfg cmd]" and ?f = "\<lambda>(d, n). remove_command_file d cfg n"
  let ?k = "if agent = ''copilot'' then remove_copilot_prompt (pr_root (rg_env g)) cmd else sret ()"
  from assms(1) obtain t1 where t1: "sfor ?xs ?f t = (Inr (), t1)" "?k t1 = (Inr (), t')"
    by (auto simp: unregister_command_def sthen_Inr_iff)
  have "gone t1 (output_file d n cfg)"
  proof (rule sfor_gone[OF t1(1), of "(d, n)"])
    fix u u' assume u: "subtree u t" "?f (d, n) u = (Inr (), u')"
    show "gone u' (output_file d n cfg)"
      by (rule remove_command_gone[OF _ assms(4) direct_subtree[OF assms(5) u(1)] assms(6,7)]) (use u in simp)
  qed (use assms(2,3) remove_command_takes gone_subtree in auto)
  moreover have "takes UNIV ?k" by (simp add: remove_prompt_takes)
  from takesD[OF this t1(2)] have "subtree t' t1" .
  ultimately show ?thesis by (rule gone_subtree)
qed

lemma unregister_prompt_gone:
  assumes "unregister_command g ''copilot'' cfg dirs cmd t = (Inr (), t')" "direct t (butlast (prompt_file g cmd))"
    "prompt_file g cmd \<noteq> []" "last (prompt_file g cmd) \<noteq> ''..''"
  shows "\<not> path_exists t' (prompt_file g cmd)"
proof -
  let ?xs = "[(d, n). d \<leftarrow> dirs, n \<leftarrow> names_to_clean cfg cmd]" and ?f = "\<lambda>(d, n). remove_command_file d cfg n"
  from assms(1) obtain t1 where t1: "sfor ?xs ?f t = (Inr (), t1)"
    "remove_copilot_prompt (pr_root (rg_env g)) cmd t1 = (Inr (), t')"
    by (auto simp: unregister_command_def sthen_Inr_iff)
  have "takes UNIV (sfor ?xs ?f)" by (rule takes_sfor) (auto intro: remove_command_takes)
  from remove_prompt_gone[OF t1(2) direct_subtree[OF assms(2) takesD[OF this t1(1)]] assms(3,4)] show ?thesis .
qed

text \<open>C22. Unregistering the commands of one agent takes their files away and no other: when it succeeds, at the output
  path of every command of the list, under its output name or its own, in the agent's directory and in the old one,
  there is neither a file nor a link, as long as the path lies inside the directory by its text and no name of the
  directory it is in is a link; so it is for the prompts of Copilot, where a link to nothing may stay. Nothing is
  added or changed, and whatever has disappeared is a directory or was at one of these paths.\<close>

theorem unregistered_commands_are_gone:
  assumes "unregister_commands g [(agent, cmds)] t = (Inr (), t')" "map_of (rg_configs g) agent = Some cfg"
  shows "(\<forall>cmd \<in> set cmds. \<forall>d \<in> set (dirs_to_clean g t cfg). \<forall>n \<in> set (names_to_clean cfg cmd).
       let out = output_file d n cfg in
       lexically_inside out d \<longrightarrow> out \<noteq> [] \<longrightarrow> last out \<noteq> ''..'' \<longrightarrow> direct t (butlast out) \<longrightarrow>
         \<not> path_exists t' out \<and> \<not> is_symlink t' out) \<and>
     (agent = ''copilot'' \<longrightarrow> (\<forall>cmd \<in> set cmds.
       let out = prompt_file g cmd in
       out \<noteq> [] \<longrightarrow> last out \<noteq> ''..'' \<longrightarrow> direct t (butlast out) \<longrightarrow> \<not> path_exists t' out)) \<and>
     subtree t' t \<and>
     (\<forall>l n. node_at t l = Some n \<longrightarrow> node_at t' l = Some n \<or> n = DirNode \<or>
       (\<exists>cmd \<in> set cmds. \<exists>p \<in> command_files g agent cfg (dirs_to_clean g t cfg) cmd. entry_loc t p = Inr l))"
proof -
  let ?dirs = "dirs_to_clean g t cfg" and ?f = "unregister_command g agent cfg (dirs_to_clean g t cfg)"
  let ?Q = "\<Union>cmd \<in> set cmds. command_files g agent cfg ?dirs cmd"
  have run: "sfor cmds ?f t = (Inr (), t')"
    using assms by (auto simp: unregister_commands_def sthen_Inr_iff sbind_sget)
  have tk: "takes UNIV (?f x)" for x by (simp add: unregister_command_takes)
  have "takes ?Q (sfor cmds ?f)" by (rule takes_sfor, rule unregister_command_takes) blast
  with run have upper: "subtree t' t" "\<And>l n. node_at t l = Some n \<Longrightarrow> node_at t' l = Some n \<or> n = DirNode \<or> (\<exists>p \<in> ?Q. entry_loc t p = Inr l)"
    unfolding takes_def by blast+
  have "gone t' (output_file d n cfg)"
    if "cmd \<in> set cmds" "d \<in> set ?dirs" "n \<in> set (names_to_clean cfg cmd)" "lexically_inside (output_file d n cfg) d"
      "output_file d n cfg \<noteq> []" "last (output_file d n cfg) \<noteq> ''..''" "direct t (butlast (output_file d n cfg))" for cmd d n
  proof (rule sfor_gone[OF run that(1) tk])
    fix u u' assume u: "subtree u t" "?f cmd u = (Inr (), u')"
    show "gone u' (output_file d n cfg)"
      by (rule unregister_command_gone[OF u(2) that(2-4) direct_subtree[OF that(7) u(1)] that(5,6)])
  qed (rule gone_subtree)
  moreover have "\<not> path_exists t' (prompt_file g cmd)"
    if cop: "agent = ''copilot''" and that: "cmd \<in> set cmds" "prompt_file g cmd \<noteq> []" "last (prompt_file g cmd) \<noteq> ''..''"
      "direct t (butlast (prompt_file g cmd))" for cmd
  proof (rule sfor_gone[OF run that(1) tk])
    fix u u' assume u: "subtree u t" "?f cmd u = (Inr (), u')"
    show "\<not> path_exists u' (prompt_file g cmd)"
      by (rule unregister_prompt_gone[OF u(2)[unfolded cop] direct_subtree[OF that(4) u(1)] that(2,3)])
  qed (use path_exists_subtree in blast)
  ultimately show ?thesis using upper unfolding gone_def Let_def by blast
qed

section \<open>A project for Gemini\<close>

lemma no_linksI: "list_all (\<lambda>(k, n). case n of LinkNode _ _ \<Rightarrow> False | _ \<Rightarrow> True) t \<Longrightarrow> no_links t"
  by (auto simp: no_links_def list_all_iff dest!: map_of_SomeD)

text \<open>The agents of \<open>integrations/gemini\<close> and \<open>integrations/copilot\<close>, as the registrar knows them.\<close>

definition gemini_config :: agent_config where
  "gemini_config = \<lparr>ac_dir = ''.gemini/commands'', ac_format = ''toml'', ac_args = ''{{args}}'', ac_extension = ''.toml'',
     ac_strip_keys = [], ac_inject_name = False, ac_format_name = None, ac_separator = ''.'', ac_legacy_dir = None, ac_detect_dir = None\<rparr>"

definition copilot_config :: agent_config where
  "copilot_config = \<lparr>ac_dir = ''.github/agents'', ac_format = ''markdown'', ac_args = ''$ARGUMENTS'', ac_extension = ''.agent.md'',
     ac_strip_keys = [], ac_inject_name = False, ac_format_name = None, ac_separator = ''.'', ac_legacy_dir = None, ac_detect_dir = None\<rparr>"

definition gemini_tree :: tree where
  "gemini_tree =
     map (\<lambda>d. (d, DirNode)) [[''p''], [''p'', ''.gemini''], [''p'', ''.gemini'', ''commands''], [''p'', ''ext'']] @
     [([''p'', ''ext'', ''go.md''], FileNode ''go''), ([''p'', ''keep.prompt.md''], FileNode ''mine'')]"

definition gemini_registrar :: registrar where
  "gemini_registrar = \<lparr>rg_env = plain_project, rg_windows = False, rg_home = [''home''],
     rg_configs = [(''gemini'', gemini_config), (''copilot'', copilot_config)], rg_folders = (\<lambda>_. '''')\<rparr>"

definition go_command :: command_info where
  "go_command = \<lparr>ci_name = ''speckit.x.go'', ci_file = ''go.md'', ci_aliases = []\<rparr>"

definition go_registration :: registration where
  "go_registration = \<lparr>rn_source_id = ''x'', rn_source_dir = [''p'', ''ext''], rn_note = None, rn_link = False\<rparr>"

definition gemini_after :: "(pyexn + string list) \<times> tree" where
  "gemini_after = register_commands gemini_registrar ''gemini'' [go_command] go_registration (Some [''p'', ''.gemini'', ''commands'']) gemini_tree"

theorem registered_files_stay_inside_witness:
  "node_at (snd gemini_after) [''p'', ''ext'', ''go.md''] = Some (FileNode ''go'')"
proof -
  have r: "register_commands gemini_registrar ''gemini'' [go_command] go_registration (Some [''p'', ''.gemini'', ''commands'']) gemini_tree =
      (fst gemini_after, snd gemini_after)" by (simp add: gemini_after_def)
  have "no_links gemini_tree" by (rule no_linksI) code_simp
  moreover have "\<not> rn_link go_registration" by (simp add: go_registration_def)
  moreover have "node_at gemini_tree [''p'', ''ext'', ''go.md''] = Some (FileNode ''go'')"
    "normpath [''p'', ''.gemini'', ''commands''] = [''p'', ''.gemini'', ''commands'']" by code_simp+
  ultimately show ?thesis
    using registered_files_stay_inside[OF r, where l = "[''p'', ''ext'', ''go.md'']" and cfg = gemini_config]
    by (simp add: dir_or_nothing_def gemini_registrar_def)
qed

text \<open>The tree with the command, as development mode leaves it: a link to the cache of the extension.\<close>

definition registered_tree :: tree where
  "registered_tree = gemini_tree @
     map (\<lambda>d. (d, DirNode)) [[''p'', ''ext'', ''.specify-dev''], [''p'', ''ext'', ''.specify-dev'', ''c'']] @
     [([''p'', ''ext'', ''.specify-dev'', ''c'', ''speckit.x.go.toml''], FileNode ''prompt''),
      ([''p'', ''.gemini'', ''commands'', ''speckit.x.go.toml''],
        LinkNode False [''..'', ''..'', ''ext'', ''.specify-dev'', ''c'', ''speckit.x.go.toml''])]"

definition after_unregistering :: "(pyexn + unit) \<times> tree" where
  "after_unregistering = unregister_commands gemini_registrar [(''gemini'', [''speckit.x.go''])] registered_tree"

theorem unregistered_commands_are_gone_witness:
  "path_exists registered_tree [''p'', ''.gemini'', ''commands'', ''speckit.x.go.toml''] \<and>
   \<not> is_symlink (snd after_unregistering) [''p'', ''.gemini'', ''commands'', ''speckit.x.go.toml'']"
proof
  show "path_exists registered_tree [''p'', ''.gemini'', ''commands'', ''speckit.x.go.toml'']" by code_simp
  have "fst after_unregistering = Inr ()" by code_simp
  then have r: "unregister_commands gemini_registrar [(''gemini'', [''speckit.x.go''])] registered_tree = (Inr (), snd after_unregistering)"
    by (simp add: after_unregistering_def prod_eq_iff)
  have "map_of (rg_configs gemini_registrar) ''gemini'' = Some gemini_config" by (simp add: gemini_registrar_def)
  note all = unregistered_commands_are_gone[OF r this, THEN conjunct1]
  have f: "''speckit.x.go'' \<in> set (names_to_clean gemini_config ''speckit.x.go'')"
    "[''p'', ''.gemini'', ''commands''] \<in> set (dirs_to_clean gemini_registrar registered_tree gemini_config)"
    "lexically_inside (output_file [''p'', ''.gemini'', ''commands''] ''speckit.x.go'' gemini_config) [''p'', ''.gemini'', ''commands'']"
    "output_file [''p'', ''.gemini'', ''commands''] ''speckit.x.go'' gemini_config = [''p'', ''.gemini'', ''commands'', ''speckit.x.go.toml'']"
    by code_simp+
  have d: "direct registered_tree [''p'', ''.gemini'', ''commands'']" by (auto simp: direct_def registered_tree_def gemini_tree_def Cons_eq_append_conv)
  from bspec[OF bspec[OF bspec[OF all] f(2)] f(1)] f(3) d
  show "\<not> is_symlink (snd after_unregistering) [''p'', ''.gemini'', ''commands'', ''speckit.x.go.toml'']"
    by (simp add: f(4) Let_def)
qed

text \<open>
  The prompt of a Copilot command is removed without the check that it lies among the prompts, which writing it
  has: a name in the registry that leads out of the directory takes a file of the project away.
\<close>

definition prompts_tree :: tree where
  "prompts_tree = gemini_tree @ map (\<lambda>d. (d, DirNode)) [[''p'', ''.github''], [''p'', ''.github'', ''prompts''], [''p'', ''.github'', ''agents'']]"

lemma prompt_outside_is_removed:
  "fst (unregister_commands gemini_registrar [(''copilot'', [''../../keep''])] prompts_tree) = Inr ()"
  "path_exists prompts_tree [''p'', ''keep.prompt.md'']"
  "\<not> path_exists (snd (unregister_commands gemini_registrar [(''copilot'', [''../../keep''])] prompts_tree)) [''p'', ''keep.prompt.md'']"
  "fst (write_copilot_prompt [''p''] ''../../keep'' prompts_tree) \<noteq> Inr ()"
  by code_simp+

end
