(* ===== verification/SharedProps.thy ===== *)
theory SharedProps
  imports SharedInfra ManifestProps
begin

text \<open>
  Installing the shared files never destroys a user's work: without force, a file that was there is written only
  when it still is what an earlier installation wrote, and links are never followed or replaced.
\<close>

section \<open>Trees and what is kept of them\<close>

text \<open>Every entry is in a directory.\<close>

definition well_founded_tree :: "tree \<Rightarrow> bool" where
  "well_founded_tree t \<longleftrightarrow> (\<forall>l n. map_of t l = Some n \<longrightarrow> l \<noteq> [] \<and> node_at t (butlast l) = Some DirNode)"

text \<open>Against the tree \<open>t0\<close>: everything is still there, only files in \<open>P\<close> may have another content; no new links.\<close>

definition kept_from :: "tree \<Rightarrow> (loc \<Rightarrow> string \<Rightarrow> bool) \<Rightarrow> tree \<Rightarrow> bool" where
  "kept_from t0 P t \<longleftrightarrow>
     (\<forall>l n. node_at t0 l = Some n \<longrightarrow>
        node_at t l = Some n \<or> (\<exists>c d. n = FileNode c \<and> P l c \<and> node_at t l = Some (FileNode d))) \<and>
     (\<forall>l ab tg. map_of t l = Some (LinkNode ab tg) \<longrightarrow> map_of t0 l = Some (LinkNode ab tg))"

abbreviation nowhere :: "loc \<Rightarrow> string \<Rightarrow> bool" where
  "nowhere \<equiv> \<lambda>_ _. False"

lemma kept_refl: "kept_from t P t"
  by (simp add: kept_from_def)

lemma kept_weaken: "kept_from t0 P t \<Longrightarrow> (\<And>l c. P l c \<Longrightarrow> Q l c) \<Longrightarrow> kept_from t0 Q t"
  unfolding kept_from_def by blast

lemma kept_dir: "kept_from t0 P t \<Longrightarrow> node_at t0 l = Some DirNode \<Longrightarrow> node_at t l = Some DirNode"
  by (auto simp: kept_from_def)

lemma kept_some: "kept_from t0 P t \<Longrightarrow> node_at t l = None \<Longrightarrow> node_at t0 l = None"
  unfolding kept_from_def by (metis option.exhaust option.distinct(1))

lemma kept_update:
  assumes "kept_from t0 P t" "map_of t' = (map_of t)(l := x)" "l \<noteq> []" "\<And>ab tg. x \<noteq> Some (LinkNode ab tg)"
    "\<And>n. node_at t0 l = Some n \<Longrightarrow> \<exists>c d. n = FileNode c \<and> P l c \<and> x = Some (FileNode d)"
  shows "kept_from t0 P t'"
  unfolding kept_from_def
proof (intro conjI allI impI)
  fix k n assume n: "node_at t0 k = Some n"
  show "node_at t' k = Some n \<or> (\<exists>c d. n = FileNode c \<and> P k c \<and> node_at t' k = Some (FileNode d))"
  proof (cases "k = l")
    case True
    with n assms(2,3,5) show ?thesis by (fastforce simp: node_at_def)
  next
    case False
    then have "node_at t' k = node_at t k" using assms(2) by (simp add: node_at_def)
    with n assms(1) show ?thesis unfolding kept_from_def by metis
  qed
next
  fix k ab tg assume "map_of t' k = Some (LinkNode ab tg)"
  with assms(1,2,4) show "map_of t0 k = Some (LinkNode ab tg)" by (auto simp: kept_from_def split: if_splits)
qed

lemma node_at_None: "node_at t l = None \<longleftrightarrow> l \<noteq> [] \<and> map_of t l = None"
  by (simp add: node_at_def)

lemma map_of_added: "node_at t l = None \<Longrightarrow> map_of (t @ [(l, n)]) = (map_of t)(l \<mapsto> n)"
  using map_of_snoc by (auto simp: node_at_None)

lemma kept_add_dir:
  assumes "kept_from t0 P t" "node_at t l = None"
  shows "kept_from t0 P (t @ [(l, DirNode)])"
  using assms(2) kept_some[OF assms]
  by (intro kept_update[OF assms(1) map_of_added[OF assms(2)]]) (simp_all add: node_at_None)

lemma kept_add_file:
  assumes "kept_from t0 P t" "node_at t l = None"
  shows "kept_from t0 P (t @ [(l, FileNode c)])"
  using assms(2) kept_some[OF assms]
  by (intro kept_update[OF assms(1) map_of_added[OF assms(2)]]) (simp_all add: node_at_None)

lemma kept_set_file:
  "kept_from t0 P t \<Longrightarrow> l \<noteq> [] \<Longrightarrow> (\<And>n. node_at t0 l = Some n \<Longrightarrow> \<exists>c. n = FileNode c \<and> P l c) \<Longrightarrow> kept_from t0 P (dict_set l (FileNode c) t)"
  by (rule kept_update[where x = "Some (FileNode c)"]) auto

lemma kept_remove:
  assumes "kept_from t0 P t" "node_at t0 l = None"
  shows "kept_from t0 P (tree_remove l t)"
proof (rule kept_update[OF assms(1)])
  show "map_of (tree_remove l t) = (map_of t)(l := None)" by (simp add: map_of_remove fun_eq_iff)
qed (use assms(2) in \<open>simp_all add: node_at_None\<close>)

lemma kept_mkdir: "fs_mkdir p t = Inr t' \<Longrightarrow> kept_from t0 P t \<Longrightarrow> kept_from t0 P t'"
  by (auto simp: fs_mkdir_def rbind_Inr_iff split: option.splits intro: kept_add_dir)

lemma kept_direct: "kept_from t0 P t \<Longrightarrow> direct t0 p \<Longrightarrow> direct t p"
  unfolding kept_from_def direct_def by blast

section \<open>Paths without links\<close>

lemma locate_snoc:
  assumes "locate t p = Inr p" "node_at t p = Some DirNode" "map_of t (p @ [n]) = Some m" "n \<noteq> ''..''" "\<And>ab tg. m \<noteq> LinkNode ab tg"
  shows "locate t (p @ [n]) = Inr (p @ [n])"
  using assms by (cases m) (auto simp: locate_def locate_append)

text \<open>What was there in a well-founded tree is found where it was.\<close>

lemma locate_kept:
  assumes "well_founded_tree t0" "kept_from t0 P t"
  shows "direct t p \<Longrightarrow> node_at t0 p \<noteq> None \<Longrightarrow> locate t p = Inr p"
proof (induction p rule: rev_induct)
  case (snoc n p)
  then obtain m where m: "map_of t0 (p @ [n]) = Some m" by (auto simp: node_at_def)
  with assms(1) have d0: "node_at t0 p = Some DirNode" by (auto simp: well_founded_tree_def)
  with assms(2) have d: "node_at t p = Some DirNode" by (rule kept_dir)
  from snoc.prems(1) have dp: "direct t p" "n \<noteq> ''..''" "\<And>ab tg. map_of t (p @ [n]) \<noteq> Some (LinkNode ab tg)"
    by (auto simp: direct_snoc)
  have "locate t p = Inr p" using snoc.IH dp(1) d0 by simp
  moreover have "map_of t (p @ [n]) \<noteq> None"
    using m kept_some[OF assms(2), of "p @ [n]"] by (auto simp: node_at_None)
  ultimately show ?case using d dp by (auto intro: locate_snoc)
qed (simp add: locate_def)

lemma direct_step:
  assumes "well_founded_tree t0" "kept_from t0 P t" "direct t p" "n \<noteq> ''..''" "\<not> is_symlink t (p @ [n])"
  shows "direct t (p @ [n])"
proof -
  have "map_of t (p @ [n]) \<noteq> Some (LinkNode ab tg)" for ab tg
  proof
    assume l: "map_of t (p @ [n]) = Some (LinkNode ab tg)"
    with assms(2) have "map_of t0 (p @ [n]) = Some (LinkNode ab tg)" by (simp add: kept_from_def)
    with assms(1) have d0: "node_at t0 p = Some DirNode" by (auto simp: well_founded_tree_def)
    then have "locate t p = Inr p" "node_at t p = Some DirNode"
      using locate_kept[OF assms(1,2,3)] kept_dir[OF assms(2)] by simp_all
    with l assms(4,5) show False by (simp add: is_symlink_def lstat_def entry_loc_def node_at_def)
  qed
  with assms(3,4) show ?thesis by (simp add: direct_snoc)
qed

text \<open>Below a directory without links, an entry is where its path says.\<close>

lemma entry_below_direct:
  assumes "entry_loc t (p @ [n]) = Inr l" "direct t p" "n \<noteq> ''..''"
  shows "l = p @ [n]"
  using assms locate_direct[of t p] by (auto simp: entry_loc_def rbind_Inr_iff split: if_splits)

section \<open>The checks before writing\<close>

lemma walk_changes_nothing: "safe_shared_walk False w project rr cur parts s = (r, s') \<Longrightarrow> s' = s"
proof (induction parts arbitrary: cur)
  case (Cons part parts)
  then show ?case
    by (auto simp: Let_def sbind_sget sthen_def svc_defs split: if_splits sum.splits)
qed (simp add: sret_def)

lemma walk_direct:
  assumes "well_founded_tree t0"
  shows "safe_shared_walk create w project rr cur parts s = (r, s') \<Longrightarrow> kept_from t0 P (ms_fs s) \<Longrightarrow> direct (ms_fs s) cur \<Longrightarrow>
     ''..'' \<notin> set parts \<Longrightarrow>
     kept_from t0 P (ms_fs s') \<and> ms_man s' = ms_man s \<and> (r = Inr () \<longrightarrow> direct (ms_fs s') (cur @ parts))"
proof (induction parts arbitrary: cur s)
  case (Cons part parts)
  let ?t = "ms_fs s" and ?c = "cur @ [part]"
  consider "is_symlink ?t ?c" | "\<not> is_symlink ?t ?c" "path_exists ?t ?c" | "\<not> is_symlink ?t ?c" "\<not> path_exists ?t ?c" by blast
  then show ?case
  proof cases
    case 1
    with Cons.prems show ?thesis by (auto simp: Let_def sbind_sget sraise_def)
  next
    case 2
    have "direct ?t ?c" using direct_step[OF assms Cons.prems(2,3)] 2(1) Cons.prems(4) by auto
    with 2 Cons.prems Cons.IH[of ?c s] show ?thesis
      by (auto simp: Let_def sbind_sget sthen_def svc_defs split: if_splits sum.splits)
  next
    case 3
    show ?thesis
    proof (cases "create \<and> (\<exists>t'. fs_mkdir ?c ?t = Inr t')")
      case True
      then obtain t' where t': "create" "fs_mkdir ?c ?t = Inr t'" by blast
      let ?s = "s\<lparr>ms_fs := t'\<rparr>"
      have k: "kept_from t0 P t'" using kept_mkdir[OF t'(2) Cons.prems(2)] .
      have "direct t' cur" 
        using t'(2) Cons.prems(3) 
        by (auto simp: fs_mkdir_def rbind_Inr_iff direct_def map_add_def split: option.splits if_splits)
      then have "\<not> is_symlink t' ?c \<Longrightarrow> direct t' ?c" using direct_step[OF assms k] Cons.prems(4) by auto
      with 3 t' k Cons.prems(1,4) Cons.IH[of ?c ?s] show ?thesis
        by (auto simp: Let_def sbind_sget sthen_def svc_defs fs_do_def split: if_splits sum.splits)
    next
      case False
      with 3 Cons.prems show ?thesis
        by (auto simp: Let_def sbind_sget sthen_def svc_defs fs_do_def split: if_splits sum.splits)
    qed
  qed
qed (simp add: sret_def)

lemma sbind_slift_Inl: "sbind (slift (Inl x)) g s = (Inl x, s)"
  by (simp add: svc_defs)

lemma directory_direct:
  assumes "well_founded_tree t0" "ensure_safe_shared_directory create w project d s = (r, s')" "kept_from t0 P (ms_fs s)"
    "direct (ms_fs s) project"
  shows "kept_from t0 P (ms_fs s') \<and> ms_man s' = ms_man s \<and> (r = Inr () \<longrightarrow> direct (ms_fs s') d) \<and> (\<not> create \<longrightarrow> s' = s)"
proof (cases "resolve_or_raise (ms_fs s) project")
  case (Inl x)
  with assms show ?thesis by (auto simp: ensure_safe_shared_directory_def sbind_sget sbind_slift_Inl)
next
  case root: (Inr rr)
  show ?thesis
  proof (cases "shared_relative_path project d")
    case (Inl x)
    with root assms show ?thesis by (auto simp: ensure_safe_shared_directory_def sbind_sget sbind_slift sbind_slift_Inl)
  next
    case (Inr rel)
    with root assms(2) have w: "safe_shared_walk create w project rr project rel s = (r, s')"
      by (simp add: ensure_safe_shared_directory_def sbind_sget sbind_slift)
    from Inr have "d = project @ rel" "''..'' \<notin> set rel"
      by (auto simp: shared_relative_path_def Let_def relative_to_Some split: option.splits if_splits)
    with walk_direct[OF assms(1) w assms(3,4)] walk_changes_nothing[of w project rr project rel s r s'] w show ?thesis
      by (cases create) auto
  qed
qed

lemma validate_walk_direct:
  assumes "well_founded_tree t0" "kept_from t0 P t"
  shows "validate_walk project rr cur parts t = Inr () \<Longrightarrow> direct t cur \<Longrightarrow> ''..'' \<notin> set parts \<Longrightarrow> direct t (cur @ parts)"
proof (induction parts arbitrary: cur)
  case (Cons part parts)
  from Cons.prems(1) have "\<not> is_symlink t (cur @ [part])" by (auto simp: Let_def split: if_splits)
  then have "direct t (cur @ [part])" using direct_step[OF assms Cons.prems(2)] Cons.prems(3) by auto
  with Cons.prems Cons.IH[of "cur @ [part]"] show ?case by (auto simp: Let_def rbind_Inr_iff split: if_splits)
qed simp

text \<open>What the check of a destination says when it passes; it never changes anything.\<close>

lemma destination_direct:
  assumes "well_founded_tree t0" "ensure_safe_shared_destination b project dest s = (r, s')" "kept_from t0 P (ms_fs s)"
    "direct (ms_fs s) project"
  shows "s' = s \<and> (r = Inr () \<longrightarrow> (\<exists>rel. dest = project @ rel \<and> ''..'' \<notin> set rel) \<and> (dest \<noteq> project \<longrightarrow> direct (ms_fs s) dest))"
proof -
  have "s' = s"
    using assms(2) walk_changes_nothing
    by (fastforce simp: ensure_safe_shared_destination_def ensure_safe_shared_directory_def Let_def svc_defs
        split: if_splits sum.splits prod.splits)
  moreover have "(\<exists>rel. dest = project @ rel \<and> ''..'' \<notin> set rel) \<and> (dest \<noteq> project \<longrightarrow> direct (ms_fs s) dest)" if "r = Inr ()"
  proof -
    from assms(2) that obtain rr rel s1 where 1: "shared_relative_path project dest = Inr rel" "\<not> is_symlink (ms_fs s) dest"
      "if b then ensure_safe_shared_directory False shared_directory_text project (butlast dest) s = (Inr (), s)
       else validate_safe_shared_directory project (butlast dest) (ms_fs s) = Inr ()"
      using \<open>s' = s\<close>
      by (fastforce simp: ensure_safe_shared_destination_def sbind_Inr_iff sthen_Inr_iff Let_def split: if_splits
          dest: directory_direct[OF assms(1) _ assms(3,4)])
    from 1(1) have d: "dest = project @ rel" "''..'' \<notin> set rel"
      by (auto simp: shared_relative_path_def Let_def relative_to_Some split: option.splits if_splits)
    have "direct (ms_fs s) dest" if "dest \<noteq> project"
    proof -
      from that d obtain q n where q: "rel = q @ [n]" by (cases rel rule: rev_cases) auto
      have "direct (ms_fs s) (butlast dest)"
      proof (cases b)
        case True
        with 1(3) directory_direct[OF assms(1) _ assms(3,4)] show ?thesis by (metis (full_types))
      next
        case False
        with 1(3) obtain rr where v: "validate_walk project rr project q (ms_fs s) = Inr ()"
          using d q by (auto simp: validate_safe_shared_directory_def rbind_Inr_iff shared_relative_path_def Let_def butlast_append
              relative_to_Some split: option.splits if_splits)
        from validate_walk_direct[OF assms(1,3) v assms(4)] d q show ?thesis by (simp add: butlast_append)
      qed
      with direct_step[OF assms(1,3), of "butlast dest" n] 1(2) d q show ?thesis by (auto simp: butlast_append)
    qed
    with d show ?thesis by blast
  qed
  ultimately show ?thesis by blast
qed

section \<open>Writing\<close>

lemma create_InrD:
  assumes "fs_create (d @ [n]) c t = Inr t'" "direct t d" "n \<noteq> ''..''"
  shows "t' = t @ [(d @ [n], FileNode c)] \<and> node_at t (d @ [n]) = None"
  using assms entry_below_direct[OF _ assms(2,3)]
  by (auto simp: fs_create_def rbind_Inr_iff split: if_splits)

lemma direct_added_file: "direct t p \<Longrightarrow> node_at t l = None \<Longrightarrow> direct (t @ [(l, FileNode c)]) p"
  by (auto simp: direct_def map_of_added split: if_splits)

lemma replace_InrD:
  assumes "fs_replace (d @ [n]) p t = Inr t'" "direct t d" "n \<noteq> ''..''" "direct t p"
  shows "\<exists>m. node_at t (d @ [n]) = Some m \<and> t' = dict_set p m (tree_remove (d @ [n]) t)"
proof -
  from assms(1) obtain a b where "entry_loc t (d @ [n]) = Inr a" "entry_loc t p = Inr b"
    "(case (node_at t a, node_at t b) of (Some n, other) \<Rightarrow> if other = Some DirNode then Inl EISDIR
        else Inr (dict_set b n (tree_remove a t)) | (None, _) \<Rightarrow> Inl ENOENT) = Inr t'"
    by (auto simp: fs_replace_def rbind_Inr_iff)
  moreover from this have "a = d @ [n]" "b = p" using entry_below_direct assms(2,3) entry_direct assms(4) by blast+
  ultimately show ?thesis by (auto split: option.splits if_splits)
qed

lemma unlink_below:
  assumes "fs_unlink (d @ [n]) t = Inr t'" "direct t d" "n \<noteq> ''..''"
  shows "t' = tree_remove (d @ [n]) t"
  using assms(1) entry_below_direct[OF _ assms(2,3)] by (auto elim!: unlink_InrD)

text \<open>A temporary file that was not there before is removed, or replaces \<open>p\<close>.\<close>

lemma temp_file_keeps:
  assumes k1: "kept_from t0 P t1" and d: "direct t1 d" "n \<noteq> ''..''" "direct t1 p" "p \<noteq> []"
    and p: "\<And>m. node_at t0 p = Some m \<Longrightarrow> \<exists>c. m = FileNode c \<and> P p c"
    and temp: "node_at t1 (d @ [n]) = Some (FileNode c)" "node_at t0 (d @ [n]) = None"
  shows "fs_unlink (d @ [n]) t1 = Inr u \<Longrightarrow> kept_from t0 P u"
    "fs_replace (d @ [n]) p t1 = Inr t2 \<Longrightarrow> kept_from t0 P t2"
    "fs_replace (d @ [n]) p t1 = Inr t2 \<Longrightarrow> fs_unlink (d @ [n]) t2 = Inr u \<Longrightarrow> kept_from t0 P u"
proof -
  show "kept_from t0 P u" if "fs_unlink (d @ [n]) t1 = Inr u" for u
    using unlink_below[OF that d(1) d(2)] kept_remove[OF k1 temp(2)] by simp
  have r: "t2 = dict_set p (FileNode c) (tree_remove (d @ [n]) t1)" if "fs_replace (d @ [n]) p t1 = Inr t2" for t2
    using replace_InrD[OF that d(1-3)] temp(1) by auto
  show k2: "kept_from t0 P t2" if "fs_replace (d @ [n]) p t1 = Inr t2" for t2
    unfolding r[OF that] by (rule kept_set_file[OF kept_remove[OF k1 temp(2)] d(4) p])
  show "kept_from t0 P u" if "fs_replace (d @ [n]) p t1 = Inr t2" "fs_unlink (d @ [n]) t2 = Inr u" for t2 u
  proof -
    have "direct t2 d" using d(1) r[OF that(1)] by (auto simp: direct_def map_of_remove)
    then have "u = tree_remove (d @ [n]) t2" using unlink_below[OF that(2)] d(2) by blast
    then show ?thesis using kept_remove[OF k2[OF that(1)] temp(2)] by simp
  qed
qed

text \<open>Writing to a temporary file next to \<open>p\<close> and replacing \<open>p\<close> by it, whatever fails on the way.\<close>

lemma created_temp:
  assumes "kept_from t0 P t" "direct t d" "n \<noteq> ''..''" "fs_create (d @ [n]) c t = Inr t1"
  shows "kept_from t0 P t1" "direct t p \<Longrightarrow> direct t1 p" "node_at t1 (d @ [n]) = Some (FileNode c)" "node_at t0 (d @ [n]) = None"
proof -
  note t = create_InrD[OF assms(4,2,3)]
  show "node_at t0 (d @ [n]) = None" using kept_some[OF assms(1)] t by blast
  show "kept_from t0 P t1" using kept_add_file[OF assms(1)] t by blast
  show "direct t1 p" if "direct t p" using direct_added_file[OF that] t by blast
  show "node_at t1 (d @ [n]) = Some (FileNode c)" using t by (simp add: node_at_def map_add_def)
qed

lemma replaced_file_keeps:
  assumes k: "kept_from t0 P t" and d: "direct t d" "n \<noteq> ''..''" "direct t p" "p \<noteq> []"
    and p: "\<And>m. node_at t0 p = Some m \<Longrightarrow> \<exists>c. m = FileNode c \<and> P p c"
    and t1: "fs_create (d @ [n]) c t = Inr t1"
  shows "kept_from t0 P t1"
    "fs_unlink (d @ [n]) t1 = Inr u \<Longrightarrow> kept_from t0 P u"
    "fs_replace (d @ [n]) p t1 = Inr t2 \<Longrightarrow> kept_from t0 P t2"
    "fs_replace (d @ [n]) p t1 = Inr t2 \<Longrightarrow> fs_unlink (d @ [n]) t2 = Inr u \<Longrightarrow> kept_from t0 P u"
proof -
  note C = created_temp[OF k d(1,2) t1]
  note T = temp_file_keeps[OF C(1) C(2)[OF d(1)] d(2) C(2)[OF d(3)] d(4) p C(3,4)]
  show "kept_from t0 P t1" by (rule C(1))
  show "fs_unlink (d @ [n]) t1 = Inr u \<Longrightarrow> kept_from t0 P u" by (rule T(1))
  show "fs_replace (d @ [n]) p t1 = Inr t2 \<Longrightarrow> kept_from t0 P t2" by (rule T(2))
  show "fs_replace (d @ [n]) p t1 = Inr t2 \<Longrightarrow> fs_unlink (d @ [n]) t2 = Inr u \<Longrightarrow> kept_from t0 P u" by (rule T(3))
qed

lemma temp_name_plain: "se_temp e n \<noteq> [] \<Longrightarrow> temp_name e n \<noteq> ''..''"
  by (cases n; cases "se_temp e n") (auto simp: temp_name_def)

lemma sfinally_unlink:
  "sfinally body (sbind (sget ms_fs) (\<lambda>t. if path_exists t temp then fs_do (fs_unlink temp) else sret ())) s = (r, s') \<Longrightarrow>
   body s = (rb, s1) \<Longrightarrow> ms_man s' = ms_man s1 \<and> (ms_fs s' = ms_fs s1 \<or> fs_unlink temp (ms_fs s1) = Inr (ms_fs s'))"
  by (auto simp: sfinally_def sbind_sget fs_do_def sret_def split: if_splits sum.splits prod.splits)

definition may_write :: "tree \<Rightarrow> (loc \<Rightarrow> string \<Rightarrow> bool) \<Rightarrow> loc \<Rightarrow> bool" where
  "may_write t0 P p \<longleftrightarrow> (\<forall>m. node_at t0 p = Some m \<longrightarrow> (\<exists>c. m = FileNode c \<and> P p c))"

lemma write_shared_keeps:
  assumes w: "well_founded_tree t0" and k: "kept_from t0 P (ms_fs s)" and d: "direct (ms_fs s) (se_project e)"
    and dest: "may_write t0 P dest" "dest \<noteq> se_project e" and temp: "\<And>n. se_temp e n \<noteq> []"
    and run: "write_shared_text e dest content s = (r, s')"
  shows "kept_from t0 P (ms_fs s') \<and> ms_man s' = ms_man s"
proof -
  let ?check = "ensure_safe_shared_destination True (se_project e) dest" and ?temp = "butlast dest @ [temp_name e (last dest)]"
  obtain rc sc where c: "?check s = (rc, sc)" by (cases "?check s")
  note D = destination_direct[OF w c k d]
  show ?thesis
  proof (cases "rc = Inr ()")
    case False
    then obtain x where "rc = Inl x" by (cases rc) auto
    with run c D k show ?thesis by (simp add: write_shared_text_def Let_def sthen_def sbind_def)
  next
    case True
    with D dest(2) have dd: "direct (ms_fs s) dest" "dest \<noteq> []" by auto
    then have db: "direct (ms_fs s) (butlast dest)" by (simp add: direct_butlast)
    note tn = temp_name_plain[OF temp]
    show ?thesis
    proof (cases "fs_create ?temp content (ms_fs s)")
      case (Inl x)
      with run c D True k show ?thesis by (simp add: write_shared_text_def Let_def sthen_def sbind_def fs_do_def)
    next
      case (Inr t1)
      note R = replaced_file_keeps[OF k db tn dd dest(1)[unfolded may_write_def, rule_format] Inr]
      let ?s1 = "s\<lparr>ms_fs := t1\<rparr>" and ?body = "sthen ?check (fs_do (fs_replace ?temp dest))"
      have d1: "direct t1 (se_project e)"
        using direct_added_file[OF d] create_InrD[OF Inr db tn] by blast
      obtain rb sb where b: "?body ?s1 = (rb, sb)" by (cases "?body ?s1")
      obtain rc2 sc2 where c2: "?check ?s1 = (rc2, sc2)" by (cases "?check ?s1")
      have "sc2 = ?s1" using destination_direct[OF w c2] R(1) d1 by simp
      with b c2 have sb: "ms_man sb = ms_man s" "ms_fs sb = t1 \<or> fs_replace ?temp dest t1 = Inr (ms_fs sb)"
        by (auto simp: sthen_def sbind_def fs_do_def split: sum.splits)
      from run c D True Inr have f: "sfinally ?body (sbind (sget ms_fs) (\<lambda>t. if path_exists t ?temp then fs_do (fs_unlink ?temp) else sret ())) ?s1 = (r, s')"
        by (simp add: write_shared_text_def Let_def sthen_def sbind_def fs_do_def)
      show ?thesis using sfinally_unlink[OF f b] sb R by metis
    qed
  qed
qed

section \<open>Planning\<close>

definition owned :: "shared_env \<Rightarrow> bool \<Rightarrow> (string, string) dict \<Rightarrow> loc \<Rightarrow> string \<Rightarrow> bool" where
  "owned e refresh prior l c \<longleftrightarrow> refresh \<and>
     (\<exists>rel. relative_to l (se_project e) = Some rel \<and> map_of prior (as_posix rel) = Some (se_sha e c))"

lemma decided_may_write:
  assumes "well_founded_tree t0" "kept_from t0 nowhere t" "direct t dst" "dst = se_project e @ rel"
    "decide_overwrite e False refresh prior m t (project_rel e dst) dst = Inr Write"
  shows "may_write t0 (owned e refresh prior) dst"
  unfolding may_write_def
proof (intro allI impI)
  fix n assume n: "node_at t0 dst = Some n"
  then have l: "locate t dst = Inr dst" using locate_kept[OF assms(1,2,3)] by simp
  from n assms(2) have t: "node_at t dst = Some n" by (auto simp: kept_from_def)
  with l have "path_exists t dst" by (simp add: path_exists_def stat_def)
  with assms(5) have r: "refresh" "is_managed e prior m t (project_rel e dst) dst = Inr True"
    by (auto simp: decide_overwrite_def rbind_Inr_iff split: if_splits)
  have rel: "relative_to dst (se_project e) = Some rel" using assms(4) by (simp add: relative_to_Some)
  from r(2) obtain c where "fs_read dst t = Inr c" "map_of prior (as_posix rel) = Some (se_sha e c)"
    using rel by (auto simp: is_managed_def project_rel_def rbind_Inr_iff split: option.splits if_splits sum.splits)
  moreover from this(1) l t have "n = FileNode c" by (auto simp: fs_read_def split: node.splits)
  ultimately show "\<exists>c. n = FileNode c \<and> owned e refresh prior dst c"
    using r(1) rel by (auto simp: owned_def)
qed

text \<open>The state while an installation runs.\<close>

definition holding :: "tree \<Rightarrow> (loc \<Rightarrow> string \<Rightarrow> bool) \<Rightarrow> shared_env \<Rightarrow> mstate \<Rightarrow> bool" where
  "holding t0 P e s \<longleftrightarrow> kept_from t0 P (ms_fs s) \<and> mf_project_root (ms_man s) = se_project e \<and> mf_key (ms_man s) = ''speckit''"

definition sound_plan :: "tree \<Rightarrow> (loc \<Rightarrow> string \<Rightarrow> bool) \<Rightarrow> shared_env \<Rightarrow> shared_plan \<Rightarrow> bool" where
  "sound_plan t0 P e plan \<longleftrightarrow>
     (\<forall>u \<in> set (pl_copies plan) \<union> set (pl_templates plan). may_write t0 P (fst u) \<and> fst u \<noteq> se_project e)"

text \<open>A start: the tree at the beginning is well founded and the project's path has no links.\<close>

definition started :: "tree \<Rightarrow> shared_env \<Rightarrow> bool" where
  "started t0 e \<longleftrightarrow> well_founded_tree t0 \<and> direct t0 (se_project e) \<and> (\<forall>n. se_temp e n \<noteq> [])"

lemma record_existing_keeps:
  "record_existing sha rel b s = (r, s') \<Longrightarrow> ms_fs s' = ms_fs s \<and>
     mf_project_root (ms_man s') = mf_project_root (ms_man s) \<and> mf_key (ms_man s') = mf_key (ms_man s)"
  by (auto simp: record_existing_def Let_def svc_defs track_def split: if_splits option.splits sum.splits prod.splits)

lemma wp_record_existing:
  "(\<And>s'. holding t0 P e s' \<Longrightarrow> Q () s') \<Longrightarrow> (\<And>x s'. holding t0 P e s' \<Longrightarrow> E x s') \<Longrightarrow> holding t0 P e s \<Longrightarrow>
     wp (record_existing sha rel b) Q E s"
  by (rule wpI) (auto simp: holding_def dest!: record_existing_keeps)

lemma wp_tolerant: "wp m Q E' s \<Longrightarrow> (\<And>x s'. E' x s' \<Longrightarrow> Q () s' \<and> E x s') \<Longrightarrow> wp (tolerant m) Q E s"
  by (auto simp: wp_def tolerant_def split: prod.splits sum.splits pyexn.splits)

lemma wp_unless_symlinked:
  "wp m (\<lambda>_. Q True) E' s \<Longrightarrow> (\<And>x s'. E' x s' \<Longrightarrow> Q False s' \<and> E x s') \<Longrightarrow> wp (unless_symlinked m) Q E s"
  by (auto simp: wp_def unless_symlinked_def split: prod.splits sum.splits pyexn.splits)

lemma wp_directory:
  assumes "started t0 e" "holding t0 P e s" "\<And>s'. holding t0 P e s' \<Longrightarrow> Q () s'" "\<And>x s'. holding t0 P e s' \<Longrightarrow> E x s'"
  shows "wp (ensure_safe_shared_directory create w (se_project e) d) Q E s"
proof (rule wpI)
  have k: "kept_from t0 P (ms_fs s)" "direct (ms_fs s) (se_project e)" "well_founded_tree t0"
    using assms(1,2) kept_direct by (auto simp: holding_def started_def)
  have "holding t0 P e s'" if "ensure_safe_shared_directory create w (se_project e) d s = (r, s')" for r s'
    using directory_direct[OF k(3) that k(1,2)] assms(2) by (simp add: holding_def)
  with assms(3,4) show "ensure_safe_shared_directory create w (se_project e) d s = (Inr a, s') \<Longrightarrow> Q a s'"
    "ensure_safe_shared_directory create w (se_project e) d s = (Inl x, s') \<Longrightarrow> E x s'" for a x s' by (metis (full_types) old.unit.exhaust)+
qed

lemma wp_destination:
  assumes "started t0 e" "holding t0 P e s" "(\<exists>rel. dest = se_project e @ rel) \<Longrightarrow> (dest \<noteq> se_project e \<Longrightarrow> direct (ms_fs s) dest) \<Longrightarrow> Q () s"
    "\<And>x. E x s"
  shows "wp (ensure_safe_shared_destination b (se_project e) dest) Q E s"
proof (rule wpI)
  have k: "kept_from t0 P (ms_fs s)" "direct (ms_fs s) (se_project e)" "well_founded_tree t0"
    using assms(1,2) kept_direct by (auto simp: holding_def started_def)
  note D = destination_direct[OF k(3) _ k(1,2)]
  show "Q a s'" if "ensure_safe_shared_destination b (se_project e) dest s = (Inr a, s')" for a s'
    using D[OF that] assms(3) by (cases a) blast
  show "E x s'" if "ensure_safe_shared_destination b (se_project e) dest s = (Inl x, s')" for x s'
    using D[OF that] assms(4) by blast
qed

lemma wp_bucket_dir:
  assumes "started t0 e" "holding t0 P e s" "sound_plan t0 R e plan"
    "\<And>ok pl s'. holding t0 P e s' \<Longrightarrow> sound_plan t0 R e pl \<Longrightarrow> Q (ok, pl) s'" "\<And>x s'. holding t0 P e s' \<Longrightarrow> E x s'"
  shows "wp (ensure_or_bucket_dir e d plan) Q E s"
  unfolding ensure_or_bucket_dir_def wp_simps
  by (rule wp_unless_symlinked[where E' = "\<lambda>_. holding t0 P e"], rule wp_directory[OF assms(1,2)])
    (use assms(3-5) in \<open>auto simp: sound_plan_def\<close>)

lemma wp_leave_file:
  assumes "holding t0 P e s" "sound_plan t0 R e plan"
    "\<And>pl s'. holding t0 P e s' \<Longrightarrow> sound_plan t0 R e pl \<Longrightarrow> Q pl s'" "\<And>x s'. holding t0 P e s' \<Longrightarrow> E x s'"
  shows "wp (leave_file e prior why rel dst plan) Q E s"
proof -
  have r: "wp (if is_file (ms_fs s) dst \<and> map_of prior rel = None then tolerant (record_existing (se_sha e) rel True) else sret ())
      (\<lambda>_. holding t0 P e) E s"
    using assms(1,4) by (auto simp: wp_simps intro!: wp_tolerant[where E' = "\<lambda>_. holding t0 P e"] wp_record_existing)
  show ?thesis
  proof (cases "why = Preserve")
    case True
    with assms show ?thesis by (simp add: leave_file_def wp_simps sound_plan_def)
  next
    case False
    have "wp (sbind (sget ms_fs) (\<lambda>t.
        sthen (if is_file t dst \<and> map_of prior rel = None then tolerant (record_existing (se_sha e) rel True) else sret ())
        (sret (plan\<lparr>pl_skipped := pl_skipped plan @ [rel]\<rparr>)))) Q E s"
      unfolding wp_sbind wp_sget wp_sthen wp_sret using assms(2,3) by (intro wp_mono[OF r]) (auto simp: sound_plan_def)
    with False show ?thesis by (simp add: leave_file_def)
  qed
qed

lemma wp_consider:
  assumes "started t0 e" "holding t0 nowhere e s" "sound_plan t0 (owned e refresh prior) e plan" "dst = se_project e @ x # xs"
    "\<And>pl s'. holding t0 nowhere e s' \<Longrightarrow> sound_plan t0 (owned e refresh prior) e pl \<Longrightarrow> Q pl s'" "\<And>y s'. holding t0 nowhere e s' \<Longrightarrow> E y s'"
    "may_write t0 (owned e refresh prior) dst \<Longrightarrow> wp (add plan) Q E s"
  shows "wp (consider_file e False refresh prior b dst add plan) Q E s"
proof -
  let ?decide = "\<lambda>plan. sbind (sget ms_fs) (\<lambda>t. sbind (sget ms_man) (\<lambda>m.
        sbind (slift (decide_overwrite e False refresh prior m t (project_rel e dst) dst)) (\<lambda>what.
        if what = Write then add plan else leave_file e prior what (project_rel e dst) dst plan)))"
  have decide: "wp (?decide plan) Q E s" if "direct (ms_fs s) dst"
  proof -
    have "wp (if what = Write then add plan else leave_file e prior what (project_rel e dst) dst plan) Q E s"
      if "decide_overwrite e False refresh prior (ms_man s) (ms_fs s) (project_rel e dst) dst = Inr what" for what
    proof (cases "what = Write")
      case True
      then have "may_write t0 (owned e refresh prior) dst"
        using decided_may_write[OF _ _ \<open>direct (ms_fs s) dst\<close> assms(4)] that assms(1,2) by (simp add: started_def holding_def)
      with True assms(7) show ?thesis by simp
    next
      case False
      then show ?thesis using wp_leave_file[OF assms(2,3,5,6)] by simp
    qed
    then show ?thesis using assms(2,6) by (simp add: wp_simps)
  qed
  show ?thesis
    unfolding consider_file_def safe_dest_or_bucket_def Let_def wp_simps
  proof (rule wp_unless_symlinked[where E' = "\<lambda>_ s'. s' = s"], rule wp_destination[OF assms(1,2)])
    assume "dst \<noteq> se_project e \<Longrightarrow> direct (ms_fs s) dst"
    with assms(4) decide show "wp (case (True, if True then plan else plan\<lparr>pl_symlinked := pl_symlinked plan @ [project_rel e dst]\<rparr>) of
       (ok, plan) \<Rightarrow> if \<not> ok then sret plan else ?decide plan) Q E s" by simp
  qed (use assms(2,3,5,6) in \<open>auto simp: wp_simps sound_plan_def\<close>)
qed

lemma wp_plan_script:
  assumes "started t0 e" "holding t0 nowhere e s" "sound_plan t0 (owned e refresh prior) e plan"
    "dest = se_project e @ x # xs"
    "\<And>pl s'. holding t0 nowhere e s' \<Longrightarrow> sound_plan t0 (owned e refresh prior) e pl \<Longrightarrow> Q pl s'" "\<And>y s'. holding t0 nowhere e s' \<Longrightarrow> E y s'"
  shows "wp (plan_script e False refresh sep prior src dest path plan) Q E s"
proof -
  let ?dst = "dest @ path" and ?src = "src @ path"
  let ?add = "\<lambda>plan. sbind (ensure_or_bucket_dir e (butlast ?dst) plan) (\<lambda>(ok, plan).
        if \<not> ok then sret plan
        else sbind (sget ms_fs) (\<lambda>t. sbind (slift (text_at t ?src)) (\<lambda>text.
          sret (plan\<lparr>pl_copies := pl_copies plan @
            [(?dst, project_rel e ?dst, resolve_dynamic_command_refs sep (resolve_command_refs sep text))]\<rparr>))))"
  have "wp (?add plan) Q E s" if may: "may_write t0 (owned e refresh prior) ?dst"
    unfolding wp_sbind
  proof (rule wp_bucket_dir[OF assms(1-3)])
    fix ok pl s' assume "holding t0 nowhere e s'" "sound_plan t0 (owned e refresh prior) e pl"
    with assms(4-6) may show "wp (case (ok, pl) of (ok, plan) \<Rightarrow>
        if \<not> ok then sret plan
        else sbind (sget ms_fs) (\<lambda>t. sbind (slift (text_at t ?src)) (\<lambda>text.
          sret (plan\<lparr>pl_copies := pl_copies plan @
            [(?dst, project_rel e ?dst, resolve_dynamic_command_refs sep (resolve_command_refs sep text))]\<rparr>)))) Q E s'"
      by (auto simp: wp_simps sound_plan_def)
  qed (rule assms(6))
  then have "wp (consider_file e False refresh prior False ?dst ?add plan) Q E s"
    by (intro wp_consider[OF assms(1-3), where x = x and xs = "xs @ path"]) (use assms(4-6) in simp_all)
  with assms(2,3,5) show ?thesis by (simp add: plan_script_def Let_def wp_sbind wp_sget wp_sret)
qed

lemma wp_plan_template:
  assumes "started t0 e" "holding t0 nowhere e s" "sound_plan t0 (owned e refresh prior) e plan"
    "dest = se_project e @ x # xs"
    "\<And>pl s'. holding t0 nowhere e s' \<Longrightarrow> sound_plan t0 (owned e refresh prior) e pl \<Longrightarrow> Q pl s'" "\<And>y s'. holding t0 nowhere e s' \<Longrightarrow> E y s'"
  shows "wp (plan_template e False refresh sep prior src dest n plan) Q E s"
proof -
  let ?dst = "dest @ [n]"
  let ?add = "\<lambda>plan. sbind (sget ms_fs) (\<lambda>t. sbind (slift (text_at t (src @ [n]))) (\<lambda>text.
        sret (plan\<lparr>pl_templates := pl_templates plan @ [(?dst, project_rel e ?dst, resolve_command_refs sep text)]\<rparr>)))"
  have "wp (?add plan) Q E s" if "may_write t0 (owned e refresh prior) ?dst"
    using that assms(2-6) by (auto simp: wp_simps sound_plan_def)
  then have "wp (consider_file e False refresh prior True ?dst ?add plan) Q E s"
    by (intro wp_consider[OF assms(1-3), where x = x and xs = "xs @ [n]"]) (use assms(4-6) in simp_all)
  with assms(2,3,5) show ?thesis by (simp add: plan_template_def Let_def wp_sbind wp_sget wp_sret)
qed

text \<open>A list of steps that all keep an invariant of plan and state.\<close>

lemma wp_plan_all:
  assumes "\<And>x plan s. x \<in> set xs \<Longrightarrow> I plan s \<Longrightarrow> wp (f x plan) I E s" "I plan s"
  shows "wp (plan_all f xs plan) I E s"
  using assms
proof (induction xs arbitrary: plan s)
  case (Cons x xs)
  have "wp (f x plan) I E s" using Cons.prems by simp
  then show ?case
    unfolding plan_all.simps wp_sbind by (rule wp_mono) (use Cons in auto)
qed (simp add: wp_simps)

definition planning :: "tree \<Rightarrow> shared_env \<Rightarrow> bool \<Rightarrow> (string, string) dict \<Rightarrow> shared_plan \<Rightarrow> mstate \<Rightarrow> bool" where
  "planning t0 e refresh prior plan s \<longleftrightarrow> holding t0 nowhere e s \<and> sound_plan t0 (owned e refresh prior) e plan"

abbreviation kept_when_raised :: "tree \<Rightarrow> shared_env \<Rightarrow> pyexn \<Rightarrow> mstate \<Rightarrow> bool" where
  "kept_when_raised t0 e \<equiv> \<lambda>_. holding t0 nowhere e"

lemma bucket_planning:
  assumes "started t0 e" "planning t0 e refresh prior plan s"
    "\<And>pl s'. planning t0 e refresh prior pl s' \<Longrightarrow> wp (k pl) (planning t0 e refresh prior) (kept_when_raised t0 e) s'"
  shows "wp (sbind (ensure_or_bucket_dir e d plan) (\<lambda>(ok, plan). if \<not> ok then sret plan else k plan))
     (planning t0 e refresh prior) (kept_when_raised t0 e) s"
  unfolding wp_sbind
  by (rule wp_bucket_dir[OF assms(1)]) (use assms(2,3) in \<open>auto simp: planning_def wp_simps\<close>)

lemma wp_dir_names: "(\<And>ns. Q ns s) \<Longrightarrow> (\<And>x. E x s) \<Longrightarrow> wp (dir_names p) Q E s"
  by (auto simp: wp_def dir_names_def split: sum.splits)

lemma scripts_planned:
  assumes "started t0 e" "planning t0 e refresh prior plan s"
  shows "wp (plan_scripts e kind False refresh sep prior plan) (planning t0 e refresh prior) (kept_when_raised t0 e) s"
proof -
  have "wp (plan_all (plan_script e False refresh sep prior src (specify_dir e names)) paths pl)
      (planning t0 e refresh prior) (kept_when_raised t0 e) s'"
    if "planning t0 e refresh prior pl s'" for src names paths pl s'
    by (rule wp_plan_all, rule wp_plan_script[OF assms(1), where x = "''.specify''" and xs = names])
      (use that in \<open>auto simp: planning_def specify_dir_def\<close>)
  then show ?thesis
    unfolding plan_scripts_def Let_def
    using assms by (auto simp: wp_sbind[of "sget ms_fs"] wp_sget wp_sret intro!: bucket_planning)
qed

lemma templates_planned:
  assumes "started t0 e" "planning t0 e refresh prior plan s"
  shows "wp (plan_templates e False refresh sep prior plan) (planning t0 e refresh prior) (kept_when_raised t0 e) s"
proof -
  have "wp (plan_all (plan_template e False refresh sep prior src (specify_dir e names)) ns pl)
      (planning t0 e refresh prior) (kept_when_raised t0 e) s'"
    if "planning t0 e refresh prior pl s'" for src names ns pl s'
    by (rule wp_plan_all, rule wp_plan_template[OF assms(1), where x = "''.specify''" and xs = names])
      (use that in \<open>auto simp: planning_def specify_dir_def\<close>)
  then have "wp (sbind (dir_names src) (\<lambda>ns. plan_all (plan_template e False refresh sep prior src (specify_dir e names)) ns pl))
      (planning t0 e refresh prior) (kept_when_raised t0 e) s'"
    if "planning t0 e refresh prior pl s'" for src names pl s'
    unfolding wp_sbind using that by (intro wp_dir_names) (auto simp: planning_def)
  then show ?thesis
    unfolding plan_templates_def Let_def
    using assms by (auto simp: wp_sbind[of "sget ms_fs"] wp_sget wp_sret intro!: bucket_planning)
qed

section \<open>Writing and saving\<close>

lemma wp_write_update:
  assumes "started t0 e" "holding t0 P e s" "may_write t0 P (fst u)" "fst u \<noteq> se_project e"
  shows "wp (write_update e u) (\<lambda>_. holding t0 P e) (\<lambda>_. holding t0 P e) s"
proof -
  obtain dst rel c where u: "u = (dst, rel, c)" by (cases u)
  have k: "well_founded_tree t0" "kept_from t0 P (ms_fs s)" "direct (ms_fs s) (se_project e)" "\<And>n. se_temp e n \<noteq> []"
    using assms(1,2) kept_direct by (auto simp: started_def holding_def)
  have "wp (write_shared_text e dst c) (\<lambda>_. holding t0 P e) (\<lambda>_. holding t0 P e) s"
    using write_shared_keeps[OF k(1-3) _ _ k(4)] assms(2-4) u by (intro wpI) (fastforce simp: holding_def)+
  then have "wp (sthen (write_shared_text e dst c) (record_existing (se_sha e) rel False)) (\<lambda>_. holding t0 P e) (\<lambda>_. holding t0 P e) s"
    unfolding wp_sthen by (rule wp_mono) (auto intro: wp_record_existing)
  then show ?thesis by (simp add: write_update_def u)
qed

lemma wp_sfor_inv:
  assumes "\<And>x s. x \<in> set xs \<Longrightarrow> I s \<Longrightarrow> wp (f x) (\<lambda>_. I) (\<lambda>_. I) s" "I s"
  shows "wp (sfor xs f) (\<lambda>_. I) (\<lambda>_. I) s"
  using assms
proof (induction xs arbitrary: s)
  case (Cons x xs)
  have "wp (f x) (\<lambda>_. I) (\<lambda>_. I) s" using Cons.prems by simp
  then show ?case
    unfolding sfor.simps wp_sthen by (rule wp_mono) (use Cons in auto)
qed (simp add: wp_simps)

lemma wp_write_copy:
  assumes "started t0 e" "holding t0 P e s" "sound_plan t0 R e plan" "may_write t0 P (fst u)" "fst u \<noteq> se_project e"
  shows "wp (write_copy e u plan) (\<lambda>pl s'. holding t0 P e s' \<and> sound_plan t0 R e pl) (\<lambda>_. holding t0 P e) s"
proof -
  have "wp (sthen (write_update e u) (sret pl)) (\<lambda>pl s'. holding t0 P e s' \<and> sound_plan t0 R e pl) (\<lambda>_. holding t0 P e) s'"
    if "holding t0 P e s'" "sound_plan t0 R e pl" for pl s'
    unfolding wp_sthen wp_sret using that by (intro wp_mono[OF wp_write_update[OF assms(1) that(1) assms(4,5)]]) auto
  then show ?thesis
    unfolding write_copy_def wp_sbind
    by (intro wp_bucket_dir[OF assms(1-3)]) (auto simp: wp_sret)
qed

section \<open>Loading and saving the manifest\<close>

lemma realpath_of_direct:
  assumes "well_founded_tree t"
  shows "direct t (p @ rest) \<Longrightarrow> realpath_from t act p rest = Some (p @ rest)"
proof (induction rest arbitrary: p)
  case (Cons n rest)
  then have "n \<noteq> ''..''" "\<And>ab tg. map_of t (p @ [n]) \<noteq> Some (LinkNode ab tg)"
    using direct_prefix[of t "p @ [n]" rest] by (auto simp: direct_snoc)
  with Cons show ?case by (auto split: option.splits node.splits)
qed simp

lemma loaded_manifest_belongs:
  assumes "started t e" "load_speckit_manifest e t = Inr m"
  shows "mf_project_root m = se_project e \<and> mf_key m = ''speckit''"
proof -
  have "resolve_or_raise t (se_project e) = Inr (se_project e)"
    using realpath_of_direct[of t "[]" "se_project e" "[]"] assms(1) by (simp add: resolve_or_raise_def resolve_def started_def)
  then have i: "init_manifest ''speckit'' (se_project e) v True t =
      Inr \<lparr>mf_key = ''speckit'', mf_project_root = se_project e, mf_version = v, mf_files = [], mf_recovered = [], mf_installed_at = PStr []\<rparr>" for v
    by (simp add: init_manifest_def)
  have "mf_project_root m' = se_project e \<and> mf_key m' = ''speckit''"
    if "load_manifest (se_loads e) ''speckit'' (se_project e) True t = Inr m'" for m'
    using that by (auto simp: load_manifest_def i Let_def rbind_Inr_iff split: sum.splits option.splits pyval.splits if_splits)
  with assms(2) i show ?thesis
    by (auto simp: load_speckit_manifest_def Let_def split: sum.splits pyexn.splits if_splits)
qed

lemma safe_walk_keeps:
  "safe_walk base rr cur parts s = (r, s') \<Longrightarrow> kept_from t P (ms_fs s) \<Longrightarrow> kept_from t P (ms_fs s') \<and> ms_man s' = ms_man s"
proof (induction parts arbitrary: cur s)
  case (Cons part parts)
  let ?c = "cur @ [part]"
  note IH = Cons.IH[of ?c]
  show ?case
  proof (cases "fs_mkdir ?c (ms_fs s)")
    case (Inr t')
    have "kept_from t P t'" using kept_mkdir[OF Inr Cons.prems(2)] .
    with Inr Cons.prems IH[of s] IH[of "s\<lparr>ms_fs := t'\<rparr>"] show ?thesis
      by (auto simp: Let_def sbind_sget sthen_def svc_defs fs_do_def split: if_splits sum.splits)
  next
    case (Inl x)
    with Cons.prems IH[of s] show ?thesis
      by (auto simp: Let_def sbind_sget sthen_def svc_defs fs_do_def split: if_splits sum.splits)
  qed
qed (simp add: sret_def)

lemma safe_walk_direct:
  assumes "well_founded_tree t0"
  shows "safe_walk base rr cur parts s = (Inr (), s') \<Longrightarrow> kept_from t0 P (ms_fs s) \<Longrightarrow> direct (ms_fs s) cur \<Longrightarrow> ''..'' \<notin> set parts \<Longrightarrow>
     direct (ms_fs s') (cur @ parts)"
proof (induction parts arbitrary: cur s)
  case (Cons part parts)
  let ?t = "ms_fs s" and ?c = "cur @ [part]"
  note IH = Cons.IH[of ?c]
  from Cons.prems(1) have "\<not> is_symlink ?t ?c" by (auto simp: Let_def sbind_sget sraise_def)
  with direct_step[OF assms Cons.prems(2,3)] Cons.prems(4) have d: "direct ?t ?c" by auto
  show ?case
  proof (cases "path_exists ?t ?c")
    case True
    with Cons.prems d IH[of s] show ?thesis
      by (auto simp: Let_def sbind_sget sthen_def svc_defs split: if_splits sum.splits)
  next
    case False
    with Cons.prems(1) obtain t' where t': "fs_mkdir ?c ?t = Inr t'"
      by (auto simp: Let_def sbind_sget sthen_def svc_defs fs_do_def split: if_splits sum.splits)
    have "kept_from t0 P t'" using kept_mkdir[OF t' Cons.prems(2)] .
    moreover have "direct t' ?c"
      using mkdir_direct[OF t' d] d by (auto simp: direct_def map_of_added split: if_splits)
    ultimately show ?thesis
      using False t' Cons.prems(1,4) IH[of "s\<lparr>ms_fs := t'\<rparr>"]
      by (auto simp: Let_def sbind_sget sthen_def svc_defs fs_do_def split: if_splits sum.splits)
  qed
qed simp

lemma manifest_directory:
  assumes "ensure_safe_manifest_directory base (base @ rel) s = (r, s')"
  shows "s' = s \<and> (\<exists>x. r = Inl x) \<or> (\<exists>rr. safe_walk base rr base rel s = (r, s'))"
proof -
  have "relative_to (base @ rel) base = Some rel" by (simp add: relative_to_Some)
  with assms show ?thesis
    by (cases "resolve_or_raise (ms_fs s) base")
      (auto simp: ensure_safe_manifest_directory_def sbind_sget sbind_slift sbind_slift_Inl)
qed

text \<open>Checking where the manifest goes: new directories at most, and afterwards the way is free of links.\<close>

lemma manifest_destination:
  assumes "ensure_safe_manifest_destination base (base @ rel @ [n]) s = (r, s')"
  shows "ms_man s' = ms_man s" "kept_from t P (ms_fs s) \<Longrightarrow> kept_from t P (ms_fs s')"
    "well_founded_tree t0 \<Longrightarrow> kept_from t0 P (ms_fs s) \<Longrightarrow> direct (ms_fs s) base \<Longrightarrow> ''..'' \<notin> set (rel @ [n]) \<Longrightarrow> r = Inr () \<Longrightarrow>
       direct (ms_fs s') (base @ rel @ [n]) \<and> may_write t0 (\<lambda>l _. l = base @ rel @ [n]) (base @ rel @ [n])"
proof -
  let ?p = "base @ rel @ [n]"
  obtain rd sd where d: "ensure_safe_manifest_directory base (base @ rel) s = (rd, sd)" by (cases "ensure_safe_manifest_directory base (base @ rel) s")
  have s': "s' = s \<or> s' = sd"
    using assms d
    by (auto simp: ensure_safe_manifest_destination_def butlast_append sthen_def svc_defs Let_def split: if_splits sum.splits)
  have "kept_from (ms_fs s) nowhere (ms_fs s)" by (rule kept_refl)
  with manifest_directory[OF d] have w1: "ms_man sd = ms_man s" using safe_walk_keeps by blast
  have w2: "kept_from t P (ms_fs sd)" if "kept_from t P (ms_fs s)" for t P
    using manifest_directory[OF d] safe_walk_keeps that by blast
  from s' w1 show "ms_man s' = ms_man s" by auto
  from s' w2 show "kept_from t P (ms_fs s) \<Longrightarrow> kept_from t P (ms_fs s')" by auto
  assume a: "well_founded_tree t0" "kept_from t0 P (ms_fs s)" "direct (ms_fs s) base" "''..'' \<notin> set (rel @ [n])" "r = Inr ()"
  from assms a(5) d have ok: "rd = Inr ()" "s' = sd" "\<not> is_symlink (ms_fs sd) ?p"
    "path_exists (ms_fs sd) ?p \<longrightarrow> is_file (ms_fs sd) ?p"
    by (auto simp: ensure_safe_manifest_destination_def butlast_append sthen_def svc_defs Let_def split: if_splits sum.splits)
  have k: "kept_from t0 P (ms_fs sd)" using w2 a(2) .
  from manifest_directory[OF d] ok(1) safe_walk_direct[OF a(1) _ a(2,3)] a(4) have "direct (ms_fs sd) (base @ rel)" by auto
  then have dp: "direct (ms_fs sd) ?p" using direct_step[OF a(1) k, of "base @ rel" n] a(4) ok(3) by auto
  have "\<exists>c. m = FileNode c" if m: "node_at t0 ?p = Some m" for m
  proof -
    have "locate (ms_fs sd) ?p = Inr ?p" using locate_kept[OF a(1) k dp] m by simp
    moreover from m k have "node_at (ms_fs sd) ?p = Some m \<or> (\<exists>c. m = FileNode c)" by (auto simp: kept_from_def)
    ultimately show ?thesis using ok(4) by (auto simp: path_exists_def is_file_def stat_def split: option.splits node.splits)
  qed
  with dp ok(2) show "direct (ms_fs s') ?p \<and> may_write t0 (\<lambda>l _. l = ?p) ?p" by (simp add: may_write_def)
qed

abbreviation shared_manifest :: "shared_env \<Rightarrow> loc" where
  "shared_manifest e \<equiv> manifest_path (se_project e) ''speckit''"

lemma save_keeps:
  assumes st: "started t0 e" and h: "holding t0 P e s" and run: "save_shared e s = (r, s')"
  shows "kept_from t0 (\<lambda>l c. P l c \<or> l = shared_manifest e) (ms_fs s')"
proof -
  let ?base = "se_project e" and ?p = "shared_manifest e" and ?Q = "\<lambda>l c. P l c \<or> l = shared_manifest e"
  let ?d = "manifest_dir ?base" and ?tn = "temp_name e ''speckit.manifest.json''"
  let ?temp = "?d @ [?tn]" and ?check = "ensure_safe_manifest_destination ?base ?p"
  let ?unlink = "sbind (sget ms_fs) (\<lambda>t. if path_exists t ?temp then fs_do (fs_unlink ?temp) else sret ())"
  let ?body = "sthen ?check (fs_do (fs_replace ?temp ?p))"
  define s1 where "s1 = s\<lparr>ms_man := (ms_man s)\<lparr>mf_installed_at := py_or (mf_installed_at (ms_man s)) (PStr (se_now e))\<rparr>\<rparr>"
  define content where "content = se_dumps e (manifest_data (ms_man s1)) @ [CHR 0x0A]"
  have p: "?p = ?base @ [''.specify'', ''integrations''] @ [''speckit.manifest.json'']" "?d = ?base @ [''.specify'', ''integrations'']"
    by (simp_all add: manifest_path_def manifest_dir_def)
  have w: "well_founded_tree t0" "direct (ms_fs s1) ?base" "?tn \<noteq> ''..''"
    using st h kept_direct temp_name_plain by (auto simp: started_def holding_def s1_def)
  have kQ: "kept_from t0 ?Q (ms_fs s1)" using h kept_weaken by (fastforce simp: holding_def s1_def)
  have m1: "mf_project_root (ms_man s1) = ?base" "mf_key (ms_man s1) = ''speckit''" using h by (simp_all add: holding_def s1_def)
  from run obtain r0 where run0: "save_manifest (se_dumps e) (se_now e) ?tn s = (r0, s')"
    by (auto simp: save_shared_def svc_defs split: sum.splits prod.splits)
  have run1: "sthen ?check (sthen (fs_do (fs_create ?temp content)) (sthen (sfinally ?body ?unlink) (sret ?p))) s1 = (r0, s')"
    using run0 unfolding m1[symmetric] 
    by (simp add: save_manifest_def sthen_smodify sbind_sget Let_def s1_def content_def cong: if_cong)
  obtain rc sc where c: "?check s1 = (rc, sc)" by (cases "?check s1")
  note D = manifest_destination[OF c[unfolded p(1)], folded p(1)]
  have kc: "kept_from t0 ?Q (ms_fs sc)" using D(2) kQ .
  show ?thesis
  proof (cases rc)
    case (Inl x)
    with run1 c kc show ?thesis by (simp add: sthen_def sbind_def)
  next
    case (Inr u)
    with D(3)[OF w(1) kQ w(2)] have dp: "direct (ms_fs sc) ?p" "may_write t0 (\<lambda>l _. l = ?p) ?p" by auto
    then have dd: "direct (ms_fs sc) ?d" using direct_prefix p by (metis append.assoc)
    show ?thesis
    proof (cases "fs_create ?temp content (ms_fs sc)")
      case (Inl x)
      with run1 c \<open>rc = Inr u\<close> kc show ?thesis by (simp add: sthen_def sbind_def fs_do_def)
    next
      case t1: (Inr t1)
      note C = created_temp[OF kc dd w(3) t1]
      let ?s1 = "sc\<lparr>ms_fs := t1\<rparr>"
      obtain rc2 sc2 where c2: "?check ?s1 = (rc2, sc2)" by (cases "?check ?s1")
      note D2 = manifest_destination[OF c2[unfolded p(1)], folded p(1)]
      have k2: "kept_from t0 ?Q (ms_fs sc2)" using D2(2) C(1) by simp
      have k12: "kept_from t1 nowhere (ms_fs sc2)" using D2(2) kept_refl by simp
      then have temp2: "node_at (ms_fs sc2) ?temp = Some (FileNode content)" using C(3) by (auto simp: kept_from_def)
      have d2: "direct (ms_fs sc2) ?d" "direct (ms_fs sc2) ?p" using kept_direct[OF k12] C(2) dd dp(1) by blast+
      have mayp: "\<exists>c. m = FileNode c \<and> ?Q ?p c" if "node_at t0 ?p = Some m" for m
        using dp(2) that by (auto simp: may_write_def)
      have ne: "?p \<noteq> []" by (simp add: manifest_path_def)
      note T = temp_file_keeps[where P = ?Q, OF k2 d2(1) w(3) d2(2) ne mayp temp2 C(4)]
      obtain rb sb where b: "?body ?s1 = (rb, sb)" by (cases "?body ?s1")
      with c2 have sb: "ms_fs sb = ms_fs sc2 \<or> fs_replace ?temp ?p (ms_fs sc2) = Inr (ms_fs sb)"
        by (auto simp: sthen_def sbind_def fs_do_def split: sum.splits)
      obtain rf sf where f: "sfinally ?body ?unlink ?s1 = (rf, sf)" by (cases "sfinally ?body ?unlink ?s1")
      with run1 c \<open>rc = Inr u\<close> t1 have "s' = sf"
        by (auto simp: sthen_def sbind_def fs_do_def sret_def split: sum.splits)
      with sfinally_unlink[OF f b] have e: "ms_fs s' = ms_fs sb \<or> fs_unlink ?temp (ms_fs sb) = Inr (ms_fs s')" by blast
      from sb show ?thesis
      proof
        assume "ms_fs sb = ms_fs sc2"
        with e k2 T(1) show ?thesis by auto
      next
        assume "fs_replace ?temp ?p (ms_fs sc2) = Inr (ms_fs sb)"
        with e T(2,3) show ?thesis by auto
      qed
    qed
  qed
qed

section \<open>The whole installation\<close>

lemma writing_keeps:
  assumes "started t0 e" "planning t0 e refresh prior plan s"
  shows "wp (sbind (plan_all (write_copy e) (pl_copies plan) plan) (\<lambda>plan.
       sthen (sfor (pl_templates plan) (write_update e)) (sthen (save_shared e) (sret plan))))
     (\<lambda>_ s'. kept_from t0 (\<lambda>l c. owned e refresh prior l c \<or> l = shared_manifest e) (ms_fs s'))
     (\<lambda>_ s'. kept_from t0 (\<lambda>l c. owned e refresh prior l c \<or> l = shared_manifest e) (ms_fs s')) s"
    (is "wp _ (\<lambda>_. ?K) (\<lambda>_. ?K) s")
proof -
  let ?P = "owned e refresh prior"
  let ?I = "\<lambda>pl s. holding t0 ?P e s \<and> sound_plan t0 ?P e pl"
  have weaken: "?K s'" if "holding t0 ?P e s'" for s'
    using that kept_weaken by (fastforce simp: holding_def)
  have i: "?I plan s"
    using assms(2) kept_weaken by (fastforce simp: planning_def holding_def)
  have "wp (plan_all (write_copy e) (pl_copies plan) plan) ?I (\<lambda>_. holding t0 ?P e) s"
  proof (rule wp_plan_all)
    show "wp (write_copy e u pl) ?I (\<lambda>_. holding t0 ?P e) s'" if "u \<in> set (pl_copies plan)" "?I pl s'" for u pl s'
      by (rule wp_write_copy[OF assms(1)]) (use that i in \<open>auto simp: sound_plan_def\<close>)
  qed (rule i)
  moreover have "wp (sthen (sfor (pl_templates pl) (write_update e)) (sthen (save_shared e) (sret pl))) (\<lambda>_. ?K) (\<lambda>_. ?K) s'" if "?I pl s'" for pl s'
  proof -
    have "wp (sfor (pl_templates pl) (write_update e)) (\<lambda>_. holding t0 ?P e) (\<lambda>_. holding t0 ?P e) s'"
    proof (rule wp_sfor_inv)
      show "wp (write_update e u) (\<lambda>_. holding t0 ?P e) (\<lambda>_. holding t0 ?P e) s2"
        if "u \<in> set (pl_templates pl)" "holding t0 ?P e s2" for u s2
        by (rule wp_write_update[OF assms(1)]) (use that \<open>?I pl s'\<close> in \<open>auto simp: sound_plan_def\<close>)
    qed (use that in simp)
    moreover have "wp (sthen (save_shared e) (sret pl)) (\<lambda>_. ?K) (\<lambda>_. ?K) s2" if "holding t0 ?P e s2" for s2
      unfolding wp_sthen wp_sret by (rule wpI) (use save_keeps[OF assms(1) that] in blast)+
    ultimately show ?thesis unfolding wp_sthen[of "sfor _ _"] using weaken by (blast intro: wp_mono)
  qed
  ultimately show ?thesis unfolding wp_sbind using weaken by (blast intro: wp_mono)
qed

text \<open>C12. Installing the shared scripts and templates without force destroys nothing: whether it succeeds or
  fails half way, every directory, link and file that was in the tree before is still there with its content,
  except the manifest of the shared files itself and, when refreshing, files that the manifest tracks and
  whose content still has the recorded hash.\<close>

theorem shared_files_of_the_user_stay:
  assumes "install_shared_infra e script_type False sep refresh s = (r, s')" "started (ms_fs s) e"
    "load_speckit_manifest e (ms_fs s) = Inr m" "node_at (ms_fs s) l = Some n"
  shows "node_at (ms_fs s') l = Some n \<or> l = manifest_path (se_project e) ''speckit'' \<or>
     (\<exists>c rel. n = FileNode c \<and> refresh \<and> relative_to l (se_project e) = Some rel \<and>
        map_of (mf_files m) (as_posix rel) = Some (se_sha e c))"
proof -
  let ?t = "ms_fs s" and ?prior = "mf_files m" and ?s = "s\<lparr>ms_man := m\<rparr>"
  let ?K = "\<lambda>s'. kept_from ?t (\<lambda>l c. owned e refresh ?prior l c \<or> l = shared_manifest e) (ms_fs s')"
  let ?plan = "planning ?t e refresh ?prior" and ?raised = "kept_when_raised ?t e"
  have p: "?plan empty_plan ?s"
    using loaded_manifest_belongs[OF assms(2,3)] by (simp add: planning_def holding_def kept_refl sound_plan_def empty_plan_def)
  have e: "?K s'" if "?raised x s'" for x s'
    using that kept_weaken by (fastforce simp: holding_def)
  let ?put = "\<lambda>pl. sbind (plan_all (write_copy e) (pl_copies pl) pl) (\<lambda>plan.
      sthen (sfor (pl_templates plan) (write_update e)) (sthen (save_shared e) (sret plan)))"
  let ?templates = "plan_templates e False refresh sep ?prior" and ?scripts = "plan_scripts e script_type False refresh sep ?prior"
  have t: "wp (sbind (?templates pl) ?put) (\<lambda>_. ?K) (\<lambda>_. ?K) s1" if "?plan pl s1" for pl s1
    unfolding wp_sbind[of "?templates pl"]
    by (rule wp_mono[OF templates_planned[OF assms(2) that]]) (use e writing_keeps[OF assms(2)] in blast)+
  have "wp (sbind (?scripts empty_plan) (\<lambda>pl. sbind (?templates pl) ?put)) (\<lambda>_. ?K) (\<lambda>_. ?K) ?s"
    unfolding wp_sbind[of "?scripts empty_plan"]
    by (rule wp_mono[OF scripts_planned[OF assms(2) p]]) (use e t in blast)+
  moreover have "sbind (?scripts empty_plan) (\<lambda>pl. sbind (?templates pl) ?put) ?s = (r, s')"
    using assms(1,3) by (simp add: install_shared_infra_def sthen_def[of "with_speckit_manifest e"]
        sbind_def[of "with_speckit_manifest e"] with_speckit_manifest_def sbind_sget)
  ultimately have "?K s'" using wp_InrD wp_InlD by (cases r) fastforce+
  then have "node_at (ms_fs s') l = Some n \<or> (\<exists>c. n = FileNode c \<and> (owned e refresh ?prior l c \<or> l = shared_manifest e))"
    using assms(4) by (auto simp: kept_from_def)
  then show ?thesis by (auto simp: owned_def)
qed

text \<open>A project with a template of its own, and a program that ships another one of that name.\<close>

definition shipping_tree :: tree where
  "shipping_tree = [([''p''], DirNode), ([''p'', ''.specify''], DirNode), ([''p'', ''.specify'', ''templates''], DirNode),
     ([''p'', ''.specify'', ''templates'', ''plan.md''], FileNode ''mine''),
     ([''r''], DirNode), ([''r'', ''templates''], DirNode), ([''r'', ''templates'', ''plan.md''], FileNode ''shipped''),
     ([''r'', ''templates'', ''spec.md''], FileNode ''shipped'')]"

definition shipping_env :: shared_env where
  "shipping_env = \<lparr>se_loads = \<lambda>_. None, se_dumps = \<lambda>_. ''{}'', se_sha = id, se_now = ''now'', se_temp = \<lambda>_. ''x'',
     se_version = ''1'', se_core = None, se_repo = [''r''], se_project = [''p'']\<rparr>"

definition shipping_manifest :: manifest where
  "shipping_manifest = \<lparr>mf_key = ''speckit'', mf_project_root = [''p''], mf_version = PStr ''1'', mf_files = [], mf_recovered = [],
     mf_installed_at = PStr []\<rparr>"

definition shipping_state :: mstate where
  "shipping_state = \<lparr>ms_fs = shipping_tree, ms_man = shipping_manifest\<rparr>"

lemma well_founded_by_entries:
  "list_all (\<lambda>(l, n). l \<noteq> [] \<and> node_at t (butlast l) = Some DirNode) t \<Longrightarrow> well_founded_tree t"
  by (auto simp: well_founded_tree_def list_all_iff dest!: map_of_SomeD)

lemma direct_by_entries:
  "list_all (\<lambda>(l, n). case n of LinkNode _ _ \<Rightarrow> False | _ \<Rightarrow> True) t \<Longrightarrow> ''..'' \<notin> set p \<Longrightarrow> direct t p"
  by (fastforce simp: direct_def list_all_iff dest!: map_of_SomeD)

lemma shipping_started: "started shipping_tree shipping_env"
proof -
  have "well_founded_tree shipping_tree" by (rule well_founded_by_entries) code_simp
  moreover have "direct shipping_tree [''p'']" by (rule direct_by_entries) code_simp+
  ultimately show ?thesis by (simp add: started_def shipping_env_def)
qed

lemma shipping_loaded: "load_speckit_manifest shipping_env shipping_tree = Inr shipping_manifest"
  by code_simp

theorem shared_files_of_the_user_stay_witness:
  "node_at (ms_fs (snd (install_shared_infra shipping_env ''sh'' False ''.'' True shipping_state)))
     [''p'', ''.specify'', ''templates'', ''plan.md''] = Some (FileNode ''mine'')"
  using shared_files_of_the_user_stay[where s = shipping_state and e = shipping_env and m = shipping_manifest and n = "FileNode ''mine''"
      and l = "[''p'', ''.specify'', ''templates'', ''plan.md'']", OF surjective_pairing]
    shipping_started shipping_loaded
  by (simp add: shipping_state_def shipping_manifest_def shipping_env_def manifest_path_def manifest_dir_def)
    (simp add: shipping_tree_def node_at_def)

end
