(* ===== verification/AgentSetup.thy ===== *)
theory AgentSetup
  imports Registrar
begin

text \<open>
  Installing an agent (\<open>specify_cli/integrations/base.py\<close>): the templates of the program's commands are written
  into the agent's directory in the agent's format and recorded in its manifest, and the section of the context
  file is written; uninstalling removes both. Also how an agent's command-line tool is called. The classes of
  the module are the four kinds of an agent record; the integrations of single agents are instances of it.
  \<open>shlex.split\<close>, the environment and the search for a program are parameters.
\<close>

section \<open>Agents and their templates\<close>

datatype agent_kind = PlainCopy | MarkdownAgent | TomlAgent | YamlAgent | SkillsAgent

text \<open>The class attributes: \<open>config\<close> with its folder, subdirectory and whether a tool is needed.\<close>

record agent_layout =
  al_folder :: string
  al_subdir :: "string option"
  al_requires_cli :: bool

record agent =
  ag_kind :: agent_kind
  ag_key :: string
  ag_layout :: "agent_layout option"
  ag_args :: "string option"
  ag_context_file :: "string option"
  ag_separator :: string

text \<open>The environment: the reader of the project, the hash, and the directory of the package.\<close>

record setup_env =
  su_env :: resolver
  su_sha :: "string \<Rightarrow> string"
  su_note :: string

definition shared_commands_dir :: "tree \<Rightarrow> loc \<Rightarrow> loc option" where
  "shared_commands_dir t pkg =
     List.find (is_dir t) [pkg @ [''core_pack'', ''commands''], repo_root pkg @ [''templates'', ''commands'']]"

definition shared_page_templates_dir :: "tree \<Rightarrow> loc \<Rightarrow> loc option" where
  "shared_page_templates_dir t pkg =
     List.find (is_dir t) [pkg @ [''core_pack'', ''templates''], repo_root pkg @ [''templates'']]"

definition core_command_order :: "string list" where
  "core_command_order = [''analyze'', ''clarify'', ''constitution'', ''implement'', ''plan'', ''checklist'',
     ''specify'', ''tasks'', ''taskstoissues'']"

definition command_rank :: "string \<Rightarrow> nat" where
  "command_rank n = length (takeWhile (\<lambda>c. c \<noteq> n) core_command_order)"

definition template_before :: "string \<Rightarrow> string \<Rightarrow> bool" where
  "template_before a b \<longleftrightarrow>
     (let i = command_rank (name_stem a); j = command_rank (name_stem b) in i < j \<or> i = j \<and> str_cmp a b \<le> 0)"

definition has_md_suffix :: "string \<Rightarrow> bool" where
  "has_md_suffix n \<longleftrightarrow> ends_with ''.md'' n \<and> 3 < length n"

text \<open>The templates of the commands, by their names in a directory, in the order of the commands.\<close>

definition list_command_templates :: "tree \<Rightarrow> loc \<Rightarrow> (loc \<times> string list) py" where
  "list_command_templates t pkg =
     (case shared_commands_dir t pkg of
        None \<Rightarrow> Inr ([], [])
      | Some d \<Rightarrow> (case iterdir t d of
            Inl n \<Rightarrow> Inl (os_error n)
          | Inr ns \<Rightarrow> Inr (d, sort_by template_before (List.filter (\<lambda>n. is_file t (d @ [n]) \<and> has_md_suffix n) ns))))"

text \<open>The messages about a missing configuration also name the class, which is left out.\<close>

definition missing_config :: pyexn where
  "missing_config = value_error ''config is not set''"

definition commands_dest :: "agent \<Rightarrow> loc \<Rightarrow> loc py" where
  "commands_dest a project =
     (case ag_layout a of
        None \<Rightarrow> Inl missing_config
      | Some l \<Rightarrow>
          if al_folder l = [] then Inl (value_error ''config is missing required folder entry'')
          else let sub = (case al_subdir l of Some s \<Rightarrow> s | None \<Rightarrow> if ag_kind a = SkillsAgent then ''skills'' else ''commands'')
            in Inr (path_div (path_div project (parse_path (al_folder l))) (parse_path sub)))"

definition command_filename :: "agent_kind \<Rightarrow> string \<Rightarrow> string" where
  "command_filename k stem =
     ''speckit.'' @ stem @ (case k of TomlAgent \<Rightarrow> ''.toml'' | YamlAgent \<Rightarrow> ''.yaml'' | _ \<Rightarrow> ''.md'')"

section \<open>Skills\<close>

definition hook_instruction :: string where
  "hook_instruction = ''- For each executable hook, output the following''"

text \<open>
  A line with the instruction: its indentation, the line without its end, and the end. A line end is \<open>LF\<close> or
  \<open>CR LF\<close>; a \<open>CR\<close> alone ends the part the expression matches, and then there is no match.
\<close>

definition instruction_line :: "string \<Rightarrow> (string \<times> string \<times> string) option" where
  "instruction_line l =
     (let text = takeWhile (\<lambda>c. \<not> eol_char c) (dropWhile blank_char l); ending = dropWhile (\<lambda>c. \<not> eol_char c) (dropWhile blank_char l) in
      if starts_with hook_instruction text \<and> ending \<in> {[], [newline], [carriage_return, newline]}
      then Some (takeWhile blank_char l, text, ending) else None)"

text \<open>The lines of a text, each with its \<open>LF\<close>.\<close>

fun lf_lines :: "string \<Rightarrow> string \<Rightarrow> string list" where
  "lf_lines cur [] = (if cur = [] then [] else [cur])"
| "lf_lines cur (c # cs) = (if c = newline then (cur @ [c]) # lf_lines [] cs else lf_lines (cur @ [c]) cs)"

text \<open>\<open>done\<close> is the text before the line, of which only the last line matters.\<close>

fun inject_notes :: "string \<Rightarrow> string \<Rightarrow> string list \<Rightarrow> string" where
  "inject_notes note behind [] = []"
| "inject_notes note behind (l # ls) =
     (case instruction_line l of
        None \<Rightarrow> l
      | Some (indent, text, ending) \<Rightarrow>
          (let previous = map chop_eol (split_lines behind); eol = (if ending = [] then [newline] else ending) in
           if previous \<noteq> [] \<and> last previous = indent @ note then l
           else indent @ note @ eol @ indent @ text @ eol)) @
     inject_notes note (behind @ l) ls"

definition inject_hook_command_note :: "string \<Rightarrow> string \<Rightarrow> string" where
  "inject_hook_command_note note t = inject_notes note [] (lf_lines [] t)"

text \<open>\<open>raw.split("---", 2)\<close> of a text that begins with dashes: what is between the first two, and behind.\<close>

definition between_dashes :: "string \<Rightarrow> (string \<times> string) option" where
  "between_dashes t = (if starts_with ''---'' t then split1 ''---'' (drop 3 t) else None)"

definition skill_frontmatter_of :: "resolver \<Rightarrow> string \<Rightarrow> (pyval \<times> pyval) list" where
  "skill_frontmatter_of e raw =
     (case between_dashes raw of
        None \<Rightarrow> []
      | Some (fm, _) \<Rightarrow> (case pr_yaml e fm of Inr (PDict d) \<Rightarrow> d | _ \<Rightarrow> []))"

definition skill_quote :: "pyval \<Rightarrow> string py" where
  "skill_quote v = (case v of PStr t \<Rightarrow> Inr (in_dquotes (escape_quotes t)) | _ \<Rightarrow> Inl attribute_error)"

definition skill_name_of :: "string \<Rightarrow> string" where
  "skill_name_of stem = ''speckit-'' @ dots_to_hyphens stem"

text \<open>The text of one skill, before the integration's own processing.\<close>

definition skill_content :: "resolver \<Rightarrow> string \<Rightarrow> string \<Rightarrow> string \<Rightarrow> string py" where
  "skill_content e file_name raw processed =
     (let stem = name_stem file_name; d = get_or (skill_frontmatter_of e raw) ''description'' (PStr []);
          d = (if truthy d then d else PStr (''Spec Kit: '' @ stem @ '' workflow''));
          body = (case between_dashes processed of Some (_, b) \<Rightarrow> b | None \<Rightarrow> processed)
      in rbind (skill_quote d) (\<lambda>description.
         Inr (concat [line_of ''---'', line_of (''name: '' @ in_dquotes (escape_quotes (skill_name_of stem))),
           line_of (''description: '' @ description), line_of (''compatibility: '' @ in_dquotes skill_compatibility),
           line_of ''metadata:'', line_of (''  author: '' @ in_dquotes ''github-spec-kit''),
           line_of (''  source: '' @ in_dquotes (escape_quotes (''templates/commands/'' @ file_name))), line_of ''---'', body])))"

section \<open>Setting up\<close>

definition default_args :: "agent_kind \<Rightarrow> string" where
  "default_args k = (case k of TomlAgent \<Rightarrow> ''{{args}}'' | YamlAgent \<Rightarrow> ''{{args}}'' | _ \<Rightarrow> ''$ARGUMENTS'')"

text \<open>The text written for one template, and its path below the directory of the agent.\<close>

definition rendered_template :: "setup_env \<Rightarrow> resolver \<Rightarrow> agent \<Rightarrow> string \<Rightarrow> string \<Rightarrow> string \<Rightarrow> (string \<times> string list) py" where
  "rendered_template su e a script_type file_name raw =
     (let k = ag_kind a; stem = name_stem file_name; args = (case ag_args a of Some x \<Rightarrow> x | None \<Rightarrow> default_args k);
          processed = process_template raw (ag_key a) script_type args
            (case ag_context_file a of Some f \<Rightarrow> f | None \<Rightarrow> []) (if k = SkillsAgent then ag_separator a else ''.'');
          place = [command_filename k stem]
      in case k of
          PlainCopy \<Rightarrow> Inr (raw, place)
        | MarkdownAgent \<Rightarrow> Inr (processed, place)
        | TomlAgent \<Rightarrow> Inr (render_toml (extract_description e raw) (snd (split_off_frontmatter processed)), place)
        | YamlAgent \<Rightarrow>
            (let fm = extract_frontmatter e raw in
             Inr (render_yaml e (first_nonempty [title_value fm, human_title stem]) (value_text (get_or fm ''description'' (PStr [])))
                (snd (split_off_frontmatter processed)) (''templates/commands/'' @ file_name), place))
        | SkillsAgent \<Rightarrow>
            rbind (skill_content e file_name raw processed) (\<lambda>t.
            Inr (inject_hook_command_note (su_note su) t, [skill_name_of stem, ''SKILL.md''])))"

text \<open>A step on the tree alone.\<close>

definition on_disk :: "'a fop \<Rightarrow> 'a mop" where
  "on_disk m s = (case m (ms_fs s) of (r, t) \<Rightarrow> (r, s\<lparr>ms_fs := t\<rparr>))"

text \<open>\<open>record_file_in_manifest\<close>.\<close>

definition record_in_manifest :: "setup_env \<Rightarrow> loc \<Rightarrow> loc \<Rightarrow> unit mop" where
  "record_in_manifest su project p =
     sbind (sget ms_fs) (\<lambda>t.
     sbind (slift (resolve_or_raise t p)) (\<lambda>q.
     sbind (slift (resolve_or_raise t project)) (\<lambda>root.
     sbind (slift (relative_or_raise q root)) (\<lambda>rel.
     record_existing (su_sha su) (as_posix rel) False))))"

definition write_file_and_record :: "setup_env \<Rightarrow> loc \<Rightarrow> string \<Rightarrow> loc \<Rightarrow> loc mop" where
  "write_file_and_record su project content dest =
     sthen (fs_do (fs_mkdirs (butlast dest)))
    (sthen (fs_do (fs_write dest (replace_all [carriage_return, newline] [newline] content)))
    (sthen (record_in_manifest su project dest)
    (sret dest)))"

definition copy_and_record :: "setup_env \<Rightarrow> loc \<Rightarrow> loc \<Rightarrow> loc \<Rightarrow> loc mop" where
  "copy_and_record su project src dest =
     sthen (fs_do (fs_mkdirs (butlast dest)))
    (sthen (fs_do (\<lambda>t. rbind (fs_read src t) (\<lambda>c. fs_write dest c t)))
    (sthen (record_in_manifest su project dest)
    (sret dest)))"

text \<open>One template of the directory \<open>dir\<close> written below \<open>dest\<close>.\<close>

definition install_template :: "setup_env \<Rightarrow> agent \<Rightarrow> string \<Rightarrow> loc \<Rightarrow> loc \<Rightarrow> string \<Rightarrow> loc mop" where
  "install_template su a script_type dir dest n =
     (let project = pr_root (su_env su) in
      if ag_kind a = PlainCopy
      then copy_and_record su project (dir @ [n]) (dest @ [command_filename PlainCopy (name_stem n)])
      else sbind (sget (\<lambda>s. at_tree (su_env su) (ms_fs s))) (\<lambda>e.
        sbind (slift (read_text e (dir @ [n]))) (\<lambda>raw.
        sbind (slift (rendered_template su e a script_type n raw)) (\<lambda>(text, place).
        write_file_and_record su project text (dest @ place)))))"

fun install_each :: "(string \<Rightarrow> loc mop) \<Rightarrow> string list \<Rightarrow> loc list mop" where
  "install_each f [] = sret []"
| "install_each f (n # ns) = sbind (f n) (\<lambda>p. sbind (install_each f ns) (\<lambda>ps. sret (p # ps)))"

definition setup_agent :: "setup_env \<Rightarrow> agent \<Rightarrow> string \<Rightarrow> loc list mop" where
  "setup_agent su a script_type =
     (let project = pr_root (su_env su) in
      sbind (sget ms_fs) (\<lambda>t.
      sbind (slift (list_command_templates t (pr_pkg (su_env su)))) (\<lambda>(dir, names).
      if names = [] then sret []
      else
        sbind (slift (resolve_or_raise t project)) (\<lambda>root.
        sbind (sget ms_man) (\<lambda>m.
        if mf_project_root m \<noteq> root
        then sraise (value_error (''manifest.project_root ('' @ loc_text (mf_project_root m) @ '') does not match project_root ('' @ loc_text root @ '')''))
        else
          sbind (slift (commands_dest a project)) (\<lambda>d.
          sbind (slift (resolve_or_raise t d)) (\<lambda>dest.
          if relative_to dest root = None
          then sraise (value_error ((if ag_kind a = SkillsAgent then ''Skills'' else ''Integration'') @ '' destination '' @ loc_text dest @
             '' escapes project root '' @ loc_text root))
          else
            sthen (if ag_kind a \<in> {MarkdownAgent, TomlAgent, YamlAgent} then fs_do (fs_mkdirs dest) else sret ())
           (sbind (install_each (install_template su a script_type dir dest) names) (\<lambda>created.
            sthen (on_disk (upsert_context_section (su_env su) (ag_context_file a) []))
           (sret created))))))))))"

definition teardown_agent :: "setup_env \<Rightarrow> agent \<Rightarrow> bool \<Rightarrow> (loc list \<times> loc list) mop" where
  "teardown_agent su a force =
     sthen (on_disk (remove_context_section (su_env su) (ag_context_file a)))
    (uninstall (su_sha su) (Some (pr_root (su_env su))) force)"

section \<open>Scripts of an integration\<close>

text \<open>\<open>scripts\<close> is the directory next to the integration's module; the mode of the files is left out.\<close>

definition install_script :: "setup_env \<Rightarrow> loc \<Rightarrow> loc \<Rightarrow> string \<Rightarrow> loc option mop" where
  "install_script su scripts dest n =
     sbind (sget ms_fs) (\<lambda>t.
     if \<not> is_file t (scripts @ [n]) then sret None
     else sthen (fs_do (\<lambda>t. rbind (fs_read (scripts @ [n]) t) (\<lambda>c. fs_write (dest @ [n]) c t)))
         (sthen (record_in_manifest su (pr_root (su_env su)) (dest @ [n])) (sret (Some (dest @ [n])))))"

fun install_script_files :: "setup_env \<Rightarrow> loc \<Rightarrow> loc \<Rightarrow> string list \<Rightarrow> loc list mop" where
  "install_script_files su scripts dest [] = sret []"
| "install_script_files su scripts dest (n # ns) =
     sbind (install_script su scripts dest n) (\<lambda>p. sbind (install_script_files su scripts dest ns) (\<lambda>ps.
       sret (case p of Some x \<Rightarrow> x # ps | None \<Rightarrow> ps)))"

definition install_scripts :: "setup_env \<Rightarrow> agent \<Rightarrow> loc \<Rightarrow> loc list mop" where
  "install_scripts su a scripts =
     sbind (sget ms_fs) (\<lambda>t.
     if \<not> is_dir t scripts then sret []
     else let dest = path_div (pr_root (su_env su) @ [''.specify'', ''integrations'']) (parse_path (ag_key a)) @ [''scripts''] in
       sthen (fs_do (fs_mkdirs dest))
      (sbind (dir_names scripts) (\<lambda>names.
       install_script_files su scripts dest (sort_strings names))))"

section \<open>Calling an agent's tool\<close>

text \<open>Of the message about arguments that cannot be split the hint at the end is left out. \<open>getenv\<close> reads an environment variable; \<open>None\<close> of \<open>split\<close> is the \<open>ValueError\<close> of \<open>shlex.split\<close>.\<close>

definition agent_variable :: "agent \<Rightarrow> string \<Rightarrow> string" where
  "agent_variable a suffix =
     ''SPECKIT_INTEGRATION_'' @ map (\<lambda>c. if c = CHR ''-'' then CHR ''_'' else c) (upper_ascii (ag_key a)) @ suffix"

definition env_value :: "(string \<Rightarrow> string option) \<Rightarrow> string \<Rightarrow> string" where
  "env_value getenv n = py_strip (case getenv n of Some v \<Rightarrow> v | None \<Rightarrow> [])"

definition resolve_executable :: "(string \<Rightarrow> string option) \<Rightarrow> agent \<Rightarrow> string" where
  "resolve_executable getenv a =
     (let v = env_value getenv (agent_variable a ''_EXECUTABLE'') in if v = [] then ag_key a else v)"

definition extra_args :: "(string \<Rightarrow> string option) \<Rightarrow> (string \<Rightarrow> string list option) \<Rightarrow> agent \<Rightarrow> string list py" where
  "extra_args getenv split a =
     (let n = agent_variable a ''_EXTRA_ARGS''; v = env_value getenv n in
      if v = [] then Inr []
      else case split v of
          Some tokens \<Rightarrow> Inr tokens
        | None \<Rightarrow> Inl (value_error (n @ '' is not parseable as a POSIX-quoted command line (value: '' @ repr_str v @ '').'')))"

text \<open>\<open>None\<close>: the agent cannot be called. \<open>model\<close> is \<open>None\<close> or empty when none is chosen.\<close>

definition build_exec_args ::
  "(string \<Rightarrow> string option) \<Rightarrow> (string \<Rightarrow> string list option) \<Rightarrow> agent \<Rightarrow> string \<Rightarrow> string option \<Rightarrow> bool \<Rightarrow> string list option py" where
  "build_exec_args getenv split a prompt model output_json =
     (if ag_kind a = PlainCopy \<or> (case ag_layout a of None \<Rightarrow> True | Some l \<Rightarrow> \<not> al_requires_cli l) then Inr None
      else rbind (extra_args getenv split a) (\<lambda>extra.
        Inr (Some ([resolve_executable getenv a, ''-p'', prompt] @ extra @
          (case model of Some m \<Rightarrow> if m = [] then [] else [if ag_kind a = TomlAgent then ''-m'' else ''--model'', m] | None \<Rightarrow> []) @
          (if output_json then [''--output-format'', ''json''] else [])))))"

definition build_command_invocation :: "agent \<Rightarrow> string \<Rightarrow> string \<Rightarrow> string" where
  "build_command_invocation a command args =
     (let stem = (if starts_with ''speckit.'' command then drop 8 command else command);
          i = (if ag_kind a = SkillsAgent then ''/speckit-'' @ dots_to_hyphens stem else ''/speckit.'' @ stem)
      in if args = [] then i else i @ '' '' @ args)"

text \<open>\<open>run\<close> is \<open>subprocess.run\<close>: the exit code with the output, or an exception; \<open>which\<close> is \<open>shutil.which\<close>.\<close>

datatype tool_run = ToolDone int string string | ToolInterrupted | ToolRaises pyexn

definition dispatch_command ::
  "(string \<Rightarrow> string option) \<Rightarrow> (string \<Rightarrow> string list option) \<Rightarrow> (string \<Rightarrow> string option) \<Rightarrow> (string list \<Rightarrow> tool_run) \<Rightarrow>
     agent \<Rightarrow> string \<Rightarrow> string \<Rightarrow> string option \<Rightarrow> bool \<Rightarrow> (int \<times> string \<times> string) py" where
  "dispatch_command getenv split which_program run a command args model stream =
     rbind (build_exec_args getenv split a (build_command_invocation a command args) model (\<not> stream)) (\<lambda>exec.
     case exec of
       None \<Rightarrow> Inl (PyExc ''NotImplementedError'' (''Integration '' @ repr_str (ag_key a) @
          '' does not support CLI dispatch. Override build_exec_args() to enable it.''))
     | Some tokens \<Rightarrow>
         (case run (case which_program (hd tokens) of Some p \<Rightarrow> if p = [] then tokens else p # tl tokens | None \<Rightarrow> tokens) of
            ToolDone code out err \<Rightarrow> Inr (if stream then (code, [], []) else (code, out, err))
          | ToolInterrupted \<Rightarrow> if stream then Inr (130, [], ''Interrupted by user'') else Inl KeyboardInterrupt
          | ToolRaises x \<Rightarrow> Inl x))"

end
