(* ===== verification/ExtManager.thy ===== *)
theory ExtManager
  imports AgentSetup
begin

text \<open>
  \<open>ExtensionManager\<close> (\<open>specify_cli/extensions.py\<close>): installing, removing and listing extensions, with their files,
  commands, skills, hooks and their entry in the registry. The state is the file tree and the registry the manager
  has loaded. Parameters are the printers, the clock, version ranges, the library that matches ignore patterns,
  what an integration does to the text of a skill, and the greatest depth of a path. The registry and the list of
  hooks are as this program writes them: a file of hooks that is saved with the value it has keeps its text, and
  commands recorded in another shape than lists of texts by agent are an error at once.
\<close>

section \<open>Directories as a whole\<close>

text \<open>\<open>shutil.rmtree\<close>, which refuses a symbolic link.\<close>

definition fs_rmtree :: "loc \<Rightarrow> tree \<Rightarrow> (errno, tree) res" where
  "fs_rmtree p t =
     (if is_symlink t p then Inl ELOOP
      else rbind (locate t p) (\<lambda>l. case node_at t l of
          Some DirNode \<Rightarrow> Inr (List.filter (\<lambda>(k, _). relative_to k l = None) t)
        | Some _ \<Rightarrow> Inl ENOTDIR
        | None \<Rightarrow> Inl ENOENT))"

text \<open>\<open>shutil.copy2\<close>, and \<open>os.makedirs\<close> of a directory that must be new.\<close>

definition fs_copy :: "loc \<Rightarrow> loc \<Rightarrow> tree \<Rightarrow> (errno, tree) res" where
  "fs_copy src dst t = rbind (fs_read src t) (\<lambda>c. fs_write (if is_dir t dst then dst @ [last src] else dst) c t)"

definition fs_makedirs :: "loc \<Rightarrow> tree \<Rightarrow> (errno, tree) res" where
  "fs_makedirs p t = rbind (if path_exists t (butlast p) then Inr t else fs_mkdirs (butlast p) t) (fs_mkdir p)"

text \<open>
  \<open>shutil.copytree\<close> follows links; what fails below is collected and raised at the end. The first argument
  bounds the depth: a longer path is refused by the operating system.
\<close>

fun copy_entries :: "(loc \<Rightarrow> loc \<Rightarrow> unit fop) \<Rightarrow> string list \<Rightarrow> loc \<Rightarrow> loc \<Rightarrow> bool fop" where
  "copy_entries copy_dir [] src dst = sret False"
| "copy_entries copy_dir (n # ns) src dst =
     sbind (\<lambda>t. case (if is_dir t (src @ [n]) then copy_dir (src @ [n]) (dst @ [n])
                     else on_tree (fs_copy (src @ [n]) (dst @ [n]))) t of
          (Inr _, t') \<Rightarrow> (Inr False, t') | (Inl _, t') \<Rightarrow> (Inr True, t')) (\<lambda>failed.
     sbind (copy_entries copy_dir ns src dst) (\<lambda>more. sret (failed \<or> more)))"

fun copytree :: "nat \<Rightarrow> (tree \<Rightarrow> loc \<Rightarrow> string \<Rightarrow> bool) \<Rightarrow> loc \<Rightarrow> loc \<Rightarrow> unit fop" where
  "copytree 0 ignored src dst = sraise (PyExc ''OSError'' [])"
| "copytree (Suc k) ignored src dst =
     sbind (sget id) (\<lambda>t.
     case iterdir t src of
       Inl n \<Rightarrow> sraise (os_error n)
     | Inr names \<Rightarrow>
         sthen (on_tree (fs_makedirs dst))
        (sbind (copy_entries (copytree k ignored) (List.filter (\<lambda>n. \<not> ignored t src n) names) src dst) (\<lambda>failed.
         if failed then sraise (PyExc ''Error'' []) else sret ())))"

section \<open>The manager\<close>

record manager_env =
  me_registrar :: registrar
  me_json :: "pyval \<Rightarrow> string"
  me_skill_yaml :: "(pyval \<times> pyval) list \<Rightarrow> string"
  me_now :: "nat \<Rightarrow> string"
  me_in_range :: "string \<Rightarrow> pyval \<Rightarrow> bool option py"
  me_sha :: "string \<Rightarrow> string"
  me_ignores :: "string list \<Rightarrow> string \<Rightarrow> bool"
  me_takes_hint :: "string \<Rightarrow> bool"
  me_post_process :: "string \<Rightarrow> string \<Rightarrow> string"
  me_agents :: "string list"
  me_depth :: nat

record manager =
  xm_tree :: tree
  xm_registry :: kept_state

type_synonym 'a xop = "(manager, pyexn, 'a) svc"

definition on_files :: "'a fop \<Rightarrow> 'a xop" where
  "on_files m s = (case m (xm_tree s) of (r, t) \<Rightarrow> (r, s\<lparr>xm_tree := t\<rparr>))"

definition me_env :: "manager_env \<Rightarrow> resolver" where
  "me_env x = rg_env (me_registrar x)"

definition reader :: "manager_env \<Rightarrow> manager \<Rightarrow> resolver" where
  "reader x s = at_tree (me_env x) (xm_tree s)"

definition me_dir :: "manager_env \<Rightarrow> loc" where
  "me_dir x = extensions_dir (me_env x)"

text \<open>An operation of the registry, whose file is written when the operation saves.\<close>

definition write_registry :: "manager_env \<Rightarrow> (pyval \<times> pyval) list \<Rightarrow> unit fop" where
  "write_registry x data =
     sthen (on_tree (fs_mkdirs (me_dir x))) (on_tree (fs_write (me_dir x @ [''.registry'']) (me_json x (PDict data))))"

definition on_registry :: "manager_env \<Rightarrow> unit kop \<Rightarrow> unit xop" where
  "on_registry x m s =
     (case m ((xm_registry s)\<lparr>kr_file := JsonAbsent\<rparr>) of
        (Inl e, reg) \<Rightarrow> (Inl e, s\<lparr>xm_registry := reg\<rparr>)
      | (Inr _, reg) \<Rightarrow>
          (if kr_file reg = JsonAbsent then sret () else on_files (write_registry x (kr_data reg))) (s\<lparr>xm_registry := reg\<rparr>))"

text \<open>An operation of the hooks, on the file in the project.\<close>

definition hooks_file :: "manager_env \<Rightarrow> loc" where
  "hooks_file x = pr_root (me_env x) @ [''.specify'', ''extensions.yml'']"

definition write_hooks :: "manager_env \<Rightarrow> yaml_file \<Rightarrow> unit fop" where
  "write_hooks x f =
     (case f of
        YamlValue (PDict config) \<Rightarrow>
          sthen (on_tree (fs_mkdirs (butlast (hooks_file x)))) (on_tree (fs_write (hooks_file x) (pr_dump (me_env x) config)))
      | _ \<Rightarrow> sret ())"

definition on_hooks :: "manager_env \<Rightarrow> unit hop \<Rightarrow> unit xop" where
  "on_hooks x m s =
     (let f = yaml_at (reader x s) (hooks_file x) in
      case m f of (r, f') \<Rightarrow>
        (if f' = f then slift r else sthen (on_files (write_hooks x f')) (slift r)) s)"

section \<open>Manifests\<close>

definition manifest_name_at :: "ext_manifest \<Rightarrow> string \<Rightarrow> pyval py" where
  "manifest_name_at m n = rbind (py_item (PDict (em_data m)) ''extension'') (\<lambda>e. py_item e n)"

definition id_of :: "ext_manifest \<Rightarrow> string py" where
  "id_of m = rbind (manifest_id m) (\<lambda>v. case v of PStr i \<Rightarrow> Inr i | _ \<Rightarrow> Inl type_error)"

definition load_manifest_in :: "resolver \<Rightarrow> loc \<Rightarrow> ext_manifest py" where
  "load_manifest_in e dir =
     (let p = dir @ [''extension.yml''] in load_extension_manifest (pr_version_ok e) (loc_text p) (yaml_at e p))"

text \<open>The commands of a checked manifest; a file that is no text is an error.\<close>

definition command_info_of :: "pyval \<Rightarrow> command_info py" where
  "command_info_of v =
     rbind (py_item v ''name'') (\<lambda>n. rbind (py_item v ''file'') (\<lambda>f.
     case (n, f, get_or (dict_of v) ''aliases'' (PList [])) of
       (PStr n, PStr f, PList as) \<Rightarrow>
         if all_strings as then Inr \<lparr>ci_name = n, ci_file = f, ci_aliases = map the_str as\<rparr> else Inl type_error
     | _ \<Rightarrow> Inl type_error))"

definition command_infos :: "ext_manifest \<Rightarrow> command_info list py" where
  "command_infos m = rbind (manifest_commands m) (\<lambda>cs. rbind (py_iter cs) (rmap command_info_of))"

definition check_compatibility :: "manager_env \<Rightarrow> ext_manifest \<Rightarrow> string \<Rightarrow> unit py" where
  "check_compatibility x m version =
     rbind (rbind (py_item (PDict (em_data m)) ''requires'') (\<lambda>r. py_item r ''speckit_version'')) (\<lambda>required.
     rbind (me_in_range x version required) (\<lambda>r.
     case r of
       None \<Rightarrow> Inl (PyExc ''CompatibilityError'' (''Invalid version specifier: '' @ py_str required))
     | Some ok \<Rightarrow> if ok then Inr () else Inl (PyExc ''CompatibilityError''
          (''Extension requires spec-kit '' @ py_str required @ '', but '' @ version @ '' is installed.'' @ newline #
           ''Upgrade spec-kit with: '' @ reinstall_command))))"

text \<open>\<open>version_satisfies\<close>: \<open>None\<close> stands for a version or a range that cannot be read.\<close>

definition version_satisfies :: "(string \<Rightarrow> string \<Rightarrow> bool option) \<Rightarrow> string \<Rightarrow> string \<Rightarrow> bool" where
  "version_satisfies in_range current required = (in_range current required = Some True)"

definition is_registered :: "manager \<Rightarrow> string \<Rightarrow> bool" where
  "is_registered s i = kept_is_installed extension_registry i (xm_registry s)"

definition get_extension :: "manager_env \<Rightarrow> manager \<Rightarrow> string \<Rightarrow> ext_manifest option py" where
  "get_extension x s i =
     (if \<not> is_registered s i then Inr None
      else case load_manifest_in (reader x s) (pack_path (me_dir x) i) of
          Inr m \<Rightarrow> Inr (Some m)
        | Inl (PyExc n msg) \<Rightarrow> if n = ''ValidationError'' then Inr None else Inl (PyExc n msg)
        | Inl e \<Rightarrow> Inl e)"

text \<open>The names of the core commands, from the directories of the program.\<close>

definition core_command_dirs :: "tree \<Rightarrow> loc \<Rightarrow> (string \<times> bool) list option list" where
  "core_command_dirs t pkg =
     map (\<lambda>d. if \<not> is_dir t d then None
          else case iterdir t d of Inl _ \<Rightarrow> None | Inr ns \<Rightarrow> Some (map (\<lambda>n. (n, is_file t (d @ [n]))) ns))
       [pkg @ [''core_pack'', ''commands''], repo_root pkg @ [''templates'', ''commands'']]"

definition core_command_names :: "manager_env \<Rightarrow> manager \<Rightarrow> string list" where
  "core_command_names x s = load_core_command_names (core_command_dirs (xm_tree s) (pr_pkg (me_env x)))"

text \<open>
  Without the extension itself, which may be installed already: its own manifest is not asked for.
\<close>

definition check_conflicts :: "manager_env \<Rightarrow> manager \<Rightarrow> ext_manifest \<Rightarrow> unit py" where
  "check_conflicts x s m =
     rbind (collect_manifest_command_names (core_command_names x s) m) (\<lambda>_.
     rbind (id_of m) (\<lambda>i.
     rbind (rmap (\<lambda>j. rbind (get_extension x s j) (\<lambda>m'. Inr (j, m')))
        (List.filter (\<lambda>j. j \<noteq> i) (map key_text (kept_keys extension_registry (xm_registry s))))) (\<lambda>installed.
     validate_install_conflicts (core_command_names x s) installed m)))"

text \<open>An entry of the list; the warning sign before the description of a broken extension is left out.\<close>

definition list_entry :: "manager_env \<Rightarrow> manager \<Rightarrow> pyval \<times> pyval \<Rightarrow> (pyval \<times> pyval) list py" where
  "list_entry x s = (\<lambda>(k, v).
     let i = key_text k; meta = dict_of v;
         entry = (\<lambda>name description enabled commands hooks.
           rbind (normalize_priority DEFAULT_HOOK_PRIORITY (get_none meta ''priority'')) (\<lambda>p.
           Inr (obj [(''id'', PStr i), (''name'', name), (''version'', get_or meta ''version'' (PStr ''unknown'')),
             (''description'', description), (''enabled'', enabled), (''priority'', PInt p),
             (''installed_at'', get_none meta ''installed_at''), (''command_count'', PInt commands), (''hook_count'', PInt hooks)])))
     in case load_manifest_in (reader x s) (pack_path (me_dir x) i) of
          Inr m \<Rightarrow>
            rbind (manifest_name_at m ''name'') (\<lambda>name. rbind (manifest_name_at m ''description'') (\<lambda>description.
            rbind (manifest_commands m) (\<lambda>cs. rbind (py_iter cs) (\<lambda>cs. rbind (as_dict (manifest_hooks m)) (\<lambda>hs.
            entry name description (get_or meta ''enabled'' (PBool True)) (int (length cs)) (int (length hs)))))))
        | Inl (PyExc n msg) \<Rightarrow>
            if n = ''ValidationError''
            then entry (PStr i) (PStr ''Corrupted extension'') (PBool False) 0 0 else Inl (PyExc n msg)
        | Inl e \<Rightarrow> Inl e)"

definition list_installed :: "manager_env \<Rightarrow> manager \<Rightarrow> (pyval \<times> pyval) list list py" where
  "list_installed x s = rmap (list_entry x s) (kept_list extension_registry (xm_registry s))"

section \<open>Skills\<close>

text \<open>A directory that can be used, or \<open>None\<close>.\<close>

definition usable_dir :: "loc \<Rightarrow> loc option fop" where
  "usable_dir d t =
     (case fs_mkdirs d t of
        Inl _ \<Rightarrow> (Inr None, t)
      | Inr t' \<Rightarrow> (Inr (if is_dir t' d then Some d else None), t'))"

definition manager_skills_dir :: "manager_env \<Rightarrow> loc option fop" where
  "manager_skills_dir x =
     sbind (recovered_dir (me_registrar x)) (\<lambda>d.
     case d of
       None \<Rightarrow> sret None
     | Some d \<Rightarrow>
         sbind (sget id) (\<lambda>t.
         usable_dir (case get_none (init_options_of (at_tree (me_env x) t)) ''ai'' of
             PStr a \<Rightarrow>
               (case map_of (rg_configs (me_registrar x)) a of
                  Some cfg \<Rightarrow> if a \<noteq> [] \<and> ac_extension cfg = skill_file then resolve_agent_dir (me_registrar x) t cfg else d
                | None \<Rightarrow> d)
           | _ \<Rightarrow> d)))"

definition is_expected_dev_symlink :: "tree \<Rightarrow> loc \<Rightarrow> loc \<Rightarrow> bool py" where
  "is_expected_dev_symlink t file cache =
     (if \<not> is_symlink t file then Inr False
      else rbind (resolve_or_raise t file) (\<lambda>a. rbind (resolve_or_raise t cache) (\<lambda>b. Inr (a = b))))"

text \<open>The title of a skill: dots and hyphens become blanks, underscores stay.\<close>

definition skill_title :: "string \<Rightarrow> string" where
  "skill_title command =
     title_from False (map (\<lambda>c. if c = CHR ''.'' \<or> c = CHR ''-'' then CHR '' '' else c)
       (if starts_with ''speckit.'' command then drop 8 command else command))"

definition skill_of_command :: "string \<Rightarrow> string" where
  "skill_of_command command = skill_name_of (if starts_with ''speckit.'' command then drop 8 command else command)"

definition extension_skill_text :: "manager_env \<Rightarrow> resolver \<Rightarrow> string \<Rightarrow> string \<Rightarrow> string \<Rightarrow> string \<Rightarrow> string py" where
  "extension_skill_text x e agent ext_id command content =
     (case parse_frontmatter e content of (fm0, body) \<Rightarrow>
      let fm = adjust_script_paths fm0; hint = get_none fm ''argument-hint'' in
      rbind (resolve_skill_placeholders e (rg_windows (me_registrar x)) agent fm body) (\<lambda>body.
      let data = build_skill_frontmatter (skill_of_command command)
            (py_or (get_or fm ''description'' (PStr [])) (PStr (''Extension command: '' @ command))) (''extension:'' @ ext_id);
          data = (if truthy hint \<and> me_takes_hint x agent then assoc_set (PStr ''argument-hint'') (PStr (py_str hint)) data else data)
      in Inr (me_post_process x agent (line_of ''---'' @ line_of (py_strip (me_skill_yaml x data)) @ line_of ''---'' @ [newline] @
           line_of (''# '' @ skill_title command @ '' Skill'') @ [newline] @ line_of body))))"

text \<open>The source of a command, when it is a file inside the directory of the extension.\<close>

definition command_source :: "tree \<Rightarrow> loc \<Rightarrow> string \<Rightarrow> loc option py" where
  "command_source t dir file =
     (let p = parse_path file in
      if is_absolute p then Inr None
      else rbind (resolve_or_raise t dir) (\<lambda>ext_root. rbind (resolve_or_raise t (path_div ext_root p)) (\<lambda>source.
        Inr (if relative_to source ext_root \<noteq> None \<and> is_file t source then Some source else None))))"

text \<open>
  One skill; the result is whether it was written. A skill that is there is kept, unless it is the link of an
  earlier installation for development.
\<close>

definition register_skill :: "manager_env \<Rightarrow> string \<Rightarrow> string \<Rightarrow> loc \<Rightarrow> loc \<Rightarrow> bool \<Rightarrow> command_info \<Rightarrow> bool fop" where
  "register_skill x agent ext_id ext_dir skills_dir link c =
     sbind (sget id) (\<lambda>t.
     sbind (slift (command_source t ext_dir (ci_file c))) (\<lambda>source.
     case source of
       None \<Rightarrow> sret False
     | Some source \<Rightarrow>
         (let skill = parse_path (skill_of_command (ci_name c)); sub = path_div skills_dir skill; file = sub @ [''SKILL.md''];
              cache_root = ext_dir @ [''.specify-dev'', ''extension-skills'']; cache = path_div cache_root skill @ [''SKILL.md''];
              exists = path_exists t file \<or> is_symlink t file in
          sthen (slift (ensure_inside cache cache_root))
         (sbind (slift (if exists \<and> link then is_expected_dev_symlink t file cache else Inr False)) (\<lambda>own.
          if exists \<and> \<not> own then sret False
          else
            sthen (on_tree (fs_mkdirs sub))
           (sbind (sget (at_tree (me_env x))) (\<lambda>e.
            case read_text e source of
              Inl _ \<Rightarrow>
                sthen (if path_exists t sub then sret () else or_else (on_tree (fs_rmdir sub)) (sret ())) (sret False)
            | Inr content \<Rightarrow>
                sbind (slift (extension_skill_text x e agent ext_id (ci_name c) content)) (\<lambda>text.
                sthen (if link then link_or_write cache file text else on_tree (fs_write file text)) (sret True))))))))) "

fun register_skills :: "(command_info \<Rightarrow> bool fop) \<Rightarrow> command_info list \<Rightarrow> string list fop" where
  "register_skills f [] = sret []"
| "register_skills f (c # cs) =
     sbind (f c) (\<lambda>written. sbind (register_skills f cs) (\<lambda>ns.
       sret (if written then skill_of_command (ci_name c) # ns else ns)))"

definition register_extension_skills :: "manager_env \<Rightarrow> ext_manifest \<Rightarrow> loc \<Rightarrow> bool \<Rightarrow> string list fop" where
  "register_extension_skills x m ext_dir link =
     sbind (manager_skills_dir x) (\<lambda>d.
     case d of
       None \<Rightarrow> sret []
     | Some skills_dir \<Rightarrow>
         sbind (sget (\<lambda>t. get_none (init_options_of (at_tree (me_env x) t)) ''ai'')) (\<lambda>ai.
         case ai of
           PStr agent \<Rightarrow>
             if agent = [] then sret []
             else sbind (slift (command_infos m)) (\<lambda>cs. sbind (slift (id_of m)) (\<lambda>i.
               register_skills (register_skill x agent i ext_dir skills_dir link) cs))
         | _ \<Rightarrow> sret []))"

text \<open>The owner a skill names; \<open>None\<close> when that cannot be read.\<close>

definition skill_source :: "resolver \<Rightarrow> string \<Rightarrow> pyval option" where
  "skill_source e raw =
     (case between_dashes raw of
        None \<Rightarrow> Some (PStr [])
      | Some (fm, _) \<Rightarrow>
          (case pr_yaml e fm of
             Inl _ \<Rightarrow> None
           | Inr (PDict d) \<Rightarrow>
               (case get_or d ''metadata'' (PDict []) of PDict md \<Rightarrow> Some (get_or md ''source'' (PStr [])) | _ \<Rightarrow> None)
           | Inr _ \<Rightarrow> Some (PStr [])))"

definition owned_skill :: "resolver \<Rightarrow> string \<Rightarrow> loc \<Rightarrow> bool" where
  "owned_skill e ext_id sub \<longleftrightarrow>
     is_dir (pr_tree e) sub \<and> is_file (pr_tree e) (sub @ [''SKILL.md'']) \<and>
     (case read_text e (sub @ [''SKILL.md'']) of
        Inl _ \<Rightarrow> False
      | Inr raw \<Rightarrow> (case skill_source e raw of Some v \<Rightarrow> v = PStr (''extension:'' @ ext_id) | None \<Rightarrow> False))"

definition unregister_skill :: "manager_env \<Rightarrow> string \<Rightarrow> loc \<Rightarrow> string \<Rightarrow> unit fop" where
  "unregister_skill x ext_id skills_dir n =
     (let p = parse_path n in
      if is_absolute p \<or> length (path_parts p) \<noteq> 1 then sret ()
      else sbind (sget (at_tree (me_env x))) (\<lambda>e.
        sbind (slift (resolve_or_raise (pr_tree e) (path_div skills_dir p))) (\<lambda>sub.
        sbind (slift (resolve_or_raise (pr_tree e) skills_dir)) (\<lambda>base.
        if relative_to sub base \<noteq> None \<and> owned_skill e ext_id sub then on_tree (fs_rmtree sub) else sret ()))))"

definition skill_candidates :: "manager_env \<Rightarrow> loc list" where
  "skill_candidates x =
     remdups (map (get_skills_dir (me_registrar x)) (List.filter (\<lambda>a. rg_folders (me_registrar x) a \<noteq> []) (me_agents x)) @
       [pr_root (me_env x) @ [''.agents'', ''skills'']])"

definition unregister_extension_skills :: "manager_env \<Rightarrow> string list \<Rightarrow> string \<Rightarrow> loc option \<Rightarrow> unit fop" where
  "unregister_extension_skills x names ext_id given =
     (if names = [] then sret ()
      else sbind (case given of Some d \<Rightarrow> sret (Some d) | None \<Rightarrow> manager_skills_dir x) (\<lambda>d.
        case d of
          Some d \<Rightarrow> sfor names (unregister_skill x ext_id d)
        | None \<Rightarrow> sfor (skill_candidates x) (\<lambda>c. sbind (sget id) (\<lambda>t.
            if is_dir t c then sfor names (unregister_skill x ext_id c) else sret ()))))"

section \<open>Commands of an extension\<close>

definition extension_note :: "string \<Rightarrow> string" where
  "extension_note i = [newline] @ line_of (''<!-- Extension: '' @ i @ '' -->'') @ line_of (''<!-- Config: .specify/extensions/'' @ i @ ''/ -->'')"

definition extension_registration :: "string \<Rightarrow> loc \<Rightarrow> bool \<Rightarrow> registration" where
  "extension_registration i dir link = \<lparr>rn_source_id = i, rn_source_dir = dir, rn_note = Some (extension_note i), rn_link = link\<rparr>"

definition register_extension_commands :: "manager_env \<Rightarrow> ext_manifest \<Rightarrow> loc \<Rightarrow> bool \<Rightarrow> bool \<Rightarrow> registered fop" where
  "register_extension_commands x m dir link create_missing =
     sbind (slift (id_of m)) (\<lambda>i. sbind (slift (command_infos m)) (\<lambda>cs.
     register_commands_for_all_agents (me_registrar x) cs (extension_registration i dir link) create_missing))"

definition register_commands_for_agent :: "manager_env \<Rightarrow> string \<Rightarrow> ext_manifest \<Rightarrow> loc \<Rightarrow> bool \<Rightarrow> string list fop" where
  "register_commands_for_agent x agent m dir link =
     (if map_of (rg_configs (me_registrar x)) agent = None
      then sraise (PyExc ''ExtensionError'' (''Unsupported agent: '' @ agent))
      else sbind (slift (id_of m)) (\<lambda>i. sbind (slift (command_infos m)) (\<lambda>cs.
        register_commands (me_registrar x) agent cs (extension_registration i dir link) None)))"

text \<open>Lists of names in an entry of the registry.\<close>

definition valid_name_list :: "pyval \<Rightarrow> string list" where
  "valid_name_list v = map the_str (List.filter is_str (hook_list v))"

definition registered_of :: "pyval \<Rightarrow> registered py" where
  "registered_of v =
     (case v of
        PDict d \<Rightarrow> rmap (\<lambda>(k, ns). case (k, ns) of
            (PStr a, PList ns) \<Rightarrow> if all_strings ns then Inr (a, map the_str ns) else Inl type_error
          | _ \<Rightarrow> Inl type_error) d
      | _ \<Rightarrow> Inl attribute_error)"

definition registered_value :: "registered \<Rightarrow> pyval" where
  "registered_value r = PDict (map (\<lambda>(a, ns). (PStr a, PList (map PStr ns))) r)"

section \<open>Removing\<close>

definition is_config_name :: "string \<Rightarrow> bool" where
  "is_config_name n \<longleftrightarrow> ends_with ''-config.yml'' n \<or> ends_with ''-config.local.yml'' n"

definition backup_dir :: "manager_env \<Rightarrow> string \<Rightarrow> loc" where
  "backup_dir x i = pack_path (me_dir x @ [''.backup'']) i"

text \<open>The names in a directory, for a loop over them.\<close>

definition names_in :: "loc \<Rightarrow> string list fop" where
  "names_in p = sbind (sget id) (\<lambda>t. case iterdir t p of Inl n \<Rightarrow> sraise (os_error n) | Inr ns \<Rightarrow> sret ns)"

definition drop_entry :: "loc \<Rightarrow> unit fop" where
  "drop_entry p = sbind (sget id) (\<lambda>t. on_tree (if is_dir t p then fs_rmtree p else fs_unlink p))"

definition drop_all_but_config :: "loc \<Rightarrow> unit fop" where
  "drop_all_but_config dir =
     sbind (names_in dir) (\<lambda>ns. sfor ns (\<lambda>n. sbind (sget id) (\<lambda>t.
       if is_file t (dir @ [n]) \<and> is_config_name n then sret () else drop_entry (dir @ [n]))))"

text \<open>The configuration files are copied before the directory goes.\<close>

definition backup_config :: "manager_env \<Rightarrow> string \<Rightarrow> loc \<Rightarrow> unit fop" where
  "backup_config x i dir =
     sthen (on_tree (fs_mkdirs (backup_dir x i)))
    (sbind (names_in dir) (\<lambda>ns.
     sfor (List.filter (ends_with ''-config.yml'') ns @ List.filter (ends_with ''-config.local.yml'') ns) (\<lambda>n.
       on_tree (fs_copy (dir @ [n]) (backup_dir x i @ [n])))))"

definition remove_directory :: "manager_env \<Rightarrow> string \<Rightarrow> bool \<Rightarrow> unit fop" where
  "remove_directory x i keep_config =
     (let dir = pack_path (me_dir x) i in
      sbind (sget id) (\<lambda>t.
      if \<not> path_exists t dir then sret ()
      else if keep_config then drop_all_but_config dir
      else sthen (backup_config x i dir)
          (sbind (sget id) (\<lambda>t. if path_exists t dir then on_tree (fs_rmtree dir) else sret ()))))"

definition remove_extension :: "manager_env \<Rightarrow> string \<Rightarrow> bool \<Rightarrow> bool xop" where
  "remove_extension x i keep_config =
     sbind (sget id) (\<lambda>s.
     if \<not> is_registered s i then sret False
     else
       (let meta = (case kept_get extension_registry i (xm_registry s) of Some d \<Rightarrow> d | None \<Rightarrow> []);
            commands = get_or meta ''registered_commands'' (PDict []); skills = valid_name_list (get_or meta ''registered_skills'' (PList [])) in
        sthen (if truthy commands
               then sbind (slift (registered_of commands)) (\<lambda>r. on_files (unregister_commands (me_registrar x) r)) else sret ())
       (sthen (on_files (unregister_extension_skills x skills i None))
       (sthen (on_files (remove_directory x i keep_config))
       (sthen (on_hooks x (unregister_hooks i))
       (sthen (on_registry x (kept_remove extension_registry i))
       (sret True)))))))"

section \<open>Installing\<close>

text \<open>The patterns of \<open>.extensionignore\<close>, and what they leave out of a directory.\<close>

definition ignore_pattern :: "string \<Rightarrow> string" where
  "ignore_pattern l =
     (let s = py_strip l in
      if s \<noteq> [] \<and> \<not> starts_with ''#'' s then map (\<lambda>c. if c = backslash then CHR ''/'' else c) s else l)"

definition load_extensionignore :: "manager_env \<Rightarrow> tree \<Rightarrow> loc \<Rightarrow> (tree \<Rightarrow> loc \<Rightarrow> string \<Rightarrow> bool) py" where
  "load_extensionignore x t source =
     (let file = source @ [''.extensionignore''] in
      if \<not> path_exists t file then Inr (\<lambda>_ _ _. False)
      else rbind (text_at t file) (\<lambda>raw.
        let patterns = map ignore_pattern (map chop_eol (split_lines raw)) @ [''.extensionignore''] in
        Inr (\<lambda>t d n.
          let rel = (case relative_to d source of Some r \<Rightarrow> r | None \<Rightarrow> d) @ [n];
              p = map (\<lambda>c. if c = backslash then CHR ''/'' else c) (as_posix rel)
          in me_ignores x patterns (if is_dir t (d @ [n]) then p @ ''/'' else p))))"

text \<open>What is left of an earlier backup: a link or a file is removed as such.\<close>

definition clear_backup :: "manager_env \<Rightarrow> string \<Rightarrow> unit fop" where
  "clear_backup x i =
     (let d = backup_dir x i in
      sbind (sget id) (\<lambda>t.
      if is_symlink t d then on_tree (fs_unlink d)
      else if is_dir t d then on_tree (fs_rmtree d)
      else if path_exists t d then on_tree (fs_unlink d) else sret ()))"

definition restore_config :: "manager_env \<Rightarrow> string \<Rightarrow> loc \<Rightarrow> unit fop" where
  "restore_config x i dest =
     (let d = backup_dir x i in
      sthen (sbind (sget id) (\<lambda>t.
        if is_symlink t d \<or> \<not> is_dir t d then sret ()
        else sbind (names_in d) (\<lambda>ns. sfor ns (\<lambda>n. sbind (sget id) (\<lambda>t.
          if is_file t (d @ [n]) \<and> \<not> is_symlink t (d @ [n]) \<and> is_config_name n
          then on_tree (fs_copy (d @ [n]) (dest @ [n])) else sret ())))))
      (clear_backup x i))"

definition put_directory :: "manager_env \<Rightarrow> loc \<Rightarrow> loc \<Rightarrow> unit fop" where
  "put_directory x source dest =
     sbind (sget id) (\<lambda>t.
     sthen (if path_exists t dest then on_tree (fs_rmtree dest) else sret ())
    (sbind (sget id) (\<lambda>t.
     sbind (slift (load_extensionignore x t source)) (\<lambda>ignored.
     copytree (me_depth x) ignored source dest))))"

text \<open>The checks before anything is changed.\<close>

definition checked_extension :: "manager_env \<Rightarrow> manager \<Rightarrow> loc \<Rightarrow> string \<Rightarrow> int \<Rightarrow> bool \<Rightarrow> (ext_manifest \<times> string) py" where
  "checked_extension x s source version priority force =
     (if priority < 1 then Inl (ext_error ''Priority must be a positive integer (1 or higher)'')
      else rbind (load_manifest_in (reader x s) source) (\<lambda>m.
        rbind (check_compatibility x m version) (\<lambda>_.
        rbind (id_of m) (\<lambda>i.
        if is_registered s i \<and> \<not> force
        then Inl (PyExc ''ExtensionError'' (''Extension '' @ in_quotes i @ '' is already installed. Use '' @
          in_quotes (''specify extension remove '' @ i) @ '' first, or retry with --force to overwrite.''))
        else rbind (check_conflicts x s m) (\<lambda>_. Inr (m, i))))))"

text \<open>\<open>manifest.get_hash\<close> reads the file the manifest was loaded from.\<close>

definition manifest_hash :: "manager_env \<Rightarrow> tree \<Rightarrow> loc \<Rightarrow> string py" where
  "manifest_hash x t source =
     (case fs_read (source @ [''extension.yml'']) t of Inl n \<Rightarrow> Inl (os_error n) | Inr c \<Rightarrow> Inr (''sha256:'' @ me_sha x c))"

definition put_extension :: "manager_env \<Rightarrow> loc \<Rightarrow> ext_manifest \<Rightarrow> string \<Rightarrow> int \<Rightarrow> bool \<Rightarrow> bool \<Rightarrow> bool \<Rightarrow> unit xop" where
  "put_extension x source m i priority commands link did_remove =
     (let dest = pack_path (me_dir x) i in
      sthen (on_files (put_directory x source dest))
     (sbind (if commands then on_files (register_extension_commands x m dest link True) else sret []) (\<lambda>registered.
      sbind (on_files (register_extension_skills x m dest link)) (\<lambda>skills.
      sthen (on_hooks x (register_hooks m))
     (sthen (if did_remove then on_files (restore_config x i dest) else sret ())
     (sbind (slift (manifest_name_at m ''version'')) (\<lambda>version.
      sbind (sget xm_tree) (\<lambda>t.
      sbind (slift (manifest_hash x t source)) (\<lambda>hash.
      on_registry x (kept_add extension_registry (me_now x) i
        (obj [(''version'', version), (''source'', PStr ''local''), (''manifest_hash'', PStr hash), (''enabled'', PBool True),
          (''priority'', PInt priority), (''registered_commands'', registered_value registered),
          (''registered_skills'', PList (map PStr skills))])))))))))))"

definition install_from_directory :: "manager_env \<Rightarrow> loc \<Rightarrow> string \<Rightarrow> bool \<Rightarrow> int \<Rightarrow> bool \<Rightarrow> bool \<Rightarrow> ext_manifest xop" where
  "install_from_directory x source version commands priority link force =
     sbind (sget id) (\<lambda>s.
     sbind (slift (checked_extension x s source version priority force)) (\<lambda>(m, i).
     sbind (if force \<and> is_registered s i
            then sthen (on_files (clear_backup x i)) (remove_extension x i False) else sret False) (\<lambda>did_remove.
     sthen (put_extension x source m i priority commands link did_remove) (sret m))))"

text \<open>
  From an archive: the names of its members, and what extracting them does below a directory. An unsafe name stops
  the installation before anything is extracted; the temporary directory goes in any case.
\<close>

record archive =
  za_names :: "string list"
  za_extract :: "loc \<Rightarrow> unit fop"

fun check_members :: "tree \<Rightarrow> loc \<Rightarrow> string list \<Rightarrow> unit py" where
  "check_members t tmp [] = Inr ()"
| "check_members t tmp (n # ns) =
     rbind (resolve_or_raise t tmp) (\<lambda>base. rbind (resolve_or_raise t (path_div tmp (parse_path n))) (\<lambda>p.
     if relative_to p base = None
     then Inl (ext_error (''Unsafe path in ZIP archive: '' @ n @ '' (potential path traversal)''))
     else check_members t tmp ns))"

definition extract_archive :: "loc \<Rightarrow> archive \<Rightarrow> unit fop" where
  "extract_archive tmp z = sbind (sget id) (\<lambda>t. sthen (slift (check_members t tmp (za_names z))) (za_extract z tmp))"

definition archive_root :: "loc \<Rightarrow> loc fop" where
  "archive_root tmp =
     (let here = (\<lambda>d. sbind (sget (\<lambda>t. path_exists t (d @ [''extension.yml'']))) (\<lambda>found.
            if found then sret d else sraise (ext_error ''No extension.yml found in ZIP file'')))
      in sbind (sget id) (\<lambda>t.
         if path_exists t (tmp @ [''extension.yml'']) then sret tmp
         else sbind (names_in tmp) (\<lambda>ns.
           case List.filter (\<lambda>n. is_dir t (tmp @ [n])) ns of [n] \<Rightarrow> here (tmp @ [n]) | _ \<Rightarrow> here tmp)))"

definition install_from_zip :: "manager_env \<Rightarrow> loc \<Rightarrow> archive py \<Rightarrow> string \<Rightarrow> int \<Rightarrow> bool \<Rightarrow> ext_manifest xop" where
  "install_from_zip x tmp z version priority force =
     (if priority < 1 then sraise (ext_error ''Priority must be a positive integer (1 or higher)'')
      else sthen (on_files (on_tree (fs_mkdir tmp))) (\<lambda>s.
        case sbind (slift z) (\<lambda>z.
             sthen (on_files (extract_archive tmp z))
            (sbind (on_files (archive_root tmp)) (\<lambda>dir.
             install_from_directory x dir version True priority False force))) s of
          (r, s') \<Rightarrow> sthen (on_files (on_tree (fs_rmtree tmp))) (slift r) s'))"

section \<open>When the agent changes\<close>

text \<open>What is left of the commands and skills of an agent in an entry of the registry.\<close>

definition without_agent :: "string \<Rightarrow> (pyval \<times> pyval) list \<Rightarrow> (pyval \<times> pyval) list" where
  "without_agent agent meta =
     (case get_or meta ''registered_commands'' (PDict []) of
        PDict d \<Rightarrow> if has_field d agent then obj [(''registered_commands'', PDict (assoc_remove (PStr agent) d))] else []
      | _ \<Rightarrow> [])"

definition unregister_agent_commands :: "manager_env \<Rightarrow> string \<Rightarrow> (pyval \<times> pyval) list \<Rightarrow> unit fop" where
  "unregister_agent_commands x agent meta =
     (case get_or meta ''registered_commands'' (PDict []) of
        PDict d \<Rightarrow>
          if valid_name_list (get_none d agent) = [] then sret ()
          else unregister_commands (me_registrar x) [(agent, valid_name_list (get_none d agent))]
      | _ \<Rightarrow> sret ())"

definition unregister_agent_entry :: "manager_env \<Rightarrow> string \<Rightarrow> loc \<Rightarrow> string \<Rightarrow> (pyval \<times> pyval) list \<Rightarrow> unit xop" where
  "unregister_agent_entry x agent skills_dir i meta =
     (let skills = valid_name_list (get_or meta ''registered_skills'' (PList [])) in
      sthen (on_files (unregister_agent_commands x agent meta))
     (sbind (sget (\<lambda>s. is_dir (xm_tree s) skills_dir)) (\<lambda>there.
      sthen (on_files (unregister_extension_skills x skills i (if there then Some skills_dir else None)))
     (sbind (sget xm_tree) (\<lambda>t.
      let remaining = List.filter (\<lambda>n. is_dir t (path_div skills_dir (parse_path n))) skills;
          updates = without_agent agent meta @
            (if skills \<noteq> [] \<and> there \<and> remaining \<noteq> skills then obj [(''registered_skills'', PList (map PStr remaining))] else [])
      in if updates = [] then sret () else on_registry x (kept_update extension_registry i updates))))))"

definition unregister_agent_artifacts :: "manager_env \<Rightarrow> string \<Rightarrow> unit xop" where
  "unregister_agent_artifacts x agent =
     (if agent = [] \<or> map_of (rg_configs (me_registrar x)) agent = None then sret ()
      else sbind (sget (\<lambda>s. kept_list extension_registry (xm_registry s))) (\<lambda>entries.
        sfor entries (\<lambda>(k, v). unregister_agent_entry x agent (get_skills_dir (me_registrar x) agent) (key_text k) (dict_of v))))"

text \<open>The commands of an extension for an agent that is used now, and its entry afterwards.\<close>

definition commands_update :: "string \<Rightarrow> (pyval \<times> pyval) list \<Rightarrow> string list \<Rightarrow> (pyval \<times> pyval) list" where
  "commands_update agent meta registered =
     (let old = dict_of (get_or meta ''registered_commands'' (PDict []));
          new = (if registered \<noteq> [] then assoc_set (PStr agent) (PList (map PStr registered)) old else assoc_remove (PStr agent) old)
      in if new = old then [] else obj [(''registered_commands'', PDict new)])"

definition skills_update :: "(pyval \<times> pyval) list \<Rightarrow> string list \<Rightarrow> (pyval \<times> pyval) list" where
  "skills_update meta registered =
     (if registered = [] then []
      else obj [(''registered_skills'', PList (map PStr
        (rev (remdups (rev (valid_name_list (get_or meta ''registered_skills'' (PList [])) @ registered))))))])"

definition skills_mode_active :: "manager_env \<Rightarrow> tree \<Rightarrow> string \<Rightarrow> agent_config \<Rightarrow> bool" where
  "skills_mode_active x t agent cfg \<longleftrightarrow>
     (let opts = init_options_of (at_tree (me_env x) t) in
      get_none opts ''ai'' = PStr agent \<and> is_ai_skills_enabled opts \<and> ac_extension cfg \<noteq> skill_file)"

definition register_entry_for_agent :: "manager_env \<Rightarrow> string \<Rightarrow> bool \<Rightarrow> string \<Rightarrow> (pyval \<times> pyval) list \<Rightarrow> unit xop" where
  "register_entry_for_agent x agent with_commands i meta =
     (if \<not> truthy (get_or meta ''enabled'' (PBool True)) then sret ()
      else sbind (sget (\<lambda>s. get_extension x s i)) (\<lambda>r. sbind (slift r) (\<lambda>m.
        case m of
          None \<Rightarrow> sret ()
        | Some m \<Rightarrow>
            (let dir = pack_path (me_dir x) i in
             sbind (if with_commands
                    then sbind (on_files (register_commands_for_agent x agent m dir False)) (\<lambda>ns. sret (commands_update agent meta ns))
                    else sret []) (\<lambda>commands.
             sbind (on_files (register_extension_skills x m dir False)) (\<lambda>skills.
             let updates = commands @ skills_update meta skills in
             if updates = [] then sret () else on_registry x (kept_update extension_registry i updates)))))))"

definition register_enabled_extensions_for_agent :: "manager_env \<Rightarrow> string \<Rightarrow> unit xop" where
  "register_enabled_extensions_for_agent x agent =
     (if agent = [] then sret ()
      else sbind (sget id) (\<lambda>s.
        let with_commands = (case map_of (rg_configs (me_registrar x)) agent of
              None \<Rightarrow> False | Some cfg \<Rightarrow> \<not> skills_mode_active x (xm_tree s) agent cfg)
        in sfor (kept_list extension_registry (xm_registry s)) (\<lambda>(k, v).
             register_entry_for_agent x agent with_commands (key_text k) (dict_of v))))"

end
