(* ===== verification/ExtManagerProps.thy ===== *)
theory ExtManagerProps
  imports ExtManager RegistrarProps RegistryProps
begin

text \<open>
  What installing and removing an extension do to the registry and the files: one entry changes, the file of the
  registry says what the program knows, failed checks change nothing, and only the skills of the extension go.
\<close>

section \<open>Removing a directory\<close>

lemma normpath_plain: "''..'' \<notin> set (normpath p)"
proof -
  have "''..'' \<notin> set acc \<Longrightarrow> ''..'' \<notin> set (normpath_from acc p)" for acc
    by (induction p arbitrary: acc) (auto dest: in_set_butlastD)
  then show ?thesis by (simp add: normpath_def)
qed

lemma normpath_idle: "''..'' \<notin> set p \<Longrightarrow> normpath p = p"
  by (simp add: normpath_def normpath_from_plain)

lemma realpath_no_links: "realpath_from t act p rest = Some l \<Longrightarrow> no_links t \<Longrightarrow> l = normpath_from p rest"
proof (induction t act p rest arbitrary: l rule: realpath_from.induct)
  case (2 t act p n rest)
  show ?case
  proof (cases "n = ''..''")
    case True
    with 2 show ?thesis by (auto split: if_splits)
  next
    case False
    have "\<And>ab tg. map_of t (p @ [n]) \<noteq> Some (LinkNode ab tg)" using "2.prems"(2) by (simp add: no_links_def)
    with 2 False show ?thesis by (cases "map_of t (p @ [n])") (force split: node.splits)+
  qed
qed simp

lemma resolve_no_links: "resolve_or_raise t p = Inr q \<Longrightarrow> no_links t \<Longrightarrow> q = normpath p"
  using realpath_no_links unfolding resolve_or_raise_def resolve_def normpath_def by (auto split: option.splits)

lemma locate_is_norm: "locate t p = Inr l \<Longrightarrow> no_links t \<Longrightarrow> l = normpath p"
  using locate_no_links unfolding locate_def normpath_def by blast

lemma rmtree_InrD:
  assumes "fs_rmtree p t = Inr t'" "no_links t"
  shows "locate t p = Inr (normpath p) \<and> node_at t (normpath p) = Some DirNode \<and>
    t' = List.filter (\<lambda>(k, _). relative_to k (normpath p) = None) t"
proof -
  from assms(1) obtain l where l: "locate t p = Inr l"
      "(case node_at t l of Some DirNode \<Rightarrow> Inr (List.filter (\<lambda>(k, _). relative_to k l = None) t)
        | Some _ \<Rightarrow> Inl ENOTDIR | None \<Rightarrow> Inl ENOENT) = Inr t'"
    using that by (cases "is_symlink t p") (simp_all only: fs_rmtree_def rbind_Inr_iff if_True if_False, blast+)
  from l(2) have "node_at t l = Some DirNode" "t' = List.filter (\<lambda>(k, _). relative_to k l = None) t"
    by (cases "node_at t l"; cases "the (node_at t l)"; simp)+
  moreover have "l = normpath p" using locate_is_norm[OF l(1) assms(2)] .
  ultimately show ?thesis using l(1) by simp
qed

lemma map_of_filter_keys: "map_of (List.filter (\<lambda>(k, _). P k) t) l = (if P l then map_of t l else None)"
  by (induction t) auto

lemma subtree_filter: "subtree (List.filter (\<lambda>(k, _). P k) t) t"
  by (simp add: subtree_def map_of_filter_keys)

lemma subtree_no_links: "subtree t t' \<Longrightarrow> no_links t' \<Longrightarrow> no_links t"
  unfolding subtree_def no_links_def by metis

lemma rmtree_outside:
  assumes "fs_rmtree p t = Inr t'" "no_links t"
  shows "subtree t' t" "node_at t' l = node_at t l \<or> (\<exists>q. l = normpath p @ q)"
proof -
  have t': "t' = List.filter (\<lambda>(k, _). relative_to k (normpath p) = None) t" using rmtree_InrD[OF assms] by blast
  then show "subtree t' t" by (simp add: subtree_filter)
  show "node_at t' l = node_at t l \<or> (\<exists>q. l = normpath p @ q)"
  proof (cases "relative_to l (normpath p)")
    case None
    with t' show ?thesis by (simp add: node_at_def map_of_filter_keys)
  next
    case (Some q)
    then show ?thesis by (simp add: relative_to_Some)
  qed
qed

section \<open>Skills of an extension\<close>

lemma file_node_case:
  "(case x of Some (FileNode c) \<Rightarrow> Inr c | Some _ \<Rightarrow> Inl EISDIR | None \<Rightarrow> Inl ENOENT) = Inr c \<longleftrightarrow> x = Some (FileNode c)"
  by (cases x; cases "the x") auto

lemma read_InrD: "fs_read p t = Inr c \<longleftrightarrow> (\<exists>l. locate t p = Inr l \<and> node_at t l = Some (FileNode c))"
  unfolding fs_read_def rbind_Inr_iff file_node_case ..

lemma read_subtree: "fs_read p t = Inr c \<Longrightarrow> subtree t t' \<Longrightarrow> fs_read p t' = Inr c"
  unfolding read_InrD locate_def using locate_subtree subtree_node by blast

lemma stat_Some: "stat t p = Some n \<longleftrightarrow> (\<exists>l. locate t p = Inr l \<and> node_at t l = Some n)"
  by (simp add: stat_def split: sum.split)

lemma stat_subtree: "stat t p = Some n \<Longrightarrow> subtree t t' \<Longrightarrow> stat t' p = Some n"
  unfolding stat_Some locate_def using locate_subtree subtree_node by blast

lemma is_dir_subtree: "is_dir t p \<Longrightarrow> subtree t t' \<Longrightarrow> is_dir t' p"
  unfolding is_dir_def by (rule stat_subtree)

lemma is_file_iff: "is_file t p \<longleftrightarrow> (\<exists>c. stat t p = Some (FileNode c))"
  by (simp add: is_file_def split: option.split node.split)

lemma is_file_subtree: "is_file t p \<Longrightarrow> subtree t t' \<Longrightarrow> is_file t' p"
  unfolding is_file_iff using stat_subtree by blast

lemma owned_skill_iff:
  "owned_skill (at_tree e t) i sub \<longleftrightarrow> is_dir t sub \<and> is_file t (sub @ [''SKILL.md'']) \<and>
     (\<exists>c. fs_read (sub @ [''SKILL.md'']) t = Inr c \<and> skill_source e (universal_newlines c) = Some (PStr (''extension:'' @ i)))"
proof -
  have "skill_source (at_tree e t) raw = skill_source e raw" for raw 
    by (cases "between_dashes raw") (simp_all add: skill_source_def at_tree_def split_beta)
  then show ?thesis
    unfolding owned_skill_def read_text_def
    by (simp add: at_tree_def split: sum.split option.split)
qed

text \<open>What one name takes away: a directory whose \<open>SKILL.md\<close> says that it is the extension's.\<close>

definition owned_place :: "manager_env \<Rightarrow> string \<Rightarrow> loc \<Rightarrow> string list \<Rightarrow> tree \<Rightarrow> loc \<Rightarrow> bool" where
  "owned_place x i d names t l \<longleftrightarrow>
     (\<exists>n \<in> set names. \<exists>k q c. path_parts (parse_path n) = [k] \<and> l = normpath d @ k # q \<and>
        node_at t (normpath d @ [k, ''SKILL.md'']) = Some (FileNode c) \<and>
        skill_source (me_env x) (universal_newlines c) = Some (PStr (''extension:'' @ i)))"

lemma unregister_skill_step:
  assumes m: "unregister_skill x i d n t = (r, t')" and t: "no_links t" and d: "normpath d \<noteq> []"
  shows "subtree t' t \<and> (node_at t' l = node_at t l \<or> owned_place x i d [n] t l)"
proof (cases "t' = t")
  case False
  let ?p = "parse_path n"
  from m False have p: "\<not> is_absolute ?p" "length (path_parts ?p) = 1"
    by (auto simp: unregister_skill_def Let_def sret_def split: if_splits)
  then obtain k where k: "path_parts ?p = [k]" by (cases "path_parts ?p") auto
  from m False p obtain sub base where sub: "resolve_or_raise t (d @ [k]) = Inr sub" "resolve_or_raise t d = Inr base"
      "relative_to sub base \<noteq> None" "owned_skill (at_tree (me_env x) t) i sub" "fs_rmtree sub t = Inr t'"
    by (auto simp: unregister_skill_def Let_def svc_defs on_tree_def at_tree_def path_div_def k
        split: if_splits sum.splits prod.splits)
  then have e: "sub = normpath (d @ [k])" "base = normpath d" using resolve_no_links t by blast+
  have "k \<noteq> ''..''"
  proof
    assume "k = ''..''"
    then have "sub = butlast (normpath d)" using e by (simp add: normpath_snoc)
    with sub(3) e(2) obtain y where "butlast (normpath d) = normpath d @ y" by (auto simp: relative_to_Some)
    then have "length (normpath d) - 1 = length (normpath d) + length y" by (metis length_append length_butlast)
    moreover have "0 < length (normpath d)" using d by simp
    ultimately show False by linarith
  qed
  then have s: "sub = normpath d @ [k]" using e by (simp add: normpath_snoc)
  from sub(4) obtain c where c: "fs_read (sub @ [''SKILL.md'']) t = Inr c"
    "skill_source (me_env x) (universal_newlines c) = Some (PStr (''extension:'' @ i))" by (auto simp: owned_skill_iff)
  have plain: "normpath sub = sub" "normpath (sub @ [''SKILL.md'']) = sub @ [''SKILL.md'']"
    using s \<open>k \<noteq> ''..''\<close> by (simp_all add: normpath_idle normpath_plain)
  then have "node_at t (sub @ [''SKILL.md'']) = Some (FileNode c)"
    using c(1) locate_is_norm[OF _ t] by (auto simp: read_InrD)
  with rmtree_outside(1)[OF sub(5) t] rmtree_outside(2)[OF sub(5) t, of l] plain(1) s k c(2) show ?thesis
    by (auto simp: owned_place_def)
qed simp

lemma owned_place_transfer:
  assumes "owned_place x i d names t l" "set names \<subseteq> set names'"
    and "\<And>p c. node_at t p = Some (FileNode c) \<Longrightarrow> node_at t' p = Some (FileNode c)"
  shows "owned_place x i d names' t' l"
proof -
  from assms(1) obtain n k q c where "n \<in> set names" "path_parts (parse_path n) = [k]" "l = normpath d @ k # q"
    "node_at t (normpath d @ [k, ''SKILL.md'']) = Some (FileNode c)"
    "skill_source (me_env x) (universal_newlines c) = Some (PStr (''extension:'' @ i))"
    unfolding owned_place_def by blast
  with assms(2) assms(3)[of "normpath d @ [k, ''SKILL.md'']" c] show ?thesis unfolding owned_place_def by blast
qed

lemma owned_place_mono:
  "owned_place x i d names t l \<Longrightarrow> subtree t t' \<Longrightarrow> set names \<subseteq> set names' \<Longrightarrow> owned_place x i d names' t' l"
  by (erule owned_place_transfer) (simp_all add: subtree_node)

lemma unregister_skills_loop:
  assumes "sfor names (unregister_skill x i d) t = (r, t')" "no_links t" "normpath d \<noteq> []"
  shows "subtree t' t \<and> (node_at t' l = node_at t l \<or> owned_place x i d names t l)"
  using assms
proof (induction names arbitrary: t)
  case Nil
  then show ?case by (simp add: sret_def)
next
  case (Cons n names)
  obtain r1 t1 where s1: "unregister_skill x i d n t = (r1, t1)" by (cases "unregister_skill x i d n t")
  note c1 = unregister_skill_step[OF s1 Cons.prems(2,3), of l]
  have n1: "no_links t1" using c1 Cons.prems(2) subtree_no_links by blast
  show ?case
  proof (cases r1)
    case (Inl e)
    with Cons.prems(1) s1 have "t' = t1" by (simp add: sthen_def sbind_def)
    with c1 owned_place_mono[of x i d "[n]" t l t "n # names"] show ?thesis by auto
  next
    case (Inr u)
    with Cons.prems(1) s1 have s2: "sfor names (unregister_skill x i d) t1 = (r, t')" by (simp add: sthen_def sbind_def)
    from Cons.IH[OF s2 n1 Cons.prems(3)] have "subtree t' t" using c1 subtree_trans by blast
    moreover from Cons.IH[OF s2 n1 Cons.prems(3)] c1 have
      "node_at t' l = node_at t l \<or> owned_place x i d [n] t l \<or> owned_place x i d names t1 l" by auto
    ultimately show ?thesis
      using owned_place_mono[of x i d "[n]" t l t "n # names"] owned_place_mono[of x i d names t1 l t "n # names"] c1
      by (auto simp: subset_insertI)
  qed
qed

text \<open>The scan of the directories that may hold skills.\<close>

definition scan_one :: "manager_env \<Rightarrow> string list \<Rightarrow> string \<Rightarrow> loc \<Rightarrow> unit fop" where
  "scan_one x names i c = sbind (sget id) (\<lambda>t. if is_dir t c then sfor names (unregister_skill x i c) else sret ())"

lemma scan_step:
  assumes "scan_one x names i c t = (r, t')" "no_links t" "normpath c \<noteq> []"
  shows "subtree t' t \<and> (node_at t' l = node_at t l \<or> owned_place x i c names t l)"
proof (cases "is_dir t c")
  case True
  with assms(1) have "sfor names (unregister_skill x i c) t = (r, t')" by (simp add: scan_one_def sbind_sget)
  from unregister_skills_loop[OF this assms(2,3)] show ?thesis .
next
  case False
  with assms(1) show ?thesis by (simp add: scan_one_def sbind_sget sret_def)
qed

lemma candidates_loop:
  assumes "sfor cs (scan_one x names i) t = (r, t')" "no_links t" "\<forall>c \<in> set cs. normpath c \<noteq> []"
  shows "subtree t' t \<and> (node_at t' l = node_at t l \<or> (\<exists>d \<in> set cs. owned_place x i d names t l))"
  using assms
proof (induction cs arbitrary: t)
  case Nil
  then show ?case by (simp add: sret_def)
next
  case (Cons c cs)
  obtain r1 t1 where s1: "scan_one x names i c t = (r1, t1)" by (cases "scan_one x names i c t")
  have c1: "subtree t1 t \<and> (node_at t1 l = node_at t l \<or> owned_place x i c names t l)"
    by (rule scan_step[OF s1 Cons.prems(2)]) (use Cons.prems(3) in simp)
  then have n1: "no_links t1" using Cons.prems(2) subtree_no_links by blast
  show ?case
  proof (cases r1)
    case (Inl e)
    with Cons.prems(1) s1 have "t' = t1" by (simp add: sthen_def sbind_def)
    with c1 show ?thesis by auto
  next
    case (Inr u)
    with Cons.prems(1) s1 have s2: "sfor cs (scan_one x names i) t1 = (r, t')" by (simp add: sthen_def sbind_def)
    from Cons.IH[OF s2 n1] Cons.prems(3) have ih: "subtree t' t1"
      "node_at t' l = node_at t1 l \<or> (\<exists>d \<in> set cs. owned_place x i d names t1 l)" by simp_all
    have "owned_place x i d names t l" if "owned_place x i d names t1 l" for d
      by (rule owned_place_mono[OF that]) (use c1 in simp_all)
    with ih(2) have "node_at t' l = node_at t1 l \<or> (\<exists>d \<in> set cs. owned_place x i d names t l)" by blast
    with c1 have "node_at t' l = node_at t l \<or> (\<exists>d \<in> set (c # cs). owned_place x i d names t l)" by auto
    moreover have "subtree t' t" using ih(1) c1 subtree_trans by blast
    ultimately show ?thesis by blast
  qed
qed

text \<open>Finding the directory makes directories at most.\<close>

definition makes_dirs :: "'a mop \<Rightarrow> bool" where
  "makes_dirs m \<longleftrightarrow> (\<forall>s r s'. no_links (ms_fs s) \<longrightarrow> m s = (r, s') \<longrightarrow> changes_only (\<lambda>_. False) (ms_fs s) (ms_fs s'))"

lemma makes_dirs_sbind [intro]:
  assumes "makes_dirs m" "\<And>a. makes_dirs (f a)" shows "makes_dirs (sbind m f)"
  unfolding makes_dirs_def
proof (intro allI impI)
  fix s r s'
  assume n: "no_links (ms_fs s)" and run: "sbind m f s = (r, s')"
  obtain x s1 where m: "m s = (x, s1)" by (cases "m s")
  have c: "changes_only (\<lambda>_. False) (ms_fs s) (ms_fs s1)" using assms(1) n m unfolding makes_dirs_def by blast
  show "changes_only (\<lambda>_. False) (ms_fs s) (ms_fs s')"
  proof (cases x)
    case (Inl e)
    with m run c show ?thesis by (simp add: sbind_def)
  next
    case (Inr a)
    with m run have "f a s1 = (r, s')" by (simp add: sbind_def)
    moreover have "no_links (ms_fs s1)" using c by (simp add: changes_only_def)
    ultimately have "changes_only (\<lambda>_. False) (ms_fs s1) (ms_fs s')" using assms(2) unfolding makes_dirs_def by blast
    with c show ?thesis by (rule changes_trans)
  qed
qed

lemma makes_dirs_sthen [intro]: "makes_dirs m \<Longrightarrow> makes_dirs k \<Longrightarrow> makes_dirs (sthen m k)"
  unfolding sthen_def by blast

lemma makes_dirs_simps [simp, intro]:
  "makes_dirs (sret a)" "makes_dirs (sget f)" "makes_dirs (slift r)" "makes_dirs (sraise e)" "makes_dirs (fs_do (fs_mkdir p))"
  by (auto simp: makes_dirs_def svc_defs fs_do_def changes_refl mkdir_changes split: sum.splits)

lemma walk_makes_dirs: "makes_dirs (safe_shared_walk create w project base cur ps)"
proof (induction ps arbitrary: cur)
  case (Cons n ps)
  then show ?case
    unfolding safe_shared_walk.simps Let_def
    by (intro makes_dirs_sbind makes_dirs_simps) (auto intro!: makes_dirs_sbind makes_dirs_sthen)
qed simp

lemma stays_simple: "stays (\<lambda>_. False) (without_manifest (ensure_safe_shared_directory create w p d))"
proof -
  have "makes_dirs (ensure_safe_shared_directory create w p d)"
    unfolding ensure_safe_shared_directory_def using walk_makes_dirs by blast
  then have m: "changes_only (\<lambda>_. False) (ms_fs s) (ms_fs s')"
    if "no_links (ms_fs s)" "ensure_safe_shared_directory create w p d s = (r, s')" for s r s'
    using that unfolding makes_dirs_def by blast
  show ?thesis
    unfolding stays_def
  proof (intro allI impI)
    fix t r t'
    assume t: "no_links t" and run: "without_manifest (ensure_safe_shared_directory create w p d) t = (r, t')"
    let ?s = "\<lparr>ms_fs = t, ms_man = \<lparr>mf_key = [], mf_project_root = [], mf_version = PNone, mf_files = [], mf_recovered = [],
        mf_installed_at = PNone\<rparr>\<rparr>"
    obtain r1 s1 where m1: "ensure_safe_shared_directory create w p d ?s = (r1, s1)"
      by (cases "ensure_safe_shared_directory create w p d ?s")
    with run have "t' = ms_fs s1" by (simp add: without_manifest_def)
    with m[OF _ m1] t show "changes_only (\<lambda>_. False) t t'" by simp
  qed
qed

lemma active_dir_stays: "stays (\<lambda>_. False) (resolve_active_skills_dir g)"
  unfolding resolve_active_skills_dir_def Let_def
  by (rule stays_sbind) (auto split: option.split intro!: stays_sthen stays_simple)

lemma recovered_stays: "stays (\<lambda>_. False) (recovered_dir g)"
  using active_dir_stays[of g] unfolding stays_def recovered_dir_def by (auto split: prod.splits sum.splits if_splits)

lemma usable_stays: "stays (\<lambda>_. False) (usable_dir d)"
  by (auto simp: stays_def usable_dir_def changes_refl mkdirs_changes split: sum.splits)

lemma manager_dir_stays: "stays (\<lambda>_. False) (manager_skills_dir x)"
  unfolding manager_skills_dir_def
  by (rule stays_sbind[OF recovered_stays]) (auto split: option.split intro!: stays_sbind[where m = "sget id"] usable_stays)

text \<open>Where skills are looked for: the given directory; or the one that is found, or else all that may have some.\<close>

definition searched_dirs :: "manager_env \<Rightarrow> loc option \<Rightarrow> tree \<Rightarrow> loc set" where
  "searched_dirs x given t =
     (case given of Some d \<Rightarrow> {d}
      | None \<Rightarrow> set (skill_candidates x) \<union> {d. fst (manager_skills_dir x t) = Inr (Some d)})"

lemma changes_file: "changes_only (\<lambda>_. False) t u \<Longrightarrow> node_at u l = Some (FileNode c) \<Longrightarrow> node_at t l = Some (FileNode c)"
  unfolding changes_only_def dir_or_nothing_def by (metis node.distinct(1) option.distinct(1) option.inject)

lemma owned_place_found:
  "owned_place x i d names u l \<Longrightarrow> changes_only (\<lambda>_. False) t u \<Longrightarrow> owned_place x i d names t l"
  by (erule owned_place_transfer) (simp_all add: changes_file)

text \<open>C15. Taking the skills of an extension away, in a tree without symbolic links, changes nothing but what is in
  subdirectories of the directories that are searched, whose name is recorded for the extension and whose
  \<open>SKILL.md\<close> said from the beginning that the extension is its source; every other file stays as it was,
  whatever the registry says, and at most directories appear where skills are looked for. The directory searched is
  the given one; without it the active agent's, or, when there is none, every one that may hold skills. None of
  them is the root of the file system.\<close>

theorem only_own_skills_are_removed:
  assumes "unregister_extension_skills x names i given t = (r, t')" "no_links t"
    and "\<forall>d \<in> searched_dirs x given t. normpath d \<noteq> []" "node_at t' l \<noteq> node_at t l"
  shows "(dir_or_nothing (node_at t l) \<and> dir_or_nothing (node_at t' l)) \<or>
    (\<exists>d \<in> searched_dirs x given t. \<exists>n \<in> set names. \<exists>k q c. path_parts (parse_path n) = [k] \<and> l = normpath d @ k # q \<and>
       node_at t (normpath d @ [k, ''SKILL.md'']) = Some (FileNode c) \<and>
       skill_source (me_env x) (universal_newlines c) = Some (PStr (''extension:'' @ i)))"
proof (cases "names = []")
  case True
  with assms(1,4) show ?thesis by (simp add: unregister_extension_skills_def sret_def)
next
  case False
  have "(dir_or_nothing (node_at t l) \<and> dir_or_nothing (node_at t' l)) \<or> (\<exists>d \<in> searched_dirs x given t. owned_place x i d names t l)"
  proof (cases given)
    case (Some d)
    with assms(1) False have "sfor names (unregister_skill x i d) t = (r, t')"
      by (simp add: unregister_extension_skills_def sbind_def sret_def)
    from unregister_skills_loop[OF this assms(2), of l] assms(3,4) Some show ?thesis by (simp add: searched_dirs_def)
  next
    case None
    obtain v u where m: "manager_skills_dir x t = (v, u)" by (cases "manager_skills_dir x t")
    have c: "changes_only (\<lambda>_. False) t u" by (rule staysD[OF manager_dir_stays assms(2) m])
    then have n: "no_links u" and tu: "node_at u l = node_at t l \<or> dir_or_nothing (node_at t l) \<and> dir_or_nothing (node_at u l)"
      by (simp_all add: changes_only_def)
    have "subtree t' u \<and> (node_at t' l = node_at u l \<or> (\<exists>d \<in> searched_dirs x given t. owned_place x i d names u l))"
    proof (cases v)
      case (Inl e)
      with assms(1) False None m have "t' = u" by (simp add: unregister_extension_skills_def sbind_def)
      then show ?thesis by simp
    next
      case (Inr found)
      show ?thesis
      proof (cases found)
        case (Some d)
        with assms(1) False None m Inr have this_loop: "sfor names (unregister_skill x i d) u = (r, t')"
          by (simp add: unregister_extension_skills_def sbind_def)
        have "d \<in> searched_dirs x given t" using None Some Inr m by (simp add: searched_dirs_def)
        with unregister_skills_loop[OF this_loop n, of l] assms(3) show ?thesis by blast
      next
        case not_found: None
        with assms(1) False None m Inr have "sfor (skill_candidates x) (scan_one x names i) u = (r, t')"
          by (simp add: unregister_extension_skills_def sbind_def[of "manager_skills_dir x"] scan_one_def[abs_def])
        from candidates_loop[OF this n, of l] assms(3) None show ?thesis by (auto simp: searched_dirs_def)
      qed
    qed
    moreover have "dir_or_nothing (node_at t' l)" if "subtree t' u" "dir_or_nothing (node_at u l)"
      using that subtree_node[OF that(1), of l] by (cases "node_at t' l") (auto simp: dir_or_nothing_def)
    moreover have "owned_place x i d names t l" if "owned_place x i d names u l" for d by (rule owned_place_found[OF that c])
    then have "(\<exists>d \<in> searched_dirs x given t. owned_place x i d names u l) \<longrightarrow>
        (\<exists>d \<in> searched_dirs x given t. owned_place x i d names t l)" by blast
    ultimately show ?thesis using tu assms(4) by metis
  qed
  then show ?thesis unfolding owned_place_def by blast
qed

section \<open>What leaves the registry alone\<close>

definition keeps_registry :: "'a xop \<Rightarrow> bool" where
  "keeps_registry m \<longleftrightarrow> (\<forall>s r s'. m s = (r, s') \<longrightarrow> xm_registry s' = xm_registry s)"

lemma keeps_registryD: "keeps_registry m \<Longrightarrow> m s = (r, s') \<Longrightarrow> xm_registry s' = xm_registry s"
  by (simp add: keeps_registry_def)

lemma manager_keeps_sbind [intro]: "keeps_registry m \<Longrightarrow> (\<And>a. keeps_registry (f a)) \<Longrightarrow> keeps_registry (sbind m f)"
  unfolding keeps_registry_def sbind_def by (auto split: prod.splits sum.splits)

lemma manager_keeps_sthen [intro]: "keeps_registry m \<Longrightarrow> keeps_registry k \<Longrightarrow> keeps_registry (sthen m k)"
  unfolding sthen_def by blast

lemma manager_keeps_simps [simp, intro]:
  "keeps_registry (sret a)" "keeps_registry (sget f)" "keeps_registry (slift r)" "keeps_registry (sraise e)" "keeps_registry (on_files m')"
  by (auto simp: keeps_registry_def svc_defs on_files_def split: prod.splits)

lemma keeps_on_hooks [simp, intro]: "keeps_registry (on_hooks x m)"
  unfolding keeps_registry_def
proof (intro allI impI)
  fix s r s'
  assume a: "on_hooks x m s = (r, s')"
  let ?f = "yaml_at (reader x s) (hooks_file x)"
  obtain q f' where m: "m ?f = (q, f')" by (cases "m ?f")
  let ?k = "if f' = ?f then slift q else sthen (on_files (write_hooks x f')) (slift q)"
  from a m have "?k s = (r, s')" by (simp add: on_hooks_def)
  moreover have "keeps_registry ?k" by (simp add: manager_keeps_sthen)
  ultimately show "xm_registry s' = xm_registry s" using keeps_registryD by blast
qed

text \<open>What an operation of the registry does, and that the file says the same afterwards.\<close>

definition registry_saved :: "manager_env \<Rightarrow> manager \<Rightarrow> bool" where
  "registry_saved x s \<longleftrightarrow> fs_read (me_dir x @ [''.registry'']) (xm_tree s) = Inr (me_json x (PDict (kr_data (xm_registry s))))"

lemma write_registry_saved:
  assumes "on_files (write_registry x (kr_data (xm_registry s))) s = (Inr (), s')"
  shows "registry_saved x s' \<and> xm_registry s' = xm_registry s"
proof -
  from assms obtain t1 where t: "fs_write (me_dir x @ [''.registry'']) (me_json x (PDict (kr_data (xm_registry s)))) t1 = Inr (xm_tree s')"
      "xm_registry s' = xm_registry s"
    by (auto simp: on_files_def write_registry_def sthen_Inr_iff on_tree_Inr_iff split: prod.splits)
  from write_InrD[OF t(1)] write_located(3) t(2) show ?thesis unfolding registry_saved_def by metis
qed

lemma on_registry_InrD:
  assumes "on_registry x m s = (Inr (), s')"
  shows "m ((xm_registry s)\<lparr>kr_file := JsonAbsent\<rparr>) = (Inr (), xm_registry s') \<and>
    (kr_file (xm_registry s') \<noteq> JsonAbsent \<longrightarrow> registry_saved x s')"
proof -
  obtain r reg where m: "m ((xm_registry s)\<lparr>kr_file := JsonAbsent\<rparr>) = (r, reg)" by (cases "m ((xm_registry s)\<lparr>kr_file := JsonAbsent\<rparr>)")
  with assms have r: "r = Inr ()" by (cases r) (auto simp: on_registry_def)
  show ?thesis
  proof (cases "kr_file reg = JsonAbsent")
    case True
    with assms m r have "s' = s\<lparr>xm_registry := reg\<rparr>" by (simp add: on_registry_def sret_def)
    with m r True show ?thesis by simp
  next
    case False
    with assms m r have "on_files (write_registry x (kr_data (xm_registry (s\<lparr>xm_registry := reg\<rparr>)))) (s\<lparr>xm_registry := reg\<rparr>) = (Inr (), s')"
      by (simp add: on_registry_def)
    from write_registry_saved[OF this] m r show ?thesis by simp
  qed
qed

lemma kept_get_file [simp]: "kept_get c j (k\<lparr>kr_file := f\<rparr>) = kept_get c j k" "kept_is_installed c j (k\<lparr>kr_file := f\<rparr>) = kept_is_installed c j k"
  by (simp_all add: kept_get_def kept_is_installed_def kept_entries_def)

lemma put_entries_InrD:
  assumes "put_entries c es k = (Inr (), k')"
  shows "kept_entries c k' = Some es" "kr_file k' \<noteq> JsonAbsent"
  using assms by (auto simp: put_entries_def kept_save_def svc_defs kept_entries_def get_or_def)

lemma kept_add_InrD:
  assumes "kept_add c now i m k = (Inr (), k')"
  shows "kept_get c j k' = (if j = i then Some (assoc_set (PStr ''installed_at'') (PStr (now (kr_tick k))) m) else kept_get c j k)"
    "kept_is_installed c j k' \<longleftrightarrow> j = i \<or> kept_is_installed c j k" "kr_file k' \<noteq> JsonAbsent"
proof -
  from assms obtain es where es: "field (kr_data k) (rc_field c) = Some (PDict es)"
      "put_entries c (assoc_set (PStr i) (PDict (assoc_set (PStr ''installed_at'') (PStr (now (kr_tick k))) m)) es) (k\<lparr>kr_tick := Suc (kr_tick k)\<rparr>) = (Inr (), k')"
    by (auto simp: kept_add_def kept_clock_def sbind_def sget_def sraise_def split: option.splits pyval.splits)
  note e = put_entries_InrD[OF es(2)]
  have "kept_entries c k = Some es" using es(1) by (simp add: kept_entries_def get_or_def)
  with e show "kept_get c j k' = (if j = i then Some (assoc_set (PStr ''installed_at'') (PStr (now (kr_tick k))) m) else kept_get c j k)"
    "kept_is_installed c j k' \<longleftrightarrow> j = i \<or> kept_is_installed c j k" "kr_file k' \<noteq> JsonAbsent"
    by (auto simp: kept_get_def kept_is_installed_def has_field_def)
qed

lemma kept_remove_InrD:
  assumes "kept_remove c i k = (Inr (), k')" "kept_is_installed c i k"
  shows "kept_get c j k' = (if j = i then None else kept_get c j k)"
    "kept_is_installed c j k' \<longleftrightarrow> j \<noteq> i \<and> kept_is_installed c j k" "kr_file k' \<noteq> JsonAbsent"
proof -
  from assms obtain es where es: "kept_entries c k = Some es" "put_entries c (assoc_remove (PStr i) es) k = (Inr (), k')"
    by (auto simp: kept_remove_def kept_is_installed_def sbind_def sget_def split: option.splits)
  note e = put_entries_InrD[OF es(2)]
  with es(1) show "kept_get c j k' = (if j = i then None else kept_get c j k)"
    "kept_is_installed c j k' \<longleftrightarrow> j \<noteq> i \<and> kept_is_installed c j k" "kr_file k' \<noteq> JsonAbsent"
    by (auto simp: kept_get_def kept_is_installed_def has_field_def)
qed

section \<open>Removing an extension\<close>

lemma remove_extension_InrD:
  assumes "remove_extension x i keep_config s = (Inr True, s')"
  shows "is_registered s i \<and> \<not> is_registered s' i \<and> registry_saved x s' \<and>
    (\<forall>j. j \<noteq> i \<longrightarrow> kept_get extension_registry j (xm_registry s') = kept_get extension_registry j (xm_registry s) \<and>
       (is_registered s' j \<longleftrightarrow> is_registered s j))"
proof -
  from assms have i: "is_registered s i" by (auto simp: remove_extension_def sbind_def sget_def sret_def split: if_splits)
  define meta where "meta = (case kept_get extension_registry i (xm_registry s) of Some d \<Rightarrow> d | None \<Rightarrow> [])"
  define first where "first = (if truthy (get_or meta ''registered_commands'' (PDict []))
      then sbind (slift (registered_of (get_or meta ''registered_commands'' (PDict [])))) (\<lambda>r. on_files (unregister_commands (me_registrar x) r))
      else sret ())"
  define skills where "skills = on_files (unregister_extension_skills x (valid_name_list (get_or meta ''registered_skills'' (PList []))) i None)"
  from assms i obtain s1 s2 s3 s4 where
    1: "first s = (Inr (), s1)" "skills s1 = (Inr (), s2)" "on_files (remove_directory x i keep_config) s2 = (Inr (), s3)"
      "on_hooks x (unregister_hooks i) s3 = (Inr (), s4)" "on_registry x (kept_remove extension_registry i) s4 = (Inr (), s')"
    unfolding remove_extension_def Let_def
    by (auto simp: sbind_sget sthen_Inr_iff sret_def first_def skills_def meta_def cong: if_cong)
  have "keeps_registry first" "keeps_registry skills" by (simp_all add: first_def skills_def manager_keeps_sbind)
  with 1 keeps_registryD have k: "xm_registry s4 = xm_registry s" by (metis keeps_on_hooks manager_keeps_simps(5))
  note reg = on_registry_InrD[OF 1(5)]
  have "kept_is_installed extension_registry i ((xm_registry s4)\<lparr>kr_file := JsonAbsent\<rparr>)" using i k by (simp add: is_registered_def)
  from kept_remove_InrD[OF conjunct1[OF reg] this] reg i k show ?thesis by (simp add: is_registered_def)
qed

text \<open>C23. When an extension has been removed, its entry, which was there, is gone from the registry, every other entry
  is what it was, and the file of the registry has been written with what the program now knows.\<close>

theorem removed_extension_is_unregistered:
  assumes "remove_extension x i keep_config s = (Inr True, s')"
  shows "is_registered s i \<and> \<not> is_registered s' i \<and> registry_saved x s' \<and>
    (\<forall>j. j \<noteq> i \<longrightarrow> kept_get extension_registry j (xm_registry s') = kept_get extension_registry j (xm_registry s))"
  using remove_extension_InrD[OF assms] by blast

section \<open>Installing an extension\<close>

lemma checked_extension_InrD:
  assumes "checked_extension x s source version priority force = Inr (m, i)"
  shows "1 \<le> priority \<and> load_manifest_in (reader x s) source = Inr m \<and> id_of m = Inr i \<and> (is_registered s i \<longrightarrow> force) \<and>
    check_compatibility x m version = Inr () \<and> check_conflicts x s m = Inr ()"
  using assms by (auto simp: checked_extension_def rbind_Inr_iff split: if_splits)

lemma put_extension_InrD:
  assumes "put_extension x source m i priority commands link did_remove s = (Inr (), s')"
  shows "\<exists>entry v. kept_get extension_registry i (xm_registry s') = Some entry \<and> manifest_name_at m ''version'' = Inr v \<and>
    field entry ''version'' = Some v \<and> field entry ''enabled'' = Some (PBool True) \<and> field entry ''priority'' = Some (PInt priority) \<and>
    registry_saved x s' \<and> is_registered s' i \<and>
    (\<forall>j. j \<noteq> i \<longrightarrow> kept_get extension_registry j (xm_registry s') = kept_get extension_registry j (xm_registry s))"
proof -
  let ?dest = "pack_path (me_dir x) i"
  from assms obtain s1 registered s2 skills s3 s4 s5 v hash where
    1: "on_files (put_directory x source ?dest) s = (Inr (), s1)"
      "(if commands then on_files (register_extension_commands x m ?dest link True) else sret []) s1 = (Inr registered, s2)"
      "on_files (register_extension_skills x m ?dest link) s2 = (Inr skills, s3)"
      "on_hooks x (register_hooks m) s3 = (Inr (), s4)"
      "(if did_remove then on_files (restore_config x i ?dest) else sret ()) s4 = (Inr (), s5)"
      "manifest_name_at m ''version'' = Inr v"
      "on_registry x (kept_add extension_registry (me_now x) i
        (obj [(''version'', v), (''source'', PStr ''local''), (''manifest_hash'', PStr hash), (''enabled'', PBool True),
          (''priority'', PInt priority), (''registered_commands'', registered_value registered),
          (''registered_skills'', PList (map PStr skills))])) s5 = (Inr (), s')"
    unfolding put_extension_def Let_def
    by (fastforce simp: sthen_Inr_iff sbind_Inr_iff sget_def slift_def)
  have "keeps_registry (if commands then on_files (register_extension_commands x m ?dest link True) else sret [])"
    "keeps_registry (if did_remove then on_files (restore_config x i ?dest) else sret ())" by simp_all
  with 1(1-5) have k: "xm_registry s5 = xm_registry s"
    using keeps_registryD manager_keeps_simps(5) keeps_on_hooks by metis
  note reg = on_registry_InrD[OF 1(7)]
  note a = kept_add_InrD[OF conjunct1[OF reg]]
  from a(1)[of i] a(2)[of i] a(3) reg 1(6) k show ?thesis
    using a(1) by (auto simp: is_registered_def obj_def)
qed

text \<open>C16. When an extension has been installed, the manifest in the source directory was read and had this identifier,
  the priority was at least 1, and the extension was new or \<open>force\<close> was given; now the registry has an entry with its
  version and priority that is enabled, every other entry is what it was, and the file of the registry has been written.\<close>

theorem installed_extension_is_registered:
  assumes "install_from_directory x source version commands priority link force s = (Inr m, s')"
  shows "\<exists>i entry v. load_manifest_in (reader x s) source = Inr m \<and> id_of m = Inr i \<and> 1 \<le> priority \<and> (is_registered s i \<longrightarrow> force) \<and>
    kept_get extension_registry i (xm_registry s') = Some entry \<and> manifest_name_at m ''version'' = Inr v \<and>
    field entry ''version'' = Some v \<and> field entry ''enabled'' = Some (PBool True) \<and> field entry ''priority'' = Some (PInt priority) \<and>
    registry_saved x s' \<and>
    (\<forall>j. j \<noteq> i \<longrightarrow> kept_get extension_registry j (xm_registry s') = kept_get extension_registry j (xm_registry s))"
proof -
  from assms obtain m' i where c: "checked_extension x s source version priority force = Inr (m', i)"
    by (cases "checked_extension x s source version priority force") (auto simp: install_from_directory_def svc_defs)
  let ?clear = "if force \<and> is_registered s i then sthen (on_files (clear_backup x i)) (remove_extension x i False) else sret False"
  from assms c obtain d s1 where 1: "?clear s = (Inr d, s1)" "put_extension x source m i priority commands link d s1 = (Inr (), s')" "m' = m"
    by (auto simp: install_from_directory_def sbind_sget sbind_slift sbind_Inr_iff sthen_Inr_iff sret_def)
  have r: "kept_get extension_registry j (xm_registry s1) = kept_get extension_registry j (xm_registry s)" if "j \<noteq> i" for j
  proof (cases "force \<and> is_registered s i")
    case True
    with 1(1) obtain s0 where s0: "on_files (clear_backup x i) s = (Inr (), s0)" "remove_extension x i False s0 = (Inr d, s1)"
      by (auto simp: sthen_Inr_iff)
    from keeps_registryD[OF manager_keeps_simps(5) s0(1)] have k: "xm_registry s0 = xm_registry s" .
    with True s0(2) have "d" by (auto simp: remove_extension_def sbind_sget is_registered_def Let_def sthen_Inr_iff sret_def)
    with remove_extension_InrD[of x i False s0 s1] s0(2) k that show ?thesis by simp
  next
    case False
    with 1(1) show ?thesis by (simp add: sret_def)
  qed
  from put_extension_InrD[OF 1(2)] checked_extension_InrD[OF c] 1(3) r show ?thesis by fastforce
qed

section \<open>The configuration of a removed extension\<close>

lemma write_elsewhere:
  assumes "fs_write p c t = Inr t'" "no_links t" "''..'' \<notin> set p"
  shows "no_links t' \<and> node_at t' p = Some (FileNode c) \<and> (\<forall>l. l \<noteq> p \<longrightarrow> node_at t' l = node_at t l)"
proof -
  have c: "changes_only (\<lambda>l. l = p) t t'" using write_changes[OF assms(2,1)] normpath_idle[OF assms(3)] by simp
  from write_InrD[OF assms(1)] obtain l where l: "locate t' p = Inr l" "l \<noteq> []" "map_of t' l = Some (FileNode c)" .
  have n: "no_links t'" using c by (simp add: changes_only_def)
  have "l = p" using locate_is_norm[OF l(1) n] normpath_idle[OF assms(3)] by simp
  moreover have "node_at t' l = node_at t l" if "l \<noteq> p" for l
  proof (cases "locate t p")
    case (Inr k)
    then have "k = p" using locate_is_norm[OF Inr assms(2)] normpath_idle[OF assms(3)] by simp
    with Inr assms(1) that show ?thesis by (auto simp: fs_write_def node_at_def split: option.splits node.splits)
  next
    case (Inl e)
    with assms(1) obtain k where k: "entry_loc t p = Inr k" "node_at t k = None" "t' = t @ [(k, FileNode c)]"
      by (auto simp: fs_write_def rbind_Inr_iff split: if_splits)
    then have "k = p" "map_of t' = (map_of t)(k \<mapsto> FileNode c)"
      using entry_no_links[OF k(1) assms(2)] normpath_idle[OF assms(3)] map_of_snoc[of t k] by (auto simp: node_at_def split: if_splits)
    with that show ?thesis by (simp add: node_at_def)
  qed
  ultimately show ?thesis using n l by (auto simp: node_at_def)
qed

lemma mkdirs_elsewhere:
  "fs_mkdirs p t = Inr t' \<Longrightarrow> no_links t \<Longrightarrow> ''..'' \<notin> set p \<Longrightarrow> (\<And>q. p \<noteq> l @ q) \<Longrightarrow> node_at t' l = node_at t l"
proof (induction p t arbitrary: t' rule: fs_mkdirs.induct)
  case (1 p t)
  have one: "node_at u' l = node_at u l" if "fs_mkdir p u = Inr u'" "no_links u" for u u'
  proof -
    from that(1) obtain k where k: "entry_loc u p = Inr k" "node_at u k = None" "u' = u @ [(k, DirNode)]"
      by (auto simp: fs_mkdir_def rbind_Inr_iff split: option.splits)
    then have "k = p" using entry_no_links[OF k(1) that(2)] normpath_idle[OF "1.prems"(3)] by simp
    with k "1.prems"(4)[of "[]"] map_of_snoc[of u k] show ?thesis by (auto simp: node_at_def split: if_splits)
  qed
  show ?case
  proof (cases "fs_mkdir p t")
    case (Inr u)
    with "1.prems"(1,2) show ?thesis using one by (simp add: fs_mkdirs.simps[of p t])
  next
    case (Inl n)
    show ?thesis
    proof (cases "n = ENOENT")
      case True
      with Inl "1.prems"(1) obtain t1 where t1: "p \<noteq> []" "fs_mkdirs (butlast p) t = Inr t1"
        "(case fs_mkdir p t1 of Inr t' \<Rightarrow> Inr t' | Inl e \<Rightarrow> if is_dir t1 p then Inr t1 else Inl e) = Inr t'"
        by (auto simp: fs_mkdirs.simps[of p t] rbind_Inr_iff split: if_splits)
      have "butlast p \<noteq> l @ q" for q using "1.prems"(4)[of "q @ [last p]"] t1(1) by (metis append_assoc append_butlast_last_id)
      moreover have "''..'' \<notin> set (butlast p)" using "1.prems"(3) by (auto dest: in_set_butlastD)
      ultimately have "node_at t1 l = node_at t l" using "1.IH"[OF _ True t1(1,2) "1.prems"(2)] Inl by simp
      moreover have "no_links t1" using mkdirs_changes[OF "1.prems"(2) t1(2)] by (simp add: changes_only_def)
      ultimately show ?thesis using t1(3) one by (cases "fs_mkdir p t1") (auto split: if_splits)
    next
      case False
      with Inl 1 show ?thesis by (cases n) (auto simp: fs_mkdirs.simps[of p t] split: if_splits)
    qed
  qed
qed

lemma copy_elsewhere:
  assumes "fs_copy src dst t = Inr t'" "no_links t" "''..'' \<notin> set src" "''..'' \<notin> set dst" "src \<noteq> []"
  shows "no_links t'"
    "\<And>l. l \<noteq> dst \<Longrightarrow> l \<noteq> dst @ [last src] \<Longrightarrow> node_at t' l = node_at t l"
    "\<not> is_dir t dst \<Longrightarrow> \<exists>c. node_at t src = Some (FileNode c) \<and> node_at t' dst = Some (FileNode c)"
proof -
  let ?d = "if is_dir t dst then dst @ [last src] else dst"
  from assms(1) obtain c where c: "fs_read src t = Inr c" "fs_write ?d c t = Inr t'" by (auto simp: fs_copy_def rbind_Inr_iff)
  have "''..'' \<notin> set ?d" using assms(3,4,5) last_in_set[of src] by auto
  note w = write_elsewhere[OF c(2) assms(2) this]
  have "node_at t src = Some (FileNode c)"
    using c(1) locate_is_norm[OF _ assms(2)] normpath_idle[OF assms(3)] by (auto simp: read_InrD)
  with w show "no_links t'" "\<And>l. l \<noteq> dst \<Longrightarrow> l \<noteq> dst @ [last src] \<Longrightarrow> node_at t' l = node_at t l"
    "\<not> is_dir t dst \<Longrightarrow> \<exists>c. node_at t src = Some (FileNode c) \<and> node_at t' dst = Some (FileNode c)"
    by auto
qed

lemma is_dir_node: "is_dir t p \<Longrightarrow> no_links t \<Longrightarrow> node_at t (normpath p) = Some DirNode"
  using locate_is_norm by (auto simp: is_dir_def stat_Some)

text \<open>Copying some files of one directory into another: a file that is among them is there afterwards.\<close>

lemma copied_files:
  assumes "sfor ns (\<lambda>m. on_tree (fs_copy (from @ [m]) (dest @ [m]))) t = (Inr (), t')" "no_links t"
    and "''..'' \<notin> set from" "''..'' \<notin> set dest" "''..'' \<notin> set ns" "length from < length dest"
    and "node_at t (from @ [n]) = Some (FileNode c)" "node_at t (dest @ [n]) \<noteq> Some DirNode" "n \<noteq> ''..''"
  shows "no_links t' \<and> (n \<in> set ns \<or> node_at t (dest @ [n]) = Some (FileNode c) \<longrightarrow> node_at t' (dest @ [n]) = Some (FileNode c))"
  using assms
proof (induction ns arbitrary: t)
  case Nil
  then show ?case by (simp add: sret_def)
next
  case (Cons m ns)
  from Cons.prems(1) obtain t1 where t1: "fs_copy (from @ [m]) (dest @ [m]) t = Inr t1"
      "sfor ns (\<lambda>m. on_tree (fs_copy (from @ [m]) (dest @ [m]))) t1 = (Inr (), t')"
    by (auto simp: sthen_Inr_iff on_tree_Inr_iff)
  have plain: "''..'' \<notin> set (from @ [m])" "''..'' \<notin> set (dest @ [m])" using Cons.prems(3-5) by auto
  note copy = copy_elsewhere[OF t1(1) Cons.prems(2) plain]
  have from_n: "node_at t1 (from @ [n]) = Some (FileNode c)"
  proof -
    have "length (from @ [n]) \<noteq> length (dest @ [m])" "length (from @ [n]) \<noteq> length ((dest @ [m]) @ [last (from @ [m])])"
      using Cons.prems(6) by simp_all
    then have "from @ [n] \<noteq> dest @ [m]" "from @ [n] \<noteq> (dest @ [m]) @ [last (from @ [m])]" by metis+
    with copy(2) Cons.prems(7) show ?thesis by simp
  qed
  have dest_n: "node_at t1 (dest @ [n]) = (if m = n then Some (FileNode c) else node_at t (dest @ [n]))"
  proof (cases "m = n")
    case True
    have "\<not> is_dir t (dest @ [n])"
      using is_dir_node[OF _ Cons.prems(2), of "dest @ [n]"] normpath_idle[of "dest @ [n]"] Cons.prems(4,8,9) by auto
    with copy(3) True Cons.prems(7) show ?thesis by auto
  next
    case False
    have "length (dest @ [n]) \<noteq> length ((dest @ [m]) @ [last (from @ [m])])" by simp
    then have "dest @ [n] \<noteq> (dest @ [m]) @ [last (from @ [m])]" by metis
    with copy(2) False show ?thesis by simp
  qed
  have "node_at t1 (dest @ [n]) \<noteq> Some DirNode" using dest_n Cons.prems(8) by simp
  with Cons.IH[OF t1(2)] copy(1) Cons.prems(3-6,9) from_n dest_n show ?case by auto
qed

lemma iterdir_has:
  assumes "iterdir t p = Inr ns" "no_links t" "map_of t (normpath p @ [n]) = Some x" shows "n \<in> set ns"
proof -
  from assms(1) obtain l where l: "locate t p = Inr l"
      "ns = List.map_filter (\<lambda>(k, _). if k \<noteq> [] \<and> butlast k = l then Some (last k) else None) t"
    by (auto simp: iterdir_def rbind_Inr_iff split: if_splits)
  have "(normpath p @ [n], x) \<in> set t" using assms(3) by (rule map_of_SomeD)
  with l locate_is_norm[OF l(1) assms(2)] show ?thesis by (force simp: List.map_filter_def)
qed

lemma config_name_plain: "is_config_name n \<Longrightarrow> n \<noteq> ''..''"
  by (rule notI) (simp, code_simp)

lemma no_dots_in_config: "''..'' \<notin> set (List.filter (ends_with ''-config.yml'') ns @ List.filter (ends_with ''-config.local.yml'') ns)"
  using config_name_plain[of "''..''"] by (auto simp: is_config_name_def)

lemma names_in_Inr_iff: "names_in p t = (Inr ns, t') \<longleftrightarrow> iterdir t p = Inr ns \<and> t' = t"
  by (auto simp: names_in_def svc_defs split: sum.splits)

lemma pack_path_plain: "parse_path i = PyPath False [k] \<Longrightarrow> pack_path d i = d @ [k]"
  by (simp add: pack_path_def path_div_def)

lemma removed_and_backed_up:
  assumes "remove_directory x i False t = (Inr (), t')" "no_links t"
    and "parse_path i = PyPath False [k]" "k \<noteq> ''..''" "k \<noteq> ''.backup''" "''..'' \<notin> set (me_dir x)"
    and "node_at t (me_dir x @ [k, n]) = Some (FileNode c)" "is_config_name n" "node_at t (me_dir x @ [''.backup'', k, n]) \<noteq> Some DirNode"
    and "path_exists t (me_dir x @ [k])"
  shows "node_at t' (me_dir x @ [''.backup'', k, n]) = Some (FileNode c) \<and> \<not> path_exists t' (me_dir x @ [k])"
proof -
  let ?dir = "me_dir x @ [k]" and ?to = "me_dir x @ [''.backup'', k]"
  have paths: "pack_path (me_dir x) i = ?dir" "backup_dir x i = ?to"
    using pack_path_plain[OF assms(3)] by (simp_all add: backup_dir_def)
  have plain: "''..'' \<notin> set ?dir" "''..'' \<notin> set ?to" using assms(4,6) by auto
  let ?names = "\<lambda>ns. List.filter (ends_with ''-config.yml'') ns @ List.filter (ends_with ''-config.local.yml'') ns"
  from assms(1,10) obtain t1 ns t2 where t: "fs_mkdirs ?to t = Inr t1" "iterdir t1 ?dir = Inr ns"
      "sfor (?names ns) (\<lambda>m. on_tree (fs_copy (?dir @ [m]) (?to @ [m]))) t1 = (Inr (), t2)"
      "(if path_exists t2 ?dir then on_tree (fs_rmtree ?dir) else sret ()) t2 = (Inr (), t')"
    by (auto simp: remove_directory_def backup_config_def names_in_Inr_iff paths Let_def sbind_sget sbind_Inr_iff sthen_Inr_iff
        on_tree_Inr_iff)
  have n1: "no_links t1" using mkdirs_changes[OF assms(2) t(1)] by (simp add: changes_only_def)
  have "?to \<noteq> (?dir @ [n]) @ q" "?to \<noteq> (?to @ [n]) @ q" for q using assms(5) by simp_all
  then have same: "node_at t1 (?dir @ [n]) = Some (FileNode c)" "node_at t1 (?to @ [n]) \<noteq> Some DirNode"
    using mkdirs_elsewhere[OF t(1) assms(2) plain(2)] assms(7,9) by simp_all
  have "n \<in> set ns"
    using iterdir_has[OF t(2) n1, of n] same(1) normpath_idle[OF plain(1)] by (simp add: node_at_def)
  then have n: "n \<in> set (?names ns)" using assms(8) by (auto simp: is_config_name_def)
  have copied: "no_links t2" "node_at t2 (?to @ [n]) = Some (FileNode c)"
    using copied_files[OF t(3) n1 plain no_dots_in_config _ same(1) same(2)] n config_name_plain[OF assms(8)] by auto
  show ?thesis
  proof (cases "path_exists t2 ?dir")
    case True
    with t(4) rmtree_InrD[OF _ copied(1), of ?dir t'] normpath_idle[OF plain(1)]
    have t': "t' = List.filter (\<lambda>(l, _). relative_to l ?dir = None) t2" by (simp add: on_tree_Inr_iff)
    have "relative_to (?to @ [n]) ?dir = None"
      using assms(5) relative_to_Some[of "?to @ [n]" ?dir] by (cases "relative_to (?to @ [n]) ?dir") auto
    with copied(2) t' have "node_at t' (?to @ [n]) = Some (FileNode c)" by (simp add: node_at_def map_of_filter_keys)
    moreover have "no_links t'" unfolding t' by (rule subtree_no_links[OF subtree_filter copied(1)])
    then have "\<not> path_exists t' ?dir"
      using t' locate_is_norm[of t' ?dir] normpath_idle[OF plain(1)] relative_to_Some[of ?dir ?dir "[]"]
      by (auto simp: path_exists_def stat_def node_at_def map_of_filter_keys split: sum.splits)
    ultimately show ?thesis by simp
  next
    case False
    with t(4) have "t' = t2" by (simp add: sret_def)
    with copied(2) False show ?thesis by simp
  qed
qed

text \<open>With \<open>keep_config\<close> the entries of the directory go one by one, all but its configuration files.\<close>

lemma drop_entry_keeps:
  assumes "drop_entry p t = (Inr (), t')" "no_links t" "''..'' \<notin> set p" "\<And>q. f \<noteq> p @ q"
  shows "no_links t' \<and> node_at t' f = node_at t f"
proof (cases "is_dir t p")
  case True
  with assms(1) have r: "fs_rmtree p t = Inr t'" by (simp add: drop_entry_def sbind_sget on_tree_Inr_iff)
  from rmtree_outside[OF r assms(2)] rmtree_outside(2)[OF r assms(2), of f] assms(3,4) subtree_no_links[OF _ assms(2)]
  show ?thesis by (auto simp: normpath_idle)
next
  case False
  with assms(1) have "fs_unlink p t = Inr t'" by (simp add: drop_entry_def sbind_sget on_tree_Inr_iff)
  then show ?thesis
  proof (rule unlink_InrD)
    fix l m assume l: "entry_loc t p = Inr l" and t': "t' = tree_remove l t"
    have "l = p" using entry_no_links[OF l assms(2)] assms(3) by (simp add: normpath_idle)
    with t' assms(4)[of "[]"] subtree_no_links[OF subtree_remove assms(2)] show ?thesis
      by (simp add: node_at_def map_of_remove)
  qed
qed

definition clear_one :: "loc \<Rightarrow> string \<Rightarrow> unit fop" where
  "clear_one d n = sbind (sget id) (\<lambda>t. if is_file t (d @ [n]) \<and> is_config_name n then sret () else drop_entry (d @ [n]))"

lemma clear_one_at: "clear_one d n t = (if is_file t (d @ [n]) \<and> is_config_name n then sret () else drop_entry (d @ [n])) t"
  by (simp add: clear_one_def sbind_sget)

lemma config_entry_stays:
  assumes "clear_one d n t = (Inr (), t')"
    "no_links t" "''..'' \<notin> set d" "is_config_name n" "node_at t (d @ [n]) = Some (FileNode c)"
  shows "t' = t"
proof (cases "is_file t (d @ [n])")
  case True
  with assms(1,4) show ?thesis by (simp add: clear_one_at sret_def)
next
  case False
  have plain: "''..'' \<notin> set (d @ [n])" using assms(3) config_name_plain[OF assms(4)] by simp
  have "\<not> is_dir t (d @ [n])" using is_dir_node[OF _ assms(2), of "d @ [n]"] assms(5) normpath_idle[OF plain] by auto
  with assms(1) False obtain l where l: "entry_loc t (d @ [n]) = Inr l"
    by (auto simp: clear_one_at drop_entry_def sbind_sget on_tree_Inr_iff elim: unlink_InrD)
  then have "l = d @ [n]" using entry_no_links[OF l assms(2)] normpath_idle[OF plain] by simp
  with locate_entry[OF l, of "FileNode c"] assms(5) have "locate t (d @ [n]) = Inr (d @ [n])" by simp
  with assms(5) have "is_file t (d @ [n])" by (simp add: is_file_iff stat_Some)
  with False show ?thesis ..
qed

lemma kept_in_place:
  assumes "sfor ns (clear_one d) t = (Inr (), t')"
    "no_links t" "''..'' \<notin> set d" "''..'' \<notin> set ns" "is_config_name n" "node_at t (d @ [n]) = Some (FileNode c)"
  shows "node_at t' (d @ [n]) = Some (FileNode c)"
  using assms
proof (induction ns arbitrary: t)
  case Nil
  then show ?case by (simp add: sret_def)
next
  case (Cons m ns)
  from Cons.prems(1) obtain t1 where t1: "clear_one d m t = (Inr (), t1)" "sfor ns (clear_one d) t1 = (Inr (), t')"
    by (auto simp: sthen_Inr_iff)
  have "no_links t1 \<and> node_at t1 (d @ [n]) = Some (FileNode c)"
  proof (cases "m = n")
    case True
    with config_entry_stays[OF _ Cons.prems(2,3,5,6)] t1(1) Cons.prems(2,6) show ?thesis by simp
  next
    case False
    have p: "''..'' \<notin> set (d @ [m])" using Cons.prems(3,4) by auto
    show ?thesis
    proof (cases "is_file t (d @ [m]) \<and> is_config_name m")
      case True
      with t1(1) Cons.prems(2,6) show ?thesis by (simp add: clear_one_at sret_def)
    next
      case dropped: False
      with t1(1) have "drop_entry (d @ [m]) t = (Inr (), t1)" by (auto simp: clear_one_at split: if_splits)
      with drop_entry_keeps[of "d @ [m]" t t1 "d @ [n]"] Cons.prems(2,6) p False show ?thesis by auto
    qed
  qed
  with Cons.IH[OF t1(2)] Cons.prems(3-5) show ?case by simp
qed

text \<open>C17. Clearing an extension's directory loses none of its configuration files. When they are to be kept, every one
  of them is still in its place with the content it had; otherwise it is in the backup directory with that content,
  and the directory of the extension is gone. This is the step of a removal that deals with the directory; the tree
  has no symbolic links, the identifier is a single name, the directory has no entry named \<open>..\<close>, and the backup holds
  no directory of the name of the file.\<close>

theorem removed_configuration_is_kept:
  assumes "remove_directory x i keep t = (Inr (), t')" "no_links t"
    and "parse_path i = PyPath False [k]" "k \<noteq> ''..''" "k \<noteq> ''.backup''" "''..'' \<notin> set (me_dir x)"
    and "node_at t (me_dir x @ [k, n]) = Some (FileNode c)" "is_config_name n" "node_at t (me_dir x @ [k, ''..'']) = None"
    and "node_at t (me_dir x @ [''.backup'', k, n]) \<noteq> Some DirNode" "path_exists t (me_dir x @ [k])"
  shows "if keep then node_at t' (me_dir x @ [k, n]) = Some (FileNode c)
    else node_at t' (me_dir x @ [''.backup'', k, n]) = Some (FileNode c) \<and> \<not> path_exists t' (me_dir x @ [k])"
proof (cases keep)
  case False
  with removed_and_backed_up[OF _ assms(2-8,10,11)] assms(1) show ?thesis by simp
next
  case True
  let ?d = "me_dir x @ [k]"
  have plain: "''..'' \<notin> set ?d" using assms(4,6) by auto
  from assms(1,11) True pack_path_plain[OF assms(3)] obtain ns where ns: "iterdir t ?d = Inr ns"
    "sfor ns (\<lambda>n. sbind (sget id) (\<lambda>t. if is_file t (?d @ [n]) \<and> is_config_name n then sret () else drop_entry (?d @ [n]))) t = (Inr (), t')"
    by (auto simp: remove_directory_def Let_def sbind_sget drop_all_but_config_def sbind_Inr_iff names_in_Inr_iff)
  then obtain l where l: "locate t ?d = Inr l"
      "ns = List.map_filter (\<lambda>(k, _). if k \<noteq> [] \<and> butlast k = l then Some (last k) else None) t"
    by (auto simp: iterdir_def rbind_Inr_iff split: if_splits)
  have "l = ?d" using locate_is_norm[OF l(1) assms(2)] normpath_idle[OF plain] by simp
  have "''..'' \<notin> set ns"
  proof
    assume "''..'' \<in> set ns"
    then obtain p v where "(p, v) \<in> set t" "p \<noteq> []" "butlast p = ?d" "last p = ''..''"
      unfolding l(2) \<open>l = ?d\<close> by (auto simp: List.map_filter_def split: if_splits)
    then have "(?d @ [''..''], v) \<in> set t" by (metis append_butlast_last_id)
    with assms(9) show False by (auto simp: node_at_def map_of_eq_None_iff image_iff)
  qed
  from kept_in_place[unfolded clear_one_def[abs_def], OF ns(2) assms(2) plain this assms(8), of c] assms(7) True show ?thesis by simp
qed

section \<open>Installations that are refused\<close>

text \<open>What stands against an installation.\<close>

definition refused :: "manager_env \<Rightarrow> manager \<Rightarrow> loc \<Rightarrow> string \<Rightarrow> int \<Rightarrow> bool \<Rightarrow> bool" where
  "refused x s source version priority force \<longleftrightarrow> priority < 1 \<or>
     (case load_manifest_in (reader x s) source of
        Inl e \<Rightarrow> True
      | Inr m \<Rightarrow> check_compatibility x m version \<noteq> Inr () \<or> check_conflicts x s m \<noteq> Inr () \<or>
          (case id_of m of Inl e \<Rightarrow> True | Inr i \<Rightarrow> is_registered s i \<and> \<not> force))"

lemma refused_iff: "refused x s source version priority force \<longleftrightarrow> (\<exists>e. checked_extension x s source version priority force = Inl e)"
proof -
  have unit: "r \<noteq> Inr () \<longleftrightarrow> (\<exists>e. r = Inl e)" for r :: "unit py" by (cases r) auto
  show ?thesis
    unfolding refused_def checked_extension_def unit
    by (cases "load_manifest_in (reader x s) source") (auto simp: rbind_def split: sum.splits)
qed

text \<open>C18. An installation is refused exactly when the priority is below 1, the manifest cannot be read or is invalid, the
  extension does not fit this version, its commands conflict with others, or it is installed and \<open>force\<close> is not
  given. Refused means that an exception is raised before any file or the registry has been touched, also when
  the installation was to replace an older one; otherwise every check succeeds.\<close>

theorem refused_extension_changes_nothing:
  "if refused x s source version priority force
   then \<exists>e. install_from_directory x source version commands priority link force s = (Inl e, s)
   else \<exists>m i. checked_extension x s source version priority force = Inr (m, i)"
proof (cases "checked_extension x s source version priority force")
  case (Inl e)
  then show ?thesis by (simp add: refused_iff install_from_directory_def svc_defs)
next
  case (Inr mi)
  then show ?thesis by (cases mi) (simp add: refused_iff)
qed

section \<open>A project\<close>

definition lint_manifest :: pyval where
  "lint_manifest = PDict
     [(PStr ''schema_version'', PStr ''1.0''),
      (PStr ''extension'', PDict (obj [(''id'', PStr ''lint''), (''name'', PStr ''L''), (''version'', PStr ''1''), (''description'', PStr '''')])),
      (PStr ''requires'', PDict (obj [(''speckit_version'', PStr ''1'')])),
      (PStr ''provides'', PDict (obj [(''commands'', PList [PDict (obj [(''name'', PStr ''speckit.lint.run''), (''file'', PStr ''r.md'')])])]))]"

definition skill_header :: pyval where
  "skill_header = PDict (obj [(''metadata'', PDict (obj [(''source'', PStr ''extension:lint'')]))])"

definition manager_project :: resolver where
  "manager_project = \<lparr>pr_root = [''p''], pr_pkg = [''pkg''], pr_tree = [], pr_json = (\<lambda>_. Inl ''''),
     pr_yaml = (\<lambda>t. if t = ''manifest'' then Inr lint_manifest else if t = ''header'' then Inr skill_header else Inr (PDict [])),
     pr_dump = (\<lambda>_. ''hooks''), pr_version_ok = (\<lambda>_. Inr True)\<rparr>"

definition manager_here :: manager_env where
  "manager_here = \<lparr>me_registrar = \<lparr>rg_env = manager_project, rg_windows = False, rg_home = [''home''], rg_configs = [], rg_folders = (\<lambda>_. '''')\<rparr>,
     me_json = (\<lambda>_. ''registry''), me_skill_yaml = (\<lambda>_. ''''), me_now = (\<lambda>_. ''now''), me_in_range = (\<lambda>_ _. Inr (Some True)), me_sha = id,
     me_ignores = (\<lambda>_ _. False), me_takes_hint = (\<lambda>_. False), me_post_process = (\<lambda>_ t. t), me_agents = [], me_depth = 5\<rparr>"

definition skill_tree :: tree where
  "skill_tree =
     map (\<lambda>d. (d, DirNode)) [[''p''], [''p'', ''s''], [''p'', ''s'', ''a''], [''p'', ''s'', ''b''], [''p'', ''new''], [''p'', ''.specify'']] @
     [([''p'', ''s'', ''a'', ''SKILL.md''], FileNode ''---header---x''), ([''p'', ''s'', ''b'', ''SKILL.md''], FileNode ''mine''),
      ([''p'', ''new'', ''extension.yml''], FileNode ''manifest''), ([''p'', ''new'', ''lint-config.yml''], FileNode ''kept'')]"

definition manager_start :: manager where
  "manager_start = \<lparr>xm_tree = skill_tree,
     xm_registry = \<lparr>kr_data = [(PStr ''schema_version'', PStr ''1.0''), (PStr ''extensions'', PDict (obj [(''other'', PDict [])]))],
       kr_file = JsonAbsent, kr_tick = 0\<rparr>\<rparr>"

definition after_install :: "(pyexn + ext_manifest) \<times> manager" where
  "after_install = install_from_directory manager_here [''p'', ''new''] ''1'' False 3 False False manager_start"

definition after_remove :: "(pyexn + bool) \<times> manager" where
  "after_remove = remove_extension manager_here ''lint'' False (snd after_install)"

lemma install_runs: "case fst after_install of Inr m \<Rightarrow> id_of m = Inr ''lint'' | Inl _ \<Rightarrow> False"
  by code_simp

lemma remove_runs: "fst after_remove = Inr True"
  by code_simp

definition after_skills :: "(pyexn + unit) \<times> tree" where
  "after_skills = unregister_extension_skills manager_here [''a'', ''b'', ''..''] ''lint'' (Some [''p'', ''s'']) skill_tree"

theorem only_own_skills_are_removed_witness:
  "\<exists>c. node_at skill_tree [''p'', ''s'', ''a'', ''SKILL.md''] = Some (FileNode c) \<and>
     skill_source manager_project (universal_newlines c) = Some (PStr ''extension:lint'')"
proof -
  have r: "unregister_extension_skills manager_here [''a'', ''b'', ''..''] ''lint'' (Some [''p'', ''s'']) skill_tree =
      (fst after_skills, snd after_skills)" by (simp add: after_skills_def)
  have e: "me_env manager_here = manager_project" by (simp add: manager_here_def me_env_def)
  have "no_links skill_tree" by (rule no_linksI) code_simp
  moreover have "normpath [''p'', ''s''] = [''p'', ''s'']" by code_simp
  moreover have "node_at (snd after_skills) [''p'', ''s'', ''a'', ''SKILL.md''] \<noteq> node_at skill_tree [''p'', ''s'', ''a'', ''SKILL.md'']"
    by code_simp
  moreover have "node_at skill_tree [''p'', ''s'', ''a'', ''SKILL.md''] = Some (FileNode ''---header---x'')"
    by (simp add: skill_tree_def node_at_def)
  then have "\<not> dir_or_nothing (node_at skill_tree [''p'', ''s'', ''a'', ''SKILL.md''])" by (simp add: dir_or_nothing_def)
  ultimately show ?thesis
    using only_own_skills_are_removed[OF r, of "[''p'', ''s'', ''a'', ''SKILL.md'']"]
    by (auto simp: searched_dirs_def e)
qed

theorem installed_extension_is_registered_witness:
  "\<exists>entry. kept_get extension_registry ''lint'' (xm_registry (snd after_install)) = Some entry \<and> field entry ''priority'' = Some (PInt 3)"
proof -
  from install_runs obtain m where m: "fst after_install = Inr m" "id_of m = Inr ''lint''" by (auto split: sum.splits)
  then have "install_from_directory manager_here [''p'', ''new''] ''1'' False 3 False False manager_start = (Inr m, snd after_install)"
    by (simp add: after_install_def prod_eq_iff)
  from installed_extension_is_registered[OF this] m(2) show ?thesis by auto
qed

lemma remove_is_run: "remove_extension manager_here ''lint'' False (snd after_install) = (Inr True, snd after_remove)"
  using remove_runs by (simp add: after_remove_def prod_eq_iff)

theorem removed_extension_is_unregistered_witness:
  "\<not> is_registered (snd after_remove) ''lint'' \<and>
   kept_get extension_registry ''other'' (xm_registry (snd after_remove)) = Some []"
proof -
  have "kept_get extension_registry ''other'' (xm_registry (snd after_install)) = Some []" by code_simp
  with removed_extension_is_unregistered[OF remove_is_run] show ?thesis by simp
qed

definition after_removing_files :: "(pyexn + unit) \<times> tree" where
  "after_removing_files = remove_directory manager_here ''lint'' False (xm_tree (snd after_install))"

definition after_clearing :: "(pyexn + unit) \<times> tree" where
  "after_clearing = remove_directory manager_here ''lint'' True (xm_tree (snd after_install))"

theorem removed_configuration_is_kept_witness:
  "node_at (snd after_clearing) [''p'', ''.specify'', ''extensions'', ''lint'', ''lint-config.yml''] = Some (FileNode ''kept'') \<and>
   node_at (snd after_removing_files) [''p'', ''.specify'', ''extensions'', ''.backup'', ''lint'', ''lint-config.yml''] = Some (FileNode ''kept'') \<and>
   \<not> path_exists (snd after_removing_files) [''p'', ''.specify'', ''extensions'', ''lint'']"
proof -
  let ?t = "xm_tree (snd after_install)"
  have "fst after_removing_files = Inr ()" by code_simp
  then have r: "remove_directory manager_here ''lint'' False ?t = (Inr (), snd after_removing_files)"
    by (simp add: after_removing_files_def prod_eq_iff)
  have "fst after_clearing = Inr ()" by code_simp
  then have k: "remove_directory manager_here ''lint'' True ?t = (Inr (), snd after_clearing)"
    by (simp add: after_clearing_def prod_eq_iff)
  have n: "no_links ?t" by (rule no_linksI) code_simp
  have d: "me_dir manager_here = [''p'', ''.specify'', ''extensions'']" "parse_path ''lint'' = PyPath False [''lint'']"
    "is_config_name ''lint-config.yml''" by code_simp+
  have t: "node_at ?t [''p'', ''.specify'', ''extensions'', ''lint'', ''lint-config.yml''] = Some (FileNode ''kept'')"
    "node_at ?t [''p'', ''.specify'', ''extensions'', ''.backup'', ''lint'', ''lint-config.yml''] \<noteq> Some DirNode"
    "path_exists ?t [''p'', ''.specify'', ''extensions'', ''lint'']"
    "node_at ?t [''p'', ''.specify'', ''extensions'', ''lint'', ''..''] = None" by code_simp+
  show ?thesis
    using removed_configuration_is_kept[OF r n d(2) _ _ _ _ d(3)] removed_configuration_is_kept[OF k n d(2) _ _ _ _ d(3)] d(1) t by simp
qed

text \<open>Installing it again without \<open>force\<close> is refused.\<close>

theorem refused_extension_changes_nothing_witness:
  "\<exists>e. install_from_directory manager_here [''p'', ''new''] ''1'' False 3 False False (snd after_install) = (Inl e, snd after_install)"
proof -
  have "refused manager_here (snd after_install) [''p'', ''new''] ''1'' 3 False" by code_simp
  then show ?thesis
    using refused_extension_changes_nothing[of manager_here "snd after_install" "[''p'', ''new'']" "''1''" 3 False False False] by simp
qed

text \<open>
  With \<open>keep_config\<close> a link to a directory inside the extension is taken for a directory, which \<open>shutil.rmtree\<close>
  refuses: the removal stops half way, where one without \<open>keep_config\<close> succeeds.
\<close>

definition linked_tree :: tree where
  "linked_tree = map (\<lambda>d. (d, DirNode)) [[''p''], [''p'', ''docs''], [''p'', ''.specify''], [''p'', ''.specify'', ''extensions''],
     [''p'', ''.specify'', ''extensions'', ''lint'']] @
     [([''p'', ''.specify'', ''extensions'', ''lint'', ''docs''], LinkNode True [''p'', ''docs''])]"

lemma linked_directory_stops_removal:
  "fst (remove_directory manager_here ''lint'' True linked_tree) = Inl (os_error ELOOP)"
  "fst (remove_directory manager_here ''lint'' False linked_tree) = Inr ()"
  by code_simp+

end
