(* ===== verification/Spec2Isabelle.thy ===== *)
theory Spec2Isabelle
  imports Api LedgerSpec Liveness Position Recursion Validation Gates Outcomes ManifestProps CatalogEdits HookProps ResolverProps StatusProps ContextProps CommandProps RegistrarProps SharedProps AgentSetup ExtManagerProps
begin

text \<open>
  A verification development for the two Python programs of this repository: the fund-transfer service
  (\<open>src/fund_transfer\<close>) and Spec Kit (\<open>spec-kit-main/src/specify_cli\<close>): its workflow engine, and what it keeps on the disk of a
  project: manifests, registries, catalogs, configuration, hooks, presets, command files and shared files.

  \<^bold>\<open>The fund-transfer service.\<close> An HTTP API over tables of accounts, transfers, audit entries, notifications, rate snapshots and
  currency pairs. \<open>Store\<close> has the tables (\<open>models/*.py\<close>) as lists of rows, the environment as the record \<open>ext\<close> (clock, random
  identifiers, hash, what a numeric column stores, where the database fails) and the session with its transactions. On it rest, one
  theory per module: \<open>Errors\<close> (\<open>core/exceptions.py\<close> and the exception handlers), \<open>FxProviders\<close> (\<open>core/config.py\<close>, the static and
  the treasury rate provider), \<open>Accounts\<close>, \<open>TransferRepo\<close>, \<open>FxRates\<close>, \<open>Notifications\<close>, \<open>TransferService\<close> (the plain transfer),
  \<open>CrossCurrency\<close> and \<open>Settlement\<close> (the transfer between currencies) and \<open>Api\<close> (the handlers of \<open>api/v1\<close>, the start-up of
  \<open>main.py\<close>). An operation is a function from the session to an error or a result and the session after. \<open>Decimal\<close> is Python's
  \<open>decimal\<close> with 28 digits and its rounding modes; there, what the money lemmas say is exact or off by a stated rounding.

  \<^bold>\<open>The workflow engine.\<close> It runs YAML workflows: a list of steps, some with steps nested in them. \<open>PyText\<close> and \<open>PyVal\<close>
  have what the engine uses of Python's texts, floats, values, dictionaries and JSON. \<open>WfBase\<close> is \<open>base.py\<close>, and the
  world of a run: the fixed part is \<open>wenv\<close> (clock, processes, integrations, files, YAML), the part that changes is \<open>world\<close> (the run
  directories, the terminal's answers, the screen, a counter for the calls made). \<open>Expressions\<close> is the template language of
  \<open>expressions.py\<close>. \<open>StepTypes\<close> has \<open>execute\<close> and \<open>validate\<close> of the ten packages under \<open>steps/\<close> and the registry of
  \<open>workflows/__init__.py\<close>. \<open>WfDefinition\<close>, \<open>RunState\<close> and \<open>Engine\<close> are \<open>engine.py\<close>: the definition, its validation and the
  typing of inputs; a run with its files; executing, resuming, and \<open>_execute_steps\<close>, which is cut into \<open>begin_step\<close>,
  \<open>perform_step\<close>, \<open>record_step\<close>, \<open>handle_failure\<close>, \<open>run_nested\<close> and \<open>run_fan_out\<close>. \<open>IntegrationState\<close> is
  \<open>integration_state.py\<close>, which the engine asks for the project's integration.

  \<^bold>\<open>The files of a project.\<close> \<open>FileTree\<close> is a file system of directories, files and symbolic links: paths as lists of names, \<open>locate\<close>
  and \<open>resolve\<close> following links as \<open>stat\<close> and \<open>realpath\<close> do, and the operations the code uses (mkdir, write, create, replace,
  unlink, rmdir), each failing with the error of the operating system. An operation of a module is a function from the tree, or from the tree
  and the manifest in memory, to an exception or a result and the state after. On it rest:
  \<open>Manifest\<close> (\<open>integrations/manifest.py\<close>), the files an integration installed and their hashes; \<open>Catalogs\<close>, \<open>WorkflowCatalog\<close>,
  \<open>IntegrationCatalog\<close> (\<open>catalogs.py\<close>, \<open>workflows/catalog.py\<close>, \<open>integrations/catalog.py\<close>), stacks of sources, fetching with a
  cache, merging, searching, editing; \<open>Registries\<close>, the two registries of \<open>extensions.py\<close> and \<open>presets.py\<close> and that of
  workflows; \<open>ExtManifest\<close>, the manifest of an extension and the checks before its installation; \<open>ExtConfig\<close> and \<open>Hooks\<close>, its
  configuration in layers, conditions, and the hooks of events (\<open>extensions.py\<close>); \<open>Presets\<close> and \<open>Resolver\<close>, the manifest of a preset, the files
  shipped (\<open>_assets.py\<close>) and the resolution of template names through project, presets, extensions and core (\<open>presets.py\<close>);
  \<open>IntegrationStatus\<close> (\<open>integration_status.py\<close>), the report on the state of a project.

  \<^bold>\<open>Command files.\<close> \<open>ContextSection\<close> is the managed section of an agent's context file, \<open>CommandText\<close> what is made of a template before it
  is written (references, placeholders, paths, front matter, and the Markdown, TOML, YAML and skill formats), \<open>AgentSetup\<close> the classes of
  \<open>integrations/base.py\<close> as five kinds of one record; \<open>Registrar\<close> is \<open>CommandRegistrar\<close> (\<open>agents.py\<close>), which writes and removes the
  commands of extensions and presets for every agent of a project; \<open>ExtManager\<close> is \<open>ExtensionManager\<close> (\<open>extensions.py\<close>), on a state of the tree
  and the registry in memory: installing from a directory or an archive, removing, listing, and the changes when the agent of
  the project changes; \<open>SharedInfra\<close> (\<open>shared_infra.py\<close>) installs and refreshes scripts and
  templates. Regular expressions are written out as scanners.

  \<^bold>\<open>Interfaces.\<close> \<open>fx_rate_provider\<close> (\<open>FxProviders\<close>) is what the rate service relies on, interpreted for the static and the treasury
  provider. \<open>ledger\<close> (\<open>Api\<close>) says that each request keeps an invariant of the tables and carries it to sequences of requests; it is interpreted
  for the well-formedness of the tables, for the absence of open transfers and for the row of a closed account. \<open>step_type\<close> (\<open>StepTypes\<close>) is the contract of
  \<open>StepBase\<close>, interpreted for the ten types. \<open>engine_relation\<close> and its extension \<open>run_relation\<close> (\<open>EngineProps\<close>) say which
  relations between two states of the engine every execution respects once the elementary operations do; they are
  interpreted for the files of a run, for the agreement of context and run, for the status, and for the position.
  \<open>keyed_registry\<close> (\<open>RegistryProps\<close>) is what a file of entries by name promises to its callers, interpreted for the registry
  of workflows; its extension \<open>revised_registry\<close>, with updates and restores, for those of extensions and presets.

  \<^bold>\<open>What the lemmas show.\<close> Of the service: a transfer moves what it says, conserves money and never overdraws; replays change
  nothing; refusals change nothing and name the first rule broken; a transfer between currencies is approved only within the
  limits, covered and at the amounts of the preview, which is stated of \<open>approve\<close> because a database that enforces the
  length of \<open>audit_logs.operation_type\<close> refuses to store any such transfer (\<open>strict_database_refuses\<close>); the tables stay
  well formed under any sequence of requests; statuses only move forward; rates are published as stored; refreshing ends.
  Of the engine (\<open>Runs\<close>, \<open>Position\<close>, \<open>Recursion\<close>, \<open>Outcomes\<close>, \<open>Validation\<close>, \<open>Gates\<close>): a run that returns is on disk and loads back;
  what the engine writes stays in its directory; the saved position of a fresh run is one from which resuming misses no step; failures, aborts and
  pauses decide the run as documented; an accepted workflow has known types throughout and ids that are unique in the document and in
  each template of a fan-out; resolved inputs are typed; a gate
  records one of its options and shows a file without control characters. Some properties show behaviour that
  is hardly meant, such as the destination currency that is not compared, or the capitalised rejection that approves.
  While it serves regular requests the service refines a small ledger of money, in which every payment has its price (\<open>LedgerSpec\<close>; a
  payment of more than four decimals, a negative amount and a transfer to the same account are not regular, and \<open>Settlement\<close> and
  \<open>TransferService\<close> show what comes of them), and it accepts what breaks no rule unless the database raises (\<open>Liveness\<close>).
  Of the files: recording writes one file inside the project and uninstalling removes only what nobody changed and reports the rest (\<open>ManifestProps\<close>);
  every active catalog source is secure, what is fetched too, and the first source wins (\<open>CatalogProps\<close>, \<open>CatalogEdits\<close>);
  a registry is a map (\<open>RegistryProps\<close>); validation is final and installed names are told apart (\<open>ExtManifestProps\<close>);
  hooks of other extensions are left alone, those of an extension are what its manifest declares (against a reading of the manifest
  defined there), and an event runs those that are enabled, in order (\<open>HookProps\<close>); a name is resolved
  to the first candidate, which is the topmost layer, and composing layers is a recursion over them (\<open>ResolverProps\<close>); a healthy
  report means a sound state (\<open>StatusProps\<close>); the section of a context file is written once and removing it gives the text back
  (\<open>ContextProps\<close>); a TOML text reads back (\<open>CommandProps\<close>, against a reader of TOML strings defined there); commands are written and removed only
  where they belong (\<open>RegistrarProps\<close>); installing and removing an extension changes its own entry of the registry only, a refused
  installation changes nothing, only its own skills are removed and its configuration is kept (\<open>ExtManagerProps\<close>); installing shared files destroys nothing of the user's, even when it fails half way (\<open>SharedProps\<close>).

  \<^bold>\<open>Fuel and recursion.\<close> Of the engine only \<open>exec_steps\<close> has fuel, the nesting of calls still allowed; \<open>execute_steps\<close> gives it the depth of the
  document plus one, and \<open>Recursion\<close> proves that this is enough: the equation of the code holds with no fuel in it. Loops are
  bounded by the code (\<open>max_iterations\<close>, the retries of the service, the refresh attempts). Everything else is structurally
  recursive or has a termination proof. Evaluating an expression recurses on shorter texts. \<open>replace_calls\<close> (\<open>SharedInfra\<close>) gets the
  length of the text as a bound, which suffices as every step takes a character at least. Following links needs none: a link met again is the error
  of a loop. \<open>copytree\<close> (\<open>ExtManager\<close>) follows links and could go down for ever; its bound \<open>me_depth\<close> stands for the longest path of the
  operating system, and reaching it is the \<open>OSError\<close> of a name that is too long.

  \<^bold>\<open>Assumptions.\<close> Requests to the service run one after the other: row locks are taken but never waited for. Numeric columns round to their
  scale or refuse (\<open>numeric_law\<close>). Where the database fails (\<open>db_fails\<close>) and whether beginning a transaction raises (\<open>begin_exn\<close>, told whether
  the session has begun one itself, where SQLAlchemy 2 documents an \<open>InvalidRequestError\<close>) are parameters, on which no property puts
  a condition but that the look-up of a replay or of an account does not fail.
  For the engine, writing in the run directory succeeds, and what the programs that shell, command and prompt steps start do to the disk
  is not part of the world; characters are those of the type \<open>char\<close>, code points below 256; no number is \<open>nan\<close>, which only a YAML document could
  bring in; a state file that \<open>save\<close> did not write is refused at once where it has the wrong types. What
  YAML, processes and integrations do is the environment's, and arbitrary. For the files of a project: paths are those of POSIX, there are no permissions
  and no other process, files are text below code point 256 without a byte-order mark, the order of a directory is that of the tree. The parsers
  and printers of YAML and JSON, the hash, the clock, version ranges and opening a URL are parameters.

  \<^bold>\<open>Not modelled.\<close> In the service: the database engine, the correlation middleware, migrations, spans and log lines, the waits between retries. In the
  engine: the progress callback and console output other than the gate's prompt. Of Spec Kit: the command line (\<open>__init__.py\<close>,
  \<open>commands\<close> and the \<open>_commands\<close> modules: prompts, tables and the order of the calls modelled here), the installation of
  presets, which goes like that of extensions, the catalogs of extensions and presets (copies of the modelled ones), the classes of single agents, which set the
  attributes of the modelled records, and the self-update.
\<close>

end
